(* ===== verification/KMS_Prelude.thy ===== *)
theory KMS_Prelude
  imports Main "HOL-Library.Word"
begin

text \<open>
  The prelude of the development: Go's error values and the result type, the string and
  UTF-8 functions of the Go standard library that the sources call, 64-bit integer
  arithmetic, and the generic lemmas the component theories share.

  A Go \<open>string\<close> and a \<open>[]byte\<close> are byte sequences, and so is an Isabelle \<open>string\<close>
  (a \<open>char\<close> is eight bits).
\<close>

named_theorems go_simps \<open>unfolding rules of the small Go library functions\<close>
named_theorems res_simps \<open>rules that open a sequence of fallible calls\<close>

section \<open>Error values\<close>

text \<open>
  The package-level error variables (\<open>errors.New\<close>) of the modelled packages. Two packages
  declare an \<open>ErrConfigInvalid\<close>; the constructor carries the package. The variables of the packages
  \<open>auth\<close> and \<open>oauth2\<close> form a type of their own, and so do those of the listeners and of the process, with the system error and the
  server errors they test for.
\<close>

datatype auth_sentinel =
    ErrAuthConfig | ErrTokenUnavailable | ErrRefreshSuperseded
  | ErrJWTRead | ErrJWTMalformed | ErrJWTExpired | ErrJWTNearExpiry | ErrJWTNotYetValid | ErrJWTIssuedInFuture
  | ErrJWTIssuerMismatch | ErrJWTAudienceMismatch | ErrJWTSubjectMismatch
  | ErrCertificateRead | ErrCertificateMalformed | ErrCertificateExpired | ErrCertificateNearExpiry
  | ErrCertificateNotYetValid | ErrCertificateWeakSignature | ErrCertificateUsage
  | ErrCertificateIdentityMismatch | ErrCertificateSignerMismatch | ErrCertificateSignerProbe | ErrPKCS11PINRead
  | OAuth2_ErrConfig | OAuth2_ErrCredential | OAuth2_ErrRequest | OAuth2_ErrRejected | OAuth2_ErrUnavailable
  | OAuth2_ErrResponse

datatype process_sentinel =
    Socket_ErrInvalidConfig | ErrUnsafeParent | ErrInvalidSocketTarget | ErrLiveSocketCollision | ErrIndeterminateSocketState
  | Runtime_ErrInvalidConfig | ECONNREFUSED | Grpc_ErrServerStopped | Http_ErrServerClosed

datatype sentinel =
    ErrMalformedKeyID | ErrUnknownKeyID
  | ErrStateNotFound | ErrStateCorrupt | ErrStatePermission | ErrStateRollback | ErrStateLocked
  | ErrInvalidAnnotations | ErrAnnotationMismatch | ErrAADRequired
  | Kmsv2_ErrConfigInvalid | ErrStatusUnavailable | ErrStatusUnhealthy | ErrActiveKeyUnavailable
  | ErrStatusKeyIDMismatch | ErrPlaintextRequired | ErrCiphertextRequired
  | ErrTransitInvalidResponse | ErrRequestLimitExceeded | ErrResponseLimitExceeded
  | ErrConcurrencyLimitExceeded | ErrPanicRecovered | ErrKeyMetadataRefresh
  | Status_ErrConfigInvalid | ErrProbeFailed | ErrCircuitBreakerOpen | ErrStateUnavailable
  | ErrTransitMetadataInvalid | ErrTransitKeyUnusable | ErrVersionRollback
  | ErrAuthentication | ErrResponseTooLarge
  | Context_Canceled | Context_DeadlineExceeded
  | Auth auth_sentinel
  | Process process_sentinel

text \<open>The error classes of \<^verbatim>\<open>internal/openbao/errors.go\<close>.\<close>

datatype ErrorClass =
    ErrorClassInvalidRequest | ErrorClassUnauthenticated | ErrorClassPermissionDenied
  | ErrorClassNotFound | ErrorClassDecryptFailed | ErrorClassRateLimited
  | ErrorClassUnavailable | ErrorClassTLSFailed | ErrorClassDNSFailed
  | ErrorClassConnectionFailed | ErrorClassSealed | ErrorClassUnknown

text \<open>
  An error value is a sentinel, a plain message (\<open>fmt.Errorf\<close> without \<open>%w\<close>), a message that
  wraps other errors (\<open>fmt.Errorf\<close> with one or more \<open>%w\<close> verbs), an OpenBao API error
  (class, HTTP status, operation), an authentication error (its cause), a Transit failure marker of the KMS server, a probe error
  of the status controller (its reason and its cause), or a gRPC status error (code, message).
\<close>

datatype go_error =
    Sentinel sentinel
  | Msg string
  | Wrap string "go_error list"
  | ApiError ErrorClass int string
  | AuthError go_error
  | TransitFailure go_error
  | ProbeError string go_error
  | GrpcStatus nat string

text \<open>
  \<open>errors.Is\<close> against a sentinel: it searches the tree of wrapped errors. An \<open>authError\<close> also
  reports itself as \<open>ErrAuthentication\<close>.
\<close>

fun errors_is :: "go_error \<Rightarrow> sentinel \<Rightarrow> bool" where
  "errors_is (Sentinel t) s = (t = s)"
| "errors_is (Msg m) s = False"
| "errors_is (Wrap m es) s = list_ex (\<lambda>e. errors_is e s) es"
| "errors_is (ApiError c n p) s = False"
| "errors_is (AuthError e) s = (s = ErrAuthentication \<or> errors_is e s)"
| "errors_is (TransitFailure e) s = errors_is e s"
| "errors_is (ProbeError r e) s = errors_is e s"
| "errors_is (GrpcStatus c m) s = False"

abbreviation errw :: "sentinel \<Rightarrow> string \<Rightarrow> go_error" where
  "errw s m \<equiv> Wrap m [Sentinel s]"

text \<open>What an operation sees of a \<open>context.Context\<close>: nil, not done, or done with its error.\<close>

datatype go_context = NilContext | LiveContext | DoneContext go_error

section \<open>Results\<close>

text \<open>A fallible Go function returns \<open>Inl\<close> of its error or \<open>Inr\<close> of its value.\<close>

type_synonym 'a res = "go_error + 'a"

definition bindE :: "'e + 'a \<Rightarrow> ('a \<Rightarrow> 'e + 'b) \<Rightarrow> 'e + 'b" where
  "bindE m f = (case m of Inl e \<Rightarrow> Inl e | Inr x \<Rightarrow> f x)"

text \<open>\<open>failIf c e\<close> is the statement \<open>if c { return err }\<close>.\<close>

definition failIf :: "bool \<Rightarrow> 'e \<Rightarrow> 'e + unit" where
  "failIf c e = (if c then Inl e else Inr ())"

text \<open>A loop over a slice that stops at the first error and collects the results.\<close>

fun mapE :: "('a \<Rightarrow> 'e + 'b) \<Rightarrow> 'a list \<Rightarrow> 'e + 'b list" where
  "mapE f [] = Inr []"
| "mapE f (x # xs) = bindE (f x) (\<lambda>y. bindE (mapE f xs) (\<lambda>ys. Inr (y # ys)))"

text \<open>A loop over a slice that only checks.\<close>

fun forE :: "('a \<Rightarrow> 'e + unit) \<Rightarrow> 'a list \<Rightarrow> 'e + unit" where
  "forE f [] = Inr ()"
| "forE f (x # xs) = bindE (f x) (\<lambda>_. forE f xs)"

lemma bindE_Inl [simp]: "bindE (Inl e) f = Inl e"
  by (simp add: bindE_def)

lemma bindE_Inr [simp]: "bindE (Inr x) f = f x"
  by (simp add: bindE_def)

lemma bindE_eq_Inr [simp, res_simps]: "bindE m f = Inr y \<longleftrightarrow> (\<exists>x. m = Inr x \<and> f x = Inr y)"
  by (cases m) (auto simp: bindE_def)

lemma bindE_eq_Inl [res_simps]:
  "bindE m f = Inl e \<longleftrightarrow> m = Inl e \<or> (\<exists>x. m = Inr x \<and> f x = Inl e)"
  by (cases m) (auto simp: bindE_def)

lemma bindE_cong [fundef_cong]:
  "m = m' \<Longrightarrow> (\<And>x. m' = Inr x \<Longrightarrow> f x = f' x) \<Longrightarrow> bindE m f = bindE m' f'"
  by (cases m') (auto simp: bindE_def)

lemma failIf_eq_Inr [simp, res_simps]: "failIf c e = Inr u \<longleftrightarrow> \<not> c"
  by (simp add: failIf_def)

lemma failIf_eq_Inl [simp, res_simps]: "failIf c e = Inl e' \<longleftrightarrow> c \<and> e' = e"
  by (auto simp: failIf_def)

lemma failIf_True [simp]: "failIf True e = Inl e" and failIf_False [simp]: "failIf False e = Inr ()"
  by (simp_all add: failIf_def)

lemma forE_eq_Inr [simp, res_simps]: "forE f xs = Inr u \<longleftrightarrow> (\<forall>x\<in>set xs. f x = Inr ())"
  by (induction xs) auto

lemma mapE_eq_Inr: "mapE f xs = Inr ys \<longleftrightarrow> list_all2 (\<lambda>x y. f x = Inr y) xs ys"
  by (induction xs arbitrary: ys) (auto simp: list_all2_Cons1)

lemma mapE_length: "mapE f xs = Inr ys \<Longrightarrow> length ys = length xs"
  by (simp add: mapE_eq_Inr list_all2_lengthD)

lemma mapE_Inr_map: "(\<And>x. x \<in> set xs \<Longrightarrow> f x = Inr (g x)) \<Longrightarrow> mapE f xs = Inr (map g xs)"
  by (induction xs) auto

section \<open>64-bit integers\<close>

text \<open>
  \<open>int\<close>, \<open>int64\<close> and \<open>time.Duration\<close> values are integers; \<open>i64\<close> is the wrap-around of one
  arithmetic operation on them. \<open>uint64\<close> values are 64-bit words.
\<close>

definition i64 :: "int \<Rightarrow> int" where
  "i64 x = (x + 2 ^ 63) mod 2 ^ 64 - 2 ^ 63"

definition in_i64 :: "int \<Rightarrow> bool" where
  "in_i64 x \<longleftrightarrow> - (2 ^ 63) \<le> x \<and> x < 2 ^ 63"

lemma i64_id [simp]: "in_i64 x \<Longrightarrow> i64 x = x"
  by (simp add: i64_def in_i64_def)

lemma i64_range: "in_i64 (i64 x)"
  by (simp add: i64_def in_i64_def)

type_synonym u64 = "64 word"

lemma unat_succ: "(x::u64) < x + 1 \<Longrightarrow> unat (x + 1) = unat x + 1"
proof -
  assume "x < x + 1"
  moreover have "unat (x + 1) = (unat x + 1) mod 2 ^ 64" by (simp add: unat_word_ariths)
  moreover have "unat x < 2 ^ 64" using unsigned_less [of x] by simp
  ultimately show ?thesis by (cases "unat x + 1 = 2 ^ 64") (auto simp: word_less_nat_alt)
qed

lemma unat_succ_nonzero: "(x::u64) + 1 \<noteq> 0 \<Longrightarrow> unat (x + 1) = unat x + 1"
proof -
  assume "x + 1 \<noteq> 0"
  then have "unat (x + 1) \<noteq> 0" by (simp add: unat_eq_0)
  moreover have "unat (x + 1) = (unat x + 1) mod 2 ^ 64" by (simp add: unat_word_ariths)
  moreover have "unat x < 2 ^ 64" using unsigned_less [of x] by simp
  ultimately show ?thesis by (cases "unat x + 1 = 2 ^ 64") auto
qed

section \<open>String functions\<close>

definition HasPrefix :: "string \<Rightarrow> string \<Rightarrow> bool" where
  "HasPrefix s p = (take (length p) s = p)"

definition HasSuffix :: "string \<Rightarrow> string \<Rightarrow> bool" where
  "HasSuffix s p = (length p \<le> length s \<and> drop (length s - length p) s = p)"

definition TrimPrefix :: "string \<Rightarrow> string \<Rightarrow> string" where
  "TrimPrefix s p = (if HasPrefix s p then drop (length p) s else s)"

fun Contains :: "string \<Rightarrow> string \<Rightarrow> bool" where
  "Contains [] p = HasPrefix [] p"
| "Contains (c # s) p = (HasPrefix (c # s) p \<or> Contains s p)"

text \<open>\<open>strings.ContainsAny\<close> with a set of ASCII characters.\<close>

definition ContainsAny :: "string \<Rightarrow> string \<Rightarrow> bool" where
  "ContainsAny s chars = list_ex (\<lambda>c. c \<in> set chars) s"

text \<open>\<open>strings.Split\<close> with a separator of one character.\<close>

fun split_on :: "char \<Rightarrow> string \<Rightarrow> string list" where
  "split_on c [] = [[]]"
| "split_on c (x # xs) =
     (if x = c then [] # split_on c xs
      else (case split_on c xs of [] \<Rightarrow> [[x]] | y # ys \<Rightarrow> (x # y) # ys))"

lemma HasPrefix_append [simp]: "HasPrefix (p @ s) p"
  by (simp add: HasPrefix_def)

lemma HasPrefix_iff: "HasPrefix s p \<longleftrightarrow> (\<exists>t. s = p @ t)"
  by (metis HasPrefix_append HasPrefix_def append_take_drop_id)

lemma TrimPrefix_append [simp]: "TrimPrefix (p @ s) p = s"
  by (simp add: TrimPrefix_def)

lemma split_on_not_Nil [simp]: "split_on c s \<noteq> []"
  by (induction s) (auto split: list.splits)

lemma split_on_no_sep: "c \<notin> set s \<Longrightarrow> split_on c s = [s]"
  by (induction s) auto

section \<open>UTF-8\<close>

abbreviation byte_val :: "char \<Rightarrow> nat" where
  "byte_val c \<equiv> of_char c"

definition RuneError :: nat where "RuneError = 65533"

definition cont_byte :: "nat \<Rightarrow> nat \<Rightarrow> char \<Rightarrow> bool" where
  "cont_byte lo hi c \<longleftrightarrow> lo \<le> byte_val c \<and> byte_val c \<le> hi"

text \<open>\<open>utf8.DecodeRuneInString\<close>: the first rune of a string and its width in bytes.\<close>

fun decode_rune :: "string \<Rightarrow> nat \<times> nat" where
  "decode_rune [] = (RuneError, 0)"
| "decode_rune (c # s) =
    (let b = byte_val c in
     if b < 128 then (b, 1)
     else if b < 194 \<or> 244 < b then (RuneError, 1)
     else if b < 224 then
       (case s of
          c1 # _ \<Rightarrow> if cont_byte 128 191 c1
                     then ((b - 192) * 64 + (byte_val c1 - 128), 2) else (RuneError, 1)
        | _ \<Rightarrow> (RuneError, 1))
     else if b < 240 then
       (case s of
          c1 # c2 # _ \<Rightarrow>
            if cont_byte (if b = 224 then 160 else 128) (if b = 237 then 159 else 191) c1
               \<and> cont_byte 128 191 c2
            then ((b - 224) * 4096 + (byte_val c1 - 128) * 64 + (byte_val c2 - 128), 3)
            else (RuneError, 1)
        | _ \<Rightarrow> (RuneError, 1))
     else
       (case s of
          c1 # c2 # c3 # _ \<Rightarrow>
            if cont_byte (if b = 240 then 144 else 128) (if b = 244 then 143 else 191) c1
               \<and> cont_byte 128 191 c2 \<and> cont_byte 128 191 c3
            then ((b - 240) * 262144 + (byte_val c1 - 128) * 4096
                    + (byte_val c2 - 128) * 64 + (byte_val c3 - 128), 4)
            else (RuneError, 1)
        | _ \<Rightarrow> (RuneError, 1)))"

lemma decode_rune_width: "s \<noteq> [] \<Longrightarrow> 1 \<le> snd (decode_rune s) \<and> snd (decode_rune s) \<le> length s"
  by (cases s) (auto simp: Let_def split: list.splits)

lemma decode_rune_ascii: "byte_val c < 128 \<Longrightarrow> decode_rune (c # s) = (byte_val c, 1)"
  by simp

lemma decode_rune_non_ascii:
  assumes "128 \<le> byte_val c"
  shows "128 \<le> fst (decode_rune (c # s))"
proof -
  let ?b = "byte_val c"
  consider "?b < 194 \<or> 244 < ?b" | "194 \<le> ?b" "?b < 224"
    | "224 \<le> ?b" "?b < 240" | "240 \<le> ?b" "?b \<le> 244"
    by linarith
  then show ?thesis
  proof cases
    case 1
    with assms show ?thesis by (simp add: Let_def RuneError_def)
  next
    case 2
    then have "128 \<le> (?b - 192) * 64" by simp
    with 2 show ?thesis
      by (auto simp: Let_def RuneError_def intro: trans_le_add1 split: list.split)
  next
    case 3
    show ?thesis
    proof (cases "?b = 224")
      case True
      then show ?thesis
        by (auto simp: Let_def RuneError_def cont_byte_def split: list.split)
    next
      case False
      with 3 have "4096 \<le> (?b - 224) * 4096" by simp
      with 3 False show ?thesis
        by (simp add: Let_def RuneError_def split: list.split)
    qed
  next
    case 4
    show ?thesis
    proof (cases "?b = 240")
      case True
      then show ?thesis
        by (auto simp: Let_def RuneError_def cont_byte_def split: list.split)
    next
      case False
      with 4 have "262144 \<le> (?b - 240) * 262144" by simp
      with 4 False show ?thesis
        by (simp add: Let_def RuneError_def split: list.split)
    qed
  qed
qed

declare decode_rune.simps(2) [simp del]

text \<open>The runes of a string, with their widths, as a \<open>for range\<close> loop visits them.\<close>

function runes :: "string \<Rightarrow> (nat \<times> nat) list" where
  "runes s = (if s = [] then [] else decode_rune s # runes (drop (snd (decode_rune s)) s))"
  by pat_completeness auto
termination
proof (relation "measure length", simp)
  fix s :: string
  assume "s \<noteq> []"
  with decode_rune_width [of s] show "(drop (snd (decode_rune s)) s, s) \<in> measure length"
    by simp
qed

declare runes.simps [simp del]

lemma runes_Nil [simp]: "runes [] = []"
  by (simp add: runes.simps)

lemma runes_ascii_Cons: "byte_val c < 128 \<Longrightarrow> runes (c # s) = (byte_val c, 1) # runes s"
  by (subst runes.simps) (simp add: decode_rune_ascii)

text \<open>\<open>utf8.ValidString\<close>: no byte decodes to the replacement rune with width one.\<close>

definition utf8_valid :: "string \<Rightarrow> bool" where
  "utf8_valid s = list_all (\<lambda>r. r \<noteq> (RuneError, 1)) (runes s)"

lemma utf8_valid_ascii: "list_all (\<lambda>c. byte_val c < 128) s \<Longrightarrow> utf8_valid s"
  by (induction s) (auto simp: utf8_valid_def runes_ascii_Cons RuneError_def)

text \<open>\<open>utf8.DecodeLastRuneInString\<close>.\<close>

definition rune_start :: "char \<Rightarrow> bool" where
  "rune_start c = (byte_val c < 128 \<or> 192 \<le> byte_val c)"

definition decode_last_rune :: "string \<Rightarrow> nat \<times> nat" where
  "decode_last_rune s =
    (if s = [] then (RuneError, 0)
     else if byte_val (last s) < 128 then (byte_val (last s), 1)
     else
       (let n = length s;
            lim = n - 4;
            start = (case find (\<lambda>i. rune_start (s ! i)) (rev [lim..<n - 1])
                     of Some i \<Rightarrow> i | None \<Rightarrow> lim - 1);
            (r, size) = decode_rune (drop start s)
        in if start + size = n then (r, size) else (RuneError, 1)))"

text \<open>\<open>unicode.IsSpace\<close>.\<close>

definition is_space :: "nat \<Rightarrow> bool" where
  "is_space r \<longleftrightarrow>
     r \<in> {9, 10, 11, 12, 13, 32, 133, 160, 5760, 8232, 8233, 8239, 8287, 12288}
     \<or> (8192 \<le> r \<and> r \<le> 8202)"

function trim_left :: "string \<Rightarrow> string" where
  "trim_left s =
    (if s \<noteq> [] \<and> is_space (fst (decode_rune s)) then trim_left (drop (snd (decode_rune s)) s) else s)"
  by pat_completeness auto
termination
proof (relation "measure length", simp)
  fix s :: string
  assume "s \<noteq> [] \<and> is_space (fst (decode_rune s))"
  with decode_rune_width [of s] show "(drop (snd (decode_rune s)) s, s) \<in> measure length"
    by simp
qed

function trim_right :: "string \<Rightarrow> string" where
  "trim_right s =
    (if s \<noteq> [] \<and> is_space (fst (decode_last_rune s))
     then trim_right (take (length s - max 1 (snd (decode_last_rune s))) s) else s)"
  by pat_completeness auto
termination
  by (relation "measure length") auto

declare trim_left.simps [simp del] and trim_right.simps [simp del]

text \<open>\<open>strings.ContainsFunc\<close>, \<open>unicode.IsControl\<close>, and the text before and after the last occurrence of a byte.\<close>

definition ContainsFunc :: "string \<Rightarrow> (nat \<Rightarrow> bool) \<Rightarrow> bool" where
  "ContainsFunc s f = list_ex (\<lambda>(r, _). f r) (runes s)"

definition IsControl :: "nat \<Rightarrow> bool" where
  "IsControl r \<longleftrightarrow> r < 32 \<or> 127 \<le> r \<and> r < 160"

definition cut_last :: "char \<Rightarrow> string \<Rightarrow> (string \<times> string) option" where
  "cut_last c s =
    (if c \<notin> set s then None
     else let after = rev (takeWhile (\<lambda>x. x \<noteq> c) (rev s)) in Some (take (length s - Suc (length after)) s, after))"

text \<open>\<open>strings.TrimSpace\<close>.\<close>

definition TrimSpace :: "string \<Rightarrow> string" where
  "TrimSpace s = trim_right (trim_left s)"

section \<open>Time\<close>

text \<open>
  A \<open>time.Time\<close> is the number of nanoseconds since Go's zero time (1 January of year 1, UTC),
  so that \<open>IsZero\<close> is a comparison with \<open>0\<close>. Locations do not matter: every value the modelled
  code compares has gone through \<open>UTC\<close>.
\<close>

type_synonym go_time = int

definition unixToInternal :: int where "unixToInternal = 62135596800"

definition zero_time :: go_time where "zero_time = 0"

definition IsZero :: "go_time \<Rightarrow> bool" where
  "IsZero t \<longleftrightarrow> t = zero_time"

text \<open>\<open>time.Unix(sec, 0)\<close> and \<open>Time.Unix\<close> (which rounds down to a second).\<close>

definition time_Unix :: "int \<Rightarrow> go_time" where
  "time_Unix sec = (sec + unixToInternal) * 1000000000"

definition Unix :: "go_time \<Rightarrow> int" where
  "Unix t = t div 1000000000 - unixToInternal"

lemma Unix_time_Unix [simp]: "Unix (time_Unix sec) = sec"
  by (simp add: Unix_def time_Unix_def)

lemma IsZero_time_Unix [simp]: "0 \<le> sec \<Longrightarrow> \<not> IsZero (time_Unix sec)"
  by (simp add: IsZero_def time_Unix_def zero_time_def unixToInternal_def)

lemma Unix_zero_time [simp]: "Unix zero_time = - unixToInternal"
  by (simp add: Unix_def zero_time_def)

lemma time_Unix_inj [simp]: "time_Unix a = time_Unix b \<longleftrightarrow> a = b"
  by (simp add: time_Unix_def)

section \<open>Separated parts\<close>

text \<open>Parts that do not contain the separator can be read back from their terminated concatenation.\<close>

lemma split_on_terminated: "c \<notin> set p \<Longrightarrow> split_on c (p @ c # s) = p # split_on c s"
  by (induction p) auto

lemma split_on_parts:
  "list_all (\<lambda>p. c \<notin> set p) ps \<Longrightarrow> split_on c (concat (map (\<lambda>p. p @ [c]) ps)) = ps @ [[]]"
  by (induction ps) (auto simp: split_on_terminated)

lemma terminated_parts_inj:
  fixes c :: char
  assumes "list_all (\<lambda>p. c \<notin> set p) ps" and "list_all (\<lambda>p. c \<notin> set p) qs"
    and "concat (map (\<lambda>p. p @ [c]) ps) = concat (map (\<lambda>p. p @ [c]) qs)"
  shows "ps = qs"
proof -
  have "ps @ [[]] = qs @ [[]]"
    by (metis assms split_on_parts)
  then show ?thesis by simp
qed

end
