(* ===== verification/Clock.thy ===== *)
theory Clock
  imports KMS_Prelude
begin

text \<open>
  Wall and elapsed time (\<^verbatim>\<open>internal/clock/clock.go\<close>): paired readings, process-local deadlines
  and lifetimes. A \<open>time.Duration\<close> is a 64-bit count of nanoseconds, so its arithmetic wraps;
  \<open>Time.Sub\<close> saturates. \<open>Real.Read\<close> samples the operating system's clocks; readings are
  arguments of the operations.
\<close>

record Reading =
  Wall :: go_time
  Elapsed :: int

definition min_duration :: int where "min_duration = - (2 ^ 63)"
definition max_duration :: int where "max_duration = 2 ^ 63 - 1"

text \<open>\<open>Time.Sub\<close> on wall clock times.\<close>

definition time_Sub :: "go_time \<Rightarrow> go_time \<Rightarrow> int" where
  "time_Sub t u = max min_duration (min max_duration (t - u))"

record Deadline =
  d_at :: int
  d_set :: bool

definition no_deadline :: Deadline where
  "no_deadline = \<lparr>d_at = 0, d_set = False\<rparr>"

definition clock_After :: "Reading \<Rightarrow> int \<Rightarrow> Deadline" where
  "clock_After now delay = \<lparr>d_at = i64 (Elapsed now + delay), d_set = True\<rparr>"

definition Pending :: "Deadline \<Rightarrow> Reading \<Rightarrow> bool" where
  "Pending d now \<longleftrightarrow> d_set d \<and> Elapsed now < d_at d"

definition WallTime :: "Deadline \<Rightarrow> Reading \<Rightarrow> go_time" where
  "WallTime d now = (if \<not> d_set d then zero_time else Wall now + i64 (d_at d - Elapsed now))"

record Lifetime =
  l_start :: Reading
  l_age :: int
  l_limit :: int
  l_set :: bool

definition unset_lifetime :: Lifetime where
  "unset_lifetime = \<lparr>l_start = \<lparr>Wall = zero_time, Elapsed = 0\<rparr>, l_age = 0, l_limit = 0, l_set = False\<rparr>"

definition NewLifetime :: "Reading \<Rightarrow> int \<Rightarrow> Lifetime" where
  "NewLifetime start limit = \<lparr>l_start = start, l_age = 0, l_limit = limit, l_set = True\<rparr>"

text \<open>\<open>Age\<close> has a pointer receiver: the result is the age and the updated lifetime.\<close>

definition Age :: "Lifetime \<Rightarrow> Reading \<Rightarrow> int \<times> Lifetime" where
  "Age l now =
    (if \<not> l_set l then (0, l)
     else let age = max (l_age l) (max (i64 (Elapsed now - Elapsed (l_start l)))
                                      (time_Sub (Wall now) (Wall (l_start l))))
          in (age, l\<lparr>l_age := age\<rparr>))"

definition Remaining :: "Lifetime \<Rightarrow> Reading \<Rightarrow> int \<times> Lifetime" where
  "Remaining l now =
    (if \<not> l_set l then (0, l)
     else let (age, l) = Age l now in (i64 (l_limit l - age), l))"

definition IsSet :: "Lifetime \<Rightarrow> bool" where "IsSet l = l_set l"

section \<open>Lifetimes\<close>

text \<open>What a lifetime keeps: a nonnegative age within the range of a duration.\<close>

definition lifetime_wf :: "Lifetime \<Rightarrow> bool" where
  "lifetime_wf l \<longleftrightarrow> 0 \<le> l_age l \<and> l_age l \<le> max_duration \<and> 0 \<le> l_limit l \<and> l_limit l \<le> max_duration"

lemma time_Sub_range: "in_i64 (time_Sub t u)"
  by (simp add: time_Sub_def in_i64_def min_duration_def max_duration_def)

lemma Age_wf: "lifetime_wf l \<Longrightarrow> lifetime_wf (snd (Age l now))"
  using i64_range [of "Elapsed now - Elapsed (l_start l)"] time_Sub_range [of "Wall now" "Wall (l_start l)"]
  by (auto simp: Age_def lifetime_wf_def Let_def in_i64_def max_duration_def)

lemma Age_snd: "l_set l \<Longrightarrow> fst (Age l now) = l_age (snd (Age l now))"
  by (simp add: Age_def Let_def)

lemma Age_keeps [simp]:
  "l_set (snd (Age l now)) = l_set l" "l_limit (snd (Age l now)) = l_limit l" "l_start (snd (Age l now)) = l_start l"
  by (simp_all add: Age_def Let_def)

lemma Age_ge: "l_set l \<Longrightarrow> l_age l \<le> fst (Age l now)"
  "l_set l \<Longrightarrow> i64 (Elapsed now - Elapsed (l_start l)) \<le> fst (Age l now)"
  "l_set l \<Longrightarrow> time_Sub (Wall now) (Wall (l_start l)) \<le> fst (Age l now)"
  by (simp_all add: Age_def Let_def)

text \<open>A lifetime after a sequence of readings.\<close>

definition aged :: "Lifetime \<Rightarrow> Reading list \<Rightarrow> Lifetime" where
  "aged l rs = foldl (\<lambda>l now. snd (Age l now)) l rs"

lemma aged_keeps [simp]:
  "l_set (aged l rs) = l_set l" "l_limit (aged l rs) = l_limit l" "l_start (aged l rs) = l_start l"
  by (induction rs rule: rev_induct) (simp_all add: aged_def)

lemma aged_wf: "lifetime_wf l \<Longrightarrow> lifetime_wf (aged l rs)"
  by (induction rs rule: rev_induct) (simp_all add: aged_def Age_wf)

lemma aged_mono: "l_set l \<Longrightarrow> l_age l \<le> l_age (aged l rs)"
proof (induction rs rule: rev_induct)
  case (snoc r rs)
  then have "l_age (aged l rs) \<le> l_age (snd (Age (aged l rs) r))"
    using Age_ge(1) [of "aged l rs" r] Age_snd [of "aged l rs" r] by simp
  with snoc show ?case by (simp add: aged_def)
qed (simp add: aged_def)

lemma Remaining_eq:
  "l_set l \<Longrightarrow> lifetime_wf l \<Longrightarrow> fst (Remaining l now) = l_limit l - fst (Age l now)"
  using Age_wf [of l now] Age_snd [of l now]
  by (auto simp: Remaining_def lifetime_wf_def case_prod_beta max_duration_def in_i64_def intro!: i64_id)

lemma NewLifetime_wf: "0 \<le> d \<Longrightarrow> d \<le> max_duration \<Longrightarrow> lifetime_wf (NewLifetime r d)"
  by (simp add: lifetime_wf_def NewLifetime_def max_duration_def)

section \<open>Main results\<close>

text \<open>
  Evidence never gets younger: whatever the clocks report in between (including wall clock
  corrections and elapsed time going backwards), a later call of \<open>Remaining\<close> never returns more
  than an earlier one, and never more than the limit less the time that either clock has
  advanced since the start.
\<close>

lemma Remaining_antimono:
  assumes "0 \<le> limit" and "limit \<le> max_duration"
    and "l = aged (NewLifetime start limit) earlier"
  shows "fst (Remaining (aged (snd (Remaining l r1)) between) r2) \<le> fst (Remaining l r1)
    \<and> fst (Remaining l r1) \<le> limit - i64 (Elapsed r1 - Elapsed start)
    \<and> fst (Remaining l r1) \<le> limit - time_Sub (Wall r1) (Wall start)
    \<and> fst (Remaining l r1) \<le> limit"
proof -
  have l: "l_set l" "lifetime_wf l" "l_limit l = limit" "l_start l = start"
    using aged_wf [OF NewLifetime_wf [OF assms(1,2)]] by (simp_all add: assms(3)) (simp_all add: NewLifetime_def)
  have r1: "snd (Remaining l r1) = snd (Age l r1)" by (simp add: Remaining_def case_prod_beta) (simp add: Age_def)
  let ?m = "aged (snd (Age l r1)) between"
  have m: "l_set ?m" "lifetime_wf ?m" "l_limit ?m = limit"
    using l Age_wf [of l r1] aged_wf by simp_all
  have "fst (Age l r1) \<le> fst (Age ?m r2)"
    using aged_mono [of "snd (Age l r1)" between] Age_ge(1) [OF m(1), of r2] Age_snd [of l r1] l(1) by simp
  then have "fst (Remaining ?m r2) \<le> fst (Remaining l r1)"
    using Remaining_eq [OF m(1,2)] Remaining_eq [OF l(1,2)] m(3) l(3) by simp
  moreover have "0 \<le> fst (Age l r1)" using Age_ge(1) [OF l(1), of r1] l(2) by (simp add: lifetime_wf_def)
  ultimately show ?thesis
    using Age_ge(2,3) [OF l(1), of r1] Remaining_eq [OF l(1,2), of r1] l(3,4) r1 by simp
qed

text \<open>
  A deadline set \<open>delay\<close> ahead is pending exactly while less than \<open>delay\<close> has elapsed, as long as
  the deadline itself does not leave the range of a duration; it does not depend on the wall clock.
\<close>

lemma deadline_pending:
  assumes "in_i64 (Elapsed start + delay)"
  shows "Pending (clock_After start delay) now \<longleftrightarrow> Elapsed now - Elapsed start < delay"
  using assms by (auto simp: Pending_def clock_After_def)

end
