(* ===== verification/Go_Encoding.thy ===== *)
theory Go_Encoding
  imports KMS_Prelude
begin

text \<open>
  The parts of the Go standard library that the key registry and the associated data depend
  on byte for byte: decimal conversion (\<open>strconv\<close>), base64 (\<open>encoding/base64\<close>), SHA-256
  (\<open>crypto/sha256\<close>) and JSON string encoding (\<open>encoding/json\<close>). All of it is executable;
  the lemmas are the facts the components rely on: lengths, alphabets and round trips.
\<close>

unbundle bit_operations_syntax

section \<open>Decimal numbers\<close>

fun digits :: "nat \<Rightarrow> string" where
  "digits n = (if n < 10 then [char_of (48 + n)] else digits (n div 10) @ [char_of (48 + n mod 10)])"

declare digits.simps [simp del]

text \<open>\<open>strconv.Itoa\<close> and \<open>strconv.FormatInt\<close> in base ten.\<close>

definition Itoa :: "int \<Rightarrow> string" where
  "Itoa n = (if n < 0 then CHR ''-'' # digits (nat (- n)) else digits (nat n))"

definition is_digit :: "char \<Rightarrow> bool" where
  "is_digit c \<longleftrightarrow> 48 \<le> byte_val c \<and> byte_val c \<le> 57"

definition digit_val :: "char \<Rightarrow> nat" where
  "digit_val c = byte_val c - 48"

definition parse_digits :: "string \<Rightarrow> nat option" where
  "parse_digits s =
    (if s = [] \<or> \<not> list_all is_digit s then None
     else Some (foldl (\<lambda>n c. 10 * n + digit_val c) 0 s))"

text \<open>\<open>strconv.Atoi\<close>: an optional sign, decimal digits, and the range of \<open>int\<close>.\<close>

definition Atoi :: "string \<Rightarrow> int option" where
  "Atoi s =
    (let (neg, body) = (case s of
           c # t \<Rightarrow> if c = CHR ''-'' then (True, t) else if c = CHR ''+'' then (False, t) else (False, s)
         | [] \<Rightarrow> (False, []))
     in case parse_digits body of
          None \<Rightarrow> None
        | Some n \<Rightarrow> (let v = (if neg then - int n else int n) in if in_i64 v then Some v else None))"

lemma digits_not_Nil [simp]: "digits n \<noteq> []"
  by (subst digits.simps) simp

lemma is_digit_char_of: "(d :: nat) < 10 \<Longrightarrow> is_digit (char_of (48 + d))"
  by (simp add: is_digit_def)

lemma digit_val_char_of: "(d :: nat) < 10 \<Longrightarrow> digit_val (char_of (48 + d)) = d"
  by (simp add: digit_val_def)

lemma digits_all_digit [simp]: "list_all is_digit (digits n)"
proof (induction n rule: digits.induct)
  case (1 n)
  then show ?case
    by (cases "n < 10") (simp_all add: digits.simps [of n] is_digit_char_of)
qed

lemma digits_value: "foldl (\<lambda>n c. 10 * n + digit_val c) 0 (digits n) = n"
proof (induction n rule: digits.induct)
  case (1 n)
  then show ?case
    by (cases "n < 10") (simp_all add: digits.simps [of n] digit_val_char_of)
qed

lemma parse_digits_digits [simp]: "parse_digits (digits n) = Some n"
  by (simp add: parse_digits_def digits_value)

lemma hd_digits_is_digit: "is_digit (hd (digits n))"
  using digits_all_digit [of n] by (cases "digits n") auto

text \<open>\<open>Atoi\<close> reads back what \<open>Itoa\<close> prints.\<close>

lemma Atoi_Itoa [simp]:
  assumes "in_i64 v"
  shows "Atoi (Itoa v) = Some v"
proof (cases "v < 0")
  case True
  with assms show ?thesis by (simp add: Atoi_def Itoa_def)
next
  case False
  obtain c t where ct: "digits (nat v) = c # t"
    by (cases "digits (nat v)") auto
  have "is_digit c"
    using hd_digits_is_digit [of "nat v"] ct by simp
  then have "c \<noteq> CHR ''-''" and "c \<noteq> CHR ''+''"
    by (auto simp: is_digit_def)
  with False assms ct show ?thesis
    using parse_digits_digits [of "nat v"] by (simp add: Atoi_def Itoa_def)
qed

lemma digits_inj: "digits a = digits b \<Longrightarrow> a = b"
  by (metis option.inject parse_digits_digits)

lemma digits_no_sign [simp]: "CHR ''-'' # t \<noteq> digits n"
proof
  assume "CHR ''-'' # t = digits n"
  then have "is_digit (CHR ''-'')"
    using hd_digits_is_digit [of n] by (metis list.sel(1))
  then show False by (simp add: is_digit_def)
qed

lemmas digits_no_sign_sym [simp] = digits_no_sign [symmetric]

lemma Itoa_inj: "Itoa a = Itoa b \<Longrightarrow> a = b"
  by (auto simp: Itoa_def dest: digits_inj split: if_splits)

lemma Itoa_pos_digits: "0 \<le> v \<Longrightarrow> list_all is_digit (Itoa v)"
  by (simp add: Itoa_def)

lemma Itoa_not_Nil [simp]: "Itoa v \<noteq> []"
  by (simp add: Itoa_def)

lemma Itoa_chars: "c \<in> set (Itoa v) \<Longrightarrow> c = CHR ''-'' \<or> is_digit c"
  using digits_all_digit by (auto simp: Itoa_def list_all_iff split: if_splits)

section \<open>Base64\<close>

text \<open>The standard and the URL-safe alphabet differ in the last two characters.\<close>

definition b64_std :: string where
  "b64_std = ''ABCDEFGHIJKLMNOPQRSTUVWXYZabcdefghijklmnopqrstuvwxyz0123456789+/''"

definition b64_url :: string where
  "b64_url = ''ABCDEFGHIJKLMNOPQRSTUVWXYZabcdefghijklmnopqrstuvwxyz0123456789-_''"

fun index_of :: "char \<Rightarrow> string \<Rightarrow> nat option" where
  "index_of c [] = None"
| "index_of c (x # xs) = (if x = c then Some 0 else map_option Suc (index_of c xs))"

text \<open>
  \<open>EncodeToString\<close>: three bytes give four characters; a rest of one or two bytes gives two or
  three characters, filled up with \<open>=\<close> in the padded encoding.
\<close>

fun b64_encode :: "string \<Rightarrow> bool \<Rightarrow> string \<Rightarrow> string" where
  "b64_encode al pad [] = []"
| "b64_encode al pad [a] =
    (let x = byte_val a in
     [al ! (x div 4), al ! ((x mod 4) * 16)] @ (if pad then ''=='' else []))"
| "b64_encode al pad [a, b] =
    (let x = byte_val a; y = byte_val b in
     [al ! (x div 4), al ! ((x mod 4) * 16 + y div 16), al ! ((y mod 16) * 4)]
       @ (if pad then ''='' else []))"
| "b64_encode al pad (a # b # c # rest) =
    (let x = byte_val a; y = byte_val b; z = byte_val c in
     [al ! (x div 4), al ! ((x mod 4) * 16 + y div 16), al ! ((y mod 16) * 4 + z div 64),
      al ! (z mod 64)] @ b64_encode al pad rest)"

text \<open>
  \<open>DecodeString\<close> on the characters left after \<open>\r\<close> and \<open>\n\<close> are dropped (the Go decoder skips
  them everywhere). In the unpadded encodings \<open>=\<close> is an ordinary invalid character. \<open>Strict\<close>
  also rejects non-zero trailing bits.
\<close>

definition byte_of :: "nat \<Rightarrow> char" where
  "byte_of n = char_of n"

fun b64_groups :: "string \<Rightarrow> bool \<Rightarrow> bool \<Rightarrow> string \<Rightarrow> string option" where
  "b64_groups al pad strict [] = Some []"
| "b64_groups al pad strict [a] = None"
| "b64_groups al pad strict [a, b] =
    (if pad then None else
     case (index_of a al, index_of b al) of
       (Some i, Some j) \<Rightarrow>
         if strict \<and> j mod 16 \<noteq> 0 then None else Some [byte_of (i * 4 + j div 16)]
     | _ \<Rightarrow> None)"
| "b64_groups al pad strict [a, b, c] =
    (if pad then None else
     case (index_of a al, index_of b al, index_of c al) of
       (Some i, Some j, Some k) \<Rightarrow>
         if strict \<and> k mod 4 \<noteq> 0 then None
         else Some [byte_of (i * 4 + j div 16), byte_of ((j mod 16) * 16 + k div 4)]
     | _ \<Rightarrow> None)"
| "b64_groups al pad strict (a # b # c # d # rest) =
    (if pad \<and> c = CHR ''='' \<and> d = CHR ''='' \<and> rest = [] then
       (case (index_of a al, index_of b al) of
          (Some i, Some j) \<Rightarrow>
            if strict \<and> j mod 16 \<noteq> 0 then None else Some [byte_of (i * 4 + j div 16)]
        | _ \<Rightarrow> None)
     else if pad \<and> d = CHR ''='' \<and> rest = [] then
       (case (index_of a al, index_of b al, index_of c al) of
          (Some i, Some j, Some k) \<Rightarrow>
            if strict \<and> k mod 4 \<noteq> 0 then None
            else Some [byte_of (i * 4 + j div 16), byte_of ((j mod 16) * 16 + k div 4)]
        | _ \<Rightarrow> None)
     else
       (case (index_of a al, index_of b al, index_of c al, index_of d al) of
          (Some i, Some j, Some k, Some l) \<Rightarrow>
            (case b64_groups al pad strict rest of
               None \<Rightarrow> None
             | Some bs \<Rightarrow> Some (byte_of (i * 4 + j div 16) # byte_of ((j mod 16) * 16 + k div 4)
                               # byte_of ((k mod 4) * 64 + l) # bs))
        | _ \<Rightarrow> None))"

definition b64_decode :: "string \<Rightarrow> bool \<Rightarrow> bool \<Rightarrow> string \<Rightarrow> string option" where
  "b64_decode al pad strict s =
     b64_groups al pad strict (filter (\<lambda>c. c \<noteq> CHR 0x0A \<and> c \<noteq> CHR 0x0D) s)"

abbreviation RawURL_EncodeToString :: "string \<Rightarrow> string" where
  "RawURL_EncodeToString \<equiv> b64_encode b64_url False"
abbreviation RawURL_DecodeString :: "string \<Rightarrow> string option" where
  "RawURL_DecodeString \<equiv> b64_decode b64_url False False"
abbreviation RawURL_Strict_DecodeString :: "string \<Rightarrow> string option" where
  "RawURL_Strict_DecodeString \<equiv> b64_decode b64_url False True"
abbreviation Std_EncodeToString :: "string \<Rightarrow> string" where
  "Std_EncodeToString \<equiv> b64_encode b64_std True"
abbreviation Std_DecodeString :: "string \<Rightarrow> string option" where
  "Std_DecodeString \<equiv> b64_decode b64_std True False"

section \<open>SHA-256\<close>

definition rotr32 :: "nat \<Rightarrow> 32 word \<Rightarrow> 32 word" where
  "rotr32 n x = drop_bit n x OR push_bit (32 - n) x"

text \<open>The round constants, in decimal: the first 32 fractional bits of the cube roots of the first 64 primes.\<close>

definition sha_K :: "32 word list" where
  "sha_K =
    [1116352408, 1899447441, 3049323471, 3921009573, 961987163, 1508970993,
     2453635748, 2870763221, 3624381080, 310598401, 607225278, 1426881987,
     1925078388, 2162078206, 2614888103, 3248222580, 3835390401, 4022224774,
     264347078, 604807628, 770255983, 1249150122, 1555081692, 1996064986,
     2554220882, 2821834349, 2952996808, 3210313671, 3336571891, 3584528711,
     113926993, 338241895, 666307205, 773529912, 1294757372, 1396182291,
     1695183700, 1986661051, 2177026350, 2456956037, 2730485921, 2820302411,
     3259730800, 3345764771, 3516065817, 3600352804, 4094571909, 275423344,
     430227734, 506948616, 659060556, 883997877, 958139571, 1322822218,
     1537002063, 1747873779, 1955562222, 2024104815, 2227730452, 2361852424,
     2428436474, 2756734187, 3204031479, 3329325298]"

definition sha_H0 :: "32 word list" where
  "sha_H0 = [0x6a09e667, 0xbb67ae85, 0x3c6ef372, 0xa54ff53a,
             0x510e527f, 0x9b05688c, 0x1f83d9ab, 0x5be0cd19]"

text \<open>The message schedule, latest word first.\<close>

fun sha_extend :: "nat \<Rightarrow> 32 word list \<Rightarrow> 32 word list" where
  "sha_extend 0 ws = ws"
| "sha_extend (Suc n) ws =
    (let w2 = ws ! 1; w15 = ws ! 14;
         s1 = rotr32 17 w2 XOR rotr32 19 w2 XOR drop_bit 10 w2;
         s0 = rotr32 7 w15 XOR rotr32 18 w15 XOR drop_bit 3 w15
     in sha_extend n ((s1 + ws ! 6 + s0 + ws ! 15) # ws))"

fun sha_rounds :: "(32 word \<times> 32 word) list \<Rightarrow> 32 word list \<Rightarrow> 32 word list" where
  "sha_rounds ((k, w) # kws) [a, b, c, d, e, f, g, h] =
    (let t1 = h + (rotr32 6 e XOR rotr32 11 e XOR rotr32 25 e)
                + ((e AND f) XOR (NOT e AND g)) + k + w;
         t2 = (rotr32 2 a XOR rotr32 13 a XOR rotr32 22 a)
                + ((a AND b) XOR (a AND c) XOR (b AND c))
     in sha_rounds kws [t1 + t2, a, b, c, d + t1, e, f, g])"
| "sha_rounds kws hs = hs"

definition sha_block :: "32 word list \<Rightarrow> 32 word list \<Rightarrow> 32 word list" where
  "sha_block hs ws = map2 (+) hs (sha_rounds (zip sha_K (rev (sha_extend 48 (rev ws)))) hs)"

fun be_words :: "string \<Rightarrow> 32 word list" where
  "be_words (a # b # c # d # rest) =
     (((of_char a * 256 + of_char b) * 256 + of_char c) * 256 + of_char d) # be_words rest"
| "be_words _ = []"

fun sha_blocks :: "32 word list \<Rightarrow> 32 word list \<Rightarrow> 32 word list" where
  "sha_blocks hs ws = (if length ws < 16 then hs else sha_blocks (sha_block hs (take 16 ws)) (drop 16 ws))"

declare sha_blocks.simps [simp del]

definition be_bytes32 :: "32 word \<Rightarrow> string" where
  "be_bytes32 w = map (\<lambda>k. char_of (uint (drop_bit k w))) [24, 16, 8, 0]"

definition sha_pad :: "string \<Rightarrow> string" where
  "sha_pad m =
    (let n = length m; bits = 8 * int n in
     m @ [char_of (128 :: nat)] @ replicate ((119 - n mod 64) mod 64) (char_of (0 :: nat))
       @ map (\<lambda>i. char_of (bits div 256 ^ i)) [7, 6, 5, 4, 3, 2, 1, 0])"

text \<open>\<open>sha256.Sum256\<close>: the 32 bytes of the digest.\<close>

definition Sum256 :: "string \<Rightarrow> string" where
  "Sum256 m = concat (map be_bytes32 (sha_blocks sha_H0 (be_words (sha_pad m))))"

section \<open>JSON strings\<close>

definition hex_char :: "nat \<Rightarrow> char" where
  "hex_char n = ''0123456789abcdef'' ! n"

text \<open>
  The string encoding of \<open>json.Marshal\<close> (with HTML escaping): one rune of the input at a time.
\<close>

definition json_rune :: "nat \<times> nat \<Rightarrow> string \<Rightarrow> string" where
  "json_rune rn s =
    (let (r, n) = rn in
     if r < 128 then
       (if r = 34 \<or> r = 92 then [CHR 0x5C, char_of r]
        else if r = 8 then [CHR 0x5C, CHR ''b'']
        else if r = 12 then [CHR 0x5C, CHR ''f'']
        else if r = 10 then [CHR 0x5C, CHR ''n'']
        else if r = 13 then [CHR 0x5C, CHR ''r'']
        else if r = 9 then [CHR 0x5C, CHR ''t'']
        else if r < 32 \<or> r = 38 \<or> r = 60 \<or> r = 62
          then CHR 0x5C # ''u00'' @ [hex_char (r div 16), hex_char (r mod 16)]
        else [char_of r])
     else if (r, n) = (RuneError, 1) then CHR 0x5C # ''ufffd''
     else if r = 8232 \<or> r = 8233 then CHR 0x5C # ''u202'' @ [hex_char (r mod 16)]
     else take n s)"

function json_body :: "string \<Rightarrow> string" where
  "json_body s = (if s = [] then []
     else json_rune (decode_rune s) s @ json_body (drop (snd (decode_rune s)) s))"
  by pat_completeness auto
termination
proof (relation "measure length", simp)
  fix s :: string
  assume "s \<noteq> []"
  with decode_rune_width [of s] show "(drop (snd (decode_rune s)) s, s) \<in> measure length"
    by simp
qed

declare json_body.simps [simp del]

definition json_string :: "string \<Rightarrow> string" where
  "json_string s = CHR 0x22 # json_body s @ [CHR 0x22]"

text \<open>A struct is encoded as an object whose members come in field order.\<close>

fun json_members :: "(string \<times> string) list \<Rightarrow> string" where
  "json_members [] = []"
| "json_members [(k, v)] = json_string k @ '':'' @ v"
| "json_members ((k, v) # ms) = json_string k @ '':'' @ v @ '','' @ json_members ms"

definition json_object :: "(string \<times> string) list \<Rightarrow> string" where
  "json_object ms = ''{'' @ json_members ms @ ''}''"

fun json_commas :: "string list \<Rightarrow> string" where
  "json_commas [] = []"
| "json_commas [v] = v"
| "json_commas (v # vs) = v @ '','' @ json_commas vs"

definition json_array :: "string list \<Rightarrow> string" where
  "json_array vs = ''['' @ json_commas vs @ '']''"

text \<open>A member with the \<open>omitempty\<close> option.\<close>

definition omitempty :: "bool \<Rightarrow> string \<Rightarrow> string \<Rightarrow> (string \<times> string) list" where
  "omitempty isEmpty k v = (if isEmpty then [] else [(k, v)])"

section \<open>Lengths, alphabets and round trips\<close>

lemma byte_val_less [simp]: "byte_val c < 256"
  by (metis mod_less_divisor of_char_mod_256 zero_less_numeral)

lemma index_of_nth: "distinct xs \<Longrightarrow> i < length xs \<Longrightarrow> index_of (xs ! i) xs = Some i"
proof (induction xs arbitrary: i)
  case Nil
  then show ?case by simp
next
  case (Cons x xs)
  then show ?case by (cases i) (auto simp: nth_mem)
qed

lemma index_of_Some: "index_of c xs = Some i \<Longrightarrow> i < length xs \<and> xs ! i = c"
  by (induction xs arbitrary: i) (auto split: if_splits)

lemma index_of_mem: "c \<in> set xs \<Longrightarrow> \<exists>i. index_of c xs = Some i"
  by (induction xs) auto

lemma index_of_None: "index_of c xs = None \<longleftrightarrow> c \<notin> set xs"
  by (induction xs) auto

text \<open>The sextets of three bytes, and the bytes of four sextets.\<close>

lemma sextet_bounds_nat:
  fixes x y z :: nat
  assumes "x < 256" and "y < 256" and "z < 256"
  shows "x div 4 < 64" and "x mod 4 * 16 < 64" and "x mod 4 * 16 + y div 16 < 64"
    and "y mod 16 * 4 < 64" and "y mod 16 * 4 + z div 64 < 64" and "z mod 64 < 64"
    and "y div 16 div 16 = 0" and "y div 16 mod 16 = y div 16" and "z div 64 div 4 = 0"
    and "z div 64 mod 4 = z div 64"
  using assms by (linarith | simp add: less_mult_imp_div_less)+

lemmas sextet_bounds [simp] = sextet_bounds_nat [OF byte_val_less byte_val_less byte_val_less]

lemma list3_induct [case_names Nil one two more]:
  "P [] \<Longrightarrow> (\<And>a. P [a]) \<Longrightarrow> (\<And>a b. P [a, b]) \<Longrightarrow> (\<And>a b c r. P r \<Longrightarrow> P (a # b # c # r))
     \<Longrightarrow> P (s :: string)"
  by (rule b64_encode.induct [of "\<lambda>_ _. P" "[]" True]) auto

lemma list4_induct [case_names Nil one two three more]:
  "P [] \<Longrightarrow> (\<And>a. P [a]) \<Longrightarrow> (\<And>a b. P [a, b]) \<Longrightarrow> (\<And>a b c. P [a, b, c])
     \<Longrightarrow> (\<And>a b c d r. P r \<Longrightarrow> P (a # b # c # d # r)) \<Longrightarrow> P (s :: string)"
proof (induction s rule: length_induct)
  case (1 s)
  then show ?case
    by (cases "([] :: string, True, True, s)" rule: b64_groups.cases) auto
qed

locale b64_alphabet =
  fixes al :: string
  assumes len64: "length al = 64"
    and dist: "distinct al"
    and no_pad: "CHR ''='' \<notin> set al"
    and no_newline: "CHR 0x0A \<notin> set al" "CHR 0x0D \<notin> set al"
begin

lemma index_nth [simp]: "i < 64 \<Longrightarrow> index_of (al ! i) al = Some i"
  by (simp add: index_of_nth dist len64)

lemma nth_in [simp]: "i < 64 \<Longrightarrow> al ! i \<in> set al"
  by (simp add: len64)

lemma nth_not_pad [simp]: "i < 64 \<Longrightarrow> al ! i \<noteq> CHR ''=''"
  using no_pad nth_in by metis

lemma encode_chars: "set (b64_encode al False s) \<subseteq> set al"
  by (induction s rule: list3_induct) (auto simp: Let_def)

lemma encode_length: "length (b64_encode al False s) = (4 * length s + 2) div 3"
  by (induction s rule: list3_induct) (auto simp: Let_def)

lemma encode_chars_pad: "set (b64_encode al pad s) \<subseteq> insert (CHR ''='') (set al)"
  by (induction s rule: list3_induct) (auto simp: Let_def)

lemma filter_encode [simp]:
  "filter (\<lambda>c. c \<noteq> CHR 0x0A \<and> c \<noteq> CHR 0x0D) (b64_encode al pad s) = b64_encode al pad s"
  using encode_chars_pad [of pad s] no_newline by (auto simp: filter_id_conv)

lemma encode_Nil_iff [simp]: "b64_encode al pad s = [] \<longleftrightarrow> s = []"
  by (induction s rule: list3_induct) (auto simp: Let_def)

lemma groups_encode: "b64_groups al pad strict (b64_encode al pad s) = Some s"
  by (induction s rule: list3_induct)
    (auto simp: Let_def byte_of_def)

lemma decode_encode: "b64_decode al pad strict (b64_encode al pad s) = Some s"
  by (simp add: b64_decode_def groups_encode)

lemma encode_inj: "b64_encode al pad s = b64_encode al pad t \<Longrightarrow> s = t"
  by (metis decode_encode option.inject)

lemma groups_Some:
  "b64_groups al False strict s = Some d \<Longrightarrow> set s \<subseteq> set al \<and> length d = 3 * length s div 4"
proof (induction s arbitrary: d rule: list4_induct)
qed (auto split: option.splits if_splits dest!: index_of_Some)

lemma groups_total:
  "set s \<subseteq> set al \<Longrightarrow> length s mod 4 \<noteq> 1 \<Longrightarrow> \<exists>d. b64_groups al False False s = Some d"
proof (induction s rule: list4_induct)
  case (more a b c d r)
  then show ?case by (auto dest!: index_of_mem split: option.splits)
qed (auto dest!: index_of_mem)

end

interpretation url: b64_alphabet b64_url
  by unfold_locales (simp_all add: b64_url_def)

interpretation std: b64_alphabet b64_std
  by unfold_locales (simp_all add: b64_std_def)

lemma rawurl_43:
  assumes "length s = 43"
  shows "(\<exists>d. RawURL_DecodeString s = Some d \<and> length d = 32) \<longleftrightarrow> set s \<subseteq> set b64_url"
proof
  let ?P = "\<lambda>c. c \<noteq> CHR 0x0A \<and> c \<noteq> CHR 0x0D"
  assume "\<exists>d. RawURL_DecodeString s = Some d \<and> length d = 32"
  then obtain d where d: "b64_groups b64_url False False (filter ?P s) = Some d" "length d = 32"
    by (auto simp: b64_decode_def)
  note * = url.groups_Some [OF d(1)]
  have "length (filter ?P s) \<le> 43"
    using assms length_filter_le [of ?P s] by simp
  with * d(2) have "length (filter ?P s) = length s"
    using assms by linarith
  then have "filter ?P s = s"
    by (metis length_filter_less filter_id_conv less_irrefl)
  with * show "set s \<subseteq> set b64_url" by simp
next
  assume al: "set s \<subseteq> set b64_url"
  then have "filter (\<lambda>c. c \<noteq> CHR 0x0A \<and> c \<noteq> CHR 0x0D) s = s"
    using url.no_newline by (auto simp: filter_id_conv)
  moreover obtain d where "b64_groups b64_url False False s = Some d"
    using url.groups_total [OF al] assms by auto
  ultimately show "\<exists>d. RawURL_DecodeString s = Some d \<and> length d = 32"
    using url.groups_Some assms by (fastforce simp: b64_decode_def)
qed

lemma sha_rounds_length: "length hs = 8 \<Longrightarrow> length (sha_rounds kws hs) = 8"
  by (induction kws hs rule: sha_rounds.induct) (auto simp: Let_def)

lemma sha_block_length: "length hs = 8 \<Longrightarrow> length (sha_block hs ws) = 8"
  by (simp add: sha_block_def sha_rounds_length)

lemma sha_blocks_length: "length hs = 8 \<Longrightarrow> length (sha_blocks hs ws) = 8"
proof (induction hs ws rule: sha_blocks.induct)
  case (1 hs ws)
  then show ?case
    by (subst sha_blocks.simps) (simp add: sha_block_length)
qed

lemma Sum256_length [simp]: "length (Sum256 m) = 32"
proof -
  have "length (sha_blocks sha_H0 (be_words (sha_pad m))) = 8"
    by (simp add: sha_blocks_length sha_H0_def)
  then show ?thesis
    by (simp add: Sum256_def length_concat comp_def be_bytes32_def sum_list_replicate map_replicate_const)
qed

text \<open>The base64url text of a digest, as it appears in key identifiers, hashes and annotations.\<close>

definition digest64 :: "string \<Rightarrow> string" where
  "digest64 m = RawURL_EncodeToString (Sum256 m)"

lemma digest64_length [simp]: "length (digest64 m) = 43"
  by (simp add: digest64_def url.encode_length)

lemma digest64_chars: "set (digest64 m) \<subseteq> set b64_url"
  by (simp add: digest64_def url.encode_chars)

lemma digest64_not_Nil [simp]: "digest64 m \<noteq> []"
  using digest64_length [of m] by (metis length_0_conv zero_neq_numeral)

lemma digest64_decode [simp]: "b64_decode b64_url False strict (digest64 m) = Some (Sum256 m)"
  by (simp add: digest64_def url.decode_encode)

lemma digest64_eq [simp]: "digest64 m = digest64 n \<longleftrightarrow> Sum256 m = Sum256 n"
  by (auto simp: digest64_def dest: url.encode_inj)

end
