(* ===== verification/Key_Registry.thy ===== *)
theory Key_Registry
  imports Go_Encoding
begin

text \<open>
  The key registry (\<^verbatim>\<open>internal/keyregistry/keyregistry.go\<close> and \<^verbatim>\<open>identity.go\<close>): snapshots of
  Transit key versions, the derivation and the syntax of Kubernetes key identifiers, snapshot
  normalisation, and the in-memory registry that answers decrypt lookups.
\<close>

section \<open>Snapshots\<close>

definition keyIDDomain :: string where "keyIDDomain = ''openbao-kubernetes-kms/key-id/v1''"
definition keyIDPrefix :: string where "keyIDPrefix = ''obk2.''"
definition sha256RawURLLength :: nat where "sha256RawURLLength = 43"
definition keyIDLength :: nat where "keyIDLength = length keyIDPrefix + sha256RawURLLength"

type_synonym SnapshotState = string

definition StateActive :: SnapshotState where "StateActive = ''active''"
definition StatePending :: SnapshotState where "StatePending = ''pending''"
definition StateRetired :: SnapshotState where "StateRetired = ''retired''"
definition StateRejected :: SnapshotState where "StateRejected = ''rejected''"
definition StateRemoved :: SnapshotState where "StateRemoved = ''removed''"

definition SnapshotState_Valid :: "SnapshotState \<Rightarrow> bool" where
  "SnapshotState_Valid s \<longleftrightarrow>
     s \<in> {StateActive, StatePending, StateRetired, StateRejected, StateRemoved}"

definition AADModeRequired :: string where "AADModeRequired = ''aad.required''"

definition AADMode_Valid :: "string \<Rightarrow> bool" where
  "AADMode_Valid m \<longleftrightarrow> m = AADModeRequired"

record KeySnapshot =
  ProviderName :: string
  ClusterID :: string
  OpenBaoInstanceID :: string
  OpenBaoNamespace :: string
  TransitMountID :: string
  TransitKeyLineageID :: string
  TransitVersion :: int
  TransitVersionCreatedAt :: go_time
  KubernetesKeyID :: string
  State :: SnapshotState
  AADMode :: string

definition NormalizeTransitVersionCreatedAt :: "go_time \<Rightarrow> go_time res" where
  "NormalizeTransitVersionCreatedAt createdAt =
    (if IsZero createdAt then Inl (Msg ''transit version creation time is required'')
     else let unix = Unix createdAt in
       if unix \<le> 0 then Inl (Msg ''transit version creation time must be after Unix epoch'')
       else Inr (time_Unix unix))"

definition control_chars :: string where
  "control_chars = [CHR 0x00, CHR 0x0D, CHR 0x0A, CHR 0x09]"

definition validateOpenBaoNamespace :: "string \<Rightarrow> unit res" where
  "validateOpenBaoNamespace value =
    (if value = [] then Inr ()
     else if TrimSpace value \<noteq> value \<or> ContainsAny value control_chars
       then Inl (Msg ''OpenBao namespace must not contain control characters or surrounding whitespace'')
     else if HasPrefix value ''/'' \<or> Contains value ''//'' \<or> Contains value ''%''
       then Inl (Msg ''OpenBao namespace must be a relative OpenBao namespace path without percent encoding'')
     else forE (\<lambda>segment. failIf (segment = ''.'' \<or> segment = ''..'' \<or> segment = [])
            (Msg ''OpenBao namespace must not contain empty, dot, or dot-dot path segments''))
          (split_on (CHR ''/'') value))"

definition validateSnapshotIdentity :: "KeySnapshot \<Rightarrow> unit res" where
  "validateSnapshotIdentity snapshot =
    bindE (forE (\<lambda>(name, value). failIf (value = []) (Msg (name @ '' is required for key_id derivation'')))
      [(''provider name'', ProviderName snapshot),
       (''cluster ID'', ClusterID snapshot),
       (''OpenBao instance ID'', OpenBaoInstanceID snapshot),
       (''Transit mount ID'', TransitMountID snapshot),
       (''Transit key lineage ID'', TransitKeyLineageID snapshot)]) (\<lambda>_.
    bindE (failIf (TransitVersion snapshot \<le> 0) (Msg ''transit version must be positive'')) (\<lambda>_.
    bindE (NormalizeTransitVersionCreatedAt (TransitVersionCreatedAt snapshot)) (\<lambda>_.
    validateOpenBaoNamespace (OpenBaoNamespace snapshot))))"

section \<open>Key identifiers\<close>

definition appendPart :: "string \<Rightarrow> string \<Rightarrow> string" where
  "appendPart input value = input @ value @ [CHR 0x00]"

text \<open>The bytes that are hashed: each part followed by a zero byte, the namespace only if there is one.\<close>

definition key_id_input :: "KeySnapshot \<Rightarrow> go_time \<Rightarrow> string" where
  "key_id_input snapshot createdAt =
    (let i0 = appendPart [] keyIDDomain;
         i1 = appendPart i0 (ProviderName snapshot);
         i2 = appendPart i1 (ClusterID snapshot);
         i3 = appendPart i2 (OpenBaoInstanceID snapshot);
         i4 = (if OpenBaoNamespace snapshot \<noteq> [] then appendPart i3 (OpenBaoNamespace snapshot) else i3);
         i5 = appendPart i4 (TransitMountID snapshot);
         i6 = appendPart i5 (TransitKeyLineageID snapshot);
         i7 = appendPart i6 (Itoa (TransitVersion snapshot))
     in appendPart i7 (Itoa (Unix createdAt)))"

definition DeriveKeyID :: "KeySnapshot \<Rightarrow> string res" where
  "DeriveKeyID snapshot =
    bindE (validateSnapshotIdentity snapshot) (\<lambda>_.
    bindE (NormalizeTransitVersionCreatedAt (TransitVersionCreatedAt snapshot)) (\<lambda>createdAt.
    Inr (keyIDPrefix @ RawURL_EncodeToString (Sum256 (key_id_input snapshot createdAt)))))"

definition ParseKeyID :: "string \<Rightarrow> string res" where
  "ParseKeyID keyID =
    (if length keyID \<noteq> keyIDLength then Inl (Sentinel ErrMalformedKeyID)
     else if \<not> HasPrefix keyID keyIDPrefix then Inl (Sentinel ErrMalformedKeyID)
     else case RawURL_DecodeString (TrimPrefix keyID keyIDPrefix) of
       None \<Rightarrow> Inl (Sentinel ErrMalformedKeyID)
     | Some decoded \<Rightarrow>
         if length decoded \<noteq> 32 then Inl (Sentinel ErrMalformedKeyID) else Inr keyID)"

definition Normalize :: "KeySnapshot \<Rightarrow> KeySnapshot res" where
  "Normalize s =
    (if \<not> SnapshotState_Valid (State s) then Inl (Msg ''snapshot state is invalid'')
     else if \<not> AADMode_Valid (AADMode s) then Inl (Msg ''snapshot AAD mode is invalid'')
     else
       bindE (NormalizeTransitVersionCreatedAt (TransitVersionCreatedAt s)) (\<lambda>createdAt.
       let s = s\<lparr>TransitVersionCreatedAt := createdAt\<rparr> in
       bindE (DeriveKeyID s) (\<lambda>derived.
       if KubernetesKeyID s \<noteq> [] then
         bindE (ParseKeyID (KubernetesKeyID s)) (\<lambda>parsed.
         if parsed \<noteq> derived then Inl (Msg ''snapshot key_id does not match derived key_id'')
         else Inr s)
       else Inr (s\<lparr>KubernetesKeyID := derived\<rparr>))))"

text \<open>\<^verbatim>\<open>identity.go\<close>: the shape of a configuration identity fingerprint.\<close>

definition ValidateIdentityFingerprint :: "string \<Rightarrow> unit res" where
  "ValidateIdentityFingerprint value =
    (let prefix = ''cfg1.'' in
     if \<not> HasPrefix value prefix \<or> length value \<noteq> length prefix + sha256RawURLLength
     then Inl (errw ErrStateCorrupt ''configuration identity fingerprint required'')
     else case RawURL_Strict_DecodeString (TrimPrefix value prefix) of
       None \<Rightarrow> Inl (errw ErrStateCorrupt ''invalid configuration identity fingerprint'')
     | Some decoded \<Rightarrow>
         if length decoded \<noteq> 32
         then Inl (errw ErrStateCorrupt ''invalid configuration identity fingerprint'') else Inr ())"

section \<open>The registry\<close>

record Registry =
  activeKeyID :: string
  snapshots :: "string \<rightharpoonup> KeySnapshot"

definition registry_insert :: "Registry \<Rightarrow> KeySnapshot \<Rightarrow> Registry res" where
  "registry_insert r snapshot =
    (case snapshots r (KubernetesKeyID snapshot) of
       Some existing \<Rightarrow>
         if existing \<noteq> snapshot then Inl (Msg ''duplicate key_id with different snapshot metadata'')
         else Inr (r\<lparr>snapshots := (snapshots r)(KubernetesKeyID snapshot \<mapsto> snapshot)\<rparr>)
     | None \<Rightarrow> Inr (r\<lparr>snapshots := (snapshots r)(KubernetesKeyID snapshot \<mapsto> snapshot)\<rparr>))"

text \<open>The loop of \<open>NewRegistry\<close> over the historical snapshots.\<close>

fun insert_historical :: "Registry \<Rightarrow> KeySnapshot list \<Rightarrow> Registry res" where
  "insert_historical r [] = Inr r"
| "insert_historical r (snapshot # rest) =
    bindE (Normalize snapshot) (\<lambda>normalized.
    if State normalized = StateRemoved then insert_historical r rest
    else bindE (registry_insert r normalized) (\<lambda>r'. insert_historical r' rest))"

definition NewRegistry :: "KeySnapshot \<Rightarrow> KeySnapshot list \<Rightarrow> Registry res" where
  "NewRegistry active historical =
    bindE (Normalize active) (\<lambda>active.
    if State active \<noteq> StateActive then Inl (Msg ''active snapshot state must be active'')
    else
      bindE (registry_insert \<lparr>activeKeyID = KubernetesKeyID active, snapshots = Map.empty\<rparr> active)
        (\<lambda>registry. insert_historical registry historical))"

definition Registry_Active :: "Registry \<Rightarrow> KeySnapshot option" where
  "Registry_Active r = snapshots r (activeKeyID r)"

definition Registry_Lookup :: "Registry \<Rightarrow> string \<Rightarrow> KeySnapshot res" where
  "Registry_Lookup r keyID =
    bindE (ParseKeyID keyID) (\<lambda>parsed.
    case snapshots r parsed of
      None \<Rightarrow> Inl (Sentinel ErrUnknownKeyID)
    | Some snapshot \<Rightarrow> Inr snapshot)"

section \<open>Properties\<close>

lemmas key_id_consts = keyIDPrefix_def keyIDLength_def sha256RawURLLength_def

lemma NormalizeCreatedAt_Inr [simp]:
  "NormalizeTransitVersionCreatedAt t = Inr u \<longleftrightarrow> \<not> IsZero t \<and> 0 < Unix t \<and> u = time_Unix (Unix t)"
  by (auto simp: NormalizeTransitVersionCreatedAt_def Let_def)

lemma NormalizeCreatedAt_idem:
  "NormalizeTransitVersionCreatedAt t = Inr u \<Longrightarrow> NormalizeTransitVersionCreatedAt u = Inr u"
  by simp

text \<open>The identity that a key identifier stands for, and when a snapshot has a complete one.\<close>

definition identity_complete :: "KeySnapshot \<Rightarrow> bool" where
  "identity_complete s \<longleftrightarrow>
     ProviderName s \<noteq> [] \<and> ClusterID s \<noteq> [] \<and> OpenBaoInstanceID s \<noteq> [] \<and> TransitMountID s \<noteq> []
     \<and> TransitKeyLineageID s \<noteq> [] \<and> 0 < TransitVersion s \<and> \<not> IsZero (TransitVersionCreatedAt s)
     \<and> 0 < Unix (TransitVersionCreatedAt s) \<and> validateOpenBaoNamespace (OpenBaoNamespace s) = Inr ()"

definition same_identity :: "KeySnapshot \<Rightarrow> KeySnapshot \<Rightarrow> bool" where
  "same_identity s t \<longleftrightarrow>
     ProviderName s = ProviderName t \<and> ClusterID s = ClusterID t
     \<and> OpenBaoInstanceID s = OpenBaoInstanceID t \<and> OpenBaoNamespace s = OpenBaoNamespace t
     \<and> TransitMountID s = TransitMountID t \<and> TransitKeyLineageID s = TransitKeyLineageID t
     \<and> TransitVersion s = TransitVersion t
     \<and> Unix (TransitVersionCreatedAt s) = Unix (TransitVersionCreatedAt t)"

definition nul_free :: "string \<Rightarrow> bool" where
  "nul_free v \<longleftrightarrow> CHR 0x00 \<notin> set v"

definition nul_free_identity :: "KeySnapshot \<Rightarrow> bool" where
  "nul_free_identity s \<longleftrightarrow>
     nul_free (ProviderName s) \<and> nul_free (ClusterID s) \<and> nul_free (OpenBaoInstanceID s)
     \<and> nul_free (TransitMountID s) \<and> nul_free (TransitKeyLineageID s)"

definition derived_key_id :: "KeySnapshot \<Rightarrow> string" where
  "derived_key_id s =
     keyIDPrefix @ digest64 (key_id_input s (time_Unix (Unix (TransitVersionCreatedAt s))))"

lemma validateSnapshotIdentity_Inr [simp]:
  "validateSnapshotIdentity s = Inr u \<longleftrightarrow> identity_complete s"
  by (auto simp: validateSnapshotIdentity_def identity_complete_def)

lemma DeriveKeyID_Inr:
  "DeriveKeyID s = Inr k \<longleftrightarrow> identity_complete s \<and> k = derived_key_id s"
  by (auto simp: DeriveKeyID_def derived_key_id_def digest64_def identity_complete_def)

text \<open>Syntax of key identifiers.\<close>

lemma ParseKeyID_Inr:
  "ParseKeyID k = Inr k' \<longleftrightarrow>
     k' = k \<and> (\<exists>d. k = keyIDPrefix @ d \<and> length d = 43 \<and> set d \<subseteq> set b64_url)"
proof (cases "length k = keyIDLength \<and> HasPrefix k keyIDPrefix")
  case True
  then obtain d where k: "k = keyIDPrefix @ d" by (auto simp: HasPrefix_iff)
  with True have d: "length d = 43" by (simp add: key_id_consts)
  show ?thesis
    using rawurl_43 [OF d] True k d
    by (auto simp: ParseKeyID_def split: option.splits)
next
  case False
  then show ?thesis by (auto simp: ParseKeyID_def HasPrefix_iff keyIDLength_def sha256RawURLLength_def)
qed

lemma ParseKeyID_id: "ParseKeyID k = Inr k' \<Longrightarrow> k' = k"
  by (simp add: ParseKeyID_Inr)

lemma ParseKeyID_error: "ParseKeyID k = Inl e \<Longrightarrow> e = Sentinel ErrMalformedKeyID"
  by (auto simp: ParseKeyID_def split: option.splits if_splits)

lemma ParseKeyID_derived [simp]: "ParseKeyID (derived_key_id s) = Inr (derived_key_id s)"
  using digest64_chars by (auto simp: ParseKeyID_Inr derived_key_id_def)

lemma derived_key_id_not_Nil [simp]: "derived_key_id s \<noteq> []"
  by (simp add: derived_key_id_def)

text \<open>Normalisation.\<close>

definition normal_form :: "KeySnapshot \<Rightarrow> KeySnapshot" where
  "normal_form s = s\<lparr>TransitVersionCreatedAt := time_Unix (Unix (TransitVersionCreatedAt s)),
                     KubernetesKeyID := derived_key_id s\<rparr>"

definition normalizable :: "KeySnapshot \<Rightarrow> bool" where
  "normalizable s \<longleftrightarrow> SnapshotState_Valid (State s) \<and> AADMode_Valid (AADMode s) \<and> identity_complete s
     \<and> (KubernetesKeyID s = [] \<or> KubernetesKeyID s = derived_key_id s)"

lemma key_id_input_cong:
  "same_identity s t \<Longrightarrow> key_id_input s c = key_id_input t c"
  by (simp add: key_id_input_def same_identity_def Let_def)

lemma derived_key_id_cong: "same_identity s t \<Longrightarrow> derived_key_id s = derived_key_id t"
  by (simp add: derived_key_id_def key_id_input_cong) (simp add: same_identity_def)

lemma same_identity_upd [simp]:
  "same_identity (s\<lparr>TransitVersionCreatedAt := time_Unix (Unix (TransitVersionCreatedAt s))\<rparr>) s"
  "same_identity (s\<lparr>KubernetesKeyID := k\<rparr>) t = same_identity s t"
  "same_identity (s\<lparr>State := st\<rparr>) t = same_identity s t"
  "same_identity s s"
  by (auto simp: same_identity_def)

lemma derived_key_id_upd [simp]:
  "derived_key_id (s\<lparr>TransitVersionCreatedAt := time_Unix (Unix (TransitVersionCreatedAt s))\<rparr>) = derived_key_id s"
  "derived_key_id (s\<lparr>TransitVersionCreatedAt := time_Unix (Unix (TransitVersionCreatedAt s)), KubernetesKeyID := k\<rparr>)
     = derived_key_id s"
  "derived_key_id (s\<lparr>KubernetesKeyID := k\<rparr>) = derived_key_id s"
  "derived_key_id (s\<lparr>State := st\<rparr>) = derived_key_id s"
  by (rule derived_key_id_cong, simp add: same_identity_def)+

lemma Normalize_Inr: "Normalize s = Inr n \<longleftrightarrow> normalizable s \<and> n = normal_form s"
proof -
  have ic: "identity_complete (s\<lparr>TransitVersionCreatedAt := time_Unix (Unix (TransitVersionCreatedAt s))\<rparr>)
     \<longleftrightarrow> identity_complete s" if "0 < Unix (TransitVersionCreatedAt s)" "\<not> IsZero (TransitVersionCreatedAt s)"
    using that by (simp add: identity_complete_def)
  show ?thesis
    unfolding Normalize_def normalizable_def normal_form_def
    by (auto simp: DeriveKeyID_Inr ic Let_def identity_complete_def [of s]
        dest: ParseKeyID_id split: if_splits)
qed

lemma normal_form_simps [simp]:
  "State (normal_form s) = State s" "AADMode (normal_form s) = AADMode s"
  "KubernetesKeyID (normal_form s) = derived_key_id s"
  "TransitVersion (normal_form s) = TransitVersion s"
  "TransitVersionCreatedAt (normal_form s) = time_Unix (Unix (TransitVersionCreatedAt s))"
  "same_identity (normal_form s) s"
  by (simp_all add: normal_form_def same_identity_def)

lemma derived_key_id_normal_form [simp]: "derived_key_id (normal_form s) = derived_key_id s"
  by (rule derived_key_id_cong) simp

lemma normalizable_normal_form: "normalizable s \<Longrightarrow> normalizable (normal_form s)"
  by (auto simp: normalizable_def identity_complete_def) (simp_all add: normal_form_def)

lemma normal_form_idem [simp]: "normal_form (normal_form s) = normal_form s"
  by (simp add: normal_form_def)

lemma Normalize_normal_form: "normalizable s \<Longrightarrow> Normalize (normal_form s) = Inr (normal_form s)"
  by (simp add: Normalize_Inr normalizable_normal_form)

lemma Normalize_fixpoint:
  "Normalize s = Inr s \<longleftrightarrow> normalizable s \<and> KubernetesKeyID s = derived_key_id s
     \<and> TransitVersionCreatedAt s = time_Unix (Unix (TransitVersionCreatedAt s))"
  by (auto simp: Normalize_Inr normal_form_def) (metis KeySnapshot.select_convs(8,9) normal_form_def normal_form_simps(3,5))+

text \<open>The hashed bytes determine the identity.\<close>

definition key_id_parts :: "KeySnapshot \<Rightarrow> go_time \<Rightarrow> string list" where
  "key_id_parts s c =
     [keyIDDomain, ProviderName s, ClusterID s, OpenBaoInstanceID s]
       @ (if OpenBaoNamespace s \<noteq> [] then [OpenBaoNamespace s] else [])
       @ [TransitMountID s, TransitKeyLineageID s, Itoa (TransitVersion s), Itoa (Unix c)]"

lemma key_id_input_parts:
  "key_id_input s c = concat (map (\<lambda>p. p @ [CHR 0x00]) (key_id_parts s c))"
  by (simp add: key_id_input_def key_id_parts_def appendPart_def Let_def)

lemma Itoa_nul_free: "nul_free (Itoa v)"
  using Itoa_chars [of "CHR 0x00" v] by (auto simp: nul_free_def is_digit_def)

lemma namespace_nul_free: "validateOpenBaoNamespace ns = Inr () \<Longrightarrow> nul_free ns"
  by (auto simp: validateOpenBaoNamespace_def nul_free_def ContainsAny_def control_chars_def list_ex_iff
      split: if_splits)

lemma key_id_parts_nul_free:
  "identity_complete s \<Longrightarrow> nul_free_identity s \<Longrightarrow> list_all (\<lambda>p. CHR 0x00 \<notin> set p) (key_id_parts s c)"
  using Itoa_nul_free namespace_nul_free
  by (auto simp: key_id_parts_def nul_free_identity_def identity_complete_def nul_free_def keyIDDomain_def)

lemma key_id_parts_inj:
  "key_id_parts s (time_Unix (Unix (TransitVersionCreatedAt s)))
     = key_id_parts t (time_Unix (Unix (TransitVersionCreatedAt t))) \<Longrightarrow> same_identity s t"
  by (auto simp: key_id_parts_def same_identity_def dest: Itoa_inj split: if_splits)

lemma key_id_input_inj:
  assumes "identity_complete s" "identity_complete t" "nul_free_identity s" "nul_free_identity t"
    and "key_id_input s (time_Unix (Unix (TransitVersionCreatedAt s)))
       = key_id_input t (time_Unix (Unix (TransitVersionCreatedAt t)))"
  shows "same_identity s t"
  using assms terminated_parts_inj [OF key_id_parts_nul_free key_id_parts_nul_free] key_id_parts_inj
  unfolding key_id_input_parts by blast

lemma derived_key_id_eq:
  "derived_key_id s = derived_key_id t \<longleftrightarrow>
     Sum256 (key_id_input s (time_Unix (Unix (TransitVersionCreatedAt s))))
       = Sum256 (key_id_input t (time_Unix (Unix (TransitVersionCreatedAt t))))"
  by (simp add: derived_key_id_def)

section \<open>The registry invariant\<close>

definition registry_wf :: "Registry \<Rightarrow> bool" where
  "registry_wf r \<longleftrightarrow>
     (\<forall>k s. snapshots r k = Some s \<longrightarrow>
        KubernetesKeyID s = k \<and> Normalize s = Inr s \<and> State s \<noteq> StateRemoved)
     \<and> (\<exists>a. snapshots r (activeKeyID r) = Some a \<and> State a = StateActive)"

lemma registry_insert_Inr:
  "registry_insert r s = Inr r' \<longleftrightarrow>
     (snapshots r (KubernetesKeyID s) = None \<or> snapshots r (KubernetesKeyID s) = Some s)
     \<and> r' = r\<lparr>snapshots := (snapshots r)(KubernetesKeyID s \<mapsto> s)\<rparr>"
  by (auto simp: registry_insert_def split: option.splits if_splits)

lemma insert_historical_snapshots:
  "insert_historical r hs = Inr r' \<Longrightarrow>
     activeKeyID r' = activeKeyID r
     \<and> (snapshots r' k = Some s \<longleftrightarrow> snapshots r k = Some s
          \<or> (\<exists>h\<in>set hs. State h \<noteq> StateRemoved \<and> s = normal_form h \<and> k = derived_key_id h))"
proof (induction hs arbitrary: r)
  case Nil
  then show ?case by simp
next
  case (Cons h hs)
  then obtain n where n: "Normalize h = Inr n" by auto
  then have nf: "n = normal_form h" by (simp add: Normalize_Inr)
  show ?case
  proof (cases "State h = StateRemoved")
    case True
    with Cons n nf show ?thesis by simp
  next
    case False
    with Cons.prems n nf obtain r1 where r1: "registry_insert r n = Inr r1"
      and rest: "insert_historical r1 hs = Inr r'" by auto
    from Cons.IH [OF rest] r1 False nf show ?thesis
      by (auto simp: registry_insert_Inr)
  qed
qed

lemma insert_historical_normalizable:
  "insert_historical r hs = Inr r' \<Longrightarrow> h \<in> set hs \<Longrightarrow> normalizable h"
  by (induction hs arbitrary: r) (auto simp: Normalize_Inr split: if_splits)

lemma NewRegistry_Inr:
  assumes "NewRegistry a hs = Inr r"
  shows "normalizable a" and "State a = StateActive" and "activeKeyID r = derived_key_id a"
    and "\<And>h. h \<in> set hs \<Longrightarrow> normalizable h"
    and "snapshots r k = Some s \<longleftrightarrow>
           (\<exists>h\<in>insert a (set hs). State h \<noteq> StateRemoved \<and> s = normal_form h \<and> k = derived_key_id h)"
proof -
  from assms obtain r0 where na: "normalizable a" "State a = StateActive"
    and r0: "registry_insert \<lparr>activeKeyID = derived_key_id a, snapshots = Map.empty\<rparr> (normal_form a) = Inr r0"
    and ih: "insert_historical r0 hs = Inr r"
    by (auto simp: NewRegistry_def Normalize_Inr split: if_splits)
  show "normalizable a" "State a = StateActive" by fact+
  show "activeKeyID r = derived_key_id a"
    using insert_historical_snapshots [OF ih] r0 by (simp add: registry_insert_Inr)
  show "normalizable h" if "h \<in> set hs" for h
    using insert_historical_normalizable [OF ih that] .
  have "StateActive \<noteq> StateRemoved" by (simp add: StateActive_def StateRemoved_def)
  with insert_historical_snapshots [OF ih, of k s] r0 na
  show "snapshots r k = Some s \<longleftrightarrow>
      (\<exists>h\<in>insert a (set hs). State h \<noteq> StateRemoved \<and> s = normal_form h \<and> k = derived_key_id h)"
    by (auto simp: registry_insert_Inr)
qed

lemma NewRegistry_wf:
  assumes "NewRegistry a hs = Inr r"
  shows "registry_wf r"
proof -
  note nr = NewRegistry_Inr [OF assms]
  have "StateActive \<noteq> StateRemoved" by (simp add: StateActive_def StateRemoved_def)
  then show ?thesis
    using nr(1-4) by (auto simp: registry_wf_def nr(5) Normalize_normal_form)
qed

lemma Registry_Lookup_Inr:
  "Registry_Lookup r k = Inr s \<longleftrightarrow> (\<exists>k'. ParseKeyID k = Inr k') \<and> snapshots r k = Some s"
  by (cases "ParseKeyID k") (auto simp: Registry_Lookup_def split: option.splits dest: ParseKeyID_id)

section \<open>The lookup interface\<close>

text \<open>
  \<open>aad.SnapshotLookup\<close>: what the decrypt path relies on. A provider returns only normalised
  snapshots filed under their own identifier, rejects malformed identifiers before it looks
  anything up, and fails only with the two key identifier errors.
\<close>

locale snapshot_lookup =
  fixes lookup :: "'r \<Rightarrow> string \<Rightarrow> KeySnapshot res"
    and inv :: "'r \<Rightarrow> bool"
  assumes lookup_key: "inv r \<Longrightarrow> lookup r k = Inr s \<Longrightarrow> KubernetesKeyID s = k"
    and lookup_normal: "inv r \<Longrightarrow> lookup r k = Inr s \<Longrightarrow> Normalize s = Inr s"
    and lookup_malformed: "ParseKeyID k = Inl e \<Longrightarrow> lookup r k = Inl e"
    and lookup_error: "lookup r k = Inl e \<Longrightarrow> e \<in> {Sentinel ErrMalformedKeyID, Sentinel ErrUnknownKeyID}"

interpretation registry: snapshot_lookup Registry_Lookup registry_wf
proof
  fix r k s e
  show "KubernetesKeyID s = k" if "registry_wf r" "Registry_Lookup r k = Inr s"
    using that by (auto simp: Registry_Lookup_Inr registry_wf_def)
  show "Normalize s = Inr s" if "registry_wf r" "Registry_Lookup r k = Inr s"
    using that by (auto simp: Registry_Lookup_Inr registry_wf_def)
  show "Registry_Lookup r k = Inl e" if "ParseKeyID k = Inl e"
    using that by (simp add: Registry_Lookup_def)
  show "e \<in> {Sentinel ErrMalformedKeyID, Sentinel ErrUnknownKeyID}" if "Registry_Lookup r k = Inl e"
    using that by (auto simp: Registry_Lookup_def bindE_eq_Inl split: option.splits dest: ParseKeyID_error)
qed

section \<open>Main results\<close>

text \<open>A concrete snapshot, used to show that the hypotheses of the results can hold.\<close>

definition ex_snapshot :: KeySnapshot where
  "ex_snapshot = \<lparr>ProviderName = ''openbao-kms'', ClusterID = ''cluster-a'', OpenBaoInstanceID = ''bao-1'',
     OpenBaoNamespace = [], TransitMountID = ''transit'', TransitKeyLineageID = ''k8s-etcd'',
     TransitVersion = 1, TransitVersionCreatedAt = time_Unix 1700000000, KubernetesKeyID = [],
     State = StateActive, AADMode = AADModeRequired\<rparr>"

lemma ex_snapshot_identity [simp]:
  "identity_complete ex_snapshot" "nul_free_identity ex_snapshot" "normalizable ex_snapshot"
  by (simp_all add: normalizable_def identity_complete_def nul_free_identity_def nul_free_def ex_snapshot_def
      validateOpenBaoNamespace_def SnapshotState_Valid_def AADMode_Valid_def)

lemma ex_snapshot_DeriveKeyID: "DeriveKeyID ex_snapshot = Inr (derived_key_id ex_snapshot)"
  by (simp add: DeriveKeyID_Inr)

definition ex_registry :: Registry where
  "ex_registry = \<lparr>activeKeyID = derived_key_id ex_snapshot,
                  snapshots = [derived_key_id ex_snapshot \<mapsto> normal_form ex_snapshot]\<rparr>"

lemma ex_NewRegistry: "NewRegistry ex_snapshot [] = Inr ex_registry"
proof -
  have "State ex_snapshot = StateActive" by (simp add: ex_snapshot_def)
  moreover have "Normalize ex_snapshot = Inr (normal_form ex_snapshot)"
    by (simp add: Normalize_Inr)
  ultimately show ?thesis
    by (simp add: NewRegistry_def registry_insert_def ex_registry_def)
qed

text \<open>
  C14 A Kubernetes key identifier stands for one identity: if two snapshots derive the same
  \<open>key_id\<close>, then they agree on provider name, cluster, OpenBao instance, namespace, mount,
  key lineage, Transit version and creation second, or the two hashed inputs are an explicit
  SHA-256 collision. Provider, cluster, instance, mount and lineage names contain no zero byte.
\<close>

theorem DeriveKeyID_binds_identity:
  assumes "DeriveKeyID s = Inr k" and "DeriveKeyID t = Inr k"
    and "nul_free_identity s" and "nul_free_identity t"
  shows "same_identity s t \<or>
    (let a = key_id_input s (time_Unix (Unix (TransitVersionCreatedAt s)));
         b = key_id_input t (time_Unix (Unix (TransitVersionCreatedAt t)))
     in a \<noteq> b \<and> Sum256 a = Sum256 b)"
  using assms key_id_input_inj [of s t]
  by (auto simp: DeriveKeyID_Inr derived_key_id_eq Let_def)

theorem DeriveKeyID_binds_identity_witness:
  "DeriveKeyID ex_snapshot = Inr (derived_key_id ex_snapshot) \<and>
   (same_identity ex_snapshot ex_snapshot \<or>
    (let a = key_id_input ex_snapshot (time_Unix (Unix (TransitVersionCreatedAt ex_snapshot)));
         b = key_id_input ex_snapshot (time_Unix (Unix (TransitVersionCreatedAt ex_snapshot)))
     in a \<noteq> b \<and> Sum256 a = Sum256 b))"
  using DeriveKeyID_binds_identity [OF ex_snapshot_DeriveKeyID ex_snapshot_DeriveKeyID]
    ex_snapshot_DeriveKeyID by simp

text \<open>
  \<open>ParseKeyID\<close> accepts exactly the strings made of the prefix \<open>obk2.\<close> and 43 characters of the
  URL-safe base64 alphabet, returns them unchanged, and rejects everything else with
  \<open>ErrMalformedKeyID\<close>.
\<close>

lemma ParseKeyID_syntax:
  "ParseKeyID k =
     (if \<exists>d. k = ''obk2.'' @ d \<and> length d = 43 \<and> set d \<subseteq> set b64_url
      then Inr k else Inl (Sentinel ErrMalformedKeyID))"
proof (cases "ParseKeyID k")
  case (Inl e)
  then show ?thesis
    using ParseKeyID_error [OF Inl] ParseKeyID_Inr [of k k] by (auto simp: keyIDPrefix_def)
next
  case (Inr k')
  then show ?thesis
    using ParseKeyID_Inr [of k k'] by (auto simp: keyIDPrefix_def)
qed

text \<open>
  Normalising a snapshot gives a canonical form: normalising again changes nothing, the
  embedded \<open>key_id\<close> is the derived one and is well formed, and neither the identity nor the
  lifecycle state nor the AAD mode changes.
\<close>

lemma Normalize_canonical:
  assumes "Normalize s = Inr n"
  shows "Normalize n = Inr n \<and> DeriveKeyID n = Inr (KubernetesKeyID n)
    \<and> ParseKeyID (KubernetesKeyID n) = Inr (KubernetesKeyID n)
    \<and> same_identity n s \<and> State n = State s \<and> AADMode n = AADMode s"
  using assms normalizable_normal_form [of s]
  by (auto simp: Normalize_Inr DeriveKeyID_Inr normalizable_def)

text \<open>
  A registry built by \<open>NewRegistry\<close> answers lookups exactly: a well-formed \<open>key_id\<close> resolves to
  a snapshot if and only if it is the derived identifier of the active snapshot or of a
  historical snapshot that was not removed, and the answer is that snapshot in normal form. The
  active identifier resolves to a snapshot in the active state.
\<close>

lemma NewRegistry_lookup:
  assumes "NewRegistry a hs = Inr r"
  shows "(Registry_Lookup r k = Inr s \<longleftrightarrow>
           (\<exists>h\<in>insert a (set hs). State h \<noteq> StateRemoved \<and> s = normal_form h \<and> k = derived_key_id h))
    \<and> Registry_Active r = Some (normal_form a)
    \<and> Registry_Lookup r (activeKeyID r) = Inr (normal_form a)"
proof -
  note nr = NewRegistry_Inr [OF assms]
  have ar: "StateActive \<noteq> StateRemoved" by (simp add: StateActive_def StateRemoved_def)
  have lk: "Registry_Lookup r k = Inr s \<longleftrightarrow>
           (\<exists>h\<in>insert a (set hs). State h \<noteq> StateRemoved \<and> s = normal_form h \<and> k = derived_key_id h)" for k s
    by (auto simp: Registry_Lookup_Inr nr(5))
  from ar nr(2,3) have "Registry_Active r = Some (normal_form a)"
    by (auto simp: Registry_Active_def nr(5))
  moreover from ar nr(2,3) have "Registry_Lookup r (activeKeyID r) = Inr (normal_form a)"
    by (auto simp: lk)
  ultimately show ?thesis using lk by blast
qed

end
