(* ===== verification/AAD.thy ===== *)
theory AAD
  imports Key_Registry
begin

text \<open>
  Annotations and associated data (\<^verbatim>\<open>internal/aad/aad.go\<close>): building and parsing the KMS
  annotations of a ciphertext, checking them against a key snapshot, the canonical associated
  data, and the preparation of a decrypt call.

  A Go \<open>map[string]string\<close> is an association list with distinct keys. Go iterates over a map in
  an unspecified order; the list order stands for that order, so what is proved for every list
  holds for every iteration order.
\<close>

section \<open>Annotations\<close>

type_synonym annotations = "(string \<times> string) list"

definition ProviderValue :: string where "ProviderValue = ''openbao-transit''"
definition AADVersionV1 :: string where "AADVersionV1 = ''v1''"
definition KeyProvider :: string where "KeyProvider = ''provider.kms.openbao.org''"
definition KeyKeyIDHash :: string where "KeyKeyIDHash = ''key-id-hash.kms.openbao.org''"
definition KeyTransitKeyVersion :: string where
  "KeyTransitKeyVersion = ''transit-key-version.kms.openbao.org''"
definition KeyTransitMountHash :: string where
  "KeyTransitMountHash = ''transit-mount-hash.kms.openbao.org''"
definition KeyTransitKeyHash :: string where
  "KeyTransitKeyHash = ''transit-key-hash.kms.openbao.org''"
definition KeyOpenBaoNamespaceHash :: string where
  "KeyOpenBaoNamespaceHash = ''openbao-namespace-hash.kms.openbao.org''"
definition KeyPluginVersion :: string where "KeyPluginVersion = ''plugin-version.kms.openbao.org''"
definition KeyAADVersion :: string where "KeyAADVersion = ''aad-version.kms.openbao.org''"
definition purposeValue :: string where "purposeValue = ''kubernetes-etcd-kms-v2''"

lemmas annotation_keys = KeyProvider_def KeyKeyIDHash_def KeyTransitKeyVersion_def
  KeyTransitMountHash_def KeyTransitKeyHash_def KeyOpenBaoNamespaceHash_def KeyPluginVersion_def
  KeyAADVersion_def

record ParsedAnnotations =
  Provider :: string
  KeyIDHash :: string
  TransitKeyVersion :: int
  TransitMountHash :: string
  TransitKeyHash :: string
  OpenBaoNamespaceHash :: string
  PluginVersion :: string
  AADVersion :: string

record DecryptAAD =
  Snapshot :: KeySnapshot
  Annotations :: ParsedAnnotations
  Canonical :: string
  TransitAssociatedData :: string

definition HashValue :: "string \<Rightarrow> string" where
  "HashValue value = RawURL_EncodeToString (Sum256 value)"

definition EncodeForTransit :: "string \<Rightarrow> string" where
  "EncodeForTransit canonicalAAD = Std_EncodeToString canonicalAAD"

definition RequireAADMode :: "KeySnapshot \<Rightarrow> unit res" where
  "RequireAADMode snapshot =
     failIf (AADMode snapshot \<noteq> AADModeRequired) (errw ErrAADRequired ''snapshot mode is not supported'')"

definition BuildAnnotations :: "KeySnapshot \<Rightarrow> string \<Rightarrow> annotations res" where
  "BuildAnnotations snapshot pluginVersion =
    (if pluginVersion = [] then Inl (errw ErrInvalidAnnotations ''plugin version is required'')
     else
       bindE (Normalize snapshot) (\<lambda>normalized.
       bindE (RequireAADMode normalized) (\<lambda>_.
       Inr ([(KeyProvider, ProviderValue),
             (KeyKeyIDHash, HashValue (KubernetesKeyID normalized)),
             (KeyTransitKeyVersion, Itoa (TransitVersion normalized)),
             (KeyTransitMountHash, HashValue (TransitMountID normalized)),
             (KeyTransitKeyHash, HashValue (TransitKeyLineageID normalized)),
             (KeyPluginVersion, pluginVersion),
             (KeyAADVersion, AADVersionV1)]
            @ (if OpenBaoNamespace normalized \<noteq> []
               then [(KeyOpenBaoNamespaceHash, HashValue (OpenBaoNamespace normalized))] else [])))))"

definition isDNS1123Label :: "string \<Rightarrow> bool" where
  "isDNS1123Label label =
    (if label = [] \<or> length label > 63 \<or> HasPrefix label ''-'' \<or> HasSuffix label ''-'' then False
     else list_all (\<lambda>(r, _). (97 \<le> r \<and> r \<le> 122) \<or> (48 \<le> r \<and> r \<le> 57) \<or> r = 45) (runes label))"

definition isFQDNAnnotationKey :: "string \<Rightarrow> bool" where
  "isFQDNAnnotationKey key =
    (if key = [] \<or> length key > 253 \<or> Contains key ''/'' \<or> \<not> Contains key ''.'' then False
     else list_all isDNS1123Label (split_on (CHR ''.'') key))"

definition validateAnnotationKeys :: "annotations \<Rightarrow> unit res" where
  "validateAnnotationKeys anns =
     forE (\<lambda>(key, _). failIf (\<not> isFQDNAnnotationKey key)
       (errw ErrInvalidAnnotations ''annotation key is not fully qualified'')) anns"

definition requiredValue :: "annotations \<Rightarrow> string \<Rightarrow> string res" where
  "requiredValue anns key =
    (case map_of anns key of
       None \<Rightarrow> Inl (errw ErrInvalidAnnotations (key @ '' is required''))
     | Some value \<Rightarrow>
         if value = [] then Inl (errw ErrInvalidAnnotations (key @ '' is required'')) else Inr value)"

definition validateHashValue :: "string \<Rightarrow> unit res" where
  "validateHashValue value =
    (if length value \<noteq> 43 then Inl (Sentinel ErrInvalidAnnotations)
     else case RawURL_DecodeString value of
       None \<Rightarrow> Inl (Sentinel ErrInvalidAnnotations)
     | Some decoded \<Rightarrow> failIf (length decoded \<noteq> 32) (Sentinel ErrInvalidAnnotations))"

definition requiredHash :: "annotations \<Rightarrow> string \<Rightarrow> string res" where
  "requiredHash anns key =
    bindE (requiredValue anns key) (\<lambda>value.
    case validateHashValue value of
      Inl _ \<Rightarrow> Inl (errw ErrInvalidAnnotations (key @ '' is invalid''))
    | Inr _ \<Rightarrow> Inr value)"

definition optionalHash :: "annotations \<Rightarrow> string \<Rightarrow> string res" where
  "optionalHash anns key =
    (case map_of anns key of
       None \<Rightarrow> Inr []
     | Some value \<Rightarrow>
         (case validateHashValue value of
            Inl _ \<Rightarrow> Inl (errw ErrInvalidAnnotations (key @ '' is invalid''))
          | Inr _ \<Rightarrow> Inr value))"

definition ParseAnnotations :: "annotations \<Rightarrow> ParsedAnnotations res" where
  "ParseAnnotations anns =
    bindE (failIf (anns = []) (errw ErrInvalidAnnotations ''required annotations are missing'')) (\<lambda>_.
    bindE (validateAnnotationKeys anns) (\<lambda>_.
    bindE (requiredValue anns KeyProvider) (\<lambda>provider.
    bindE (failIf (provider \<noteq> ProviderValue)
             (errw ErrInvalidAnnotations ''provider marker is invalid'')) (\<lambda>_.
    bindE (requiredHash anns KeyKeyIDHash) (\<lambda>keyIDHash.
    bindE (requiredHash anns KeyTransitMountHash) (\<lambda>transitMountHash.
    bindE (requiredHash anns KeyTransitKeyHash) (\<lambda>transitKeyHash.
    bindE (optionalHash anns KeyOpenBaoNamespaceHash) (\<lambda>namespaceHash.
    bindE (requiredValue anns KeyTransitKeyVersion) (\<lambda>versionText.
    bindE (case Atoi versionText of
             None \<Rightarrow> Inl (errw ErrInvalidAnnotations ''transit key version is invalid'')
           | Some v \<Rightarrow>
               if v \<le> 0 then Inl (errw ErrInvalidAnnotations ''transit key version is invalid'')
               else Inr v) (\<lambda>transitVersion.
    bindE (requiredValue anns KeyPluginVersion) (\<lambda>pluginVersion.
    bindE (requiredValue anns KeyAADVersion) (\<lambda>aadVersion.
    bindE (failIf (aadVersion \<noteq> AADVersionV1)
             (errw ErrInvalidAnnotations ''AAD version is unsupported'')) (\<lambda>_.
    Inr \<lparr>Provider = provider, KeyIDHash = keyIDHash, TransitKeyVersion = transitVersion,
         TransitMountHash = transitMountHash, TransitKeyHash = transitKeyHash,
         OpenBaoNamespaceHash = namespaceHash, PluginVersion = pluginVersion,
         AADVersion = aadVersion\<rparr>)))))))))))))"

definition ValidateForSnapshot :: "KeySnapshot \<Rightarrow> ParsedAnnotations \<Rightarrow> unit res" where
  "ValidateForSnapshot snapshot anns =
    bindE (Normalize snapshot) (\<lambda>normalized.
    bindE (RequireAADMode normalized) (\<lambda>_.
    bindE (failIf (Provider anns \<noteq> ProviderValue)
             (errw ErrAnnotationMismatch ''provider marker mismatch'')) (\<lambda>_.
    bindE (failIf (AADVersion anns \<noteq> AADVersionV1)
             (errw ErrAnnotationMismatch ''AAD version mismatch'')) (\<lambda>_.
    bindE (failIf (TransitKeyVersion anns \<noteq> TransitVersion normalized)
             (errw ErrAnnotationMismatch ''transit key version mismatch'')) (\<lambda>_.
    bindE (failIf (KeyIDHash anns \<noteq> HashValue (KubernetesKeyID normalized))
             (errw ErrAnnotationMismatch ''key_id hash mismatch'')) (\<lambda>_.
    bindE (failIf (TransitMountHash anns \<noteq> HashValue (TransitMountID normalized))
             (errw ErrAnnotationMismatch ''transit mount hash mismatch'')) (\<lambda>_.
    bindE (failIf (TransitKeyHash anns \<noteq> HashValue (TransitKeyLineageID normalized))
             (errw ErrAnnotationMismatch ''transit key hash mismatch'')) (\<lambda>_.
    let expectedNamespaceHash =
          (if OpenBaoNamespace normalized \<noteq> [] then HashValue (OpenBaoNamespace normalized) else [])
    in failIf (OpenBaoNamespaceHash anns \<noteq> expectedNamespaceHash)
             (errw ErrAnnotationMismatch ''OpenBao namespace hash mismatch'')))))))))"

section \<open>Canonical associated data\<close>

text \<open>
  \<open>json.Marshal\<close> of the envelope. It cannot fail: every member is a string.
\<close>

definition aadEnvelopeV1 :: "KeySnapshot \<Rightarrow> ParsedAnnotations \<Rightarrow> (string \<times> string) list" where
  "aadEnvelopeV1 normalized parsed =
     [(''aad_version'', json_string AADVersionV1),
      (''purpose'', json_string purposeValue),
      (''provider'', json_string ProviderValue),
      (''provider_name'', json_string (ProviderName normalized)),
      (''cluster_id_hash'', json_string (HashValue (ClusterID normalized))),
      (''openbao_instance_hash'', json_string (HashValue (OpenBaoInstanceID normalized)))]
     @ omitempty (OpenBaoNamespaceHash parsed = []) ''openbao_namespace_hash''
         (json_string (OpenBaoNamespaceHash parsed))
     @ [(''transit_mount_hash'', json_string (TransitMountHash parsed)),
        (''transit_key_hash'', json_string (TransitKeyHash parsed)),
        (''key_id_hash'', json_string (KeyIDHash parsed)),
        (''key_version'', json_string (Itoa (TransitVersion normalized)))]"

definition buildCanonicalFromParsed :: "KeySnapshot \<Rightarrow> ParsedAnnotations \<Rightarrow> string res" where
  "buildCanonicalFromParsed snapshot parsed =
    bindE (Normalize snapshot) (\<lambda>normalized. Inr (json_object (aadEnvelopeV1 normalized parsed)))"

definition BuildCanonical :: "KeySnapshot \<Rightarrow> annotations \<Rightarrow> string res" where
  "BuildCanonical snapshot anns =
    bindE (ParseAnnotations anns) (\<lambda>parsed.
    bindE (ValidateForSnapshot snapshot parsed) (\<lambda>_.
    buildCanonicalFromParsed snapshot parsed))"

text \<open>The registry argument is the \<open>Lookup\<close> method of a \<open>SnapshotLookup\<close>.\<close>

definition PrepareDecrypt ::
  "(string \<Rightarrow> KeySnapshot res) \<Rightarrow> string \<Rightarrow> annotations \<Rightarrow> DecryptAAD res" where
  "PrepareDecrypt registry_Lookup keyID anns =
    bindE (registry_Lookup keyID) (\<lambda>snapshot.
    bindE (RequireAADMode snapshot) (\<lambda>_.
    bindE (ParseAnnotations anns) (\<lambda>parsed.
    bindE (ValidateForSnapshot snapshot parsed) (\<lambda>_.
    bindE (buildCanonicalFromParsed snapshot parsed) (\<lambda>canonical.
    Inr \<lparr>Snapshot = snapshot, Annotations = parsed, Canonical = canonical,
         TransitAssociatedData = EncodeForTransit canonical\<rparr>)))))"

section \<open>Properties\<close>

lemma HashValue_digest64: "HashValue v = digest64 v"
  by (simp add: HashValue_def digest64_def)

lemma validateHashValue_digest [simp]: "validateHashValue (digest64 m) = Inr ()"
  by (simp add: validateHashValue_def)

lemma annotation_keys_fqdn [simp]:
  "isFQDNAnnotationKey KeyProvider" "isFQDNAnnotationKey KeyKeyIDHash"
  "isFQDNAnnotationKey KeyTransitKeyVersion" "isFQDNAnnotationKey KeyTransitMountHash"
  "isFQDNAnnotationKey KeyTransitKeyHash" "isFQDNAnnotationKey KeyOpenBaoNamespaceHash"
  "isFQDNAnnotationKey KeyPluginVersion" "isFQDNAnnotationKey KeyAADVersion"
  by code_simp+

lemma annotation_values_not_Nil [simp]: "ProviderValue \<noteq> []" "AADVersionV1 \<noteq> []"
  by (simp_all add: ProviderValue_def AADVersionV1_def)

text \<open>What \<open>ParseAnnotations\<close> reads back from the annotations that \<open>BuildAnnotations\<close> writes.\<close>

definition parsed_for :: "KeySnapshot \<Rightarrow> string \<Rightarrow> ParsedAnnotations" where
  "parsed_for s pluginVersion =
     \<lparr>Provider = ProviderValue, KeyIDHash = HashValue (derived_key_id s),
      TransitKeyVersion = TransitVersion s, TransitMountHash = HashValue (TransitMountID s),
      TransitKeyHash = HashValue (TransitKeyLineageID s),
      OpenBaoNamespaceHash = (if OpenBaoNamespace s \<noteq> [] then HashValue (OpenBaoNamespace s) else []),
      PluginVersion = pluginVersion, AADVersion = AADVersionV1\<rparr>"

lemma normal_form_fields [simp]:
  "ProviderName (normal_form s) = ProviderName s" "ClusterID (normal_form s) = ClusterID s"
  "OpenBaoInstanceID (normal_form s) = OpenBaoInstanceID s"
  "OpenBaoNamespace (normal_form s) = OpenBaoNamespace s"
  "TransitMountID (normal_form s) = TransitMountID s"
  "TransitKeyLineageID (normal_form s) = TransitKeyLineageID s"
  by (simp_all add: normal_form_def)

lemma normalizable_RequireAADMode [simp]:
  "normalizable s \<Longrightarrow> RequireAADMode (normal_form s) = Inr ()"
  "normalizable s \<Longrightarrow> RequireAADMode s = Inr ()"
  by (simp_all add: RequireAADMode_def normalizable_def AADMode_Valid_def)

lemma BuildAnnotations_succeeds:
  "normalizable s \<Longrightarrow> pluginVersion \<noteq> [] \<Longrightarrow> \<exists>anns. BuildAnnotations s pluginVersion = Inr anns"
  by (simp add: BuildAnnotations_def Normalize_Inr)

lemma ParseAnnotations_BuildAnnotations:
  assumes "BuildAnnotations s pv = Inr anns" and "in_i64 (TransitVersion s)"
  shows "ParseAnnotations anns = Inr (parsed_for s pv)"
proof -
  from assms(1) have pv: "pv \<noteq> []" and n: "normalizable s"
    and anns: "anns = [(KeyProvider, ProviderValue),
             (KeyKeyIDHash, HashValue (derived_key_id s)),
             (KeyTransitKeyVersion, Itoa (TransitVersion s)),
             (KeyTransitMountHash, HashValue (TransitMountID s)),
             (KeyTransitKeyHash, HashValue (TransitKeyLineageID s)),
             (KeyPluginVersion, pv),
             (KeyAADVersion, AADVersionV1)]
            @ (if OpenBaoNamespace s \<noteq> []
               then [(KeyOpenBaoNamespaceHash, HashValue (OpenBaoNamespace s))] else [])"
    by (auto simp: BuildAnnotations_def Normalize_Inr split: if_splits)
  have "0 < TransitVersion s"
    using n by (simp add: normalizable_def identity_complete_def)
  have look: "map_of anns KeyProvider = Some ProviderValue"
      "map_of anns KeyKeyIDHash = Some (digest64 (derived_key_id s))"
      "map_of anns KeyTransitKeyVersion = Some (Itoa (TransitVersion s))"
      "map_of anns KeyTransitMountHash = Some (digest64 (TransitMountID s))"
      "map_of anns KeyTransitKeyHash = Some (digest64 (TransitKeyLineageID s))"
      "map_of anns KeyPluginVersion = Some pv" "map_of anns KeyAADVersion = Some AADVersionV1"
      "map_of anns KeyOpenBaoNamespaceHash =
         (if OpenBaoNamespace s \<noteq> [] then Some (digest64 (OpenBaoNamespace s)) else None)"
    by (simp_all add: anns HashValue_digest64 annotation_keys)
  have keys: "anns \<noteq> []" "validateAnnotationKeys anns = Inr ()"
    by (auto simp: anns validateAnnotationKeys_def split: if_splits)
  have "requiredValue anns k = Inr v" if "map_of anns k = Some v" "v \<noteq> []" for k v
    using that by (simp add: requiredValue_def)
  note rv = this [OF look(1)] this [OF look(2)] this [OF look(3)] this [OF look(4)] this [OF look(5)]
    this [OF look(6)] this [OF look(7)]
  have oh: "optionalHash anns KeyOpenBaoNamespaceHash
      = Inr (if OpenBaoNamespace s \<noteq> [] then digest64 (OpenBaoNamespace s) else [])"
    by (simp add: optionalHash_def look(8))
  show ?thesis
    using \<open>0 < TransitVersion s\<close> pv assms(2)
    by (simp add: ParseAnnotations_def keys rv requiredHash_def oh parsed_for_def HashValue_digest64)
qed

lemma ValidateForSnapshot_Inr:
  "ValidateForSnapshot s p = Inr u \<longleftrightarrow> normalizable s \<and> p = parsed_for s (PluginVersion p)"
  by (cases p) (auto simp: ValidateForSnapshot_def Normalize_Inr parsed_for_def Let_def)

text \<open>The canonical associated data of a snapshot.\<close>

definition canonical_for :: "KeySnapshot \<Rightarrow> string" where
  "canonical_for s = json_object (aadEnvelopeV1 (normal_form s) (parsed_for s []))"

lemma aadEnvelope_plugin: "aadEnvelopeV1 n (parsed_for s pv) = aadEnvelopeV1 n (parsed_for s [])"
  by (simp add: aadEnvelopeV1_def parsed_for_def)

lemma buildCanonical_parsed_for:
  "normalizable s \<Longrightarrow> buildCanonicalFromParsed s (parsed_for s pv) = Inr (canonical_for s)"
  by (simp add: buildCanonicalFromParsed_def Normalize_Inr canonical_for_def aadEnvelope_plugin [of _ _ pv])

lemma BuildCanonical_Inr:
  assumes "BuildCanonical s anns = Inr c"
  shows "normalizable s" and "c = canonical_for s"
proof -
  from assms obtain p where p: "ParseAnnotations anns = Inr p" "ValidateForSnapshot s p = Inr ()"
    and c: "buildCanonicalFromParsed s p = Inr c"
    by (auto simp: BuildCanonical_def)
  from p(2) have "normalizable s" and pf: "p = parsed_for s (PluginVersion p)"
    by (simp_all add: ValidateForSnapshot_Inr)
  then show "normalizable s" by simp
  with c pf show "c = canonical_for s"
    using buildCanonical_parsed_for [of s "PluginVersion p"] by simp
qed

lemma BuildCanonical_BuildAnnotations:
  assumes "BuildAnnotations s pv = Inr anns" and "in_i64 (TransitVersion s)"
  shows "BuildCanonical s anns = Inr (canonical_for s)"
proof -
  have n: "normalizable s"
    using assms(1) by (auto simp: BuildAnnotations_def Normalize_Inr split: if_splits)
  then show ?thesis
    by (simp add: BuildCanonical_def ParseAnnotations_BuildAnnotations [OF assms] ValidateForSnapshot_Inr
        buildCanonical_parsed_for) (simp add: parsed_for_def)
qed

text \<open>Associated data depends on the identity only, not on the lifecycle state.\<close>

lemma parsed_for_cong: "same_identity s t \<Longrightarrow> parsed_for s pv = parsed_for t pv"
  using derived_key_id_cong [of s t] by (simp add: parsed_for_def same_identity_def)

lemma canonical_for_cong: "same_identity s t \<Longrightarrow> canonical_for s = canonical_for t"
  using parsed_for_cong [of s t] by (simp add: canonical_for_def aadEnvelopeV1_def same_identity_def)

lemma PrepareDecrypt_Inr:
  "PrepareDecrypt lk k anns = Inr d \<longleftrightarrow>
     (\<exists>s p. lk k = Inr s \<and> normalizable s \<and> ParseAnnotations anns = Inr p \<and> p = parsed_for s (PluginVersion p)
        \<and> d = \<lparr>Snapshot = s, Annotations = p, Canonical = canonical_for s,
               TransitAssociatedData = EncodeForTransit (canonical_for s)\<rparr>)"
  (is "?l \<longleftrightarrow> ?r")
proof
  assume ?l
  then obtain s p c where "lk k = Inr s" "ParseAnnotations anns = Inr p" "ValidateForSnapshot s p = Inr ()"
    "buildCanonicalFromParsed s p = Inr c"
    "d = \<lparr>Snapshot = s, Annotations = p, Canonical = c, TransitAssociatedData = EncodeForTransit c\<rparr>"
    by (auto simp: PrepareDecrypt_def)
  then show ?r
    using buildCanonical_parsed_for [of s "PluginVersion p"] by (auto simp: ValidateForSnapshot_Inr)
next
  assume ?r
  then obtain s p where "lk k = Inr s" "normalizable s" "ParseAnnotations anns = Inr p"
    and p: "p = parsed_for s (PluginVersion p)"
    and "d = \<lparr>Snapshot = s, Annotations = p, Canonical = canonical_for s,
               TransitAssociatedData = EncodeForTransit (canonical_for s)\<rparr>" by blast
  moreover have "buildCanonicalFromParsed s p = Inr (canonical_for s)"
    by (subst p) (simp add: buildCanonical_parsed_for \<open>normalizable s\<close>)
  moreover have "ValidateForSnapshot s p = Inr ()"
    using p \<open>normalizable s\<close> by (simp add: ValidateForSnapshot_Inr)
  ultimately show ?l by (simp add: PrepareDecrypt_def)
qed

text \<open>Annotations built for a snapshot prepare a decryption with every snapshot of the same identity.\<close>

lemma PrepareDecrypt_built:
  assumes "lk k = Inr t" and "normalizable t" and "same_identity s t"
    and "BuildAnnotations s pv = Inr anns" and "in_i64 (TransitVersion s)"
  shows "\<exists>d. PrepareDecrypt lk k anns = Inr d \<and> Snapshot d = t \<and> Canonical d = canonical_for s"
  using assms ParseAnnotations_BuildAnnotations [OF assms(4,5)] parsed_for_cong [OF assms(3)]
    canonical_for_cong [OF assms(3)]
  by (auto simp: PrepareDecrypt_Inr) (simp add: parsed_for_def)

section \<open>The associated data binds the key\<close>

definition json_safe :: "char \<Rightarrow> bool" where
  "json_safe c \<longleftrightarrow> 32 \<le> byte_val c \<and> byte_val c < 128 \<and> byte_val c \<notin> {34, 38, 60, 62, 92}"

lemma json_body_safe: "list_all json_safe s \<Longrightarrow> json_body s = s"
proof (induction s)
  case Nil
  then show ?case by (simp add: json_body.simps)
next
  case (Cons c s)
  then have "json_rune (decode_rune (c # s)) (c # s) = [c]"
    by (simp add: decode_rune_ascii json_safe_def json_rune_def)
  with Cons show ?case
    by (subst json_body.simps) (simp add: decode_rune_ascii json_safe_def)
qed

lemma json_string_safe: "list_all json_safe s \<Longrightarrow> json_string s = CHR 0x22 # s @ [CHR 0x22]"
  by (simp add: json_string_def json_body_safe)

lemma b64_url_safe: "list_all json_safe b64_url"
  by code_simp

lemma digest64_safe: "list_all json_safe (digest64 m)"
  using b64_url_safe digest64_chars [of m] by (auto simp: list_all_iff)

lemma Itoa_safe: "list_all json_safe (Itoa v)"
  by (auto simp: list_all_iff json_safe_def is_digit_def dest!: Itoa_chars)

lemma json_members_last2:
  "\<exists>pre. json_members (ms @ [(k1, v1), (k2, v2)])
     = pre @ json_string k1 @ '':'' @ v1 @ '','' @ json_string k2 @ '':'' @ v2"
proof (induction ms)
  case Nil
  then show ?case by simp
next
  case (Cons m ms)
  obtain k v where m: "m = (k, v)" by (cases m)
  from Cons obtain pre where pre: "json_members (ms @ [(k1, v1), (k2, v2)])
     = pre @ json_string k1 @ '':'' @ v1 @ '','' @ json_string k2 @ '':'' @ v2" by blast
  have "json_members (m # (ms @ [(k1, v1), (k2, v2)]))
      = json_string k @ '':'' @ v @ '','' @ json_members (ms @ [(k1, v1), (k2, v2)])"
    by (cases ms) (simp_all add: m)
  with pre show ?case
    by (metis append.assoc append_Cons)
qed

lemma canonical_for_suffix:
  "\<exists>pre. canonical_for s = pre @ digest64 (derived_key_id s)
     @ (CHR 0x22 # '','' @ json_string ''key_version'' @ '':'' @ [CHR 0x22]) @ Itoa (TransitVersion s)
     @ [CHR 0x22] @ ''}''"
proof -
  obtain ms where ms: "aadEnvelopeV1 (normal_form s) (parsed_for s []) = ms @
      [(''key_id_hash'', json_string (HashValue (derived_key_id s))),
       (''key_version'', json_string (Itoa (TransitVersion s)))]"
    by (simp add: aadEnvelopeV1_def parsed_for_def)
  obtain pre where "json_members (ms @ [(''key_id_hash'', json_string (HashValue (derived_key_id s))),
       (''key_version'', json_string (Itoa (TransitVersion s)))])
     = pre @ json_string ''key_id_hash'' @ '':'' @ json_string (HashValue (derived_key_id s)) @ '',''
         @ json_string ''key_version'' @ '':'' @ json_string (Itoa (TransitVersion s))"
    using json_members_last2 by blast
  then have "canonical_for s = (''{'' @ pre @ json_string ''key_id_hash'' @ '':'' @ [CHR 0x22])
     @ digest64 (derived_key_id s)
     @ (CHR 0x22 # '','' @ json_string ''key_version'' @ '':'' @ [CHR 0x22]) @ Itoa (TransitVersion s)
     @ [CHR 0x22] @ ''}''"
    by (simp add: canonical_for_def ms json_object_def HashValue_digest64
        json_string_safe [OF digest64_safe] json_string_safe [OF Itoa_safe])
  then show ?thesis by blast
qed

text \<open>Two lists that end in a quoted run of safe characters agree on the run and on what precedes it.\<close>

lemma quoted_suffix_eq:
  assumes "x @ q # v = y @ q # w" and "q \<notin> set v" and "q \<notin> set w"
  shows "x = y \<and> v = w"
proof -
  have tw: "takeWhile (\<lambda>c. c \<noteq> q) (rev u @ q # z) = rev u" if "q \<notin> set u" for u z
    using that by (induction u rule: rev_induct) auto
  have "rev v @ q # rev x = rev w @ q # rev y"
    using arg_cong [OF assms(1), of rev] by simp
  then have "rev v = rev w"
    using tw [OF assms(2), of "rev x"] tw [OF assms(3), of "rev y"] by simp
  then show ?thesis using assms(1) by simp
qed

lemma Itoa_no_quote: "CHR 0x22 \<notin> set (Itoa v)"
  using Itoa_safe [of v] by (auto simp: list_all_iff json_safe_def)

lemma canonical_for_inj:
  assumes "canonical_for s = canonical_for t"
  shows "TransitVersion s = TransitVersion t" and "digest64 (derived_key_id s) = digest64 (derived_key_id t)"
proof -
  let ?mid = "\<lambda>p s. (p @ digest64 (derived_key_id s) @ (CHR 0x22 # '','' @ json_string ''key_version'' @ '':''))"
  obtain p q where p: "canonical_for s = ?mid p s @ CHR 0x22 # Itoa (TransitVersion s) @ [CHR 0x22] @ ''}''"
    and q: "canonical_for t = ?mid q t @ CHR 0x22 # Itoa (TransitVersion t) @ [CHR 0x22] @ ''}''"
    using canonical_for_suffix [of s] canonical_for_suffix [of t] by auto
  from p q assms have "?mid p s @ CHR 0x22 # Itoa (TransitVersion s) = ?mid q t @ CHR 0x22 # Itoa (TransitVersion t)"
    by simp
  from quoted_suffix_eq [OF this Itoa_no_quote Itoa_no_quote]
  have mid: "?mid p s = ?mid q t" and iv: "Itoa (TransitVersion s) = Itoa (TransitVersion t)" by blast+
  from iv show "TransitVersion s = TransitVersion t" by (rule Itoa_inj)
  from mid have "p @ digest64 (derived_key_id s) = q @ digest64 (derived_key_id t)" by simp
  then show "digest64 (derived_key_id s) = digest64 (derived_key_id t)"
    by (simp add: append_eq_append_conv)
qed

section \<open>What a lookup provider guarantees for decryption\<close>

context snapshot_lookup
begin

lemma PrepareDecrypt_sound:
  assumes "inv r" and "PrepareDecrypt (lookup r) k anns = Inr d"
  shows "lookup r k = Inr (Snapshot d)" and "KubernetesKeyID (Snapshot d) = k"
    and "Canonical d = canonical_for (Snapshot d)" and "KeyIDHash (Annotations d) = HashValue k"
proof -
  from assms(2) obtain s p where s: "lookup r k = Inr s" and p: "p = parsed_for s (PluginVersion p)"
    and d: "d = \<lparr>Snapshot = s, Annotations = p, Canonical = canonical_for s,
               TransitAssociatedData = EncodeForTransit (canonical_for s)\<rparr>"
    by (auto simp: PrepareDecrypt_Inr)
  from lookup_key [OF assms(1) s] lookup_normal [OF assms(1) s]
  have k: "KubernetesKeyID s = k" "k = derived_key_id s" by (simp_all add: Normalize_fixpoint)
  from s d show "lookup r k = Inr (Snapshot d)" by simp
  from k(1) d show "KubernetesKeyID (Snapshot d) = k" by simp
  from d show "Canonical d = canonical_for (Snapshot d)" by simp
  have "KeyIDHash p = HashValue k" by (subst p) (simp add: parsed_for_def k(2))
  with d show "KeyIDHash (Annotations d) = HashValue k" by simp
qed

lemma PrepareDecrypt_complete:
  assumes "lookup r k = Inr t" and "normalizable t" and "same_identity s t"
    and "BuildAnnotations s pv = Inr anns" and "in_i64 (TransitVersion s)"
  shows "\<exists>d. PrepareDecrypt (lookup r) k anns = Inr d \<and> Snapshot d = t \<and> Canonical d = canonical_for s"
  using assms by (rule PrepareDecrypt_built)

lemma PrepareDecrypt_malformed:
  "ParseKeyID k = Inl e \<Longrightarrow> PrepareDecrypt (lookup r) k anns = Inl e"
  by (simp add: PrepareDecrypt_def lookup_malformed)

end

section \<open>Main results\<close>

lemma ex_snapshot_i64 [simp]: "in_i64 (TransitVersion ex_snapshot)"
  by (simp add: ex_snapshot_def in_i64_def)

definition ex_annotations :: annotations where
  "ex_annotations =
     [(KeyProvider, ProviderValue), (KeyKeyIDHash, HashValue (derived_key_id ex_snapshot)),
      (KeyTransitKeyVersion, Itoa 1), (KeyTransitMountHash, HashValue ''transit''),
      (KeyTransitKeyHash, HashValue ''k8s-etcd''), (KeyPluginVersion, ''v0.1.0''),
      (KeyAADVersion, AADVersionV1)]"

lemma ex_BuildAnnotations: "BuildAnnotations ex_snapshot ''v0.1.0'' = Inr ex_annotations"
  by (simp add: BuildAnnotations_def Normalize_Inr ex_annotations_def) (simp add: ex_snapshot_def)

lemma ex_Lookup: "Registry_Lookup ex_registry (derived_key_id ex_snapshot) = Inr (normal_form ex_snapshot)"
  by (simp add: Registry_Lookup_Inr) (simp add: ex_registry_def)

text \<open>
  Annotations survive the round trip: what \<open>BuildAnnotations\<close> writes for a snapshot,
  \<open>ParseAnnotations\<close> accepts and reads back, and the result passes \<open>ValidateForSnapshot\<close> for that
  snapshot, so \<open>BuildCanonical\<close> succeeds on it.
\<close>

lemma annotations_roundtrip:
  assumes "BuildAnnotations s pv = Inr anns" and "in_i64 (TransitVersion s)"
  shows "\<exists>p. ParseAnnotations anns = Inr p \<and> PluginVersion p = pv \<and> TransitKeyVersion p = TransitVersion s
      \<and> ValidateForSnapshot s p = Inr () \<and> (\<exists>c. BuildCanonical s anns = Inr c)"
proof -
  have "normalizable s"
    using assms(1) by (auto simp: BuildAnnotations_def Normalize_Inr split: if_splits)
  then show ?thesis
    using ParseAnnotations_BuildAnnotations [OF assms] BuildCanonical_BuildAnnotations [OF assms]
    by (auto simp: ValidateForSnapshot_Inr parsed_for_def)
qed

text \<open>
  Associated data outlives rotation: a ciphertext whose annotations and associated data were
  built when its snapshot was active is prepared for decryption, with byte-identical associated
  data, by any well-formed registry that still resolves the \<open>key_id\<close> to a snapshot of the same
  identity, whatever its lifecycle state has become.
\<close>

lemma aad_survives_rotation:
  assumes "BuildAnnotations s pv = Inr anns" and "BuildCanonical s anns = Inr c"
    and "registry_wf r" and "Registry_Lookup r k = Inr t" and "same_identity s t"
    and "in_i64 (TransitVersion s)"
  shows "\<exists>d. PrepareDecrypt (Registry_Lookup r) k anns = Inr d \<and> Snapshot d = t \<and> Canonical d = c
           \<and> TransitAssociatedData d = EncodeForTransit c"
proof -
  have "normalizable t"
    using registry.lookup_normal [OF assms(3,4)] by (simp add: Normalize_fixpoint)
  from registry.PrepareDecrypt_complete [OF assms(4) this assms(5,1,6)]
  show ?thesis
    using BuildCanonical_Inr [OF assms(2)] by (auto simp: PrepareDecrypt_Inr)
qed

text \<open>
  C15 The associated data binds the ciphertext to one key version: if two snapshots have the same
  canonical associated data, they have the same Transit version and the same identity, or there is
  an explicit SHA-256 collision, either of the two \<open>key_id\<close> strings or of the two inputs they were
  derived from.
\<close>

theorem BuildCanonical_binds_key:
  assumes "BuildCanonical s anns = Inr c" and "BuildCanonical t anns' = Inr c"
    and "nul_free_identity s" and "nul_free_identity t"
  shows "TransitVersion s = TransitVersion t \<and>
    (same_identity s t
     \<or> (derived_key_id s \<noteq> derived_key_id t \<and> Sum256 (derived_key_id s) = Sum256 (derived_key_id t))
     \<or> (let a = key_id_input s (time_Unix (Unix (TransitVersionCreatedAt s)));
            b = key_id_input t (time_Unix (Unix (TransitVersionCreatedAt t)))
        in a \<noteq> b \<and> Sum256 a = Sum256 b))"
proof -
  have ns: "identity_complete s" "identity_complete t"
    using BuildCanonical_Inr(1) [OF assms(1)] BuildCanonical_Inr(1) [OF assms(2)]
    by (simp_all add: normalizable_def)
  have eq: "canonical_for s = canonical_for t"
    using BuildCanonical_Inr(2) [OF assms(1)] BuildCanonical_Inr(2) [OF assms(2)] by simp
  show ?thesis
    using canonical_for_inj [OF eq] key_id_input_inj [OF ns assms(3,4)]
    by (auto simp: derived_key_id_eq Let_def)
qed

theorem BuildCanonical_binds_key_witness:
  "BuildCanonical ex_snapshot ex_annotations = Inr (canonical_for ex_snapshot) \<and>
   (same_identity ex_snapshot ex_snapshot
     \<or> (derived_key_id ex_snapshot \<noteq> derived_key_id ex_snapshot)
     \<or> (let a = key_id_input ex_snapshot (time_Unix (Unix (TransitVersionCreatedAt ex_snapshot)))
        in a \<noteq> a))"
proof -
  have h: "BuildCanonical ex_snapshot ex_annotations = Inr (canonical_for ex_snapshot)"
    by (rule BuildCanonical_BuildAnnotations [OF ex_BuildAnnotations]) simp
  show ?thesis using h BuildCanonical_binds_key [OF h h] by simp
qed

text \<open>
  Every decrypt that reaches Transit has been checked: when \<open>PrepareDecrypt\<close> succeeds on a
  well-formed registry, the requested \<open>key_id\<close> resolved to a snapshot filed under exactly that
  identifier, the annotations carry the hash of that \<open>key_id\<close> and the snapshot's Transit version, and
  the associated data is the one \<open>BuildCanonical\<close> computes for that snapshot.
\<close>

lemma PrepareDecrypt_checked:
  assumes "registry_wf r" and "PrepareDecrypt (Registry_Lookup r) k anns = Inr d"
  shows "Registry_Lookup r k = Inr (Snapshot d) \<and> KubernetesKeyID (Snapshot d) = k
    \<and> ParseAnnotations anns = Inr (Annotations d) \<and> KeyIDHash (Annotations d) = HashValue k
    \<and> TransitKeyVersion (Annotations d) = TransitVersion (Snapshot d)
    \<and> BuildCanonical (Snapshot d) anns = Inr (Canonical d)"
proof -
  from assms(2) obtain s p where "normalizable s" and pa: "ParseAnnotations anns = Inr p"
    and p: "p = parsed_for s (PluginVersion p)" and d: "Snapshot d = s" "Annotations d = p" "Canonical d = canonical_for s"
    by (auto simp: PrepareDecrypt_Inr)
  then have "BuildCanonical s anns = Inr (canonical_for s)"
    using buildCanonical_parsed_for [of s "PluginVersion p"]
    by (simp add: BuildCanonical_def ValidateForSnapshot_Inr)
  moreover have "TransitKeyVersion p = TransitVersion s"
    by (subst p) (simp add: parsed_for_def)
  ultimately show ?thesis
    using registry.PrepareDecrypt_sound [OF assms] pa d by simp
qed

end
