(* ===== verification/State_File.thy ===== *)
theory State_File
  imports AAD
begin

text \<open>
  The persisted registry state (\<^verbatim>\<open>internal/keyregistry/state.go\<close>, and
  \<^verbatim>\<open>validateRetainedSnapshots\<close> of \<^verbatim>\<open>retirement.go\<close>): snapshot records, the hash-chained state
  file, its validation, the registry it stands for, the progress rule between two generations and
  the replay checkpoint. \<open>Generation\<close> is a \<open>uint64\<close>, so \<open>Generation + 1\<close> wraps around.
\<close>

section \<open>Data\<close>

definition stateFileVersion :: string where
  "stateFileVersion = ''keyregistry.openbao-kms/v1alpha2''"
definition stateCheckpointVersion :: string where
  "stateCheckpointVersion = ''keyregistry.openbao-kms/checkpoint/v1alpha1''"
definition stateHashPrefix :: string where "stateHashPrefix = ''krs1.''"

record SnapshotStateRecord =
  r_ProviderName :: string
  r_ClusterID :: string
  r_OpenBaoInstanceID :: string
  r_OpenBaoNamespace :: string
  r_TransitMountID :: string
  r_TransitKeyLineageID :: string
  r_TransitVersion :: int
  r_TransitVersionCreatedAtUnix :: int
  r_KubernetesKeyID :: string
  r_State :: string
  r_AADMode :: string
  r_ObservedAtUnix :: int
  r_StableObservationCount :: int
  r_StableAtUnix :: int
  r_PromotedAtUnix :: int

record StateFile =
  SchemaVersion :: string
  IdentityFingerprint :: string
  Generation :: u64
  PreviousHash :: string
  CurrentHash :: string
  ActiveKeyID :: string
  Snapshots :: "SnapshotStateRecord list"

record StateCheckpoint =
  c_SchemaVersion :: string
  c_Generation :: u64
  c_CurrentHash :: string

record StateLoadOptions =
  MinimumGeneration :: u64
  ExpectedHash :: string

section \<open>Records\<close>

definition SnapshotStateRecordFromSnapshot :: "KeySnapshot \<Rightarrow> SnapshotStateRecord" where
  "SnapshotStateRecordFromSnapshot snapshot =
     \<lparr>r_ProviderName = ProviderName snapshot,
      r_ClusterID = ClusterID snapshot,
      r_OpenBaoInstanceID = OpenBaoInstanceID snapshot,
      r_OpenBaoNamespace = OpenBaoNamespace snapshot,
      r_TransitMountID = TransitMountID snapshot,
      r_TransitKeyLineageID = TransitKeyLineageID snapshot,
      r_TransitVersion = TransitVersion snapshot,
      r_TransitVersionCreatedAtUnix = Unix (TransitVersionCreatedAt snapshot),
      r_KubernetesKeyID = KubernetesKeyID snapshot,
      r_State = State snapshot,
      r_AADMode = AADMode snapshot,
      r_ObservedAtUnix = 0,
      r_StableObservationCount = 0,
      r_StableAtUnix = 0,
      r_PromotedAtUnix = 0\<rparr>"

definition validateObservationMetadata :: "SnapshotStateRecord \<Rightarrow> unit res" where
  "validateObservationMetadata record =
    bindE (failIf (r_ObservedAtUnix record < 0)
      (errw ErrStateCorrupt ''observed time must not be negative'')) (\<lambda>_.
    bindE (failIf (r_StableObservationCount record < 0)
      (errw ErrStateCorrupt ''stable observation count must not be negative'')) (\<lambda>_.
    bindE (failIf (r_StableAtUnix record < 0)
      (errw ErrStateCorrupt ''stable time must not be negative'')) (\<lambda>_.
    bindE (failIf (r_PromotedAtUnix record < 0)
      (errw ErrStateCorrupt ''promoted time must not be negative'')) (\<lambda>_.
    bindE (failIf (r_StableObservationCount record > 0 \<and> r_ObservedAtUnix record = 0)
      (errw ErrStateCorrupt ''observed time is required with stable observations'')) (\<lambda>_.
    bindE (failIf (r_StableAtUnix record \<noteq> 0 \<and> r_StableObservationCount record = 0)
      (errw ErrStateCorrupt ''stable observations are required with stable time'')) (\<lambda>_.
    bindE (failIf (r_StableAtUnix record \<noteq> 0 \<and> r_ObservedAtUnix record \<noteq> 0
                   \<and> r_StableAtUnix record < r_ObservedAtUnix record)
      (errw ErrStateCorrupt ''stable time precedes observed time'')) (\<lambda>_.
    failIf (r_PromotedAtUnix record \<noteq> 0 \<and> r_ObservedAtUnix record \<noteq> 0
                   \<and> r_PromotedAtUnix record < r_ObservedAtUnix record)
      (errw ErrStateCorrupt ''promoted time precedes observed time''))))))))"

text \<open>The snapshot a record spells out, before normalisation.\<close>

definition raw_snapshot :: "SnapshotStateRecord \<Rightarrow> KeySnapshot" where
  "raw_snapshot r =
     \<lparr>ProviderName = r_ProviderName r, ClusterID = r_ClusterID r,
      OpenBaoInstanceID = r_OpenBaoInstanceID r, OpenBaoNamespace = r_OpenBaoNamespace r,
      TransitMountID = r_TransitMountID r, TransitKeyLineageID = r_TransitKeyLineageID r,
      TransitVersion = r_TransitVersion r,
      TransitVersionCreatedAt = time_Unix (r_TransitVersionCreatedAtUnix r),
      KubernetesKeyID = r_KubernetesKeyID r, State = r_State r, AADMode = r_AADMode r\<rparr>"

definition record_Snapshot :: "SnapshotStateRecord \<Rightarrow> KeySnapshot res" where
  "record_Snapshot r =
     bindE (validateObservationMetadata r) (\<lambda>_. Normalize (raw_snapshot r))"

definition normalizeStateRecord :: "SnapshotStateRecord \<Rightarrow> SnapshotStateRecord res" where
  "normalizeStateRecord record =
    bindE (record_Snapshot record) (\<lambda>snapshot.
    Inr (record\<lparr>r_ProviderName := ProviderName snapshot,
                r_ClusterID := ClusterID snapshot,
                r_OpenBaoInstanceID := OpenBaoInstanceID snapshot,
                r_OpenBaoNamespace := OpenBaoNamespace snapshot,
                r_TransitMountID := TransitMountID snapshot,
                r_TransitKeyLineageID := TransitKeyLineageID snapshot,
                r_TransitVersion := TransitVersion snapshot,
                r_TransitVersionCreatedAtUnix := Unix (TransitVersionCreatedAt snapshot),
                r_KubernetesKeyID := KubernetesKeyID snapshot,
                r_State := State snapshot,
                r_AADMode := AADMode snapshot\<rparr>))"

section \<open>The state hash\<close>

text \<open>\<open>json.Marshal\<close> of the hash body; it cannot fail on these types.\<close>

definition json_int :: "int \<Rightarrow> string" where "json_int n = Itoa n"

definition json_record :: "SnapshotStateRecord \<Rightarrow> string" where
  "json_record r = json_object
     ([(''providerName'', json_string (r_ProviderName r)),
       (''clusterId'', json_string (r_ClusterID r)),
       (''openbaoInstanceId'', json_string (r_OpenBaoInstanceID r))]
      @ omitempty (r_OpenBaoNamespace r = []) ''openbaoNamespace'' (json_string (r_OpenBaoNamespace r))
      @ [(''transitMountId'', json_string (r_TransitMountID r)),
         (''transitKeyLineageId'', json_string (r_TransitKeyLineageID r)),
         (''transitVersion'', json_int (r_TransitVersion r)),
         (''transitVersionCreatedAtUnix'', json_int (r_TransitVersionCreatedAtUnix r)),
         (''kubernetesKeyId'', json_string (r_KubernetesKeyID r)),
         (''state'', json_string (r_State r)),
         (''aadMode'', json_string (r_AADMode r))]
      @ omitempty (r_ObservedAtUnix r = 0) ''observedAtUnix'' (json_int (r_ObservedAtUnix r))
      @ omitempty (r_StableObservationCount r = 0) ''stableObservationCount''
          (json_int (r_StableObservationCount r))
      @ omitempty (r_StableAtUnix r = 0) ''stableAtUnix'' (json_int (r_StableAtUnix r))
      @ omitempty (r_PromotedAtUnix r = 0) ''promotedAtUnix'' (json_int (r_PromotedAtUnix r)))"

definition stateHashBody :: "StateFile \<Rightarrow> string" where
  "stateHashBody s = json_object
     ([(''schemaVersion'', json_string (SchemaVersion s)),
       (''identityFingerprint'', json_string (IdentityFingerprint s)),
       (''generation'', json_int (uint (Generation s)))]
      @ omitempty (PreviousHash s = []) ''previousHash'' (json_string (PreviousHash s))
      @ [(''activeKeyId'', json_string (ActiveKeyID s)),
         (''snapshots'', json_array (map json_record (Snapshots s)))])"

definition computeHash :: "StateFile \<Rightarrow> string" where
  "computeHash s = stateHashPrefix @ RawURL_EncodeToString (Sum256 (stateHashBody s))"

definition validateStateHash :: "string \<Rightarrow> unit res" where
  "validateStateHash hash =
    (if \<not> HasPrefix hash stateHashPrefix then Inl (errw ErrStateCorrupt ''state hash prefix is invalid'')
     else case RawURL_DecodeString (TrimPrefix hash stateHashPrefix) of
       None \<Rightarrow> Inl (errw ErrStateCorrupt ''state hash encoding is invalid'')
     | Some decoded \<Rightarrow>
         failIf (length decoded \<noteq> 32) (errw ErrStateCorrupt ''state hash encoding is invalid''))"

section \<open>The snapshots and the registry of a state\<close>

text \<open>
  The loop of \<open>StateFile.snapshots\<close>, over the identifiers seen so far, the active snapshot if it
  was met, and the historical snapshots in order.
\<close>

fun snapshots_loop ::
  "string \<Rightarrow> SnapshotStateRecord list \<Rightarrow> string list \<Rightarrow> KeySnapshot option \<Rightarrow> KeySnapshot list
     \<Rightarrow> (KeySnapshot \<times> KeySnapshot list) res" where
  "snapshots_loop activeID [] seen active historical =
    (case active of
       None \<Rightarrow> Inl (errw ErrStateCorrupt ''active snapshot missing'')
     | Some a \<Rightarrow> Inr (a, historical))"
| "snapshots_loop activeID (record # rest) seen active historical =
    (case record_Snapshot record of
       Inl e \<Rightarrow> Inl (Wrap ''invalid snapshot'' [Sentinel ErrStateCorrupt, e])
     | Inr snapshot \<Rightarrow>
         if KubernetesKeyID snapshot \<in> set seen then Inl (errw ErrStateCorrupt ''duplicate key_id'')
         else if KubernetesKeyID snapshot = activeID then
           (if State snapshot \<noteq> StateActive
            then Inl (errw ErrStateCorrupt ''active key_id must have active state'')
            else if active \<noteq> None then Inl (errw ErrStateCorrupt ''duplicate active key_id'')
            else snapshots_loop activeID rest (KubernetesKeyID snapshot # seen) (Some snapshot) historical)
         else if State snapshot = StateActive
           then Inl (errw ErrStateCorrupt ''non-selected snapshot has active state'')
         else snapshots_loop activeID rest (KubernetesKeyID snapshot # seen) active (historical @ [snapshot]))"

text \<open>
  An empty record list makes the \<open>make\<close> call at the head of the Go function panic, because its
  capacity is \<open>len(s.Snapshots)-1\<close>.
\<close>

definition StateFile_snapshots :: "StateFile \<Rightarrow> (KeySnapshot \<times> KeySnapshot list) res" where
  "StateFile_snapshots s =
    (if Snapshots s = [] then Inl (Msg ''panic: makeslice: cap out of range'')
     else snapshots_loop (ActiveKeyID s) (Snapshots s) [] None [])"

fun decryptable_historical :: "KeySnapshot list \<Rightarrow> KeySnapshot list res" where
  "decryptable_historical [] = Inr []"
| "decryptable_historical (snapshot # rest) =
    (if State snapshot = StateRetired \<or> State snapshot = StatePending
     then bindE (decryptable_historical rest) (\<lambda>ds. Inr (snapshot # ds))
     else if State snapshot = StateRejected \<or> State snapshot = StateRemoved
     then decryptable_historical rest
     else Inl (errw ErrStateCorrupt ''snapshot state is invalid''))"

definition StateFile_Registry :: "StateFile \<Rightarrow> Registry res" where
  "StateFile_Registry s =
    bindE (StateFile_snapshots s) (\<lambda>(active, historical).
    bindE (decryptable_historical historical) (\<lambda>decryptable.
    NewRegistry active decryptable))"

definition ActiveSnapshot :: "StateFile \<Rightarrow> KeySnapshot res" where
  "ActiveSnapshot s = bindE (StateFile_snapshots s) (\<lambda>(active, _). Inr active)"

definition StateFile_Validate :: "StateFile \<Rightarrow> unit res" where
  "StateFile_Validate s =
    bindE (failIf (SchemaVersion s \<noteq> stateFileVersion)
      (errw ErrStateCorrupt ''unsupported registry schema; preview.3 requires fresh bound state'')) (\<lambda>_.
    bindE (ValidateIdentityFingerprint (IdentityFingerprint s)) (\<lambda>_.
    bindE (failIf (Generation s = 0) (errw ErrStateCorrupt ''generation must be positive'')) (\<lambda>_.
    bindE (failIf (ActiveKeyID s = []) (errw ErrStateCorrupt ''active key_id is required'')) (\<lambda>_.
    bindE (failIf (Snapshots s = []) (errw ErrStateCorrupt ''snapshots are required'')) (\<lambda>_.
    bindE (if PreviousHash s \<noteq> [] then validateStateHash (PreviousHash s) else Inr ()) (\<lambda>_.
    bindE (validateStateHash (CurrentHash s)) (\<lambda>_.
    bindE (failIf (CurrentHash s \<noteq> computeHash s) (errw ErrStateCorrupt ''state hash mismatch'')) (\<lambda>_.
    bindE (StateFile_Registry s) (\<lambda>_. Inr ())))))))))"

section \<open>Construction\<close>

definition seal :: "StateFile \<Rightarrow> StateFile res" where
  "seal state =
    (let state = state\<lparr>CurrentHash := computeHash state\<rparr> in
     bindE (StateFile_Validate state) (\<lambda>_. Inr state))"

definition NewStateFile ::
  "KeySnapshot \<Rightarrow> KeySnapshot list \<Rightarrow> u64 \<Rightarrow> string \<Rightarrow> string \<Rightarrow> StateFile res" where
  "NewStateFile active historical generation previousHash identityFingerprint =
    bindE (failIf (generation = 0) (Msg ''state generation must be positive'')) (\<lambda>_.
    bindE (NewRegistry active historical) (\<lambda>registry.
    case Registry_Active registry of
      None \<Rightarrow> Inl (Msg ''active snapshot missing'')
    | Some normalizedActive \<Rightarrow>
        bindE (mapE Normalize historical) (\<lambda>normalized.
        seal \<lparr>SchemaVersion = stateFileVersion, IdentityFingerprint = identityFingerprint,
              Generation = generation, PreviousHash = previousHash, CurrentHash = [],
              ActiveKeyID = KubernetesKeyID normalizedActive,
              Snapshots = map SnapshotStateRecordFromSnapshot (normalizedActive # normalized)\<rparr>)))"

definition NewStateFileFromRecords ::
  "string \<Rightarrow> SnapshotStateRecord list \<Rightarrow> u64 \<Rightarrow> string \<Rightarrow> string \<Rightarrow> StateFile res" where
  "NewStateFileFromRecords activeID records generation previousHash identityFingerprint =
    bindE (failIf (generation = 0) (Msg ''state generation must be positive'')) (\<lambda>_.
    bindE (failIf (activeID = []) (Msg ''active key_id is required'')) (\<lambda>_.
    bindE (failIf (records = []) (Msg ''state records are required'')) (\<lambda>_.
    bindE (mapE normalizeStateRecord records) (\<lambda>normalizedRecords.
    seal \<lparr>SchemaVersion = stateFileVersion, IdentityFingerprint = identityFingerprint,
          Generation = generation, PreviousHash = previousHash, CurrentHash = [],
          ActiveKeyID = activeID, Snapshots = normalizedRecords\<rparr>))))"

definition RebuildStateFromMetadata ::
  "KeySnapshot \<Rightarrow> KeySnapshot list \<Rightarrow> string \<Rightarrow> StateFile res" where
  "RebuildStateFromMetadata active historical identityFingerprint =
     NewStateFile active historical 1 [] identityFingerprint"

section \<open>Progress\<close>

text \<open>The map \<open>nextRecords\<close>: a later record with the same identifier replaces an earlier one.\<close>

definition record_index :: "SnapshotStateRecord list \<Rightarrow> string \<Rightarrow> SnapshotStateRecord option" where
  "record_index rs = foldl (\<lambda>m r. m(r_KubernetesKeyID r \<mapsto> r)) Map.empty rs"

definition validateRetainedRecord ::
  "(string \<Rightarrow> SnapshotStateRecord option) \<Rightarrow> SnapshotStateRecord \<Rightarrow> unit res" where
  "validateRetainedRecord nextRecords record =
    (let nextRecord = nextRecords (r_KubernetesKeyID record);
         nextState = map_option r_State nextRecord in
     if r_State record = StatePending then
       failIf (nextState \<notin> {Some StatePending, Some StateActive, Some StateRetired})
         (errw ErrStateRollback ''decryptable pending snapshot lost'')
     else if r_State record = StateActive \<or> r_State record = StateRetired then
       failIf (nextState \<notin> {Some StateActive, Some StateRetired})
         (errw ErrStateRollback ''decryptable snapshot lost; use the operator retirement transition'')
     else if r_State record = StateRemoved then
       failIf (nextRecord \<noteq> Some record)
         (errw ErrStateRollback ''removed snapshot record changed'')
     else Inr ())"

definition validateRetainedSnapshots :: "StateFile \<Rightarrow> StateFile \<Rightarrow> unit res" where
  "validateRetainedSnapshots previous next =
     forE (validateRetainedRecord (record_index (Snapshots next))) (Snapshots previous)"

definition ValidateStateProgress :: "StateFile \<Rightarrow> StateFile \<Rightarrow> unit res" where
  "ValidateStateProgress previous next =
    bindE (StateFile_Validate previous) (\<lambda>_.
    bindE (StateFile_Validate next) (\<lambda>_.
    bindE (failIf (IdentityFingerprint next \<noteq> IdentityFingerprint previous)
      (errw ErrStateRollback ''configuration identity changed'')) (\<lambda>_.
    bindE (failIf (Generation next \<le> Generation previous)
      (errw ErrStateRollback ''generation did not increase'')) (\<lambda>_.
    bindE (failIf (PreviousHash next \<noteq> CurrentHash previous)
      (errw ErrStateRollback ''previous hash does not match'')) (\<lambda>_.
    bindE (ActiveSnapshot previous) (\<lambda>previousActive.
    bindE (ActiveSnapshot next) (\<lambda>nextActive.
    bindE (failIf (TransitVersion nextActive < TransitVersion previousActive)
      (errw ErrStateRollback ''active Transit version decreased'')) (\<lambda>_.
    validateRetainedSnapshots previous next))))))))"

definition PromoteState :: "StateFile \<Rightarrow> KeySnapshot \<Rightarrow> KeySnapshot list \<Rightarrow> StateFile res" where
  "PromoteState previous active historical =
    bindE (StateFile_Validate previous) (\<lambda>_.
    bindE (NewStateFile active historical (Generation previous + 1) (CurrentHash previous)
             (IdentityFingerprint previous)) (\<lambda>next.
    bindE (ValidateStateProgress previous next) (\<lambda>_. Inr next)))"

section \<open>The replay checkpoint\<close>

definition StateCheckpoint_Validate :: "StateCheckpoint \<Rightarrow> unit res" where
  "StateCheckpoint_Validate c =
    bindE (failIf (c_SchemaVersion c \<noteq> stateCheckpointVersion)
      (errw ErrStateCorrupt ''unsupported state checkpoint schema version'')) (\<lambda>_.
    bindE (failIf (c_Generation c = 0)
      (errw ErrStateCorrupt ''checkpoint generation must be positive'')) (\<lambda>_.
    validateStateHash (c_CurrentHash c)))"

definition NewStateCheckpoint :: "StateFile \<Rightarrow> StateCheckpoint res" where
  "NewStateCheckpoint state =
    bindE (StateFile_Validate state) (\<lambda>_.
    let checkpoint = \<lparr>c_SchemaVersion = stateCheckpointVersion, c_Generation = Generation state,
                      c_CurrentHash = CurrentHash state\<rparr>
    in bindE (StateCheckpoint_Validate checkpoint) (\<lambda>_. Inr checkpoint))"

definition ValidateState :: "StateCheckpoint \<Rightarrow> StateFile \<Rightarrow> unit res" where
  "ValidateState c state =
    bindE (StateCheckpoint_Validate c) (\<lambda>_.
    bindE (StateFile_Validate state) (\<lambda>_.
    bindE (failIf (Generation state < c_Generation c)
      (errw ErrStateRollback ''generation below checkpoint'')) (\<lambda>_.
    bindE (failIf (Generation state = c_Generation c \<and> CurrentHash state \<noteq> c_CurrentHash c)
      (errw ErrStateRollback ''current hash differs from checkpoint'')) (\<lambda>_.
    if Generation state > c_Generation c then
      bindE (failIf (Generation state - c_Generation c \<noteq> 1)
        (errw ErrStateRollback ''state skips checkpoint generations'')) (\<lambda>_.
      failIf (PreviousHash state \<noteq> c_CurrentHash c)
        (errw ErrStateRollback ''state does not extend checkpoint history''))
    else Inr ()))))"

definition validateLoadedState :: "StateFile \<Rightarrow> StateLoadOptions \<Rightarrow> unit res" where
  "validateLoadedState state opts =
    bindE (failIf (MinimumGeneration opts > 0 \<and> Generation state < MinimumGeneration opts)
      (errw ErrStateRollback ''generation below expected minimum'')) (\<lambda>_.
    failIf (ExpectedHash opts \<noteq> [] \<and> CurrentHash state \<noteq> ExpectedHash opts)
      (errw ErrStateRollback ''current hash differs from expected hash''))"

section \<open>Records and their snapshots\<close>

lemmas snapshot_states = StateActive_def StatePending_def StateRetired_def StateRejected_def StateRemoved_def

lemma snapshot_states_distinct [simp]:
  "StateActive \<noteq> StatePending" "StateActive \<noteq> StateRetired" "StateActive \<noteq> StateRejected"
  "StateActive \<noteq> StateRemoved" "StatePending \<noteq> StateActive" "StatePending \<noteq> StateRetired"
  "StatePending \<noteq> StateRejected" "StatePending \<noteq> StateRemoved" "StateRetired \<noteq> StateActive"
  "StateRetired \<noteq> StatePending" "StateRetired \<noteq> StateRejected" "StateRetired \<noteq> StateRemoved"
  "StateRejected \<noteq> StateActive" "StateRejected \<noteq> StatePending" "StateRejected \<noteq> StateRetired"
  "StateRejected \<noteq> StateRemoved" "StateRemoved \<noteq> StateActive" "StateRemoved \<noteq> StatePending"
  "StateRemoved \<noteq> StateRetired" "StateRemoved \<noteq> StateRejected"
  by (simp_all add: snapshot_states)

text \<open>The identifier and the snapshot of a record, and when it is acceptable.\<close>

definition rec_id :: "SnapshotStateRecord \<Rightarrow> string" where
  "rec_id r = derived_key_id (raw_snapshot r)"

definition rec_snap :: "SnapshotStateRecord \<Rightarrow> KeySnapshot" where
  "rec_snap r = normal_form (raw_snapshot r)"

definition rec_ok :: "SnapshotStateRecord \<Rightarrow> bool" where
  "rec_ok r \<longleftrightarrow> validateObservationMetadata r = Inr () \<and> normalizable (raw_snapshot r)"

definition decryptable_state :: "string \<Rightarrow> bool" where
  "decryptable_state st \<longleftrightarrow> st \<in> {StateActive, StatePending, StateRetired}"

lemma record_Snapshot_Inr [simp]: "record_Snapshot r = Inr s \<longleftrightarrow> rec_ok r \<and> s = rec_snap r"
  by (auto simp: record_Snapshot_def rec_ok_def rec_snap_def Normalize_Inr)

lemma raw_snapshot_simps [simp]:
  "State (raw_snapshot r) = r_State r" "KubernetesKeyID (raw_snapshot r) = r_KubernetesKeyID r"
  "TransitVersion (raw_snapshot r) = r_TransitVersion r"
  "AADMode (raw_snapshot r) = r_AADMode r"
  "Unix (TransitVersionCreatedAt (raw_snapshot r)) = r_TransitVersionCreatedAtUnix r"
  by (simp_all add: raw_snapshot_def)

lemma rec_snap_simps [simp]:
  "State (rec_snap r) = r_State r" "KubernetesKeyID (rec_snap r) = rec_id r"
  "TransitVersion (rec_snap r) = r_TransitVersion r" "derived_key_id (rec_snap r) = rec_id r"
  "normal_form (rec_snap r) = rec_snap r"
  by (simp_all add: rec_snap_def rec_id_def)

lemma rec_ok_normalizable: "rec_ok r \<Longrightarrow> normalizable (rec_snap r)"
  by (simp add: rec_ok_def rec_snap_def normalizable_normal_form)

lemma rec_ok_state: "rec_ok r \<Longrightarrow> SnapshotState_Valid (r_State r)"
  by (simp add: rec_ok_def normalizable_def)

lemma rec_ok_id: "rec_ok r \<Longrightarrow> r_KubernetesKeyID r \<noteq> [] \<Longrightarrow> r_KubernetesKeyID r = rec_id r"
  by (auto simp: rec_ok_def normalizable_def rec_id_def)

lemma rec_id_not_Nil [simp]: "rec_id r \<noteq> []"
  by (simp add: rec_id_def)

lemma ParseKeyID_rec_id [simp]: "ParseKeyID (rec_id r) = Inr (rec_id r)"
  by (simp add: rec_id_def)

section \<open>The content of a state\<close>

lemma snapshots_loop_Inr:
  "snapshots_loop aid rs seen act hist = Inr (a, hs) \<longleftrightarrow>
     list_all rec_ok rs \<and> distinct (map rec_id rs) \<and> (\<forall>r\<in>set rs. rec_id r \<notin> set seen)
     \<and> (\<forall>r\<in>set rs. rec_id r = aid \<longleftrightarrow> r_State r = StateActive)
     \<and> hs = hist @ map rec_snap (filter (\<lambda>r. rec_id r \<noteq> aid) rs)
     \<and> (case act of Some a0 \<Rightarrow> a = a0 \<and> (\<forall>r\<in>set rs. rec_id r \<noteq> aid)
        | None \<Rightarrow> \<exists>r\<in>set rs. rec_id r = aid \<and> a = rec_snap r)"
proof (induction rs arbitrary: seen act hist)
  case Nil
  then show ?case by (auto split: option.splits)
next
  case (Cons r rs)
  show ?case
  proof (cases "record_Snapshot r")
    case (Inl e)
    then have "\<not> rec_ok r" using record_Snapshot_Inr [of r "rec_snap r"] by simp
    with Inl show ?thesis by simp
  next
    case (Inr s)
    then have r: "rec_ok r" by simp
    then have "record_Snapshot r = Inr (rec_snap r)" by simp
    moreover have "rec_id r \<notin> rec_id ` set rs \<longleftrightarrow> (\<forall>q\<in>set rs. rec_id q \<noteq> rec_id r)"
      by (auto simp: image_iff)
    ultimately show ?thesis
      using r by (cases act) (auto simp: Cons.IH simp del: record_Snapshot_Inr image_iff)
  qed
qed

definition content_ok :: "StateFile \<Rightarrow> bool" where
  "content_ok s \<longleftrightarrow>
     list_all rec_ok (Snapshots s) \<and> distinct (map rec_id (Snapshots s))
     \<and> (\<forall>r\<in>set (Snapshots s). rec_id r = ActiveKeyID s \<longleftrightarrow> r_State r = StateActive)
     \<and> (\<exists>r\<in>set (Snapshots s). rec_id r = ActiveKeyID s)"

lemma StateFile_snapshots_Inr:
  "StateFile_snapshots s = Inr (a, hs) \<longleftrightarrow>
     content_ok s \<and> (\<exists>r\<in>set (Snapshots s). rec_id r = ActiveKeyID s \<and> a = rec_snap r)
     \<and> hs = map rec_snap (filter (\<lambda>r. rec_id r \<noteq> ActiveKeyID s) (Snapshots s))"
  by (auto simp: StateFile_snapshots_def snapshots_loop_Inr content_ok_def)

lemma decryptable_historical_Inr:
  "(\<And>h. h \<in> set hs \<Longrightarrow> SnapshotState_Valid (State h) \<and> State h \<noteq> StateActive) \<Longrightarrow>
     decryptable_historical hs = Inr (filter (\<lambda>h. State h = StateRetired \<or> State h = StatePending) hs)"
  by (induction hs) (auto simp: SnapshotState_Valid_def)

lemma insert_historical_succeeds:
  "(\<And>h. h \<in> set hs \<Longrightarrow> normalizable h \<and> snapshots r (derived_key_id h) = None) \<Longrightarrow>
     distinct (map derived_key_id hs) \<Longrightarrow> \<exists>r'. insert_historical r hs = Inr r'"
proof (induction hs arbitrary: r)
  case Nil
  then show ?case by simp
next
  case (Cons h hs)
  let ?r = "r\<lparr>snapshots := (snapshots r)(derived_key_id h \<mapsto> normal_form h)\<rparr>"
  have n: "Normalize h = Inr (normal_form h)" using Cons.prems by (simp add: Normalize_Inr)
  have ins: "registry_insert r (normal_form h) = Inr ?r"
    using Cons.prems by (simp add: registry_insert_Inr)
  have "derived_key_id x \<noteq> derived_key_id h" if "x \<in> set hs" for x
    using Cons.prems(2) that by (force simp: image_iff)
  then have "\<exists>r'. insert_historical r hs = Inr r'" and "\<exists>r'. insert_historical ?r hs = Inr r'"
    using Cons.prems by (auto intro!: Cons.IH)
  with n ins show ?case by simp
qed

lemma NewRegistry_succeeds:
  assumes "normalizable a" and "State a = StateActive" and "\<And>h. h \<in> set hs \<Longrightarrow> normalizable h"
    and "distinct (map derived_key_id (a # hs))"
  shows "\<exists>r. NewRegistry a hs = Inr r"
proof -
  let ?r = "\<lparr>activeKeyID = derived_key_id a, snapshots = [derived_key_id a \<mapsto> normal_form a]\<rparr>"
  have "derived_key_id x \<noteq> derived_key_id a" if "x \<in> set hs" for x
    using assms(4) that by (force simp: image_iff)
  then have "\<exists>r. insert_historical ?r hs = Inr r"
    using assms by (intro insert_historical_succeeds) auto
  with assms show ?thesis
    by (auto simp: NewRegistry_def Normalize_Inr registry_insert_def)
qed

text \<open>The registry of a state resolves exactly the decryptable records.\<close>

lemma StateFile_Registry_exact:
  assumes "content_ok s"
  shows "\<exists>reg. StateFile_Registry s = Inr reg \<and> registry_wf reg \<and> activeKeyID reg = ActiveKeyID s
    \<and> (\<forall>k x. Registry_Lookup reg k = Inr x \<longleftrightarrow>
         (\<exists>r\<in>set (Snapshots s). decryptable_state (r_State r) \<and> x = rec_snap r \<and> k = rec_id r))"
proof -
  let ?old = "filter (\<lambda>r. rec_id r \<noteq> ActiveKeyID s) (Snapshots s)"
  let ?dec = "filter (\<lambda>r. r_State r = StateRetired \<or> r_State r = StatePending) ?old"
  from assms obtain ra where ra: "ra \<in> set (Snapshots s)" "rec_id ra = ActiveKeyID s"
    and ok: "\<And>r. r \<in> set (Snapshots s) \<Longrightarrow> rec_ok r"
    and act: "\<And>r. r \<in> set (Snapshots s) \<Longrightarrow> rec_id r = ActiveKeyID s \<longleftrightarrow> r_State r = StateActive"
    and dist: "distinct (map rec_id (Snapshots s))"
    by (auto simp: content_ok_def list_all_iff)
  have sn: "StateFile_snapshots s = Inr (rec_snap ra, map rec_snap ?old)"
    using assms ra by (auto simp: StateFile_snapshots_Inr)
  have "decryptable_historical (map rec_snap ?old)
      = Inr (filter (\<lambda>h. State h = StateRetired \<or> State h = StatePending) (map rec_snap ?old))"
    using ok act rec_ok_state by (intro decryptable_historical_Inr) auto
  then have dh: "decryptable_historical (map rec_snap ?old) = Inr (map rec_snap ?dec)"
    by (simp add: filter_map comp_def)
  have "\<exists>reg. NewRegistry (rec_snap ra) (map rec_snap ?dec) = Inr reg"
  proof (rule NewRegistry_succeeds)
    show "distinct (map derived_key_id (rec_snap ra # map rec_snap ?dec))"
      using dist ra(2) by (auto simp: comp_def distinct_map_filter)
  qed (use ok ra act rec_ok_normalizable in auto)
  then obtain reg where reg: "NewRegistry (rec_snap ra) (map rec_snap ?dec) = Inr reg" by blast
  have uniq: "r = ra" if "r \<in> set (Snapshots s)" "rec_id r = ActiveKeyID s" for r
    using dist ra that by (metis distinct_map inj_onD)
  have dec: "r \<in> insert ra (set ?dec) \<longleftrightarrow> r \<in> set (Snapshots s) \<and> decryptable_state (r_State r)" for r
    using ra act [of r] act [of ra] uniq [of r] by (auto simp: decryptable_state_def)
  have "Registry_Lookup reg k = Inr x \<longleftrightarrow>
         (\<exists>r\<in>set (Snapshots s). decryptable_state (r_State r) \<and> x = rec_snap r \<and> k = rec_id r)" for k x
  proof -
    have "Registry_Lookup reg k = Inr x \<longleftrightarrow>
       (\<exists>r\<in>insert ra (set ?dec). r_State r \<noteq> StateRemoved \<and> x = rec_snap r \<and> k = rec_id r)"
      unfolding Registry_Lookup_Inr NewRegistry_Inr(5) [OF reg] by (auto simp del: filter_filter)
    also have "\<dots> \<longleftrightarrow> (\<exists>r\<in>set (Snapshots s). decryptable_state (r_State r) \<and> x = rec_snap r \<and> k = rec_id r)"
      unfolding Bex_def dec by (auto simp: decryptable_state_def)
    finally show ?thesis .
  qed
  moreover have "StateFile_Registry s = Inr reg"
    using sn dh reg by (simp add: StateFile_Registry_def)
  ultimately show ?thesis
    using NewRegistry_wf [OF reg] NewRegistry_Inr(3) [OF reg] ra(2) by auto
qed

lemma StateFile_Registry_Inr: "(\<exists>reg. StateFile_Registry s = Inr reg) \<longleftrightarrow> content_ok s"
proof
  assume "\<exists>reg. StateFile_Registry s = Inr reg"
  then show "content_ok s" by (auto simp: StateFile_Registry_def StateFile_snapshots_Inr)
next
  assume "content_ok s"
  from StateFile_Registry_exact [OF this] show "\<exists>reg. StateFile_Registry s = Inr reg" by blast
qed

lemma ActiveSnapshot_Inr:
  "ActiveSnapshot s = Inr a \<longleftrightarrow>
     content_ok s \<and> (\<exists>r\<in>set (Snapshots s). rec_id r = ActiveKeyID s \<and> a = rec_snap r)"
  by (auto simp: ActiveSnapshot_def StateFile_snapshots_Inr)

section \<open>Validation\<close>

lemma computeHash_upd [simp]: "computeHash (s\<lparr>CurrentHash := h\<rparr>) = computeHash s"
  by (simp add: computeHash_def stateHashBody_def)

lemma validateStateHash_computeHash [simp]: "validateStateHash (computeHash s) = Inr ()"
  by (simp add: validateStateHash_def computeHash_def flip: digest64_def)

lemma StateFile_Validate_Inr:
  "StateFile_Validate s = Inr u \<longleftrightarrow>
     SchemaVersion s = stateFileVersion \<and> ValidateIdentityFingerprint (IdentityFingerprint s) = Inr ()
     \<and> Generation s \<noteq> 0 \<and> (PreviousHash s \<noteq> [] \<longrightarrow> validateStateHash (PreviousHash s) = Inr ())
     \<and> CurrentHash s = computeHash s \<and> content_ok s"
proof -
  have "ActiveKeyID s \<noteq> [] \<and> Snapshots s \<noteq> []" if "content_ok s"
    using that by (auto simp: content_ok_def)
  then show ?thesis
    using StateFile_Registry_Inr [of s] by (auto simp: StateFile_Validate_def)
qed

lemma validated_content: "StateFile_Validate s = Inr () \<Longrightarrow> content_ok s"
  by (simp add: StateFile_Validate_Inr)

lemma seal_Inr:
  "seal st = Inr s \<longleftrightarrow> s = st\<lparr>CurrentHash := computeHash st\<rparr> \<and> StateFile_Validate s = Inr ()"
  by (auto simp: seal_def Let_def)

lemma normalizeStateRecord_Inr:
  "normalizeStateRecord r = Inr r' \<longleftrightarrow> rec_ok r \<and> r' = r\<lparr>r_KubernetesKeyID := rec_id r\<rparr>"
  by (auto simp: normalizeStateRecord_def rec_snap_def rec_id_def) (simp_all add: raw_snapshot_def)

definition norm_rec :: "SnapshotStateRecord \<Rightarrow> SnapshotStateRecord" where
  "norm_rec r = r\<lparr>r_KubernetesKeyID := rec_id r\<rparr>"

lemma rec_id_cong:
  "raw_snapshot r = (raw_snapshot q)\<lparr>KubernetesKeyID := k, State := st\<rparr> \<Longrightarrow> rec_id r = rec_id q"
  by (simp add: rec_id_def)

lemma norm_rec_simps [simp]:
  "rec_id (norm_rec r) = rec_id r" "r_State (norm_rec r) = r_State r"
  "r_KubernetesKeyID (norm_rec r) = rec_id r" "r_TransitVersion (norm_rec r) = r_TransitVersion r"
  "r_StableObservationCount (norm_rec r) = r_StableObservationCount r"
  "r_StableAtUnix (norm_rec r) = r_StableAtUnix r" "r_ObservedAtUnix (norm_rec r) = r_ObservedAtUnix r"
  by (auto simp: norm_rec_def rec_id_def raw_snapshot_def intro: derived_key_id_cong simp: same_identity_def)

lemma rec_snap_norm_rec [simp]: "rec_snap (norm_rec r) = rec_snap r"
proof -
  have "raw_snapshot (norm_rec r) = (raw_snapshot r)\<lparr>KubernetesKeyID := rec_id r\<rparr>"
    by (simp add: raw_snapshot_def norm_rec_def)
  then show ?thesis by (simp add: rec_snap_def normal_form_def rec_id_def)
qed

lemma rec_ok_norm_rec [simp]: "rec_ok r \<Longrightarrow> rec_ok (norm_rec r)"
proof -
  assume ok: "rec_ok r"
  have raw: "raw_snapshot (norm_rec r) = (raw_snapshot r)\<lparr>KubernetesKeyID := rec_id r\<rparr>"
    by (simp add: raw_snapshot_def norm_rec_def)
  have "validateObservationMetadata (norm_rec r) = validateObservationMetadata r"
    by (simp add: validateObservationMetadata_def norm_rec_def)
  with ok raw show ?thesis
    by (simp add: rec_ok_def normalizable_def identity_complete_def rec_id_def)
qed

lemma mapE_normalizeStateRecord:
  "mapE normalizeStateRecord rs = Inr rs' \<longleftrightarrow> list_all rec_ok rs \<and> rs' = map norm_rec rs"
  by (induction rs arbitrary: rs') (auto simp: normalizeStateRecord_Inr norm_rec_def)

lemma NewStateFileFromRecords_Inr:
  "NewStateFileFromRecords aid rs g ph fp = Inr s \<longleftrightarrow>
     list_all rec_ok rs \<and> StateFile_Validate s = Inr ()
     \<and> SchemaVersion s = stateFileVersion \<and> IdentityFingerprint s = fp \<and> Generation s = g
     \<and> PreviousHash s = ph \<and> ActiveKeyID s = aid \<and> Snapshots s = map norm_rec rs"
proof -
  have "aid \<noteq> [] \<and> rs \<noteq> []" if "content_ok s" "ActiveKeyID s = aid" "Snapshots s = map norm_rec rs"
    using that by (auto simp: content_ok_def)
  then show ?thesis
    by (cases s) (auto simp: NewStateFileFromRecords_def mapE_normalizeStateRecord seal_Inr
        StateFile_Validate_Inr computeHash_def stateHashBody_def)
qed

section \<open>Generations\<close>

lemma record_index_Some: "record_index rs k = Some r \<Longrightarrow> r \<in> set rs \<and> r_KubernetesKeyID r = k"
  by (induction rs rule: rev_induct) (auto simp: record_index_def split: if_splits)

lemma record_index_distinct:
  "distinct (map r_KubernetesKeyID rs) \<Longrightarrow> r \<in> set rs \<Longrightarrow> record_index rs (r_KubernetesKeyID r) = Some r"
proof (induction rs rule: rev_induct)
  case (snoc q rs)
  then show ?case by (cases "r = q") (auto simp: record_index_def image_iff)
qed simp

text \<open>
  The states the program itself builds carry the derived identifier in every record.
\<close>

definition canonical_state :: "StateFile \<Rightarrow> bool" where
  "canonical_state s \<longleftrightarrow> (\<forall>r\<in>set (Snapshots s). r_KubernetesKeyID r = rec_id r)"

definition resolves :: "StateFile \<Rightarrow> string \<Rightarrow> bool" where
  "resolves s k \<longleftrightarrow> (\<exists>reg x. StateFile_Registry s = Inr reg \<and> Registry_Lookup reg k = Inr x)"

lemma resolves_iff:
  "resolves s k \<longleftrightarrow> content_ok s \<and> (\<exists>r\<in>set (Snapshots s). decryptable_state (r_State r) \<and> rec_id r = k)"
proof (cases "content_ok s")
  case True
  from StateFile_Registry_exact [OF this] obtain reg where reg: "StateFile_Registry s = Inr reg"
    and look: "\<And>k x. Registry_Lookup reg k = Inr x \<longleftrightarrow>
         (\<exists>r\<in>set (Snapshots s). decryptable_state (r_State r) \<and> x = rec_snap r \<and> k = rec_id r)"
    by blast
  with True show ?thesis by (auto simp: resolves_def)
next
  case False
  then show ?thesis using StateFile_Registry_Inr [of s] by (auto simp: resolves_def)
qed

lemma NewStateFileFromRecords_canonical:
  "NewStateFileFromRecords aid rs g ph fp = Inr s \<Longrightarrow> canonical_state s \<and> StateFile_Validate s = Inr ()"
  by (auto simp: NewStateFileFromRecords_Inr canonical_state_def)

lemma raw_snapshot_FromSnapshot [simp]:
  "raw_snapshot (SnapshotStateRecordFromSnapshot (normal_form h)) = normal_form h"
  by (simp add: raw_snapshot_def SnapshotStateRecordFromSnapshot_def normal_form_def)

lemma FromSnapshot_normal_form:
  "rec_id (SnapshotStateRecordFromSnapshot (normal_form h)) = derived_key_id h"
  "r_KubernetesKeyID (SnapshotStateRecordFromSnapshot (normal_form h)) = derived_key_id h"
  by (simp add: rec_id_def) (simp add: SnapshotStateRecordFromSnapshot_def)

lemma mapE_Normalize: "mapE Normalize hs = Inr ns \<Longrightarrow> ns = map normal_form hs"
  by (induction hs arbitrary: ns) (auto simp: Normalize_Inr)

lemma NewStateFile_Inr:
  assumes "NewStateFile a hs g ph fp = Inr s"
  shows "StateFile_Validate s = Inr ()" and "canonical_state s" and "Generation s = g"
    and "PreviousHash s = ph" and "IdentityFingerprint s = fp" and "ActiveKeyID s = derived_key_id a"
    and "Snapshots s = map (SnapshotStateRecordFromSnapshot \<circ> normal_form) (a # hs)"
proof -
  from assms obtain reg na ns where reg: "NewRegistry a hs = Inr reg" and na: "Registry_Active reg = Some na"
    and ns: "mapE Normalize hs = Inr ns"
    and seal: "seal \<lparr>SchemaVersion = stateFileVersion, IdentityFingerprint = fp,
              Generation = g, PreviousHash = ph, CurrentHash = [], ActiveKeyID = KubernetesKeyID na,
              Snapshots = map SnapshotStateRecordFromSnapshot (na # ns)\<rparr> = Inr s"
    by (auto simp: NewStateFile_def split: option.splits)
  have nsm: "ns = map normal_form hs"
    using ns by (rule mapE_Normalize)
  have "snapshots reg (derived_key_id a) = Some (normal_form a)"
    using NewRegistry_Inr(2) [OF reg]
    by (subst NewRegistry_Inr(5) [OF reg]) auto
  then have na': "na = normal_form a"
    using na NewRegistry_Inr(3) [OF reg] by (simp add: Registry_Active_def)
  show "StateFile_Validate s = Inr ()" "Generation s = g" "PreviousHash s = ph"
    "IdentityFingerprint s = fp" "ActiveKeyID s = derived_key_id a"
    and sn: "Snapshots s = map (SnapshotStateRecordFromSnapshot \<circ> normal_form) (a # hs)"
    using seal by (auto simp: seal_Inr na' nsm)
  show "canonical_state s"
    using FromSnapshot_normal_form unfolding canonical_state_def sn by auto
qed

lemma ValidateStateProgress_Inr:
  "ValidateStateProgress p n = Inr u \<longleftrightarrow>
     StateFile_Validate p = Inr () \<and> StateFile_Validate n = Inr ()
     \<and> IdentityFingerprint n = IdentityFingerprint p \<and> Generation p < Generation n
     \<and> PreviousHash n = CurrentHash p
     \<and> (\<forall>a b. ActiveSnapshot p = Inr a \<longrightarrow> ActiveSnapshot n = Inr b \<longrightarrow> TransitVersion a \<le> TransitVersion b)
     \<and> validateRetainedSnapshots p n = Inr ()"
proof -
  have act: "\<exists>a. ActiveSnapshot s = Inr a" if "StateFile_Validate s = Inr ()" for s
    using validated_content [OF that] by (auto simp: ActiveSnapshot_Inr) (auto simp: content_ok_def)
  show ?thesis
  proof (cases "StateFile_Validate p = Inr () \<and> StateFile_Validate n = Inr ()")
    case True
    then obtain a b where "ActiveSnapshot p = Inr a" "ActiveSnapshot n = Inr b" using act by blast
    with True show ?thesis by (auto simp: ValidateStateProgress_def)
  next
    case False
    then show ?thesis by (auto simp: ValidateStateProgress_def)
  qed
qed

lemma validateRetainedRecord_kept:
  assumes "validateRetainedRecord (record_index rs) r = Inr ()" and "decryptable_state (r_State r)"
  shows "\<exists>q\<in>set rs. r_KubernetesKeyID q = r_KubernetesKeyID r \<and> decryptable_state (r_State q)"
proof (cases "record_index rs (r_KubernetesKeyID r)")
  case None
  with assms show ?thesis by (auto simp: validateRetainedRecord_def decryptable_state_def Let_def split: if_splits)
next
  case (Some q)
  with assms record_index_Some [OF Some] show ?thesis
    by (auto simp: validateRetainedRecord_def decryptable_state_def Let_def split: if_splits)
qed

lemma progress_keeps_resolvable:
  assumes "ValidateStateProgress p n = Inr ()" and "canonical_state p" and "resolves p k"
  shows "resolves n k"
proof -
  from assms have n: "content_ok n" by (simp add: ValidateStateProgress_Inr validated_content)
  from assms(3) obtain r where r: "r \<in> set (Snapshots p)" "decryptable_state (r_State r)" "rec_id r = k"
    by (auto simp: resolves_iff)
  have "validateRetainedRecord (record_index (Snapshots n)) r = Inr ()"
    using assms(1) r(1) by (simp add: ValidateStateProgress_Inr validateRetainedSnapshots_def)
  from validateRetainedRecord_kept [OF this r(2)] obtain q where
    q: "q \<in> set (Snapshots n)" "r_KubernetesKeyID q = r_KubernetesKeyID r" "decryptable_state (r_State q)"
    by blast
  have "r_KubernetesKeyID r = k" using assms(2) r by (simp add: canonical_state_def)
  with q(2) r(3) rec_id_not_Nil [of r] have "r_KubernetesKeyID q = k" "k \<noteq> []" by auto
  moreover have "rec_ok q" using n q(1) by (simp add: content_ok_def list_all_iff)
  ultimately have "rec_id q = k" using rec_ok_id by auto
  with n q show ?thesis by (auto simp: resolves_iff)
qed


lemma ValidateState_Inr:
  "ValidateState c s = Inr u \<longleftrightarrow>
     StateCheckpoint_Validate c = Inr () \<and> StateFile_Validate s = Inr ()
     \<and> (Generation s = c_Generation c \<and> CurrentHash s = c_CurrentHash c
        \<or> unat (Generation s) = unat (c_Generation c) + 1 \<and> PreviousHash s = c_CurrentHash c)"
proof -
  have "Generation s - c_Generation c = 1 \<longleftrightarrow> unat (Generation s) = unat (c_Generation c) + 1"
    if "c_Generation c < Generation s"
  proof -
    from that have "unat (Generation s - c_Generation c) = unat (Generation s) - unat (c_Generation c)"
      by (simp add: unat_sub word_less_nat_alt word_le_nat_alt)
    moreover have "Generation s - c_Generation c = 1 \<longleftrightarrow> unat (Generation s - c_Generation c) = 1"
      by (metis unat_1 word_unat_eq_iff)
    ultimately show ?thesis using that by (simp add: word_less_nat_alt) linarith
  qed
  then show ?thesis
    by (auto simp: ValidateState_def word_less_nat_alt word_unat_eq_iff)
qed

lemma validateStateHash_valid: "StateFile_Validate s = Inr () \<Longrightarrow> validateStateHash (CurrentHash s) = Inr ()"
  by (auto simp: StateFile_Validate_Inr)

lemma NewStateCheckpoint_Inr:
  "NewStateCheckpoint s = Inr c \<longleftrightarrow> StateFile_Validate s = Inr ()
     \<and> c = \<lparr>c_SchemaVersion = stateCheckpointVersion, c_Generation = Generation s, c_CurrentHash = CurrentHash s\<rparr>"
  using validateStateHash_valid [of s]
  by (auto simp: NewStateCheckpoint_def StateCheckpoint_Validate_def StateFile_Validate_Inr)

lemma PromoteState_Inr:
  assumes "PromoteState p a hs = Inr n"
  shows "ValidateStateProgress p n = Inr ()" and "canonical_state n"
    and "Generation n = Generation p + 1" and "ActiveKeyID n = derived_key_id a"
    and "unat (Generation n) = unat (Generation p) + 1"
proof -
  from assms have new: "NewStateFile a hs (Generation p + 1) (CurrentHash p) (IdentityFingerprint p) = Inr n"
    and prog: "ValidateStateProgress p n = Inr ()"
    by (auto simp: PromoteState_def)
  show "ValidateStateProgress p n = Inr ()" by (rule prog)
  show "canonical_state n" "ActiveKeyID n = derived_key_id a"
    and g: "Generation n = Generation p + 1" by (rule NewStateFile_Inr [OF new])+
  show "unat (Generation n) = unat (Generation p) + 1"
    using prog unat_succ [of "Generation p"] by (simp add: ValidateStateProgress_Inr g)
qed

text \<open>The histories a state directory can go through by observation and promotion.\<close>

inductive extends_history :: "StateFile \<Rightarrow> StateFile \<Rightarrow> bool" where
  start: "StateFile_Validate s = Inr () \<Longrightarrow> extends_history s s"
| advance: "extends_history s t \<Longrightarrow> canonical_state t \<Longrightarrow> ValidateStateProgress t u = Inr () \<Longrightarrow>
     extends_history s u"

lemma history_keeps:
  "extends_history s t \<Longrightarrow> resolves s k \<Longrightarrow>
     resolves t k \<and> Generation s \<le> Generation t \<and> IdentityFingerprint t = IdentityFingerprint s"
proof (induction rule: extends_history.induct)
  case (advance s t u)
  then show ?case
    using progress_keeps_resolvable [of t u k] by (auto simp: ValidateStateProgress_Inr)
qed simp

definition ex_record :: SnapshotStateRecord where
  "ex_record = SnapshotStateRecordFromSnapshot (normal_form ex_snapshot)"

definition ex_unsealed :: "u64 \<Rightarrow> string \<Rightarrow> StateFile" where
  "ex_unsealed g ph = \<lparr>SchemaVersion = stateFileVersion, IdentityFingerprint = ''cfg1.'' @ digest64 [],
     Generation = g, PreviousHash = ph, CurrentHash = [], ActiveKeyID = derived_key_id ex_snapshot,
     Snapshots = [ex_record]\<rparr>"

definition ex_state :: "u64 \<Rightarrow> string \<Rightarrow> StateFile" where
  "ex_state g ph = (ex_unsealed g ph)\<lparr>CurrentHash := computeHash (ex_unsealed g ph)\<rparr>"

lemma ex_record_simps [simp]:
  "rec_id ex_record = derived_key_id ex_snapshot" "r_KubernetesKeyID ex_record = derived_key_id ex_snapshot"
  "r_State ex_record = StateActive" "rec_snap ex_record = normal_form ex_snapshot" "rec_ok ex_record"
proof -
  have [simp]: "State ex_snapshot = StateActive" by (simp add: ex_snapshot_def)
  show "rec_id ex_record = derived_key_id ex_snapshot" "r_KubernetesKeyID ex_record = derived_key_id ex_snapshot"
    by (simp_all add: ex_record_def FromSnapshot_normal_form)
  show "r_State ex_record = StateActive" "rec_snap ex_record = normal_form ex_snapshot"
    by (simp add: ex_record_def SnapshotStateRecordFromSnapshot_def) (simp add: ex_record_def rec_snap_def)
  show "rec_ok ex_record"
    by (simp add: ex_record_def rec_ok_def normalizable_normal_form)
       (simp add: validateObservationMetadata_def SnapshotStateRecordFromSnapshot_def)
qed

lemma ex_state_simps [simp]:
  "SchemaVersion (ex_state g ph) = stateFileVersion" "IdentityFingerprint (ex_state g ph) = ''cfg1.'' @ digest64 []"
  "Generation (ex_state g ph) = g" "PreviousHash (ex_state g ph) = ph"
  "ActiveKeyID (ex_state g ph) = derived_key_id ex_snapshot" "Snapshots (ex_state g ph) = [ex_record]"
  "CurrentHash (ex_state g ph) = computeHash (ex_state g ph)"
  by (simp_all add: ex_state_def) (simp_all add: ex_unsealed_def)

lemma ex_state_content [simp]: "content_ok (ex_state g ph)" "canonical_state (ex_state g ph)"
  by (simp_all add: content_ok_def canonical_state_def)

lemma fingerprint_digest [simp]: "ValidateIdentityFingerprint (''cfg1.'' @ digest64 m) = Inr ()"
  by (simp add: ValidateIdentityFingerprint_def HasPrefix_def TrimPrefix_def sha256RawURLLength_def)

lemma ex_state_valid [simp]:
  "g \<noteq> 0 \<Longrightarrow> StateFile_Validate (ex_state g []) = Inr ()"
  "g \<noteq> 0 \<Longrightarrow> StateFile_Validate (ex_state g (computeHash q)) = Inr ()"
  using fingerprint_digest [of "[]"] by (auto simp: StateFile_Validate_Inr)


lemma ex_progress:
  "ValidateStateProgress (ex_state 1 []) (ex_state 2 (computeHash (ex_state 1 []))) = Inr ()"
proof -
  have "validateRetainedSnapshots (ex_state 1 []) (ex_state 2 (computeHash (ex_state 1 []))) = Inr ()"
    by (simp add: validateRetainedSnapshots_def validateRetainedRecord_def record_index_def)
  then show ?thesis
    by (simp add: ValidateStateProgress_Inr ex_state_valid ActiveSnapshot_Inr)
qed

lemma ex_resolves: "resolves (ex_state g ph) (derived_key_id ex_snapshot)"
  by (simp add: resolves_iff) (simp add: decryptable_state_def)

section \<open>Main results\<close>

text \<open>
  No decryption key is lost along a history: however many generations the state advances by
  steps that \<open>ValidateStateProgress\<close> accepts, every \<open>key_id\<close> that the registry of the first state
  resolves is still resolved by the registry of the last one, the generation never decreases and
  the configuration identity never changes. The states carry explicit identifiers in their records,
  as every state the program builds does.
\<close>

lemma history_keeps_keys:
  assumes "extends_history s t" and "StateFile_Registry s = Inr reg" and "Registry_Lookup reg k = Inr x"
  shows "(\<exists>reg' y. StateFile_Registry t = Inr reg' \<and> Registry_Lookup reg' k = Inr y \<and> KubernetesKeyID y = k)
    \<and> Generation s \<le> Generation t \<and> IdentityFingerprint t = IdentityFingerprint s"
proof -
  have "resolves s k" using assms(2,3) by (auto simp: resolves_def)
  with assms(1) have t: "resolves t k" "Generation s \<le> Generation t" "IdentityFingerprint t = IdentityFingerprint s"
    using history_keeps by blast+
  then obtain reg' where reg': "StateFile_Registry t = Inr reg'" "registry_wf reg'"
    using StateFile_Registry_exact [of t] by (auto simp: resolves_iff)
  with t obtain y where "Registry_Lookup reg' k = Inr y" by (auto simp: resolves_def)
  with reg' t show ?thesis using registry.lookup_key by blast
qed

text \<open>
  The registry of a valid state resolves exactly the records that are active, pending or
  retired, under their derived identifiers and to their normalised snapshots; rejected and removed
  records are not resolvable, and the active identifier is the one the state names.
\<close>

lemma state_registry_exact:
  assumes "StateFile_Validate s = Inr ()"
  shows "\<exists>reg. StateFile_Registry s = Inr reg \<and> activeKeyID reg = ActiveKeyID s
    \<and> (\<forall>k x. Registry_Lookup reg k = Inr x \<longleftrightarrow>
         (\<exists>r\<in>set (Snapshots s). r_State r \<in> {StateActive, StatePending, StateRetired}
            \<and> record_Snapshot r = Inr x \<and> KubernetesKeyID x = k))"
proof -
  have ok: "content_ok s" using assms by (rule validated_content)
  then have "rec_ok r" if "r \<in> set (Snapshots s)" for r
    using that by (auto simp: content_ok_def list_all_iff)
  then have "(\<exists>r\<in>set (Snapshots s). decryptable_state (r_State r) \<and> x = rec_snap r \<and> k = rec_id r)
      \<longleftrightarrow> (\<exists>r\<in>set (Snapshots s). r_State r \<in> {StateActive, StatePending, StateRetired}
            \<and> record_Snapshot r = Inr x \<and> KubernetesKeyID x = k)" for k x
    unfolding decryptable_state_def by (intro bex_cong refl) auto
  with StateFile_Registry_exact [OF ok] show ?thesis by auto
qed

text \<open>
  A state built from records is valid and canonical: it has the requested generation, previous
  hash and identity, its hash is the hash of its content, and building a state from its own fields
  gives it back.
\<close>

lemma NewStateFileFromRecords_valid:
  assumes "NewStateFileFromRecords aid rs g ph fp = Inr s"
  shows "StateFile_Validate s = Inr () \<and> Generation s = g \<and> PreviousHash s = ph
    \<and> IdentityFingerprint s = fp \<and> ActiveKeyID s = aid \<and> CurrentHash s = computeHash s
    \<and> map r_State (Snapshots s) = map r_State rs
    \<and> NewStateFileFromRecords (ActiveKeyID s) (Snapshots s) (Generation s) (PreviousHash s)
        (IdentityFingerprint s) = Inr s"
proof -
  from assms have s: "list_all rec_ok rs" "Snapshots s = map norm_rec rs" "StateFile_Validate s = Inr ()"
    by (simp_all add: NewStateFileFromRecords_Inr)
  have "map norm_rec (Snapshots s) = Snapshots s" by (simp add: s(2) norm_rec_def [of "norm_rec _"])
  moreover have "list_all rec_ok (Snapshots s)" using s(1) by (simp add: s(2) list_all_iff)
  ultimately show ?thesis
    using assms s(3) by (auto simp: NewStateFileFromRecords_Inr StateFile_Validate_Inr)
qed

text \<open>
  The replay checkpoint accepts exactly the checkpointed state and its direct successors: a valid
  state is accepted against the checkpoint of \<open>s\<close> if and only if it has the generation and the hash of
  \<open>s\<close>, or its generation is one more (counted without wrap-around) and its previous hash is the
  hash of \<open>s\<close>.
\<close>

lemma checkpoint_accepts:
  assumes "NewStateCheckpoint s = Inr c"
  shows "ValidateState c t = Inr () \<longleftrightarrow> StateFile_Validate t = Inr ()
    \<and> (Generation t = Generation s \<and> CurrentHash t = CurrentHash s
       \<or> unat (Generation t) = unat (Generation s) + 1 \<and> PreviousHash t = CurrentHash s)"
proof -
  from assms have "StateCheckpoint_Validate c = Inr ()" "c_Generation c = Generation s" "c_CurrentHash c = CurrentHash s"
    by (auto simp: NewStateCheckpoint_def Let_def)
  then show ?thesis by (simp add: ValidateState_Inr)
qed

text \<open>
  A promotion extends the history by one generation: the new state names the promoted snapshot as
  active, its generation is exactly one more without wrap-around, its previous hash is the hash of
  the old state, and the checkpoint of the old state accepts it.
\<close>

lemma PromoteState_extends:
  assumes "PromoteState p a hs = Inr n"
  shows "ActiveKeyID n = derived_key_id a \<and> unat (Generation n) = unat (Generation p) + 1
    \<and> PreviousHash n = CurrentHash p \<and> IdentityFingerprint n = IdentityFingerprint p
    \<and> (\<exists>c. NewStateCheckpoint p = Inr c \<and> ValidateState c n = Inr ())"
  using PromoteState_Inr [OF assms]
  by (auto simp: ValidateStateProgress_Inr NewStateCheckpoint_Inr ValidateState_Inr
      StateCheckpoint_Validate_def validateStateHash_valid StateFile_Validate_Inr)

end
