(* ===== verification/Transit_Profile.thy ===== *)
theory Transit_Profile
  imports State_File
begin

text \<open>
  Transit key metadata (\<^verbatim>\<open>internal/openbao/transit.go\<close>): the key profile, the parsing of the
  metadata response, and the policy findings that make the provider fail closed.
\<close>

section \<open>Data\<close>

record KeyVersion =
  kv_Version :: int
  kv_CreatedAt :: go_time

record KeyProfile =
  kp_Name :: string
  kp_Type :: string
  LatestVersion :: int
  MinAvailableVersion :: int
  MinEncryptionVersion :: int
  MinDecryptionVersion :: int
  VersionCreationTimes :: "KeyVersion list"
  Derived :: bool
  ConvergentEncryption :: bool
  Exportable :: bool
  AllowPlaintextBackup :: bool
  DeletionAllowed :: bool
  ImportedKey :: bool
  SoftDeleted :: bool
  SupportsEncryption :: bool
  SupportsDecryption :: bool
  SupportsDerivation :: bool
  SupportsSigning :: bool

record KeyProfileFinding =
  Code :: string
  Message :: string
  Impact :: string
  Severity :: string

definition TransitKeyTypeAES256GCM96 :: string where "TransitKeyTypeAES256GCM96 = ''aes256-gcm96''"
definition SeverityBlocking :: string where "SeverityBlocking = ''blocking''"
definition ImpactCryptographicSafety :: string where "ImpactCryptographicSafety = ''cryptographic_safety''"
definition ImpactAvailability :: string where "ImpactAvailability = ''api_server_availability''"

section \<open>Findings\<close>

definition blockingProfileFinding :: "string \<Rightarrow> string \<Rightarrow> string \<Rightarrow> KeyProfileFinding" where
  "blockingProfileFinding code message impact =
     \<lparr>Code = code, Message = message, Impact = impact, Severity = SeverityBlocking\<rparr>"

definition AssessKeyProfile :: "KeyProfile \<Rightarrow> KeyProfileFinding list" where
  "AssessKeyProfile profile =
     (if kp_Type profile \<noteq> TransitKeyTypeAES256GCM96
      then [blockingProfileFinding ''unsupported_type'' ''key type is not aes256-gcm96'' ImpactCryptographicSafety] else [])
   @ (if Exportable profile
      then [blockingProfileFinding ''exportable'' ''key material export is enabled'' ImpactCryptographicSafety] else [])
   @ (if AllowPlaintextBackup profile
      then [blockingProfileFinding ''plaintext_backup'' ''plaintext backup is enabled'' ImpactCryptographicSafety] else [])
   @ (if DeletionAllowed profile
      then [blockingProfileFinding ''deletion_allowed'' ''key deletion is allowed'' ImpactAvailability] else [])
   @ (if Derived profile
      then [blockingProfileFinding ''derived'' ''derived key mode is enabled'' ImpactCryptographicSafety] else [])
   @ (if ConvergentEncryption profile
      then [blockingProfileFinding ''convergent'' ''convergent encryption is enabled'' ImpactCryptographicSafety] else [])
   @ (if MinEncryptionVersion profile > 0 \<and> MinEncryptionVersion profile > LatestVersion profile
      then [blockingProfileFinding ''min_encryption_version'' ''minimum encryption version blocks latest version''
              ImpactAvailability] else [])
   @ (if MinDecryptionVersion profile > LatestVersion profile
      then [blockingProfileFinding ''min_decryption_version'' ''minimum decryption version exceeds latest version''
              ImpactAvailability] else [])
   @ (if \<not> SupportsEncryption profile
      then [blockingProfileFinding ''encryption_unsupported'' ''key does not support encryption'' ImpactAvailability] else [])
   @ (if \<not> SupportsDecryption profile
      then [blockingProfileFinding ''decryption_unsupported'' ''key does not support decryption'' ImpactAvailability] else [])"

definition BlockingKeyProfileFindings :: "KeyProfileFinding list \<Rightarrow> KeyProfileFinding list" where
  "BlockingKeyProfileFindings findings =
     filter (\<lambda>finding. Severity finding = [] \<or> Severity finding = SeverityBlocking) findings"

text \<open>\<open>strings.Join\<close>.\<close>

fun Join :: "string list \<Rightarrow> string \<Rightarrow> string" where
  "Join [] sep = []"
| "Join [x] sep = x"
| "Join (x # y # ys) sep = x @ sep @ Join (y # ys) sep"

definition format_finding :: "KeyProfileFinding \<Rightarrow> string" where
  "format_finding finding =
    (let impact = (if Impact finding = [] then ''unspecified'' else Impact finding);
         severity = (if Severity finding = [] then SeverityBlocking else Severity finding)
     in severity @ ''/'' @ impact @ '': '' @ Message finding)"

definition FormatKeyProfileFindings :: "KeyProfileFinding list \<Rightarrow> string" where
  "FormatKeyProfileFindings findings = Join (map format_finding findings) ''; ''"

section \<open>The metadata response\<close>

text \<open>
  \<open>keyProfileData.Keys\<close> is a map; the association list holds its entries in the order in which the
  loop visits them.
\<close>

record keyProfileData =
  kd_AllowPlaintextBackup :: bool
  kd_AutoRotatePeriod :: int
  kd_DeletionAllowed :: bool
  kd_Derived :: bool
  kd_Exportable :: bool
  kd_ImportedKey :: bool
  kd_Keys :: "(string \<times> int) list"
  kd_LatestVersion :: int
  kd_MinAvailableVersion :: int
  kd_MinDecryptionVersion :: int
  kd_MinEncryptionVersion :: int
  kd_Name :: string
  kd_SoftDeleted :: bool
  kd_SupportsDecryption :: bool
  kd_SupportsDerivation :: bool
  kd_SupportsEncryption :: bool
  kd_SupportsSigning :: bool
  kd_Type :: string
  kd_ConvergentEncryption :: bool

definition parse_key_version :: "string \<times> int \<Rightarrow> KeyVersion res" where
  "parse_key_version kv =
    (case Atoi (fst kv) of
       None \<Rightarrow> Inl (Msg ''parse Transit key version'')
     | Some version \<Rightarrow> Inr \<lparr>kv_Version = version, kv_CreatedAt = time_Unix (snd kv)\<rparr>)"

definition profile_of :: "keyProfileData \<Rightarrow> KeyProfile res" where
  "profile_of d =
    bindE (mapE parse_key_version (kd_Keys d)) (\<lambda>versions.
    Inr \<lparr>kp_Name = kd_Name d, kp_Type = kd_Type d, LatestVersion = kd_LatestVersion d,
         MinAvailableVersion = kd_MinAvailableVersion d,
         MinEncryptionVersion = kd_MinEncryptionVersion d,
         MinDecryptionVersion = kd_MinDecryptionVersion d,
         VersionCreationTimes = versions, Derived = kd_Derived d,
         ConvergentEncryption = kd_ConvergentEncryption d, Exportable = kd_Exportable d,
         AllowPlaintextBackup = kd_AllowPlaintextBackup d, DeletionAllowed = kd_DeletionAllowed d,
         ImportedKey = kd_ImportedKey d, SoftDeleted = kd_SoftDeleted d,
         SupportsEncryption = kd_SupportsEncryption d, SupportsDecryption = kd_SupportsDecryption d,
         SupportsDerivation = kd_SupportsDerivation d, SupportsSigning = kd_SupportsSigning d\<rparr>)"

section \<open>Properties\<close>

text \<open>The key settings the provider accepts.\<close>

definition safe_profile :: "KeyProfile \<Rightarrow> bool" where
  "safe_profile p \<longleftrightarrow> kp_Type p = ''aes256-gcm96'' \<and> \<not> Exportable p \<and> \<not> AllowPlaintextBackup p
     \<and> \<not> DeletionAllowed p \<and> \<not> Derived p \<and> \<not> ConvergentEncryption p
     \<and> (MinEncryptionVersion p \<le> 0 \<or> MinEncryptionVersion p \<le> LatestVersion p)
     \<and> MinDecryptionVersion p \<le> LatestVersion p \<and> SupportsEncryption p \<and> SupportsDecryption p"

lemma AssessKeyProfile_blocking: "BlockingKeyProfileFindings (AssessKeyProfile p) = AssessKeyProfile p"
  by (auto simp: BlockingKeyProfileFindings_def AssessKeyProfile_def blockingProfileFinding_def)

lemma AssessKeyProfile_empty: "AssessKeyProfile p = [] \<longleftrightarrow> safe_profile p"
  by (auto simp: AssessKeyProfile_def safe_profile_def TransitKeyTypeAES256GCM96_def)

end
