(* ===== verification/Error_Classes.thy ===== *)
theory Error_Classes
  imports Transit_Profile
begin

text \<open>
  OpenBao error classes (\<^verbatim>\<open>internal/openbao/errors.go\<close>): the classification of HTTP responses and the
  labels under which errors are observed, and \<open>errors.As\<close> for the error types of the program.
\<close>

section \<open>Error values\<close>

text \<open>
  \<open>errors.As\<close> with a target of type \<open>*openbao.Error\<close>, \<open>*probeError\<close> or \<open>*transitFailure\<close>: the first
  match in a depth-first search through the wrapped errors.
\<close>

fun first_some :: "('a \<Rightarrow> 'b option) \<Rightarrow> 'a list \<Rightarrow> 'b option" where
  "first_some f [] = None"
| "first_some f (x # xs) = (case f x of Some y \<Rightarrow> Some y | None \<Rightarrow> first_some f xs)"

lemma first_some_cong [fundef_cong]:
  "xs = ys \<Longrightarrow> (\<And>x. x \<in> set ys \<Longrightarrow> f x = g x) \<Longrightarrow> first_some f xs = first_some g ys"
  by (induction xs arbitrary: ys) (auto split: option.split)

fun as_api_error :: "go_error \<Rightarrow> (ErrorClass \<times> int \<times> string) option" where
  "as_api_error (ApiError class status op) = Some (class, status, op)"
| "as_api_error (Wrap m es) = first_some as_api_error es"
| "as_api_error (TransitFailure e) = as_api_error e"
| "as_api_error (ProbeError r e) = as_api_error e"
| "as_api_error (AuthError e) = as_api_error e"
| "as_api_error (Sentinel s) = None"
| "as_api_error (Msg m) = None"
| "as_api_error (GrpcStatus c m) = None"

fun as_probe_error :: "go_error \<Rightarrow> string option" where
  "as_probe_error (ProbeError r e) = Some r"
| "as_probe_error (Wrap m es) = first_some as_probe_error es"
| "as_probe_error (TransitFailure e) = as_probe_error e"
| "as_probe_error (ApiError c n p) = None"
| "as_probe_error (AuthError e) = as_probe_error e"
| "as_probe_error (Sentinel s) = None"
| "as_probe_error (Msg m) = None"
| "as_probe_error (GrpcStatus c m) = None"

fun as_transit_failure :: "go_error \<Rightarrow> go_error option" where
  "as_transit_failure (TransitFailure e) = Some e"
| "as_transit_failure (Wrap m es) = first_some as_transit_failure es"
| "as_transit_failure (ProbeError r e) = as_transit_failure e"
| "as_transit_failure (ApiError c n p) = None"
| "as_transit_failure (AuthError e) = as_transit_failure e"
| "as_transit_failure (Sentinel s) = None"
| "as_transit_failure (Msg m) = None"
| "as_transit_failure (GrpcStatus c m) = None"

section \<open>Classes\<close>

primrec class_string :: "ErrorClass \<Rightarrow> string" where
  "class_string ErrorClassInvalidRequest = ''invalid_request''"
| "class_string ErrorClassUnauthenticated = ''unauthenticated''"
| "class_string ErrorClassPermissionDenied = ''permission_denied''"
| "class_string ErrorClassNotFound = ''not_found''"
| "class_string ErrorClassDecryptFailed = ''decrypt_failed''"
| "class_string ErrorClassRateLimited = ''rate_limited''"
| "class_string ErrorClassUnavailable = ''unavailable''"
| "class_string ErrorClassTLSFailed = ''tls_failed''"
| "class_string ErrorClassDNSFailed = ''dns_failed''"
| "class_string ErrorClassConnectionFailed = ''connection_failed''"
| "class_string ErrorClassSealed = ''sealed''"
| "class_string ErrorClassUnknown = ''unknown''"

text \<open>
  \<open>strings.ToLower\<close> as far as a search for ASCII text can tell: ASCII letters and the two other
  runes whose lower case is an ASCII letter (\<open>U+0130\<close> and \<open>U+212A\<close>).
\<close>

fun ToLower :: "string \<Rightarrow> string" where
  "ToLower (c # s) =
    (if c = CHR 0xC4 \<and> take 1 s = [CHR 0xB0] then CHR ''i'' # ToLower (drop 1 s)
     else if c = CHR 0xE2 \<and> take 2 s = [CHR 0x84, CHR 0xAA] then CHR ''k'' # ToLower (drop 2 s)
     else (if 65 \<le> byte_val c \<and> byte_val c \<le> 90 then char_of (byte_val c + 32) else c) # ToLower s)"
| "ToLower [] = []"

definition classifyError :: "int \<Rightarrow> string list \<Rightarrow> ErrorClass" where
  "classifyError statusCode messages =
    (let joined = ToLower (Join messages [CHR 0x0A]) in
     if Contains joined ''sealed'' then ErrorClassSealed
     else if Contains joined ''message authentication failed'' then ErrorClassDecryptFailed
     else if statusCode = 400 then ErrorClassInvalidRequest
     else if statusCode = 401 then ErrorClassUnauthenticated
     else if statusCode = 403 then ErrorClassPermissionDenied
     else if statusCode = 404 then ErrorClassNotFound
     else if statusCode = 429 then ErrorClassRateLimited
     else if statusCode \<ge> 500 then ErrorClassUnavailable
     else ErrorClassUnknown)"

definition newHTTPError :: "string \<Rightarrow> int \<Rightarrow> string list \<Rightarrow> go_error" where
  "newHTTPError operation statusCode messages = ApiError (classifyError statusCode messages) statusCode operation"

text \<open>\<open>responseSizeError\<close> is \<open>ErrResponseTooLarge\<close> and unwraps to an API error of class unavailable.\<close>

definition newResponseSizeError :: "string \<Rightarrow> int \<Rightarrow> go_error" where
  "newResponseSizeError operation limit =
     Wrap (''openbao '' @ operation @ '' response exceeds '' @ Itoa limit @ ''-byte limit'')
       [Sentinel ErrResponseTooLarge, ApiError ErrorClassUnavailable 0 operation]"

definition requestStatus :: "go_error option \<Rightarrow> string" where
  "requestStatus err = (case err of
     None \<Rightarrow> ''ok''
   | Some e \<Rightarrow> (case as_api_error e of Some (class, _) \<Rightarrow> class_string class | None \<Rightarrow> ''error''))"

definition requestErrorClass :: "go_error option \<Rightarrow> string" where
  "requestErrorClass err = (case err of
     None \<Rightarrow> []
   | Some e \<Rightarrow> (case as_api_error e of Some (class, _) \<Rightarrow> class_string class
                 | None \<Rightarrow> class_string ErrorClassUnknown))"

end
