(* ===== verification/Identity.thy ===== *)
theory Identity
  imports Clock Error_Classes
begin

text \<open>
  The identities the provider logs in with (\<^verbatim>\<open>internal/auth/jwt.go\<close>, \<^verbatim>\<open>cert.go\<close>): reading identity files, checking
  JWT claims and client certificates. What the operating system answers (file information, file contents, readings of
  the clock) are arguments, and so are \<open>json.Unmarshal\<close> of the claims, the PEM and X.509 decoders, \<open>url.Parse\<close> and
  the signer of a certificate.
\<close>

section \<open>Errors of the package\<close>

abbreviation autherr :: "auth_sentinel \<Rightarrow> string \<Rightarrow> go_error" where
  "autherr s m \<equiv> errw (Auth s) m"

text \<open>\<open>errors.As\<close> with a target of type \<open>*authError\<close>, as far as \<open>publicAuthError\<close> uses it.\<close>

fun as_auth_error :: "go_error \<Rightarrow> bool" where
  "as_auth_error (AuthError e) = True"
| "as_auth_error (Wrap m es) = list_ex as_auth_error es"
| "as_auth_error (TransitFailure e) = as_auth_error e"
| "as_auth_error (ProbeError r e) = as_auth_error e"
| "as_auth_error (ApiError c n p) = False"
| "as_auth_error (Sentinel s) = False"
| "as_auth_error (Msg m) = False"
| "as_auth_error (GrpcStatus c m) = False"

definition publicAuthError :: "go_error \<Rightarrow> go_error" where
  "publicAuthError err = (if as_auth_error err then err else AuthError err)"

fun public_result :: "'a res \<Rightarrow> 'a res" where
  "public_result (Inl err) = Inl (publicAuthError err)"
| "public_result (Inr x) = Inr x"

lemma as_auth_error_authentication: "as_auth_error err \<Longrightarrow> errors_is err ErrAuthentication"
  by (induction err rule: as_auth_error.induct) (auto simp: list_ex_iff)

lemma publicAuthError_authentication: "errors_is (publicAuthError err) ErrAuthentication"
  by (simp add: publicAuthError_def as_auth_error_authentication)

lemma publicAuthError_keeps: "errors_is err s \<Longrightarrow> errors_is (publicAuthError err) s"
  by (simp add: publicAuthError_def)

lemma publicAuthError_api [simp]: "as_api_error (publicAuthError err) = as_api_error err"
  by (simp add: publicAuthError_def)

lemma public_result_Inr [simp]: "public_result r = Inr x \<longleftrightarrow> r = Inr x"
  by (cases r) simp_all

section \<open>Identity files\<close>

text \<open>What \<open>os.Lstat\<close> and \<open>File.Stat\<close> report; \<open>os.SameFile\<close> compares the file identity.\<close>

record file_info =
  fi_symlink :: bool
  fi_regular :: bool
  fi_perm :: "9 word"
  fi_id :: nat

text \<open>The answers of the operating system to one read of an identity file, in the order of the calls.\<close>

record file_read =
  fr_lstat :: "file_info option"
  fr_open :: bool
  fr_stat :: "file_info option"
  fr_relstat :: "file_info option"
  fr_content :: "string option"

definition identityFileModeMask :: "9 word" where "identityFileModeMask = 0x1F"
definition maxIdentityFileBytes :: nat where "maxIdentityFileBytes = 1048576"

unbundle bit_operations_syntax

text \<open>
  The checks on JWT and certificate files are the same up to the error variable and the noun in the messages.
\<close>

definition validateFileMode :: "auth_sentinel \<Rightarrow> string \<Rightarrow> file_info \<Rightarrow> unit res" where
  "validateFileMode err what info =
    bindE (failIf (fi_symlink info) (autherr err (what @ '' must not be a symlink''))) (\<lambda>_.
    bindE (failIf (\<not> fi_regular info) (autherr err (what @ '' must be a regular file''))) (\<lambda>_.
    failIf (fi_perm info AND identityFileModeMask \<noteq> 0) (autherr err (what @ '' permissions are too broad''))))"

definition validateJWTFileMode :: "file_info \<Rightarrow> unit res" where
  "validateJWTFileMode = validateFileMode ErrJWTRead ''identity file''"
definition validateCertificateFileMode :: "file_info \<Rightarrow> unit res" where
  "validateCertificateFileMode = validateFileMode ErrCertificateRead ''certificate file''"

definition stat_or :: "go_error \<Rightarrow> file_info option \<Rightarrow> file_info res" where
  "stat_or err info = (case info of None \<Rightarrow> Inl err | Some i \<Rightarrow> Inr i)"

definition validateJWTFileInfo :: "file_info option \<Rightarrow> unit res" where
  "validateJWTFileInfo info =
    bindE (stat_or (autherr ErrJWTRead ''identity file is unreadable'') info) validateJWTFileMode"
definition validateCertificateFileInfo :: "file_info option \<Rightarrow> unit res" where
  "validateCertificateFileInfo info =
    bindE (stat_or (autherr ErrCertificateRead ''certificate file is unreadable'') info) validateCertificateFileMode"

definition validateOpenedJWTFile :: "file_info option \<Rightarrow> file_info option \<Rightarrow> unit res" where
  "validateOpenedJWTFile opened relstat =
    bindE (stat_or (autherr ErrJWTRead ''identity file is unreadable'') opened) (\<lambda>openedInfo.
    bindE (validateJWTFileMode openedInfo) (\<lambda>_.
    bindE (stat_or (autherr ErrJWTRead ''identity file is unreadable'') relstat) (\<lambda>currentInfo.
    bindE (validateJWTFileMode currentInfo) (\<lambda>_.
    failIf (fi_id openedInfo \<noteq> fi_id currentInfo) (autherr ErrJWTRead ''identity file changed while opening'')))))"
definition validateOpenedCertificateFile :: "file_info option \<Rightarrow> file_info option \<Rightarrow> unit res" where
  "validateOpenedCertificateFile opened relstat =
    bindE (stat_or (autherr ErrCertificateRead ''certificate file is unreadable'') opened) (\<lambda>openedInfo.
    bindE (validateCertificateFileMode openedInfo) (\<lambda>_.
    bindE (stat_or (autherr ErrCertificateRead ''certificate file is unreadable'') relstat) (\<lambda>currentInfo.
    bindE (validateCertificateFileMode currentInfo) (\<lambda>_.
    failIf (fi_id openedInfo \<noteq> fi_id currentInfo) (autherr ErrCertificateRead ''certificate file changed while opening'')))))"

text \<open>\<open>io.ReadAll\<close> over a reader limited to one byte more than the maximum.\<close>

definition read_limited :: "file_read \<Rightarrow> string option" where
  "read_limited f = map_option (take (maxIdentityFileBytes + 1)) (fr_content f)"

definition jwtWhitespaceChars :: string where "jwtWhitespaceChars = [CHR '' '', CHR 0x09, CHR 0x0D, CHR 0x0A]"

definition ReadJWTFile :: "string \<Rightarrow> file_read \<Rightarrow> string res" where
  "ReadJWTFile path f =
    (let cleanPath = TrimSpace path in
     bindE (failIf (cleanPath = []) (autherr ErrJWTRead ''file path is required'')) (\<lambda>_.
     bindE (failIf (\<not> HasPrefix cleanPath ''/'') (autherr ErrJWTRead ''identity file path must be absolute'')) (\<lambda>_.
     bindE (validateJWTFileInfo (fr_lstat f)) (\<lambda>_.
     bindE (failIf (\<not> fr_open f) (autherr ErrJWTRead ''identity file is unreadable'')) (\<lambda>_.
     bindE (validateOpenedJWTFile (fr_stat f) (fr_relstat f)) (\<lambda>_.
     case read_limited f of
       None \<Rightarrow> Inl (autherr ErrJWTRead ''identity file is unreadable'')
     | Some content \<Rightarrow>
         bindE (failIf (length content > maxIdentityFileBytes) (autherr ErrJWTRead ''identity file is too large'')) (\<lambda>_.
         let token = TrimSpace content in
         bindE (failIf (token = []) (autherr ErrJWTRead ''identity file is empty'')) (\<lambda>_.
         bindE (failIf (ContainsAny token jwtWhitespaceChars) (autherr ErrJWTMalformed ''compact token contains whitespace'')) (\<lambda>_.
         Inr token)))))))))"

section \<open>JWT claims\<close>

record Claims =
  cl_Issuer :: string
  cl_Subject :: string
  cl_Audience :: "string list"
  cl_ExpiresAt :: go_time
  cl_NotBefore :: go_time
  cl_IssuedAt :: go_time
  HasNotBefore :: bool
  HasIssuedAt :: bool

record numericDate =
  nd_Time :: go_time
  nd_Set :: bool

record registeredClaims =
  rc_Issuer :: string
  rc_Subject :: string
  rc_Audience :: "string list"
  rc_ExpiresAt :: numericDate
  rc_NotBefore :: numericDate
  rc_IssuedAt :: numericDate

record JWT =
  Raw :: string
  jwt_Claims :: Claims
  jwt_ReadAt :: go_time
  EndpointLifetime :: Lifetime

record JWTValidationOptions =
  jo_MinRemainingTTL :: int
  jo_ClockSkewLeeway :: int
  ExpectedIssuer :: string
  ExpectedAudience :: "string list"
  ExpectedSubject :: string

definition decodeJWTPart :: "string \<Rightarrow> string option" where
  "decodeJWTPart segment =
    (case RawURL_DecodeString segment of
       Some decoded \<Rightarrow> Some decoded
     | None \<Rightarrow> b64_decode b64_url True False segment)"

definition ParseClaims :: "(string \<Rightarrow> registeredClaims option) \<Rightarrow> string \<Rightarrow> Claims res" where
  "ParseClaims unmarshal token =
    (let parts = split_on (CHR ''.'') token in
     bindE (failIf (length parts \<noteq> 3 \<or> parts ! 0 = [] \<or> parts ! 1 = [])
       (autherr ErrJWTMalformed ''compact token must contain header, payload, and signature'')) (\<lambda>_.
     case decodeJWTPart (parts ! 1) of
       None \<Rightarrow> Inl (autherr ErrJWTMalformed ''payload is not valid base64url'')
     | Some payload \<Rightarrow>
         (case unmarshal payload of
            None \<Rightarrow> Inl (autherr ErrJWTMalformed ''payload claims are invalid'')
          | Some decoded \<Rightarrow>
              bindE (failIf (\<not> nd_Set (rc_ExpiresAt decoded)) (autherr ErrJWTMalformed ''exp claim is required'')) (\<lambda>_.
              Inr \<lparr>cl_Issuer = rc_Issuer decoded, cl_Subject = rc_Subject decoded, cl_Audience = rc_Audience decoded,
                   cl_ExpiresAt = nd_Time (rc_ExpiresAt decoded), cl_NotBefore = nd_Time (rc_NotBefore decoded),
                   cl_IssuedAt = nd_Time (rc_IssuedAt decoded), HasNotBefore = nd_Set (rc_NotBefore decoded),
                   HasIssuedAt = nd_Set (rc_IssuedAt decoded)\<rparr>))))"

definition hasExpectedAudience :: "string list \<Rightarrow> string list \<Rightarrow> bool" where
  "hasExpectedAudience actual expected = list_ex (\<lambda>want. want \<in> set actual) expected"

definition validateExpectedIdentity :: "Claims \<Rightarrow> JWTValidationOptions \<Rightarrow> unit res" where
  "validateExpectedIdentity claims opts =
    bindE (failIf (ExpectedIssuer opts \<noteq> [] \<and> cl_Issuer claims \<noteq> ExpectedIssuer opts)
      (Sentinel (Auth ErrJWTIssuerMismatch))) (\<lambda>_.
    bindE (failIf (ExpectedAudience opts \<noteq> [] \<and> \<not> hasExpectedAudience (cl_Audience claims) (ExpectedAudience opts))
      (Sentinel (Auth ErrJWTAudienceMismatch))) (\<lambda>_.
    failIf (ExpectedSubject opts \<noteq> [] \<and> cl_Subject claims \<noteq> ExpectedSubject opts)
      (Sentinel (Auth ErrJWTSubjectMismatch))))"

definition ValidateClaims :: "Claims \<Rightarrow> JWTValidationOptions \<Rightarrow> go_time \<Rightarrow> unit res" where
  "ValidateClaims claims opts now =
    (let leeway = (if jo_ClockSkewLeeway opts < 0 then 0 else jo_ClockSkewLeeway opts);
         latestAcceptedNow = now + leeway in
     bindE (failIf (HasNotBefore claims \<and> latestAcceptedNow < cl_NotBefore claims)
       (autherr ErrJWTNotYetValid ''nbf claim is in the future'')) (\<lambda>_.
     bindE (failIf (HasIssuedAt claims \<and> latestAcceptedNow < cl_IssuedAt claims)
       (autherr ErrJWTIssuedInFuture ''iat claim is in the future'')) (\<lambda>_.
     bindE (validateExpectedIdentity claims opts) (\<lambda>_.
     let remaining = time_Sub (cl_ExpiresAt claims) now in
     bindE (failIf (now - leeway > cl_ExpiresAt claims \<or> now - leeway = cl_ExpiresAt claims)
       (autherr ErrJWTExpired ''exp claim is not in the future'')) (\<lambda>_.
     failIf (jo_MinRemainingTTL opts > 0 \<and> remaining \<le> jo_MinRemainingTTL opts)
       (autherr ErrJWTNearExpiry ''remaining TTL is below minimum''))))))"

text \<open>The clock is read once for the time of reading and once for the validation.\<close>

definition ReadJWT :: "(string \<Rightarrow> registeredClaims option) \<Rightarrow> string \<Rightarrow> file_read \<Rightarrow> go_time \<Rightarrow> JWT res" where
  "ReadJWT unmarshal path f readAt =
    bindE (ReadJWTFile path f) (\<lambda>token.
    bindE (ParseClaims unmarshal token) (\<lambda>claims.
    Inr \<lparr>Raw = token, jwt_Claims = claims, jwt_ReadAt = readAt, EndpointLifetime = unset_lifetime\<rparr>))"

definition ReadAndValidateJWT ::
  "(string \<Rightarrow> registeredClaims option) \<Rightarrow> string \<Rightarrow> JWTValidationOptions \<Rightarrow> file_read \<Rightarrow> go_time \<Rightarrow> go_time \<Rightarrow> JWT res" where
  "ReadAndValidateJWT unmarshal path opts f readAt now =
    bindE (ReadJWT unmarshal path f readAt) (\<lambda>token.
    bindE (ValidateClaims (jwt_Claims token) opts now) (\<lambda>_. Inr token))"

section \<open>Certificates\<close>

datatype SignatureAlgorithm = MD2WithRSA | MD5WithRSA | SHA1WithRSA | DSAWithSHA1 | ECDSAWithSHA1 | OtherSignature nat
datatype ExtKeyUsage = ExtKeyUsageAny | ExtKeyUsageClientAuth | OtherUsage nat

text \<open>The parts of a \<open>url.URL\<close> the code looks at, with its \<open>String\<close>.\<close>

record URL =
  u_Scheme :: string
  u_Opaque :: string
  u_User :: bool
  u_Host :: string
  u_Path :: string
  u_RawQuery :: string
  u_Fragment :: string
  u_String :: string

text \<open>A public key is its \<open>MarshalPKIXPublicKey\<close> encoding, where it has one, and whether it is an Ed25519 key.\<close>

record public_key =
  pk_encoding :: "string option"
  pk_ed25519 :: bool

record x509_certificate =
  x_SignatureAlgorithm :: SignatureAlgorithm
  x_NotBefore :: go_time
  x_NotAfter :: go_time
  x_ExtKeyUsage :: "ExtKeyUsage list"
  x_URIs :: "URL option list"
  x_PublicKey :: public_key

record Certificate =
  Leaf :: "x509_certificate option"
  Chain :: "x509_certificate list"
  cert_ReadAt :: go_time
  cert_ExpiresAt :: go_time

record CertificateValidationOptions =
  co_MinRemainingTTL :: int
  co_ClockSkewLeeway :: int
  ExpectedSPIFFEID :: string
  TrustDomain :: string

text \<open>A \<open>crypto.Signer\<close>: its public key and whether it signs a message, given the hash identifier.\<close>

datatype signer_hash = NoHash | SHA256_Hash

record crypto_signer =
  sg_Public :: public_key
  sg_Sign :: "string \<Rightarrow> signer_hash \<Rightarrow> bool"

definition usesWeakSignature :: "SignatureAlgorithm \<Rightarrow> bool" where
  "usesWeakSignature algorithm =
    (case algorithm of MD2WithRSA \<Rightarrow> True | MD5WithRSA \<Rightarrow> True | SHA1WithRSA \<Rightarrow> True | DSAWithSHA1 \<Rightarrow> True
     | ECDSAWithSHA1 \<Rightarrow> True | OtherSignature _ \<Rightarrow> False)"

definition hasClientAuthUsage :: "ExtKeyUsage list \<Rightarrow> bool" where
  "hasClientAuthUsage usages \<longleftrightarrow> ExtKeyUsageClientAuth \<in> set usages \<or> ExtKeyUsageAny \<in> set usages"

text \<open>A chain is a list of pointers, some of which may be nil.\<close>

definition validatedCertificateLeaf :: "x509_certificate option list \<Rightarrow> (x509_certificate \<times> x509_certificate list) res" where
  "validatedCertificateLeaf chain =
    (case chain of
       Some leaf # _ \<Rightarrow>
         if None \<in> set chain then Inl (autherr ErrCertificateMalformed ''certificate chain contains an empty certificate'')
         else Inr (leaf, map the chain)
     | _ \<Rightarrow> Inl (autherr ErrCertificateMalformed ''certificate chain is empty''))"

definition validateCertificateSignatureAlgorithms :: "x509_certificate list \<Rightarrow> unit res" where
  "validateCertificateSignatureAlgorithms chain =
    forE (\<lambda>cert. failIf (usesWeakSignature (x_SignatureAlgorithm cert))
      (autherr ErrCertificateWeakSignature ''certificate signature algorithm is disallowed'')) chain"

definition spiffeURIScheme :: string where "spiffeURIScheme = ''spiffe''"

definition parseSPIFFEURI :: "(string \<Rightarrow> URL option) \<Rightarrow> string \<Rightarrow> URL res" where
  "parseSPIFFEURI url_parse value =
    (case url_parse value of
       None \<Rightarrow> Inl (Sentinel (Auth ErrCertificateIdentityMismatch))
     | Some parsed \<Rightarrow>
         if u_Scheme parsed \<noteq> spiffeURIScheme \<or> u_Host parsed = [] \<or> u_Path parsed = [] \<or> u_User parsed
            \<or> u_RawQuery parsed \<noteq> [] \<or> u_Fragment parsed \<noteq> []
         then Inl (Sentinel (Auth ErrCertificateIdentityMismatch)) else Inr parsed)"

definition validateExpectedSPIFFEID :: "(string \<Rightarrow> URL option) \<Rightarrow> string \<Rightarrow> string \<Rightarrow> URL option list \<Rightarrow> unit res" where
  "validateExpectedSPIFFEID url_parse expectedID trustDomain uris =
    (if expectedID = [] then Inr ()
     else bindE (parseSPIFFEURI url_parse expectedID) (\<lambda>parsed.
          bindE (failIf (trustDomain \<noteq> [] \<and> u_Host parsed \<noteq> trustDomain) (Sentinel (Auth ErrCertificateIdentityMismatch))) (\<lambda>_.
          failIf (\<not> list_ex (\<lambda>uri. case uri of None \<Rightarrow> False | Some u \<Rightarrow> u_String u = expectedID) uris)
            (Sentinel (Auth ErrCertificateIdentityMismatch)))))"

text \<open>The loop of \<open>validateSPIFFETrustDomain\<close> carries the flag \<open>matched\<close>.\<close>

fun trust_domain_loop :: "string \<Rightarrow> bool \<Rightarrow> URL option list \<Rightarrow> bool res" where
  "trust_domain_loop trustDomain matched [] = Inr matched"
| "trust_domain_loop trustDomain matched (None # uris) = trust_domain_loop trustDomain matched uris"
| "trust_domain_loop trustDomain matched (Some uri # uris) =
    (if u_Scheme uri \<noteq> spiffeURIScheme then trust_domain_loop trustDomain matched uris
     else if u_Host uri \<noteq> trustDomain then Inl (Sentinel (Auth ErrCertificateIdentityMismatch))
     else trust_domain_loop trustDomain True uris)"

definition validateSPIFFETrustDomain :: "string \<Rightarrow> URL option list \<Rightarrow> unit res" where
  "validateSPIFFETrustDomain trustDomain uris =
    (if trustDomain = [] then Inr ()
     else bindE (trust_domain_loop trustDomain False uris) (\<lambda>matched.
          failIf (\<not> matched) (Sentinel (Auth ErrCertificateIdentityMismatch))))"

definition validateCertificateSPIFFEIdentity ::
  "(string \<Rightarrow> URL option) \<Rightarrow> x509_certificate \<Rightarrow> CertificateValidationOptions \<Rightarrow> unit res" where
  "validateCertificateSPIFFEIdentity url_parse cert opts =
    (let expectedID = TrimSpace (ExpectedSPIFFEID opts); trustDomain = TrimSpace (TrustDomain opts) in
     if expectedID = [] \<and> trustDomain = [] then Inr ()
     else bindE (validateExpectedSPIFFEID url_parse expectedID trustDomain (x_URIs cert)) (\<lambda>_.
          validateSPIFFETrustDomain trustDomain (x_URIs cert)))"

definition ValidateCertificateChain ::
  "(string \<Rightarrow> URL option) \<Rightarrow> x509_certificate option list \<Rightarrow> CertificateValidationOptions \<Rightarrow> go_time \<Rightarrow> unit res" where
  "ValidateCertificateChain url_parse chain opts now =
    bindE (validatedCertificateLeaf chain) (\<lambda>(leaf, certs).
    bindE (validateCertificateSignatureAlgorithms certs) (\<lambda>_.
    let leeway = (if co_ClockSkewLeeway opts < 0 then 0 else co_ClockSkewLeeway opts);
        latestAcceptedNow = now + leeway in
    bindE (failIf (latestAcceptedNow < x_NotBefore leaf)
      (autherr ErrCertificateNotYetValid ''certificate not-before is in the future'')) (\<lambda>_.
    bindE (failIf (now - leeway > x_NotAfter leaf \<or> now - leeway = x_NotAfter leaf)
      (autherr ErrCertificateExpired ''certificate not-after is not in the future'')) (\<lambda>_.
    bindE (failIf (co_MinRemainingTTL opts > 0 \<and> time_Sub (x_NotAfter leaf) now \<le> co_MinRemainingTTL opts)
      (autherr ErrCertificateNearExpiry ''remaining TTL is below minimum'')) (\<lambda>_.
    bindE (failIf (\<not> hasClientAuthUsage (x_ExtKeyUsage leaf))
      (autherr ErrCertificateUsage ''client auth EKU is required'')) (\<lambda>_.
    validateCertificateSPIFFEIdentity url_parse leaf opts))))))"

definition validateCertificateSignerPublicKey :: "x509_certificate option \<Rightarrow> crypto_signer option \<Rightarrow> crypto_signer res" where
  "validateCertificateSignerPublicKey cert signer =
    (case cert of
       None \<Rightarrow> Inl (autherr ErrCertificateMalformed ''certificate is required'')
     | Some c \<Rightarrow> (case signer of
         None \<Rightarrow> Inl (autherr ErrCertificateSignerMismatch ''signer is required'')
       | Some sg \<Rightarrow> (case pk_encoding (x_PublicKey c) of
           None \<Rightarrow> Inl (autherr ErrCertificateSignerMismatch ''certificate public key is unsupported'')
         | Some certPublic \<Rightarrow> (case pk_encoding (sg_Public sg) of
             None \<Rightarrow> Inl (autherr ErrCertificateSignerMismatch ''signer public key is unsupported'')
           | Some signerPublic \<Rightarrow>
               if certPublic \<noteq> signerPublic
               then Inl (autherr ErrCertificateSignerMismatch ''signer public key does not match certificate'')
               else Inr sg))))"

definition signerProbeMessage :: string where "signerProbeMessage = ''openbao-kubernetes-kms/cert-signer-probe/v1''"

definition probeSigner :: "crypto_signer \<Rightarrow> unit res" where
  "probeSigner signer =
    (if pk_ed25519 (sg_Public signer)
     then failIf (\<not> sg_Sign signer signerProbeMessage NoHash) (autherr ErrCertificateSignerProbe ''signer rejected probe'')
     else failIf (\<not> sg_Sign signer (Sum256 signerProbeMessage) SHA256_Hash)
            (autherr ErrCertificateSignerProbe ''signer rejected probe''))"

definition ValidateCertificateSigner :: "x509_certificate option \<Rightarrow> crypto_signer option \<Rightarrow> unit res" where
  "ValidateCertificateSigner cert signer = bindE (validateCertificateSignerPublicKey cert signer) probeSigner"

text \<open>
  The loop of \<open>ParseCertificateChainPEM\<close>: \<open>pem_decode\<close> gives the type and bytes of the first block and the rest of the
  input, \<open>parse_der\<close> is \<open>x509.ParseCertificate\<close>. The result is \<open>None\<close> if the loop does not end.
\<close>

partial_function (option) parse_pem_blocks ::
  "(string \<Rightarrow> (string \<times> string \<times> string) option) \<Rightarrow> (string \<Rightarrow> x509_certificate option) \<Rightarrow> x509_certificate list
    \<Rightarrow> string \<Rightarrow> x509_certificate list res option" where
  "parse_pem_blocks pem_decode parse_der certs remaining =
    (if remaining = [] then Some (Inr certs)
     else case pem_decode remaining of
       None \<Rightarrow> Some (Inl (autherr ErrCertificateMalformed ''invalid PEM data''))
     | Some (ty, bytes, rest) \<Rightarrow>
         if ty \<noteq> ''CERTIFICATE'' then Some (Inl (autherr ErrCertificateMalformed ''unexpected PEM block type''))
         else (case parse_der bytes of
           None \<Rightarrow> Some (Inl (autherr ErrCertificateMalformed ''invalid X.509 certificate''))
         | Some cert \<Rightarrow> parse_pem_blocks pem_decode parse_der (certs @ [cert]) (TrimSpace rest)))"

definition ParseCertificateChainPEM ::
  "(string \<Rightarrow> (string \<times> string \<times> string) option) \<Rightarrow> (string \<Rightarrow> x509_certificate option) \<Rightarrow> string
    \<Rightarrow> x509_certificate list res option" where
  "ParseCertificateChainPEM pem_decode parse_der content =
    (let remaining = TrimSpace content in
     if remaining = [] then Some (Inl (autherr ErrCertificateMalformed ''certificate file is empty''))
     else map_option (\<lambda>r. bindE r (\<lambda>certs.
            bindE (failIf (certs = []) (autherr ErrCertificateMalformed ''no certificate blocks found'')) (\<lambda>_. Inr certs)))
          (parse_pem_blocks pem_decode parse_der [] remaining))"

definition ReadCertificateChain ::
  "(string \<Rightarrow> (string \<times> string \<times> string) option) \<Rightarrow> (string \<Rightarrow> x509_certificate option) \<Rightarrow> string \<Rightarrow> file_read
    \<Rightarrow> x509_certificate list res option" where
  "ReadCertificateChain pem_decode parse_der path f =
    (let cleanPath = TrimSpace path;
         checked =
          bindE (failIf (cleanPath = []) (autherr ErrCertificateRead ''file path is required'')) (\<lambda>_.
          bindE (failIf (\<not> HasPrefix cleanPath ''/'') (autherr ErrCertificateRead ''certificate file path must be absolute'')) (\<lambda>_.
          bindE (validateCertificateFileInfo (fr_lstat f)) (\<lambda>_.
          bindE (failIf (\<not> fr_open f) (autherr ErrCertificateRead ''certificate file is unreadable'')) (\<lambda>_.
          bindE (validateOpenedCertificateFile (fr_stat f) (fr_relstat f)) (\<lambda>_.
          case read_limited f of
            None \<Rightarrow> Inl (autherr ErrCertificateRead ''certificate file is unreadable'')
          | Some content \<Rightarrow>
              bindE (failIf (length content > maxIdentityFileBytes) (autherr ErrCertificateRead ''certificate file is too large''))
                (\<lambda>_. Inr content))))))
     in case checked of Inl err \<Rightarrow> Some (Inl err) | Inr content \<Rightarrow> ParseCertificateChainPEM pem_decode parse_der content)"

definition ReadAndValidateCertificate ::
  "(string \<Rightarrow> (string \<times> string \<times> string) option) \<Rightarrow> (string \<Rightarrow> x509_certificate option) \<Rightarrow> (string \<Rightarrow> URL option) \<Rightarrow> string
    \<Rightarrow> CertificateValidationOptions \<Rightarrow> file_read \<Rightarrow> go_time \<Rightarrow> go_time \<Rightarrow> Certificate res option" where
  "ReadAndValidateCertificate pem_decode parse_der url_parse path opts f now readAt =
    map_option (\<lambda>r. bindE r (\<lambda>chain.
      bindE (ValidateCertificateChain url_parse (map Some chain) opts now) (\<lambda>_.
      Inr \<lparr>Leaf = Some (hd chain), Chain = chain, cert_ReadAt = readAt, cert_ExpiresAt = x_NotAfter (hd chain)\<rparr>)))
    (ReadCertificateChain pem_decode parse_der path f)"

section \<open>Properties of identities\<close>

lemma trim_left_length: "length (trim_left s) \<le> length s"
proof (induction s rule: trim_left.induct)
  case (1 s)
  then show ?case by (subst trim_left.simps) (auto intro: le_trans)
qed

lemma trim_right_length: "length (trim_right s) \<le> length s"
proof (induction s rule: trim_right.induct)
  case (1 s)
  then show ?case by (subst trim_right.simps) (auto intro: le_trans)
qed

lemma TrimSpace_length: "length (TrimSpace s) \<le> length s"
  using trim_right_length [of "trim_left s"] trim_left_length [of s] by (simp add: TrimSpace_def)

lemma TrimSpace_ascii:
  assumes "s \<noteq> []" and "32 < byte_val (hd s)" "byte_val (hd s) < 127" and "32 < byte_val (last s)" "byte_val (last s) < 127"
  shows "TrimSpace s = s"
proof -
  have "trim_left s = s" using assms by (cases s) (simp_all add: trim_left.simps decode_rune_ascii is_space_def)
  moreover have "trim_right s = s" using assms by (simp add: trim_right.simps decode_last_rune_def is_space_def)
  ultimately show ?thesis by (simp add: TrimSpace_def)
qed

lemma parse_pem_blocks_returns:
  assumes "\<And>s ty bytes rest. pem_decode s = Some (ty, bytes, rest) \<Longrightarrow> length rest < length s"
  shows "\<exists>r. parse_pem_blocks pem_decode parse_der certs remaining = Some r"
proof (induction "length remaining" arbitrary: certs remaining rule: less_induct)
  case less
  show ?case
  proof (cases "remaining = []")
    case False
    show ?thesis
    proof (cases "pem_decode remaining")
      case (Some block)
      obtain ty bytes rest where b: "block = (ty, bytes, rest)" by (cases block)
      have "length (TrimSpace rest) < length remaining"
        using assms [of remaining ty bytes rest] Some b TrimSpace_length [of rest] by simp
      note IH = less [OF this]
      show ?thesis
      proof (cases "parse_der bytes")
        case None
        then show ?thesis using Some b by (subst parse_pem_blocks.simps) auto
      next
        case (Some cert)
        with IH [of "certs @ [cert]"] \<open>pem_decode remaining = Some block\<close> b show ?thesis
          by (subst parse_pem_blocks.simps) auto
      qed
    qed (subst parse_pem_blocks.simps, simp add: False)
  qed (subst parse_pem_blocks.simps, simp)
qed

lemma validateFileMode_Inr [simp]:
  "validateFileMode err what info = Inr u \<longleftrightarrow> \<not> fi_symlink info \<and> fi_regular info \<and> fi_perm info AND identityFileModeMask = 0"
  by (auto simp: validateFileMode_def)

lemma stat_or_Inr [simp]: "stat_or err info = Inr i \<longleftrightarrow> info = Some i"
  by (cases info) (simp_all add: stat_or_def)

text \<open>A file that only its owner may write and only its group may read besides.\<close>

definition private_file :: "file_info \<Rightarrow> bool" where
  "private_file info \<longleftrightarrow> \<not> fi_symlink info \<and> fi_regular info \<and> (\<forall>n<5. \<not> bit (fi_perm info) n)"

lemma mask_bits: "bit identityFileModeMask n \<longleftrightarrow> n < 5"
proof -
  have m: "identityFileModeMask = mask 5" by (simp add: identityFileModeMask_def mask_eq_exp_minus_1)
  show ?thesis unfolding m by (auto simp: bit_mask_iff)
qed

lemma private_file_iff: "private_file info \<longleftrightarrow> \<not> fi_symlink info \<and> fi_regular info \<and> fi_perm info AND identityFileModeMask = 0"
proof -
  have "fi_perm info AND identityFileModeMask = 0 \<longleftrightarrow> (\<forall>n. bit (fi_perm info) n \<longrightarrow> \<not> n < 5)"
    using bit_imp_le_length [of "fi_perm info"] by (auto simp: bit_eq_iff bit_and_iff mask_bits)
  then show ?thesis by (auto simp: private_file_def)
qed

lemma validateOpenedJWTFile_Inr:
  "validateOpenedJWTFile opened relstat = Inr u \<longleftrightarrow>
     (\<exists>o' r. opened = Some o' \<and> relstat = Some r \<and> private_file o' \<and> private_file r \<and> fi_id o' = fi_id r)"
  by (auto simp: validateOpenedJWTFile_def validateJWTFileMode_def private_file_iff)

lemma validateOpenedCertificateFile_Inr:
  "validateOpenedCertificateFile opened relstat = Inr u \<longleftrightarrow>
     (\<exists>o' r. opened = Some o' \<and> relstat = Some r \<and> private_file o' \<and> private_file r \<and> fi_id o' = fi_id r)"
  by (auto simp: validateOpenedCertificateFile_def validateCertificateFileMode_def private_file_iff)

text \<open>The content of an identity file that may be used.\<close>

definition safely_read :: "file_read \<Rightarrow> string \<Rightarrow> bool" where
  "safely_read f content \<longleftrightarrow>
     (\<exists>o' r. fr_stat f = Some o' \<and> fr_relstat f = Some r \<and> private_file o' \<and> private_file r \<and> fi_id o' = fi_id r)
     \<and> fr_content f = Some content \<and> length content \<le> maxIdentityFileBytes"

lemma read_limited_full: "read_limited f = Some content \<Longrightarrow> length content \<le> maxIdentityFileBytes \<Longrightarrow> fr_content f = Some content"
  by (auto simp: read_limited_def)

text \<open>
  Identity files are read safely: when \<open>ReadJWTFile\<close> returns a token, or \<open>ReadCertificateChain\<close> a chain, the file that was
  opened and the file that the path names after opening are the same regular file, not a symbolic link, neither writable by
  its group nor accessible to others; the result comes from its whole content, within the size limit, and a token is
  nonempty and free of white space.
\<close>

lemma identity_files_private:
  "(ReadJWTFile path f = Inr token \<longrightarrow>
      (\<exists>content. safely_read f content \<and> token = TrimSpace content \<and> token \<noteq> [] \<and> set token \<inter> set jwtWhitespaceChars = {}))
   \<and> (ReadCertificateChain pem_decode parse_der path f = Some (Inr chain) \<longrightarrow>
      (\<exists>content. safely_read f content \<and> ParseCertificateChainPEM pem_decode parse_der content = Some (Inr chain)))"
proof (intro conjI impI)
  assume "ReadJWTFile path f = Inr token"
  then obtain content where c: "read_limited f = Some content" "length content \<le> maxIdentityFileBytes" "token = TrimSpace content"
      "token \<noteq> []" "\<not> ContainsAny token jwtWhitespaceChars" "validateOpenedJWTFile (fr_stat f) (fr_relstat f) = Inr ()"
    by (auto simp: ReadJWTFile_def Let_def split: option.splits)
  then show "\<exists>content. safely_read f content \<and> token = TrimSpace content \<and> token \<noteq> [] \<and> set token \<inter> set jwtWhitespaceChars = {}"
    using read_limited_full [OF c(1,2)] by (auto simp: safely_read_def validateOpenedJWTFile_Inr ContainsAny_def list_ex_iff)
next
  assume "ReadCertificateChain pem_decode parse_der path f = Some (Inr chain)"
  then obtain content where c: "read_limited f = Some content" "length content \<le> maxIdentityFileBytes"
      "validateOpenedCertificateFile (fr_stat f) (fr_relstat f) = Inr ()"
      "ParseCertificateChainPEM pem_decode parse_der content = Some (Inr chain)"
    by (auto simp: ReadCertificateChain_def Let_def split: option.splits sum.splits)
  then show "\<exists>content. safely_read f content \<and> ParseCertificateChainPEM pem_decode parse_der content = Some (Inr chain)"
    using read_limited_full [OF c(1,2)] by (auto simp: safely_read_def validateOpenedCertificateFile_Inr)
qed

definition ex_file_info :: file_info where
  "ex_file_info = \<lparr>fi_symlink = False, fi_regular = True, fi_perm = 0x180, fi_id = 7\<rparr>"

definition ex_file_read :: "string \<Rightarrow> file_read" where
  "ex_file_read content = \<lparr>fr_lstat = Some ex_file_info, fr_open = True, fr_stat = Some ex_file_info, fr_relstat = Some ex_file_info,
     fr_content = Some content\<rparr>"

text \<open>
  The certificate parser ends on every input: when the PEM decoder consumes at least one byte of every block it returns, as
  its documentation says, \<open>ParseCertificateChainPEM\<close> returns, with an error or with a nonempty chain.
\<close>

lemma ParseCertificateChainPEM_returns:
  assumes "\<And>s ty bytes rest. pem_decode s = Some (ty, bytes, rest) \<Longrightarrow> length rest < length s"
  shows "\<exists>r. ParseCertificateChainPEM pem_decode parse_der content = Some r \<and> r \<noteq> Inr []"
proof -
  obtain r where r: "parse_pem_blocks pem_decode parse_der [] (TrimSpace content) = Some r"
    using parse_pem_blocks_returns [of pem_decode parse_der "[]" "TrimSpace content"] assms by blast
  then show ?thesis by (cases r) (auto simp: ParseCertificateChainPEM_def Let_def failIf_def)
qed

text \<open>A decoder of blocks of one byte, for the witness.\<close>

definition ex_pem_decode :: "string \<Rightarrow> (string \<times> string \<times> string) option" where
  "ex_pem_decode s = (case s of [] \<Rightarrow> None | c # rest \<Rightarrow> Some (''CERTIFICATE'', [c], rest))"

definition ex_certificate :: x509_certificate where
  "ex_certificate = \<lparr>x_SignatureAlgorithm = OtherSignature 4, x_NotBefore = 100, x_NotAfter = 2000,
     x_ExtKeyUsage = [ExtKeyUsageClientAuth], x_URIs = [], x_PublicKey = \<lparr>pk_encoding = Some ''k'', pk_ed25519 = False\<rparr>\<rparr>"

end
