(* ===== verification/Login_Sources.thy ===== *)
theory Login_Sources
  imports Identity
begin

text \<open>
  The login sources (\<^verbatim>\<open>internal/auth/manager.go\<close>, \<^verbatim>\<open>cert_source.go\<close>, \<^verbatim>\<open>oauth2.go\<close>, and the OAuth 2.0 client of
  \<^verbatim>\<open>internal/oauth2\<close>): their configuration checks and one login each. The OpenBao auth client, the HTTP exchange with the
  token endpoint and the certificate provider are arguments.
\<close>

section \<open>Paths\<close>

text \<open>\<open>path.Clean\<close>: the components of a slash-separated path after resolving \<open>.\<close>, \<open>..\<close> and empty ones.\<close>

definition clean_step :: "bool \<Rightarrow> string list \<Rightarrow> string \<Rightarrow> string list" where
  "clean_step rooted stack p =
    (if p = [] \<or> p = ''.'' then stack
     else if p = ''..'' then
       (if stack \<noteq> [] \<and> last stack \<noteq> ''..'' then butlast stack else if rooted then stack else stack @ [''..''])
     else stack @ [p])"

definition path_Clean :: "string \<Rightarrow> string" where
  "path_Clean p =
    (let rooted = HasPrefix p ''/'';
         out = (if rooted then ''/'' else []) @ Join (foldl (clean_step rooted) [] (split_on (CHR ''/'') p)) ''/''
     in if out = [] then ''.'' else out)"

definition path_Join :: "string list \<Rightarrow> string" where
  "path_Join elems =
    (let ne = filter (\<lambda>e. e \<noteq> []) elems in if ne = [] then [] else path_Clean (Join ne ''/''))"

section \<open>Configuration\<close>

record LifecycleConfig =
  LoginBeforeTokenExpiry :: int
  TokenRenewalIncrement :: int

record ManagerConfig =
  mc_MountPath :: string
  mc_Role :: string
  mc_JWTFile :: string
  mc_MinJWTRemainingTTL :: int
  mc_ClockSkewLeeway :: int
  mc_LoginBeforeTokenExpiry :: int
  mc_TokenRenewalIncrement :: int
  mc_ExpectedIssuer :: string
  mc_ExpectedAudience :: "string list"
  mc_ExpectedSubject :: string

definition containsUnsafeIdentifierChars :: "string \<Rightarrow> bool" where
  "containsUnsafeIdentifierChars value \<longleftrightarrow>
     TrimSpace value \<noteq> value \<or> ContainsAny value [CHR 0x00, CHR 0x0D, CHR 0x0A, CHR 0x09]"

definition normalizeExpectedAudience :: "string list \<Rightarrow> string list res" where
  "normalizeExpectedAudience values =
    mapE (\<lambda>audience. let trimmed = TrimSpace audience in
      bindE (failIf (trimmed = []) (autherr ErrAuthConfig ''expected JWT audience must not be empty'')) (\<lambda>_. Inr trimmed)) values"

definition validateLifecycleConfig :: "LifecycleConfig \<Rightarrow> LifecycleConfig res" where
  "validateLifecycleConfig cfg =
    bindE (failIf (LoginBeforeTokenExpiry cfg \<le> 0) (autherr ErrAuthConfig ''login-before-expiry duration must be positive'')) (\<lambda>_.
    bindE (failIf (TokenRenewalIncrement cfg \<le> 0) (autherr ErrAuthConfig ''token renewal increment must be positive'')) (\<lambda>_.
    Inr cfg))"

definition lifecycleConfigFromManager :: "ManagerConfig \<Rightarrow> LifecycleConfig" where
  "lifecycleConfigFromManager cfg =
     \<lparr>LoginBeforeTokenExpiry = mc_LoginBeforeTokenExpiry cfg, TokenRenewalIncrement = mc_TokenRenewalIncrement cfg\<rparr>"

definition validateManagerConfig :: "ManagerConfig \<Rightarrow> ManagerConfig res" where
  "validateManagerConfig cfg0 =
    (let cfg1 = cfg0\<lparr>mc_MountPath := TrimSpace (mc_MountPath cfg0), mc_Role := TrimSpace (mc_Role cfg0),
                     mc_JWTFile := TrimSpace (mc_JWTFile cfg0), mc_ExpectedIssuer := TrimSpace (mc_ExpectedIssuer cfg0),
                     mc_ExpectedSubject := TrimSpace (mc_ExpectedSubject cfg0)\<rparr> in
     bindE (normalizeExpectedAudience (mc_ExpectedAudience cfg1)) (\<lambda>expectedAudience.
     let cfg = cfg1\<lparr>mc_ExpectedAudience := expectedAudience\<rparr> in
     bindE (failIf (TrimSpace (mc_MountPath cfg) = []) (autherr ErrAuthConfig ''auth mount path is required'')) (\<lambda>_.
     bindE (failIf (mc_MountPath cfg \<noteq> path_Clean (mc_MountPath cfg) \<or> HasPrefix (mc_MountPath cfg) ''/'' \<or> mc_MountPath cfg = ''.'')
       (autherr ErrAuthConfig ''auth mount path must be a relative OpenBao path'')) (\<lambda>_.
     bindE (failIf (containsUnsafeIdentifierChars (mc_MountPath cfg))
       (autherr ErrAuthConfig ''auth mount path contains unsafe characters'')) (\<lambda>_.
     bindE (failIf (TrimSpace (mc_Role cfg) = []) (autherr ErrAuthConfig ''auth role is required'')) (\<lambda>_.
     bindE (failIf (containsUnsafeIdentifierChars (mc_Role cfg)) (autherr ErrAuthConfig ''auth role contains unsafe characters'')) (\<lambda>_.
     bindE (failIf (mc_MinJWTRemainingTTL cfg \<le> 0) (autherr ErrAuthConfig ''minimum JWT remaining TTL must be positive'')) (\<lambda>_.
     bindE (failIf (mc_ClockSkewLeeway cfg < 0) (autherr ErrAuthConfig ''clock skew leeway must not be negative'')) (\<lambda>_.
     bindE (validateLifecycleConfig (lifecycleConfigFromManager cfg)) (\<lambda>lifecycle.
     Inr (cfg\<lparr>mc_LoginBeforeTokenExpiry := LoginBeforeTokenExpiry lifecycle,
              mc_TokenRenewalIncrement := TokenRenewalIncrement lifecycle\<rparr>)))))))))))"

text \<open>The JWT sources keep the validated configuration.\<close>

definition NewJWTLoginSource :: "ManagerConfig \<Rightarrow> ManagerConfig res" where
  "NewJWTLoginSource cfg =
    bindE (failIf (TrimSpace (mc_JWTFile cfg) = []) (autherr ErrAuthConfig ''JWT file is required'')) (\<lambda>_.
    validateManagerConfig cfg)"

definition CertificateSourcePKCS11 :: string where "CertificateSourcePKCS11 = ''pkcs11''"
definition CertificateSourceSPIFFE :: string where "CertificateSourceSPIFFE = ''spiffe''"

record CertLoginSourceConfig =
  cs_MountPath :: string
  cs_Name :: string
  cs_Source :: string
  cs_MinRemainingTTL :: int
  cs_ClockSkewLeeway :: int
  cs_ExpectedSPIFFEID :: string
  cs_TrustDomain :: string

definition validateCertLoginSourceConfig :: "CertLoginSourceConfig \<Rightarrow> CertLoginSourceConfig res" where
  "validateCertLoginSourceConfig cfg0 =
    (let cfg = cfg0\<lparr>cs_MountPath := TrimSpace (cs_MountPath cfg0), cs_Name := TrimSpace (cs_Name cfg0),
                    cs_Source := TrimSpace (cs_Source cfg0), cs_ExpectedSPIFFEID := TrimSpace (cs_ExpectedSPIFFEID cfg0),
                    cs_TrustDomain := TrimSpace (cs_TrustDomain cfg0)\<rparr> in
     bindE (failIf (cs_MountPath cfg = []) (autherr ErrAuthConfig ''auth mount path is required'')) (\<lambda>_.
     bindE (failIf (cs_MountPath cfg \<noteq> path_Clean (cs_MountPath cfg) \<or> HasPrefix (cs_MountPath cfg) ''/'' \<or> cs_MountPath cfg = ''.'')
       (autherr ErrAuthConfig ''auth mount path must be a relative OpenBao path'')) (\<lambda>_.
     bindE (failIf (containsUnsafeIdentifierChars (cs_MountPath cfg))
       (autherr ErrAuthConfig ''auth mount path contains unsafe characters'')) (\<lambda>_.
     bindE (failIf (containsUnsafeIdentifierChars (cs_Name cfg))
       (autherr ErrAuthConfig ''auth cert name contains unsafe characters'')) (\<lambda>_.
     bindE (failIf (cs_Source cfg \<notin> {CertificateSourcePKCS11, CertificateSourceSPIFFE})
       (autherr ErrAuthConfig (if cs_Source cfg = [] then ''auth certificate source is required''
                               else ''auth certificate source is unsupported''))) (\<lambda>_.
     bindE (failIf (cs_MinRemainingTTL cfg \<le> 0)
       (autherr ErrAuthConfig ''minimum certificate remaining TTL must be positive'')) (\<lambda>_.
     bindE (failIf (cs_ClockSkewLeeway cfg < 0) (autherr ErrAuthConfig ''clock skew leeway must not be negative'')) (\<lambda>_.
     Inr cfg))))))))"

section \<open>The OpenBao auth client\<close>

record AuthToken =
  ClientToken :: string
  LeaseDuration :: int
  Renewable :: bool
  Policies :: "string list"
  TokenPolicies :: "string list"

record JWTLoginRequest =
  jl_MountPath :: string
  jl_Role :: string
  jl_JWT :: string

record CertLoginRequest =
  cr_MountPath :: string
  cr_Name :: string

text \<open>
  The operations of the auth client as a login sees them: each may change the world outside. The requests that a login hands to the
  client are kept in the order they are made.
\<close>

record 'w OpenBaoAuthClient =
  LoginJWT :: "JWTLoginRequest \<Rightarrow> 'w \<Rightarrow> AuthToken res \<times> 'w"
  LoginCert :: "CertLoginRequest \<Rightarrow> 'w \<Rightarrow> AuthToken res \<times> 'w"
  RenewSelfToken :: "string \<Rightarrow> int \<Rightarrow> 'w \<Rightarrow> AuthToken res \<times> 'w"

datatype auth_call = SentJWT JWTLoginRequest | SentCert CertLoginRequest

record 'w auth_net =
  an_sent :: "auth_call list"
  an_world :: 'w

definition client_LoginJWT :: "'w OpenBaoAuthClient \<Rightarrow> JWTLoginRequest \<Rightarrow> 'w auth_net \<Rightarrow> AuthToken res \<times> 'w auth_net" where
  "client_LoginJWT client req n =
    (let (r, w) = LoginJWT client req (an_world n) in (r, \<lparr>an_sent = an_sent n @ [SentJWT req], an_world = w\<rparr>))"

definition client_LoginCert :: "'w OpenBaoAuthClient \<Rightarrow> CertLoginRequest \<Rightarrow> 'w auth_net \<Rightarrow> AuthToken res \<times> 'w auth_net" where
  "client_LoginCert client req n =
    (let (r, w) = LoginCert client req (an_world n) in (r, \<lparr>an_sent = an_sent n @ [SentCert req], an_world = w\<rparr>))"

record LoginResult =
  lr_AuthToken :: AuthToken
  lr_JWT :: JWT
  lr_Certificate :: Certificate

definition zero_claims :: Claims where
  "zero_claims = \<lparr>cl_Issuer = [], cl_Subject = [], cl_Audience = [], cl_ExpiresAt = zero_time, cl_NotBefore = zero_time,
     cl_IssuedAt = zero_time, HasNotBefore = False, HasIssuedAt = False\<rparr>"
definition zero_JWT :: JWT where
  "zero_JWT = \<lparr>Raw = [], jwt_Claims = zero_claims, jwt_ReadAt = zero_time, EndpointLifetime = unset_lifetime\<rparr>"
definition zero_Certificate :: Certificate where
  "zero_Certificate = \<lparr>Leaf = None, Chain = [], cert_ReadAt = zero_time, cert_ExpiresAt = zero_time\<rparr>"

section \<open>JWT login\<close>

definition jwt_validation_options :: "ManagerConfig \<Rightarrow> JWTValidationOptions" where
  "jwt_validation_options cfg = \<lparr>jo_MinRemainingTTL = mc_MinJWTRemainingTTL cfg, jo_ClockSkewLeeway = mc_ClockSkewLeeway cfg,
     ExpectedIssuer = mc_ExpectedIssuer cfg, ExpectedAudience = mc_ExpectedAudience cfg, ExpectedSubject = mc_ExpectedSubject cfg\<rparr>"

definition JWTLoginSource_Login ::
  "(string \<Rightarrow> registeredClaims option) \<Rightarrow> ManagerConfig \<Rightarrow> 'w OpenBaoAuthClient \<Rightarrow> file_read \<Rightarrow> go_time \<Rightarrow> go_time
    \<Rightarrow> 'w auth_net \<Rightarrow> LoginResult res \<times> 'w auth_net" where
  "JWTLoginSource_Login unmarshal cfg client f readAt now n =
    (case ReadAndValidateJWT unmarshal (mc_JWTFile cfg) (jwt_validation_options cfg) f readAt now of
       Inl err \<Rightarrow> (Inl err, n)
     | Inr jwt \<Rightarrow>
        (let (r, n') = client_LoginJWT client \<lparr>jl_MountPath = mc_MountPath cfg, jl_Role = mc_Role cfg, jl_JWT = Raw jwt\<rparr> n
         in (bindE (public_result r) (\<lambda>authToken.
             Inr \<lparr>lr_AuthToken = authToken, lr_JWT = jwt, lr_Certificate = zero_Certificate\<rparr>), n')))"

section \<open>Certificate login\<close>

text \<open>A \<open>tls.Certificate\<close>: its chain in DER and its private key, where that is a signer.\<close>

record tls_certificate =
  tc_Certificate :: "string list"
  tc_signer :: "crypto_signer option"

definition certificateChainFromTLS :: "(string \<Rightarrow> x509_certificate option) \<Rightarrow> tls_certificate \<Rightarrow> x509_certificate list res" where
  "certificateChainFromTLS parse_der tlsCert =
    bindE (failIf (tc_Certificate tlsCert = []) (autherr ErrCertificateMalformed ''TLS certificate chain is empty'')) (\<lambda>_.
    mapE (\<lambda>der. case parse_der der of
        None \<Rightarrow> Inl (autherr ErrCertificateMalformed ''invalid X.509 certificate'') | Some cert \<Rightarrow> Inr cert)
      (tc_Certificate tlsCert))"

definition certificateFromTLS ::
  "(string \<Rightarrow> x509_certificate option) \<Rightarrow> (string \<Rightarrow> URL option) \<Rightarrow> tls_certificate \<Rightarrow> CertificateValidationOptions
    \<Rightarrow> go_time \<Rightarrow> go_time \<Rightarrow> Certificate res" where
  "certificateFromTLS parse_der url_parse tlsCert opts now readAt =
    bindE (certificateChainFromTLS parse_der tlsCert) (\<lambda>chain.
    bindE (ValidateCertificateChain url_parse (map Some chain) opts now) (\<lambda>_.
    Inr \<lparr>Leaf = Some (hd chain), Chain = chain, cert_ReadAt = readAt, cert_ExpiresAt = x_NotAfter (hd chain)\<rparr>))"

definition validateTLSClientCertificate ::
  "(string \<Rightarrow> x509_certificate option) \<Rightarrow> (string \<Rightarrow> URL option) \<Rightarrow> tls_certificate \<Rightarrow> CertificateValidationOptions
    \<Rightarrow> go_time \<Rightarrow> go_time \<Rightarrow> Certificate res" where
  "validateTLSClientCertificate parse_der url_parse tlsCert opts now readAt =
    bindE (certificateFromTLS parse_der url_parse tlsCert opts now readAt) (\<lambda>cert.
    case tc_signer tlsCert of
      None \<Rightarrow> Inl (autherr ErrCertificateSignerMismatch ''TLS certificate private key is not a signer'')
    | Some signer \<Rightarrow> bindE (ValidateCertificateSigner (Leaf cert) (Some signer)) (\<lambda>_. Inr cert))"

definition cert_validation_options :: "CertLoginSourceConfig \<Rightarrow> CertificateValidationOptions" where
  "cert_validation_options cfg = \<lparr>co_MinRemainingTTL = cs_MinRemainingTTL cfg, co_ClockSkewLeeway = cs_ClockSkewLeeway cfg,
     ExpectedSPIFFEID = cs_ExpectedSPIFFEID cfg, TrustDomain = cs_TrustDomain cfg\<rparr>"

definition ValidateLocal ::
  "(string \<Rightarrow> x509_certificate option) \<Rightarrow> (string \<Rightarrow> URL option) \<Rightarrow> CertLoginSourceConfig \<Rightarrow> tls_certificate res
    \<Rightarrow> go_time \<Rightarrow> go_time \<Rightarrow> Certificate res" where
  "ValidateLocal parse_der url_parse cfg currentCertificate now readAt =
    bindE currentCertificate (\<lambda>tlsCert.
    validateTLSClientCertificate parse_der url_parse tlsCert (cert_validation_options cfg) now readAt)"

definition CertLoginSource_Login ::
  "(string \<Rightarrow> x509_certificate option) \<Rightarrow> (string \<Rightarrow> URL option) \<Rightarrow> CertLoginSourceConfig \<Rightarrow> tls_certificate res
    \<Rightarrow> 'w OpenBaoAuthClient \<Rightarrow> go_time \<Rightarrow> go_time \<Rightarrow> 'w auth_net \<Rightarrow> LoginResult res \<times> 'w auth_net" where
  "CertLoginSource_Login parse_der url_parse cfg currentCertificate client now readAt n =
    (case ValidateLocal parse_der url_parse cfg currentCertificate now readAt of
       Inl err \<Rightarrow> (Inl err, n)
     | Inr cert \<Rightarrow>
        (let (r, n') = client_LoginCert client \<lparr>cr_MountPath = cs_MountPath cfg, cr_Name = cs_Name cfg\<rparr> n
         in (bindE (public_result r) (\<lambda>authToken.
             Inr \<lparr>lr_AuthToken = authToken, lr_JWT = zero_JWT, lr_Certificate = cert\<rparr>), n')))"

section \<open>OAuth 2.0 login\<close>

definition ClientSecretBasic :: string where "ClientSecretBasic = ''client_secret_basic''"
definition ClientSecretPost :: string where "ClientSecretPost = ''client_secret_post''"
definition maxSecretBytes :: nat where "maxSecretBytes = 65536"
definition maxResponseBytes :: nat where "maxResponseBytes = 1048576"

record OAuth2_Config =
  oc_TokenURL :: string
  oc_ClientID :: string
  oc_ClientSecretFile :: string
  oc_AuthMethod :: string
  oc_Scopes :: "string list"
  oc_Audience :: string
  oc_Resources :: "string list"
  oc_CACertFile :: string
  oc_Timeout :: int

text \<open>\<open>URL.Hostname\<close>: the host without its port and without the brackets of an IPv6 address. \<open>filepath.IsAbs\<close> on Unix.\<close>

definition URL_Hostname :: "URL \<Rightarrow> string" where
  "URL_Hostname u =
    (let host = (case cut_last (CHR '':'') (u_Host u) of
           Some (h, port) \<Rightarrow> if list_all is_digit port then h else u_Host u | None \<Rightarrow> u_Host u)
     in if HasPrefix host ''['' \<and> HasSuffix host '']'' then butlast (tl host) else host)"

definition IsAbs :: "string \<Rightarrow> bool" where
  "IsAbs p = HasPrefix p ''/''"

definition validateEndpoint :: "(string \<Rightarrow> URL option) \<Rightarrow> string \<Rightarrow> unit res" where
  "validateEndpoint url_parse endpoint =
    failIf (case url_parse endpoint of
        None \<Rightarrow> True
      | Some u \<Rightarrow> u_Scheme u \<noteq> ''https'' \<or> URL_Hostname u = [] \<or> u_User u \<or> u_Fragment u \<noteq> [] \<or> u_Opaque u \<noteq> [])
      (Msg ''tokenUrl must be an https URL without user info or fragment'')"

definition validateTokenParameters :: "(string \<Rightarrow> URL option) \<Rightarrow> OAuth2_Config \<Rightarrow> unit res" where
  "validateTokenParameters url_parse cfg =
    bindE (forE (\<lambda>scope. failIf (scope = [] \<or> ContainsFunc scope (\<lambda>r. r < 33 \<or> r > 126 \<or> r = 34 \<or> r = 92))
      (Msg ''scopes must contain nonempty OAuth scope tokens'')) (oc_Scopes cfg)) (\<lambda>_.
    bindE (failIf (ContainsFunc (oc_Audience cfg) IsControl) (Msg ''audience must contain no control characters'')) (\<lambda>_.
    forE (\<lambda>resource. failIf (case url_parse resource of
          None \<Rightarrow> True | Some u \<Rightarrow> u_Scheme u = [] \<or> u_Fragment u \<noteq> [] \<or> u_User u)
      (Msg ''resources must contain absolute URIs without user info or fragments'')) (oc_Resources cfg)))"

definition OAuth2_ValidateConfig :: "(string \<Rightarrow> URL option) \<Rightarrow> OAuth2_Config \<Rightarrow> unit res" where
  "OAuth2_ValidateConfig url_parse cfg =
    bindE (validateEndpoint url_parse (oc_TokenURL cfg)) (\<lambda>_.
    bindE (failIf (oc_ClientID cfg = [] \<or> ContainsFunc (oc_ClientID cfg) IsControl)
      (Msg ''clientId must be nonempty and contain no control characters'')) (\<lambda>_.
    bindE (failIf (\<not> IsAbs (oc_ClientSecretFile cfg)) (Msg ''clientSecretFile must be an absolute path'')) (\<lambda>_.
    bindE (failIf (oc_AuthMethod cfg \<noteq> ClientSecretBasic \<and> oc_AuthMethod cfg \<noteq> ClientSecretPost)
      (Msg ''authMethod must be client_secret_basic or client_secret_post'')) (\<lambda>_.
    bindE (failIf (oc_CACertFile cfg \<noteq> [] \<and> \<not> IsAbs (oc_CACertFile cfg)) (Msg ''caCertFile must be an absolute path'')) (\<lambda>_.
    bindE (failIf (oc_Timeout cfg \<le> 0) (Msg ''timeout must be positive'')) (\<lambda>_.
    validateTokenParameters url_parse cfg))))))"

text \<open>
  \<open>NewClient\<close>: the client is its settings and the roots it trusts, where no roots stand for those of the system. Reading a
  file and the certificates in a PEM text are arguments.
\<close>

definition OAuth2_NewClient ::
  "(string \<Rightarrow> URL option) \<Rightarrow> (string \<Rightarrow> string option) \<Rightarrow> (string \<Rightarrow> 'c list) \<Rightarrow> OAuth2_Config \<Rightarrow> (OAuth2_Config \<times> 'c list option) res" where
  "OAuth2_NewClient url_parse read_file pem_certs cfg =
    (case OAuth2_ValidateConfig url_parse cfg of
       Inl err \<Rightarrow> Inl (Wrap [] [Sentinel (Auth OAuth2_ErrConfig), err])
     | Inr _ \<Rightarrow>
       if oc_CACertFile cfg = [] then Inr (cfg, None)
       else case read_file (oc_CACertFile cfg) of
              None \<Rightarrow> Inl (Wrap [] [Sentinel (Auth OAuth2_ErrConfig), Msg ''caCertFile is unreadable''])
            | Some pem \<Rightarrow>
                if pem_certs pem = [] then Inl (Wrap [] [Sentinel (Auth OAuth2_ErrConfig), Msg ''caCertFile contains no certificates''])
                else Inr (cfg, Some (pem_certs pem)))"

text \<open>A \<open>CredentialError\<close> wraps \<open>ErrCredential\<close> and prints a reason.\<close>

abbreviation credential_error :: "string \<Rightarrow> go_error" where
  "credential_error reason \<equiv> errw (Auth OAuth2_ErrCredential) reason"

definition credentialFileMask :: "9 word" where "credentialFileMask = 0x5F"

definition credentialFileReason :: "file_info \<Rightarrow> string" where
  "credentialFileReason info =
    (if fi_symlink info then ''symlink_unsupported''
     else if \<not> fi_regular info then ''regular_file_required''
     else if fi_perm info AND credentialFileMask \<noteq> 0 then ''unsafe_permissions''
     else [])"

definition safeCredentialFile :: "file_info \<Rightarrow> bool" where
  "safeCredentialFile info \<longleftrightarrow> credentialFileReason info = []"

definition TrimSuffix :: "string \<Rightarrow> string \<Rightarrow> string" where
  "TrimSuffix s suffix = (if HasSuffix s suffix then take (length s - length suffix) s else s)"

definition parseClientSecret :: "string \<Rightarrow> string res" where
  "parseClientSecret content =
    (let secret = TrimSuffix (TrimSuffix content [CHR 0x0A]) [CHR 0x0D] in
     bindE (failIf (secret = [] \<or> ContainsAny secret [CHR 0x00, CHR 0x0D, CHR 0x0A]) (credential_error ''invalid_content'')) (\<lambda>_.
     Inr secret))"

text \<open>\<open>missing\<close> says whether a failure of the first \<open>Lstat\<close> is \<open>os.ErrNotExist\<close>.\<close>

definition ReadClientSecret :: "string \<Rightarrow> bool \<Rightarrow> file_read \<Rightarrow> string res" where
  "ReadClientSecret path missing f =
    bindE (failIf (\<not> HasPrefix path ''/'') (credential_error ''absolute_path_required'')) (\<lambda>_.
    bindE (stat_or (credential_error (if missing then ''file_missing'' else ''file_unreadable'')) (fr_lstat f)) (\<lambda>before.
    bindE (failIf (credentialFileReason before \<noteq> []) (credential_error (credentialFileReason before))) (\<lambda>_.
    bindE (failIf (\<not> fr_open f) (credential_error ''file_unreadable'')) (\<lambda>_.
    bindE (stat_or (credential_error ''file_changed'') (fr_stat f)) (\<lambda>opened.
    bindE (failIf (\<not> safeCredentialFile opened \<or> fi_id before \<noteq> fi_id opened) (credential_error ''file_changed'')) (\<lambda>_.
    bindE (stat_or (credential_error ''file_changed'') (fr_relstat f)) (\<lambda>current.
    bindE (failIf (\<not> safeCredentialFile current \<or> fi_id opened \<noteq> fi_id current) (credential_error ''file_changed'')) (\<lambda>_.
    case map_option (take (maxSecretBytes + 1)) (fr_content f) of
      None \<Rightarrow> Inl (credential_error ''file_unreadable'')
    | Some content \<Rightarrow>
        bindE (failIf (length content > maxSecretBytes) (credential_error ''file_too_large'')) (\<lambda>_.
        parseClientSecret content)))))))))"

text \<open>\<open>url.QueryEscape\<close>.\<close>

definition upper_hex :: "nat \<Rightarrow> char" where
  "upper_hex d = (if d < 10 then char_of (48 + d) else char_of (55 + d))"

definition QueryEscape :: "string \<Rightarrow> string" where
  "QueryEscape s = concat (map (\<lambda>c. let b = byte_val c in
     if 48 \<le> b \<and> b \<le> 57 \<or> 65 \<le> b \<and> b \<le> 90 \<or> 97 \<le> b \<and> b \<le> 122 \<or> c \<in> set ''-_.~'' then [c]
     else if c = CHR '' '' then ''+''
     else [CHR ''%'', upper_hex (b div 16), upper_hex (b mod 16)]) s)"

text \<open>A token request: the form values and the credentials of HTTP basic authentication.\<close>

record token_request =
  tr_url :: string
  tr_form :: "(string \<times> string) list"
  tr_basic :: "(string \<times> string) option"

definition token_request_of :: "OAuth2_Config \<Rightarrow> string \<Rightarrow> token_request" where
  "token_request_of cfg secret =
     \<lparr>tr_url = oc_TokenURL cfg,
      tr_form = [(''grant_type'', ''client_credentials'')]
        @ (if oc_Scopes cfg \<noteq> [] then [(''scope'', Join (oc_Scopes cfg) '' '')] else [])
        @ (if oc_Audience cfg \<noteq> [] then [(''audience'', oc_Audience cfg)] else [])
        @ map (\<lambda>resource. (''resource'', resource)) (oc_Resources cfg)
        @ (if oc_AuthMethod cfg = ClientSecretPost then [(''client_id'', oc_ClientID cfg), (''client_secret'', secret)] else []),
      tr_basic = (if oc_AuthMethod cfg = ClientSecretBasic then Some (QueryEscape (oc_ClientID cfg), QueryEscape secret) else None)\<rparr>"

text \<open>
  The response of the token endpoint: status, media type (where \<open>mime.ParseMediaType\<close> accepts the header), body (where it
  can be read) and the fields \<open>json.Unmarshal\<close> finds in it.
\<close>

record token_response =
  tp_status :: int
  tp_media :: "string option"
  tp_body :: "string option"

record token_fields =
  tf_AccessToken :: string
  tf_TokenType :: string
  tf_ExpiresIn :: string

record OAuth2_Token =
  AccessToken :: string
  ExpiresIn :: int

definition decodeToken :: "(string \<Rightarrow> token_fields option) \<Rightarrow> string option \<Rightarrow> OAuth2_Token res" where
  "decodeToken unmarshal body =
    (let bad = Sentinel (Auth OAuth2_ErrResponse) in
     case map_option (take (maxResponseBytes + 1)) body of
       None \<Rightarrow> Inl bad
     | Some content \<Rightarrow>
        bindE (failIf (length content > maxResponseBytes) bad) (\<lambda>_.
        case unmarshal content of
          None \<Rightarrow> Inl bad
        | Some r \<Rightarrow>
            bindE (failIf (tf_AccessToken r = [] \<or> ToLower (tf_TokenType r) \<noteq> ''bearer'') bad) (\<lambda>_.
            if tf_ExpiresIn r = [] then Inr \<lparr>AccessToken = tf_AccessToken r, ExpiresIn = 0\<rparr>
            else case Atoi (tf_ExpiresIn r) of
                   None \<Rightarrow> Inl bad
                 | Some seconds \<Rightarrow>
                     bindE (failIf (seconds \<le> 0 \<or> seconds > max_duration div 1000000000) bad) (\<lambda>_.
                     Inr \<lparr>AccessToken = tf_AccessToken r, ExpiresIn = i64 (seconds * 1000000000)\<rparr>))))"

text \<open>
  \<open>Token\<close> of the OAuth client. \<open>send\<close> is the HTTP exchange; the error of a failed exchange is the cause the client keeps
  (the context's error where there is one). The request itself cannot be rejected by \<open>http.NewRequest\<close>, because the
  configured URL has been parsed before.
\<close>

definition OAuth2_Token_of ::
  "(string \<Rightarrow> token_fields option) \<Rightarrow> OAuth2_Config \<Rightarrow> string res \<Rightarrow> (token_request \<Rightarrow> token_response res) \<Rightarrow> OAuth2_Token res" where
  "OAuth2_Token_of unmarshal cfg readSecret send =
    bindE readSecret (\<lambda>secret.
    case send (token_request_of cfg secret) of
      Inl cause \<Rightarrow> Inl (Wrap ''oauth2 token request failed'' [Sentinel (Auth OAuth2_ErrRequest), cause])
    | Inr response \<Rightarrow>
        bindE (failIf (tp_status response = 429 \<or> tp_status response \<ge> 500) (Sentinel (Auth OAuth2_ErrUnavailable))) (\<lambda>_.
        bindE (failIf (tp_status response \<noteq> 200) (Sentinel (Auth OAuth2_ErrRejected))) (\<lambda>_.
        bindE (failIf (tp_media response \<noteq> Some ''application/json'') (Sentinel (Auth OAuth2_ErrResponse))) (\<lambda>_.
        decodeToken unmarshal (tp_body response)))))"

definition NewOAuth2LoginSource ::
  "(string \<Rightarrow> URL option) \<Rightarrow> (string \<Rightarrow> string option) \<Rightarrow> (string \<Rightarrow> 'c list) \<Rightarrow> ManagerConfig \<Rightarrow> OAuth2_Config
    \<Rightarrow> (ManagerConfig \<times> OAuth2_Config \<times> 'c list option) res" where
  "NewOAuth2LoginSource url_parse read_file pem_certs cfg clientConfig =
    bindE (validateManagerConfig cfg) (\<lambda>normalized.
    bindE (failIf (mc_JWTFile normalized \<noteq> [] \<or> mc_ExpectedIssuer normalized = [] \<or> mc_ExpectedAudience normalized = [])
      (autherr ErrAuthConfig ''oauth2 requires issuer and audience expectations and no JWT file'')) (\<lambda>_.
    bindE (OAuth2_NewClient url_parse read_file pem_certs clientConfig) (\<lambda>issuer.
    Inr (normalized, issuer))))"

text \<open>
  The clock is read before the token request (\<open>requestedAt\<close>), for the lifetime check (\<open>checkedAt\<close>), for the claims (\<open>now\<close>)
  and after the login (\<open>readAt\<close>).
\<close>

definition endpoint_lifetime :: "ManagerConfig \<Rightarrow> OAuth2_Token \<Rightarrow> Reading \<Rightarrow> Reading \<Rightarrow> Lifetime res" where
  "endpoint_lifetime cfg token requestedAt checkedAt =
    (if ExpiresIn token > 0 then
       (let (remaining, lifetime) = Remaining (NewLifetime requestedAt (ExpiresIn token)) checkedAt in
        bindE (failIf (remaining \<le> mc_MinJWTRemainingTTL cfg) (Sentinel (Auth ErrJWTNearExpiry))) (\<lambda>_. Inr lifetime))
     else Inr unset_lifetime)"

definition OAuth2LoginSource_Login ::
  "(string \<Rightarrow> registeredClaims option) \<Rightarrow> ManagerConfig \<Rightarrow> OAuth2_Token res \<Rightarrow> 'w OpenBaoAuthClient
    \<Rightarrow> Reading \<Rightarrow> Reading \<Rightarrow> go_time \<Rightarrow> go_time \<Rightarrow> 'w auth_net \<Rightarrow> LoginResult res \<times> 'w auth_net" where
  "OAuth2LoginSource_Login unmarshal cfg issued client requestedAt checkedAt now readAt n =
    (case bindE issued (\<lambda>token.
    let parts = split_on (CHR ''.'') (AccessToken token) in
    bindE (failIf (length parts \<noteq> 3 \<or> parts ! 2 = [] \<or> ContainsAny (AccessToken token) jwtWhitespaceChars)
      (Sentinel (Auth ErrJWTMalformed))) (\<lambda>_.
    bindE (ParseClaims unmarshal (AccessToken token)) (\<lambda>claims.
    bindE (endpoint_lifetime cfg token requestedAt checkedAt) (\<lambda>lifetime.
    bindE (ValidateClaims claims (jwt_validation_options cfg) now) (\<lambda>_.
    Inr (token, claims, lifetime)))))) of
       Inl err \<Rightarrow> (Inl err, n)
     | Inr (token, claims, lifetime) \<Rightarrow>
        (let (r, n') = client_LoginJWT client
               \<lparr>jl_MountPath = mc_MountPath cfg, jl_Role = mc_Role cfg, jl_JWT = AccessToken token\<rparr> n
         in (bindE (public_result r) (\<lambda>result.
             Inr \<lparr>lr_AuthToken = result,
                  lr_JWT = \<lparr>Raw = AccessToken token, jwt_Claims = claims, jwt_ReadAt = readAt, EndpointLifetime = lifetime\<rparr>,
                  lr_Certificate = zero_Certificate\<rparr>), n')))"

section \<open>Properties of logins\<close>

lemma time_Sub_gt: "time_Sub t u > d \<Longrightarrow> 0 \<le> d \<Longrightarrow> t > u + d"
  by (auto simp: time_Sub_def min_duration_def max_duration_def min_def max_def split: if_splits)

lemma ValidateClaims_Inr:
  assumes "ValidateClaims claims opts now = Inr u" and "0 < jo_MinRemainingTTL opts"
  shows "now + jo_MinRemainingTTL opts < cl_ExpiresAt claims"
    and "HasNotBefore claims \<Longrightarrow> cl_NotBefore claims \<le> now + max 0 (jo_ClockSkewLeeway opts)"
    and "HasIssuedAt claims \<Longrightarrow> cl_IssuedAt claims \<le> now + max 0 (jo_ClockSkewLeeway opts)"
    and "ExpectedIssuer opts \<noteq> [] \<Longrightarrow> cl_Issuer claims = ExpectedIssuer opts"
    and "ExpectedAudience opts \<noteq> [] \<Longrightarrow> set (cl_Audience claims) \<inter> set (ExpectedAudience opts) \<noteq> {}"
    and "ExpectedSubject opts \<noteq> [] \<Longrightarrow> cl_Subject claims = ExpectedSubject opts"
proof -
  have "jo_MinRemainingTTL opts < time_Sub (cl_ExpiresAt claims) now"
    using assms by (auto simp: ValidateClaims_def Let_def)
  then show "now + jo_MinRemainingTTL opts < cl_ExpiresAt claims" using time_Sub_gt assms(2) by fastforce
qed (use assms in \<open>auto simp: ValidateClaims_def Let_def validateExpectedIdentity_def hasExpectedAudience_def list_ex_iff split: if_splits\<close>)

text \<open>What an acceptable identity token is for a configuration, at a point of time.\<close>

definition claims_acceptable :: "ManagerConfig \<Rightarrow> Claims \<Rightarrow> go_time \<Rightarrow> bool" where
  "claims_acceptable cfg claims now \<longleftrightarrow>
     now + mc_MinJWTRemainingTTL cfg < cl_ExpiresAt claims
     \<and> (HasNotBefore claims \<longrightarrow> cl_NotBefore claims \<le> now + max 0 (mc_ClockSkewLeeway cfg))
     \<and> (HasIssuedAt claims \<longrightarrow> cl_IssuedAt claims \<le> now + max 0 (mc_ClockSkewLeeway cfg))
     \<and> (mc_ExpectedIssuer cfg \<noteq> [] \<longrightarrow> cl_Issuer claims = mc_ExpectedIssuer cfg)
     \<and> (mc_ExpectedAudience cfg \<noteq> [] \<longrightarrow> set (cl_Audience claims) \<inter> set (mc_ExpectedAudience cfg) \<noteq> {})
     \<and> (mc_ExpectedSubject cfg \<noteq> [] \<longrightarrow> cl_Subject claims = mc_ExpectedSubject cfg)"

lemma ValidateClaims_acceptable:
  "ValidateClaims claims (jwt_validation_options cfg) now = Inr u \<Longrightarrow> 0 < mc_MinJWTRemainingTTL cfg \<Longrightarrow> claims_acceptable cfg claims now"
  using ValidateClaims_Inr [of claims "jwt_validation_options cfg" now u]
  by (auto simp: claims_acceptable_def jwt_validation_options_def)

lemma validateManagerConfig_positive: "validateManagerConfig cfg = Inr c \<Longrightarrow> 0 < mc_MinJWTRemainingTTL c"
  by (auto simp: validateManagerConfig_def Let_def)

text \<open>
  And what an acceptable client certificate is, with its signer: among the rest, an expected SPIFFE identifier is one of its URIs, and with a
  trust domain it has a SPIFFE URI and all its SPIFFE URIs are of that domain.
\<close>

definition spiffe_acceptable :: "CertLoginSourceConfig \<Rightarrow> x509_certificate \<Rightarrow> bool" where
  "spiffe_acceptable cfg leaf \<longleftrightarrow>
     (TrimSpace (cs_ExpectedSPIFFEID cfg) \<noteq> [] \<longrightarrow> (\<exists>u. Some u \<in> set (x_URIs leaf) \<and> u_String u = TrimSpace (cs_ExpectedSPIFFEID cfg)))
     \<and> (TrimSpace (cs_TrustDomain cfg) \<noteq> [] \<longrightarrow> (\<exists>u. Some u \<in> set (x_URIs leaf) \<and> u_Scheme u = spiffeURIScheme)
         \<and> (\<forall>u. Some u \<in> set (x_URIs leaf) \<and> u_Scheme u = spiffeURIScheme \<longrightarrow> u_Host u = TrimSpace (cs_TrustDomain cfg)))"

lemma trust_domain_loop_Inr:
  "trust_domain_loop td matched uris = Inr b \<Longrightarrow>
     (b \<longleftrightarrow> matched \<or> (\<exists>u. Some u \<in> set uris \<and> u_Scheme u = spiffeURIScheme))
     \<and> (\<forall>u. Some u \<in> set uris \<and> u_Scheme u = spiffeURIScheme \<longrightarrow> u_Host u = td)"
  by (induction td matched uris rule: trust_domain_loop.induct) (auto split: if_splits)

lemma validateCertificateSPIFFEIdentity_Inr:
  assumes "validateCertificateSPIFFEIdentity url_parse leaf (cert_validation_options cfg) = Inr u"
  shows "spiffe_acceptable cfg leaf"
proof -
  have "\<exists>u. Some u \<in> set (x_URIs leaf) \<and> u_String u = TrimSpace (cs_ExpectedSPIFFEID cfg)" if "TrimSpace (cs_ExpectedSPIFFEID cfg) \<noteq> []"
    using assms that by (auto simp: validateCertificateSPIFFEIdentity_def cert_validation_options_def Let_def validateExpectedSPIFFEID_def
        list_ex_iff split: option.splits)
  moreover have "\<exists>b. b \<and> trust_domain_loop (TrimSpace (cs_TrustDomain cfg)) False (x_URIs leaf) = Inr b" if "TrimSpace (cs_TrustDomain cfg) \<noteq> []"
    using assms that by (auto simp: validateCertificateSPIFFEIdentity_def cert_validation_options_def Let_def validateSPIFFETrustDomain_def)
  ultimately show ?thesis unfolding spiffe_acceptable_def by (auto dest: trust_domain_loop_Inr)
qed

definition certificate_acceptable :: "CertLoginSourceConfig \<Rightarrow> x509_certificate list \<Rightarrow> crypto_signer \<Rightarrow> go_time \<Rightarrow> bool" where
  "certificate_acceptable cfg chain signer now \<longleftrightarrow>
     (\<exists>leaf rest. chain = leaf # rest
       \<and> now + cs_MinRemainingTTL cfg < x_NotAfter leaf
       \<and> x_NotBefore leaf \<le> now + max 0 (cs_ClockSkewLeeway cfg)
       \<and> (ExtKeyUsageClientAuth \<in> set (x_ExtKeyUsage leaf) \<or> ExtKeyUsageAny \<in> set (x_ExtKeyUsage leaf))
       \<and> spiffe_acceptable cfg leaf
       \<and> (\<exists>key. pk_encoding (x_PublicKey leaf) = Some key \<and> pk_encoding (sg_Public signer) = Some key))
     \<and> (\<forall>cert \<in> set chain. \<not> usesWeakSignature (x_SignatureAlgorithm cert))"

lemma validatedCertificateLeaf_Nil [simp]: "validatedCertificateLeaf [] = Inr x \<longleftrightarrow> False"
  by (simp add: validatedCertificateLeaf_def)

lemma validatedCertificateLeaf_Cons [simp]:
  "validatedCertificateLeaf (Some leaf # map Some rest) = Inr (leaf, leaf # rest)"
  by (auto simp: validatedCertificateLeaf_def comp_def)

lemma ValidateCertificateChain_Inr:
  assumes "ValidateCertificateChain url_parse (map Some chain) opts now = Inr u" and "0 < co_MinRemainingTTL opts"
  obtains leaf rest where "chain = leaf # rest" "now + co_MinRemainingTTL opts < x_NotAfter leaf"
    "x_NotBefore leaf \<le> now + max 0 (co_ClockSkewLeeway opts)" "hasClientAuthUsage (x_ExtKeyUsage leaf)"
    "\<forall>cert \<in> set chain. \<not> usesWeakSignature (x_SignatureAlgorithm cert)" "validateCertificateSPIFFEIdentity url_parse leaf opts = Inr ()"
proof -
  obtain leaf rest where l: "chain = leaf # rest"
    using assms(1) by (cases chain) (auto simp: ValidateCertificateChain_def)
  with assms have c: "co_MinRemainingTTL opts < time_Sub (x_NotAfter leaf) now"
      "x_NotBefore leaf \<le> now + max 0 (co_ClockSkewLeeway opts)" "hasClientAuthUsage (x_ExtKeyUsage leaf)"
      "\<forall>cert \<in> set chain. \<not> usesWeakSignature (x_SignatureAlgorithm cert)" "validateCertificateSPIFFEIdentity url_parse leaf opts = Inr ()"
    by (auto simp: ValidateCertificateChain_def Let_def validateCertificateSignatureAlgorithms_def split: if_splits)
  have "now + co_MinRemainingTTL opts < x_NotAfter leaf" using time_Sub_gt c(1) assms(2) by fastforce
  with that l c show ?thesis by blast
qed

lemma ValidateCertificateSigner_Inr:
  "ValidateCertificateSigner (Some leaf) (Some signer) = Inr u \<Longrightarrow>
     \<exists>key. pk_encoding (x_PublicKey leaf) = Some key \<and> pk_encoding (sg_Public signer) = Some key"
  by (auto simp: ValidateCertificateSigner_def validateCertificateSignerPublicKey_def split: option.splits if_splits)

lemma ValidateLocal_acceptable:
  assumes "ValidateLocal parse_der url_parse cfg current now readAt = Inr cert" and "0 < cs_MinRemainingTTL cfg"
  shows "\<exists>tls signer. current = Inr tls \<and> tc_signer tls = Some signer \<and> certificate_acceptable cfg (Chain cert) signer now"
proof -
  from assms(1) obtain tls signer where tls: "current = Inr tls" "tc_signer tls = Some signer"
      and v: "ValidateCertificateChain url_parse (map Some (Chain cert)) (cert_validation_options cfg) now = Inr ()"
      and leaf: "Leaf cert = Some (hd (Chain cert))" and sg: "ValidateCertificateSigner (Leaf cert) (Some signer) = Inr ()"
    by (auto simp: ValidateLocal_def validateTLSClientCertificate_def certificateFromTLS_def split: option.splits)
  from v assms(2) obtain l rest where l: "Chain cert = l # rest" "now + cs_MinRemainingTTL cfg < x_NotAfter l"
      "x_NotBefore l \<le> now + max 0 (cs_ClockSkewLeeway cfg)" "hasClientAuthUsage (x_ExtKeyUsage l)"
      "\<forall>c \<in> set (Chain cert). \<not> usesWeakSignature (x_SignatureAlgorithm c)" "spiffe_acceptable cfg l"
    by (elim ValidateCertificateChain_Inr) (auto simp: cert_validation_options_def dest: validateCertificateSPIFFEIdentity_Inr [unfolded cert_validation_options_def])
  with sg leaf have "\<exists>key. pk_encoding (x_PublicKey l) = Some key \<and> pk_encoding (sg_Public signer) = Some key"
    using ValidateCertificateSigner_Inr [of l signer "()"] by simp
  moreover have "(ExtKeyUsageClientAuth \<in> set (x_ExtKeyUsage l) \<or> ExtKeyUsageAny \<in> set (x_ExtKeyUsage l))"
    using l(4) by (simp add: hasClientAuthUsage_def)
  ultimately show ?thesis using tls l(1-3,5,6) unfolding certificate_acceptable_def by blast
qed

text \<open>The shape of a token: header, payload and signature, without white space; an issued token must also be signed.\<close>

definition compact_token :: "string \<Rightarrow> bool" where
  "compact_token t \<longleftrightarrow> (\<exists>h p sg. split_on (CHR ''.'') t = [h, p, sg] \<and> h \<noteq> [] \<and> p \<noteq> []) \<and> set t \<inter> set jwtWhitespaceChars = {}"

definition signed_token :: "string \<Rightarrow> bool" where
  "signed_token t \<longleftrightarrow> (\<exists>h p sg. split_on (CHR ''.'') t = [h, p, sg] \<and> sg \<noteq> [])"

lemma three_parts: "length parts = 3 \<Longrightarrow> parts = [parts ! 0, parts ! 1, parts ! 2]"
  by (auto simp: numeral_3_eq_3 length_Suc_conv)

lemma ParseClaims_compact:
  assumes "ParseClaims unmarshal t = Inr claims" "set t \<inter> set jwtWhitespaceChars = {}"
  shows "compact_token t"
proof -
  from assms(1) have "length (split_on (CHR ''.'') t) = 3" "split_on (CHR ''.'') t ! 0 \<noteq> []" "split_on (CHR ''.'') t ! 1 \<noteq> []"
    by (auto simp: ParseClaims_def Let_def)
  with three_parts [OF this(1)] assms(2) show ?thesis unfolding compact_token_def by (metis One_nat_def)
qed

lemma ReadJWT_file:
  assumes "ReadJWT unmarshal path f readAt = Inr jwt"
  obtains content where "safely_read f content" "Raw jwt = TrimSpace content" "compact_token (Raw jwt)"
    "ParseClaims unmarshal (Raw jwt) = Inr (jwt_Claims jwt)"
proof -
  from assms have r: "ReadJWTFile path f = Inr (Raw jwt)" "ParseClaims unmarshal (Raw jwt) = Inr (jwt_Claims jwt)"
    by (auto simp: ReadJWT_def)
  obtain content where "safely_read f content" "Raw jwt = TrimSpace content" "set (Raw jwt) \<inter> set jwtWhitespaceChars = {}"
    using conjunct1 [OF identity_files_private, rule_format, OF r(1)] by blast
  with that r ParseClaims_compact show ?thesis by blast
qed


definition ex_manager_config :: ManagerConfig where
  "ex_manager_config = \<lparr>mc_MountPath = ''auth/jwt'', mc_Role = ''kms'', mc_JWTFile = ''/t'', mc_MinJWTRemainingTTL = 60,
     mc_ClockSkewLeeway = 5, mc_LoginBeforeTokenExpiry = 30, mc_TokenRenewalIncrement = 600, mc_ExpectedIssuer = [],
     mc_ExpectedAudience = [], mc_ExpectedSubject = []\<rparr>"

definition ex_claims :: registeredClaims where
  "ex_claims = \<lparr>rc_Issuer = [], rc_Subject = [], rc_Audience = [], rc_ExpiresAt = \<lparr>nd_Time = 1000, nd_Set = True\<rparr>,
     rc_NotBefore = \<lparr>nd_Time = 0, nd_Set = False\<rparr>, rc_IssuedAt = \<lparr>nd_Time = 0, nd_Set = False\<rparr>\<rparr>"

lemma TrimSpace_Nil [simp]: "TrimSpace [] = []"
  by (simp add: TrimSpace_def trim_left.simps trim_right.simps)

lemma ex_NewJWTLoginSource: "NewJWTLoginSource ex_manager_config = Inr ex_manager_config"
  by (simp add: NewJWTLoginSource_def validateManagerConfig_def ex_manager_config_def TrimSpace_ascii normalizeExpectedAudience_def
      path_Clean_def clean_step_def HasPrefix_def containsUnsafeIdentifierChars_def ContainsAny_def validateLifecycleConfig_def
      lifecycleConfigFromManager_def)

text \<open>
  The token of the file expires at 1000 and must outlive a margin of 60: a login at 950 sends nothing.
\<close>

definition ex_auth_client :: "nat OpenBaoAuthClient" where
  "ex_auth_client = \<lparr>LoginJWT = (\<lambda>_ w. (Inl (Msg ''down''), Suc w)), LoginCert = (\<lambda>_ w. (Inl (Msg ''down''), Suc w)),
     RenewSelfToken = (\<lambda>_ _ w. (Inl (Msg ''down''), Suc w))\<rparr>"


end
