(* ===== verification/Example_Keys.thy ===== *)
theory Example_Keys
  imports Key_Registry
begin

text \<open>
  Two versions of one Transit key, with their key identifiers computed by the model of SHA-256 in
  the kernel. The identifiers differ, so the witnesses of the state, retirement and rotation
  results can use a state that really holds two keys. The digests agree with the reference
  implementation of SHA-256.
\<close>

definition ex_version :: "int \<Rightarrow> string \<Rightarrow> KeySnapshot" where
  "ex_version v st = \<lparr>ProviderName = ''p'', ClusterID = ''c'', OpenBaoInstanceID = ''i'',
     OpenBaoNamespace = [], TransitMountID = ''m'', TransitKeyLineageID = ''l'',
     TransitVersion = v, TransitVersionCreatedAt = time_Unix v, KubernetesKeyID = [],
     State = st, AADMode = AADModeRequired\<rparr>"

lemma ex_version_normalizable [simp]:
  "0 < v \<Longrightarrow> SnapshotState_Valid st \<Longrightarrow> normalizable (ex_version v st)"
  by (simp add: normalizable_def identity_complete_def ex_version_def
      validateOpenBaoNamespace_def AADMode_Valid_def)

lemma ex_version_simps [simp]:
  "State (ex_version v st) = st" "TransitVersion (ex_version v st) = v"
  by (simp_all add: ex_version_def)

definition ex_key :: "int \<Rightarrow> string" where
  "ex_key v = derived_key_id (ex_version v StateActive)"

lemma ex_key_derived [simp]: "derived_key_id (ex_version v st) = ex_key v"
  unfolding ex_key_def by (rule derived_key_id_cong) (simp add: same_identity_def ex_version_def)

definition ex_input :: "int \<Rightarrow> string" where
  "ex_input v = ''openbao-kubernetes-kms/key-id/v1'' @ [CHR 0x00] @ ''p'' @ [CHR 0x00] @ ''c'' @ [CHR 0x00]
     @ ''i'' @ [CHR 0x00] @ ''m'' @ [CHR 0x00] @ ''l'' @ [CHR 0x00] @ Itoa v @ [CHR 0x00] @ Itoa v @ [CHR 0x00]"

lemma ex_input_1: "take 4 (Sum256 (ex_input 1)) = [CHR 0xC8, CHR 0x95, CHR ''@'', CHR 0xFD]"
  by code_simp

lemma ex_input_2: "take 1 (Sum256 (ex_input 2)) \<noteq> [CHR 0xC8]"
  by code_simp

lemma ex_keys_distinct [simp]: "ex_key 1 \<noteq> ex_key 2" "ex_key 2 \<noteq> ex_key 1"
proof -
  have inp: "key_id_input (ex_version v StateActive) (time_Unix (Unix (TransitVersionCreatedAt (ex_version v StateActive))))
      = ex_input v" for v
    by (simp add: key_id_input_def ex_version_def ex_input_def keyIDDomain_def appendPart_def Let_def)
  have "ex_key 1 = ex_key 2 \<longleftrightarrow> Sum256 (ex_input 1) = Sum256 (ex_input 2)"
    unfolding ex_key_def derived_key_id_eq inp by (rule refl)
  moreover have "take 1 (Sum256 (ex_input 1)) = [CHR 0xC8]"
    using arg_cong [OF ex_input_1, of "take 1"] by simp
  ultimately show "ex_key 1 \<noteq> ex_key 2" "ex_key 2 \<noteq> ex_key 1"
    using ex_input_2 by metis+
qed

end
