(* ===== verification/Retirement.thy ===== *)
theory Retirement
  imports State_File Example_Keys
begin

text \<open>
  The operator transitions on the persisted registry state
  (\<^verbatim>\<open>internal/keyregistry/retirement.go\<close>): retiring historical versions below a boundary and
  restoring removed versions. Both write the next generation of the state.
\<close>

section \<open>Operations\<close>

definition retire_record :: "int \<Rightarrow> SnapshotStateRecord \<Rightarrow> SnapshotStateRecord" where
  "retire_record beforeVersion record =
    (if r_State record = StateRetired \<and> r_TransitVersion record < beforeVersion
     then record\<lparr>r_State := StateRemoved\<rparr> else record)"

definition RetireVersions :: "StateFile \<Rightarrow> int \<Rightarrow> StateFile res" where
  "RetireVersions previous beforeVersion =
    bindE (StateFile_Validate previous) (\<lambda>_.
    bindE (ActiveSnapshot previous) (\<lambda>active.
    bindE (failIf (beforeVersion \<le> 1 \<or> beforeVersion > TransitVersion active)
      (Msg ''retirement boundary must be greater than 1 and at most active Transit version'')) (\<lambda>_.
    let records = map (retire_record beforeVersion) (Snapshots previous);
        changed = list_ex (\<lambda>record. r_State record = StateRetired \<and> r_TransitVersion record < beforeVersion)
                    (Snapshots previous)
    in if \<not> changed then Inr previous
       else NewStateFileFromRecords (ActiveKeyID previous) records (Generation previous + 1)
              (CurrentHash previous) (IdentityFingerprint previous))))"

text \<open>The first loop of \<open>RestoreVersions\<close>; the set \<open>selected\<close> is a list without repetitions.\<close>

fun select_versions :: "int \<Rightarrow> int list \<Rightarrow> int list \<Rightarrow> int list res" where
  "select_versions activeVersion [] selected = Inr selected"
| "select_versions activeVersion (version # rest) selected =
    (if version \<le> 0 \<or> version \<ge> activeVersion \<or> version \<in> set selected
     then Inl (Msg ''restore versions must be distinct positive historical versions below active'')
     else select_versions activeVersion rest (version # selected))"

text \<open>The second loop: a restored version leaves \<open>selected\<close>, so only its first record is restored.\<close>

fun restore_records ::
  "int list \<Rightarrow> SnapshotStateRecord list \<Rightarrow> (int list \<times> SnapshotStateRecord list) res" where
  "restore_records selected [] = Inr (selected, [])"
| "restore_records selected (record # rest) =
    (if r_TransitVersion record \<notin> set selected then
       bindE (restore_records selected rest) (\<lambda>(left, rs). Inr (left, record # rs))
     else if r_State record \<noteq> StateRemoved then Inl (Msg ''restore requires a removed version'')
     else
       bindE (restore_records (removeAll (r_TransitVersion record) selected) rest) (\<lambda>(left, rs).
       Inr (left, record\<lparr>r_State := StateRetired\<rparr> # rs)))"

definition RestoreVersions :: "StateFile \<Rightarrow> int list \<Rightarrow> StateFile res" where
  "RestoreVersions previous versions =
    bindE (StateFile_Validate previous) (\<lambda>_.
    bindE (ActiveSnapshot previous) (\<lambda>active.
    bindE (select_versions (TransitVersion active) versions []) (\<lambda>selected.
    bindE (failIf (selected = []) (Msg ''select at least one removed version to restore'')) (\<lambda>_.
    bindE (restore_records selected (Snapshots previous)) (\<lambda>(left, records).
    bindE (failIf (left \<noteq> []) (Msg ''selected version is absent from the local registry'')) (\<lambda>_.
    NewStateFileFromRecords (ActiveKeyID previous) records (Generation previous + 1)
      (CurrentHash previous) (IdentityFingerprint previous)))))))"

section \<open>Lemmas\<close>

lemma rec_upd_state [simp]:
  "rec_id (r\<lparr>r_State := st\<rparr>) = rec_id r"
  "rec_ok r \<Longrightarrow> SnapshotState_Valid st \<Longrightarrow> rec_ok (r\<lparr>r_State := st\<rparr>)"
proof -
  have raw: "raw_snapshot (r\<lparr>r_State := st\<rparr>) = (raw_snapshot r)\<lparr>State := st\<rparr>"
    by (simp add: raw_snapshot_def)
  show "rec_id (r\<lparr>r_State := st\<rparr>) = rec_id r" by (simp add: rec_id_def raw)
  show "rec_ok (r\<lparr>r_State := st\<rparr>)" if "rec_ok r" "SnapshotState_Valid st"
    using that by (simp add: rec_ok_def raw normalizable_def identity_complete_def validateObservationMetadata_def)
qed

lemma SnapshotState_Valid_consts [simp]:
  "SnapshotState_Valid StateActive" "SnapshotState_Valid StatePending" "SnapshotState_Valid StateRetired"
  "SnapshotState_Valid StateRejected" "SnapshotState_Valid StateRemoved"
  by (simp_all add: SnapshotState_Valid_def)

text \<open>A change of record states that leaves the active record alone.\<close>

definition restates :: "SnapshotStateRecord \<Rightarrow> SnapshotStateRecord \<Rightarrow> bool" where
  "restates r r' \<longleftrightarrow> rec_id r' = rec_id r \<and> (rec_ok r \<longrightarrow> rec_ok r')
     \<and> (r_State r' = StateActive \<longleftrightarrow> r_State r = StateActive)"

lemma restates_content:
  assumes "content_ok s" and "list_all2 restates (Snapshots s) (Snapshots t)" and "ActiveKeyID t = ActiveKeyID s"
  shows "content_ok t"
proof -
  have ids: "map rec_id (Snapshots t) = map rec_id (Snapshots s)"
    using assms(2) by (auto simp: list_all2_conv_all_nth restates_def intro: nth_equalityI)
  have bwd: "\<exists>q\<in>set (Snapshots s). restates q r" if "r \<in> set (Snapshots t)" for r
    using assms(2) that by (metis in_set_conv_nth list_all2_conv_all_nth)
  have fwd: "\<exists>r\<in>set (Snapshots t). restates q r" if "q \<in> set (Snapshots s)" for q
    using assms(2) that by (metis in_set_conv_nth list_all2_conv_all_nth)
  show ?thesis
    using assms(1,3) bwd fwd unfolding content_ok_def ids list_all_iff restates_def by metis
qed

lemma restates_norm_rec [simp]: "rec_ok r \<Longrightarrow> restates r (norm_rec r)"
  by (simp add: restates_def)

lemma successor_from_records:
  assumes "StateFile_Validate p = Inr ()" and "Generation p + 1 \<noteq> 0"
    and "list_all2 restates (Snapshots p) rs"
  shows "\<exists>n. NewStateFileFromRecords (ActiveKeyID p) rs (Generation p + 1) (CurrentHash p)
    (IdentityFingerprint p) = Inr n"
proof -
  let ?u = "\<lparr>SchemaVersion = stateFileVersion, IdentityFingerprint = IdentityFingerprint p,
    Generation = Generation p + 1, PreviousHash = CurrentHash p, CurrentHash = [],
    ActiveKeyID = ActiveKeyID p, Snapshots = map norm_rec rs\<rparr>"
  let ?n = "?u\<lparr>CurrentHash := computeHash ?u\<rparr>"
  have p: "content_ok p" using assms(1) by (rule validated_content)
  then have ok: "list_all rec_ok rs"
    using assms(3) by (auto simp: content_ok_def list_all_length list_all2_conv_all_nth restates_def)
  have "list_all2 restates (Snapshots p) (map norm_rec rs)"
    using assms(3) ok by (auto simp: list_all2_conv_all_nth restates_def list_all_length)
  then have content: "content_ok ?n" by (intro restates_content [OF p]) simp_all
  have hash: "CurrentHash ?n = computeHash ?n" by (simp add: computeHash_def stateHashBody_def)
  have "StateFile_Validate ?n = Inr ()"
    using assms(1,2) validateStateHash_valid [OF assms(1)] unfolding StateFile_Validate_Inr
    by (intro conjI impI hash content) simp_all
  then have "NewStateFileFromRecords (ActiveKeyID p) rs (Generation p + 1) (CurrentHash p)
    (IdentityFingerprint p) = Inr ?n"
    using ok by (simp add: NewStateFileFromRecords_Inr)
  then show ?thesis by blast
qed

lemma successor_accepted:
  assumes "StateFile_Validate p = Inr ()"
    and "NewStateFileFromRecords (ActiveKeyID p) rs (Generation p + 1) (CurrentHash p) (IdentityFingerprint p) = Inr n"
  shows "unat (Generation n) = unat (Generation p) + 1 \<and> IdentityFingerprint n = IdentityFingerprint p
    \<and> ActiveKeyID n = ActiveKeyID p \<and> StateFile_Validate n = Inr ()
    \<and> (\<exists>c. NewStateCheckpoint p = Inr c \<and> ValidateState c n = Inr ())"
proof -
  from assms(2) have n: "StateFile_Validate n = Inr ()" "Generation n = Generation p + 1" "PreviousHash n = CurrentHash p"
    "IdentityFingerprint n = IdentityFingerprint p" "ActiveKeyID n = ActiveKeyID p"
    by (simp_all add: NewStateFileFromRecords_Inr)
  have "Generation p + 1 \<noteq> 0" using n(1,2) by (auto simp: StateFile_Validate_Inr)
  then have "unat (Generation p + 1) = unat (Generation p) + 1"
    by (rule unat_succ_nonzero)
  with n assms(1) validateStateHash_valid [OF assms(1)] show ?thesis
    by (auto simp: NewStateCheckpoint_Inr ValidateState_Inr StateCheckpoint_Validate_def StateFile_Validate_Inr)
qed

lemma retire_record_restates: "rec_ok r \<Longrightarrow> restates r (retire_record b r)"
  by (simp add: restates_def retire_record_def)

lemma RetireVersions_cases:
  assumes "RetireVersions p b = Inr n"
  shows "StateFile_Validate p = Inr ()"
    and "\<exists>a. ActiveSnapshot p = Inr a \<and> 1 < b \<and> b \<le> TransitVersion a"
    and "n = p \<and> map (retire_record b) (Snapshots p) = Snapshots p \<or>
      NewStateFileFromRecords (ActiveKeyID p) (map (retire_record b) (Snapshots p)) (Generation p + 1)
        (CurrentHash p) (IdentityFingerprint p) = Inr n"
proof -
  show "StateFile_Validate p = Inr ()" using assms by (auto simp: RetireVersions_def)
  show "\<exists>a. ActiveSnapshot p = Inr a \<and> 1 < b \<and> b \<le> TransitVersion a"
    using assms by (fastforce simp: RetireVersions_def)
  show "n = p \<and> map (retire_record b) (Snapshots p) = Snapshots p \<or>
      NewStateFileFromRecords (ActiveKeyID p) (map (retire_record b) (Snapshots p)) (Generation p + 1)
        (CurrentHash p) (IdentityFingerprint p) = Inr n"
    using assms
    by (auto simp: RetireVersions_def Let_def list_ex_iff retire_record_def map_idI split: if_splits)
qed

lemma select_versions_Inr:
  "select_versions a vs sel = Inr sel' \<longleftrightarrow>
     (\<forall>v\<in>set vs. 0 < v \<and> v < a \<and> v \<notin> set sel) \<and> distinct vs \<and> sel' = rev vs @ sel"
  by (induction vs arbitrary: sel) auto

lemma restore_records_restates:
  "restore_records sel rs = Inr (left, rs') \<Longrightarrow>
     list_all2 (\<lambda>r r'. r' = r \<or> r_State r = StateRemoved \<and> r_TransitVersion r \<in> set sel - set left
                  \<and> r' = r\<lparr>r_State := StateRetired\<rparr>) rs rs'
     \<and> set left \<subseteq> set sel
     \<and> (\<forall>v\<in>set sel - set left. \<exists>r\<in>set rs. r_TransitVersion r = v \<and> r_State r = StateRemoved
          \<and> r\<lparr>r_State := StateRetired\<rparr> \<in> set rs')"
proof (induction sel rs arbitrary: rs' rule: restore_records.induct)
  case (2 sel r rs)
  show ?case
  proof (cases "r_TransitVersion r \<in> set sel")
    case False
    with 2 obtain q where q: "restore_records sel rs = Inr (left, q)" "rs' = r # q" by auto
    from 2(1) [OF False q(1)] q(2) show ?thesis by auto
  next
    case True
    with 2 obtain q where q: "r_State r = StateRemoved"
      "restore_records (removeAll (r_TransitVersion r) sel) rs = Inr (left, q)"
      "rs' = r\<lparr>r_State := StateRetired\<rparr> # q" by (auto split: if_splits)
    have "\<not> r_TransitVersion r \<notin> set sel" "\<not> r_State r \<noteq> StateRemoved" using True q by simp_all
    note IH = 2(2) [OF this q(2)]
    from IH have "set left \<subseteq> set sel - {r_TransitVersion r}" by simp
    moreover have "list_all2 (\<lambda>r r'. r' = r \<or> r_State r = StateRemoved \<and> r_TransitVersion r \<in> set sel - set left
                  \<and> r' = r\<lparr>r_State := StateRetired\<rparr>) rs q"
      using IH by (auto elim: list_all2_mono)
    ultimately show ?thesis using IH True q by auto
  qed
qed auto


lemma restore_records_members:
  assumes "restore_records sel rs = Inr (left, rs')"
  shows "r \<in> set rs' \<Longrightarrow> \<exists>q\<in>set rs. r = q \<or> r_State q = StateRemoved \<and> r_TransitVersion q \<in> set sel
      \<and> rec_id r = rec_id q"
    and "q \<in> set rs \<Longrightarrow> r_State q \<noteq> StateRemoved \<Longrightarrow> q \<in> set rs'"
proof -
  let ?P = "\<lambda>r r'. r' = r \<or> r_State r = StateRemoved \<and> r_TransitVersion r \<in> set sel - set left
                  \<and> r' = r\<lparr>r_State := StateRetired\<rparr>"
  have rr: "list_all2 ?P rs rs'" using restore_records_restates [OF assms] by blast
  then have len: "length rs = length rs'" and nth: "\<And>i. i < length rs' \<Longrightarrow> ?P (rs ! i) (rs' ! i)"
    by (simp_all add: list_all2_conv_all_nth)
  show "\<exists>q\<in>set rs. r = q \<or> r_State q = StateRemoved \<and> r_TransitVersion q \<in> set sel
      \<and> rec_id r = rec_id q" if mem: "r \<in> set rs'"
  proof -
    obtain i where i: "i < length rs'" "r = rs' ! i" using mem unfolding in_set_conv_nth by blast
    have "?P (rs ! i) r" unfolding i(2) by (rule nth [OF i(1)])
    then have "r = rs ! i \<or> r_State (rs ! i) = StateRemoved \<and> r_TransitVersion (rs ! i) \<in> set sel
      \<and> rec_id r = rec_id (rs ! i)" by (elim disjE) simp_all
    moreover have "rs ! i \<in> set rs" using i(1) len by simp
    ultimately show ?thesis by blast
  qed
  show "q \<in> set rs'" if mem: "q \<in> set rs" and st: "r_State q \<noteq> StateRemoved"
  proof -
    obtain i where i: "i < length rs" "q = rs ! i" using mem unfolding in_set_conv_nth by blast
    then have "rs' ! i = q" using nth [of i] len st by auto
    then show ?thesis using nth_mem [of i rs'] i(1) len by simp
  qed
qed

section \<open>Restoring after retiring\<close>

definition retired_versions :: "int \<Rightarrow> StateFile \<Rightarrow> int list" where
  "retired_versions b s = map r_TransitVersion
     (filter (\<lambda>r. r_State r = StateRetired \<and> r_TransitVersion r < b) (Snapshots s))"

lemma restore_retired:
  "distinct (map r_TransitVersion rs) \<Longrightarrow>
   set sel = r_TransitVersion ` {r\<in>set rs. r_State r = StateRetired \<and> r_TransitVersion r < b} \<Longrightarrow>
     restore_records sel (map (retire_record b) rs) = Inr ([], rs)"
proof (induction rs arbitrary: sel)
  case (Cons r rs)
  have rest: "restore_records sel' (map (retire_record b) rs) = Inr ([], rs)"
    if "set sel' = r_TransitVersion ` {r\<in>set rs. r_State r = StateRetired \<and> r_TransitVersion r < b}" for sel'
    using Cons that by simp
  have fresh: "r_TransitVersion x \<noteq> r_TransitVersion r" if "x \<in> set rs" for x
    using Cons.prems(1) that by (metis distinct.simps(2) image_eqI list.set_map list.simps(9))
  show ?case
  proof (cases "r_State r = StateRetired \<and> r_TransitVersion r < b")
    case True
    have "r_TransitVersion r \<in> set sel" using True Cons.prems(2) by auto
    moreover have "set (removeAll (r_TransitVersion r) sel)
        = r_TransitVersion ` {r\<in>set rs. r_State r = StateRetired \<and> r_TransitVersion r < b}"
      using Cons.prems(2) fresh by auto
    moreover have "retire_record b r = r\<lparr>r_State := StateRemoved\<rparr>" "r\<lparr>r_State := StateRetired\<rparr> = r"
      using True by (simp_all add: retire_record_def)
    ultimately show ?thesis using rest by simp
  next
    case False
    have "r_TransitVersion r \<notin> set sel" unfolding Cons.prems(2) using False fresh by fastforce
    moreover have "set sel = r_TransitVersion ` {r\<in>set rs. r_State r = StateRetired \<and> r_TransitVersion r < b}"
      using Cons.prems(2) False by auto
    moreover have "retire_record b r = r" using False by (auto simp: retire_record_def)
    ultimately show ?thesis using rest by simp
  qed
qed simp

lemma rec_ok_version: "rec_ok r \<Longrightarrow> 0 < r_TransitVersion r"
  by (simp add: rec_ok_def normalizable_def identity_complete_def)

lemma RetireVersions_canonical:
  assumes "RetireVersions p b = Inr n" and "canonical_state p"
  shows "Snapshots n = map (retire_record b) (Snapshots p)"
proof -
  have "norm_rec (retire_record b r) = retire_record b r" if "r \<in> set (Snapshots p)" for r
    using assms(2) that by (simp add: norm_rec_def retire_record_def canonical_state_def)
  then show ?thesis
    using RetireVersions_cases(3) [OF assms(1)] by (auto simp: NewStateFileFromRecords_Inr)
qed

lemma RetireVersions_active:
  assumes "RetireVersions p b = Inr n" and "canonical_state p" and "ActiveSnapshot p = Inr a"
  shows "\<exists>a'. ActiveSnapshot n = Inr a' \<and> TransitVersion a' = TransitVersion a"
proof -
  from assms(3) obtain r where r: "r \<in> set (Snapshots p)" "rec_id r = ActiveKeyID p" "a = rec_snap r"
    by (auto simp: ActiveSnapshot_Inr)
  have n: "ActiveKeyID n = ActiveKeyID p" "content_ok n"
    using RetireVersions_cases(1,3) [OF assms(1)]
    by (auto simp: NewStateFileFromRecords_Inr intro: validated_content)
  have "rec_id (retire_record b r) = ActiveKeyID n" "retire_record b r \<in> set (Snapshots n)"
    using r n by (auto simp: RetireVersions_canonical [OF assms(1,2)]) (simp add: retire_record_def)
  then have "ActiveSnapshot n = Inr (rec_snap (retire_record b r))" using n by (auto simp: ActiveSnapshot_Inr)
  then show ?thesis by (simp add: r(3)) (simp add: retire_record_def)
qed

section \<open>A state with two keys\<close>

definition ex_rec :: "int \<Rightarrow> string \<Rightarrow> SnapshotStateRecord" where
  "ex_rec v st = SnapshotStateRecordFromSnapshot (normal_form (ex_version v st))"

lemma ex_rec_simps [simp]:
  "rec_id (ex_rec v st) = ex_key v" "r_KubernetesKeyID (ex_rec v st) = ex_key v"
  "r_State (ex_rec v st) = st" "r_TransitVersion (ex_rec v st) = v"
  "(ex_rec v st)\<lparr>r_State := st'\<rparr> = ex_rec v st'"
  "norm_rec (ex_rec v st) = ex_rec v st"
proof -
  show id: "rec_id (ex_rec v st) = ex_key v" and kid: "r_KubernetesKeyID (ex_rec v st) = ex_key v"
    by (simp_all add: ex_rec_def FromSnapshot_normal_form)
  show "r_State (ex_rec v st) = st" "r_TransitVersion (ex_rec v st) = v"
    by (simp_all add: ex_rec_def SnapshotStateRecordFromSnapshot_def)
  show "(ex_rec v st)\<lparr>r_State := st'\<rparr> = ex_rec v st'"
    by (simp add: ex_rec_def SnapshotStateRecordFromSnapshot_def) (simp add: ex_version_def normal_form_def)
  show "norm_rec (ex_rec v st) = ex_rec v st" by (simp add: norm_rec_def id flip: kid)
qed

lemma ex_rec_ok [simp]: "0 < v \<Longrightarrow> SnapshotState_Valid st \<Longrightarrow> rec_ok (ex_rec v st)"
  by (simp add: ex_rec_def rec_ok_def normalizable_normal_form)
     (simp add: validateObservationMetadata_def SnapshotStateRecordFromSnapshot_def)

definition ex_two_unsealed :: "string \<Rightarrow> u64 \<Rightarrow> string \<Rightarrow> StateFile" where
  "ex_two_unsealed st g ph = \<lparr>SchemaVersion = stateFileVersion, IdentityFingerprint = ''cfg1.'' @ digest64 [],
     Generation = g, PreviousHash = ph, CurrentHash = [], ActiveKeyID = ex_key 2,
     Snapshots = [ex_rec 1 st, ex_rec 2 StateActive]\<rparr>"

definition ex_two :: "string \<Rightarrow> u64 \<Rightarrow> string \<Rightarrow> StateFile" where
  "ex_two st g ph = (ex_two_unsealed st g ph)\<lparr>CurrentHash := computeHash (ex_two_unsealed st g ph)\<rparr>"

lemma ex_two_simps [simp]:
  "SchemaVersion (ex_two st g ph) = stateFileVersion" "IdentityFingerprint (ex_two st g ph) = ''cfg1.'' @ digest64 []"
  "Generation (ex_two st g ph) = g" "PreviousHash (ex_two st g ph) = ph"
  "ActiveKeyID (ex_two st g ph) = ex_key 2" "Snapshots (ex_two st g ph) = [ex_rec 1 st, ex_rec 2 StateActive]"
  "CurrentHash (ex_two st g ph) = computeHash (ex_two st g ph)"
  by (simp_all add: ex_two_def) (simp_all add: ex_two_unsealed_def)

lemma ex_two_valid [simp]:
  assumes "SnapshotState_Valid st" "st \<noteq> StateActive" "g \<noteq> 0"
  shows "StateFile_Validate (ex_two st g []) = Inr ()" "StateFile_Validate (ex_two st g (computeHash q)) = Inr ()"
    "canonical_state (ex_two st g ph)"
  using fingerprint_digest [of "[]"] assms
  by (auto simp: StateFile_Validate_Inr content_ok_def canonical_state_def)

lemma ex_two_active [simp]:
  "SnapshotState_Valid st \<Longrightarrow> st \<noteq> StateActive \<Longrightarrow>
     ActiveSnapshot (ex_two st g ph) = Inr (rec_snap (ex_rec 2 StateActive))"
  by (auto simp: ActiveSnapshot_Inr content_ok_def)

lemma ex_two_new:
  assumes "SnapshotState_Valid st" "st \<noteq> StateActive" "g \<noteq> 0"
  shows "NewStateFileFromRecords (ex_key 2) [ex_rec 1 st, ex_rec 2 StateActive] g (computeHash q)
    (''cfg1.'' @ digest64 []) = Inr (ex_two st g (computeHash q))"
  using assms by (simp add: NewStateFileFromRecords_Inr)

section \<open>Main results\<close>

text \<open>
  Retiring below a boundary removes exactly the retired keys below it: the boundary lies above 1
  and at most at the active version; a \<open>key_id\<close> resolves afterwards if and only if it resolved before
  and no retired record below the boundary carries it, so the active and all pending keys stay; the
  active key is unchanged; and a changed state is the next generation that the checkpoint of the
  old state accepts.
\<close>

lemma RetireVersions_exact:
  assumes "RetireVersions p b = Inr n"
  shows "(resolves n k \<longleftrightarrow> resolves p k \<and> \<not> (\<exists>r\<in>set (Snapshots p). rec_id r = k
             \<and> r_State r = StateRetired \<and> r_TransitVersion r < b))
    \<and> ActiveKeyID n = ActiveKeyID p \<and> (\<exists>a. ActiveSnapshot p = Inr a \<and> 1 < b \<and> b \<le> TransitVersion a)
    \<and> (n = p \<or> unat (Generation n) = unat (Generation p) + 1
        \<and> (\<exists>c. NewStateCheckpoint p = Inr c \<and> ValidateState c n = Inr ()))"
proof -
  note rv = RetireVersions_cases [OF assms]
  have p: "content_ok p" using rv(1) by (rule validated_content)
  then have uniq: "q = r" if "q \<in> set (Snapshots p)" "r \<in> set (Snapshots p)" "rec_id q = rec_id r" for q r
    using that by (auto simp: content_ok_def distinct_map dest: inj_onD)
  have sn: "Snapshots n = map (retire_record b) (Snapshots p)
      \<or> Snapshots n = map (norm_rec \<circ> retire_record b) (Snapshots p)"
    using rv(3) by (auto simp: NewStateFileFromRecords_Inr)
  have n: "content_ok n"
    using rv p by (auto simp: NewStateFileFromRecords_Inr StateFile_Validate_Inr)
  have [simp]: "rec_id (retire_record b r) = rec_id r" for r by (simp add: retire_record_def)
  have dec: "decryptable_state (r_State (retire_record b r)) \<longleftrightarrow>
      decryptable_state (r_State r) \<and> \<not> (r_State r = StateRetired \<and> r_TransitVersion r < b)" for r
    by (auto simp: retire_record_def decryptable_state_def)
  have "resolves n k \<longleftrightarrow> (\<exists>r\<in>set (Snapshots p). rec_id r = k \<and> decryptable_state (r_State (retire_record b r)))"
    using sn n by (elim disjE) (simp_all add: resolves_iff conj_commute)
  also have "\<dots> \<longleftrightarrow> resolves p k \<and> \<not> (\<exists>r\<in>set (Snapshots p). rec_id r = k
             \<and> r_State r = StateRetired \<and> r_TransitVersion r < b)"
    unfolding resolves_iff dec using p uniq by blast
  finally have "resolves n k \<longleftrightarrow> resolves p k \<and> \<not> (\<exists>r\<in>set (Snapshots p). rec_id r = k
             \<and> r_State r = StateRetired \<and> r_TransitVersion r < b)" .
  moreover from rv(3) have "ActiveKeyID n = ActiveKeyID p" and "n = p \<or> unat (Generation n) = unat (Generation p) + 1
        \<and> (\<exists>c. NewStateCheckpoint p = Inr c \<and> ValidateState c n = Inr ())"
    using successor_accepted [OF rv(1)] by blast+
  ultimately show ?thesis using rv(2) by blast
qed

text \<open>
  Restoring versions only adds decryption keys: every \<open>key_id\<close> that resolved still does, each key
  that is gained belongs to a removed record of a selected version, every selected version gains
  one, and the active key and the position in the hash chain are as for any successor state.
\<close>

lemma RestoreVersions_exact:
  assumes "RestoreVersions p vs = Inr n"
  shows "(resolves p k \<longrightarrow> resolves n k)
    \<and> (resolves n k \<and> \<not> resolves p k \<longrightarrow> (\<exists>r\<in>set (Snapshots p). rec_id r = k
          \<and> r_State r = StateRemoved \<and> r_TransitVersion r \<in> set vs))
    \<and> (\<forall>v\<in>set vs. \<exists>r\<in>set (Snapshots p). r_TransitVersion r = v \<and> r_State r = StateRemoved
          \<and> resolves n (rec_id r))
    \<and> ActiveKeyID n = ActiveKeyID p \<and> unat (Generation n) = unat (Generation p) + 1
    \<and> (\<exists>c. NewStateCheckpoint p = Inr c \<and> ValidateState c n = Inr ())"
proof -
  from assms obtain rs where p: "StateFile_Validate p = Inr ()"
    and rr: "restore_records (rev vs) (Snapshots p) = Inr ([], rs)"
    and new: "NewStateFileFromRecords (ActiveKeyID p) rs (Generation p + 1) (CurrentHash p)
      (IdentityFingerprint p) = Inr n"
    by (auto simp: RestoreVersions_def select_versions_Inr)
  note acc = successor_accepted [OF p new]
  have n: "content_ok n" and sn: "Snapshots n = map norm_rec rs"
    using acc new by (auto simp: StateFile_Validate_Inr NewStateFileFromRecords_Inr)
  have res: "resolves n j \<longleftrightarrow> (\<exists>r\<in>set rs. decryptable_state (r_State r) \<and> rec_id r = j)" for j
    using n by (auto simp: resolves_iff sn)
  have resp: "resolves p j \<longleftrightarrow> (\<exists>r\<in>set (Snapshots p). decryptable_state (r_State r) \<and> rec_id r = j)" for j
    using validated_content [OF p] by (simp add: resolves_iff)
  note bwd = restore_records_members(1) [OF rr] and fwd = restore_records_members(2) [OF rr]
  have keep: "resolves p k \<longrightarrow> resolves n k"
    unfolding res using fwd by (force simp: resolves_iff decryptable_state_def)
  have gain: "resolves n k \<and> \<not> resolves p k \<longrightarrow> (\<exists>r\<in>set (Snapshots p). rec_id r = k
          \<and> r_State r = StateRemoved \<and> r_TransitVersion r \<in> set vs)"
    unfolding res resp using bwd by fastforce
  have each: "\<forall>v\<in>set vs. \<exists>r\<in>set (Snapshots p). r_TransitVersion r = v \<and> r_State r = StateRemoved
          \<and> resolves n (rec_id r)"
  proof
    fix v assume "v \<in> set vs"
    then obtain r where r: "r \<in> set (Snapshots p)" "r_TransitVersion r = v" "r_State r = StateRemoved"
      "r\<lparr>r_State := StateRetired\<rparr> \<in> set rs"
      using restore_records_restates [OF rr] by auto
    moreover have "resolves n (rec_id r)"
      unfolding res using r(4) by (intro bexI [OF _ r(4)]) (simp add: decryptable_state_def)
    ultimately show "\<exists>r\<in>set (Snapshots p). r_TransitVersion r = v \<and> r_State r = StateRemoved
          \<and> resolves n (rec_id r)" by blast
  qed
  from keep gain each acc show ?thesis by blast
qed

text \<open>
  Retirement can be undone: if the versions in a state are distinct, restoring the versions that
  a retirement removed succeeds (short of the last generation number) and gives back the
  records of the original state and its active key.
\<close>

lemma restore_undoes_retire:
  assumes ret: "RetireVersions p b = Inr n" and can: "canonical_state p"
    and dist: "distinct (map r_TransitVersion (Snapshots p))"
    and new: "n \<noteq> p" and gen: "Generation n + 1 \<noteq> 0"
  shows "\<exists>m. RestoreVersions n (retired_versions b p) = Inr m \<and> Snapshots m = Snapshots p
    \<and> ActiveKeyID m = ActiveKeyID p"
proof -
  note rv = RetireVersions_cases [OF ret]
  let ?vs = "retired_versions b p"
  have p: "content_ok p" by (rule validated_content [OF rv(1)])
  then have ok: "rec_ok r" if "r \<in> set (Snapshots p)" for r using that by (auto simp: content_ok_def list_all_iff)
  have n: "StateFile_Validate n = Inr ()" "ActiveKeyID n = ActiveKeyID p" "Snapshots n = map (retire_record b) (Snapshots p)"
    using rv(3) new RetireVersions_canonical [OF ret can] by (auto simp: NewStateFileFromRecords_Inr)
  from rv(2) RetireVersions_active [OF ret can] obtain a where a: "ActiveSnapshot n = Inr a" "b \<le> TransitVersion a"
    by auto
  have "\<forall>v\<in>set ?vs. 0 < v \<and> v < TransitVersion a" and "distinct ?vs"
    using a(2) rec_ok_version ok dist by (fastforce simp: retired_versions_def, simp add: retired_versions_def distinct_map_filter)
  then have sel: "select_versions (TransitVersion a) ?vs [] = Inr (rev ?vs)" by (simp add: select_versions_Inr)
  have res: "restore_records (rev ?vs) (Snapshots n) = Inr ([], Snapshots p)"
    unfolding n(3) by (rule restore_retired [OF dist]) (auto simp: retired_versions_def)
  have "list_all2 restates (Snapshots n) (Snapshots p)"
    unfolding n(3) using ok by (auto simp: list_all2_conv_all_nth retire_record_def restates_def)
  from successor_from_records [OF n(1) gen this] obtain m where
    m: "NewStateFileFromRecords (ActiveKeyID n) (Snapshots p) (Generation n + 1) (CurrentHash n)
      (IdentityFingerprint n) = Inr m" by blast
  have "?vs \<noteq> []"
    using new ret rv(3) by (auto simp: RetireVersions_def retired_versions_def filter_empty_conv list_ex_iff Let_def split: if_splits)
  with n(1) a(1) sel res m have "RestoreVersions n ?vs = Inr m" by (simp add: RestoreVersions_def)
  moreover have "map norm_rec (Snapshots p) = Snapshots p"
    using can by (simp add: canonical_state_def norm_rec_def map_idI)
  ultimately show ?thesis using m n(2) by (auto simp: NewStateFileFromRecords_Inr)
qed

end
