(* ===== verification/Rotation.thy ===== *)
theory Rotation
  imports Transit_Profile Retirement Clock "HOL-Library.List_Lexorder" "HOL-Library.Char_ord" "HOL-Library.Product_Lexorder" "HOL-Library.Multiset"
begin

text \<open>
  Rotation of the Transit key (\<^verbatim>\<open>internal/status/rotation.go\<close> and \<^verbatim>\<open>bootstrap.go\<close>): an observer
  turns successive readings of the key metadata into successive generations of the registry state.
  A new key version is first retained for decryption as a pending record and is promoted to the
  active key only after a configured number of stable observations and an activation delay.

  Version numbers and counters are Go \<open>int\<close>s; the additions here stay below another value of
  that type, so they do not wrap. The capacities passed to \<open>make\<close> are not modelled.
\<close>

section \<open>Data\<close>

record SnapshotScope =
  sc_IdentityFingerprint :: string
  sc_ProviderName :: string
  sc_ClusterID :: string
  sc_OpenBaoInstanceID :: string
  sc_OpenBaoNamespace :: string
  sc_TransitMountID :: string
  sc_TransitKeyLineageID :: string
  sc_AADMode :: string

record RotationPolicy =
  ActivationDelay :: int
  RequireStableObservationCount :: int
  RejectVersionRollback :: bool

record ObservationResult =
  or_State :: StateFile
  or_Changed :: bool
  or_Promoted :: bool
  or_Pending :: bool
  or_EncryptionBlocked :: bool
  or_ClockRegressed :: bool

record Observer =
  scope :: SnapshotScope
  policy :: RotationPolicy

section \<open>Profiles\<close>

text \<open>The loop of \<open>validatedVersionCreationTimes\<close>.\<close>

fun version_times :: "int \<Rightarrow> KeyVersion list \<Rightarrow> (int \<rightharpoonup> go_time) \<Rightarrow> (int \<rightharpoonup> go_time) res" where
  "version_times latest [] versions = Inr versions"
| "version_times latest (candidate # rest) versions =
    (let createdAt = NormalizeTransitVersionCreatedAt (kv_CreatedAt candidate) in
     if kv_Version candidate \<le> 0 then Inl (errw ErrTransitMetadataInvalid ''Transit version must be positive'')
     else if kv_Version candidate > latest
       then Inl (errw ErrTransitMetadataInvalid ''Transit version exceeds latest version'')
     else case createdAt of
       Inl e \<Rightarrow> Inl (Wrap ''Transit version creation time is invalid'' [Sentinel ErrTransitMetadataInvalid, e])
     | Inr t \<Rightarrow>
         if versions (kv_Version candidate) \<noteq> None
         then Inl (errw ErrTransitMetadataInvalid ''duplicate Transit version metadata'')
         else version_times latest rest (versions(kv_Version candidate \<mapsto> t)))"

definition validatedVersionCreationTimes :: "KeyProfile \<Rightarrow> (int \<rightharpoonup> go_time) res" where
  "validatedVersionCreationTimes profile =
     version_times (LatestVersion profile) (VersionCreationTimes profile) Map.empty"

definition versionCreatedAt :: "KeyProfile \<Rightarrow> int \<Rightarrow> go_time res" where
  "versionCreatedAt profile version =
    bindE (validatedVersionCreationTimes profile) (\<lambda>versions.
    case versions version of
      None \<Rightarrow> Inl (errw ErrTransitMetadataInvalid ''Transit version creation time not found'')
    | Some createdAt \<Rightarrow> Inr createdAt)"

definition validateProfile :: "KeyProfile \<Rightarrow> unit res" where
  "validateProfile profile =
    bindE (failIf (LatestVersion profile \<le> 0)
      (errw ErrTransitMetadataInvalid ''latest Transit version must be positive'')) (\<lambda>_.
    bindE (failIf (MinAvailableVersion profile < 0)
      (errw ErrTransitMetadataInvalid ''minimum available version must not be negative'')) (\<lambda>_.
    bindE (failIf (SoftDeleted profile) (errw ErrTransitKeyUnusable ''Transit key is soft-deleted'')) (\<lambda>_.
    bindE (failIf (MinAvailableVersion profile > LatestVersion profile)
      (errw ErrTransitKeyUnusable ''minimum available version exceeds latest version'')) (\<lambda>_.
    let findings = BlockingKeyProfileFindings (AssessKeyProfile profile) in
    bindE (failIf (length findings > 0)
      (errw ErrTransitKeyUnusable
        (''Transit key profile has blocking settings: '' @ FormatKeyProfileFindings findings))) (\<lambda>_.
    bindE (validatedVersionCreationTimes profile) (\<lambda>versions.
    failIf (versions (LatestVersion profile) = None)
      (errw ErrTransitMetadataInvalid ''Transit version creation time not found'')))))))"

section \<open>Snapshots and records\<close>

definition scope_snapshot :: "SnapshotScope \<Rightarrow> int \<Rightarrow> go_time \<Rightarrow> string \<Rightarrow> KeySnapshot res" where
  "scope_snapshot s version createdAt state =
     Normalize \<lparr>ProviderName = sc_ProviderName s, ClusterID = sc_ClusterID s,
       OpenBaoInstanceID = sc_OpenBaoInstanceID s, OpenBaoNamespace = sc_OpenBaoNamespace s,
       TransitMountID = sc_TransitMountID s, TransitKeyLineageID = sc_TransitKeyLineageID s,
       TransitVersion = version, TransitVersionCreatedAt = createdAt,
       KubernetesKeyID = [], State = state, AADMode = sc_AADMode s\<rparr>"

definition snapshotForProfile :: "Observer \<Rightarrow> KeyProfile \<Rightarrow> int \<Rightarrow> string \<Rightarrow> KeySnapshot res" where
  "snapshotForProfile ob profile version state =
    bindE (versionCreatedAt profile version) (\<lambda>createdAt.
    scope_snapshot (scope ob) version createdAt state)"

definition recordFromSnapshot ::
  "KeySnapshot \<Rightarrow> go_time \<Rightarrow> go_time \<Rightarrow> int \<Rightarrow> go_time \<Rightarrow> SnapshotStateRecord" where
  "recordFromSnapshot snapshot observedAt stableAt stableCount promotedAt =
    (let record = SnapshotStateRecordFromSnapshot snapshot;
         record = (if \<not> IsZero observedAt then record\<lparr>r_ObservedAtUnix := Unix observedAt\<rparr> else record);
         record = (if stableCount > 0 then record\<lparr>r_StableObservationCount := stableCount\<rparr> else record);
         record = (if \<not> IsZero stableAt then record\<lparr>r_StableAtUnix := Unix stableAt\<rparr> else record)
     in if \<not> IsZero promotedAt then record\<lparr>r_PromotedAtUnix := Unix promotedAt\<rparr> else record)"

definition recordTime :: "int \<Rightarrow> go_time" where
  "recordTime unix = (if unix = 0 then zero_time else time_Unix unix)"

definition record_priority :: "string \<Rightarrow> SnapshotStateRecord \<Rightarrow> int" where
  "record_priority activeID record =
    (if r_KubernetesKeyID record = activeID then 0
     else if r_State record = StatePending then 1
     else if r_State record = StateRetired then 2
     else if r_State record = StateRejected then 3 else 4)"

text \<open>
  The comparison of \<open>orderedRecords\<close>: by priority, then by descending version, then by identifier
  in byte order. \<open>sort_key\<close> is stable, as \<open>sort.SliceStable\<close> is.
\<close>

definition recordSortKey :: "string \<Rightarrow> SnapshotStateRecord \<Rightarrow> int \<times> int \<times> string" where
  "recordSortKey activeID record =
     (record_priority activeID record, - r_TransitVersion record, r_KubernetesKeyID record)"

definition orderedRecords :: "string \<Rightarrow> SnapshotStateRecord list \<Rightarrow> SnapshotStateRecord list" where
  "orderedRecords activeID records = sort_key (recordSortKey activeID) records"

definition nextStateFromRecords :: "StateFile \<Rightarrow> string \<Rightarrow> SnapshotStateRecord list \<Rightarrow> StateFile res" where
  "nextStateFromRecords previous activeID records =
    bindE (NewStateFileFromRecords activeID (orderedRecords activeID records) (Generation previous + 1)
             (CurrentHash previous) (IdentityFingerprint previous)) (\<lambda>next.
    bindE (ValidateStateProgress previous next) (\<lambda>_. Inr next))"

section \<open>Validation of a state against a profile\<close>

definition validateDecryptableSnapshot :: "KeyProfile \<Rightarrow> KeySnapshot \<Rightarrow> string \<Rightarrow> unit res" where
  "validateDecryptableSnapshot profile snapshot label =
    bindE (failIf (MinAvailableVersion profile > TransitVersion snapshot)
      (errw ErrTransitKeyUnusable (label @ '' Transit version is unavailable''))) (\<lambda>_.
    bindE (failIf (MinDecryptionVersion profile > TransitVersion snapshot)
      (errw ErrTransitKeyUnusable (label @ '' Transit version cannot decrypt''))) (\<lambda>_.
    bindE (versionCreatedAt profile (TransitVersion snapshot)) (\<lambda>createdAt.
    case NormalizeTransitVersionCreatedAt (TransitVersionCreatedAt snapshot) of
      Inl e \<Rightarrow> Inl (Wrap (label @ '' persisted Transit version creation time is invalid'')
                       [Sentinel ErrTransitMetadataInvalid, e])
    | Inr persistedCreatedAt \<Rightarrow>
        failIf (createdAt \<noteq> persistedCreatedAt)
          (errw ErrTransitMetadataInvalid (label @ '' Transit version creation time changed'')))))"

definition validate_decryptable_record :: "KeyProfile \<Rightarrow> SnapshotStateRecord \<Rightarrow> unit res" where
  "validate_decryptable_record profile record =
    bindE (record_Snapshot record) (\<lambda>snapshot.
    if State snapshot \<in> {StateActive, StateRetired, StatePending}
    then validateDecryptableSnapshot profile snapshot (State snapshot)
    else if State snapshot \<in> {StateRejected, StateRemoved} then Inr ()
    else Inl (errw ErrTransitMetadataInvalid ''unsupported snapshot state''))"

definition validateDecryptableState :: "KeyProfile \<Rightarrow> StateFile \<Rightarrow> unit res" where
  "validateDecryptableState profile state = forE (validate_decryptable_record profile) (Snapshots state)"

definition validateProfileForState :: "KeyProfile \<Rightarrow> StateFile \<Rightarrow> unit res" where
  "validateProfileForState profile state =
    bindE (ActiveSnapshot state) (\<lambda>active.
    bindE (failIf (MinEncryptionVersion profile > TransitVersion active)
      (errw ErrTransitKeyUnusable ''active Transit version cannot encrypt'')) (\<lambda>_.
    validateDecryptableState profile state))"

definition validate_record_scope :: "SnapshotScope \<Rightarrow> SnapshotStateRecord \<Rightarrow> unit res" where
  "validate_record_scope s record =
    bindE (record_Snapshot record) (\<lambda>snapshot.
    if ProviderName snapshot \<noteq> sc_ProviderName s
    then Inl (errw Status_ErrConfigInvalid ''persisted state provider name differs from current configuration'')
    else if ClusterID snapshot \<noteq> sc_ClusterID s
    then Inl (errw Status_ErrConfigInvalid ''persisted state cluster ID differs from current configuration'')
    else if OpenBaoInstanceID snapshot \<noteq> sc_OpenBaoInstanceID s
    then Inl (errw Status_ErrConfigInvalid ''persisted state OpenBao instance ID differs from current configuration'')
    else if OpenBaoNamespace snapshot \<noteq> sc_OpenBaoNamespace s
    then Inl (errw Status_ErrConfigInvalid ''persisted state OpenBao namespace differs from current configuration'')
    else if TransitMountID snapshot \<noteq> sc_TransitMountID s
    then Inl (errw Status_ErrConfigInvalid ''persisted state Transit mount ID differs from current configuration'')
    else if TransitKeyLineageID snapshot \<noteq> sc_TransitKeyLineageID s
    then Inl (errw Status_ErrConfigInvalid ''persisted state Transit key lineage ID differs from current configuration'')
    else if AADMode snapshot \<noteq> sc_AADMode s
    then Inl (errw Status_ErrConfigInvalid ''persisted state AAD mode differs from current configuration'')
    else Inr ())"

definition validateStateScope :: "Observer \<Rightarrow> StateFile \<Rightarrow> unit res" where
  "validateStateScope ob state =
    bindE (failIf (IdentityFingerprint state \<noteq> sc_IdentityFingerprint (scope ob))
      (errw Status_ErrConfigInvalid ''persisted configuration identity differs from current configuration'')) (\<lambda>_.
    forE (validate_record_scope (scope ob)) (Snapshots state))"

definition ValidateRecoveryProfile :: "Observer \<Rightarrow> StateFile \<Rightarrow> KeyProfile \<Rightarrow> unit res" where
  "ValidateRecoveryProfile ob state profile =
    bindE (StateFile_Validate state) (\<lambda>_.
    bindE (validateProfile profile) (\<lambda>_.
    bindE (validateStateScope ob state) (\<lambda>_.
    validateDecryptableState profile state)))"

definition ValidateStateProfile :: "Observer \<Rightarrow> StateFile \<Rightarrow> KeyProfile \<Rightarrow> unit res" where
  "ValidateStateProfile ob state profile =
    bindE (ValidateRecoveryProfile ob state profile) (\<lambda>_. validateProfileForState profile state)"

section \<open>Construction and rebuild\<close>

definition NewObserver :: "SnapshotScope \<Rightarrow> RotationPolicy \<Rightarrow> Observer res" where
  "NewObserver sc pol =
    (case ValidateIdentityFingerprint (sc_IdentityFingerprint sc) of
       Inl e \<Rightarrow> Inl (Wrap [] [Sentinel Status_ErrConfigInvalid, e])
     | Inr _ \<Rightarrow>
    bindE (failIf (ActivationDelay pol < 0)
      (errw Status_ErrConfigInvalid ''activation delay must not be negative'')) (\<lambda>_.
    bindE (failIf (RequireStableObservationCount pol \<le> 0)
      (errw Status_ErrConfigInvalid ''stable observation count must be positive'')) (\<lambda>_.
    let sc = (if sc_AADMode sc = [] then sc\<lparr>sc_AADMode := AADModeRequired\<rparr> else sc) in
    bindE (scope_snapshot sc 1 (time_Unix 1) StateActive) (\<lambda>_.
    Inr \<lparr>scope = sc, policy = pol\<rparr>))))"

text \<open>One iteration of the loop of \<open>RebuildState\<close>: the snapshot and record of a version.\<close>

definition rebuild_record ::
  "Observer \<Rightarrow> (int \<rightharpoonup> go_time) \<Rightarrow> int \<Rightarrow> go_time \<Rightarrow> int \<Rightarrow> (KeySnapshot \<times> SnapshotStateRecord) res" where
  "rebuild_record ob versions latest now version =
    (case versions version of
       None \<Rightarrow> Inl (errw ErrTransitMetadataInvalid ''Transit version creation time not found'')
     | Some createdAt \<Rightarrow>
         let state = (if version = latest then StateActive else StateRetired);
             promotedAt = (if version = latest then now else zero_time)
         in bindE (scope_snapshot (scope ob) version createdAt state) (\<lambda>snapshot.
            Inr (snapshot, recordFromSnapshot snapshot now zero_time 0 promotedAt)))"

text \<open>\<open>activeKeyID\<close> is assigned in each iteration whose snapshot is active.\<close>

definition last_active_id :: "KeySnapshot list \<Rightarrow> string" where
  "last_active_id snaps =
     foldl (\<lambda>k snapshot. if State snapshot = StateActive then KubernetesKeyID snapshot else k) [] snaps"

definition RebuildState :: "Observer \<Rightarrow> KeyProfile \<Rightarrow> go_time \<Rightarrow> StateFile res" where
  "RebuildState ob profile now =
    bindE (validateProfile profile) (\<lambda>_.
    bindE (validatedVersionCreationTimes profile) (\<lambda>versions.
    let firstVersion = (if MinAvailableVersion profile = 0 then 1 else MinAvailableVersion profile) in
    bindE (mapE (rebuild_record ob versions (LatestVersion profile) now)
             [firstVersion..LatestVersion profile]) (\<lambda>rebuilt.
    let activeKeyID = last_active_id (map fst rebuilt);
        records = map snd rebuilt in
    bindE (NewStateFileFromRecords activeKeyID (orderedRecords activeKeyID records) 1 []
             (sc_IdentityFingerprint (scope ob))) (\<lambda>state.
    bindE (validateProfileForState profile state) (\<lambda>_. Inr state)))))"

section \<open>Observation\<close>

definition retained_version :: "SnapshotStateRecord \<Rightarrow> int list res" where
  "retained_version record =
    bindE (record_Snapshot record) (\<lambda>snapshot.
    if State snapshot \<in> {StateActive, StateRetired, StatePending} then Inr [TransitVersion snapshot]
    else if State snapshot \<in> {StateRejected, StateRemoved} then Inr []
    else Inl (errw ErrTransitMetadataInvalid ''unsupported snapshot state''))"

definition intermediate_record ::
  "Observer \<Rightarrow> (int \<rightharpoonup> go_time) \<Rightarrow> int list \<Rightarrow> go_time \<Rightarrow> int \<Rightarrow> SnapshotStateRecord list res" where
  "intermediate_record ob versions retained now version =
    (case versions version of
       None \<Rightarrow> Inl (errw ErrTransitMetadataInvalid ''intermediate Transit version creation time not found'')
     | Some createdAt \<Rightarrow>
         if version \<in> set retained then Inr []
         else bindE (scope_snapshot (scope ob) version createdAt StateRetired) (\<lambda>snapshot.
              Inr [recordFromSnapshot snapshot now zero_time 0 zero_time]))"

definition intermediateHistoricalRecords ::
  "Observer \<Rightarrow> StateFile \<Rightarrow> KeyProfile \<Rightarrow> int \<Rightarrow> go_time \<Rightarrow> SnapshotStateRecord list res" where
  "intermediateHistoricalRecords ob state profile activeVersion now =
    (if LatestVersion profile \<le> activeVersion + 1 then Inr []
     else
       bindE (validatedVersionCreationTimes profile) (\<lambda>versions.
       bindE (mapE retained_version (Snapshots state)) (\<lambda>retained.
       bindE (mapE (intermediate_record ob versions (concat retained) now)
                [activeVersion + 1..LatestVersion profile - 1]) (\<lambda>records.
       Inr (concat records)))))"

text \<open>The two loops of \<open>upsertPendingRecord\<close>, over the records, the identifiers seen and the pending record.\<close>

fun upsert_existing ::
  "SnapshotStateRecord \<Rightarrow> SnapshotStateRecord list \<Rightarrow> SnapshotStateRecord list \<Rightarrow> string list
     \<Rightarrow> SnapshotStateRecord \<Rightarrow> (SnapshotStateRecord list \<times> string list \<times> SnapshotStateRecord) res" where
  "upsert_existing candidate [] records seen pending = Inr (records, seen, pending)"
| "upsert_existing candidate (record # rest) records seen pending =
    bindE (record_Snapshot record) (\<lambda>snapshot.
    if State snapshot = StatePending \<and> KubernetesKeyID snapshot = r_KubernetesKeyID candidate
    then upsert_existing candidate rest records seen record
    else
      let record = (if State snapshot = StatePending then record\<lparr>r_State := StateRetired\<rparr> else record)
      in upsert_existing candidate rest (records @ [record]) (KubernetesKeyID snapshot # seen) pending)"

fun upsert_additional ::
  "SnapshotStateRecord list \<Rightarrow> SnapshotStateRecord list \<Rightarrow> string list \<Rightarrow> SnapshotStateRecord list res" where
  "upsert_additional [] records seen = Inr records"
| "upsert_additional (record # rest) records seen =
    bindE (record_Snapshot record) (\<lambda>snapshot.
    if KubernetesKeyID snapshot \<in> set seen then upsert_additional rest records seen
    else upsert_additional rest (records @ [record]) (KubernetesKeyID snapshot # seen))"

definition advance_pending :: "SnapshotStateRecord \<Rightarrow> int \<Rightarrow> go_time \<Rightarrow> bool \<Rightarrow> SnapshotStateRecord" where
  "advance_pending pending stableThreshold now advance =
    (let pending = (if advance \<and> r_StableObservationCount pending < stableThreshold
                    then pending\<lparr>r_StableObservationCount := r_StableObservationCount pending + 1\<rparr> else pending);
         pending = (if r_ObservedAtUnix pending = 0 then pending\<lparr>r_ObservedAtUnix := Unix now\<rparr> else pending)
     in if advance \<and> r_StableObservationCount pending \<ge> stableThreshold \<and> r_StableAtUnix pending = 0
        then pending\<lparr>r_StableAtUnix := max (Unix now) (r_ObservedAtUnix pending)\<rparr> else pending)"

definition upsertPendingRecord ::
  "StateFile \<Rightarrow> SnapshotStateRecord \<Rightarrow> int \<Rightarrow> go_time \<Rightarrow> SnapshotStateRecord list \<Rightarrow> bool
     \<Rightarrow> (SnapshotStateRecord list \<times> SnapshotStateRecord) res" where
  "upsertPendingRecord state candidate stableThreshold now additionalRetired advance =
    bindE (upsert_existing candidate (Snapshots state) [] [] candidate) (\<lambda>(records, seen, pending).
    bindE (upsert_additional additionalRetired records seen) (\<lambda>records.
    let pending = advance_pending pending stableThreshold now advance in
    Inr (orderedRecords (ActiveKeyID state) (records @ [pending]), pending)))"

text \<open>The loop of \<open>promotePendingRecord\<close>: the promoted records and whether the active record was retired.\<close>

fun promote_loop ::
  "StateFile \<Rightarrow> string \<Rightarrow> SnapshotStateRecord list \<Rightarrow> SnapshotStateRecord list \<Rightarrow> bool
     \<Rightarrow> (SnapshotStateRecord list \<times> bool) res" where
  "promote_loop state pendingID [] promoted activeRetired = Inr (promoted, activeRetired)"
| "promote_loop state pendingID (record # rest) promoted activeRetired =
    bindE (record_Snapshot record) (\<lambda>snapshot.
    if KubernetesKeyID snapshot = pendingID then promote_loop state pendingID rest promoted activeRetired
    else if KubernetesKeyID snapshot = ActiveKeyID state then
      bindE (Normalize (snapshot\<lparr>State := StateRetired\<rparr>)) (\<lambda>retired.
      promote_loop state pendingID rest
        (promoted @ [recordFromSnapshot retired (recordTime (r_ObservedAtUnix record)) zero_time 0
                       (recordTime (r_PromotedAtUnix record))]) True)
    else promote_loop state pendingID rest (promoted @ [record]) activeRetired)"

definition promotePendingRecord ::
  "StateFile \<Rightarrow> SnapshotStateRecord list \<Rightarrow> SnapshotStateRecord \<Rightarrow> go_time \<Rightarrow> StateFile res" where
  "promotePendingRecord state records pending now =
    bindE (record_Snapshot pending) (\<lambda>pendingSnapshot.
    bindE (Normalize (pendingSnapshot\<lparr>State := StateActive\<rparr>)) (\<lambda>promotedActive.
    bindE (promote_loop state (r_KubernetesKeyID pending) records [] False) (\<lambda>(promotedRecords, activeRetired).
    bindE (failIf (\<not> activeRetired) (errw ErrStateUnavailable ''active state record missing'')) (\<lambda>_.
    let activeRecord = recordFromSnapshot promotedActive (recordTime (r_ObservedAtUnix pending))
          (recordTime (r_StableAtUnix pending)) (r_StableObservationCount pending)
          (time_Unix (max (Unix now) (max (r_ObservedAtUnix pending) (r_StableAtUnix pending)))) in
    nextStateFromRecords state (KubernetesKeyID promotedActive)
      (orderedRecords (KubernetesKeyID promotedActive) (promotedRecords @ [activeRecord]))))))"

definition pendingObservation ::
  "StateFile \<Rightarrow> SnapshotStateRecord list \<Rightarrow> KeyProfile \<Rightarrow> bool \<Rightarrow> ObservationResult res" where
  "pendingObservation state records profile encryptionBlocked =
    (if Snapshots state = records then
       Inr \<lparr>or_State = state, or_Changed = False, or_Promoted = False, or_Pending = True,
            or_EncryptionBlocked = encryptionBlocked, or_ClockRegressed = False\<rparr>
     else
       bindE (nextStateFromRecords state (ActiveKeyID state) records) (\<lambda>next.
       bindE (validateDecryptableState profile next) (\<lambda>_.
       Inr \<lparr>or_State = next, or_Changed = True, or_Promoted = False, or_Pending = True,
            or_EncryptionBlocked = encryptionBlocked, or_ClockRegressed = False\<rparr>)))"

definition promotionAllowed :: "Observer \<Rightarrow> SnapshotStateRecord \<Rightarrow> bool \<Rightarrow> bool" where
  "promotionAllowed ob record ready \<longleftrightarrow>
     r_StableAtUnix record \<noteq> 0 \<and> r_StableObservationCount record \<ge> RequireStableObservationCount (policy ob)
     \<and> (ActivationDelay (policy ob) = 0 \<or> ready)"

definition observeNewerVersion ::
  "Observer \<Rightarrow> StateFile \<Rightarrow> KeyProfile \<Rightarrow> go_time \<Rightarrow> bool \<Rightarrow> bool \<Rightarrow> ObservationResult res" where
  "observeNewerVersion ob state profile now advance promotionReady =
    bindE (ActiveSnapshot state) (\<lambda>active.
    bindE (intermediateHistoricalRecords ob state profile (TransitVersion active) now) (\<lambda>intermediateRecords.
    bindE (snapshotForProfile ob profile (LatestVersion profile) StatePending) (\<lambda>candidate.
    let blocked = (MinEncryptionVersion profile > TransitVersion active) in
    if \<not> advance \<and> list_ex (\<lambda>record. r_KubernetesKeyID record = KubernetesKeyID candidate
                                  \<and> r_State record = StatePending) (Snapshots state)
    then Inr \<lparr>or_State = state, or_Changed = False, or_Promoted = False, or_Pending = True,
              or_EncryptionBlocked = blocked, or_ClockRegressed = False\<rparr>
    else
      bindE (upsertPendingRecord state (recordFromSnapshot candidate now zero_time 0 zero_time)
               (RequireStableObservationCount (policy ob)) now intermediateRecords advance) (\<lambda>(records, pendingRecord).
      if advance \<and> promotionAllowed ob pendingRecord promotionReady then
        bindE (promotePendingRecord state records pendingRecord now) (\<lambda>promoted.
        bindE (validateProfileForState profile promoted) (\<lambda>_.
        Inr \<lparr>or_State = promoted, or_Changed = True, or_Promoted = True, or_Pending = False,
             or_EncryptionBlocked = False,
             or_ClockRegressed = (Unix now < max (r_ObservedAtUnix pendingRecord) (r_StableAtUnix pendingRecord))\<rparr>))
      else
        bindE (pendingObservation state records profile blocked) (\<lambda>result.
        Inr (result\<lparr>or_ClockRegressed := or_Changed result \<and> r_StableAtUnix pendingRecord > Unix now\<rparr>))))))"

definition observe ::
  "Observer \<Rightarrow> StateFile \<Rightarrow> KeyProfile \<Rightarrow> go_time \<Rightarrow> bool \<Rightarrow> bool \<Rightarrow> ObservationResult res" where
  "observe ob state profile now advance promotionReady =
    bindE (StateFile_Validate state) (\<lambda>_.
    bindE (validateProfile profile) (\<lambda>_.
    bindE (validateStateScope ob state) (\<lambda>_.
    bindE (ActiveSnapshot state) (\<lambda>active.
    bindE (failIf (LatestVersion profile < TransitVersion active \<and> RejectVersionRollback (policy ob))
      (errw ErrVersionRollback ''observed Transit version is behind active version'')) (\<lambda>_.
    bindE (validateDecryptableState profile state) (\<lambda>_.
    if LatestVersion profile \<le> TransitVersion active
    then Inr \<lparr>or_State = state, or_Changed = False, or_Promoted = False, or_Pending = False,
              or_EncryptionBlocked = (MinEncryptionVersion profile > TransitVersion active),
              or_ClockRegressed = False\<rparr>
    else observeNewerVersion ob state profile now advance promotionReady))))))"

definition Observe :: "Observer \<Rightarrow> StateFile \<Rightarrow> KeyProfile \<Rightarrow> go_time \<Rightarrow> bool \<Rightarrow> ObservationResult res" where
  "Observe ob state profile now promotionReady = observe ob state profile now True promotionReady"

definition Discover :: "Observer \<Rightarrow> StateFile \<Rightarrow> KeyProfile \<Rightarrow> go_time \<Rightarrow> ObservationResult res" where
  "Discover ob state profile now = observe ob state profile now False False"

section \<open>Bootstrap\<close>

record AutoBootstrapAssessment =
  ba_Allowed :: bool
  ba_Reason :: string

definition AssessAutoBootstrapState :: "KeyProfile \<Rightarrow> AutoBootstrapAssessment" where
  "AssessAutoBootstrapState profile =
    (if LatestVersion profile \<noteq> 1 then
       \<lparr>ba_Allowed = False, ba_Reason = ''Transit latest_version='' @ Itoa (LatestVersion profile)
          @ '' is not initial version 1''\<rparr>
     else if MinAvailableVersion profile > 1 then
       \<lparr>ba_Allowed = False, ba_Reason = ''Transit min_available_version='' @ Itoa (MinAvailableVersion profile)
          @ '' excludes initial version 1''\<rparr>
     else if MinDecryptionVersion profile > 1 then
       \<lparr>ba_Allowed = False, ba_Reason = ''Transit min_decryption_version='' @ Itoa (MinDecryptionVersion profile)
          @ '' excludes initial version 1''\<rparr>
     else \<lparr>ba_Allowed = True, ba_Reason = ''initial Transit metadata is eligible for auto-bootstrap''\<rparr>)"

definition CanAutoBootstrapState :: "KeyProfile \<Rightarrow> bool" where
  "CanAutoBootstrapState profile = ba_Allowed (AssessAutoBootstrapState profile)"

end
