(* ===== verification/Configuration.thy ===== *)
theory Configuration
  imports Login_Sources Rotation
begin

text \<open>
  The provider configuration and its validation (\<^verbatim>\<open>internal/config\<close>: \<^verbatim>\<open>config.go\<close>, \<^verbatim>\<open>validation.go\<close>, \<^verbatim>\<open>oauth2.go\<close>,
  \<^verbatim>\<open>relationships.go\<close>). A validator returns the problems it appends. Parsing of URLs and IP addresses and the case folding of
  the standard library are arguments, and so is what \<open>os.Lstat\<close> reports.
\<close>

section \<open>The configuration\<close>

record ServerConfig =
  sv_SocketPath :: string
  sv_SocketMode :: string
  sv_SocketGroup :: string
  sv_MetricsAddress :: string
  sv_HealthAddress :: string
  sv_MaxConcurrentStatus :: int
  sv_MaxConcurrentEncrypt :: int
  sv_MaxConcurrentDecrypt :: int

record OpenBaoConfig =
  bo_Address :: string
  bo_Namespace :: string
  bo_CACertFile :: string
  bo_TLSServerName :: string
  bo_Timeout :: int
  bo_InstanceID :: string

text \<open>A slice may be nil, which \<open>reflect.DeepEqual\<close> tells from an empty one.\<close>

record OAuth2Config =
  o2_TokenURL :: string
  o2_ClientID :: string
  o2_ClientSecretFile :: string
  o2_AuthMethod :: string
  o2_Scopes :: "string list option"
  o2_Audience :: string
  o2_Resources :: "string list option"
  o2_CACertFile :: string

definition zero_OAuth2Config :: OAuth2Config where
  "zero_OAuth2Config = \<lparr>o2_TokenURL = [], o2_ClientID = [], o2_ClientSecretFile = [], o2_AuthMethod = [], o2_Scopes = None,
     o2_Audience = [], o2_Resources = None, o2_CACertFile = []\<rparr>"

definition elements :: "'a list option \<Rightarrow> 'a list" where
  "elements s = (case s of None \<Rightarrow> [] | Some xs \<Rightarrow> xs)"

definition OAuth2Config_ClientConfig :: "OAuth2Config \<Rightarrow> int \<Rightarrow> OAuth2_Config" where
  "OAuth2Config_ClientConfig c timeout =
     \<lparr>oc_TokenURL = o2_TokenURL c, oc_ClientID = o2_ClientID c, oc_ClientSecretFile = o2_ClientSecretFile c,
      oc_AuthMethod = o2_AuthMethod c, oc_Scopes = elements (o2_Scopes c), oc_Audience = o2_Audience c,
      oc_Resources = elements (o2_Resources c), oc_CACertFile = o2_CACertFile c, oc_Timeout = timeout\<rparr>"

record JWTAuthConfig =
  jc_Source :: string
  jc_OAuth2 :: OAuth2Config
  jc_MountPath :: string
  jc_Role :: string
  jc_JWTFile :: string
  jc_MinRemainingTTL :: int
  jc_ClockSkewLeeway :: int
  jc_ExpectedIssuer :: string
  jc_ExpectedAudience :: "string list"
  jc_ExpectedSubject :: string

record PKCS11CertAuthConfig =
  p11_CertificateFile :: string
  p11_ModulePath :: string
  p11_TokenLabel :: string
  p11_KeyLabel :: string
  p11_PINFile :: string
  p11_MaxSessions :: int

record SPIFFECertAuthConfig =
  spf_WorkloadAPISocket :: string
  spf_SPIFFEID :: string
  spf_TrustDomain :: string

record CertAuthConfig =
  ca_MountPath :: string
  ca_Name :: string
  ca_MinRemainingTTL :: int
  ca_ClockSkewLeeway :: int
  ca_Source :: string
  ca_PKCS11 :: PKCS11CertAuthConfig
  ca_SPIFFE :: SPIFFECertAuthConfig

record AuthConfig =
  au_Method :: string
  au_LoginBeforeTokenExpiry :: int
  au_TokenRenewalIncrement :: int
  au_LoginTimeout :: int
  au_JWT :: JWTAuthConfig
  au_Cert :: CertAuthConfig

record KeyIDScopeConfig =
  ks_ProviderName :: string
  ks_ClusterID :: string
  ks_TransitMountID :: string
  ks_KeyLineageID :: string

record TransitConfig =
  tx_MountPath :: string
  tx_KeyName :: string
  tx_KeyIDScope :: KeyIDScopeConfig

record BootstrapConfig =
  bs_GraceTimeout :: int
  bs_RetryInterval :: int

record StatusConfig =
  sts_ProbeInterval :: int
  sts_DeepProbeInterval :: int
  sts_StatusMaxStaleness :: int

record RotationConfig =
  rt_Mode :: string
  rt_ActivationDelay :: int
  rt_RequireStableObservationCount :: int
  rt_RejectVersionRollback :: bool

record DebugCorrelationConfig =
  dc_Enabled :: bool
  dc_TTL :: int
  dc_IncidentID :: string

record LoggingConfig =
  lg_Level :: string
  lg_Format :: string
  lg_LogOpenBaoRequestIDs :: bool
  lg_DebugCorrelation :: DebugCorrelationConfig

record Config =
  ConfigVersion :: string
  cf_Server :: ServerConfig
  cf_OpenBao :: OpenBaoConfig
  cf_Auth :: AuthConfig
  cf_Transit :: TransitConfig
  cf_Bootstrap :: BootstrapConfig
  cf_Status :: StatusConfig
  cf_State_Path :: string
  cf_Rotation :: RotationConfig
  cf_Logging :: LoggingConfig

definition AuthMethodJWT :: string where "AuthMethodJWT = ''jwt''"
definition AuthMethodCert :: string where "AuthMethodCert = ''cert''"
definition JWTSourceFile :: string where "JWTSourceFile = ''file''"
definition JWTSourceOAuth2 :: string where "JWTSourceOAuth2 = ''oauth2''"
definition defaultConfigVersion :: string where "defaultConfigVersion = ''v1alpha1''"
definition defaultRotationMode :: string where "defaultRotationMode = ''observed''"

section \<open>Problems\<close>

record ValidationProblem =
  vp_Field :: string
  vp_Message :: string

definition appendProblem :: "string \<Rightarrow> string \<Rightarrow> ValidationProblem list" where
  "appendProblem field message = [\<lparr>vp_Field = field, vp_Message = message\<rparr>]"

definition problem_if :: "bool \<Rightarrow> string \<Rightarrow> string \<Rightarrow> ValidationProblem list" where
  "problem_if c field message = (if c then appendProblem field message else [])"

lemma problem_if_Nil [simp]: "problem_if c f m = [] \<longleftrightarrow> \<not> c"
  by (simp add: problem_if_def appendProblem_def)

lemma appendProblem_Nil [simp]: "appendProblem f m \<noteq> []"
  by (simp add: appendProblem_def)

definition appendRequired :: "string \<Rightarrow> string \<Rightarrow> ValidationProblem list" where
  "appendRequired field value = problem_if (TrimSpace value = []) field ''is required''"

section \<open>Validators of single values\<close>

record go_net =
  gn_url_parse :: "string \<Rightarrow> URL option"
  gn_ParseAddr :: "string \<Rightarrow> string option"
  gn_EqualFold :: "string \<Rightarrow> string \<Rightarrow> bool"

text \<open>\<open>net.SplitHostPort\<close>.\<close>

definition SplitHostPort :: "string \<Rightarrow> (string \<times> string) option" where
  "SplitHostPort hostport =
    (case cut_last (CHR '':'') hostport of
       None \<Rightarrow> None
     | Some (before, port) \<Rightarrow>
        if HasPrefix hostport ''['' then
          (let inside = takeWhile (\<lambda>c. c \<noteq> CHR '']'') (tl hostport); rest = dropWhile (\<lambda>c. c \<noteq> CHR '']'') hostport in
           if rest = [] \<or> tl rest \<noteq> CHR '':'' # port \<or> CHR ''['' \<in> set (tl hostport) \<or> CHR '']'' \<in> set (tl rest) then None
           else Some (inside, port))
        else if CHR '':'' \<in> set before \<or> CHR ''['' \<in> set hostport \<or> CHR '']'' \<in> set hostport then None
        else Some (before, port))"

definition unsafeText :: "string \<Rightarrow> bool" where
  "unsafeText value \<longleftrightarrow> TrimSpace value \<noteq> value \<or> ContainsAny value [CHR 0x00, CHR 0x0D, CHR 0x0A, CHR 0x09]"

definition validateOpenBaoAddress :: "go_net \<Rightarrow> string \<Rightarrow> ValidationProblem list" where
  "validateOpenBaoAddress net value =
    problem_if (case gn_url_parse net value of
        None \<Rightarrow> True
      | Some u \<Rightarrow> u_Scheme u \<noteq> ''https'' \<or> u_Host u = [] \<or> u_User u \<or> u_RawQuery u \<noteq> [] \<or> u_Fragment u \<noteq> [])
      ''openbao.address'' ''must be an https URL with a host and no user info, query, or fragment''"

definition validateAddress :: "string \<Rightarrow> string \<Rightarrow> ValidationProblem list" where
  "validateAddress field value =
    (if TrimSpace value = [] then [] else problem_if (SplitHostPort value = None) field ''must be host:port'')"

definition badSegment :: "string \<Rightarrow> bool" where
  "badSegment segment \<longleftrightarrow> segment = ''.'' \<or> segment = ''..'' \<or> segment = []"

definition validateMountPath :: "string \<Rightarrow> string \<Rightarrow> ValidationProblem list" where
  "validateMountPath field value =
    (if value = [] then []
     else if unsafeText value then appendProblem field ''must not contain control characters or surrounding whitespace''
     else if HasPrefix value ''/'' \<or> Contains value ''//'' then appendProblem field ''must be a relative OpenBao path''
     else problem_if (list_ex badSegment (split_on (CHR ''/'') value)) field
            ''must not contain empty, dot, or dot-dot path segments'')"

definition config_validateOpenBaoNamespace :: "string \<Rightarrow> ValidationProblem list" where
  "config_validateOpenBaoNamespace value =
    (if value = [] then []
     else if unsafeText value then appendProblem ''openbao.namespace'' ''must not contain control characters or surrounding whitespace''
     else if HasPrefix value ''/'' \<or> Contains value ''//'' \<or> Contains value ''%''
     then appendProblem ''openbao.namespace'' ''must be a relative OpenBao namespace path without percent encoding''
     else problem_if (list_ex badSegment (split_on (CHR ''/'') value)) ''openbao.namespace''
            ''must not contain empty, dot, or dot-dot path segments'')"

definition validateIdentifier :: "string \<Rightarrow> string \<Rightarrow> ValidationProblem list" where
  "validateIdentifier field value =
    (if value = [] then []
     else problem_if (unsafeText value) field ''must not contain control characters or surrounding whitespace'')"

text \<open>The regular expression \<open>^[A-Za-z0-9_]([A-Za-z0-9_.-]*[A-Za-z0-9_])?$\<close>.\<close>

definition is_word :: "char \<Rightarrow> bool" where
  "is_word c \<longleftrightarrow> (let b = byte_val c in 65 \<le> b \<and> b \<le> 90 \<or> 97 \<le> b \<and> b \<le> 122 \<or> 48 \<le> b \<and> b \<le> 57 \<or> b = 95)"

definition transitKeyNamePattern :: "string \<Rightarrow> bool" where
  "transitKeyNamePattern s \<longleftrightarrow> s \<noteq> [] \<and> is_word (hd s) \<and> is_word (last s)
     \<and> list_all (\<lambda>c. is_word c \<or> c = CHR ''.'' \<or> c = CHR ''-'') s"

definition validatePathName :: "string \<Rightarrow> string \<Rightarrow> ValidationProblem list" where
  "validatePathName field value =
    (if value = [] then []
     else problem_if (\<not> transitKeyNamePattern value) field
       ''must start and end with an ASCII letter, digit, or underscore; interior characters may also be dots or hyphens'')"

definition validateTransitKeyName :: "string \<Rightarrow> ValidationProblem list" where
  "validateTransitKeyName value = validatePathName ''transit.keyName'' value"

definition validateClaimExpectation :: "string \<Rightarrow> string \<Rightarrow> ValidationProblem list" where
  "validateClaimExpectation field value =
    (if value = [] then []
     else problem_if (unsafeText value) field ''must not contain control characters or surrounding whitespace'')"

definition validateWorkloadAPISocket :: "go_net \<Rightarrow> string \<Rightarrow> ValidationProblem list" where
  "validateWorkloadAPISocket net value =
    (if value = [] then []
     else problem_if (case gn_url_parse net value of
         None \<Rightarrow> True
       | Some u \<Rightarrow> u_Scheme u \<noteq> ''unix'' \<or> u_Host u \<noteq> [] \<or> u_RawQuery u \<noteq> [] \<or> u_Fragment u \<noteq> [] \<or> \<not> IsAbs (u_Path u))
       ''auth.cert.spiffe.workloadAPISocket'' ''must be a unix:// URI with an absolute socket path'')"

definition validateSPIFFEID :: "go_net \<Rightarrow> string \<Rightarrow> string \<Rightarrow> ValidationProblem list" where
  "validateSPIFFEID net value trustDomain =
    (if value = [] then []
     else case gn_url_parse net value of
         None \<Rightarrow> appendProblem ''auth.cert.spiffe.spiffeID'' ''must be a spiffe:// URI with a trust domain and path''
       | Some u \<Rightarrow>
         if u_Scheme u \<noteq> ''spiffe'' \<or> u_Host u = [] \<or> u_RawQuery u \<noteq> [] \<or> u_Fragment u \<noteq> [] \<or> u_User u \<or> u_Path u = []
         then appendProblem ''auth.cert.spiffe.spiffeID'' ''must be a spiffe:// URI with a trust domain and path''
         else problem_if (trustDomain \<noteq> [] \<and> u_Host u \<noteq> trustDomain) ''auth.cert.spiffe.trustDomain''
                ''must match auth.cert.spiffe.spiffeID trust domain'')"

definition validateTrustDomain :: "string \<Rightarrow> ValidationProblem list" where
  "validateTrustDomain value =
    (if value = [] then []
     else problem_if (TrimSpace value \<noteq> value \<or> ContainsAny value ([CHR 0x00, CHR 0x0D, CHR 0x0A, CHR 0x09] @ '' /:%''))
       ''auth.cert.spiffe.trustDomain'' ''must be a DNS-style trust domain without whitespace, slash, colon, or percent encoding'')"

definition validateAbsolutePath :: "string \<Rightarrow> string \<Rightarrow> ValidationProblem list" where
  "validateAbsolutePath field value = (if value = [] then [] else problem_if (\<not> IsAbs value) field ''must be an absolute path'')"

definition validatePositiveDuration :: "string \<Rightarrow> int \<Rightarrow> ValidationProblem list" where
  "validatePositiveDuration field value = problem_if (value \<le> 0) field ''must be positive''"

definition validateNonNegativeDuration :: "string \<Rightarrow> int \<Rightarrow> ValidationProblem list" where
  "validateNonNegativeDuration field value = problem_if (value < 0) field ''must not be negative''"

definition validateConcurrencyLimit :: "string \<Rightarrow> int \<Rightarrow> ValidationProblem list" where
  "validateConcurrencyLimit field value = problem_if (value < 1 \<or> value > 1024) field ''must be between 1 and 1024''"

section \<open>Relationships\<close>

text \<open>\<open>strconv.ParseUint\<close> with base 10 and 16 bits, and \<open>strconv.FormatUint\<close>.\<close>

definition canonicalPort :: "string \<Rightarrow> string" where
  "canonicalPort port = (case parse_digits port of Some n \<Rightarrow> if n \<le> 65535 then digits n else port | None \<Rightarrow> port)"

definition sameFixedListener :: "go_net \<Rightarrow> string \<Rightarrow> string \<Rightarrow> bool" where
  "sameFixedListener net first second =
    (case (SplitHostPort first, SplitHostPort second) of
       (Some (firstHost, p), Some (secondHost, q)) \<Rightarrow>
         (let firstPort = canonicalPort p; secondPort = canonicalPort q in
          if firstPort = ''0'' \<or> firstPort \<noteq> secondPort then False
          else case (gn_ParseAddr net firstHost, gn_ParseAddr net secondHost) of
                 (Some firstIP, Some secondIP) \<Rightarrow> firstIP = secondIP
               | _ \<Rightarrow> gn_EqualFold net firstHost secondHost)
     | _ \<Rightarrow> False)"

definition validateRelationships :: "go_net \<Rightarrow> Config \<Rightarrow> ValidationProblem list" where
  "validateRelationships net cfg =
    (let st = cf_Status cfg; au = cf_Auth cfg in
     problem_if (sts_ProbeInterval st > 0 \<and> sts_StatusMaxStaleness st > 0 \<and> sts_ProbeInterval st \<ge> sts_StatusMaxStaleness st)
       ''status.probeInterval'' ''must be shorter than status.statusMaxStaleness''
     @ problem_if (au_TokenRenewalIncrement au > 0 \<and> au_LoginBeforeTokenExpiry au > 0
         \<and> au_TokenRenewalIncrement au \<le> au_LoginBeforeTokenExpiry au)
       ''auth.tokenRenewalIncrement'' ''must exceed auth.loginBeforeTokenExpiry''
     @ problem_if (sameFixedListener net (sv_HealthAddress (cf_Server cfg)) (sv_MetricsAddress (cf_Server cfg)))
       ''server.metricsAddress'' ''must differ from server.healthAddress for a fixed port'')"

section \<open>Required fields\<close>

text \<open>
  \<open>spiffe\<close> is the constant \<open>unsupportedSPIFFECertAuthAllowed\<close>, which a build tag selects.
\<close>

definition appendCertSourceRequired :: "bool \<Rightarrow> CertAuthConfig \<Rightarrow> ValidationProblem list" where
  "appendCertSourceRequired spiffe cert =
    (if ca_Source cert = CertificateSourcePKCS11 then
       appendRequired ''auth.cert.pkcs11.certificateFile'' (p11_CertificateFile (ca_PKCS11 cert))
       @ appendRequired ''auth.cert.pkcs11.modulePath'' (p11_ModulePath (ca_PKCS11 cert))
       @ appendRequired ''auth.cert.pkcs11.tokenLabel'' (p11_TokenLabel (ca_PKCS11 cert))
       @ appendRequired ''auth.cert.pkcs11.keyLabel'' (p11_KeyLabel (ca_PKCS11 cert))
       @ appendRequired ''auth.cert.pkcs11.pinFile'' (p11_PINFile (ca_PKCS11 cert))
     else if ca_Source cert = CertificateSourceSPIFFE \<and> spiffe then
       appendRequired ''auth.cert.spiffe.workloadAPISocket'' (spf_WorkloadAPISocket (ca_SPIFFE cert))
       @ appendRequired ''auth.cert.spiffe.spiffeID'' (spf_SPIFFEID (ca_SPIFFE cert))
     else [])"

definition appendAuthRequired :: "bool \<Rightarrow> AuthConfig \<Rightarrow> ValidationProblem list" where
  "appendAuthRequired spiffe auth =
    (if au_Method auth = AuthMethodJWT then
       appendRequired ''auth.jwt.mountPath'' (jc_MountPath (au_JWT auth))
       @ appendRequired ''auth.jwt.role'' (jc_Role (au_JWT auth))
       @ appendRequired ''auth.jwt.source'' (jc_Source (au_JWT auth))
       @ (if jc_Source (au_JWT auth) = JWTSourceFile then appendRequired ''auth.jwt.jwtFile'' (jc_JWTFile (au_JWT auth)) else [])
     else if au_Method auth = AuthMethodCert then
       appendRequired ''auth.cert.mountPath'' (ca_MountPath (au_Cert auth))
       @ appendRequired ''auth.cert.source'' (ca_Source (au_Cert auth))
       @ appendCertSourceRequired spiffe (au_Cert auth)
     else [])"

definition validateRequired :: "bool \<Rightarrow> Config \<Rightarrow> ValidationProblem list" where
  "validateRequired spiffe cfg =
     appendRequired ''server.socketPath'' (sv_SocketPath (cf_Server cfg))
     @ appendRequired ''server.socketMode'' (sv_SocketMode (cf_Server cfg))
     @ appendRequired ''server.socketGroup'' (sv_SocketGroup (cf_Server cfg))
     @ appendRequired ''openbao.address'' (bo_Address (cf_OpenBao cfg))
     @ appendRequired ''openbao.caCertFile'' (bo_CACertFile (cf_OpenBao cfg))
     @ appendRequired ''openbao.tlsServerName'' (bo_TLSServerName (cf_OpenBao cfg))
     @ appendRequired ''openbao.instanceId'' (bo_InstanceID (cf_OpenBao cfg))
     @ appendRequired ''auth.method'' (au_Method (cf_Auth cfg))
     @ appendAuthRequired spiffe (cf_Auth cfg)
     @ appendRequired ''transit.mountPath'' (tx_MountPath (cf_Transit cfg))
     @ appendRequired ''transit.keyName'' (tx_KeyName (cf_Transit cfg))
     @ appendRequired ''transit.keyIdScope.providerName'' (ks_ProviderName (tx_KeyIDScope (cf_Transit cfg)))
     @ appendRequired ''transit.keyIdScope.clusterId'' (ks_ClusterID (tx_KeyIDScope (cf_Transit cfg)))
     @ appendRequired ''transit.keyIdScope.transitMountId'' (ks_TransitMountID (tx_KeyIDScope (cf_Transit cfg)))
     @ appendRequired ''transit.keyIdScope.keyLineageId'' (ks_KeyLineageID (tx_KeyIDScope (cf_Transit cfg)))"

section \<open>Values\<close>

text \<open>The message of a rejected OAuth setting is the text of the error, which \<open>text_of\<close> gives.\<close>

definition validateJWTSource :: "go_net \<Rightarrow> (go_error \<Rightarrow> string) \<Rightarrow> JWTAuthConfig \<Rightarrow> ValidationProblem list" where
  "validateJWTSource net text_of jwt =
    (if jc_Source jwt = JWTSourceFile then
       validateAbsolutePath ''auth.jwt.jwtFile'' (jc_JWTFile jwt)
       @ problem_if (jc_OAuth2 jwt \<noteq> zero_OAuth2Config) ''auth.jwt.oauth2'' ''must be omitted for source file''
     else if jc_Source jwt = JWTSourceOAuth2 then
       problem_if (jc_JWTFile jwt \<noteq> []) ''auth.jwt.jwtFile'' ''must be omitted for source oauth2''
       @ (case OAuth2_ValidateConfig (gn_url_parse net) (OAuth2Config_ClientConfig (jc_OAuth2 jwt) 1000000000) of
            Inl err \<Rightarrow> appendProblem ''auth.jwt.oauth2'' (text_of err) | Inr _ \<Rightarrow> [])
       @ appendRequired ''auth.jwt.expectedIssuer'' (jc_ExpectedIssuer jwt)
       @ problem_if (jc_ExpectedAudience jwt = []) ''auth.jwt.expectedAudience'' ''must contain at least one audience for source oauth2''
     else appendProblem ''auth.jwt.source'' ''must be file or oauth2'')"

definition expected_audience_problems :: "string \<Rightarrow> ValidationProblem list" where
  "expected_audience_problems audience =
    (if audience = [] then appendProblem ''auth.jwt.expectedAudience'' ''must not contain empty values''
     else validateClaimExpectation ''auth.jwt.expectedAudience'' audience)"

definition validateJWTAuthValues :: "go_net \<Rightarrow> (go_error \<Rightarrow> string) \<Rightarrow> JWTAuthConfig \<Rightarrow> ValidationProblem list" where
  "validateJWTAuthValues net text_of jwt =
     validateJWTSource net text_of jwt
     @ validateMountPath ''auth.jwt.mountPath'' (jc_MountPath jwt)
     @ validatePathName ''auth.jwt.role'' (jc_Role jwt)
     @ validateClaimExpectation ''auth.jwt.expectedIssuer'' (jc_ExpectedIssuer jwt)
     @ validateClaimExpectation ''auth.jwt.expectedSubject'' (jc_ExpectedSubject jwt)
     @ concat (map expected_audience_problems (jc_ExpectedAudience jwt))
     @ validatePositiveDuration ''auth.jwt.minRemainingTtl'' (jc_MinRemainingTTL jwt)
     @ validateNonNegativeDuration ''auth.jwt.clockSkewLeeway'' (jc_ClockSkewLeeway jwt)"

definition validatePKCS11AuthValues :: "PKCS11CertAuthConfig \<Rightarrow> ValidationProblem list" where
  "validatePKCS11AuthValues pkcs11 =
     validateAbsolutePath ''auth.cert.pkcs11.certificateFile'' (p11_CertificateFile pkcs11)
     @ validateAbsolutePath ''auth.cert.pkcs11.modulePath'' (p11_ModulePath pkcs11)
     @ validateIdentifier ''auth.cert.pkcs11.tokenLabel'' (p11_TokenLabel pkcs11)
     @ validateIdentifier ''auth.cert.pkcs11.keyLabel'' (p11_KeyLabel pkcs11)
     @ validateAbsolutePath ''auth.cert.pkcs11.pinFile'' (p11_PINFile pkcs11)
     @ problem_if (p11_MaxSessions pkcs11 < 2) ''auth.cert.pkcs11.maxSessions'' ''must be at least 2''"

definition validateSPIFFEAuthValues :: "go_net \<Rightarrow> SPIFFECertAuthConfig \<Rightarrow> ValidationProblem list" where
  "validateSPIFFEAuthValues net spiffe =
     validateWorkloadAPISocket net (spf_WorkloadAPISocket spiffe)
     @ validateSPIFFEID net (spf_SPIFFEID spiffe) (spf_TrustDomain spiffe)
     @ validateTrustDomain (spf_TrustDomain spiffe)"

definition validateCertAuthValues :: "go_net \<Rightarrow> bool \<Rightarrow> CertAuthConfig \<Rightarrow> ValidationProblem list" where
  "validateCertAuthValues net spiffe cert =
     validateMountPath ''auth.cert.mountPath'' (ca_MountPath cert)
     @ validateIdentifier ''auth.cert.name'' (ca_Name cert)
     @ validatePositiveDuration ''auth.cert.minRemainingTtl'' (ca_MinRemainingTTL cert)
     @ validateNonNegativeDuration ''auth.cert.clockSkewLeeway'' (ca_ClockSkewLeeway cert)
     @ (if ca_Source cert = CertificateSourcePKCS11 then validatePKCS11AuthValues (ca_PKCS11 cert)
        else if ca_Source cert = CertificateSourceSPIFFE then
          (if \<not> spiffe then appendProblem ''auth.cert.source''
             ''spiffe is unavailable until the supported OpenBao version can derive certificate identity aliases from URI SANs''
           else validateSPIFFEAuthValues net (ca_SPIFFE cert))
        else if ca_Source cert \<noteq> [] then
          appendProblem ''auth.cert.source'' (if spiffe then ''must be one of pkcs11 or spiffe'' else ''must be pkcs11'')
        else [])"

definition validateAuthValues :: "go_net \<Rightarrow> bool \<Rightarrow> (go_error \<Rightarrow> string) \<Rightarrow> AuthConfig \<Rightarrow> ValidationProblem list" where
  "validateAuthValues net spiffe text_of auth =
    (if au_Method auth = AuthMethodJWT then validateJWTAuthValues net text_of (au_JWT auth)
     else if au_Method auth = AuthMethodCert then validateCertAuthValues net spiffe (au_Cert auth)
     else problem_if (au_Method auth \<noteq> []) ''auth.method'' ''must be one of jwt or cert'')"

definition maxDebugCorrelationTTL :: int where "maxDebugCorrelationTTL = 3600000000000"
definition maxIncidentIDLength :: nat where "maxIncidentIDLength = 64"

definition validateDebugCorrelation :: "LoggingConfig \<Rightarrow> ValidationProblem list" where
  "validateDebugCorrelation logging =
    (let correlation = lg_DebugCorrelation logging in
     if \<not> dc_Enabled correlation then []
     else problem_if (lg_Level logging \<noteq> ''debug'') ''logging.debugCorrelation.enabled'' ''requires logging.level debug''
       @ problem_if (\<not> lg_LogOpenBaoRequestIDs logging) ''logging.logOpenBaoRequestIDs'' ''must be true when debug correlation is enabled''
       @ validatePositiveDuration ''logging.debugCorrelation.ttl'' (dc_TTL correlation)
       @ problem_if (dc_TTL correlation > maxDebugCorrelationTTL) ''logging.debugCorrelation.ttl'' ''must not exceed 1h''
       @ (if dc_IncidentID correlation = [] then
            appendProblem ''logging.debugCorrelation.incidentId'' ''is required when debug correlation is enabled''
          else problem_if (length (dc_IncidentID correlation) > maxIncidentIDLength)
                 ''logging.debugCorrelation.incidentId'' ''must be at most 64 characters''
               @ validateIdentifier ''logging.debugCorrelation.incidentId'' (dc_IncidentID correlation)))"

definition validateValues :: "go_net \<Rightarrow> bool \<Rightarrow> (go_error \<Rightarrow> string) \<Rightarrow> Config \<Rightarrow> ValidationProblem list" where
  "validateValues net spiffe text_of cfg =
    (let sv = cf_Server cfg; bo = cf_OpenBao cfg; au = cf_Auth cfg; tx = cf_Transit cfg; ks = tx_KeyIDScope tx; lg = cf_Logging cfg in
     problem_if (ConfigVersion cfg \<noteq> defaultConfigVersion) ''configVersion'' ''must be v1alpha1''
     @ validateOpenBaoAddress net (bo_Address bo)
     @ config_validateOpenBaoNamespace (bo_Namespace bo)
     @ validateAddress ''server.metricsAddress'' (sv_MetricsAddress sv)
     @ validateAddress ''server.healthAddress'' (sv_HealthAddress sv)
     @ validateConcurrencyLimit ''server.maxConcurrentStatus'' (sv_MaxConcurrentStatus sv)
     @ validateConcurrencyLimit ''server.maxConcurrentEncrypt'' (sv_MaxConcurrentEncrypt sv)
     @ validateConcurrencyLimit ''server.maxConcurrentDecrypt'' (sv_MaxConcurrentDecrypt sv)
     @ validateAuthValues net spiffe text_of au
     @ validateMountPath ''transit.mountPath'' (tx_MountPath tx)
     @ validateTransitKeyName (tx_KeyName tx)
     @ validateIdentifier ''transit.keyIdScope.providerName'' (ks_ProviderName ks)
     @ validateIdentifier ''transit.keyIdScope.clusterId'' (ks_ClusterID ks)
     @ validateIdentifier ''transit.keyIdScope.transitMountId'' (ks_TransitMountID ks)
     @ validateIdentifier ''transit.keyIdScope.keyLineageId'' (ks_KeyLineageID ks)
     @ validateIdentifier ''openbao.instanceId'' (bo_InstanceID bo)
     @ problem_if (rt_Mode (cf_Rotation cfg) \<noteq> defaultRotationMode) ''rotation.mode'' ''only observed is supported''
     @ validatePositiveDuration ''openbao.timeout'' (bo_Timeout bo)
     @ validatePositiveDuration ''auth.loginBeforeTokenExpiry'' (au_LoginBeforeTokenExpiry au)
     @ validatePositiveDuration ''auth.tokenRenewalIncrement'' (au_TokenRenewalIncrement au)
     @ validateNonNegativeDuration ''auth.loginTimeout'' (au_LoginTimeout au)
     @ validateNonNegativeDuration ''bootstrap.graceTimeout'' (bs_GraceTimeout (cf_Bootstrap cfg))
     @ validatePositiveDuration ''bootstrap.retryInterval'' (bs_RetryInterval (cf_Bootstrap cfg))
     @ validatePositiveDuration ''status.probeInterval'' (sts_ProbeInterval (cf_Status cfg))
     @ validatePositiveDuration ''status.deepProbeInterval'' (sts_DeepProbeInterval (cf_Status cfg))
     @ validatePositiveDuration ''status.statusMaxStaleness'' (sts_StatusMaxStaleness (cf_Status cfg))
     @ validateAbsolutePath ''state.path'' (cf_State_Path cfg)
     @ validatePositiveDuration ''rotation.activationDelay'' (rt_ActivationDelay (cf_Rotation cfg))
     @ problem_if (rt_RequireStableObservationCount (cf_Rotation cfg) \<le> 0) ''rotation.requireStableObservationCount'' ''must be positive''
     @ problem_if (lg_Level lg \<notin> {''debug'', ''info'', ''warn'', ''error''}) ''logging.level'' ''must be one of debug, info, warn, or error''
     @ problem_if (lg_Format lg \<noteq> ''json'' \<and> lg_Format lg \<noteq> ''text'') ''logging.format'' ''must be json or text''
     @ validateDebugCorrelation lg
     @ validateRelationships net cfg)"

section \<open>Socket and files\<close>

text \<open>\<open>strconv.ParseUint\<close> with base 8 and 32 bits; the sign bits of \<open>os.FileMode\<close> lie above the permission bits.\<close>

definition parse_octal :: "string \<Rightarrow> nat option" where
  "parse_octal s =
    (if s = [] \<or> \<not> list_all (\<lambda>c. is_digit c \<and> digit_val c < 8) s then None
     else let n = foldl (\<lambda>n c. 8 * n + digit_val c) 0 s in if n < 2 ^ 32 then Some n else None)"

definition ParseSocketMode :: "string \<Rightarrow> nat res" where
  "ParseSocketMode value =
    (case parse_octal value of
       None \<Rightarrow> Inl (Msg ''parse socket mode'')
     | Some mode \<Rightarrow> if mode > 511 then Inl (Msg ''socket mode must be a permission mode'') else Inr mode)"

definition socketDisallowedMode :: nat where "socketDisallowedMode = 79"

record ValidationOptions =
  vo_ConfigFilePath :: string
  vo_CheckFilesystem :: bool
  vo_AllowedSocketParentDirs :: "string list"

definition socketParentDirs :: "ValidationOptions \<Rightarrow> string list" where
  "socketParentDirs opts =
    (if vo_AllowedSocketParentDirs opts \<noteq> [] then vo_AllowedSocketParentDirs opts else [''/run/openbao-kms'', ''/var/run/openbao-kms''])"

definition pathWithinAllowedDirs :: "string \<Rightarrow> string list \<Rightarrow> bool" where
  "pathWithinAllowedDirs p allowed =
    (let cleanPath = path_Clean p in
     list_ex (\<lambda>root. let cleanRoot = path_Clean root in cleanPath = cleanRoot \<or> HasPrefix cleanPath (cleanRoot @ ''/'')) allowed)"

text \<open>\<open>filepath.Dir\<close>: everything up to the last separator, cleaned.\<close>

definition filepath_Dir :: "string \<Rightarrow> string" where
  "filepath_Dir p = path_Clean (rev (dropWhile (\<lambda>c. c \<noteq> CHR ''/'') (rev p)))"

definition validateSocketPolicy :: "(go_error \<Rightarrow> string) \<Rightarrow> Config \<Rightarrow> ValidationOptions \<Rightarrow> ValidationProblem list" where
  "validateSocketPolicy text_of cfg opts =
    (let sv = cf_Server cfg in
     problem_if (\<not> IsAbs (sv_SocketPath sv)) ''server.socketPath'' ''must be an absolute Unix socket path''
     @ (case ParseSocketMode (sv_SocketMode sv) of
          Inl err \<Rightarrow> appendProblem ''server.socketMode'' (text_of err)
        | Inr mode \<Rightarrow> problem_if (mode AND socketDisallowedMode \<noteq> 0) ''server.socketMode'' ''must not allow world access or execute bits'')
     @ problem_if (\<not> pathWithinAllowedDirs (path_Clean (filepath_Dir (sv_SocketPath sv))) (socketParentDirs opts))
         ''server.socketPath'' ''must be under an approved runtime socket directory'')"

text \<open>What \<open>os.Lstat\<close> reports: an error, which may say that nothing exists at the path, or the kind and permissions.\<close>

datatype lstat_kind = RegularFile | Directory | Symlink | Socket | OtherKind

datatype lstat_result = NotExist | LstatError | Lstat lstat_kind nat

definition validateRegularFile :: "(string \<Rightarrow> lstat_result) \<Rightarrow> string \<Rightarrow> string \<Rightarrow> nat \<Rightarrow> string \<Rightarrow> ValidationProblem list" where
  "validateRegularFile lstat field p disallowed octal =
    (if p = [] then []
     else if \<not> IsAbs p then appendProblem field ''must be an absolute path''
     else case lstat p of
            Lstat kind perm \<Rightarrow>
              if kind = Symlink then appendProblem field ''must not be a symlink''
              else if kind \<noteq> RegularFile then appendProblem field ''must be a regular file''
              else problem_if (perm AND disallowed \<noteq> 0) field (''file permissions unsafe: mode must not include '' @ octal)
          | _ \<Rightarrow> appendProblem field ''must exist and be readable'')"

definition validateSocketParent :: "(string \<Rightarrow> lstat_result) \<Rightarrow> string \<Rightarrow> ValidationProblem list" where
  "validateSocketParent lstat socketPath =
    (case lstat (filepath_Dir socketPath) of
       Lstat kind perm \<Rightarrow>
         if kind = Symlink then appendProblem ''server.socketPath'' ''parent directory must not be a symlink''
         else if kind \<noteq> Directory then appendProblem ''server.socketPath'' ''parent path must be a directory''
         else problem_if (perm AND 18 \<noteq> 0) ''server.socketPath'' ''parent directory must not be group-writable or world-writable''
     | _ \<Rightarrow> appendProblem ''server.socketPath'' ''parent directory must exist'')"

definition validateSocketTarget :: "(string \<Rightarrow> lstat_result) \<Rightarrow> string \<Rightarrow> ValidationProblem list" where
  "validateSocketTarget lstat socketPath =
    (case lstat socketPath of
       NotExist \<Rightarrow> []
     | LstatError \<Rightarrow> appendProblem ''server.socketPath'' ''cannot inspect socket path''
     | Lstat kind _ \<Rightarrow>
         if kind = Symlink then appendProblem ''server.socketPath'' ''socket path must not be a symlink''
         else problem_if (kind \<noteq> Socket) ''server.socketPath'' ''existing path must be a Unix socket'')"

definition validateFilesystem :: "(string \<Rightarrow> lstat_result) \<Rightarrow> Config \<Rightarrow> ValidationOptions \<Rightarrow> ValidationProblem list" where
  "validateFilesystem lstat cfg opts =
    (let au = cf_Auth cfg; jwt = au_JWT au; cert = au_Cert au in
     (if vo_ConfigFilePath opts \<noteq> [] then validateRegularFile lstat ''config'' (vo_ConfigFilePath opts) 31 ''0037'' else [])
     @ validateRegularFile lstat ''openbao.caCertFile'' (bo_CACertFile (cf_OpenBao cfg)) 18 ''0022''
     @ (if au_Method au = AuthMethodJWT then
          (if jc_Source jwt = JWTSourceFile then validateRegularFile lstat ''auth.jwt.jwtFile'' (jc_JWTFile jwt) 31 ''0037''
           else if jc_Source jwt = JWTSourceOAuth2 then
             validateRegularFile lstat ''auth.jwt.oauth2.clientSecretFile'' (o2_ClientSecretFile (jc_OAuth2 jwt)) 95 ''0137''
             @ (if o2_CACertFile (jc_OAuth2 jwt) \<noteq> []
                then validateRegularFile lstat ''auth.jwt.oauth2.caCertFile'' (o2_CACertFile (jc_OAuth2 jwt)) 18 ''0022'' else [])
           else [])
        else if au_Method au = AuthMethodCert \<and> ca_Source cert = CertificateSourcePKCS11 then
          validateRegularFile lstat ''auth.cert.pkcs11.certificateFile'' (p11_CertificateFile (ca_PKCS11 cert)) 31 ''0037''
          @ validateRegularFile lstat ''auth.cert.pkcs11.pinFile'' (p11_PINFile (ca_PKCS11 cert)) 31 ''0037''
        else [])
     @ validateSocketParent lstat (sv_SocketPath (cf_Server cfg))
     @ validateSocketTarget lstat (sv_SocketPath (cf_Server cfg)))"

text \<open>The problems \<open>Validate\<close> collects; it returns nil exactly when there are none.\<close>

definition Validate ::
  "go_net \<Rightarrow> bool \<Rightarrow> (go_error \<Rightarrow> string) \<Rightarrow> (string \<Rightarrow> lstat_result) \<Rightarrow> Config \<Rightarrow> ValidationOptions \<Rightarrow> ValidationProblem list" where
  "Validate net spiffe text_of lstat cfg opts =
     validateRequired spiffe cfg @ validateValues net spiffe text_of cfg @ validateSocketPolicy text_of cfg opts
     @ (if vo_CheckFilesystem opts then validateFilesystem lstat cfg opts else [])"

section \<open>The identity of a configuration\<close>

definition configFingerprintDomain :: string where "configFingerprintDomain = ''openbao-kubernetes-kms/config-identity/v1''"

definition configIdentityMaterial :: "Config \<Rightarrow> (string \<times> string) list" where
  "configIdentityMaterial cfg =
    (let tx = cf_Transit cfg; ks = tx_KeyIDScope tx; bo = cf_OpenBao cfg in
     [(''domain'', json_string configFingerprintDomain),
      (''provider_name'', json_string (ks_ProviderName ks)),
      (''cluster_id'', json_string (ks_ClusterID ks)),
      (''openbao_instance_id'', json_string (bo_InstanceID bo))]
     @ omitempty (bo_Namespace bo = []) ''openbao_namespace'' (json_string (bo_Namespace bo))
     @ [(''transit_mount_id'', json_string (ks_TransitMountID ks)),
        (''key_lineage_id'', json_string (ks_KeyLineageID ks)),
        (''transit_mount_path'', json_string (tx_MountPath tx)),
        (''transit_key_name'', json_string (tx_KeyName tx))])"

definition fingerprint_required :: "Config \<Rightarrow> ValidationProblem list" where
  "fingerprint_required cfg =
    (let tx = cf_Transit cfg; ks = tx_KeyIDScope tx in
     appendRequired ''transit.keyIdScope.providerName'' (ks_ProviderName ks)
     @ appendRequired ''transit.keyIdScope.clusterId'' (ks_ClusterID ks)
     @ appendRequired ''openbao.instanceId'' (bo_InstanceID (cf_OpenBao cfg))
     @ appendRequired ''transit.keyIdScope.transitMountId'' (ks_TransitMountID ks)
     @ appendRequired ''transit.keyIdScope.keyLineageId'' (ks_KeyLineageID ks)
     @ appendRequired ''transit.mountPath'' (tx_MountPath tx)
     @ appendRequired ''transit.keyName'' (tx_KeyName tx))"

definition IdentityFingerprint_of :: "Config \<Rightarrow> ValidationProblem list + string" where
  "IdentityFingerprint_of cfg =
    (if fingerprint_required cfg \<noteq> [] then Inl (fingerprint_required cfg)
     else Inr (''cfg1.'' @ RawURL_EncodeToString (Sum256 (json_object (configIdentityMaterial cfg)))))"

section \<open>What validation establishes\<close>

lemma Validate_Nil:
  "Validate net spiffe text_of lstat cfg opts = [] \<longleftrightarrow>
     validateRequired spiffe cfg = [] \<and> validateValues net spiffe text_of cfg = [] \<and> validateSocketPolicy text_of cfg opts = []
     \<and> (vo_CheckFilesystem opts \<longrightarrow> validateFilesystem lstat cfg opts = [])"
  by (simp add: Validate_def)

lemma appendRequired_Nil [simp]: "appendRequired f v = [] \<longleftrightarrow> TrimSpace v \<noteq> []"
  by (simp add: appendRequired_def)

lemma unsafeText_iff: "unsafeText v \<longleftrightarrow> containsUnsafeIdentifierChars v"
  by (simp add: unsafeText_def containsUnsafeIdentifierChars_def)

lemma validateIdentifier_Nil [simp]: "validateIdentifier f v = [] \<longleftrightarrow> v = [] \<or> \<not> unsafeText v"
  by (simp add: validateIdentifier_def)

lemma validateClaimExpectation_Nil [simp]: "validateClaimExpectation f v = [] \<longleftrightarrow> v = [] \<or> \<not> unsafeText v"
  by (simp add: validateClaimExpectation_def)

lemma validatePositiveDuration_Nil [simp]: "validatePositiveDuration f v = [] \<longleftrightarrow> 0 < v"
  by (auto simp: validatePositiveDuration_def)

lemma validateNonNegativeDuration_Nil [simp]: "validateNonNegativeDuration f v = [] \<longleftrightarrow> 0 \<le> v"
  by (auto simp: validateNonNegativeDuration_def)

lemma validateConcurrencyLimit_Nil [simp]: "validateConcurrencyLimit f v = [] \<longleftrightarrow> 1 \<le> v \<and> v \<le> 1024"
  by (auto simp: validateConcurrencyLimit_def)

lemma expected_audience_problems_Nil [simp]: "expected_audience_problems a = [] \<longleftrightarrow> a \<noteq> [] \<and> \<not> unsafeText a"
  by (simp add: expected_audience_problems_def)

lemma JWT_values:
  assumes "validateJWTAuthValues net text_of j = []"
  shows "validateJWTSource net text_of j = []" "validateMountPath ''auth.jwt.mountPath'' (jc_MountPath j) = []"
    "validatePathName ''auth.jwt.role'' (jc_Role j) = []" "0 < jc_MinRemainingTTL j" "0 \<le> jc_ClockSkewLeeway j"
    "a \<in> set (jc_ExpectedAudience j) \<Longrightarrow> a \<noteq> [] \<and> \<not> unsafeText a"
  using assms by (simp_all add: validateJWTAuthValues_def)

lemma Join_split_on: "Join (split_on c s) [c] = s"
proof (induction s)
  case (Cons x xs)
  then show ?case by (cases "split_on c xs"; cases "tl (split_on c xs)") auto
qed simp

text \<open>A path whose segments are all proper is left as it is by \<open>path.Clean\<close>.\<close>

lemma clean_proper: "\<forall>p \<in> set ps. \<not> badSegment p \<Longrightarrow> foldl (clean_step rooted) acc ps = acc @ ps"
  by (induction ps arbitrary: acc) (auto simp: clean_step_def badSegment_def)

lemma validateMountPath_Nil:
  assumes "validateMountPath f v = []" and "v \<noteq> []"
  shows "path_Clean v = v" "\<not> HasPrefix v ''/''" "TrimSpace v = v" "\<not> containsUnsafeIdentifierChars v" "v \<noteq> ''.''"
proof -
  have v: "\<not> unsafeText v" "\<not> HasPrefix v ''/''" "\<forall>p \<in> set (split_on (CHR ''/'') v). \<not> badSegment p"
    using assms by (auto simp: validateMountPath_def list_ex_iff split: if_splits)
  then show "path_Clean v = v" using assms(2) by (simp add: path_Clean_def clean_proper Join_split_on)
  show "v \<noteq> ''.''"
  proof
    assume dot: "v = ''.''"
    show False using v(3) unfolding dot by (simp add: badSegment_def)
  qed
  show "\<not> HasPrefix v ''/''" "TrimSpace v = v" "\<not> containsUnsafeIdentifierChars v"
    using v by (simp_all add: unsafeText_iff) (simp add: containsUnsafeIdentifierChars_def)
qed

lemma is_word_byte: "is_word c \<Longrightarrow> 32 < byte_val c \<and> byte_val c < 127"
  by (auto simp: is_word_def Let_def)

lemma validatePathName_Nil:
  assumes "validatePathName f v = []" and "v \<noteq> []"
  shows "TrimSpace v = v" "\<not> containsUnsafeIdentifierChars v"
proof -
  have v: "is_word (hd v)" "is_word (last v)" "\<forall>c \<in> set v. is_word c \<or> c = CHR ''.'' \<or> c = CHR ''-''"
    using assms by (simp_all add: validatePathName_def transitKeyNamePattern_def list_all_iff)
  show t: "TrimSpace v = v" using assms(2) is_word_byte [OF v(1)] is_word_byte [OF v(2)] by (intro TrimSpace_ascii) simp_all
  have "32 < byte_val c" if "c \<in> set v" for c
  proof (cases "is_word c")
    case True
    then show ?thesis using is_word_byte by blast
  next
    case False
    with v(3) that have "c = CHR ''.'' \<or> c = CHR ''-''" by blast
    then show ?thesis by (elim disjE) simp_all
  qed
  then have "c \<notin> set [CHR 0x00, CHR 0x0D, CHR 0x0A, CHR 0x09]" if "c \<in> set v" for c
    using that by fastforce
  with t show "\<not> containsUnsafeIdentifierChars v"
    by (auto simp: containsUnsafeIdentifierChars_def ContainsAny_def list_ex_iff)
qed

lemma namespace_agrees: "config_validateOpenBaoNamespace v = [] \<longleftrightarrow> validateOpenBaoNamespace v = Inr ()"
proof -
  have "forE (\<lambda>segment. failIf (segment = ''.'' \<or> segment = ''..'' \<or> segment = []) e) ps = Inr () \<longleftrightarrow> \<not> list_ex badSegment ps" for ps and e :: go_error
    by (induction ps) (auto simp: failIf_def badSegment_def)
  then show ?thesis
    by (simp add: config_validateOpenBaoNamespace_def validateOpenBaoNamespace_def unsafeText_def control_chars_def)
qed

end
