(* ===== verification/Auth_Manager.thy ===== *)
theory Auth_Manager
  imports Login_Sources
begin

text \<open>
  The token manager (\<^verbatim>\<open>internal/auth/manager.go\<close>, \<^verbatim>\<open>recovery.go\<close>): it keeps one OpenBao token in memory, refreshes it by
  renewal or login in a background goroutine that all callers share, and limits logins after failures and after rejected
  tokens. Every section that holds the mutex is a function on the state; the goroutines of refreshes are part of the state.
  Readings of the clock, the answers of the login source and of the auth client, the jitter of a retry delay and the errors
  of contexts are arguments.
\<close>

section \<open>Data\<close>

record currentToken =
  ct_value :: string
  ct_lifetime :: Lifetime
  ct_renewable :: bool

definition no_token :: currentToken where
  "no_token = \<lparr>ct_value = [], ct_lifetime = unset_lifetime, ct_renewable = False\<rparr>"

datatype refreshKind = RefreshLogin | RefreshRenew

record refreshAction =
  ra_kind :: refreshKind
  ra_cfg :: LifecycleConfig
  ra_current :: currentToken

record refreshResult =
  rr_kind :: refreshKind
  rr_token :: currentToken
  rr_jwt :: JWT
  rr_certificate :: Certificate
  rr_loginAt :: go_time
  rr_renewalAt :: go_time
  rr_renewalErr :: "go_error option"
  rr_err :: "go_error option"

definition zero_result :: refreshResult where
  "zero_result = \<lparr>rr_kind = RefreshLogin, rr_token = no_token, rr_jwt = zero_JWT, rr_certificate = zero_Certificate,
     rr_loginAt = zero_time, rr_renewalAt = zero_time, rr_renewalErr = None, rr_err = None\<rparr>"

record SourceInfo =
  si_AuthMethod :: string
  si_CertificateSource :: string

text \<open>A flight is an object that waiters share; the manager points to the one in progress by its number.\<close>

record refreshFlight =
  fl_done :: bool
  fl_kind :: refreshKind
  fl_err :: "go_error option"

record Manager =
  m_cfg :: LifecycleConfig
  m_source :: SourceInfo
  m_renewalEnabled :: bool
  m_current :: currentToken
  m_lastJWT :: JWT
  m_lastCertificate :: Certificate
  m_lastLoginAt :: go_time
  m_lastRenewalAt :: go_time
  m_lastErr :: "go_error option"
  m_lastRenewalErr :: "go_error option"
  m_nextRetryAt :: Deadline
  m_baseRetryBackoff :: int
  m_maxRetryBackoff :: int
  m_consecutiveFailures :: int
  m_refreshTimeout :: int
  m_flight :: "nat option"
  m_nextRecoveryAt :: Deadline
  m_recoveryQuietUntil :: Deadline
  m_recoveryFailures :: int

text \<open>The manager, the flights that have been created, and the goroutines that perform refreshes.\<close>

record auth_state =
  a_m :: Manager
  a_flights :: "nat \<Rightarrow> refreshFlight option"
  a_next :: nat
  a_running :: "(nat \<times> refreshAction) list"

section \<open>Construction\<close>

definition second :: int where "second = 1000000000"
definition defaultRefreshRetryBackoff :: int where "defaultRefreshRetryBackoff = second"
definition defaultMaxRefreshBackoff :: int where "defaultMaxRefreshBackoff = 60 * second"

record ManagerOptions =
  mo_LifecycleContext :: go_context
  mo_RefreshTimeout :: int
  mo_RenewalEnabled :: bool
  mo_RefreshRetryBackoff :: int
  mo_MaxRefreshRetryBackoff :: int

text \<open>\<open>client\<close> and \<open>source\<close> say whether the pointers are not nil; the source shows its labels.\<close>

definition NewManagerWithSource :: "LifecycleConfig \<Rightarrow> SourceInfo option \<Rightarrow> bool \<Rightarrow> ManagerOptions \<Rightarrow> Manager res" where
  "NewManagerWithSource cfg source client opts =
    bindE (failIf (\<not> client) (autherr ErrAuthConfig ''OpenBao auth client is required'')) (\<lambda>_.
    case source of
      None \<Rightarrow> Inl (autherr ErrAuthConfig ''login source is required'')
    | Some info \<Rightarrow>
        bindE (failIf (mo_RefreshTimeout opts < 0) (autherr ErrAuthConfig ''refresh timeout must not be negative'')) (\<lambda>_.
        let timeout = (if mo_RefreshTimeout opts = 0 then 5 * second else mo_RefreshTimeout opts) in
        bindE (failIf (mo_LifecycleContext opts = NilContext) (autherr ErrAuthConfig ''lifecycle context is required'')) (\<lambda>_.
        bindE (validateLifecycleConfig cfg) (\<lambda>normalized.
        let retryBackoff = (if mo_RefreshRetryBackoff opts \<le> 0 then defaultRefreshRetryBackoff else mo_RefreshRetryBackoff opts);
            max0 = (if mo_MaxRefreshRetryBackoff opts \<le> 0 then defaultMaxRefreshBackoff else mo_MaxRefreshRetryBackoff opts);
            maxRetryBackoff = (if max0 < retryBackoff then retryBackoff else max0) in
        Inr \<lparr>m_cfg = normalized, m_source = info, m_renewalEnabled = mo_RenewalEnabled opts, m_current = no_token,
             m_lastJWT = zero_JWT, m_lastCertificate = zero_Certificate, m_lastLoginAt = zero_time, m_lastRenewalAt = zero_time,
             m_lastErr = None, m_lastRenewalErr = None, m_nextRetryAt = no_deadline, m_baseRetryBackoff = retryBackoff,
             m_maxRetryBackoff = maxRetryBackoff, m_consecutiveFailures = 0, m_refreshTimeout = timeout, m_flight = None,
             m_nextRecoveryAt = no_deadline, m_recoveryQuietUntil = no_deadline, m_recoveryFailures = 0\<rparr>))))"

definition new_auth_state :: "Manager \<Rightarrow> auth_state" where
  "new_auth_state m = \<lparr>a_m = m, a_flights = (\<lambda>_. None), a_next = 0, a_running = []\<rparr>"

section \<open>Backoff\<close>

text \<open>Integer division of Go rounds towards zero.\<close>

definition go_quot :: "int \<Rightarrow> int \<Rightarrow> int" where
  "go_quot a b = (if (0 \<le> a) = (0 < b) then \<bar>a\<bar> div \<bar>b\<bar> else - (\<bar>a\<bar> div \<bar>b\<bar>))"

fun backoff_loop :: "nat \<Rightarrow> int \<Rightarrow> int \<Rightarrow> int" where
  "backoff_loop 0 limit backoff = backoff"
| "backoff_loop (Suc n) limit backoff =
    (if backoff \<ge> limit \<or> backoff > go_quot limit 2 then limit else backoff_loop n limit (i64 (backoff * 2)))"

definition exponentialBackoff :: "int \<Rightarrow> int \<Rightarrow> int \<Rightarrow> int" where
  "exponentialBackoff base limit failures =
    (if failures \<le> 1 then base else backoff_loop (nat (failures - 1)) limit base)"

text \<open>\<open>jitterRetryBackoff\<close> with the random offset it draws, \<open>None\<close> when the random source fails.\<close>

definition jitterRetryBackoff :: "int option \<Rightarrow> int \<Rightarrow> int" where
  "jitterRetryBackoff offset backoff =
    (let quarter = go_quot backoff 4 in
     if quarter \<le> 0 then backoff
     else case offset of None \<Rightarrow> backoff | Some off \<Rightarrow> i64 (i64 (backoff + off) - quarter))"

definition nextRetryBackoffLocked :: "Manager \<Rightarrow> (int \<Rightarrow> int) \<Rightarrow> int" where
  "nextRetryBackoffLocked m retryJitter =
    (let backoff = exponentialBackoff (m_baseRetryBackoff m) (m_maxRetryBackoff m) (m_consecutiveFailures m);
         jittered = retryJitter backoff in
     if jittered \<le> 0 then backoff
     else if jittered > m_maxRetryBackoff m then m_maxRetryBackoff m
     else jittered)"

section \<open>Refreshing\<close>

text \<open>\<open>m.current.lifetime.Remaining(now)\<close>, which updates the age of the current token.\<close>

definition current_remaining :: "Manager \<Rightarrow> Reading \<Rightarrow> int \<times> Manager" where
  "current_remaining m now =
    (let (remaining, lifetime) = Remaining (ct_lifetime (m_current m)) now
     in (remaining, m\<lparr>m_current := (m_current m)\<lparr>ct_lifetime := lifetime\<rparr>\<rparr>))"

definition refreshActionLocked :: "Manager \<Rightarrow> bool \<Rightarrow> Reading \<Rightarrow> refreshAction \<times> Manager" where
  "refreshActionLocked m forceLogin now =
    (let action = \<lparr>ra_kind = RefreshLogin, ra_cfg = m_cfg m, ra_current = m_current m\<rparr> in
     if \<not> forceLogin \<and> ct_value (m_current m) \<noteq> [] \<and> ct_renewable (m_current m) \<and> m_renewalEnabled m
     then (let (remaining, m) = current_remaining m now
           in (if remaining > 0 then action\<lparr>ra_kind := RefreshRenew\<rparr> else action, m))
     else (action, m))"

definition currentTokenFromAuth :: "AuthToken \<Rightarrow> string \<Rightarrow> Reading \<Rightarrow> bool \<Rightarrow> int \<Rightarrow> currentToken res" where
  "currentTokenFromAuth token fallbackValue now requireValue minUsableLease =
    (let value = (if ClientToken token = [] then fallbackValue else ClientToken token) in
     bindE (failIf (requireValue \<and> value = []) (errw ErrAuthentication ''login response did not include a client token'')) (\<lambda>_.
     bindE (failIf (LeaseDuration token \<le> 0) (errw ErrAuthentication ''token lease duration must be positive'')) (\<lambda>_.
     bindE (failIf (minUsableLease > 0 \<and> LeaseDuration token \<le> minUsableLease)
       (errw ErrAuthentication ''token lease duration must exceed login-before-expiry'')) (\<lambda>_.
     Inr \<lparr>ct_value = value, ct_lifetime = NewLifetime now (LeaseDuration token), ct_renewable = Renewable token\<rparr>))))"

text \<open>
  What the environment of one refresh answers: the error of its context before the login and at the end, the outcome of the
  login and of the renewal, and the readings after them.
\<close>

record refresh_env =
  re_ctxErr :: "go_error option"
  re_login :: "LoginResult res"
  re_loginNow :: Reading
  re_renew :: "AuthToken res"
  re_renewNow :: Reading
  re_ctxErrAfter :: "go_error option"

definition login :: "refresh_env \<Rightarrow> refreshAction \<Rightarrow> refreshResult" where
  "login env action =
    (case re_ctxErr env of
       Some err \<Rightarrow> zero_result\<lparr>rr_err := Some (publicAuthError err)\<rparr>
     | None \<Rightarrow> (case re_login env of
         Inl err \<Rightarrow> zero_result\<lparr>rr_err := Some err\<rparr>
       | Inr result \<Rightarrow>
           (case currentTokenFromAuth (lr_AuthToken result) [] (re_loginNow env) True (LoginBeforeTokenExpiry (ra_cfg action)) of
              Inl err \<Rightarrow> zero_result\<lparr>rr_err := Some err\<rparr>
            | Inr token \<Rightarrow> zero_result\<lparr>rr_token := token, rr_jwt := lr_JWT result, rr_certificate := lr_Certificate result,
                                       rr_loginAt := Wall (re_loginNow env)\<rparr>)))"

definition renew :: "refresh_env \<Rightarrow> refreshAction \<Rightarrow> (currentToken \<times> go_time) res" where
  "renew env action =
    bindE (public_result (re_renew env)) (\<lambda>authToken.
    bindE (currentTokenFromAuth authToken (ct_value (ra_current action)) (re_renewNow env) False
      (LoginBeforeTokenExpiry (ra_cfg action))) (\<lambda>token.
    Inr (token, Wall (re_renewNow env))))"

definition performRefresh :: "refresh_env \<Rightarrow> refreshAction \<Rightarrow> refreshResult" where
  "performRefresh env action =
    (if ra_kind action = RefreshRenew then
       (case renew env action of
          Inr (token, renewedAt) \<Rightarrow> zero_result\<lparr>rr_kind := RefreshRenew, rr_token := token, rr_renewalAt := renewedAt\<rparr>
        | Inl err \<Rightarrow> (login env action)\<lparr>rr_renewalErr := Some err\<rparr>)
     else login env action)"

definition applyRefreshResultLocked :: "Manager \<Rightarrow> refreshResult \<Rightarrow> Reading \<Rightarrow> (int \<Rightarrow> int) \<Rightarrow> go_error option \<times> Manager" where
  "applyRefreshResultLocked m0 result now retryJitter =
    (let m1 = (if rr_renewalErr result \<noteq> None then m0\<lparr>m_lastRenewalErr := rr_renewalErr result\<rparr> else m0) in
     case rr_err result of
       Some err \<Rightarrow>
         (let m2 = m1\<lparr>m_lastErr := Some err, m_consecutiveFailures := i64 (m_consecutiveFailures m1 + 1)\<rparr>
          in (Some err, m2\<lparr>m_nextRetryAt := clock_After now (nextRetryBackoffLocked m2 retryJitter)\<rparr>))
     | None \<Rightarrow>
         (let m2 = m1\<lparr>m_current := rr_token result\<rparr>;
              m3 = (if Raw (rr_jwt result) \<noteq> [] then m2\<lparr>m_lastJWT := rr_jwt result\<rparr> else m2);
              m4 = (if Leaf (rr_certificate result) \<noteq> None then m3\<lparr>m_lastCertificate := rr_certificate result\<rparr> else m3);
              m5 = (if \<not> IsZero (rr_loginAt result) then m4\<lparr>m_lastLoginAt := rr_loginAt result\<rparr> else m4);
              m6 = (if \<not> IsZero (rr_renewalAt result)
                    then m5\<lparr>m_lastRenewalAt := rr_renewalAt result, m_lastRenewalErr := None\<rparr> else m5)
          in (None, m6\<lparr>m_lastErr := None, m_nextRetryAt := no_deadline, m_consecutiveFailures := 0\<rparr>)))"

text \<open>
  \<open>runRefresh\<close> after its refresh: the section that holds the mutex, for the goroutine of flight \<open>fid\<close>. \<open>lifecycle\<close> is the
  error of the lifecycle context then.
\<close>

definition refresh_result :: "refresh_env \<Rightarrow> refreshAction \<Rightarrow> refreshResult" where
  "refresh_result env action =
    (let result = performRefresh env action in
     case re_ctxErrAfter env of None \<Rightarrow> result | Some err \<Rightarrow> result\<lparr>rr_err := Some (publicAuthError err)\<rparr>)"

definition settleRefresh :: "Manager \<Rightarrow> refreshAction \<Rightarrow> refreshResult \<Rightarrow> go_error option \<Rightarrow> Reading \<Rightarrow> (int \<Rightarrow> int)
    \<Rightarrow> go_error option \<times> Manager" where
  "settleRefresh m action result lifecycle now retryJitter =
    (case lifecycle of
       Some err \<Rightarrow> (Some err, m)
     | None \<Rightarrow>
         if rr_kind result = RefreshRenew \<and> ct_value (ra_current action) \<noteq> ct_value (m_current m)
         then (Some (Sentinel (Auth ErrRefreshSuperseded)), m)
         else applyRefreshResultLocked m result now retryJitter)"

definition runRefresh :: "auth_state \<Rightarrow> nat \<Rightarrow> refreshAction \<Rightarrow> refresh_env \<Rightarrow> go_error option \<Rightarrow> Reading \<Rightarrow> (int \<Rightarrow> int) \<Rightarrow> auth_state" where
  "runRefresh a fid action env lifecycle now retryJitter =
    (let result = refresh_result env action;
         (err, m) = settleRefresh (a_m a) action result lifecycle now retryJitter
     in a\<lparr>a_m := m\<lparr>m_flight := None\<rparr>,
          a_flights := (a_flights a)(fid \<mapsto> \<lparr>fl_done = True, fl_kind = rr_kind result, fl_err = err\<rparr>),
          a_running := removeAll (fid, action) (a_running a)\<rparr>)"

section \<open>Recovery limits\<close>

definition tokenRecoveryInterval :: int where "tokenRecoveryInterval = 5 * second"
definition maxTokenRecoveryInterval :: int where "maxTokenRecoveryInterval = 5 * 60 * second"
definition tokenRecoveryQuietPeriod :: int where "tokenRecoveryQuietPeriod = 2 * maxTokenRecoveryInterval"

definition retryBlockedLocked :: "Manager \<Rightarrow> Reading \<Rightarrow> bool" where
  "retryBlockedLocked m now = Pending (m_nextRetryAt m) now"

definition loginBlockedLocked :: "Manager \<Rightarrow> Reading \<Rightarrow> bool" where
  "loginBlockedLocked m now \<longleftrightarrow> retryBlockedLocked m now \<or> ct_value (m_current m) = [] \<and> Pending (m_nextRecoveryAt m) now"

definition count_recovery :: "Manager \<Rightarrow> Reading \<Rightarrow> Manager" where
  "count_recovery m now =
    (let backoff = exponentialBackoff tokenRecoveryInterval maxTokenRecoveryInterval (m_recoveryFailures m);
         m1 = m\<lparr>m_nextRecoveryAt := clock_After now backoff\<rparr>
     in if backoff < maxTokenRecoveryInterval then m1\<lparr>m_recoveryFailures := i64 (m_recoveryFailures m + 1)\<rparr> else m1)"

definition startRefreshLocked :: "auth_state \<Rightarrow> bool \<Rightarrow> Reading \<Rightarrow> auth_state" where
  "startRefreshLocked a forceLogin now =
    (let (action, m1) = refreshActionLocked (a_m a) forceLogin now;
         m2 = (if ra_kind action = RefreshLogin \<and> ct_value (m_current m1) = [] \<and> m_recoveryFailures m1 > 0
               then count_recovery m1 now else m1);
         fid = a_next a
     in a\<lparr>a_m := m2\<lparr>m_flight := Some fid\<rparr>,
          a_flights := (a_flights a)(fid \<mapsto> \<lparr>fl_done = False, fl_kind = ra_kind action, fl_err = None\<rparr>),
          a_next := fid + 1,
          a_running := a_running a @ [(fid, action)]\<rparr>)"

definition startEarlyRefreshLocked :: "auth_state \<Rightarrow> Reading \<Rightarrow> Reading \<Rightarrow> auth_state" where
  "startEarlyRefreshLocked a now startNow =
    (let (remaining, m1) = current_remaining (a_m a) now; a1 = a\<lparr>a_m := m1\<rparr> in
     if remaining \<le> LoginBeforeTokenExpiry (m_cfg m1) \<and> \<not> retryBlockedLocked m1 now \<and> m_flight m1 = None
     then startRefreshLocked a1 False startNow else a1)"

section \<open>Obtaining a token\<close>

datatype ensure_outcome = ReturnErr go_error | ReturnToken currentToken | WaitFor nat

text \<open>
  One pass of the loop of \<open>ensureToken\<close>, from its head until it returns or waits; \<open>now\<close> is its reading of the clock, \<open>startNow\<close> the
  one of \<open>startRefreshLocked\<close>.
\<close>

definition ensure_pass :: "auth_state \<Rightarrow> go_context \<Rightarrow> go_error option \<Rightarrow> bool \<Rightarrow> Reading \<Rightarrow> Reading \<Rightarrow> ensure_outcome \<times> auth_state" where
  "ensure_pass a ctx lifecycle forceLogin now startNow =
    (case ctx of
       NilContext \<Rightarrow> (ReturnErr (autherr ErrAuthConfig ''context is required''), a)
     | DoneContext err \<Rightarrow> (ReturnErr err, a)
     | LiveContext \<Rightarrow> (case lifecycle of
         Some err \<Rightarrow> (ReturnErr err, a)
       | None \<Rightarrow>
          (let usable = (\<not> forceLogin \<and> ct_value (m_current (a_m a)) \<noteq> []);
               (remaining, m1) = (if usable then current_remaining (a_m a) now else (0, a_m a));
               a1 = a\<lparr>a_m := m1\<rparr> in
           if usable \<and> remaining > 0 then
             (let a2 = startEarlyRefreshLocked a1 now startNow in (ReturnToken (m_current (a_m a2)), a2))
           else if m_flight m1 = None \<and> loginBlockedLocked m1 now then
             (ReturnErr (case m_lastErr m1 of None \<Rightarrow> Sentinel (Auth ErrTokenUnavailable) | Some err \<Rightarrow> err), a1)
           else
             (let a2 = (if m_flight m1 = None then startRefreshLocked a1 forceLogin startNow else a1)
              in (WaitFor (the (m_flight (a_m a2))), a2)))))"

text \<open>What ends the wait of \<open>waitForRefresh\<close>: its context, the lifecycle context or the flight.\<close>

datatype wait_event = WaitContext go_error | WaitLifecycle go_error | WaitFlight

definition waitForRefresh :: "auth_state \<Rightarrow> nat \<Rightarrow> wait_event \<Rightarrow> go_error option" where
  "waitForRefresh a fid ev =
    (case ev of WaitContext err \<Rightarrow> Some err | WaitLifecycle err \<Rightarrow> Some err
     | WaitFlight \<Rightarrow> fl_err (the (a_flights a fid)))"

definition after_wait :: "auth_state \<Rightarrow> nat \<Rightarrow> wait_event \<Rightarrow> bool \<Rightarrow> bool res" where
  "after_wait a fid ev forceLogin =
    (case waitForRefresh a fid ev of
       Some err \<Rightarrow> if errors_is err (Auth ErrRefreshSuperseded) then Inr forceLogin else Inl err
     | None \<Rightarrow> Inr (if fl_kind (the (a_flights a fid)) = RefreshLogin then False else forceLogin))"

text \<open>
  The loop, over what happens in its passes: the arguments of the pass, what other goroutines do to the state while it waits,
  and how the wait ends. \<open>None\<close> is a call that is still waiting.
\<close>

record ensure_round =
  er_ctx :: go_context
  er_lifecycle :: "go_error option"
  er_now :: Reading
  er_startNow :: Reading
  er_others :: "auth_state \<Rightarrow> auth_state"
  er_wait :: wait_event

fun ensureToken :: "auth_state \<Rightarrow> bool \<Rightarrow> ensure_round list \<Rightarrow> currentToken res option \<times> auth_state" where
  "ensureToken a forceLogin [] = (None, a)"
| "ensureToken a forceLogin (r # rs) =
    (case ensure_pass a (er_ctx r) (er_lifecycle r) forceLogin (er_now r) (er_startNow r) of
       (ReturnErr err, a1) \<Rightarrow> (Some (Inl err), a1)
     | (ReturnToken token, a1) \<Rightarrow> (Some (Inr token), a1)
     | (WaitFor fid, a1) \<Rightarrow>
         (let a2 = er_others r a1 in
          case after_wait a2 fid (er_wait r) forceLogin of
            Inl err \<Rightarrow> (Some (Inl err), a2)
          | Inr force \<Rightarrow> ensureToken a2 force rs))"

definition Token :: "auth_state \<Rightarrow> ensure_round list \<Rightarrow> string res option \<times> auth_state" where
  "Token a rounds =
    (let (r, a1) = ensureToken a False rounds in
     (map_option (\<lambda>res. case res of
        Inl err \<Rightarrow> Inl (publicAuthError err)
      | Inr token \<Rightarrow> if ct_value token = [] then Inl (Sentinel (Auth ErrTokenUnavailable)) else Inr (ct_value token)) r, a1))"

definition Refresh :: "auth_state \<Rightarrow> ensure_round list \<Rightarrow> unit res option \<times> auth_state" where
  "Refresh a rounds =
    (let (r, a1) = ensureToken a True rounds in
     (map_option (\<lambda>res. case res of Inl err \<Rightarrow> Inl (publicAuthError err) | Inr _ \<Rightarrow> Inr ()) r, a1))"

section \<open>Rejected tokens\<close>

definition rejectTokenLocked :: "Manager \<Rightarrow> string \<Rightarrow> Reading \<Rightarrow> bool \<times> Manager" where
  "rejectTokenLocked m token now =
    (if token = [] \<or> token \<noteq> ct_value (m_current m) then (False, m)
     else let m1 = m\<lparr>m_current := no_token, m_lastErr := Some (publicAuthError (Sentinel (Auth ErrTokenUnavailable)))\<rparr>;
              m2 = (if \<not> Pending (m_recoveryQuietUntil m1) now
                    then m1\<lparr>m_recoveryFailures := 1, m_nextRecoveryAt := no_deadline\<rparr> else m1)
          in (True, m2\<lparr>m_recoveryQuietUntil := clock_After now tokenRecoveryQuietPeriod\<rparr>))"

definition RejectToken :: "auth_state \<Rightarrow> string \<Rightarrow> Reading \<Rightarrow> auth_state" where
  "RejectToken a token now = a\<lparr>a_m := snd (rejectTokenLocked (a_m a) token now)\<rparr>"

text \<open>The section of \<open>RecoverToken\<close> that holds the mutex: whether recovery is throttled, and the state.\<close>

definition recover_section :: "auth_state \<Rightarrow> string \<Rightarrow> Reading \<Rightarrow> Reading \<Rightarrow> bool \<times> auth_state" where
  "recover_section a token now checkNow =
    (let (rejected, m) = rejectTokenLocked (a_m a) token now
     in (rejected \<and> Pending (m_nextRecoveryAt m) checkNow, a\<lparr>a_m := m\<rparr>))"

definition RecoverToken :: "auth_state \<Rightarrow> go_context \<Rightarrow> string \<Rightarrow> Reading \<Rightarrow> Reading \<Rightarrow> ensure_round list \<Rightarrow> string res option \<times> auth_state" where
  "RecoverToken a ctx token now checkNow rounds =
    (case ctx of
       NilContext \<Rightarrow> (Some (Inl (publicAuthError (Sentinel (Auth ErrAuthConfig)))), a)
     | DoneContext err \<Rightarrow> (Some (Inl (publicAuthError err)), a)
     | LiveContext \<Rightarrow>
         (let (throttled, a1) = recover_section a token now checkNow
          in if throttled then (Some (Inr []), a1) else Token a1 rounds))"

section \<open>Observations and state\<close>

definition authStatus :: "go_error option \<Rightarrow> string" where
  "authStatus err = (case err of
     None \<Rightarrow> ''ok''
   | Some e \<Rightarrow>
      (let is = (\<lambda>s. errors_is e (Auth s)) in
       if is OAuth2_ErrCredential then ''oauth2_credential''
       else if is OAuth2_ErrRejected then ''oauth2_rejected''
       else if is OAuth2_ErrUnavailable then ''oauth2_unavailable''
       else if is OAuth2_ErrResponse then ''oauth2_response''
       else if is OAuth2_ErrRequest then ''oauth2_request''
       else if is ErrJWTExpired then ''jwt_expired''
       else if is ErrJWTNearExpiry then ''jwt_near_expiry''
       else if list_ex is [ErrJWTMalformed, ErrJWTNotYetValid, ErrJWTIssuedInFuture, ErrJWTIssuerMismatch, ErrJWTAudienceMismatch,
                           ErrJWTSubjectMismatch, ErrJWTRead] then ''jwt_invalid''
       else if is ErrCertificateExpired then ''cert_expired''
       else if is ErrCertificateNearExpiry then ''cert_near_expiry''
       else if list_ex is [ErrCertificateMalformed, ErrCertificateNotYetValid, ErrCertificateWeakSignature, ErrCertificateUsage,
                           ErrCertificateIdentityMismatch, ErrCertificateSignerMismatch, ErrCertificateSignerProbe, ErrPKCS11PINRead,
                           ErrCertificateRead] then ''cert_invalid''
       else if errors_is e ErrAuthentication \<or> is ErrTokenUnavailable
         then (if is ErrTokenUnavailable then ''no_usable_session'' else ''auth_failed'')
       else ''error''))"

text \<open>\<open>safeErrorMessage\<close>; \<open>text_of\<close> is the \<open>Error\<close> method of an error value.\<close>

definition safeAuthErrorClasses :: "sentinel list" where
  "safeAuthErrorClasses = map Auth [OAuth2_ErrConfig, OAuth2_ErrCredential, OAuth2_ErrRequest, OAuth2_ErrRejected, OAuth2_ErrUnavailable,
     OAuth2_ErrResponse, ErrJWTRead, ErrJWTMalformed, ErrJWTExpired, ErrJWTNearExpiry, ErrJWTNotYetValid, ErrJWTIssuedInFuture,
     ErrJWTIssuerMismatch, ErrJWTAudienceMismatch, ErrJWTSubjectMismatch, ErrCertificateRead, ErrCertificateMalformed,
     ErrCertificateExpired, ErrCertificateNearExpiry, ErrCertificateNotYetValid, ErrCertificateWeakSignature, ErrCertificateUsage,
     ErrCertificateIdentityMismatch, ErrCertificateSignerMismatch, ErrCertificateSignerProbe, ErrPKCS11PINRead, ErrAuthConfig]
     @ [ErrAuthentication, Auth ErrTokenUnavailable]"

definition safeErrorMessage :: "(go_error \<Rightarrow> string) \<Rightarrow> go_error option \<Rightarrow> string" where
  "safeErrorMessage text_of err = (case err of
     None \<Rightarrow> []
   | Some e \<Rightarrow>
      (case find (\<lambda>s. errors_is e (Auth s)) [ErrJWTIssuerMismatch, ErrJWTAudienceMismatch, ErrJWTSubjectMismatch,
              ErrCertificateIdentityMismatch, ErrCertificateSignerMismatch] of
         Some s \<Rightarrow> text_of (Sentinel (Auth s))
       | None \<Rightarrow>
          (case as_api_error e of
             Some (class, status, op) \<Rightarrow> text_of (ApiError class status op)
           | None \<Rightarrow> if list_ex (errors_is e) safeAuthErrorClasses then text_of e else ''auth operation failed'')))"

datatype auth_status = StatusUnknown | StatusAuthenticated | StatusUnhealthy

record AuthState =
  as_AuthMethod :: string
  as_CertificateSource :: string
  as_Status :: auth_status
  as_TokenRenewable :: bool
  as_TokenExpiresAt :: go_time
  as_TokenTTL :: int
  as_JWTExpiresAt :: go_time
  as_JWTTTL :: int
  as_CertExpiresAt :: go_time
  as_CertTTL :: int
  as_LastLoginAt :: go_time
  as_LastRenewalAt :: go_time
  as_LastError :: string
  as_LastRenewalError :: string
  as_NextRetryAt :: go_time
  as_ConsecutiveFailures :: int

definition ttlUntil :: "go_time \<Rightarrow> go_time \<Rightarrow> int" where
  "ttlUntil now expiry = (if IsZero expiry then 0 else time_Sub expiry now)"

definition jwtTTLLocked :: "Manager \<Rightarrow> Reading \<Rightarrow> int \<times> Manager" where
  "jwtTTLLocked m now =
    (let remaining = ttlUntil (Wall now) (cl_ExpiresAt (jwt_Claims (m_lastJWT m))) in
     if IsSet (EndpointLifetime (m_lastJWT m)) then
       (let (left, lifetime) = Remaining (EndpointLifetime (m_lastJWT m)) now
        in (min remaining left, m\<lparr>m_lastJWT := (m_lastJWT m)\<lparr>EndpointLifetime := lifetime\<rparr>\<rparr>))
     else (remaining, m))"

definition tokenExpiryLocked :: "Manager \<Rightarrow> Reading \<Rightarrow> go_time \<times> Manager" where
  "tokenExpiryLocked m now =
    (if ct_value (m_current m) = [] then (zero_time, m)
     else let (remaining, m) = current_remaining m now in (Wall now + remaining, m))"

definition State :: "(go_error \<Rightarrow> string) \<Rightarrow> Manager \<Rightarrow> Reading \<Rightarrow> AuthState \<times> Manager" where
  "State text_of m0 now =
    (let (expiresAt, m1) = tokenExpiryLocked m0 now;
         (ttl, m2) = current_remaining m1 now;
         (jwtTTL, m) = jwtTTLLocked m2 now;
         live = (ct_value (m_current m) \<noteq> [] \<and> ttl > 0 \<and> m_lastErr m = None)
     in (\<lparr>as_AuthMethod = si_AuthMethod (m_source m), as_CertificateSource = si_CertificateSource (m_source m),
          as_Status = (if live then StatusAuthenticated else if m_lastErr m \<noteq> None then StatusUnhealthy else StatusUnknown),
          as_TokenRenewable = ct_renewable (m_current m), as_TokenExpiresAt = expiresAt, as_TokenTTL = ttl,
          as_JWTExpiresAt = cl_ExpiresAt (jwt_Claims (m_lastJWT m)), as_JWTTTL = jwtTTL,
          as_CertExpiresAt = cert_ExpiresAt (m_lastCertificate m), as_CertTTL = ttlUntil (Wall now) (cert_ExpiresAt (m_lastCertificate m)),
          as_LastLoginAt = m_lastLoginAt m, as_LastRenewalAt = m_lastRenewalAt m, as_LastError = safeErrorMessage text_of (m_lastErr m),
          as_LastRenewalError = safeErrorMessage text_of (m_lastRenewalErr m), as_NextRetryAt = WallTime (m_nextRetryAt m) now,
          as_ConsecutiveFailures = m_consecutiveFailures m\<rparr>, m))"

end
