(* ===== verification/Token_Source.thy ===== *)
theory Token_Source
  imports Error_Classes
begin

text \<open>
  The interface between the OpenBao client and whatever supplies its token (\<open>TokenSource\<close>, \<open>TokenRecoverer\<close> and
  \<open>TokenInvalidator\<close> in \<^verbatim>\<open>internal/openbao/client.go\<close>): runs of a provider, the laws the client relies on, what follows
  for every client, and the constant provider \<open>StaticTokenSource\<close>.
\<close>

section \<open>Runs\<close>

text \<open>Finite runs of a labelled step relation in which every step satisfies a condition.\<close>

inductive steps_where :: "('s \<Rightarrow> 'e \<Rightarrow> 's \<Rightarrow> bool) \<Rightarrow> ('s \<Rightarrow> 'e \<Rightarrow> 's \<Rightarrow> bool) \<Rightarrow> 's \<Rightarrow> 'e list \<Rightarrow> 's \<Rightarrow> bool"
  for step P where
  run_refl: "steps_where step P a [] a"
| run_snoc: "steps_where step P a evs b \<Longrightarrow> step b ev c \<Longrightarrow> P b ev c \<Longrightarrow> steps_where step P a (evs @ [ev]) c"

abbreviation steps :: "('s \<Rightarrow> 'e \<Rightarrow> 's \<Rightarrow> bool) \<Rightarrow> 's \<Rightarrow> 'e list \<Rightarrow> 's \<Rightarrow> bool" where
  "steps step \<equiv> steps_where step (\<lambda>_ _ _. True)"

lemma run_invariant:
  assumes "steps_where step P a evs b" and "I a" and "\<And>c ev d. I c \<Longrightarrow> step c ev d \<Longrightarrow> P c ev d \<Longrightarrow> I d"
  shows "I b"
  using assms by (induction rule: steps_where.induct) blast+

lemma run_invariant_events:
  assumes "steps step a evs b" and "I a" and "\<And>c ev d. ev \<in> set evs \<Longrightarrow> I c \<Longrightarrow> step c ev d \<Longrightarrow> I d"
  shows "I b"
  using assms by (induction rule: steps_where.induct) auto

section \<open>The provider's promise\<close>

text \<open>
  A provider holds one token. An event may hand the token to a client (\<open>returned\<close>), report a token as rejected
  (\<open>rejected\<close>), or receive token values from OpenBao (\<open>issued\<close>). A provider only hands out the token it holds, drops a token
  that is rejected, and takes on a new token only from OpenBao.
\<close>

locale token_provider =
  fixes step :: "'s \<Rightarrow> 'e \<Rightarrow> 's \<Rightarrow> bool" and held :: "'s \<Rightarrow> string"
    and returned :: "'e \<Rightarrow> string option" and rejected :: "'e \<Rightarrow> string option" and issued :: "'e \<Rightarrow> string set"
  assumes returns_held: "step s ev s' \<Longrightarrow> returned ev = Some t \<Longrightarrow> held s = t \<and> t \<noteq> []"
    and drops_rejected: "step s ev s' \<Longrightarrow> rejected ev = Some t \<Longrightarrow> t \<noteq> [] \<Longrightarrow> held s' \<noteq> t"
    and takes_issued: "step s ev s' \<Longrightarrow> held s \<noteq> t \<Longrightarrow> t \<notin> issued ev \<Longrightarrow> t \<noteq> [] \<Longrightarrow> held s' \<noteq> t"
begin

text \<open>What every client may rely on: a rejected token is not handed out again unless OpenBao issued it again.\<close>

lemma rejected_not_returned:
  assumes "step b rejection c" and "rejected rejection = Some t" and "steps step c evs d" and "step d use e" and "returned use = Some t"
  shows "\<exists>ev \<in> set evs. t \<in> issued ev"
proof (rule ccontr)
  assume no: "\<not> (\<exists>ev \<in> set evs. t \<in> issued ev)"
  have t: "held d = t" "t \<noteq> []" using returns_held [OF assms(4,5)] by simp_all
  have "held d \<noteq> t"
    using assms(3) drops_rejected [OF assms(1,2) t(2)]
    by (rule run_invariant_events) (use no takes_issued t(2) in blast)
  with t(1) show False by simp
qed

end

section \<open>The constant provider\<close>

record StaticTokenSource = TokenValue :: string

definition StaticTokenSource_Token :: "StaticTokenSource \<Rightarrow> string res" where
  "StaticTokenSource_Token s = bindE (failIf (TokenValue s = []) (Msg ''openbao token is required'')) (\<lambda>_. Inr (TokenValue s))"

text \<open>It neither recovers nor invalidates a token, so its only event is a call of \<open>Token\<close>.\<close>

interpretation static: token_provider "\<lambda>s r s'. r = StaticTokenSource_Token s \<and> s' = s" TokenValue
  "\<lambda>r. case r of Inr t \<Rightarrow> Some t | Inl _ \<Rightarrow> None" "\<lambda>_. None" "\<lambda>_. {}"
  by unfold_locales (auto simp: StaticTokenSource_Token_def split: sum.splits)

end
