(* ===== verification/Auth_Safety.thy ===== *)
theory Auth_Safety
  imports Auth_Manager Token_Source
begin

text \<open>
  Safety of the token manager under every interleaving of callers, refreshes and rejections.
\<close>

section \<open>Backoff\<close>

lemma go_quot_half: "0 \<le> n \<Longrightarrow> go_quot n 2 = n div 2"
  by (simp add: go_quot_def)

lemma backoff_loop_min:
  assumes "0 < b" and "b \<le> limit" and "limit \<le> max_duration"
  shows "backoff_loop n limit b = min limit (b * 2 ^ n)"
  using assms(1,2)
proof (induction n arbitrary: b)
  case (Suc n)
  show ?case
  proof (cases "b \<ge> limit \<or> b > limit div 2")
    case True
    have "limit \<le> b * 2" using True Suc.prems(1) by linarith
    also have "\<dots> \<le> b * 2 ^ Suc n" using Suc.prems(1) by (simp add: mult_le_cancel_left)
    finally show ?thesis using True Suc.prems by (simp add: go_quot_half min_def)
  next
    case False
    then have "b * 2 \<le> limit" by linarith
    moreover from this have "i64 (b * 2) = b * 2"
      using assms(3) Suc.prems by (intro i64_id) (simp add: in_i64_def max_duration_def)
    ultimately show ?thesis using False Suc.IH [of "b * 2"] Suc.prems by (simp add: go_quot_half mult.assoc)
  qed
qed simp

section \<open>Steps\<close>

datatype auth_event =
    Pass go_context "go_error option" bool Reading Reading ensure_outcome
  | Refreshed nat refreshAction refresh_env "go_error option" Reading "int \<Rightarrow> int"
  | Rejected string Reading
  | Recovering string Reading Reading
  | StateRead Reading

fun auth_step :: "auth_state \<Rightarrow> auth_event \<Rightarrow> auth_state \<Rightarrow> bool" where
  "auth_step a (Pass ctx lifecycle force now startNow out) a' \<longleftrightarrow> ensure_pass a ctx lifecycle force now startNow = (out, a')"
| "auth_step a (Refreshed fid action env lifecycle now jitter) a' \<longleftrightarrow>
     (fid, action) \<in> set (a_running a) \<and> a' = runRefresh a fid action env lifecycle now jitter"
| "auth_step a (Rejected token now) a' \<longleftrightarrow> a' = RejectToken a token now"
| "auth_step a (Recovering token now checkNow) a' \<longleftrightarrow> a' = snd (recover_section a token now checkNow)"
| "auth_step a (StateRead now) a' \<longleftrightarrow> a' = a\<lparr>a_m := snd (State (\<lambda>_. []) (a_m a) now)\<rparr>"

text \<open>Runs whose steps all satisfy a condition; \<open>auth_run\<close> is the run without one.\<close>

abbreviation run_where :: "(auth_state \<Rightarrow> auth_event \<Rightarrow> auth_state \<Rightarrow> bool) \<Rightarrow> auth_state \<Rightarrow> auth_event list \<Rightarrow> auth_state \<Rightarrow> bool" where
  "run_where \<equiv> steps_where auth_step"

abbreviation auth_run :: "auth_state \<Rightarrow> auth_event list \<Rightarrow> auth_state \<Rightarrow> bool" where
  "auth_run \<equiv> steps auth_step"

section \<open>What a step does\<close>

text \<open>Reading the remaining lifetime changes only the age of the current token.\<close>

definition aged_token :: "Manager \<Rightarrow> Reading list \<Rightarrow> Manager" where
  "aged_token m rs = m\<lparr>m_current := (m_current m)\<lparr>ct_lifetime := aged (ct_lifetime (m_current m)) rs\<rparr>\<rparr>"

lemma aged_Nil [simp]: "aged l [] = l" and aged_append: "aged (aged l rs) rs' = aged l (rs @ rs')"
  by (simp_all add: aged_def)

lemma aged_token_Nil [simp]: "aged_token m [] = m" and aged_token_append [simp]: "aged_token (aged_token m rs) rs' = aged_token m (rs @ rs')"
  by (simp_all add: aged_token_def aged_append)

lemma aged_token_fields [simp]:
  "m_flight (aged_token m rs) = m_flight m" "m_nextRetryAt (aged_token m rs) = m_nextRetryAt m"
  "m_nextRecoveryAt (aged_token m rs) = m_nextRecoveryAt m" "m_lastErr (aged_token m rs) = m_lastErr m"
  "m_recoveryFailures (aged_token m rs) = m_recoveryFailures m" "m_cfg (aged_token m rs) = m_cfg m"
  "m_recoveryQuietUntil (aged_token m rs) = m_recoveryQuietUntil m" "m_renewalEnabled (aged_token m rs) = m_renewalEnabled m"
  "m_baseRetryBackoff (aged_token m rs) = m_baseRetryBackoff m" "m_maxRetryBackoff (aged_token m rs) = m_maxRetryBackoff m"
  "ct_value (m_current (aged_token m rs)) = ct_value (m_current m)"
  "ct_lifetime (m_current (aged_token m rs)) = aged (ct_lifetime (m_current m)) rs"
  by (simp_all add: aged_token_def)

lemma Remaining_snd_aged: "snd (Remaining l now) = aged l [now]"
  by (simp add: Remaining_def aged_def Age_def Let_def)

lemma current_remaining_eq: "current_remaining m now = (fst (Remaining (ct_lifetime (m_current m)) now), aged_token m [now])"
  by (simp add: current_remaining_def case_prod_beta aged_token_def Remaining_snd_aged)

lemma Age_again: "fst (Age (snd (Age l now)) now) = fst (Age l now)"
  by (simp add: Age_def Let_def)

lemma Remaining_again: "fst (Remaining (aged l [now]) now) = fst (Remaining l now)"
  by (simp add: Remaining_def aged_def Age_def Let_def)

lemma refreshActionLocked_aged: "\<exists>rs. snd (refreshActionLocked m force now) = aged_token m rs"
  by (auto simp: refreshActionLocked_def current_remaining_eq Let_def intro: exI [of _ "[]"])

definition refresh_action :: "Manager \<Rightarrow> bool \<Rightarrow> Reading \<Rightarrow> refreshAction" where
  "refresh_action m force now = fst (refreshActionLocked m force now)"

lemma refresh_action_fields [simp]:
  "ra_current (refresh_action m force now) = m_current m" "ra_cfg (refresh_action m force now) = m_cfg m"
  by (simp_all add: refresh_action_def refreshActionLocked_def current_remaining_eq Let_def)

lemma refresh_action_login: "ct_value (m_current m) = [] \<Longrightarrow> ra_kind (refresh_action m force now) = RefreshLogin"
  by (simp add: refresh_action_def refreshActionLocked_def)

text \<open>Starting a refresh: the new flight and goroutine, and the recovery counter.\<close>

definition counts_recovery :: "Manager \<Rightarrow> bool" where
  "counts_recovery m \<longleftrightarrow> ct_value (m_current m) = [] \<and> m_recoveryFailures m > 0"

lemma startRefreshLocked_eq:
  obtains rs where "startRefreshLocked a force now =
     a\<lparr>a_m := (if counts_recovery (a_m a) then count_recovery (a_m a) now else aged_token (a_m a) rs)\<lparr>m_flight := Some (a_next a)\<rparr>,
       a_flights := (a_flights a)(a_next a \<mapsto> \<lparr>fl_done = False, fl_kind = ra_kind (refresh_action (a_m a) force now), fl_err = None\<rparr>),
       a_next := a_next a + 1, a_running := a_running a @ [(a_next a, refresh_action (a_m a) force now)]\<rparr>"
proof -
  obtain rs where rs: "snd (refreshActionLocked (a_m a) force now) = aged_token (a_m a) rs" using refreshActionLocked_aged by blast
  have "counts_recovery (a_m a) \<Longrightarrow> snd (refreshActionLocked (a_m a) force now) = a_m a"
    by (simp add: counts_recovery_def refreshActionLocked_def)
  with rs refresh_action_login [of "a_m a" force now] that [of rs] show ?thesis
    by (simp add: startRefreshLocked_def case_prod_beta refresh_action_def Let_def counts_recovery_def)
qed

lemma count_recovery_fields [simp]:
  "m_flight (count_recovery m now) = m_flight m" "m_nextRetryAt (count_recovery m now) = m_nextRetryAt m"
  "m_current (count_recovery m now) = m_current m" "m_cfg (count_recovery m now) = m_cfg m"
  "m_recoveryQuietUntil (count_recovery m now) = m_recoveryQuietUntil m"
  "m_baseRetryBackoff (count_recovery m now) = m_baseRetryBackoff m" "m_maxRetryBackoff (count_recovery m now) = m_maxRetryBackoff m"
  "m_nextRecoveryAt (count_recovery m now) =
     clock_After now (exponentialBackoff tokenRecoveryInterval maxTokenRecoveryInterval (m_recoveryFailures m))"
  by (simp_all add: count_recovery_def Let_def)

text \<open>
  A pass of the loop either leaves everything but the age of the token, or starts a refresh; it starts one only when none is in
  flight, no retry delay is pending and, without a token, no recovery delay is pending.
\<close>

lemma ensure_pass_cases:
  assumes "ensure_pass a ctx lifecycle force now startNow = (out, a')"
  obtains (quiet) rs where "a' = a\<lparr>a_m := aged_token (a_m a) rs\<rparr>"
      "(\<exists>err. out = ReturnErr err) \<or> (\<exists>fid. out = WaitFor fid \<and> m_flight (a_m a) = Some fid)
        \<or> out = ReturnToken (m_current (a_m a')) \<and> ct_value (m_current (a_m a)) \<noteq> [] \<and> 0 < fst (Remaining (ct_lifetime (m_current (a_m a))) now)"
    | (started) rs force' where "m_flight (a_m a) = None" "\<not> Pending (m_nextRetryAt (a_m a)) now"
      "ct_value (m_current (a_m a)) = [] \<longrightarrow> \<not> Pending (m_nextRecoveryAt (a_m a)) now"
      "a' = startRefreshLocked (a\<lparr>a_m := aged_token (a_m a) rs\<rparr>) force' startNow"
      "out = WaitFor (a_next a)
        \<or> out = ReturnToken (m_current (a_m a')) \<and> ct_value (m_current (a_m a)) \<noteq> [] \<and> 0 < fst (Remaining (ct_lifetime (m_current (a_m a))) now)"
proof (cases "ctx = LiveContext \<and> lifecycle = None")
  case False
  with assms have "a' = a" "\<exists>err. out = ReturnErr err" by (auto simp: ensure_pass_def split: go_context.splits option.splits)
  then show ?thesis using quiet [of "[]"] by simp
next
  case live: True
  let ?m = "a_m a"
  let ?usable = "\<not> force \<and> ct_value (m_current ?m) \<noteq> []"
  let ?remaining = "fst (Remaining (ct_lifetime (m_current ?m)) now)"
  show ?thesis
  proof (cases "?usable \<and> 0 < ?remaining")
    case True
    let ?a1 = "a\<lparr>a_m := aged_token ?m [now]\<rparr>"
    from True live assms have a': "a' = startEarlyRefreshLocked ?a1 now startNow" and out: "out = ReturnToken (m_current (a_m a'))"
      by (auto simp: ensure_pass_def current_remaining_eq Let_def)
    consider "a' = a\<lparr>a_m := aged_token ?m [now, now]\<rparr>"
      | "a' = startRefreshLocked (a\<lparr>a_m := aged_token ?m [now, now]\<rparr>) False startNow" "m_flight ?m = None" "\<not> Pending (m_nextRetryAt ?m) now"
      using a' unfolding startEarlyRefreshLocked_def
      by (auto simp: current_remaining_eq retryBlockedLocked_def Let_def split: if_splits)
    then show ?thesis
    proof cases
      case 1
      then show ?thesis using quiet [of "[now, now]"] out True by simp
    next
      case 2
      then show ?thesis using started [of "[now, now]" False] out True by simp
    qed
  next
    case False
    define rs where "rs = (if ?usable then [now] else [])"
    let ?a1 = "a\<lparr>a_m := aged_token ?m rs\<rparr>"
    from False live assms have pass: "(if m_flight ?m = None \<and> loginBlockedLocked (aged_token ?m rs) now
        then (\<exists>err. out = ReturnErr err) \<and> a' = ?a1
        else if m_flight ?m = None then a' = startRefreshLocked ?a1 force startNow \<and> out = WaitFor (the (m_flight (a_m a')))
        else a' = ?a1 \<and> out = WaitFor (the (m_flight ?m)))"
      by (auto simp: ensure_pass_def current_remaining_eq rs_def Let_def split: if_splits)
    have flight: "m_flight (a_m (startRefreshLocked ?a1 force startNow)) = Some (a_next a)"
      by (rule startRefreshLocked_eq [of ?a1 force startNow]) simp
    show ?thesis
    proof (cases "m_flight ?m = None \<and> \<not> loginBlockedLocked (aged_token ?m rs) now")
      case True
      then show ?thesis using pass flight started [of rs force] by (auto simp: loginBlockedLocked_def retryBlockedLocked_def)
    next
      case False
      then show ?thesis using pass quiet [of rs] by (auto split: if_splits)
    qed
  qed
qed


section \<open>Where tokens come from\<close>

text \<open>A token that a refresh may install: from a login response, or from a renewal response (whose value may be left out).\<close>

definition grants :: "refresh_env \<Rightarrow> string \<Rightarrow> currentToken \<Rightarrow> bool" where
  "grants env old tok \<longleftrightarrow>
     (\<exists>result. re_login env = Inr result \<and> ct_value tok = ClientToken (lr_AuthToken result) \<and> ct_value tok \<noteq> []
        \<and> 0 < LeaseDuration (lr_AuthToken result) \<and> ct_lifetime tok = NewLifetime (re_loginNow env) (LeaseDuration (lr_AuthToken result)))
     \<or> (\<exists>t. re_renew env = Inr t \<and> ct_value tok = (if ClientToken t = [] then old else ClientToken t)
        \<and> 0 < LeaseDuration t \<and> ct_lifetime tok = NewLifetime (re_renewNow env) (LeaseDuration t))"

lemma currentTokenFromAuth_Inr:
  "currentTokenFromAuth token fallback now require lease = Inr tok \<longleftrightarrow>
     (require \<longrightarrow> ct_value tok \<noteq> []) \<and> 0 < LeaseDuration token \<and> (0 < lease \<longrightarrow> lease < LeaseDuration token)
     \<and> tok = \<lparr>ct_value = (if ClientToken token = [] then fallback else ClientToken token),
              ct_lifetime = NewLifetime now (LeaseDuration token), ct_renewable = Renewable token\<rparr>"
  by (auto simp: currentTokenFromAuth_def Let_def)

lemma login_success:
  assumes "rr_err (login env action) = None"
  obtains result token where "re_login env = Inr result"
    "currentTokenFromAuth (lr_AuthToken result) [] (re_loginNow env) True (LoginBeforeTokenExpiry (ra_cfg action)) = Inr token"
    "rr_token (login env action) = token" "rr_kind (login env action) = RefreshLogin"
  using assms by (auto simp: login_def zero_result_def split: option.splits sum.splits)

lemma login_grants:
  assumes "rr_err (login env action) = None"
  shows "rr_kind (login env action) = RefreshLogin \<and> grants env old (rr_token (login env action))"
  using assms by (rule login_success) (auto simp: grants_def currentTokenFromAuth_Inr split: if_splits)

lemma refresh_success:
  assumes "rr_err (refresh_result env action) = None"
  obtains (renewed) renewedAt where "rr_kind (refresh_result env action) = RefreshRenew"
      "renew env action = Inr (rr_token (refresh_result env action), renewedAt)"
    | (logged_in) "rr_kind (refresh_result env action) = RefreshLogin" "rr_err (login env action) = None"
      "rr_token (refresh_result env action) = rr_token (login env action)"
proof -
  from assms have r: "refresh_result env action = performRefresh env action"
    by (simp add: refresh_result_def Let_def split: option.splits)
  show ?thesis
  proof (cases "ra_kind action = RefreshRenew \<and> (\<exists>t. renew env action = Inr t)")
    case True
    then obtain token at where "renew env action = Inr (token, at)" by auto
    with True show ?thesis using renewed [of at] by (simp add: r performRefresh_def)
  next
    case False
    have "rr_err (performRefresh env action) = rr_err (login env action) \<and> rr_token (performRefresh env action) = rr_token (login env action)
        \<and> rr_kind (performRefresh env action) = rr_kind (login env action)"
      using False by (cases "renew env action") (simp_all add: performRefresh_def)
    then have l: "rr_err (login env action) = None" "rr_token (refresh_result env action) = rr_token (login env action)"
        "rr_kind (refresh_result env action) = rr_kind (login env action)" using assms by (simp_all add: r)
    have "rr_kind (login env action) = RefreshLogin" using login_grants [OF l(1)] by blast
    then show ?thesis using logged_in l by simp
  qed
qed

lemma renew_grants:
  assumes "renew env action = Inr (tok, at)"
  shows "grants env (ct_value (ra_current action)) tok"
proof -
  obtain t where t: "re_renew env = Inr t"
      "currentTokenFromAuth t (ct_value (ra_current action)) (re_renewNow env) False (LoginBeforeTokenExpiry (ra_cfg action)) = Inr tok"
    using assms by (auto simp: renew_def)
  then have "0 < LeaseDuration t" "ct_lifetime tok = NewLifetime (re_renewNow env) (LeaseDuration t)"
      "ct_value tok = (if ClientToken t = [] then ct_value (ra_current action) else ClientToken t)"
    by (simp_all add: currentTokenFromAuth_Inr)
  with t(1) show ?thesis unfolding grants_def by (intro disjI2 exI [of _ t]) simp
qed

lemma refresh_result_grants:
  assumes "rr_err (refresh_result env action) = None"
  shows "grants env (ct_value (ra_current action)) (rr_token (refresh_result env action))"
    and "rr_kind (refresh_result env action) = RefreshLogin \<Longrightarrow> grants env old (rr_token (refresh_result env action))"
  using assms
  by (cases rule: refresh_success; simp add: login_grants renew_grants)+

lemma applyRefreshResultLocked_fields:
  "m_current (snd (applyRefreshResultLocked m result now jitter)) = (if rr_err result = None then rr_token result else m_current m)"
  "m_flight (snd (applyRefreshResultLocked m result now jitter)) = m_flight m"
  "m_nextRecoveryAt (snd (applyRefreshResultLocked m result now jitter)) = m_nextRecoveryAt m"
  "m_recoveryQuietUntil (snd (applyRefreshResultLocked m result now jitter)) = m_recoveryQuietUntil m"
  "m_recoveryFailures (snd (applyRefreshResultLocked m result now jitter)) = m_recoveryFailures m"
  "m_cfg (snd (applyRefreshResultLocked m result now jitter)) = m_cfg m"
  "m_baseRetryBackoff (snd (applyRefreshResultLocked m result now jitter)) = m_baseRetryBackoff m"
  "m_maxRetryBackoff (snd (applyRefreshResultLocked m result now jitter)) = m_maxRetryBackoff m"
  by (simp_all add: applyRefreshResultLocked_def Let_def split: option.split)

lemma settleRefresh_fields [simp]:
  "m_flight (snd (settleRefresh m action result lc now jitter)) = m_flight m"
  "m_nextRecoveryAt (snd (settleRefresh m action result lc now jitter)) = m_nextRecoveryAt m"
  "m_recoveryQuietUntil (snd (settleRefresh m action result lc now jitter)) = m_recoveryQuietUntil m"
  "m_recoveryFailures (snd (settleRefresh m action result lc now jitter)) = m_recoveryFailures m"
  "m_cfg (snd (settleRefresh m action result lc now jitter)) = m_cfg m"
  "m_baseRetryBackoff (snd (settleRefresh m action result lc now jitter)) = m_baseRetryBackoff m"
  "m_maxRetryBackoff (snd (settleRefresh m action result lc now jitter)) = m_maxRetryBackoff m"
  by (simp_all add: settleRefresh_def applyRefreshResultLocked_fields split: option.split)

text \<open>A refresh leaves the current token, or installs one it was granted; a renewal is never installed over another token.\<close>

lemma settleRefresh_token:
  "m_current (snd (settleRefresh m action (refresh_result env action) lc now jitter)) = m_current m
   \<or> grants env (ct_value (m_current m)) (m_current (snd (settleRefresh m action (refresh_result env action) lc now jitter)))
     \<and> grants env (ct_value (ra_current action)) (m_current (snd (settleRefresh m action (refresh_result env action) lc now jitter)))"
  using refresh_result_grants [of env action]
  by (cases "rr_kind (refresh_result env action)")
    (auto simp: settleRefresh_def applyRefreshResultLocked_fields split: option.split)

lemma runRefresh_fields [simp]:
  "a_m (runRefresh a fid action env lc now jitter) = (snd (settleRefresh (a_m a) action (refresh_result env action) lc now jitter))\<lparr>m_flight := None\<rparr>"
  "a_next (runRefresh a fid action env lc now jitter) = a_next a"
  "a_running (runRefresh a fid action env lc now jitter) = removeAll (fid, action) (a_running a)"
  by (simp_all add: runRefresh_def case_prod_beta Let_def)

lemma rejectTokenLocked_fields [simp]:
  "m_flight (snd (rejectTokenLocked m t now)) = m_flight m" "m_cfg (snd (rejectTokenLocked m t now)) = m_cfg m"
  "m_nextRetryAt (snd (rejectTokenLocked m t now)) = m_nextRetryAt m"
  "m_current (snd (rejectTokenLocked m t now)) = (if t = [] \<or> t \<noteq> ct_value (m_current m) then m_current m else no_token)"
  by (simp_all add: rejectTokenLocked_def Let_def)

lemma recover_section_snd: "snd (recover_section a t now checkNow) = RejectToken a t now"
  by (simp add: recover_section_def RejectToken_def case_prod_beta)

lemma State_snd: "\<exists>rs. m_current (snd (State txt m now)) = m_current (aged_token m rs)
   \<and> m_flight (snd (State txt m now)) = m_flight m \<and> m_nextRecoveryAt (snd (State txt m now)) = m_nextRecoveryAt m
   \<and> m_recoveryQuietUntil (snd (State txt m now)) = m_recoveryQuietUntil m
   \<and> m_recoveryFailures (snd (State txt m now)) = m_recoveryFailures m \<and> m_nextRetryAt (snd (State txt m now)) = m_nextRetryAt m"
  by (auto simp: State_def tokenExpiryLocked_def jwtTTLLocked_def current_remaining_eq Let_def case_prod_beta)

section \<open>Rejected tokens\<close>

text \<open>The token values that OpenBao gave out in a refresh.\<close>

fun issued_values :: "auth_event \<Rightarrow> string set" where
  "issued_values (Refreshed fid action env lc now jitter) =
     {ClientToken (lr_AuthToken result) | result. re_login env = Inr result} \<union> {ClientToken t | t. re_renew env = Inr t}"
| "issued_values _ = {}"

fun rejection :: "auth_event \<Rightarrow> (string \<times> Reading) option" where
  "rejection (Rejected t now) = Some (t, now)"
| "rejection (Recovering t now checkNow) = Some (t, now)"
| "rejection _ = None"

definition rejected_token :: "auth_event \<Rightarrow> string option" where
  "rejected_token ev = map_option fst (rejection ev)"

fun returned_token :: "auth_event \<Rightarrow> string option" where
  "returned_token (Pass ctx lc force now startNow (ReturnToken tok)) = Some (ct_value tok)"
| "returned_token _ = None"

lemma startRefreshLocked_token: "\<exists>rs. m_current (a_m (startRefreshLocked a force now)) = m_current (aged_token (a_m a) rs)"
proof (rule startRefreshLocked_eq [of a force now])
  fix rs
  assume "startRefreshLocked a force now =
     a\<lparr>a_m := (if counts_recovery (a_m a) then count_recovery (a_m a) now else aged_token (a_m a) rs)\<lparr>m_flight := Some (a_next a)\<rparr>,
       a_flights := (a_flights a)(a_next a \<mapsto> \<lparr>fl_done = False, fl_kind = ra_kind (refresh_action (a_m a) force now), fl_err = None\<rparr>),
       a_next := a_next a + 1, a_running := a_running a @ [(a_next a, refresh_action (a_m a) force now)]\<rparr>"
  then show ?thesis by (auto intro: exI [of _ "[]"])
qed

text \<open>What each step does to the current token.\<close>

lemma step_token:
  assumes "auth_step a ev a'"
  obtains (aged) rs where "m_current (a_m a') = m_current (aged_token (a_m a) rs)"
    | (granted) fid action env lc now jitter where "ev = Refreshed fid action env lc now jitter"
        "grants env (ct_value (m_current (a_m a))) (m_current (a_m a'))"
        "grants env (ct_value (ra_current action)) (m_current (a_m a'))"
    | (dropped) "m_current (a_m a') = no_token"
proof (cases ev)
  case (Pass ctx lc force now startNow out)
  with assms have "ensure_pass a ctx lc force now startNow = (out, a')" by simp
  then show ?thesis
  proof (cases rule: ensure_pass_cases)
    case (quiet rs)
    then show ?thesis using aged [of rs] by simp
  next
    case (started rs force')
    obtain rs' where "m_current (a_m a') = m_current (aged_token (aged_token (a_m a) rs) rs')"
      using startRefreshLocked_token [of "a\<lparr>a_m := aged_token (a_m a) rs\<rparr>" force' startNow] started(4) by auto
    then show ?thesis using aged [of "rs @ rs'"] by simp
  qed
next
  case (Refreshed fid action env lc now jitter)
  with assms have "a' = runRefresh a fid action env lc now jitter" by simp
  then show ?thesis
    using settleRefresh_token [of "a_m a" action env lc now jitter] granted [OF Refreshed] aged [of "[]"] by auto
next
  case (Rejected t now)
  with assms show ?thesis using aged [of "[]"] dropped
    by (cases "t = [] \<or> t \<noteq> ct_value (m_current (a_m a))") (auto simp: RejectToken_def)
next
  case (Recovering t now checkNow)
  with assms show ?thesis using aged [of "[]"] dropped
    by (cases "t = [] \<or> t \<noteq> ct_value (m_current (a_m a))") (auto simp: recover_section_snd RejectToken_def)
next
  case (StateRead now)
  with assms show ?thesis using State_snd [of "\<lambda>_. []" "a_m a" now] aged by auto
qed

lemma unissued_not_current:
  assumes "auth_step a ev a'" and "ct_value (m_current (a_m a)) \<noteq> t" and "t \<notin> issued_values ev" and "t \<noteq> []"
  shows "ct_value (m_current (a_m a')) \<noteq> t"
  using assms(1)
proof (cases rule: step_token)
  case (granted fid action env lc now jitter)
  then show ?thesis using assms by (auto simp: grants_def split: if_splits)
qed (use assms in \<open>auto simp: no_token_def\<close>)

lemma returned_current:
  assumes "auth_step a (Pass ctx lc force now startNow (ReturnToken tok)) a'"
  shows "ct_value tok = ct_value (m_current (a_m a)) \<and> ct_value tok \<noteq> [] \<and> 0 < fst (Remaining (ct_lifetime (m_current (a_m a))) now)"
proof -
  from assms have "ensure_pass a ctx lc force now startNow = (ReturnToken tok, a')" by simp
  then show ?thesis
  proof (cases rule: ensure_pass_cases)
    case (started rs force')
    then show ?thesis
      using startRefreshLocked_token [of "a\<lparr>a_m := aged_token (a_m a) rs\<rparr>" force' startNow] by auto
  qed auto
qed

lemma reject_drops:
  assumes "auth_step a ev a'" and "rejected_token ev = Some t" and "t \<noteq> []"
  shows "ct_value (m_current (a_m a')) \<noteq> t"
  using assms by (cases ev) (auto simp: rejected_token_def RejectToken_def recover_section_snd no_token_def)

text \<open>The manager keeps the promise of a token provider.\<close>

interpretation manager: token_provider auth_step "\<lambda>a. ct_value (m_current (a_m a))" returned_token rejected_token issued_values
proof unfold_locales
  fix s ev s' t
  assume step: "auth_step s ev s'"
  show "ct_value (m_current (a_m s)) = t \<and> t \<noteq> []" if ret: "returned_token ev = Some t"
  proof -
    obtain ctx lc force now startNow tok where "ev = Pass ctx lc force now startNow (ReturnToken tok)" "t = ct_value tok"
      using ret by (cases ev rule: returned_token.cases) auto
    with returned_current [of s ctx lc force now startNow tok s'] step show ?thesis by auto
  qed
  show "ct_value (m_current (a_m s')) \<noteq> t" if "rejected_token ev = Some t" "t \<noteq> []"
    using reject_drops [OF step that] .
  show "ct_value (m_current (a_m s')) \<noteq> t" if "ct_value (m_current (a_m s)) \<noteq> t" "t \<notin> issued_values ev" "t \<noteq> []"
    using unissued_not_current [OF step that] .
qed

end
