(* ===== verification/Auth_Lifecycle.thy ===== *)
theory Auth_Lifecycle
  imports Auth_Safety
begin

text \<open>
  Validity of returned tokens, the single shared refresh, the limits on recovery logins, and progress of the token manager.
\<close>

section \<open>Retry delays\<close>

text \<open>
  The delay after \<open>n\<close> consecutive failures is the base delay doubled \<open>n - 1\<close> times, capped at the limit; the loop never
  overflows. The delay before the next refresh, with any jitter, is positive and within the limit.
\<close>

lemma exponentialBackoff_closed_form:
  assumes "0 < base" and "base \<le> limit" and "limit \<le> max_duration"
  shows "exponentialBackoff base limit failures = (if failures \<le> 1 then base else min limit (base * 2 ^ nat (failures - 1)))
    \<and> (m_baseRetryBackoff m = base \<and> m_maxRetryBackoff m = limit \<longrightarrow>
        0 < nextRetryBackoffLocked m jitter \<and> nextRetryBackoffLocked m jitter \<le> limit)"
proof -
  have closed: "exponentialBackoff base limit f = (if f \<le> 1 then base else min limit (base * 2 ^ nat (f - 1)))" for f
    using backoff_loop_min [OF assms] by (simp add: exponentialBackoff_def)
  then have "0 < exponentialBackoff base limit f \<and> exponentialBackoff base limit f \<le> limit" for f
    using assms by auto
  moreover have "0 < limit" using assms by simp
  ultimately show ?thesis using closed by (auto simp: nextRetryBackoffLocked_def Let_def)
qed

section \<open>Rejected tokens\<close>

text \<open>
  C6 A rejected token is not used again: once a caller has reported a token as rejected, no call returns it, whatever the
  interleaving of callers, refreshes and other rejections, unless OpenBao has handed out the same value again in a later
  response. In particular a renewal that was in flight when its token was rejected does not bring it back.
\<close>

theorem rejected_token_not_returned:
  assumes "auth_run a evs1 b" and "auth_step b report c" and "rejected_token report = Some t"
    and "auth_run c evs2 d" and "auth_step d (Pass ctx lc force now startNow (ReturnToken tok)) e" and "ct_value tok = t"
  shows "\<exists>ev \<in> set evs2. t \<in> issued_values ev"
  using manager.rejected_not_returned [OF assms(2-5)] assms(6) by simp

section \<open>Validity\<close>

text \<open>
  The leases that OpenBao granted in a refresh: the token, the reading from which the manager counts the lease, and the lease. A login
  grants a lease to the token of its response, a renewal to the token of its response or, when the response names none, to the
  token it was asked to renew.
\<close>

fun leases :: "auth_event \<Rightarrow> (string \<times> Reading \<times> int) set" where
  "leases (Refreshed fid action env lc now jitter) =
     {(ClientToken (lr_AuthToken result), re_loginNow env, LeaseDuration (lr_AuthToken result)) | result. re_login env = Inr result}
     \<union> {(if ClientToken t = [] then ct_value (ra_current action) else ClientToken t, re_renewNow env, LeaseDuration t) | t. re_renew env = Inr t}"
| "leases _ = {}"

text \<open>A lease is a \<open>time.Duration\<close>.\<close>

definition leases_in_range :: "auth_state \<Rightarrow> auth_event \<Rightarrow> auth_state \<Rightarrow> bool" where
  "leases_in_range a ev a' \<longleftrightarrow> (\<forall>(t, issue, lease) \<in> leases ev. lease \<le> max_duration)"

definition leased :: "auth_event list \<Rightarrow> currentToken \<Rightarrow> bool" where
  "leased evs tok \<longleftrightarrow> (\<exists>ev issue lease rs. ev \<in> set evs \<and> (ct_value tok, issue, lease) \<in> leases ev \<and> 0 < lease \<and> lease \<le> max_duration
     \<and> ct_lifetime tok = aged (NewLifetime issue lease) rs)"

lemma leased_mono: "leased evs tok \<Longrightarrow> leased (evs @ evs') tok"
  by (fastforce simp: leased_def)

lemma leased_aged: "leased evs (m_current m) \<Longrightarrow> leased evs (m_current (aged_token m rs))"
  by (fastforce simp: leased_def aged_append)

lemma grants_leased:
  assumes "grants env (ct_value (ra_current action)) tok" and "leases_in_range a (Refreshed fid action env lc now jitter) a'"
  shows "leased (evs @ [Refreshed fid action env lc now jitter]) tok"
proof -
  from assms(1) obtain issue lease where "(ct_value tok, issue, lease) \<in> leases (Refreshed fid action env lc now jitter)" "0 < lease"
      "ct_lifetime tok = NewLifetime issue lease" by (auto simp: grants_def)
  with assms(2) show ?thesis
    unfolding leased_def leases_in_range_def by (intro exI [of _ "Refreshed fid action env lc now jitter"] exI [of _ issue] exI [of _ lease] exI [of _ "[]"]) auto
qed

lemma run_leased:
  assumes "run_where leases_in_range a evs b" and "ct_value (m_current (a_m a)) = []"
  shows "ct_value (m_current (a_m b)) \<noteq> [] \<longrightarrow> leased evs (m_current (a_m b))"
  using assms
proof (induction rule: steps_where.induct)
  case (run_snoc a evs b ev c)
  from \<open>auth_step b ev c\<close> show ?case
  proof (cases rule: step_token)
    case (aged rs)
    then show ?thesis using run_snoc leased_mono leased_aged by (metis aged_token_fields(11))
  next
    case (granted fid action env lc now jitter)
    then show ?thesis using grants_leased run_snoc.hyps(3) by blast
  qed (simp add: no_token_def)
qed simp

lemma live_lease:
  assumes "0 < lease" "lease \<le> max_duration" and "0 < fst (Remaining (aged (NewLifetime issue lease) rs) now)"
  shows "i64 (Elapsed now - Elapsed issue) < lease \<and> time_Sub (Wall now) (Wall issue) < lease"
proof -
  let ?l = "aged (NewLifetime issue lease) rs"
  have l: "l_set ?l" "lifetime_wf ?l" "l_limit ?l = lease" "l_start ?l = issue"
    using aged_wf [OF NewLifetime_wf] assms(1,2) by (simp_all add: NewLifetime_def)
  then show ?thesis using Age_ge(2,3) [OF l(1), of now] assms(3) Remaining_eq [OF l(1,2), of now] by simp
qed

text \<open>
  C21 Every token a call returns is live: OpenBao granted a lease to this very token in an earlier response (the login that issued it, or a
  renewal of it), and by the wall clock and by the monotonic clock less than that lease has passed since the reading taken after
  the response.
\<close>

theorem returned_tokens_live:
  assumes "NewManagerWithSource cfg source client opts = Inr m" and "run_where leases_in_range (new_auth_state m) evs b"
    and "auth_step b (Pass ctx lc force now startNow (ReturnToken tok)) c"
  shows "ct_value tok \<noteq> [] \<and> (\<exists>ev issue lease. ev \<in> set evs \<and> (ct_value tok, issue, lease) \<in> leases ev
    \<and> i64 (Elapsed now - Elapsed issue) < lease \<and> time_Sub (Wall now) (Wall issue) < lease)"
proof -
  from assms(1) have "ct_value (m_current m) = []"
    by (auto simp: NewManagerWithSource_def no_token_def Let_def split: option.splits)
  then have "ct_value (m_current (a_m b)) \<noteq> [] \<longrightarrow> leased evs (m_current (a_m b))"
    using run_leased [OF assms(2)] by (simp add: new_auth_state_def)
  with returned_current [OF assms(3)] have "ct_value tok \<noteq> []" "leased evs (m_current (a_m b))"
      "0 < fst (Remaining (ct_lifetime (m_current (a_m b))) now)" "ct_value tok = ct_value (m_current (a_m b))" by auto
  then show ?thesis using live_lease unfolding leased_def by (metis (no_types))
qed

section \<open>One refresh at a time\<close>

definition refresh_inv :: "auth_state \<Rightarrow> bool" where
  "refresh_inv a \<longleftrightarrow>
     (case m_flight (a_m a) of
        None \<Rightarrow> a_running a = [] | Some fid \<Rightarrow> fid < a_next a \<and> (\<exists>action. a_running a = [(fid, action)]))
     \<and> (\<forall>fid. (\<exists>f. a_flights a fid = Some f \<and> \<not> fl_done f) \<longrightarrow> m_flight (a_m a) = Some fid)
     \<and> (\<forall>fid. a_flights a fid = None \<longleftrightarrow> a_next a \<le> fid)"

lemma refresh_inv_manager: "refresh_inv a \<Longrightarrow> m_flight m = m_flight (a_m a) \<Longrightarrow> refresh_inv (a\<lparr>a_m := m\<rparr>)"
  by (auto simp: refresh_inv_def split: option.splits)

lemma startRefreshLocked_flights:
  "m_flight (a_m (startRefreshLocked a force now)) = Some (a_next a)"
  "a_flights (startRefreshLocked a force now) = (a_flights a)(a_next a \<mapsto> \<lparr>fl_done = False, fl_kind = ra_kind (refresh_action (a_m a) force now), fl_err = None\<rparr>)"
  "a_next (startRefreshLocked a force now) = a_next a + 1"
  "a_running (startRefreshLocked a force now) = a_running a @ [(a_next a, refresh_action (a_m a) force now)]"
  by (rule startRefreshLocked_eq [of a force now], simp)+

lemma startRefreshLocked_refresh_inv:
  assumes "refresh_inv a" and "m_flight (a_m a) = None"
  shows "refresh_inv (startRefreshLocked a force now)"
  using assms by (auto simp: refresh_inv_def startRefreshLocked_flights)

lemma runRefresh_flights:
  "a_flights (runRefresh a fid action env lc now jitter) =
     (a_flights a)(fid \<mapsto> \<lparr>fl_done = True, fl_kind = rr_kind (refresh_result env action),
       fl_err = fst (settleRefresh (a_m a) action (refresh_result env action) lc now jitter)\<rparr>)"
  by (simp add: runRefresh_def case_prod_beta Let_def)

lemma runRefresh_refresh_inv:
  assumes "refresh_inv a" and "(fid, action) \<in> set (a_running a)"
  shows "refresh_inv (runRefresh a fid action env lc now jitter)"
proof -
  have fid: "m_flight (a_m a) = Some fid" "a_running a = [(fid, action)]" "fid < a_next a"
    using assms by (auto simp: refresh_inv_def split: option.splits)
  with assms(1) show ?thesis by (auto simp: refresh_inv_def runRefresh_flights)
qed

lemma step_refresh_inv: "refresh_inv a \<Longrightarrow> auth_step a ev a' \<Longrightarrow> refresh_inv a'"
proof (cases ev)
  case (Pass ctx lc force now startNow out)
  assume inv: "refresh_inv a" and "auth_step a ev a'"
  with Pass have "ensure_pass a ctx lc force now startNow = (out, a')" by simp
  then show ?thesis
  proof (cases rule: ensure_pass_cases)
    case (quiet rs)
    then show ?thesis using refresh_inv_manager [OF inv] by simp
  next
    case (started rs force')
    then show ?thesis using startRefreshLocked_refresh_inv [OF refresh_inv_manager [OF inv, of "aged_token (a_m a) rs"]] by simp
  qed
next
  case (StateRead now)
  assume "refresh_inv a" and "auth_step a ev a'"
  then show ?thesis using State_snd [of "\<lambda>_. []" "a_m a" now] refresh_inv_manager StateRead by auto
qed (auto simp: runRefresh_refresh_inv refresh_inv_manager RejectToken_def recover_section_snd)

text \<open>
  C22 Callers share one refresh: at every reachable point at most one refresh goroutine runs, and it is the one the manager
  points to; a caller that starts to wait does so on that flight, so the goroutine that will wake it exists, and the only
  flight that is not finished is the current one.
\<close>

theorem single_flight:
  assumes "NewManagerWithSource cfg source client opts = Inr m" and "auth_run (new_auth_state m) evs a"
  shows "length (a_running a) \<le> 1
    \<and> (\<forall>fid f. a_flights a fid = Some f \<and> \<not> fl_done f \<longrightarrow> m_flight (a_m a) = Some fid \<and> fid \<in> fst ` set (a_running a))
    \<and> (\<forall>ctx lc force now startNow fid a'. auth_step a (Pass ctx lc force now startNow (WaitFor fid)) a' \<longrightarrow> fid \<in> fst ` set (a_running a'))"
proof -
  from assms(1) have "m_flight m = None" by (auto simp: NewManagerWithSource_def Let_def split: option.splits)
  then have "refresh_inv (new_auth_state m)" by (simp add: refresh_inv_def new_auth_state_def)
  from assms(2) have inv: "refresh_inv a" by (rule run_invariant) (use \<open>refresh_inv (new_auth_state m)\<close> step_refresh_inv in blast)+
  have wait: "fid \<in> fst ` set (a_running a')" if step: "auth_step a (Pass ctx lc force now startNow (WaitFor fid)) a'" for ctx lc force now startNow fid a'
  proof -
    have "refresh_inv a'" using step_refresh_inv [OF inv step] .
    moreover have "m_flight (a_m a') = Some fid"
    proof -
      from step have "ensure_pass a ctx lc force now startNow = (WaitFor fid, a')" by simp
      then show ?thesis by (cases rule: ensure_pass_cases) (auto simp: startRefreshLocked_flights)
    qed
    ultimately show ?thesis by (auto simp: refresh_inv_def)
  qed
  with inv show ?thesis by (auto simp: refresh_inv_def split: option.splits)
qed

section \<open>Recovery logins\<close>

text \<open>A step that starts a login after a rejection, and a rejection that opens a new incident.\<close>

definition recovery_started :: "auth_state \<Rightarrow> auth_event \<Rightarrow> auth_state \<Rightarrow> bool" where
  "recovery_started a ev a' \<longleftrightarrow> counts_recovery (a_m a) \<and> m_flight (a_m a) = None \<and> m_flight (a_m a') \<noteq> None"

definition new_incident :: "auth_state \<Rightarrow> auth_event \<Rightarrow> auth_state \<Rightarrow> bool" where
  "new_incident a ev a' \<longleftrightarrow> (\<exists>t now. rejection ev = Some (t, now) \<and> t \<noteq> [] \<and> t = ct_value (m_current (a_m a))
     \<and> \<not> Pending (m_recoveryQuietUntil (a_m a)) now)"

definition within_incident :: "auth_state \<Rightarrow> auth_event \<Rightarrow> auth_state \<Rightarrow> bool" where
  "within_incident a ev a' \<longleftrightarrow> \<not> recovery_started a ev a' \<and> \<not> new_incident a ev a'"

lemma startRefreshLocked_recovery:
  "m_nextRecoveryAt (a_m (startRefreshLocked a force now)) =
     (if counts_recovery (a_m a)
      then clock_After now (exponentialBackoff tokenRecoveryInterval maxTokenRecoveryInterval (m_recoveryFailures (a_m a)))
      else m_nextRecoveryAt (a_m a))"
  "m_recoveryFailures (a_m (startRefreshLocked a force now)) =
     (if counts_recovery (a_m a)
         \<and> exponentialBackoff tokenRecoveryInterval maxTokenRecoveryInterval (m_recoveryFailures (a_m a)) < maxTokenRecoveryInterval
      then i64 (m_recoveryFailures (a_m a) + 1) else m_recoveryFailures (a_m a))"
  "m_recoveryQuietUntil (a_m (startRefreshLocked a force now)) = m_recoveryQuietUntil (a_m a)"
  by (rule startRefreshLocked_eq [of a force now], simp add: count_recovery_def Let_def)+

lemma counts_recovery_aged [simp]: "counts_recovery (aged_token m rs) = counts_recovery m"
  by (simp add: counts_recovery_def)

lemma reject_recovery:
  assumes "\<not> (t \<noteq> [] \<and> t = ct_value (m_current m) \<and> \<not> Pending (m_recoveryQuietUntil m) now)"
  shows "m_nextRecoveryAt (snd (rejectTokenLocked m t now)) = m_nextRecoveryAt m"
    "m_recoveryFailures (snd (rejectTokenLocked m t now)) = m_recoveryFailures m"
  using assms by (auto simp: rejectTokenLocked_def Let_def)

lemma within_incident_keeps:
  assumes "auth_step a ev a'" and "within_incident a ev a'"
  shows "m_nextRecoveryAt (a_m a') = m_nextRecoveryAt (a_m a) \<and> m_recoveryFailures (a_m a') = m_recoveryFailures (a_m a)"
proof (cases ev)
  case (Pass ctx lc force now startNow out)
  with assms(1) have "ensure_pass a ctx lc force now startNow = (out, a')" by simp
  then show ?thesis
  proof (cases rule: ensure_pass_cases)
    case (started rs force')
    then show ?thesis using assms(2)
      by (auto simp: within_incident_def recovery_started_def startRefreshLocked_recovery startRefreshLocked_flights)
  qed simp
next
  case (StateRead now)
  with assms(1) show ?thesis using State_snd [of "\<lambda>_. []" "a_m a" now] by auto
next
  case (Rejected t now)
  then have "\<not> (t \<noteq> [] \<and> t = ct_value (m_current (a_m a)) \<and> \<not> Pending (m_recoveryQuietUntil (a_m a)) now)"
    using assms(2) by (auto simp: within_incident_def new_incident_def)
  with assms(1) Rejected show ?thesis by (simp add: RejectToken_def reject_recovery)
next
  case (Recovering t now checkNow)
  then have "\<not> (t \<noteq> [] \<and> t = ct_value (m_current (a_m a)) \<and> \<not> Pending (m_recoveryQuietUntil (a_m a)) now)"
    using assms(2) by (auto simp: within_incident_def new_incident_def)
  with assms(1) Recovering show ?thesis by (simp add: RejectToken_def recover_section_snd reject_recovery)
qed (use assms in auto)

lemma recovery_start_pass:
  assumes "auth_step a (Pass ctx lc force now startNow out) a'" and "recovery_started a (Pass ctx lc force now startNow out) a'"
  shows "\<not> Pending (m_nextRecoveryAt (a_m a)) now"
    "m_nextRecoveryAt (a_m a') = clock_After startNow (exponentialBackoff tokenRecoveryInterval maxTokenRecoveryInterval (m_recoveryFailures (a_m a)))"
    "m_recoveryFailures (a_m a') =
      (if exponentialBackoff tokenRecoveryInterval maxTokenRecoveryInterval (m_recoveryFailures (a_m a)) < maxTokenRecoveryInterval
       then i64 (m_recoveryFailures (a_m a) + 1) else m_recoveryFailures (a_m a))"
proof -
  from assms(1) have "ensure_pass a ctx lc force now startNow = (out, a')" by simp
  then show "\<not> Pending (m_nextRecoveryAt (a_m a)) now"
    "m_nextRecoveryAt (a_m a') = clock_After startNow (exponentialBackoff tokenRecoveryInterval maxTokenRecoveryInterval (m_recoveryFailures (a_m a)))"
    "m_recoveryFailures (a_m a') =
      (if exponentialBackoff tokenRecoveryInterval maxTokenRecoveryInterval (m_recoveryFailures (a_m a)) < maxTokenRecoveryInterval
       then i64 (m_recoveryFailures (a_m a) + 1) else m_recoveryFailures (a_m a))"
    by (cases rule: ensure_pass_cases; use assms(2) in
        \<open>auto simp: recovery_started_def startRefreshLocked_recovery counts_recovery_def\<close>)+
qed

lemma recovery_backoff:
  "exponentialBackoff tokenRecoveryInterval maxTokenRecoveryInterval n =
     (if n \<le> 1 then tokenRecoveryInterval else min maxTokenRecoveryInterval (tokenRecoveryInterval * 2 ^ nat (n - 1)))"
  using backoff_loop_min [of tokenRecoveryInterval maxTokenRecoveryInterval "nat (n - 1)"]
  by (simp add: exponentialBackoff_def tokenRecoveryInterval_def maxTokenRecoveryInterval_def second_def max_duration_def)

text \<open>
  C23 Denials cannot cause a login storm: within one incident (each rejection within ten minutes of the one before) the login
  that follows a recovery login, in whatever way callers, refreshes and rejections interleave, starts no earlier than the
  recovery delay after it: five seconds doubled with each recovery login of the incident, up to five minutes.
\<close>

theorem recovery_logins_spaced:
  assumes "auth_step a (Pass ctx lc force now startNow out) a1" and "recovery_started a (Pass ctx lc force now startNow out) a1"
    and "run_where within_incident a1 evs b"
    and "auth_step b (Pass ctx' lc' force' now' startNow' out') c" and "recovery_started b (Pass ctx' lc' force' now' startNow' out') c"
    and "m_recoveryFailures (a_m a) = int n" and "in_i64 (int n + 1)" and "in_i64 (Elapsed startNow + maxTokenRecoveryInterval)" "0 \<le> Elapsed startNow"
  shows "Elapsed startNow + min maxTokenRecoveryInterval (tokenRecoveryInterval * 2 ^ (n - 1)) \<le> Elapsed now'
    \<and> m_recoveryFailures (a_m b) =
        (if tokenRecoveryInterval * 2 ^ (n - 1) < maxTokenRecoveryInterval then int n + 1 else int n)"
proof -
  let ?d = "min maxTokenRecoveryInterval (tokenRecoveryInterval * 2 ^ (n - 1))"
  have n: "0 < n" using assms(2,6) by (simp add: recovery_started_def counts_recovery_def)
  have d: "exponentialBackoff tokenRecoveryInterval maxTokenRecoveryInterval (int n) = ?d"
    using n unfolding recovery_backoff
    by (cases "n = 1") (auto simp: tokenRecoveryInterval_def maxTokenRecoveryInterval_def second_def nat_diff_distrib)
  note start = recovery_start_pass [OF assms(1,2), unfolded assms(6) d]
  have "m_nextRecoveryAt (a_m b) = m_nextRecoveryAt (a_m a1) \<and> m_recoveryFailures (a_m b) = m_recoveryFailures (a_m a1)"
  proof (rule run_invariant [OF assms(3), where I = "\<lambda>s. m_nextRecoveryAt (a_m s) = m_nextRecoveryAt (a_m a1)
      \<and> m_recoveryFailures (a_m s) = m_recoveryFailures (a_m a1)"])
    fix s ev s'
    assume "m_nextRecoveryAt (a_m s) = m_nextRecoveryAt (a_m a1) \<and> m_recoveryFailures (a_m s) = m_recoveryFailures (a_m a1)"
      "auth_step s ev s'" "within_incident s ev s'"
    then show "m_nextRecoveryAt (a_m s') = m_nextRecoveryAt (a_m a1) \<and> m_recoveryFailures (a_m s') = m_recoveryFailures (a_m a1)"
      using within_incident_keeps [of s ev s'] by simp
  qed simp
  with start have b: "m_nextRecoveryAt (a_m b) = clock_After startNow ?d"
      "m_recoveryFailures (a_m b) = (if ?d < maxTokenRecoveryInterval then int n + 1 else int n)"
    using assms(7) by auto
  have "in_i64 (Elapsed startNow + ?d)"
  proof -
    have "0 \<le> ?d" by (simp add: tokenRecoveryInterval_def maxTokenRecoveryInterval_def second_def)
    moreover have "?d \<le> maxTokenRecoveryInterval" by simp
    ultimately show ?thesis using assms(8,9) unfolding in_i64_def by linarith
  qed
  with recovery_start_pass(1) [OF assms(4,5)] b(1) have "\<not> Elapsed now' - Elapsed startNow < ?d"
    by (metis deadline_pending)
  then have "Elapsed startNow + ?d \<le> Elapsed now'" by linarith
  with b(2) show ?thesis by (auto simp: min_less_iff_conj)
qed

section \<open>Progress\<close>

text \<open>The refresh goroutine of a state runs to its end.\<close>

definition finish_refresh :: "refresh_env \<Rightarrow> go_error option \<Rightarrow> Reading \<Rightarrow> (int \<Rightarrow> int) \<Rightarrow> auth_state \<Rightarrow> auth_state" where
  "finish_refresh env lc now jitter a = (case a_running a of (fid, action) # _ \<Rightarrow> runRefresh a fid action env lc now jitter | [] \<Rightarrow> a)"

lemma login_ok:
  assumes "re_ctxErr env = None" "re_ctxErrAfter env = None" "re_login env = Inr result" "ClientToken (lr_AuthToken result) \<noteq> []"
    and "LoginBeforeTokenExpiry (ra_cfg action) < LeaseDuration (lr_AuthToken result)" "0 < LeaseDuration (lr_AuthToken result)"
    and "ra_kind action = RefreshLogin"
  shows "rr_err (refresh_result env action) = None" "rr_kind (refresh_result env action) = RefreshLogin"
    "rr_token (refresh_result env action) = \<lparr>ct_value = ClientToken (lr_AuthToken result),
       ct_lifetime = NewLifetime (re_loginNow env) (LeaseDuration (lr_AuthToken result)), ct_renewable = Renewable (lr_AuthToken result)\<rparr>"
  using assms by (simp_all add: refresh_result_def performRefresh_def login_def zero_result_def currentTokenFromAuth_def)

lemma pass_returns:
  assumes "ct_value (m_current (a_m a)) \<noteq> []" and "0 < fst (Remaining (ct_lifetime (m_current (a_m a))) now)"
  shows "\<exists>tok a'. ensure_pass a LiveContext None False now startNow = (ReturnToken tok, a') \<and> ct_value tok = ct_value (m_current (a_m a))"
proof -
  obtain out a' where p: "ensure_pass a LiveContext None False now startNow = (out, a')" by (cases "ensure_pass a LiveContext None False now startNow")
  then have "\<exists>tok. out = ReturnToken tok" using assms by (auto simp: ensure_pass_def current_remaining_eq Let_def)
  with p returned_current show ?thesis by (metis auth_step.simps(1))
qed

lemma pass_starts:
  assumes "m_flight (a_m a) = None" and "ct_value (m_current (a_m a)) = []" and "\<not> loginBlockedLocked (a_m a) now"
  shows "ensure_pass a LiveContext None force now startNow = (WaitFor (a_next a), startRefreshLocked a force startNow)"
  using assms by (simp add: ensure_pass_def startRefreshLocked_flights)

text \<open>A state in which the next call logs in, and the environment of a login that succeeds.\<close>

definition session_needed :: "auth_state \<Rightarrow> Reading \<Rightarrow> bool" where
  "session_needed a now \<longleftrightarrow> refresh_inv a \<and> m_flight (a_m a) = None \<and> ct_value (m_current (a_m a)) = [] \<and> \<not> loginBlockedLocked (a_m a) now"

definition login_answered :: "refresh_env \<Rightarrow> AuthToken \<Rightarrow> int \<Rightarrow> bool" where
  "login_answered env token margin \<longleftrightarrow>
     re_ctxErr env = None \<and> re_ctxErrAfter env = None \<and> (\<exists>result. re_login env = Inr result \<and> lr_AuthToken result = token)
     \<and> ClientToken token \<noteq> [] \<and> margin < LeaseDuration token \<and> 0 < LeaseDuration token"

lemma login_scenario:
  fixes force :: bool and startNow settleNow :: Reading and jitter :: "int \<Rightarrow> int"
  assumes "session_needed a now" and "login_answered env token (LoginBeforeTokenExpiry (m_cfg (a_m a)))"
  defines "action \<equiv> refresh_action (a_m a) force startNow"
  defines "a1 \<equiv> startRefreshLocked a force startNow"
  defines "a2 \<equiv> runRefresh a1 (a_next a) action env None settleNow jitter"
  shows "auth_step a (Pass LiveContext None force now startNow (WaitFor (a_next a))) a1"
    and "auth_step a1 (Refreshed (a_next a) action env None settleNow jitter) a2"
    and "finish_refresh env None settleNow jitter a1 = a2"
    and "after_wait a2 (a_next a) WaitFlight force = Inr False"
    and "m_current (a_m a2) = \<lparr>ct_value = ClientToken token, ct_lifetime = NewLifetime (re_loginNow env) (LeaseDuration token),
       ct_renewable = Renewable token\<rparr>"
    and "m_nextRetryAt (a_m a2) = no_deadline"
proof -
  from assms(1) have n: "refresh_inv a" "m_flight (a_m a) = None" "ct_value (m_current (a_m a)) = []" "\<not> loginBlockedLocked (a_m a) now"
    by (simp_all add: session_needed_def)
  from assms(2) obtain result where env: "re_ctxErr env = None" "re_ctxErrAfter env = None" "re_login env = Inr result"
      "lr_AuthToken result = token" "ClientToken token \<noteq> []" "LoginBeforeTokenExpiry (m_cfg (a_m a)) < LeaseDuration token" "0 < LeaseDuration token"
    by (auto simp: login_answered_def)
  have kind: "ra_kind action = RefreshLogin" using refresh_action_login n(3) unfolding action_def by blast
  have running: "a_running a1 = [(a_next a, action)]"
    using n(1,2) by (simp add: a1_def action_def startRefreshLocked_flights refresh_inv_def)
  have ok: "rr_err (refresh_result env action) = None" "rr_kind (refresh_result env action) = RefreshLogin"
      "rr_token (refresh_result env action) = \<lparr>ct_value = ClientToken token, ct_lifetime = NewLifetime (re_loginNow env) (LeaseDuration token),
         ct_renewable = Renewable token\<rparr>"
    using login_ok [of env result action] env kind by (simp_all add: action_def)
  have settled: "fst (settleRefresh (a_m a1) action (refresh_result env action) None settleNow jitter) = None"
      "m_nextRetryAt (snd (settleRefresh (a_m a1) action (refresh_result env action) None settleNow jitter)) = no_deadline"
      "m_current (snd (settleRefresh (a_m a1) action (refresh_result env action) None settleNow jitter)) = rr_token (refresh_result env action)"
    using ok by (simp_all add: settleRefresh_def applyRefreshResultLocked_fields) (simp_all add: applyRefreshResultLocked_def Let_def)
  show "auth_step a (Pass LiveContext None force now startNow (WaitFor (a_next a))) a1"
    using pass_starts [OF n(2-4)] by (simp add: a1_def)
  show "auth_step a1 (Refreshed (a_next a) action env None settleNow jitter) a2" using running by (simp add: a2_def)
  show "finish_refresh env None settleNow jitter a1 = a2" using running by (simp add: finish_refresh_def a2_def)
  show "after_wait a2 (a_next a) WaitFlight force = Inr False"
    using settled(1) ok(2) by (simp add: a2_def after_wait_def waitForRefresh_def runRefresh_flights)
  show "m_current (a_m a2) = \<lparr>ct_value = ClientToken token, ct_lifetime = NewLifetime (re_loginNow env) (LeaseDuration token),
       ct_renewable = Renewable token\<rparr>" "m_nextRetryAt (a_m a2) = no_deadline"
    using settled(2,3) ok(3) by (simp_all add: a2_def)
qed

text \<open>
  A caller without a session gets one: when no token is held, no refresh is in flight and no delay is pending, a call of
  \<open>Token\<close> starts a login; when OpenBao answers it with a token whose lease is longer than the configured margin, the call
  returns that token, provided the lease is still running when it looks again.
\<close>

lemma token_obtained:
  assumes "session_needed a now" and "login_answered env token (LoginBeforeTokenExpiry (m_cfg (a_m a)))"
    and "0 < fst (Remaining (NewLifetime (re_loginNow env) (LeaseDuration token)) now2)"
  shows "fst (Token a
     [\<lparr>er_ctx = LiveContext, er_lifecycle = None, er_now = now, er_startNow = startNow,
        er_others = finish_refresh env None settleNow jitter, er_wait = WaitFlight\<rparr>,
      \<lparr>er_ctx = LiveContext, er_lifecycle = None, er_now = now2, er_startNow = startNow2, er_others = others, er_wait = wait\<rparr>])
     = Some (Inr (ClientToken token))"
proof -
  let ?a1 = "startRefreshLocked a False startNow" and ?action = "refresh_action (a_m a) False startNow"
  let ?a2 = "runRefresh ?a1 (a_next a) ?action env None settleNow jitter"
  have s: "auth_step a (Pass LiveContext None False now startNow (WaitFor (a_next a))) ?a1" "finish_refresh env None settleNow jitter ?a1 = ?a2"
      "after_wait ?a2 (a_next a) WaitFlight False = Inr False"
      "m_current (a_m ?a2) = \<lparr>ct_value = ClientToken token, ct_lifetime = NewLifetime (re_loginNow env) (LeaseDuration token),
         ct_renewable = Renewable token\<rparr>"
    by (rule login_scenario [OF assms(1,2)])+
  have t: "ClientToken token \<noteq> []" using assms(2) by (auto simp: login_answered_def)
  then obtain tok a3 where "ensure_pass ?a2 LiveContext None False now2 startNow2 = (ReturnToken tok, a3)" "ct_value tok = ClientToken token"
    using pass_returns [of ?a2 now2 startNow2] s(4) assms(3) by auto
  with s(1-3) t show ?thesis by (simp add: Token_def Let_def)
qed

section \<open>Examples\<close>

definition ex_reading :: "int \<Rightarrow> Reading" where "ex_reading t = \<lparr>Wall = 1000 + t, Elapsed = t\<rparr>"

definition ex_auth_token :: AuthToken where
  "ex_auth_token = \<lparr>ClientToken = ''s.tok'', LeaseDuration = 3600 * second, Renewable = True, Policies = [], TokenPolicies = []\<rparr>"

definition ex_refresh_env :: "int \<Rightarrow> refresh_env" where
  "ex_refresh_env t = \<lparr>re_ctxErr = None, re_login = Inr \<lparr>lr_AuthToken = ex_auth_token, lr_JWT = zero_JWT, lr_Certificate = zero_Certificate\<rparr>,
     re_loginNow = ex_reading t, re_renew = Inl (Msg ''down''), re_renewNow = ex_reading t, re_ctxErrAfter = None\<rparr>"

definition ex_manager_options :: ManagerOptions where
  "ex_manager_options = \<lparr>mo_LifecycleContext = LiveContext, mo_RefreshTimeout = 0, mo_RenewalEnabled = True, mo_RefreshRetryBackoff = 0,
     mo_MaxRefreshRetryBackoff = 0\<rparr>"

definition ex_lifecycle :: LifecycleConfig where
  "ex_lifecycle = \<lparr>LoginBeforeTokenExpiry = 300 * second, TokenRenewalIncrement = 3600 * second\<rparr>"

abbreviation ex_source :: "SourceInfo option" where
  "ex_source \<equiv> Some \<lparr>si_AuthMethod = ''jwt'', si_CertificateSource = []\<rparr>"

lemma ex_manager:
  obtains m where "NewManagerWithSource ex_lifecycle ex_source True ex_manager_options = Inr m" "session_needed (new_auth_state m) now"
    "m_cfg m = ex_lifecycle" "m_recoveryQuietUntil m = no_deadline"
proof -
  obtain m where "NewManagerWithSource ex_lifecycle ex_source True ex_manager_options = Inr m" "m_flight m = None" "m_current m = no_token"
      "m_nextRetryAt m = no_deadline" "m_nextRecoveryAt m = no_deadline" "m_cfg m = ex_lifecycle" "m_recoveryQuietUntil m = no_deadline"
    by (simp add: NewManagerWithSource_def ex_lifecycle_def ex_manager_options_def validateLifecycleConfig_def second_def Let_def)
  then show ?thesis using that [of m]
    by (simp add: session_needed_def refresh_inv_def new_auth_state_def no_token_def loginBlockedLocked_def retryBlockedLocked_def
        Pending_def no_deadline_def)
qed

lemma ex_login_answered: "login_answered (ex_refresh_env t) ex_auth_token (LoginBeforeTokenExpiry ex_lifecycle)"
  by (simp add: login_answered_def ex_refresh_env_def ex_auth_token_def ex_lifecycle_def second_def)

lemma ex_lease_live: "0 \<le> t \<Longrightarrow> t \<le> u \<Longrightarrow> u < t + 3600 * second \<Longrightarrow> t < 10 ^ 18 \<Longrightarrow>
  0 < fst (Remaining (NewLifetime (re_loginNow (ex_refresh_env t)) (LeaseDuration ex_auth_token)) (ex_reading u))"
proof -
  assume "0 \<le> t" "t \<le> u" "u < t + 3600 * second" "t < 10 ^ 18"
  moreover from this have "i64 (u - t) = u - t" "time_Sub (1000 + u) (1000 + t) = u - t"
    by (auto simp: in_i64_def second_def time_Sub_def min_duration_def max_duration_def intro!: i64_id)
  moreover from calculation have "i64 (3600 * second - (u - t)) = 3600 * second - (u - t)"
    by (intro i64_id) (auto simp: in_i64_def second_def)
  ultimately show ?thesis
    by (simp add: Remaining_def Age_def NewLifetime_def ex_refresh_env_def ex_reading_def ex_auth_token_def Let_def)
qed

text \<open>A login at time \<open>t\<close>, and the state after it.\<close>

lemma ex_session:
  assumes "session_needed a (ex_reading t)" and "m_cfg (a_m a) = ex_lifecycle" and "0 \<le> t" "t < 10 ^ 18"
  obtains evs a2 tok a3 where "run_where leases_in_range a evs a2" "auth_run a evs a2" "refresh_inv a2" "m_flight (a_m a2) = None"
    "m_nextRetryAt (a_m a2) = no_deadline" "m_cfg (a_m a2) = ex_lifecycle" "ct_value (m_current (a_m a2)) = ''s.tok''"
    "auth_step a2 (Pass LiveContext None False (ex_reading (t + 1)) (ex_reading (t + 1)) (ReturnToken tok)) a3" "ct_value tok = ''s.tok''"
    "evs = [Pass LiveContext None False (ex_reading t) (ex_reading t) (WaitFor (a_next a)),
            Refreshed (a_next a) (refresh_action (a_m a) False (ex_reading t)) (ex_refresh_env t) None (ex_reading t) (\<lambda>d. d)]"
    "a2 = runRefresh (startRefreshLocked a False (ex_reading t)) (a_next a) (refresh_action (a_m a) False (ex_reading t)) (ex_refresh_env t)
            None (ex_reading t) (\<lambda>d. d)"
proof -
  have ans: "login_answered (ex_refresh_env t) ex_auth_token (LoginBeforeTokenExpiry (m_cfg (a_m a)))"
    using ex_login_answered assms(2) by simp
  let ?a1 = "startRefreshLocked a False (ex_reading t)" and ?action = "refresh_action (a_m a) False (ex_reading t)"
  let ?a2 = "runRefresh ?a1 (a_next a) ?action (ex_refresh_env t) None (ex_reading t) (\<lambda>d. d)"
  let ?evs = "[Pass LiveContext None False (ex_reading t) (ex_reading t) (WaitFor (a_next a)),
            Refreshed (a_next a) ?action (ex_refresh_env t) None (ex_reading t) (\<lambda>d. d)]"
  have s: "auth_step a (Pass LiveContext None False (ex_reading t) (ex_reading t) (WaitFor (a_next a))) ?a1"
      "auth_step ?a1 (Refreshed (a_next a) ?action (ex_refresh_env t) None (ex_reading t) (\<lambda>d. d)) ?a2"
      "m_current (a_m ?a2) = \<lparr>ct_value = ClientToken ex_auth_token, ct_lifetime = NewLifetime (re_loginNow (ex_refresh_env t)) (LeaseDuration ex_auth_token),
         ct_renewable = Renewable ex_auth_token\<rparr>" "m_nextRetryAt (a_m ?a2) = no_deadline"
    by (rule login_scenario [OF assms(1) ans])+
  have inv: "refresh_inv ?a2" using step_refresh_inv [OF step_refresh_inv [OF _ s(1)] s(2)] assms(1) by (simp add: session_needed_def)
  have "leases_in_range ?a1 (Refreshed (a_next a) ?action (ex_refresh_env t) None (ex_reading t) (\<lambda>d. d)) ?a2"
    by (simp add: leases_in_range_def ex_refresh_env_def ex_auth_token_def second_def max_duration_def)
  then have run: "run_where leases_in_range a ([] @ [Pass LiveContext None False (ex_reading t) (ex_reading t) (WaitFor (a_next a))]
      @ [Refreshed (a_next a) ?action (ex_refresh_env t) None (ex_reading t) (\<lambda>d. d)]) ?a2"
    unfolding append_assoc [symmetric]
    by (intro run_snoc [OF run_snoc [OF run_refl]]) (use s(1,2) in \<open>simp_all add: leases_in_range_def\<close>)
  have run': "auth_run a ([] @ [Pass LiveContext None False (ex_reading t) (ex_reading t) (WaitFor (a_next a))]
      @ [Refreshed (a_next a) ?action (ex_refresh_env t) None (ex_reading t) (\<lambda>d. d)]) ?a2"
    unfolding append_assoc [symmetric] by (intro run_snoc [OF run_snoc [OF run_refl]]) (use s(1,2) in simp_all)
  have live: "0 < fst (Remaining (ct_lifetime (m_current (a_m ?a2))) (ex_reading (t + 1)))"
    using ex_lease_live [of t "t + 1"] assms(3,4) s(3) by (simp add: second_def)
  obtain tok a3 where "ensure_pass ?a2 LiveContext None False (ex_reading (t + 1)) (ex_reading (t + 1)) = (ReturnToken tok, a3)"
      "ct_value tok = ''s.tok''"
    using pass_returns [OF _ live, of "ex_reading (t + 1)"] s(3) by (auto simp: ex_auth_token_def)
  moreover have "m_cfg (a_m ?a1) = m_cfg (a_m a)" by (rule startRefreshLocked_eq [of a False "ex_reading t"]) simp
  ultimately show ?thesis using that [of ?evs ?a2 tok a3] run run' inv s(3,4) assms(2) by (simp add: ex_auth_token_def)
qed

text \<open>After a rejection of the token the state needs a session again.\<close>

lemma rejected_session_needed:
  assumes "refresh_inv a" "m_flight (a_m a) = None" "m_nextRetryAt (a_m a) = no_deadline" "ct_value (m_current (a_m a)) = t" "t \<noteq> []"
    and "\<not> Pending (m_nextRecoveryAt (a_m (RejectToken a t now))) later"
  shows "session_needed (RejectToken a t now) later"
  using assms by (simp add: session_needed_def RejectToken_def refresh_inv_manager loginBlockedLocked_def retryBlockedLocked_def
      Pending_def no_deadline_def no_token_def)

theorem returned_tokens_live_witness:
  "\<exists>m evs b c tok. NewManagerWithSource ex_lifecycle ex_source True ex_manager_options = Inr m
     \<and> run_where leases_in_range (new_auth_state m) evs b
     \<and> auth_step b (Pass LiveContext None False (ex_reading 1) (ex_reading 1) (ReturnToken tok)) c \<and> ct_value tok = ''s.tok''
     \<and> (\<exists>ev issue lease. ev \<in> set evs \<and> (''s.tok'', issue, lease) \<in> leases ev \<and> i64 (1 - Elapsed issue) < lease)"
proof -
  obtain m where m: "NewManagerWithSource ex_lifecycle ex_source True ex_manager_options = Inr m"
      "session_needed (new_auth_state m) (ex_reading 0)" "m_cfg m = ex_lifecycle" by (rule ex_manager)
  obtain evs b tok c where s: "run_where leases_in_range (new_auth_state m) evs b" "ct_value tok = ''s.tok''"
      "auth_step b (Pass LiveContext None False (ex_reading (0 + 1)) (ex_reading (0 + 1)) (ReturnToken tok)) c"
    by (rule ex_session [OF m(2)]) (use m(3) in \<open>simp_all add: new_auth_state_def\<close>)
  from returned_tokens_live [OF m(1) s(1,3)] have "\<exists>ev issue lease. ev \<in> set evs \<and> (''s.tok'', issue, lease) \<in> leases ev \<and> i64 (1 - Elapsed issue) < lease"
    unfolding s(2) by (auto simp: ex_reading_def)
  moreover have "auth_step b (Pass LiveContext None False (ex_reading 1) (ex_reading 1) (ReturnToken tok)) c" using s(3) by simp
  ultimately show ?thesis using m(1) s(1,2) by blast
qed

theorem single_flight_witness:
  "\<exists>m evs a. NewManagerWithSource ex_lifecycle ex_source True ex_manager_options = Inr m \<and> auth_run (new_auth_state m) evs a
     \<and> evs \<noteq> [] \<and> length (a_running a) \<le> 1"
proof -
  obtain m where m: "NewManagerWithSource ex_lifecycle ex_source True ex_manager_options = Inr m"
      "session_needed (new_auth_state m) (ex_reading 0)" "m_cfg m = ex_lifecycle" by (rule ex_manager)
  obtain evs b where s: "auth_run (new_auth_state m) evs b" "evs \<noteq> []"
    by (rule ex_session [OF m(2)]) (use m(3) in \<open>simp_all add: new_auth_state_def\<close>)
  from single_flight [OF m(1) s(1)] m(1) s show ?thesis by blast
qed

text \<open>The first rejection of a session opens an incident.\<close>

lemma ex_incident:
  obtains a evs b c where "auth_run a evs b" "auth_step b (Rejected ''s.tok'' (ex_reading 5)) c" "session_needed c (ex_reading 6)"
    "m_cfg (a_m c) = ex_lifecycle" "m_recoveryFailures (a_m c) = 1"
    "m_recoveryQuietUntil (a_m c) = clock_After (ex_reading 5) tokenRecoveryQuietPeriod"
proof -
  obtain m where m: "session_needed (new_auth_state m) (ex_reading 0)" "m_cfg m = ex_lifecycle" "m_recoveryQuietUntil m = no_deadline"
    by (rule ex_manager)
  let ?a = "new_auth_state m"
  obtain evs b where s: "auth_run ?a evs b" "refresh_inv b" "m_flight (a_m b) = None" "m_nextRetryAt (a_m b) = no_deadline"
      "m_cfg (a_m b) = ex_lifecycle" "ct_value (m_current (a_m b)) = ''s.tok''"
      "b = runRefresh (startRefreshLocked ?a False (ex_reading 0)) (a_next ?a) (refresh_action (a_m ?a) False (ex_reading 0)) (ex_refresh_env 0)
            None (ex_reading 0) (\<lambda>d. d)"
    by (rule ex_session [OF m(1)]) (use m(2) in \<open>simp_all add: new_auth_state_def\<close>)
  let ?c = "RejectToken b ''s.tok'' (ex_reading 5)"
  have "m_recoveryQuietUntil (a_m b) = no_deadline"
    unfolding s(7) using m(3) by (simp add: startRefreshLocked_recovery) (simp add: new_auth_state_def)
  then have c: "m_nextRecoveryAt (a_m ?c) = no_deadline" "m_recoveryFailures (a_m ?c) = 1" "m_cfg (a_m ?c) = ex_lifecycle"
      "m_recoveryQuietUntil (a_m ?c) = clock_After (ex_reading 5) tokenRecoveryQuietPeriod"
    using s(5,6) by (simp_all add: RejectToken_def rejectTokenLocked_def Pending_def no_deadline_def)
  have "session_needed ?c (ex_reading 6)"
    using s(2-4,6) by (rule rejected_session_needed) (unfold c, simp_all add: Pending_def no_deadline_def)
  with that [OF s(1)] c show ?thesis by simp
qed

theorem rejected_token_not_returned_witness:
  "\<exists>a evs1 b c evs2 d tok e. auth_run a evs1 b \<and> auth_step b (Rejected ''s.tok'' (ex_reading 5)) c \<and> auth_run c evs2 d
     \<and> auth_step d (Pass LiveContext None False (ex_reading 7) (ex_reading 7) (ReturnToken tok)) e \<and> ct_value tok = ''s.tok''
     \<and> (\<exists>ev \<in> set evs2. ''s.tok'' \<in> issued_values ev)"
proof -
  obtain a evs1 b c where c: "auth_run a evs1 b" "auth_step b (Rejected ''s.tok'' (ex_reading 5)) c" "session_needed c (ex_reading 6)"
      "m_cfg (a_m c) = ex_lifecycle" by (rule ex_incident)
  obtain evs2 d tok e where d: "auth_run c evs2 d" "ct_value tok = ''s.tok''"
      "auth_step d (Pass LiveContext None False (ex_reading (6 + 1)) (ex_reading (6 + 1)) (ReturnToken tok)) e"
    by (rule ex_session [OF c(3,4)]) simp_all
  then have e: "auth_step d (Pass LiveContext None False (ex_reading 7) (ex_reading 7) (ReturnToken tok)) e" by simp
  have "\<exists>ev \<in> set evs2. ''s.tok'' \<in> issued_values ev"
    by (rule rejected_token_not_returned [OF c(1,2) _ d(1) e d(2)]) (simp add: rejected_token_def)
  with c d e show ?thesis by blast
qed

theorem recovery_logins_spaced_witness:
  "\<exists>a a1 evs b c. recovery_started a (Pass LiveContext None False (ex_reading 6) (ex_reading 6) (WaitFor (a_next a))) a1
     \<and> auth_step a (Pass LiveContext None False (ex_reading 6) (ex_reading 6) (WaitFor (a_next a))) a1
     \<and> run_where within_incident a1 evs b
     \<and> recovery_started b (Pass LiveContext None False (ex_reading 5000000006) (ex_reading 5000000006) (WaitFor (a_next b))) c
     \<and> 6 + min maxTokenRecoveryInterval (tokenRecoveryInterval * 2 ^ 0) \<le> Elapsed (ex_reading 5000000006)
     \<and> m_recoveryFailures (a_m b) = 2"
proof -
  obtain a where a: "session_needed a (ex_reading 6)" "m_cfg (a_m a) = ex_lifecycle" "m_recoveryFailures (a_m a) = 1"
      "m_recoveryQuietUntil (a_m a) = clock_After (ex_reading 5) tokenRecoveryQuietPeriod" by (rule ex_incident)
  let ?action = "refresh_action (a_m a) False (ex_reading 6)" and ?a1 = "startRefreshLocked a False (ex_reading 6)"
  let ?pass = "Pass LiveContext None False (ex_reading 6) (ex_reading 6) (WaitFor (a_next a))"
  let ?done = "Refreshed (a_next a) ?action (ex_refresh_env 6) None (ex_reading 6) (\<lambda>d. d)"
  have ans: "login_answered (ex_refresh_env 6) ex_auth_token (LoginBeforeTokenExpiry (m_cfg (a_m a)))"
    using ex_login_answered a(2) by simp
  have p: "auth_step a ?pass ?a1" by (rule login_scenario [OF a(1) ans])
  have started: "recovery_started a ?pass ?a1"
    using a(1,3) by (simp add: recovery_started_def counts_recovery_def session_needed_def startRefreshLocked_flights)
  obtain a2 where r: "auth_step ?a1 ?done a2" "refresh_inv a2" "m_flight (a_m a2) = None" "m_nextRetryAt (a_m a2) = no_deadline"
      "ct_value (m_current (a_m a2)) = ''s.tok''" "m_recoveryQuietUntil (a_m a2) = m_recoveryQuietUntil (a_m a)"
      "m_nextRecoveryAt (a_m a2) = m_nextRecoveryAt (a_m ?a1)" "m_recoveryFailures (a_m a2) = m_recoveryFailures (a_m ?a1)"
  proof (rule ex_session [OF a(1,2)])
    fix a2
    assume a2: "refresh_inv a2" "m_flight (a_m a2) = None" "m_nextRetryAt (a_m a2) = no_deadline" "ct_value (m_current (a_m a2)) = ''s.tok''"
      "a2 = runRefresh ?a1 (a_next a) ?action (ex_refresh_env 6) None (ex_reading 6) (\<lambda>d. d)"
    have "auth_step ?a1 ?done a2" unfolding a2(5) by (rule login_scenario [OF a(1) ans])
    then show ?thesis using that a2(1-4) unfolding a2(5) by (simp add: startRefreshLocked_recovery)
  qed simp_all
  let ?b = "RejectToken a2 ''s.tok'' (ex_reading 8)"
  have quiet: "Pending (m_recoveryQuietUntil (a_m a2)) (ex_reading 8)"
    using r(6) a(4) by (simp add: Pending_def clock_After_def ex_reading_def tokenRecoveryQuietPeriod_def maxTokenRecoveryInterval_def second_def i64_def)
  have "exponentialBackoff tokenRecoveryInterval maxTokenRecoveryInterval 1 = tokenRecoveryInterval" by (simp add: exponentialBackoff_def)
  moreover have "counts_recovery (a_m a)" using started by (simp add: recovery_started_def)
  ultimately have a1: "m_nextRecoveryAt (a_m ?a1) = clock_After (ex_reading 6) tokenRecoveryInterval" "m_recoveryFailures (a_m ?a1) = 2"
    using a(3) by (simp_all add: startRefreshLocked_recovery tokenRecoveryInterval_def maxTokenRecoveryInterval_def second_def i64_def)
  have b: "m_nextRecoveryAt (a_m ?b) = clock_After (ex_reading 6) tokenRecoveryInterval" "m_recoveryFailures (a_m ?b) = 2"
    using quiet a1 r(7,8) by (simp_all add: RejectToken_def reject_recovery)
  have "within_incident ?a1 ?done a2" by (simp add: within_incident_def recovery_started_def new_incident_def startRefreshLocked_flights)
  moreover have "within_incident a2 (Rejected ''s.tok'' (ex_reading 8)) ?b"
    using quiet r(3) by (simp add: within_incident_def recovery_started_def new_incident_def RejectToken_def)
  ultimately have run: "run_where within_incident ?a1 (([] @ [?done]) @ [Rejected ''s.tok'' (ex_reading 8)]) ?b"
    using r(1) by (intro run_snoc [OF run_snoc [OF run_refl]]) simp_all
  have need: "session_needed ?b (ex_reading 5000000006)"
    using r(2-5) by (rule rejected_session_needed)
      (unfold b(1), simp_all add: Pending_def clock_After_def ex_reading_def tokenRecoveryInterval_def second_def i64_def)
  let ?pass' = "Pass LiveContext None False (ex_reading 5000000006) (ex_reading 5000000006) (WaitFor (a_next ?b))"
  let ?c = "startRefreshLocked ?b False (ex_reading 5000000006)"
  have p': "auth_step ?b ?pass' ?c" using need by (simp add: session_needed_def pass_starts)
  have started': "recovery_started ?b ?pass' ?c"
    using need b(2) by (simp add: recovery_started_def counts_recovery_def session_needed_def startRefreshLocked_flights)
  have "Elapsed (ex_reading 6) + min maxTokenRecoveryInterval (tokenRecoveryInterval * 2 ^ (1 - 1)) \<le> Elapsed (ex_reading 5000000006)
      \<and> m_recoveryFailures (a_m ?b) = (if tokenRecoveryInterval * 2 ^ (1 - 1) < maxTokenRecoveryInterval then int 1 + 1 else int 1)"
    by (rule recovery_logins_spaced [OF p started run p' started'])
      (simp_all add: a(3) in_i64_def ex_reading_def maxTokenRecoveryInterval_def second_def)
  then have "6 + min maxTokenRecoveryInterval (tokenRecoveryInterval * 2 ^ 0) \<le> Elapsed (ex_reading 5000000006)"
    by (simp add: ex_reading_def)
  with p started run started' b(2) show ?thesis by blast
qed

end
