(* ===== verification/Bao_Client.thy ===== *)
theory Bao_Client
  imports Auth_Lifecycle
begin

text \<open>
  The OpenBao HTTP client (\<^verbatim>\<open>internal/openbao/client.go\<close> and \<^verbatim>\<open>auth.go\<close>). The exchange of one request, the token source
  and the observer act on a world of type \<open>'w\<close> and are arguments; so is \<open>json.Unmarshal\<close> of a response body. A request body
  is the Go value that is marshalled, and building a request from it does not fail: the payload types always marshal and
  the base URL has been parsed.
\<close>

section \<open>Paths and limits\<close>

definition Trim_slash :: "string \<Rightarrow> string" where
  "Trim_slash s = rev (dropWhile (\<lambda>c. c = CHR ''/'') (rev (dropWhile (\<lambda>c. c = CHR ''/'') s)))"

definition transitPath :: "string \<Rightarrow> string \<Rightarrow> string \<Rightarrow> string" where
  "transitPath mountPath operation keyName = path_Join [Trim_slash mountPath, operation, keyName]"

definition transitConfigPath :: "string \<Rightarrow> string" where
  "transitConfigPath mountPath = path_Join [Trim_slash mountPath, ''config'', ''keys'']"

definition resolveOpenBao :: "string \<Rightarrow> string \<Rightarrow> string" where
  "resolveOpenBao basePath apiPath = path_Join [basePath, ''v1'', apiPath]"

definition parseAddress :: "(string \<Rightarrow> URL option) \<Rightarrow> string \<Rightarrow> URL res" where
  "parseAddress url_parse address =
    (case url_parse address of
       None \<Rightarrow> Inl (Msg ''parse OpenBao address'')
     | Some parsed \<Rightarrow>
         if u_Scheme parsed \<noteq> ''https'' \<or> u_Host parsed = [] \<or> u_User parsed \<or> u_RawQuery parsed \<noteq> [] \<or> u_Fragment parsed \<noteq> []
         then Inl (Msg ''OpenBao address must be an https URL with no user info, query, or fragment'') else Inr parsed)"

definition maxRequestIDLength :: nat where "maxRequestIDLength = 128"
definition maxOpenBaoErrorResponseBytes :: nat where "maxOpenBaoErrorResponseBytes = 65536"
definition maxOpenBaoSmallResponseBytes :: nat where "maxOpenBaoSmallResponseBytes = 262144"
definition maxOpenBaoLargeResponseBytes :: nat where "maxOpenBaoLargeResponseBytes = 4194304"

definition openBaoResponseLimit :: "string \<Rightarrow> nat" where
  "openBaoResponseLimit operation =
    (if operation = ''transit metadata read'' \<or> operation = ''transit batch decrypt'' then maxOpenBaoLargeResponseBytes
     else maxOpenBaoSmallResponseBytes)"

definition safeRequestIDChar :: "nat \<Rightarrow> bool" where
  "safeRequestIDChar r \<longleftrightarrow> 97 \<le> r \<and> r \<le> 122 \<or> 65 \<le> r \<and> r \<le> 90 \<or> 48 \<le> r \<and> r \<le> 57 \<or> r \<in> {45, 95, 46, 58}"

definition safeRequestID :: "string \<Rightarrow> string" where
  "safeRequestID value =
    (let trimmed = TrimSpace value in
     if trimmed = [] \<or> length trimmed > maxRequestIDLength then []
     else if list_ex (\<lambda>(r, _). \<not> safeRequestIDChar r) (runes trimmed) then []
     else trimmed)"

section \<open>Requests and replies\<close>

datatype requestPayload =
    NoPayload
  | JWTLoginBody (lb_Role: string) (lb_JWT: string)
  | CertLoginBody (lb_Name: string)
  | RenewSelfBody (lb_Increment: string)
  | EncryptBody (eb_Plaintext: string) (eb_AssociatedData: string) (eb_KeyVersion: int)
  | DecryptBody (db_Ciphertext: string) (db_AssociatedData: string)
  | BatchDecryptBody "(string \<times> string \<times> string) list"
  | CapabilitiesBody "string list"

text \<open>A request: its method, the path of its URL, the headers that depend on the client, and its body.\<close>

record http_request =
  hq_method :: string
  hq_path :: string
  hq_content_type :: "string option"
  hq_token :: "string option"
  hq_namespace :: "string option"
  hq_body :: requestPayload

text \<open>
  A failed exchange: the error of the request's context afterwards, and which errors \<open>errors.Is\<close> and \<open>errors.As\<close> find in
  the error of the HTTP library: cancellation, a deadline, one of the six TLS and certificate errors, a DNS error, an
  operation error of the network.
\<close>

record transport_failure =
  tf_ctxErr :: "sentinel option"
  tf_canceled :: bool
  tf_deadline :: bool
  tf_tls :: bool
  tf_dns :: bool
  tf_op :: bool

datatype http_reply = HttpFailed transport_failure | HttpReplied int "string option"

definition classifyTransportError :: "transport_failure \<Rightarrow> ErrorClass" where
  "classifyTransportError f =
    (if tf_tls f then ErrorClassTLSFailed else if tf_dns f then ErrorClassDNSFailed
     else if tf_op f then ErrorClassConnectionFailed else ErrorClassUnavailable)"

definition newOpenBaoRequest :: "string \<Rightarrow> string \<Rightarrow> string \<Rightarrow> string \<Rightarrow> requestPayload \<Rightarrow> string \<Rightarrow> bool \<Rightarrow> http_request" where
  "newOpenBaoRequest basePath namespace method apiPath requestBody token includeToken =
     \<lparr>hq_method = method, hq_path = resolveOpenBao basePath apiPath,
      hq_content_type = (if requestBody \<noteq> NoPayload then Some ''application/json'' else None),
      hq_token = (if includeToken then Some token else None),
      hq_namespace = (if namespace \<noteq> [] then Some namespace else None),
      hq_body = requestBody\<rparr>"

text \<open>\<open>io.ReadAll\<close> over a body limited to one byte more than the limit.\<close>

definition readBoundedResponseBody :: "string \<Rightarrow> string option \<Rightarrow> nat \<Rightarrow> string res" where
  "readBoundedResponseBody operation body limit =
    (case map_option (take (limit + 1)) body of
       None \<Rightarrow> Inl (Msg (''read OpenBao '' @ operation @ '' response''))
     | Some encoded \<Rightarrow> if length encoded > limit then Inl (newResponseSizeError operation (int limit)) else Inr encoded)"

text \<open>
  \<open>errorBody\<close> as \<open>decodeErrorBody\<close> returns it; \<open>decode_error\<close> is \<open>json.Unmarshal\<close> of an error body. A successful body is decoded
  to its value and its request id by \<open>unmarshal\<close>.
\<close>

definition decodeErrorBody :: "(string \<Rightarrow> (string \<times> string list) option) \<Rightarrow> string \<Rightarrow> string \<times> string list" where
  "decodeErrorBody decode_error encoded = (case decode_error encoded of None \<Rightarrow> ([], []) | Some body \<Rightarrow> body)"

definition readOpenBaoResponse ::
  "(string \<Rightarrow> (string \<times> string list) option) \<Rightarrow> (string \<Rightarrow> ('r \<times> string) option) \<Rightarrow> string \<Rightarrow> int \<Rightarrow> string option \<Rightarrow> string \<times> 'r res" where
  "readOpenBaoResponse decode_error unmarshal operation status body =
    (if 300 \<le> status \<and> status < 400 then ([], Inl (ApiError ErrorClassUnavailable status operation))
     else if status < 200 \<or> 300 \<le> status then
       (case readBoundedResponseBody operation body maxOpenBaoErrorResponseBytes of
          Inl err \<Rightarrow> ([], Inl err)
        | Inr encoded \<Rightarrow> (let (rid, errors) = decodeErrorBody decode_error encoded
                          in (safeRequestID rid, Inl (newHTTPError operation status errors))))
     else
       (case readBoundedResponseBody operation body (openBaoResponseLimit operation) of
          Inl err \<Rightarrow> ([], Inl err)
        | Inr encoded \<Rightarrow> (case unmarshal encoded of
            None \<Rightarrow> ([], Inl (Msg (''decode OpenBao '' @ operation @ '' response'')))
          | Some (response, rid) \<Rightarrow> (safeRequestID rid, Inr response))))"

record OpenBaoObservation =
  oo_Operation :: string
  oo_Status :: string
  oo_ErrorClass :: string
  oo_RequestID :: string

section \<open>The client\<close>

record 'w Client =
  cl_http :: "http_request \<Rightarrow> 'w \<Rightarrow> http_reply \<times> 'w"
  cl_observe :: "OpenBaoObservation \<Rightarrow> 'w \<Rightarrow> 'w"
  cl_decode_error :: "string \<Rightarrow> (string \<times> string list) option"
  cl_basePath :: string
  cl_namespace :: string
  cl_Token :: "'w \<Rightarrow> string res \<times> 'w"
  cl_RecoverToken :: "(string \<Rightarrow> 'w \<Rightarrow> string res \<times> 'w) option"
  cl_RejectToken :: "(string \<Rightarrow> 'w \<Rightarrow> 'w) option"

definition reply_result :: "'w Client \<Rightarrow> (string \<Rightarrow> ('r \<times> string) option) \<Rightarrow> string \<Rightarrow> http_reply \<Rightarrow> string \<times> 'r res" where
  "reply_result c unmarshal operation reply =
    (case reply of
       HttpFailed f \<Rightarrow> ([], Inl (case tf_ctxErr f of
           Some err \<Rightarrow> Sentinel err
         | None \<Rightarrow> if tf_canceled f then Sentinel Context_Canceled
                   else if tf_deadline f then Sentinel Context_DeadlineExceeded
                   else ApiError (classifyTransportError f) 0 operation))
     | HttpReplied status body \<Rightarrow> readOpenBaoResponse (cl_decode_error c) unmarshal operation status body)"

definition res_error :: "'r res \<Rightarrow> go_error option" where
  "res_error r = (case r of Inl err \<Rightarrow> Some err | Inr _ \<Rightarrow> None)"

definition doOpenBao ::
  "'w Client \<Rightarrow> (string \<Rightarrow> ('r \<times> string) option) \<Rightarrow> string \<Rightarrow> string \<Rightarrow> string \<Rightarrow> requestPayload \<Rightarrow> string \<Rightarrow> bool \<Rightarrow> 'w \<Rightarrow> 'r res \<times> 'w" where
  "doOpenBao c unmarshal operation method apiPath requestBody token includeToken w =
    (let (reply, w1) = cl_http c (newOpenBaoRequest (cl_basePath c) (cl_namespace c) method apiPath requestBody token includeToken) w;
         (rid, result) = reply_result c unmarshal operation reply
     in (result, cl_observe c \<lparr>oo_Operation = operation, oo_Status = requestStatus (res_error result),
           oo_ErrorClass = requestErrorClass (res_error result), oo_RequestID = rid\<rparr> w1))"

definition tokenRejected :: "'r res \<Rightarrow> bool" where
  "tokenRejected r \<longleftrightarrow> (case r of Inr _ \<Rightarrow> False
     | Inl err \<Rightarrow> (case as_api_error err of
         None \<Rightarrow> False | Some (class, _) \<Rightarrow> class = ErrorClassUnauthenticated \<or> class = ErrorClassPermissionDenied))"

definition client_do ::
  "'w Client \<Rightarrow> (string \<Rightarrow> ('r \<times> string) option) \<Rightarrow> string \<Rightarrow> string \<Rightarrow> string \<Rightarrow> requestPayload \<Rightarrow> 'w \<Rightarrow> 'r res \<times> 'w" where
  "client_do c unmarshal operation method apiPath requestBody w =
    (case cl_Token c w of
       (Inl err, w1) \<Rightarrow> (Inl err, w1)
     | (Inr token, w1) \<Rightarrow>
        (let (result, w2) = doOpenBao c unmarshal operation method apiPath requestBody token True w1 in
         case cl_RecoverToken c of
           None \<Rightarrow> (result, w2)
         | Some recover \<Rightarrow>
             if \<not> tokenRejected result then (result, w2)
             else (case recover token w2 of
                 (Inl recoveryErr, w3) \<Rightarrow> (Inl recoveryErr, w3)
               | (Inr replacement, w3) \<Rightarrow>
                   if replacement = [] \<or> replacement = token then (result, w3)
                   else (let (result2, w4) = doOpenBao c unmarshal operation method apiPath requestBody replacement True w3 in
                         case cl_RejectToken c of
                           Some reject \<Rightarrow> if tokenRejected result2 then (result2, reject replacement w4) else (result2, w4)
                         | None \<Rightarrow> (result2, w4)))))"

definition doUnauthenticated ::
  "'w Client \<Rightarrow> (string \<Rightarrow> ('r \<times> string) option) \<Rightarrow> string \<Rightarrow> string \<Rightarrow> string \<Rightarrow> requestPayload \<Rightarrow> 'w \<Rightarrow> 'r res \<times> 'w" where
  "doUnauthenticated c unmarshal operation method apiPath requestBody w =
     doOpenBao c unmarshal operation method apiPath requestBody [] False w"

definition doWithToken ::
  "'w Client \<Rightarrow> (string \<Rightarrow> ('r \<times> string) option) \<Rightarrow> string \<Rightarrow> string \<Rightarrow> string \<Rightarrow> requestPayload \<Rightarrow> string \<Rightarrow> 'w \<Rightarrow> 'r res \<times> 'w" where
  "doWithToken c unmarshal operation method apiPath requestBody token w =
    (if token = [] then (Inl (Msg ''openbao token is required''), w)
     else doOpenBao c unmarshal operation method apiPath requestBody token True w)"

section \<open>Logins and renewal\<close>

record authResponseData =
  ad_ClientToken :: string
  ad_LeaseDuration :: int
  ad_Renewable :: bool
  ad_Policies :: "string list"
  ad_TokenPolicies :: "string list"

definition auth_token :: "authResponseData \<Rightarrow> AuthToken" where
  "auth_token d = \<lparr>ClientToken = ad_ClientToken d, LeaseDuration = i64 (ad_LeaseDuration d * second), Renewable = ad_Renewable d,
     Policies = ad_Policies d, TokenPolicies = ad_TokenPolicies d\<rparr>"

definition formatDurationSeconds :: "int \<Rightarrow> string" where
  "formatDurationSeconds value =
    (let seconds = go_quot (i64 (i64 (value + second) - 1)) second
     in Itoa (if seconds \<le> 0 then 1 else seconds) @ ''s'')"

definition auth_result :: "authResponseData res \<times> 'w \<Rightarrow> AuthToken res \<times> 'w" where
  "auth_result r = (bindE (fst r) (\<lambda>d. Inr (auth_token d)), snd r)"

definition AuthClient_LoginJWT ::
  "'w Client \<Rightarrow> (string \<Rightarrow> (authResponseData \<times> string) option) \<Rightarrow> JWTLoginRequest \<Rightarrow> 'w \<Rightarrow> AuthToken res \<times> 'w" where
  "AuthClient_LoginJWT c unmarshal req w =
    (let mountPath = TrimSpace (jl_MountPath req); role = TrimSpace (jl_Role req); jwt = TrimSpace (jl_JWT req) in
     if mountPath = [] then (Inl (Msg ''auth mount path is required''), w)
     else if role = [] then (Inl (Msg ''auth role is required''), w)
     else if jwt = [] then (Inl (Msg ''jwt is required''), w)
     else auth_result (doUnauthenticated c unmarshal ''jwt login'' ''POST'' (path_Join [Trim_slash mountPath, ''login'']) (JWTLoginBody role jwt) w))"

text \<open>Closing the idle connections before a certificate login is left to the HTTP library.\<close>

definition AuthClient_LoginCert ::
  "'w Client \<Rightarrow> (string \<Rightarrow> (authResponseData \<times> string) option) \<Rightarrow> CertLoginRequest \<Rightarrow> 'w \<Rightarrow> AuthToken res \<times> 'w" where
  "AuthClient_LoginCert c unmarshal req w =
    (let mountPath = TrimSpace (cr_MountPath req); name = TrimSpace (cr_Name req) in
     if mountPath = [] then (Inl (Msg ''auth mount path is required''), w)
     else auth_result (doUnauthenticated c unmarshal ''cert login'' ''POST'' (path_Join [Trim_slash mountPath, ''login'']) (CertLoginBody name) w))"

definition AuthClient_RenewSelfToken ::
  "'w Client \<Rightarrow> (string \<Rightarrow> (authResponseData \<times> string) option) \<Rightarrow> string \<Rightarrow> int \<Rightarrow> 'w \<Rightarrow> AuthToken res \<times> 'w" where
  "AuthClient_RenewSelfToken c unmarshal token increment w =
    (if token = [] then (Inl (Msg ''openbao token is required''), w)
     else if increment \<le> 0 then (Inl (Msg ''token renewal increment must be positive''), w)
     else auth_result (doWithToken c unmarshal ''token renew self'' ''POST'' ''auth/token/renew-self''
            (RenewSelfBody (formatDurationSeconds increment)) token w))"

section \<open>Construction\<close>

text \<open>\<open>os.ReadFile\<close> and \<open>AppendCertsFromPEM\<close>, which gives the certificates a PEM text contains, are arguments.\<close>

record 'c tls_Config =
  tls_MinVersion :: int
  tls_RootCAs :: "'c list"
  tls_ServerName :: string
  tls_GetClientCertificate :: bool

definition VersionTLS12 :: int where "VersionTLS12 = 771"

definition NewTLSConfig :: "(string \<Rightarrow> string option) \<Rightarrow> (string \<Rightarrow> 'c list) \<Rightarrow> string \<Rightarrow> string \<Rightarrow> 'c tls_Config res" where
  "NewTLSConfig read_file pem_certs caCertFile serverName =
    bindE (failIf (TrimSpace serverName = []) (Msg ''TLS server name is required'')) (\<lambda>_.
    bindE (failIf (TrimSpace caCertFile = []) (Msg ''CA certificate file is required'')) (\<lambda>_.
    case read_file caCertFile of
      None \<Rightarrow> Inl (Msg ''read OpenBao CA bundle'')
    | Some caPEM \<Rightarrow>
        bindE (failIf (pem_certs caPEM = []) (Msg ''OpenBao CA bundle does not contain PEM certificates'')) (\<lambda>_.
        Inr \<lparr>tls_MinVersion = VersionTLS12, tls_RootCAs = pem_certs caPEM, tls_ServerName = serverName,
             tls_GetClientCertificate = False\<rparr>)))"

record HTTPClientConfig =
  hc_CACertFile :: string
  hc_TLSServerName :: string
  hc_Timeout :: int
  hc_GetClientCertificate :: bool

text \<open>An HTTP client: its overall timeout, its TLS configuration, and whether it follows redirects.\<close>

record 'c http_Client =
  ht_Timeout :: int
  ht_TLS :: "'c tls_Config"
  ht_follows_redirects :: bool

definition NewHTTPClientWithTLSOptions :: "(string \<Rightarrow> string option) \<Rightarrow> (string \<Rightarrow> 'c list) \<Rightarrow> HTTPClientConfig \<Rightarrow> 'c http_Client res" where
  "NewHTTPClientWithTLSOptions read_file pem_certs cfg =
    bindE (failIf (hc_Timeout cfg \<le> 0) (Msg ''OpenBao timeout must be positive'')) (\<lambda>_.
    bindE (NewTLSConfig read_file pem_certs (hc_CACertFile cfg) (hc_TLSServerName cfg)) (\<lambda>tlsConfig.
    Inr \<lparr>ht_Timeout = hc_Timeout cfg, ht_TLS = tlsConfig\<lparr>tls_GetClientCertificate := hc_GetClientCertificate cfg\<rparr>,
         ht_follows_redirects = False\<rparr>))"

definition NewHTTPClient :: "(string \<Rightarrow> string option) \<Rightarrow> (string \<Rightarrow> 'c list) \<Rightarrow> string \<Rightarrow> string \<Rightarrow> int \<Rightarrow> 'c http_Client res" where
  "NewHTTPClient read_file pem_certs caCertFile serverName timeout =
    NewHTTPClientWithTLSOptions read_file pem_certs
      \<lparr>hc_CACertFile = caCertFile, hc_TLSServerName = serverName, hc_Timeout = timeout, hc_GetClientCertificate = False\<rparr>"

text \<open>
  \<open>cc_HasTokenSource\<close> says whether the token source is not nil; what a client is built from besides: the address it talks to,
  the namespace, and the HTTP client.
\<close>

record ClientConfig =
  cc_Address :: string
  cc_Namespace :: string
  cc_CACertFile :: string
  cc_TLSServerName :: string
  cc_Timeout :: int
  cc_HasTokenSource :: bool

record 'c client_parts =
  pt_baseURL :: URL
  pt_namespace :: string
  pt_http :: "'c http_Client"

definition NewClientWithHTTPClient :: "(string \<Rightarrow> URL option) \<Rightarrow> ClientConfig \<Rightarrow> 'c http_Client option \<Rightarrow> 'c client_parts res" where
  "NewClientWithHTTPClient url_parse cfg httpClient =
    (case httpClient of
       None \<Rightarrow> Inl (Msg ''http client is required'')
     | Some http \<Rightarrow>
         bindE (failIf (\<not> cc_HasTokenSource cfg) (Msg ''token source is required'')) (\<lambda>_.
         bindE (parseAddress url_parse (cc_Address cfg)) (\<lambda>baseURL.
         Inr \<lparr>pt_baseURL = baseURL, pt_namespace = cc_Namespace cfg, pt_http = http\<rparr>)))"

definition NewClient :: "(string \<Rightarrow> URL option) \<Rightarrow> (string \<Rightarrow> string option) \<Rightarrow> (string \<Rightarrow> 'c list) \<Rightarrow> ClientConfig \<Rightarrow> 'c client_parts res" where
  "NewClient url_parse read_file pem_certs cfg =
    bindE (NewHTTPClient read_file pem_certs (cc_CACertFile cfg) (cc_TLSServerName cfg) (cc_Timeout cfg)) (\<lambda>http.
    NewClientWithHTTPClient url_parse cfg (Some http))"

record AuthClientConfig =
  ac_Address :: string
  ac_Namespace :: string
  ac_CACertFile :: string
  ac_TLSServerName :: string
  ac_Timeout :: int
  ac_GetClientCertificate :: bool

definition NewAuthClientWithHTTPClient :: "(string \<Rightarrow> URL option) \<Rightarrow> AuthClientConfig \<Rightarrow> 'c http_Client option \<Rightarrow> 'c client_parts res" where
  "NewAuthClientWithHTTPClient url_parse cfg httpClient =
    (case httpClient of
       None \<Rightarrow> Inl (Msg ''http client is required'')
     | Some http \<Rightarrow>
         bindE (parseAddress url_parse (ac_Address cfg)) (\<lambda>baseURL.
         Inr \<lparr>pt_baseURL = baseURL, pt_namespace = ac_Namespace cfg, pt_http = http\<rparr>))"

definition NewAuthClient :: "(string \<Rightarrow> URL option) \<Rightarrow> (string \<Rightarrow> string option) \<Rightarrow> (string \<Rightarrow> 'c list) \<Rightarrow> AuthClientConfig \<Rightarrow> 'c client_parts res" where
  "NewAuthClient url_parse read_file pem_certs cfg =
    bindE (NewHTTPClientWithTLSOptions read_file pem_certs
      \<lparr>hc_CACertFile = ac_CACertFile cfg, hc_TLSServerName = ac_TLSServerName cfg, hc_Timeout = ac_Timeout cfg,
       hc_GetClientCertificate = ac_GetClientCertificate cfg\<rparr>) (\<lambda>http.
    NewAuthClientWithHTTPClient url_parse cfg (Some http))"

text \<open>
  What both constructors promise: an https endpoint without embedded credentials, TLS 1.2 at least, only the roots of the
  configured bundle, the configured server name, a positive timeout, and no redirects.
\<close>

definition pinned :: "(string \<Rightarrow> string option) \<Rightarrow> (string \<Rightarrow> 'c list) \<Rightarrow> string \<Rightarrow> string \<Rightarrow> 'c client_parts \<Rightarrow> bool" where
  "pinned read_file pem_certs caCertFile serverName p \<longleftrightarrow>
     u_Scheme (pt_baseURL p) = ''https'' \<and> u_Host (pt_baseURL p) \<noteq> [] \<and> \<not> u_User (pt_baseURL p)
   \<and> tls_MinVersion (ht_TLS (pt_http p)) = VersionTLS12
   \<and> (\<exists>pem. read_file caCertFile = Some pem \<and> tls_RootCAs (ht_TLS (pt_http p)) = pem_certs pem \<and> pem_certs pem \<noteq> [])
   \<and> tls_ServerName (ht_TLS (pt_http p)) = serverName \<and> TrimSpace serverName \<noteq> []
   \<and> 0 < ht_Timeout (pt_http p) \<and> \<not> ht_follows_redirects (pt_http p)"

lemma parseAddress_Inr: "parseAddress url_parse a = Inr u \<Longrightarrow> u_Scheme u = ''https'' \<and> u_Host u \<noteq> [] \<and> \<not> u_User u"
  by (auto simp: parseAddress_def split: option.splits if_splits)

lemma NewTLSConfig_Inr: "NewTLSConfig read_file pem_certs ca sn = Inr t \<Longrightarrow>
    tls_MinVersion t = VersionTLS12 \<and> (\<exists>pem. read_file ca = Some pem \<and> tls_RootCAs t = pem_certs pem \<and> pem_certs pem \<noteq> [])
  \<and> tls_ServerName t = sn \<and> TrimSpace sn \<noteq> []"
  by (auto simp: NewTLSConfig_def failIf_def split: option.splits if_splits)

lemma clients_pinned:
  "NewClient url_parse read_file pem_certs cfg = Inr p \<Longrightarrow> pinned read_file pem_certs (cc_CACertFile cfg) (cc_TLSServerName cfg) p"
  "NewAuthClient url_parse read_file pem_certs acfg = Inr p \<Longrightarrow> pinned read_file pem_certs (ac_CACertFile acfg) (ac_TLSServerName acfg) p"
  by (auto simp: NewClient_def NewAuthClient_def NewHTTPClient_def NewHTTPClientWithTLSOptions_def NewClientWithHTTPClient_def
      NewAuthClientWithHTTPClient_def pinned_def failIf_def dest!: parseAddress_Inr NewTLSConfig_Inr split: if_splits)

section \<open>Replies\<close>

lemma readBoundedResponseBody_Inr: "readBoundedResponseBody op body n = Inr e \<longleftrightarrow> body = Some e \<and> length e \<le> n"
  by (auto simp: readBoundedResponseBody_def split: option.splits)

lemma readBoundedResponseBody_large:
  "length b > n \<Longrightarrow> readBoundedResponseBody op (Some b) n = Inl (newResponseSizeError op (int n))"
  by (simp add: readBoundedResponseBody_def)

lemma reply_result_Inr:
  "snd (reply_result c um op reply) = Inr x \<longleftrightarrow>
    (\<exists>status body rid. reply = HttpReplied status (Some body) \<and> 200 \<le> status \<and> status < 300
      \<and> length body \<le> openBaoResponseLimit op \<and> um body = Some (x, rid))"
  by (cases reply)
    (auto simp: reply_result_def readOpenBaoResponse_def readBoundedResponseBody_def Let_def
      split: if_splits sum.splits option.splits prod.splits)

text \<open>A server that accepts only the token \<open>new\<close>, and a client that starts with the token \<open>old\<close>.\<close>

definition ex_client :: "unit Client" where
  "ex_client = \<lparr>cl_http = (\<lambda>req w. (if hq_token req = Some ''new'' then HttpReplied 200 (Some ''ok'') else HttpReplied 403 (Some []), w)),
     cl_observe = (\<lambda>_ w. w), cl_decode_error = (\<lambda>_. None), cl_basePath = [], cl_namespace = [],
     cl_Token = (\<lambda>w. (Inr ''old'', w)), cl_RecoverToken = Some (\<lambda>_ w. (Inr ''new'', w)), cl_RejectToken = Some (\<lambda>_ w. w)\<rparr>"

text \<open>
  A reply is decoded only within its bound: an operation of the client returns a value only for a complete reply of a
  2xx status whose body is within the limit of the operation, which is 4 MiB at most, and the value is the one decoded from
  that body; a longer body is refused with the error for an oversized response, of the class of an unavailable server, whatever
  the decoder would make of it.
\<close>

lemma replies_bounded:
  "openBaoResponseLimit op \<le> 4194304
  \<and> (snd (reply_result c um op reply) = Inr x \<longleftrightarrow>
      (\<exists>status body rid. reply = HttpReplied status (Some body) \<and> status \<in> {200..<300}
        \<and> length body \<le> openBaoResponseLimit op \<and> um body = Some (x, rid)))
  \<and> (status \<in> {200..<300} \<and> openBaoResponseLimit op < length body \<longrightarrow>
      (\<exists>err. reply_result c um op (HttpReplied status (Some body)) = ([], Inl err) \<and> errors_is err ErrResponseTooLarge
        \<and> requestErrorClass (Some err) = class_string ErrorClassUnavailable))"
proof (intro conjI impI)
  show "openBaoResponseLimit op \<le> 4194304"
    by (simp add: openBaoResponseLimit_def maxOpenBaoLargeResponseBytes_def maxOpenBaoSmallResponseBytes_def)
  show "snd (reply_result c um op reply) = Inr x \<longleftrightarrow>
    (\<exists>status body rid. reply = HttpReplied status (Some body) \<and> status \<in> {200..<300}
      \<and> length body \<le> openBaoResponseLimit op \<and> um body = Some (x, rid))"
    by (simp add: reply_result_Inr conj_assoc)
  assume "status \<in> {200..<300} \<and> openBaoResponseLimit op < length body"
  then show "\<exists>err. reply_result c um op (HttpReplied status (Some body)) = ([], Inl err) \<and> errors_is err ErrResponseTooLarge
      \<and> requestErrorClass (Some err) = class_string ErrorClassUnavailable"
    by (simp add: reply_result_def readOpenBaoResponse_def readBoundedResponseBody_large newResponseSizeError_def requestErrorClass_def)
qed

section \<open>Exchanges of a client\<close>

text \<open>A client whose requests, their replies, and its reports of rejected tokens are recorded.\<close>

datatype client_event = Sent http_request http_reply | Reported string

definition logged :: "'w Client \<Rightarrow> ('w \<times> client_event list) Client" where
  "logged c =
    \<lparr>cl_http = (\<lambda>req (w, log). let (r, w') = cl_http c req w in (r, w', log @ [Sent req r])),
     cl_observe = (\<lambda>ob (w, log). (cl_observe c ob w, log)),
     cl_decode_error = cl_decode_error c, cl_basePath = cl_basePath c, cl_namespace = cl_namespace c,
     cl_Token = (\<lambda>(w, log). let (r, w') = cl_Token c w in (r, w', log)),
     cl_RecoverToken = map_option (\<lambda>recover t (w, log). let (r, w') = recover t w in (r, w', log)) (cl_RecoverToken c),
     cl_RejectToken = map_option (\<lambda>reject t (w, log). (reject t w, log @ [Reported t])) (cl_RejectToken c)\<rparr>"

text \<open>OpenBao refused the token: it did not carry the operation out.\<close>

definition denied :: "http_reply \<Rightarrow> bool" where
  "denied reply = (case reply of HttpReplied status _ \<Rightarrow> status = 401 \<or> status = 403 | HttpFailed _ \<Rightarrow> False)"

lemma classify_denied: "classifyError st msgs = ErrorClassUnauthenticated \<Longrightarrow> st = 401"
  "classifyError st msgs = ErrorClassPermissionDenied \<Longrightarrow> st = 403"
  by (auto simp: classifyError_def Let_def split: if_splits)

lemma rejected_denied: "tokenRejected (snd (reply_result c um op reply)) \<Longrightarrow> denied reply"
  by (auto simp: tokenRejected_def reply_result_def readOpenBaoResponse_def readBoundedResponseBody_def newResponseSizeError_def
      newHTTPError_def denied_def classifyTransportError_def Let_def dest!: classify_denied
      split: http_reply.splits option.splits if_splits sum.splits prod.splits)

lemma logged_sel [simp]: "cl_decode_error (logged c) = cl_decode_error c" "cl_basePath (logged c) = cl_basePath c"
  "cl_namespace (logged c) = cl_namespace c"
  "cl_http (logged c) req (w, log) = (fst (cl_http c req w), snd (cl_http c req w), log @ [Sent req (fst (cl_http c req w))])"
  "cl_observe (logged c) ob (w, log) = (cl_observe c ob w, log)"
  by (simp_all add: logged_def split_def Let_def)

lemma reply_result_logged [simp]: "reply_result (logged c) um op reply = reply_result c um op reply"
  by (simp add: reply_result_def split: http_reply.split)

lemma doOpenBao_logged:
  obtains r w' where "doOpenBao (logged c) um op meth path body t inc (w, log) =
    (snd (reply_result c um op r), w', log @ [Sent (newOpenBaoRequest (cl_basePath c) (cl_namespace c) meth path body t inc) r])"
  by (simp add: doOpenBao_def Let_def split_def)

text \<open>Where a value comes from, and when one is certain to come.\<close>

lemma doOpenBao_fst: "fst (doOpenBao c um op meth path body t inc w) = snd (reply_result c um op
    (fst (cl_http c (newOpenBaoRequest (cl_basePath c) (cl_namespace c) meth path body t inc) w)))"
  by (simp add: doOpenBao_def Let_def split_def)

lemma client_do_Inr:
  assumes "fst (client_do c um op meth path body w) = Inr x"
  obtains t u r u' where "cl_http c (newOpenBaoRequest (cl_basePath c) (cl_namespace c) meth path body t True) u = (r, u')"
    "snd (reply_result c um op r) = Inr x"
proof -
  have "\<exists>t u. fst (doOpenBao c um op meth path body t True u) = Inr x"
    using assms by (fastforce simp: client_do_def Let_def split_def split: prod.splits sum.splits option.splits if_splits)
  then obtain t u where "fst (doOpenBao c um op meth path body t True u) = Inr x" by blast
  then show ?thesis by (intro that [OF prod.collapse [symmetric]]) (simp add: doOpenBao_fst)
qed

lemma client_do_ok:
  assumes "cl_Token c w = (Inr t, w1)"
    and "cl_http c (newOpenBaoRequest (cl_basePath c) (cl_namespace c) meth path body t True) w1 = (r, w2)"
    and "snd (reply_result c um op r) = Inr x"
  shows "fst (client_do c um op meth path body w) = Inr x"
proof -
  obtain w3 where "doOpenBao c um op meth path body t True w1 = (Inr x, w3)"
    using doOpenBao_fst [of c um op meth path body t True w1] assms(2,3) by (metis fst_conv prod.collapse)
  with assms(1) show ?thesis by (simp add: client_do_def tokenRejected_def split: option.split)
qed

text \<open>
  One operation of the client sends at most two requests. The second is sent only when OpenBao answered the first with a
  denial of its token, so that it had not carried the operation out, is the same request with another, non-empty token, and
  is never followed by a third: a second denial is reported to the token source and returned. The result is the reply to the
  last request, unless no token could be had or replaced.
\<close>

lemma client_retries_once:
  assumes "client_do (logged c) um op meth path body (w, []) = (res, w', log)"
  shows "log = [] \<and> isl res
    \<or> (\<exists>t r. log = [Sent (newOpenBaoRequest (cl_basePath c) (cl_namespace c) meth path body t True) r]
        \<and> (res = snd (reply_result c um op r) \<or> denied r \<and> isl res))
    \<or> (\<exists>t r t' r'. log = [Sent (newOpenBaoRequest (cl_basePath c) (cl_namespace c) meth path body t True) r,
                         Sent (newOpenBaoRequest (cl_basePath c) (cl_namespace c) meth path body t' True) r']
              @ (if tokenRejected res \<and> cl_RejectToken c \<noteq> None then [Reported t'] else [])
        \<and> denied r \<and> t' \<noteq> [] \<and> t' \<noteq> t \<and> res = snd (reply_result c um op r'))"
proof (cases "cl_Token c w")
  case (Pair tr w1)
  let ?q = "\<lambda>t. newOpenBaoRequest (cl_basePath c) (cl_namespace c) meth path body t True"
  have T: "cl_Token (logged c) (w, []) = (tr, w1, [])" by (simp add: logged_def Pair)
  show ?thesis
  proof (cases tr)
    case (Inl e)
    with assms T show ?thesis by (auto simp: client_do_def)
  next
    case (Inr t)
    obtain r w2 where first: "doOpenBao (logged c) um op meth path body t True (w1, []) = (snd (reply_result c um op r), w2, [Sent (?q t) r])"
      using doOpenBao_logged [of c um op meth path body t True w1 "[]"] by auto
    show ?thesis
    proof (cases "cl_RecoverToken c")
      case None
      then have "cl_RecoverToken (logged c) = None" by (simp add: logged_def)
      with assms T Inr first show ?thesis by (auto simp: client_do_def)
    next
      case (Some recover)
      obtain rr w3 where R: "recover t w2 = (rr, w3)" by fastforce
      have rec: "cl_RecoverToken (logged c) = Some (\<lambda>t (w, log). let (r, w') = recover t w in (r, w', log))"
        using Some by (simp add: logged_def)
      show ?thesis
      proof (cases "tokenRejected (snd (reply_result c um op r))")
        case False
        with assms T Inr first rec show ?thesis by (auto simp: client_do_def)
      next
        case True
        then have d: "denied r" "isl (snd (reply_result c um op r))" by (auto simp: rejected_denied tokenRejected_def isl_def split: sum.splits)
        show ?thesis
        proof (cases "\<exists>t'. rr = Inr t' \<and> t' \<noteq> [] \<and> t' \<noteq> t")
          case False
          with assms T Inr first rec R True d show ?thesis
            by (cases rr) (auto simp: client_do_def)
        next
          case new: True
          then obtain t' where t': "rr = Inr t'" "t' \<noteq> []" "t' \<noteq> t" by auto
          obtain r' w4 where second: "doOpenBao (logged c) um op meth path body t' True (w3, [Sent (?q t) r])
              = (snd (reply_result c um op r'), w4, [Sent (?q t) r, Sent (?q t') r'])"
            using doOpenBao_logged [of c um op meth path body t' True w3 "[Sent (?q t) r]"] by auto
          have "log = [Sent (?q t) r, Sent (?q t') r'] @ (if tokenRejected res \<and> cl_RejectToken c \<noteq> None then [Reported t'] else [])
              \<and> res = snd (reply_result c um op r')"
            using assms T Inr first rec R True t' second
            by (cases "cl_RejectToken c") (auto simp: client_do_def logged_def split: if_splits)
          with d t' show ?thesis by blast
        qed
      qed
    qed
  qed
qed

end
