(* ===== verification/KMS_Protocol.thy ===== *)
theory KMS_Protocol
  imports AAD "HOL-Library.Multiset"
begin

text \<open>
  The data of the Kubernetes KMS v2 protocol boundary (\<^verbatim>\<open>internal/kmsv2/server.go\<close> and
  \<^verbatim>\<open>limits.go\<close>): the cached status, the request and response messages with their size
  limits, and the validation that a healthy status and an encryption share.

  A protobuf message pointer is an option (\<open>None\<close> is \<open>nil\<close>); its \<open>Get\<close> methods read the
  fields. Annotation maps are association lists in the order in which the loop visits them.
\<close>

section \<open>Constants and messages\<close>

definition APIVersion :: string where "APIVersion = ''v2''"
definition HealthOK :: string where "HealthOK = ''ok''"
definition HealthUnhealthy :: string where "HealthUnhealthy = ''unhealthy''"

definition MaxKMSCiphertextBytes :: nat where "MaxKMSCiphertextBytes = 1024"
definition MaxKMSKeyIDBytes :: nat where "MaxKMSKeyIDBytes = 1024"
definition MaxKMSAnnotationBytes :: nat where "MaxKMSAnnotationBytes = 32 * 1024"

record CachedStatus =
  Healthz :: string
  KeyID :: string
  Active :: KeySnapshot

record StatusResponse =
  sr_Version :: string
  sr_Healthz :: string
  sr_KeyId :: string

record EncryptRequest =
  er_Plaintext :: string
  er_Uid :: string

record EncryptResponse =
  Ciphertext :: string
  KeyId :: string
  ResponseAnnotations :: annotations

record DecryptRequest =
  dr_Ciphertext :: string
  dr_Uid :: string
  dr_KeyId :: string
  dr_Annotations :: annotations

record TransitEncryptRequest =
  te_Plaintext :: string
  te_AssociatedData :: string
  te_KeyVersion :: int

record TransitEncryptResponse =
  ter_Ciphertext :: string
  ter_KeyVersion :: int

record TransitDecryptRequest =
  td_Ciphertext :: string
  td_AssociatedData :: string

text \<open>The zero values of the Go structs.\<close>

definition zero_snapshot :: KeySnapshot where
  "zero_snapshot = \<lparr>ProviderName = [], ClusterID = [], OpenBaoInstanceID = [], OpenBaoNamespace = [],
     TransitMountID = [], TransitKeyLineageID = [], TransitVersion = 0,
     TransitVersionCreatedAt = zero_time, KubernetesKeyID = [], State = [], AADMode = []\<rparr>"

definition zero_status :: CachedStatus where
  "zero_status = \<lparr>Healthz = [], KeyID = [], Active = zero_snapshot\<rparr>"

section \<open>Limits\<close>

fun annotation_limits :: "sentinel \<Rightarrow> nat \<Rightarrow> annotations \<Rightarrow> unit res" where
  "annotation_limits limitErr used [] = Inr ()"
| "annotation_limits limitErr used ((k, v) # rest) =
    (if \<not> utf8_valid k \<or> \<not> utf8_valid v
     then Inl (errw ErrInvalidAnnotations ''annotation encoding is invalid'')
     else if MaxKMSAnnotationBytes \<le> used + (length k + length v)
     then Inl (errw limitErr ''annotations exceed 32767 bytes'')
     else annotation_limits limitErr (used + (length k + length v)) rest)"

definition validateAnnotationsProtoLimits :: "annotations \<Rightarrow> sentinel \<Rightarrow> unit res" where
  "validateAnnotationsProtoLimits anns limitErr = annotation_limits limitErr 0 anns"

definition validateDecryptRequestLimits :: "DecryptRequest \<Rightarrow> unit res" where
  "validateDecryptRequestLimits request =
    bindE (failIf (MaxKMSCiphertextBytes \<le> length (dr_Ciphertext request))
             (errw ErrRequestLimitExceeded ''ciphertext exceeds 1023 bytes'')) (\<lambda>_.
    bindE (failIf (MaxKMSKeyIDBytes \<le> length (dr_KeyId request))
             (errw ErrRequestLimitExceeded ''key_id exceeds 1023 bytes'')) (\<lambda>_.
    validateAnnotationsProtoLimits (dr_Annotations request) ErrRequestLimitExceeded))"

definition validateEncryptResponseLimits :: "EncryptResponse option \<Rightarrow> unit res" where
  "validateEncryptResponseLimits response =
    (case response of
       None \<Rightarrow> Inl (errw ErrResponseLimitExceeded ''nil encrypt response'')
     | Some r \<Rightarrow>
        bindE (failIf (MaxKMSCiphertextBytes \<le> length (Ciphertext r))
                 (errw ErrResponseLimitExceeded ''ciphertext exceeds 1023 bytes'')) (\<lambda>_.
        bindE (failIf (KeyId r = [] \<or> MaxKMSKeyIDBytes \<le> length (KeyId r))
                 (errw ErrResponseLimitExceeded ''key_id exceeds 1023 bytes'')) (\<lambda>_.
        validateAnnotationsProtoLimits (ResponseAnnotations r) ErrResponseLimitExceeded)))"

section \<open>Status\<close>

definition validateCachedStatus :: "CachedStatus \<Rightarrow> KeySnapshot res" where
  "validateCachedStatus cached =
    bindE (failIf (Healthz cached \<noteq> HealthOK) (Sentinel ErrStatusUnhealthy)) (\<lambda>_.
    bindE (case Normalize (Active cached) of
             Inl e \<Rightarrow> Inl (errw ErrActiveKeyUnavailable ''normalize active snapshot'')
           | Inr active \<Rightarrow> Inr active) (\<lambda>active.
    bindE (failIf (State active \<noteq> StateActive \<or> KeyID cached = []) (Sentinel ErrActiveKeyUnavailable)) (\<lambda>_.
    bindE (failIf (KeyID cached \<noteq> KubernetesKeyID active) (Sentinel ErrStatusKeyIDMismatch)) (\<lambda>_.
    Inr active))))"

definition statusResponse :: "CachedStatus \<Rightarrow> StatusResponse" where
  "statusResponse cached =
    (let healthz = (if Healthz cached = [] then HealthUnhealthy else Healthz cached);
         keyID = (if healthz \<noteq> HealthOK then [] else KeyID cached);
         (healthz, keyID) =
           (if healthz = HealthOK then
              (case validateCachedStatus cached of Inl _ \<Rightarrow> (HealthUnhealthy, []) | Inr _ \<Rightarrow> (healthz, keyID))
            else (healthz, keyID))
     in \<lparr>sr_Version = APIVersion, sr_Healthz = healthz, sr_KeyId = keyID\<rparr>)"

definition annotationsToProto :: "annotations \<Rightarrow> annotations" where
  "annotationsToProto anns = map (\<lambda>(key, value). (key, value)) anns"

definition annotationsFromValidatedProto :: "annotations \<Rightarrow> annotations" where
  "annotationsFromValidatedProto anns = map (\<lambda>(key, value). (key, value)) anns"

section \<open>Lemmas\<close>

lemma health_distinct [simp]: "HealthOK \<noteq> HealthUnhealthy" "HealthUnhealthy \<noteq> HealthOK"
  "HealthOK \<noteq> []" "HealthUnhealthy \<noteq> []"
  by (simp_all add: HealthOK_def HealthUnhealthy_def)

lemma annotationsToProto_id [simp]: "annotationsToProto anns = anns"
  and annotationsFromProto_id [simp]: "annotationsFromValidatedProto anns = anns"
  by (simp_all add: annotationsToProto_def annotationsFromValidatedProto_def)

text \<open>The size of an annotation map: the bytes of its keys and values.\<close>

definition annotation_bytes :: "annotations \<Rightarrow> nat" where
  "annotation_bytes anns = sum_list (map (\<lambda>(k, v). length k + length v) anns)"

lemma annotation_limits_Inr:
  "annotation_limits e used anns = Inr u \<longleftrightarrow>
     list_all (\<lambda>(k, v). utf8_valid k \<and> utf8_valid v) anns
     \<and> (anns = [] \<or> used + annotation_bytes anns < MaxKMSAnnotationBytes)"
proof (induction anns arbitrary: used)
  case (Cons kv rest)
  then show ?case by (cases kv) (auto simp: annotation_bytes_def add.assoc)
qed simp

lemma validateAnnotationsProtoLimits_Inr [simp]:
  "validateAnnotationsProtoLimits anns e = Inr u \<longleftrightarrow>
     list_all (\<lambda>(k, v). utf8_valid k \<and> utf8_valid v) anns \<and> annotation_bytes anns < MaxKMSAnnotationBytes"
  by (auto simp: validateAnnotationsProtoLimits_def annotation_limits_Inr annotation_bytes_def
      MaxKMSAnnotationBytes_def)

text \<open>The verdict of the size check does not depend on the order in which the map is visited.\<close>

lemma annotation_limits_perm:
  assumes "mset anns = mset anns2"
  shows "validateAnnotationsProtoLimits anns e = Inr () \<longleftrightarrow> validateAnnotationsProtoLimits anns2 e = Inr ()"
proof -
  have "annotation_bytes anns = annotation_bytes anns2"
    unfolding annotation_bytes_def by (metis (no_types) mset_map sum_mset_sum_list assms)
  moreover have "set anns = set anns2"
    using assms by (rule mset_eq_setD)
  ultimately show ?thesis by (simp add: list_all_iff)
qed

lemma validateCachedStatus_Inr:
  "validateCachedStatus c = Inr a \<longleftrightarrow>
     Healthz c = HealthOK \<and> normalizable (Active c) \<and> a = normal_form (Active c)
     \<and> State (Active c) = StateActive \<and> KeyID c = derived_key_id (Active c)"
proof -
  have "(case Normalize (Active c) of Inl e \<Rightarrow> Inl (errw ErrActiveKeyUnavailable m) | Inr x \<Rightarrow> Inr x) = Inr b
          \<longleftrightarrow> normalizable (Active c) \<and> b = normal_form (Active c)" for m and b :: KeySnapshot
    by (cases "Normalize (Active c)") (auto simp flip: Normalize_Inr)
  then show ?thesis by (auto simp: validateCachedStatus_def simp: derived_key_id_not_Nil [THEN not_sym])
qed

lemma statusResponse_ok:
  "sr_Healthz (statusResponse c) = HealthOK \<longleftrightarrow> (\<exists>a. validateCachedStatus c = Inr a)"
  by (auto simp: statusResponse_def Let_def split: sum.splits) (auto simp: validateCachedStatus_Inr)

lemma statusResponse_key:
  "sr_KeyId (statusResponse c) = (if sr_Healthz (statusResponse c) = HealthOK then KeyID c else [])"
  by (auto simp: statusResponse_def Let_def split: sum.splits)

text \<open>
  Status never advertises a key it cannot stand behind: the response is healthy exactly when the
  cached status is marked healthy, its active snapshot is complete and in the active state, and the
  cached key_id is the one derived from that snapshot; then the response carries this well-formed
  key_id. Every other response carries no key_id.
\<close>

lemma status_response_sound:
  "(sr_Healthz (statusResponse cached) = HealthOK \<longleftrightarrow>
      Healthz cached = HealthOK \<and> normalizable (Active cached) \<and> State (Active cached) = StateActive
      \<and> KeyID cached = derived_key_id (Active cached))
   \<and> sr_KeyId (statusResponse cached) =
       (if sr_Healthz (statusResponse cached) = HealthOK then derived_key_id (Active cached) else [])
   \<and> ParseKeyID (sr_KeyId (statusResponse cached)) =
       (if sr_Healthz (statusResponse cached) = HealthOK then Inr (derived_key_id (Active cached)) else ParseKeyID [])"
  using statusResponse_ok [of cached] statusResponse_key [of cached]
  by (auto simp: validateCachedStatus_Inr ParseKeyID_derived)

end
