(* ===== verification/Error_Policy.thy ===== *)
theory Error_Policy
  imports Error_Classes
begin

text \<open>
  The public error policy of the KMS service (\<^verbatim>\<open>internal/kmsv2/error_policy.go\<close>, and the classification in
  \<^verbatim>\<open>request_lifecycle.go\<close> and \<^verbatim>\<open>observability.go\<close>): which gRPC code, message and observation class
  an internal error is turned into at the RPC boundary.
\<close>

section \<open>Codes and classes\<close>

abbreviation (input) "OK \<equiv> (0 :: nat)"
abbreviation (input) "Canceled \<equiv> (1 :: nat)"
abbreviation (input) "Unknown \<equiv> (2 :: nat)"
abbreviation (input) "InvalidArgument \<equiv> (3 :: nat)"
abbreviation (input) "DeadlineExceeded \<equiv> (4 :: nat)"
abbreviation (input) "NotFound \<equiv> (5 :: nat)"
abbreviation (input) "PermissionDenied \<equiv> (7 :: nat)"
abbreviation (input) "ResourceExhausted \<equiv> (8 :: nat)"
abbreviation (input) "FailedPrecondition \<equiv> (9 :: nat)"
abbreviation (input) "Internal \<equiv> (13 :: nat)"
abbreviation (input) "Unavailable \<equiv> (14 :: nat)"
abbreviation (input) "Unauthenticated \<equiv> (16 :: nat)"

definition methodStatus :: string where "methodStatus = ''status''"
definition methodEncrypt :: string where "methodEncrypt = ''encrypt''"
definition methodDecrypt :: string where "methodDecrypt = ''decrypt''"

record errorPolicy =
  p_code :: nat
  p_message :: string
  p_class :: string

definition mkPolicy :: "nat \<Rightarrow> string \<Rightarrow> string \<Rightarrow> errorPolicy" where
  "mkPolicy code message class = \<lparr>p_code = code, p_message = message, p_class = class\<rparr>"

text \<open>\<open>status.Code\<close> of the gRPC library: the code of the first status error in the tree, or unknown.\<close>

fun as_grpc_code :: "go_error \<Rightarrow> nat option" where
  "as_grpc_code (GrpcStatus c m) = Some c"
| "as_grpc_code (Wrap m es) = first_some as_grpc_code es"
| "as_grpc_code (TransitFailure e) = as_grpc_code e"
| "as_grpc_code (ProbeError r e) = as_grpc_code e"
| "as_grpc_code (AuthError e) = as_grpc_code e"
| "as_grpc_code (ApiError c n p) = None"
| "as_grpc_code (Sentinel s) = None"
| "as_grpc_code (Msg m) = None"

definition grpcstatus_Code :: "go_error \<Rightarrow> nat" where
  "grpcstatus_Code err = (case as_grpc_code err of Some c \<Rightarrow> c | None \<Rightarrow> Unknown)"

section \<open>Local errors\<close>

definition canceledErrorPolicy :: errorPolicy where
  "canceledErrorPolicy = mkPolicy Canceled ''request canceled'' ''canceled''"
definition timeoutErrorPolicy :: errorPolicy where
  "timeoutErrorPolicy = mkPolicy DeadlineExceeded ''request timed out'' ''timeout''"

definition sentinelErrorPolicies :: "(sentinel \<times> errorPolicy) list" where
  "sentinelErrorPolicies =
    [(Context_Canceled, canceledErrorPolicy),
     (Context_DeadlineExceeded, timeoutErrorPolicy),
     (ErrKeyMetadataRefresh, mkPolicy Unavailable ''key metadata refresh failed'' ''key_metadata_refresh_failed''),
     (ErrPlaintextRequired, mkPolicy InvalidArgument ''plaintext is required'' ''unknown''),
     (ErrCiphertextRequired, mkPolicy InvalidArgument ''ciphertext is required'' ''unknown''),
     (ErrRequestLimitExceeded, mkPolicy InvalidArgument ''kms request exceeds protocol limits'' ''protocol_limit''),
     (ErrMalformedKeyID, mkPolicy InvalidArgument ''key_id malformed'' ''key_id_malformed''),
     (ErrInvalidAnnotations, mkPolicy InvalidArgument ''annotations invalid'' ''annotation_invalid''),
     (ErrAnnotationMismatch, mkPolicy InvalidArgument ''annotations do not match key snapshot'' ''aad_mismatch''),
     (ErrResponseLimitExceeded, mkPolicy Internal ''kms response exceeds protocol limits'' ''protocol_limit''),
     (ErrConcurrencyLimitExceeded,
        mkPolicy ResourceExhausted ''kms request concurrency limit reached'' ''concurrency_limit''),
     (ErrUnknownKeyID, mkPolicy NotFound ''key_id unknown'' ''key_id_unknown''),
     (ErrStatusUnavailable, mkPolicy FailedPrecondition ''status unavailable'' ''status_stale''),
     (ErrStatusUnhealthy, mkPolicy FailedPrecondition ''status unhealthy'' ''status_stale''),
     (ErrActiveKeyUnavailable, mkPolicy FailedPrecondition ''active key unavailable'' ''status_stale''),
     (ErrStatusKeyIDMismatch, mkPolicy FailedPrecondition ''status key_id mismatch'' ''status_stale''),
     (ErrAADRequired, mkPolicy FailedPrecondition ''AAD required'' ''aad_missing''),
     (ErrPanicRecovered, mkPolicy Internal ''kms request failed'' ''panic'')]"

definition unknownLocalErrorPolicy :: errorPolicy where
  "unknownLocalErrorPolicy = mkPolicy Internal ''kms request failed'' ''unknown''"

definition lookupLocalErrorPolicy :: "go_error \<Rightarrow> errorPolicy \<times> bool" where
  "lookupLocalErrorPolicy err =
    (case find (\<lambda>(s, _). errors_is err s) sentinelErrorPolicies of
       Some (_, p) \<Rightarrow> (p, True) | None \<Rightarrow> (unknownLocalErrorPolicy, False))"

section \<open>Transit errors\<close>

definition transitCodePolicies :: "(nat \<times> errorPolicy) list" where
  "transitCodePolicies =
    [(Canceled, canceledErrorPolicy),
     (DeadlineExceeded, timeoutErrorPolicy),
     (PermissionDenied, mkPolicy PermissionDenied ''transit permission denied'' ''transit_policy_denied''),
     (Unauthenticated, mkPolicy Unauthenticated ''transit authentication failed'' ''auth_failed''),
     (NotFound, mkPolicy NotFound ''transit key not found'' ''transit_key_missing''),
     (InvalidArgument, mkPolicy InvalidArgument ''transit decrypt failed'' ''unknown''),
     (ResourceExhausted, mkPolicy ResourceExhausted ''transit rate limited'' ''unknown''),
     (Unavailable, mkPolicy Unavailable ''transit unavailable'' ''openbao_unavailable'')]"

definition transitCodePolicy :: "nat \<Rightarrow> string \<Rightarrow> errorPolicy" where
  "transitCodePolicy code method =
    (case map_of transitCodePolicies code of
       None \<Rightarrow> mkPolicy code ''transit operation failed'' ''unknown''
     | Some policy \<Rightarrow>
         if code = InvalidArgument \<and> method = methodEncrypt
         then policy\<lparr>p_message := ''transit encrypt failed''\<rparr> else policy)"

fun openBaoErrorPolicies :: "ErrorClass \<Rightarrow> (nat \<times> string) option" where
  "openBaoErrorPolicies ErrorClassUnauthenticated = Some (Unauthenticated, ''auth_failed'')"
| "openBaoErrorPolicies ErrorClassPermissionDenied = Some (PermissionDenied, ''transit_policy_denied'')"
| "openBaoErrorPolicies ErrorClassNotFound = Some (NotFound, ''transit_key_missing'')"
| "openBaoErrorPolicies ErrorClassInvalidRequest = Some (InvalidArgument, ''unknown'')"
| "openBaoErrorPolicies ErrorClassDecryptFailed = Some (InvalidArgument, ''aad_mismatch'')"
| "openBaoErrorPolicies ErrorClassRateLimited = Some (ResourceExhausted, ''openbao_rate_limited'')"
| "openBaoErrorPolicies ErrorClassSealed = Some (Unavailable, ''openbao_sealed'')"
| "openBaoErrorPolicies ErrorClassUnavailable = Some (Unavailable, ''openbao_unavailable'')"
| "openBaoErrorPolicies ErrorClassTLSFailed = Some (Unavailable, ''openbao_tls_failed'')"
| "openBaoErrorPolicies ErrorClassDNSFailed = Some (Unavailable, ''openbao_dns_failed'')"
| "openBaoErrorPolicies ErrorClassConnectionFailed = Some (Unavailable, ''openbao_connection_failed'')"
| "openBaoErrorPolicies ErrorClassUnknown = None"

definition contextError :: "go_error \<Rightarrow> bool" where
  "contextError err \<longleftrightarrow> errors_is err Context_Canceled \<or> errors_is err Context_DeadlineExceeded"

definition authenticationError :: "go_error \<Rightarrow> bool" where
  "authenticationError err \<longleftrightarrow> errors_is err ErrAuthentication \<and>
    (case as_api_error err of
       Some (class, _) \<Rightarrow> class \<notin> {ErrorClassUnavailable, ErrorClassSealed, ErrorClassRateLimited,
         ErrorClassTLSFailed, ErrorClassDNSFailed, ErrorClassConnectionFailed}
     | None \<Rightarrow> True)"

definition transitErrorPolicy :: "go_error \<Rightarrow> string \<Rightarrow> errorPolicy" where
  "transitErrorPolicy err method =
    (if contextError err then fst (lookupLocalErrorPolicy err)
     else if authenticationError err then transitCodePolicy Unauthenticated method
     else
       let backendErr = as_api_error err;
           hasBackendError = (backendErr \<noteq> None);
           backendPolicy = (case backendErr of
               None \<Rightarrow> (Unavailable, ''unknown'')
             | Some (class, _) \<Rightarrow> (case openBaoErrorPolicies class of
                   Some policy \<Rightarrow> policy | None \<Rightarrow> (Unavailable, ''unknown'')));
           code = grpcstatus_Code err
       in if code \<noteq> Unknown then
            (let policy = transitCodePolicy code method
             in if hasBackendError then policy\<lparr>p_class := snd backendPolicy\<rparr> else policy)
          else if hasBackendError then
            (transitCodePolicy (fst backendPolicy) method)\<lparr>p_class := snd backendPolicy\<rparr>
          else mkPolicy Unavailable ''transit operation failed'' ''openbao_unavailable'')"

section \<open>The RPC boundary\<close>

definition requestErrorPolicy :: "go_error \<Rightarrow> string \<Rightarrow> errorPolicy" where
  "requestErrorPolicy err method =
    (case as_transit_failure err of
       Some cause \<Rightarrow> transitErrorPolicy cause method
     | None \<Rightarrow>
         let (policy, ok) = lookupLocalErrorPolicy err
         in if \<not> ok then policy\<lparr>p_class := p_class (transitCodePolicy (grpcstatus_Code err) method)\<rparr>
            else policy)"

definition policy_rpcError :: "errorPolicy \<Rightarrow> go_error" where
  "policy_rpcError p = GrpcStatus (p_code p) (p_message p)"

definition rpcError :: "go_error option \<Rightarrow> go_error option" where
  "rpcError err = map_option (\<lambda>e. policy_rpcError (fst (lookupLocalErrorPolicy e))) err"

definition errorClass :: "go_error option \<Rightarrow> string" where
  "errorClass err = (case err of None \<Rightarrow> []
   | Some e \<Rightarrow> (case lookupLocalErrorPolicy e of
        (policy, True) \<Rightarrow> p_class policy
      | (_, False) \<Rightarrow> p_class (transitCodePolicy (grpcstatus_Code e) [])))"

definition transitRPCError :: "go_error option \<Rightarrow> string \<Rightarrow> go_error option" where
  "transitRPCError err method = map_option (\<lambda>e. policy_rpcError (transitErrorPolicy e method)) err"

definition transitErrorClass :: "go_error option \<Rightarrow> string" where
  "transitErrorClass err = (case err of None \<Rightarrow> [] | Some e \<Rightarrow> p_class (transitErrorPolicy e []))"

definition grpcStatusLabels :: "(nat \<times> string) list" where
  "grpcStatusLabels =
    [(0, ''ok''), (1, ''canceled''), (2, ''unknown''), (3, ''invalid_argument''), (4, ''deadline_exceeded''),
     (5, ''not_found''), (6, ''already_exists''), (7, ''permission_denied''), (8, ''resource_exhausted''),
     (9, ''failed_precondition''), (10, ''aborted''), (11, ''out_of_range''), (12, ''unimplemented''),
     (13, ''internal''), (14, ''unavailable''), (15, ''data_loss''), (16, ''unauthenticated'')]"

definition statusLabel :: "go_error option \<Rightarrow> string" where
  "statusLabel err = (case err of
     None \<Rightarrow> ''ok''
   | Some e \<Rightarrow> (case map_of grpcStatusLabels (grpcstatus_Code e) of Some label \<Rightarrow> label | None \<Rightarrow> ''unknown''))"

section \<open>Main results\<close>

text \<open>The texts that may leave the process in an error response.\<close>

definition approved_messages :: "string list" where
  "approved_messages =
    [''request canceled'', ''request timed out'', ''key metadata refresh failed'', ''plaintext is required'',
     ''ciphertext is required'', ''kms request exceeds protocol limits'', ''key_id malformed'',
     ''annotations invalid'', ''annotations do not match key snapshot'', ''kms response exceeds protocol limits'',
     ''kms request concurrency limit reached'', ''key_id unknown'', ''status unavailable'', ''status unhealthy'',
     ''active key unavailable'', ''status key_id mismatch'', ''AAD required'', ''kms request failed'',
     ''transit permission denied'', ''transit authentication failed'', ''transit key not found'',
     ''transit decrypt failed'', ''transit encrypt failed'', ''transit rate limited'', ''transit unavailable'',
     ''transit operation failed'']"

lemma sentinel_messages: "\<forall>(s, p) \<in> set sentinelErrorPolicies. p_message p \<in> set approved_messages"
  unfolding sentinelErrorPolicies_def approved_messages_def canceledErrorPolicy_def timeoutErrorPolicy_def mkPolicy_def
  by simp

lemma lookupLocal_message: "p_message (fst (lookupLocalErrorPolicy err)) \<in> set approved_messages"
proof (cases "find (\<lambda>(s, _). errors_is err s) sentinelErrorPolicies")
  case None
  then show ?thesis
    by (simp add: lookupLocalErrorPolicy_def unknownLocalErrorPolicy_def mkPolicy_def approved_messages_def)
next
  case (Some sp)
  then have "sp \<in> set sentinelErrorPolicies" by (metis find_Some_iff nth_mem)
  with Some sentinel_messages show ?thesis by (auto simp: lookupLocalErrorPolicy_def split: prod.split)
qed

lemma transitCode_message: "p_message (transitCodePolicy code method) \<in> set approved_messages"
proof -
  have "\<forall>(c, p) \<in> set transitCodePolicies. p_message p \<in> set approved_messages"
    unfolding transitCodePolicies_def approved_messages_def canceledErrorPolicy_def timeoutErrorPolicy_def mkPolicy_def
    by simp
  then have "p_message p \<in> set approved_messages" if "map_of transitCodePolicies code = Some p" for p
    using map_of_SomeD [OF that] by auto
  moreover have "''transit encrypt failed'' \<in> set approved_messages" "''transit operation failed'' \<in> set approved_messages"
    by (simp_all add: approved_messages_def)
  ultimately show ?thesis
    by (auto simp: transitCodePolicy_def mkPolicy_def split: option.split)
qed

lemma transitError_message: "p_message (transitErrorPolicy err method) \<in> set approved_messages"
proof -
  have op: "''transit operation failed'' \<in> set approved_messages" by (simp add: approved_messages_def)
  show ?thesis
    using lookupLocal_message transitCode_message op
    by (simp add: transitErrorPolicy_def Let_def mkPolicy_def)
qed

text \<open>The message of every RPC error is one of the approved texts.\<close>

lemma requestErrorPolicy_message:
  "p_message (requestErrorPolicy err method) \<in> set approved_messages"
proof (cases "as_transit_failure err")
  case None
  then show ?thesis
    using lookupLocal_message [of err] by (cases "lookupLocalErrorPolicy err") (simp add: requestErrorPolicy_def)
next
  case (Some cause)
  then show ?thesis by (simp add: requestErrorPolicy_def transitError_message)
qed

lemma lookup_context:
  "errors_is err Context_Canceled \<Longrightarrow> lookupLocalErrorPolicy err = (canceledErrorPolicy, True)"
  "\<not> errors_is err Context_Canceled \<Longrightarrow> errors_is err Context_DeadlineExceeded \<Longrightarrow>
     lookupLocalErrorPolicy err = (timeoutErrorPolicy, True)"
  by (simp_all add: lookupLocalErrorPolicy_def sentinelErrorPolicies_def)

text \<open>
  Cancellation and deadlines take precedence: if a request failed because its context was cancelled
  or timed out, directly or inside a Transit failure, then the caller sees the code of that and
  not the code of the operation that failed.
\<close>

lemma context_errors_first:
  assumes "contextError (case as_transit_failure err of Some cause \<Rightarrow> cause | None \<Rightarrow> err)"
  shows "requestErrorPolicy err method \<in> {canceledErrorPolicy, timeoutErrorPolicy}"
proof -
  have lookup: "fst (lookupLocalErrorPolicy e) \<in> {canceledErrorPolicy, timeoutErrorPolicy} \<and> snd (lookupLocalErrorPolicy e)"
    if "contextError e" for e
    using that lookup_context [of e] by (cases "errors_is e Context_Canceled") (auto simp: contextError_def)
  show ?thesis
  proof (cases "as_transit_failure err")
    case None
    with assms lookup [of err] show ?thesis
      by (cases "lookupLocalErrorPolicy err") (simp add: requestErrorPolicy_def)
  next
    case (Some cause)
    with assms lookup [of cause] show ?thesis by (simp add: requestErrorPolicy_def transitErrorPolicy_def)
  qed
qed

end
