(* ===== verification/KMS_Server.thy ===== *)
theory KMS_Server
  imports KMS_Protocol Error_Policy
begin

text \<open>
  The Kubernetes KMS v2 server (\<^verbatim>\<open>internal/kmsv2/server.go\<close>, \<^verbatim>\<open>concurrency.go\<close>,
  \<^verbatim>\<open>request_lifecycle.go\<close>, \<^verbatim>\<open>observability.go\<close>): the concurrency limiters, the three request
  handlers with their panic recovery, and what they promise to the API server.

  The dependencies of the server are the interfaces \<open>StatusCache\<close>, \<open>SnapshotLookup\<close>,
  \<open>KeyRefresher\<close> and \<open>Transit\<close>. They act on a world of type \<open>'w\<close>, which a handler threads through
  its calls, and a call may panic instead of returning, as may a call of the observer. A handler also records the
  calls it makes and the observations it emits, in order, as its trace, and whether a panic left it.
\<close>

section \<open>Concurrency limiter\<close>

text \<open>A buffered channel of empty structs is its capacity and the number of elements in it.\<close>

record concurrencyLimiter =
  lim_cap :: int
  lim_len :: int

definition newConcurrencyLimiter :: "int \<Rightarrow> concurrencyLimiter" where
  "newConcurrencyLimiter limit = \<lparr>lim_cap = limit, lim_len = 0\<rparr>"

definition tryAcquire :: "concurrencyLimiter \<Rightarrow> bool \<times> concurrencyLimiter" where
  "tryAcquire l = (if lim_len l < lim_cap l then (True, l\<lparr>lim_len := lim_len l + 1\<rparr>) else (False, l))"

text \<open>Receiving from an empty channel blocks for ever: then there is no next state.\<close>

definition release :: "concurrencyLimiter \<Rightarrow> concurrencyLimiter option" where
  "release l = (if 0 < lim_len l then Some (l\<lparr>lim_len := lim_len l - 1\<rparr>) else None)"

definition inFlight :: "concurrencyLimiter \<Rightarrow> int" where
  "inFlight l = lim_len l"

section \<open>Dependencies\<close>

datatype 'a called = Return 'a | Panic string

text \<open>The context a dependency receives: the caller's, or one with the request timeout.\<close>

datatype request_context = CallerContext | WithTimeout int

record 'w Deps =
  dep_Current :: "request_context \<Rightarrow> 'w \<Rightarrow> CachedStatus res called \<times> 'w"
  dep_Lookup :: "string \<Rightarrow> 'w \<Rightarrow> KeySnapshot res called \<times> 'w"
  dep_Refresh :: "(request_context \<Rightarrow> string \<Rightarrow> 'w \<Rightarrow> unit res called \<times> 'w) option"
  dep_Encrypt :: "request_context \<Rightarrow> TransitEncryptRequest \<Rightarrow> 'w \<Rightarrow> TransitEncryptResponse res called \<times> 'w"
  dep_Decrypt :: "request_context \<Rightarrow> TransitDecryptRequest \<Rightarrow> 'w \<Rightarrow> string res called \<times> 'w"

record RequestObservation =
  ob_Method :: string
  ob_Status :: string
  ob_KeyIDHash :: string
  ob_TransitKeyVersion :: int
  ob_RequestUIDHash :: string
  ob_ErrorClass :: string
  ob_Healthz :: string
  ob_PanicRecovered :: bool
  ob_PanicType :: string
  ob_ConcurrencyRejected :: bool

definition newObservation :: "string \<Rightarrow> RequestObservation" where
  "newObservation method = \<lparr>ob_Method = method, ob_Status = [], ob_KeyIDHash = [], ob_TransitKeyVersion = 0,
     ob_RequestUIDHash = [], ob_ErrorClass = [], ob_Healthz = [], ob_PanicRecovered = False,
     ob_PanicType = [], ob_ConcurrencyRejected = False\<rparr>"

datatype server_event =
    CallCurrent
  | CallLookup string
  | CallRefresh string
  | CallEncrypt TransitEncryptRequest
  | CallDecrypt TransitDecryptRequest
  | ObserveKMSRequest RequestObservation
  | ObserveAADValidationError string
  | ObserveDecryptKeyIDError string

section \<open>Handlers as actions\<close>

text \<open>
  A handler body returns a value, returns an error, or panics; along the way it changes the world,
  fills in the observation and extends the trace. A panic that is not recovered leaves the handler.
\<close>

datatype 'a outcome = Ok 'a | Fail go_error | Panicked string

record 'w rq =
  world :: 'w
  observation :: RequestObservation
  events :: "server_event list"
  escaped :: "string option"

type_synonym ('w, 'a) action = "'w rq \<Rightarrow> 'a outcome \<times> 'w rq"

definition andThen :: "('w, 'a) action \<Rightarrow> ('a \<Rightarrow> ('w, 'b) action) \<Rightarrow> ('w, 'b) action" where
  "andThen m f = (\<lambda>q. case m q of
      (Ok x, q') \<Rightarrow> f x q' | (Fail e, q') \<Rightarrow> (Fail e, q') | (Panicked p, q') \<Rightarrow> (Panicked p, q'))"

definition return :: "'a \<Rightarrow> ('w, 'a) action" where
  "return x = (\<lambda>q. (Ok x, q))"

definition throw :: "go_error \<Rightarrow> ('w, 'a) action" where
  "throw e = (\<lambda>q. (Fail e, q))"

definition lift_res :: "'a res \<Rightarrow> ('w, 'a) action" where
  "lift_res r = (case r of Inl e \<Rightarrow> throw e | Inr x \<Rightarrow> return x)"

text \<open>A call of a dependency: its error is a value the caller inspects, its panic ends the body.\<close>

definition call :: "server_event \<Rightarrow> ('w \<Rightarrow> 'a called \<times> 'w) \<Rightarrow> ('w, 'a) action" where
  "call ev f = (\<lambda>q. case f (world q) of
      (Return x, w) \<Rightarrow> (Ok x, q\<lparr>world := w, events := events q @ [ev]\<rparr>)
    | (Panic p, w) \<Rightarrow> (Panicked p, q\<lparr>world := w, events := events q @ [ev]\<rparr>))"

definition observe_with :: "(RequestObservation \<Rightarrow> RequestObservation) \<Rightarrow> ('w, unit) action" where
  "observe_with f = (\<lambda>q. (Ok (), q\<lparr>observation := f (observation q)\<rparr>))"

section \<open>The server\<close>

record 'w Server =
  deps :: "'w Deps"
  pluginVersion :: string
  requestTimeout :: int
  statusLimiter :: concurrencyLimiter
  encryptLimiter :: concurrencyLimiter
  decryptLimiter :: concurrencyLimiter
  hasObserver :: bool
  observer_panics :: "server_event \<Rightarrow> string option"

record 'w Options =
  opt_deps :: "'w Deps"
  opt_hasStatusCache :: bool
  opt_hasRegistry :: bool
  opt_hasTransit :: bool
  opt_PluginVersion :: string
  opt_RequestTimeout :: int
  opt_MaxConcurrentStatus :: int
  opt_MaxConcurrentEncrypt :: int
  opt_MaxConcurrentDecrypt :: int
  opt_hasObserver :: bool
  opt_observer_panics :: "server_event \<Rightarrow> string option"

definition maxConcurrentKMSRequests :: int where "maxConcurrentKMSRequests = 1024"

definition NewServer :: "'w Options \<Rightarrow> 'w Server res" where
  "NewServer opts =
    bindE (failIf (\<not> opt_hasStatusCache opts) (errw Kmsv2_ErrConfigInvalid ''status cache is required'')) (\<lambda>_.
    bindE (failIf (\<not> opt_hasRegistry opts) (errw Kmsv2_ErrConfigInvalid ''key registry is required'')) (\<lambda>_.
    bindE (failIf (\<not> opt_hasTransit opts) (errw Kmsv2_ErrConfigInvalid ''transit adapter is required'')) (\<lambda>_.
    bindE (failIf (opt_PluginVersion opts = []) (errw Kmsv2_ErrConfigInvalid ''plugin version is required'')) (\<lambda>_.
    bindE (failIf (opt_RequestTimeout opts < 0)
             (errw Kmsv2_ErrConfigInvalid ''request timeout must not be negative'')) (\<lambda>_.
    bindE (failIf (opt_MaxConcurrentStatus opts \<le> 0 \<or> maxConcurrentKMSRequests < opt_MaxConcurrentStatus opts)
             (errw Kmsv2_ErrConfigInvalid ''max concurrent status requests must be between 1 and 1024'')) (\<lambda>_.
    bindE (failIf (opt_MaxConcurrentEncrypt opts \<le> 0 \<or> maxConcurrentKMSRequests < opt_MaxConcurrentEncrypt opts)
             (errw Kmsv2_ErrConfigInvalid ''max concurrent encrypt requests must be between 1 and 1024'')) (\<lambda>_.
    bindE (failIf (opt_MaxConcurrentDecrypt opts \<le> 0 \<or> maxConcurrentKMSRequests < opt_MaxConcurrentDecrypt opts)
             (errw Kmsv2_ErrConfigInvalid ''max concurrent decrypt requests must be between 1 and 1024'')) (\<lambda>_.
    Inr \<lparr>deps = opt_deps opts, pluginVersion = opt_PluginVersion opts, requestTimeout = opt_RequestTimeout opts,
         statusLimiter = newConcurrencyLimiter (opt_MaxConcurrentStatus opts),
         encryptLimiter = newConcurrencyLimiter (opt_MaxConcurrentEncrypt opts),
         decryptLimiter = newConcurrencyLimiter (opt_MaxConcurrentDecrypt opts),
         hasObserver = opt_hasObserver opts, observer_panics = opt_observer_panics opts\<rparr>))))))))"

definition InFlightKMSRequests :: "'w Server \<Rightarrow> int \<times> int \<times> int" where
  "InFlightKMSRequests s = (inFlight (statusLimiter s), inFlight (encryptLimiter s), inFlight (decryptLimiter s))"

definition requestContext :: "'w Server \<Rightarrow> request_context" where
  "requestContext s = (if requestTimeout s = 0 then CallerContext else WithTimeout (requestTimeout s))"

text \<open>A call of the observer in the body of a handler; its panic ends the body.\<close>

definition emit :: "'w Server \<Rightarrow> server_event \<Rightarrow> ('w, unit) action" where
  "emit s ev = (\<lambda>q. (case observer_panics s ev of None \<Rightarrow> Ok () | Some p \<Rightarrow> Panicked p, q\<lparr>events := events q @ [ev]\<rparr>))"

definition observeValidationError :: "'w Server \<Rightarrow> go_error \<Rightarrow> ('w, unit) action" where
  "observeValidationError s err =
    (if \<not> hasObserver s then return ()
     else if errors_is err ErrMalformedKeyID then emit s (ObserveDecryptKeyIDError ''key_id_malformed'')
     else if errors_is err ErrUnknownKeyID then emit s (ObserveDecryptKeyIDError ''key_id_unknown'')
     else if errors_is err ErrAADRequired then emit s (ObserveAADValidationError ''aad_missing'')
     else if errors_is err ErrAnnotationMismatch then emit s (ObserveAADValidationError ''aad_mismatch'')
     else if errors_is err ErrInvalidAnnotations then emit s (ObserveAADValidationError ''annotation_invalid'')
     else return ())"

definition activeStatus :: "'w Server \<Rightarrow> ('w, KeySnapshot \<times> string) action" where
  "activeStatus s =
    andThen (call CallCurrent (dep_Current (deps s) (requestContext s))) (\<lambda>r.
    case r of
      Inl err \<Rightarrow> throw (if contextError err then err else Sentinel ErrStatusUnavailable)
    | Inr cached \<Rightarrow> andThen (lift_res (validateCachedStatus cached)) (\<lambda>active. return (active, KeyID cached)))"

text \<open>The bodies of the three handlers, between the acquisition of a slot and its release.\<close>

definition status_body :: "'w Server \<Rightarrow> ('w, StatusResponse) action" where
  "status_body s =
    andThen (call CallCurrent (dep_Current (deps s) (requestContext s))) (\<lambda>r.
    case r of
      Inl err \<Rightarrow> if contextError err then throw err
                 else return \<lparr>sr_Version = APIVersion, sr_Healthz = HealthUnhealthy, sr_KeyId = []\<rparr>
    | Inr cached \<Rightarrow> return (statusResponse cached))"

definition encrypt_body :: "'w Server \<Rightarrow> EncryptRequest option \<Rightarrow> ('w, EncryptResponse) action" where
  "encrypt_body s request =
    (case request of
       None \<Rightarrow> throw (Sentinel ErrPlaintextRequired)
     | Some req \<Rightarrow>
       if er_Plaintext req = [] then throw (Sentinel ErrPlaintextRequired)
       else
       andThen (activeStatus s) (\<lambda>(active, keyID).
       andThen (observe_with (\<lambda>ob. ob\<lparr>ob_KeyIDHash := HashValue keyID, ob_TransitKeyVersion := TransitVersion active\<rparr>)) (\<lambda>_.
       andThen (lift_res (BuildAnnotations active (pluginVersion s))) (\<lambda>anns.
       andThen (lift_res (BuildCanonical active anns)) (\<lambda>canonicalAAD.
       let treq = \<lparr>te_Plaintext = er_Plaintext req, te_AssociatedData = canonicalAAD,
                   te_KeyVersion = TransitVersion active\<rparr> in
       andThen (call (CallEncrypt treq) (dep_Encrypt (deps s) (requestContext s) treq)) (\<lambda>r.
       case r of
         Inl err \<Rightarrow> throw (TransitFailure err)
       | Inr encrypted \<Rightarrow>
         if ter_Ciphertext encrypted = [] then throw (Sentinel ErrTransitInvalidResponse)
         else if ter_KeyVersion encrypted \<noteq> 0 \<and> ter_KeyVersion encrypted \<noteq> TransitVersion active
         then throw (Sentinel ErrTransitInvalidResponse)
         else
         let response = \<lparr>Ciphertext = ter_Ciphertext encrypted, KeyId = keyID,
                         ResponseAnnotations = annotationsToProto anns\<rparr> in
         andThen (lift_res (validateEncryptResponseLimits (Some response))) (\<lambda>_. return response)))))))"

text \<open>\<open>PrepareDecrypt\<close> looks the key up first, once, and is a function of what it finds.\<close>

definition prepare :: "'w Server \<Rightarrow> DecryptRequest \<Rightarrow> ('w, DecryptAAD res) action" where
  "prepare s req =
    andThen (call (CallLookup (dr_KeyId req)) (dep_Lookup (deps s) (dr_KeyId req))) (\<lambda>found.
    return (PrepareDecrypt (\<lambda>_. found) (dr_KeyId req) (annotationsFromValidatedProto (dr_Annotations req))))"

definition prepare_or_refresh :: "'w Server \<Rightarrow> DecryptRequest \<Rightarrow> ('w, DecryptAAD res) action" where
  "prepare_or_refresh s req =
    andThen (prepare s req) (\<lambda>prepared.
    case prepared of
      Inr p \<Rightarrow> return prepared
    | Inl err \<Rightarrow>
      (case dep_Refresh (deps s) of
         None \<Rightarrow> return prepared
       | Some refresh \<Rightarrow>
         if \<not> errors_is err ErrUnknownKeyID then return prepared
         else andThen (call (CallRefresh (dr_KeyId req)) (refresh (requestContext s) (dr_KeyId req))) (\<lambda>r.
           case r of
             Inl refreshErr \<Rightarrow> return (Inl (Wrap [] [Sentinel ErrKeyMetadataRefresh, refreshErr]))
           | Inr _ \<Rightarrow> prepare s req)))"

definition decrypt_prepared :: "'w Server \<Rightarrow> DecryptRequest \<Rightarrow> DecryptAAD \<Rightarrow> ('w, string) action" where
  "decrypt_prepared s req prepared =
    andThen (observe_with (\<lambda>ob. ob\<lparr>ob_KeyIDHash := HashValue (KubernetesKeyID (Snapshot prepared)),
                                   ob_TransitKeyVersion := TransitVersion (Snapshot prepared)\<rparr>)) (\<lambda>_.
    let treq = \<lparr>td_Ciphertext = dr_Ciphertext req, td_AssociatedData = Canonical prepared\<rparr> in
    andThen (call (CallDecrypt treq) (dep_Decrypt (deps s) (requestContext s) treq)) (\<lambda>d.
    case d of Inl err \<Rightarrow> throw (TransitFailure err) | Inr plaintext \<Rightarrow> return plaintext))"

definition decrypt_body :: "'w Server \<Rightarrow> DecryptRequest option \<Rightarrow> ('w, string) action" where
  "decrypt_body s request =
    (case request of
       None \<Rightarrow> throw (Sentinel ErrCiphertextRequired)
     | Some req \<Rightarrow>
       if dr_Ciphertext req = [] then throw (Sentinel ErrCiphertextRequired)
       else
       andThen (lift_res (validateDecryptRequestLimits req)) (\<lambda>_.
       andThen (prepare_or_refresh s req) (\<lambda>r.
       case r of
         Inl err \<Rightarrow> andThen (observeValidationError s err) (\<lambda>_. throw err)
       | Inr prepared \<Rightarrow> decrypt_prepared s req prepared)))"

text \<open>A slot is taken before the body runs and given back after it, on every way out of it.\<close>

definition limited :: "concurrencyLimiter \<Rightarrow> ('w, 'a) action \<Rightarrow> 'w rq \<Rightarrow> 'a outcome \<times> 'w rq \<times> concurrencyLimiter option" where
  "limited l body q =
    (case tryAcquire l of
       (False, l') \<Rightarrow>
         (Fail (Sentinel ErrConcurrencyLimitExceeded),
          q\<lparr>observation := (observation q)\<lparr>ob_ConcurrencyRejected := True\<rparr>\<rparr>, Some l')
     | (True, l') \<Rightarrow> let (out, q') = body q in (out, q', release l'))"

text \<open>
  \<open>finishRequest\<close> with \<open>observeRequest\<close>; the measured duration is not part of the observation. The observer is called
  after \<open>recover\<close>, so its panic leaves the handler.
\<close>

definition finishRequest :: "'w Server \<Rightarrow> 'a outcome \<times> 'w rq \<Rightarrow> 'a res \<times> 'w rq" where
  "finishRequest s result =
    (let (out, q) = result;
         q = (case out of Panicked p \<Rightarrow> q\<lparr>observation := (observation q)\<lparr>ob_PanicRecovered := True, ob_PanicType := p\<rparr>\<rparr>
              | _ \<Rightarrow> q);
         (res, q) = (case (case out of Ok x \<Rightarrow> Inr x | Fail e \<Rightarrow> Inl e | Panicked p \<Rightarrow> Inl (Sentinel ErrPanicRecovered)) of
              Inr x \<Rightarrow> (Inr x, q)
            | Inl err \<Rightarrow> (let policy = requestErrorPolicy err (ob_Method (observation q))
                          in (Inl (policy_rpcError policy), q\<lparr>observation := (observation q)\<lparr>ob_ErrorClass := p_class policy\<rparr>\<rparr>)));
         err = (case res of Inl e \<Rightarrow> Some e | Inr _ \<Rightarrow> None)
     in (res, if hasObserver s
              then (let ev = ObserveKMSRequest ((observation q)\<lparr>ob_Status := statusLabel err\<rparr>)
                    in q\<lparr>events := events q @ [ev], escaped := observer_panics s ev\<rparr>)
              else q))"

definition start_request :: "RequestObservation \<Rightarrow> 'w \<Rightarrow> 'w rq" where
  "start_request ob w = \<lparr>world = w, observation = ob, events = [], escaped = None\<rparr>"

definition serve :: "'w Server \<Rightarrow> concurrencyLimiter \<Rightarrow> ('w, 'a) action \<Rightarrow> ('a \<Rightarrow> RequestObservation \<Rightarrow> RequestObservation)
    \<Rightarrow> 'w rq \<Rightarrow> 'a res \<times> 'w rq \<times> concurrencyLimiter option" where
  "serve s l body note_response q =
    (let (out, q, l') = limited l body q;
         q = (case out of Ok r \<Rightarrow> q\<lparr>observation := note_response r (observation q)\<rparr> | _ \<Rightarrow> q);
         (res, q) = finishRequest s (out, q)
     in (res, q, l'))"

definition Status :: "'w Server \<Rightarrow> 'w \<Rightarrow> StatusResponse res \<times> 'w rq \<times> concurrencyLimiter option" where
  "Status s w =
    serve s (statusLimiter s) (status_body s)
      (\<lambda>r ob. let ob = ob\<lparr>ob_Healthz := sr_Healthz r\<rparr>
              in if sr_KeyId r \<noteq> [] then ob\<lparr>ob_KeyIDHash := HashValue (sr_KeyId r)\<rparr> else ob)
      (start_request (newObservation methodStatus) w)"

definition Encrypt :: "'w Server \<Rightarrow> EncryptRequest option \<Rightarrow> 'w \<Rightarrow> EncryptResponse res \<times> 'w rq \<times> concurrencyLimiter option" where
  "Encrypt s request w =
    (let ob = newObservation methodEncrypt;
         ob = (case request of
             Some req \<Rightarrow> if er_Uid req \<noteq> [] then ob\<lparr>ob_RequestUIDHash := HashValue (er_Uid req)\<rparr> else ob
           | None \<Rightarrow> ob)
     in serve s (encryptLimiter s) (encrypt_body s request) (\<lambda>_ ob. ob) (start_request ob w))"

definition Decrypt :: "'w Server \<Rightarrow> DecryptRequest option \<Rightarrow> 'w \<Rightarrow> string res \<times> 'w rq \<times> concurrencyLimiter option" where
  "Decrypt s request w =
    (let ob = newObservation methodDecrypt;
         ob = (case request of
             None \<Rightarrow> ob
           | Some req \<Rightarrow>
             (let ob = (if dr_Uid req \<noteq> [] then ob\<lparr>ob_RequestUIDHash := HashValue (dr_Uid req)\<rparr> else ob)
              in if dr_KeyId req \<noteq> [] then ob\<lparr>ob_KeyIDHash := HashValue (dr_KeyId req)\<rparr> else ob))
     in serve s (decryptLimiter s) (decrypt_body s request) (\<lambda>_ ob. ob) (start_request ob w))"

section \<open>Running actions\<close>

lemma andThen_Ok:
  "andThen m f q = (Ok y, q'') \<longleftrightarrow> (\<exists>x q'. m q = (Ok x, q') \<and> f x q' = (Ok y, q''))"
  by (auto simp: andThen_def split: prod.splits outcome.splits)

lemma andThen_cases:
  "andThen m f q = (case m q of (Ok x, q') \<Rightarrow> f x q' | (Fail e, q') \<Rightarrow> (Fail e, q') | (Panicked p, q') \<Rightarrow> (Panicked p, q'))"
  by (simp add: andThen_def)

lemma return_run [simp]: "return x q = (Ok x, q)"
  and throw_run [simp]: "throw e q = (Fail e, q)"
  and observe_with_run [simp]: "observe_with f q = (Ok (), q\<lparr>observation := f (observation q)\<rparr>)"
  by (simp_all add: return_def throw_def observe_with_def)

lemma lift_res_run [simp]: "lift_res (Inr x) = return x" "lift_res (Inl e) = throw e"
  by (simp_all add: lift_res_def)

lemma lift_res_Ok: "lift_res r q = (Ok x, q') \<longleftrightarrow> r = Inr x \<and> q' = q"
  by (cases r) auto

lemma call_Ok: "call ev f q = (Ok x, q') \<longleftrightarrow>
    (\<exists>w. f (world q) = (Return x, w) \<and> q' = q\<lparr>world := w, events := events q @ [ev]\<rparr>)"
  by (auto simp: call_def split: prod.splits called.splits)

lemma run_steps [simp]:
  "andThen (return x) f q = f x q"
  "andThen (throw e) f q = (Fail e, q)"
  "andThen (observe_with g) f q = f () (q\<lparr>observation := g (observation q)\<rparr>)"
  by (simp_all add: andThen_def)

lemma case_throw_Ok:
  "(case r of Inl e \<Rightarrow> throw (t e) | Inr x \<Rightarrow> f x) q = (Ok y, q') \<longleftrightarrow> (\<exists>x. r = Inr x \<and> f x q = (Ok y, q'))"
  by (cases r) auto

lemmas action_Ok = case_throw_Ok andThen_Ok lift_res_Ok call_Ok

text \<open>What a trace may contain: an action keeps a property of the trace if all its steps do.\<close>

definition keeps :: "('w rq \<Rightarrow> bool) \<Rightarrow> ('w, 'a) action \<Rightarrow> bool" where
  "keeps P m \<longleftrightarrow> (\<forall>q. P q \<longrightarrow> P (snd (m q)))"

lemma keeps_andThen:
  assumes "keeps P m" and "\<And>x. keeps P (f x)"
  shows "keeps P (andThen m f)"
  using assms by (auto simp: keeps_def andThen_def split: prod.splits outcome.splits)

lemma keeps_return [simp]: "keeps P (return x)" and keeps_throw [simp]: "keeps P (throw e)"
  by (simp_all add: keeps_def)

lemma keeps_lift_res [simp]: "keeps P (lift_res r)"
  by (cases r) simp_all

lemma keeps_bind:
  assumes "keeps P m" and "\<And>q x q'. m q = (Ok x, q') \<Longrightarrow> P q' \<Longrightarrow> P (snd (f x q'))"
  shows "keeps P (andThen m f)"
  using assms by (force simp: keeps_def andThen_def split: prod.splits outcome.splits)

section \<open>Outcomes of the handlers\<close>

lemma activeStatus_Ok:
  "activeStatus s q = (Ok (a, k), q') \<longleftrightarrow>
     (\<exists>cached w. dep_Current (deps s) (requestContext s) (world q) = (Return (Inr cached), w)
        \<and> validateCachedStatus cached = Inr a \<and> k = KeyID cached
        \<and> q' = q\<lparr>world := w, events := events q @ [CallCurrent]\<rparr>)"
  by (auto simp: activeStatus_def action_Ok)

lemma encrypt_body_Ok:
  assumes "encrypt_body s (Some req) q = (Ok resp, q')"
  obtains cached active w1 anns aad enc w2 where
    "dep_Current (deps s) (requestContext s) (world q) = (Return (Inr cached), w1)"
    "validateCachedStatus cached = Inr active"
    "BuildAnnotations active (pluginVersion s) = Inr anns" "BuildCanonical active anns = Inr aad"
    "dep_Encrypt (deps s) (requestContext s)
       \<lparr>te_Plaintext = er_Plaintext req, te_AssociatedData = aad, te_KeyVersion = TransitVersion active\<rparr> w1
       = (Return (Inr enc), w2)"
    "ter_Ciphertext enc \<noteq> []" "ter_KeyVersion enc \<in> {0, TransitVersion active}"
    "resp = \<lparr>Ciphertext = ter_Ciphertext enc, KeyId = KeyID cached, ResponseAnnotations = anns\<rparr>"
    "validateEncryptResponseLimits (Some resp) = Inr ()"
    "er_Plaintext req \<noteq> []"
proof -
  from assms have pt: "er_Plaintext req \<noteq> []" by (auto simp: encrypt_body_def)
  with assms show thesis
    by (auto simp: encrypt_body_def Let_def action_Ok activeStatus_Ok split: if_splits intro!: that)
qed

lemma limited_Ok:
  "limited l body q = (Ok x, q', l') \<longleftrightarrow>
     lim_len l < lim_cap l \<and> body q = (Ok x, q') \<and> l' = release (l\<lparr>lim_len := lim_len l + 1\<rparr>)"
  by (auto simp: limited_def tryAcquire_def Let_def split: prod.splits if_splits)

lemma limited_slot: "0 \<le> lim_len l \<Longrightarrow> snd (snd (limited l body q)) = Some l"
  by (simp add: limited_def tryAcquire_def release_def Let_def split: prod.split)

lemma finishRequest_Inr:
  "fst (finishRequest s (out, q)) = Inr x \<longleftrightarrow> out = Ok x"
  by (cases out) (auto simp: finishRequest_def Let_def)

lemma finishRequest_Inl:
  assumes "fst (finishRequest s (out, q)) = Inl e"
  obtains code msg where "e = GrpcStatus code msg" "msg \<in> set approved_messages"
  using assms requestErrorPolicy_message
  by (cases out) (auto simp: finishRequest_def Let_def policy_rpcError_def)

lemma finishRequest_events:
  "set (events (snd (finishRequest s (out, q)))) \<subseteq> set (events q) \<union> range ObserveKMSRequest"
  by (auto simp: finishRequest_def Let_def split: outcome.split prod.split sum.split)

lemma start_request_fields [simp]:
  "world (start_request ob w) = w" "events (start_request ob w) = []" "escaped (start_request ob w) = None"
  by (simp_all add: start_request_def)

definition noted :: "('a \<Rightarrow> RequestObservation \<Rightarrow> RequestObservation) \<Rightarrow> 'a outcome \<Rightarrow> 'w rq \<Rightarrow> 'w rq" where
  "noted f out q = (case out of Ok r \<Rightarrow> q\<lparr>observation := f r (observation q)\<rparr> | _ \<Rightarrow> q)"

lemma noted_fields [simp]: "world (noted f out q) = world q" "events (noted f out q) = events q" "escaped (noted f out q) = escaped q"
  by (cases out; simp add: noted_def)+

lemma serve_run:
  "limited l body q = (out, q1, l') \<Longrightarrow>
   serve s l body f q = (let r = finishRequest s (out, noted f out q1) in (fst r, snd r, l'))"
  by (cases out) (simp_all add: serve_def split_def Let_def noted_def)

lemma limited_cases:
  obtains "limited l body q = (Fail (Sentinel ErrConcurrencyLimitExceeded),
      q\<lparr>observation := (observation q)\<lparr>ob_ConcurrencyRejected := True\<rparr>\<rparr>, Some l)" "\<not> lim_len l < lim_cap l"
  | "limited l body q = (fst (body q), snd (body q), release (l\<lparr>lim_len := lim_len l + 1\<rparr>))" "lim_len l < lim_cap l"
  by (cases "lim_len l < lim_cap l") (simp_all add: limited_def tryAcquire_def split_def Let_def)

lemma serve_Inr:
  "fst (serve s l body f q) = Inr x \<longleftrightarrow> lim_len l < lim_cap l \<and> fst (body q) = Ok x"
  by (cases rule: limited_cases [of l body q]) (simp_all add: serve_run Let_def finishRequest_Inr)

lemma serve_Inl:
  assumes "fst (serve s l body f q) = Inl e"
  obtains code msg where "e = GrpcStatus code msg" "msg \<in> set approved_messages"
proof -
  obtain out q1 l1 where "limited l body q = (out, q1, l1)" by (rule prod_cases3)
  with assms have "fst (finishRequest s (out, noted f out q1)) = Inl e" by (simp add: serve_run Let_def)
  then show thesis by (rule finishRequest_Inl) (rule that)
qed

lemma serve_slot: "0 \<le> lim_len l \<Longrightarrow> snd (snd (serve s l body f q)) = Some l"
  using limited_slot [of l body q] by (cases "limited l body q") (simp add: serve_run Let_def)

lemma serve_events:
  assumes "keeps (\<lambda>q. set (events q) \<subseteq> A) body" and "range ObserveKMSRequest \<subseteq> A" and "events q = []"
  shows "set (events (fst (snd (serve s l body f q)))) \<subseteq> A"
proof -
  obtain out q1 l1 where lim: "limited l body q = (out, q1, l1)" by (rule prod_cases3)
  from assms(1,3) have "set (events (snd (body q))) \<subseteq> A" by (simp add: keeps_def)
  with lim assms(3) have "set (events q1) \<subseteq> A"
    by (cases rule: limited_cases [of l body q]) auto
  with assms(2) finishRequest_events [of s out "noted f out q1"] show ?thesis
    by (simp add: serve_run [OF lim] Let_def) (meson Un_least subset_trans)
qed

lemma Encrypt_Inr:
  assumes "fst (Encrypt s r w) = Inr resp"
  obtains ob q' where "encrypt_body s r (start_request ob w) = (Ok resp, q')"
proof -
  from assms obtain ob where "fst (encrypt_body s r (start_request ob w)) = Ok resp"
    unfolding Encrypt_def Let_def serve_Inr by blast
  then show thesis by (metis prod.collapse that)
qed

lemma prepare_Ok:
  "prepare s req q = (Ok r, q') \<longleftrightarrow>
     (\<exists>found w. dep_Lookup (deps s) (dr_KeyId req) (world q) = (Return found, w)
        \<and> r = PrepareDecrypt (\<lambda>_. found) (dr_KeyId req) (dr_Annotations req)
        \<and> q' = q\<lparr>world := w, events := events q @ [CallLookup (dr_KeyId req)]\<rparr>)"
  by (auto simp: prepare_def action_Ok)

lemma decrypt_body_Ok:
  assumes "dep_Lookup (deps s) (dr_KeyId req) (world q) = (Return found, w)"
    and "PrepareDecrypt (\<lambda>_. found) (dr_KeyId req) (dr_Annotations req) = Inr p"
    and "dr_Ciphertext req \<noteq> []" and "validateDecryptRequestLimits req = Inr ()"
    and "dep_Decrypt (deps s) (requestContext s)
           \<lparr>td_Ciphertext = dr_Ciphertext req, td_AssociatedData = Canonical p\<rparr> w = (Return (Inr pt), w')"
  shows "fst (decrypt_body s (Some req) q) = Ok pt"
  using assms by (simp add: decrypt_body_def decrypt_prepared_def prepare_or_refresh_def prepare_def andThen_def Let_def call_def)

section \<open>Traces\<close>

text \<open>What a trace of \<open>Decrypt\<close> may contain; \<open>prepares\<close> are the results of \<open>PrepareDecrypt\<close> on what the registry can return.\<close>

definition prepares :: "'w Server \<Rightarrow> DecryptRequest \<Rightarrow> DecryptAAD res \<Rightarrow> bool" where
  "prepares s req r \<longleftrightarrow> (\<exists>w w' found. dep_Lookup (deps s) (dr_KeyId req) w = (Return found, w')
     \<and> r = PrepareDecrypt (\<lambda>_. found) (dr_KeyId req) (dr_Annotations req))"

fun decrypt_event :: "'w Server \<Rightarrow> DecryptRequest \<Rightarrow> server_event \<Rightarrow> bool" where
  "decrypt_event s req (CallDecrypt treq) \<longleftrightarrow> validateDecryptRequestLimits req = Inr () \<and>
     (\<exists>p. prepares s req (Inr p) \<and> treq = \<lparr>td_Ciphertext = dr_Ciphertext req, td_AssociatedData = Canonical p\<rparr>)"
| "decrypt_event s req (CallRefresh k) \<longleftrightarrow> k = dr_KeyId req \<and> (\<exists>e. prepares s req (Inl e) \<and> errors_is e ErrUnknownKeyID)"
| "decrypt_event s req (CallLookup k) \<longleftrightarrow> k = dr_KeyId req"
| "decrypt_event s req CallCurrent \<longleftrightarrow> False"
| "decrypt_event s req (CallEncrypt treq) \<longleftrightarrow> False"
| "decrypt_event s req (ObserveKMSRequest ob) \<longleftrightarrow> True"
| "decrypt_event s req (ObserveAADValidationError c) \<longleftrightarrow> True"
| "decrypt_event s req (ObserveDecryptKeyIDError c) \<longleftrightarrow> True"

abbreviation decrypt_trace :: "'w Server \<Rightarrow> DecryptRequest \<Rightarrow> 'w rq \<Rightarrow> bool" where
  "decrypt_trace s req \<equiv> \<lambda>q. set (events q) \<subseteq> Collect (decrypt_event s req)"

lemma prepare_keeps: "keeps (decrypt_trace s req) (prepare s req)"
  by (auto simp: keeps_def prepare_def andThen_def call_def split: prod.split called.split)

lemma prepare_prepares: "prepare s req q = (Ok r, q') \<Longrightarrow> prepares s req r"
  by (auto simp: prepare_Ok prepares_def)

lemma prepare_or_refresh_keeps: "keeps (decrypt_trace s req) (prepare_or_refresh s req)"
  unfolding prepare_or_refresh_def
proof (intro keeps_bind prepare_keeps)
  fix q r q'
  assume run: "prepare s req q = (Ok r, q')" and q': "decrypt_trace s req q'"
  show "decrypt_trace s req (snd ((case r of
      Inr p \<Rightarrow> return r
    | Inl err \<Rightarrow>
      (case dep_Refresh (deps s) of
         None \<Rightarrow> return r
       | Some refresh \<Rightarrow>
         if \<not> errors_is err ErrUnknownKeyID then return r
         else andThen (call (CallRefresh (dr_KeyId req)) (refresh (requestContext s) (dr_KeyId req))) (\<lambda>r.
           case r of
             Inl refreshErr \<Rightarrow> return (Inl (Wrap [] [Sentinel ErrKeyMetadataRefresh, refreshErr]))
           | Inr _ \<Rightarrow> prepare s req))) q'))"
  proof (cases "\<exists>err refresh. r = Inl err \<and> dep_Refresh (deps s) = Some refresh \<and> errors_is err ErrUnknownKeyID")
    case True
    then obtain err refresh where r: "r = Inl err" "dep_Refresh (deps s) = Some refresh" "errors_is err ErrUnknownKeyID" by blast
    have "keeps (decrypt_trace s req) (call (CallRefresh (dr_KeyId req)) (refresh (requestContext s) (dr_KeyId req)))"
      using prepare_prepares [OF run] r by (auto simp: keeps_def call_def split: prod.split called.split)
    then have "keeps (decrypt_trace s req) (andThen (call (CallRefresh (dr_KeyId req)) (refresh (requestContext s) (dr_KeyId req))) (\<lambda>r.
           case r of
             Inl refreshErr \<Rightarrow> return (Inl (Wrap [] [Sentinel ErrKeyMetadataRefresh, refreshErr]))
           | Inr _ \<Rightarrow> prepare s req))"
      by (rule keeps_andThen) (auto simp: prepare_keeps split: sum.split)
    with r q' show ?thesis by (simp add: keeps_def)
  qed (use q' in \<open>auto split: sum.split option.split\<close>)
qed

lemma prepare_or_refresh_Ok:
  assumes "prepare_or_refresh s req q = (Ok (Inr p), q')"
  shows "prepares s req (Inr p)"
proof -
  from assms obtain r q1 where r: "prepare s req q = (Ok r, q1)" by (auto simp: prepare_or_refresh_def andThen_Ok)
  show ?thesis
  proof (cases r)
    case (Inl e)
    with assms r obtain q2 where "prepare s req q2 = (Ok (Inr p), q')"
      by (auto simp: prepare_or_refresh_def andThen_cases split: option.splits if_splits prod.splits outcome.splits sum.splits)
    then show ?thesis by (rule prepare_prepares)
  next
    case (Inr p')
    with assms r have "r = Inr p" by (simp add: prepare_or_refresh_def andThen_cases)
    with prepare_prepares [OF r] show ?thesis by simp
  qed
qed

lemma observeValidationError_keeps: "keeps (decrypt_trace s req) (observeValidationError s err)"
  by (auto simp: observeValidationError_def keeps_def emit_def)

lemma decrypt_prepared_trace:
  assumes "validateDecryptRequestLimits req = Inr ()"
    and "prepares s req (Inr p)"
  shows "keeps (decrypt_trace s req) (decrypt_prepared s req p)"
  using assms
  by (auto simp: keeps_def decrypt_prepared_def Let_def andThen_def call_def split: prod.split called.split sum.split)

lemma decrypt_body_keeps: "keeps (decrypt_trace s req) (decrypt_body s (Some req))"
proof (cases "dr_Ciphertext req = [] \<or> validateDecryptRequestLimits req \<noteq> Inr ()")
  case True
  then show ?thesis
    by (cases "validateDecryptRequestLimits req") (auto simp: decrypt_body_def keeps_def)
next
  case False
  have "keeps (decrypt_trace s req) (andThen (prepare_or_refresh s req) (\<lambda>r. case r of
         Inl err \<Rightarrow> andThen (observeValidationError s err) (\<lambda>_. throw err)
       | Inr prepared \<Rightarrow> decrypt_prepared s req prepared))"
  proof (intro keeps_bind prepare_or_refresh_keeps)
    fix q r q'
    assume run: "prepare_or_refresh s req q = (Ok r, q')" and q': "decrypt_trace s req q'"
    show "decrypt_trace s req (snd ((case r of
         Inl err \<Rightarrow> andThen (observeValidationError s err) (\<lambda>_. throw err)
       | Inr prepared \<Rightarrow> decrypt_prepared s req prepared) q'))"
    proof (cases r)
      case (Inl err)
      have "keeps (decrypt_trace s req) (andThen (observeValidationError s err) (\<lambda>_. throw err :: (_, string) action))"
        by (intro keeps_andThen observeValidationError_keeps keeps_throw)
      with q' Inl show ?thesis by (simp add: keeps_def)
    next
      case (Inr p)
      with run have "prepares s req (Inr p)" using prepare_or_refresh_Ok by blast
      with False have "keeps (decrypt_trace s req) (decrypt_prepared s req p)"
        by (intro decrypt_prepared_trace) simp_all
      with q' Inr show ?thesis by (simp add: keeps_def)
    qed
  qed
  with False show ?thesis by (simp add: decrypt_body_def keeps_def)
qed

end
