(* ===== verification/KMS_Server_Safety.thy ===== *)
theory KMS_Server_Safety
  imports KMS_Server
begin

text \<open>
  What the KMS v2 server promises to the API server: the key that encrypts is the advertised one, what was
  encrypted can be decrypted, Transit sees only validated decryptions, errors are public texts, and
  the concurrency limits hold under every interleaving.
\<close>

lemma serve_public:
  "fst (serve s l body f q) = Inl e \<Longrightarrow> \<exists>c m. e = GrpcStatus c m \<and> m \<in> set approved_messages"
  by (erule serve_Inl) blast

section \<open>Requests in flight\<close>

text \<open>
  Many requests run at once. A system state is a limiter with the set of requests that hold a slot of
  it; a request arrives and is admitted or rejected, and a request that holds a slot ends, by
  returning or by a panic, and releases the slot. A release that blocks has no step.
\<close>

record flight =
  fl_limiter :: concurrencyLimiter
  fl_running :: "nat set"

inductive flight_step :: "flight \<Rightarrow> flight \<Rightarrow> bool" where
  Admit: "tryAcquire (fl_limiter f) = (True, l) \<Longrightarrow> r \<notin> fl_running f
    \<Longrightarrow> flight_step f \<lparr>fl_limiter = l, fl_running = insert r (fl_running f)\<rparr>"
| Reject: "tryAcquire (fl_limiter f) = (False, l) \<Longrightarrow> flight_step f (f\<lparr>fl_limiter := l\<rparr>)"
| Finish: "r \<in> fl_running f \<Longrightarrow> release (fl_limiter f) = Some l
    \<Longrightarrow> flight_step f \<lparr>fl_limiter = l, fl_running = fl_running f - {r}\<rparr>"

inductive_cases flight_stepE: "flight_step f f'"

definition flight_inv :: "int \<Rightarrow> flight \<Rightarrow> bool" where
  "flight_inv cap f \<longleftrightarrow> finite (fl_running f) \<and> lim_cap (fl_limiter f) = cap
     \<and> lim_len (fl_limiter f) = int (card (fl_running f)) \<and> lim_len (fl_limiter f) \<le> cap"

lemma flight_inv_step: "flight_step f f' \<Longrightarrow> flight_inv cap f \<Longrightarrow> flight_inv cap f'"
  by (erule flight_stepE)
     (auto simp: flight_inv_def tryAcquire_def release_def card_Diff_singleton card_gt_0_iff of_nat_diff
       Suc_le_eq split: if_splits)

lemma flight_inv_run: "flight_step\<^sup>*\<^sup>* f f' \<Longrightarrow> flight_inv cap f \<Longrightarrow> flight_inv cap f'"
  by (induction rule: rtranclp_induct) (auto intro: flight_inv_step)

section \<open>Main results\<close>

text \<open>
  A server for the witnesses: its world is a registry, its status cache holds the example snapshot and
  its Transit marks the plaintext.
\<close>

definition ex_status :: CachedStatus where
  "ex_status = \<lparr>Healthz = HealthOK, KeyID = derived_key_id ex_snapshot, Active = ex_snapshot\<rparr>"

definition ex_deps :: "Registry Deps" where
  "ex_deps =
    \<lparr>dep_Current = (\<lambda>ctx w. (Return (Inr ex_status), w)),
     dep_Lookup = (\<lambda>keyID w. (Return (Registry_Lookup w keyID), w)),
     dep_Refresh = None,
     dep_Encrypt = (\<lambda>ctx r w. (Return (Inr \<lparr>ter_Ciphertext = ''ct:'' @ te_Plaintext r, ter_KeyVersion = te_KeyVersion r\<rparr>), w)),
     dep_Decrypt = (\<lambda>ctx r w. (Return (Inr (drop 3 (td_Ciphertext r))), w))\<rparr>"

definition ex_options :: "Registry Options" where
  "ex_options =
    \<lparr>opt_deps = ex_deps, opt_hasStatusCache = True, opt_hasRegistry = True, opt_hasTransit = True,
     opt_PluginVersion = ''v0.1.0'', opt_RequestTimeout = 0, opt_MaxConcurrentStatus = 8,
     opt_MaxConcurrentEncrypt = 8, opt_MaxConcurrentDecrypt = 8, opt_hasObserver = True, opt_observer_panics = (\<lambda>_. None)\<rparr>"

definition ex_server :: "Registry Server" where
  "ex_server =
    \<lparr>deps = ex_deps, pluginVersion = ''v0.1.0'', requestTimeout = 0, statusLimiter = \<lparr>lim_cap = 8, lim_len = 0\<rparr>,
     encryptLimiter = \<lparr>lim_cap = 8, lim_len = 0\<rparr>, decryptLimiter = \<lparr>lim_cap = 8, lim_len = 0\<rparr>, hasObserver = True,
     observer_panics = (\<lambda>_. None)\<rparr>"

lemma ex_NewServer: "NewServer ex_options = Inr ex_server"
  by (simp add: NewServer_def ex_options_def ex_server_def maxConcurrentKMSRequests_def newConcurrencyLimiter_def)

definition ex_plain :: EncryptRequest where
  "ex_plain = \<lparr>er_Plaintext = ''dek'', er_Uid = ''u1''\<rparr>"

definition ex_response :: EncryptResponse where
  "ex_response = \<lparr>Ciphertext = ''ct:dek'', KeyId = derived_key_id ex_snapshot, ResponseAnnotations = ex_annotations\<rparr>"

lemma digest64_ascii: "utf8_valid (digest64 m)"
proof -
  have "list_all (\<lambda>c. byte_val c < (128 :: nat)) b64_url" by code_simp
  then show ?thesis
    using digest64_chars [of m] by (intro utf8_valid_ascii) (auto simp: list_all_iff)
qed

lemma ex_annotations_valid: "validateAnnotationsProtoLimits ex_annotations e = Inr ()"
proof -
  have [simp]: "Itoa 1 = ''1''" by code_simp
  have "list_all (\<lambda>(k, v). utf8_valid k \<and> utf8_valid v) ex_annotations"
    unfolding ex_annotations_def annotation_keys ProviderValue_def AADVersionV1_def HashValue_digest64
    by (simp add: digest64_ascii) (simp add: utf8_valid_ascii)
  moreover have "annotation_bytes ex_annotations < MaxKMSAnnotationBytes"
    unfolding ex_annotations_def annotation_keys ProviderValue_def AADVersionV1_def HashValue_digest64
    by (simp add: annotation_bytes_def MaxKMSAnnotationBytes_def)
  ultimately show ?thesis by simp
qed

lemma ex_status_fields [simp]: "KeyID ex_status = derived_key_id ex_snapshot"
  by (simp add: ex_status_def)

lemma same_identity_normal: "same_identity ex_snapshot (normal_form ex_snapshot)"
  by (simp add: same_identity_def)

lemma ex_validate: "validateCachedStatus ex_status = Inr (normal_form ex_snapshot)"
  by (simp add: validateCachedStatus_Inr ex_status_def) (simp add: ex_snapshot_def)

lemma ex_BuildAnnotations_normal: "BuildAnnotations (normal_form ex_snapshot) ''v0.1.0'' = Inr ex_annotations"
  using ex_BuildAnnotations normalizable_normal_form [of ex_snapshot]
  by (simp add: BuildAnnotations_def Normalize_Inr)

lemma ex_BuildCanonical: "BuildCanonical (normal_form ex_snapshot) ex_annotations = Inr (canonical_for (normal_form ex_snapshot))"
  by (rule BuildCanonical_BuildAnnotations [OF ex_BuildAnnotations_normal]) simp

lemma derived_key_id_length: "length (derived_key_id k) = 48"
  by (simp add: derived_key_id_def keyIDPrefix_def)

lemma ex_Encrypt: "fst (Encrypt ex_server (Some ex_plain) w) = Inr ex_response"
proof -
  have limits: "validateEncryptResponseLimits (Some ex_response) = Inr ()"
    using ex_annotations_valid derived_key_id_length [of ex_snapshot]
    by (simp add: validateEncryptResponseLimits_def ex_response_def MaxKMSCiphertextBytes_def MaxKMSKeyIDBytes_def)
  then have "fst (encrypt_body ex_server (Some ex_plain) q) = Ok ex_response" for q
    by (simp add: encrypt_body_def ex_server_def ex_plain_def activeStatus_def ex_deps_def call_def andThen_cases
        ex_validate ex_BuildAnnotations_normal ex_BuildCanonical Let_def ex_response_def)
  then show ?thesis by (simp add: Encrypt_def Let_def serve_Inr) (simp add: ex_server_def)
qed

text \<open>
  C17 What \<open>Encrypt\<close> returns was produced by the key that \<open>Status\<close> advertises: the response carries the
  key_id of the healthy cached status, Transit was asked for the version of that key explicitly and
  with the associated data of that key, did not answer with another version, the response carries the annotations
  that \<open>BuildAnnotations\<close> gives for that key and the version of the provider, and it respects the KMS v2 size limits.
\<close>

theorem Encrypt_uses_advertised_key:
  assumes "fst (Encrypt s (Some req) w) = Inr resp"
  shows "\<exists>cached w1 enc w2.
      dep_Current (deps s) (requestContext s) w = (Return (Inr cached), w1)
    \<and> sr_Healthz (statusResponse cached) = HealthOK \<and> KeyId resp = sr_KeyId (statusResponse cached)
    \<and> dep_Encrypt (deps s) (requestContext s)
        \<lparr>te_Plaintext = er_Plaintext req, te_AssociatedData = canonical_for (Active cached),
         te_KeyVersion = TransitVersion (Active cached)\<rparr> w1 = (Return (Inr enc), w2)
    \<and> ter_KeyVersion enc \<in> {0, TransitVersion (Active cached)}
    \<and> Ciphertext resp = ter_Ciphertext enc \<and> Ciphertext resp \<noteq> [] \<and> length (Ciphertext resp) < 1024
    \<and> BuildAnnotations (Active cached) (pluginVersion s) = Inr (ResponseAnnotations resp)
    \<and> annotation_bytes (ResponseAnnotations resp) < 32768"
proof -
  from assms obtain ob q where "encrypt_body s (Some req) (start_request ob w) = (Ok resp, q)"
    by (rule Encrypt_Inr)
  then obtain cached active w1 anns aad enc w2 where r:
    "dep_Current (deps s) (requestContext s) w = (Return (Inr cached), w1)"
    "validateCachedStatus cached = Inr active"
    "BuildCanonical active anns = Inr aad" and anns: "BuildAnnotations active (pluginVersion s) = Inr anns" and r':
    "dep_Encrypt (deps s) (requestContext s)
       \<lparr>te_Plaintext = er_Plaintext req, te_AssociatedData = aad, te_KeyVersion = TransitVersion active\<rparr> w1
       = (Return (Inr enc), w2)"
    "ter_Ciphertext enc \<noteq> []" "ter_KeyVersion enc \<in> {0, TransitVersion active}"
    "resp = \<lparr>Ciphertext = ter_Ciphertext enc, KeyId = KeyID cached, ResponseAnnotations = anns\<rparr>"
    "validateEncryptResponseLimits (Some resp) = Inr ()"
    by (rule encrypt_body_Ok) auto
  from r(2) have active: "active = normal_form (Active cached)" "Healthz cached = HealthOK"
    "KeyID cached = derived_key_id (Active cached)" "normalizable (Active cached)" by (simp_all add: validateCachedStatus_Inr)
  have "BuildAnnotations (Active cached) (pluginVersion s) = Inr anns"
    using anns unfolding active(1) BuildAnnotations_def Normalize_normal_form [OF active(4)]
      Normalize_Inr [THEN iffD2, OF conjI [OF active(4) HOL.refl]] .
  moreover have "aad = canonical_for (Active cached)"
    using BuildCanonical_Inr(2) [OF r(3)] canonical_for_cong [of "normal_form (Active cached)" "Active cached"]
    by (simp add: active)
  moreover have "sr_Healthz (statusResponse cached) = HealthOK" "sr_KeyId (statusResponse cached) = KeyID cached"
    using r(2) statusResponse_ok [of cached] statusResponse_key [of cached] by auto
  ultimately show ?thesis
    using r r' active
    by (auto simp: validateEncryptResponseLimits_def MaxKMSCiphertextBytes_def MaxKMSAnnotationBytes_def)
qed

theorem Encrypt_uses_advertised_key_witness:
  "\<exists>cached w1. fst (Encrypt ex_server (Some ex_plain) ex_registry) = Inr ex_response
     \<and> dep_Current (deps ex_server) (requestContext ex_server) ex_registry = (Return (Inr cached), w1)
     \<and> sr_Healthz (statusResponse cached) = HealthOK \<and> KeyId ex_response = sr_KeyId (statusResponse cached)
     \<and> BuildAnnotations (Active cached) (pluginVersion ex_server) = Inr (ResponseAnnotations ex_response)"
  using Encrypt_uses_advertised_key [OF ex_Encrypt] ex_Encrypt by blast

text \<open>
  Data encrypted under one key is decrypted correctly by any later server, whatever Transit it talks to, as long as Transit
  decrypts what it encrypted when it is given the same associated data.
\<close>

lemma encrypt_then_decrypt:
  assumes enc: "fst (Encrypt s (Some req) w) = Inr resp"
    and cur: "dep_Current (deps s) (requestContext s) w = (Return (Inr cached), w1)"
    and int: "in_i64 (TransitVersion (Active cached))"
    and slot: "lim_len (decryptLimiter t) < lim_cap (decryptLimiter t)"
    and key: "dep_Lookup (deps t) (KeyId resp) v = (Return (Inr snap), v1)" "Normalize snap = Inr snap"
      "same_identity (Active cached) snap"
    and transit: "\<And>treq ctx u u' r. dep_Encrypt (deps s) ctx treq u = (Return (Inr r), u') \<Longrightarrow> ter_Ciphertext r \<noteq> [] \<Longrightarrow>
      \<exists>v'. dep_Decrypt (deps t) (requestContext t)
        \<lparr>td_Ciphertext = ter_Ciphertext r, td_AssociatedData = te_AssociatedData treq\<rparr> v1
        = (Return (Inr (te_Plaintext treq)), v')"
  shows "fst (Decrypt t (Some \<lparr>dr_Ciphertext = Ciphertext resp, dr_Uid = uid, dr_KeyId = KeyId resp,
           dr_Annotations = ResponseAnnotations resp\<rparr>) v) = Inr (er_Plaintext req)"
    (is "fst (Decrypt t (Some ?dreq) v) = _")
proof -
  from enc obtain ob q where "encrypt_body s (Some req) (start_request ob w) = (Ok resp, q)"
    by (rule Encrypt_Inr)
  then obtain active anns aad r w2 where e:
    "validateCachedStatus cached = Inr active"
    "BuildAnnotations active (pluginVersion s) = Inr anns" "BuildCanonical active anns = Inr aad"
    "dep_Encrypt (deps s) (requestContext s)
       \<lparr>te_Plaintext = er_Plaintext req, te_AssociatedData = aad, te_KeyVersion = TransitVersion active\<rparr> w1
       = (Return (Inr r), w2)"
    "ter_Ciphertext r \<noteq> []"
    "resp = \<lparr>Ciphertext = ter_Ciphertext r, KeyId = KeyID cached, ResponseAnnotations = anns\<rparr>"
    "validateEncryptResponseLimits (Some resp) = Inr ()"
    by (rule encrypt_body_Ok) (use cur in auto)
  from e(1) have active: "active = normal_form (Active cached)" by (simp add: validateCachedStatus_Inr)
  have same: "same_identity active snap"
    using key(3) by (simp add: active same_identity_def)
  have snap: "normalizable snap" using key(2) by (simp add: Normalize_Inr)
  from int obtain p where p: "PrepareDecrypt (\<lambda>_. Inr snap) (KeyId resp) anns = Inr p"
    "Canonical p = canonical_for active"
    using PrepareDecrypt_built [of "\<lambda>_. Inr snap", OF HOL.refl snap same e(2)] by (auto simp: active)
  moreover have "aad = canonical_for active" using BuildCanonical_Inr(2) [OF e(3)] .
  moreover have "validateDecryptRequestLimits ?dreq = Inr ()"
    using e(7) by (auto simp: validateDecryptRequestLimits_def validateEncryptResponseLimits_def)
  moreover obtain v' where "dep_Decrypt (deps t) (requestContext t)
        \<lparr>td_Ciphertext = ter_Ciphertext r, td_AssociatedData = aad\<rparr> v1 = (Return (Inr (er_Plaintext req)), v')"
    using transit [OF e(4,5)] by auto
  ultimately have "fst (decrypt_body t (Some ?dreq) (start_request ob v)) = Ok (er_Plaintext req)" for ob
    using e(5,6) key(1) by (intro decrypt_body_Ok [where p = p and w' = v' and w = v1 and found = "Inr snap"]) simp_all
  then show ?thesis using slot by (simp add: Decrypt_def Let_def serve_Inr)
qed

text \<open>
  C18 \<open>Decrypt\<close> calls Transit only with validated input: its trace contains a Transit decryption only
  after the request passed the size limits and its key_id and annotations were validated against a
  key the registry resolves, and the call carries the associated data of that key; it asks for a metadata
  refresh only for the requested key_id after an unknown-key failure; and it never encrypts.
\<close>

theorem decrypt_calls_validated:
  "\<forall>ev \<in> set (events (fst (snd (Decrypt s (Some req) w)))). decrypt_event s req ev"
proof -
  have "set (events (fst (snd (Decrypt s (Some req) w)))) \<subseteq> Collect (decrypt_event s req)"
    unfolding Decrypt_def Let_def by (rule serve_events [OF decrypt_body_keeps]) auto
  then show ?thesis by auto
qed

theorem decrypt_calls_validated_witness:
  "CallDecrypt \<lparr>td_Ciphertext = ''ct:dek'', td_AssociatedData = []\<rparr> \<notin>
     set (events (fst (snd (Decrypt ex_server (Some \<lparr>dr_Ciphertext = ''ct:dek'', dr_Uid = [], dr_KeyId = ''bad'', dr_Annotations = []\<rparr>) ex_registry))))"
proof
  let ?req = "\<lparr>dr_Ciphertext = ''ct:dek'', dr_Uid = [], dr_KeyId = ''bad'', dr_Annotations = []\<rparr>"
  assume "CallDecrypt \<lparr>td_Ciphertext = ''ct:dek'', td_AssociatedData = []\<rparr> \<in>
     set (events (fst (snd (Decrypt ex_server (Some ?req) ex_registry))))"
  with decrypt_calls_validated [of ex_server ?req ex_registry]
  have "decrypt_event ex_server ?req (CallDecrypt \<lparr>td_Ciphertext = ''ct:dek'', td_AssociatedData = []\<rparr>)" by (rule bspec)
  then obtain v p where "PrepareDecrypt (\<lambda>_. Registry_Lookup v ''bad'') ''bad'' [] = Inr p"
    by (auto simp: ex_server_def ex_deps_def prepares_def dest: sym)
  then have "PrepareDecrypt (Registry_Lookup v) ''bad'' [] = Inr p" by (simp add: PrepareDecrypt_def)
  moreover have "ParseKeyID ''bad'' = Inl (Sentinel ErrMalformedKeyID)"
    by (simp add: ParseKeyID_def keyIDPrefix_def keyIDLength_def sha256RawURLLength_def)
  ultimately show False using registry.PrepareDecrypt_malformed by fastforce
qed

text \<open>A handler whose observer does not panic contains every panic; the panic of an observer leaves it.\<close>

definition observer_returns :: "'w Server \<Rightarrow> bool" where
  "observer_returns s \<longleftrightarrow> (\<forall>ev. observer_panics s ev = None)"

abbreviation contained :: "'w rq \<Rightarrow> bool" where "contained q \<equiv> escaped q = None"

lemma contained_steps [simp]: "keeps contained (call ev f)" "keeps contained (emit s ev)" "keeps contained (observe_with g)"
  by (auto simp: keeps_def call_def emit_def split: prod.split called.split)

lemma contained_bodies: "keeps contained (status_body s)" "keeps contained (encrypt_body s ereq)" "keeps contained (decrypt_body s dreq)"
proof -
  show "keeps contained (status_body s)"
    unfolding status_body_def by (intro keeps_andThen) (auto split: sum.split)
  have "keeps contained (activeStatus s)"
    unfolding activeStatus_def by (intro keeps_andThen) (auto intro!: keeps_andThen split: sum.split)
  then show "keeps contained (encrypt_body s ereq)"
    unfolding encrypt_body_def Let_def by (auto intro!: keeps_andThen split: option.split sum.split)
  have p: "keeps contained (prepare s req)" for req unfolding prepare_def by (intro keeps_andThen) auto
  then have "keeps contained (prepare_or_refresh s req)" for req
    unfolding prepare_or_refresh_def by (auto intro!: keeps_andThen split: option.split sum.split)
  moreover have "keeps contained (observeValidationError s e)" for e by (simp add: observeValidationError_def)
  moreover have "keeps contained (decrypt_prepared s req pr)" for req pr
    unfolding decrypt_prepared_def Let_def by (auto intro!: keeps_andThen split: sum.split)
  ultimately show "keeps contained (decrypt_body s dreq)"
    unfolding decrypt_body_def by (auto intro!: keeps_andThen split: option.split sum.split)
qed

lemma finishRequest_escaped:
  "escaped (snd (finishRequest s (out, q))) =
     (if hasObserver s then observer_panics s (last (events (snd (finishRequest s (out, q))))) else escaped q)"
  by (cases out) (simp_all add: finishRequest_def Let_def)

lemma serve_contained:
  assumes "keeps contained body" "contained q" "observer_returns s"
  shows "contained (fst (snd (serve s l body f q)))"
proof -
  obtain out q1 l1 where lim: "limited l body q = (out, q1, l1)" by (rule prod_cases3)
  then have "contained q1" using assms(1,2) by (cases rule: limited_cases [of l body q]) (auto simp: keeps_def)
  then show ?thesis using assms(3) by (simp add: serve_run [OF lim] Let_def finishRequest_escaped observer_returns_def)
qed

text \<open>
  C19 Nothing internal crosses the RPC boundary: whatever the status cache, the registry, the refresher and Transit do in a request,
  a panic of any of them included, the error that \<open>Status\<close>, \<open>Encrypt\<close> or \<open>Decrypt\<close> returns is a gRPC status whose message is one of 26
  fixed texts, the request gives its concurrency slot back, and no panic leaves the handler unless it is the observer's.
\<close>

theorem requests_end_cleanly:
  assumes "0 \<le> lim_len (statusLimiter s)" "0 \<le> lim_len (encryptLimiter s)" "0 \<le> lim_len (decryptLimiter s)"
  shows "(fst (Status s w) = Inl e1 \<longrightarrow> (\<exists>c m. e1 = GrpcStatus c m \<and> m \<in> set approved_messages))
    \<and> (fst (Encrypt s ereq w) = Inl e2 \<longrightarrow> (\<exists>c m. e2 = GrpcStatus c m \<and> m \<in> set approved_messages))
    \<and> (fst (Decrypt s dreq w) = Inl e3 \<longrightarrow> (\<exists>c m. e3 = GrpcStatus c m \<and> m \<in> set approved_messages))
    \<and> snd (snd (Status s w)) = Some (statusLimiter s)
    \<and> snd (snd (Encrypt s ereq w)) = Some (encryptLimiter s)
    \<and> snd (snd (Decrypt s dreq w)) = Some (decryptLimiter s)
    \<and> (observer_returns s \<longrightarrow> escaped (fst (snd (Status s w))) = None \<and> escaped (fst (snd (Encrypt s ereq w))) = None
         \<and> escaped (fst (snd (Decrypt s dreq w))) = None)"
proof -
  have "escaped (fst (snd (Status s w))) = None" "escaped (fst (snd (Encrypt s ereq w))) = None" "escaped (fst (snd (Decrypt s dreq w))) = None"
    if "observer_returns s"
    unfolding Status_def Encrypt_def Decrypt_def Let_def by (rule serve_contained [OF contained_bodies(1) _ that]
        serve_contained [OF contained_bodies(2) _ that] serve_contained [OF contained_bodies(3) _ that]; simp)+
  then show ?thesis
    unfolding Status_def Encrypt_def Decrypt_def Let_def
    by (intro conjI impI serve_slot assms) ((erule serve_public)+, simp_all)
qed

text \<open>The status cache panics in the request of the witness.\<close>

definition ex_panicking :: "Registry Server" where
  "ex_panicking = ex_server\<lparr>deps := ex_deps\<lparr>dep_Current := (\<lambda>ctx w. (Panic ''boom'', w))\<rparr>\<rparr>"

theorem requests_end_cleanly_witness:
  "snd (snd (Encrypt ex_panicking (Some ex_plain) ex_registry)) = Some (encryptLimiter ex_panicking)
   \<and> (\<exists>c m. fst (Encrypt ex_panicking (Some ex_plain) ex_registry) = Inl (GrpcStatus c m) \<and> m \<in> set approved_messages)
   \<and> escaped (fst (snd (Encrypt ex_panicking (Some ex_plain) ex_registry))) = None"
proof -
  have "fst (encrypt_body ex_panicking (Some ex_plain) q) = Panicked ''boom''" for q
    by (simp add: encrypt_body_def ex_panicking_def ex_plain_def activeStatus_def call_def andThen_cases)
  then have "\<nexists>x. fst (Encrypt ex_panicking (Some ex_plain) ex_registry) = Inr x"
    unfolding Encrypt_def Let_def serve_Inr by simp
  then obtain e where e: "fst (Encrypt ex_panicking (Some ex_plain) ex_registry) = Inl e" by (metis sum.exhaust)
  have "observer_returns ex_panicking" "0 \<le> lim_len (statusLimiter ex_panicking)" "0 \<le> lim_len (encryptLimiter ex_panicking)"
    "0 \<le> lim_len (decryptLimiter ex_panicking)" by (simp_all add: observer_returns_def ex_panicking_def ex_server_def)
  with requests_end_cleanly [OF this(2-4), of ex_registry _ "Some ex_plain" e] e show ?thesis by auto
qed

text \<open>An observer that panics on the observation of a request takes the handler with it.\<close>

lemma observer_panic_escapes:
  assumes "hasObserver s" "\<forall>ev. observer_panics s ev = Some p"
  shows "escaped (fst (snd (Status s w))) = Some p"
proof -
  obtain out q1 l1 where "limited (statusLimiter s) (status_body s) (start_request (newObservation methodStatus) w) = (out, q1, l1)" by (rule prod_cases3)
  from serve_run [OF this] show ?thesis using assms by (simp add: Status_def Let_def finishRequest_escaped)
qed

text \<open>
  The concurrency limit holds under every interleaving of requests: starting from a fresh limiter, the number of
  requests that hold a slot is the reported number in flight and never exceeds the limit, a free slot is
  always granted, and no release blocks.
\<close>

lemma concurrency_limit:
  assumes "0 \<le> limit" and "flight_step\<^sup>*\<^sup>* \<lparr>fl_limiter = newConcurrencyLimiter limit, fl_running = {}\<rparr> f"
  shows "inFlight (fl_limiter f) = int (card (fl_running f)) \<and> card (fl_running f) \<le> nat limit
    \<and> (fst (tryAcquire (fl_limiter f)) \<longleftrightarrow> int (card (fl_running f)) < limit)
    \<and> (fl_running f \<noteq> {} \<longrightarrow> release (fl_limiter f) \<noteq> None)"
proof -
  have "flight_inv limit f"
    by (rule flight_inv_run [OF assms(2)]) (use assms(1) in \<open>simp add: flight_inv_def newConcurrencyLimiter_def\<close>)
  then show ?thesis
    by (auto simp: flight_inv_def inFlight_def tryAcquire_def release_def card_gt_0_iff)
qed

end
