(* ===== verification/Transit_Client.thy ===== *)
theory Transit_Client
  imports Bao_Client KMS_Server_Safety
begin

text \<open>
  The Transit operations of the client (\<^verbatim>\<open>internal/openbao/transit.go\<close>) and the adapter that connects them to the KMS
  server (\<^verbatim>\<open>cmd/bao-kms-provider/serve.go\<close>).
\<close>

section \<open>Transit operations\<close>

text \<open>\<open>json.Unmarshal\<close> of the response bodies, each with the request id it carries.\<close>

record transit_json =
  tj_profile :: "string \<Rightarrow> (keyProfileData \<times> string) option"
  tj_upsert :: "string \<Rightarrow> (bool \<times> string) option"
  tj_encrypt :: "string \<Rightarrow> ((string \<times> int) \<times> string) option"
  tj_decrypt :: "string \<Rightarrow> (string \<times> string) option"
  tj_batch :: "string \<Rightarrow> ((string \<times> string \<times> string) list \<times> string) option"
  tj_capabilities :: "string \<Rightarrow> ((string \<rightharpoonup> string list) \<times> string) option"

definition mapR :: "('a \<Rightarrow> 'b res) \<Rightarrow> 'a res \<times> 'w \<Rightarrow> 'b res \<times> 'w" where
  "mapR f r = (bindE (fst r) f, snd r)"

definition requireAssociatedData :: "string \<Rightarrow> unit res" where
  "requireAssociatedData value = failIf (value = []) (Msg ''transit associated data is required'')"

definition ReadKeyProfile :: "'w Client \<Rightarrow> transit_json \<Rightarrow> string \<Rightarrow> string \<Rightarrow> 'w \<Rightarrow> KeyProfile res \<times> 'w" where
  "ReadKeyProfile c json mountPath keyName w =
    mapR profile_of (client_do c (tj_profile json) ''transit metadata read'' ''GET'' (transitPath mountPath ''keys'' keyName) NoPayload w)"

definition ReadDisableUpsert :: "'w Client \<Rightarrow> transit_json \<Rightarrow> string \<Rightarrow> 'w \<Rightarrow> bool res \<times> 'w" where
  "ReadDisableUpsert c json mountPath w =
    client_do c (tj_upsert json) ''transit disable_upsert read'' ''GET'' (transitConfigPath mountPath) NoPayload w"

record bao_EncryptRequest =
  be_MountPath :: string
  be_KeyName :: string
  be_Plaintext :: string
  be_AssociatedData :: string
  be_KeyVersion :: int

record bao_DecryptRequest =
  bd_MountPath :: string
  bd_KeyName :: string
  bd_Ciphertext :: string
  bd_AssociatedData :: string

definition bao_Encrypt :: "'w Client \<Rightarrow> transit_json \<Rightarrow> bao_EncryptRequest \<Rightarrow> 'w \<Rightarrow> (string \<times> int) res \<times> 'w" where
  "bao_Encrypt c json req w =
    (if be_KeyVersion req \<le> 0 then (Inl (Msg ''transit encrypt key_version must be explicit and positive''), w)
     else if be_Plaintext req = [] then (Inl (Msg ''transit encrypt plaintext is required''), w)
     else case requireAssociatedData (be_AssociatedData req) of
            Inl err \<Rightarrow> (Inl err, w)
          | Inr _ \<Rightarrow>
              client_do c (tj_encrypt json) ''transit encrypt'' ''POST'' (transitPath (be_MountPath req) ''encrypt'' (be_KeyName req))
                (EncryptBody (Std_EncodeToString (be_Plaintext req)) (Std_EncodeToString (be_AssociatedData req)) (be_KeyVersion req)) w)"

definition bao_Decrypt :: "'w Client \<Rightarrow> transit_json \<Rightarrow> bao_DecryptRequest \<Rightarrow> 'w \<Rightarrow> string res \<times> 'w" where
  "bao_Decrypt c json req w =
    (if bd_Ciphertext req = [] then (Inl (Msg ''transit decrypt ciphertext is required''), w)
     else case requireAssociatedData (bd_AssociatedData req) of
            Inl err \<Rightarrow> (Inl err, w)
          | Inr _ \<Rightarrow>
              mapR (\<lambda>encoded. case Std_DecodeString encoded of
                     None \<Rightarrow> Inl (Msg ''decode Transit plaintext'') | Some plaintext \<Rightarrow> Inr plaintext)
                (client_do c (tj_decrypt json) ''transit decrypt'' ''POST'' (transitPath (bd_MountPath req) ''decrypt'' (bd_KeyName req))
                  (DecryptBody (bd_Ciphertext req) (Std_EncodeToString (bd_AssociatedData req))) w))"

record BatchDecryptItem =
  bi_Ciphertext :: string
  bi_AssociatedData :: string
  bi_Reference :: string

record BatchDecryptResult =
  br_Plaintext :: string
  br_Reference :: string
  br_Error :: string

definition decodeOptionalPlaintext :: "string \<Rightarrow> string res" where
  "decodeOptionalPlaintext value =
    (if value = [] then Inr []
     else case Std_DecodeString value of None \<Rightarrow> Inl (Msg ''decode Transit batch plaintext'') | Some plaintext \<Rightarrow> Inr plaintext)"

definition batch_request_item :: "BatchDecryptItem \<Rightarrow> (string \<times> string \<times> string) res" where
  "batch_request_item item =
    bindE (failIf (bi_Ciphertext item = []) (Msg ''batch decrypt ciphertext is required'')) (\<lambda>_.
    bindE (requireAssociatedData (bi_AssociatedData item)) (\<lambda>_.
    Inr (bi_Ciphertext item, Std_EncodeToString (bi_AssociatedData item), bi_Reference item)))"

definition batch_result_item :: "string \<times> string \<times> string \<Rightarrow> BatchDecryptResult res" where
  "batch_result_item r =
    (case r of (encoded, reference, err) \<Rightarrow>
      bindE (decodeOptionalPlaintext encoded) (\<lambda>plaintext.
      Inr \<lparr>br_Plaintext = plaintext, br_Reference = reference, br_Error = err\<rparr>))"

definition BatchDecrypt :: "'w Client \<Rightarrow> transit_json \<Rightarrow> string \<Rightarrow> string \<Rightarrow> BatchDecryptItem list \<Rightarrow> 'w \<Rightarrow> BatchDecryptResult list res \<times> 'w" where
  "BatchDecrypt c json mountPath keyName batch w =
    (if batch = [] then (Inl (Msg ''batch decrypt requires at least one item''), w)
     else case mapE batch_request_item batch of
            Inl err \<Rightarrow> (Inl err, w)
          | Inr items \<Rightarrow>
              mapR (mapE batch_result_item)
                (client_do c (tj_batch json) ''transit batch decrypt'' ''POST'' (transitPath mountPath ''decrypt'' keyName) (BatchDecryptBody items) w))"

text \<open>The result is a Go map; a path without an entry in the response maps to a nil slice.\<close>

definition capabilities_by_path :: "string list \<Rightarrow> (string \<rightharpoonup> string list) \<Rightarrow> (string \<rightharpoonup> string list)" where
  "capabilities_by_path paths data = (\<lambda>p. if p \<in> set paths then Some (case data p of None \<Rightarrow> [] | Some caps \<Rightarrow> caps) else None)"

definition Capabilities :: "'w Client \<Rightarrow> transit_json \<Rightarrow> string list \<Rightarrow> 'w \<Rightarrow> (string \<rightharpoonup> string list) res \<times> 'w" where
  "Capabilities c json paths w =
    (if paths = [] then (Inl (Msg ''capability paths are required''), w)
     else mapR (\<lambda>data. Inr (capabilities_by_path paths data))
            (client_do c (tj_capabilities json) ''capabilities self'' ''POST'' ''sys/capabilities-self'' (CapabilitiesBody paths) w))"

record bao_ProbeRequest =
  bp_MountPath :: string
  bp_KeyName :: string
  bp_KeyVersion :: int
  bp_AssociatedData :: string

text \<open>\<open>random\<close> is what the random source gives: 32 bytes, or nothing when it fails.\<close>

definition ProbeEncryptDecrypt :: "'w Client \<Rightarrow> transit_json \<Rightarrow> string option \<Rightarrow> bao_ProbeRequest \<Rightarrow> 'w \<Rightarrow> (string \<times> int) res \<times> 'w" where
  "ProbeEncryptDecrypt c json random req w =
    (case random of
       None \<Rightarrow> (Inl (Msg ''generate probe plaintext''), w)
     | Some plaintext \<Rightarrow>
        (case bao_Encrypt c json \<lparr>be_MountPath = bp_MountPath req, be_KeyName = bp_KeyName req, be_Plaintext = plaintext,
                be_AssociatedData = bp_AssociatedData req, be_KeyVersion = bp_KeyVersion req\<rparr> w of
           (Inl err, w1) \<Rightarrow> (Inl err, w1)
         | (Inr (ciphertext, version), w1) \<Rightarrow>
             (case bao_Decrypt c json \<lparr>bd_MountPath = bp_MountPath req, bd_KeyName = bp_KeyName req, bd_Ciphertext = ciphertext,
                     bd_AssociatedData = bp_AssociatedData req\<rparr> w1 of
                (Inl err, w2) \<Rightarrow> (Inl err, w2)
              | (Inr decrypted, w2) \<Rightarrow>
                  if decrypted \<noteq> plaintext then (Inl (Msg ''probe decrypt did not return original plaintext''), w2)
                  else (Inr (ciphertext, version), w2))))"

section \<open>The adapter of the KMS server\<close>

record transitAdapter =
  ad_mountPath :: string
  ad_keyName :: string

definition transitAdapter_Encrypt ::
  "'w Client \<Rightarrow> transit_json \<Rightarrow> transitAdapter \<Rightarrow> TransitEncryptRequest \<Rightarrow> 'w \<Rightarrow> TransitEncryptResponse res \<times> 'w" where
  "transitAdapter_Encrypt c json a req w =
    mapR (\<lambda>(ciphertext, version). Inr \<lparr>ter_Ciphertext = ciphertext, ter_KeyVersion = version\<rparr>)
      (bao_Encrypt c json \<lparr>be_MountPath = ad_mountPath a, be_KeyName = ad_keyName a, be_Plaintext = te_Plaintext req,
         be_AssociatedData = te_AssociatedData req, be_KeyVersion = te_KeyVersion req\<rparr> w)"

definition transitAdapter_Decrypt ::
  "'w Client \<Rightarrow> transit_json \<Rightarrow> transitAdapter \<Rightarrow> TransitDecryptRequest \<Rightarrow> 'w \<Rightarrow> string res \<times> 'w" where
  "transitAdapter_Decrypt c json a req w =
    bao_Decrypt c json \<lparr>bd_MountPath = ad_mountPath a, bd_KeyName = ad_keyName a, bd_Ciphertext = td_Ciphertext req,
      bd_AssociatedData = td_AssociatedData req\<rparr> w"


text \<open>The server's Transit dependency over a client; the deadline of the context shows as a failed exchange.\<close>

definition adapter_encrypt ::
  "'w Client \<Rightarrow> transit_json \<Rightarrow> transitAdapter \<Rightarrow> request_context \<Rightarrow> TransitEncryptRequest \<Rightarrow> 'w \<Rightarrow> TransitEncryptResponse res called \<times> 'w" where
  "adapter_encrypt c json a ctx req w = (let (r, w') = transitAdapter_Encrypt c json a req w in (Return r, w'))"

definition adapter_decrypt ::
  "'w Client \<Rightarrow> transit_json \<Rightarrow> transitAdapter \<Rightarrow> request_context \<Rightarrow> TransitDecryptRequest \<Rightarrow> 'w \<Rightarrow> string res called \<times> 'w" where
  "adapter_decrypt c json a ctx req w = (let (r, w') = transitAdapter_Decrypt c json a req w in (Return r, w'))"

section \<open>Requests on the wire\<close>

lemma bao_Encrypt_Inr:
  assumes "fst (bao_Encrypt c json req w) = Inr x"
  shows "0 < be_KeyVersion req" "be_Plaintext req \<noteq> []" "be_AssociatedData req \<noteq> []"
    "fst (client_do c (tj_encrypt json) ''transit encrypt'' ''POST'' (transitPath (be_MountPath req) ''encrypt'' (be_KeyName req))
       (EncryptBody (Std_EncodeToString (be_Plaintext req)) (Std_EncodeToString (be_AssociatedData req)) (be_KeyVersion req)) w) = Inr x"
  using assms by (auto simp: bao_Encrypt_def requireAssociatedData_def failIf_def split: if_splits)

lemma bao_Decrypt_ok:
  assumes "bd_Ciphertext req \<noteq> []" "bd_AssociatedData req \<noteq> []"
    and "fst (client_do c (tj_decrypt json) ''transit decrypt'' ''POST'' (transitPath (bd_MountPath req) ''decrypt'' (bd_KeyName req))
       (DecryptBody (bd_Ciphertext req) (Std_EncodeToString (bd_AssociatedData req))) w) = Inr (Std_EncodeToString p)"
  shows "fst (bao_Decrypt c json req w) = Inr p"
  using assms by (simp add: bao_Decrypt_def requireAssociatedData_def failIf_def mapR_def std.decode_encode)

lemma adapter_encrypt_Inr:
  assumes "adapter_encrypt c json a ctx treq u = (Return (Inr r), u')"
  obtains t u1 u2 status b ver rid where
    "cl_http c (newOpenBaoRequest (cl_basePath c) (cl_namespace c) ''POST'' (transitPath (ad_mountPath a) ''encrypt'' (ad_keyName a))
       (EncryptBody (Std_EncodeToString (te_Plaintext treq)) (Std_EncodeToString (te_AssociatedData treq)) (te_KeyVersion treq)) t True) u1
       = (HttpReplied status (Some b), u2)"
    "tj_encrypt json b = Some ((ter_Ciphertext r, ver), rid)" "te_AssociatedData treq \<noteq> []"
proof -
  from assms obtain ver where e: "fst (bao_Encrypt c json \<lparr>be_MountPath = ad_mountPath a, be_KeyName = ad_keyName a, be_Plaintext = te_Plaintext treq,
         be_AssociatedData = te_AssociatedData treq, be_KeyVersion = te_KeyVersion treq\<rparr> u) = Inr (ter_Ciphertext r, ver)"
    by (auto simp: adapter_encrypt_def transitAdapter_Encrypt_def mapR_def split_def Let_def)
  note e = bao_Encrypt_Inr [OF e, simplified]
  from e(4) obtain t u1 rep u2 where x: "cl_http c (newOpenBaoRequest (cl_basePath c) (cl_namespace c) ''POST'' (transitPath (ad_mountPath a) ''encrypt'' (ad_keyName a))
       (EncryptBody (Std_EncodeToString (te_Plaintext treq)) (Std_EncodeToString (te_AssociatedData treq)) (te_KeyVersion treq)) t True) u1 = (rep, u2)"
    "snd (reply_result c (tj_encrypt json) ''transit encrypt'' rep) = Inr (ter_Ciphertext r, ver)"
    by (rule client_do_Inr)
  from x(2) obtain status b rid where "rep = HttpReplied status (Some b)" "tj_encrypt json b = Some ((ter_Ciphertext r, ver), rid)"
    by (auto simp: reply_result_Inr)
  with x(1) e(3) show ?thesis by (intro that [of t u1 status b u2 ver rid]) simp_all
qed

lemma adapter_decrypt_ok:
  assumes "td_Ciphertext treq \<noteq> []" "td_AssociatedData treq \<noteq> []" "cl_Token c v = (Inr t, v1)"
    and "cl_http c (newOpenBaoRequest (cl_basePath c) (cl_namespace c) ''POST'' (transitPath (ad_mountPath a) ''decrypt'' (ad_keyName a))
       (DecryptBody (td_Ciphertext treq) (Std_EncodeToString (td_AssociatedData treq))) t True) v1 = (HttpReplied 200 (Some b), v2)"
    and "length b \<le> 262144" "tj_decrypt json b = Some (Std_EncodeToString p, rid)"
  shows "\<exists>v'. adapter_decrypt c json a ctx treq v = (Return (Inr p), v')"
proof -
  have "snd (reply_result c (tj_decrypt json) ''transit decrypt'' (HttpReplied 200 (Some b))) = Inr (Std_EncodeToString p)"
    using assms(5,6) by (simp add: reply_result_Inr openBaoResponseLimit_def maxOpenBaoSmallResponseBytes_def)
  from client_do_ok [OF assms(3,4) this] have "fst (transitAdapter_Decrypt c json a treq v) = Inr p"
    using assms(1,2) unfolding transitAdapter_Decrypt_def by (intro bao_Decrypt_ok) simp_all
  then show ?thesis by (simp add: adapter_decrypt_def Let_def split_def)
qed

section \<open>End to end\<close>

text \<open>
  C5 Data encrypted through the provider is decrypted correctly by any later provider process, all the way to the requests
  on the wire and whatever happened to the lifecycle of the key in between. If an \<open>Encrypt\<close> call of a server that reaches Transit
  through the OpenBao client succeeded, the registry of the decrypting server resolves the key_id of the response to a
  snapshot of the same identity, its client holds a token, and OpenBao, asked to decrypt a ciphertext it returned together
  with the associated data it was given, replies with the plaintext it was given, then \<open>Decrypt\<close> of the response returns the
  plaintext, provided a decrypt slot is free.
\<close>

theorem encrypt_decrypt_roundtrip:
  assumes enc: "fst (Encrypt s (Some req) w) = Inr resp"
    and over: "dep_Encrypt (deps s) = adapter_encrypt c json a" "dep_Decrypt (deps t) = adapter_decrypt d json a"
    and cur: "dep_Current (deps s) (requestContext s) w = (Return (Inr cached), w1)"
    and int: "in_i64 (TransitVersion (Active cached))"
    and slot: "lim_len (decryptLimiter t) < lim_cap (decryptLimiter t)"
    and key: "dep_Lookup (deps t) (KeyId resp) v = (Return (Inr snap), v0)" "Normalize snap = Inr snap"
      "same_identity (Active cached) snap"
    and token: "cl_Token d v0 = (Inr tok, v1)"
    and transit: "\<And>p aad n tok' u status b u' ct ver rid.
      cl_http c (newOpenBaoRequest (cl_basePath c) (cl_namespace c) ''POST'' (transitPath (ad_mountPath a) ''encrypt'' (ad_keyName a))
        (EncryptBody p aad n) tok' True) u = (HttpReplied status (Some b), u') \<Longrightarrow> tj_encrypt json b = Some ((ct, ver), rid) \<Longrightarrow>
      \<exists>b' rid' v2. cl_http d (newOpenBaoRequest (cl_basePath d) (cl_namespace d) ''POST'' (transitPath (ad_mountPath a) ''decrypt'' (ad_keyName a))
        (DecryptBody ct aad) tok True) v1 = (HttpReplied 200 (Some b'), v2) \<and> length b' \<le> 262144 \<and> tj_decrypt json b' = Some (p, rid')"
  shows "fst (Decrypt t (Some \<lparr>dr_Ciphertext = Ciphertext resp, dr_Uid = uid, dr_KeyId = KeyId resp,
           dr_Annotations = ResponseAnnotations resp\<rparr>) v) = Inr (er_Plaintext req)"
proof (rule encrypt_then_decrypt [OF enc cur int slot key])
  fix treq ctx u u' r
  assume run: "dep_Encrypt (deps s) ctx treq u = (Return (Inr r), u')" and ct: "ter_Ciphertext r \<noteq> []"
  obtain t' u1 u2 status b ver rid where x:
    "cl_http c (newOpenBaoRequest (cl_basePath c) (cl_namespace c) ''POST'' (transitPath (ad_mountPath a) ''encrypt'' (ad_keyName a))
       (EncryptBody (Std_EncodeToString (te_Plaintext treq)) (Std_EncodeToString (te_AssociatedData treq)) (te_KeyVersion treq)) t' True) u1
       = (HttpReplied status (Some b), u2)"
    "tj_encrypt json b = Some ((ter_Ciphertext r, ver), rid)" "te_AssociatedData treq \<noteq> []"
    by (rule adapter_encrypt_Inr [OF run [unfolded over]])
  from transit [OF x(1,2)] x(3) ct show "\<exists>v'. dep_Decrypt (deps t) (requestContext t)
      \<lparr>td_Ciphertext = ter_Ciphertext r, td_AssociatedData = te_AssociatedData treq\<rparr> v0 = (Return (Inr (te_Plaintext treq)), v')"
    unfolding over by (elim exE conjE) (rule adapter_decrypt_ok [OF _ _ token], simp_all)
qed

text \<open>
  For the witness: OpenBao marks what it encrypts, and the bodies of its replies are the values themselves.
\<close>

definition ex_bao :: "Registry Client" where
  "ex_bao = \<lparr>cl_http = (\<lambda>req w. (case hq_body req of
       EncryptBody p _ _ \<Rightarrow> HttpReplied 200 (Some p)
     | DecryptBody ct _ \<Rightarrow> HttpReplied 200 (Some (take 262144 (drop 3 ct)))
     | _ \<Rightarrow> HttpReplied 404 (Some []), w)),
     cl_observe = (\<lambda>_ w. w), cl_decode_error = (\<lambda>_. None), cl_basePath = [], cl_namespace = [],
     cl_Token = (\<lambda>w. (Inr ''token'', w)), cl_RecoverToken = None, cl_RejectToken = None\<rparr>"

definition ex_transit_json :: transit_json where
  "ex_transit_json = \<lparr>tj_profile = (\<lambda>_. None), tj_upsert = (\<lambda>_. None),
     tj_encrypt = (\<lambda>b. if length b \<le> 262144 then Some ((''ct:'' @ b, 1), []) else None), tj_decrypt = (\<lambda>b. Some (b, [])), tj_batch = (\<lambda>_. None), tj_capabilities = (\<lambda>_. None)\<rparr>"

definition ex_adapter :: transitAdapter where
  "ex_adapter = \<lparr>ad_mountPath = ''transit'', ad_keyName = ''k8s''\<rparr>"

definition ex_provider :: "Registry Server" where
  "ex_provider = ex_server\<lparr>deps := ex_deps\<lparr>dep_Encrypt := adapter_encrypt ex_bao ex_transit_json ex_adapter,
     dep_Decrypt := adapter_decrypt ex_bao ex_transit_json ex_adapter\<rparr>\<rparr>"

definition ex_reply :: EncryptResponse where
  "ex_reply = \<lparr>Ciphertext = ''ct:ZGVr'', KeyId = derived_key_id ex_snapshot, ResponseAnnotations = ex_annotations\<rparr>"

lemma ex_adapter_encrypt:
  assumes "te_Plaintext treq = ''dek''" "te_AssociatedData treq \<noteq> []" "te_KeyVersion treq = 1"
  shows "adapter_encrypt ex_bao ex_transit_json ex_adapter ctx treq w = (Return (Inr \<lparr>ter_Ciphertext = ''ct:ZGVr'', ter_KeyVersion = 1\<rparr>), w)"
proof -
  have "Std_EncodeToString ''dek'' = ''ZGVr''" by code_simp
  with assms show ?thesis
    by (simp add: adapter_encrypt_def transitAdapter_Encrypt_def mapR_def bao_Encrypt_def requireAssociatedData_def failIf_def client_do_def
        doOpenBao_def newOpenBaoRequest_def ex_bao_def ex_transit_json_def reply_result_def readOpenBaoResponse_def readBoundedResponseBody_def
        openBaoResponseLimit_def maxOpenBaoSmallResponseBytes_def split_def)
qed

lemma ex_provider_Encrypt: "fst (Encrypt ex_provider (Some ex_plain) w) = Inr ex_reply"
proof -
  have limits: "validateEncryptResponseLimits (Some ex_reply) = Inr ()"
    using ex_annotations_valid derived_key_id_length [of ex_snapshot]
    by (simp add: validateEncryptResponseLimits_def ex_reply_def MaxKMSCiphertextBytes_def MaxKMSKeyIDBytes_def)
  have tv: "TransitVersion ex_snapshot = 1" by (simp add: ex_snapshot_def)
  have "canonical_for (normal_form ex_snapshot) \<noteq> []" by (simp add: canonical_for_def json_object_def)
  with limits have "fst (encrypt_body ex_provider (Some ex_plain) q) = Ok ex_reply" for q
    by (simp add: encrypt_body_def ex_provider_def ex_server_def ex_plain_def activeStatus_def ex_deps_def call_def andThen_cases
        ex_validate ex_BuildAnnotations_normal ex_BuildCanonical Let_def ex_adapter_encrypt tv ex_reply_def)
  then show ?thesis by (simp add: Encrypt_def Let_def serve_Inr) (simp add: ex_provider_def ex_server_def)
qed

theorem encrypt_decrypt_roundtrip_witness:
  "fst (Decrypt ex_provider (Some \<lparr>dr_Ciphertext = Ciphertext ex_reply, dr_Uid = ''u2'', dr_KeyId = KeyId ex_reply,
      dr_Annotations = ResponseAnnotations ex_reply\<rparr>) ex_registry) = Inr ''dek''"
proof -
  have "fst (Decrypt ex_provider (Some \<lparr>dr_Ciphertext = Ciphertext ex_reply, dr_Uid = ''u2'', dr_KeyId = KeyId ex_reply,
      dr_Annotations = ResponseAnnotations ex_reply\<rparr>) ex_registry) = Inr (er_Plaintext ex_plain)"
  proof (rule encrypt_decrypt_roundtrip [OF ex_provider_Encrypt, where c = ex_bao and d = ex_bao and json = ex_transit_json and a = ex_adapter
        and cached = ex_status and snap = "normal_form ex_snapshot" and tok = "''token''" and ?v0.0 = ex_registry and ?v1.0 = ex_registry])
    show "dep_Lookup (deps ex_provider) (KeyId ex_reply) ex_registry = (Return (Inr (normal_form ex_snapshot)), ex_registry)"
      by (simp add: ex_provider_def ex_deps_def ex_reply_def ex_Lookup)
    show "Normalize (normal_form ex_snapshot) = Inr (normal_form ex_snapshot)" by (simp add: Normalize_normal_form)
    show "same_identity (Active ex_status) (normal_form ex_snapshot)" using same_identity_normal by (simp add: ex_status_def)
  qed (auto simp: ex_provider_def ex_server_def ex_deps_def ex_status_def ex_snapshot_def ex_bao_def newOpenBaoRequest_def
      ex_transit_json_def in_i64_def split: if_splits)
  then show ?thesis by (simp add: ex_plain_def)
qed

end
