(* ===== verification/Rotation_Safety.thy ===== *)
theory Rotation_Safety
  imports Rotation
begin

text \<open>
  What rotation guarantees: no decryption key is lost, the active key only moves forward and only by a
  promotion that has met its conditions, new versions are retained for decryption before they
  encrypt, and a state rebuilt from metadata is complete. The lemmas characterise the operations of
  \<^verbatim>\<open>rotation.go\<close> by what their results contain; an example run shows that the hypotheses of the
  results can hold.
\<close>

section \<open>Records\<close>

lemma IsZero_zero_time [simp]: "IsZero zero_time"
  by (simp add: IsZero_def)

lemma set_orderedRecords [simp]: "set (orderedRecords a rs) = set rs"
  by (simp add: orderedRecords_def)

lemma orderedRecords_Nil [simp]: "orderedRecords a rs = [] \<longleftrightarrow> rs = []"
  using set_orderedRecords [of a rs] by (metis set_empty)

lemma mset_orderedRecords: "mset (orderedRecords a rs) = mset rs"
  by (simp add: orderedRecords_def)

lemma mset_eq_imp_distinct_iff: "mset xs = mset ys \<Longrightarrow> distinct xs \<longleftrightarrow> distinct ys"
  by (metis distinct_count_atmost_1 set_mset_mset)

lemma distinct_orderedRecords: "distinct (map f (orderedRecords a rs)) \<longleftrightarrow> distinct (map f rs)"
proof -
  have "mset (map f (orderedRecords a rs)) = mset (map f rs)" by (simp add: mset_orderedRecords)
  then show ?thesis by (rule mset_eq_imp_distinct_iff)
qed

lemma raw_recordFromSnapshot [simp]:
  "normal_form n = n \<Longrightarrow> raw_snapshot (recordFromSnapshot n ob st c pr) = n"
  "r_State (recordFromSnapshot n ob st c pr) = State n"
  "r_KubernetesKeyID (recordFromSnapshot n ob st c pr) = KubernetesKeyID n"
  "r_TransitVersion (recordFromSnapshot n ob st c pr) = TransitVersion n"
  "r_StableObservationCount (recordFromSnapshot n ob st c pr) = (if c > 0 then c else 0)"
proof -
  assume n: "normal_form n = n"
  have t: "time_Unix (Unix (TransitVersionCreatedAt n)) = TransitVersionCreatedAt n"
    using arg_cong [OF n, of TransitVersionCreatedAt] by simp
  show "raw_snapshot (recordFromSnapshot n ob st c pr) = n"
    by (simp add: raw_snapshot_def recordFromSnapshot_def SnapshotStateRecordFromSnapshot_def Let_def t)
next
  show "r_State (recordFromSnapshot n ob st c pr) = State n"
    "r_KubernetesKeyID (recordFromSnapshot n ob st c pr) = KubernetesKeyID n"
    "r_TransitVersion (recordFromSnapshot n ob st c pr) = TransitVersion n"
    "r_StableObservationCount (recordFromSnapshot n ob st c pr) = (if c > 0 then c else 0)"
    by (simp_all add: recordFromSnapshot_def SnapshotStateRecordFromSnapshot_def Let_def)
qed

lemma rec_recordFromSnapshot [simp]:
  assumes "normal_form n = n"
  shows "rec_id (recordFromSnapshot n ob st c pr) = KubernetesKeyID n"
    and "rec_snap (recordFromSnapshot n ob st c pr) = n"
proof -
  have "derived_key_id n = KubernetesKeyID n" using normal_form_simps(3) [of n] unfolding assms by (rule sym)
  then show "rec_id (recordFromSnapshot n ob st c pr) = KubernetesKeyID n"
    and "rec_snap (recordFromSnapshot n ob st c pr) = n"
    using assms by (simp_all add: rec_id_def rec_snap_def)
qed

lemma advance_pending_simps [simp]:
  "raw_snapshot (advance_pending p th now adv) = raw_snapshot p"
  "r_State (advance_pending p th now adv) = r_State p"
  "r_KubernetesKeyID (advance_pending p th now adv) = r_KubernetesKeyID p"
  by (simp_all add: advance_pending_def raw_snapshot_def Let_def)

lemma advance_pending_rec [simp]:
  "rec_id (advance_pending p th now adv) = rec_id p" "rec_snap (advance_pending p th now adv) = rec_snap p"
  by (simp_all add: rec_id_def rec_snap_def)

lemma advance_pending_count:
  "r_StableObservationCount (advance_pending p th now adv)
     = r_StableObservationCount p + (if adv \<and> r_StableObservationCount p < th then 1 else 0)"
  by (simp add: advance_pending_def Let_def)

lemma scope_snapshot_Inr:
  assumes "scope_snapshot s v t st = Inr n"
  shows "normal_form n = n" "normalizable n" "State n = st" "TransitVersion n = v"
    "KubernetesKeyID n = derived_key_id n" "AADMode n = sc_AADMode s"
    "TransitVersionCreatedAt n = time_Unix (Unix t)"
    "ProviderName n = sc_ProviderName s" "ClusterID n = sc_ClusterID s"
    "OpenBaoInstanceID n = sc_OpenBaoInstanceID s" "OpenBaoNamespace n = sc_OpenBaoNamespace s"
    "TransitMountID n = sc_TransitMountID s" "TransitKeyLineageID n = sc_TransitKeyLineageID s"
proof -
  let ?raw = "\<lparr>ProviderName = sc_ProviderName s, ClusterID = sc_ClusterID s,
       OpenBaoInstanceID = sc_OpenBaoInstanceID s, OpenBaoNamespace = sc_OpenBaoNamespace s,
       TransitMountID = sc_TransitMountID s, TransitKeyLineageID = sc_TransitKeyLineageID s,
       TransitVersion = v, TransitVersionCreatedAt = t,
       KubernetesKeyID = [], State = st, AADMode = sc_AADMode s\<rparr>"
  have n: "normalizable ?raw" "n = normal_form ?raw"
    using assms by (simp_all add: scope_snapshot_def Normalize_Inr)
  show "normal_form n = n" "normalizable n" "KubernetesKeyID n = derived_key_id n"
    unfolding n(2) using normalizable_normal_form [OF n(1)] by simp_all
  show "State n = st" "TransitVersion n = v" "AADMode n = sc_AADMode s"
    "TransitVersionCreatedAt n = time_Unix (Unix t)"
    "ProviderName n = sc_ProviderName s" "ClusterID n = sc_ClusterID s"
    "OpenBaoInstanceID n = sc_OpenBaoInstanceID s" "OpenBaoNamespace n = sc_OpenBaoNamespace s"
    "TransitMountID n = sc_TransitMountID s" "TransitKeyLineageID n = sc_TransitKeyLineageID s"
    unfolding n(2) normal_form_def by simp_all
qed

lemma snapshotForProfile_Inr:
  assumes "snapshotForProfile ob p v st = Inr n"
  shows "normal_form n = n" "normalizable n" "State n = st" "TransitVersion n = v"
    "KubernetesKeyID n = derived_key_id n"
  using assms scope_snapshot_Inr(1-5) unfolding snapshotForProfile_def by auto

section \<open>The next state\<close>

lemma nextStateFromRecords_Inr:
  assumes "nextStateFromRecords st aid rs = Inr n"
  shows "ValidateStateProgress st n = Inr ()" "canonical_state n" "ActiveKeyID n = aid"
    "unat (Generation n) = unat (Generation st) + 1"
    "Snapshots n = map norm_rec (orderedRecords aid rs)" "content_ok n" "list_all rec_ok rs"
proof -
  from assms have new: "NewStateFileFromRecords aid (orderedRecords aid rs) (Generation st + 1)
      (CurrentHash st) (IdentityFingerprint st) = Inr n"
    and prog: "ValidateStateProgress st n = Inr ()"
    by (auto simp: nextStateFromRecords_def)
  show "ValidateStateProgress st n = Inr ()" by (rule prog)
  show "canonical_state n" using NewStateFileFromRecords_canonical [OF new] by simp
  show "ActiveKeyID n = aid" "Snapshots n = map norm_rec (orderedRecords aid rs)" "list_all rec_ok rs"
    using new by (auto simp: NewStateFileFromRecords_Inr list_all_iff)
  show "content_ok n" using prog by (simp add: ValidateStateProgress_Inr validated_content)
  show "unat (Generation n) = unat (Generation st) + 1"
    using new prog unat_succ [of "Generation st"]
    by (auto simp: NewStateFileFromRecords_Inr ValidateStateProgress_Inr)
qed

lemma next_resolves:
  assumes "nextStateFromRecords st aid rs = Inr n"
  shows "resolves n k \<longleftrightarrow> (\<exists>r\<in>set rs. decryptable_state (r_State r) \<and> rec_id r = k)"
  using nextStateFromRecords_Inr(5,6) [OF assms] by (simp add: resolves_iff)

text \<open>The pending records of a state, by identifier.\<close>

definition pending_count :: "StateFile \<Rightarrow> string \<Rightarrow> int" where
  "pending_count s k =
    (case find (\<lambda>r. rec_id r = k \<and> r_State r = StatePending) (Snapshots s) of
       Some r \<Rightarrow> r_StableObservationCount r | None \<Rightarrow> 0)"

lemma rec_ok_count: "rec_ok r \<Longrightarrow> 0 \<le> r_StableObservationCount r"
  by (auto simp: rec_ok_def validateObservationMetadata_def)

lemma content_ok_uniq:
  "content_ok s \<Longrightarrow> q \<in> set (Snapshots s) \<Longrightarrow> r \<in> set (Snapshots s) \<Longrightarrow> rec_id q = rec_id r \<Longrightarrow> q = r"
  by (auto simp: content_ok_def distinct_map dest: inj_onD)

lemma content_ok_rec: "content_ok s \<Longrightarrow> r \<in> set (Snapshots s) \<Longrightarrow> rec_ok r"
  by (simp add: content_ok_def list_all_iff)

lemma pending_count_rec:
  assumes "content_ok s" and "r \<in> set (Snapshots s)" and "r_State r = StatePending"
  shows "pending_count s (rec_id r) = r_StableObservationCount r"
proof -
  obtain q where q: "find (\<lambda>q. rec_id q = rec_id r \<and> r_State q = StatePending) (Snapshots s) = Some q"
    using assms(2,3) by (metis (mono_tags, lifting) find_None_iff not_None_eq)
  then have "q \<in> set (Snapshots s)" "rec_id q = rec_id r" by (auto simp: find_Some_iff)
  with assms content_ok_uniq have "q = r" by blast
  with q show ?thesis by (simp add: pending_count_def)
qed

lemma pending_count_none:
  "\<not> (\<exists>r\<in>set (Snapshots s). rec_id r = k \<and> r_State r = StatePending) \<Longrightarrow> pending_count s k = 0"
  by (auto simp: pending_count_def find_Some_iff dest: nth_mem split: option.split)

lemma pending_count_nonneg: "content_ok s \<Longrightarrow> 0 \<le> pending_count s k"
  by (auto simp: pending_count_def find_Some_iff dest!: content_ok_rec rec_ok_count split: option.split)

section \<open>The pending record\<close>

definition demote :: "SnapshotStateRecord \<Rightarrow> SnapshotStateRecord" where
  "demote r = (if r_State r = StatePending then r\<lparr>r_State := StateRetired\<rparr> else r)"

lemma demote_simps [simp]:
  "rec_id (demote r) = rec_id r" "r_State (demote r) \<noteq> StatePending"
  "r_State (demote r) = StateActive \<longleftrightarrow> r_State r = StateActive"
  "decryptable_state (r_State (demote r)) \<longleftrightarrow> decryptable_state (r_State r)"
  by (auto simp: demote_def decryptable_state_def)

lemma upsert_existing_Inr:
  assumes "list_all rec_ok rs"
  shows "upsert_existing c rs acc seen p = Inr (
     acc @ map demote (filter (\<lambda>r. \<not> (r_State r = StatePending \<and> rec_id r = r_KubernetesKeyID c)) rs),
     rev (map rec_id (filter (\<lambda>r. \<not> (r_State r = StatePending \<and> rec_id r = r_KubernetesKeyID c)) rs)) @ seen,
     foldl (\<lambda>p r. if r_State r = StatePending \<and> rec_id r = r_KubernetesKeyID c then r else p) p rs)"
  using assms
proof (induction rs arbitrary: acc seen p)
  case (Cons r rs)
  then have "record_Snapshot r = Inr (rec_snap r)" by simp
  with Cons show ?case
    by (auto simp: Let_def demote_def simp del: record_Snapshot_Inr)
qed simp

lemma foldl_pending:
  "foldl (\<lambda>p r. if P r then r else p) p rs = p \<and> \<not> (\<exists>r\<in>set rs. P r)
   \<or> foldl (\<lambda>p r. if P r then r else p) p rs \<in> set rs \<and> P (foldl (\<lambda>p r. if P r then r else p) p rs)"
  by (induction rs rule: rev_induct) auto

lemma upsert_additional_Inr:
  "upsert_additional rs acc seen = Inr out \<Longrightarrow>
     set acc \<subseteq> set out \<and> set out \<subseteq> set acc \<union> set rs"
proof (induction rs arbitrary: acc seen)
  case (Cons r rs)
  then have r: "rec_ok r" by (auto split: if_splits)
  show ?case
  proof (cases "rec_id r \<in> set seen")
    case True
    with Cons.prems r have "upsert_additional rs acc seen = Inr out" by auto
    from Cons.IH [OF this] show ?thesis by auto
  next
    case False
    with Cons.prems r have "upsert_additional rs (acc @ [r]) (rec_id r # seen) = Inr out" by auto
    from Cons.IH [OF this] show ?thesis by auto
  qed
qed simp

lemma upsertPendingRecord_Inr:
  assumes "content_ok st" and up: "upsertPendingRecord st c th now adds adv = Inr (records, p)"
    and c: "rec_id c = r_KubernetesKeyID c" "r_State c = StatePending" "r_StableObservationCount c = 0"
  shows "p \<in> set records" and "rec_id p = rec_id c" and "r_State p = StatePending"
    and "canonical_state st \<Longrightarrow> r_KubernetesKeyID p = rec_id c"
    and "r_StableObservationCount p \<le> pending_count st (rec_id c) + (if adv then 1 else 0)"
    and "r \<in> set records \<Longrightarrow> r = p \<or> r \<in> set adds \<or> (\<exists>q\<in>set (Snapshots st). r = demote q)"
    and "q \<in> set (Snapshots st) \<Longrightarrow> demote q \<in> set records \<or> r_State q = StatePending \<and> rec_id q = rec_id c"
proof -
  let ?P = "\<lambda>r. r_State r = StatePending \<and> rec_id r = r_KubernetesKeyID c"
  let ?p0 = "foldl (\<lambda>p r. if ?P r then r else p) c (Snapshots st)"
  let ?keep = "map demote (filter (\<lambda>r. \<not> ?P r) (Snapshots st))"
  have ok: "list_all rec_ok (Snapshots st)" using assms(1) by (simp add: content_ok_def)
  from up obtain out seen where out: "upsert_additional adds ?keep seen = Inr out"
    and p: "p = advance_pending ?p0 th now adv" and rs: "records = orderedRecords (ActiveKeyID st) (out @ [p])"
    unfolding upsertPendingRecord_def upsert_existing_Inr [OF ok] by (auto simp: Let_def)
  note add = upsert_additional_Inr [OF out]
  have p0: "?p0 = c \<and> \<not> (\<exists>r\<in>set (Snapshots st). ?P r) \<or> ?p0 \<in> set (Snapshots st) \<and> ?P ?p0"
    by (rule foldl_pending)
  show "p \<in> set records" by (simp add: rs)
  show "rec_id p = rec_id c" "r_State p = StatePending" using p0 c by (auto simp: p)
  show "r_KubernetesKeyID p = rec_id c" if "canonical_state st"
    using p0 c that by (auto simp: p canonical_state_def)
  have "r_StableObservationCount ?p0 \<le> pending_count st (rec_id c)"
  proof (cases "\<exists>r\<in>set (Snapshots st). ?P r")
    case True
    then have "?p0 \<in> set (Snapshots st)" "?P ?p0" using p0 by auto
    with pending_count_rec [OF assms(1)] c(1) show ?thesis by fastforce
  next
    case False
    then show ?thesis using p0 c(3) pending_count_nonneg [OF assms(1), of "rec_id c"] by auto
  qed
  then show "r_StableObservationCount p \<le> pending_count st (rec_id c) + (if adv then 1 else 0)"
    by (auto simp: p advance_pending_count)
  show "r = p \<or> r \<in> set adds \<or> (\<exists>q\<in>set (Snapshots st). r = demote q)" if "r \<in> set records"
    using that add by (auto simp: rs)
  show "demote q \<in> set records \<or> r_State q = StatePending \<and> rec_id q = rec_id c" if "q \<in> set (Snapshots st)"
    using that add c(1) by (auto simp: rs)
qed

lemma concat_members: "mapE f xs = Inr yss \<Longrightarrow> y \<in> set (concat yss) \<Longrightarrow> \<exists>x\<in>set xs. \<exists>ys. f x = Inr ys \<and> y \<in> set ys"
  by (induction xs arbitrary: yss) (auto, blast)

lemma intermediate_records:
  assumes "intermediateHistoricalRecords ob st pr v now = Inr adds" and "r \<in> set adds"
  shows "r_State r = StateRetired"
proof -
  from assms obtain versions retained yss where
    "mapE (intermediate_record ob versions retained now) [v + 1..LatestVersion pr - 1] = Inr yss"
    "adds = concat yss"
    by (auto simp: intermediateHistoricalRecords_def split: if_splits)
  with concat_members assms(2) obtain w ys where "intermediate_record ob versions retained now w = Inr ys" "r \<in> set ys"
    by metis
  then show ?thesis
    by (auto simp: intermediate_record_def scope_snapshot_Inr(3) split: option.splits if_splits)
qed

definition retire_active :: "SnapshotStateRecord \<Rightarrow> SnapshotStateRecord" where
  "retire_active r = recordFromSnapshot (normal_form ((rec_snap r)\<lparr>State := StateRetired\<rparr>))
     (recordTime (r_ObservedAtUnix r)) zero_time 0 (recordTime (r_PromotedAtUnix r))"

lemma retire_active_simps [simp]:
  "rec_id (retire_active r) = rec_id r" "r_State (retire_active r) = StateRetired"
  by (simp_all add: retire_active_def)

lemma promote_loop_Inr:
  "promote_loop st pid rs acc f = Inr (ps, f') \<Longrightarrow>
     ps = acc @ map (\<lambda>r. if rec_id r = ActiveKeyID st then retire_active r else r)
                  (filter (\<lambda>r. rec_id r \<noteq> pid) rs)"
proof (induction rs arbitrary: acc f)
  case (Cons r rs)
  then have r: "rec_ok r" by auto
  then have s: "record_Snapshot r = Inr (rec_snap r)" by simp
  show ?case
  proof (cases "rec_id r = pid")
    case True
    with Cons s show ?thesis by (simp del: record_Snapshot_Inr)
  next
    case False
    show ?thesis
    proof (cases "rec_id r = ActiveKeyID st")
      case True
      with False Cons.prems s obtain n where n: "Normalize ((rec_snap r)\<lparr>State := StateRetired\<rparr>) = Inr n"
        and rest: "promote_loop st pid rs (acc @ [recordFromSnapshot n (recordTime (r_ObservedAtUnix r)) zero_time 0
                       (recordTime (r_PromotedAtUnix r))]) True = Inr (ps, f')"
        by (auto simp del: record_Snapshot_Inr)
      have "n = normal_form ((rec_snap r)\<lparr>State := StateRetired\<rparr>)" using n by (simp add: Normalize_Inr)
      with Cons.IH [OF rest] True False show ?thesis by (simp add: retire_active_def)
    next
      case False2: False
      with False Cons.prems s have "promote_loop st pid rs (acc @ [r]) f = Inr (ps, f')"
        by (simp del: record_Snapshot_Inr)
      from Cons.IH [OF this] False False2 show ?thesis by simp
    qed
  qed
qed simp

lemma promotePendingRecord_Inr:
  assumes "promotePendingRecord st rs p now = Inr n"
  shows "\<exists>q ps. nextStateFromRecords st (rec_id p) (orderedRecords (rec_id p) (ps @ [q])) = Inr n
    \<and> rec_id q = rec_id p \<and> r_State q = StateActive
    \<and> ps = map (\<lambda>r. if rec_id r = ActiveKeyID st then retire_active r else r)
               (filter (\<lambda>r. rec_id r \<noteq> r_KubernetesKeyID p) rs)"
proof -
  from assms obtain a ps f where a: "Normalize ((rec_snap p)\<lparr>State := StateActive\<rparr>) = Inr a"
    and loop: "promote_loop st (r_KubernetesKeyID p) rs [] False = Inr (ps, f)"
    and nxt: "nextStateFromRecords st (KubernetesKeyID a) (orderedRecords (KubernetesKeyID a)
      (ps @ [recordFromSnapshot a (recordTime (r_ObservedAtUnix p))
          (recordTime (r_StableAtUnix p)) (r_StableObservationCount p)
          (time_Unix (max (Unix now) (max (r_ObservedAtUnix p) (r_StableAtUnix p))))])) = Inr n"
    by (auto simp: promotePendingRecord_def Let_def)
  have a': "a = normal_form ((rec_snap p)\<lparr>State := StateActive\<rparr>)" using a by (simp add: Normalize_Inr)
  have "KubernetesKeyID a = rec_id p" "normal_form a = a" "State a = StateActive" by (simp_all add: a')
  with nxt promote_loop_Inr [OF loop] show ?thesis by (metis append_Nil raw_recordFromSnapshot(2) rec_recordFromSnapshot(1))
qed

section \<open>Observations\<close>

lemma observe_Inr:
  "observe ob st pr now adv ready = Inr res \<longleftrightarrow>
     StateFile_Validate st = Inr () \<and> validateProfile pr = Inr () \<and> validateStateScope ob st = Inr ()
     \<and> validateDecryptableState pr st = Inr ()
     \<and> (\<exists>a. ActiveSnapshot st = Inr a
         \<and> (LatestVersion pr < TransitVersion a \<longrightarrow> \<not> RejectVersionRollback (policy ob))
         \<and> (if LatestVersion pr \<le> TransitVersion a
            then res = \<lparr>or_State = st, or_Changed = False, or_Promoted = False, or_Pending = False,
                 or_EncryptionBlocked = (MinEncryptionVersion pr > TransitVersion a), or_ClockRegressed = False\<rparr>
            else observeNewerVersion ob st pr now adv ready = Inr res))"
  by (auto simp: observe_def split: if_splits)

text \<open>The candidate record, and the four ways an observation of a newer version ends.\<close>

definition candidate_record :: "KeySnapshot \<Rightarrow> go_time \<Rightarrow> SnapshotStateRecord" where
  "candidate_record c now = recordFromSnapshot c now zero_time 0 zero_time"

lemma candidate_record_simps:
  assumes "snapshotForProfile ob pr v StatePending = Inr c"
  shows "rec_id (candidate_record c now) = r_KubernetesKeyID (candidate_record c now)"
    "r_KubernetesKeyID (candidate_record c now) = KubernetesKeyID c"
    "r_State (candidate_record c now) = StatePending" "r_StableObservationCount (candidate_record c now) = 0"
  using snapshotForProfile_Inr [OF assms] by (simp_all add: candidate_record_def)

lemma observeNewerVersion_cases:
  assumes "observeNewerVersion ob st pr now adv ready = Inr res"
  obtains (known) c r where "snapshotForProfile ob pr (LatestVersion pr) StatePending = Inr c"
      "\<not> adv" "r \<in> set (Snapshots st)" "r_KubernetesKeyID r = KubernetesKeyID c" "r_State r = StatePending"
      "or_State res = st" "\<not> or_Changed res" "\<not> or_Promoted res"
  | (upsert) c a adds records p where "snapshotForProfile ob pr (LatestVersion pr) StatePending = Inr c"
      "ActiveSnapshot st = Inr a" "intermediateHistoricalRecords ob st pr (TransitVersion a) now = Inr adds"
      "upsertPendingRecord st (candidate_record c now) (RequireStableObservationCount (policy ob)) now adds adv
         = Inr (records, p)"
      "or_State res = st \<and> Snapshots st = records \<and> \<not> or_Changed res \<and> \<not> or_Promoted res
       \<or> nextStateFromRecords st (ActiveKeyID st) records = Inr (or_State res) \<and> or_Changed res \<and> \<not> or_Promoted res
       \<or> adv \<and> promotionAllowed ob p ready \<and> promotePendingRecord st records p now = Inr (or_State res)
         \<and> validateProfileForState pr (or_State res) = Inr () \<and> or_Changed res \<and> or_Promoted res"
proof -
  from assms obtain a adds c where a: "ActiveSnapshot st = Inr a"
    and adds: "intermediateHistoricalRecords ob st pr (TransitVersion a) now = Inr adds"
    and c: "snapshotForProfile ob pr (LatestVersion pr) StatePending = Inr c"
    by (auto simp: observeNewerVersion_def)
  let ?known = "\<not> adv \<and> list_ex (\<lambda>record. r_KubernetesKeyID record = KubernetesKeyID c
                                  \<and> r_State record = StatePending) (Snapshots st)"
  show thesis
  proof (cases ?known)
    case True
    with assms a adds c have "or_State res = st" "\<not> or_Changed res" "\<not> or_Promoted res"
      by (auto simp: observeNewerVersion_def)
    with True show thesis by (auto simp: list_ex_iff intro: known [OF c])
  next
    case False
    with assms a adds c obtain records p where
      up: "upsertPendingRecord st (candidate_record c now) (RequireStableObservationCount (policy ob)) now adds adv
         = Inr (records, p)"
      and rest: "(if adv \<and> promotionAllowed ob p ready then
        bindE (promotePendingRecord st records p now) (\<lambda>promoted.
        bindE (validateProfileForState pr promoted) (\<lambda>_.
        Inr \<lparr>or_State = promoted, or_Changed = True, or_Promoted = True, or_Pending = False,
             or_EncryptionBlocked = False,
             or_ClockRegressed = (Unix now < max (r_ObservedAtUnix p) (r_StableAtUnix p))\<rparr>))
      else
        bindE (pendingObservation st records pr (MinEncryptionVersion pr > TransitVersion a)) (\<lambda>result.
        Inr (result\<lparr>or_ClockRegressed := or_Changed result \<and> r_StableAtUnix p > Unix now\<rparr>))) = Inr res"
      unfolding observeNewerVersion_def candidate_record_def by (auto simp del: if_split)
    show thesis
      using rest by (intro upsert [OF c a adds up]) (auto simp: pendingObservation_def split: if_splits)
  qed
qed

lemma promote_next:
  assumes "promotePendingRecord st rs p now = Inr n"
  shows "ActiveKeyID n = rec_id p" and "\<exists>aid rs. nextStateFromRecords st aid rs = Inr n"
proof -
  from promotePendingRecord_Inr [OF assms] obtain rs' where
    nxt: "nextStateFromRecords st (rec_id p) rs' = Inr n" by blast
  then show "ActiveKeyID n = rec_id p" by (rule nextStateFromRecords_Inr(3))
  show "\<exists>aid rs. nextStateFromRecords st aid rs = Inr n" using nxt by blast
qed

text \<open>An observation keeps the state or advances it by one generation.\<close>

lemma observe_step:
  assumes "observe ob st pr now adv ready = Inr res"
  shows "StateFile_Validate st = Inr ()"
    and "or_State res = st \<and> \<not> or_Changed res \<and> \<not> or_Promoted res
      \<or> ValidateStateProgress st (or_State res) = Inr () \<and> canonical_state (or_State res)
        \<and> unat (Generation (or_State res)) = unat (Generation st) + 1 \<and> or_Changed res"
proof -
  from assms have cases: "or_State res = st \<and> \<not> or_Changed res \<and> \<not> or_Promoted res
      \<or> observeNewerVersion ob st pr now adv ready = Inr res"
    by (auto simp: observe_Inr split: if_splits)
  show "StateFile_Validate st = Inr ()" using assms by (simp add: observe_Inr)
  show "or_State res = st \<and> \<not> or_Changed res \<and> \<not> or_Promoted res
      \<or> ValidateStateProgress st (or_State res) = Inr () \<and> canonical_state (or_State res)
        \<and> unat (Generation (or_State res)) = unat (Generation st) + 1 \<and> or_Changed res"
    using cases
  proof
    assume "observeNewerVersion ob st pr now adv ready = Inr res"
    then show ?thesis
    proof (cases rule: observeNewerVersion_cases)
      case (upsert c a adds records p)
      then have "or_State res = st \<and> \<not> or_Changed res \<and> \<not> or_Promoted res
          \<or> (\<exists>aid rs. nextStateFromRecords st aid rs = Inr (or_State res)) \<and> or_Changed res"
        using promote_next(2) [of st records p now "or_State res"] by blast
      then show ?thesis using nextStateFromRecords_Inr(1,2,4) by blast
    qed blast
  qed blast
qed

text \<open>How the stable observation count of a pending key can grow.\<close>

lemma pending_count_next:
  assumes "nextStateFromRecords st aid rs = Inr n"
    and "\<And>r. r \<in> set rs \<Longrightarrow> r_State r = StatePending \<Longrightarrow> rec_id r = k \<Longrightarrow> r_StableObservationCount r \<le> b"
    and "0 \<le> b"
  shows "pending_count n k \<le> b"
proof (cases "\<exists>r\<in>set (Snapshots n). rec_id r = k \<and> r_State r = StatePending")
  case True
  then obtain r where r: "r \<in> set (Snapshots n)" "rec_id r = k" "r_State r = StatePending" by blast
  then have "pending_count n k = r_StableObservationCount r"
    using pending_count_rec [OF nextStateFromRecords_Inr(6) [OF assms(1)]] by blast
  moreover obtain q where "q \<in> set rs" "r = norm_rec q"
    using r(1) by (auto simp: nextStateFromRecords_Inr(5) [OF assms(1)])
  ultimately show ?thesis using assms(2) [of q] r by simp
qed (use assms(3) in \<open>simp add: pending_count_none\<close>)

lemma observe_pending_count:
  assumes obs: "observe ob st pr now adv ready = Inr res" and can: "canonical_state st"
  shows "pending_count (or_State res) k \<le> pending_count st k + (if adv then 1 else 0)"
proof -
  let ?b = "pending_count st k + (if adv then 1 else 0)"
  have st: "content_ok st" using obs by (auto simp: observe_Inr intro: validated_content)
  then have b: "0 \<le> ?b" using pending_count_nonneg [of st k] by simp
  from obs consider "or_State res = st" | "observeNewerVersion ob st pr now adv ready = Inr res"
    by (auto simp: observe_Inr split: if_splits)
  then show ?thesis
  proof cases
    case 1
    then show ?thesis by simp
  next
    case 2
    then show ?thesis
    proof (cases rule: observeNewerVersion_cases)
      case (upsert c a adds records p)
      note cr = candidate_record_simps [OF upsert(1), of now]
      note up = upsertPendingRecord_Inr [OF st upsert(4) cr(1,3,4)]
      have ub: "r_StableObservationCount r \<le> ?b"
        if "r \<in> set records" "r_State r = StatePending" "rec_id r = k" for r
        using up(6) [OF that(1)] up(2,5) that intermediate_records [OF upsert(3), of r] by auto
      from upsert(5) show ?thesis
      proof (elim disjE conjE)
        assume nxt: "nextStateFromRecords st (ActiveKeyID st) records = Inr (or_State res)"
        show ?thesis using pending_count_next [OF nxt ub b] .
      next
        assume "promotePendingRecord st records p now = Inr (or_State res)"
        from promotePendingRecord_Inr [OF this] obtain q where
          nxt: "nextStateFromRecords st (rec_id p) (orderedRecords (rec_id p)
            (map (\<lambda>r. if rec_id r = ActiveKeyID st then retire_active r else r)
              (filter (\<lambda>r. rec_id r \<noteq> r_KubernetesKeyID p) records) @ [q])) = Inr (or_State res)"
          and q: "r_State q = StateActive" by blast
        show ?thesis
          by (rule pending_count_next [OF nxt _ b]) (use ub q in \<open>auto split: if_splits\<close>)
      qed simp
    qed simp
  qed
qed


section \<open>Runs of the observer\<close>

text \<open>
  \<open>rotates ob n s t\<close>: a sequence of observations, \<open>n\<close> of them advancing ones, takes the state from
  \<open>s\<close> to \<open>t\<close>. Every metadata reading, time and readiness flag is arbitrary.
\<close>

inductive rotates :: "Observer \<Rightarrow> nat \<Rightarrow> StateFile \<Rightarrow> StateFile \<Rightarrow> bool" for ob where
  init: "rotates ob 0 s s"
| step: "rotates ob n s t \<Longrightarrow> observe ob t pr now adv ready = Inr res \<Longrightarrow>
     rotates ob (if adv then Suc n else n) s (or_State res)"

lemma rotates_history:
  assumes "rotates ob n s t" and "canonical_state s" and "StateFile_Validate s = Inr ()"
  shows "extends_history s t \<and> canonical_state t"
  using assms
proof (induction rule: rotates.induct)
  case (step n s t pr now adv ready res)
  then show ?case using observe_step(2) [OF step.hyps(2)] by (auto intro: extends_history.advance)
qed (auto intro: extends_history.start)

lemma rotates_pending_count:
  assumes "rotates ob n s t" and "canonical_state s" and "StateFile_Validate s = Inr ()"
  shows "pending_count t k \<le> pending_count s k + int n"
  using assms
proof (induction rule: rotates.induct)
  case (step n s t pr now adv ready res)
  moreover have "canonical_state t" using rotates_history [OF step.hyps(1)] step.prems by blast
  ultimately show ?case using observe_pending_count [OF step.hyps(2), of k] by (auto split: if_splits)
qed simp

text \<open>The Transit version of the active key.\<close>

definition active_version :: "StateFile \<Rightarrow> int" where
  "active_version s = (case ActiveSnapshot s of Inr a \<Rightarrow> TransitVersion a | Inl _ \<Rightarrow> 0)"

lemma active_version_eq: "ActiveSnapshot s = Inr a \<Longrightarrow> active_version s = TransitVersion a"
  by (simp add: active_version_def)

lemma progress_active_version:
  "ValidateStateProgress s t = Inr () \<Longrightarrow> active_version s \<le> active_version t"
proof -
  assume p: "ValidateStateProgress s t = Inr ()"
  then obtain a b where "ActiveSnapshot s = Inr a" "ActiveSnapshot t = Inr b"
    by (auto simp: ValidateStateProgress_def)
  with p show ?thesis by (simp add: active_version_eq ValidateStateProgress_Inr)
qed

lemma rotates_active_version: "rotates ob n s t \<Longrightarrow> active_version s \<le> active_version t"
proof (induction rule: rotates.induct)
  case (step n s t pr now adv ready res)
  then show ?case using observe_step(2) [OF step.hyps(2)] progress_active_version [of t "or_State res"] by auto
qed simp


section \<open>Rebuilt states\<close>

lemma mapE_members:
  "mapE f xs = Inr ys \<Longrightarrow> x \<in> set xs \<Longrightarrow> \<exists>y\<in>set ys. f x = Inr y"
  "mapE f xs = Inr ys \<Longrightarrow> y \<in> set ys \<Longrightarrow> \<exists>x\<in>set xs. f x = Inr y"
  by (induction xs arbitrary: ys) auto

lemma rebuild_record_Inr:
  assumes "rebuild_record ob vs l now v = Inr (n, r)"
  shows "\<exists>t. vs v = Some t \<and> scope_snapshot (scope ob) v t (if v = l then StateActive else StateRetired) = Inr n"
    and "rec_snap r = n" and "rec_id r = KubernetesKeyID n" and "r_TransitVersion r = v"
    and "r_State r = (if v = l then StateActive else StateRetired)"
proof -
  from assms obtain t where t: "vs v = Some t"
    and n: "scope_snapshot (scope ob) v t (if v = l then StateActive else StateRetired) = Inr n"
    and r: "r = recordFromSnapshot n now zero_time 0 (if v = l then now else zero_time)"
    by (auto simp: rebuild_record_def Let_def split: option.splits)
  show "\<exists>t. vs v = Some t \<and> scope_snapshot (scope ob) v t (if v = l then StateActive else StateRetired) = Inr n"
    using t n by blast
  show "rec_snap r = n" "rec_id r = KubernetesKeyID n" "r_TransitVersion r = v"
    "r_State r = (if v = l then StateActive else StateRetired)"
    using scope_snapshot_Inr(1,3,4) [OF n] by (simp_all add: r)
qed

lemma RebuildState_Inr:
  assumes "RebuildState ob pr now = Inr st"
  shows "validateProfile pr = Inr ()" "validateProfileForState pr st = Inr ()"
    and "\<exists>aid rs. NewStateFileFromRecords aid rs 1 [] (sc_IdentityFingerprint (scope ob)) = Inr st"
    and "q \<in> set (Snapshots st) \<Longrightarrow> \<exists>v n r vs. validatedVersionCreationTimes pr = Inr vs \<and>
      rebuild_record ob vs (LatestVersion pr) now v = Inr (n, r) \<and> q = norm_rec r"
    and "max 1 (MinAvailableVersion pr) \<le> v \<Longrightarrow> v \<le> LatestVersion pr \<Longrightarrow> \<exists>n r vs.
      validatedVersionCreationTimes pr = Inr vs \<and> rebuild_record ob vs (LatestVersion pr) now v = Inr (n, r)
      \<and> norm_rec r \<in> set (Snapshots st)"
proof -
  let ?first = "if MinAvailableVersion pr = 0 then 1 else MinAvailableVersion pr"
  from assms obtain vs rebuilt where vp: "validateProfile pr = Inr ()"
    and vs: "validatedVersionCreationTimes pr = Inr vs"
    and rb: "mapE (rebuild_record ob vs (LatestVersion pr) now) [?first..LatestVersion pr] = Inr rebuilt"
    and new: "NewStateFileFromRecords (last_active_id (map fst rebuilt))
      (orderedRecords (last_active_id (map fst rebuilt)) (map snd rebuilt)) 1 []
      (sc_IdentityFingerprint (scope ob)) = Inr st"
    and vps: "validateProfileForState pr st = Inr ()"
    by (auto simp: RebuildState_def Let_def)
  show "validateProfile pr = Inr ()" "validateProfileForState pr st = Inr ()" by (rule vp, rule vps)
  show "\<exists>aid rs. NewStateFileFromRecords aid rs 1 [] (sc_IdentityFingerprint (scope ob)) = Inr st"
    using new by blast
  have sn: "set (Snapshots st) = norm_rec ` snd ` set rebuilt"
    using new by (simp add: NewStateFileFromRecords_Inr)
  show "\<exists>v n r vs. validatedVersionCreationTimes pr = Inr vs \<and>
      rebuild_record ob vs (LatestVersion pr) now v = Inr (n, r) \<and> q = norm_rec r" if "q \<in> set (Snapshots st)"
    using that vs mapE_members(2) [OF rb] unfolding sn by (auto simp: split_paired_all) metis
  show "\<exists>n r vs. validatedVersionCreationTimes pr = Inr vs \<and> rebuild_record ob vs (LatestVersion pr) now v = Inr (n, r)
      \<and> norm_rec r \<in> set (Snapshots st)" if "max 1 (MinAvailableVersion pr) \<le> v" "v \<le> LatestVersion pr"
  proof -
    have "v \<in> set [?first..LatestVersion pr]" using that by simp
    from mapE_members(1) [OF rb this] obtain n r where "(n, r) \<in> set rebuilt"
      "rebuild_record ob vs (LatestVersion pr) now v = Inr (n, r)" by auto
    then show ?thesis using vs unfolding sn by (metis imageI snd_conv)
  qed
qed

lemma rebuilt_record:
  assumes "RebuildState ob pr now = Inr st" and "q \<in> set (Snapshots st)"
  shows "rec_ok q \<Longrightarrow> validate_record_scope (scope ob) q = Inr ()"
    and "r_State q = StateActive \<Longrightarrow> r_TransitVersion q = LatestVersion pr"
proof -
  from RebuildState_Inr(4) [OF assms] obtain v n r vs where
    r: "rebuild_record ob vs (LatestVersion pr) now v = Inr (n, r)" and q: "q = norm_rec r" by blast
  note rr = rebuild_record_Inr [OF r]
  show "r_TransitVersion q = LatestVersion pr" if "r_State q = StateActive"
    using that rr(4,5) by (simp add: q split: if_splits)
  show "validate_record_scope (scope ob) q = Inr ()" if "rec_ok q"
  proof -
    have "record_Snapshot q = Inr (rec_snap q)" using that by simp
    moreover have "rec_snap q = n" using rr(2) by (simp add: q)
    moreover from rr(1) obtain t s where "scope_snapshot (scope ob) v t s = Inr n" by blast
    ultimately show ?thesis using scope_snapshot_Inr(6-13) [of "scope ob" v t s n] by (simp add: validate_record_scope_def)
  qed
qed


section \<open>When a next state exists\<close>

text \<open>The conditions under which a record survives into the next generation.\<close>

definition record_kept :: "SnapshotStateRecord list \<Rightarrow> SnapshotStateRecord \<Rightarrow> bool" where
  "record_kept rs q \<longleftrightarrow>
     (r_State q = StatePending \<longrightarrow> (\<exists>r\<in>set rs. rec_id r = rec_id q \<and> decryptable_state (r_State r)))
     \<and> (r_State q \<in> {StateActive, StateRetired} \<longrightarrow>
          (\<exists>r\<in>set rs. rec_id r = rec_id q \<and> r_State r \<in> {StateActive, StateRetired}))
     \<and> (r_State q = StateRemoved \<longrightarrow> q \<in> set rs)"

lemma validateRetained_kept:
  assumes can: "canonical_state st" "canonical_state n" and dist: "distinct (map rec_id (Snapshots n))"
    and kept: "\<forall>q\<in>set (Snapshots st). record_kept (Snapshots n) q"
  shows "validateRetainedSnapshots st n = Inr ()"
proof -
  have idx: "record_index (Snapshots n) (rec_id r) = Some r" if "r \<in> set (Snapshots n)" for r
  proof -
    have eq: "map r_KubernetesKeyID (Snapshots n) = map rec_id (Snapshots n)"
      using can(2) by (simp add: canonical_state_def)
    have "distinct (map r_KubernetesKeyID (Snapshots n))" unfolding eq by (rule dist)
    from record_index_distinct [OF this that] can(2) that show ?thesis by (simp add: canonical_state_def)
  qed
  have "validateRetainedRecord (record_index (Snapshots n)) q = Inr ()" if q: "q \<in> set (Snapshots st)" for q
  proof -
    have id: "r_KubernetesKeyID q = rec_id q" using can(1) q by (simp add: canonical_state_def)
    have k: "record_kept (Snapshots n) q" using kept q by blast
    have pend: "\<exists>r. record_index (Snapshots n) (rec_id q) = Some r \<and> decryptable_state (r_State r)"
      if "r_State q = StatePending" using k that idx unfolding record_kept_def by metis
    have dec: "\<exists>r. record_index (Snapshots n) (rec_id q) = Some r \<and> r_State r \<in> {StateActive, StateRetired}"
      if "r_State q \<in> {StateActive, StateRetired}" using k that idx unfolding record_kept_def by metis
    have rem: "record_index (Snapshots n) (rec_id q) = Some q" if "r_State q = StateRemoved"
      using k that idx unfolding record_kept_def by blast
    show ?thesis
      using pend dec rem by (auto simp: validateRetainedRecord_def id Let_def decryptable_state_def)
  qed
  then show ?thesis by (simp add: validateRetainedSnapshots_def)
qed

lemma norm_rec_id: "r_KubernetesKeyID r = rec_id r \<Longrightarrow> norm_rec r = r"
  unfolding norm_rec_def by (drule sym) simp

lemma NewStateFileFromRecords_exists:
  assumes g: "g \<noteq> 0" "ValidateIdentityFingerprint fp = Inr ()" "ph = [] \<or> validateStateHash ph = Inr ()"
    and ok: "\<forall>r\<in>set rs. rec_ok r \<and> r_KubernetesKeyID r = rec_id r" and dist: "distinct (map rec_id rs)"
    and act: "\<forall>r\<in>set rs. rec_id r = aid \<longleftrightarrow> r_State r = StateActive"
    and new: "a \<in> set rs" "rec_id a = aid"
  shows "\<exists>n. NewStateFileFromRecords aid (orderedRecords aid rs) g ph fp = Inr n
    \<and> Snapshots n = orderedRecords aid rs \<and> ActiveSnapshot n = Inr (rec_snap a)"
proof -
  let ?u = "\<lparr>SchemaVersion = stateFileVersion, IdentityFingerprint = fp, Generation = g,
    PreviousHash = ph, CurrentHash = [], ActiveKeyID = aid, Snapshots = orderedRecords aid rs\<rparr>"
  obtain n where n: "SchemaVersion n = stateFileVersion" "IdentityFingerprint n = fp"
    "Generation n = g" "PreviousHash n = ph" "ActiveKeyID n = aid"
    "Snapshots n = orderedRecords aid rs" "CurrentHash n = computeHash n"
  proof
    show "CurrentHash (?u\<lparr>CurrentHash := computeHash ?u\<rparr>) = computeHash (?u\<lparr>CurrentHash := computeHash ?u\<rparr>)"
      by (simp add: computeHash_def stateHashBody_def)
  qed simp_all
  have content: "content_ok n"
    using ok dist act new by (auto simp: content_ok_def n list_all_iff distinct_orderedRecords)
  have vn: "StateFile_Validate n = Inr ()"
    using g content n by (auto simp: StateFile_Validate_Inr)
  have "map norm_rec (orderedRecords aid rs) = orderedRecords aid rs"
    using ok norm_rec_id by (intro map_idI) simp
  then have nf: "NewStateFileFromRecords aid (orderedRecords aid rs) g ph fp = Inr n"
    using vn n ok by (simp add: NewStateFileFromRecords_Inr list_all_iff)
  have "ActiveSnapshot n = Inr (rec_snap a)" using content new n by (auto simp: ActiveSnapshot_Inr)
  with nf n(6) show ?thesis by blast
qed

lemma nextStateFromRecords_exists:
  assumes st: "StateFile_Validate st = Inr ()" "canonical_state st" "Generation st + 1 \<noteq> 0"
    and rs: "\<forall>r\<in>set rs. rec_ok r \<and> r_KubernetesKeyID r = rec_id r" "distinct (map rec_id rs)"
      "\<forall>r\<in>set rs. rec_id r = aid \<longleftrightarrow> r_State r = StateActive" "a \<in> set rs" "rec_id a = aid"
    and ver: "active_version st \<le> r_TransitVersion a"
    and kept: "\<forall>q\<in>set (Snapshots st). record_kept rs q"
  shows "\<exists>n. nextStateFromRecords st aid rs = Inr n"
proof -
  have "ValidateIdentityFingerprint (IdentityFingerprint st) = Inr ()"
    using st(1) by (simp add: StateFile_Validate_Inr)
  from NewStateFileFromRecords_exists [OF st(3) this _ rs] validateStateHash_valid [OF st(1)] obtain n where
    n: "NewStateFileFromRecords aid (orderedRecords aid rs) (Generation st + 1) (CurrentHash st)
      (IdentityFingerprint st) = Inr n" "Snapshots n = orderedRecords aid rs" "ActiveSnapshot n = Inr (rec_snap a)"
    by blast
  note can = NewStateFileFromRecords_canonical [OF n(1)]
  have "validateRetainedSnapshots st n = Inr ()"
    using kept rs(2) can st(2) by (intro validateRetained_kept) (simp_all add: n(2) distinct_orderedRecords record_kept_def)
  moreover have "Generation st < Generation n"
    using st(3) unat_succ_nonzero [of "Generation st"] n(1) by (simp add: word_less_nat_alt NewStateFileFromRecords_Inr)
  ultimately have "ValidateStateProgress st n = Inr ()"
    using st(1) can n ver by (auto simp: ValidateStateProgress_Inr active_version_eq NewStateFileFromRecords_Inr)
  with n(1) show ?thesis by (simp add: nextStateFromRecords_def)
qed

lemma validateDecryptableSnapshot_Inr:
  "validateDecryptableSnapshot pr s l = Inr u \<longleftrightarrow>
     MinAvailableVersion pr \<le> TransitVersion s \<and> MinDecryptionVersion pr \<le> TransitVersion s
     \<and> NormalizeTransitVersionCreatedAt (TransitVersionCreatedAt s) = versionCreatedAt pr (TransitVersion s)
     \<and> (\<exists>t. versionCreatedAt pr (TransitVersion s) = Inr t)"
  by (cases "NormalizeTransitVersionCreatedAt (TransitVersionCreatedAt s)"; cases "versionCreatedAt pr (TransitVersion s)")
     (auto simp: validateDecryptableSnapshot_def simp del: NormalizeCreatedAt_Inr)

lemma validate_decryptable_record_Inr:
  assumes "rec_ok r"
  shows "validate_decryptable_record pr r = Inr u \<longleftrightarrow>
    (decryptable_state (r_State r) \<longrightarrow> validateDecryptableSnapshot pr (rec_snap r) (r_State r) = Inr ())"
proof -
  have "record_Snapshot r = Inr (rec_snap r)" using assms by simp
  then show ?thesis
    using rec_ok_state [OF assms]
    by (auto simp: validate_decryptable_record_def decryptable_state_def SnapshotState_Valid_def
        simp del: record_Snapshot_Inr)
qed

section \<open>Promotions\<close>

text \<open>A retained record of a version has the identifier that the metadata of that version give.\<close>

lemma retained_version_key:
  assumes "content_ok st" and "validateStateScope ob st = Inr ()" and "validateDecryptableState pr st = Inr ()"
    and r: "r \<in> set (Snapshots st)" "decryptable_state (r_State r)"
    and c: "snapshotForProfile ob pr (r_TransitVersion r) s = Inr c"
  shows "rec_id r = KubernetesKeyID c"
proof -
  have ok: "rec_ok r" using assms(1) r(1) by (simp add: content_ok_def list_all_iff)
  have "validate_record_scope (scope ob) r = Inr ()"
    using assms(2) r(1) by (simp add: validateStateScope_def forE_eq_Inr)
  moreover have "record_Snapshot r = Inr (rec_snap r)" using ok by simp
  ultimately have sc: "ProviderName (rec_snap r) = sc_ProviderName (scope ob)" "ClusterID (rec_snap r) = sc_ClusterID (scope ob)"
    "OpenBaoInstanceID (rec_snap r) = sc_OpenBaoInstanceID (scope ob)" "OpenBaoNamespace (rec_snap r) = sc_OpenBaoNamespace (scope ob)"
    "TransitMountID (rec_snap r) = sc_TransitMountID (scope ob)" "TransitKeyLineageID (rec_snap r) = sc_TransitKeyLineageID (scope ob)"
    by (auto simp: validate_record_scope_def split: if_splits)
  have "validate_decryptable_record pr r = Inr ()"
    using assms(3) r(1) by (simp add: validateDecryptableState_def forE_eq_Inr)
  with ok r(2) obtain t where t: "versionCreatedAt pr (r_TransitVersion r) = Inr t"
    "NormalizeTransitVersionCreatedAt (TransitVersionCreatedAt (rec_snap r)) = Inr t"
    by (auto simp: validate_decryptable_record_Inr validateDecryptableSnapshot_Inr simp del: NormalizeCreatedAt_Inr)
  from c t(1) have n: "scope_snapshot (scope ob) (r_TransitVersion r) t s = Inr c" by (simp add: snapshotForProfile_def)
  have "same_identity (rec_snap r) c"
    using sc t(2) scope_snapshot_Inr [OF n] by (auto simp: same_identity_def)
  then show ?thesis using derived_key_id_cong [of "rec_snap r" c] scope_snapshot_Inr(5) [OF n] by simp
qed

lemma observe_promotion:
  assumes "observe ob st pr now adv ready = Inr res"
  shows "(ActiveKeyID (or_State res) \<noteq> ActiveKeyID st \<longrightarrow> or_Promoted res)
    \<and> (or_Promoted res \<longrightarrow> adv \<and> (ActivationDelay (policy ob) = 0 \<or> ready)
        \<and> active_version st < LatestVersion pr
        \<and> (\<exists>c. snapshotForProfile ob pr (LatestVersion pr) StatePending = Inr c
               \<and> ActiveKeyID (or_State res) = KubernetesKeyID c)
        \<and> RequireStableObservationCount (policy ob) \<le> pending_count st (ActiveKeyID (or_State res)) + 1
        \<and> validateProfileForState pr (or_State res) = Inr ())"
proof -
  have st: "content_ok st" using assms by (auto simp: observe_Inr intro: validated_content)
  from assms consider "or_State res = st" "\<not> or_Promoted res"
    | "observeNewerVersion ob st pr now adv ready = Inr res" "active_version st < LatestVersion pr"
    by (auto simp: observe_Inr active_version_eq split: if_splits)
  then show ?thesis
  proof cases
    case 2
    from 2(1) show ?thesis
    proof (cases rule: observeNewerVersion_cases)
      case (upsert c a adds records p)
      note cr = candidate_record_simps [OF upsert(1), of now]
      note up = upsertPendingRecord_Inr [OF st upsert(4) cr(1,3,4)]
      from upsert(5) show ?thesis
      proof (elim disjE conjE)
        assume "nextStateFromRecords st (ActiveKeyID st) records = Inr (or_State res)" "\<not> or_Promoted res"
        then show ?thesis using nextStateFromRecords_Inr(3) by blast
      next
        assume pr: "adv" "promotionAllowed ob p ready" "promotePendingRecord st records p now = Inr (or_State res)"
          "validateProfileForState pr (or_State res) = Inr ()" "or_Promoted res"
        have id: "ActiveKeyID (or_State res) = KubernetesKeyID c"
          using promote_next(1) [OF pr(3)] up(2) cr(1,2) by simp
        show ?thesis
          using pr 2(2) upsert(1) id up(2,5) cr(1,2) by (simp add: promotionAllowed_def)
      qed simp
    qed simp
  qed simp
qed

section \<open>An example run\<close>

definition ex_scope :: SnapshotScope where
  "ex_scope = \<lparr>sc_IdentityFingerprint = ''cfg1.'' @ digest64 [], sc_ProviderName = ''p'', sc_ClusterID = ''c'',
     sc_OpenBaoInstanceID = ''i'', sc_OpenBaoNamespace = [], sc_TransitMountID = ''m'',
     sc_TransitKeyLineageID = ''l'', sc_AADMode = AADModeRequired\<rparr>"

definition ex_observer :: "int \<Rightarrow> Observer" where
  "ex_observer n = \<lparr>scope = ex_scope, policy = \<lparr>ActivationDelay = 0, RequireStableObservationCount = n,
     RejectVersionRollback = True\<rparr>\<rparr>"

definition ex_profile :: "int \<Rightarrow> KeyProfile" where
  "ex_profile latest = \<lparr>kp_Name = ''l'', kp_Type = ''aes256-gcm96'', LatestVersion = latest, MinAvailableVersion = 0,
     MinEncryptionVersion = 0, MinDecryptionVersion = 1,
     VersionCreationTimes = map (\<lambda>v. \<lparr>kv_Version = v, kv_CreatedAt = time_Unix v\<rparr>) [1..latest],
     Derived = False, ConvergentEncryption = False, Exportable = False, AllowPlaintextBackup = False,
     DeletionAllowed = False, ImportedKey = False, SoftDeleted = False, SupportsEncryption = True,
     SupportsDecryption = True, SupportsDerivation = False, SupportsSigning = False\<rparr>"

definition ex_one_unsealed :: StateFile where
  "ex_one_unsealed = \<lparr>SchemaVersion = stateFileVersion, IdentityFingerprint = ''cfg1.'' @ digest64 [],
     Generation = 1, PreviousHash = [], CurrentHash = [], ActiveKeyID = ex_key 1,
     Snapshots = [ex_rec 1 StateActive]\<rparr>"

definition ex_one :: StateFile where
  "ex_one = ex_one_unsealed\<lparr>CurrentHash := computeHash ex_one_unsealed\<rparr>"

lemma ex_one_simps [simp]:
  "SchemaVersion ex_one = stateFileVersion" "IdentityFingerprint ex_one = ''cfg1.'' @ digest64 []"
  "Generation ex_one = 1" "PreviousHash ex_one = []"
  "ActiveKeyID ex_one = ex_key 1" "Snapshots ex_one = [ex_rec 1 StateActive]"
  "CurrentHash ex_one = computeHash ex_one"
  by (simp_all add: ex_one_def) (simp_all add: ex_one_unsealed_def)

lemma ex_one_valid [simp]: "StateFile_Validate ex_one = Inr ()" "canonical_state ex_one" "content_ok ex_one"
  using fingerprint_digest [of "[]"]
  by (auto simp: StateFile_Validate_Inr content_ok_def canonical_state_def)

lemma ex_one_active [simp]: "ActiveSnapshot ex_one = Inr (rec_snap (ex_rec 1 StateActive))" "active_version ex_one = 1"
proof -
  show a: "ActiveSnapshot ex_one = Inr (rec_snap (ex_rec 1 StateActive))"
    unfolding ActiveSnapshot_Inr by simp
  show "active_version ex_one = 1" by (simp add: active_version_eq [OF a])
qed

lemma ex_times [simp]:
  "validatedVersionCreationTimes (ex_profile 2) = Inr [1 \<mapsto> time_Unix 1, 2 \<mapsto> time_Unix 2]"
  "validatedVersionCreationTimes (ex_profile 1) = Inr [1 \<mapsto> time_Unix 1]"
  by (simp_all add: validatedVersionCreationTimes_def ex_profile_def upto.simps fun_upd_twist
      NormalizeTransitVersionCreatedAt_def)

lemma ex_validateProfile [simp]: "validateProfile (ex_profile 2) = Inr ()" "validateProfile (ex_profile 1) = Inr ()"
proof -
  have "safe_profile (ex_profile v) \<longleftrightarrow> 1 \<le> v" for v by (simp add: safe_profile_def ex_profile_def)
  then have "AssessKeyProfile (ex_profile 2) = []" "AssessKeyProfile (ex_profile 1) = []"
    by (simp_all add: AssessKeyProfile_empty)
  then show "validateProfile (ex_profile 2) = Inr ()" "validateProfile (ex_profile 1) = Inr ()"
    unfolding validateProfile_def AssessKeyProfile_blocking by (simp_all) (simp_all add: ex_profile_def)
qed

lemma rec_snap_ex_rec [simp]: "rec_snap (ex_rec v st) = normal_form (ex_version v st)"
  by (simp add: rec_snap_def ex_rec_def)

lemma ex_record_Snapshot [simp]:
  "0 < v \<Longrightarrow> SnapshotState_Valid st \<Longrightarrow> record_Snapshot (ex_rec v st) = Inr (normal_form (ex_version v st))"
  by simp

lemma ex_scope_snapshot [simp]:
  "0 < v \<Longrightarrow> SnapshotState_Valid st \<Longrightarrow>
     scope_snapshot ex_scope v (time_Unix v) st = Inr (normal_form (ex_version v st))"
  unfolding scope_snapshot_def Normalize_Inr
  by (simp add: ex_scope_def flip: ex_version_def)

lemma ex_one_scope [simp]: "validateStateScope (ex_observer n) ex_one = Inr ()"
  by (simp add: validateStateScope_def validate_record_scope_def ex_observer_def ex_record_Snapshot
      del: record_Snapshot_Inr)
     (simp add: ex_scope_def normal_form_def ex_version_def)

lemma ex_versionCreatedAt [simp]:
  "versionCreatedAt (ex_profile 2) 1 = Inr (time_Unix 1)" "versionCreatedAt (ex_profile 2) 2 = Inr (time_Unix 2)"
  "versionCreatedAt (ex_profile 1) 1 = Inr (time_Unix 1)"
  by (simp_all add: versionCreatedAt_def)

lemma ex_profile_simps [simp]:
  "LatestVersion (ex_profile v) = v" "MinAvailableVersion (ex_profile v) = 0"
  "MinDecryptionVersion (ex_profile v) = 1" "MinEncryptionVersion (ex_profile v) = 0"
  by (simp_all add: ex_profile_def)

lemma ex_createdAt [simp]: "TransitVersionCreatedAt (ex_version v st) = time_Unix v"
  by (simp add: ex_version_def)

lemma ex_decryptable [simp]:
  "validateDecryptableSnapshot (ex_profile 2) (normal_form (ex_version 1 st)) l = Inr ()"
  "validateDecryptableSnapshot (ex_profile 2) (normal_form (ex_version 2 st)) l = Inr ()"
  "validateDecryptableSnapshot (ex_profile 1) (normal_form (ex_version 1 st)) l = Inr ()"
  by (simp_all add: validateDecryptableSnapshot_Inr)

lemma ex_one_decryptable [simp]:
  "validateDecryptableState (ex_profile 2) ex_one = Inr ()" "validateDecryptableState (ex_profile 1) ex_one = Inr ()"
  by (simp_all add: validateDecryptableState_def validate_decryptable_record_Inr)

lemma ex_candidate [simp]:
  "snapshotForProfile (ex_observer n) (ex_profile 2) 2 StatePending = Inr (normal_form (ex_version 2 StatePending))"
  by (simp add: snapshotForProfile_def ex_observer_def)

text \<open>The pending record after the first advancing observation, and the records after promotion.\<close>

definition ex_pending :: "int \<Rightarrow> SnapshotStateRecord" where
  "ex_pending n = advance_pending (candidate_record (normal_form (ex_version 2 StatePending)) (time_Unix 100))
     n (time_Unix 100) True"

lemma ex_upsert:
  "upsertPendingRecord ex_one (candidate_record (normal_form (ex_version 2 StatePending)) (time_Unix 100))
     n (time_Unix 100) [] True = Inr (orderedRecords (ex_key 1) [ex_rec 1 StateActive, ex_pending n], ex_pending n)"
  by (simp add: upsertPendingRecord_def upsert_existing_Inr demote_def candidate_record_def ex_pending_def Let_def
      del: upsert_existing.simps)

lemma ex_ordered: "orderedRecords (ex_key 1) [ex_rec 1 StateActive, ex_pending n] = [ex_rec 1 StateActive, ex_pending n]"
  by (simp add: orderedRecords_def recordSortKey_def record_priority_def ex_pending_def candidate_record_def)

lemma ex_pending_simps [simp]:
  "rec_id (ex_pending n) = ex_key 2" "r_KubernetesKeyID (ex_pending n) = ex_key 2"
  "r_State (ex_pending n) = StatePending" "rec_snap (ex_pending n) = normal_form (ex_version 2 StatePending)"
  "r_TransitVersion (ex_pending n) = 2"
  by (simp_all add: ex_pending_def candidate_record_def) (simp add: advance_pending_def Let_def candidate_record_def)

lemma ex_pending_ok [simp]: "0 < n \<Longrightarrow> rec_ok (ex_pending n)"
  by (simp add: rec_ok_def ex_pending_def candidate_record_def normalizable_normal_form)
     (simp add: validateObservationMetadata_def advance_pending_def recordFromSnapshot_def
       SnapshotStateRecordFromSnapshot_def Let_def)


definition ex_promoted :: SnapshotStateRecord where
  "ex_promoted = recordFromSnapshot (normal_form (ex_version 2 StateActive))
     (recordTime (r_ObservedAtUnix (ex_pending 1))) (recordTime (r_StableAtUnix (ex_pending 1)))
     (r_StableObservationCount (ex_pending 1))
     (time_Unix (max 100 (max (r_ObservedAtUnix (ex_pending 1)) (r_StableAtUnix (ex_pending 1)))))"

lemma ex_pending_times:
  "r_ObservedAtUnix (ex_pending 1) = 100" "r_StableAtUnix (ex_pending 1) = 100" "r_StableObservationCount (ex_pending 1) = 1"
  by (simp_all add: ex_pending_def candidate_record_def advance_pending_def recordFromSnapshot_def
      SnapshotStateRecordFromSnapshot_def Let_def)

lemma ex_promoted_simps [simp]:
  "rec_id ex_promoted = ex_key 2" "r_KubernetesKeyID ex_promoted = ex_key 2" "r_State ex_promoted = StateActive"
  "r_TransitVersion ex_promoted = 2" "rec_snap ex_promoted = normal_form (ex_version 2 StateActive)"
  by (simp_all add: ex_promoted_def)

lemma ex_promoted_ok [simp]: "rec_ok ex_promoted"
  by (simp add: rec_ok_def ex_promoted_def normalizable_normal_form)
     (simp add: validateObservationMetadata_def ex_pending_times recordTime_def recordFromSnapshot_def
       SnapshotStateRecordFromSnapshot_def Let_def)

lemma ex_restate [simp]: "(normal_form (ex_version v s))\<lparr>State := s'\<rparr> = normal_form (ex_version v s')"
  by (simp add: normal_form_def) (simp add: ex_version_def)

lemma ex_promote_loop:
  "promote_loop ex_one (ex_key 2) [ex_rec 1 StateActive, ex_pending 1] [] False = Inr ([ex_rec 1 StateRetired], True)"
proof -
  have "record_Snapshot (ex_pending 1) = Inr (normal_form (ex_version 2 StatePending))" by simp
  moreover have "Normalize (normal_form (ex_version 1 StateRetired)) = Inr (normal_form (ex_version 1 StateRetired))"
    by (simp add: Normalize_normal_form)
  moreover have "recordFromSnapshot (normal_form (ex_version 1 StateRetired))
      (recordTime (r_ObservedAtUnix (ex_rec 1 StateActive))) zero_time 0
      (recordTime (r_PromotedAtUnix (ex_rec 1 StateActive))) = ex_rec 1 StateRetired"
    by (simp add: recordFromSnapshot_def ex_rec_def recordTime_def SnapshotStateRecordFromSnapshot_def Let_def
        IsZero_def)
  ultimately show ?thesis by (simp add: ex_record_Snapshot del: record_Snapshot_Inr)
qed

lemma ex_promote:
  "\<exists>n. promotePendingRecord ex_one [ex_rec 1 StateActive, ex_pending 1] (ex_pending 1) (time_Unix 100) = Inr n
     \<and> validateProfileForState (ex_profile 2) n = Inr () \<and> ActiveKeyID n = ex_key 2"
proof -
  let ?rs = "orderedRecords (ex_key 2) [ex_rec 1 StateRetired, ex_promoted]"
  have rs: "?rs = [ex_promoted, ex_rec 1 StateRetired]"
    by (simp add: orderedRecords_def recordSortKey_def record_priority_def)
  have "\<exists>n. nextStateFromRecords ex_one (ex_key 2) ?rs = Inr n"
    unfolding rs by (rule nextStateFromRecords_exists [of _ _ _ ex_promoted]) (auto simp: record_kept_def)
  then obtain n where n: "nextStateFromRecords ex_one (ex_key 2) ?rs = Inr n" by blast
  note ni = nextStateFromRecords_Inr [OF n]
  have sn: "set (Snapshots n) = {ex_promoted, ex_rec 1 StateRetired}"
    using ni(5) norm_rec_id [of ex_promoted] by (simp add: rs)
  have pend: "record_Snapshot (ex_pending 1) = Inr (normal_form (ex_version 2 StatePending))" by simp
  have norm: "Normalize (normal_form (ex_version 2 StateActive)) = Inr (normal_form (ex_version 2 StateActive))"
    by (simp add: Normalize_normal_form)
  have "promotePendingRecord ex_one [ex_rec 1 StateActive, ex_pending 1] (ex_pending 1) (time_Unix 100) = Inr n"
    using n unfolding promotePendingRecord_def pend
    by (simp add: ex_promote_loop norm Let_def flip: ex_promoted_def del: promote_loop.simps)
  moreover have "ActiveSnapshot n = Inr (normal_form (ex_version 2 StateActive))"
    unfolding ActiveSnapshot_Inr using ni(3,6) sn by auto
  moreover have "validateDecryptableState (ex_profile 2) n = Inr ()"
    by (simp add: validateDecryptableState_def sn validate_decryptable_record_Inr)
  ultimately show ?thesis using ni(3) by (auto simp: validateProfileForState_def)
qed

lemma ex_Observe:
  "\<exists>res. Observe (ex_observer 1) ex_one (ex_profile 2) (time_Unix 100) ready = Inr res \<and> or_Promoted res
     \<and> ActiveKeyID (or_State res) = ex_key 2"
proof -
  from ex_promote obtain n where
    n: "promotePendingRecord ex_one [ex_rec 1 StateActive, ex_pending 1] (ex_pending 1) (time_Unix 100) = Inr n"
    "validateProfileForState (ex_profile 2) n = Inr ()" "ActiveKeyID n = ex_key 2" by blast
  have allowed: "promotionAllowed (ex_observer 1) (ex_pending 1) ready"
    by (simp add: promotionAllowed_def ex_observer_def ex_pending_times)
  have th: "RequireStableObservationCount (policy (ex_observer 1)) = 1" by (simp add: ex_observer_def)
  have inter: "intermediateHistoricalRecords (ex_observer 1) ex_one (ex_profile 2) 1 (time_Unix 100) = Inr []"
    by (simp add: intermediateHistoricalRecords_def)
  have "observeNewerVersion (ex_observer 1) ex_one (ex_profile 2) (time_Unix 100) True ready
      = Inr \<lparr>or_State = n, or_Changed = True, or_Promoted = True, or_Pending = False,
             or_EncryptionBlocked = False, or_ClockRegressed = False\<rparr>"
    using n(1,2) inter
    by (simp add: observeNewerVersion_def th ex_upsert ex_ordered allowed ex_pending_times Let_def
        flip: candidate_record_def del: bindE_eq_Inr)
  then show ?thesis using n(3) unfolding Observe_def observe_Inr by simp
qed


definition ex_rebuilt :: SnapshotStateRecord where
  "ex_rebuilt = recordFromSnapshot (normal_form (ex_version 1 StateActive)) (time_Unix 50) zero_time 0 (time_Unix 50)"

lemma ex_rebuilt_simps [simp]:
  "rec_id ex_rebuilt = ex_key 1" "r_KubernetesKeyID ex_rebuilt = ex_key 1" "r_State ex_rebuilt = StateActive"
  "rec_snap ex_rebuilt = normal_form (ex_version 1 StateActive)"
  by (simp_all add: ex_rebuilt_def)

lemma ex_rebuilt_ok [simp]: "rec_ok ex_rebuilt"
  by (simp add: rec_ok_def ex_rebuilt_def normalizable_normal_form)
     (simp add: validateObservationMetadata_def recordFromSnapshot_def SnapshotStateRecordFromSnapshot_def Let_def)

lemma ex_RebuildState: "\<exists>st. RebuildState (ex_observer 1) (ex_profile 1) (time_Unix 50) = Inr st"
proof -
  have "\<exists>n. NewStateFileFromRecords (ex_key 1) (orderedRecords (ex_key 1) [ex_rebuilt]) 1 [] (''cfg1.'' @ digest64 []) = Inr n
    \<and> Snapshots n = orderedRecords (ex_key 1) [ex_rebuilt] \<and> ActiveSnapshot n = Inr (rec_snap ex_rebuilt)"
    using fingerprint_digest [of "[]"] by (intro NewStateFileFromRecords_exists) simp_all
  then obtain n where n: "NewStateFileFromRecords (ex_key 1) (orderedRecords (ex_key 1) [ex_rebuilt]) 1 []
      (sc_IdentityFingerprint (scope (ex_observer 1))) = Inr n"
    "set (Snapshots n) = {ex_rebuilt}" "ActiveSnapshot n = Inr (rec_snap ex_rebuilt)"
    by (auto simp: ex_observer_def ex_scope_def)
  have "validateProfileForState (ex_profile 1) n = Inr ()"
    using n(2,3) by (simp add: validateProfileForState_def validateDecryptableState_def validate_decryptable_record_Inr)
  moreover have "rebuild_record (ex_observer 1) [1 \<mapsto> time_Unix 1] 1 (time_Unix 50) 1
      = Inr (normal_form (ex_version 1 StateActive), ex_rebuilt)"
    by (simp add: rebuild_record_def ex_observer_def ex_rebuilt_def)
  ultimately have "RebuildState (ex_observer 1) (ex_profile 1) (time_Unix 50) = Inr n"
    using n(1) by (simp add: RebuildState_def last_active_id_def del: bindE_eq_Inr)
  then show ?thesis by blast
qed

section \<open>Main results\<close>

text \<open>
  C7 Rotation never loses a decryption key and never moves back: after any sequence of observations
  (advancing or not, with any key metadata that is accepted, at any times), every \<open>key_id\<close> that the
  initial registry resolved is still resolved, the Transit version of the active key and the
  generation have not decreased, and the configuration identity is unchanged.
\<close>

theorem rotation_keeps_keys:
  assumes "rotates ob n s t" and "canonical_state s" and "StateFile_Registry s = Inr reg"
    and "Registry_Lookup reg k = Inr x" and "StateFile_Validate s = Inr ()"
  shows "(\<exists>reg' y. StateFile_Registry t = Inr reg' \<and> Registry_Lookup reg' k = Inr y)
    \<and> active_version s \<le> active_version t \<and> Generation s \<le> Generation t
    \<and> IdentityFingerprint t = IdentityFingerprint s"
proof -
  have "resolves s k" using assms(3,4) by (auto simp: resolves_def)
  with rotates_history [OF assms(1,2,5)] rotates_active_version [OF assms(1)] history_keeps
  show ?thesis by (auto simp: resolves_def)
qed

theorem rotation_keeps_keys_witness:
  "\<exists>t reg' y. rotates (ex_observer 1) 1 ex_one t \<and> ActiveKeyID t = ex_key 2
     \<and> StateFile_Registry t = Inr reg' \<and> Registry_Lookup reg' (ex_key 1) = Inr y"
proof -
  obtain res where res: "observe (ex_observer 1) ex_one (ex_profile 2) (time_Unix 100) True False = Inr res"
    "ActiveKeyID (or_State res) = ex_key 2" using ex_Observe unfolding Observe_def by blast
  from rotates.step [OF rotates.init res(1)] have run: "rotates (ex_observer 1) 1 ex_one (or_State res)" by simp
  have "resolves ex_one (ex_key 1)" by (simp add: resolves_iff) (simp add: decryptable_state_def)
  then obtain reg x where "StateFile_Registry ex_one = Inr reg" "Registry_Lookup reg (ex_key 1) = Inr x"
    by (auto simp: resolves_def)
  from rotation_keeps_keys [OF run ex_one_valid(2) this ex_one_valid(1)] run res(2) show ?thesis by blast
qed

text \<open>
  C8 The active key changes only by a promotion, and a promotion only happens on an advancing
  observation of a newer Transit version, for the identifier derived from the latest version of
  the metadata, when its pending record has reached the required number of stable observations, the
  activation delay is zero or has passed, and the metadata allow the new key to encrypt and every
  decryptable key to decrypt. A discovery never promotes.
\<close>

theorem promotion_gate:
  assumes "observe ob st pr now adv ready = Inr res"
  shows "(ActiveKeyID (or_State res) \<noteq> ActiveKeyID st \<longrightarrow> or_Promoted res)
    \<and> (or_Promoted res \<longrightarrow> adv \<and> (ActivationDelay (policy ob) = 0 \<or> ready)
        \<and> active_version st < LatestVersion pr
        \<and> (\<exists>c. snapshotForProfile ob pr (LatestVersion pr) StatePending = Inr c
               \<and> ActiveKeyID (or_State res) = KubernetesKeyID c)
        \<and> RequireStableObservationCount (policy ob) \<le> pending_count st (ActiveKeyID (or_State res)) + 1
        \<and> validateProfileForState pr (or_State res) = Inr ())"
  using assms by (rule observe_promotion)

theorem promotion_gate_witness:
  "\<exists>res. observe (ex_observer 1) ex_one (ex_profile 2) (time_Unix 100) True False = Inr res \<and> or_Promoted res
     \<and> validateProfileForState (ex_profile 2) (or_State res) = Inr ()"
proof -
  obtain res where res: "observe (ex_observer 1) ex_one (ex_profile 2) (time_Unix 100) True False = Inr res"
    "or_Promoted res" using ex_Observe unfolding Observe_def by blast
  with promotion_gate [OF res(1)] show ?thesis by blast
qed

text \<open>
  C13 A key cannot be promoted before it was observed often enough: if a state has no pending record
  of \<open>k\<close>, and after any run with \<open>n\<close> advancing observations the next observation promotes \<open>k\<close>, then
  \<open>n + 1\<close> is at least the configured number of stable observations, however the observations are
  interleaved with discoveries and whatever the clock shows.
\<close>

theorem promotion_needs_observations:
  assumes "rotates ob n s t" and "canonical_state s" and "StateFile_Validate s = Inr ()"
    and "\<forall>r\<in>set (Snapshots s). rec_id r = k \<longrightarrow> r_State r \<noteq> StatePending"
    and "Observe ob t pr now ready = Inr res" and "or_Promoted res" and "ActiveKeyID (or_State res) = k"
  shows "RequireStableObservationCount (policy ob) \<le> int n + 1"
proof -
  have zero: "pending_count s k = 0" using assms(4) by (intro pending_count_none) auto
  have obs: "observe ob t pr now True ready = Inr res" using assms(5) by (simp add: Observe_def)
  have t: "content_ok t" using obs by (auto simp: observe_Inr intro: validated_content)
  from obs assms(6) have "observeNewerVersion ob t pr now True ready = Inr res"
    by (auto simp: observe_Inr split: if_splits)
  then show ?thesis
  proof (cases rule: observeNewerVersion_cases)
    case (upsert c a adds records p)
    note cr = candidate_record_simps [OF upsert(1), of now]
    note up = upsertPendingRecord_Inr [OF t upsert(4) cr(1,3,4)]
    from upsert(5) assms(6) have pr: "promotionAllowed ob p ready" "promotePendingRecord t records p now = Inr (or_State res)"
      by auto
    have "rec_id p = k" using promote_next(1) [OF pr(2)] assms(7) by simp
    with up(2,5) pr(1) rotates_pending_count [OF assms(1-3), of k] zero show ?thesis
      by (simp add: promotionAllowed_def)
  qed (use assms(6) in simp)
qed

theorem promotion_needs_observations_witness:
  "\<exists>res. Observe (ex_observer 1) ex_one (ex_profile 2) (time_Unix 100) False = Inr res \<and> or_Promoted res
     \<and> RequireStableObservationCount (policy (ex_observer 1)) \<le> int 0 + 1"
proof -
  obtain res where res: "Observe (ex_observer 1) ex_one (ex_profile 2) (time_Unix 100) False = Inr res"
    "or_Promoted res" "ActiveKeyID (or_State res) = ex_key 2" using ex_Observe by blast
  have "RequireStableObservationCount (policy (ex_observer 1)) \<le> int 0 + 1"
    by (rule promotion_needs_observations [OF rotates.init ex_one_valid(2,1) _ res]) simp
  with res show ?thesis by blast
qed

text \<open>
  A newer key version is kept for decryption at once: after any accepted observation of metadata
  whose latest version is above the active one, including a discovery, the registry of the
  resulting state resolves the identifier of that latest version, before it is ever used to encrypt.
\<close>

lemma newer_version_decryptable:
  assumes "observe ob st pr now adv ready = Inr res" and "active_version st < LatestVersion pr"
  shows "\<exists>c. snapshotForProfile ob pr (LatestVersion pr) StatePending = Inr c
    \<and> resolves (or_State res) (KubernetesKeyID c)"
proof -
  have st: "content_ok st" using assms(1) by (auto simp: observe_Inr intro: validated_content)
  from assms have "observeNewerVersion ob st pr now adv ready = Inr res"
    by (auto simp: observe_Inr active_version_eq split: if_splits)
  then show ?thesis
  proof (cases rule: observeNewerVersion_cases)
    case (known c r)
    have "rec_id r = KubernetesKeyID c"
      using known rec_ok_id [OF content_ok_rec [OF st known(3)]] snapshotForProfile_Inr(5) [OF known(1)] by auto
    with known st show ?thesis by (auto simp: resolves_iff decryptable_state_def)
  next
    case (upsert c a adds records p)
    note cr = candidate_record_simps [OF upsert(1), of now]
    note up = upsertPendingRecord_Inr [OF st upsert(4) cr(1,3,4)]
    have p: "p \<in> set records" "rec_id p = KubernetesKeyID c" "r_State p = StatePending" using up cr by simp_all
    from upsert(5) have "resolves (or_State res) (KubernetesKeyID c)"
    proof (elim disjE conjE)
      assume "or_State res = st" "Snapshots st = records"
      with p st show ?thesis by (auto simp: resolves_iff decryptable_state_def)
    next
      assume "nextStateFromRecords st (ActiveKeyID st) records = Inr (or_State res)"
      with p show ?thesis by (auto simp: next_resolves decryptable_state_def)
    next
      assume "promotePendingRecord st records p now = Inr (or_State res)"
      from promotePendingRecord_Inr [OF this] obtain q ps where
        "nextStateFromRecords st (rec_id p) (orderedRecords (rec_id p) (ps @ [q])) = Inr (or_State res)"
        "rec_id q = rec_id p" "r_State q = StateActive" by blast
      with p(2) show ?thesis by (auto simp: next_resolves decryptable_state_def)
    qed
    with upsert(1) show ?thesis by blast
  qed
qed

text \<open>
  C16 A state rebuilt from Transit metadata is complete and accepted: it is the first generation,
  its active key is the latest Transit version, every available version resolves for
  decryption, and every further observation of the same metadata, at any time, leaves it unchanged
  with encryption allowed.
\<close>

theorem RebuildState_accepted:
  assumes "RebuildState ob pr now = Inr st"
  shows "StateFile_Validate st = Inr () \<and> Generation st = 1 \<and> active_version st = LatestVersion pr
    \<and> (\<forall>v. max 1 (MinAvailableVersion pr) \<le> v \<and> v \<le> LatestVersion pr \<longrightarrow>
         (\<exists>n. snapshotForProfile ob pr v (if v = LatestVersion pr then StateActive else StateRetired) = Inr n
              \<and> resolves st (KubernetesKeyID n)))
    \<and> observe ob st pr later adv ready = Inr \<lparr>or_State = st, or_Changed = False, or_Promoted = False,
        or_Pending = False, or_EncryptionBlocked = False, or_ClockRegressed = False\<rparr>"
proof -
  note rb = RebuildState_Inr [OF assms]
  from rb(3) have valid: "StateFile_Validate st = Inr ()" "Generation st = 1"
    "IdentityFingerprint st = sc_IdentityFingerprint (scope ob)"
    by (auto simp: NewStateFileFromRecords_Inr)
  have ok: "content_ok st" by (rule validated_content [OF valid(1)])
  from rb(2) obtain a where a: "ActiveSnapshot st = Inr a" "MinEncryptionVersion pr \<le> TransitVersion a"
    and dec: "validateDecryptableState pr st = Inr ()"
    by (auto simp: validateProfileForState_def)
  from a(1) obtain q where q: "q \<in> set (Snapshots st)" "rec_id q = ActiveKeyID st" "a = rec_snap q"
    by (auto simp: ActiveSnapshot_Inr)
  have "r_State q = StateActive" using ok q by (simp add: content_ok_def)
  then have act: "TransitVersion a = LatestVersion pr"
    using rebuilt_record(2) [OF assms q(1)] by (simp add: q(3))
  have "validate_record_scope (scope ob) r = Inr ()" if r: "r \<in> set (Snapshots st)" for r
    using rebuilt_record(1) [OF assms r] content_ok_rec [OF ok r] by blast
  then have scope: "validateStateScope ob st = Inr ()" by (simp add: validateStateScope_def valid(3))
  have "\<exists>n. snapshotForProfile ob pr v (if v = LatestVersion pr then StateActive else StateRetired) = Inr n
      \<and> resolves st (KubernetesKeyID n)" if v: "max 1 (MinAvailableVersion pr) \<le> v" "v \<le> LatestVersion pr" for v
  proof -
    from rb(5) [OF v] obtain n r vs where r: "validatedVersionCreationTimes pr = Inr vs"
      "rebuild_record ob vs (LatestVersion pr) now v = Inr (n, r)" "norm_rec r \<in> set (Snapshots st)" by blast
    have "snapshotForProfile ob pr v (if v = LatestVersion pr then StateActive else StateRetired) = Inr n"
      using rebuild_record_Inr(1) [OF r(2)] r(1) by (auto simp: snapshotForProfile_def versionCreatedAt_def)
    moreover have "resolves st (KubernetesKeyID n)"
      using rebuild_record_Inr(3,5) [OF r(2)] ok
      by (auto simp: resolves_iff decryptable_state_def split: if_splits intro!: bexI [OF _ r(3)])
    ultimately show ?thesis by blast
  qed
  moreover have "observe ob st pr later adv ready = Inr \<lparr>or_State = st, or_Changed = False, or_Promoted = False,
        or_Pending = False, or_EncryptionBlocked = False, or_ClockRegressed = False\<rparr>"
    using valid(1) rb(1) scope dec a act by (simp add: observe_Inr)
  ultimately show ?thesis using valid a(1) act by (simp add: active_version_eq)
qed

theorem RebuildState_accepted_witness:
  "\<exists>st. RebuildState (ex_observer 1) (ex_profile 1) (time_Unix 50) = Inr st \<and> active_version st = 1
     \<and> observe (ex_observer 1) st (ex_profile 1) (time_Unix 60) True False = Inr \<lparr>or_State = st, or_Changed = False,
         or_Promoted = False, or_Pending = False, or_EncryptionBlocked = False, or_ClockRegressed = False\<rparr>"
proof -
  obtain st where st: "RebuildState (ex_observer 1) (ex_profile 1) (time_Unix 50) = Inr st"
    using ex_RebuildState by blast
  with RebuildState_accepted [OF st, of "time_Unix 60" True False] show ?thesis by auto
qed


end
