(* ===== verification/Circuit_Breaker.thy ===== *)
theory Circuit_Breaker
  imports Clock
begin

text \<open>
  The circuit breaker that backs off after repeated dependency failures
  (\<^verbatim>\<open>internal/status/circuit_breaker.go\<close>). The counter \<open>consecutiveFailures\<close> is a Go \<open>int\<close>;
  incrementing it wraps.
\<close>

section \<open>Data\<close>

definition CircuitBreakerClosed :: string where "CircuitBreakerClosed = ''closed''"
definition CircuitBreakerOpen :: string where "CircuitBreakerOpen = ''open''"

record CircuitBreakerOptions =
  FailureThreshold :: int
  OpenDuration :: int

record CircuitBreakerSnapshot =
  cs_State :: string
  cs_ConsecutiveFailures :: int
  cs_OpenedAt :: go_time
  cs_OpenUntil :: go_time
  cs_LastFailureAt :: go_time

record circuitBreaker =
  failureThreshold :: int
  openDuration :: int
  b_state :: string
  consecutiveFailures :: int
  openedAt :: go_time
  openUntil :: Deadline
  lastFailureAt :: go_time

section \<open>Operations\<close>

definition newCircuitBreaker :: "CircuitBreakerOptions \<Rightarrow> circuitBreaker" where
  "newCircuitBreaker opts =
    (let threshold = (if FailureThreshold opts \<le> 0 then 3 else FailureThreshold opts);
         duration = (if OpenDuration opts \<le> 0 then 30 * 10 ^ 9 else OpenDuration opts)
     in \<lparr>failureThreshold = threshold, openDuration = duration, b_state = CircuitBreakerClosed,
         consecutiveFailures = 0, openedAt = zero_time, openUntil = no_deadline, lastFailureAt = zero_time\<rparr>)"

definition allow :: "circuitBreaker \<Rightarrow> Reading \<Rightarrow> bool \<times> circuitBreaker" where
  "allow b now =
    (if b_state b \<noteq> CircuitBreakerOpen then (True, b)
     else if \<not> Pending (openUntil b) now then (True, b\<lparr>b_state := CircuitBreakerClosed\<rparr>)
     else (False, b))"

definition recordSuccess :: "circuitBreaker \<Rightarrow> circuitBreaker" where
  "recordSuccess b = b\<lparr>b_state := CircuitBreakerClosed, consecutiveFailures := 0, openedAt := zero_time,
     openUntil := no_deadline, lastFailureAt := zero_time\<rparr>"

definition recordFailure :: "circuitBreaker \<Rightarrow> Reading \<Rightarrow> circuitBreaker" where
  "recordFailure b now =
    (let b = b\<lparr>consecutiveFailures := i64 (consecutiveFailures b + 1), lastFailureAt := Wall now\<rparr>
     in if consecutiveFailures b \<ge> failureThreshold b
        then b\<lparr>b_state := CircuitBreakerOpen, openedAt := Wall now, openUntil := clock_After now (openDuration b)\<rparr>
        else b)"

definition breaker_snapshot :: "circuitBreaker \<Rightarrow> Reading \<Rightarrow> CircuitBreakerSnapshot" where
  "breaker_snapshot b now =
    \<lparr>cs_State = (if b_state b = [] then CircuitBreakerClosed else b_state b),
     cs_ConsecutiveFailures = consecutiveFailures b, cs_OpenedAt = openedAt b,
     cs_OpenUntil = WallTime (openUntil b) now, cs_LastFailureAt = lastFailureAt b\<rparr>"

definition aggregateCircuitBreakerState :: "string list \<Rightarrow> string" where
  "aggregateCircuitBreakerState states =
     (if list_ex (\<lambda>state. state = CircuitBreakerOpen) states then CircuitBreakerOpen else CircuitBreakerClosed)"

definition earliestTime :: "go_time \<Rightarrow> go_time \<Rightarrow> go_time" where
  "earliestTime first second =
    (if IsZero first then second else if IsZero second \<or> first < second then first else second)"

definition latestTime :: "go_time \<Rightarrow> go_time \<Rightarrow> go_time" where
  "latestTime first second = (if first > second then first else second)"

definition aggregateCircuitBreakerSnapshots ::
  "CircuitBreakerSnapshot \<Rightarrow> CircuitBreakerSnapshot \<Rightarrow> CircuitBreakerSnapshot" where
  "aggregateCircuitBreakerSnapshots metadata deep =
    \<lparr>cs_State = aggregateCircuitBreakerState [cs_State metadata, cs_State deep],
     cs_ConsecutiveFailures = max (cs_ConsecutiveFailures metadata) (cs_ConsecutiveFailures deep),
     cs_OpenedAt = earliestTime (cs_OpenedAt metadata) (cs_OpenedAt deep),
     cs_OpenUntil = latestTime (cs_OpenUntil metadata) (cs_OpenUntil deep),
     cs_LastFailureAt = latestTime (cs_LastFailureAt metadata) (cs_LastFailureAt deep)\<rparr>"

section \<open>The breaker as a state machine\<close>

text \<open>
  The events of a breaker: a probe asks for permission, succeeds or fails. \<open>breaker_run\<close> counts
  the failures since the last success.
\<close>

datatype breaker_event = Ask Reading | Success | Failure Reading

fun breaker_step :: "circuitBreaker \<Rightarrow> breaker_event \<Rightarrow> circuitBreaker" where
  "breaker_step b (Ask now) = snd (allow b now)"
| "breaker_step b Success = recordSuccess b"
| "breaker_step b (Failure now) = recordFailure b now"

fun failures_since :: "nat \<Rightarrow> breaker_event list \<Rightarrow> nat" where
  "failures_since n [] = n"
| "failures_since n (Ask now # es) = failures_since n es"
| "failures_since n (Success # es) = failures_since 0 es"
| "failures_since n (Failure now # es) = failures_since (Suc n) es"

text \<open>The last failure since the last success, if any.\<close>

fun last_failure :: "Reading option \<Rightarrow> breaker_event list \<Rightarrow> Reading option" where
  "last_failure l [] = l"
| "last_failure l (Ask now # es) = last_failure l es"
| "last_failure l (Success # es) = last_failure None es"
| "last_failure l (Failure now # es) = last_failure (Some now) es"

definition breaker_inv :: "circuitBreaker \<Rightarrow> nat \<Rightarrow> Reading option \<Rightarrow> bool" where
  "breaker_inv b n l \<longleftrightarrow>
     b_state b \<in> {CircuitBreakerClosed, CircuitBreakerOpen} \<and> 0 < failureThreshold b
     \<and> consecutiveFailures b = int n
     \<and> (n > 0 \<longleftrightarrow> l \<noteq> None)
     \<and> (b_state b = CircuitBreakerOpen \<longrightarrow> failureThreshold b \<le> int n)
     \<and> (\<forall>now. l = Some now \<and> failureThreshold b \<le> int n \<longrightarrow> openUntil b = clock_After now (openDuration b))
     \<and> (int n < failureThreshold b \<longrightarrow> b_state b = CircuitBreakerClosed)"

lemma breaker_states [simp]: "CircuitBreakerOpen \<noteq> CircuitBreakerClosed" "CircuitBreakerClosed \<noteq> CircuitBreakerOpen"
  by (simp_all add: CircuitBreakerOpen_def CircuitBreakerClosed_def)

lemma breaker_params [simp]:
  "failureThreshold (breaker_step b e) = failureThreshold b" "openDuration (breaker_step b e) = openDuration b"
  by (cases e; simp add: allow_def recordSuccess_def recordFailure_def Let_def)+

lemma new_breaker_inv: "breaker_inv (newCircuitBreaker opts) 0 None"
  by (simp add: breaker_inv_def newCircuitBreaker_def Let_def)

lemma breaker_step_inv:
  assumes "breaker_inv b n l" and "int n + 1 < 2 ^ 63"
  shows "breaker_inv (breaker_step b e) (failures_since n [e]) (last_failure l [e])"
proof (cases e)
  case (Ask now)
  then show ?thesis using assms(1) by (auto simp: breaker_inv_def allow_def)
next
  case Success
  then show ?thesis using assms(1) by (auto simp: breaker_inv_def recordSuccess_def)
next
  case (Failure now)
  have "i64 (int n + 1) = int n + 1" using assms(2) by (intro i64_id) (simp add: in_i64_def)
  with Failure assms(1) show ?thesis by (auto simp: breaker_inv_def recordFailure_def Let_def)
qed

lemma failures_since_append: "failures_since n (es @ fs) = failures_since (failures_since n es) fs"
  by (induction n es rule: failures_since.induct) simp_all

lemma last_failure_append: "last_failure l (es @ fs) = last_failure (last_failure l es) fs"
  by (induction l es rule: last_failure.induct) simp_all

lemma failures_since_le: "failures_since n es \<le> n + length es"
proof (induction es rule: rev_induct)
  case (snoc e es)
  then show ?case by (cases e) (auto simp: failures_since_append)
qed simp

definition breaker_run :: "circuitBreaker \<Rightarrow> breaker_event list \<Rightarrow> circuitBreaker" where
  "breaker_run b es = foldl breaker_step b es"

lemma breaker_run_inv:
  "int (length es) < 2 ^ 63 \<Longrightarrow>
     breaker_inv (breaker_run (newCircuitBreaker opts) es) (failures_since 0 es) (last_failure None es)"
proof (induction es rule: rev_induct)
  case Nil
  then show ?case by (simp add: breaker_run_def new_breaker_inv)
next
  case (snoc e es)
  have "int (failures_since 0 es) + 1 < 2 ^ 63" using failures_since_le [of 0 es] snoc.prems by simp
  with snoc breaker_step_inv show ?case
    by (simp add: breaker_run_def failures_since_append last_failure_append)
qed

lemma breaker_run_params [simp]:
  "failureThreshold (breaker_run b es) = failureThreshold b" "openDuration (breaker_run b es) = openDuration b"
  by (induction es rule: rev_induct) (simp_all add: breaker_run_def)

text \<open>A breaker that is closed although it has seen enough failures was closed by a probe after the open period.\<close>

lemma breaker_closed_reason:
  "int (length es) < 2 ^ 63 \<Longrightarrow> b_state (breaker_run (newCircuitBreaker opts) es) = CircuitBreakerClosed \<Longrightarrow>
   failureThreshold (newCircuitBreaker opts) \<le> int (failures_since 0 es) \<Longrightarrow>
     \<exists>r. Ask r \<in> set es \<and> \<not> Pending (openUntil (breaker_run (newCircuitBreaker opts) es)) r"
proof (induction es rule: rev_induct)
  case Nil
  then show ?case by (simp add: newCircuitBreaker_def Let_def split: if_splits)
next
  case (snoc e es)
  let ?b = "breaker_run (newCircuitBreaker opts) es"
  have inv: "breaker_inv ?b (failures_since 0 es) (last_failure None es)" using snoc.prems by (intro breaker_run_inv) simp
  have run: "breaker_run (newCircuitBreaker opts) (es @ [x]) = breaker_step ?b x" for x by (simp add: breaker_run_def)
  show ?case
  proof (cases e)
    case (Ask r)
    with snoc inv show ?thesis
      by (auto simp: run allow_def failures_since_append breaker_inv_def split: if_splits)
  next
    case Success
    with snoc.prems(3) new_breaker_inv [of opts] show ?thesis by (simp add: failures_since_append breaker_inv_def)
  next
    case (Failure r)
    have "i64 (int (failures_since 0 es) + 1) = int (failures_since 0 es) + 1"
      using snoc.prems(1) failures_since_le [of 0 es] by (intro i64_id) (simp add: in_i64_def)
    with Failure snoc.prems inv show ?thesis
      by (simp add: run failures_since_append recordFailure_def breaker_inv_def Let_def split: if_splits)
  qed
qed

section \<open>Main results\<close>

text \<open>
  The breaker blocks a probe exactly when the number of failures since the last success has
  reached the threshold and the open period that started at the last failure has not elapsed, after
  every sequence of fewer than \<open>2\<^sup>6\<^sup>3\<close> events in which the elapsed clock did not run ahead of the
  current reading; in particular a success lets the next probe through, and no blocking lasts longer
  than the open duration.
\<close>

lemma breaker_blocks:
  assumes "int (length es) < 2 ^ 63" and "\<forall>r. Ask r \<in> set es \<longrightarrow> Elapsed r \<le> Elapsed now"
  shows "\<not> fst (allow (breaker_run (newCircuitBreaker opts) es) now) \<longleftrightarrow>
    failureThreshold (newCircuitBreaker opts) \<le> int (failures_since 0 es)
      \<and> (\<exists>f. last_failure None es = Some f
           \<and> Pending (clock_After f (openDuration (newCircuitBreaker opts))) now)"
proof -
  let ?b = "breaker_run (newCircuitBreaker opts) es"
  have inv: "breaker_inv ?b (failures_since 0 es) (last_failure None es)"
    by (rule breaker_run_inv [OF assms(1)])
  have "\<not> Pending (openUntil ?b) now"
    if "b_state ?b = CircuitBreakerClosed" "failureThreshold (newCircuitBreaker opts) \<le> int (failures_since 0 es)"
    using breaker_closed_reason [OF assms(1) that] assms(2) by (fastforce simp: Pending_def)
  with inv show ?thesis
    by (cases "last_failure None es") (auto simp: breaker_inv_def allow_def split: if_splits)
qed

end
