(* ===== verification/Status_Store.thy ===== *)
theory Status_Store
  imports State_File Circuit_Breaker KMS_Server
begin

text \<open>
  The status store (\<^verbatim>\<open>internal/status/store.go\<close>, \<^verbatim>\<open>diagnostics.go\<close>, \<^verbatim>\<open>probe_diagnostics.go\<close>): the
  runtime bridge between the background probes, which publish into it, and the request handlers, which read the
  cached status and resolve key identifiers. Its mutex makes every operation atomic, so an operation is a
  function on the store; readings of the clock are arguments.
\<close>

section \<open>Probe failures\<close>

definition contextErr :: "go_context \<Rightarrow> unit res" where
  "contextErr ctx = (case ctx of
     NilContext \<Rightarrow> Inl (errw Status_ErrConfigInvalid ''context is required'')
   | LiveContext \<Rightarrow> Inr ()
   | DoneContext err \<Rightarrow> Inl err)"

type_synonym HealthReason = string

definition ReasonStateUnavailable :: HealthReason where "ReasonStateUnavailable = ''state_unavailable''"
definition ReasonStatusStale :: HealthReason where "ReasonStatusStale = ''status_stale''"
definition ReasonMetadataUnverified :: HealthReason where "ReasonMetadataUnverified = ''metadata_unverified''"
definition ReasonUpsertCheckFailed :: HealthReason where "ReasonUpsertCheckFailed = ''upsert_check_failed''"
definition ReasonUpsertAllowed :: HealthReason where "ReasonUpsertAllowed = ''upsert_allowed''"
definition ReasonMetadataReadFailed :: HealthReason where "ReasonMetadataReadFailed = ''metadata_read_failed''"
definition ReasonProfileInvalid :: HealthReason where "ReasonProfileInvalid = ''profile_invalid''"
definition ReasonVersionRollback :: HealthReason where "ReasonVersionRollback = ''version_rollback''"
definition ReasonStateSaveFailed :: HealthReason where "ReasonStateSaveFailed = ''state_save_failed''"
definition ReasonStatePublishFailed :: HealthReason where "ReasonStatePublishFailed = ''state_publish_failed''"
definition ReasonEncryptionBlocked :: HealthReason where "ReasonEncryptionBlocked = ''encryption_blocked''"
definition ReasonDeepProbePending :: HealthReason where "ReasonDeepProbePending = ''deep_probe_pending''"
definition ReasonDeepProbeFailed :: HealthReason where "ReasonDeepProbeFailed = ''deep_probe_failed''"
definition ReasonDeepProbeInvalid :: HealthReason where "ReasonDeepProbeInvalid = ''deep_probe_invalid''"
definition ReasonCircuitBreakerOpen :: HealthReason where "ReasonCircuitBreakerOpen = ''circuit_breaker_open''"
definition ReasonProbeFailed :: HealthReason where "ReasonProbeFailed = ''probe_failed''"

record probeFailure =
  f_reason :: HealthReason
  f_errorClass :: string

definition no_failure :: probeFailure where
  "no_failure = \<lparr>f_reason = [], f_errorClass = []\<rparr>"

definition probeStatus :: "go_error option \<Rightarrow> string" where
  "probeStatus error =
    (case error of None \<Rightarrow> ''ok''
     | Some err \<Rightarrow>
       if errors_is err Context_Canceled then ''canceled''
       else if errors_is err Context_DeadlineExceeded then ''timeout''
       else if errors_is err ErrCircuitBreakerOpen then ''circuit_breaker_open''
       else (case as_api_error err of
           Some (class, _) \<Rightarrow>
             if errors_is err ErrAuthentication
                \<and> class \<in> {ErrorClassUnauthenticated, ErrorClassPermissionDenied, ErrorClassInvalidRequest}
             then ''auth_failed'' else class_string class
         | None \<Rightarrow> if errors_is err ErrAuthentication then ''auth_failed'' else ''error''))"

definition failureForProbe :: "go_error option \<Rightarrow> probeFailure" where
  "failureForProbe error =
    (case error of None \<Rightarrow> no_failure
     | Some err \<Rightarrow>
       let reason = (case as_probe_error err of
             Some r \<Rightarrow> r
           | None \<Rightarrow> if errors_is err ErrStateUnavailable then ReasonStateUnavailable
                     else if errors_is err ErrTransitKeyUnusable then ReasonEncryptionBlocked
                     else if errors_is err ErrVersionRollback then ReasonVersionRollback
                     else ReasonProbeFailed);
           class = probeStatus error
       in \<lparr>f_reason = reason, f_errorClass = (if class = ''error'' then reason else class)\<rparr>)"

section \<open>The store\<close>

record Store =
  maxStaleness :: int
  healthz :: string
  updatedAt :: Reading
  freshness :: Lifetime
  metadataOK :: bool
  encryptionBlocked :: bool
  deepProbeOK :: bool
  deepProbed :: bool
  metadataFailure :: probeFailure
  deepFailure :: probeFailure
  persistenceDegraded :: bool
  st_state :: StateFile
  st_registry :: Registry
  st_active :: KeySnapshot
  hasState :: bool
  st_breaker :: CircuitBreakerSnapshot

record StoreOptions =
  so_MaxStaleness :: int
  so_InitialState :: StateFile
  so_HasInitialState :: bool

definition zero_reading :: Reading where "zero_reading = \<lparr>Wall = zero_time, Elapsed = 0\<rparr>"

definition zero_state :: StateFile where
  "zero_state = \<lparr>SchemaVersion = [], IdentityFingerprint = [], Generation = 0, PreviousHash = [], CurrentHash = [],
     ActiveKeyID = [], Snapshots = []\<rparr>"

definition zero_breaker :: CircuitBreakerSnapshot where
  "zero_breaker = \<lparr>cs_State = [], cs_ConsecutiveFailures = 0, cs_OpenedAt = zero_time, cs_OpenUntil = zero_time,
     cs_LastFailureAt = zero_time\<rparr>"

definition runtimeRegistry :: "StateFile \<Rightarrow> (KeySnapshot \<times> Registry) res" where
  "runtimeRegistry state =
    bindE (StateFile_Validate state) (\<lambda>_.
    bindE (ActiveSnapshot state) (\<lambda>active.
    bindE (StateFile_Registry state) (\<lambda>registry.
    Inr (active, registry))))"

definition updateHealthLocked :: "Store \<Rightarrow> Store" where
  "updateHealthLocked s = s\<lparr>healthz := (if metadataOK s \<and> deepProbeOK s then HealthOK else HealthUnhealthy)\<rparr>"

definition LoadState :: "Store \<Rightarrow> StateFile \<Rightarrow> Store res" where
  "LoadState s state =
    bindE (runtimeRegistry state) (\<lambda>(active, registry).
    let s = s\<lparr>st_state := state, st_registry := registry, st_active := active, hasState := True\<rparr>
    in Inr (if healthz s = [] then s\<lparr>healthz := HealthUnhealthy\<rparr> else s))"

definition NewStore :: "StoreOptions \<Rightarrow> Store res" where
  "NewStore opts =
    bindE (failIf (so_MaxStaleness opts \<le> 0) (errw Status_ErrConfigInvalid ''max staleness must be positive'')) (\<lambda>_.
    let store = \<lparr>maxStaleness = so_MaxStaleness opts, healthz = HealthUnhealthy, updatedAt = zero_reading,
                 freshness = unset_lifetime, metadataOK = False, encryptionBlocked = False, deepProbeOK = False,
                 deepProbed = False, metadataFailure = no_failure, deepFailure = no_failure,
                 persistenceDegraded = False, st_state = zero_state,
                 st_registry = \<lparr>activeKeyID = [], snapshots = Map.empty\<rparr>, st_active = zero_snapshot,
                 hasState = False, st_breaker = zero_breaker\<rparr>
    in if so_HasInitialState opts then LoadState store (so_InitialState opts) else Inr store)"

definition reading_or :: "Reading \<Rightarrow> Reading \<Rightarrow> Reading" where
  "reading_or given clock = (if IsZero (Wall given) then clock else given)"

text \<open>The tail the publishing operations share: the new reading starts a new lifetime.\<close>

definition set_fresh :: "Reading \<Rightarrow> Store \<Rightarrow> Store" where
  "set_fresh at s = s\<lparr>updatedAt := at, freshness := NewLifetime at (maxStaleness s)\<rparr>"

definition PublishHealthy :: "Store \<Rightarrow> StateFile \<Rightarrow> Reading \<Rightarrow> Reading \<Rightarrow> Store res" where
  "PublishHealthy s state at clock =
    bindE (runtimeRegistry state) (\<lambda>(active, registry).
    Inr (set_fresh (reading_or at clock) (updateHealthLocked
      (s\<lparr>st_state := state, st_registry := registry, st_active := active, hasState := True, metadataOK := True,
         metadataFailure := no_failure, persistenceDegraded := False, encryptionBlocked := False,
         deepProbeOK := True, deepProbed := True, deepFailure := no_failure\<rparr>))))"

definition publishMetadata :: "Store \<Rightarrow> StateFile \<Rightarrow> Reading \<Rightarrow> bool \<Rightarrow> Reading \<Rightarrow> Store res" where
  "publishMetadata s state at blocked clock =
    bindE (runtimeRegistry state) (\<lambda>(active, registry).
    let activeChanged = (\<not> hasState s \<or> KubernetesKeyID (st_active s) \<noteq> KubernetesKeyID active)
    in Inr (set_fresh (reading_or at clock) (updateHealthLocked
      (s\<lparr>st_state := state, st_registry := registry, st_active := active, hasState := True,
         metadataOK := \<not> blocked, encryptionBlocked := blocked, persistenceDegraded := False,
         metadataFailure := (if blocked then \<lparr>f_reason = ReasonEncryptionBlocked, f_errorClass = []\<rparr> else no_failure),
         deepFailure := (if activeChanged then no_failure else deepFailure s),
         deepProbeOK := (if activeChanged then False else deepProbeOK s),
         deepProbed := (if activeChanged then False else deepProbed s)\<rparr>))))"

definition publishMetadataUnhealthy :: "Store \<Rightarrow> Reading \<Rightarrow> probeFailure \<Rightarrow> Reading \<Rightarrow> Store" where
  "publishMetadataUnhealthy s at failure clock =
    set_fresh (reading_or at clock) (updateHealthLocked (s\<lparr>metadataOK := False, metadataFailure := failure\<rparr>))"

definition publishDeferredObservation :: "Store \<Rightarrow> string \<Rightarrow> Reading \<Rightarrow> bool \<times> Store" where
  "publishDeferredObservation s expectedHash at =
    (if \<not> hasState s \<or> CurrentHash (st_state s) \<noteq> expectedHash \<or> \<not> deepProbed s \<or> \<not> deepProbeOK s then (False, s)
     else (True, updateHealthLocked (set_fresh at
       (s\<lparr>metadataOK := True, metadataFailure := no_failure, encryptionBlocked := False, persistenceDegraded := True\<rparr>))))"

definition publishDeepHealthy :: "Store \<Rightarrow> Store" where
  "publishDeepHealthy s = updateHealthLocked (s\<lparr>deepProbeOK := True, deepProbed := True, deepFailure := no_failure\<rparr>)"

definition publishDeepUnhealthy :: "Store \<Rightarrow> probeFailure \<Rightarrow> Store" where
  "publishDeepUnhealthy s failure =
    updateHealthLocked (s\<lparr>deepProbeOK := False, deepProbed := True, deepFailure := failure\<rparr>)"

definition store_deepProbeRequired :: "Store \<Rightarrow> bool" where
  "store_deepProbeRequired s \<longleftrightarrow> hasState s \<and> metadataOK s \<and> (\<not> deepProbed s \<or> \<not> deepProbeOK s)"

definition activeForDeepProbe :: "Store \<Rightarrow> KeySnapshot res" where
  "activeForDeepProbe s =
    (if \<not> hasState s then Inl (Sentinel ErrStateUnavailable)
     else if encryptionBlocked s then Inl (Sentinel ErrTransitKeyUnusable)
     else Inr (st_active s))"

definition normalizedHealth :: "string \<Rightarrow> string" where
  "normalizedHealth h = (if h = [] then HealthUnhealthy else h)"

text \<open>\<open>staleLocked\<close> ages the lifetime it inspects.\<close>

definition staleLocked :: "Store \<Rightarrow> Reading \<Rightarrow> bool \<times> Store" where
  "staleLocked s now =
    (if IsZero (Wall (updatedAt s)) then (True, s)
     else let (remaining, l) = Remaining (freshness s) now in (remaining < 0, s\<lparr>freshness := l\<rparr>))"

definition Current :: "Store \<Rightarrow> go_context \<Rightarrow> Reading \<Rightarrow> CachedStatus res \<times> Store" where
  "Current s ctx now =
    (case contextErr ctx of
       Inl err \<Rightarrow> (Inl err, s)
     | Inr _ \<Rightarrow>
       if \<not> hasState s then (Inr (zero_status\<lparr>Healthz := HealthUnhealthy\<rparr>), s)
       else
       let h = normalizedHealth (healthz s);
           (h, s) = (if h = HealthOK then let (stale, s) = staleLocked s now in (if stale then HealthUnhealthy else h, s)
                     else (h, s));
           keyID = (if h \<noteq> HealthOK then [] else KubernetesKeyID (st_active s))
       in (Inr \<lparr>Healthz = h, KeyID = keyID, Active = st_active s\<rparr>, s))"

definition store_Lookup :: "Store \<Rightarrow> string \<Rightarrow> KeySnapshot res" where
  "store_Lookup s keyID =
    (if \<not> hasState s then bindE (ParseKeyID keyID) (\<lambda>_. Inl (Sentinel ErrUnknownKeyID))
     else Registry_Lookup (st_registry s) keyID)"

definition store_State :: "Store \<Rightarrow> StateFile \<times> bool" where
  "store_State s = (st_state s, hasState s)"

definition store_Active :: "Store \<Rightarrow> KeySnapshot \<times> bool" where
  "store_Active s = (st_active s, hasState s)"

definition UpdateCircuitBreaker :: "Store \<Rightarrow> CircuitBreakerSnapshot \<Rightarrow> Store" where
  "UpdateCircuitBreaker s snapshot = s\<lparr>st_breaker := snapshot\<rparr>"

section \<open>Diagnostics\<close>

record Diagnostics =
  Reasons :: "HealthReason list"
  MetadataErrorClass :: string
  DeepErrorClass :: string
  PersistenceDegraded :: bool
  dg_Healthz :: string
  UpdatedAt :: go_time
  CacheAge :: int
  Stale :: bool
  ActiveKeyIDHash :: string
  ActiveTransitVersion :: int
  StateGeneration :: u64
  StateHash :: string
  RotationState :: string
  PendingKeyIDHash :: string
  PendingTransitVersion :: int
  PendingStableObservationCount :: int
  PendingStableAt :: go_time
  dg_CircuitBreaker :: CircuitBreakerSnapshot

definition normalizedCircuitBreakerSnapshot :: "CircuitBreakerSnapshot \<Rightarrow> CircuitBreakerSnapshot" where
  "normalizedCircuitBreakerSnapshot b = (if cs_State b = [] then b\<lparr>cs_State := CircuitBreakerClosed\<rparr> else b)"

definition pendingRecord :: "StateFile \<Rightarrow> SnapshotStateRecord option" where
  "pendingRecord state = find (\<lambda>r. r_State r = StatePending) (Snapshots state)"

definition diagnosticsForState ::
  "StateFile \<Rightarrow> bool \<Rightarrow> KeySnapshot \<Rightarrow> string \<Rightarrow> go_time \<Rightarrow> int \<Rightarrow> bool \<Rightarrow> CircuitBreakerSnapshot \<Rightarrow> Diagnostics" where
  "diagnosticsForState state has active h at age stale brk =
    (let d = \<lparr>Reasons = [], MetadataErrorClass = [], DeepErrorClass = [], PersistenceDegraded = False,
              dg_Healthz = normalizedHealth h, UpdatedAt = at, CacheAge = (if IsZero at then 0 else age), Stale = False,
              ActiveKeyIDHash = [], ActiveTransitVersion = 0, StateGeneration = 0, StateHash = [],
              RotationState = ''unknown'', PendingKeyIDHash = [], PendingTransitVersion = 0,
              PendingStableObservationCount = 0, PendingStableAt = zero_time,
              dg_CircuitBreaker = normalizedCircuitBreakerSnapshot brk\<rparr>
     in if \<not> has then d\<lparr>dg_Healthz := HealthUnhealthy, Stale := True\<rparr>
        else
        let d = d\<lparr>StateGeneration := Generation state, StateHash := CurrentHash state,
                  ActiveKeyIDHash := HashValue (KubernetesKeyID active), ActiveTransitVersion := TransitVersion active,
                  RotationState := ''active'', Stale := stale\<rparr>;
            d = (if dg_Healthz d = HealthOK \<and> Stale d then d\<lparr>dg_Healthz := HealthUnhealthy\<rparr> else d)
        in case pendingRecord state of
             None \<Rightarrow> d
           | Some p \<Rightarrow>
             (let d = d\<lparr>RotationState := ''pending'', PendingKeyIDHash := HashValue (r_KubernetesKeyID p),
                        PendingTransitVersion := r_TransitVersion p,
                        PendingStableObservationCount := r_StableObservationCount p\<rparr>
              in if r_StableAtUnix p \<noteq> 0 then d\<lparr>PendingStableAt := time_Unix (r_StableAtUnix p)\<rparr> else d))"

definition readinessReasonsLocked :: "Store \<Rightarrow> bool \<Rightarrow> HealthReason list" where
  "readinessReasonsLocked s stale =
    (let reasons = (if \<not> hasState s then [ReasonStateUnavailable] else []);
         reasons = (if stale then reasons @ [ReasonStatusStale] else reasons);
         reasons = (if \<not> metadataOK s then
             (let reason = (if f_reason (metadataFailure s) = [] then ReasonMetadataUnverified else f_reason (metadataFailure s))
              in if reason \<in> set reasons then reasons else reasons @ [reason])
           else reasons)
     in if hasState s \<and> \<not> deepProbeOK s
        then reasons @ [if f_reason (deepFailure s) = [] then ReasonDeepProbePending else f_reason (deepFailure s)]
        else reasons)"

definition DiagnosticsSnapshot :: "Store \<Rightarrow> Reading \<Rightarrow> Diagnostics \<times> Store" where
  "DiagnosticsSnapshot s now =
    (let (stale, s) = staleLocked s now;
         (age, l) = Age (freshness s) now;
         s = s\<lparr>freshness := l\<rparr>;
         d = diagnosticsForState (st_state s) (hasState s) (st_active s) (healthz s) (Wall (updatedAt s)) age stale (st_breaker s)
     in (d\<lparr>Reasons := readinessReasonsLocked s (Stale d), MetadataErrorClass := f_errorClass (metadataFailure s),
           DeepErrorClass := f_errorClass (deepFailure s), PersistenceDegraded := persistenceDegraded s\<rparr>, s))"

definition store_Diagnostics :: "Store \<Rightarrow> go_context \<Rightarrow> Reading \<Rightarrow> Diagnostics res \<times> Store" where
  "store_Diagnostics s ctx now =
    (case contextErr ctx of
       Inl err \<Rightarrow> (Inl err, s)
     | Inr _ \<Rightarrow> (let (d, s) = DiagnosticsSnapshot s now in (Inr d, s)))"

end
