(* ===== verification/Status_Store_Safety.thy ===== *)
theory Status_Store_Safety
  imports Status_Store
begin

text \<open>
  What the status store promises: its invariant, kept by every operation, the \<open>Lookup\<close> contract, that a healthy
  status is true and fresh, that a new key is probed before it is used, and that diagnostics agree with status.
\<close>

section \<open>The published registry\<close>

lemma runtimeRegistry_Inr:
  assumes "runtimeRegistry st = Inr (a, reg)"
  shows "StateFile_Validate st = Inr ()" and "registry_wf reg" and "StateFile_Registry st = Inr reg"
    and "normalizable a" and "State a = StateActive" and "KubernetesKeyID a = derived_key_id a"
    and "KubernetesKeyID a = ActiveKeyID st" and "Normalize a = Inr a" and "Registry_Lookup reg (ActiveKeyID st) = Inr a"
proof -
  from assms have valid: "StateFile_Validate st = Inr ()" and act: "ActiveSnapshot st = Inr a"
    and reg: "StateFile_Registry st = Inr reg" by (auto simp: runtimeRegistry_def)
  from valid have ok: "content_ok st" by (rule validated_content)
  from act obtain r where r: "r \<in> set (Snapshots st)" "rec_id r = ActiveKeyID st" "a = rec_snap r"
    by (auto simp: ActiveSnapshot_Inr)
  from ok r have rok: "rec_ok r" "r_State r = StateActive" by (auto simp: content_ok_def list_all_iff)
  from StateFile_Registry_exact [OF ok] reg have ex: "registry_wf reg"
    "\<And>k x. Registry_Lookup reg k = Inr x \<longleftrightarrow>
         (\<exists>r\<in>set (Snapshots st). decryptable_state (r_State r) \<and> x = rec_snap r \<and> k = rec_id r)" by auto
  show "StateFile_Validate st = Inr ()" "registry_wf reg" "StateFile_Registry st = Inr reg"
    using valid ex(1) reg by simp_all
  show n: "normalizable a" using rok r(3) by (simp add: rec_ok_normalizable)
  show "State a = StateActive" using rok r(3) by simp
  show "KubernetesKeyID a = ActiveKeyID st" using r by simp
  show look: "Registry_Lookup reg (ActiveKeyID st) = Inr a"
    using r rok ex(2) by (auto simp: decryptable_state_def)
  show norm: "Normalize a = Inr a" by (rule registry.lookup_normal [OF ex(1) look])
  show "KubernetesKeyID a = derived_key_id a" using norm by (simp add: Normalize_fixpoint)
qed

section \<open>Invariant\<close>

definition store_inv :: "Store \<Rightarrow> bool" where
  "store_inv s \<longleftrightarrow>
     0 < maxStaleness s \<and> maxStaleness s \<le> max_duration
   \<and> (hasState s \<longrightarrow> runtimeRegistry (st_state s) = Inr (st_active s, st_registry s))
   \<and> healthz s = (if metadataOK s \<and> deepProbeOK s then HealthOK else HealthUnhealthy)
   \<and> (metadataOK s \<longrightarrow> hasState s \<and> \<not> encryptionBlocked s)
   \<and> (deepProbeOK s \<longrightarrow> deepProbed s)
   \<and> lifetime_wf (freshness s)
   \<and> (\<not> IsZero (Wall (updatedAt s)) \<longrightarrow>
        l_set (freshness s) \<and> l_start (freshness s) = updatedAt s \<and> l_limit (freshness s) = maxStaleness s)"

datatype store_op = OpLoad | OpPublishHealthy | OpMetadata | OpMetadataUnhealthy | OpDeferred | OpDeepHealthy
  | OpDeepUnhealthy | OpCurrent | OpDiagnostics | OpBreaker

inductive store_step :: "store_op \<Rightarrow> Store \<Rightarrow> Store \<Rightarrow> bool" where
  Load: "LoadState s st = Inr s' \<Longrightarrow> store_step OpLoad s s'"
| Healthy: "PublishHealthy s st at clk = Inr s' \<Longrightarrow> store_step OpPublishHealthy s s'"
| Metadata: "publishMetadata s st at blocked clk = Inr s' \<Longrightarrow> store_step OpMetadata s s'"
| MetadataUnhealthy: "store_step OpMetadataUnhealthy s (publishMetadataUnhealthy s at f clk)"
| Deferred: "store_step OpDeferred s (snd (publishDeferredObservation s h at))"
| DeepHealthy: "store_step OpDeepHealthy s (publishDeepHealthy s)"
| DeepUnhealthy: "store_step OpDeepUnhealthy s (publishDeepUnhealthy s f)"
| Read: "store_step OpCurrent s (snd (Current s ctx now))"
| Diagnose: "store_step OpDiagnostics s (snd (DiagnosticsSnapshot s now))"
| Breaker: "store_step OpBreaker s (UpdateCircuitBreaker s b)"

inductive store_run :: "store_op list \<Rightarrow> Store \<Rightarrow> Store \<Rightarrow> bool" where
  Nil: "store_run [] s s"
| Cons: "store_step op s s' \<Longrightarrow> store_run ops s' s'' \<Longrightarrow> store_run (op # ops) s s''"

inductive_cases store_runE: "store_run ops s s'"

lemma store_run_inv:
  assumes "store_run ops s s'" and "Q s"
    and "\<And>op s s'. store_step op s s' \<Longrightarrow> op \<in> set ops \<Longrightarrow> Q s \<Longrightarrow> Q s'"
  shows "Q s'"
  using assms by (induction rule: store_run.induct) (simp, metis list.set_intros)

text \<open>One preservation lemma per operation.\<close>

lemma set_fresh_fields [simp]:
  "maxStaleness (set_fresh r s) = maxStaleness s" "healthz (set_fresh r s) = healthz s"
  "metadataOK (set_fresh r s) = metadataOK s" "deepProbeOK (set_fresh r s) = deepProbeOK s"
  "deepProbed (set_fresh r s) = deepProbed s" "encryptionBlocked (set_fresh r s) = encryptionBlocked s"
  "hasState (set_fresh r s) = hasState s" "st_state (set_fresh r s) = st_state s"
  "st_active (set_fresh r s) = st_active s" "st_registry (set_fresh r s) = st_registry s"
  "updatedAt (set_fresh r s) = r" "freshness (set_fresh r s) = NewLifetime r (maxStaleness s)"
  by (simp_all add: set_fresh_def)

lemma NewLifetime_fields [simp]:
  "l_set (NewLifetime r d)" "l_start (NewLifetime r d) = r" "l_limit (NewLifetime r d) = d"
  by (simp_all add: NewLifetime_def)

lemma NewStore_inv:
  "NewStore opts = Inr s \<Longrightarrow> so_MaxStaleness opts \<le> max_duration \<Longrightarrow> store_inv s"
  by (auto simp: NewStore_def LoadState_def store_inv_def Let_def unset_lifetime_def lifetime_wf_def zero_reading_def
      IsZero_def max_duration_def split: if_splits)

lemma LoadState_inv:
  assumes "LoadState s st = Inr s'" and "store_inv s"
  shows "store_inv s'"
proof -
  from assms(1) obtain a reg where rt: "runtimeRegistry st = Inr (a, reg)" by (auto simp: LoadState_def)
  moreover have "healthz s \<noteq> []" using assms(2) by (simp add: store_inv_def)
  ultimately have "s' = s\<lparr>st_state := st, st_registry := reg, st_active := a, hasState := True\<rparr>"
    using assms(1) by (simp add: LoadState_def Let_def)
  with rt assms(2) show ?thesis by (simp add: store_inv_def)
qed

text \<open>What has to hold before the health and the freshness are recomputed.\<close>

definition store_pre :: "Store \<Rightarrow> bool" where
  "store_pre s \<longleftrightarrow>
     0 < maxStaleness s \<and> maxStaleness s \<le> max_duration
   \<and> (hasState s \<longrightarrow> runtimeRegistry (st_state s) = Inr (st_active s, st_registry s))
   \<and> (metadataOK s \<longrightarrow> hasState s \<and> \<not> encryptionBlocked s)
   \<and> (deepProbeOK s \<longrightarrow> deepProbed s)"

lemma set_fresh_inv: "store_pre s \<Longrightarrow> store_inv (set_fresh r (updateHealthLocked s))"
  by (simp add: store_pre_def store_inv_def updateHealthLocked_def NewLifetime_wf)

lemma PublishHealthy_Inr:
  "PublishHealthy s st at clk = Inr s' \<longleftrightarrow> (\<exists>a reg. runtimeRegistry st = Inr (a, reg) \<and>
     s' = set_fresh (reading_or at clk) (updateHealthLocked
      (s\<lparr>st_state := st, st_registry := reg, st_active := a, hasState := True, metadataOK := True,
         metadataFailure := no_failure, persistenceDegraded := False, encryptionBlocked := False,
         deepProbeOK := True, deepProbed := True, deepFailure := no_failure\<rparr>)))"
  by (cases "runtimeRegistry st") (auto simp: PublishHealthy_def simp del: bindE_eq_Inr)

lemma PublishHealthy_inv:
  assumes "PublishHealthy s st at clk = Inr s'" and "store_inv s"
  shows "store_inv s'"
proof -
  from assms(1) obtain a reg where rt: "runtimeRegistry st = Inr (a, reg)" and s': "s' = set_fresh (reading_or at clk) (updateHealthLocked
      (s\<lparr>st_state := st, st_registry := reg, st_active := a, hasState := True, metadataOK := True,
         metadataFailure := no_failure, persistenceDegraded := False, encryptionBlocked := False,
         deepProbeOK := True, deepProbed := True, deepFailure := no_failure\<rparr>))"
    unfolding PublishHealthy_Inr by blast
  show ?thesis
    unfolding s' by (rule set_fresh_inv) (use rt assms(2) in \<open>simp add: store_pre_def store_inv_def\<close>)
qed

text \<open>The store that a metadata publication leaves behind, before health and freshness.\<close>

definition with_metadata :: "Store \<Rightarrow> StateFile \<Rightarrow> KeySnapshot \<Rightarrow> Registry \<Rightarrow> bool \<Rightarrow> bool \<Rightarrow> Store" where
  "with_metadata s st a reg blocked changed =
     (s\<lparr>st_state := st, st_registry := reg, st_active := a, hasState := True,
         metadataOK := \<not> blocked, encryptionBlocked := blocked, persistenceDegraded := False,
         metadataFailure := (if blocked then \<lparr>f_reason = ReasonEncryptionBlocked, f_errorClass = []\<rparr> else no_failure),
         deepFailure := (if changed then no_failure else deepFailure s),
         deepProbeOK := (if changed then False else deepProbeOK s),
         deepProbed := (if changed then False else deepProbed s)\<rparr>)"

lemma publishMetadata_Inr:
  assumes "publishMetadata s st at blocked clk = Inr s'"
  obtains a reg where "runtimeRegistry st = Inr (a, reg)"
    "s' = set_fresh (reading_or at clk) (updateHealthLocked (with_metadata s st a reg blocked
       (\<not> hasState s \<or> KubernetesKeyID (st_active s) \<noteq> KubernetesKeyID a)))"
proof -
  from assms obtain a reg where "runtimeRegistry st = Inr (a, reg)" by (auto simp: publishMetadata_def)
  moreover from this assms have "Inr s' = (Inr (set_fresh (reading_or at clk) (updateHealthLocked (with_metadata s st a reg blocked
       (\<not> hasState s \<or> KubernetesKeyID (st_active s) \<noteq> KubernetesKeyID a)))) :: Store res)"
    unfolding publishMetadata_def with_metadata_def by (simp only: bindE_Inr prod.case Let_def)
  ultimately show thesis by (intro that) simp_all
qed

lemma publishMetadata_fields:
  assumes "publishMetadata s st at blocked clk = Inr s'"
  obtains a reg where "runtimeRegistry st = Inr (a, reg)" "st_state s' = st" "st_registry s' = reg" "st_active s' = a"
    "hasState s'" "metadataOK s' \<longleftrightarrow> \<not> blocked" "encryptionBlocked s' = blocked"
    "deepProbeOK s' \<longleftrightarrow> deepProbeOK s \<and> hasState s \<and> KubernetesKeyID (st_active s) = KubernetesKeyID a"
    "deepProbed s' \<longleftrightarrow> deepProbed s \<and> hasState s \<and> KubernetesKeyID (st_active s) = KubernetesKeyID a"
    "maxStaleness s' = maxStaleness s" "st_breaker s' = st_breaker s"
proof -
  from assms obtain a reg where rt: "runtimeRegistry st = Inr (a, reg)"
    and s': "s' = set_fresh (reading_or at clk) (updateHealthLocked (with_metadata s st a reg blocked
       (\<not> hasState s \<or> KubernetesKeyID (st_active s) \<noteq> KubernetesKeyID a)))"
    by (rule publishMetadata_Inr)
  show thesis
    by (rule that [OF rt]) (auto simp: s' updateHealthLocked_def set_fresh_def with_metadata_def)
qed

lemma publishMetadata_inv:
  assumes "publishMetadata s st at blocked clk = Inr s'" and "store_inv s"
  shows "store_inv s'"
  using assms
  by (elim publishMetadata_Inr, simp only:, intro set_fresh_inv) (simp add: store_pre_def store_inv_def with_metadata_def)

lemma publishMetadataUnhealthy_inv: "store_inv s \<Longrightarrow> store_inv (publishMetadataUnhealthy s at f clk)"
  unfolding publishMetadataUnhealthy_def
  by (rule set_fresh_inv) (simp add: store_pre_def store_inv_def)

lemma publishDeferredObservation_inv: "store_inv s \<Longrightarrow> store_inv (snd (publishDeferredObservation s h at))"
  by (auto simp: publishDeferredObservation_def store_inv_def updateHealthLocked_def intro: NewLifetime_wf)

lemma publishDeepHealthy_inv: "store_inv s \<Longrightarrow> store_inv (publishDeepHealthy s)"
  and publishDeepUnhealthy_inv: "store_inv s \<Longrightarrow> store_inv (publishDeepUnhealthy s f)"
  and UpdateCircuitBreaker_inv: "store_inv s \<Longrightarrow> store_inv (UpdateCircuitBreaker s b)"
  by (auto simp: publishDeepHealthy_def publishDeepUnhealthy_def UpdateCircuitBreaker_def store_inv_def
      updateHealthLocked_def)

lemma Remaining_snd: "snd (Remaining l now) = snd (Age l now)"
  by (simp add: Remaining_def Age_def case_prod_beta Let_def)

lemma store_aged_inv:
  "store_inv s \<Longrightarrow> store_inv (s\<lparr>freshness := snd (Age (freshness s) now)\<rparr>)"
  by (auto simp: store_inv_def intro: Age_wf)

lemma staleLocked_snd:
  "snd (staleLocked s now) =
     (if IsZero (Wall (updatedAt s)) then s else s\<lparr>freshness := snd (Age (freshness s) now)\<rparr>)"
  by (simp add: staleLocked_def case_prod_beta Remaining_snd)

lemma staleLocked_inv: "store_inv s \<Longrightarrow> store_inv (snd (staleLocked s now))"
  by (simp add: staleLocked_snd store_aged_inv)

lemma Current_inv: "store_inv s \<Longrightarrow> store_inv (snd (Current s ctx now))"
  using staleLocked_inv [of s now]
  by (auto simp: Current_def Let_def case_prod_beta split: sum.split)

lemma DiagnosticsSnapshot_inv: "store_inv s \<Longrightarrow> store_inv (snd (DiagnosticsSnapshot s now))"
  using staleLocked_inv [of s now] store_aged_inv
  by (auto simp: DiagnosticsSnapshot_def Let_def case_prod_beta)

lemmas store_op_inv = LoadState_inv PublishHealthy_inv publishMetadata_inv publishMetadataUnhealthy_inv
  publishDeferredObservation_inv publishDeepHealthy_inv publishDeepUnhealthy_inv UpdateCircuitBreaker_inv
  Current_inv DiagnosticsSnapshot_inv

lemma store_step_inv: "store_step op s s' \<Longrightarrow> store_inv s \<Longrightarrow> store_inv s'"
  by (induction rule: store_step.induct) (simp_all add: store_op_inv)

lemma store_run_store_inv: "store_run ops s s' \<Longrightarrow> store_inv s \<Longrightarrow> store_inv s'"
  by (erule store_run_inv) (auto intro: store_step_inv)

text \<open>The store is a snapshot lookup.\<close>

interpretation store: snapshot_lookup store_Lookup store_inv
proof
  fix s k x e
  have wf: "registry_wf (st_registry s)" if "store_inv s" "hasState s"
    using that runtimeRegistry_Inr(2) by (auto simp: store_inv_def)
  show "KubernetesKeyID x = k" "Normalize x = Inr x" if "store_inv s" "store_Lookup s k = Inr x"
    using that wf registry.lookup_key registry.lookup_normal
    by (auto simp: store_Lookup_def split: if_splits)
  show "store_Lookup s k = Inl e" if "ParseKeyID k = Inl e"
    using that registry.lookup_malformed by (simp add: store_Lookup_def)
  show "e \<in> {Sentinel ErrMalformedKeyID, Sentinel ErrUnknownKeyID}" if "store_Lookup s k = Inl e"
    using that registry.lookup_error
    by (auto simp: store_Lookup_def bindE_eq_Inl dest: ParseKeyID_error split: if_splits)
qed

section \<open>Reading the store\<close>

definition fresh_at :: "Store \<Rightarrow> Reading \<Rightarrow> bool" where
  "fresh_at s now \<longleftrightarrow> \<not> fst (staleLocked s now)"

lemma fresh_at_bounds:
  assumes "store_inv s" and "fresh_at s now"
  shows "i64 (Elapsed now - Elapsed (updatedAt s)) \<le> maxStaleness s"
    and "time_Sub (Wall now) (Wall (updatedAt s)) \<le> maxStaleness s"
proof -
  from assms(2) have nz: "\<not> IsZero (Wall (updatedAt s))" and rem: "0 \<le> fst (Remaining (freshness s) now)"
    by (auto simp: fresh_at_def staleLocked_def case_prod_beta split: if_splits)
  with assms(1) have l: "l_set (freshness s)" "lifetime_wf (freshness s)" "l_start (freshness s) = updatedAt s"
    "l_limit (freshness s) = maxStaleness s" by (auto simp: store_inv_def)
  from Remaining_eq [OF l(1,2), of now] rem l(4) have "fst (Age (freshness s) now) \<le> maxStaleness s" by simp
  with Age_ge(2,3) [OF l(1), of now] l(3)
  show "i64 (Elapsed now - Elapsed (updatedAt s)) \<le> maxStaleness s"
    "time_Sub (Wall now) (Wall (updatedAt s)) \<le> maxStaleness s" by simp_all
qed

lemma Current_fst:
  assumes "store_inv s" and "contextErr ctx = Inr ()"
  shows "fst (Current s ctx now) = Inr (if hasState s
     then (if metadataOK s \<and> deepProbeOK s \<and> fresh_at s now
           then \<lparr>Healthz = HealthOK, KeyID = KubernetesKeyID (st_active s), Active = st_active s\<rparr>
           else \<lparr>Healthz = HealthUnhealthy, KeyID = [], Active = st_active s\<rparr>)
     else zero_status\<lparr>Healthz := HealthUnhealthy\<rparr>)"
proof -
  have "st_active (snd (staleLocked s now)) = st_active s" by (simp add: staleLocked_snd)
  with assms show ?thesis
    by (auto simp: Current_def Let_def case_prod_beta fresh_at_def normalizedHealth_def store_inv_def)
qed

section \<open>Main results\<close>

definition ex_store_options :: StoreOptions where
  "ex_store_options = \<lparr>so_MaxStaleness = 60, so_InitialState = ex_state 1 [], so_HasInitialState = False\<rparr>"

lemma ex_runtimeRegistry: "\<exists>reg. runtimeRegistry (ex_state 1 []) = Inr (normal_form ex_snapshot, reg)"
proof -
  have "ActiveSnapshot (ex_state 1 []) = Inr (normal_form ex_snapshot)" by (simp add: ActiveSnapshot_Inr)
  moreover obtain reg where "StateFile_Registry (ex_state 1 []) = Inr reg"
    using StateFile_Registry_Inr [of "ex_state 1 []"] by auto
  ultimately show ?thesis by (simp add: runtimeRegistry_def)
qed

lemma ex_healthy_store:
  obtains s0 s c where "NewStore ex_store_options = Inr s0" and "store_run [OpPublishHealthy] s0 s" and "store_inv s"
    and "fst (Current s LiveContext \<lparr>Wall = 1020, Elapsed = 20\<rparr>) = Inr c" and "Healthz c = HealthOK"
proof -
  obtain s0 where s0: "NewStore ex_store_options = Inr s0" and hz: "\<not> hasState s0" and st: "maxStaleness s0 = 60"
    by (simp add: NewStore_def ex_store_options_def)
  obtain reg where reg: "runtimeRegistry (ex_state 1 []) = Inr (normal_form ex_snapshot, reg)"
    using ex_runtimeRegistry by blast
  obtain s where pub: "PublishHealthy s0 (ex_state 1 []) \<lparr>Wall = 1000, Elapsed = 0\<rparr> zero_reading = Inr s"
    and up: "updatedAt s = \<lparr>Wall = 1000, Elapsed = 0\<rparr>" "freshness s = NewLifetime \<lparr>Wall = 1000, Elapsed = 0\<rparr> 60"
      "hasState s" "metadataOK s" "deepProbeOK s"
    using reg st by (simp add: PublishHealthy_def reading_or_def IsZero_def zero_time_def updateHealthLocked_def)
  have run: "store_run [OpPublishHealthy] s0 s"
    using pub by (auto intro: store_run.intros store_step.Healthy)
  have max: "so_MaxStaleness ex_store_options \<le> max_duration" by (simp add: ex_store_options_def max_duration_def)
  have inv: "store_inv s" using run NewStore_inv [OF s0 max] by (rule store_run_store_inv)
  have "fresh_at s \<lparr>Wall = 1020, Elapsed = 20\<rparr>"
    by (simp add: fresh_at_def staleLocked_def up IsZero_def zero_time_def Remaining_def Age_def NewLifetime_def
        i64_def time_Sub_def min_duration_def max_duration_def)
  then obtain c where c: "fst (Current s LiveContext \<lparr>Wall = 1020, Elapsed = 20\<rparr>) = Inr c" "Healthz c = HealthOK"
    using Current_fst [OF inv, of LiveContext] up by (simp add: contextErr_def)
  show ?thesis by (rule that [OF s0 run inv c])
qed

text \<open>
  C9 A healthy cached status is true and fresh: in every state the store can reach, if \<open>Current\<close> reports the
  status healthy, then both probes succeeded, the state it was computed from validates, the reported
  snapshot is the active one of that state, carries the reported key_id, passes the checks of the request
  handlers and resolves through \<open>Lookup\<close>, and neither the elapsed nor the wall clock has
  advanced by more than the staleness limit since the evidence was published.
\<close>

theorem healthy_status_sound:
  assumes "NewStore opts = Inr s0" and "so_MaxStaleness opts \<le> max_duration"
    and "store_run ops s0 s" and "fst (Current s ctx now) = Inr c" and "Healthz c = HealthOK"
  shows "metadataOK s \<and> deepProbeOK s \<and> StateFile_Validate (st_state s) = Inr ()
    \<and> KeyID c = ActiveKeyID (st_state s) \<and> validateCachedStatus c = Inr (Active c)
    \<and> store_Lookup s (KeyID c) = Inr (Active c)
    \<and> i64 (Elapsed now - Elapsed (updatedAt s)) \<le> maxStaleness s
    \<and> time_Sub (Wall now) (Wall (updatedAt s)) \<le> maxStaleness s"
proof -
  have inv: "store_inv s" using assms(3) NewStore_inv [OF assms(1,2)] by (rule store_run_store_inv)
  from assms(4) have ctx: "contextErr ctx = Inr ()" by (auto simp: Current_def split: sum.splits)
  from Current_fst [OF inv ctx, of now] assms(4,5) have h: "hasState s" "metadataOK s" "deepProbeOK s" "fresh_at s now"
    "c = \<lparr>Healthz = HealthOK, KeyID = KubernetesKeyID (st_active s), Active = st_active s\<rparr>"
    by (auto simp: zero_status_def split: if_splits)
  from inv h(1) have rt: "runtimeRegistry (st_state s) = Inr (st_active s, st_registry s)" by (simp add: store_inv_def)
  note r = runtimeRegistry_Inr [OF rt]
  have "normal_form (st_active s) = st_active s" using r(8) by (simp add: Normalize_Inr)
  then have "validateCachedStatus c = Inr (Active c)"
    using r h(5) by (simp add: validateCachedStatus_Inr)
  then show ?thesis
    using r h fresh_at_bounds [OF inv h(4)] by (simp add: store_Lookup_def)
qed

theorem healthy_status_sound_witness:
  "\<exists>s0 s c. NewStore ex_store_options = Inr s0 \<and> store_run [OpPublishHealthy] s0 s
     \<and> fst (Current s LiveContext \<lparr>Wall = 1020, Elapsed = 20\<rparr>) = Inr c \<and> Healthz c = HealthOK
     \<and> validateCachedStatus c = Inr (Active c) \<and> store_Lookup s (KeyID c) = Inr (Active c)"
proof -
  have max: "so_MaxStaleness ex_store_options \<le> max_duration" by (simp add: ex_store_options_def max_duration_def)
  obtain s0 s c where s: "NewStore ex_store_options = Inr s0" "store_run [OpPublishHealthy] s0 s"
    and c: "fst (Current s LiveContext \<lparr>Wall = 1020, Elapsed = 20\<rparr>) = Inr c" "Healthz c = HealthOK"
    by (rule ex_healthy_store)
  show ?thesis
    using healthy_status_sound [OF s(1) max s(2) c] s c by blast
qed

lemma LoadState_deepProbeOK: "LoadState u st = Inr u' \<Longrightarrow> deepProbeOK u' = deepProbeOK u"
  by (cases "runtimeRegistry st") (auto simp: LoadState_def Let_def split: if_splits)

lemma unhealthy_steps:
  "LoadState u st = Inr u' \<Longrightarrow> deepProbeOK u' = deepProbeOK u"
  "deepProbeOK (publishMetadataUnhealthy u at f clk) = deepProbeOK u"
  "deepProbeOK (snd (publishDeferredObservation u h at)) = deepProbeOK u"
  "\<not> deepProbeOK (publishDeepUnhealthy u f)"
  "deepProbeOK (snd (Current u ctx now)) = deepProbeOK u"
  "deepProbeOK (snd (DiagnosticsSnapshot u now)) = deepProbeOK u"
  "deepProbeOK (UpdateCircuitBreaker u b) = deepProbeOK u"
  by (auto simp: LoadState_deepProbeOK publishMetadataUnhealthy_def publishDeferredObservation_def publishDeepUnhealthy_def
      Current_def DiagnosticsSnapshot_def UpdateCircuitBreaker_def updateHealthLocked_def Let_def case_prod_beta
      staleLocked_snd split: sum.split)

text \<open>
  A newly activated key is not used before it was probed: after a metadata publication that changes the
  active key, the status stays unhealthy through every sequence of other operations, until an encrypt and decrypt
  round trip with the new key has been published (by \<open>publishDeepHealthy\<close> or \<open>PublishHealthy\<close>).
\<close>

lemma new_key_needs_deep_probe:
  assumes "store_inv s" and "publishMetadata s st at blocked clk = Inr s1"
    and "hasState s \<longrightarrow> KubernetesKeyID (st_active s1) \<noteq> KubernetesKeyID (st_active s)"
    and "store_run ops s1 s2" and "OpDeepHealthy \<notin> set ops" and "OpPublishHealthy \<notin> set ops"
    and "fst (Current s2 ctx now) = Inr c"
  shows "Healthz c = HealthUnhealthy \<and> KeyID c = []"
proof -
  from assms(2,3) have s1: "\<not> deepProbeOK s1" by (elim publishMetadata_fields) auto
  have step: "\<not> deepProbeOK u'" if "store_step op u u'" "op \<noteq> OpDeepHealthy" "op \<noteq> OpPublishHealthy" "\<not> deepProbeOK u"
    for op u u'
    using that by (induction rule: store_step.induct) (auto elim: publishMetadata_fields simp: unhealthy_steps)
  have s2: "\<not> deepProbeOK s2"
    by (rule store_run_inv [OF assms(4), where Q = "\<lambda>s. \<not> deepProbeOK s"]) (use s1 step assms(5,6) in blast)+
  have inv: "store_inv s2"
    by (rule store_run_store_inv [OF assms(4)]) (rule publishMetadata_inv [OF assms(2,1)])
  from assms(7) have ctx: "contextErr ctx = Inr ()" by (auto simp: Current_def split: sum.splits)
  from Current_fst [OF inv ctx, of now] assms(7) s2 show ?thesis by (auto simp: zero_status_def split: if_splits)
qed

lemma diagnosticsForState_fields:
  "Stale (diagnosticsForState st has a h t age stale brk) = (\<not> has \<or> stale)"
  "dg_Healthz (diagnosticsForState st has a h t age stale brk) =
     (if \<not> has \<or> (normalizedHealth h = HealthOK \<and> stale) then HealthUnhealthy else normalizedHealth h)"
  by (cases has; cases "pendingRecord st"; simp add: diagnosticsForState_def Let_def)+

lemma readinessReasons_freshness [simp]:
  "readinessReasonsLocked (s\<lparr>freshness := f\<rparr>) stale = readinessReasonsLocked s stale"
  by (simp add: readinessReasonsLocked_def)

lemma DiagnosticsSnapshot_fields:
  "dg_Healthz (fst (DiagnosticsSnapshot s now)) =
     (if \<not> hasState s \<or> (normalizedHealth (healthz s) = HealthOK \<and> \<not> fresh_at s now)
      then HealthUnhealthy else normalizedHealth (healthz s))"
  "Reasons (fst (DiagnosticsSnapshot s now)) = readinessReasonsLocked s (\<not> hasState s \<or> \<not> fresh_at s now)"
proof -
  obtain stale f where st: "staleLocked s now = (stale, s\<lparr>freshness := f\<rparr>)"
    using that [of _ "freshness s"] that [of _ "snd (Age (freshness s) now)"] staleLocked_snd [of s now]
    by (cases "staleLocked s now") (simp split: if_splits)
  then have "fresh_at s now = (\<not> stale)" by (simp add: fresh_at_def)
  with st show "dg_Healthz (fst (DiagnosticsSnapshot s now)) =
     (if \<not> hasState s \<or> (normalizedHealth (healthz s) = HealthOK \<and> \<not> fresh_at s now)
      then HealthUnhealthy else normalizedHealth (healthz s))"
    "Reasons (fst (DiagnosticsSnapshot s now)) = readinessReasonsLocked s (\<not> hasState s \<or> \<not> fresh_at s now)"
    by (simp_all add: DiagnosticsSnapshot_def case_prod_beta Let_def diagnosticsForState_fields)
qed

lemma readinessReasons_Nil:
  "readinessReasonsLocked s stale = [] \<longleftrightarrow> hasState s \<and> \<not> stale \<and> metadataOK s \<and> deepProbeOK s"
  by (auto simp: readinessReasonsLocked_def Let_def)

text \<open>Diagnostics and status agree at the same reading.\<close>

lemma diagnostics_agree:
  assumes "store_inv s" and "fst (Current s ctx now) = Inr c"
  shows "(Reasons (fst (DiagnosticsSnapshot s now)) = [] \<longleftrightarrow> Healthz c = HealthOK)
    \<and> dg_Healthz (fst (DiagnosticsSnapshot s now)) = Healthz c"
proof -
  from assms(2) have ctx: "contextErr ctx = Inr ()" by (auto simp: Current_def split: sum.splits)
  have c: "Healthz c = (if hasState s \<and> metadataOK s \<and> deepProbeOK s \<and> fresh_at s now then HealthOK else HealthUnhealthy)"
    using Current_fst [OF assms(1) ctx, of now] assms(2) by (auto simp: zero_status_def)
  have "healthz s = (if metadataOK s \<and> deepProbeOK s then HealthOK else HealthUnhealthy)" "metadataOK s \<longrightarrow> hasState s"
    using assms(1) by (simp_all add: store_inv_def)
  with c show ?thesis
    by (auto simp: DiagnosticsSnapshot_fields readinessReasons_Nil normalizedHealth_def)
qed

end
