(* ===== verification/State_Store.thy ===== *)
theory State_Store
  imports State_File
begin

text \<open>
  The persisted registry state on disk (\<^verbatim>\<open>LoadStateFile\<close>, \<^verbatim>\<open>SaveStateFile\<close> and the checkpoint files of
  \<^verbatim>\<open>internal/keyregistry/state.go\<close>; \<^verbatim>\<open>internal/status/state_store.go\<close> and \<^verbatim>\<open>state_recovery.go\<close>): the
  two-file store with its replay checkpoint, atomic replacement, and recovery of an interrupted save.

  A file is absent, unusable (opening or decoding it fails) or holds a value: the JSON encoder and decoder
  of the standard library restore the value that was written, whose strings are valid UTF-8. The
  operating system may fail any step of a save; the failures of one save are its environment.
\<close>

section \<open>Files\<close>

datatype 'a content = Absent | Unusable go_error | Stored 'a

record Disk =
  d_state :: "StateFile content"
  d_checkpoint :: "StateCheckpoint content"

text \<open>The system calls of one save, each with the error it returns, if any.\<close>

record save_env =
  e_path :: "go_error option"
  e_create :: "go_error option"
  e_encode :: "go_error option"
  e_chmod :: "go_error option"
  e_sync :: "go_error option"
  e_close :: "go_error option"
  e_rename :: "go_error option"
  e_syncdir :: "go_error option"

definition no_fault :: save_env where
  "no_fault = \<lparr>e_path = None, e_create = None, e_encode = None, e_chmod = None, e_sync = None, e_close = None,
     e_rename = None, e_syncdir = None\<rparr>"

definition fails :: "go_error option \<Rightarrow> string \<Rightarrow> unit res" where
  "fails e m = (case e of None \<Rightarrow> Inr () | Some err \<Rightarrow> Inl (Wrap m [err]))"

text \<open>
  Until the rename, the temporary file is the only one touched; after it the target holds the new value, also
  when the directory sync fails.
\<close>

definition saveEncodedFile :: "save_env \<Rightarrow> 'a content \<Rightarrow> 'a \<Rightarrow> unit res \<times> 'a content" where
  "saveEncodedFile env old v =
    (case bindE (fails (e_create env) ''create registry state temp file'') (\<lambda>_.
          bindE (fails (e_encode env) ''encode registry state'') (\<lambda>_.
          bindE (fails (e_chmod env) ''chmod registry state temp file'') (\<lambda>_.
          bindE (fails (e_sync env) ''sync registry state temp file'') (\<lambda>_.
          bindE (fails (e_close env) ''close registry state temp file'') (\<lambda>_.
          fails (e_rename env) ''rename registry state file''))))) of
       Inl err \<Rightarrow> (Inl err, old)
     | Inr _ \<Rightarrow> (fails (e_syncdir env) ''sync registry state parent directory'', Stored v))"

definition validateStateFileWritePath :: "save_env \<Rightarrow> unit res" where
  "validateStateFileWritePath env = (case e_path env of None \<Rightarrow> Inr () | Some err \<Rightarrow> Inl err)"

definition LoadStateFile :: "StateFile content \<Rightarrow> StateLoadOptions \<Rightarrow> (StateFile \<times> Registry) res" where
  "LoadStateFile file opts =
    (case file of
       Absent \<Rightarrow> Inl (Sentinel ErrStateNotFound)
     | Unusable err \<Rightarrow> Inl err
     | Stored state \<Rightarrow>
        bindE (StateFile_Validate state) (\<lambda>_.
        bindE (validateLoadedState state opts) (\<lambda>_.
        bindE (StateFile_Registry state) (\<lambda>registry.
        Inr (state, registry)))))"

definition SaveStateFile :: "save_env \<Rightarrow> StateFile content \<Rightarrow> StateFile \<Rightarrow> unit res \<times> StateFile content" where
  "SaveStateFile env file state =
    (case bindE (StateFile_Validate state) (\<lambda>_. validateStateFileWritePath env) of
       Inl err \<Rightarrow> (Inl err, file)
     | Inr _ \<Rightarrow> saveEncodedFile env file state)"

definition StateCheckpointPath :: "string \<Rightarrow> string" where
  "StateCheckpointPath statePath = statePath @ ''.checkpoint''"

definition LoadStateCheckpoint :: "StateCheckpoint content \<Rightarrow> StateCheckpoint res" where
  "LoadStateCheckpoint file =
    (case file of
       Absent \<Rightarrow> Inl (Sentinel ErrStateNotFound)
     | Unusable err \<Rightarrow> Inl err
     | Stored checkpoint \<Rightarrow> bindE (StateCheckpoint_Validate checkpoint) (\<lambda>_. Inr checkpoint))"

definition SaveStateCheckpoint :: "save_env \<Rightarrow> StateCheckpoint content \<Rightarrow> StateCheckpoint \<Rightarrow> unit res \<times> StateCheckpoint content" where
  "SaveStateCheckpoint env file checkpoint =
    (case bindE (StateCheckpoint_Validate checkpoint) (\<lambda>_. validateStateFileWritePath env) of
       Inl err \<Rightarrow> (Inl err, file)
     | Inr _ \<Rightarrow> saveEncodedFile env file checkpoint)"

section \<open>The file state store\<close>

text \<open>The environment of an operation on both files: the failures of the two saves.\<close>

type_synonym store_env = "save_env \<times> save_env"

definition saveCheckpoint :: "save_env \<Rightarrow> Disk \<Rightarrow> StateFile \<Rightarrow> unit res \<times> Disk" where
  "saveCheckpoint env d state =
    (case NewStateCheckpoint state of
       Inl err \<Rightarrow> (Inl err, d)
     | Inr checkpoint \<Rightarrow>
        (let (r, file) = SaveStateCheckpoint env (d_checkpoint d) checkpoint in (r, d\<lparr>d_checkpoint := file\<rparr>)))"

definition no_options :: StateLoadOptions where
  "no_options = \<lparr>MinimumGeneration = 0, ExpectedHash = []\<rparr>"

definition path_required :: go_error where
  "path_required = errw Status_ErrConfigInvalid ''state path is required''"

definition Load :: "string \<Rightarrow> store_env \<Rightarrow> Disk \<Rightarrow> StateFile res \<times> Disk" where
  "Load path env d =
    (if path = [] then (Inl path_required, d)
     else
     case LoadStateCheckpoint (d_checkpoint d) of
       Inl checkpointErr \<Rightarrow>
         if \<not> errors_is checkpointErr ErrStateNotFound then (Inl checkpointErr, d)
         else (case LoadStateFile (d_state d) no_options of
             Inl err \<Rightarrow> (Inl err, d)
           | Inr (state, _) \<Rightarrow> (let (r, d') = saveCheckpoint (snd env) d state in (bindE r (\<lambda>_. Inr state), d')))
     | Inr checkpoint \<Rightarrow>
         (case LoadStateFile (d_state d) no_options of
             Inl err \<Rightarrow>
               if errors_is err ErrStateNotFound
               then (Inl (errw ErrStateRollback ''state file missing with checkpoint present''), d)
               else (Inl err, d)
           | Inr (state, _) \<Rightarrow>
               (case ValidateState checkpoint state of
                  Inl err \<Rightarrow> (Inl err, d)
                | Inr _ \<Rightarrow>
                    if Generation state > c_Generation checkpoint
                    then (let (r, d') = saveCheckpoint (snd env) d state in (bindE r (\<lambda>_. Inr state), d'))
                    else (Inr state, d))))"

definition Save :: "string \<Rightarrow> store_env \<Rightarrow> Disk \<Rightarrow> StateFile \<Rightarrow> unit res \<times> Disk" where
  "Save path env d state =
    (if path = [] then (Inl path_required, d)
     else
     let (r, file) = SaveStateFile (fst env) (d_state d) state;
         d' = d\<lparr>d_state := file\<rparr>
     in case r of
          Inl err \<Rightarrow> (Inl err, d')
        | Inr _ \<Rightarrow> saveCheckpoint (snd env) d' state)"

definition validateRecoveryTransition :: "StateFile option \<Rightarrow> StateFile \<Rightarrow> unit res" where
  "validateRecoveryTransition previous attempted =
    bindE (StateFile_Validate attempted) (\<lambda>_.
    case previous of
      Some p \<Rightarrow> ValidateStateProgress p attempted
    | None \<Rightarrow> failIf (Generation attempted \<noteq> 1 \<or> PreviousHash attempted \<noteq> [])
               (errw ErrStateRollback ''recovery bootstrap must start at generation one''))"

definition recoveryReadError :: "'a res \<Rightarrow> bool \<Rightarrow> unit res" where
  "recoveryReadError r allowMissing =
    (case r of
       Inr _ \<Rightarrow> Inr ()
     | Inl err \<Rightarrow>
        if errors_is err ErrStateNotFound
        then failIf (\<not> allowMissing) (errw ErrStateRollback ''confirmed persistence file is missing'')
        else Inl err)"

definition recoveryStateMatches :: "StateFile \<Rightarrow> StateFile option \<Rightarrow> StateFile \<Rightarrow> bool" where
  "recoveryStateMatches state previous attempted \<longleftrightarrow>
     CurrentHash state = CurrentHash attempted
   \<or> (case previous of None \<Rightarrow> False | Some p \<Rightarrow> CurrentHash state = CurrentHash p)"

definition checkRecoveryFiles :: "string \<Rightarrow> Disk \<Rightarrow> StateFile option \<Rightarrow> StateFile \<Rightarrow> unit res" where
  "checkRecoveryFiles path d previous attempted =
    bindE (failIf (path = []) path_required) (\<lambda>_.
    let stateRead = LoadStateFile (d_state d) no_options;
        checkpointRead = LoadStateCheckpoint (d_checkpoint d)
    in
    bindE (recoveryReadError stateRead (previous = None)) (\<lambda>_.
    bindE (recoveryReadError checkpointRead (previous = None)) (\<lambda>_.
    bindE (case stateRead of
             Inl _ \<Rightarrow> Inr ()
           | Inr (state, _) \<Rightarrow> failIf (\<not> recoveryStateMatches state previous attempted)
               (errw ErrStateRollback ''state differs from the confirmed and attempted states'')) (\<lambda>_.
    case checkpointRead of
      Inl _ \<Rightarrow> Inr ()
    | Inr checkpoint \<Rightarrow>
       (case stateRead of
          Inl _ \<Rightarrow> Inl (errw ErrStateRollback ''state file missing with checkpoint present'')
        | Inr (state, _) \<Rightarrow>
           bindE (ValidateState checkpoint state) (\<lambda>_.
           if c_CurrentHash checkpoint = CurrentHash attempted \<and> c_Generation checkpoint = Generation attempted
           then Inr ()
           else if (case previous of None \<Rightarrow> False
                    | Some p \<Rightarrow> c_CurrentHash checkpoint = CurrentHash p \<and> c_Generation checkpoint = Generation p)
           then Inr ()
           else Inl (errw ErrStateRollback ''checkpoint differs from the confirmed and attempted states'')))))))"

definition Recover :: "string \<Rightarrow> store_env \<Rightarrow> Disk \<Rightarrow> StateFile option \<Rightarrow> StateFile \<Rightarrow> unit res \<times> Disk" where
  "Recover path env d previous attempted =
    (case bindE (validateRecoveryTransition previous attempted) (\<lambda>_. checkRecoveryFiles path d previous attempted) of
       Inl err \<Rightarrow> (Inl err, d)
     | Inr _ \<Rightarrow> Save path env d attempted)"

definition Confirm :: "Disk \<Rightarrow> StateFile \<Rightarrow> unit res" where
  "Confirm d expected =
    bindE (StateFile_Validate expected) (\<lambda>_.
    bindE (LoadStateFile (d_state d) no_options) (\<lambda>(state, _).
    bindE (LoadStateCheckpoint (d_checkpoint d)) (\<lambda>checkpoint.
    failIf (CurrentHash state \<noteq> CurrentHash expected \<or> c_CurrentHash checkpoint \<noteq> CurrentHash expected
            \<or> c_Generation checkpoint \<noteq> Generation expected)
      (errw ErrStateRollback ''persistence no longer matches the published state''))))"

section \<open>Saving one file\<close>

lemma saveEncodedFile_cases:
  obtains err where "saveEncodedFile env old v = (Inl err, old)"
  | err where "saveEncodedFile env old v = (Inl err, Stored v)"
  | "saveEncodedFile env old v = (Inr (), Stored v)"
proof (cases "saveEncodedFile env old v")
  case (Pair r f)
  then show thesis
    using that by (cases r) (auto simp: saveEncodedFile_def split: sum.splits)
qed

lemma no_fault_saves [simp]: "saveEncodedFile no_fault old v = (Inr (), Stored v)" "validateStateFileWritePath no_fault = Inr ()"
  by (simp_all add: saveEncodedFile_def no_fault_def fails_def validateStateFileWritePath_def)

section \<open>Committed and interrupted saves\<close>

definition checkpoint_of :: "StateFile \<Rightarrow> StateCheckpoint" where
  "checkpoint_of s = \<lparr>c_SchemaVersion = stateCheckpointVersion, c_Generation = Generation s, c_CurrentHash = CurrentHash s\<rparr>"

text \<open>
  A committed disk holds one valid state in both files; a disk between two states holds one of them in each
  file, the checkpoint not ahead of the state.
\<close>

definition committed :: "StateFile \<Rightarrow> Disk \<Rightarrow> bool" where
  "committed s d \<longleftrightarrow> StateFile_Validate s = Inr () \<and> d = \<lparr>d_state = Stored s, d_checkpoint = Stored (checkpoint_of s)\<rparr>"

definition between :: "StateFile \<Rightarrow> StateFile \<Rightarrow> Disk \<Rightarrow> bool" where
  "between p n d \<longleftrightarrow> committed p d \<or> committed n d
     \<or> (StateFile_Validate n = Inr () \<and> d = \<lparr>d_state = Stored n, d_checkpoint = Stored (checkpoint_of p)\<rparr>)"

lemma checkpoint_of_valid: "StateFile_Validate s = Inr () \<Longrightarrow> StateCheckpoint_Validate (checkpoint_of s) = Inr ()"
  using validateStateHash_valid [of s] by (simp add: checkpoint_of_def StateCheckpoint_Validate_def StateFile_Validate_Inr)

lemma NewStateCheckpoint_of: "StateFile_Validate s = Inr () \<Longrightarrow> NewStateCheckpoint s = Inr (checkpoint_of s)"
  by (simp add: NewStateCheckpoint_Inr checkpoint_of_def)

lemma LoadStateFile_Stored:
  "StateFile_Validate s = Inr () \<Longrightarrow> \<exists>reg. LoadStateFile (Stored s) no_options = Inr (s, reg)"
  using StateFile_Registry_Inr [of s] validated_content [of s]
  by (auto simp: LoadStateFile_def validateLoadedState_def no_options_def)

lemma saveCheckpoint_cases:
  assumes "StateFile_Validate s = Inr ()"
  obtains err where "saveCheckpoint env d s = (Inl err, d)"
  | err where "saveCheckpoint env d s = (Inl err, d\<lparr>d_checkpoint := Stored (checkpoint_of s)\<rparr>)"
  | "saveCheckpoint env d s = (Inr (), d\<lparr>d_checkpoint := Stored (checkpoint_of s)\<rparr>)"
proof (cases "validateStateFileWritePath env")
  case (Inl e)
  then show thesis
    by (intro that(1)) (simp add: saveCheckpoint_def NewStateCheckpoint_of assms SaveStateCheckpoint_def checkpoint_of_valid)
next
  case (Inr u)
  then have "saveCheckpoint env d s = (let (r, file) = saveEncodedFile env (d_checkpoint d) (checkpoint_of s)
      in (r, d\<lparr>d_checkpoint := file\<rparr>))"
    by (simp add: saveCheckpoint_def NewStateCheckpoint_of assms SaveStateCheckpoint_def checkpoint_of_valid)
  then show thesis
    by (cases rule: saveEncodedFile_cases [of env "d_checkpoint d" "checkpoint_of s"]) (auto intro: that)
qed

lemma saveCheckpoint_no_fault:
  "StateFile_Validate s = Inr () \<Longrightarrow> saveCheckpoint no_fault d s = (Inr (), d\<lparr>d_checkpoint := Stored (checkpoint_of s)\<rparr>)"
  by (simp add: saveCheckpoint_def NewStateCheckpoint_of SaveStateCheckpoint_def checkpoint_of_valid)

lemma SaveStateFile_cases:
  obtains err where "SaveStateFile env f s = (Inl err, f)"
  | err where "SaveStateFile env f s = (Inl err, Stored s)" "StateFile_Validate s = Inr ()"
  | "SaveStateFile env f s = (Inr (), Stored s)" "StateFile_Validate s = Inr ()"
proof (cases "bindE (StateFile_Validate s) (\<lambda>_. validateStateFileWritePath env)")
  case (Inl e)
  then show thesis by (intro that(1)) (simp add: SaveStateFile_def)
next
  case (Inr u)
  then have "SaveStateFile env f s = saveEncodedFile env f s" "StateFile_Validate s = Inr ()"
    by (simp_all add: SaveStateFile_def)
  then show thesis
    by (cases rule: saveEncodedFile_cases [of env f s]) (auto intro: that)
qed

text \<open>Whatever fails during a save, the disk is untouched, has the new state only, or has both files new.\<close>

lemma Save_cases:
  obtains err where "Save path env d s = (Inl err, d)"
  | err where "Save path env d s = (Inl err, d\<lparr>d_state := Stored s\<rparr>)" "StateFile_Validate s = Inr ()"
  | r where "Save path env d s = (r, \<lparr>d_state = Stored s, d_checkpoint = Stored (checkpoint_of s)\<rparr>)"
      "StateFile_Validate s = Inr ()"
proof (cases "path = []")
  case True
  then show thesis by (intro that(1)) (simp add: Save_def)
next
  case False
  show thesis
  proof (cases rule: SaveStateFile_cases [of "fst env" "d_state d" s])
    case (3)
    with False have eq: "Save path env d s = saveCheckpoint (snd env) (d\<lparr>d_state := Stored s\<rparr>) s" by (simp add: Save_def)
    have d: "d\<lparr>d_state := Stored s, d_checkpoint := Stored (checkpoint_of s)\<rparr>
        = \<lparr>d_state = Stored s, d_checkpoint = Stored (checkpoint_of s)\<rparr>" by simp
    show thesis
      using 3 eq d by (cases rule: saveCheckpoint_cases [OF 3(2), of "snd env" "d\<lparr>d_state := Stored s\<rparr>"]) (auto intro: that)
  qed (use False in \<open>auto simp: Save_def intro: that\<close>)
qed

lemma Save_Inr:
  assumes "Save path env d s = (Inr (), d')"
  shows "committed s d'"
proof (cases rule: Save_cases [of path env d s])
  case (3 r)
  with assms show ?thesis by (simp add: committed_def)
qed (use assms in auto)

lemma Save_no_fault:
  "path \<noteq> [] \<Longrightarrow> StateFile_Validate s = Inr () \<Longrightarrow>
   Save path (no_fault, no_fault) d s = (Inr (), \<lparr>d_state = Stored s, d_checkpoint = Stored (checkpoint_of s)\<rparr>)"
  by (simp add: Save_def SaveStateFile_def saveCheckpoint_no_fault)

section \<open>Loading\<close>

lemma checkpoint_of_fields [simp]:
  "c_Generation (checkpoint_of s) = Generation s" "c_CurrentHash (checkpoint_of s) = CurrentHash s"
  by (simp_all add: checkpoint_of_def)

lemma checkpoint_accepts_self: "StateFile_Validate s = Inr () \<Longrightarrow> ValidateState (checkpoint_of s) s = Inr ()"
  by (simp add: ValidateState_Inr checkpoint_of_valid)

lemma LoadStateCheckpoint_of:
  "StateFile_Validate s = Inr () \<Longrightarrow> LoadStateCheckpoint (Stored (checkpoint_of s)) = Inr (checkpoint_of s)"
  by (simp add: LoadStateCheckpoint_def checkpoint_of_valid)

lemma Load_committed:
  assumes "path \<noteq> []" and "committed s d"
  shows "Load path env d = (Inr s, d)"
proof -
  from assms(2) have v: "StateFile_Validate s = Inr ()" and d: "d = \<lparr>d_state = Stored s, d_checkpoint = Stored (checkpoint_of s)\<rparr>"
    by (simp_all add: committed_def)
  obtain reg where "LoadStateFile (Stored s) no_options = Inr (s, reg)" using LoadStateFile_Stored [OF v] by blast
  with assms(1) v show ?thesis
    by (simp add: Load_def d LoadStateCheckpoint_of checkpoint_accepts_self)
qed

definition successor :: "StateFile \<Rightarrow> StateFile \<Rightarrow> bool" where
  "successor p n \<longleftrightarrow> StateFile_Validate p = Inr () \<and> StateFile_Validate n = Inr ()
     \<and> unat (Generation n) = unat (Generation p) + 1 \<and> PreviousHash n = CurrentHash p"

text \<open>
  A step the program takes: it passes the progress check and increments the generation by one. (The progress
  check alone also accepts a jump of several generations, which the checkpoint would reject.)
\<close>

definition advances :: "StateFile \<Rightarrow> StateFile \<Rightarrow> bool" where
  "advances p n \<longleftrightarrow> ValidateStateProgress p n = Inr () \<and> unat (Generation n) = unat (Generation p) + 1"

lemma progress_successor: "advances p n \<Longrightarrow> successor p n"
  by (auto simp: advances_def successor_def ValidateStateProgress_Inr)

lemma checkpoint_accepts_successor: "successor p n \<Longrightarrow> ValidateState (checkpoint_of p) n = Inr ()"
  by (simp add: successor_def ValidateState_Inr checkpoint_of_valid)

lemma Load_ahead:
  assumes "path \<noteq> []" and "successor p n"
  shows "Load path env \<lparr>d_state = Stored n, d_checkpoint = Stored (checkpoint_of p)\<rparr> =
    (let (r, d') = saveCheckpoint (snd env) \<lparr>d_state = Stored n, d_checkpoint = Stored (checkpoint_of p)\<rparr> n
     in (bindE r (\<lambda>_. Inr n), d'))"
proof -
  from assms(2) have v: "StateFile_Validate p = Inr ()" "StateFile_Validate n = Inr ()"
    and g: "Generation p < Generation n" by (simp_all add: successor_def word_less_nat_alt)
  obtain reg where "LoadStateFile (Stored n) no_options = Inr (n, reg)" using LoadStateFile_Stored [OF v(2)] by blast
  with assms(1) v g checkpoint_accepts_successor [OF assms(2)] show ?thesis
    by (simp add: Load_def LoadStateCheckpoint_of)
qed

section \<open>Recovery\<close>

lemma Recover_Inr:
  assumes "Recover path env d prev n = (Inr (), d')"
  shows "committed n d'"
  using assms by (auto simp: Recover_def split: sum.splits intro: Save_Inr)

lemma checkRecoveryFiles_between:
  assumes "path \<noteq> []" and "successor p n" and "between p n d"
  shows "checkRecoveryFiles path d (Some p) n = Inr ()"
proof -
  from assms(2) have v: "StateFile_Validate p = Inr ()" "StateFile_Validate n = Inr ()" by (simp_all add: successor_def)
  have load: "\<exists>reg. LoadStateFile (Stored s) no_options = Inr (s, reg)" if "s \<in> {p, n}" for s
    using that v LoadStateFile_Stored by blast
  then obtain rp rn where "LoadStateFile (Stored p) no_options = Inr (p, rp)" "LoadStateFile (Stored n) no_options = Inr (n, rn)"
    by blast
  then show ?thesis
    using assms(1,3) v checkpoint_accepts_successor [OF assms(2)]
    by (auto simp: between_def committed_def checkRecoveryFiles_def LoadStateCheckpoint_of recoveryReadError_def
        recoveryStateMatches_def checkpoint_accepts_self)
qed

lemma Recover_between:
  assumes "path \<noteq> []" and "advances p n" and "between p n d"
  shows "Recover path env d (Some p) n = Save path env d n"
  using checkRecoveryFiles_between [OF assms(1) progress_successor [OF assms(2)] assms(3)] assms(2)
    progress_successor [OF assms(2)]
  by (simp add: Recover_def validateRecoveryTransition_def successor_def advances_def)

lemma Save_between:
  assumes "between p n d"
  shows "between p n (snd (Save path env d n))"
  using assms by (cases rule: Save_cases [of path env d n]) (auto simp: between_def committed_def)

section \<open>The state store interface\<close>

text \<open>Repeated recovery attempts, each with its own failures.\<close>

primrec recover_all :: "('e \<Rightarrow> 'd \<Rightarrow> StateFile option \<Rightarrow> StateFile \<Rightarrow> unit res \<times> 'd) \<Rightarrow> 'e list \<Rightarrow> 'd
    \<Rightarrow> StateFile \<Rightarrow> StateFile \<Rightarrow> 'd" where
  "recover_all rec [] d p n = d"
| "recover_all rec (e # es) d p n = recover_all rec es (snd (rec e d (Some p) n)) p n"

text \<open>
  What the status controller relies on. A store is committed to one state or caught between two; an interrupted
  save leaves it between the two, a later load sees one of them, and recovery can be repeated until it
  commits the new one.
\<close>

locale state_store =
  fixes load :: "'e \<Rightarrow> 'd \<Rightarrow> StateFile res \<times> 'd"
    and save :: "'e \<Rightarrow> 'd \<Rightarrow> StateFile \<Rightarrow> unit res \<times> 'd"
    and recover :: "'e \<Rightarrow> 'd \<Rightarrow> StateFile option \<Rightarrow> StateFile \<Rightarrow> unit res \<times> 'd"
    and is_committed :: "StateFile \<Rightarrow> 'd \<Rightarrow> bool"
    and is_between :: "StateFile \<Rightarrow> StateFile \<Rightarrow> 'd \<Rightarrow> bool"
    and good :: "'e"
  assumes committed_load: "is_committed s d \<Longrightarrow> load e d = (Inr s, d)"
    and save_commits: "save e d s = (Inr (), d') \<Longrightarrow> is_committed s d'"
    and save_between: "is_committed p d \<Longrightarrow> advances p n \<Longrightarrow> is_between p n (snd (save e d n))"
    and recover_commits: "recover e d (Some p) n = (Inr (), d') \<Longrightarrow> is_committed n d'"
    and recover_between: "is_between p n d \<Longrightarrow> advances p n \<Longrightarrow>
      is_between p n (snd (recover e d (Some p) n))"
    and recover_good: "is_between p n d \<Longrightarrow> advances p n \<Longrightarrow> fst (recover good d (Some p) n) = Inr ()"
    and load_good: "is_between p n d \<Longrightarrow> advances p n \<Longrightarrow>
      \<exists>s\<in>{p, n}. fst (load good d) = Inr s \<and> is_committed s (snd (load good d))"

context state_store
begin

lemma recover_all_between:
  "is_between p n d \<Longrightarrow> advances p n \<Longrightarrow> is_between p n (recover_all recover es d p n)"
  by (induction es arbitrary: d) (simp_all add: recover_between)

lemma interrupted_save:
  assumes "is_committed p d" and "advances p n"
  shows "\<exists>s\<in>{p, n}. fst (load good (recover_all recover es (snd (save e d n)) p n)) = Inr s"
    and "\<exists>d'. recover good (recover_all recover es (snd (save e d n)) p n) (Some p) n = (Inr (), d') \<and> is_committed n d'
           \<and> load e' d' = (Inr n, d')"
proof -
  have b: "is_between p n (recover_all recover es (snd (save e d n)) p n)"
    by (intro recover_all_between save_between assms)
  from load_good [OF b assms(2)] show "\<exists>s\<in>{p, n}. fst (load good (recover_all recover es (snd (save e d n)) p n)) = Inr s" by blast
  obtain d' where "recover good (recover_all recover es (snd (save e d n)) p n) (Some p) n = (Inr (), d')"
    using recover_good [OF b assms(2)] by (metis prod.collapse)
  then show "\<exists>d'. recover good (recover_all recover es (snd (save e d n)) p n) (Some p) n = (Inr (), d') \<and> is_committed n d'
           \<and> load e' d' = (Inr n, d')"
    using recover_commits committed_load by blast
qed

end

text \<open>The file state store implements the interface.\<close>

interpretation file_store: state_store "Load (CHR ''/'' # path)" "Save (CHR ''/'' # path)" "Recover (CHR ''/'' # path)"
  committed between "(no_fault, no_fault)" for path
proof
  fix s p n :: StateFile and d d' :: Disk and e :: store_env
  show "committed s d \<Longrightarrow> Load (CHR ''/'' # path) e d = (Inr s, d)" by (rule Load_committed) simp
  show "Save (CHR ''/'' # path) e d s = (Inr (), d') \<Longrightarrow> committed s d'" by (rule Save_Inr)
  show "committed p d \<Longrightarrow> between p n (snd (Save (CHR ''/'' # path) e d n))"
    by (rule Save_between) (simp add: between_def)
  show "Recover (CHR ''/'' # path) e d (Some p) n = (Inr (), d') \<Longrightarrow> committed n d'" by (rule Recover_Inr)
  assume prog: "advances p n" and b: "between p n d"
  have rec: "Recover (CHR ''/'' # path) e d (Some p) n = Save (CHR ''/'' # path) e d n" for e
    by (rule Recover_between [OF _ prog b]) simp
  show "between p n (snd (Recover (CHR ''/'' # path) e d (Some p) n))"
    using Save_between [OF b] by (simp add: rec)
  have v: "StateFile_Validate n = Inr ()" and succ: "successor p n"
    using progress_successor [OF prog] by (simp_all add: successor_def)
  show "fst (Recover (CHR ''/'' # path) (no_fault, no_fault) d (Some p) n) = Inr ()"
    using v by (simp add: rec Save_no_fault)
  show "\<exists>s\<in>{p, n}. fst (Load (CHR ''/'' # path) (no_fault, no_fault) d) = Inr s
      \<and> committed s (snd (Load (CHR ''/'' # path) (no_fault, no_fault) d))"
  proof (cases "committed p d \<or> committed n d")
    case True
    then show ?thesis using Load_committed by fastforce
  next
    case False
    with b have d: "d = \<lparr>d_state = Stored n, d_checkpoint = Stored (checkpoint_of p)\<rparr>" by (auto simp: between_def)
    then show ?thesis
      using Load_ahead [OF _ succ, of "CHR ''/'' # path" "(no_fault, no_fault)"] v
      by (simp add: saveCheckpoint_no_fault committed_def)
  qed
qed

section \<open>What a load accepts\<close>

lemma checkpoint_of_eq:
  "StateCheckpoint_Validate c = Inr () \<Longrightarrow> c_Generation c = Generation s \<Longrightarrow> c_CurrentHash c = CurrentHash s
   \<Longrightarrow> c = checkpoint_of s"
  by (cases c) (simp add: StateCheckpoint_Validate_def checkpoint_of_def)

lemma LoadStateFile_Inr: "LoadStateFile f opts = Inr (s, reg) \<Longrightarrow> f = Stored s \<and> StateFile_Validate s = Inr ()"
  by (auto simp: LoadStateFile_def split: content.splits)

lemma saveCheckpoint_committed:
  assumes "StateFile_Validate s = Inr ()" and "d_state d = Stored s" and "fst (saveCheckpoint env d s) = Inr ()"
  shows "committed s (snd (saveCheckpoint env d s))"
  using assms(2,3) by (cases rule: saveCheckpoint_cases [OF assms(1), of env d]) (simp_all add: committed_def assms(1))

lemma Load_Inr:
  assumes "fst (Load path env d) = Inr s"
  shows "d_state d = Stored s" and "committed s (snd (Load path env d))"
    and "d_checkpoint d = Stored c \<Longrightarrow> ValidateState c s = Inr ()"
proof -
  have path: "path \<noteq> []" using assms by (auto simp: Load_def)
  have save: "committed t (snd (saveCheckpoint e d t))" if "fst (saveCheckpoint e d t) = Inr ()"
    "StateFile_Validate t = Inr ()" "d_state d = Stored t" for t e
    using that by (intro saveCheckpoint_committed)
  consider (missing) e where "LoadStateCheckpoint (d_checkpoint d) = Inl e"
    | (found) k where "LoadStateCheckpoint (d_checkpoint d) = Inr k" by (cases "LoadStateCheckpoint (d_checkpoint d)") auto
  then have "d_state d = Stored s \<and> committed s (snd (Load path env d)) \<and> (d_checkpoint d = Stored c \<longrightarrow> ValidateState c s = Inr ())"
  proof cases
    case missing
    then have nc: "d_checkpoint d = Stored c \<longrightarrow> errors_is e ErrStateNotFound \<longrightarrow> ValidateState c s = Inr ()"
      by (auto simp: LoadStateCheckpoint_def bindE_eq_Inl StateCheckpoint_Validate_def validateStateHash_def split: if_splits option.splits)
    from missing path assms obtain reg where l: "LoadStateFile (d_state d) no_options = Inr (s, reg)"
      and r: "fst (saveCheckpoint (snd env) d s) = Inr ()" "snd (Load path env d) = snd (saveCheckpoint (snd env) d s)"
      and nf: "errors_is e ErrStateNotFound"
      by (auto simp: Load_def case_prod_beta Let_def split: if_splits sum.splits)
    with LoadStateFile_Inr [OF l] save nc show ?thesis by simp
  next
    case found
    then have k: "StateCheckpoint_Validate k = Inr ()" "d_checkpoint d = Stored k"
      by (auto simp: LoadStateCheckpoint_def split: content.splits)
    from found path assms obtain reg where l: "LoadStateFile (d_state d) no_options = Inr (s, reg)"
      and v: "ValidateState k s = Inr ()"
      and r: "c_Generation k < Generation s \<and> fst (saveCheckpoint (snd env) d s) = Inr ()
          \<and> snd (Load path env d) = snd (saveCheckpoint (snd env) d s)
        \<or> \<not> c_Generation k < Generation s \<and> snd (Load path env d) = d"
      by (auto simp: Load_def case_prod_beta Let_def split: if_splits sum.splits)
    note s = LoadStateFile_Inr [OF l]
    have "committed s d" if "\<not> c_Generation k < Generation s"
    proof -
      from that v have "c_Generation k = Generation s" "c_CurrentHash k = CurrentHash s"
        by (auto simp: ValidateState_Inr word_less_nat_alt)
      with k(1) have "k = checkpoint_of s" by (rule checkpoint_of_eq)
      with k s show ?thesis by (cases d) (simp add: committed_def)
    qed
    with r s save v k(2) show ?thesis by auto
  qed
  then show "d_state d = Stored s" "committed s (snd (Load path env d))"
    "d_checkpoint d = Stored c \<Longrightarrow> ValidateState c s = Inr ()" by simp_all
qed

section \<open>Main results\<close>

text \<open>
  What was saved is loaded: after a \<open>Save\<close> that reports success, every later \<open>Load\<close> returns the saved state and
  changes nothing, and \<open>Confirm\<close> accepts it, whatever was on the disk before.
\<close>

lemma save_load_roundtrip:
  assumes "Save path env d s = (Inr (), d')"
  shows "Load path env' d' = (Inr s, d') \<and> Confirm d' s = Inr ()"
proof -
  have c: "committed s d'" using assms by (rule Save_Inr)
  moreover have "path \<noteq> []" using assms by (auto simp: Save_def)
  ultimately have "Load path env' d' = (Inr s, d')" by (intro Load_committed)
  moreover have "Confirm d' s = Inr ()"
    using c LoadStateFile_Stored [of s] by (auto simp: Confirm_def committed_def LoadStateCheckpoint_of)
  ultimately show ?thesis by simp
qed

text \<open>
  C12 A save can be interrupted anywhere without losing or forging state: starting from a disk that holds \<open>p\<close>, a save of
  its next generation \<open>n\<close> may fail at any system call, and any number of recovery attempts may fail as well; still a
  \<open>Load\<close> then returns \<open>p\<close> or \<open>n\<close>, and the next \<open>Recover\<close> without a fault commits \<open>n\<close>, which every later \<open>Load\<close> returns.
\<close>

theorem interrupted_save_recovers:
  assumes "committed p d" and "advances p n"
  shows "(\<exists>s\<in>{p, n}. fst (Load (CHR ''/'' # path) (no_fault, no_fault)
            (recover_all (Recover (CHR ''/'' # path)) attempts (snd (Save (CHR ''/'' # path) env d n)) p n)) = Inr s)
    \<and> (\<exists>d'. Recover (CHR ''/'' # path) (no_fault, no_fault)
            (recover_all (Recover (CHR ''/'' # path)) attempts (snd (Save (CHR ''/'' # path) env d n)) p n) (Some p) n = (Inr (), d')
          \<and> committed n d' \<and> Load (CHR ''/'' # path) env' d' = (Inr n, d'))"
  using file_store.interrupted_save [OF assms] by blast

theorem interrupted_save_recovers_witness:
  "\<exists>d'. Recover ''/s'' (no_fault, no_fault)
      (recover_all (Recover ''/s'') [(no_fault\<lparr>e_create := Some (Msg ''disk full'')\<rparr>, no_fault)]
         (snd (Save ''/s'' (no_fault, no_fault\<lparr>e_sync := Some (Msg ''io'')\<rparr>)
            \<lparr>d_state = Stored (ex_state 1 []), d_checkpoint = Stored (checkpoint_of (ex_state 1 []))\<rparr>
            (ex_state 2 (computeHash (ex_state 1 []))))) (ex_state 1 []) (ex_state 2 (computeHash (ex_state 1 []))))
      (Some (ex_state 1 [])) (ex_state 2 (computeHash (ex_state 1 []))) = (Inr (), d')
    \<and> committed (ex_state 2 (computeHash (ex_state 1 []))) d'"
proof -
  have "committed (ex_state 1 []) \<lparr>d_state = Stored (ex_state 1 []), d_checkpoint = Stored (checkpoint_of (ex_state 1 []))\<rparr>"
    by (simp add: committed_def)
  moreover have "advances (ex_state 1 []) (ex_state 2 (computeHash (ex_state 1 [])))"
    using ex_progress by (simp add: advances_def)
  ultimately show ?thesis
    using interrupted_save_recovers [of "ex_state 1 []" _ "ex_state 2 (computeHash (ex_state 1 []))" "''s''"] by blast
qed

text \<open>
  C11 A rolled back state directory is not loaded: whenever \<open>Load\<close> succeeds, it returns the valid content of the state file,
  which is the checkpointed state or its direct hash-linked successor if a checkpoint exists, and the checkpoint on the
  disk afterwards is the one of the returned state.
\<close>

theorem load_no_rollback:
  assumes "fst (Load path env d) = Inr s"
  shows "d_state d = Stored s \<and> StateFile_Validate s = Inr ()
    \<and> snd (Load path env d) = \<lparr>d_state = Stored s, d_checkpoint = Stored (checkpoint_of s)\<rparr>
    \<and> (\<forall>c. d_checkpoint d = Stored c \<longrightarrow>
         Generation s = c_Generation c \<and> CurrentHash s = c_CurrentHash c
       \<or> unat (Generation s) = unat (c_Generation c) + 1 \<and> PreviousHash s = c_CurrentHash c)"
  using Load_Inr [OF assms] by (auto simp: committed_def ValidateState_Inr)

theorem load_no_rollback_witness:
  "fst (Load ''/s'' (no_fault, no_fault) \<lparr>d_state = Stored (ex_state 1 []),
      d_checkpoint = Stored (checkpoint_of (ex_state 2 (computeHash (ex_state 1 []))))\<rparr>) \<noteq> Inr (ex_state 1 [])"
proof
  assume "fst (Load ''/s'' (no_fault, no_fault) \<lparr>d_state = Stored (ex_state 1 []),
      d_checkpoint = Stored (checkpoint_of (ex_state 2 (computeHash (ex_state 1 []))))\<rparr>) = Inr (ex_state 1 [])"
  from load_no_rollback [OF this] show False by (auto simp: checkpoint_of_def)
qed

end
