(* ===== verification/Controller.thy ===== *)
theory Controller
  imports Rotation_Safety Status_Store_Safety State_Store
begin

text \<open>
  The status controller (\<^verbatim>\<open>internal/status/controller.go\<close>, \<^verbatim>\<open>activation.go\<close>, \<^verbatim>\<open>persistence.go\<close>, \<^verbatim>\<open>probe_diagnostics.go\<close>)
  and its scheduler (\<^verbatim>\<open>scheduler.go\<close>): metadata probes that observe a rotation, persist the new state and only then publish
  it, deep probes, and the discovery of unknown keys for \<open>Decrypt\<close>.

  The probe gate admits one probe at a time, so a probe is a function on the controller. What the probe meets outside is its
  environment: whether the gate was obtained, the state of the context, one clock reading per call of the clock, the
  responses of Transit and the failures of the file system. The disk belongs to the state because the probe changes it, and
  the calls of the probe observer are collected as events.
\<close>

section \<open>Data\<close>

datatype ProbeKind = ProbeKindMetadata | ProbeKindDeep

record ProbeObservation =
  po_Kind :: ProbeKind
  po_Status :: string
  po_Duration :: int
  po_Reason :: HealthReason
  po_ErrorClass :: string

record PromotionObservation =
  PreviousKeyIDHash :: string
  KeyIDHash :: string
  PreviousTransitVersion :: int
  pr_TransitVersion :: int

datatype controller_event =
    ObserveStatusProbe ProbeObservation
  | ObserveKeyPromotion PromotionObservation
  | ObserveClockRegression

text \<open>No probe observer, one without and one with the optional \<open>ClockRegressionObserver\<close> interface.\<close>

datatype probe_observer = NoProbeObserver | PlainObserver | RegressionObserver

text \<open>The \<open>StateStore\<close> interface is nil or a \<open>FileStateStore\<close> with its path.\<close>

datatype StateStore = NoStateStore | FileStateStore string

record stateCommit =
  sc_previous :: "StateFile option"
  sc_next :: StateFile

record activationWait =
  a_keyID :: string
  a_deadline :: Deadline

definition no_activation :: activationWait where
  "no_activation = \<lparr>a_keyID = [], a_deadline = no_deadline\<rparr>"

record ProbeRequest =
  pq_MountPath :: string
  pq_KeyName :: string
  pq_KeyVersion :: int
  pq_AssociatedData :: string

record ProbeResult =
  ps_Ciphertext :: string
  ps_KeyVersion :: int

record Controller =
  c_store :: Store
  c_observer :: Observer
  c_stateStore :: StateStore
  c_mountPath :: string
  c_keyName :: string
  c_metadataBreaker :: circuitBreaker
  c_deepBreaker :: circuitBreaker
  c_probeObserver :: probe_observer
  c_refreshInterval :: int
  c_refreshTimeout :: int
  c_nextRefresh :: Deadline
  c_refreshErr :: "go_error option"
  c_pendingCommit :: "stateCommit option"
  c_activation :: activationWait
  c_disk :: Disk
  c_events :: "controller_event list"

record probe_env =
  pe_entry :: go_context
  pe_gate :: "go_error option"
  pe_ctx :: go_context
  pe_duration :: int
  pe_now :: Reading
  pe_allowReading :: Reading
  pe_recordReading :: Reading
  pe_storeReading :: Reading
  pe_activationReading :: Reading
  pe_ReadDisableUpsert :: "string \<Rightarrow> bool res"
  pe_ReadKeyProfile :: "string \<Rightarrow> string \<Rightarrow> KeyProfile res"
  pe_ProbeEncryptDecrypt :: "ProbeRequest \<Rightarrow> ProbeResult res"
  pe_recover :: store_env
  pe_save :: store_env

definition probeAssociatedDataValue :: string where
  "probeAssociatedDataValue = ''openbao-kubernetes-kms/status-probe/v1''"

section \<open>Circuit breakers\<close>

definition breakerForKind :: "ProbeKind \<Rightarrow> Controller \<Rightarrow> circuitBreaker" where
  "breakerForKind kind c = (if kind = ProbeKindDeep then c_deepBreaker c else c_metadataBreaker c)"

text \<open>An update through the pointer that \<open>breakerForKind\<close> returns.\<close>

definition set_breaker :: "ProbeKind \<Rightarrow> circuitBreaker \<Rightarrow> Controller \<Rightarrow> Controller" where
  "set_breaker kind b c = (if kind = ProbeKindDeep then c\<lparr>c_deepBreaker := b\<rparr> else c\<lparr>c_metadataBreaker := b\<rparr>)"

definition publishCircuitBreakerState :: "Reading \<Rightarrow> Reading \<Rightarrow> Controller \<Rightarrow> Controller" where
  "publishCircuitBreakerState r r' c =
    c\<lparr>c_store := UpdateCircuitBreaker (c_store c)
        (aggregateCircuitBreakerSnapshots (breaker_snapshot (c_metadataBreaker c) r) (breaker_snapshot (c_deepBreaker c) r'))\<rparr>"

definition allowProbe :: "ProbeKind \<Rightarrow> Reading \<Rightarrow> Reading \<Rightarrow> Controller \<Rightarrow> bool \<times> Controller" where
  "allowProbe kind now reading c =
    (let (allowed, b) = allow (breakerForKind kind c) now
     in (allowed, publishCircuitBreakerState reading reading (set_breaker kind b c)))"

definition recordProbeFailure :: "ProbeKind \<Rightarrow> Reading \<Rightarrow> Reading \<Rightarrow> Controller \<Rightarrow> Controller" where
  "recordProbeFailure kind now reading c =
    publishCircuitBreakerState reading reading (set_breaker kind (recordFailure (breakerForKind kind c) now) c)"

definition recordProbeSuccess :: "ProbeKind \<Rightarrow> Reading \<Rightarrow> Controller \<Rightarrow> Controller" where
  "recordProbeSuccess kind reading c =
    publishCircuitBreakerState reading reading (set_breaker kind (recordSuccess (breakerForKind kind c)) c)"

section \<open>Failures and observations\<close>

definition metadataFailed :: "Reading \<Rightarrow> Reading \<Rightarrow> HealthReason \<Rightarrow> go_error \<Rightarrow> Controller \<Rightarrow> unit res \<times> Controller" where
  "metadataFailed now clock reason err c =
    (let failure = ProbeError reason err
     in (Inl failure, c\<lparr>c_store := publishMetadataUnhealthy (c_store c) now (failureForProbe (Some failure)) clock\<rparr>))"

definition deepFailed :: "HealthReason \<Rightarrow> go_error \<Rightarrow> Controller \<Rightarrow> unit res \<times> Controller" where
  "deepFailed reason err c =
    (let failure = ProbeError reason err
     in (Inl failure, c\<lparr>c_store := publishDeepUnhealthy (c_store c) (failureForProbe (Some failure))\<rparr>))"

definition profileFailureReason :: "go_error \<Rightarrow> HealthReason" where
  "profileFailureReason err = (if errors_is err ErrVersionRollback then ReasonVersionRollback else ReasonProfileInvalid)"

definition observeProbe :: "ProbeObservation \<Rightarrow> Controller \<Rightarrow> Controller" where
  "observeProbe obs c =
    (if c_probeObserver c = NoProbeObserver then c else c\<lparr>c_events := c_events c @ [ObserveStatusProbe obs]\<rparr>)"

definition observeClockRegression :: "Controller \<Rightarrow> Controller" where
  "observeClockRegression c =
    (if c_probeObserver c = RegressionObserver then c\<lparr>c_events := c_events c @ [ObserveClockRegression]\<rparr> else c)"

definition observePromotion :: "KeySnapshot \<Rightarrow> Controller \<Rightarrow> Controller" where
  "observePromotion previous c =
    (let (active, ok) = store_Active (c_store c)
     in if \<not> ok \<or> KubernetesKeyID previous = [] \<or> KubernetesKeyID previous = KubernetesKeyID active
           \<or> c_probeObserver c = NoProbeObserver
        then c
        else c\<lparr>c_events := c_events c @ [ObserveKeyPromotion
               \<lparr>PreviousKeyIDHash = HashValue (KubernetesKeyID previous), KeyIDHash = HashValue (KubernetesKeyID active),
                PreviousTransitVersion = TransitVersion previous, pr_TransitVersion = TransitVersion active\<rparr>]\<rparr>)"

text \<open>The deferred function of a probe: the named result is observed when the probe returns.\<close>

definition with_observation :: "ProbeKind \<Rightarrow> int \<Rightarrow> unit res \<times> Controller \<Rightarrow> unit res \<times> Controller" where
  "with_observation kind duration result =
    (let (r, c) = result;
         err = (case r of Inl e \<Rightarrow> Some e | Inr _ \<Rightarrow> None);
         failure = failureForProbe err
     in (r, observeProbe \<lparr>po_Kind = kind, po_Status = probeStatus err, po_Duration = duration,
                          po_Reason = f_reason failure, po_ErrorClass = f_errorClass failure\<rparr> c))"

section \<open>Activation delay\<close>

definition stableCandidate :: "Controller \<Rightarrow> StateFile \<Rightarrow> KeyProfile \<Rightarrow> SnapshotStateRecord option" where
  "stableCandidate c state profile =
    (case pendingRecord state of
       None \<Rightarrow> None
     | Some pending \<Rightarrow>
        if r_TransitVersion pending = LatestVersion profile \<and> r_StableAtUnix pending \<noteq> 0
           \<and> r_StableObservationCount pending \<ge> RequireStableObservationCount (policy (c_observer c))
        then Some pending else None)"

definition promotionReady :: "Controller \<Rightarrow> StateFile \<Rightarrow> KeyProfile \<Rightarrow> Reading \<Rightarrow> bool" where
  "promotionReady c state profile now =
    (if ActivationDelay (policy (c_observer c)) = 0 then True
     else case stableCandidate c state profile of
            None \<Rightarrow> False
          | Some pending \<Rightarrow> a_keyID (c_activation c) = r_KubernetesKeyID pending \<and> \<not> Pending (a_deadline (c_activation c)) now)"

definition confirmActivation :: "StateFile \<Rightarrow> KeyProfile \<Rightarrow> Reading \<Rightarrow> Controller \<Rightarrow> Controller" where
  "confirmActivation state profile clock c =
    (case stableCandidate c state profile of
       None \<Rightarrow> c\<lparr>c_activation := no_activation\<rparr>
     | Some pending \<Rightarrow>
        if a_keyID (c_activation c) \<noteq> r_KubernetesKeyID pending
        then c\<lparr>c_activation := \<lparr>a_keyID = r_KubernetesKeyID pending,
                                a_deadline = clock_After clock (ActivationDelay (policy (c_observer c)))\<rparr>\<rparr>
        else c)"

section \<open>Persistence\<close>

text \<open>
  A method call on a nil interface panics. The controller only calls a nil state store when a commit is pending, and a commit
  is only recorded when there is a state store (lemma \<open>no_nil_store\<close>).
\<close>

definition nil_dereference :: go_error where
  "nil_dereference = Msg ''runtime error: invalid memory address or nil pointer dereference''"

definition ss_Recover :: "StateStore \<Rightarrow> store_env \<Rightarrow> Disk \<Rightarrow> StateFile option \<Rightarrow> StateFile \<Rightarrow> unit res \<times> Disk" where
  "ss_Recover ss env d previous attempted =
    (case ss of NoStateStore \<Rightarrow> (Inl nil_dereference, d) | FileStateStore path \<Rightarrow> Recover path env d previous attempted)"

definition ss_Save :: "StateStore \<Rightarrow> store_env \<Rightarrow> Disk \<Rightarrow> StateFile \<Rightarrow> unit res \<times> Disk" where
  "ss_Save ss env d state =
    (case ss of NoStateStore \<Rightarrow> (Inl nil_dereference, d) | FileStateStore path \<Rightarrow> Save path env d state)"

definition ss_Load :: "StateStore \<Rightarrow> store_env \<Rightarrow> Disk \<Rightarrow> StateFile res \<times> Disk" where
  "ss_Load ss env d = (case ss of NoStateStore \<Rightarrow> (Inl nil_dereference, d) | FileStateStore path \<Rightarrow> Load path env d)"

definition ss_Confirm :: "StateStore \<Rightarrow> Disk \<Rightarrow> StateFile \<Rightarrow> unit res" where
  "ss_Confirm ss d expected = (case ss of NoStateStore \<Rightarrow> Inl nil_dereference | FileStateStore path \<Rightarrow> Confirm d expected)"

definition stateForObservation :: "store_env \<Rightarrow> Controller \<Rightarrow> (StateFile \<times> bool) res \<times> Controller" where
  "stateForObservation env c =
    (case c_pendingCommit c of
       Some commit \<Rightarrow>
        (let (r, d) = ss_Recover (c_stateStore c) env (c_disk c) (sc_previous commit) (sc_next commit)
         in (bindE r (\<lambda>_. Inr (sc_next commit, True)), c\<lparr>c_disk := d\<rparr>))
     | None \<Rightarrow> (Inr (store_State (c_store c)), c))"

definition saveState :: "store_env \<Rightarrow> StateFile \<Rightarrow> bool \<Rightarrow> StateFile \<Rightarrow> Controller \<Rightarrow> unit res \<times> Controller" where
  "saveState env previous hasPrevious nxt c =
    (let commit = \<lparr>sc_previous = (if hasPrevious then Some previous else None), sc_next = nxt\<rparr>;
         (r, d) = ss_Save (c_stateStore c) env (c_disk c) nxt
     in (r, c\<lparr>c_pendingCommit := Some commit, c_disk := d\<rparr>))"

text \<open>The loop of \<open>observationOnly\<close> over both slices, which have the same length.\<close>

fun observation_records :: "SnapshotStateRecord list \<Rightarrow> SnapshotStateRecord list \<Rightarrow> bool \<Rightarrow> bool" where
  "observation_records (before # bs) (after # as) changed =
    (if before = after then observation_records bs as changed
     else if r_State before \<noteq> StatePending \<or> r_State after \<noteq> r_State before
        \<or> r_StableObservationCount after < r_StableObservationCount before
        \<or> (r_StableAtUnix before \<noteq> 0 \<and> r_StableAtUnix after \<noteq> r_StableAtUnix before)
     then False
     else if after\<lparr>r_StableObservationCount := r_StableObservationCount before, r_StableAtUnix := r_StableAtUnix before\<rparr> \<noteq> before
     then False
     else observation_records bs as True)"
| "observation_records _ _ changed = changed"

definition observationOnly :: "StateFile \<Rightarrow> StateFile \<Rightarrow> bool" where
  "observationOnly previous nxt =
    (case ValidateStateProgress previous nxt of
       Inl _ \<Rightarrow> False
     | Inr _ \<Rightarrow>
       if ActiveKeyID previous \<noteq> ActiveKeyID nxt \<or> length (Snapshots previous) \<noteq> length (Snapshots nxt) then False
       else observation_records (Snapshots previous) (Snapshots nxt) False)"

definition deferObservation :: "Reading \<Rightarrow> KeyProfile \<Rightarrow> Controller \<Rightarrow> bool \<times> Controller" where
  "deferObservation now profile c =
    (case c_pendingCommit c of
       None \<Rightarrow> (False, c)
     | Some commit \<Rightarrow>
        (case sc_previous commit of
           None \<Rightarrow> (False, c)
         | Some previous \<Rightarrow>
            if \<not> observationOnly previous (sc_next commit) then (False, c)
            else (case Discover (c_observer c) previous profile (Wall now) of
                    Inl _ \<Rightarrow> (False, c)
                  | Inr validated \<Rightarrow>
                     if or_Changed validated \<or> or_EncryptionBlocked validated then (False, c)
                     else (case ss_Confirm (c_stateStore c) (c_disk c) previous of
                             Inl _ \<Rightarrow> (False, c)
                           | Inr _ \<Rightarrow>
                              (let (published, s) = publishDeferredObservation (c_store c) (CurrentHash previous) now
                               in (published, c\<lparr>c_store := s\<rparr>))))))"

definition stateSaveFailed :: "probe_env \<Rightarrow> Reading \<Rightarrow> KeyProfile \<Rightarrow> go_error \<Rightarrow> Controller \<Rightarrow> unit res \<times> Controller" where
  "stateSaveFailed env now profile cause c =
    (let err = Wrap ''save registry state'' [Sentinel ErrProbeFailed, cause];
         (deferred, c) = deferObservation now profile c
     in if deferred
        then (Inl (ProbeError ReasonStateSaveFailed err), recordProbeSuccess ProbeKindMetadata (pe_recordReading env) c)
        else metadataFailed now (pe_storeReading env) ReasonStateSaveFailed err c)"

section \<open>Metadata probes\<close>

definition bootstrap_refused :: "AutoBootstrapAssessment \<Rightarrow> go_error" where
  "bootstrap_refused assessment =
    errw ErrStateUnavailable (''local registry state is absent and cannot be auto-bootstrapped: '' @ ba_Reason assessment)"

text \<open>The three ways \<open>publishObservation\<close> obtains its result.\<close>

definition observation_result :: "Controller \<Rightarrow> StateFile \<Rightarrow> bool \<Rightarrow> KeyProfile \<Rightarrow> Reading \<Rightarrow> bool \<Rightarrow> ObservationResult res" where
  "observation_result c state has profile now discover =
    (if has then
       (if discover then Discover (c_observer c) state profile (Wall now)
        else Observe (c_observer c) state profile (Wall now) (promotionReady c state profile now))
     else bindE (RebuildState (c_observer c) profile (Wall now)) (\<lambda>rebuilt.
       Inr \<lparr>or_State = rebuilt, or_Changed = True, or_Promoted = False, or_Pending = False,
            or_EncryptionBlocked = False, or_ClockRegressed = False\<rparr>))"

text \<open>The save of a changed state, before it is published.\<close>

definition persist_result ::
  "store_env \<Rightarrow> StateFile \<Rightarrow> bool \<Rightarrow> ObservationResult \<Rightarrow> Controller \<Rightarrow> unit res \<times> Controller" where
  "persist_result env state has result c =
    (if or_Changed result \<and> c_stateStore c \<noteq> NoStateStore then saveState env state has (or_State result) c
     else (Inr (), c))"

text \<open>The tail of \<open>publishObservation\<close>, after the store accepted the state.\<close>

definition publish_finished ::
  "probe_env \<Rightarrow> KeyProfile \<Rightarrow> bool \<Rightarrow> KeySnapshot \<Rightarrow> ObservationResult \<Rightarrow> Controller \<Rightarrow> unit res \<times> Controller" where
  "publish_finished env profile discover previous result c =
    (let c = c\<lparr>c_pendingCommit := None\<rparr>;
         c = (if \<not> discover then confirmActivation (or_State result) profile (pe_activationReading env) c else c);
         c = (if or_ClockRegressed result then observeClockRegression c else c);
         c = observePromotion previous c;
         c = recordProbeSuccess ProbeKindMetadata (pe_recordReading env) c
     in (failIf (or_EncryptionBlocked result) (errw ErrTransitKeyUnusable ''active Transit version cannot encrypt''), c))"

text \<open>The second half of \<open>publishObservation\<close>: persist the result, then publish it.\<close>

definition publish_result ::
  "probe_env \<Rightarrow> KeyProfile \<Rightarrow> Reading \<Rightarrow> bool \<Rightarrow> StateFile \<Rightarrow> bool \<Rightarrow> ObservationResult \<Rightarrow> Controller
     \<Rightarrow> unit res \<times> Controller" where
  "publish_result env profile now discover state has result c =
    (let previous = fst (store_Active (c_store c));
         (saved, c) = persist_result (pe_save env) state has result c
     in case saved of
          Inl err \<Rightarrow> stateSaveFailed env now profile err c
        | Inr _ \<Rightarrow>
           (case publishMetadata (c_store c) (or_State result) now (or_EncryptionBlocked result) (pe_storeReading env) of
              Inl err \<Rightarrow> metadataFailed now (pe_storeReading env) ReasonStatePublishFailed err c
            | Inr s \<Rightarrow> publish_finished env profile discover previous result (c\<lparr>c_store := s\<rparr>)))"

definition publishObservation :: "probe_env \<Rightarrow> KeyProfile \<Rightarrow> Reading \<Rightarrow> bool \<Rightarrow> Controller \<Rightarrow> unit res \<times> Controller" where
  "publishObservation env profile now discover c =
    (let (r, c) = stateForObservation (pe_recover env) c
     in case r of
          Inl err \<Rightarrow> stateSaveFailed env now profile err c
        | Inr (state, has) \<Rightarrow>
           (if \<not> has \<and> \<not> ba_Allowed (AssessAutoBootstrapState profile)
            then metadataFailed now (pe_storeReading env) ReasonStateUnavailable
                   (bootstrap_refused (AssessAutoBootstrapState profile)) c
            else case observation_result c state has profile now discover of
                   Inl err \<Rightarrow> metadataFailed now (pe_storeReading env) (profileFailureReason err) err c
                 | Inr result \<Rightarrow> publish_result env profile now discover state has result c))"

definition probe_body :: "probe_env \<Rightarrow> bool \<Rightarrow> Controller \<Rightarrow> unit res \<times> Controller" where
  "probe_body env discover c =
    (case contextErr (pe_ctx env) of
       Inl err \<Rightarrow> (Inl err, c)
     | Inr _ \<Rightarrow>
       (let now = pe_now env;
            (allowed, c) = allowProbe ProbeKindMetadata now (pe_allowReading env) c
        in if \<not> allowed
           then metadataFailed now (pe_storeReading env) ReasonCircuitBreakerOpen
                  (errw ErrCircuitBreakerOpen ''probe skipped while circuit breaker is open'') c
           else case pe_ReadDisableUpsert env (c_mountPath c) of
                  Inl err \<Rightarrow>
                    metadataFailed now (pe_storeReading env) ReasonUpsertCheckFailed
                      (Wrap ''Transit disable_upsert read failed'' [Sentinel ErrProbeFailed, err])
                      (recordProbeFailure ProbeKindMetadata now (pe_recordReading env) c)
                | Inr disableUpsert \<Rightarrow>
                   if \<not> disableUpsert
                   then metadataFailed now (pe_storeReading env) ReasonUpsertAllowed
                          (errw ErrProbeFailed ''Transit disable_upsert is false'') c
                   else case pe_ReadKeyProfile env (c_mountPath c) (c_keyName c) of
                          Inl err \<Rightarrow>
                            metadataFailed now (pe_storeReading env) ReasonMetadataReadFailed
                              (Wrap ''Transit metadata read failed'' [Sentinel ErrProbeFailed, err])
                              (recordProbeFailure ProbeKindMetadata now (pe_recordReading env) c)
                        | Inr profile \<Rightarrow> publishObservation env profile now discover c))"

definition probeOnce :: "probe_env \<Rightarrow> bool \<Rightarrow> Controller \<Rightarrow> unit res \<times> Controller" where
  "probeOnce env discover c = with_observation ProbeKindMetadata (pe_duration env) (probe_body env discover c)"

definition acquireProbe :: "probe_env \<Rightarrow> unit res" where
  "acquireProbe env =
    bindE (contextErr (pe_entry env)) (\<lambda>_. case pe_gate env of None \<Rightarrow> Inr () | Some err \<Rightarrow> Inl err)"

definition ProbeOnce :: "probe_env \<Rightarrow> Controller \<Rightarrow> unit res \<times> Controller" where
  "ProbeOnce env c = (case acquireProbe env of Inl err \<Rightarrow> (Inl err, c) | Inr _ \<Rightarrow> probeOnce env False c)"

section \<open>Discovery for decryption\<close>

definition prepareDecryptRefresh :: "Reading \<Rightarrow> string \<Rightarrow> Controller \<Rightarrow> (bool \<times> unit res) \<times> Controller" where
  "prepareDecryptRefresh now keyID c =
    (case store_Lookup (c_store c) keyID of
       Inr _ \<Rightarrow> ((False, Inr ()), c)
     | Inl _ \<Rightarrow>
       (let (state, ok) = store_State (c_store c)
        in if \<not> ok then ((False, Inl (Sentinel ErrStateUnavailable)), c)
           else if list_ex (\<lambda>record. r_KubernetesKeyID record = keyID) (Snapshots state) then ((False, Inr ()), c)
           else if Pending (c_nextRefresh c) now
           then ((False, case c_refreshErr c of None \<Rightarrow> Inr () | Some err \<Rightarrow> Inl err), c)
           else ((True, Inr ()), c\<lparr>c_nextRefresh := clock_After now (c_refreshInterval c)\<rparr>)))"

text \<open>
  The goroutine of a refresh: the attempt, the error later callers share, and the result of this caller. The look-up follows
  the release of the gate; it is taken at that moment.
\<close>

definition refresh_attempt :: "probe_env \<Rightarrow> string \<Rightarrow> Controller \<Rightarrow> unit res \<times> Controller" where
  "refresh_attempt env keyID c =
    (let (r, c) = probeOnce env True c;
         err = (case r of Inl e \<Rightarrow> Some e | Inr _ \<Rightarrow> None);
         interrupted = (case err of None \<Rightarrow> False
                        | Some e \<Rightarrow> errors_is e Context_Canceled \<or> errors_is e Context_DeadlineExceeded);
         c = c\<lparr>c_refreshErr := (if interrupted then Some (errw ErrProbeFailed ''metadata discovery interrupted'') else err)\<rparr>
     in case store_Lookup (c_store c) keyID of
          Inr _ \<Rightarrow> (Inr (), c)
        | Inl _ \<Rightarrow> (r, c))"

text \<open>
  The caller may stop waiting when its own context or the lifecycle context is done (\<open>stopped\<close>), but the attempt
  runs on and its effects stay.
\<close>

definition RefreshForDecrypt :: "probe_env \<Rightarrow> Reading \<Rightarrow> go_error option \<Rightarrow> string \<Rightarrow> Controller \<Rightarrow> unit res \<times> Controller" where
  "RefreshForDecrypt env now stopped keyID c =
    (case ParseKeyID keyID of
       Inl err \<Rightarrow> (Inl err, c)
     | Inr _ \<Rightarrow>
       (case acquireProbe env of
          Inl err \<Rightarrow> (Inl err, c)
        | Inr _ \<Rightarrow>
          (let ((start, err), c) = prepareDecryptRefresh now keyID c
           in if \<not> start then (err, c)
              else let (r, c) = refresh_attempt env keyID c
                   in (case stopped of None \<Rightarrow> r | Some e \<Rightarrow> Inl e, c))))"

section \<open>Deep probes\<close>

definition deep_invalid :: "string \<Rightarrow> go_error" where
  "deep_invalid m = errw ErrProbeFailed (''Transit deep probe failed: '' @ m)"

definition deep_body :: "probe_env \<Rightarrow> Controller \<Rightarrow> unit res \<times> Controller" where
  "deep_body env c =
    (case contextErr (pe_ctx env) of
       Inl err \<Rightarrow> (Inl err, c)
     | Inr _ \<Rightarrow>
       (let now = pe_now env;
            (allowed, c) = allowProbe ProbeKindDeep now (pe_allowReading env) c
        in if \<not> allowed
           then deepFailed ReasonCircuitBreakerOpen
                  (errw ErrCircuitBreakerOpen ''probe skipped while circuit breaker is open'') c
           else case activeForDeepProbe (c_store c) of
                  Inl err \<Rightarrow> (Inl err, c)
                | Inr active \<Rightarrow>
                   (case pe_ProbeEncryptDecrypt env
                           \<lparr>pq_MountPath = c_mountPath c, pq_KeyName = c_keyName c, pq_KeyVersion = TransitVersion active,
                            pq_AssociatedData = probeAssociatedDataValue\<rparr> of
                      Inl err \<Rightarrow>
                        deepFailed ReasonDeepProbeFailed
                          (Wrap ''Transit deep probe failed'' [Sentinel ErrProbeFailed, err])
                          (recordProbeFailure ProbeKindDeep now (pe_recordReading env) c)
                    | Inr result \<Rightarrow>
                       if length (ps_Ciphertext result) \<ge> MaxKMSCiphertextBytes
                       then deepFailed ReasonDeepProbeInvalid
                              (deep_invalid ''Transit ciphertext exceeds Kubernetes KMS v2 response limit'')
                              (recordProbeFailure ProbeKindDeep now (pe_recordReading env) c)
                       else if ps_KeyVersion result \<noteq> 0 \<and> ps_KeyVersion result \<noteq> TransitVersion active
                       then deepFailed ReasonDeepProbeInvalid
                              (deep_invalid ''Transit returned unexpected key version'')
                              (recordProbeFailure ProbeKindDeep now (pe_recordReading env) c)
                       else (Inr (), recordProbeSuccess ProbeKindDeep (pe_recordReading env)
                                       (c\<lparr>c_store := publishDeepHealthy (c_store c)\<rparr>)))))"

definition DeepProbeOnce :: "probe_env \<Rightarrow> Controller \<Rightarrow> unit res \<times> Controller" where
  "DeepProbeOnce env c =
    (case acquireProbe env of
       Inl err \<Rightarrow> (Inl err, c)
     | Inr _ \<Rightarrow> with_observation ProbeKindDeep (pe_duration env) (deep_body env c))"

definition deepProbeRequired :: "Controller \<Rightarrow> bool" where
  "deepProbeRequired c = store_deepProbeRequired (c_store c)"

section \<open>Construction\<close>

text \<open>The options, with \<open>None\<close> for a nil dependency.\<close>

record ControllerOptions =
  co_Store :: "Store option"
  co_Observer :: "Observer option"
  co_HasTransit :: bool
  co_StateStore :: StateStore
  co_MountPath :: string
  co_KeyName :: string
  co_Breaker :: CircuitBreakerOptions
  co_ProbeObserver :: probe_observer
  co_DecryptRefreshInterval :: int
  co_HasLifecycleContext :: bool
  co_DecryptRefreshTimeout :: int

definition loadState :: "store_env \<Rightarrow> Controller \<Rightarrow> unit res \<times> Controller" where
  "loadState env c =
    (let (r, d) = ss_Load (c_stateStore c) env (c_disk c);
         c = c\<lparr>c_disk := d\<rparr>
     in case r of
          Inl err \<Rightarrow> if errors_is err ErrStateNotFound then (Inr (), c) else (Inl err, c)
        | Inr state \<Rightarrow>
           (case validateStateScope (c_observer c) state of
              Inl err \<Rightarrow> (Inl err, c)
            | Inr _ \<Rightarrow>
               (case LoadState (c_store c) state of
                  Inl err \<Rightarrow> (Inl err, c)
                | Inr s \<Rightarrow> (Inr (), c\<lparr>c_store := s\<rparr>))))"

text \<open>The controller literal of \<open>NewController\<close>, with the defaults of its options.\<close>

definition initial_controller :: "ControllerOptions \<Rightarrow> Store \<Rightarrow> Observer \<Rightarrow> Disk \<Rightarrow> Controller" where
  "initial_controller opts store observer d =
    \<lparr>c_store = store, c_observer = observer, c_stateStore = co_StateStore opts, c_mountPath = co_MountPath opts,
     c_keyName = co_KeyName opts, c_metadataBreaker = newCircuitBreaker (co_Breaker opts),
     c_deepBreaker = newCircuitBreaker (co_Breaker opts), c_probeObserver = co_ProbeObserver opts,
     c_refreshInterval = (if co_DecryptRefreshInterval opts = 0 then 30 * 10 ^ 9 else co_DecryptRefreshInterval opts),
     c_refreshTimeout = (if co_DecryptRefreshTimeout opts = 0 then 5 * 10 ^ 9 else co_DecryptRefreshTimeout opts),
     c_nextRefresh = no_deadline, c_refreshErr = None, c_pendingCommit = None, c_activation = no_activation,
     c_disk = d, c_events = []\<rparr>"

text \<open>
  \<open>NewController\<close> with the two readings of its breakers, the failures of the load and the disk it finds; the result has
  the disk as the attempt leaves it.
\<close>

definition NewController ::
  "ControllerOptions \<Rightarrow> Reading \<Rightarrow> Reading \<Rightarrow> store_env \<Rightarrow> Disk \<Rightarrow> Controller res \<times> Disk" where
  "NewController opts r r' env d =
    (let reject = (\<lambda>m. (Inl (errw Status_ErrConfigInvalid m), d)) in
     if \<not> co_HasLifecycleContext opts then reject ''lifecycle context is required''
     else if co_DecryptRefreshTimeout opts < 0 then reject ''decrypt refresh timeout must not be negative''
     else case co_Store opts of None \<Rightarrow> reject ''status store is required''
     | Some store \<Rightarrow>
     case co_Observer opts of None \<Rightarrow> reject ''rotation observer is required''
     | Some observer \<Rightarrow>
     if \<not> co_HasTransit opts then reject ''Transit probe client is required''
     else if co_MountPath opts = [] then reject ''Transit mount path is required''
     else if co_KeyName opts = [] then reject ''Transit key name is required''
     else if co_DecryptRefreshInterval opts < 0 then reject ''decrypt refresh interval must not be negative''
     else
     let controller = publishCircuitBreakerState r r' (initial_controller opts store observer d)
     in if co_StateStore opts = NoStateStore then (Inr controller, d)
        else let (loaded, controller) = loadState env controller
             in (bindE loaded (\<lambda>_. Inr controller), c_disk controller))"

section \<open>The scheduler\<close>

record Scheduler =
  sd_controller :: Controller
  sd_probeInterval :: int
  sd_deepProbeInterval :: int

record SchedulerOptions =
  sdo_Controller :: "Controller option"
  sdo_ProbeInterval :: int
  sdo_DeepProbeInterval :: int

definition NewScheduler :: "SchedulerOptions \<Rightarrow> Scheduler res" where
  "NewScheduler opts =
    (case sdo_Controller opts of
       None \<Rightarrow> Inl (errw Status_ErrConfigInvalid ''status controller is required'')
     | Some c \<Rightarrow>
       if sdo_ProbeInterval opts \<le> 0 then Inl (errw Status_ErrConfigInvalid ''probe interval must be positive'')
       else if sdo_DeepProbeInterval opts \<le> 0 then Inl (errw Status_ErrConfigInvalid ''deep probe interval must be positive'')
       else Inr \<lparr>sd_controller = c, sd_probeInterval = sdo_ProbeInterval opts, sd_deepProbeInterval = sdo_DeepProbeInterval opts\<rparr>)"

text \<open>What the \<open>select\<close> of the loop can receive, with the environments of the probes it starts.\<close>

datatype tick = ProbeTick probe_env probe_env | DeepTick probe_env | ContextDone go_error

definition scheduled_probe :: "probe_env \<Rightarrow> probe_env \<Rightarrow> Controller \<Rightarrow> Controller" where
  "scheduled_probe env deep c =
    (let (r, c) = ProbeOnce env c
     in if r = Inr () \<and> deepProbeRequired c then snd (DeepProbeOnce deep c) else c)"

text \<open>The loop on the events received so far; \<open>None\<close> while it keeps running.\<close>

fun scheduler_loop :: "tick list \<Rightarrow> Controller \<Rightarrow> go_error option \<times> Controller" where
  "scheduler_loop [] c = (None, c)"
| "scheduler_loop (ContextDone err # ticks) c = (Some err, c)"
| "scheduler_loop (ProbeTick env deep # ticks) c = scheduler_loop ticks (scheduled_probe env deep c)"
| "scheduler_loop (DeepTick env # ticks) c = scheduler_loop ticks (snd (DeepProbeOnce env c))"

definition Run :: "Scheduler \<Rightarrow> go_context \<Rightarrow> probe_env \<Rightarrow> probe_env \<Rightarrow> tick list \<Rightarrow> go_error option \<times> Controller" where
  "Run s ctx env deep ticks =
    (case contextErr ctx of
       Inl err \<Rightarrow> (Some err, sd_controller s)
     | Inr _ \<Rightarrow> scheduler_loop ticks (scheduled_probe env deep (sd_controller s)))"

end
