(* ===== verification/Controller_Safety.thy ===== *)
theory Controller_Safety
  imports Controller
begin

text \<open>
  What the controller promises: a state is durable before it is published, whatever fails and wherever the
  process stops, so that no published key is lost; a key becomes active only after its activation delay.
\<close>

section \<open>Steps that leave the published state alone\<close>

definition quiet :: "Controller \<Rightarrow> Controller \<Rightarrow> bool" where
  "quiet c c' \<longleftrightarrow> c_pendingCommit c' = c_pendingCommit c \<and> c_disk c' = c_disk c \<and> c_stateStore c' = c_stateStore c
     \<and> c_observer c' = c_observer c \<and> c_activation c' = c_activation c
     \<and> hasState (c_store c') = hasState (c_store c) \<and> st_state (c_store c') = st_state (c_store c)
     \<and> (store_inv (c_store c) \<longrightarrow> store_inv (c_store c'))"

lemma quiet_refl [intro, simp]: "quiet c c"
  by (simp add: quiet_def)

lemma quiet_trans [trans]: "quiet c c' \<Longrightarrow> quiet c' c'' \<Longrightarrow> quiet c c''"
  by (simp add: quiet_def)

named_theorems quiet_steps

text \<open>The store operations that keep the published state.\<close>

lemma store_keeps_state [simp]:
  "hasState (UpdateCircuitBreaker s b) = hasState s" "st_state (UpdateCircuitBreaker s b) = st_state s"
  "hasState (publishMetadataUnhealthy s at f clk) = hasState s" "st_state (publishMetadataUnhealthy s at f clk) = st_state s"
  "hasState (publishDeepHealthy s) = hasState s" "st_state (publishDeepHealthy s) = st_state s"
  "hasState (publishDeepUnhealthy s f) = hasState s" "st_state (publishDeepUnhealthy s f) = st_state s"
  "hasState (snd (publishDeferredObservation s h at)) = hasState s" "st_state (snd (publishDeferredObservation s h at)) = st_state s"
  "hasState (snd (Current s ctx now)) = hasState s" "st_state (snd (Current s ctx now)) = st_state s"
  "hasState (snd (DiagnosticsSnapshot s now)) = hasState s" "st_state (snd (DiagnosticsSnapshot s now)) = st_state s"
  by (auto simp: UpdateCircuitBreaker_def publishMetadataUnhealthy_def updateHealthLocked_def publishDeepHealthy_def
      publishDeepUnhealthy_def publishDeferredObservation_def Current_def staleLocked_def DiagnosticsSnapshot_def
      Let_def case_prod_beta split: sum.split)

lemma publishCircuitBreakerState_quiet [quiet_steps]: "quiet c (publishCircuitBreakerState r r' c)"
  by (simp add: quiet_def publishCircuitBreakerState_def UpdateCircuitBreaker_inv)

lemma set_breaker_quiet [quiet_steps]: "quiet c (set_breaker kind b c)"
  by (simp add: quiet_def set_breaker_def)

lemma allowProbe_quiet [quiet_steps]: "quiet c (snd (allowProbe kind now r c))"
  unfolding allowProbe_def Let_def case_prod_beta snd_conv
  by (rule quiet_trans [OF set_breaker_quiet publishCircuitBreakerState_quiet])

lemma recordProbeFailure_quiet [quiet_steps]: "quiet c (recordProbeFailure kind now r c)"
  unfolding recordProbeFailure_def by (rule quiet_trans [OF set_breaker_quiet publishCircuitBreakerState_quiet])

lemma recordProbeSuccess_quiet [quiet_steps]: "quiet c (recordProbeSuccess kind r c)"
  unfolding recordProbeSuccess_def by (rule quiet_trans [OF set_breaker_quiet publishCircuitBreakerState_quiet])

lemma metadataFailed_quiet [quiet_steps]: "quiet c (snd (metadataFailed now clk reason err c))"
  by (simp add: quiet_def metadataFailed_def Let_def publishMetadataUnhealthy_inv)

lemma deepFailed_quiet [quiet_steps]: "quiet c (snd (deepFailed reason err c))"
  by (simp add: quiet_def deepFailed_def Let_def publishDeepUnhealthy_inv)

lemma observe_events_quiet [quiet_steps]:
  "quiet c (observeProbe ob c)" "quiet c (observeClockRegression c)" "quiet c (observePromotion previous c)"
  by (simp_all add: quiet_def observeProbe_def observeClockRegression_def observePromotion_def case_prod_beta)

lemma with_observation_quiet: "quiet (snd res) (snd (with_observation kind d res))"
  by (simp add: with_observation_def Let_def case_prod_beta observe_events_quiet)

lemma deferObservation_quiet [quiet_steps]: "quiet c (snd (deferObservation now profile c))"
  by (auto simp: deferObservation_def Let_def case_prod_beta quiet_def publishDeferredObservation_inv
      split: option.split sum.split)

lemma stateSaveFailed_quiet [quiet_steps]: "quiet c (snd (stateSaveFailed env now profile cause c))"
proof -
  let ?c = "snd (deferObservation now profile c)"
  have "quiet ?c (snd (stateSaveFailed env now profile cause c))"
    by (simp add: stateSaveFailed_def Let_def case_prod_beta quiet_steps)
  with deferObservation_quiet show ?thesis by (rule quiet_trans)
qed

lemma deep_body_quiet: "quiet c (snd (deep_body env c))"
proof -
  let ?c = "snd (allowProbe ProbeKindDeep (pe_now env) (pe_allowReading env) c)"
  have healthy: "quiet ?c (?c\<lparr>c_store := publishDeepHealthy (c_store ?c)\<rparr>)"
    by (simp add: quiet_def publishDeepHealthy_inv)
  have fail: "quiet ?c (snd (deepFailed reason err (recordProbeFailure k now r ?c)))" for reason err k now r
    using recordProbeFailure_quiet deepFailed_quiet by (rule quiet_trans)
  have "quiet ?c (snd (deep_body env c)) \<or> snd (deep_body env c) = c"
    using healthy fail quiet_trans [OF healthy recordProbeSuccess_quiet]
    by (simp add: deep_body_def Let_def case_prod_beta deepFailed_quiet split: sum.split)
  with allowProbe_quiet [of c ProbeKindDeep "pe_now env" "pe_allowReading env"] show ?thesis
    by (metis quiet_refl quiet_trans)
qed

lemma DeepProbeOnce_quiet: "quiet c (snd (DeepProbeOnce env c))"
  using quiet_trans [OF deep_body_quiet with_observation_quiet] by (simp add: DeepProbeOnce_def split: sum.split)

section \<open>Durability\<close>

lemma extends_history_trans: "extends_history s t \<Longrightarrow> extends_history t u \<Longrightarrow> extends_history s u"
  by (rotate_tac 1, induction rule: extends_history.induct) (auto intro: extends_history.advance)

definition durable :: "Controller \<Rightarrow> bool" where
  "durable c \<longleftrightarrow>
    (case c_pendingCommit c of
       None \<Rightarrow> hasState (c_store c) \<longrightarrow>
                canonical_state (st_state (c_store c)) \<and> committed (st_state (c_store c)) (c_disk c)
     | Some commit \<Rightarrow> canonical_state (sc_next commit) \<and>
        (case sc_previous commit of
           None \<Rightarrow> \<not> hasState (c_store c)
         | Some q \<Rightarrow> canonical_state q \<and> advances q (sc_next commit) \<and> between q (sc_next commit) (c_disk c)
             \<and> (hasState (c_store c) \<longrightarrow> extends_history (st_state (c_store c)) q)))"

text \<open>Every state the program writes is canonical.\<close>

definition stored_canonical :: "Disk \<Rightarrow> bool" where
  "stored_canonical d \<longleftrightarrow> (\<forall>s. d_state d = Stored s \<longrightarrow> canonical_state s)"

lemma Save_stored_canonical:
  "stored_canonical d \<Longrightarrow> canonical_state n \<Longrightarrow> stored_canonical (snd (Save path env d n))"
  by (cases rule: Save_cases [of path env d n]) (auto simp: stored_canonical_def)

lemma Recover_stored_canonical:
  "stored_canonical d \<Longrightarrow> canonical_state n \<Longrightarrow> stored_canonical (snd (Recover path env d p n))"
  by (auto simp: Recover_def Save_stored_canonical split: sum.split)

definition controller_inv :: "string \<Rightarrow> Controller \<Rightarrow> bool" where
  "controller_inv path c \<longleftrightarrow> store_inv (c_store c) \<and> c_stateStore c = FileStateStore (CHR ''/'' # path) \<and> durable c
     \<and> stored_canonical (c_disk c)"

lemma quiet_inv: "quiet c c' \<Longrightarrow> controller_inv path c \<Longrightarrow> controller_inv path c'"
  by (auto simp: quiet_def controller_inv_def durable_def split: option.splits)

text \<open>The published state after a step extends the one before.\<close>

definition republished :: "Controller \<Rightarrow> Controller \<Rightarrow> bool" where
  "republished c c' \<longleftrightarrow> hasState (c_store c) \<longrightarrow>
     hasState (c_store c') \<and> extends_history (st_state (c_store c)) (st_state (c_store c'))"

lemma published_valid: "controller_inv path c \<Longrightarrow> hasState (c_store c) \<Longrightarrow> StateFile_Validate (st_state (c_store c)) = Inr ()"
  by (simp add: controller_inv_def store_inv_def runtimeRegistry_def)

lemma quiet_republished: "controller_inv path c \<Longrightarrow> quiet c c' \<Longrightarrow> republished c c'"
  using published_valid extends_history.start by (auto simp: republished_def quiet_def)

lemma advances_history: "advances q n \<Longrightarrow> canonical_state q \<Longrightarrow> extends_history q n"
  using extends_history.advance [OF extends_history.start] by (simp add: advances_def ValidateStateProgress_Inr)

text \<open>What \<open>stateForObservation\<close> hands to the observer: a state that is on the disk.\<close>

definition based_on :: "string \<Rightarrow> Controller \<Rightarrow> StateFile \<Rightarrow> bool \<Rightarrow> bool" where
  "based_on path c state has \<longleftrightarrow> controller_inv path c
     \<and> (if has then canonical_state state \<and> committed state (c_disk c)
          \<and> (hasState (c_store c) \<longrightarrow> extends_history (st_state (c_store c)) state)
        else \<not> hasState (c_store c) \<and> c_pendingCommit c = None)"

lemma stateForObservation_based:
  assumes inv: "controller_inv path c" and res: "stateForObservation env c = (r, c')"
  shows "controller_inv path c'" and "c_store c' = c_store c" and "c_observer c' = c_observer c"
    and "c_activation c' = c_activation c" and "r = Inr (state, has) \<Longrightarrow> based_on path c' state has"
proof -
  from inv have ss: "c_stateStore c = FileStateStore (CHR ''/'' # path)" and dur: "durable c"
    and si: "store_inv (c_store c)" by (simp_all add: controller_inv_def)
  show same: "c_store c' = c_store c" "c_observer c' = c_observer c" "c_activation c' = c_activation c"
    using res by (auto simp: stateForObservation_def case_prod_beta Let_def split: option.splits)
  have "controller_inv path c' \<and> (r = Inr (state, has) \<longrightarrow> based_on path c' state has)"
  proof (cases "c_pendingCommit c")
    case None
    with res have "c' = c" "r = Inr (st_state (c_store c), hasState (c_store c))"
      by (auto simp: stateForObservation_def store_State_def)
    with None dur inv published_valid [OF inv] extends_history.start show ?thesis
      by (auto simp: based_on_def durable_def)
  next
    case (Some k)
    let ?rec = "Recover (CHR ''/'' # path) env (c_disk c) (sc_previous k) (sc_next k)"
    from Some res ss have c': "c' = c\<lparr>c_disk := snd ?rec\<rparr>" and r: "r = bindE (fst ?rec) (\<lambda>_. Inr (sc_next k, True))"
      by (auto simp: stateForObservation_def ss_Recover_def Let_def case_prod_beta)
    have com: "committed (sc_next k) (snd ?rec)" if "fst ?rec = Inr ()"
      using that Recover_Inr by (metis prod.collapse)
    have "durable c'"
      using Some dur file_store.recover_between by (auto simp: c' durable_def split: option.splits)
    have can: "canonical_state (sc_next k)" using dur Some by (simp add: durable_def)
    with \<open>durable c'\<close> have inv': "controller_inv path c'"
      using c' si ss inv Recover_stored_canonical by (simp add: controller_inv_def)
    have ext: "extends_history (st_state (c_store c)) (sc_next k)" if "hasState (c_store c)"
      using dur Some that advances_history extends_history_trans by (fastforce simp: durable_def split: option.splits)
    show ?thesis
      using inv' r com can ext by (auto simp: based_on_def c')
  qed
  then show "controller_inv path c'" "r = Inr (state, has) \<Longrightarrow> based_on path c' state has" by simp_all
qed

lemma observation_advances:
  assumes "observation_result c state True profile now discover = Inr result"
  shows "or_State result = state \<and> \<not> or_Changed result
    \<or> advances state (or_State result) \<and> canonical_state (or_State result) \<and> or_Changed result"
proof -
  from assms obtain adv ready where "observe (c_observer c) state profile (Wall now) adv ready = Inr result"
    by (auto simp: observation_result_def Observe_def Discover_def split: if_splits)
  from observe_step(2) [OF this] show ?thesis by (auto simp: advances_def)
qed

lemma observation_bootstraps:
  assumes "observation_result c state False profile now discover = Inr result"
  shows "or_Changed result" and "canonical_state (or_State result)"
proof -
  from assms obtain t where t: "RebuildState (c_observer c) profile (Wall now) = Inr t"
    and res: "or_State result = t" "or_Changed result" by (auto simp: observation_result_def)
  from res show "or_Changed result" by simp
  from RebuildState_Inr(3) [OF t] NewStateFileFromRecords_canonical res show "canonical_state (or_State result)" by blast
qed

text \<open>Persisting the result keeps the invariant, and if it succeeds the result is on the disk.\<close>

lemma persist_result_durable:
  assumes base: "based_on path c state has" and res: "observation_result c state has profile now discover = Inr result"
    and step: "persist_result env state has result c = (r, c')"
  shows "controller_inv path c'" and "c_store c' = c_store c" and "c_observer c' = c_observer c"
    and "c_activation c' = c_activation c"
    and "r = Inr () \<Longrightarrow> canonical_state (or_State result) \<and> committed (or_State result) (c_disk c')
           \<and> (hasState (c_store c) \<longrightarrow> extends_history (st_state (c_store c)) (or_State result))"
proof -
  let ?n = "or_State result" and ?sav = "Save (CHR ''/'' # path) env (c_disk c) (or_State result)"
  from base have inv: "controller_inv path c" by (simp add: based_on_def)
  then have ss: "c_stateStore c = FileStateStore (CHR ''/'' # path)" by (simp add: controller_inv_def)
  show "c_store c' = c_store c" "c_observer c' = c_observer c" "c_activation c' = c_activation c"
    using step by (auto simp: persist_result_def saveState_def Let_def case_prod_beta split: if_splits)
  have saves: "c' = c\<lparr>c_pendingCommit := Some \<lparr>sc_previous = (if has then Some state else None), sc_next = ?n\<rparr>,
      c_disk := snd ?sav\<rparr> \<and> r = fst ?sav" if "or_Changed result"
    using step that ss by (auto simp: persist_result_def saveState_def ss_Save_def Let_def case_prod_beta)
  have com: "committed ?n (snd ?sav)" if "fst ?sav = Inr ()"
    using that Save_Inr by (metis prod.collapse)
  have goal: "controller_inv path c' \<and> (r = Inr () \<longrightarrow> canonical_state ?n \<and> committed ?n (c_disk c')
           \<and> (hasState (c_store c) \<longrightarrow> extends_history (st_state (c_store c)) ?n))"
  proof (cases has)
    case True
    with base have b: "canonical_state state" "committed state (c_disk c)"
      "hasState (c_store c) \<Longrightarrow> extends_history (st_state (c_store c)) state" by (simp_all add: based_on_def)
    from observation_advances [of c state profile now discover result] res True
    consider "?n = state" "\<not> or_Changed result" | "advances state ?n" "canonical_state ?n" "or_Changed result" by auto
    then show ?thesis
    proof cases
      case 1
      with step have "c' = c" "r = Inr ()" by (simp_all add: persist_result_def)
      with 1 inv b show ?thesis by simp
    next
      case 2
      have "between state ?n (snd ?sav)" using file_store.save_between b(2) 2(1) by blast
      then have "controller_inv path c'"
        using saves [OF 2(3)] inv b 2 True by (simp add: controller_inv_def durable_def Save_stored_canonical)
      moreover have "extends_history (st_state (c_store c)) ?n" if "hasState (c_store c)"
        using extends_history_trans [OF b(3) [OF that]] advances_history [OF 2(1) b(1)] by blast
      ultimately show ?thesis using saves [OF 2(3)] com 2(2) by simp
    qed
  next
    case False
    with base have no: "\<not> hasState (c_store c)" by (simp add: based_on_def)
    from False res have res': "observation_result c state False profile now discover = Inr result" by simp
    note new = observation_bootstraps [OF res']
    have "controller_inv path c'"
      using saves new inv no False by (simp add: controller_inv_def durable_def Save_stored_canonical)
    then show ?thesis using saves [OF new(1)] com new(2) no by simp
  qed
  then show "controller_inv path c'" by simp
  show "canonical_state ?n \<and> committed ?n (c_disk c') \<and> (hasState (c_store c) \<longrightarrow> extends_history (st_state (c_store c)) ?n)"
    if "r = Inr ()" using goal that by simp
qed

text \<open>Publishing a durable state.\<close>

lemma publish_finished_fields:
  assumes "publish_finished env profile discover previous result c = (r, c')"
  shows "c_pendingCommit c' = None" "c_disk c' = c_disk c" "c_stateStore c' = c_stateStore c" "c_observer c' = c_observer c"
    "hasState (c_store c') = hasState (c_store c)" "st_state (c_store c') = st_state (c_store c)"
    "store_inv (c_store c) \<Longrightarrow> store_inv (c_store c')"
    "c_activation c' = (if discover then c_activation c
       else c_activation (confirmActivation (or_State result) profile (pe_activationReading env) c))"
proof -
  let ?c1 = "c\<lparr>c_pendingCommit := None\<rparr>"
  let ?c2 = "if \<not> discover then confirmActivation (or_State result) profile (pe_activationReading env) ?c1 else ?c1"
  let ?c3 = "if or_ClockRegressed result then observeClockRegression ?c2 else ?c2"
  have c': "c' = recordProbeSuccess ProbeKindMetadata (pe_recordReading env) (observePromotion previous ?c3)"
    using assms unfolding publish_finished_def Let_def by simp
  have "quiet ?c2 ?c3" by (simp add: quiet_steps)
  also have "quiet ?c3 (observePromotion previous ?c3)" by (rule quiet_steps)
  also have "quiet (observePromotion previous ?c3) c'" unfolding c' by (rule quiet_steps)
  finally have q: "quiet ?c2 c'" .
  have c2: "c_pendingCommit ?c2 = None" "c_disk ?c2 = c_disk c" "c_stateStore ?c2 = c_stateStore c"
    "c_observer ?c2 = c_observer c" "c_store ?c2 = c_store c"
    by (auto simp: confirmActivation_def stableCandidate_def split: option.split)
  have act: "c_activation ?c2 = (if discover then c_activation c
       else c_activation (confirmActivation (or_State result) profile (pe_activationReading env) c))"
    by (auto simp: confirmActivation_def stableCandidate_def split: option.split)
  show "c_pendingCommit c' = None" "c_disk c' = c_disk c" "c_stateStore c' = c_stateStore c" "c_observer c' = c_observer c"
    "hasState (c_store c') = hasState (c_store c)" "st_state (c_store c') = st_state (c_store c)"
    "store_inv (c_store c) \<Longrightarrow> store_inv (c_store c')"
    "c_activation c' = (if discover then c_activation c
       else c_activation (confirmActivation (or_State result) profile (pe_activationReading env) c))"
    using q c2 act unfolding quiet_def by simp_all
qed

text \<open>
  The ways a metadata observation ends: it leaves the published state alone, or it publishes the result of an observation of
  a state that was on the disk, after persisting it.
\<close>

definition observed ::
  "string \<Rightarrow> Controller \<Rightarrow> Controller \<Rightarrow> StateFile \<Rightarrow> bool \<Rightarrow> KeyProfile \<Rightarrow> Reading \<Rightarrow> bool \<Rightarrow> ObservationResult \<Rightarrow> bool" where
  "observed path c c0 state has profile now discover result \<longleftrightarrow>
     based_on path c0 state has \<and> c_store c0 = c_store c \<and> c_observer c0 = c_observer c \<and> c_activation c0 = c_activation c
   \<and> (has \<longrightarrow> (case c_pendingCommit c of None \<Rightarrow> state = st_state (c_store c) | Some k \<Rightarrow> state = sc_next k))
   \<and> observation_result c0 state has profile now discover = Inr result"

text \<open>The commit that \<open>saveState\<close> remembers.\<close>

definition commit_of :: "StateFile \<Rightarrow> bool \<Rightarrow> ObservationResult \<Rightarrow> stateCommit" where
  "commit_of state has result = \<lparr>sc_previous = (if has then Some state else None), sc_next = or_State result\<rparr>"

lemma publish_result_cases:
  assumes base: "based_on path c state has" and res: "observation_result c state has profile now discover = Inr result"
    and step: "publish_result env profile now discover state has result c = (r, c')"
  obtains (kept) c1 where "controller_inv path c1" "c_store c1 = c_store c" "c_observer c1 = c_observer c"
      "c_activation c1 = c_activation c" "quiet c1 c'"
      "c_pendingCommit c1 = c_pendingCommit c \<or> c_pendingCommit c1 = Some (commit_of state has result)"
  | (published) "controller_inv path c'" "hasState (c_store c')" "st_state (c_store c') = or_State result"
      "c_observer c' = c_observer c" "c_pendingCommit c' = None"
      "c_activation c' = (if discover then c_activation c
         else c_activation (confirmActivation (or_State result) profile (pe_activationReading env) c))"
      "hasState (c_store c) \<longrightarrow> extends_history (st_state (c_store c)) (or_State result)"
proof -
  obtain saved c2 where p: "persist_result (pe_save env) state has result c = (saved, c2)" by fastforce
  note d = persist_result_durable [OF base res p]
  have pend: "c_pendingCommit c2 = c_pendingCommit c \<or> c_pendingCommit c2 = Some (commit_of state has result)"
    using p by (auto simp: persist_result_def saveState_def commit_of_def Let_def case_prod_beta split: if_splits)
  let ?pub = "publishMetadata (c_store c2) (or_State result) now (or_EncryptionBlocked result) (pe_storeReading env)"
  consider (save_failed) e where "saved = Inl e" | (publish_failed) e where "saved = Inr ()" "?pub = Inl e"
    | (success) s where "saved = Inr ()" "?pub = Inr s"
    by (cases saved; cases ?pub) auto
  then show thesis
  proof cases
    case save_failed
    with step p have "quiet c2 c'" using stateSaveFailed_quiet [of c2 env now profile e] by (simp add: publish_result_def)
    then show thesis by (rule kept [OF d(1-4) _ pend])
  next
    case publish_failed
    with step p have "quiet c2 c'" using metadataFailed_quiet [of c2 now _ _ e] by (simp add: publish_result_def) (metis snd_conv)
    then show thesis by (rule kept [OF d(1-4) _ pend])
  next
    case (success s)
    with step p have fin: "publish_finished env profile discover (st_active (c_store c)) result (c2\<lparr>c_store := s\<rparr>) = (r, c')"
      by (simp add: publish_result_def store_Active_def)
    note f = publish_finished_fields [OF fin]
    have si: "store_inv s" using publishMetadata_inv [OF success(2)] d(1) by (simp add: controller_inv_def)
    have hs: "hasState s" "st_state s = or_State result" using publishMetadata_fields [OF success(2)] by blast+
    have com: "canonical_state (or_State result)" "committed (or_State result) (c_disk c2)"
      "hasState (c_store c) \<longrightarrow> extends_history (st_state (c_store c)) (or_State result)" using d(5) success(1) by simp_all
    have "controller_inv path c'" using f(1-7) si hs com d(1) by (simp add: controller_inv_def durable_def)
    moreover have "c_activation (confirmActivation (or_State result) profile (pe_activationReading env) (c2\<lparr>c_store := s\<rparr>))
        = c_activation (confirmActivation (or_State result) profile (pe_activationReading env) c)"
      using d(3,4) by (auto simp: confirmActivation_def stableCandidate_def split: option.split)
    ultimately show thesis by (intro published) (use f hs d(3,4) com in simp_all)
  qed
qed

lemma publishObservation_cases:
  assumes inv: "controller_inv path c" and step: "publishObservation env profile now discover c = (r, c')"
  obtains (kept) c1 where "controller_inv path c1" "c_store c1 = c_store c" "c_observer c1 = c_observer c"
      "c_activation c1 = c_activation c" "quiet c1 c'"
      "c_pendingCommit c1 = c_pendingCommit c \<or> (\<exists>c0 state has result.
         observed path c c0 state has profile now discover result \<and> c_pendingCommit c1 = Some (commit_of state has result))"
  | (published) c1 state has result where "observed path c c1 state has profile now discover result"
      "controller_inv path c'" "hasState (c_store c')" "st_state (c_store c') = or_State result"
      "c_observer c' = c_observer c" "c_pendingCommit c' = None"
      "c_activation c' = (if discover then c_activation c
         else c_activation (confirmActivation (or_State result) profile (pe_activationReading env) c1))"
      "hasState (c_store c) \<longrightarrow> extends_history (st_state (c_store c)) (or_State result)"
proof -
  obtain r0 c0 where s0: "stateForObservation (pe_recover env) c = (r0, c0)" by fastforce
  note b = stateForObservation_based [OF inv s0]
  have pend0: "c_pendingCommit c0 = c_pendingCommit c"
    using s0 by (auto simp: stateForObservation_def Let_def case_prod_beta split: option.splits)
  note keep0 = kept [of c0, OF b(1-4) _ disjI1 [OF pend0]]
  show thesis
  proof (cases r0)
    case (Inl e)
    with step s0 have "quiet c0 c'" using stateSaveFailed_quiet [of c0 env now profile e] by (simp add: publishObservation_def)
    then show thesis by (rule keep0)
  next
    case (Inr sh)
    obtain state has where sh: "sh = (state, has)" by fastforce
    have base: "based_on path c0 state has" using b(5) Inr sh by simp
    have st: "has \<Longrightarrow> (case c_pendingCommit c of None \<Rightarrow> state = st_state (c_store c) | Some k \<Rightarrow> state = sc_next k)"
      using s0 Inr sh by (auto simp: stateForObservation_def store_State_def Let_def case_prod_beta split: option.splits)
    from step s0 Inr sh
    consider (failed) reason e where "metadataFailed now (pe_storeReading env) reason e c0 = (r, c')"
      | (success) result where "observation_result c0 state has profile now discover = Inr result"
          "publish_result env profile now discover state has result c0 = (r, c')"
      by (auto simp: publishObservation_def split: if_splits sum.splits)
    then show thesis
    proof cases
      case failed
      then show thesis using keep0 metadataFailed_quiet [of c0 now "pe_storeReading env" reason e] by simp
    next
      case (success result)
      have obs: "observed path c c0 state has profile now discover result"
        using base b(2-4) st success(1) by (simp add: observed_def)
      show thesis
      proof (cases rule: publish_result_cases [OF base success])
        case (1 c1)
        then show thesis using b(2-4) obs pend0 by (intro kept [of c1]) auto
      next
        case 2
        then show thesis using b(2-4) by (intro published [OF obs]) simp_all
      qed
    qed
  qed
qed

section \<open>Probes\<close>

text \<open>A metadata probe stops before the observation, or it observes the profile it read.\<close>

lemma probe_body_cases:
  assumes "probe_body env discover c = (r, c')"
  obtains (stopped) "quiet c c'"
  | (observed) profile c1 where "quiet c c1" "publishObservation env profile (pe_now env) discover c1 = (r, c')"
proof -
  let ?c = "snd (allowProbe ProbeKindMetadata (pe_now env) (pe_allowReading env) c)"
  have a: "quiet c ?c" by (rule allowProbe_quiet)
  have q: thesis if "quiet ?c c'" using quiet_trans [OF a that] by (rule stopped)
  have fail: "quiet ?c (snd (metadataFailed now clk reason err (recordProbeFailure k m rd ?c)))" for now clk reason err k m rd
    using recordProbeFailure_quiet metadataFailed_quiet by (rule quiet_trans)
  from assms consider "c' = c" | "quiet ?c c'"
    | profile where "publishObservation env profile (pe_now env) discover ?c = (r, c')"
    using metadataFailed_quiet [of ?c] fail
    by (auto simp: probe_body_def Let_def case_prod_beta split: sum.splits if_splits) (metis snd_conv)+
  then show thesis using q observed [OF a] stopped by cases auto
qed

lemma publishObservation_inv:
  assumes "controller_inv path c" and "publishObservation env profile now discover c = (r, c')"
  shows "controller_inv path c' \<and> republished c c'"
proof (cases rule: publishObservation_cases [OF assms])
  case (1 c1)
  have "republished c1 c'" using quiet_republished [OF 1(1,5)] .
  with 1 quiet_inv [OF 1(5,1)] show ?thesis by (simp add: republished_def)
next
  case 2
  then show ?thesis by (simp add: republished_def)
qed

lemma republished_trans: "republished c c' \<Longrightarrow> republished c' c'' \<Longrightarrow> republished c c''"
  using extends_history_trans by (auto simp: republished_def)

lemma quiet_step: "controller_inv path c \<Longrightarrow> quiet c c' \<Longrightarrow> controller_inv path c' \<and> republished c c'"
  using quiet_inv quiet_republished by blast

lemma probeOnce_inv:
  assumes "controller_inv path c"
  shows "controller_inv path (snd (probeOnce env discover c)) \<and> republished c (snd (probeOnce env discover c))"
proof -
  obtain r c' where body: "probe_body env discover c = (r, c')" by fastforce
  have "controller_inv path c' \<and> republished c c'"
  proof (cases rule: probe_body_cases [OF body])
    case 1
    with assms show ?thesis by (rule quiet_step)
  next
    case (2 profile c1)
    with quiet_step [OF assms 2(1)] publishObservation_inv [of path c1] republished_trans show ?thesis by blast
  qed
  moreover have "quiet c' (snd (probeOnce env discover c))"
    using with_observation_quiet [of "(r, c')"] by (simp add: probeOnce_def body)
  ultimately show ?thesis using quiet_step republished_trans by blast
qed

section \<open>Operations and runs\<close>

text \<open>
  What happens to a running controller: the scheduler and the request handlers call its operations in any order, each with
  its own environment.
\<close>

datatype controller_op =
    DoProbe probe_env
  | DoDeepProbe probe_env
  | DoRefresh probe_env Reading "go_error option" string
  | DoCurrent go_context Reading
  | DoDiagnostics Reading

fun apply_op :: "controller_op \<Rightarrow> Controller \<Rightarrow> Controller" where
  "apply_op (DoProbe env) c = snd (ProbeOnce env c)"
| "apply_op (DoDeepProbe env) c = snd (DeepProbeOnce env c)"
| "apply_op (DoRefresh env now stopped keyID) c = snd (RefreshForDecrypt env now stopped keyID c)"
| "apply_op (DoCurrent ctx now) c = c\<lparr>c_store := snd (Current (c_store c) ctx now)\<rparr>"
| "apply_op (DoDiagnostics now) c = c\<lparr>c_store := snd (DiagnosticsSnapshot (c_store c) now)\<rparr>"

definition run_ops :: "controller_op list \<Rightarrow> Controller \<Rightarrow> Controller" where
  "run_ops ops c = foldl (\<lambda>c op. apply_op op c) c ops"

lemma run_ops_simps [simp]:
  "run_ops [] c = c" "run_ops (ops @ [op]) c = apply_op op (run_ops ops c)" "run_ops (op # ops) c = run_ops ops (apply_op op c)"
  by (simp_all add: run_ops_def)

text \<open>The scheduler only runs these operations.\<close>

lemma scheduled_probe_ops: "\<exists>ops. scheduled_probe env deep c = run_ops ops c"
proof -
  have "scheduled_probe env deep c \<in> {run_ops [DoProbe env] c, run_ops [DoProbe env, DoDeepProbe deep] c}"
    by (simp add: scheduled_probe_def Let_def case_prod_beta)
  then show ?thesis by blast
qed

lemma run_ops_append: "run_ops (xs @ ys) c = run_ops ys (run_ops xs c)"
  by (simp add: run_ops_def)

lemma scheduler_loop_ops: "\<exists>ops. snd (scheduler_loop ticks c) = run_ops ops c"
proof (induction ticks c rule: scheduler_loop.induct)
  case (1 c)
  then show ?case by (intro exI [of _ "[]"]) simp
next
  case (2 err ticks c)
  then show ?case by (intro exI [of _ "[]"]) simp
next
  case (3 env deep ticks c)
  then show ?case using scheduled_probe_ops [of env deep c] by (metis run_ops_append scheduler_loop.simps(3))
next
  case (4 env ticks c)
  then obtain ops where "snd (scheduler_loop ticks (snd (DeepProbeOnce env c))) = run_ops ops (snd (DeepProbeOnce env c))" by blast
  then show ?case by (intro exI [of _ "DoDeepProbe env # ops"]) simp
qed

lemma prepareDecryptRefresh_quiet: "quiet c (snd (prepareDecryptRefresh now keyID c))"
  by (auto simp: prepareDecryptRefresh_def Let_def case_prod_beta quiet_def split: sum.split)

lemma refresh_attempt_state: "quiet (snd (probeOnce env True c)) (snd (refresh_attempt env keyID c))"
  by (simp add: refresh_attempt_def Let_def case_prod_beta quiet_def split: sum.split)

lemma RefreshForDecrypt_cases:
  obtains "quiet c (snd (RefreshForDecrypt env now stopped keyID c))"
  | c1 where "quiet c c1" "quiet (snd (probeOnce env True c1)) (snd (RefreshForDecrypt env now stopped keyID c))"
proof -
  note p = prepareDecryptRefresh_quiet [of c now keyID]
  have "quiet c (snd (RefreshForDecrypt env now stopped keyID c))
    \<or> snd (RefreshForDecrypt env now stopped keyID c) = snd (refresh_attempt env keyID (snd (prepareDecryptRefresh now keyID c)))"
    using p by (auto simp: RefreshForDecrypt_def Let_def case_prod_beta split: sum.split)
  then show thesis using that p refresh_attempt_state by metis
qed

lemma apply_op_inv:
  assumes inv: "controller_inv path c"
  shows "controller_inv path (apply_op op c) \<and> republished c (apply_op op c)"
proof (cases op)
  case (DoProbe env)
  then show ?thesis using probeOnce_inv [OF inv] quiet_step [OF inv] by (auto simp: ProbeOnce_def split: sum.split)
next
  case (DoDeepProbe env)
  then show ?thesis using quiet_step [OF inv DeepProbeOnce_quiet] by simp
next
  case (DoRefresh env now stopped keyID)
  show ?thesis
  proof (cases rule: RefreshForDecrypt_cases [of c env now stopped keyID])
    case 1
    with DoRefresh quiet_step [OF inv] show ?thesis by simp
  next
    case (2 c1)
    with quiet_step [OF inv 2(1)] probeOnce_inv [of path c1 env True] quiet_step [OF _ 2(2), of path] republished_trans
    show ?thesis unfolding DoRefresh apply_op.simps by blast
  qed
next
  case (DoCurrent ctx now)
  have "quiet c (apply_op op c)" by (simp add: DoCurrent quiet_def Current_inv)
  with inv show ?thesis by (rule quiet_step)
next
  case (DoDiagnostics now)
  have "quiet c (apply_op op c)" by (simp add: DoDiagnostics quiet_def DiagnosticsSnapshot_inv)
  with inv show ?thesis by (rule quiet_step)
qed

lemma republished_refl: "controller_inv path c \<Longrightarrow> republished c c"
  using published_valid extends_history.start by (auto simp: republished_def)

lemma run_ops_inv: "controller_inv path c \<Longrightarrow> controller_inv path (run_ops ops c) \<and> republished c (run_ops ops c)"
proof (induction ops rule: rev_induct)
  case Nil
  then show ?case by (simp add: republished_refl)
next
  case (snoc op ops)
  then show ?case using apply_op_inv [of path "run_ops ops c" op] republished_trans by (simp, blast)
qed

text \<open>A controller without a state store never has a save pending, so it never calls the nil store.\<close>

definition no_nil_call :: "Controller \<Rightarrow> Controller \<Rightarrow> bool" where
  "no_nil_call c c' \<longleftrightarrow> c_stateStore c' = c_stateStore c
     \<and> (c_stateStore c = NoStateStore \<and> c_pendingCommit c = None \<longrightarrow> c_pendingCommit c' = None)"

lemma no_nil_call_trans: "no_nil_call c c' \<Longrightarrow> no_nil_call c' c'' \<Longrightarrow> no_nil_call c c''"
  by (simp add: no_nil_call_def)

lemma quiet_no_nil_call: "quiet c c' \<Longrightarrow> no_nil_call c c'"
  by (simp add: quiet_def no_nil_call_def)

lemma publish_result_no_nil: "no_nil_call c (snd (publish_result env profile now discover state has result c))"
proof -
  obtain saved c2 where p: "persist_result (pe_save env) state has result c = (saved, c2)" by fastforce
  have c2: "no_nil_call c c2"
    using p by (auto simp: no_nil_call_def persist_result_def saveState_def Let_def case_prod_beta split: if_splits)
  have fin: "no_nil_call c2 (snd (publish_finished env profile discover previous result (c2\<lparr>c_store := s\<rparr>)))" for previous s
  proof -
    obtain r c' where f: "publish_finished env profile discover previous result (c2\<lparr>c_store := s\<rparr>) = (r, c')" by fastforce
    from publish_finished_fields(1,3) [OF f] show ?thesis by (simp add: f no_nil_call_def)
  qed
  have "no_nil_call c2 (snd (publish_result env profile now discover state has result c))"
    using fin quiet_no_nil_call [OF stateSaveFailed_quiet] quiet_no_nil_call [OF metadataFailed_quiet]
    by (simp add: publish_result_def p split: sum.split)
  with c2 show ?thesis by (rule no_nil_call_trans)
qed

lemma publishObservation_no_nil: "no_nil_call c (snd (publishObservation env profile now discover c))"
proof -
  obtain r0 c0 where s0: "stateForObservation (pe_recover env) c = (r0, c0)" by fastforce
  have c0: "no_nil_call c c0"
    using s0 by (auto simp: no_nil_call_def stateForObservation_def Let_def case_prod_beta split: option.splits)
  have "no_nil_call c0 (snd (publishObservation env profile now discover c))"
    using publish_result_no_nil quiet_no_nil_call [OF stateSaveFailed_quiet] quiet_no_nil_call [OF metadataFailed_quiet]
    by (simp add: publishObservation_def s0 split: sum.split prod.split)
  with c0 show ?thesis by (rule no_nil_call_trans)
qed

lemma probeOnce_no_nil: "no_nil_call c (snd (probeOnce env discover c))"
proof -
  obtain r c' where body: "probe_body env discover c = (r, c')" by fastforce
  have "no_nil_call c c'"
  proof (cases rule: probe_body_cases [OF body])
    case 1
    then show ?thesis by (rule quiet_no_nil_call)
  next
    case (2 profile c1)
    from no_nil_call_trans [OF quiet_no_nil_call [OF 2(1)] publishObservation_no_nil [of c1]] 2(2) show ?thesis
      by (metis snd_conv)
  qed
  moreover have "quiet c' (snd (probeOnce env discover c))"
    using with_observation_quiet [of "(r, c')"] by (simp add: probeOnce_def body)
  ultimately show ?thesis using no_nil_call_trans quiet_no_nil_call by blast
qed

lemma apply_op_no_nil: "no_nil_call c (apply_op op c)"
proof (cases op)
  case (DoProbe env)
  then show ?thesis using probeOnce_no_nil quiet_no_nil_call [OF quiet_refl] by (simp add: ProbeOnce_def split: sum.split)
next
  case (DoDeepProbe env)
  then show ?thesis using quiet_no_nil_call [OF DeepProbeOnce_quiet] by simp
next
  case (DoRefresh env now stopped keyID)
  show ?thesis unfolding DoRefresh apply_op.simps
    by (cases rule: RefreshForDecrypt_cases [of c env now stopped keyID])
      (blast intro: no_nil_call_trans quiet_no_nil_call probeOnce_no_nil)+
qed (simp_all add: no_nil_call_def)

lemma no_nil_store:
  "c_stateStore c = NoStateStore \<Longrightarrow> c_pendingCommit c = None \<Longrightarrow> c_pendingCommit (run_ops ops c) = None"
proof -
  have "no_nil_call c (run_ops ops c)"
  proof (induction ops rule: rev_induct)
    case (snoc op ops)
    then show ?case using no_nil_call_trans [OF _ apply_op_no_nil] by simp
  qed (simp add: no_nil_call_def)
  then show "c_stateStore c = NoStateStore \<Longrightarrow> c_pendingCommit c = None \<Longrightarrow> c_pendingCommit (run_ops ops c) = None"
    by (simp add: no_nil_call_def)
qed

end
