(* ===== verification/Controller_Restart.thy ===== *)
theory Controller_Restart
  imports Controller_Safety
begin

text \<open>
  The server process over its restarts: a process runs its controller, stops at any point and starts again on the disk it
  left. Every state that was ever published is extended by the published state, or by the disk of a stopped process.
\<close>

section \<open>Restarts\<close>

text \<open>
  The system error of a step of a save is never \<open>ErrStateNotFound\<close>, the sentinel of a missing state file.
\<close>

definition os_errors :: "save_env \<Rightarrow> bool" where
  "os_errors env \<longleftrightarrow> (\<forall>f\<in>{e_path, e_create, e_encode, e_chmod, e_sync, e_close, e_rename, e_syncdir}.
     \<forall>e. f env = Some e \<longrightarrow> \<not> errors_is e ErrStateNotFound)"

lemma fails_os: "fails e m = Inl err \<Longrightarrow> (\<forall>x. e = Some x \<longrightarrow> \<not> errors_is x ErrStateNotFound) \<Longrightarrow> \<not> errors_is err ErrStateNotFound"
  by (auto simp: fails_def split: option.splits)

lemma saveEncodedFile_os:
  assumes "os_errors env" and "fst (saveEncodedFile env old v) = Inl err"
  shows "\<not> errors_is err ErrStateNotFound"
  using assms unfolding os_errors_def saveEncodedFile_def
  by (auto simp: bindE_eq_Inl split: sum.splits dest!: fails_os)

lemma saveCheckpoint_os:
  assumes os: "os_errors env" and v: "StateFile_Validate s = Inr ()" and err: "fst (saveCheckpoint env d s) = Inl err"
  shows "\<not> errors_is err ErrStateNotFound"
proof (cases "e_path env")
  case None
  then have "fst (saveEncodedFile env (d_checkpoint d) (checkpoint_of s)) = Inl err"
    using err v by (simp add: saveCheckpoint_def NewStateCheckpoint_of SaveStateCheckpoint_def checkpoint_of_valid
        validateStateFileWritePath_def case_prod_beta)
  with os show ?thesis by (rule saveEncodedFile_os)
next
  case (Some e)
  then have "err = e"
    using err v by (simp add: saveCheckpoint_def NewStateCheckpoint_of SaveStateCheckpoint_def checkpoint_of_valid
        validateStateFileWritePath_def)
  with os Some show ?thesis by (simp add: os_errors_def)
qed

text \<open>A disk that holds a state that extends \<open>s\<close>, or is caught on the way from one such state to the next.\<close>

definition disk_extends :: "StateFile \<Rightarrow> Disk \<Rightarrow> bool" where
  "disk_extends s d \<longleftrightarrow> (\<exists>q. extends_history s q \<and> canonical_state q \<and>
     (committed q d \<or> (\<exists>n. canonical_state n \<and> advances q n \<and> between q n d)))"

lemma disk_extends_committed: "extends_history s q \<Longrightarrow> canonical_state q \<Longrightarrow> committed q d \<Longrightarrow> disk_extends s d"
  by (auto simp: disk_extends_def)

lemma disk_extends_cases:
  assumes "disk_extends s d"
  obtains (committed) q where "extends_history s q" "canonical_state q" "committed q d"
  | (ahead) q n where "extends_history s q" "canonical_state q" "canonical_state n" "advances q n"
      "d = \<lparr>d_state = Stored n, d_checkpoint = Stored (checkpoint_of q)\<rparr>"
proof -
  from assms obtain q where q: "extends_history s q" "canonical_state q"
    and d: "committed q d \<or> (\<exists>n. canonical_state n \<and> advances q n \<and> between q n d)" by (auto simp: disk_extends_def)
  show thesis
  proof (cases "committed q d")
    case True
    with q show thesis by (rule committed)
  next
    case False
    with d obtain n where n: "canonical_state n" "advances q n" "between q n d" by blast
    then have "extends_history s n" using extends_history_trans [OF q(1)] advances_history q(2) by blast
    with n False q show thesis using committed [of n] ahead [of q n] by (auto simp: between_def)
  qed
qed

text \<open>Loading such a disk gives a state that extends \<open>s\<close>, or fails and leaves such a disk.\<close>

lemma Load_extends:
  assumes "disk_extends s d" and "os_errors (snd env)" and load: "Load (CHR ''/'' # path) env d = (r, d')"
  shows "disk_extends s d'" and "r = Inr t \<Longrightarrow> extends_history s t \<and> canonical_state t \<and> committed t d'"
    and "r = Inl e \<Longrightarrow> \<not> errors_is e ErrStateNotFound"
proof -
  have "disk_extends s d' \<and> (r = Inr t \<longrightarrow> extends_history s t \<and> canonical_state t \<and> committed t d')
    \<and> (r = Inl e \<longrightarrow> \<not> errors_is e ErrStateNotFound)"
    using assms(1)
  proof (cases rule: disk_extends_cases)
    case (committed q)
    with load have "r = Inr q" "d' = d" using Load_committed [of "CHR ''/'' # path" q d env] by simp_all
    with committed assms(1) show ?thesis by auto
  next
    case (ahead q n)
    note succ = progress_successor [OF ahead(4)]
    then have v: "StateFile_Validate n = Inr ()" by (simp add: successor_def)
    have ext: "extends_history s n" using extends_history_trans [OF ahead(1)] advances_history [OF ahead(4,2)] by blast
    obtain r' d2 where sv2: "saveCheckpoint (snd env) d n = (r', d2)" by fastforce
    then have sv: "saveCheckpoint (snd env) d n = (r', d')" and r: "r = bindE r' (\<lambda>_. Inr n)"
      using load Load_ahead [OF _ succ, of "CHR ''/'' # path" env] ahead(5) by simp_all
    have err: "\<not> errors_is e ErrStateNotFound" if "r = Inl e"
      using that r sv saveCheckpoint_os [OF assms(2) v, of d e] by (auto simp: bindE_eq_Inl)
    have new: "disk_extends s (d\<lparr>d_checkpoint := Stored (checkpoint_of n)\<rparr>)"
      "committed n (d\<lparr>d_checkpoint := Stored (checkpoint_of n)\<rparr>)"
      using disk_extends_committed [OF ext ahead(3)] v ahead(5) by (simp_all add: committed_def)
    show ?thesis
      by (cases rule: saveCheckpoint_cases [OF v, of "snd env" d]) (use sv r err new ext ahead(3) assms(1) in auto)
  qed
  then show "disk_extends s d'" "r = Inr t \<Longrightarrow> extends_history s t \<and> canonical_state t \<and> committed t d'"
    "r = Inl e \<Longrightarrow> \<not> errors_is e ErrStateNotFound" by simp_all
qed

lemma controller_disk:
  "controller_inv path c \<Longrightarrow> hasState (c_store c) \<Longrightarrow> extends_history s (st_state (c_store c)) \<Longrightarrow> disk_extends s (c_disk c)"
  using extends_history_trans [of s "st_state (c_store c)"]
  by (auto simp: controller_inv_def durable_def disk_extends_def split: option.splits)

text \<open>The options of the server: a fresh store, and the state file at an absolute path.\<close>

definition startable :: "string \<Rightarrow> ControllerOptions \<Rightarrow> bool" where
  "startable path opts \<longleftrightarrow> co_StateStore opts = FileStateStore (CHR ''/'' # path)
     \<and> (\<forall>s. co_Store opts = Some s \<longrightarrow> (\<exists>so. NewStore so = Inr s \<and> \<not> so_HasInitialState so \<and> so_MaxStaleness so \<le> max_duration))"

text \<open>Loading the state into a new controller.\<close>

definition fresh_controller :: "string \<Rightarrow> Controller \<Rightarrow> bool" where
  "fresh_controller path c \<longleftrightarrow> c_stateStore c = FileStateStore (CHR ''/'' # path) \<and> c_pendingCommit c = None
     \<and> c_activation c = no_activation \<and> store_inv (c_store c)"

lemma loadState_cases:
  assumes "fresh_controller path c0" and "\<not> hasState (c_store c0)"
  obtains (failed) e where "fst (loadState env c0) = Inl e" "c_disk (snd (loadState env c0)) = snd (Load (CHR ''/'' # path) env (c_disk c0))"
  | (empty) e where "loadState env c0 = (Inr (), c0\<lparr>c_disk := snd (Load (CHR ''/'' # path) env (c_disk c0))\<rparr>)"
      "fst (Load (CHR ''/'' # path) env (c_disk c0)) = Inl e" "errors_is e ErrStateNotFound"
  | (loaded) t s where "fst (Load (CHR ''/'' # path) env (c_disk c0)) = Inr t"
      "loadState env c0 = (Inr (), c0\<lparr>c_disk := snd (Load (CHR ''/'' # path) env (c_disk c0)), c_store := s\<rparr>)"
      "store_inv s" "hasState s" "st_state s = t"
proof (cases "fst (Load (CHR ''/'' # path) env (c_disk c0))")
  case (Inl e)
  with assms(1) that(1,2) show thesis
    by (cases "errors_is e ErrStateNotFound") (auto simp: fresh_controller_def loadState_def ss_Load_def Let_def case_prod_beta)
next
  case (Inr t)
  show thesis
  proof (cases "bindE (validateStateScope (c_observer c0) t) (\<lambda>_. LoadState (c_store c0) t)")
    case (Inl e)
    with Inr assms(1) show thesis
      by (intro that(1) [of e]) (auto simp: fresh_controller_def loadState_def ss_Load_def Let_def case_prod_beta bindE_eq_Inl)
  next
    case (Inr s)
    then have l: "LoadState (c_store c0) t = Inr s" and v: "validateStateScope (c_observer c0) t = Inr ()" by simp_all
    have "store_inv s" "hasState s" "st_state s = t"
      using LoadState_inv [OF l] assms(1) l by (auto simp: fresh_controller_def LoadState_def Let_def)
    with \<open>fst (Load (CHR ''/'' # path) env (c_disk c0)) = Inr t\<close> v l assms(1) show thesis
      by (intro that(3) [of t s]) (auto simp: fresh_controller_def loadState_def ss_Load_def Let_def case_prod_beta)
  qed
qed

lemma NewController_cases:
  assumes "NewController opts r r' env d = (res, d')" and "startable path opts"
  obtains (rejected) e where "res = Inl e" "d' = d"
  | (failed) e where "res = Inl e" "d' = snd (Load (CHR ''/'' # path) env d)"
  | (empty) c e where "res = Inr c" "fresh_controller path c" "c_disk c = d'" "d' = snd (Load (CHR ''/'' # path) env d)"
      "\<not> hasState (c_store c)" "fst (Load (CHR ''/'' # path) env d) = Inl e" "errors_is e ErrStateNotFound"
      "co_Observer opts = Some (c_observer c)"
  | (loaded) c t where "res = Inr c" "fresh_controller path c" "c_disk c = d'" "d' = snd (Load (CHR ''/'' # path) env d)"
      "hasState (c_store c)" "fst (Load (CHR ''/'' # path) env d) = Inr t" "st_state (c_store c) = t"
      "co_Observer opts = Some (c_observer c)"
proof -
  have ss: "co_StateStore opts = FileStateStore (CHR ''/'' # path)" using assms(2) by (simp add: startable_def)
  consider (bad) "\<exists>e. res = Inl e \<and> d' = d"
    | (built) s ob where "co_Store opts = Some s" "co_Observer opts = Some ob"
        "(res, d') = (let (loaded, c) = loadState env (publishCircuitBreakerState r r' (initial_controller opts s ob d))
             in (bindE loaded (\<lambda>_. Inr c), c_disk c))"
    using assms(1) ss unfolding NewController_def by (auto simp: Let_def split: if_splits option.splits)
  then show thesis
  proof cases
    case bad
    then show thesis using rejected by blast
  next
    case built
    from assms(2) built(1) obtain so where so: "NewStore so = Inr s" "\<not> so_HasInitialState so" "so_MaxStaleness so \<le> max_duration"
      by (auto simp: startable_def)
    let ?c0 = "publishCircuitBreakerState r r' (initial_controller opts s ob d)"
    have c0: "fresh_controller path ?c0" "\<not> hasState (c_store ?c0)" "c_disk ?c0 = d" "c_observer ?c0 = ob"
      using NewStore_inv [OF so(1,3)] so ss
      by (auto simp: NewStore_def Let_def fresh_controller_def initial_controller_def publishCircuitBreakerState_def
          UpdateCircuitBreaker_inv)
    show thesis
      by (cases rule: loadState_cases [OF c0(1,2), of env]; insert built(2,3) c0; simp add: Let_def case_prod_beta)
        (auto intro: failed empty loaded simp: fresh_controller_def)
  qed
qed

text \<open>The process and its disk over restarts; a stopped process leaves its disk.\<close>

datatype world = Running Controller | Stopped Disk

inductive world_step :: "string \<Rightarrow> world \<Rightarrow> world \<Rightarrow> bool" for path where
  operation: "world_step path (Running c) (Running (apply_op op c))"
| crash: "world_step path (Running c) (Stopped (c_disk c))"
| start: "startable path opts \<Longrightarrow> os_errors (snd env) \<Longrightarrow> NewController opts r r' env d = (Inr c, d') \<Longrightarrow>
    world_step path (Stopped d) (Running c)"
| start_failed: "startable path opts \<Longrightarrow> os_errors (snd env) \<Longrightarrow> NewController opts r r' env d = (Inl e, d') \<Longrightarrow>
    world_step path (Stopped d) (Stopped d')"

inductive world_run :: "string \<Rightarrow> world \<Rightarrow> world \<Rightarrow> bool" for path where
  refl: "world_run path w w"
| step: "world_run path w w' \<Longrightarrow> world_step path w' w'' \<Longrightarrow> world_run path w w''"

inductive_cases world_step_RunningE: "world_step path (Running c) w"
inductive_cases world_step_StoppedE: "world_step path (Stopped d) w"

fun world_inv :: "string \<Rightarrow> world \<Rightarrow> bool" where
  "world_inv path (Running c) \<longleftrightarrow> controller_inv path c"
| "world_inv path (Stopped d) \<longleftrightarrow> stored_canonical d"

text \<open>What is left of a state \<open>s\<close> that was published.\<close>

fun world_extends :: "StateFile \<Rightarrow> world \<Rightarrow> bool" where
  "world_extends s (Running c) \<longleftrightarrow> hasState (c_store c) \<and> extends_history s (st_state (c_store c))"
| "world_extends s (Stopped d) \<longleftrightarrow> disk_extends s d"

lemma Load_stored_canonical: "stored_canonical d \<Longrightarrow> stored_canonical (snd (Load path env d))"
proof -
  have "d_state (snd (Load path env d)) = d_state d"
    by (auto simp: Load_def saveCheckpoint_def Let_def case_prod_beta split: sum.split)
  then show "stored_canonical d \<Longrightarrow> stored_canonical (snd (Load path env d))" by (simp add: stored_canonical_def)
qed

lemma NewController_inv:
  assumes "NewController opts r r' env d = (res, d')" and "startable path opts" and "stored_canonical d"
  shows "stored_canonical d'" and "res = Inr c \<Longrightarrow> controller_inv path c"
proof -
  note lsc = Load_stored_canonical [OF assms(3), of "CHR ''/'' # path" env]
  have "stored_canonical d' \<and> (res = Inr c \<longrightarrow> controller_inv path c)"
  proof (cases rule: NewController_cases [OF assms(1,2)])
    case (3 c' e)
    then show ?thesis using lsc by (auto simp: controller_inv_def durable_def fresh_controller_def)
  next
    case (4 c' t)
    then have "committed t d'" "d_state d = Stored t" using Load_Inr [OF 4(6)] by simp_all
    with 4 assms(3) lsc show ?thesis
      by (auto simp: controller_inv_def durable_def stored_canonical_def fresh_controller_def)
  qed (use assms(3) lsc in auto)
  then show "stored_canonical d'" "res = Inr c \<Longrightarrow> controller_inv path c" by simp_all
qed

lemma world_step_inv: "world_step path w w' \<Longrightarrow> world_inv path w \<Longrightarrow> world_inv path w'"
proof (induction rule: world_step.induct)
  case (operation c op)
  then show ?case using apply_op_inv by simp
next
  case (crash c)
  then show ?case by (simp add: controller_inv_def)
qed (auto dest: NewController_inv)

lemma world_run_inv: "world_run path w w' \<Longrightarrow> world_inv path w \<Longrightarrow> world_inv path w'"
  by (induction rule: world_run.induct) (auto intro: world_step_inv)

lemma NewController_extends:
  assumes new: "NewController opts r r' env d = (res, d')" and "startable path opts" and "os_errors (snd env)" and "disk_extends s d"
  shows "disk_extends s d'" and "res = Inr c \<Longrightarrow> world_extends s (Running c)"
proof -
  obtain lr ld where load: "Load (CHR ''/'' # path) env d = (lr, ld)" by fastforce
  note l = Load_extends [OF assms(4,3) load]
  have "disk_extends s d' \<and> (res = Inr c \<longrightarrow> world_extends s (Running c))"
    by (cases rule: NewController_cases [OF assms(1,2)]) (use assms(4) load l in auto)
  then show "disk_extends s d'" "res = Inr c \<Longrightarrow> world_extends s (Running c)" by simp_all
qed

lemma world_step_extends:
  "world_step path w w' \<Longrightarrow> world_inv path w \<Longrightarrow> world_extends s w \<Longrightarrow> world_extends s w'"
proof (induction rule: world_step.induct)
  case (operation c op)
  then show ?case using apply_op_inv [of path c op] extends_history_trans [of s] by (auto simp: republished_def)
next
  case (crash c)
  then show ?case using controller_disk by simp
next
  case (start opts env r r' d c d')
  then show ?case using NewController_extends(2) [OF start(3,1,2)] by simp
next
  case (start_failed opts env r r' d e d')
  then show ?case using NewController_extends(1) [OF start_failed(3,1,2)] by simp
qed

lemma world_run_extends:
  "world_run path w w' \<Longrightarrow> world_inv path w \<Longrightarrow> world_extends s w \<Longrightarrow> world_extends s w'"
proof (induction rule: world_run.induct)
  case (step w w' w'')
  then show ?case using world_step_extends [OF step(2) world_run_inv [OF step(1)]] by simp
qed simp

lemma store_Lookup_resolves:
  "store_inv s \<Longrightarrow> hasState s \<Longrightarrow> resolves (st_state s) k \<longleftrightarrow> (\<exists>x. store_Lookup s k = Inr x)"
  by (auto simp: store_inv_def runtimeRegistry_def store_Lookup_def resolves_def)

lemma lookup_never_lost:
  assumes "world_run path (Running c) (Running c')" and inv: "controller_inv path c" and look: "store_Lookup (c_store c) k = Inr x"
  shows "hasState (c_store c')" and "\<exists>y. store_Lookup (c_store c') k = Inr y"
    and "Generation (st_state (c_store c)) \<le> Generation (st_state (c_store c'))"
proof -
  from look have hs: "hasState (c_store c)" by (auto simp: store_Lookup_def split: if_splits)
  have "world_extends (st_state (c_store c)) (Running c)"
    using hs extends_history.start published_valid [OF inv hs] by simp
  with world_run_extends [OF assms(1), of "st_state (c_store c)"] inv have ext: "world_extends (st_state (c_store c)) (Running c')" by simp
  moreover have inv': "controller_inv path c'" using world_run_inv [OF assms(1)] inv by simp
  moreover have "resolves (st_state (c_store c)) k" using store_Lookup_resolves hs inv look by (auto simp: controller_inv_def)
  ultimately show "hasState (c_store c')" "\<exists>y. store_Lookup (c_store c') k = Inr y"
    "Generation (st_state (c_store c)) \<le> Generation (st_state (c_store c'))"
    using history_keeps [of "st_state (c_store c)" "st_state (c_store c')" k] store_Lookup_resolves
    by (auto simp: controller_inv_def)
qed

end
