(* ===== verification/Controller_Activation.thy ===== *)
theory Controller_Activation
  imports Controller_Restart
begin

text \<open>
  The activation delay (\<^verbatim>\<open>internal/status/activation.go\<close>): where the readings come from that allow a promotion.
\<close>

section \<open>The activation delay\<close>

text \<open>After the operation \<open>i\<close> of a run, a metadata probe, the published state has the key \<open>k\<close> pending and stable.\<close>

definition stable_at :: "controller_op list \<Rightarrow> Controller \<Rightarrow> nat \<Rightarrow> string \<Rightarrow> probe_env \<Rightarrow> bool" where
  "stable_at ops c0 i k env \<longleftrightarrow> i < length ops \<and> ops ! i = DoProbe env
     \<and> (\<exists>p. pendingRecord (st_state (c_store (run_ops (take (Suc i) ops) c0))) = Some p \<and> r_KubernetesKeyID p = k
          \<and> r_StableAtUnix p \<noteq> 0 \<and> RequireStableObservationCount (policy (c_observer c0)) \<le> r_StableObservationCount p)"

text \<open>The key was stable at one probe, and a later probe started at least the activation delay after that one ended.\<close>

definition matured :: "controller_op list \<Rightarrow> Controller \<Rightarrow> string \<Rightarrow> bool" where
  "matured ops c0 k \<longleftrightarrow> (\<exists>i j e e'. stable_at ops c0 i k e \<and> i < j \<and> j < length ops \<and> ops ! j = DoProbe e'
     \<and> ActivationDelay (policy (c_observer c0)) \<le> Elapsed (pe_now e') - Elapsed (pe_activationReading e))"

lemma stable_at_append: "stable_at ops c0 i k e \<Longrightarrow> stable_at (ops @ [op]) c0 i k e"
  by (simp add: stable_at_def nth_append)

lemma matured_append: "matured ops c0 k \<Longrightarrow> matured (ops @ [op]) c0 k"
  unfolding matured_def by (metis length_append_singleton less_SucI nth_append stable_at_append)

text \<open>The states a controller holds: the published one and those of a pending commit.\<close>

definition held :: "Controller \<Rightarrow> StateFile set" where
  "held c = (if hasState (c_store c) then {st_state (c_store c)} else {})
     \<union> (case c_pendingCommit c of None \<Rightarrow> {} | Some k \<Rightarrow> insert (sc_next k) (set_option (sc_previous k)))"

lemma quiet_held: "quiet c c' \<Longrightarrow> held c' = held c"
  by (simp add: quiet_def held_def)

definition activation_inv :: "controller_op list \<Rightarrow> Controller \<Rightarrow> Controller \<Rightarrow> bool" where
  "activation_inv ops c0 c \<longleftrightarrow> hasState (c_store c) \<and> c_observer c = c_observer c0
     \<and> (c_activation c = no_activation \<or> (\<exists>i e. stable_at ops c0 i (a_keyID (c_activation c)) e
          \<and> a_deadline (c_activation c) = clock_After (pe_activationReading e) (ActivationDelay (policy (c_observer c0)))))
     \<and> (\<forall>t\<in>held c. ActiveKeyID t = ActiveKeyID (st_state (c_store c0)) \<or> matured ops c0 (ActiveKeyID t))"

lemma activation_inv_append: "activation_inv ops c0 c \<Longrightarrow> activation_inv (ops @ [op]) c0 c"
  unfolding activation_inv_def using stable_at_append matured_append by blast

lemma quiet_activation: "quiet c c' \<Longrightarrow> activation_inv ops c0 c \<Longrightarrow> activation_inv ops c0 c'"
  using quiet_held [of c c'] by (simp add: activation_inv_def quiet_def)

lemma pendingRecord_Some: "pendingRecord st = Some p \<Longrightarrow> p \<in> set (Snapshots st) \<and> r_State p = StatePending"
  by (auto simp: pendingRecord_def find_Some_iff)

lemma stableCandidate_Some:
  "stableCandidate c st profile = Some p \<Longrightarrow> pendingRecord st = Some p \<and> r_TransitVersion p = LatestVersion profile
     \<and> r_StableAtUnix p \<noteq> 0 \<and> RequireStableObservationCount (policy (c_observer c)) \<le> r_StableObservationCount p"
  by (auto simp: stableCandidate_def split: option.splits if_splits)

text \<open>An observation of the controller changes the active key only after the deadline of its activation.\<close>

lemma observation_activates:
  assumes "observation_result c st True profile now discover = Inr result" and "canonical_state st"
    and "ActiveKeyID (or_State result) \<noteq> ActiveKeyID st" and "ActivationDelay (policy (c_observer c)) \<noteq> 0"
  shows "\<not> discover" and "a_keyID (c_activation c) = ActiveKeyID (or_State result)"
    and "\<not> Pending (a_deadline (c_activation c)) now" and "a_keyID (c_activation c) \<noteq> []"
proof -
  show adv: "\<not> discover"
    using assms(1,3) observe_promotion [of "c_observer c" st profile "Wall now" False False result]
    by (auto simp: observation_result_def Discover_def)
  then have obs: "observe (c_observer c) st profile (Wall now) True (promotionReady c st profile now) = Inr result"
    using assms(1) by (simp add: observation_result_def Observe_def)
  from observe_promotion [OF this] assms(3,4) obtain k where ready: "promotionReady c st profile now"
    and k: "snapshotForProfile (c_observer c) profile (LatestVersion profile) StatePending = Inr k"
    "ActiveKeyID (or_State result) = KubernetesKeyID k" by auto
  from ready assms(4) obtain p where p: "stableCandidate c st profile = Some p"
    and a: "a_keyID (c_activation c) = r_KubernetesKeyID p" "\<not> Pending (a_deadline (c_activation c)) now"
    by (auto simp: promotionReady_def split: option.splits)
  note pp = stableCandidate_Some [OF p]
  then have mem: "p \<in> set (Snapshots st)" "r_State p = StatePending" using pendingRecord_Some by blast+
  have st: "content_ok st" using obs by (auto simp: observe_Inr intro: validated_content)
  have "rec_id p = KubernetesKeyID k"
    using obs st mem k pp by (intro retained_version_key [of st "c_observer c" profile]) (auto simp: observe_Inr decryptable_state_def)
  moreover have "r_KubernetesKeyID p = rec_id p" using assms(2) mem(1) by (simp add: canonical_state_def)
  ultimately show "a_keyID (c_activation c) = ActiveKeyID (or_State result)" "\<not> Pending (a_deadline (c_activation c)) now"
    "a_keyID (c_activation c) \<noteq> []"
    using a k(2) rec_id_not_Nil by auto
qed

lemma clock_After_elapsed:
  "in_i64 (Elapsed r + d) \<Longrightarrow> \<not> Pending (clock_After r d) now \<Longrightarrow> d \<le> Elapsed now - Elapsed r"
  using deadline_pending [of r d now] by simp

text \<open>The result of an observation by the operation that follows \<open>ops\<close>.\<close>

lemma observed_matured:
  assumes inv: "activation_inv ops c0 c" and obs: "observed path c c1 st has profile (pe_now env) discover result"
    and delay: "ActivationDelay (policy (c_observer c0)) \<noteq> 0"
    and op: "\<not> discover \<longrightarrow> op = DoProbe env"
    and wrap: "\<forall>e. DoProbe e \<in> set ops \<longrightarrow> in_i64 (Elapsed (pe_activationReading e) + ActivationDelay (policy (c_observer c0)))"
  shows "has" and "st \<in> held c" and "ActiveKeyID (or_State result) = ActiveKeyID (st_state (c_store c0))
    \<or> matured (ops @ [op]) c0 (ActiveKeyID (or_State result))"
proof -
  from inv have hs: "hasState (c_store c)" and ob: "c_observer c = c_observer c0" by (simp_all add: activation_inv_def)
  from obs have base: "based_on path c1 st has" and same: "c_store c1 = c_store c" "c_observer c1 = c_observer c"
    "c_activation c1 = c_activation c"
    and src: "has \<longrightarrow> (case c_pendingCommit c of None \<Rightarrow> st = st_state (c_store c) | Some k \<Rightarrow> st = sc_next k)"
    and res: "observation_result c1 st has profile (pe_now env) discover = Inr result" by (simp_all add: observed_def)
  show has: "has" using base hs same by (auto simp: based_on_def split: if_splits)
  show held: "st \<in> held c" using src has hs by (auto simp: held_def split: option.splits)
  show "ActiveKeyID (or_State result) = ActiveKeyID (st_state (c_store c0))
    \<or> matured (ops @ [op]) c0 (ActiveKeyID (or_State result))"
  proof (cases "ActiveKeyID (or_State result) = ActiveKeyID st")
    case True
    with held inv matured_append show ?thesis by (auto simp: activation_inv_def)
  next
    case False
    have can: "canonical_state st" using base has by (simp add: based_on_def)
    have res': "observation_result c1 st True profile (pe_now env) discover = Inr result" using res has by simp
    note act = observation_activates [OF res' can False, unfolded same ob, OF delay]
    have "c_activation c \<noteq> no_activation" using act(4) by (auto simp: no_activation_def)
    with inv obtain i e where "stable_at ops c0 i (a_keyID (c_activation c)) e"
      and dl: "a_deadline (c_activation c) = clock_After (pe_activationReading e) (ActivationDelay (policy (c_observer c0)))"
      unfolding activation_inv_def by blast
    with act(2) have st: "stable_at ops c0 i (ActiveKeyID (or_State result)) e" by simp
    have i: "i < length ops" "DoProbe e \<in> set ops" using st by (auto simp: stable_at_def in_set_conv_nth)
    then have "ActivationDelay (policy (c_observer c0)) \<le> Elapsed (pe_now env) - Elapsed (pe_activationReading e)"
      using act(3) dl wrap clock_After_elapsed by metis
    then show ?thesis
      unfolding matured_def using op act(1) i(1) stable_at_append [OF st]
      by (intro disjI2 exI [of _ i] exI [of _ "length ops"]) auto
  qed
qed

text \<open>One metadata observation, by the operation that follows \<open>ops\<close>.\<close>

lemma publishObservation_activation:
  assumes inv: "controller_inv path c" and act: "activation_inv ops c0 c"
    and step: "publishObservation env profile (pe_now env) discover c = (r, c')"
    and delay: "ActivationDelay (policy (c_observer c0)) \<noteq> 0"
    and op: "\<not> discover \<longrightarrow> op = DoProbe env \<and> st_state (c_store (apply_op op (run_ops ops c0))) = st_state (c_store c')"
    and wrap: "\<forall>e. DoProbe e \<in> set ops \<longrightarrow> in_i64 (Elapsed (pe_activationReading e) + ActivationDelay (policy (c_observer c0)))"
  shows "activation_inv (ops @ [op]) c0 c'"
proof (cases rule: publishObservation_cases [OF inv step])
  case (1 c1)
  have "activation_inv (ops @ [op]) c0 c1"
  proof (cases "c_pendingCommit c1 = c_pendingCommit c")
    case True
    with 1 have "held c1 = held c" by (simp add: held_def)
    with 1 activation_inv_append [OF act] show ?thesis by (simp add: activation_inv_def)
  next
    case False
    with 1(6) obtain c2 st has result where obs: "observed path c c2 st has profile (pe_now env) discover result"
      and k: "c_pendingCommit c1 = Some (commit_of st has result)" by blast
    note m = observed_matured [OF act obs delay _ wrap, of op]
    then have "held c1 \<subseteq> held c \<union> {or_State result}"
      using k 1(2) op by (auto simp: held_def commit_of_def)
    with m(3) op activation_inv_append [OF act, of op] 1(2-4) show ?thesis by (auto simp: activation_inv_def)
  qed
  with quiet_activation 1(5) show ?thesis by blast
next
  case (2 c1 st has result)
  note m = observed_matured [OF act 2(1) delay _ wrap, of op]
  from act have ob: "c_observer c = c_observer c0" by (simp add: activation_inv_def)
  have held: "held c' = {or_State result}" using 2 by (simp add: held_def)
  have c1: "c_observer c1 = c_observer c0" "c_activation c1 = c_activation c" using 2(1) ob by (simp_all add: observed_def)
  have "c_activation c' = no_activation \<or> (\<exists>i e. stable_at (ops @ [op]) c0 i (a_keyID (c_activation c')) e
          \<and> a_deadline (c_activation c') = clock_After (pe_activationReading e) (ActivationDelay (policy (c_observer c0))))"
  proof (cases "c_activation c' = no_activation \<or> c_activation c' = c_activation c")
    case True
    then show ?thesis using activation_inv_append [OF act, of op] unfolding activation_inv_def by metis
  next
    case False
    with 2(7) c1 obtain p where disc: "\<not> discover" and p: "stableCandidate c1 (or_State result) profile = Some p"
      and a: "c_activation c' = \<lparr>a_keyID = r_KubernetesKeyID p,
        a_deadline = clock_After (pe_activationReading env) (ActivationDelay (policy (c_observer c0)))\<rparr>"
      by (auto simp: confirmActivation_def split: if_splits option.splits)
    have "stable_at (ops @ [op]) c0 (length ops) (r_KubernetesKeyID p) env"
      using stableCandidate_Some [OF p] op disc 2(4) c1 by (auto simp: stable_at_def)
    with a show ?thesis by auto
  qed
  with m(3) op held 2(3,5) ob show ?thesis by (simp add: activation_inv_def)
qed

lemma probeOnce_activation:
  assumes inv: "controller_inv path c" and act: "activation_inv ops c0 c"
    and delay: "ActivationDelay (policy (c_observer c0)) \<noteq> 0"
    and op: "\<not> discover \<longrightarrow> op = DoProbe env \<and> apply_op op (run_ops ops c0) = snd (probeOnce env discover c)"
    and wrap: "\<forall>e. DoProbe e \<in> set ops \<longrightarrow> in_i64 (Elapsed (pe_activationReading e) + ActivationDelay (policy (c_observer c0)))"
  shows "activation_inv (ops @ [op]) c0 (snd (probeOnce env discover c))"
proof -
  obtain r c' where body: "probe_body env discover c = (r, c')" by fastforce
  have q: "quiet c' (snd (probeOnce env discover c))"
    using with_observation_quiet [of "(r, c')"] by (simp add: probeOnce_def body)
  have "activation_inv (ops @ [op]) c0 c'"
  proof (cases rule: probe_body_cases [OF body])
    case 1
    then show ?thesis using quiet_activation activation_inv_append act by blast
  next
    case (2 profile c1)
    show ?thesis
      by (rule publishObservation_activation [OF quiet_inv [OF 2(1) inv] quiet_activation [OF 2(1) act] 2(2) delay _ wrap])
        (use op q in \<open>auto simp: quiet_def\<close>)
  qed
  with q show ?thesis by (rule quiet_activation)
qed

lemma apply_op_activation:
  assumes inv: "controller_inv path (run_ops ops c0)" and act: "activation_inv ops c0 (run_ops ops c0)"
    and delay: "ActivationDelay (policy (c_observer c0)) \<noteq> 0"
    and wrap: "\<forall>e. DoProbe e \<in> set ops \<longrightarrow> in_i64 (Elapsed (pe_activationReading e) + ActivationDelay (policy (c_observer c0)))"
  shows "activation_inv (ops @ [op]) c0 (apply_op op (run_ops ops c0))"
proof -
  let ?c = "run_ops ops c0"
  have quiet: "activation_inv (ops @ [op]) c0 (apply_op op ?c)" if "quiet ?c (apply_op op ?c)"
    using quiet_activation [OF that] activation_inv_append [OF act] by blast
  show ?thesis
  proof (cases op)
    case (DoProbe env)
    show ?thesis
    proof (cases "acquireProbe env")
      case Inl
      then show ?thesis using quiet DoProbe by (simp add: ProbeOnce_def)
    next
      case Inr
      then have "apply_op op ?c = snd (probeOnce env False ?c)" by (simp add: DoProbe ProbeOnce_def)
      with probeOnce_activation [OF inv act delay _ wrap, of False op env] DoProbe show ?thesis by simp
    qed
  next
    case (DoDeepProbe env)
    then show ?thesis using quiet DeepProbeOnce_quiet by simp
  next
    case (DoRefresh env now stopped keyID)
    show ?thesis
    proof (cases rule: RefreshForDecrypt_cases [of ?c env now stopped keyID])
      case 1
      then show ?thesis using quiet DoRefresh by simp
    next
      case (2 c1)
      have "activation_inv (ops @ [op]) c0 (snd (probeOnce env True c1))"
        by (rule probeOnce_activation [OF quiet_inv [OF 2(1) inv] quiet_activation [OF 2(1) act] delay _ wrap]) simp
      then show ?thesis using quiet_activation [OF 2(2)] DoRefresh by simp
    qed
  next
    case (DoCurrent ctx now)
    then show ?thesis using quiet by (simp add: quiet_def Current_inv)
  next
    case (DoDiagnostics now)
    then show ?thesis using quiet by (simp add: quiet_def DiagnosticsSnapshot_inv)
  qed
qed

lemma run_ops_activation:
  assumes "fresh_controller path c0" and "hasState (c_store c0)" and "controller_inv path c0"
    and "ActivationDelay (policy (c_observer c0)) \<noteq> 0"
    and "\<forall>e. DoProbe e \<in> set ops \<longrightarrow> in_i64 (Elapsed (pe_activationReading e) + ActivationDelay (policy (c_observer c0)))"
  shows "activation_inv ops c0 (run_ops ops c0)"
  using assms(5)
proof (induction ops rule: rev_induct)
  case Nil
  then show ?case using assms(1,2) by (simp add: activation_inv_def fresh_controller_def held_def)
next
  case (snoc op ops)
  have "controller_inv path (run_ops ops c0)" using run_ops_inv [OF assms(3)] by blast
  with snoc assms(4) show ?case using apply_op_activation by simp
qed

end
