(* ===== verification/Server_Lifecycle.thy ===== *)
theory Server_Lifecycle
  imports Controller_Activation
begin

text \<open>
  The guarantees of a server over its whole life: durability before publication, no key lost over restarts, refinement of a
  published history, recovery from failed saves, and the activation delay; with an example server.
\<close>

section \<open>Recovery\<close>

lemma runtimeRegistry_valid: "StateFile_Validate st = Inr () \<Longrightarrow> \<exists>a reg. runtimeRegistry st = Inr (a, reg)"
proof -
  assume v: "StateFile_Validate st = Inr ()"
  then have ok: "content_ok st" by (rule validated_content)
  then obtain r where "r \<in> set (Snapshots st)" "rec_id r = ActiveKeyID st" "rec_ok r" "list_all rec_ok (Snapshots st)"
    by (auto simp: content_ok_def list_all_iff)
  with ok have "\<exists>a. ActiveSnapshot st = Inr a" by (auto simp: ActiveSnapshot_Inr)
  moreover obtain reg where "StateFile_Registry st = Inr reg" using StateFile_Registry_exact [OF ok] by blast
  ultimately show ?thesis using v by (auto simp: runtimeRegistry_def)
qed

text \<open>The state the next observation starts from.\<close>

definition observation_basis :: "Controller \<Rightarrow> StateFile" where
  "observation_basis c = (case c_pendingCommit c of None \<Rightarrow> st_state (c_store c) | Some k \<Rightarrow> sc_next k)"

definition faultless :: "probe_env \<Rightarrow> bool" where
  "faultless env \<longleftrightarrow> pe_recover env = (no_fault, no_fault) \<and> pe_save env = (no_fault, no_fault)"

lemma stateForObservation_faultless:
  assumes inv: "controller_inv path c" and "hasState (c_store c)"
  shows "fst (stateForObservation (no_fault, no_fault) c) = Inr (observation_basis c, True)"
proof (cases "c_pendingCommit c")
  case None
  with assms(2) show ?thesis by (simp add: stateForObservation_def observation_basis_def store_State_def)
next
  case (Some k)
  from inv have ss: "c_stateStore c = FileStateStore (CHR ''/'' # path)" and dur: "durable c" by (simp_all add: controller_inv_def)
  from dur Some assms(2) obtain q where q: "sc_previous k = Some q" "advances q (sc_next k)" "between q (sc_next k) (c_disk c)"
    by (auto simp: durable_def split: option.splits)
  then have "fst (Recover (CHR ''/'' # path) (no_fault, no_fault) (c_disk c) (Some q) (sc_next k)) = Inr ()"
    by (intro file_store.recover_good)
  with Some ss q(1) show ?thesis
    by (simp add: stateForObservation_def observation_basis_def ss_Recover_def case_prod_beta)
qed

lemma publish_finished_store:
  "\<exists>b. c_store (snd (publish_finished env profile discover previous result c)) = UpdateCircuitBreaker (c_store c) b"
proof -
  have store: "c_store (confirmActivation st profile r c) = c_store c" "c_store (observeClockRegression c) = c_store c"
    "c_store (observePromotion previous c) = c_store c"
    "\<exists>b. c_store (recordProbeSuccess k r c) = UpdateCircuitBreaker (c_store c) b" for st r c k
    by (auto simp: confirmActivation_def observeClockRegression_def observePromotion_def recordProbeSuccess_def
        publishCircuitBreakerState_def set_breaker_def case_prod_beta split: option.split)
  let ?c1 = "c\<lparr>c_pendingCommit := None\<rparr>"
  let ?c2 = "if \<not> discover then confirmActivation (or_State result) profile (pe_activationReading env) ?c1 else ?c1"
  let ?c3 = "observePromotion previous (if or_ClockRegressed result then observeClockRegression ?c2 else ?c2)"
  have "c_store ?c3 = c_store c" by (simp add: store(1-3))
  moreover have "snd (publish_finished env profile discover previous result c)
      = recordProbeSuccess ProbeKindMetadata (pe_recordReading env) ?c3"
    unfolding publish_finished_def Let_def by simp
  ultimately show ?thesis using store(4) [of ProbeKindMetadata "pe_recordReading env" ?c3] by simp
qed

lemma promotionReady_cong:
  "c_observer c' = c_observer c \<Longrightarrow> c_activation c' = c_activation c \<Longrightarrow> promotionReady c' = promotionReady c"
  by (intro ext) (simp add: promotionReady_def stableCandidate_def cong: option.case_cong)

lemma observation_result_cong:
  "c_observer c' = c_observer c \<Longrightarrow> c_activation c' = c_activation c \<Longrightarrow> observation_result c' = observation_result c"
  by (intro ext) (simp add: observation_result_def promotionReady_cong [of c' c])

text \<open>A probe that meets no fault publishes its observation.\<close>

lemma publishObservation_faultless:
  assumes inv: "controller_inv path c" and hs: "hasState (c_store c)" and ok: "faultless env"
    and obs: "observation_result c (observation_basis c) True profile now discover = Inr result"
    and step: "publishObservation env profile now discover c = (r, c')"
  shows "r = failIf (or_EncryptionBlocked result) (errw ErrTransitKeyUnusable ''active Transit version cannot encrypt'')"
    and "st_state (c_store c') = or_State result" and "c_pendingCommit c' = None"
    and "metadataOK (c_store c') = (\<not> or_EncryptionBlocked result)"
proof -
  obtain c1 where s0: "stateForObservation (no_fault, no_fault) c = (Inr (observation_basis c, True), c1)"
    using stateForObservation_faultless [OF inv hs] by (metis prod.collapse)
  note b = stateForObservation_based [OF inv s0]
  from b(5) have base: "based_on path c1 (observation_basis c) True" by simp
  from obs b(2-4) have obs1: "observation_result c1 (observation_basis c) True profile now discover = Inr result"
    using observation_result_cong [of c1 c] by simp
  have valid: "StateFile_Validate (or_State result) = Inr ()"
    using observation_advances [OF obs1] base by (auto simp: based_on_def committed_def advances_def ValidateStateProgress_Inr)
  obtain saved c2 where p: "persist_result (no_fault, no_fault) (observation_basis c) True result c1 = (saved, c2)" by fastforce
  have saved: "saved = Inr ()"
    using p b(1) valid Save_no_fault [of "CHR ''/'' # path" "or_State result" "c_disk c1"]
    by (auto simp: persist_result_def saveState_def ss_Save_def controller_inv_def Let_def split: if_splits)
  obtain s where s: "publishMetadata (c_store c2) (or_State result) now (or_EncryptionBlocked result) (pe_storeReading env) = Inr s"
    using runtimeRegistry_valid [OF valid] by (auto simp: publishMetadata_def Let_def)
  have fin: "publish_finished env profile discover (st_active (c_store c1)) result (c2\<lparr>c_store := s\<rparr>) = (r, c')"
    using step s0 p saved s ok obs1
    by (simp add: publishObservation_def publish_result_def faultless_def store_Active_def)
  show "r = failIf (or_EncryptionBlocked result) (errw ErrTransitKeyUnusable ''active Transit version cannot encrypt'')"
    using arg_cong [OF fin, of fst] by (simp add: publish_finished_def Let_def)
  note f = publish_finished_fields [OF fin]
  obtain bs where bs: "c_store c' = UpdateCircuitBreaker s bs"
    using publish_finished_store [of env profile discover "st_active (c_store c1)" result "c2\<lparr>c_store := s\<rparr>"] fin by auto
  have "st_state s = or_State result" "metadataOK s = (\<not> or_EncryptionBlocked result)"
    using publishMetadata_fields [OF s] by blast+
  with f(1,6) bs show "st_state (c_store c') = or_State result" "c_pendingCommit c' = None"
    "metadataOK (c_store c') = (\<not> or_EncryptionBlocked result)" by (simp_all add: UpdateCircuitBreaker_def)
qed

lemma ProbeOnce_faultless:
  assumes inv: "controller_inv path c" and hs: "hasState (c_store c)" and ok: "faultless env"
    and gate: "acquireProbe env = Inr ()" "contextErr (pe_ctx env) = Inr ()" "fst (allow (c_metadataBreaker c) (pe_now env))"
    and transit: "pe_ReadDisableUpsert env (c_mountPath c) = Inr True" "pe_ReadKeyProfile env (c_mountPath c) (c_keyName c) = Inr profile"
    and obs: "Observe (c_observer c) (observation_basis c) profile (Wall (pe_now env))
       (promotionReady c (observation_basis c) profile (pe_now env)) = Inr result"
  shows "fst (ProbeOnce env c) = failIf (or_EncryptionBlocked result) (errw ErrTransitKeyUnusable ''active Transit version cannot encrypt'')"
    and "st_state (c_store (snd (ProbeOnce env c))) = or_State result" and "c_pendingCommit (snd (ProbeOnce env c)) = None"
    and "metadataOK (c_store (snd (ProbeOnce env c))) = (\<not> or_EncryptionBlocked result)"
proof -
  let ?c = "snd (allowProbe ProbeKindMetadata (pe_now env) (pe_allowReading env) c)"
  have q: "quiet c ?c" by (rule allowProbe_quiet)
  have same: "c_mountPath ?c = c_mountPath c" "c_keyName ?c = c_keyName c"
    by (simp_all add: allowProbe_def case_prod_beta publishCircuitBreakerState_def set_breaker_def)
  have allowed: "fst (allowProbe ProbeKindMetadata (pe_now env) (pe_allowReading env) c)"
    using gate(3) by (simp add: allowProbe_def case_prod_beta breakerForKind_def)
  obtain r c' where step: "publishObservation env profile (pe_now env) False ?c = (r, c')" by fastforce
  have body: "probe_body env False c = (r, c')"
    unfolding probe_body_def gate(2) using allowed transit same step by (simp add: case_prod_beta Let_def)
  have probe: "ProbeOnce env c = with_observation ProbeKindMetadata (pe_duration env) (r, c')"
    using gate(1) by (simp add: ProbeOnce_def probeOnce_def body)
  have "observation_basis ?c = observation_basis c" using q by (simp add: observation_basis_def quiet_def cong: option.case_cong)
  moreover have "observation_result ?c = observation_result c" using q by (intro observation_result_cong) (simp_all add: quiet_def)
  ultimately have obs': "observation_result ?c (observation_basis ?c) True profile (pe_now env) False = Inr result"
    using obs by (simp add: observation_result_def)
  note f = publishObservation_faultless [OF quiet_inv [OF q inv] _ ok obs' step]
  have "hasState (c_store ?c)" using q hs by (simp add: quiet_def)
  moreover have "c_store (snd (with_observation k d (r, c'))) = c_store c'" "c_pendingCommit (snd (with_observation k d (r, c'))) = c_pendingCommit c'"
    "fst (with_observation k d (r, c')) = r" for k d
    by (simp_all add: with_observation_def Let_def observeProbe_def)
  ultimately show "fst (ProbeOnce env c) = failIf (or_EncryptionBlocked result) (errw ErrTransitKeyUnusable ''active Transit version cannot encrypt'')"
    and "st_state (c_store (snd (ProbeOnce env c))) = or_State result" and "c_pendingCommit (snd (ProbeOnce env c)) = None"
    and "metadataOK (c_store (snd (ProbeOnce env c))) = (\<not> or_EncryptionBlocked result)"
    using f unfolding probe by simp_all
qed

lemma Load_faultless:
  assumes "disk_extends s d"
  shows "\<exists>t. fst (Load (CHR ''/'' # path) (no_fault, no_fault) d) = Inr t \<and> extends_history s t"
  using assms
proof (cases rule: disk_extends_cases)
  case (committed q)
  then show ?thesis using Load_committed [of "CHR ''/'' # path" q d] by simp
next
  case (ahead q n)
  note succ = progress_successor [OF ahead(4)]
  then have v: "StateFile_Validate n = Inr ()" by (simp add: successor_def)
  have "extends_history s n" using extends_history_trans [OF ahead(1)] advances_history [OF ahead(4,2)] by blast
  then show ?thesis
    using Load_ahead [OF _ succ, of "CHR ''/'' # path" "(no_fault, no_fault)"] v by (simp add: ahead(5) saveCheckpoint_no_fault)
qed

lemma extends_history_valid: "extends_history s t \<Longrightarrow> StateFile_Validate s = Inr ()"
  by (induction rule: extends_history.induct) simp_all

section \<open>An example controller\<close>

definition ex_delayed :: "int \<Rightarrow> Observer" where
  "ex_delayed d = \<lparr>scope = ex_scope, policy = \<lparr>ActivationDelay = d, RequireStableObservationCount = 1, RejectVersionRollback = True\<rparr>\<rparr>"

definition ex_disk :: Disk where
  "ex_disk = \<lparr>d_state = Stored ex_one, d_checkpoint = Stored (checkpoint_of ex_one)\<rparr>"

definition ex_controller_options :: "int \<Rightarrow> ControllerOptions" where
  "ex_controller_options d = \<lparr>co_Store = (case NewStore ex_store_options of Inl _ \<Rightarrow> None | Inr s \<Rightarrow> Some s),
     co_Observer = Some (ex_delayed d), co_HasTransit = True, co_StateStore = FileStateStore ''/s'', co_MountPath = ''transit'',
     co_KeyName = ''k'', co_Breaker = \<lparr>FailureThreshold = 3, OpenDuration = 30\<rparr>, co_ProbeObserver = RegressionObserver,
     co_DecryptRefreshInterval = 0, co_HasLifecycleContext = True, co_DecryptRefreshTimeout = 0\<rparr>"

definition ex_env :: "probe_env" where
  "ex_env = \<lparr>pe_entry = LiveContext, pe_gate = None, pe_ctx = LiveContext, pe_duration = 1,
     pe_now = \<lparr>Wall = time_Unix 100, Elapsed = 7\<rparr>, pe_allowReading = zero_reading, pe_recordReading = zero_reading,
     pe_storeReading = zero_reading, pe_activationReading = \<lparr>Wall = time_Unix 101, Elapsed = 8\<rparr>,
     pe_ReadDisableUpsert = (\<lambda>m. Inr True), pe_ReadKeyProfile = (\<lambda>m k. Inr (ex_profile 1)),
     pe_ProbeEncryptDecrypt = (\<lambda>q. Inr \<lparr>ps_Ciphertext = ''vault:v1:x'', ps_KeyVersion = pq_KeyVersion q\<rparr>),
     pe_recover = (no_fault, no_fault), pe_save = (no_fault, no_fault)\<rparr>"

lemma ex_disk_committed [simp]: "committed ex_one ex_disk" "stored_canonical ex_disk" "os_errors no_fault"
  by (simp_all add: committed_def ex_disk_def stored_canonical_def os_errors_def no_fault_def)

lemma ex_startable [simp]: "startable ''s'' (ex_controller_options d)"
proof -
  have "\<not> so_HasInitialState ex_store_options" "so_MaxStaleness ex_store_options \<le> max_duration"
    by (simp_all add: ex_store_options_def max_duration_def)
  then show ?thesis by (auto simp: startable_def ex_controller_options_def split: sum.splits)
qed

lemma ex_delayed_scope [simp]: "validateStateScope (ex_delayed d) ex_one = Inr ()"
  using ex_one_scope [of 1] by (simp add: validateStateScope_def ex_delayed_def ex_observer_def)

text \<open>The example starts with the state of its disk.\<close>

lemma ex_start:
  obtains c where "NewController (ex_controller_options d) zero_reading zero_reading (no_fault, no_fault) ex_disk = (Inr c, ex_disk)"
    "controller_inv ''s'' c" "hasState (c_store c)" "st_state (c_store c) = ex_one" "c_observer c = ex_delayed d"
    "c_pendingCommit c = None" "c_disk c = ex_disk" "c_metadataBreaker c = newCircuitBreaker \<lparr>FailureThreshold = 3, OpenDuration = 30\<rparr>"
proof -
  obtain s where s: "NewStore ex_store_options = Inr s" by (simp add: NewStore_def ex_store_options_def Let_def)
  define c0 where "c0 = publishCircuitBreakerState zero_reading zero_reading
      (initial_controller (ex_controller_options d) s (ex_delayed d) ex_disk)"
  have c0: "c_stateStore c0 = FileStateStore ''/s''" "c_observer c0 = ex_delayed d" "c_disk c0 = ex_disk" "c_pendingCommit c0 = None"
    "c_metadataBreaker c0 = newCircuitBreaker \<lparr>FailureThreshold = 3, OpenDuration = 30\<rparr>"
    by (simp_all add: c0_def publishCircuitBreakerState_def initial_controller_def ex_controller_options_def)
  obtain a reg where "runtimeRegistry ex_one = Inr (a, reg)" using runtimeRegistry_valid by force
  then obtain s' where l: "LoadState (c_store c0) ex_one = Inr s'" by (simp add: LoadState_def Let_def)
  then have s': "hasState s'" "st_state s' = ex_one" by (auto simp: LoadState_def Let_def)
  have load: "Load ''/s'' (no_fault, no_fault) ex_disk = (Inr ex_one, ex_disk)" by (rule Load_committed) simp_all
  have c0eq: "c0\<lparr>c_disk := ex_disk\<rparr> = c0" using c0(3) by (cases c0) simp
  have "loadState (no_fault, no_fault) c0 = (Inr (), c0\<lparr>c_store := s'\<rparr>)"
    by (simp add: loadState_def ss_Load_def c0 load l c0eq)
  then have new: "NewController (ex_controller_options d) zero_reading zero_reading (no_fault, no_fault) ex_disk
      = (Inr (c0\<lparr>c_store := s'\<rparr>), ex_disk)"
    using s c0(3) unfolding NewController_def c0_def by (simp add: ex_controller_options_def Let_def)
  then have "controller_inv ''s'' (c0\<lparr>c_store := s'\<rparr>)" by (rule NewController_inv(2)) simp_all
  with new s' c0 show thesis by (intro that [of "c0\<lparr>c_store := s'\<rparr>"]) simp_all
qed

lemma ex_running:
  obtains c x where "NewController (ex_controller_options d) zero_reading zero_reading (no_fault, no_fault) ex_disk = (Inr c, ex_disk)"
    "world_run ''s'' (Stopped ex_disk) (Running c)" "store_Lookup (c_store c) (ex_key 1) = Inr x"
    "world_run ''s'' (Running c) (Running c)" "world_step ''s'' (Running c) (Stopped ex_disk)"
proof (rule ex_start [of d])
  fix c
  assume new: "NewController (ex_controller_options d) zero_reading zero_reading (no_fault, no_fault) ex_disk = (Inr c, ex_disk)"
    and c: "controller_inv ''s'' c" "hasState (c_store c)" "st_state (c_store c) = ex_one" "c_disk c = ex_disk"
  have start: "world_step ''s'' (Stopped ex_disk) (Running c)"
    using world_step.start [OF ex_startable _ new] by simp
  have crash: "world_step ''s'' (Running c) (Stopped ex_disk)" using world_step.crash [of "''s''" c] c(4) by simp
  have "resolves ex_one (ex_key 1)" by (simp add: resolves_iff) (simp add: decryptable_state_def)
  then obtain x where "store_Lookup (c_store c) (ex_key 1) = Inr x"
    using store_Lookup_resolves [of "c_store c" "ex_key 1"] c by (auto simp: controller_inv_def)
  then show thesis
    using that new start crash world_run.intros by metis
qed

section \<open>Main results\<close>

text \<open>
  C2 A state is durable before it is published: at every point that a server can reach from its first start, over any number
  of probes, refreshes and restarts with any failures, loading the disk without a fault gives a state that extends
  the published one by accepted generations, so every key the server resolves, and every key it advertises as healthy,
  resolves again after a crash.
\<close>

theorem durable_before_publication:
  assumes "stored_canonical d" and "world_run path (Stopped d) (Running c)" and "store_Lookup (c_store c) k = Inr x"
  shows "\<exists>t reg y. fst (Load (CHR ''/'' # path) (no_fault, no_fault) (c_disk c)) = Inr t
     \<and> extends_history (st_state (c_store c)) t \<and> StateFile_Registry t = Inr reg \<and> Registry_Lookup reg k = Inr y"
proof -
  have inv: "controller_inv path c" using world_run_inv [OF assms(2)] assms(1) by simp
  have hs: "hasState (c_store c)" using assms(3) by (auto simp: store_Lookup_def split: if_splits)
  have "extends_history (st_state (c_store c)) (st_state (c_store c))"
    using published_valid [OF inv hs] by (rule extends_history.start)
  then have "disk_extends (st_state (c_store c)) (c_disk c)" by (rule controller_disk [OF inv hs])
  from Load_faultless [OF this] obtain t where t: "fst (Load (CHR ''/'' # path) (no_fault, no_fault) (c_disk c)) = Inr t"
    "extends_history (st_state (c_store c)) t" by blast
  have "resolves (st_state (c_store c)) k" using store_Lookup_resolves hs inv assms(3) by (auto simp: controller_inv_def)
  then have "resolves t k" using history_keeps [OF t(2)] by blast
  with t show ?thesis by (auto simp: resolves_def)
qed

theorem durable_before_publication_witness:
  "\<exists>c x t reg y. world_run ''s'' (Stopped ex_disk) (Running c) \<and> store_Lookup (c_store c) (ex_key 1) = Inr x
     \<and> fst (Load ''/s'' (no_fault, no_fault) (c_disk c)) = Inr t \<and> StateFile_Registry t = Inr reg
     \<and> Registry_Lookup reg (ex_key 1) = Inr y"
proof -
  obtain c x where c: "world_run ''s'' (Stopped ex_disk) (Running c)" "store_Lookup (c_store c) (ex_key 1) = Inr x"
    using ex_running [of 0] by metis
  from durable_before_publication [OF _ c] show ?thesis using c by auto
qed

text \<open>
  C1 Restarts and failures lose no key: once a running server resolves a key_id, it resolves it at every later point,
  after any number of further probes, failed saves, crashes and restarts, and the published generation
  never goes back.
\<close>

theorem keys_survive_restarts:
  assumes "stored_canonical d" and "world_run path (Stopped d) (Running c)" and "store_Lookup (c_store c) k = Inr x"
    and "world_run path (Running c) (Running c')"
  shows "\<exists>y. store_Lookup (c_store c') k = Inr y \<and> KubernetesKeyID y = k
    \<and> Generation (st_state (c_store c)) \<le> Generation (st_state (c_store c'))"
proof -
  have inv: "controller_inv path c" using world_run_inv [OF assms(2)] assms(1) by simp
  have inv': "controller_inv path c'" using world_run_inv [OF assms(4)] inv by simp
  obtain y where y: "store_Lookup (c_store c') k = Inr y" using lookup_never_lost(2) [OF assms(4) inv assms(3)] by blast
  moreover have "KubernetesKeyID y = k"
    using inv' y store.lookup_key [of "c_store c'" k y] by (simp add: controller_inv_def)
  ultimately show ?thesis using lookup_never_lost(3) [OF assms(4) inv assms(3)] by blast
qed

theorem keys_survive_restarts_witness:
  "\<exists>c c' x y. world_run ''s'' (Stopped ex_disk) (Running c) \<and> store_Lookup (c_store c) (ex_key 1) = Inr x
     \<and> world_run ''s'' (Running c) (Running c') \<and> store_Lookup (c_store c') (ex_key 1) = Inr y \<and> KubernetesKeyID y = ex_key 1"
proof -
  obtain c x where c: "world_run ''s'' (Stopped ex_disk) (Running c)" "store_Lookup (c_store c) (ex_key 1) = Inr x"
    "world_run ''s'' (Running c) (Running c)"
    using ex_running [of 0] by metis
  from keys_survive_restarts [OF _ c] show ?thesis using c by auto
qed

text \<open>
  C3 The server refines a published history: the abstract state is the last published state, and an abstract step extends
  it by accepted generations. Every step of the server, a crash, a start or a failed start included, is matched by such a
  step; after it the invariant holds again, and a running server publishes exactly the abstract state.
\<close>

theorem server_refines_history:
  assumes "world_step path w w'" and "world_inv path w" and "world_extends s w"
  shows "\<exists>s'. extends_history s s' \<and> world_inv path w' \<and> world_extends s' w'
    \<and> (case w' of Running c \<Rightarrow> st_state (c_store c) = s' | Stopped d \<Rightarrow> s' = s)"
proof -
  have inv: "world_inv path w'" by (rule world_step_inv [OF assms(1,2)])
  have ext: "world_extends s w'" by (rule world_step_extends [OF assms])
  show ?thesis
  proof (cases w')
    case (Running c)
    with ext inv have "extends_history s (st_state (c_store c))" "hasState (c_store c)" "controller_inv path c" by simp_all
    then show ?thesis using Running inv published_valid [of path c] extends_history.start by auto
  next
    case (Stopped d)
    with ext have "StateFile_Validate s = Inr ()" using extends_history_valid by (auto simp: disk_extends_def)
    then show ?thesis using Stopped ext inv extends_history.start [of s] by auto
  qed
qed

theorem server_refines_history_witness:
  "\<exists>c w' s'. world_step ''s'' (Running c) w' \<and> extends_history ex_one s' \<and> world_inv ''s'' w' \<and> world_extends s' w'"
proof -
  obtain c where c: "controller_inv ''s'' c" "hasState (c_store c)" "st_state (c_store c) = ex_one"
    using ex_start [of 0] by metis
  then have "world_extends ex_one (Running c)" using extends_history.start [of ex_one] by simp
  with server_refines_history [OF world_step.crash [of "''s''" c], of ex_one] c(1) show ?thesis
    using world_step.crash by (metis world_inv.simps(1))
qed

text \<open>
  C10 Persistence failures heal: in every state a server with a published state can reach, with whatever save pending, a
  probe whose calls to the file system succeed, whose breaker allows it and whose metadata the observer accepts, publishes the
  observed state, leaves no save pending, and makes the metadata healthy unless the active version may not encrypt.
\<close>

theorem probe_recovers:
  assumes "stored_canonical d" and "world_run path (Stopped d) (Running c)" and "hasState (c_store c)" and "faultless env"
    and "acquireProbe env = Inr ()" and "contextErr (pe_ctx env) = Inr ()" and "fst (allow (c_metadataBreaker c) (pe_now env))"
    and "pe_ReadDisableUpsert env (c_mountPath c) = Inr True" and "pe_ReadKeyProfile env (c_mountPath c) (c_keyName c) = Inr profile"
    and "Observe (c_observer c) (observation_basis c) profile (Wall (pe_now env))
       (promotionReady c (observation_basis c) profile (pe_now env)) = Inr result"
  shows "st_state (c_store (snd (ProbeOnce env c))) = or_State result \<and> c_pendingCommit (snd (ProbeOnce env c)) = None
    \<and> metadataOK (c_store (snd (ProbeOnce env c))) = (\<not> or_EncryptionBlocked result)
    \<and> (fst (ProbeOnce env c) = Inr ()) = (\<not> or_EncryptionBlocked result)"
proof -
  have inv: "controller_inv path c" using world_run_inv [OF assms(2)] assms(1) by simp
  show ?thesis using ProbeOnce_faultless [OF inv assms(3-10)] by (simp add: failIf_def)
qed

theorem probe_recovers_witness:
  "\<exists>c. world_run ''s'' (Stopped ex_disk) (Running c) \<and> st_state (c_store (snd (ProbeOnce ex_env c))) = ex_one
     \<and> metadataOK (c_store (snd (ProbeOnce ex_env c))) \<and> fst (ProbeOnce ex_env c) = Inr ()"
proof (rule ex_start [of 0])
  fix c
  assume new: "NewController (ex_controller_options 0) zero_reading zero_reading (no_fault, no_fault) ex_disk = (Inr c, ex_disk)"
    and c: "hasState (c_store c)" "st_state (c_store c) = ex_one" "c_observer c = ex_delayed 0" "c_pendingCommit c = None"
      "c_metadataBreaker c = newCircuitBreaker \<lparr>FailureThreshold = 3, OpenDuration = 30\<rparr>"
  have run: "world_run ''s'' (Stopped ex_disk) (Running c)"
    using world_step.start [OF ex_startable _ new] world_run.intros by (metis ex_disk_committed(3) snd_conv)
  have basis: "observation_basis c = ex_one" by (simp add: observation_basis_def c)
  have env: "faultless ex_env" "acquireProbe ex_env = Inr ()" "contextErr (pe_ctx ex_env) = Inr ()"
    "fst (allow (c_metadataBreaker c) (pe_now ex_env))" "pe_ReadDisableUpsert ex_env (c_mountPath c) = Inr True"
    "pe_ReadKeyProfile ex_env (c_mountPath c) (c_keyName c) = Inr (ex_profile 1)"
    by (simp_all add: faultless_def ex_env_def acquireProbe_def contextErr_def c allow_def newCircuitBreaker_def Let_def)
  obtain result where res: "observe (ex_delayed 0) ex_one (ex_profile 1) now True rd = Inr result" "or_State result = ex_one"
    "\<not> or_EncryptionBlocked result" for now rd
    by (simp add: observe_Inr)
  with basis c have "Observe (c_observer c) (observation_basis c) (ex_profile 1) (Wall (pe_now ex_env))
       (promotionReady c (observation_basis c) (ex_profile 1) (pe_now ex_env)) = Inr result" by (simp add: Observe_def)
  from probe_recovers [OF _ run c(1) env this] show ?thesis using run res by auto
qed

text \<open>
  C4 The activation delay is waited for on the clock of this process: in a server with a positive activation delay, however its
  operations interleave and whatever fails, the active key stays the one it started with, or it is a key that an earlier
  metadata probe of the same process published as pending and stable, and a later metadata probe began at
  least the activation delay after that publication, on the elapsed clock. Persisted timestamps and the wall clock
  cannot shorten the wait.
\<close>

theorem activation_delay:
  assumes "startable path opts" and "stored_canonical d" and "NewController opts r r' env d = (Inr c0, d')"
    and "hasState (c_store c0)" and "0 < ActivationDelay (policy (c_observer c0))"
    and "\<forall>e. DoProbe e \<in> set ops \<longrightarrow> in_i64 (Elapsed (pe_activationReading e) + ActivationDelay (policy (c_observer c0)))"
  shows "ActiveKeyID (st_state (c_store (run_ops ops c0))) = ActiveKeyID (st_state (c_store c0))
    \<or> (\<exists>i j e e'. i < j \<and> j < length ops \<and> stable_at ops c0 i (ActiveKeyID (st_state (c_store (run_ops ops c0)))) e
         \<and> ops ! j = DoProbe e'
         \<and> ActivationDelay (policy (c_observer c0)) \<le> Elapsed (pe_now e') - Elapsed (pe_activationReading e))"
proof -
  have inv: "controller_inv path c0" by (rule NewController_inv(2) [OF assms(3,1,2)]) simp
  have fresh: "fresh_controller path c0" by (cases rule: NewController_cases [OF assms(3,1)]) simp_all
  have "activation_inv ops c0 (run_ops ops c0)"
    using run_ops_activation [OF fresh assms(4) inv _ assms(6)] assms(5) by simp
  moreover have "st_state (c_store (run_ops ops c0)) \<in> held (run_ops ops c0)"
    using calculation by (simp add: activation_inv_def held_def)
  ultimately show ?thesis unfolding activation_inv_def matured_def by blast
qed

theorem activation_delay_witness:
  "\<exists>c0. NewController (ex_controller_options 60) zero_reading zero_reading (no_fault, no_fault) ex_disk = (Inr c0, ex_disk)
     \<and> (ActiveKeyID (st_state (c_store (run_ops [DoProbe ex_env] c0))) = ex_key 1
        \<or> (\<exists>i j e e'. i < j \<and> j < length [DoProbe ex_env]
             \<and> stable_at [DoProbe ex_env] c0 i (ActiveKeyID (st_state (c_store (run_ops [DoProbe ex_env] c0)))) e
             \<and> [DoProbe ex_env] ! j = DoProbe e' \<and> 60 \<le> Elapsed (pe_now e') - Elapsed (pe_activationReading e)))"
proof (rule ex_start [of 60])
  fix c0
  assume new: "NewController (ex_controller_options 60) zero_reading zero_reading (no_fault, no_fault) ex_disk = (Inr c0, ex_disk)"
    and c: "hasState (c_store c0)" "st_state (c_store c0) = ex_one" "c_observer c0 = ex_delayed 60"
  have d: "ActivationDelay (policy (c_observer c0)) = 60" by (simp add: c ex_delayed_def)
  have "in_i64 (Elapsed (pe_activationReading ex_env) + 60)" by (simp add: ex_env_def in_i64_def)
  with activation_delay [OF ex_startable _ new c(1), of "[DoProbe ex_env]"] show ?thesis
    using new unfolding d by (simp add: c)
qed

end
