(* ===== verification/Provider_Startup.thy ===== *)
theory Provider_Startup
  imports Configuration Transit_Client Server_Lifecycle
begin

text \<open>
  Startup of the provider (\<^verbatim>\<open>cmd/bao-kms-provider/serve.go\<close>, with the observer's construction of \<^verbatim>\<open>diagnostics.go\<close> and the
  certificate login of \<^verbatim>\<open>certauth_enabled.go\<close> and \<^verbatim>\<open>certauth_default.go\<close>): how a validated configuration becomes the parts of
  the running server, and the probes that precede serving.
\<close>

section \<open>Parts of the configuration\<close>

definition authConfig :: "Config \<Rightarrow> ManagerConfig" where
  "authConfig cfg =
    (let au = cf_Auth cfg; jwt = au_JWT au in
     \<lparr>mc_MountPath = jc_MountPath jwt, mc_Role = jc_Role jwt, mc_JWTFile = jc_JWTFile jwt,
      mc_MinJWTRemainingTTL = jc_MinRemainingTTL jwt, mc_ClockSkewLeeway = jc_ClockSkewLeeway jwt,
      mc_LoginBeforeTokenExpiry = au_LoginBeforeTokenExpiry au, mc_TokenRenewalIncrement = au_TokenRenewalIncrement au,
      mc_ExpectedIssuer = jc_ExpectedIssuer jwt, mc_ExpectedAudience = jc_ExpectedAudience jwt,
      mc_ExpectedSubject = jc_ExpectedSubject jwt\<rparr>)"

definition authLoginTimeout :: "Config \<Rightarrow> int" where
  "authLoginTimeout cfg =
    (if au_LoginTimeout (cf_Auth cfg) > 0 then au_LoginTimeout (cf_Auth cfg)
     else if bo_Timeout (cf_OpenBao cfg) > 5 * second then bo_Timeout (cf_OpenBao cfg)
     else 5 * second)"

definition lifecycleConfig :: "Config \<Rightarrow> LifecycleConfig" where
  "lifecycleConfig cfg =
     \<lparr>LoginBeforeTokenExpiry = au_LoginBeforeTokenExpiry (cf_Auth cfg), TokenRenewalIncrement = au_TokenRenewalIncrement (cf_Auth cfg)\<rparr>"

definition certLoginSourceConfig :: "Config \<Rightarrow> CertLoginSourceConfig" where
  "certLoginSourceConfig cfg =
    (let cert = au_Cert (cf_Auth cfg) in
     \<lparr>cs_MountPath = ca_MountPath cert, cs_Name = ca_Name cert, cs_Source = ca_Source cert,
      cs_MinRemainingTTL = ca_MinRemainingTTL cert, cs_ClockSkewLeeway = ca_ClockSkewLeeway cert,
      cs_ExpectedSPIFFEID = spf_SPIFFEID (ca_SPIFFE cert), cs_TrustDomain = spf_TrustDomain (ca_SPIFFE cert)\<rparr>)"

definition rotationPolicy :: "Config \<Rightarrow> RotationPolicy" where
  "rotationPolicy cfg =
     \<lparr>ActivationDelay = rt_ActivationDelay (cf_Rotation cfg),
      RequireStableObservationCount = rt_RequireStableObservationCount (cf_Rotation cfg),
      RejectVersionRollback = rt_RejectVersionRollback (cf_Rotation cfg)\<rparr>"

definition config_scope :: "Config \<Rightarrow> string \<Rightarrow> SnapshotScope" where
  "config_scope cfg fingerprint =
    (let ks = tx_KeyIDScope (cf_Transit cfg) in
     \<lparr>sc_IdentityFingerprint = fingerprint, sc_ProviderName = ks_ProviderName ks, sc_ClusterID = ks_ClusterID ks,
      sc_OpenBaoInstanceID = bo_InstanceID (cf_OpenBao cfg), sc_OpenBaoNamespace = bo_Namespace (cf_OpenBao cfg),
      sc_TransitMountID = ks_TransitMountID ks, sc_TransitKeyLineageID = ks_KeyLineageID ks, sc_AADMode = AADModeRequired\<rparr>)"

text \<open>An error of the configuration is reported as such; its list of problems is not needed further.\<close>

definition newRotationObserver :: "Config \<Rightarrow> Observer res" where
  "newRotationObserver cfg =
    (case IdentityFingerprint_of cfg of
       Inl _ \<Rightarrow> Inl (Msg ''config invalid'')
     | Inr fingerprint \<Rightarrow> NewObserver (config_scope cfg fingerprint) (rotationPolicy cfg))"

section \<open>Socket group\<close>

definition parseNumericGroupID :: "string \<Rightarrow> (int \<times> bool) res" where
  "parseNumericGroupID value =
    (if list_ex (\<lambda>(r, _). r < 48 \<or> 57 < r) (runes value) then Inr (-1, False)
     else case parse_digits value of
            Some n \<Rightarrow> if n < 2 ^ 31 then Inr (int n, True) else Inl (Msg ''parse socket group id'')
          | None \<Rightarrow> Inl (Msg ''parse socket group id''))"

text \<open>\<open>lookup_group\<close> is \<open>user.LookupGroup\<close>, with the group id it reports as a number where it is one of 32 bits.\<close>

definition lookupGroupID :: "(string \<Rightarrow> int option option) \<Rightarrow> string \<Rightarrow> int res" where
  "lookupGroupID lookup_group name =
    (if name = [] then Inr (-1)
     else case parseNumericGroupID name of
            Inl err \<Rightarrow> Inl err
          | Inr (gid, ok) \<Rightarrow>
             if ok then Inr gid
             else (case lookup_group name of
                     None \<Rightarrow> Inl (Msg ''lookup socket group'')
                   | Some None \<Rightarrow> Inl (Msg ''parse socket group id'')
                   | Some (Some gid) \<Rightarrow> Inr gid))"

section \<open>Authentication\<close>

text \<open>The host: parsing of URLs, files, PEM texts and groups, and the certificate provider of the build, if it has one.\<close>

record 'c host =
  h_url_parse :: "string \<Rightarrow> URL option"
  h_read_file :: "string \<Rightarrow> string option"
  h_pem_certs :: "string \<Rightarrow> 'c list"
  h_lookup_group :: "string \<Rightarrow> int option option"
  h_certificate_provider :: "(Config \<Rightarrow> unit res) option"

definition auth_client_config :: "Config \<Rightarrow> bool \<Rightarrow> AuthClientConfig" where
  "auth_client_config cfg certificate =
    (let bo = cf_OpenBao cfg in
     \<lparr>ac_Address = bo_Address bo, ac_Namespace = bo_Namespace bo, ac_CACertFile = bo_CACertFile bo,
      ac_TLSServerName = bo_TLSServerName bo, ac_Timeout = authLoginTimeout cfg, ac_GetClientCertificate = certificate\<rparr>)"

definition manager_options :: "Config \<Rightarrow> ManagerOptions" where
  "manager_options cfg =
     \<lparr>mo_LifecycleContext = LiveContext, mo_RefreshTimeout = authLoginTimeout cfg, mo_RenewalEnabled = True,
      mo_RefreshRetryBackoff = 0, mo_MaxRefreshRetryBackoff = 0\<rparr>"

definition buildJWTLoginSource :: "'c host \<Rightarrow> Config \<Rightarrow> SourceInfo res" where
  "buildJWTLoginSource h cfg =
    (let jwt = au_JWT (cf_Auth cfg); info = \<lparr>si_AuthMethod = AuthMethodJWT, si_CertificateSource = []\<rparr> in
     if jc_Source jwt = JWTSourceFile then bindE (NewJWTLoginSource (authConfig cfg)) (\<lambda>_. Inr info)
     else if jc_Source jwt = JWTSourceOAuth2 then
       bindE (NewOAuth2LoginSource (h_url_parse h) (h_read_file h) (h_pem_certs h) (authConfig cfg)
         (OAuth2Config_ClientConfig (jc_OAuth2 jwt) (authLoginTimeout cfg))) (\<lambda>_. Inr info)
     else Inl (autherr ErrAuthConfig ''unsupported JWT source''))"

definition newCertAuthManager :: "'c host \<Rightarrow> Config \<Rightarrow> Manager res" where
  "newCertAuthManager h cfg =
    (case h_certificate_provider h of
       None \<Rightarrow> Inl (autherr ErrAuthConfig ''auth.method cert requires a certauth build variant'')
     | Some newCertificateProvider \<Rightarrow>
        bindE (newCertificateProvider cfg) (\<lambda>_.
        bindE (NewAuthClient (h_url_parse h) (h_read_file h) (h_pem_certs h) (auth_client_config cfg True)) (\<lambda>_.
        bindE (validateCertLoginSourceConfig (certLoginSourceConfig cfg)) (\<lambda>source.
        NewManagerWithSource (lifecycleConfig cfg)
          (Some \<lparr>si_AuthMethod = AuthMethodCert, si_CertificateSource = cs_Source source\<rparr>) True (manager_options cfg)))))"

definition buildAuthManager :: "'c host \<Rightarrow> Config \<Rightarrow> Manager res" where
  "buildAuthManager h cfg =
    (if au_Method (cf_Auth cfg) = AuthMethodJWT then
       bindE (NewAuthClient (h_url_parse h) (h_read_file h) (h_pem_certs h) (auth_client_config cfg False)) (\<lambda>_.
       bindE (buildJWTLoginSource h cfg) (\<lambda>source.
       NewManagerWithSource (lifecycleConfig cfg) (Some source) True (manager_options cfg)))
     else if au_Method (cf_Auth cfg) = AuthMethodCert then newCertAuthManager h cfg
     else Inl (autherr ErrAuthConfig ''unsupported auth method''))"

section \<open>Status runtime\<close>

text \<open>The readings and disk answers that the construction of the controller meets, and the observer of its probes.\<close>

record status_env =
  se_reading :: Reading
  se_reading' :: Reading
  se_store :: store_env
  se_probe_observer :: probe_observer

definition controller_options :: "status_env \<Rightarrow> Config \<Rightarrow> Store \<Rightarrow> Observer \<Rightarrow> ControllerOptions" where
  "controller_options env cfg store observer =
     \<lparr>co_Store = Some store, co_Observer = Some observer, co_HasTransit = True, co_StateStore = FileStateStore (cf_State_Path cfg),
      co_MountPath = tx_MountPath (cf_Transit cfg), co_KeyName = tx_KeyName (cf_Transit cfg), co_Breaker = \<lparr>FailureThreshold = 0, OpenDuration = 0\<rparr>,
      co_ProbeObserver = se_probe_observer env, co_DecryptRefreshInterval = sts_ProbeInterval (cf_Status cfg),
      co_HasLifecycleContext = True, co_DecryptRefreshTimeout = bo_Timeout (cf_OpenBao cfg)\<rparr>"

definition buildStatusRuntime :: "status_env \<Rightarrow> Config \<Rightarrow> Disk \<Rightarrow> (Controller \<times> Scheduler) res \<times> Disk" where
  "buildStatusRuntime env cfg d =
    (case NewStore \<lparr>so_MaxStaleness = sts_StatusMaxStaleness (cf_Status cfg), so_InitialState = zero_state, so_HasInitialState = False\<rparr> of
       Inl err \<Rightarrow> (Inl err, d)
     | Inr store \<Rightarrow>
    (case newRotationObserver cfg of
       Inl err \<Rightarrow> (Inl err, d)
     | Inr observer \<Rightarrow>
    (case NewController (controller_options env cfg store observer) (se_reading env) (se_reading' env) (se_store env) d of
       (Inl err, d1) \<Rightarrow> (Inl err, d1)
     | (Inr controller, d1) \<Rightarrow>
         (bindE (NewScheduler \<lparr>sdo_Controller = Some controller, sdo_ProbeInterval = sts_ProbeInterval (cf_Status cfg),
                   sdo_DeepProbeInterval = sts_DeepProbeInterval (cf_Status cfg)\<rparr>) (\<lambda>scheduler.
          Inr (controller, scheduler)), d1))))"

section \<open>Bootstrap probes\<close>

definition runBootstrapProbe :: "probe_env \<times> probe_env \<Rightarrow> Controller \<Rightarrow> unit res \<times> Controller" where
  "runBootstrapProbe env c =
    (case ProbeOnce (fst env) c of
       (Inl err, c1) \<Rightarrow> (Inl err, c1)
     | (Inr _, c1) \<Rightarrow> DeepProbeOnce (snd env) c1)"

definition bootstrap_delay :: "BootstrapConfig \<Rightarrow> int \<Rightarrow> int" where
  "bootstrap_delay cfg remaining =
    (let delay = (if bs_RetryInterval cfg \<le> 0 then 5 * second else bs_RetryInterval cfg)
     in if delay > remaining then remaining else delay)"

text \<open>
  The attempts are numbered: \<open>envs k\<close> is what the probes of attempt \<open>k\<close> meet, \<open>now k\<close> the clock after it, and \<open>slept k d\<close> the result of
  the sleep of length \<open>d\<close> that follows. The loop of the code has no bound, so its model may have no result.
\<close>

partial_function (option) bootstrap_loop ::
  "(nat \<Rightarrow> probe_env \<times> probe_env) \<Rightarrow> (nat \<Rightarrow> go_time) \<Rightarrow> (nat \<Rightarrow> int \<Rightarrow> go_error option) \<Rightarrow> BootstrapConfig \<Rightarrow> go_time \<Rightarrow> nat \<Rightarrow> Controller
    \<Rightarrow> (unit res \<times> Controller) option" where
  "bootstrap_loop envs now slept cfg deadline k c =
    (case runBootstrapProbe (envs k) c of
       (Inr _, c1) \<Rightarrow> Some (Inr (), c1)
     | (Inl lastErr, c1) \<Rightarrow>
         if time_Sub deadline (now k) \<le> 0
         then Some (Inl (Wrap ''bootstrap probes did not succeed within the grace timeout'' [lastErr]), c1)
         else (case slept k (bootstrap_delay cfg (time_Sub deadline (now k))) of
                 Some err \<Rightarrow> Some (Inl err, c1)
               | None \<Rightarrow> bootstrap_loop envs now slept cfg deadline (Suc k) c1))"

definition probeOnceWithBootstrapGraceAndSleep ::
  "go_time \<Rightarrow> (nat \<Rightarrow> probe_env \<times> probe_env) \<Rightarrow> (nat \<Rightarrow> go_time) \<Rightarrow> (nat \<Rightarrow> int \<Rightarrow> go_error option) \<Rightarrow> BootstrapConfig \<Rightarrow> Controller
    \<Rightarrow> (unit res \<times> Controller) option" where
  "probeOnceWithBootstrapGraceAndSleep start envs now slept cfg c =
    (if bs_GraceTimeout cfg \<le> 0 then Some (runBootstrapProbe (envs 0) c)
     else bootstrap_loop envs now slept cfg (start + bs_GraceTimeout cfg) 0 c)"

section \<open>The provider\<close>

text \<open>
  \<open>buildRuntime\<close> before the runtime that binds the listeners, which is added with the listeners themselves. \<open>dependencies\<close> are the store, the registry and the refresher of the
  controller and the Transit adapter of the client, as the handlers see them. Metrics and logging are not modelled.
\<close>

record ('c, 'w) provider =
  pv_socketMode :: nat
  pv_gid :: int
  pv_manager :: Manager
  pv_client :: "'c client_parts"
  pv_controller :: Controller
  pv_scheduler :: Scheduler
  pv_server :: "'w Server"

definition client_config :: "Config \<Rightarrow> ClientConfig" where
  "client_config cfg =
    (let bo = cf_OpenBao cfg in
     \<lparr>cc_Address = bo_Address bo, cc_Namespace = bo_Namespace bo, cc_CACertFile = bo_CACertFile bo,
      cc_TLSServerName = bo_TLSServerName bo, cc_Timeout = bo_Timeout bo, cc_HasTokenSource = True\<rparr>)"

definition server_options :: "Config \<Rightarrow> string \<Rightarrow> 'w Deps \<Rightarrow> 'w Options" where
  "server_options cfg version dependencies =
    (let sv = cf_Server cfg in
     \<lparr>opt_deps = dependencies, opt_hasStatusCache = True, opt_hasRegistry = True, opt_hasTransit = True,
      opt_PluginVersion = version, opt_RequestTimeout = bo_Timeout (cf_OpenBao cfg),
      opt_MaxConcurrentStatus = sv_MaxConcurrentStatus sv, opt_MaxConcurrentEncrypt = sv_MaxConcurrentEncrypt sv,
      opt_MaxConcurrentDecrypt = sv_MaxConcurrentDecrypt sv, opt_hasObserver = True, opt_observer_panics = (\<lambda>_. None)\<rparr>)"

definition build_parts ::
  "'c host \<Rightarrow> status_env \<Rightarrow> (Controller \<Rightarrow> (unit res \<times> Controller) option) \<Rightarrow> (Controller \<Rightarrow> 'c client_parts \<Rightarrow> 'w Deps)
    \<Rightarrow> string \<Rightarrow> Config \<Rightarrow> Disk \<Rightarrow> ('c, 'w) provider res option" where
  "build_parts h env bootstrap dependencies version cfg d =
    (case bindE (ParseSocketMode (sv_SocketMode (cf_Server cfg))) (\<lambda>mode.
          bindE (lookupGroupID (h_lookup_group h) (sv_SocketGroup (cf_Server cfg))) (\<lambda>gid.
          bindE (buildAuthManager h cfg) (\<lambda>manager.
          bindE (NewClient (h_url_parse h) (h_read_file h) (h_pem_certs h) (client_config cfg)) (\<lambda>client.
          bindE (fst (buildStatusRuntime env cfg d)) (\<lambda>(controller, scheduler).
          Inr (mode, gid, manager, client, controller, scheduler)))))) of
       Inl err \<Rightarrow> Some (Inl err)
     | Inr (mode, gid, manager, client, controller, scheduler) \<Rightarrow>
        (case bootstrap controller of
           None \<Rightarrow> None
         | Some (Inl err, _) \<Rightarrow> Some (Inl (Wrap ''initialize status cache'' [err]))
         | Some (Inr _, controller) \<Rightarrow>
             Some (bindE (NewServer (server_options cfg version (dependencies controller client))) (\<lambda>server.
               Inr \<lparr>pv_socketMode = mode, pv_gid = gid, pv_manager = manager, pv_client = client, pv_controller = controller,
                    pv_scheduler = scheduler\<lparr>sd_controller := controller\<rparr>, pv_server = server\<rparr>))))"

section \<open>A validated configuration starts\<close>

lemma authLoginTimeout_pos: "0 < authLoginTimeout cfg"
  by (simp add: authLoginTimeout_def second_def)

lemma lifecycle_ok:
  assumes "validateValues net spiffe text_of cfg = []"
  shows "validateLifecycleConfig (lifecycleConfig cfg) = Inr (lifecycleConfig cfg)"
  using assms
  by (simp add: validateValues_def Let_def validatePositiveDuration_def validateLifecycleConfig_def lifecycleConfig_def failIf_def)

lemma manager_ok:
  assumes "validateValues net spiffe text_of cfg = []"
  shows "\<exists>m. NewManagerWithSource (lifecycleConfig cfg) (Some source) True (manager_options cfg) = Inr m"
  using lifecycle_ok [OF assms] authLoginTimeout_pos [of cfg]
  by (simp add: NewManagerWithSource_def manager_options_def failIf_def Let_def)

lemma address_ok:
  assumes "validateOpenBaoAddress net a = []"
  shows "\<exists>u. parseAddress (gn_url_parse net) a = Inr u"
  using assms by (auto simp: validateOpenBaoAddress_def parseAddress_def split: option.splits)

text \<open>The CA bundle of the configuration is readable and holds a certificate.\<close>

definition trusted_ca :: "'c host \<Rightarrow> string \<Rightarrow> bool" where
  "trusted_ca h file = (case h_read_file h file of None \<Rightarrow> False | Some pem \<Rightarrow> h_pem_certs h pem \<noteq> [])"

lemma NewTLSConfig_ok:
  assumes "TrimSpace ca \<noteq> []" "TrimSpace sn \<noteq> []" "trusted_ca h ca"
  shows "\<exists>t. NewTLSConfig (h_read_file h) (h_pem_certs h) ca sn = Inr t"
  using assms by (auto simp: NewTLSConfig_def trusted_ca_def failIf_def split: option.splits)

lemma clients_ok:
  assumes "validateRequired spiffe cfg = []" "validateValues net spiffe text_of cfg = []" "trusted_ca h (bo_CACertFile (cf_OpenBao cfg))"
    and "h_url_parse h = gn_url_parse net"
  shows "\<exists>p. NewClient (h_url_parse h) (h_read_file h) (h_pem_certs h) (client_config cfg) = Inr p"
    and "\<exists>p. NewAuthClient (h_url_parse h) (h_read_file h) (h_pem_certs h) (auth_client_config cfg b) = Inr p"
proof -
  have "TrimSpace (bo_CACertFile (cf_OpenBao cfg)) \<noteq> []" "TrimSpace (bo_TLSServerName (cf_OpenBao cfg)) \<noteq> []"
    using assms(1) by (simp_all add: validateRequired_def)
  from NewTLSConfig_ok [OF this assms(3)] obtain t where t:
    "NewTLSConfig (h_read_file h) (h_pem_certs h) (bo_CACertFile (cf_OpenBao cfg)) (bo_TLSServerName (cf_OpenBao cfg)) = Inr t" ..
  have "validateOpenBaoAddress net (bo_Address (cf_OpenBao cfg)) = []" "0 < bo_Timeout (cf_OpenBao cfg)"
    using assms(2) by (simp_all add: validateValues_def Let_def validatePositiveDuration_def)
  with address_ok obtain u where u: "parseAddress (h_url_parse h) (bo_Address (cf_OpenBao cfg)) = Inr u" "0 < bo_Timeout (cf_OpenBao cfg)"
    using assms(4) by metis
  show "\<exists>p. NewClient (h_url_parse h) (h_read_file h) (h_pem_certs h) (client_config cfg) = Inr p"
    using t u by (simp add: NewClient_def NewHTTPClient_def NewHTTPClientWithTLSOptions_def NewClientWithHTTPClient_def client_config_def
        Let_def failIf_def)
  show "\<exists>p. NewAuthClient (h_url_parse h) (h_read_file h) (h_pem_certs h) (auth_client_config cfg b) = Inr p"
    using t u authLoginTimeout_pos [of cfg]
    by (simp add: NewAuthClient_def NewHTTPClientWithTLSOptions_def NewAuthClientWithHTTPClient_def auth_client_config_def Let_def failIf_def)
qed

lemma audiences_ok:
  assumes "\<forall>a \<in> set as. a \<noteq> [] \<and> \<not> unsafeText a"
  shows "normalizeExpectedAudience as = Inr as"
proof -
  have "mapE (\<lambda>audience. let trimmed = TrimSpace audience in
      bindE (failIf (trimmed = []) e) (\<lambda>_. Inr trimmed)) as = Inr as" for e :: go_error
    using assms by (induction as) (auto simp: unsafeText_def failIf_def Let_def)
  then show ?thesis by (simp add: normalizeExpectedAudience_def)
qed

lemma validateManagerConfig_ok:
  assumes "validateAuthValues net spiffe text_of (cf_Auth cfg) = []" "au_Method (cf_Auth cfg) = AuthMethodJWT"
    and "validateRequired spiffe cfg = []" "validateLifecycleConfig (lifecycleConfig cfg) = Inr (lifecycleConfig cfg)"
  obtains c where "validateManagerConfig (authConfig cfg) = Inr c"
    "mc_JWTFile c = TrimSpace (jc_JWTFile (au_JWT (cf_Auth cfg)))" "mc_ExpectedIssuer c = TrimSpace (jc_ExpectedIssuer (au_JWT (cf_Auth cfg)))"
    "mc_ExpectedAudience c = jc_ExpectedAudience (au_JWT (cf_Auth cfg))"
proof -
  let ?j = "au_JWT (cf_Auth cfg)"
  have "validateJWTAuthValues net text_of ?j = []" using assms(1,2) by (simp add: validateAuthValues_def)
  note v = JWT_values [OF this]
  have r: "TrimSpace (jc_MountPath ?j) \<noteq> []" "TrimSpace (jc_Role ?j) \<noteq> []"
    using assms(2,3) by (simp_all add: validateRequired_def appendAuthRequired_def)
  have ne: "jc_MountPath ?j \<noteq> []" "jc_Role ?j \<noteq> []" using r TrimSpace_Nil by metis+
  note mount = validateMountPath_Nil [OF v(2) ne(1)] and role = validatePathName_Nil [OF v(3) ne(2)]
  let ?c = "(authConfig cfg)\<lparr>mc_JWTFile := TrimSpace (jc_JWTFile ?j), mc_ExpectedIssuer := TrimSpace (jc_ExpectedIssuer ?j),
    mc_ExpectedSubject := TrimSpace (jc_ExpectedSubject ?j)\<rparr>"
  have "normalizeExpectedAudience (jc_ExpectedAudience ?j) = Inr (jc_ExpectedAudience ?j)" using v(6) by (intro audiences_ok) blast
  then have "validateManagerConfig (authConfig cfg) = Inr ?c"
    using mount role v(4,5) r assms(4)
    by (simp add: validateManagerConfig_def authConfig_def Let_def failIf_def lifecycleConfigFromManager_def lifecycleConfig_def)
  then show ?thesis by (rule that) (simp_all add: authConfig_def Let_def)
qed


text \<open>A validated OAuth setting stays valid when its timeout is replaced by another positive one.\<close>

lemma OAuth2_timeout:
  assumes "OAuth2_ValidateConfig url_parse (OAuth2Config_ClientConfig c t) = Inr ()" "0 < t'"
  shows "OAuth2_ValidateConfig url_parse (OAuth2Config_ClientConfig c t') = Inr ()"
  using assms by (simp add: OAuth2_ValidateConfig_def OAuth2Config_ClientConfig_def validateTokenParameters_def)

lemma OAuth2_client_ok:
  assumes "OAuth2_ValidateConfig (h_url_parse h) oc = Inr ()" "oc_CACertFile oc \<noteq> [] \<Longrightarrow> trusted_ca h (oc_CACertFile oc)"
  shows "\<exists>issuer. OAuth2_NewClient (h_url_parse h) (h_read_file h) (h_pem_certs h) oc = Inr issuer"
  using assms by (cases "oc_CACertFile oc = []") (auto simp: OAuth2_NewClient_def trusted_ca_def split: option.splits)

lemma JWTLoginSource_ok:
  assumes "validateValues net spiffe text_of cfg = []" "au_Method (cf_Auth cfg) = AuthMethodJWT" "validateRequired spiffe cfg = []"
    and "h_url_parse h = gn_url_parse net"
    and ca: "jc_Source (au_JWT (cf_Auth cfg)) = JWTSourceOAuth2 \<Longrightarrow> o2_CACertFile (jc_OAuth2 (au_JWT (cf_Auth cfg))) \<noteq> []
      \<Longrightarrow> trusted_ca h (o2_CACertFile (jc_OAuth2 (au_JWT (cf_Auth cfg))))"
  shows "\<exists>info. buildJWTLoginSource h cfg = Inr info"
proof -
  let ?j = "au_JWT (cf_Auth cfg)"
  have av: "validateAuthValues net spiffe text_of (cf_Auth cfg) = []" using assms(1) by (simp add: validateValues_def Let_def)
  then have src: "validateJWTSource net text_of ?j = []" using assms(2) by (simp add: validateAuthValues_def JWT_values)
  obtain c where c: "validateManagerConfig (authConfig cfg) = Inr c" "mc_JWTFile c = TrimSpace (jc_JWTFile ?j)"
    "mc_ExpectedIssuer c = TrimSpace (jc_ExpectedIssuer ?j)" "mc_ExpectedAudience c = jc_ExpectedAudience ?j"
    by (rule validateManagerConfig_ok [OF av assms(2,3) lifecycle_ok [OF assms(1)]])
  consider (from_file) "jc_Source ?j = JWTSourceFile" | (from_oauth) "jc_Source ?j = JWTSourceOAuth2" "jc_Source ?j \<noteq> JWTSourceFile"
    using src by (auto simp: validateJWTSource_def split: if_splits)
  then show ?thesis
  proof cases
    case from_file
    then have "TrimSpace (mc_JWTFile (authConfig cfg)) \<noteq> []"
      using assms(2,3) by (simp add: validateRequired_def appendAuthRequired_def authConfig_def Let_def)
    with from_file c(1) show ?thesis by (simp add: buildJWTLoginSource_def NewJWTLoginSource_def failIf_def)
  next
    case from_oauth
    let ?oc = "OAuth2Config_ClientConfig (jc_OAuth2 ?j) (authLoginTimeout cfg)"
    have o: "jc_JWTFile ?j = []" "TrimSpace (jc_ExpectedIssuer ?j) \<noteq> []" "jc_ExpectedAudience ?j \<noteq> []"
      "OAuth2_ValidateConfig (h_url_parse h) (OAuth2Config_ClientConfig (jc_OAuth2 ?j) 1000000000) = Inr ()"
      using src from_oauth assms(4) by (auto simp: validateJWTSource_def split: sum.splits)
    have "oc_CACertFile ?oc = o2_CACertFile (jc_OAuth2 ?j)" by (simp add: OAuth2Config_ClientConfig_def)
    with OAuth2_client_ok [OF OAuth2_timeout [OF o(4) authLoginTimeout_pos]] ca from_oauth(1)
    obtain issuer where "OAuth2_NewClient (h_url_parse h) (h_read_file h) (h_pem_certs h) ?oc = Inr issuer" by force
    with from_oauth c o show ?thesis by (simp add: buildJWTLoginSource_def NewOAuth2LoginSource_def failIf_def)
  qed
qed

lemma cert_source_ok:
  assumes "validateValues net spiffe text_of cfg = []" "au_Method (cf_Auth cfg) = AuthMethodCert" "validateRequired spiffe cfg = []"
  shows "\<exists>c. validateCertLoginSourceConfig (certLoginSourceConfig cfg) = Inr c"
proof -
  let ?c = "au_Cert (cf_Auth cfg)"
  have jwt: "AuthMethodCert \<noteq> AuthMethodJWT" by (simp add: AuthMethodCert_def AuthMethodJWT_def)
  have v: "validateMountPath ''auth.cert.mountPath'' (ca_MountPath ?c) = []" "ca_Name ?c = [] \<or> \<not> unsafeText (ca_Name ?c)"
    "0 < ca_MinRemainingTTL ?c" "0 \<le> ca_ClockSkewLeeway ?c"
    "ca_Source ?c = CertificateSourcePKCS11 \<or> ca_Source ?c = CertificateSourceSPIFFE \<or> ca_Source ?c = []"
    using assms(1,2) jwt by (auto simp: validateValues_def Let_def validateAuthValues_def validateCertAuthValues_def split: if_splits)
  have r: "TrimSpace (ca_MountPath ?c) \<noteq> []" "TrimSpace (ca_Source ?c) \<noteq> []"
    using assms(2,3) jwt by (simp_all add: validateRequired_def appendAuthRequired_def)
  have ne: "ca_MountPath ?c \<noteq> []" "ca_Source ?c \<noteq> []" using r TrimSpace_Nil by metis+
  have src: "TrimSpace (ca_Source ?c) \<in> {CertificateSourcePKCS11, CertificateSourceSPIFFE}"
    using v(5) ne(2) by (auto simp: CertificateSourcePKCS11_def CertificateSourceSPIFFE_def TrimSpace_ascii)
  have name: "\<not> containsUnsafeIdentifierChars (TrimSpace (ca_Name ?c))"
    using v(2) by (auto simp: unsafeText_iff containsUnsafeIdentifierChars_def ContainsAny_def)
  show ?thesis
    using validateMountPath_Nil [OF v(1) ne(1)] v(3,4) src name ne(1)
    by (simp add: validateCertLoginSourceConfig_def certLoginSourceConfig_def Let_def failIf_def)
qed

lemma TrimSpace_not_Nil: "TrimSpace v \<noteq> [] \<Longrightarrow> v \<noteq> []"
  by (metis TrimSpace_Nil)

lemma fingerprint_ok:
  assumes "validateRequired spiffe cfg = []"
  shows "IdentityFingerprint_of cfg = Inr (''cfg1.'' @ digest64 (json_object (configIdentityMaterial cfg)))"
  using assms by (simp add: IdentityFingerprint_of_def fingerprint_required_def validateRequired_def Let_def digest64_def)

lemma config_scope_sel [simp]: "sc_AADMode (config_scope cfg f) = AADModeRequired" "sc_IdentityFingerprint (config_scope cfg f) = f"
  by (simp_all add: config_scope_def Let_def)

lemma observer_ok:
  assumes "validateRequired spiffe cfg = []" "validateValues net spiffe text_of cfg = []"
  shows "\<exists>observer. newRotationObserver cfg = Inr observer"
proof -
  let ?s = "config_scope cfg (''cfg1.'' @ digest64 (json_object (configIdentityMaterial cfg)))"
  have names: "sc_ProviderName ?s \<noteq> []" "sc_ClusterID ?s \<noteq> []" "sc_OpenBaoInstanceID ?s \<noteq> []" "sc_TransitMountID ?s \<noteq> []"
    "sc_TransitKeyLineageID ?s \<noteq> []"
    using assms(1) by (simp_all add: validateRequired_def config_scope_def Let_def TrimSpace_not_Nil)
  have ns: "validateOpenBaoNamespace (sc_OpenBaoNamespace ?s) = Inr ()"
    using assms(2) by (simp add: validateValues_def Let_def config_scope_def flip: namespace_agrees)
  have one: "\<not> IsZero (time_Unix 1)" "0 < Unix (time_Unix 1)" by simp_all
  have "scope_snapshot ?s 1 (time_Unix 1) StateActive = Inr (normal_form
      \<lparr>ProviderName = sc_ProviderName ?s, ClusterID = sc_ClusterID ?s, OpenBaoInstanceID = sc_OpenBaoInstanceID ?s,
       OpenBaoNamespace = sc_OpenBaoNamespace ?s, TransitMountID = sc_TransitMountID ?s, TransitKeyLineageID = sc_TransitKeyLineageID ?s,
       TransitVersion = 1, TransitVersionCreatedAt = time_Unix 1, KubernetesKeyID = [], State = StateActive, AADMode = sc_AADMode ?s\<rparr>)"
    unfolding scope_snapshot_def Normalize_Inr
    using names ns one by (simp add: normalizable_def identity_complete_def AADMode_Valid_def)
  moreover have "0 < ActivationDelay (rotationPolicy cfg)" "0 < RequireStableObservationCount (rotationPolicy cfg)"
    using assms(2) by (auto simp: validateValues_def Let_def rotationPolicy_def)
  ultimately show ?thesis
    using fingerprint_ok [OF assms(1)] fingerprint_digest [of "json_object (configIdentityMaterial cfg)"]
    by (simp add: newRotationObserver_def NewObserver_def failIf_def Let_def AADModeRequired_def)
qed

lemma server_ok:
  assumes "validateValues net spiffe text_of cfg = []" "version \<noteq> []"
  shows "\<exists>server. NewServer (server_options cfg version dependencies) = Inr server"
  using assms by (simp add: NewServer_def server_options_def validateValues_def Let_def failIf_def maxConcurrentKMSRequests_def)

lemma auth_manager_ok:
  assumes "validateRequired spiffe cfg = []" "validateValues net spiffe text_of cfg = []" "trusted_ca h (bo_CACertFile (cf_OpenBao cfg))"
    and "h_url_parse h = gn_url_parse net"
    and ca: "jc_Source (au_JWT (cf_Auth cfg)) = JWTSourceOAuth2 \<Longrightarrow> o2_CACertFile (jc_OAuth2 (au_JWT (cf_Auth cfg))) \<noteq> []
      \<Longrightarrow> trusted_ca h (o2_CACertFile (jc_OAuth2 (au_JWT (cf_Auth cfg))))"
    and cert: "au_Method (cf_Auth cfg) = AuthMethodCert \<Longrightarrow> \<exists>provider. h_certificate_provider h = Some provider \<and> provider cfg = Inr ()"
  shows "\<exists>m. buildAuthManager h cfg = Inr m"
proof (cases "au_Method (cf_Auth cfg) = AuthMethodJWT")
  case True
  then obtain info where "buildJWTLoginSource h cfg = Inr info" using JWTLoginSource_ok [OF assms(2) True assms(1,4)] ca by blast
  with True clients_ok(2) [OF assms(1-4), of False] manager_ok [OF assms(2), of info] show ?thesis
    by (auto simp: buildAuthManager_def)
next
  case False
  have m: "au_Method (cf_Auth cfg) = AuthMethodCert"
    using False assms(1,2) by (auto simp: validateRequired_def validateValues_def Let_def validateAuthValues_def split: if_splits)
  with cert_source_ok [OF assms(2) m assms(1)] clients_ok(2) [OF assms(1-4), of True] manager_ok [OF assms(2)] cert False show ?thesis
    by (fastforce simp: buildAuthManager_def newCertAuthManager_def)
qed

lemma status_runtime_ok:
  assumes "validateRequired spiffe cfg = []" "validateValues net spiffe text_of cfg = []"
    and "fst (Load (cf_State_Path cfg) (se_store env) d) = Inl err" "errors_is err ErrStateNotFound"
  shows "\<exists>r. fst (buildStatusRuntime env cfg d) = Inr r"
proof -
  have pos: "0 < sts_StatusMaxStaleness (cf_Status cfg)" "0 < sts_ProbeInterval (cf_Status cfg)" "0 < sts_DeepProbeInterval (cf_Status cfg)"
    "0 < bo_Timeout (cf_OpenBao cfg)"
    using assms(2) by (simp_all add: validateValues_def Let_def)
  have ne: "tx_MountPath (cf_Transit cfg) \<noteq> []" "tx_KeyName (cf_Transit cfg) \<noteq> []"
    using assms(1) by (simp_all add: validateRequired_def TrimSpace_not_Nil)
  obtain store where store: "NewStore \<lparr>so_MaxStaleness = sts_StatusMaxStaleness (cf_Status cfg), so_InitialState = zero_state, so_HasInitialState = False\<rparr> = Inr store"
    using pos(1) by (simp add: NewStore_def failIf_def Let_def)
  obtain observer where observer: "newRotationObserver cfg = Inr observer" using observer_ok [OF assms(1,2)] ..
  let ?o = "controller_options env cfg store observer"
  let ?c = "publishCircuitBreakerState (se_reading env) (se_reading' env) (initial_controller ?o store observer d)"
  obtain l where l: "Load (cf_State_Path cfg) (se_store env) d = (Inl err, l)" using assms(3) by (metis fst_conv surj_pair)
  have "fst (loadState (se_store env) ?c) = Inr ()"
    using l assms(4)
    by (simp add: loadState_def publishCircuitBreakerState_def initial_controller_def controller_options_def ss_Load_def)
  then obtain c where c: "loadState (se_store env) ?c = (Inr (), c)" by (metis fst_conv surj_pair)
  have "NewController ?o (se_reading env) (se_reading' env) (se_store env) d = (Inr c, c_disk c)"
    using c pos ne unfolding NewController_def Let_def by (simp add: controller_options_def)
  with store observer pos show ?thesis by (simp add: buildStatusRuntime_def NewScheduler_def)
qed

section \<open>Bootstrap ends\<close>

lemma bootstrap_delay_pos: "0 < remaining \<Longrightarrow> 0 < bootstrap_delay cfg remaining"
  by (auto simp: bootstrap_delay_def second_def Let_def)

lemma bootstrap_delay_le: "bootstrap_delay cfg remaining \<le> remaining"
  by (simp add: bootstrap_delay_def Let_def)

text \<open>Clock and sleep agree: after a sleep that was not interrupted the clock has advanced at least by its length.\<close>

definition sleeps_pass :: "BootstrapConfig \<Rightarrow> go_time \<Rightarrow> (nat \<Rightarrow> go_time) \<Rightarrow> (nat \<Rightarrow> int \<Rightarrow> go_error option) \<Rightarrow> bool" where
  "sleeps_pass cfg deadline now slept \<longleftrightarrow>
     (\<forall>k. let d = bootstrap_delay cfg (time_Sub deadline (now k)) in slept k d = None \<longrightarrow> now k + d \<le> now (Suc k))"

lemma time_Sub_pos: "0 < time_Sub t u \<Longrightarrow> u < t"
  using time_Sub_gt [of 0 t u] by simp

lemma time_Sub_nonpos: "time_Sub t u \<le> 0 \<Longrightarrow> t \<le> u"
  by (auto simp: time_Sub_def min_duration_def max_duration_def min_def max_def split: if_splits)

lemma time_Sub_le: "0 < time_Sub t u \<Longrightarrow> time_Sub t u \<le> t - u"
  by (auto simp: time_Sub_def min_duration_def max_duration_def min_def max_def split: if_splits)

text \<open>The controller after a number of attempts, and the attempts after which another one is made.\<close>

fun attempted :: "(nat \<Rightarrow> probe_env \<times> probe_env) \<Rightarrow> Controller \<Rightarrow> nat \<Rightarrow> Controller" where
  "attempted envs c 0 = c"
| "attempted envs c (Suc k) = snd (runBootstrapProbe (envs k) (attempted envs c k))"

definition attempt :: "(nat \<Rightarrow> probe_env \<times> probe_env) \<Rightarrow> Controller \<Rightarrow> nat \<Rightarrow> unit res" where
  "attempt envs c k = fst (runBootstrapProbe (envs k) (attempted envs c k))"

definition pause_ends :: "(nat \<Rightarrow> go_time) \<Rightarrow> (nat \<Rightarrow> int \<Rightarrow> go_error option) \<Rightarrow> go_time \<Rightarrow> nat \<Rightarrow> go_error option \<Rightarrow> bool" where
  "pause_ends now slept deadline k res \<longleftrightarrow> (\<exists>d. 0 < d \<and> now k + d \<le> deadline \<and> slept k d = res)"

lemma pause_ends_delay:
  assumes "0 < time_Sub deadline (now k)"
  shows "pause_ends now slept deadline k (slept k (bootstrap_delay cfg (time_Sub deadline (now k))))"
proof -
  have "0 < bootstrap_delay cfg (time_Sub deadline (now k))" using assms by (rule bootstrap_delay_pos)
  moreover have "now k + bootstrap_delay cfg (time_Sub deadline (now k)) \<le> deadline"
    using bootstrap_delay_le [of cfg "time_Sub deadline (now k)"] time_Sub_le [OF assms] by linarith
  ultimately show ?thesis unfolding pause_ends_def by blast
qed

text \<open>
  The loop returns, and each of its attempts but the last failed before the deadline and was followed by a pause that was to end by the
  deadline. The last attempt succeeded, or ended at or after the deadline, or was followed by a pause that was interrupted.
\<close>

lemma bootstrap_loop_run:
  assumes "sleeps_pass cfg deadline now slept"
  shows "\<exists>n r. k \<le> n \<and> bootstrap_loop envs now slept cfg deadline k (attempted envs c k) = Some (r, attempted envs c (Suc n))
    \<and> (\<forall>j. k \<le> j \<and> j < n \<longrightarrow> (\<exists>e. attempt envs c j = Inl e) \<and> pause_ends now slept deadline j None)
    \<and> (case attempt envs c n of
         Inr _ \<Rightarrow> r = Inr ()
       | Inl lastErr \<Rightarrow> deadline \<le> now n \<and> r = Inl (Wrap ''bootstrap probes did not succeed within the grace timeout'' [lastErr])
           \<or> (\<exists>err. pause_ends now slept deadline n (Some err) \<and> r = Inl err))"
    (is "\<exists>n r. ?P k n r")
proof (induction "nat (deadline - now k)" arbitrary: k rule: less_induct)
  case less
  let ?d = "bootstrap_delay cfg (time_Sub deadline (now k))"
  obtain o1 c1 where probe: "runBootstrapProbe (envs k) (attempted envs c k) = (o1, c1)" by fastforce
  then have c1: "attempt envs c k = o1" "attempted envs c (Suc k) = c1" by (simp_all add: attempt_def)
  show ?case
  proof (cases o1)
    case (Inr u)
    have "?P k k (Inr ())" by (subst bootstrap_loop.simps) (use probe c1 Inr in \<open>auto simp del: attempted.simps\<close>)
    then show ?thesis by blast
  next
    case (Inl lastErr)
    consider (late) "time_Sub deadline (now k) \<le> 0" | (interrupted) err where "0 < time_Sub deadline (now k)" "slept k ?d = Some err"
      | (again) "0 < time_Sub deadline (now k)" "slept k ?d = None" by (cases "slept k ?d") force+
    then show ?thesis
    proof cases
      case late
      then have "deadline \<le> now k" using time_Sub_nonpos by blast
      then have "?P k k (Inl (Wrap ''bootstrap probes did not succeed within the grace timeout'' [lastErr]))"
        by (subst bootstrap_loop.simps) (use probe c1 Inl late in \<open>auto simp del: attempted.simps\<close>)
      then show ?thesis by blast
    next
      case (interrupted err)
      then have "?P k k (Inl err)"
        using pause_ends_delay [where cfg = cfg and slept = slept and now = now and k = k, OF interrupted(1)]
        by (subst bootstrap_loop.simps) (use probe c1 Inl in \<open>auto simp del: attempted.simps\<close>)
      then show ?thesis by blast
    next
      case again
      with assms have "now k + ?d \<le> now (Suc k)" by (simp add: sleeps_pass_def Let_def)
      with bootstrap_delay_pos [OF again(1), of cfg] have "now k < now (Suc k)" by linarith
      then have "nat (deadline - now (Suc k)) < nat (deadline - now k)" using time_Sub_pos [OF again(1)] by simp
      from less [OF this] obtain n r where n: "?P (Suc k) n r" by blast
      have "bootstrap_loop envs now slept cfg deadline k (attempted envs c k) = bootstrap_loop envs now slept cfg deadline (Suc k) c1"
        by (subst bootstrap_loop.simps) (use probe Inl again in simp)
      moreover have "(\<exists>e. attempt envs c k = Inl e) \<and> pause_ends now slept deadline k None"
        using pause_ends_delay [where cfg = cfg and slept = slept and now = now and k = k, OF again(1)] again(2) c1(1) Inl by simp
      ultimately have "?P k n r" using n c1(2) by (metis Suc_leD Suc_leI le_neq_implies_less)
      then show ?thesis by blast
    qed
  qed
qed

end
