(* ===== verification/Startup_Safety.thy ===== *)
theory Startup_Safety
  imports Provider_Startup
begin

text \<open>
  What startup guarantees: a validated configuration passes every constructor, and the bootstrap probes end, with the provider
  serving only when a metadata probe and a deep probe have succeeded.
\<close>

section \<open>Probes that succeed\<close>

text \<open>The circuit breakers leave the health of the store alone.\<close>

lemma UpdateCircuitBreaker_health [simp]:
  "hasState (UpdateCircuitBreaker s b) = hasState s" "metadataOK (UpdateCircuitBreaker s b) = metadataOK s"
  "deepProbeOK (UpdateCircuitBreaker s b) = deepProbeOK s" "healthz (UpdateCircuitBreaker s b) = healthz s"
  by (simp_all add: UpdateCircuitBreaker_def)

lemma breaker_same_health:
  "\<exists>b. c_store (publishCircuitBreakerState r r' c) = UpdateCircuitBreaker (c_store c) b"
  "\<exists>b. c_store (recordProbeSuccess kind r c) = UpdateCircuitBreaker (c_store c) b"
  "\<exists>b. c_store (snd (allowProbe kind r r' c)) = UpdateCircuitBreaker (c_store c) b"
  by (auto simp: publishCircuitBreakerState_def recordProbeSuccess_def allowProbe_def set_breaker_def Let_def case_prod_beta)

lemma observers_keep_store [simp]:
  "c_store (observeProbe obs c) = c_store c" "c_store (observeClockRegression c) = c_store c"
  "c_store (observePromotion previous c) = c_store c" "c_store (confirmActivation st profile r c) = c_store c"
  by (auto simp: observeProbe_def observeClockRegression_def observePromotion_def confirmActivation_def Let_def case_prod_beta split: option.split)

text \<open>A metadata probe that returns without an error has published a state that can be encrypted with.\<close>

definition metadata_ready :: "Controller \<Rightarrow> bool" where
  "metadata_ready c \<longleftrightarrow> hasState (c_store c) \<and> metadataOK (c_store c)"

lemma publish_finished_ok:
  assumes "publish_finished env profile discover previous result c = (Inr u, c')"
    and "hasState (c_store c)" "metadataOK (c_store c) \<longleftrightarrow> \<not> or_EncryptionBlocked result"
  shows "metadata_ready c'"
proof -
  let ?c1 = "c\<lparr>c_pendingCommit := None\<rparr>"
  let ?c2 = "if \<not> discover then confirmActivation (or_State result) profile (pe_activationReading env) ?c1 else ?c1"
  let ?c3 = "observePromotion previous (if or_ClockRegressed result then observeClockRegression ?c2 else ?c2)"
  have c': "c' = recordProbeSuccess ProbeKindMetadata (pe_recordReading env) ?c3" and b: "\<not> or_EncryptionBlocked result"
    using assms(1) unfolding publish_finished_def Let_def by (simp_all add: failIf_def split: if_splits)
  have "c_store ?c3 = c_store c" by simp
  then show ?thesis using breaker_same_health(2) [of ProbeKindMetadata "pe_recordReading env" ?c3] assms(2,3) b
    by (auto simp: metadata_ready_def c')
qed

lemma failures_are_errors [simp]:
  "fst (metadataFailed now clk reason err c) \<noteq> Inr u" "fst (stateSaveFailed env now profile err c) \<noteq> Inr u"
  "fst (deepFailed reason err c) \<noteq> Inr u"
  by (simp_all add: metadataFailed_def stateSaveFailed_def deepFailed_def Let_def case_prod_beta)

lemma failures_not_ok [simp]:
  "metadataFailed now clk reason err c \<noteq> (Inr u, c')" "stateSaveFailed env now profile err c \<noteq> (Inr u, c')"
  "deepFailed reason err c \<noteq> (Inr u, c')"
  using failures_are_errors by (metis fst_conv)+

lemma publish_result_ok:
  assumes "publish_result env profile now discover state has result c = (Inr u, c')"
  shows "metadata_ready c'"
proof -
  obtain saved c1 where p: "persist_result (pe_save env) state has result c = (saved, c1)" by fastforce
  let ?pub = "publishMetadata (c_store c1) (or_State result) now (or_EncryptionBlocked result) (pe_storeReading env)"
  from assms p obtain s where s: "?pub = Inr s"
    and f: "publish_finished env profile discover (fst (store_Active (c_store c))) result (c1\<lparr>c_store := s\<rparr>) = (Inr u, c')"
    by (auto simp: publish_result_def split: sum.splits)
  from s have "hasState s" "metadataOK s \<longleftrightarrow> \<not> or_EncryptionBlocked result" by (elim publishMetadata_fields; simp)+
  then show ?thesis using publish_finished_ok [OF f] by simp
qed

lemma ProbeOnce_ok:
  assumes "ProbeOnce env c = (Inr u, c')"
  shows "metadata_ready c'"
proof -
  from assms have p: "probeOnce env False c = (Inr u, c')" by (auto simp: ProbeOnce_def split: sum.splits)
  obtain r c1 where b: "probe_body env False c = (r, c1)" by fastforce
  with p have r: "r = Inr u" and c': "c_store c' = c_store c1"
    by (auto simp: probeOnce_def with_observation_def Let_def)
  have "metadata_ready c1"
    using b unfolding r probe_body_def Let_def case_prod_beta publishObservation_def
    by (auto split: sum.splits if_splits dest: publish_result_ok)
  then show ?thesis by (simp add: metadata_ready_def c')
qed

lemma DeepProbeOnce_ok:
  assumes "DeepProbeOnce env c = (Inr u, c')"
  shows "hasState (c_store c') = hasState (c_store c)" "metadataOK (c_store c') = metadataOK (c_store c)" "deepProbeOK (c_store c')"
    "healthz (c_store c') = (if metadataOK (c_store c) then HealthOK else HealthUnhealthy)"
proof -
  let ?c = "snd (allowProbe ProbeKindDeep (pe_now env) (pe_allowReading env) c)"
  obtain r c1 where b: "deep_body env c = (r, c1)" by fastforce
  with assms have r: "r = Inr u" and c': "c_store c' = c_store c1"
    by (auto simp: DeepProbeOnce_def with_observation_def Let_def split: sum.splits)
  obtain k where k: "c_store ?c = UpdateCircuitBreaker (c_store c) k"
    using breaker_same_health(3) by blast
  have "c1 = recordProbeSuccess ProbeKindDeep (pe_recordReading env) (?c\<lparr>c_store := publishDeepHealthy (c_store ?c)\<rparr>)"
    using b unfolding r deep_body_def Let_def case_prod_beta by (auto split: sum.splits if_splits)
  then obtain m where "c_store c1 = UpdateCircuitBreaker (publishDeepHealthy (c_store ?c)) m"
    using breaker_same_health(2) [of ProbeKindDeep "pe_recordReading env" "?c\<lparr>c_store := publishDeepHealthy (c_store ?c)\<rparr>"] by auto
  then show "hasState (c_store c') = hasState (c_store c)" "metadataOK (c_store c') = metadataOK (c_store c)" "deepProbeOK (c_store c')"
    "healthz (c_store c') = (if metadataOK (c_store c) then HealthOK else HealthUnhealthy)"
    by (simp_all add: c' k publishDeepHealthy_def updateHealthLocked_def)
qed

definition startup_healthy :: "Store \<Rightarrow> bool" where
  "startup_healthy s \<longleftrightarrow> hasState s \<and> metadataOK s \<and> deepProbeOK s \<and> healthz s = HealthOK"

lemma runBootstrapProbe_ok:
  assumes "runBootstrapProbe env c = (Inr u, c')"
  shows "startup_healthy (c_store c')"
proof -
  from assms obtain u1 c1 where "ProbeOnce (fst env) c = (Inr u1, c1)" "DeepProbeOnce (snd env) c1 = (Inr u, c')"
    by (auto simp: runBootstrapProbe_def split: prod.splits sum.splits)
  with ProbeOnce_ok DeepProbeOnce_ok show ?thesis by (simp add: startup_healthy_def metadata_ready_def)
qed

lemma startup_Current:
  assumes "startup_healthy s" "fresh_at s now"
  shows "fst (Current s LiveContext now) = Inr \<lparr>Healthz = HealthOK, KeyID = KubernetesKeyID (st_active s), Active = st_active s\<rparr>"
proof -
  have "st_active (snd (staleLocked s now)) = st_active s" by (simp add: staleLocked_snd)
  with assms show ?thesis
    by (simp add: startup_healthy_def fresh_at_def Current_def contextErr_def normalizedHealth_def Let_def case_prod_beta)
qed

section \<open>An example configuration\<close>

definition ex_config :: Config where
  "ex_config = \<lparr>ConfigVersion = ''v1alpha1'',
     cf_Server = \<lparr>sv_SocketPath = ''/r/k'', sv_SocketMode = ''660'', sv_SocketGroup = ''0'', sv_MetricsAddress = [], sv_HealthAddress = [],
       sv_MaxConcurrentStatus = 1, sv_MaxConcurrentEncrypt = 1, sv_MaxConcurrentDecrypt = 1\<rparr>,
     cf_OpenBao = \<lparr>bo_Address = ''a'', bo_Namespace = [], bo_CACertFile = ''/c'', bo_TLSServerName = ''t'', bo_Timeout = 1, bo_InstanceID = ''i''\<rparr>,
     cf_Auth = \<lparr>au_Method = ''jwt'', au_LoginBeforeTokenExpiry = 1, au_TokenRenewalIncrement = 2, au_LoginTimeout = 0,
       au_JWT = \<lparr>jc_Source = ''file'', jc_OAuth2 = zero_OAuth2Config, jc_MountPath = ''m'', jc_Role = ''r'', jc_JWTFile = ''/j'',
         jc_MinRemainingTTL = 1, jc_ClockSkewLeeway = 0, jc_ExpectedIssuer = [], jc_ExpectedAudience = [], jc_ExpectedSubject = []\<rparr>,
       au_Cert = \<lparr>ca_MountPath = [], ca_Name = [], ca_MinRemainingTTL = 0, ca_ClockSkewLeeway = 0, ca_Source = [],
         ca_PKCS11 = \<lparr>p11_CertificateFile = [], p11_ModulePath = [], p11_TokenLabel = [], p11_KeyLabel = [], p11_PINFile = [], p11_MaxSessions = 0\<rparr>,
         ca_SPIFFE = \<lparr>spf_WorkloadAPISocket = [], spf_SPIFFEID = [], spf_TrustDomain = []\<rparr>\<rparr>\<rparr>,
     cf_Transit = \<lparr>tx_MountPath = ''t'', tx_KeyName = ''k'',
       tx_KeyIDScope = \<lparr>ks_ProviderName = ''p'', ks_ClusterID = ''c'', ks_TransitMountID = ''m'', ks_KeyLineageID = ''l''\<rparr>\<rparr>,
     cf_Bootstrap = \<lparr>bs_GraceTimeout = 0, bs_RetryInterval = 1\<rparr>,
     cf_Status = \<lparr>sts_ProbeInterval = 1, sts_DeepProbeInterval = 1, sts_StatusMaxStaleness = 2\<rparr>, cf_State_Path = ''/s'',
     cf_Rotation = \<lparr>rt_Mode = ''observed'', rt_ActivationDelay = 1, rt_RequireStableObservationCount = 1, rt_RejectVersionRollback = True\<rparr>,
     cf_Logging = \<lparr>lg_Level = ''info'', lg_Format = ''json'', lg_LogOpenBaoRequestIDs = False,
       lg_DebugCorrelation = \<lparr>dc_Enabled = False, dc_TTL = 0, dc_IncidentID = []\<rparr>\<rparr>\<rparr>"

definition ex_url :: "string \<Rightarrow> URL option" where
  "ex_url _ = Some \<lparr>u_Scheme = ''https'', u_Opaque = [], u_User = False, u_Host = ''h'', u_Path = [], u_RawQuery = [], u_Fragment = [], u_String = []\<rparr>"

definition ex_net :: go_net where
  "ex_net = \<lparr>gn_url_parse = ex_url, gn_ParseAddr = (\<lambda>_. None), gn_EqualFold = (=)\<rparr>"

definition ex_host :: "nat host" where
  "ex_host = \<lparr>h_url_parse = ex_url, h_read_file = (\<lambda>_. Some ''pem''), h_pem_certs = (\<lambda>_. [0]), h_lookup_group = (\<lambda>_. None),
     h_certificate_provider = None\<rparr>"

definition ex_validation :: ValidationOptions where
  "ex_validation = \<lparr>vo_ConfigFilePath = [], vo_CheckFilesystem = False, vo_AllowedSocketParentDirs = [''/r'']\<rparr>"

lemma ex_required: "validateRequired False ex_config = []"
  by (simp add: validateRequired_def ex_config_def appendAuthRequired_def AuthMethodJWT_def JWTSourceFile_def TrimSpace_ascii)

lemma ex_values: "validateValues ex_net False text_of ex_config = []"
  by (simp add: validateValues_def ex_config_def Let_def defaultConfigVersion_def defaultRotationMode_def validateOpenBaoAddress_def ex_net_def
      ex_url_def config_validateOpenBaoNamespace_def validateAddress_def TrimSpace_ascii validateAuthValues_def AuthMethodJWT_def
      validateJWTAuthValues_def validateJWTSource_def JWTSourceFile_def validateAbsolutePath_def IsAbs_def HasPrefix_def
      validateMountPath_def unsafeText_def ContainsAny_def badSegment_def validatePathName_def
      transitKeyNamePattern_def is_word_def validateTransitKeyName_def validateDebugCorrelation_def validateRelationships_def
      sameFixedListener_def SplitHostPort_def cut_last_def)

lemma ex_socket: "validateSocketPolicy text_of ex_config ex_validation = []"
  by (simp add: validateSocketPolicy_def ex_config_def ex_validation_def IsAbs_def HasPrefix_def ParseSocketMode_def parse_octal_def is_digit_def
      digit_val_def socketDisallowedMode_def pathWithinAllowedDirs_def filepath_Dir_def path_Clean_def clean_step_def socketParentDirs_def Let_def)

section \<open>An example startup\<close>

lemma deep_breaker_kept:
  "c_deepBreaker (publishCircuitBreakerState r r' c) = c_deepBreaker c"
  "c_deepBreaker (snd (allowProbe ProbeKindMetadata r r' c)) = c_deepBreaker c"
  "c_deepBreaker (recordProbeFailure ProbeKindMetadata r r' c) = c_deepBreaker c"
  "c_deepBreaker (recordProbeSuccess ProbeKindMetadata r c) = c_deepBreaker c"
  "c_deepBreaker (snd (metadataFailed r r' reason err c)) = c_deepBreaker c"
  "c_deepBreaker (observeProbe obs c) = c_deepBreaker c" "c_deepBreaker (observeClockRegression c) = c_deepBreaker c"
  "c_deepBreaker (observePromotion previous c) = c_deepBreaker c" "c_deepBreaker (confirmActivation st profile r c) = c_deepBreaker c"
  "c_deepBreaker (snd (saveState senv st has st' c)) = c_deepBreaker c"
  "c_deepBreaker (snd (stateForObservation senv c)) = c_deepBreaker c"
  "c_deepBreaker (snd (deferObservation r profile c)) = c_deepBreaker c"
  by (auto simp: publishCircuitBreakerState_def allowProbe_def recordProbeFailure_def recordProbeSuccess_def set_breaker_def metadataFailed_def
      observeProbe_def observeClockRegression_def observePromotion_def confirmActivation_def saveState_def stateForObservation_def
      deferObservation_def Let_def case_prod_beta split: option.split sum.split)

lemma failed_save_deep_breaker: "c_deepBreaker (snd (stateSaveFailed env now profile err c)) = c_deepBreaker c"
  by (simp add: stateSaveFailed_def Let_def case_prod_beta deep_breaker_kept)

lemma publish_finished_deep_breaker: "c_deepBreaker (snd (publish_finished env profile discover previous result c)) = c_deepBreaker c"
  unfolding publish_finished_def Let_def by (simp add: deep_breaker_kept)

lemma publish_result_deep_breaker: "c_deepBreaker (snd (publish_result env profile now discover state has result c)) = c_deepBreaker c"
proof -
  obtain saved c1 where p: "persist_result (pe_save env) state has result c = (saved, c1)" by fastforce
  then have "c_deepBreaker c1 = c_deepBreaker c"
    using deep_breaker_kept(10) [of "pe_save env" state has "or_State result" c] by (auto simp: persist_result_def split: if_splits)
  with p show ?thesis
    by (auto simp: publish_result_def Let_def failed_save_deep_breaker publish_finished_deep_breaker deep_breaker_kept split: sum.split)
qed

lemma publishObservation_deep_breaker: "c_deepBreaker (snd (publishObservation env profile now discover c)) = c_deepBreaker c"
proof -
  obtain r c1 where s: "stateForObservation (pe_recover env) c = (r, c1)" by fastforce
  then have "c_deepBreaker c1 = c_deepBreaker c" using deep_breaker_kept(11) [of "pe_recover env" c] by simp
  with s show ?thesis
    by (auto simp: publishObservation_def Let_def failed_save_deep_breaker publish_result_deep_breaker deep_breaker_kept split: sum.split)
qed

lemma ProbeOnce_deep_breaker: "c_deepBreaker (snd (ProbeOnce env c)) = c_deepBreaker c"
  by (simp add: ProbeOnce_def probeOnce_def with_observation_def probe_body_def Let_def case_prod_beta deep_breaker_kept
      publishObservation_deep_breaker split: sum.split)


lemma DeepProbeOnce_succeeds:
  assumes "acquireProbe env = Inr ()" "contextErr (pe_ctx env) = Inr ()" "fst (allow (c_deepBreaker c) (pe_now env))"
    and "hasState (c_store c)" "\<not> encryptionBlocked (c_store c)"
    and "\<And>q. \<exists>result. pe_ProbeEncryptDecrypt env q = Inr result \<and> length (ps_Ciphertext result) < MaxKMSCiphertextBytes
      \<and> ps_KeyVersion result = pq_KeyVersion q"
  shows "fst (DeepProbeOnce env c) = Inr ()"
proof -
  let ?c = "snd (allowProbe ProbeKindDeep (pe_now env) (pe_allowReading env) c)"
  have allowed: "fst (allowProbe ProbeKindDeep (pe_now env) (pe_allowReading env) c)"
    using assms(3) by (simp add: allowProbe_def case_prod_beta breakerForKind_def)
  have "activeForDeepProbe (c_store ?c) = Inr (st_active (c_store ?c))"
    using assms(4,5) by (simp add: activeForDeepProbe_def allowProbe_def case_prod_beta publishCircuitBreakerState_def set_breaker_def
        UpdateCircuitBreaker_def)
  moreover obtain result where "pe_ProbeEncryptDecrypt env \<lparr>pq_MountPath = c_mountPath ?c, pq_KeyName = c_keyName ?c,
      pq_KeyVersion = TransitVersion (st_active (c_store ?c)), pq_AssociatedData = probeAssociatedDataValue\<rparr> = Inr result"
    "length (ps_Ciphertext result) < MaxKMSCiphertextBytes" "ps_KeyVersion result = TransitVersion (st_active (c_store ?c))"
    using assms(6) by (metis ProbeRequest.select_convs(3))
  ultimately have "fst (deep_body env c) = Inr ()" using allowed assms(2) by (simp add: deep_body_def Let_def case_prod_beta)
  then show ?thesis using assms(1) by (simp add: DeepProbeOnce_def with_observation_def Let_def case_prod_beta)
qed

lemma ex_bootstrap:
  obtains c c' where "runBootstrapProbe (ex_env, ex_env) c = (Inr (), c')"
proof (rule ex_start [of 0])
  fix c0
  assume "controller_inv ''s'' c0" "hasState (c_store c0)" "st_state (c_store c0) = ex_one" "c_observer c0 = ex_delayed 0" "c_pendingCommit c0 = None"
    "c_metadataBreaker c0 = newCircuitBreaker \<lparr>FailureThreshold = 3, OpenDuration = 30\<rparr>"
  moreover define c where "c = c0\<lparr>c_deepBreaker := newCircuitBreaker \<lparr>FailureThreshold = 3, OpenDuration = 30\<rparr>\<rparr>"
  ultimately have c: "controller_inv ''s'' c" "hasState (c_store c)" "st_state (c_store c) = ex_one" "c_observer c = ex_delayed 0"
    "c_pendingCommit c = None" "c_metadataBreaker c = newCircuitBreaker \<lparr>FailureThreshold = 3, OpenDuration = 30\<rparr>"
    "c_deepBreaker c = newCircuitBreaker \<lparr>FailureThreshold = 3, OpenDuration = 30\<rparr>"
    by (simp_all add: controller_inv_def durable_def)
  have basis: "observation_basis c = ex_one" by (simp add: observation_basis_def c)
  have env: "faultless ex_env" "acquireProbe ex_env = Inr ()" "contextErr (pe_ctx ex_env) = Inr ()"
    "fst (allow (c_metadataBreaker c) (pe_now ex_env))" "pe_ReadDisableUpsert ex_env (c_mountPath c) = Inr True"
    "pe_ReadKeyProfile ex_env (c_mountPath c) (c_keyName c) = Inr (ex_profile 1)"
    by (simp_all add: faultless_def ex_env_def acquireProbe_def contextErr_def c allow_def newCircuitBreaker_def Let_def)
  obtain result where res: "observe (ex_delayed 0) ex_one (ex_profile 1) now True rd = Inr result" "\<not> or_EncryptionBlocked result" for now rd
    by (simp add: observe_Inr)
  with basis c have "Observe (c_observer c) (observation_basis c) (ex_profile 1) (Wall (pe_now ex_env))
       (promotionReady c (observation_basis c) (ex_profile 1) (pe_now ex_env)) = Inr result" by (simp add: Observe_def)
  from ProbeOnce_faultless(1) [OF c(1,2) env this] res(2) obtain c1 where c1: "ProbeOnce ex_env c = (Inr (), c1)"
    by (metis failIf_def prod.collapse)
  then have "controller_inv ''s'' c1" using probeOnce_inv [OF c(1), of ex_env False] env(2) by (simp add: ProbeOnce_def)
  with ProbeOnce_ok [OF c1] have st: "hasState (c_store c1)" "\<not> encryptionBlocked (c_store c1)"
    by (simp_all add: metadata_ready_def controller_inv_def store_inv_def)
  have "c_deepBreaker c1 = c_deepBreaker c" using ProbeOnce_deep_breaker [of ex_env c] c1 by simp
  then have "fst (allow (c_deepBreaker c1) (pe_now ex_env))" by (simp add: c(7) allow_def newCircuitBreaker_def Let_def)
  then have "fst (DeepProbeOnce ex_env c1) = Inr ()"
    using env(2,3) st by (intro DeepProbeOnce_succeeds) (simp_all add: ex_env_def MaxKMSCiphertextBytes_def)
  then obtain c2 where "DeepProbeOnce ex_env c1 = (Inr (), c2)" by (metis prod.collapse)
  with c1 show thesis using that [of c c2] by (simp add: runBootstrapProbe_def)
qed

definition ex_status_env :: status_env where
  "ex_status_env = \<lparr>se_reading = zero_reading, se_reading' = zero_reading, se_store = (no_fault, no_fault), se_probe_observer = NoProbeObserver\<rparr>"

definition ex_empty_disk :: Disk where
  "ex_empty_disk = \<lparr>d_state = Absent, d_checkpoint = Absent\<rparr>"

section \<open>Main results\<close>

text \<open>
  Every constructor between a validated configuration and the probes accepts what it is given: the address, TLS, login source, token manager,
  key scope, rotation policy, status cache, scheduler and request limits.
\<close>

lemma validated_parts_build:
  assumes "Validate net spiffe text_of lstat cfg opts = []" and "h_url_parse h = gn_url_parse net"
    and "trusted_ca h (bo_CACertFile (cf_OpenBao cfg))"
    and "o2_CACertFile (jc_OAuth2 (au_JWT (cf_Auth cfg))) = [] \<or> trusted_ca h (o2_CACertFile (jc_OAuth2 (au_JWT (cf_Auth cfg))))"
    and "lookupGroupID (h_lookup_group h) (sv_SocketGroup (cf_Server cfg)) = Inr gid"
    and "au_Method (cf_Auth cfg) = AuthMethodCert \<longrightarrow> (\<exists>provider. h_certificate_provider h = Some provider \<and> provider cfg = Inr ())"
    and "fst (Load (cf_State_Path cfg) (se_store env) d) = Inl err" and "errors_is err ErrStateNotFound" and "version \<noteq> []"
  shows "\<exists>controller. \<forall>bootstrap.
    (case bootstrap controller of
       None \<Rightarrow> build_parts h env bootstrap dependencies version cfg d = None
     | Some (Inl e, _) \<Rightarrow> build_parts h env bootstrap dependencies version cfg d = Some (Inl (Wrap ''initialize status cache'' [e]))
     | Some (Inr _, controller') \<Rightarrow> \<exists>p. build_parts h env bootstrap dependencies version cfg d = Some (Inr p) \<and> pv_gid p = gid
         \<and> pv_controller p = controller' \<and> ParseSocketMode (sv_SocketMode (cf_Server cfg)) = Inr (pv_socketMode p)
         \<and> pv_socketMode p AND socketDisallowedMode = 0)"
proof -
  from assms(1) have req: "validateRequired spiffe cfg = []" and val: "validateValues net spiffe text_of cfg = []"
    and pol: "validateSocketPolicy text_of cfg opts = []" by (simp_all add: Validate_Nil)
  from pol obtain mode where mode: "ParseSocketMode (sv_SocketMode (cf_Server cfg)) = Inr mode" "mode AND socketDisallowedMode = 0"
    by (auto simp: validateSocketPolicy_def Let_def split: sum.splits)
  obtain manager where manager: "buildAuthManager h cfg = Inr manager"
    using auth_manager_ok [OF req val assms(3,2)] assms(4,6) by blast
  obtain client where client: "NewClient (h_url_parse h) (h_read_file h) (h_pem_certs h) (client_config cfg) = Inr client"
    using clients_ok(1) [OF req val assms(3,2)] ..
  obtain controller scheduler where runtime: "fst (buildStatusRuntime env cfg d) = Inr (controller, scheduler)"
    using status_runtime_ok [OF req val assms(7,8)] by fastforce
  note parts = mode(1) assms(5) manager client runtime
  have "\<exists>server. NewServer (server_options cfg version (dependencies c client)) = Inr server" for c
    using server_ok [OF val assms(9)] .
  then obtain server where server: "NewServer (server_options cfg version (dependencies c client)) = Inr (server c)" for c
    by metis
  show ?thesis
    by (intro exI [of _ controller] allI) (auto simp: build_parts_def parts server mode(2) split: option.split sum.split prod.split)
qed

text \<open>
  C26 Startup ends, and ends serving only in good health. When the clock advances across the pauses between attempts, the bootstrap probes return. Every
  attempt that is followed by another one ended before the grace period did, and the pause after it was to end within the period: once an attempt has
  ended at or after the deadline, no other one is made. Where the probes return without an error, the store holds a state whose
  metadata and deep probes succeeded, and a Status read from it before it goes stale is healthy with the active key_id; an error is that of
  an interrupted pause, or the last attempt's error at or after the deadline, or that of the only attempt when there is no grace period.
\<close>

theorem bootstrap_gates_serving:
  assumes "sleeps_pass cfg (start + bs_GraceTimeout cfg) now slept"
  shows "\<exists>k r. probeOnceWithBootstrapGraceAndSleep start envs now slept cfg c = Some (r, attempted envs c (Suc k))
    \<and> (\<forall>j<k. (\<exists>e. attempt envs c j = Inl e) \<and> now j < start + bs_GraceTimeout cfg
         \<and> pause_ends now slept (start + bs_GraceTimeout cfg) j None)
    \<and> (r = Inr () \<longrightarrow> (let s = c_store (attempted envs c (Suc k)) in startup_healthy s \<and> (\<forall>rd. fresh_at s rd \<longrightarrow>
          fst (Current s LiveContext rd) = Inr \<lparr>Healthz = HealthOK, KeyID = KubernetesKeyID (st_active s), Active = st_active s\<rparr>)))
    \<and> (\<forall>err. r = Inl err \<longrightarrow> (\<exists>lastErr. attempt envs c k = Inl lastErr
         \<and> (if bs_GraceTimeout cfg \<le> 0 then k = 0 \<and> err = lastErr
            else start + bs_GraceTimeout cfg \<le> now k \<and> err = Wrap ''bootstrap probes did not succeed within the grace timeout'' [lastErr]
               \<or> pause_ends now slept (start + bs_GraceTimeout cfg) k (Some err))))"
proof -
  let ?dl = "start + bs_GraceTimeout cfg"
  have "\<exists>k r. probeOnceWithBootstrapGraceAndSleep start envs now slept cfg c = Some (r, attempted envs c (Suc k))
    \<and> (\<forall>j<k. (\<exists>e. attempt envs c j = Inl e) \<and> pause_ends now slept ?dl j None)
    \<and> (case attempt envs c k of
         Inr _ \<Rightarrow> r = Inr ()
       | Inl lastErr \<Rightarrow> if bs_GraceTimeout cfg \<le> 0 then k = 0 \<and> r = Inl lastErr
            else ?dl \<le> now k \<and> r = Inl (Wrap ''bootstrap probes did not succeed within the grace timeout'' [lastErr])
               \<or> (\<exists>err. pause_ends now slept ?dl k (Some err) \<and> r = Inl err))"
  proof (cases "bs_GraceTimeout cfg \<le> 0")
    case True
    then show ?thesis
      by (intro exI [of _ 0] exI [of _ "attempt envs c 0"]) (auto simp: probeOnceWithBootstrapGraceAndSleep_def attempt_def split: sum.split)
  next
    case False
    from bootstrap_loop_run [OF assms, of 0 envs c] obtain n r where
      "bootstrap_loop envs now slept cfg ?dl 0 c = Some (r, attempted envs c (Suc n))"
      "\<forall>j<n. (\<exists>e. attempt envs c j = Inl e) \<and> pause_ends now slept ?dl j None"
      "case attempt envs c n of Inr _ \<Rightarrow> r = Inr ()
       | Inl lastErr \<Rightarrow> ?dl \<le> now n \<and> r = Inl (Wrap ''bootstrap probes did not succeed within the grace timeout'' [lastErr])
           \<or> (\<exists>err. pause_ends now slept ?dl n (Some err) \<and> r = Inl err)" by (auto simp del: attempted.simps(2))
    with False show ?thesis
      by (intro exI [of _ n] exI [of _ r]) (simp add: probeOnceWithBootstrapGraceAndSleep_def del: attempted.simps(2) split: sum.splits)
  qed
  then obtain k r where k: "probeOnceWithBootstrapGraceAndSleep start envs now slept cfg c = Some (r, attempted envs c (Suc k))"
    "\<forall>j<k. (\<exists>e. attempt envs c j = Inl e) \<and> pause_ends now slept ?dl j None"
    "case attempt envs c k of
         Inr _ \<Rightarrow> r = Inr ()
       | Inl lastErr \<Rightarrow> if bs_GraceTimeout cfg \<le> 0 then k = 0 \<and> r = Inl lastErr
            else ?dl \<le> now k \<and> r = Inl (Wrap ''bootstrap probes did not succeed within the grace timeout'' [lastErr])
               \<or> (\<exists>err. pause_ends now slept ?dl k (Some err) \<and> r = Inl err)" by blast
  have early: "now j < ?dl" if "pause_ends now slept ?dl j None" for j using that by (auto simp: pause_ends_def)
  have healthy: "startup_healthy (c_store (attempted envs c (Suc k)))" if "r = Inr ()"
  proof -
    have "\<exists>u. attempt envs c k = Inr u" using k(3) that by (cases "attempt envs c k") (auto split: if_splits)
    then obtain u where "attempt envs c k = Inr u" ..
    then show ?thesis by (simp add: attempt_def runBootstrapProbe_ok prod_eq_iff)
  qed
  have failed: "\<exists>lastErr. attempt envs c k = Inl lastErr
         \<and> (if bs_GraceTimeout cfg \<le> 0 then k = 0 \<and> err = lastErr
            else ?dl \<le> now k \<and> err = Wrap ''bootstrap probes did not succeed within the grace timeout'' [lastErr]
               \<or> pause_ends now slept ?dl k (Some err))" if "r = Inl err" for err
    using k(3) that by (cases "attempt envs c k") (auto split: if_splits)
  show ?thesis
    by (intro exI [of _ k] exI [of _ r] conjI k(1) allI impI) (use k(2) early healthy failed startup_Current in \<open>auto simp: Let_def simp del: attempted.simps(2)\<close>)
qed

theorem bootstrap_gates_serving_witness:
  "\<exists>c c'. sleeps_pass \<lparr>bs_GraceTimeout = 10, bs_RetryInterval = 5\<rparr> (0 + 10) (\<lambda>k. 5 * int k) (\<lambda>_ _. None)
    \<and> probeOnceWithBootstrapGraceAndSleep 0 (\<lambda>_. (ex_env, ex_env)) (\<lambda>k. 5 * int k) (\<lambda>_ _. None)
        \<lparr>bs_GraceTimeout = 10, bs_RetryInterval = 5\<rparr> c = Some (Inr (), c')
    \<and> startup_healthy (c_store c')"
proof -
  let ?cfg = "\<lparr>bs_GraceTimeout = 10, bs_RetryInterval = 5\<rparr>"
  have pass: "sleeps_pass ?cfg (0 + bs_GraceTimeout ?cfg) (\<lambda>k. 5 * int k) (\<lambda>_ _. None)"
    by (simp add: sleeps_pass_def bootstrap_delay_def)
  obtain c c' where run: "runBootstrapProbe (ex_env, ex_env) c = (Inr (), c')" by (rule ex_bootstrap)
  then have "probeOnceWithBootstrapGraceAndSleep 0 (\<lambda>_. (ex_env, ex_env)) (\<lambda>k. 5 * int k) (\<lambda>_ _. None) ?cfg c = Some (Inr (), c')"
    by (simp add: probeOnceWithBootstrapGraceAndSleep_def bootstrap_loop.simps)
  with bootstrap_gates_serving [OF pass, of "\<lambda>_. (ex_env, ex_env)" c] have "startup_healthy (c_store c')"
    by (auto simp: Let_def simp del: attempted.simps)
  with \<open>probeOnceWithBootstrapGraceAndSleep _ _ _ _ _ _ = _\<close> pass show ?thesis by auto
qed

end
