(* ===== verification/Health.thy ===== *)
theory Health
  imports Status_Store_Safety
begin

text \<open>
  The node-local health endpoints (\<^verbatim>\<open>internal/health/handler.go\<close>, the liveness flag of \<^verbatim>\<open>internal/runtime/runtime.go\<close> and the
  readiness adapter of \<^verbatim>\<open>cmd/bao-kms-provider/serve.go\<close>) and their agreement with the KMS status. Routing, headers and the
  JSON text of a body belong to the HTTP library; a response is its status code and its body.
\<close>

section \<open>Handlers\<close>

datatype http_body = NoBody | TextBody string | LiveBody string
  | ReadyBody (rb_Status: string) (rb_Healthz: string) (rb_CacheAgeMs: int) (rb_Stale: bool) (rb_RotationState: string)
      (rb_Reasons: "HealthReason list") (rb_MetadataErrorClass: string) (rb_DeepErrorClass: string) (rb_PersistenceDegraded: bool)

record http_response =
  rs_code :: nat
  rs_body :: http_body

definition statusOK :: string where "statusOK = ''ok''"
definition statusUnavailable :: string where "statusUnavailable = ''unavailable''"

text \<open>The liveness flag: set when the runtime starts serving, cleared when it stops.\<close>

record runtimeLiveness = rl_started :: bool

definition markStarted :: "runtimeLiveness \<Rightarrow> runtimeLiveness" where "markStarted l = l\<lparr>rl_started := True\<rparr>"
definition markStopped :: "runtimeLiveness \<Rightarrow> runtimeLiveness" where "markStopped l = l\<lparr>rl_started := False\<rparr>"
definition Live :: "runtimeLiveness \<Rightarrow> unit res" where
  "Live l = failIf (\<not> rl_started l) (Msg ''runtime not started'')"

definition method_allowed :: "string \<Rightarrow> bool" where
  "method_allowed m \<longleftrightarrow> m = ''GET'' \<or> m = ''HEAD''"

definition liveHandler :: "unit res \<Rightarrow> string \<Rightarrow> http_response" where
  "liveHandler live m =
    (if \<not> method_allowed m then \<lparr>rs_code = 405, rs_body = TextBody ''method not allowed''\<rparr>
     else case live of
            Inl _ \<Rightarrow> \<lparr>rs_code = 503, rs_body = LiveBody statusUnavailable\<rparr>
          | Inr _ \<Rightarrow> \<lparr>rs_code = 200, rs_body = LiveBody statusOK\<rparr>)"

definition readyStatusFor :: "Diagnostics \<Rightarrow> string" where
  "readyStatusFor d =
    (if dg_Healthz d \<noteq> HealthOK then statusUnavailable
     else if Stale d then statusUnavailable
     else if ActiveKeyIDHash d = [] then statusUnavailable
     else statusOK)"

text \<open>\<open>Duration.Milliseconds\<close> truncates towards zero.\<close>

definition Milliseconds :: "int \<Rightarrow> int" where
  "Milliseconds d = (if 0 \<le> d then d div 10 ^ 6 else - ((- d) div 10 ^ 6))"

definition readyBody :: "Diagnostics \<Rightarrow> http_body" where
  "readyBody d = ReadyBody (readyStatusFor d) (dg_Healthz d) (Milliseconds (CacheAge d)) (Stale d) (RotationState d) (Reasons d)
     (MetadataErrorClass d) (DeepErrorClass d) (PersistenceDegraded d)"

definition readyHandler :: "Diagnostics res \<Rightarrow> string \<Rightarrow> http_response" where
  "readyHandler ready m =
    (if \<not> method_allowed m then \<lparr>rs_code = 405, rs_body = TextBody ''method not allowed''\<rparr>
     else case ready of
            Inl _ \<Rightarrow> \<lparr>rs_code = 503, rs_body = ReadyBody statusUnavailable [] 0 False [] [''diagnostics_unavailable''] [] [] False\<rparr>
          | Inr d \<Rightarrow> (let body = readyBody d
                     in \<lparr>rs_code = (if rb_Status body \<noteq> statusOK then 503 else 200), rs_body = body\<rparr>))"

definition Ready :: "Store \<Rightarrow> go_context \<Rightarrow> Reading \<Rightarrow> Diagnostics res \<times> Store" where
  "Ready s ctx now = store_Diagnostics s ctx now"

section \<open>Agreement with the KMS status\<close>

lemma statusOK_distinct [simp]: "statusOK \<noteq> statusUnavailable" "statusUnavailable \<noteq> statusOK"
  by (simp_all add: statusOK_def statusUnavailable_def)

lemma HashValue_not_Nil [simp]: "HashValue v \<noteq> []"
  using digest64_not_Nil by (simp add: HashValue_digest64)

lemma diagnostics_active:
  "ActiveKeyIDHash (fst (DiagnosticsSnapshot s now)) = (if hasState s then HashValue (KubernetesKeyID (st_active s)) else [])"
  "Stale (fst (DiagnosticsSnapshot s now)) = (\<not> hasState s \<or> \<not> fresh_at s now)"
proof -
  have "hasState (snd (staleLocked s now)) = hasState s" "st_active (snd (staleLocked s now)) = st_active s"
    by (simp_all add: staleLocked_snd)
  then show "ActiveKeyIDHash (fst (DiagnosticsSnapshot s now)) = (if hasState s then HashValue (KubernetesKeyID (st_active s)) else [])"
    "Stale (fst (DiagnosticsSnapshot s now)) = (\<not> hasState s \<or> \<not> fresh_at s now)"
    by (simp_all add: DiagnosticsSnapshot_def diagnosticsForState_def Let_def case_prod_beta fresh_at_def split: option.split)
qed

lemma Current_healthy:
  assumes "store_inv s" and "fst (Current s ctx now) = Inr c"
  shows "Healthz c = HealthOK \<longleftrightarrow> hasState s \<and> metadataOK s \<and> deepProbeOK s \<and> fresh_at s now"
    and "Healthz c = HealthOK \<Longrightarrow> validateCachedStatus c = Inr (Active c)"
proof -
  from assms(2) have ctx: "contextErr ctx = Inr ()" by (auto simp: Current_def split: sum.splits)
  show eq: "Healthz c = HealthOK \<longleftrightarrow> hasState s \<and> metadataOK s \<and> deepProbeOK s \<and> fresh_at s now"
    using Current_fst [OF assms(1) ctx, of now] assms(2) by (auto simp: zero_status_def split: if_splits)
  assume "Healthz c = HealthOK"
  with eq Current_fst [OF assms(1) ctx, of now] assms(2) have h: "hasState s"
    "c = \<lparr>Healthz = HealthOK, KeyID = KubernetesKeyID (st_active s), Active = st_active s\<rparr>" by auto
  from assms(1) h(1) have "runtimeRegistry (st_state s) = Inr (st_active s, st_registry s)" by (simp add: store_inv_def)
  note r = runtimeRegistry_Inr [OF this]
  have "normal_form (st_active s) = st_active s" using r(8) by (simp add: Normalize_Inr)
  then show "validateCachedStatus c = Inr (Active c)" using r h(2) by (simp add: validateCachedStatus_Inr)
qed

text \<open>
  C20 The endpoints tell the same story: at the same reading of the clock, \<open>/ready\<close> answers a GET with 200 exactly
  when the \<open>Status\<close> response of the KMS is healthy, and with 503 otherwise; it gives a reason exactly when it is not ready, and
  reports the same health value.
\<close>

theorem ready_agrees_with_status:
  assumes "store_inv s" and "fst (Current s ctx now) = Inr c"
  shows "rs_code (readyHandler (fst (Ready s ctx now)) ''GET'') = (if sr_Healthz (statusResponse c) = HealthOK then 200 else 503)
    \<and> (rb_Reasons (rs_body (readyHandler (fst (Ready s ctx now)) ''GET'')) = [] \<longleftrightarrow> sr_Healthz (statusResponse c) = HealthOK)
    \<and> rb_Healthz (rs_body (readyHandler (fst (Ready s ctx now)) ''GET'')) = Healthz c"
proof -
  from assms(2) have ctx: "contextErr ctx = Inr ()" by (auto simp: Current_def split: sum.splits)
  let ?d = "fst (DiagnosticsSnapshot s now)"
  have ready: "fst (Ready s ctx now) = Inr ?d" using ctx by (simp add: Ready_def store_Diagnostics_def case_prod_beta)
  have st: "sr_Healthz (statusResponse c) = HealthOK \<longleftrightarrow> Healthz c = HealthOK"
    using Current_healthy(2) [OF assms] statusResponse_ok [of c] by (auto simp: validateCachedStatus_Inr)
  note d = diagnostics_agree [OF assms]
  have "readyStatusFor ?d = statusOK \<longleftrightarrow> Healthz c = HealthOK"
    using d Current_healthy(1) [OF assms] by (auto simp: readyStatusFor_def diagnostics_active)
  with d st ready show ?thesis by (auto simp: readyHandler_def method_allowed_def readyBody_def Let_def)
qed

theorem ready_agrees_with_status_witness:
  "\<exists>s c. store_inv s \<and> fst (Current s LiveContext \<lparr>Wall = 1020, Elapsed = 20\<rparr>) = Inr c \<and> sr_Healthz (statusResponse c) = HealthOK
     \<and> rs_code (readyHandler (fst (Ready s LiveContext \<lparr>Wall = 1020, Elapsed = 20\<rparr>)) ''GET'') = 200"
proof -
  obtain s0 s c where s: "store_inv s" and c: "fst (Current s LiveContext \<lparr>Wall = 1020, Elapsed = 20\<rparr>) = Inr c" "Healthz c = HealthOK"
    by (rule ex_healthy_store)
  have "sr_Healthz (statusResponse c) = HealthOK"
    using Current_healthy(2) [OF s c(1) c(2)] c(2) statusResponse_ok [of c] by (simp add: validateCachedStatus_Inr)
  then show ?thesis using ready_agrees_with_status [OF s c(1)] s c by auto
qed

end
