(* ===== verification/Socket_Listener.thy ===== *)
theory Socket_Listener
  imports Startup_Safety Health
begin

unbundle bit_operations_syntax

text \<open>
  The Unix socket of the provider (\<^verbatim>\<open>internal/socket/listener.go\<close>) and the listeners of the process
  (\<^verbatim>\<open>internal/runtime/runtime.go\<close>, \<open>New\<close>). The host is a map from paths to nodes and the list of bound TCP addresses; what
  the system calls answer beyond that is an environment. A call is atomic with respect to other processes.
\<close>

section \<open>The host\<close>

text \<open>A node of the file system; \<open>nd_live\<close> says that a process listens on it.\<close>

record node =
  nd_kind :: lstat_kind
  nd_perm :: "32 word"
  nd_uid :: "int option"
  nd_gid :: int
  nd_live :: bool

record machine =
  mx_files :: "string \<rightharpoonup> node"
  mx_tcp :: "string list"
  mx_reclaimed :: nat

text \<open>
  The answers of the system: the effective user, paths that cannot be inspected, the result of a connection attempt (\<open>None\<close> when it
  succeeds), failures of the calls that change the host, the mode and group of a new socket, and whether a TCP address can be bound
  beside those that are.
\<close>

record system =
  sy_euid :: int
  sy_lstat_fails :: "string \<Rightarrow> bool"
  sy_dial :: "string \<Rightarrow> int \<Rightarrow> go_error option"
  sy_remove :: "go_error option"
  sy_listen :: "go_error option"
  sy_chmod :: "go_error option"
  sy_chown :: "go_error option"
  sy_socket_perm :: "32 word"
  sy_socket_gid :: int
  sy_listen_tcp :: "string list \<Rightarrow> string \<Rightarrow> go_error option"

datatype stat_result = StatMissing | StatFailed | Stat node

definition os_Lstat :: "system \<Rightarrow> machine \<Rightarrow> string \<Rightarrow> stat_result" where
  "os_Lstat sys m p =
    (if sy_lstat_fails sys p then StatFailed else case mx_files m p of None \<Rightarrow> StatMissing | Some n \<Rightarrow> Stat n)"

text \<open>\<open>net.Listen\<close> on a Unix path fails when something is there, and \<open>Close\<close> unlinks the socket.\<close>

definition net_Listen_unix :: "system \<Rightarrow> string \<Rightarrow> machine \<Rightarrow> unit res \<times> machine" where
  "net_Listen_unix sys p m =
    (case sy_listen sys of
       Some err \<Rightarrow> (Inl err, m)
     | None \<Rightarrow>
        if mx_files m p \<noteq> None then (Inl (Msg ''address already in use''), m)
        else (Inr (), m\<lparr>mx_files := (mx_files m)(p \<mapsto> \<lparr>nd_kind = Socket, nd_perm = sy_socket_perm sys, nd_uid = Some (sy_euid sys),
               nd_gid = sy_socket_gid sys, nd_live = True\<rparr>)\<rparr>))"

definition close_socket :: "string \<Rightarrow> machine \<Rightarrow> machine" where
  "close_socket p m = m\<lparr>mx_files := (mx_files m)(p := None)\<rparr>"

definition update_node :: "string \<Rightarrow> (node \<Rightarrow> node) \<Rightarrow> machine \<Rightarrow> machine" where
  "update_node p f m = m\<lparr>mx_files := (mx_files m)(p := map_option f (mx_files m p))\<rparr>"

section \<open>Binding the socket\<close>

record socket_Options =
  sk_Path :: string
  sk_Mode :: "32 word"
  sk_GID :: int
  sk_DialTimeout :: int

definition disallowedMode :: "32 word" where "disallowedMode = 79"
definition ModePerm :: "32 word" where "ModePerm = 511"
definition defaultDialTimeout :: int where "defaultDialTimeout = 250000000"

abbreviation procw :: "process_sentinel \<Rightarrow> string \<Rightarrow> go_error" where
  "procw s text \<equiv> Wrap text [Sentinel (Process s)]"

definition socket_validateOptions :: "socket_Options \<Rightarrow> unit res" where
  "socket_validateOptions opts =
    bindE (failIf (\<not> IsAbs (sk_Path opts)) (procw Socket_ErrInvalidConfig ''path must be absolute'')) (\<lambda>_.
    bindE (failIf (sk_Mode opts = 0) (procw Socket_ErrInvalidConfig ''mode must be set'')) (\<lambda>_.
    bindE (failIf (sk_Mode opts AND NOT ModePerm \<noteq> 0) (procw Socket_ErrInvalidConfig ''mode must be a permission mode'')) (\<lambda>_.
    failIf (sk_Mode opts AND disallowedMode \<noteq> 0) (procw Socket_ErrInvalidConfig ''mode must not allow world or execute bits''))))"

definition validateParentOwner :: "node \<Rightarrow> int \<Rightarrow> unit res" where
  "validateParentOwner info uid =
    failIf (nd_uid info \<noteq> Some uid) (procw ErrUnsafeParent ''parent must be owned by the current user'')"

definition validateParent :: "system \<Rightarrow> machine \<Rightarrow> string \<Rightarrow> unit res" where
  "validateParent sys m socketPath =
    (case os_Lstat sys m (filepath_Dir socketPath) of
       Stat info \<Rightarrow>
         bindE (failIf (nd_kind info = Symlink) (procw ErrUnsafeParent ''parent is a symlink'')) (\<lambda>_.
         bindE (failIf (nd_kind info \<noteq> Directory) (procw ErrUnsafeParent ''parent is not a directory'')) (\<lambda>_.
         bindE (failIf (nd_perm info AND ModePerm AND 18 \<noteq> 0)
           (procw ErrUnsafeParent ''parent must not be group-writable or world-writable'')) (\<lambda>_.
         validateParentOwner info (sy_euid sys))))
     | _ \<Rightarrow> Inl (procw ErrUnsafeParent ''lstat''))"

datatype probeResult = probeDead | probeLive | probeUncertain

definition classifyDialErr :: "go_error \<Rightarrow> probeResult" where
  "classifyDialErr err = (if errors_is err (Process ECONNREFUSED) then probeDead else probeUncertain)"

definition probeSocket :: "system \<Rightarrow> string \<Rightarrow> int \<Rightarrow> probeResult" where
  "probeSocket sys p timeout =
    (case sy_dial sys p (if timeout \<le> 0 then defaultDialTimeout else timeout) of
       None \<Rightarrow> probeLive
     | Some err \<Rightarrow> classifyDialErr err)"

definition prepareTarget :: "system \<Rightarrow> socket_Options \<Rightarrow> machine \<Rightarrow> unit res \<times> machine" where
  "prepareTarget sys opts m =
    (case os_Lstat sys m (sk_Path opts) of
       StatMissing \<Rightarrow> (Inr (), m)
     | StatFailed \<Rightarrow> (Inl (procw ErrInvalidSocketTarget ''lstat''), m)
     | Stat info \<Rightarrow>
        if nd_kind info = Symlink then (Inl (procw ErrInvalidSocketTarget ''existing path is a symlink''), m)
        else if nd_kind info \<noteq> Socket then (Inl (procw ErrInvalidSocketTarget ''existing path is not a Unix socket''), m)
        else (case probeSocket sys (sk_Path opts) (sk_DialTimeout opts) of
                probeLive \<Rightarrow> (Inl (procw ErrLiveSocketCollision (sk_Path opts)), m)
              | probeUncertain \<Rightarrow> (Inl (procw ErrIndeterminateSocketState (sk_Path opts)), m)
              | probeDead \<Rightarrow>
                  (case sy_remove sys of
                     Some err \<Rightarrow> (Inl (Wrap ''remove stale socket'' [err]), m)
                   | None \<Rightarrow> (Inr (), m\<lparr>mx_files := (mx_files m)(sk_Path opts := None), mx_reclaimed := mx_reclaimed m + 1\<rparr>))))"

text \<open>The steps of \<open>Listen\<close> after \<open>net.Listen\<close>: mode and group, with the socket closed again when one fails.\<close>

definition secure_socket :: "system \<Rightarrow> socket_Options \<Rightarrow> machine \<Rightarrow> string res \<times> machine" where
  "secure_socket sys opts m =
    (case sy_chmod sys of
       Some err \<Rightarrow> (Inl (Wrap ''chmod unix socket'' [err]), close_socket (sk_Path opts) m)
     | None \<Rightarrow>
        let m = update_node (sk_Path opts) (\<lambda>n. n\<lparr>nd_perm := sk_Mode opts\<rparr>) m in
        if sk_GID opts < 0 then (Inr (sk_Path opts), m)
        else (case sy_chown sys of
                Some err \<Rightarrow> (Inl (Wrap ''chown unix socket'' [err]), close_socket (sk_Path opts) m)
              | None \<Rightarrow> (Inr (sk_Path opts), update_node (sk_Path opts) (\<lambda>n. n\<lparr>nd_gid := sk_GID opts\<rparr>) m)))"

definition Listen :: "system \<Rightarrow> socket_Options \<Rightarrow> machine \<Rightarrow> string res \<times> machine" where
  "Listen sys opts m =
    (case bindE (socket_validateOptions opts) (\<lambda>_. validateParent sys m (sk_Path opts)) of
       Inl err \<Rightarrow> (Inl err, m)
     | Inr _ \<Rightarrow>
    (case prepareTarget sys opts m of
       (Inl err, m) \<Rightarrow> (Inl err, m)
     | (Inr _, m) \<Rightarrow>
    (case net_Listen_unix sys (sk_Path opts) m of
       (Inl err, m) \<Rightarrow> (Inl (Wrap ''listen unix socket'' [err]), m)
     | (Inr _, m) \<Rightarrow> secure_socket sys opts m)))"

section \<open>The listeners of the process\<close>

record runtime_Options =
  ro_Socket :: socket_Options
  ro_HasGRPCServer :: bool
  ro_HasReadiness :: bool
  ro_HealthAddress :: string
  ro_HasMetricsHandler :: bool
  ro_MetricsAddress :: string
  ro_ShutdownTimeout :: int

record Runtime =
  ru_socketListener :: string
  ru_healthListener :: "string option"
  ru_metricsListener :: "string option"
  ru_shutdownTimeout :: int
  ru_live :: runtimeLiveness
  ru_running :: bool

definition DefaultShutdownTimeout :: int where "DefaultShutdownTimeout = 15 * second"

definition shutdownTimeoutOrDefault :: "int \<Rightarrow> int" where
  "shutdownTimeoutOrDefault d = (if d \<le> 0 then DefaultShutdownTimeout else d)"

definition NewHandler :: "bool \<Rightarrow> bool \<Rightarrow> unit res" where
  "NewHandler live ready =
    bindE (failIf (\<not> live) (Msg ''liveness probe is required'')) (\<lambda>_. failIf (\<not> ready) (Msg ''readiness probe is required''))"

definition buildHTTPServer :: "system \<Rightarrow> string \<Rightarrow> machine \<Rightarrow> unit res \<times> machine" where
  "buildHTTPServer sys address m =
    (case sy_listen_tcp sys (mx_tcp m) address of
       Some err \<Rightarrow> (Inl err, m)
     | None \<Rightarrow> (Inr (), m\<lparr>mx_tcp := address # mx_tcp m\<rparr>))"

definition close_tcp :: "string option \<Rightarrow> machine \<Rightarrow> machine" where
  "close_tcp listener m = (case listener of None \<Rightarrow> m | Some address \<Rightarrow> m\<lparr>mx_tcp := remove1 address (mx_tcp m)\<rparr>)"

text \<open>The health listener of \<open>New\<close>, bound after the socket at \<open>p\<close>.\<close>

definition bind_health :: "system \<Rightarrow> runtime_Options \<Rightarrow> string \<Rightarrow> machine \<Rightarrow> string option res \<times> machine" where
  "bind_health sys opts p m =
    (if ro_HealthAddress opts = [] then (Inr None, m)
     else case NewHandler True (ro_HasReadiness opts) of
            Inl err \<Rightarrow> (Inl (Wrap ''build health handler'' [err]), close_socket p m)
          | Inr _ \<Rightarrow>
             (case buildHTTPServer sys (ro_HealthAddress opts) m of
                (Inl err, m) \<Rightarrow> (Inl (Wrap ''bind health listener'' [err]), close_socket p m)
              | (Inr _, m) \<Rightarrow> (Inr (Some (ro_HealthAddress opts)), m)))"

definition bind_metrics :: "system \<Rightarrow> runtime_Options \<Rightarrow> string \<Rightarrow> string option \<Rightarrow> machine \<Rightarrow> string option res \<times> machine" where
  "bind_metrics sys opts p healthListener m =
    (if ro_MetricsAddress opts = [] then (Inr None, m)
     else case buildHTTPServer sys (ro_MetricsAddress opts) m of
            (Inl err, m) \<Rightarrow> (Inl (Wrap ''bind metrics listener'' [err]), close_tcp healthListener (close_socket p m))
          | (Inr _, m) \<Rightarrow> (Inr (Some (ro_MetricsAddress opts)), m))"

definition Runtime_New :: "system \<Rightarrow> runtime_Options \<Rightarrow> machine \<Rightarrow> Runtime res \<times> machine" where
  "Runtime_New sys opts m =
    (if \<not> ro_HasGRPCServer opts then (Inl (procw Runtime_ErrInvalidConfig ''gRPC server is required''), m)
     else if ro_HealthAddress opts \<noteq> [] \<and> \<not> ro_HasReadiness opts
     then (Inl (procw Runtime_ErrInvalidConfig ''readiness probe is required when health address is set''), m)
     else if ro_MetricsAddress opts \<noteq> [] \<and> \<not> ro_HasMetricsHandler opts
     then (Inl (procw Runtime_ErrInvalidConfig ''metrics handler is required when metrics address is set''), m)
     else case Listen sys (ro_Socket opts) m of
            (Inl err, m) \<Rightarrow> (Inl (Wrap ''bind socket'' [err]), m)
          | (Inr p, m) \<Rightarrow>
       (case bind_health sys opts p m of
            (Inl err, m) \<Rightarrow> (Inl err, m)
          | (Inr health, m) \<Rightarrow>
       (case bind_metrics sys opts p health m of
            (Inl err, m) \<Rightarrow> (Inl err, m)
          | (Inr metrics, m) \<Rightarrow>
              (Inr \<lparr>ru_socketListener = p, ru_healthListener = health, ru_metricsListener = metrics,
                    ru_shutdownTimeout = shutdownTimeoutOrDefault (ro_ShutdownTimeout opts), ru_live = \<lparr>rl_started = False\<rparr>,
                    ru_running = False\<rparr>, m))))"

section \<open>What binding changes\<close>

lemma socket_validateOptions_Inr [simp]:
  "socket_validateOptions opts = Inr u \<longleftrightarrow>
     IsAbs (sk_Path opts) \<and> sk_Mode opts \<noteq> 0 \<and> sk_Mode opts AND NOT ModePerm = 0 \<and> sk_Mode opts AND disallowedMode = 0"
  by (auto simp: socket_validateOptions_def failIf_def)

text \<open>A parent directory in which no other user can replace the socket.\<close>

definition private_directory :: "system \<Rightarrow> node \<Rightarrow> bool" where
  "private_directory sys n \<longleftrightarrow> nd_kind n = Directory \<and> nd_perm n AND ModePerm AND 18 = 0 \<and> nd_uid n = Some (sy_euid sys)"

lemma validateParent_Inr:
  "validateParent sys m p = Inr u \<longleftrightarrow>
     \<not> sy_lstat_fails sys (filepath_Dir p) \<and> (\<exists>n. mx_files m (filepath_Dir p) = Some n \<and> private_directory sys n)"
  by (auto simp: validateParent_def os_Lstat_def private_directory_def validateParentOwner_def failIf_def split: option.splits if_splits)

text \<open>An orphaned socket: its connections are refused.\<close>

definition orphaned :: "system \<Rightarrow> socket_Options \<Rightarrow> node \<Rightarrow> bool" where
  "orphaned sys opts n \<longleftrightarrow> nd_kind n = Socket \<and> probeSocket sys (sk_Path opts) (sk_DialTimeout opts) = probeDead"

lemma prepareTarget_cases:
  assumes "prepareTarget sys opts m = (r, m')"
  obtains (refused) e where "r = Inl e" "m' = m"
  | (free) "r = Inr ()" "m' = m" "mx_files m (sk_Path opts) = None"
  | (reclaimed) n where "r = Inr ()" "mx_files m (sk_Path opts) = Some n" "orphaned sys opts n"
      "m' = m\<lparr>mx_files := (mx_files m)(sk_Path opts := None), mx_reclaimed := mx_reclaimed m + 1\<rparr>"
  using assms
  by (auto simp: prepareTarget_def os_Lstat_def orphaned_def split: option.splits if_splits probeResult.splits)

lemma secure_socket_cases:
  assumes "secure_socket sys opts m = (r, m')" "mx_files m (sk_Path opts) = Some n"
  obtains (failed) e where "r = Inl e" "mx_files m' = (mx_files m)(sk_Path opts := None)" "mx_tcp m' = mx_tcp m" "mx_reclaimed m' = mx_reclaimed m"
  | (secured) "r = Inr (sk_Path opts)" "mx_tcp m' = mx_tcp m" "mx_reclaimed m' = mx_reclaimed m"
      "mx_files m' = (mx_files m)(sk_Path opts \<mapsto> n\<lparr>nd_perm := sk_Mode opts, nd_gid := if sk_GID opts < 0 then nd_gid n else sk_GID opts\<rparr>)"
  using assms by (auto simp: secure_socket_def close_socket_def update_node_def Let_def split: option.splits if_splits)

lemma Listen_cases:
  assumes "Listen sys opts m = (r, m')"
  obtains (failed) e where "r = Inl e" "mx_tcp m' = mx_tcp m"
      "mx_files m' = mx_files m \<or> (mx_files m' = (mx_files m)(sk_Path opts := None) \<and> (\<forall>n. mx_files m (sk_Path opts) = Some n \<longrightarrow> orphaned sys opts n))"
  | (bound) n where "r = Inr (sk_Path opts)" "mx_tcp m' = mx_tcp m" "mx_files m' = (mx_files m)(sk_Path opts \<mapsto> n)"
      "\<forall>n. mx_files m (sk_Path opts) = Some n \<longrightarrow> orphaned sys opts n"
      "nd_kind n = Socket" "nd_live n" "nd_perm n = sk_Mode opts" "nd_uid n = Some (sy_euid sys)" "0 \<le> sk_GID opts \<longrightarrow> nd_gid n = sk_GID opts"
      "socket_validateOptions opts = Inr ()" "validateParent sys m (sk_Path opts) = Inr ()"
proof (cases "bindE (socket_validateOptions opts) (\<lambda>_. validateParent sys m (sk_Path opts))")
  case (Inl err)
  with assms have "r = Inl err" "m' = m" by (simp_all add: Listen_def)
  then show thesis using failed by simp
next
  case (Inr u)
  then have checked: "socket_validateOptions opts = Inr ()" "validateParent sys m (sk_Path opts) = Inr ()" by (auto simp: bindE_eq_Inr)
  obtain r1 m1 where t: "prepareTarget sys opts m = (r1, m1)" by fastforce
  show thesis
  proof (cases r1)
    case (Inl e)
    with assms Inr t have r: "r = Inl e" "m' = m1" by (simp_all add: Listen_def)
    from t show thesis by (cases rule: prepareTarget_cases) (use failed r Inl in auto)
  next
    case (Inr v)
    have m1: "mx_files m1 = (mx_files m)(sk_Path opts := None)" "mx_tcp m1 = mx_tcp m"
      "\<forall>n. mx_files m (sk_Path opts) = Some n \<longrightarrow> orphaned sys opts n"
      using t Inr by (cases rule: prepareTarget_cases; auto)+
    obtain r2 m2 where l: "net_Listen_unix sys (sk_Path opts) m1 = (r2, m2)" by fastforce
    show thesis
    proof (cases r2)
      case (Inl e)
      then have "m2 = m1" using l by (auto simp: net_Listen_unix_def split: option.splits if_splits)
      moreover have "r = Inl (Wrap ''listen unix socket'' [e])" "m' = m2"
        using assms \<open>bindE _ _ = Inr u\<close> t Inr l Inl by (simp_all add: Listen_def)
      ultimately show thesis using m1 by (intro failed) auto
    next
      case r2: (Inr w)
      let ?n = "\<lparr>nd_kind = Socket, nd_perm = sy_socket_perm sys, nd_uid = Some (sy_euid sys), nd_gid = sy_socket_gid sys, nd_live = True\<rparr>"
      have m2: "mx_files m2 = (mx_files m)(sk_Path opts \<mapsto> ?n)" "mx_tcp m2 = mx_tcp m"
        using l r2 m1 by (auto simp: net_Listen_unix_def split: option.splits if_splits)
      have step: "secure_socket sys opts m2 = (r, m')"
        using assms \<open>bindE _ _ = Inr u\<close> t Inr l r2 by (simp add: Listen_def)
      have n: "mx_files m2 (sk_Path opts) = Some ?n" by (simp add: m2)
      from step n show thesis
      proof (cases rule: secure_socket_cases)
        case (failed e)
        with m1 m2 show thesis by (intro that(1)) auto
      next
        case secured
        with m1 m2 checked show thesis
          by (intro bound [of "?n\<lparr>nd_perm := sk_Mode opts, nd_gid := if sk_GID opts < 0 then sy_socket_gid sys else sk_GID opts\<rparr>"]) simp_all
      qed
    qed
  qed
qed

text \<open>
  \<open>connect(2)\<close> reports \<open>ECONNREFUSED\<close> on a Unix socket only when no process listens on it.
\<close>

definition refusals_are_honest :: "system \<Rightarrow> machine \<Rightarrow> bool" where
  "refusals_are_honest sys m \<longleftrightarrow>
     (\<forall>p n t err. mx_files m p = Some n \<and> nd_live n \<and> sy_dial sys p t = Some err \<longrightarrow> \<not> errors_is err (Process ECONNREFUSED))"

lemma live_not_orphaned:
  assumes "refusals_are_honest sys m" "mx_files m (sk_Path opts) = Some n" "nd_live n"
  shows "\<not> orphaned sys opts n"
  using assms by (auto simp: refusals_are_honest_def orphaned_def probeSocket_def classifyDialErr_def split: option.splits if_splits)

lemma Listen_files:
  assumes "Listen sys opts m = (r, m')"
  shows "mx_tcp m' = mx_tcp m" "p \<noteq> sk_Path opts \<Longrightarrow> mx_files m' p = mx_files m p"
    and "mx_files m (sk_Path opts) = Some n \<Longrightarrow> \<not> orphaned sys opts n \<Longrightarrow> (\<exists>e. r = Inl e) \<and> mx_files m' = mx_files m"
  by (cases rule: Listen_cases [OF assms]; fastforce)+

section \<open>Releasing what was bound\<close>

lemma bind_health_cases:
  assumes "bind_health sys opts p m = (r, m')"
  obtains e where "r = Inl e" "m' = close_socket p m"
  | "r = Inr None" "m' = m" "ro_HealthAddress opts = []"
  | "r = Inr (Some (ro_HealthAddress opts))" "m' = m\<lparr>mx_tcp := ro_HealthAddress opts # mx_tcp m\<rparr>" "ro_HealthAddress opts \<noteq> []"
  using assms
  by (auto simp: bind_health_def buildHTTPServer_def split: sum.splits option.splits if_splits)

lemma bind_metrics_cases:
  assumes "bind_metrics sys opts p health m = (r, m')"
  obtains e where "r = Inl e" "m' = close_tcp health (close_socket p m)"
  | "r = Inr None" "m' = m" "ro_MetricsAddress opts = []"
  | "r = Inr (Some (ro_MetricsAddress opts))" "m' = m\<lparr>mx_tcp := ro_MetricsAddress opts # mx_tcp m\<rparr>" "ro_MetricsAddress opts \<noteq> []"
  using assms by (auto simp: bind_metrics_def buildHTTPServer_def split: sum.splits option.splits if_splits)

text \<open>The TCP addresses a runtime has bound.\<close>

definition tcp_of :: "Runtime \<Rightarrow> string list" where
  "tcp_of r = (case ru_metricsListener r of None \<Rightarrow> [] | Some a \<Rightarrow> [a]) @ (case ru_healthListener r of None \<Rightarrow> [] | Some a \<Rightarrow> [a])"

lemma Runtime_New_cases:
  assumes "Runtime_New sys opts m = (r, m')"
  obtains (failed) e where "r = Inl e" "mx_tcp m' = mx_tcp m"
      "mx_files m' = mx_files m \<or> (mx_files m' = (mx_files m)(sk_Path (ro_Socket opts) := None)
         \<and> (\<forall>n. mx_files m (sk_Path (ro_Socket opts)) = Some n \<longrightarrow> orphaned sys (ro_Socket opts) n))"
  | (bound) rt n m1 where "r = Inr rt" "Listen sys (ro_Socket opts) m = (Inr (sk_Path (ro_Socket opts)), m1)" "mx_files m' = mx_files m1"
      "mx_tcp m' = tcp_of rt @ mx_tcp m" "ru_socketListener rt = sk_Path (ro_Socket opts)" "\<not> ru_running rt" "\<not> rl_started (ru_live rt)"
      "ru_healthListener rt = (if ro_HealthAddress opts = [] then None else Some (ro_HealthAddress opts))"
      "ru_metricsListener rt = (if ro_MetricsAddress opts = [] then None else Some (ro_MetricsAddress opts))" "0 < ru_shutdownTimeout rt"
proof -
  obtain r1 m1 where l: "Listen sys (ro_Socket opts) m = (r1, m1)" by fastforce
  from assms l consider (invalid) e where "r = Inl e" "m' = m" | (nosocket) e where "r1 = Inl e" "r = Inl (Wrap ''bind socket'' [e])" "m' = m1"
    | (socket) p where "r1 = Inr p" "(case bind_health sys opts p m1 of (Inl err, m) \<Rightarrow> (Inl err, m)
          | (Inr health, m) \<Rightarrow> (case bind_metrics sys opts p health m of (Inl err, m) \<Rightarrow> (Inl err, m)
          | (Inr metrics, m) \<Rightarrow>
              (Inr \<lparr>ru_socketListener = p, ru_healthListener = health, ru_metricsListener = metrics,
                    ru_shutdownTimeout = shutdownTimeoutOrDefault (ro_ShutdownTimeout opts), ru_live = \<lparr>rl_started = False\<rparr>,
                    ru_running = False\<rparr>, m))) = (r, m')"
    by (auto simp: Runtime_New_def split: if_splits sum.splits)
  then show thesis
  proof cases
    case invalid
    then show thesis using failed by simp
  next
    case nosocket
    with l show thesis by (cases rule: Listen_cases [OF l]) (use failed in auto)
  next
    case (socket p)
    from l socket(1) obtain n where b: "p = sk_Path (ro_Socket opts)" "mx_tcp m1 = mx_tcp m"
      "mx_files m1 = (mx_files m)(sk_Path (ro_Socket opts) \<mapsto> n)" "\<forall>n. mx_files m (sk_Path (ro_Socket opts)) = Some n \<longrightarrow> orphaned sys (ro_Socket opts) n"
      by (cases rule: Listen_cases [OF l]) auto
    have t: "0 < shutdownTimeoutOrDefault d" for d by (simp add: shutdownTimeoutOrDefault_def DefaultShutdownTimeout_def second_def)
    obtain r2 m2 where h: "bind_health sys opts p m1 = (r2, m2)" by fastforce
    from h show thesis
    proof (cases rule: bind_health_cases)
      case (1 e)
      then show thesis using socket h b by (intro failed [of e]) (auto simp: close_socket_def)
    next
      case 2
      obtain r3 m3 where k: "bind_metrics sys opts p None m2 = (r3, m3)" by fastforce
      from k show thesis
        by (cases rule: bind_metrics_cases)
          (use socket h b 2 k t l in \<open>auto simp: close_socket_def close_tcp_def tcp_of_def intro: failed bound\<close>)
    next
      case 3
      obtain r3 m3 where k: "bind_metrics sys opts p (Some (ro_HealthAddress opts)) m2 = (r3, m3)" by fastforce
      from k show thesis
        by (cases rule: bind_metrics_cases)
          (use socket h b 3 k t l in \<open>auto simp: close_socket_def close_tcp_def tcp_of_def intro: failed bound\<close>)
    qed
  qed
qed

section \<open>The socket of a configuration\<close>

text \<open>The options that \<open>buildRuntime\<close> gives to \<open>New\<close>.\<close>

definition listener_options :: "Config \<Rightarrow> nat \<Rightarrow> int \<Rightarrow> runtime_Options" where
  "listener_options cfg mode gid =
     \<lparr>ro_Socket = \<lparr>sk_Path = sv_SocketPath (cf_Server cfg), sk_Mode = word_of_nat mode, sk_GID = gid, sk_DialTimeout = 0\<rparr>,
      ro_HasGRPCServer = True, ro_HasReadiness = True, ro_HealthAddress = sv_HealthAddress (cf_Server cfg),
      ro_HasMetricsHandler = True, ro_MetricsAddress = sv_MetricsAddress (cf_Server cfg), ro_ShutdownTimeout = 0\<rparr>"

text \<open>\<open>buildRuntime\<close>: the parts of the provider, and last its listeners.\<close>

definition bind_runtime :: "system \<Rightarrow> Config \<Rightarrow> ('c, 'w) provider \<Rightarrow> machine \<Rightarrow> Runtime res \<times> machine" where
  "bind_runtime sys cfg p m = Runtime_New sys (listener_options cfg (pv_socketMode p) (pv_gid p)) m"

definition buildRuntime ::
  "system \<Rightarrow> 'c host \<Rightarrow> status_env \<Rightarrow> (Controller \<Rightarrow> (unit res \<times> Controller) option) \<Rightarrow> (Controller \<Rightarrow> 'c client_parts \<Rightarrow> 'w Deps)
    \<Rightarrow> string \<Rightarrow> Config \<Rightarrow> Disk \<Rightarrow> machine \<Rightarrow> ((('c, 'w) provider \<times> Runtime) res \<times> machine) option" where
  "buildRuntime sys h env bootstrap dependencies version cfg d m =
    (case build_parts h env bootstrap dependencies version cfg d of
       None \<Rightarrow> None
     | Some (Inl err) \<Rightarrow> Some (Inl err, m)
     | Some (Inr p) \<Rightarrow>
        Some (case bind_runtime sys cfg p m of
                (Inl err, m) \<Rightarrow> (Inl err, m)
              | (Inr rt, m) \<Rightarrow> (Inr (p, rt), m)))"

lemma word_of_nat_and: "(word_of_nat (m AND n) :: 32 word) = word_of_nat m AND word_of_nat n"
  by (rule bit_word_eqI) (simp add: bit_and_iff bit_of_nat_iff)

lemma word_of_nat_perm:
  assumes "m \<le> 511"
  shows "(word_of_nat m :: 32 word) AND NOT ModePerm = 0"
proof (rule bit_word_eqI)
  fix n
  assume "n < LENGTH(32)"
  have mask: "ModePerm = mask 9" by (simp add: ModePerm_def mask_eq_exp_minus_1)
  have "n < 9" if "bit m n"
  proof (rule ccontr)
    assume "\<not> n < 9"
    then have "(2::nat) ^ 9 \<le> 2 ^ n" by (intro power_increasing) simp_all
    moreover have "m < 2 ^ 9" using assms by simp
    ultimately have "m < 2 ^ n" by linarith
    with that show False by (simp add: bit_iff_odd)
  qed
  then show "bit ((word_of_nat m :: 32 word) AND NOT ModePerm) n = bit 0 n"
    by (auto simp: mask bit_and_iff bit_not_iff bit_mask_iff bit_of_nat_iff)
qed

lemma ParseSocketMode_bound: "ParseSocketMode v = Inr mode \<Longrightarrow> mode \<le> 511"
  by (auto simp: ParseSocketMode_def split: option.splits if_splits)

text \<open>Where \<open>Validate\<close> accepts a socket path and mode, the listener accepts them, except for the mode 0.\<close>

lemma validated_socket_options:
  assumes "validateSocketPolicy text_of cfg opts = []" "ParseSocketMode (sv_SocketMode (cf_Server cfg)) = Inr mode"
  shows "socket_validateOptions (ro_Socket (listener_options cfg mode gid)) = Inr () \<longleftrightarrow> mode \<noteq> 0"
proof -
  have abs: "IsAbs (sv_SocketPath (cf_Server cfg))" and bits: "mode AND 79 = 0"
    using assms by (auto simp: validateSocketPolicy_def Let_def socketDisallowedMode_def)
  have "(word_of_nat mode :: 32 word) AND disallowedMode = word_of_nat (mode AND 79)"
    by (simp add: word_of_nat_and disallowedMode_def)
  then have dis: "(word_of_nat mode :: 32 word) AND disallowedMode = 0" by (simp add: bits)
  have bound: "mode \<le> 511" using ParseSocketMode_bound [OF assms(2)] .
  then have "(word_of_nat mode :: 32 word) = 0 \<longleftrightarrow> mode = 0"
    by (simp add: word_of_nat_eq_0_iff dvd_imp_le nat_dvd_not_less) (use bound in \<open>auto dest: dvd_imp_le\<close>)
  then show ?thesis using abs dis word_of_nat_perm [OF bound] by (simp add: listener_options_def)
qed

section \<open>Main results\<close>

definition ex_directory :: node where
  "ex_directory = \<lparr>nd_kind = Directory, nd_perm = 0x1C0, nd_uid = Some 0, nd_gid = 0, nd_live = False\<rparr>"

definition ex_stale :: node where
  "ex_stale = \<lparr>nd_kind = Socket, nd_perm = 0x1B0, nd_uid = Some 0, nd_gid = 0, nd_live = False\<rparr>"

definition ex_machine :: machine where
  "ex_machine = \<lparr>mx_files = [''/r'' \<mapsto> ex_directory, ''/r/k'' \<mapsto> ex_stale], mx_tcp = [], mx_reclaimed = 0\<rparr>"

definition ex_system :: system where
  "ex_system = \<lparr>sy_euid = 0, sy_lstat_fails = (\<lambda>_. False), sy_dial = (\<lambda>_ _. Some (Sentinel (Process ECONNREFUSED))), sy_remove = None,
     sy_listen = None, sy_chmod = None, sy_chown = None, sy_socket_perm = 0x1C0, sy_socket_gid = 7, sy_listen_tcp = (\<lambda>_ _. None)\<rparr>"

definition ex_socket_options :: socket_Options where
  "ex_socket_options = \<lparr>sk_Path = ''/r/k'', sk_Mode = 0x1B0, sk_GID = 5, sk_DialTimeout = 0\<rparr>"

lemma ex_Listen: "\<exists>m'. Listen ex_system ex_socket_options ex_machine = (Inr ''/r/k'', m')"
proof -
  have dir: "filepath_Dir ''/r/k'' = ''/r''" by (simp add: filepath_Dir_def path_Clean_def clean_step_def HasPrefix_def)
  have "validateParent ex_system ex_machine ''/r/k'' = Inr ()"
    by (simp add: validateParent_Inr dir ex_system_def ex_machine_def ex_directory_def private_directory_def ModePerm_def)
  moreover have "socket_validateOptions ex_socket_options = Inr ()"
    by (simp add: ex_socket_options_def IsAbs_def HasPrefix_def ModePerm_def disallowedMode_def)
  moreover have path: "sk_Path ex_socket_options = ''/r/k''" by (simp add: ex_socket_options_def)
  moreover have "\<exists>m1. prepareTarget ex_system ex_socket_options ex_machine = (Inr (), m1) \<and> mx_files m1 ''/r/k'' = None"
    by (simp add: path prepareTarget_def os_Lstat_def probeSocket_def classifyDialErr_def ex_system_def ex_machine_def ex_stale_def)
  then obtain m1 where "prepareTarget ex_system ex_socket_options ex_machine = (Inr (), m1)" "mx_files m1 ''/r/k'' = None" by blast
  moreover from this obtain m2 where "net_Listen_unix ex_system ''/r/k'' m1 = (Inr (), m2)"
    by (simp add: net_Listen_unix_def ex_system_def)
  moreover obtain m3 where "secure_socket ex_system ex_socket_options m2 = (Inr ''/r/k'', m3)"
    by (simp add: secure_socket_def ex_system_def ex_socket_options_def)
  ultimately show ?thesis by (simp add: Listen_def del: socket_validateOptions_Inr)
qed

lemma failed_bind_leaves_nothing:
  assumes "fst (Listen sys opts m) = Inl e"
  shows "mx_files (snd (Listen sys opts m)) \<subseteq>\<^sub>m mx_files m"
proof -
  obtain r m' where l: "Listen sys opts m = (r, m')" by fastforce
  then show ?thesis by (cases rule: Listen_cases [OF l]) (use assms in \<open>auto simp: map_le_def split: if_splits\<close>)
qed

lemma failed_runtime_leaves_nothing:
  assumes "fst (Runtime_New sys ro m) = Inl e"
  shows "mx_files (snd (Runtime_New sys ro m)) \<subseteq>\<^sub>m mx_files m" "mx_tcp (snd (Runtime_New sys ro m)) = mx_tcp m"
proof -
  obtain m' where l: "Runtime_New sys ro m = (Inl e, m')" using assms by (cases "Runtime_New sys ro m") auto
  then have "mx_tcp m' = mx_tcp m" "mx_files m' = mx_files m \<or> mx_files m' = (mx_files m)(sk_Path (ro_Socket ro) := None)"
    by (rule Runtime_New_cases; blast)+
  then show "mx_files (snd (Runtime_New sys ro m)) \<subseteq>\<^sub>m mx_files m" "mx_tcp (snd (Runtime_New sys ro m)) = mx_tcp m"
    by (auto simp: l map_le_def split: if_splits)
qed

text \<open>
  C27 The provider never takes a socket over from a live peer and never removes a file that is not a dead socket: whatever \<open>Listen\<close> meets and
  however it ends, every path other than its own keeps its file, and when its own path holds anything but a socket that no process
  listens on, it fails and changes nothing. And a bind that fails leaves nothing of its own: after a \<open>Listen\<close> that returns an error, and after a
  \<open>New\<close> that does (where the health or metrics listener cannot be bound, the socket has been bound before), every file on the host was there
  before, and no TCP address is bound that was not.
\<close>

theorem live_peers_untouched:
  assumes "refusals_are_honest sys m"
  shows "(\<forall>p n. mx_files m p = Some n \<and> (p \<noteq> sk_Path opts \<or> nd_kind n \<noteq> Socket \<or> nd_live n) \<longrightarrow>
        mx_files (snd (Listen sys opts m)) p = Some n
      \<and> (p = sk_Path opts \<longrightarrow> (\<exists>e. fst (Listen sys opts m) = Inl e) \<and> mx_files (snd (Listen sys opts m)) = mx_files m))
    \<and> (fst (Listen sys opts m) = Inl e1 \<longrightarrow> mx_files (snd (Listen sys opts m)) \<subseteq>\<^sub>m mx_files m)
    \<and> (fst (Runtime_New sys ro m) = Inl e2 \<longrightarrow>
        mx_files (snd (Runtime_New sys ro m)) \<subseteq>\<^sub>m mx_files m \<and> mx_tcp (snd (Runtime_New sys ro m)) = mx_tcp m)"
proof -
  obtain r m' where l: "Listen sys opts m = (r, m')" by fastforce
  have "mx_files (snd (Listen sys opts m)) p = Some n
      \<and> (p = sk_Path opts \<longrightarrow> (\<exists>e. fst (Listen sys opts m) = Inl e) \<and> mx_files (snd (Listen sys opts m)) = mx_files m)"
    if "mx_files m p = Some n" "p \<noteq> sk_Path opts \<or> nd_kind n \<noteq> Socket \<or> nd_live n" for p n
  proof -
    have "\<not> orphaned sys opts n" if "p = sk_Path opts"
      using assms live_not_orphaned that \<open>mx_files m p = Some n\<close> \<open>p \<noteq> sk_Path opts \<or> _\<close> by (auto simp: orphaned_def)
    with l Listen_files(2,3) [OF l] that(1) show ?thesis by (cases "p = sk_Path opts") auto
  qed
  then show ?thesis using failed_bind_leaves_nothing failed_runtime_leaves_nothing by blast
qed

theorem live_peers_untouched_witness:
  "\<exists>e. refusals_are_honest (ex_system\<lparr>sy_dial := (\<lambda>_ _. None)\<rparr>) (ex_machine\<lparr>mx_files := [''/r/k'' \<mapsto> ex_stale\<lparr>nd_live := True\<rparr>]\<rparr>)
    \<and> fst (Listen (ex_system\<lparr>sy_dial := (\<lambda>_ _. None)\<rparr>) ex_socket_options (ex_machine\<lparr>mx_files := [''/r/k'' \<mapsto> ex_stale\<lparr>nd_live := True\<rparr>]\<rparr>)) = Inl e"
proof -
  let ?sys = "ex_system\<lparr>sy_dial := (\<lambda>_ _. None)\<rparr>" and ?m = "ex_machine\<lparr>mx_files := [''/r/k'' \<mapsto> ex_stale\<lparr>nd_live := True\<rparr>]\<rparr>"
  have h: "refusals_are_honest ?sys ?m" by (simp add: refusals_are_honest_def)
  have "mx_files ?m ''/r/k'' = Some (ex_stale\<lparr>nd_live := True\<rparr>)" "sk_Path ex_socket_options = ''/r/k''" "nd_live (ex_stale\<lparr>nd_live := True\<rparr>)"
    by (simp_all add: ex_socket_options_def)
  with conjunct1 [OF live_peers_untouched [OF h, of ex_socket_options], rule_format, of "''/r/k''" "ex_stale\<lparr>nd_live := True\<rparr>"] h
  show ?thesis by auto
qed

text \<open>
  A socket that \<open>Listen\<close> returns is private: it is a live socket of this process with exactly the configured mode, which has no world
  access and no execute bit, and the configured group; its directory is a real directory of the same user that nobody else may write to; and what the
  path held before, if anything, was a socket whose connections were refused.
\<close>

lemma bound_socket_private:
  assumes "Listen sys opts m = (Inr path, m')"
  shows "path = sk_Path opts \<and> IsAbs path
    \<and> (\<exists>n. mx_files m' path = Some n \<and> nd_kind n = Socket \<and> nd_live n \<and> nd_uid n = Some (sy_euid sys)
          \<and> nd_perm n = sk_Mode opts \<and> nd_perm n AND 0x4F = 0 \<and> nd_perm n \<noteq> 0 \<and> (0 \<le> sk_GID opts \<longrightarrow> nd_gid n = sk_GID opts))
    \<and> (\<exists>d. mx_files m (filepath_Dir path) = Some d \<and> private_directory sys d)
    \<and> (\<forall>n. mx_files m path = Some n \<longrightarrow> orphaned sys opts n)"
  by (cases rule: Listen_cases [OF assms]) (auto simp: validateParent_Inr disallowedMode_def)

text \<open>A configuration that \<open>Validate\<close> accepts and whose socket cannot be bound.\<close>

definition ex_zero_mode :: Config where
  "ex_zero_mode = ex_config\<lparr>cf_Server := (cf_Server ex_config)\<lparr>sv_SocketMode := ''0''\<rparr>\<rparr>"

lemma zero_mode_accepted_then_refused:
  "validateSocketPolicy text_of ex_zero_mode ex_validation = []" "ParseSocketMode (sv_SocketMode (cf_Server ex_zero_mode)) = Inr 0"
  "\<exists>e. fst (Runtime_New sys (listener_options ex_zero_mode 0 gid) m) = Inl e"
proof -
  show pol: "validateSocketPolicy text_of ex_zero_mode ex_validation = []"
    by (simp add: validateSocketPolicy_def ex_zero_mode_def ex_config_def ex_validation_def IsAbs_def HasPrefix_def ParseSocketMode_def parse_octal_def
        is_digit_def digit_val_def socketDisallowedMode_def pathWithinAllowedDirs_def filepath_Dir_def path_Clean_def clean_step_def
        socketParentDirs_def Let_def)
  show mode: "ParseSocketMode (sv_SocketMode (cf_Server ex_zero_mode)) = Inr 0"
    by (simp add: ex_zero_mode_def ex_config_def ParseSocketMode_def parse_octal_def is_digit_def digit_val_def)
  obtain r m' where n: "Runtime_New sys (listener_options ex_zero_mode 0 gid) m = (r, m')" by fastforce
  have "socket_validateOptions (ro_Socket (listener_options ex_zero_mode 0 gid)) \<noteq> Inr ()"
    using validated_socket_options [OF pol mode] by simp
  then have "fst (Listen sys (ro_Socket (listener_options ex_zero_mode 0 gid)) m) \<noteq> Inr p" for p
    by (auto simp: Listen_def bindE_def split: sum.split)
  then show "\<exists>e. fst (Runtime_New sys (listener_options ex_zero_mode 0 gid) m) = Inl e"
    by (cases rule: Runtime_New_cases [OF n]) (use n in auto)
qed

text \<open>The host lets a configuration listen: its socket directory is private, its path is free or an orphan, and no call fails.\<close>

definition host_permits :: "system \<Rightarrow> Config \<Rightarrow> machine \<Rightarrow> bool" where
  "host_permits sys cfg m \<longleftrightarrow>
    (let p = sv_SocketPath (cf_Server cfg); health = sv_HealthAddress (cf_Server cfg) in
     \<not> sy_lstat_fails sys (filepath_Dir p) \<and> (\<exists>d. mx_files m (filepath_Dir p) = Some d \<and> private_directory sys d) \<and> \<not> sy_lstat_fails sys p
     \<and> (\<forall>n. mx_files m p = Some n \<longrightarrow> nd_kind n = Socket \<and> probeSocket sys p 0 = probeDead \<and> sy_remove sys = None)
     \<and> sy_listen sys = None \<and> sy_chmod sys = None \<and> sy_chown sys = None
     \<and> sy_listen_tcp sys (mx_tcp m) health = None
     \<and> sy_listen_tcp sys (if health = [] then mx_tcp m else health # mx_tcp m) (sv_MetricsAddress (cf_Server cfg)) = None)"

lemma Listen_succeeds:
  assumes "socket_validateOptions opts = Inr ()" "validateParent sys m (sk_Path opts) = Inr ()" "\<not> sy_lstat_fails sys (sk_Path opts)"
    and "\<forall>n. mx_files m (sk_Path opts) = Some n \<longrightarrow> orphaned sys opts n \<and> sy_remove sys = None"
    and "sy_listen sys = None" "sy_chmod sys = None" "sy_chown sys = None"
  shows "\<exists>m'. Listen sys opts m = (Inr (sk_Path opts), m') \<and> mx_tcp m' = mx_tcp m"
proof -
  obtain m1 where "prepareTarget sys opts m = (Inr (), m1)" "mx_files m1 (sk_Path opts) = None" "mx_tcp m1 = mx_tcp m"
  proof (cases "mx_files m (sk_Path opts)")
    case None
    with assms(3) show ?thesis by (intro that [of m]) (simp_all add: prepareTarget_def os_Lstat_def)
  next
    case (Some n)
    with assms(3,4) show ?thesis
      by (intro that [of "m\<lparr>mx_files := (mx_files m)(sk_Path opts := None), mx_reclaimed := mx_reclaimed m + 1\<rparr>"])
        (simp_all add: prepareTarget_def os_Lstat_def orphaned_def)
  qed
  then show ?thesis
    using assms by (simp add: Listen_def net_Listen_unix_def secure_socket_def update_node_def Let_def del: socket_validateOptions_Inr)
qed

lemma bind_runtime_succeeds:
  assumes "validateSocketPolicy text_of cfg opts = []" "ParseSocketMode (sv_SocketMode (cf_Server cfg)) = Inr (pv_socketMode p)"
    and "pv_socketMode p \<noteq> 0" "host_permits sys cfg m"
  shows "\<exists>rt m'. bind_runtime sys cfg p m = (Inr rt, m') \<and> ru_socketListener rt = sv_SocketPath (cf_Server cfg)
    \<and> (\<exists>n. mx_files m' (sv_SocketPath (cf_Server cfg)) = Some n \<and> nd_kind n = Socket \<and> nd_live n
          \<and> nd_perm n = word_of_nat (pv_socketMode p) \<and> (0 \<le> pv_gid p \<longrightarrow> nd_gid n = pv_gid p))"
proof -
  let ?ro = "listener_options cfg (pv_socketMode p) (pv_gid p)"
  have sk: "sk_Path (ro_Socket ?ro) = sv_SocketPath (cf_Server cfg)" "sk_DialTimeout (ro_Socket ?ro) = 0" by (simp_all add: listener_options_def)
  have "socket_validateOptions (ro_Socket ?ro) = Inr ()" using validated_socket_options [OF assms(1,2)] assms(3) by simp
  moreover have "validateParent sys m (sk_Path (ro_Socket ?ro)) = Inr ()"
    using assms(4) by (simp add: validateParent_Inr sk host_permits_def Let_def)
  ultimately have "\<exists>m1. Listen sys (ro_Socket ?ro) m = (Inr (sk_Path (ro_Socket ?ro)), m1) \<and> mx_tcp m1 = mx_tcp m"
    by (rule Listen_succeeds) (use assms(4) in \<open>auto simp: sk host_permits_def orphaned_def Let_def\<close>)
  then obtain m1 where l: "Listen sys (ro_Socket ?ro) m = (Inr (sk_Path (ro_Socket ?ro)), m1)" and tcp: "mx_tcp m1 = mx_tcp m" by blast
  have "\<exists>rt m'. Runtime_New sys ?ro m = (Inr rt, m')"
    using assms(4) unfolding Runtime_New_def l
    by (auto simp: listener_options_def bind_health_def bind_metrics_def buildHTTPServer_def NewHandler_def failIf_def host_permits_def Let_def tcp)
  then obtain rt m' where new: "Runtime_New sys ?ro m = (Inr rt, m')" by blast
  then obtain m2 where r: "Listen sys (ro_Socket ?ro) m = (Inr (sk_Path (ro_Socket ?ro)), m2)" "mx_files m' = mx_files m2"
    "ru_socketListener rt = sk_Path (ro_Socket ?ro)" by (rule Runtime_New_cases) auto
  from r(1) obtain k where "mx_files m2 (sk_Path (ro_Socket ?ro)) = Some k" "nd_kind k = Socket" "nd_live k" "nd_perm k = sk_Mode (ro_Socket ?ro)"
      "0 \<le> sk_GID (ro_Socket ?ro) \<longrightarrow> nd_gid k = sk_GID (ro_Socket ?ro)"
    by (rule Listen_cases) auto
  with r(2,3) new show ?thesis unfolding bind_runtime_def by (auto simp: listener_options_def)
qed

text \<open>
  C25 A configuration that \<open>Validate\<close> accepts, with a socket mode other than 0, is one the provider starts with: given readable CA bundles, a known
  socket group, the certificate provider of the build where the method needs it, no persisted state and a host that lets it
  listen, every constructor of \<open>buildRuntime\<close> accepts what it is given (the address, TLS, login source, token manager, key scope, rotation
  policy, status cache, scheduler, request limits, socket and listeners). The outcome is the outcome of the bootstrap
  probes: a provider that has the controller they leave and a live socket of the configured mode and group at the configured path,
  or their error. Mode 0 passes \<open>Validate\<close>, and then the listener refuses it.
\<close>

theorem validated_config_starts:
  assumes "Validate net spiffe text_of lstat cfg opts = []" and "h_url_parse h = gn_url_parse net"
    and "trusted_ca h (bo_CACertFile (cf_OpenBao cfg))"
    and "o2_CACertFile (jc_OAuth2 (au_JWT (cf_Auth cfg))) = [] \<or> trusted_ca h (o2_CACertFile (jc_OAuth2 (au_JWT (cf_Auth cfg))))"
    and "lookupGroupID (h_lookup_group h) (sv_SocketGroup (cf_Server cfg)) = Inr gid"
    and "au_Method (cf_Auth cfg) = AuthMethodCert \<longrightarrow> (\<exists>provider. h_certificate_provider h = Some provider \<and> provider cfg = Inr ())"
    and "fst (Load (cf_State_Path cfg) (se_store env) d) = Inl err" and "errors_is err ErrStateNotFound" and "version \<noteq> []"
    and "ParseSocketMode (sv_SocketMode (cf_Server cfg)) \<noteq> Inr 0" and "host_permits sys cfg m"
  shows "\<exists>controller mode. ParseSocketMode (sv_SocketMode (cf_Server cfg)) = Inr mode \<and> (\<forall>bootstrap.
    (case bootstrap controller of
       None \<Rightarrow> buildRuntime sys h env bootstrap dependencies version cfg d m = None
     | Some (Inl e, _) \<Rightarrow> buildRuntime sys h env bootstrap dependencies version cfg d m = Some (Inl (Wrap ''initialize status cache'' [e]), m)
     | Some (Inr _, controller') \<Rightarrow> \<exists>p rt m' n. buildRuntime sys h env bootstrap dependencies version cfg d m = Some (Inr (p, rt), m')
         \<and> pv_controller p = controller' \<and> ru_socketListener rt = sv_SocketPath (cf_Server cfg)
         \<and> mx_files m' (sv_SocketPath (cf_Server cfg)) = Some n \<and> nd_kind n = Socket \<and> nd_live n
         \<and> nd_perm n = word_of_nat mode \<and> (0 \<le> gid \<longrightarrow> nd_gid n = gid)))"
proof -
  have pol: "validateSocketPolicy text_of cfg opts = []" using assms(1) by (simp add: Validate_Nil)
  then obtain mode where mode: "ParseSocketMode (sv_SocketMode (cf_Server cfg)) = Inr mode"
    by (auto simp: validateSocketPolicy_def Let_def split: sum.splits)
  have "mode \<noteq> 0" using mode assms(10) by auto
  obtain controller where parts: "\<forall>bootstrap. (case bootstrap controller of
       None \<Rightarrow> build_parts h env bootstrap dependencies version cfg d = None
     | Some (Inl e, _) \<Rightarrow> build_parts h env bootstrap dependencies version cfg d = Some (Inl (Wrap ''initialize status cache'' [e]))
     | Some (Inr _, controller') \<Rightarrow> \<exists>p. build_parts h env bootstrap dependencies version cfg d = Some (Inr p) \<and> pv_gid p = gid
         \<and> pv_controller p = controller' \<and> ParseSocketMode (sv_SocketMode (cf_Server cfg)) = Inr (pv_socketMode p)
         \<and> pv_socketMode p AND socketDisallowedMode = 0)"
    using validated_parts_build [OF assms(1-9), of dependencies] by blast
  have "case bootstrap controller of
       None \<Rightarrow> buildRuntime sys h env bootstrap dependencies version cfg d m = None
     | Some (Inl e, _) \<Rightarrow> buildRuntime sys h env bootstrap dependencies version cfg d m = Some (Inl (Wrap ''initialize status cache'' [e]), m)
     | Some (Inr _, controller') \<Rightarrow> \<exists>p rt m' n. buildRuntime sys h env bootstrap dependencies version cfg d m = Some (Inr (p, rt), m')
         \<and> pv_controller p = controller' \<and> ru_socketListener rt = sv_SocketPath (cf_Server cfg)
         \<and> mx_files m' (sv_SocketPath (cf_Server cfg)) = Some n \<and> nd_kind n = Socket \<and> nd_live n
         \<and> nd_perm n = word_of_nat mode \<and> (0 \<le> gid \<longrightarrow> nd_gid n = gid)" for bootstrap
  proof (cases "bootstrap controller")
    case None
    with parts [rule_format, of bootstrap] show ?thesis by (simp add: buildRuntime_def)
  next
    case (Some out)
    obtain res c1 where out: "out = (res, c1)" by fastforce
    show ?thesis
    proof (cases res)
      case (Inl e)
      with Some out parts [rule_format, of bootstrap] show ?thesis by (simp add: buildRuntime_def)
    next
      case (Inr u)
      with Some out parts [rule_format, of bootstrap] obtain p where p: "build_parts h env bootstrap dependencies version cfg d = Some (Inr p)"
        "pv_gid p = gid" "pv_controller p = c1" "ParseSocketMode (sv_SocketMode (cf_Server cfg)) = Inr (pv_socketMode p)" by auto
      with mode \<open>mode \<noteq> 0\<close> have "pv_socketMode p = mode" "pv_socketMode p \<noteq> 0" by simp_all
      with bind_runtime_succeeds [OF pol p(4) _ assms(11)] p show ?thesis by (auto simp: buildRuntime_def Some out Inr)
    qed
  qed
  with mode show ?thesis by blast
qed

theorem validated_config_starts_witness:
  "Validate ex_net False (\<lambda>_. []) (\<lambda>_. NotExist) ex_config ex_validation = []
   \<and> (\<forall>dependencies :: Controller \<Rightarrow> nat client_parts \<Rightarrow> nat Deps. \<exists>controller. \<forall>c. \<exists>p rt m'.
       buildRuntime ex_system ex_host ex_status_env (\<lambda>x. if x = controller then Some (Inr (), c) else None) dependencies ''v1'' ex_config ex_empty_disk
         ex_machine = Some (Inr (p, rt), m') \<and> pv_controller p = c \<and> ru_socketListener rt = ''/r/k'')"
proof -
  have v: "Validate ex_net False (\<lambda>_. []) (\<lambda>_. NotExist) ex_config ex_validation = []"
    using ex_required ex_values ex_socket by (simp add: Validate_Nil ex_validation_def)
  have ca: "trusted_ca ex_host f" for f by (simp add: trusted_ca_def ex_host_def)
  have gid: "lookupGroupID (h_lookup_group ex_host) (sv_SocketGroup (cf_Server ex_config)) = Inr 0"
  proof -
    have "\<not> list_ex (\<lambda>(r, _). r < 48 \<or> 57 < r) (runes ''0'')" "parse_digits ''0'' = Some 0" by code_simp+
    then show ?thesis by (simp add: lookupGroupID_def ex_config_def parseNumericGroupID_def)
  qed
  have parse: "h_url_parse ex_host = gn_url_parse ex_net" by (simp add: ex_host_def ex_net_def)
  have jwt: "au_Method (cf_Auth ex_config) \<noteq> AuthMethodCert" by (simp add: ex_config_def AuthMethodCert_def)
  have load: "fst (Load (cf_State_Path ex_config) (se_store ex_status_env) ex_empty_disk) = Inl (Sentinel ErrStateNotFound)"
    by (simp add: ex_config_def ex_status_env_def ex_empty_disk_def Load_def LoadStateCheckpoint_def LoadStateFile_def)
  have mode: "ParseSocketMode (sv_SocketMode (cf_Server ex_config)) = Inr 432"
    by (simp add: ex_config_def ParseSocketMode_def parse_octal_def is_digit_def digit_val_def)
  have permits: "host_permits ex_system ex_config ex_machine"
  proof -
    have "filepath_Dir ''/r/k'' = ''/r''" by (simp add: filepath_Dir_def path_Clean_def clean_step_def HasPrefix_def)
    then show ?thesis
      by (simp add: host_permits_def ex_config_def ex_system_def ex_machine_def ex_directory_def ex_stale_def private_directory_def ModePerm_def
          probeSocket_def classifyDialErr_def)
  qed
  show ?thesis
  proof (intro conjI allI v)
    fix dependencies :: "Controller \<Rightarrow> nat client_parts \<Rightarrow> nat Deps"
    have "ParseSocketMode (sv_SocketMode (cf_Server ex_config)) \<noteq> Inr 0" by (simp add: mode)
    from validated_config_starts [OF v parse ca _ gid _ load _ _ this permits, of "''v1''" dependencies] ca jwt
    obtain controller where start: "\<forall>bootstrap. (case bootstrap controller of
        None \<Rightarrow> buildRuntime ex_system ex_host ex_status_env bootstrap dependencies ''v1'' ex_config ex_empty_disk ex_machine = None
      | Some (Inl e, _) \<Rightarrow> buildRuntime ex_system ex_host ex_status_env bootstrap dependencies ''v1'' ex_config ex_empty_disk ex_machine
          = Some (Inl (Wrap ''initialize status cache'' [e]), ex_machine)
      | Some (Inr _, controller') \<Rightarrow> \<exists>p rt m' n. buildRuntime ex_system ex_host ex_status_env bootstrap dependencies ''v1'' ex_config ex_empty_disk
            ex_machine = Some (Inr (p, rt), m')
          \<and> pv_controller p = controller' \<and> ru_socketListener rt = sv_SocketPath (cf_Server ex_config)
          \<and> mx_files m' (sv_SocketPath (cf_Server ex_config)) = Some n \<and> nd_kind n = Socket \<and> nd_live n
          \<and> nd_perm n = word_of_nat 432 \<and> (0 \<le> (0::int) \<longrightarrow> nd_gid n = 0))" by (auto simp: mode)
    have path: "sv_SocketPath (cf_Server ex_config) = ''/r/k''" by (simp add: ex_config_def)
    show "\<exists>controller. \<forall>c. \<exists>p rt m'.
       buildRuntime ex_system ex_host ex_status_env (\<lambda>x. if x = controller then Some (Inr (), c) else None) dependencies ''v1'' ex_config ex_empty_disk
         ex_machine = Some (Inr (p, rt), m') \<and> pv_controller p = c \<and> ru_socketListener rt = ''/r/k''"
    proof (intro exI [of _ controller] allI)
      fix c
      from start [rule_format, of "\<lambda>x. if x = controller then Some (Inr (), c) else None"]
      show "\<exists>p rt m'. buildRuntime ex_system ex_host ex_status_env (\<lambda>x. if x = controller then Some (Inr (), c) else None) dependencies ''v1''
          ex_config ex_empty_disk ex_machine = Some (Inr (p, rt), m') \<and> pv_controller p = c \<and> ru_socketListener rt = ''/r/k''"
        unfolding path by auto
    qed
  qed
qed

end
