(* ===== verification/Process_Run.thy ===== *)
theory Process_Run
  imports Socket_Listener "HOL-Library.Sublist"
begin

text \<open>
  The running process (\<^verbatim>\<open>internal/runtime/runtime.go\<close>, \<open>Run\<close> and \<open>shutdown\<close>; \<^verbatim>\<open>cmd/bao-kms-provider/serve.go\<close>,
  \<open>runServe\<close>): the servers and the scheduler are goroutines, so the process is a step relation. What the step relation takes from
  the libraries is documented there: \<open>Serve\<close> closes its listener when it returns, and an error group keeps the first error and cancels its context.
\<close>

section \<open>Servers\<close>

datatype server = GrpcServer | HealthServer | MetricsServer

definition serveGRPC :: "go_error option \<Rightarrow> go_error option" where
  "serveGRPC err = (case err of Some e \<Rightarrow> if errors_is e (Process Grpc_ErrServerStopped) then None else Some e | None \<Rightarrow> None)"

definition serveHealth :: "go_error option \<Rightarrow> go_error option" where
  "serveHealth err = (case err of Some e \<Rightarrow> if errors_is e (Process Http_ErrServerClosed) then None else Some e | None \<Rightarrow> None)"

definition serveMetrics :: "go_error option \<Rightarrow> go_error option" where
  "serveMetrics err = (case err of Some e \<Rightarrow> if errors_is e (Process Http_ErrServerClosed) then None else Some e | None \<Rightarrow> None)"

text \<open>The error a server's goroutine returns to the group, from what \<open>Serve\<close> returned to it.\<close>

fun group_error :: "server \<Rightarrow> go_error option \<Rightarrow> go_error option" where
  "group_error GrpcServer err = map_option (\<lambda>e. Wrap ''grpc server'' [e]) (serveGRPC err)"
| "group_error HealthServer err = map_option (\<lambda>e. Wrap ''health server'' [e]) (serveHealth err)"
| "group_error MetricsServer err = map_option (\<lambda>e. Wrap ''metrics server'' [e]) (serveMetrics err)"

definition servers :: "Runtime \<Rightarrow> server list" where
  "servers r = [GrpcServer] @ (if ru_healthListener r \<noteq> None then [HealthServer] else [])
     @ (if ru_metricsListener r \<noteq> None then [MetricsServer] else [])"

fun close_listener :: "Runtime \<Rightarrow> server \<Rightarrow> machine \<Rightarrow> machine" where
  "close_listener r GrpcServer m = close_socket (ru_socketListener r) m"
| "close_listener r HealthServer m = close_tcp (ru_healthListener r) m"
| "close_listener r MetricsServer m = close_tcp (ru_metricsListener r) m"

section \<open>The process\<close>

text \<open>
  \<open>ps_interrupted\<close> is the end of the signal context of \<open>Run\<close>, \<open>ps_parent\<close> of the context given to \<open>runServe\<close>, and \<open>ps_cancelled\<close> says that
  one of the deferred calls of \<open>cancel\<close> has been made. \<open>ps_told\<close> are the servers that \<open>shutdown\<close> has told to stop so far, in its order,
  \<open>ps_waiting\<close> the one it waits for, \<open>ps_timedOut\<close> that the deadline of the shutdown has passed and \<open>ps_forced\<close> that \<open>Stop\<close> has cut the connections of
  the gRPC server. \<open>ps_runErr\<close> and \<open>ps_serveErr\<close> are the first errors of the two groups.
\<close>

record process =
  ps_machine :: machine
  ps_serving :: "server list"
  ps_exited :: bool
  ps_interrupted :: bool
  ps_shutdown :: bool
  ps_told :: "server list"
  ps_waiting :: "server option"
  ps_timedOut :: bool
  ps_forced :: bool
  ps_runErr :: "go_error option"
  ps_live :: runtimeLiveness
  ps_runReturned :: bool
  ps_scheduling :: bool
  ps_parent :: bool
  ps_cancelled :: bool
  ps_serveErr :: "go_error option"
  ps_returned :: bool

definition first_error :: "go_error option \<Rightarrow> go_error option \<Rightarrow> go_error option" where
  "first_error old new = (case old of None \<Rightarrow> new | Some _ \<Rightarrow> old)"

text \<open>\<open>runServe\<close> has started both goroutines, and \<open>Run\<close> its servers. A second \<open>Run\<close> is refused.\<close>

definition process_start :: "Runtime \<Rightarrow> machine \<Rightarrow> process res" where
  "process_start r m =
    (if ru_running r then Inl (procw Runtime_ErrInvalidConfig ''Run already invoked'')
     else Inr \<lparr>ps_machine = m, ps_serving = servers r, ps_exited = False, ps_interrupted = False, ps_shutdown = False, ps_told = [],
       ps_waiting = None, ps_timedOut = False, ps_forced = False, ps_runErr = None, ps_live = markStarted (ru_live r), ps_runReturned = False,
       ps_scheduling = True, ps_parent = False, ps_cancelled = False, ps_serveErr = None, ps_returned = False\<rparr>)"

text \<open>
  The context of the group of \<open>runServe\<close> is done when the context it was given is, when \<open>cancel\<close> was called, or at the first error of the group.
  \<open>Run\<close> leaves its \<open>select\<close> when that context or the signal context is done or a server has exited.
\<close>

definition group_ctx_done :: "process \<Rightarrow> bool" where
  "group_ctx_done p \<longleftrightarrow> ps_parent p \<or> ps_cancelled p \<or> ps_serveErr p \<noteq> None"

definition triggered :: "process \<Rightarrow> bool" where
  "triggered p \<longleftrightarrow> ps_interrupted p \<or> group_ctx_done p \<or> ps_exited p"

definition server_exits :: "Runtime \<Rightarrow> server \<Rightarrow> go_error option \<Rightarrow> process \<Rightarrow> process" where
  "server_exits r s err p =
     p\<lparr>ps_machine := close_listener r s (ps_machine p), ps_serving := remove1 s (ps_serving p), ps_exited := True,
       ps_runErr := first_error (ps_runErr p) (group_error s err)\<rparr>"

definition run_returns :: "process \<Rightarrow> process" where
  "run_returns p =
     p\<lparr>ps_live := markStopped (ps_live p), ps_runReturned := True, ps_cancelled := True,
       ps_serveErr := first_error (ps_serveErr p) (ps_runErr p)\<rparr>"

definition scheduler_error :: "go_error option \<Rightarrow> go_error option" where
  "scheduler_error err = (case err of Some e \<Rightarrow> if errors_is e Context_Canceled then None else Some e | None \<Rightarrow> None)"

definition scheduler_exits :: "go_error option \<Rightarrow> process \<Rightarrow> process" where
  "scheduler_exits err p =
     p\<lparr>ps_scheduling := False, ps_cancelled := True, ps_serveErr := first_error (ps_serveErr p) (scheduler_error err)\<rparr>"

text \<open>
  A step is \<open>Due\<close> when the program or a library it calls will take it: a server that was told to stop stops serving, a timer expires, the scheduler
  ends once its context is done. Other steps are \<open>Chance\<close>: a signal, the failure of a server or of the scheduler, and requests that end before the deadline
  of the shutdown.
\<close>

datatype cause = Due | Chance

inductive process_step :: "Runtime \<Rightarrow> cause \<Rightarrow> process \<Rightarrow> process \<Rightarrow> bool" for r where
  interrupt: "\<not> ps_interrupted p \<Longrightarrow> process_step r Chance p (p\<lparr>ps_interrupted := True\<rparr>)"
| parent_done: "\<not> ps_parent p \<Longrightarrow> process_step r Chance p (p\<lparr>ps_parent := True\<rparr>)"
| fails: "s \<in> set (ps_serving p) \<Longrightarrow> process_step r Chance p (server_exits r s err p)"
| stops: "s \<in> set (ps_serving p) \<Longrightarrow> s \<in> set (ps_told p) \<Longrightarrow> group_error s err = None \<Longrightarrow> process_step r Due p (server_exits r s err p)"
| shutdown: "\<not> ps_shutdown p \<Longrightarrow> triggered p \<Longrightarrow> process_step r Due p (p\<lparr>ps_shutdown := True\<rparr>)"
| tell: "ps_shutdown p \<Longrightarrow> ps_waiting p = None \<Longrightarrow> servers r = ps_told p @ s # rest
    \<Longrightarrow> process_step r Due p (p\<lparr>ps_told := ps_told p @ [s], ps_waiting := Some s\<rparr>)"
| drained: "ps_waiting p = Some s \<Longrightarrow> process_step r Chance p (p\<lparr>ps_waiting := None\<rparr>)"
| deadline: "ps_shutdown p \<Longrightarrow> \<not> ps_timedOut p \<Longrightarrow> process_step r Due p (p\<lparr>ps_timedOut := True\<rparr>)"
| forced: "ps_waiting p = Some s \<Longrightarrow> ps_timedOut p
    \<Longrightarrow> process_step r Due p (p\<lparr>ps_waiting := None, ps_forced := ps_forced p \<or> s = GrpcServer\<rparr>)"
| run_done: "ps_shutdown p \<Longrightarrow> ps_told p = servers r \<Longrightarrow> ps_waiting p = None \<Longrightarrow> ps_serving p = [] \<Longrightarrow> \<not> ps_runReturned p
    \<Longrightarrow> process_step r Due p (run_returns p)"
| scheduler_fails: "ps_scheduling p \<Longrightarrow> process_step r Chance p (scheduler_exits err p)"
| scheduler_ends: "ps_scheduling p \<Longrightarrow> group_ctx_done p \<Longrightarrow> scheduler_error err = None \<Longrightarrow> process_step r Due p (scheduler_exits err p)"
| serve_done: "ps_runReturned p \<Longrightarrow> \<not> ps_scheduling p \<Longrightarrow> \<not> ps_returned p \<Longrightarrow> process_step r Due p (p\<lparr>ps_returned := True\<rparr>)"

inductive_cases process_stepE: "process_step r c p q"

section \<open>Invariant\<close>

definition bound_tcp :: "Runtime \<Rightarrow> server list \<Rightarrow> string list" where
  "bound_tcp r ss = (if MetricsServer \<in> set ss then case ru_metricsListener r of None \<Rightarrow> [] | Some a \<Rightarrow> [a] else [])
     @ (if HealthServer \<in> set ss then case ru_healthListener r of None \<Rightarrow> [] | Some a \<Rightarrow> [a] else [])"

definition process_inv :: "Runtime \<Rightarrow> machine \<Rightarrow> process \<Rightarrow> bool" where
  "process_inv r m p \<longleftrightarrow>
     distinct (ps_serving p) \<and> set (ps_serving p) \<subseteq> set (servers r)
   \<and> (GrpcServer \<in> set (ps_serving p) \<or> mx_files (ps_machine p) (ru_socketListener r) = None)
   \<and> (\<forall>f. f \<noteq> ru_socketListener r \<longrightarrow> mx_files (ps_machine p) f = mx_files m f)
   \<and> mx_tcp (ps_machine p) = bound_tcp r (ps_serving p) @ mx_tcp m
   \<and> (ps_runReturned p \<longrightarrow> ps_serving p = [] \<and> ps_told p = servers r \<and> ps_waiting p = None \<and> ps_cancelled p \<and> \<not> rl_started (ps_live p)
        \<and> (ps_runErr p \<noteq> None \<longrightarrow> ps_serveErr p \<noteq> None))
   \<and> (ps_returned p \<longrightarrow> ps_runReturned p \<and> \<not> ps_scheduling p)
   \<and> (\<not> ps_scheduling p \<longrightarrow> ps_cancelled p) \<and> (ps_forced p \<longrightarrow> ps_timedOut p) \<and> (ps_waiting p \<noteq> None \<longrightarrow> ps_shutdown p)
   \<and> prefix (ps_told p) (servers r)"

lemma servers_distinct: "distinct (servers r)"
  by (simp add: servers_def)

lemma close_listener_tcp:
  assumes "s \<in> set ss" "distinct ss" "set ss \<subseteq> set (servers r)" "mx_tcp m = bound_tcp r ss @ rest"
  shows "mx_tcp (close_listener r s m) = bound_tcp r (remove1 s ss) @ rest"
  using assms
  by (cases s) (auto simp: bound_tcp_def close_socket_def close_tcp_def servers_def split: option.splits if_splits)

lemma close_listener_files:
  "mx_files (close_listener r s m) = (if s = GrpcServer then (mx_files m)(ru_socketListener r := None) else mx_files m)"
  by (cases s) (auto simp: close_socket_def close_tcp_def split: option.splits)

lemma server_exits_inv:
  assumes "process_inv r m p" "s \<in> set (ps_serving p)"
  shows "process_inv r m (server_exits r s err p)"
proof -
  have tcp: "mx_tcp (close_listener r s (ps_machine p)) = bound_tcp r (remove1 s (ps_serving p)) @ mx_tcp m"
    by (rule close_listener_tcp) (use assms in \<open>simp_all add: process_inv_def\<close>)
  have files: "\<forall>f. f \<noteq> ru_socketListener r \<longrightarrow> mx_files (close_listener r s (ps_machine p)) f = mx_files m f"
    "GrpcServer \<in> set (remove1 s (ps_serving p)) \<or> mx_files (close_listener r s (ps_machine p)) (ru_socketListener r) = None"
    using assms(1) by (auto simp: process_inv_def close_listener_files)
  have keep: "\<not> ps_runReturned p" "\<not> ps_returned p" "prefix (ps_told p) (servers r)" "distinct (ps_serving p)"
    "\<not> ps_scheduling p \<longrightarrow> ps_cancelled p" "ps_forced p \<longrightarrow> ps_timedOut p" "ps_waiting p \<noteq> None \<longrightarrow> ps_shutdown p"
    using assms by (auto simp: process_inv_def)
  have sub: "set (remove1 s (ps_serving p)) \<subseteq> set (servers r)"
    using assms by (auto simp: process_inv_def)
  let ?q = "server_exits r s err p"
  have q: "ps_machine ?q = close_listener r s (ps_machine p)" "ps_serving ?q = remove1 s (ps_serving p)" "ps_told ?q = ps_told p"
    "ps_runReturned ?q = ps_runReturned p" "ps_returned ?q = ps_returned p" "ps_scheduling ?q = ps_scheduling p" "ps_cancelled ?q = ps_cancelled p"
    "ps_forced ?q = ps_forced p" "ps_timedOut ?q = ps_timedOut p" "ps_waiting ?q = ps_waiting p" "ps_shutdown ?q = ps_shutdown p"
    by (simp_all add: server_exits_def)
  show ?thesis unfolding process_inv_def q using tcp files keep sub by (intro conjI distinct_remove1) simp_all
qed

lemma process_step_inv:
  assumes "process_step r c p q" "process_inv r m p"
  shows "process_inv r m q"
  using assms
proof (cases rule: process_step.cases)
  case (fails s err)
  then show ?thesis using server_exits_inv [OF assms(2)] by simp
next
  case (stops s err)
  then show ?thesis using server_exits_inv [OF assms(2)] by simp
next
  case (tell s rest)
  then have "\<not> ps_runReturned p" using assms(2) by (auto simp: process_inv_def)
  with tell assms(2) show ?thesis by (simp add: process_inv_def prefix_def)
qed (auto simp: process_inv_def run_returns_def scheduler_exits_def markStopped_def first_error_def split: option.splits)

inductive process_run :: "Runtime \<Rightarrow> nat \<Rightarrow> process \<Rightarrow> process \<Rightarrow> bool" for r where
  start: "process_run r 0 p p"
| more: "process_run r n p q \<Longrightarrow> process_step r c q q' \<Longrightarrow> process_run r (Suc n) p q'"

lemma process_run_inv: "process_run r n p q \<Longrightarrow> process_inv r m p \<Longrightarrow> process_inv r m q"
  by (induction rule: process_run.induct) (auto intro: process_step_inv)

section \<open>Progress\<close>

text \<open>What is left to do; every step does some of it.\<close>

definition work :: "Runtime \<Rightarrow> process \<Rightarrow> nat" where
  "work r p = of_bool (\<not> ps_interrupted p) + of_bool (\<not> ps_parent p) + length (ps_serving p) + of_bool (\<not> ps_shutdown p)
     + 2 * (length (servers r) - length (ps_told p)) + of_bool (ps_waiting p \<noteq> None) + of_bool (\<not> ps_timedOut p)
     + of_bool (\<not> ps_runReturned p) + of_bool (ps_scheduling p) + of_bool (\<not> ps_returned p)"

lemma server_exits_work: "s \<in> set (ps_serving p) \<Longrightarrow> work r (server_exits r s err p) < work r p"
  using length_pos_if_in_set [of s "ps_serving p"] by (simp add: work_def server_exits_def length_remove1)

lemma process_step_work: "process_step r c p q \<Longrightarrow> work r q < work r p"
  by (cases rule: process_step.cases) (auto simp: server_exits_work, auto simp: work_def run_returns_def scheduler_exits_def)

lemma process_run_work: "process_run r n p q \<Longrightarrow> n + work r q \<le> work r p"
  by (induction rule: process_run.induct) (auto dest: process_step_work)

text \<open>The reasons to stop: a signal, the end of the context of the process, the exit of a server, the end of the scheduler.\<close>

definition stop_requested :: "process \<Rightarrow> bool" where
  "stop_requested p \<longleftrightarrow> ps_interrupted p \<or> ps_parent p \<or> ps_exited p \<or> \<not> ps_scheduling p"

lemma shutdown_progress:
  assumes "process_inv r m p" "ps_shutdown p" "\<not> ps_runReturned p"
  shows "\<exists>q. process_step r Due p q"
proof -
  obtain rest where rest: "servers r = ps_told p @ rest" using assms(1) by (auto simp: process_inv_def prefix_def)
  have quiet: "group_error s None = None" for s by (cases s) (simp_all add: serveGRPC_def serveHealth_def serveMetrics_def)
  consider (waits) s where "ps_waiting p = Some s" | (next_server) s ss where "ps_waiting p = None" "rest = s # ss"
    | (serving) s where "rest = []" "s \<in> set (ps_serving p)" | (finished) "ps_waiting p = None" "rest = []" "ps_serving p = []"
    by (cases rest; cases "ps_serving p"; cases "ps_waiting p") auto
  then show ?thesis
  proof cases
    case waits
    then show ?thesis using process_step.forced process_step.deadline assms(2) by (cases "ps_timedOut p") blast+
  next
    case next_server
    then show ?thesis using process_step.tell rest assms(2) by blast
  next
    case (serving s)
    then have "s \<in> set (ps_told p)" using rest assms(1) by (auto simp: process_inv_def)
    then show ?thesis using process_step.stops serving(2) quiet by blast
  next
    case finished
    then have "ps_told p = servers r" using rest by simp
    with finished assms(2,3) show ?thesis using process_step.run_done by blast
  qed
qed

lemma process_progress:
  assumes "process_inv r m p" "stop_requested p" "\<not> ps_returned p"
  shows "\<exists>q. process_step r Due p q"
proof (cases "ps_runReturned p")
  case True
  then have "group_ctx_done p" using assms(1) by (auto simp: process_inv_def group_ctx_done_def)
  then show ?thesis
    using True assms(3) process_step.serve_done process_step.scheduler_ends [of p None] by (cases "ps_scheduling p") (auto simp: scheduler_error_def)
next
  case False
  have "triggered p" using assms(1,2) by (auto simp: stop_requested_def triggered_def group_ctx_done_def process_inv_def)
  then show ?thesis using shutdown_progress [OF assms(1) _ False] process_step.shutdown by (cases "ps_shutdown p") blast+
qed

section \<open>Main results\<close>

lemma process_start_inv:
  assumes "Runtime_New sys opts m = (Inr r, m')" "process_start r m' = Inr p"
  shows "process_inv r m p"
proof -
  have p: "ps_machine p = m'" "ps_serving p = servers r" "ps_told p = []" "\<not> ps_runReturned p" "\<not> ps_returned p"
    "ps_scheduling p" "\<not> ps_forced p" "ps_waiting p = None"
    using assms(2) by (auto simp: process_start_def split: if_splits)
  have "mx_tcp m' = tcp_of r @ mx_tcp m" "\<And>f. f \<noteq> ru_socketListener r \<Longrightarrow> mx_files m' f = mx_files m f"
    by (cases rule: Runtime_New_cases [OF assms(1)]; use Listen_files(2) in force)+
  moreover have "bound_tcp r (servers r) = tcp_of r" by (auto simp: bound_tcp_def servers_def tcp_of_def split: option.split)
  moreover have "GrpcServer \<in> set (servers r)" by (simp add: servers_def)
  ultimately show ?thesis using p servers_distinct by (simp add: process_inv_def)
qed

text \<open>An example: the process without its HTTP listeners is interrupted and shuts down.\<close>

definition ex_runtime_options :: runtime_Options where
  "ex_runtime_options = \<lparr>ro_Socket = ex_socket_options, ro_HasGRPCServer = True, ro_HasReadiness = True, ro_HealthAddress = [],
     ro_HasMetricsHandler = True, ro_MetricsAddress = [], ro_ShutdownTimeout = 0\<rparr>"

text \<open>A request is in flight until the deadline, so the gRPC server is stopped by force.\<close>

lemma ex_served:
  obtains r m p0 p where "Runtime_New ex_system ex_runtime_options ex_machine = (Inr r, m)" "process_start r m = Inr p0"
    "process_run r 9 p0 p" "ps_returned p" "ps_forced p" "stop_requested p"
proof -
  obtain m where l: "Listen ex_system ex_socket_options ex_machine = (Inr ''/r/k'', m)" using ex_Listen ..
  let ?r = "\<lparr>ru_socketListener = ''/r/k'', ru_healthListener = None, ru_metricsListener = None,
     ru_shutdownTimeout = shutdownTimeoutOrDefault 0, ru_live = \<lparr>rl_started = False\<rparr>, ru_running = False\<rparr>"
  have new: "Runtime_New ex_system ex_runtime_options ex_machine = (Inr ?r, m)"
    using l by (simp add: Runtime_New_def ex_runtime_options_def bind_health_def bind_metrics_def)
  have ss: "servers ?r = [GrpcServer]" by (simp add: servers_def)
  obtain p0 where p0: "process_start ?r m = Inr p0" "ps_serving p0 = [GrpcServer]" "ps_told p0 = []" "\<not> ps_interrupted p0" "\<not> ps_shutdown p0"
    "\<not> ps_runReturned p0" "ps_scheduling p0" "\<not> ps_returned p0" "ps_waiting p0 = None" "\<not> ps_timedOut p0"
    by (simp add: process_start_def ss)
  let ?p1 = "p0\<lparr>ps_interrupted := True\<rparr>"
  let ?p2 = "?p1\<lparr>ps_shutdown := True\<rparr>"
  let ?p3 = "?p2\<lparr>ps_told := ps_told ?p2 @ [GrpcServer], ps_waiting := Some GrpcServer\<rparr>"
  let ?p4 = "server_exits ?r GrpcServer None ?p3"
  let ?p5 = "?p4\<lparr>ps_timedOut := True\<rparr>"
  let ?p6 = "?p5\<lparr>ps_waiting := None, ps_forced := ps_forced ?p5 \<or> GrpcServer = GrpcServer\<rparr>"
  let ?p7 = "run_returns ?p6"
  let ?p8 = "scheduler_exits (Some (Sentinel Context_Canceled)) ?p7"
  let ?p9 = "?p8\<lparr>ps_returned := True\<rparr>"
  note upd = server_exits_def run_returns_def scheduler_exits_def
  have s1: "process_step ?r Chance p0 ?p1" by (rule process_step.interrupt) (rule p0)
  have s2: "process_step ?r Due ?p1 ?p2" by (rule process_step.shutdown) (simp_all add: p0 triggered_def)
  have s3: "process_step ?r Due ?p2 ?p3" by (rule process_step.tell [where rest = "[]"]) (simp_all add: p0 ss)
  have s4: "process_step ?r Due ?p3 ?p4" by (rule process_step.stops) (simp_all add: p0 serveGRPC_def)
  have s5: "process_step ?r Due ?p4 ?p5" by (rule process_step.deadline) (simp_all add: p0 upd)
  have s6: "process_step ?r Due ?p5 ?p6" by (rule process_step.forced) (simp_all add: p0 upd)
  have s7: "process_step ?r Due ?p6 ?p7" by (rule process_step.run_done) (simp_all add: p0 ss upd)
  have s8: "process_step ?r Due ?p7 ?p8" by (rule process_step.scheduler_ends) (simp_all add: p0 upd group_ctx_done_def scheduler_error_def)
  have s9: "process_step ?r Due ?p8 ?p9" by (rule process_step.serve_done) (simp_all add: p0 upd)
  note r1 = process_run.more [OF process_run.start s1]
  note r4 = process_run.more [OF process_run.more [OF process_run.more [OF r1 s2] s3] s4]
  note r7 = process_run.more [OF process_run.more [OF process_run.more [OF r4 s5] s6] s7]
  have "process_run ?r (Suc (Suc (Suc (Suc (Suc (Suc (Suc (Suc (Suc 0))))))))) p0 ?p9" by (rule process_run.more [OF process_run.more [OF r7 s8] s9])
  then have "process_run ?r 9 p0 ?p9" by (simp add: eval_nat_numeral)
  with new p0(1) show thesis by (rule that) (simp_all add: upd stop_requested_def)
qed

text \<open>
  C28 Nothing outlives the process's own shutdown: however its servers, its scheduler, signals and the deadline of the shutdown interleave, when \<open>runServe\<close> returns,
  every server has been told to stop and has stopped, every listener is released, so the socket file is gone, every other file and every TCP
  address is as before \<open>New\<close>, the liveness probe reports it stopped, the scheduler has ended, and the failure of a server is not
  lost. Connections were cut by force only if the deadline of the shutdown had passed.
\<close>

theorem serve_leaves_nothing_behind:
  assumes "Runtime_New sys opts m = (Inr r, m')" and "process_start r m' = Inr p0" and "process_run r n p0 p" and "ps_returned p"
  shows "ps_told p = servers r \<and> ps_serving p = []
    \<and> mx_files (ps_machine p) = (mx_files m)(sk_Path (ro_Socket opts) := None) \<and> mx_tcp (ps_machine p) = mx_tcp m
    \<and> \<not> ps_scheduling p \<and> Live (ps_live p) \<noteq> Inr () \<and> (ps_runErr p \<noteq> None \<longrightarrow> ps_serveErr p \<noteq> None)
    \<and> (ps_forced p \<longrightarrow> ps_timedOut p)"
proof -
  have inv: "process_inv r m p" using process_run_inv [OF assms(3)] process_start_inv [OF assms(1,2)] by blast
  have path: "ru_socketListener r = sk_Path (ro_Socket opts)" by (cases rule: Runtime_New_cases [OF assms(1)]) auto
  have "ps_serving p = []" using inv assms(4) by (auto simp: process_inv_def)
  with inv assms(4) path show ?thesis
    by (auto simp: process_inv_def bound_tcp_def Live_def fun_eq_iff)
qed

theorem serve_leaves_nothing_behind_witness:
  "\<exists>r m p0 p. Runtime_New ex_system ex_runtime_options ex_machine = (Inr r, m) \<and> process_start r m = Inr p0 \<and> process_run r 9 p0 p \<and> ps_returned p
     \<and> ps_forced p \<and> ps_timedOut p \<and> ps_told p = servers r \<and> mx_files (ps_machine p) ''/r/k'' = None \<and> mx_tcp (ps_machine p) = []"
proof (rule ex_served)
  fix r m p0 p
  assume served: "Runtime_New ex_system ex_runtime_options ex_machine = (Inr r, m)" "process_start r m = Inr p0" "process_run r 9 p0 p" "ps_returned p"
    and "ps_forced p"
  have "sk_Path (ro_Socket ex_runtime_options) = ''/r/k''" "mx_tcp ex_machine = []"
    by (simp_all add: ex_runtime_options_def ex_socket_options_def ex_machine_def)
  with serve_leaves_nothing_behind [OF served] served \<open>ps_forced p\<close> show ?thesis by fastforce
qed

text \<open>
  C29 Shutdown always completes: every run of the process is finite, with at most 16 steps, and once a signal has come, its context has ended, a server has
  exited or the scheduler has ended, then until \<open>runServe\<close> returns there is always a step that is due: one that waits neither for requests to
  end nor for a failure, because a server exits only when it is told to stop, the scheduler when its context is cancelled, and a server that is still draining
  is given up at the deadline. So every run whose due steps are taken has returned.
\<close>

theorem shutdown_completes:
  assumes "Runtime_New sys opts m = (Inr r, m')" and "process_start r m' = Inr p0" and "process_run r n p0 p"
  shows "n \<le> 16 \<and> (stop_requested p \<longrightarrow> ps_returned p \<or> (\<exists>q. process_step r Due p q))"
proof -
  have "length (servers r) \<le> 3" by (simp add: servers_def)
  then have "work r p0 \<le> 16" using assms(2) by (auto simp: process_start_def work_def split: if_splits)
  then have "n \<le> 16" using process_run_work [OF assms(3)] by linarith
  moreover have "process_inv r m p" using process_run_inv [OF assms(3)] process_start_inv [OF assms(1,2)] by blast
  ultimately show ?thesis using process_progress by blast
qed

theorem shutdown_completes_witness:
  "\<exists>r m p0 p. Runtime_New ex_system ex_runtime_options ex_machine = (Inr r, m) \<and> process_start r m = Inr p0 \<and> process_run r 9 p0 p
     \<and> (9::nat) \<le> 16 \<and> stop_requested p \<and> (ps_returned p \<or> (\<exists>q. process_step r Due p q))"
proof (rule ex_served)
  fix r m p0 p
  assume served: "Runtime_New ex_system ex_runtime_options ex_machine = (Inr r, m)" "process_start r m = Inr p0" "process_run r 9 p0 p"
    and "stop_requested p"
  with shutdown_completes [OF served] show ?thesis by blast
qed

end
