(* ===== verification/CLI_Report.thy ===== *)
theory CLI_Report
  imports Configuration
begin

text \<open>
  What the operator commands share: diagnostic reports (\<^verbatim>\<open>internal/cli/report.go\<close>), exit codes (\<^verbatim>\<open>internal/cli/exit.go\<close>), output
  formats (\<^verbatim>\<open>cmd/bao-kms-provider/output.go\<close>) and the loading of the configuration. Standard output and the decoding of the
  configuration file are inputs; the JSON text of a report is left to the standard library.
\<close>

section \<open>Reports\<close>

datatype CheckStatus = CheckPass | CheckWarn | CheckFail | CheckSkip

fun CheckStatus_string :: "CheckStatus \<Rightarrow> string" where
  "CheckStatus_string CheckPass = ''pass''"
| "CheckStatus_string CheckWarn = ''warn''"
| "CheckStatus_string CheckFail = ''fail''"
| "CheckStatus_string CheckSkip = ''skip''"

text \<open>A message is a text of the code or the text of an error.\<close>

datatype message = Text string | ErrorText go_error

record Check =
  ck_ID :: string
  ck_Title :: string
  ck_Status :: CheckStatus
  ck_Message :: message

record Report =
  rp_Name :: string
  rp_Checks :: "Check list"

definition Report_Add :: "CheckStatus \<Rightarrow> string \<Rightarrow> string \<Rightarrow> message \<Rightarrow> Report \<Rightarrow> Report" where
  "Report_Add status name title msg report =
    report\<lparr>rp_Checks := rp_Checks report @ [\<lparr>ck_ID = name, ck_Title = title, ck_Status = status, ck_Message = msg\<rparr>]\<rparr>"

definition Report_Pass :: "string \<Rightarrow> string \<Rightarrow> message \<Rightarrow> Report \<Rightarrow> Report" where
  "Report_Pass = Report_Add CheckPass"
definition Report_Warn :: "string \<Rightarrow> string \<Rightarrow> message \<Rightarrow> Report \<Rightarrow> Report" where
  "Report_Warn = Report_Add CheckWarn"
definition Report_Fail :: "string \<Rightarrow> string \<Rightarrow> message \<Rightarrow> Report \<Rightarrow> Report" where
  "Report_Fail = Report_Add CheckFail"
definition Report_Skip :: "string \<Rightarrow> string \<Rightarrow> message \<Rightarrow> Report \<Rightarrow> Report" where
  "Report_Skip = Report_Add CheckSkip"

definition HasFailures :: "Report \<Rightarrow> bool" where
  "HasFailures report = list_ex (\<lambda>check. ck_Status check = CheckFail) (rp_Checks report)"

definition safeMessage :: "go_error \<Rightarrow> message" where
  "safeMessage err = ErrorText err"

fun message_text :: "(go_error \<Rightarrow> string) \<Rightarrow> message \<Rightarrow> string" where
  "message_text text_of (Text s) = s"
| "message_text text_of (ErrorText e) = text_of e"

definition check_line :: "(go_error \<Rightarrow> string) \<Rightarrow> Check \<Rightarrow> string" where
  "check_line text_of check =
    (let msg = message_text text_of (ck_Message check);
         line = ''['' @ CheckStatus_string (ck_Status check) @ ''] '' @ ck_ID check @ '': '' @ ck_Title check
     in (if msg = [] then line else line @ '' - '' @ msg) @ [CHR 0x0A])"

definition PrintText :: "(go_error \<Rightarrow> string) \<Rightarrow> Report \<Rightarrow> string" where
  "PrintText text_of report = rp_Name report @ [CHR 0x0A] @ concat (map (check_line text_of) (rp_Checks report))"

section \<open>Exit codes\<close>

datatype ExitCode = ExitOK | ExitError | ExitUsage | ExitConfig | ExitCheckFailed | ExitRuntime

fun exit_value :: "ExitCode \<Rightarrow> int" where
  "exit_value ExitOK = 0"
| "exit_value ExitError = 1"
| "exit_value ExitUsage = 2"
| "exit_value ExitConfig = 3"
| "exit_value ExitCheckFailed = 4"
| "exit_value ExitRuntime = 5"

text \<open>The error of a command, with the code it carries; \<open>errors.As\<close> finds the outermost code.\<close>

datatype command_error = ExitErrorWithCode ExitCode go_error | Uncoded go_error

fun command_cause :: "command_error \<Rightarrow> go_error" where
  "command_cause (ExitErrorWithCode c e) = e"
| "command_cause (Uncoded e) = e"

definition WithExitCode :: "ExitCode \<Rightarrow> command_error option \<Rightarrow> command_error option" where
  "WithExitCode code err = map_option (\<lambda>e. ExitErrorWithCode code (command_cause e)) err"

fun ProcessExitCode :: "command_error option \<Rightarrow> int" where
  "ProcessExitCode None = exit_value ExitOK"
| "ProcessExitCode (Some (ExitErrorWithCode code e)) = exit_value code"
| "ProcessExitCode (Some (Uncoded e)) = exit_value ExitError"

definition reportError :: "Report \<Rightarrow> string \<Rightarrow> command_error option" where
  "reportError report msg = (if \<not> HasFailures report then None else WithExitCode ExitCheckFailed (Some (Uncoded (Msg msg))))"

section \<open>Output\<close>

definition outputFormatText :: string where "outputFormatText = ''text''"
definition outputFormatJSON :: string where "outputFormatJSON = ''json''"

definition normalizeOutputFormat :: "string \<Rightarrow> string" where
  "normalizeOutputFormat output = ToLower (TrimSpace output)"

definition unsupportedOutputFormat :: "string \<Rightarrow> command_error option" where
  "unsupportedOutputFormat output =
    WithExitCode ExitUsage (Some (Uncoded (Msg (''unsupported output format: expected text or json: '' @ output))))"

text \<open>What a command writes: text, or the JSON of a value. \<open>write\<close> is the result of writing to standard output.\<close>

datatype 'a printed = PrintedText string | PrintedJSON 'a

definition uncoded :: "unit res \<Rightarrow> command_error option" where
  "uncoded r = (case r of Inl e \<Rightarrow> Some (Uncoded e) | Inr _ \<Rightarrow> None)"

text \<open>The text form ignores the errors of the writer.\<close>

definition printCLIReport :: "(go_error \<Rightarrow> string) \<Rightarrow> (Report printed \<Rightarrow> unit res) \<Rightarrow> Report \<Rightarrow> string \<Rightarrow> command_error option" where
  "printCLIReport text_of write report output =
    (let fmt = normalizeOutputFormat output in
     if fmt = outputFormatText then (case write (PrintedText (PrintText text_of report)) of _ \<Rightarrow> None)
     else if fmt = outputFormatJSON then uncoded (write (PrintedJSON report))
     else unsupportedOutputFormat output)"

section \<open>Configuration of a command\<close>

text \<open>What the configuration meets: the decoded file, and what validation asks of the network library, the build and the file system.\<close>

record config_env =
  cv_load :: "string \<Rightarrow> Config res"
  cv_net :: go_net
  cv_spiffe :: bool
  cv_text :: "go_error \<Rightarrow> string"
  cv_lstat :: "string \<Rightarrow> lstat_result"

definition validation_options :: "string \<Rightarrow> bool \<Rightarrow> ValidationOptions" where
  "validation_options configPath checkFilesystem =
    \<lparr>vo_ConfigFilePath = configPath, vo_CheckFilesystem = checkFilesystem, vo_AllowedSocketParentDirs = []\<rparr>"

definition loadAndValidateConfig :: "config_env \<Rightarrow> string \<Rightarrow> bool \<Rightarrow> command_error + Config" where
  "loadAndValidateConfig env configPath checkFilesystem =
    (case cv_load env configPath of
       Inl err \<Rightarrow> Inl (ExitErrorWithCode ExitConfig err)
     | Inr cfg \<Rightarrow>
        if Validate (cv_net env) (cv_spiffe env) (cv_text env) (cv_lstat env) cfg (validation_options configPath checkFilesystem) = [] then Inr cfg
        else Inl (ExitErrorWithCode ExitConfig (Msg ''config invalid'')))"

section \<open>Facts about reports\<close>

lemma Report_Add_simps [simp]:
  "rp_Name (Report_Add s i t m r) = rp_Name r"
  "rp_Checks (Report_Add s i t m r) = rp_Checks r @ [\<lparr>ck_ID = i, ck_Title = t, ck_Status = s, ck_Message = m\<rparr>]"
  by (simp_all add: Report_Add_def)

lemma HasFailures_Add [simp]:
  "HasFailures (Report_Pass i t m r) = HasFailures r" "HasFailures (Report_Warn i t m r) = HasFailures r"
  "HasFailures (Report_Skip i t m r) = HasFailures r" "HasFailures (Report_Fail i t m r)"
  by (simp_all add: HasFailures_def Report_Pass_def Report_Warn_def Report_Skip_def Report_Fail_def)

lemma reportError_exit: "ProcessExitCode (reportError report msg) = (if HasFailures report then 4 else 0)"
  by (simp add: reportError_def WithExitCode_def)

lemma loadAndValidateConfig_Inr [simp]:
  "loadAndValidateConfig env configPath fs = Inr cfg \<longleftrightarrow> cv_load env configPath = Inr cfg
     \<and> Validate (cv_net env) (cv_spiffe env) (cv_text env) (cv_lstat env) cfg (validation_options configPath fs) = []"
  by (auto simp: loadAndValidateConfig_def split: sum.splits if_splits)

end
