(* ===== verification/Retirement_Command.thy ===== *)
theory Retirement_Command
  imports Startup_Safety Retirement CLI_Report
begin

unbundle bit_operations_syntax

text \<open>
  The operator commands on the persisted state (\<^verbatim>\<open>cmd/bao-kms-provider\<close>: \<^verbatim>\<open>registry_state.go\<close>, \<^verbatim>\<open>retirement.go\<close>, \<^verbatim>\<open>restore_versions.go\<close>)
  and the lock they share with the server (\<^verbatim>\<open>internal/keyregistry/lock.go\<close>). The disk is the one of the state store; what the system calls of the
  lock report, the Transit metadata and the failures of the saves are an environment.
\<close>

section \<open>The state lock\<close>

text \<open>What the calls of \<open>LockState\<close> report: errors, the owner and mode of the directory, and type, mode, owner and links of the lock file.\<close>

record lock_env =
  lk_open :: "go_error option"
  lk_dirstat :: "(int \<times> 32 word) option"
  lk_openat :: "go_error option"
  lk_filestat :: "(bool \<times> 32 word \<times> int \<times> nat) option"
  lk_held :: bool
  lk_flock :: "go_error option"
  lk_euid :: int

definition validateAndLockStateFile :: "lock_env \<Rightarrow> unit res" where
  "validateAndLockStateFile env =
    (case lk_filestat env of
       None \<Rightarrow> Inl (Msg ''inspect state lock'')
     | Some (regular, mode, uid, nlink) \<Rightarrow>
        bindE (failIf (\<not> regular \<or> mode AND 63 \<noteq> 0 \<or> uid \<noteq> lk_euid env \<or> nlink \<noteq> 1)
          (errw ErrStatePermission ''lock must be a private regular file owned by the current user with one link'')) (\<lambda>_.
        bindE (failIf (lk_held env) (Sentinel ErrStateLocked)) (\<lambda>_.
        case lk_flock env of None \<Rightarrow> Inr () | Some err \<Rightarrow> Inl (Wrap ''lock registry state'' [err]))))"

definition LockState :: "lock_env \<Rightarrow> string \<Rightarrow> unit res" where
  "LockState env path =
    bindE (failIf (\<not> IsAbs path) (errw ErrStatePermission ''state path must be absolute'')) (\<lambda>_.
    bindE (case lk_open env of None \<Rightarrow> Inr () | Some err \<Rightarrow> Inl (Wrap ''open state directory for locking'' [err])) (\<lambda>_.
    case lk_dirstat env of
      None \<Rightarrow> Inl (Msg ''inspect state directory'')
    | Some (uid, mode) \<Rightarrow>
       bindE (failIf (uid \<noteq> lk_euid env \<or> mode AND 18 \<noteq> 0)
         (errw ErrStatePermission ''state directory must be owned by the current user and not group/world writable'')) (\<lambda>_.
       bindE (case lk_openat env of None \<Rightarrow> Inr () | Some err \<Rightarrow> Inl (Wrap ''open state lock'' [err])) (\<lambda>_.
       validateAndLockStateFile env))))"

section \<open>Loading the state\<close>

definition stateCheckpointStatusAbsent :: string where "stateCheckpointStatusAbsent = ''absent''"
definition stateCheckpointStatusMissing :: string where "stateCheckpointStatusMissing = ''missing''"
definition stateCheckpointStatusCurrent :: string where "stateCheckpointStatusCurrent = ''current''"
definition stateCheckpointStatusBehind :: string where "stateCheckpointStatusBehind = ''behind''"

record registryStateLoadResult =
  rsl_State :: StateFile
  rsl_StateLoaded :: bool
  rsl_CheckpointLoaded :: bool
  rsl_CheckpointStatus :: string
  rsl_CheckpointGeneration :: u64
  rsl_CheckpointHash :: string

definition zero_load_result :: registryStateLoadResult where
  "zero_load_result = \<lparr>rsl_State = zero_state, rsl_StateLoaded = False, rsl_CheckpointLoaded = False, rsl_CheckpointStatus = [],
     rsl_CheckpointGeneration = 0, rsl_CheckpointHash = []\<rparr>"

text \<open>A result is returned beside some errors; a missing state keeps what is known of its checkpoint.\<close>

definition loadRegistryStateWithCheckpoint :: "Disk \<Rightarrow> registryStateLoadResult \<times> unit res" where
  "loadRegistryStateWithCheckpoint d =
    (let result = zero_load_result\<lparr>rsl_CheckpointStatus := stateCheckpointStatusAbsent\<rparr>;
         checkpoint = LoadStateCheckpoint (d_checkpoint d) in
     case (case checkpoint of Inl e \<Rightarrow> failIf (\<not> errors_is e ErrStateNotFound) e | Inr _ \<Rightarrow> Inr ()) of
       Inl e \<Rightarrow> (zero_load_result, Inl e)
     | Inr _ \<Rightarrow>
    (let result = (case checkpoint of Inl _ \<Rightarrow> result | Inr c \<Rightarrow> result\<lparr>rsl_CheckpointLoaded := True, rsl_CheckpointGeneration := c_Generation c,
           rsl_CheckpointHash := c_CurrentHash c\<rparr>) in
     case LoadStateFile (d_state d) no_options of
       Inl err \<Rightarrow>
         if errors_is err ErrStateNotFound then
           (if rsl_CheckpointLoaded result
            then (zero_load_result, Inl (errw ErrStateRollback ''state file missing with checkpoint present''))
            else (result, Inl err))
         else (zero_load_result, Inl err)
     | Inr (state, _) \<Rightarrow>
        (let result = result\<lparr>rsl_State := state, rsl_StateLoaded := True\<rparr> in
         case checkpoint of
           Inl _ \<Rightarrow> (result\<lparr>rsl_CheckpointStatus := stateCheckpointStatusMissing\<rparr>, Inr ())
         | Inr c \<Rightarrow>
            (case ValidateState c state of
               Inl err \<Rightarrow> (zero_load_result, Inl err)
             | Inr _ \<Rightarrow>
                (result\<lparr>rsl_CheckpointStatus := (if Generation state > c_Generation c then stateCheckpointStatusBehind
                   else stateCheckpointStatusCurrent)\<rparr>, Inr ())))))"

definition loadConfiguredRegistryState :: "Config \<Rightarrow> Disk \<Rightarrow> registryStateLoadResult \<times> unit res" where
  "loadConfiguredRegistryState cfg d =
    (case loadRegistryStateWithCheckpoint d of
       (loaded, Inl err) \<Rightarrow> (loaded, Inl err)
     | (loaded, Inr _) \<Rightarrow>
        (case IdentityFingerprint_of cfg of
           Inl _ \<Rightarrow> (zero_load_result, Inl (Msg ''config invalid''))
         | Inr fingerprint \<Rightarrow>
            if IdentityFingerprint (rsl_State loaded) \<noteq> fingerprint
            then (zero_load_result, Inl (errw Status_ErrConfigInvalid ''persisted configuration identity differs from current configuration''))
            else (loaded, Inr ())))"

section \<open>Retirement\<close>

record retirementOptions =
  rto_BeforeVersion :: int
  rto_Apply :: bool
  rto_ExpectedStateHash :: string
  rto_RestoreVersions :: "int list option"

record retiredVersionReport =
  rvr_TransitVersion :: int
  rvr_KeyIDHash :: string

record retirementReport =
  rtr_Operation :: string
  rtr_Applied :: bool
  rtr_BeforeVersion :: int
  rtr_StateHash :: string
  rtr_NextStateHash :: string
  rtr_NextGeneration :: u64
  rtr_ActiveKeyIDHash :: string
  rtr_RemovedVersions :: "retiredVersionReport list"
  rtr_RestoredVersions :: "retiredVersionReport list"
  rtr_Limitations :: string

definition rotationLimitationsLocal :: string where
  "rotationLimitationsLocal =
    ''local registry and Transit metadata cannot prove every Kubernetes object or retained backup has been rewritten''"

definition planRetirementTransition :: "StateFile \<Rightarrow> retirementOptions \<Rightarrow> StateFile res" where
  "planRetirementTransition state opts =
    (case rto_RestoreVersions opts of
       Some versions \<Rightarrow>
         bindE (failIf (rto_BeforeVersion opts \<noteq> 0) (Msg ''cannot retire and restore versions in the same transition'')) (\<lambda>_.
         RestoreVersions state versions)
     | None \<Rightarrow> RetireVersions state (rto_BeforeVersion opts))"

definition version_report :: "SnapshotStateRecord \<Rightarrow> retiredVersionReport" where
  "version_report record = \<lparr>rvr_TransitVersion = r_TransitVersion record, rvr_KeyIDHash = HashValue (r_KubernetesKeyID record)\<rparr>"

text \<open>The second loop compares the states at the same index; an index beyond the previous state would panic.\<close>

fun restored_versions :: "SnapshotStateRecord list \<Rightarrow> SnapshotStateRecord list \<Rightarrow> retiredVersionReport list res" where
  "restored_versions previous [] = Inr []"
| "restored_versions [] (record # rest) = Inl (Msg ''index out of range'')"
| "restored_versions (old # previous) (record # rest) =
     bindE (restored_versions previous rest) (\<lambda>restored.
     Inr (if r_State old = StateRemoved \<and> r_State record = StateRetired then version_report record # restored else restored))"

definition newRetirementReport :: "StateFile \<Rightarrow> StateFile \<Rightarrow> int \<Rightarrow> retirementReport res" where
  "newRetirementReport previous next beforeVersion =
    bindE (restored_versions (Snapshots previous) (Snapshots next)) (\<lambda>restored.
    Inr \<lparr>rtr_Operation = (if restored = [] then ''retire-versions'' else ''restore-versions''), rtr_Applied = False,
      rtr_BeforeVersion = beforeVersion, rtr_StateHash = CurrentHash previous, rtr_NextStateHash = CurrentHash next,
      rtr_NextGeneration = Generation next, rtr_ActiveKeyIDHash = HashValue (ActiveKeyID next),
      rtr_RemovedVersions = map version_report
        (filter (\<lambda>record. r_State record = StateRetired \<and> r_TransitVersion record < beforeVersion) (Snapshots previous)),
      rtr_RestoredVersions = restored, rtr_Limitations = rotationLimitationsLocal\<rparr>)"

definition validateRetirementProfile :: "Config \<Rightarrow> StateFile \<Rightarrow> KeyProfile \<Rightarrow> unit res" where
  "validateRetirementProfile cfg state profile =
    bindE (ActiveSnapshot state) (\<lambda>active.
    bindE (failIf (LatestVersion profile < TransitVersion active)
      (Msg ''remote Transit latest_version is below the local active version'')) (\<lambda>_.
    bindE (newRotationObserver cfg) (\<lambda>observer.
    ValidateRecoveryProfile observer state profile)))"

definition applyRetirementTransition ::
  "go_context \<Rightarrow> store_env \<Rightarrow> store_env \<Rightarrow> string \<Rightarrow> StateFile \<Rightarrow> StateFile \<Rightarrow> Disk \<Rightarrow> unit res \<times> Disk" where
  "applyRetirementTransition ctx load save path previous next d =
    (case contextErr ctx of
       Inl err \<Rightarrow> (Inl err, d)
     | Inr _ \<Rightarrow>
    (case Load path load d of
       (Inl err, d) \<Rightarrow> (Inl (Wrap ''confirm registry checkpoint'' [err]), d)
     | (Inr confirmed, d) \<Rightarrow>
        if CurrentHash confirmed \<noteq> CurrentHash previous
        then (Inl (Msg ''state changed before apply; generate and review a new plan''), d)
        else if CurrentHash next = CurrentHash confirmed then (Inr (), d)
        else (case Save path save d next of
                (Inl err, d) \<Rightarrow> (Inl (Wrap ''save registry state/checkpoint: inspect state before retrying'' [err]), d)
              | (Inr _, d) \<Rightarrow> (Inr (), d))))"

text \<open>What the command meets: its context, the lock, the failures of its two calls of the state store, and the metadata it reads.\<close>

record command_env =
  ce_ctx :: go_context
  ce_lock :: lock_env
  ce_load :: store_env
  ce_save :: store_env
  ce_profile :: "Config \<Rightarrow> KeyProfile res"

text \<open>The steps of \<open>runRetirement\<close> before it applies: the loaded state, the planned one and the report.\<close>

definition plan_retirement :: "command_env \<Rightarrow> Config \<Rightarrow> retirementOptions \<Rightarrow> Disk \<Rightarrow> (StateFile \<times> StateFile \<times> retirementReport) res" where
  "plan_retirement env cfg opts d =
    bindE (if rto_Apply opts then LockState (ce_lock env) (cf_State_Path cfg) else Inr ()) (\<lambda>_.
    let (loaded, err) = loadConfiguredRegistryState cfg d; state = rsl_State loaded in
    bindE err (\<lambda>_.
    bindE (failIf (rto_Apply opts \<and> (rto_ExpectedStateHash opts = [] \<or> rto_ExpectedStateHash opts \<noteq> CurrentHash state))
      (Msg ''state hash differs from reviewed plan; generate and review a new plan'')) (\<lambda>_.
    bindE (planRetirementTransition state opts) (\<lambda>next.
    bindE (case ce_profile env cfg of Inl e \<Rightarrow> Inl (Wrap ''read Transit metadata for retirement'' [e]) | Inr p \<Rightarrow> Inr p) (\<lambda>profile.
    bindE (validateRetirementProfile cfg next profile) (\<lambda>_.
    bindE (newRetirementReport state next (rto_BeforeVersion opts)) (\<lambda>report.
    Inr (state, next, report))))))))"

definition runRetirement :: "command_env \<Rightarrow> Config \<Rightarrow> retirementOptions \<Rightarrow> Disk \<Rightarrow> retirementReport res \<times> Disk" where
  "runRetirement env cfg opts d =
    (case plan_retirement env cfg opts d of
       Inl err \<Rightarrow> (Inl err, d)
     | Inr (state, next, report) \<Rightarrow>
        if \<not> rto_Apply opts then (Inr report, d)
        else (case applyRetirementTransition (ce_ctx env) (ce_load env) (ce_save env) (cf_State_Path cfg) state next d of
                (Inl err, d) \<Rightarrow> (Inl err, d)
              | (Inr _, d) \<Rightarrow> (Inr (report\<lparr>rtr_Applied := True\<rparr>), d)))"

section \<open>The commands\<close>

text \<open>The lines of the text form; numbers, texts and booleans are printed by \<open>fmt\<close>.\<close>

definition version_line :: "string \<Rightarrow> retiredVersionReport \<Rightarrow> string" where
  "version_line label version =
    label @ '': transitVersion='' @ Itoa (rvr_TransitVersion version) @ '' keyIdHash='' @ rvr_KeyIDHash version @ [CHR 0x0A]"

definition retirement_text :: "retirementReport \<Rightarrow> string" where
  "retirement_text report =
    (let nl = [CHR 0x0A] in
     rtr_Operation report @ nl
     @ ''applied: '' @ (if rtr_Applied report then ''true'' else ''false'') @ nl
     @ ''beforeVersion: '' @ Itoa (rtr_BeforeVersion report) @ nl
     @ ''stateHash: '' @ rtr_StateHash report @ nl
     @ ''nextStateHash: '' @ rtr_NextStateHash report @ nl
     @ ''nextGeneration: '' @ Itoa (uint (rtr_NextGeneration report)) @ nl
     @ ''activeKeyIdHash: '' @ rtr_ActiveKeyIDHash report @ nl
     @ ''limitations: '' @ rtr_Limitations report @ nl
     @ concat (map (version_line ''remove'') (rtr_RemovedVersions report))
     @ concat (map (version_line ''restore'') (rtr_RestoredVersions report)))"

definition printRetirementReport :: "(retirementReport printed \<Rightarrow> unit res) \<Rightarrow> retirementReport \<Rightarrow> string \<Rightarrow> command_error option" where
  "printRetirementReport write report output =
    (if normalizeOutputFormat output = outputFormatJSON then uncoded (write (PrintedJSON report))
     else uncoded (write (PrintedText (retirement_text report))))"

text \<open>The part the two commands share after their flags are checked: output format, configuration, run, report.\<close>

definition retirement_command ::
  "command_env \<Rightarrow> config_env \<Rightarrow> (retirementReport printed \<Rightarrow> unit res) \<Rightarrow> string \<Rightarrow> string \<Rightarrow> retirementOptions \<Rightarrow> Disk \<Rightarrow>
     command_error option \<times> Disk" where
  "retirement_command env cenv write configPath output opts d =
    (if normalizeOutputFormat output \<noteq> outputFormatText \<and> normalizeOutputFormat output \<noteq> outputFormatJSON
     then (unsupportedOutputFormat output, d)
     else case loadAndValidateConfig cenv configPath False of
            Inl err \<Rightarrow> (Some err, d)
          | Inr cfg \<Rightarrow>
             (case runRetirement env cfg opts d of
                (Inl err, d) \<Rightarrow> (WithExitCode ExitCheckFailed (Some (Uncoded err)), d)
              | (Inr report, d) \<Rightarrow> (printRetirementReport write report output, d)))"

definition retireVersionsCommand ::
  "command_env \<Rightarrow> config_env \<Rightarrow> (retirementReport printed \<Rightarrow> unit res) \<Rightarrow> string \<Rightarrow> string \<Rightarrow> retirementOptions \<Rightarrow> Disk \<Rightarrow>
     command_error option \<times> Disk" where
  "retireVersionsCommand env cenv write configPath output opts d =
    (if rto_BeforeVersion opts \<le> 1 \<or> rto_Apply opts \<and> rto_ExpectedStateHash opts = []
     then (WithExitCode ExitUsage (Some (Uncoded (Msg
       ''--before-version must exceed 1; --apply also requires --expected-state-hash from a reviewed plan''))), d)
     else retirement_command env cenv write configPath output opts d)"

definition restoreVersionsCommand ::
  "command_env \<Rightarrow> config_env \<Rightarrow> (retirementReport printed \<Rightarrow> unit res) \<Rightarrow> string \<Rightarrow> string \<Rightarrow> retirementOptions \<Rightarrow> Disk \<Rightarrow>
     command_error option \<times> Disk" where
  "restoreVersionsCommand env cenv write configPath output opts d =
    (if elements (rto_RestoreVersions opts) = [] \<or> rto_Apply opts \<and> rto_ExpectedStateHash opts = []
     then (WithExitCode ExitUsage (Some (Uncoded (Msg
       ''--versions is required; --apply also requires --expected-state-hash from a reviewed plan''))), d)
     else retirement_command env cenv write configPath output opts d)"

section \<open>What the commands load and plan\<close>

lemma loadConfigured_Inr:
  assumes "loadConfiguredRegistryState cfg d = (loaded, Inr u)"
  shows "d_state d = Stored (rsl_State loaded)" "StateFile_Validate (rsl_State loaded) = Inr ()"
    "IdentityFingerprint_of cfg = Inr (IdentityFingerprint (rsl_State loaded))"
proof -
  have l: "loadRegistryStateWithCheckpoint d = (loaded, Inr ())"
    and f: "IdentityFingerprint_of cfg = Inr (IdentityFingerprint (rsl_State loaded))"
    using assms by (auto simp: loadConfiguredRegistryState_def split: prod.splits sum.splits if_splits)
  obtain reg where "LoadStateFile (d_state d) no_options = Inr (rsl_State loaded, reg)"
    using l by (auto simp: loadRegistryStateWithCheckpoint_def Let_def failIf_def split: sum.splits if_splits prod.splits)
  from LoadStateFile_Inr [OF this] f show "d_state d = Stored (rsl_State loaded)" "StateFile_Validate (rsl_State loaded) = Inr ()"
    "IdentityFingerprint_of cfg = Inr (IdentityFingerprint (rsl_State loaded))" by simp_all
qed

lemma new_records_successor:
  assumes "StateFile_Validate p = Inr ()"
    and "NewStateFileFromRecords (ActiveKeyID p) rs (Generation p + 1) (CurrentHash p) (IdentityFingerprint p) = Inr n"
  shows "successor p n" "ActiveKeyID n = ActiveKeyID p" "Snapshots n = map norm_rec rs"
  using successor_accepted [OF assms] assms by (auto simp: successor_def NewStateFileFromRecords_Inr)

text \<open>A plan keeps the state or is its successor, with the same active key and a record for each record.\<close>

lemma plan_cases:
  assumes "planRetirementTransition p opts = Inr n"
  shows "StateFile_Validate p = Inr ()" "n = p \<or> successor p n" "ActiveKeyID n = ActiveKeyID p" "length (Snapshots n) = length (Snapshots p)"
proof -
  have "StateFile_Validate p = Inr () \<and> (n = p \<or> successor p n) \<and> ActiveKeyID n = ActiveKeyID p \<and> length (Snapshots n) = length (Snapshots p)"
  proof (cases "rto_RestoreVersions opts")
    case None
    with assms have r: "RetireVersions p (rto_BeforeVersion opts) = Inr n" by (simp add: planRetirementTransition_def)
    note rv = RetireVersions_cases [OF r]
    from rv(3) show ?thesis using rv(1) new_records_successor [OF rv(1)] by auto
  next
    case (Some vs)
    with assms have "RestoreVersions p vs = Inr n" by (simp add: planRetirementTransition_def)
    then obtain rs where v: "StateFile_Validate p = Inr ()" and rr: "restore_records (rev vs) (Snapshots p) = Inr ([], rs)"
      and new: "NewStateFileFromRecords (ActiveKeyID p) rs (Generation p + 1) (CurrentHash p) (IdentityFingerprint p) = Inr n"
      by (auto simp: RestoreVersions_def select_versions_Inr)
    from restore_records_restates [OF rr] have "length rs = length (Snapshots p)" by (auto dest: list_all2_lengthD)
    with v new_records_successor [OF v new] show ?thesis by simp
  qed
  then show "StateFile_Validate p = Inr ()" "n = p \<or> successor p n" "ActiveKeyID n = ActiveKeyID p" "length (Snapshots n) = length (Snapshots p)"
    by simp_all
qed

lemma restored_versions_total: "length new \<le> length old \<Longrightarrow> \<exists>rs. restored_versions old new = Inr rs"
  by (induction old new rule: restored_versions.induct) auto

lemma restored_versions_none:
  assumes "restored_versions old new = Inr rs" "list_all2 (\<lambda>x y. r_State x = StateRemoved \<longrightarrow> r_State y \<noteq> StateRetired) old new"
  shows "rs = []"
  using assms by (induction old new arbitrary: rs rule: restored_versions.induct) auto

text \<open>The report of a plan is always complete: its loop never indexes beyond the previous state.\<close>

lemma report_total:
  assumes "planRetirementTransition p opts = Inr n"
  shows "\<exists>report. newRetirementReport p n b = Inr report"
  using restored_versions_total [of "Snapshots n" "Snapshots p"] plan_cases(4) [OF assms] by (auto simp: newRetirementReport_def)

lemma plan_retirement_Inr:
  assumes "plan_retirement env cfg opts d = Inr (p, n, report)"
  shows "d_state d = Stored p" "StateFile_Validate p = Inr ()" "planRetirementTransition p opts = Inr n"
    "newRetirementReport p n (rto_BeforeVersion opts) = Inr report"
    "rto_Apply opts \<longrightarrow> LockState (ce_lock env) (cf_State_Path cfg) = Inr () \<and> rto_ExpectedStateHash opts = CurrentHash p"
    "\<exists>profile. ce_profile env cfg = Inr profile \<and> validateRetirementProfile cfg n profile = Inr ()"
proof -
  obtain loaded err where l: "loadConfiguredRegistryState cfg d = (loaded, err)" by fastforce
  with assms have e: "err = Inr ()" and p: "p = rsl_State loaded" and "planRetirementTransition p opts = Inr n"
    "newRetirementReport p n (rto_BeforeVersion opts) = Inr report"
    "rto_Apply opts \<longrightarrow> LockState (ce_lock env) (cf_State_Path cfg) = Inr () \<and> rto_ExpectedStateHash opts = CurrentHash p"
    "\<exists>profile. ce_profile env cfg = Inr profile \<and> validateRetirementProfile cfg n profile = Inr ()"
    by (auto simp: plan_retirement_def Let_def split: sum.splits if_splits)
  with loadConfigured_Inr [of cfg d loaded "()"] l show "d_state d = Stored p" "StateFile_Validate p = Inr ()" "planRetirementTransition p opts = Inr n"
    "newRetirementReport p n (rto_BeforeVersion opts) = Inr report"
    "rto_Apply opts \<longrightarrow> LockState (ce_lock env) (cf_State_Path cfg) = Inr () \<and> rto_ExpectedStateHash opts = CurrentHash p"
    "\<exists>profile. ce_profile env cfg = Inr profile \<and> validateRetirementProfile cfg n profile = Inr ()"
    by simp_all
qed

section \<open>What applying leaves on the disk\<close>

lemma applyRetirementTransition_Inr:
  assumes "applyRetirementTransition ctx load save path p n d = (Inr u, d')" "d_state d = Stored p"
  shows "committed n d' \<or> committed p d' \<and> CurrentHash n = CurrentHash p"
proof -
  from assms obtain q d1 where l: "Load path load d = (Inr q, d1)" and q: "CurrentHash q = CurrentHash p"
    and s: "CurrentHash n = CurrentHash q \<and> d' = d1 \<or> Save path save d1 n = (Inr (), d')"
    by (auto simp: applyRetirementTransition_def split: sum.splits prod.splits if_splits)
  have "q = p" "committed q d1" using Load_Inr(1,2) [of path load d q] l assms(2) by simp_all
  with s Save_Inr [of path save d1 n d'] show ?thesis by auto
qed

text \<open>Failures of a load leave the disk as it is or committed.\<close>

lemma Load_Inl:
  assumes "fst (Load path env0 d) = Inr p" "Load path env d = (Inl e, d')"
  shows "d' = d \<or> committed p d'"
proof -
  note l0 = Load_Inr [OF assms(1)]
  have v: "StateFile_Validate p = Inr ()" using l0(2) by (simp add: committed_def)
  have "d' = d \<or> d' = snd (saveCheckpoint (snd env) d p)"
    using assms(2) l0(1) LoadStateFile_Stored [OF v]
    by (auto simp: Load_def Let_def case_prod_beta split: sum.splits if_splits)
  then show ?thesis
  proof
    assume "d' = snd (saveCheckpoint (snd env) d p)"
    moreover have "d\<lparr>d_checkpoint := Stored (checkpoint_of p)\<rparr> = \<lparr>d_state = Stored p, d_checkpoint = Stored (checkpoint_of p)\<rparr>"
      using l0(1) by (cases d) simp
    ultimately show ?thesis using v by (cases rule: saveCheckpoint_cases [OF v, of "snd env" d]) (auto simp: committed_def)
  qed simp
qed

text \<open>Loading after a save, complete or not, of the successor of a committed state.\<close>

lemma Load_after_Save:
  assumes "path \<noteq> []" "committed p d" "successor p n"
  shows "\<exists>s\<in>{p, n}. fst (Load path (no_fault, no_fault) (snd (Save path env d n))) = Inr s"
proof -
  have v: "StateFile_Validate n = Inr ()" using assms(3) by (simp add: successor_def)
  have d: "d = \<lparr>d_state = Stored p, d_checkpoint = Stored (checkpoint_of p)\<rparr>" using assms(2) by (simp add: committed_def)
  show ?thesis
  proof (cases rule: Save_cases [of path env d n])
    case (1 e)
    then show ?thesis using Load_committed [OF assms(1,2)] by simp
  next
    case (2 e)
    then show ?thesis using Load_ahead [OF assms(1,3), of "(no_fault, no_fault)"] v by (simp add: d saveCheckpoint_no_fault)
  next
    case (3 r)
    then have "committed n (snd (Save path env d n))" by (simp add: committed_def)
    then show ?thesis using Load_committed [OF assms(1)] by simp
  qed
qed

lemma applyRetirementTransition_loads:
  assumes "fst (Load path (no_fault, no_fault) d) = Inr p" "n = p \<or> successor p n"
  shows "\<exists>s\<in>{p, n}. fst (Load path (no_fault, no_fault) (snd (applyRetirementTransition ctx load save path p n d))) = Inr s"
proof -
  have path: "path \<noteq> []" using assms(1) by (auto simp: Load_def)
  have keep: "fst (Load path (no_fault, no_fault) d1) = Inr p" if "d1 = d \<or> committed p d1" for d1
    using that assms(1) Load_committed [OF path] by auto
  obtain r d1 where l: "Load path load d = (r, d1)" by fastforce
  show ?thesis
  proof (cases r)
    case (Inl e)
    with Load_Inl [OF assms(1)] l have "d1 = d \<or> committed p d1" by blast
    with keep l Inl assms(1) show ?thesis by (auto simp: applyRetirementTransition_def split: sum.split)
  next
    case (Inr q)
    have q: "q = p" "committed p d1" using Load_Inr(1,2) [of path load d q] Load_Inr(1) [OF assms(1)] l Inr by simp_all
    have after: "\<exists>s\<in>{p, n}. fst (Load path (no_fault, no_fault) (snd (Save path save d1 n))) = Inr s"
    proof (cases "n = p")
      case True
      then have "committed p (snd (Save path save d1 n))"
        using q(2) by (cases rule: Save_cases [of path save d1 n]) (auto simp: committed_def)
      then show ?thesis using keep by auto
    next
      case False
      with assms(2) Load_after_Save [OF path q(2)] show ?thesis by simp
    qed
    show ?thesis
      using l Inr q keep [of d1] after assms(1)
      by (auto simp: applyRetirementTransition_def split: sum.splits prod.splits)
  qed
qed

lemma retire_report:
  assumes "RetireVersions p b = Inr n" "newRetirementReport p n b = Inr report"
  shows "rtr_RestoredVersions report = []" "rtr_Operation report = ''retire-versions''" "rtr_StateHash report = CurrentHash p"
    "rtr_NextStateHash report = CurrentHash n"
    "rtr_RemovedVersions report = map version_report (filter (\<lambda>r. r_State r = StateRetired \<and> r_TransitVersion r < b) (Snapshots p))"
proof -
  from assms(2) obtain rs where rs: "restored_versions (Snapshots p) (Snapshots n) = Inr rs" and r: "rtr_RestoredVersions report = rs"
    "rtr_Operation report = (if rs = [] then ''retire-versions'' else ''restore-versions'')"
    "rtr_StateHash report = CurrentHash p" "rtr_NextStateHash report = CurrentHash n"
    "rtr_RemovedVersions report = map version_report (filter (\<lambda>r. r_State r = StateRetired \<and> r_TransitVersion r < b) (Snapshots p))"
    by (auto simp: newRetirementReport_def)
  have "map r_State (Snapshots n) = map (r_State \<circ> retire_record b) (Snapshots p)"
    using RetireVersions_cases(3) [OF assms(1)]
  proof
    assume "n = p \<and> map (retire_record b) (Snapshots p) = Snapshots p"
    then show ?thesis by (metis list.map_comp)
  next
    assume "NewStateFileFromRecords (ActiveKeyID p) (map (retire_record b) (Snapshots p)) (Generation p + 1) (CurrentHash p) (IdentityFingerprint p) = Inr n"
    from new_records_successor(3) [OF RetireVersions_cases(1) [OF assms(1)] this] show ?thesis by simp
  qed
  then have "list_all2 (\<lambda>x y. r_State y = r_State (retire_record b x)) (Snapshots p) (Snapshots n)"
    by (auto simp: list_all2_conv_all_nth list_eq_iff_nth_eq)
  then have "list_all2 (\<lambda>x y. r_State x = StateRemoved \<longrightarrow> r_State y \<noteq> StateRetired) (Snapshots p) (Snapshots n)"
    by (rule list_all2_mono) (auto simp: retire_record_def)
  from restored_versions_none [OF rs this] r show "rtr_RestoredVersions report = []" "rtr_Operation report = ''retire-versions''"
    "rtr_StateHash report = CurrentHash p" "rtr_NextStateHash report = CurrentHash n"
    "rtr_RemovedVersions report = map version_report (filter (\<lambda>r. r_State r = StateRetired \<and> r_TransitVersion r < b) (Snapshots p))" by simp_all
qed

section \<open>An example\<close>

definition ex_fingerprint :: string where
  "ex_fingerprint = ''cfg1.'' @ digest64 (json_object (configIdentityMaterial ex_config))"

definition ex_keys_unsealed :: StateFile where
  "ex_keys_unsealed = \<lparr>SchemaVersion = stateFileVersion, IdentityFingerprint = ex_fingerprint, Generation = 1, PreviousHash = [], CurrentHash = [],
     ActiveKeyID = ex_key 2, Snapshots = [ex_rec 1 StateRetired, ex_rec 2 StateActive]\<rparr>"

definition ex_keys :: StateFile where
  "ex_keys = ex_keys_unsealed\<lparr>CurrentHash := computeHash ex_keys_unsealed\<rparr>"

lemma ex_keys_simps [simp]:
  "SchemaVersion ex_keys = stateFileVersion" "IdentityFingerprint ex_keys = ex_fingerprint" "Generation ex_keys = 1" "PreviousHash ex_keys = []"
  "ActiveKeyID ex_keys = ex_key 2" "Snapshots ex_keys = [ex_rec 1 StateRetired, ex_rec 2 StateActive]" "CurrentHash ex_keys = computeHash ex_keys"
  by (simp_all add: ex_keys_def) (simp_all add: ex_keys_unsealed_def)

lemma ex_keys_valid [simp]: "StateFile_Validate ex_keys = Inr ()"
  using fingerprint_digest [of "json_object (configIdentityMaterial ex_config)"]
  by (auto simp: StateFile_Validate_Inr content_ok_def ex_fingerprint_def)

lemma ex_keys_retired:
  obtains n where "RetireVersions ex_keys 2 = Inr n" "StateFile_Validate n = Inr ()" "IdentityFingerprint n = ex_fingerprint" "ActiveKeyID n = ex_key 2"
    "Snapshots n = [ex_rec 1 StateRemoved, ex_rec 2 StateActive]"
proof -
  let ?rs = "[ex_rec 1 StateRemoved, ex_rec 2 StateActive]"
  have a: "ActiveSnapshot ex_keys = Inr (rec_snap (ex_rec 2 StateActive))" by (auto simp: ActiveSnapshot_Inr content_ok_def)
  have "list_all2 restates (Snapshots ex_keys) ?rs" by (simp add: restates_def)
  from successor_from_records [OF ex_keys_valid _ this] obtain n where
    n: "NewStateFileFromRecords (ActiveKeyID ex_keys) ?rs (Generation ex_keys + 1) (CurrentHash ex_keys) (IdentityFingerprint ex_keys) = Inr n"
    by auto
  then have "RetireVersions ex_keys 2 = Inr n" using a by (simp add: RetireVersions_def retire_record_def)
  moreover have "StateFile_Validate n = Inr ()" "IdentityFingerprint n = ex_fingerprint" "ActiveKeyID n = ex_key 2" "Snapshots n = ?rs"
    using n by (auto simp: NewStateFileFromRecords_Inr)
  ultimately show thesis by (rule that)
qed

lemma ex_config_observer:
  obtains ob where "newRotationObserver ex_config = Inr ob" "scope ob = config_scope ex_config ex_fingerprint"
proof -
  obtain ob where ob: "newRotationObserver ex_config = Inr ob" using observer_ok [OF ex_required ex_values] ..
  then have "scope ob = config_scope ex_config ex_fingerprint"
    using fingerprint_ok [OF ex_required]
    by (auto simp: newRotationObserver_def NewObserver_def ex_fingerprint_def Let_def AADModeRequired_def split: sum.splits)
  with ob show thesis by (rule that)
qed

lemma ex_retirement_profile:
  assumes "StateFile_Validate n = Inr ()" "IdentityFingerprint n = ex_fingerprint" "ActiveKeyID n = ex_key 2"
    "Snapshots n = [ex_rec 1 StateRemoved, ex_rec 2 StateActive]"
  shows "validateRetirementProfile ex_config n (ex_profile 2) = Inr ()"
proof -
  have a: "ActiveSnapshot n = Inr (rec_snap (ex_rec 2 StateActive))"
    using assms validated_content [OF assms(1)] by (auto simp: ActiveSnapshot_Inr)
  obtain ob where ob: "newRotationObserver ex_config = Inr ob" "scope ob = config_scope ex_config ex_fingerprint" by (rule ex_config_observer)
  have rs: "record_Snapshot (ex_rec v st) = Inr (normal_form (ex_version v st))" if "0 < v" "SnapshotState_Valid st" for v st
    using that by (simp add: ex_record_Snapshot)
  have "validate_record_scope (config_scope ex_config ex_fingerprint) (ex_rec v st) = Inr ()" if "0 < v" "SnapshotState_Valid st" for v st
    using that by (simp add: validate_record_scope_def rs) (simp add: config_scope_def ex_config_def ex_version_def normal_form_def Let_def)
  then have "validateStateScope ob n = Inr ()" using assms(2,4) ob(2) by (simp add: validateStateScope_def)
  moreover have "validateDecryptableState (ex_profile 2) n = Inr ()"
    using assms(4) by (simp add: validateDecryptableState_def validate_decryptable_record_def rs)
  ultimately show ?thesis using a ob(1) assms(1) by (simp add: validateRetirementProfile_def ValidateRecoveryProfile_def)
qed

definition ex_lock :: lock_env where
  "ex_lock = \<lparr>lk_open = None, lk_dirstat = Some (0, 0x1C0), lk_openat = None, lk_filestat = Some (True, 0x180, 0, 1), lk_held = False,
     lk_flock = None, lk_euid = 0\<rparr>"

definition ex_command_env :: command_env where
  "ex_command_env = \<lparr>ce_ctx = LiveContext, ce_lock = ex_lock, ce_load = (no_fault, no_fault), ce_save = (no_fault, no_fault),
     ce_profile = (\<lambda>_. Inr (ex_profile 2))\<rparr>"

definition ex_keys_disk :: Disk where
  "ex_keys_disk = \<lparr>d_state = Stored ex_keys, d_checkpoint = Stored (checkpoint_of ex_keys)\<rparr>"

definition ex_retire_options :: retirementOptions where
  "ex_retire_options = \<lparr>rto_BeforeVersion = 2, rto_Apply = True, rto_ExpectedStateHash = computeHash ex_keys, rto_RestoreVersions = None\<rparr>"

lemma ex_keys_loaded: "\<exists>loaded. loadConfiguredRegistryState ex_config ex_keys_disk = (loaded, Inr ()) \<and> rsl_State loaded = ex_keys"
proof -
  obtain reg where "LoadStateFile (Stored ex_keys) no_options = Inr (ex_keys, reg)" using LoadStateFile_Stored [of ex_keys] by auto
  then show ?thesis
    using fingerprint_ok [OF ex_required]
    by (simp add: loadConfiguredRegistryState_def loadRegistryStateWithCheckpoint_def ex_keys_disk_def LoadStateCheckpoint_of checkpoint_accepts_self
        ex_fingerprint_def Let_def)
qed

lemma ex_run_retirement:
  obtains report d' where "runRetirement ex_command_env ex_config ex_retire_options ex_keys_disk = (Inr report, d')"
    "rtr_RemovedVersions report = [version_report (ex_rec 1 StateRetired)]"
proof -
  obtain n where n: "RetireVersions ex_keys 2 = Inr n" "StateFile_Validate n = Inr ()" "IdentityFingerprint n = ex_fingerprint"
    "ActiveKeyID n = ex_key 2" "Snapshots n = [ex_rec 1 StateRemoved, ex_rec 2 StateActive]" by (rule ex_keys_retired)
  have pl: "planRetirementTransition ex_keys ex_retire_options = Inr n" using n(1) by (simp add: planRetirementTransition_def ex_retire_options_def)
  obtain report where rep: "newRetirementReport ex_keys n 2 = Inr report" using report_total [OF pl] by blast
  have lock: "LockState ex_lock (cf_State_Path ex_config) = Inr ()"
    by (simp add: LockState_def validateAndLockStateFile_def ex_lock_def ex_config_def IsAbs_def HasPrefix_def)
  obtain loaded where l: "loadConfiguredRegistryState ex_config ex_keys_disk = (loaded, Inr ())" "rsl_State loaded = ex_keys"
    using ex_keys_loaded by blast
  have hash: "computeHash ex_keys \<noteq> []" by (simp add: computeHash_def stateHashPrefix_def)
  have o: "rto_Apply ex_retire_options" "rto_ExpectedStateHash ex_retire_options = computeHash ex_keys" "rto_BeforeVersion ex_retire_options = 2"
    by (simp_all add: ex_retire_options_def)
  have e: "ce_lock ex_command_env = ex_lock" "ce_profile ex_command_env ex_config = Inr (ex_profile 2)" "ce_ctx ex_command_env = LiveContext"
    "ce_load ex_command_env = (no_fault, no_fault)" "ce_save ex_command_env = (no_fault, no_fault)"
    by (simp_all add: ex_command_env_def)
  have plan: "plan_retirement ex_command_env ex_config ex_retire_options ex_keys_disk = Inr (ex_keys, n, report)"
    using lock l hash pl rep ex_retirement_profile [OF n(2-5)] by (simp add: plan_retirement_def o e)
  have com: "committed ex_keys ex_keys_disk" by (simp add: committed_def ex_keys_disk_def)
  have path: "cf_State_Path ex_config \<noteq> []" by (simp add: ex_config_def)
  have "\<exists>d'. applyRetirementTransition LiveContext (no_fault, no_fault) (no_fault, no_fault) (cf_State_Path ex_config) ex_keys n ex_keys_disk = (Inr (), d')"
    using Load_committed [OF path com] Save_no_fault [OF path n(2)] by (simp add: applyRetirementTransition_def contextErr_def)
  with plan obtain d' where "runRetirement ex_command_env ex_config ex_retire_options ex_keys_disk = (Inr (report\<lparr>rtr_Applied := True\<rparr>), d')"
    by (auto simp: runRetirement_def o e)
  moreover have "rtr_RemovedVersions (report\<lparr>rtr_Applied := True\<rparr>) = [version_report (ex_rec 1 StateRetired)]"
    using retire_report(5) [OF n(1) rep] by simp
  ultimately show thesis by (rule that)
qed

section \<open>Main results\<close>

text \<open>
  C30 An applied retirement does what its reviewed plan says: it changes the state whose hash the operator reviewed, and no other; afterwards both files
  hold the next state; a key_id stops resolving only if the report lists its record, every listed record stops resolving, no
  key is restored, the active key stays, and Transit still has every version that the new state can decrypt with.
\<close>

theorem retirement_matches_report:
  assumes "runRetirement env cfg opts d = (Inr report, d')" and "rto_Apply opts" and "rto_RestoreVersions opts = None"
  shows "\<exists>p n. d_state d = Stored p \<and> rto_ExpectedStateHash opts = CurrentHash p \<and> rtr_StateHash report = CurrentHash p
     \<and> (committed n d' \<or> committed p d' \<and> CurrentHash n = CurrentHash p) \<and> rtr_NextStateHash report = CurrentHash n
     \<and> ActiveKeyID n = ActiveKeyID p \<and> rtr_Applied report \<and> rtr_RestoredVersions report = []
     \<and> (\<forall>k. resolves n k \<longrightarrow> resolves p k)
     \<and> (\<forall>k. resolves p k \<and> \<not> resolves n k \<longrightarrow>
          (\<exists>r\<in>set (Snapshots p). rec_id r = k \<and> version_report r \<in> set (rtr_RemovedVersions report)))
     \<and> (\<forall>v\<in>set (rtr_RemovedVersions report). \<exists>r\<in>set (Snapshots p). version_report r = v \<and> \<not> resolves n (rec_id r))
     \<and> (\<exists>profile ob. ce_profile env cfg = Inr profile \<and> newRotationObserver cfg = Inr ob \<and> validateDecryptableState profile n = Inr ())"
proof -
  from assms(1,2) obtain p n report0 where plan: "plan_retirement env cfg opts d = Inr (p, n, report0)"
    and app: "applyRetirementTransition (ce_ctx env) (ce_load env) (ce_save env) (cf_State_Path cfg) p n d = (Inr (), d')"
    and rep: "report = report0\<lparr>rtr_Applied := True\<rparr>"
    by (auto simp: runRetirement_def split: sum.splits prod.splits)
  note pl = plan_retirement_Inr [OF plan]
  have ret: "RetireVersions p (rto_BeforeVersion opts) = Inr n" using pl(3) assms(3) by (simp add: planRetirementTransition_def)
  note rr = retire_report [OF ret pl(4)] and ex = RetireVersions_exact [OF ret]
  obtain profile where prof: "ce_profile env cfg = Inr profile" "validateRetirementProfile cfg n profile = Inr ()" using pl(6) by blast
  then obtain ob where "newRotationObserver cfg = Inr ob" "validateDecryptableState profile n = Inr ()"
    by (auto simp: validateRetirementProfile_def ValidateRecoveryProfile_def)
  moreover have "\<exists>r\<in>set (Snapshots p). rec_id r = k \<and> version_report r \<in> set (rtr_RemovedVersions report0)" if "resolves p k" "\<not> resolves n k" for k
    using ex [of k] that rr(5) by fastforce
  moreover have "\<exists>r\<in>set (Snapshots p). version_report r = v \<and> \<not> resolves n (rec_id r)" if "v \<in> set (rtr_RemovedVersions report0)" for v
    using that ex rr(5) by fastforce
  ultimately show ?thesis
    using pl(1,5) assms(2) rep rr(1,3,4) ex prof(1) applyRetirementTransition_Inr [OF app pl(1)]
    by (intro exI [of _ p] exI [of _ n]) auto
qed

theorem retirement_matches_report_witness:
  "\<exists>report d' (p::StateFile) n. runRetirement ex_command_env ex_config ex_retire_options ex_keys_disk = (Inr report, d') \<and> ActiveKeyID n = ActiveKeyID p
     \<and> rtr_RemovedVersions report \<noteq> [] \<and> (\<forall>v\<in>set (rtr_RemovedVersions report). \<exists>r\<in>set (Snapshots p). version_report r = v \<and> \<not> resolves n (rec_id r))"
proof (rule ex_run_retirement)
  fix report d'
  assume run: "runRetirement ex_command_env ex_config ex_retire_options ex_keys_disk = (Inr report, d')"
    "rtr_RemovedVersions report = [version_report (ex_rec 1 StateRetired)]"
  have "rto_Apply ex_retire_options" "rto_RestoreVersions ex_retire_options = None" by (simp_all add: ex_retire_options_def)
  from retirement_matches_report [OF run(1) this] obtain p n :: StateFile where pn: "ActiveKeyID n = ActiveKeyID p"
    "\<forall>v\<in>set (rtr_RemovedVersions report). \<exists>r\<in>set (Snapshots p). version_report r = v \<and> \<not> resolves n (rec_id r)"
    by blast
  have "rtr_RemovedVersions report \<noteq> []" using run(2) by simp
  with run(1) pn show ?thesis by (intro exI conjI)
qed

text \<open>
  C31 The commands are atomic: from a disk that loads, whatever fails in the run that retirement and restoration share, the disk loads again, with the
  state it had or with exactly the planned one, and the latter only when the operator asked to apply a plan for the state on the
  disk while holding the lock. Planning changes nothing.
\<close>

theorem retirement_atomic:
  assumes "fst (Load (cf_State_Path cfg) (no_fault, no_fault) d) = Inr p"
  shows "\<exists>s. fst (Load (cf_State_Path cfg) (no_fault, no_fault) (snd (runRetirement env cfg opts d))) = Inr s
     \<and> (s = p \<or> rto_Apply opts \<and> rto_ExpectedStateHash opts = CurrentHash p \<and> LockState (ce_lock env) (cf_State_Path cfg) = Inr ()
           \<and> planRetirementTransition p opts = Inr s \<and> successor p s)
     \<and> (\<not> rto_Apply opts \<longrightarrow> snd (runRetirement env cfg opts d) = d)"
proof (cases "plan_retirement env cfg opts d")
  case (Inl e)
  then show ?thesis using assms by (simp add: runRetirement_def)
next
  case (Inr plan)
  obtain q n report where plan: "plan = (q, n, report)" by (cases plan) auto
  note pl = plan_retirement_Inr [OF Inr [unfolded plan]]
  have q: "q = p" using Load_Inr(1) [OF assms] pl(1) by simp
  let ?d = "snd (applyRetirementTransition (ce_ctx env) (ce_load env) (ce_save env) (cf_State_Path cfg) p n d)"
  have d': "snd (runRetirement env cfg opts d) = (if rto_Apply opts then ?d else d)"
    by (simp add: runRetirement_def Inr plan q split: prod.split sum.split)
  have step: "n = p \<or> successor p n" using plan_cases(2) [OF pl(3)] q by simp
  from applyRetirementTransition_loads [OF assms step] obtain s where s: "s \<in> {p, n}"
    "fst (Load (cf_State_Path cfg) (no_fault, no_fault) ?d) = Inr s" by blast
  show ?thesis using d' s assms pl(3,5) q step by (cases "rto_Apply opts") auto
qed

theorem retirement_atomic_witness:
  "\<exists>s. fst (Load ''/s'' (no_fault, no_fault) (snd (runRetirement (ex_command_env\<lparr>ce_save := (no_fault, no_fault\<lparr>e_sync := Some (Msg ''io'')\<rparr>)\<rparr>)
       ex_config ex_retire_options ex_keys_disk))) = Inr s \<and> (s = ex_keys \<or> successor ex_keys s)"
proof -
  have path: "cf_State_Path ex_config = ''/s''" by (simp add: ex_config_def)
  have "committed ex_keys ex_keys_disk" by (simp add: committed_def ex_keys_disk_def)
  then have "fst (Load (cf_State_Path ex_config) (no_fault, no_fault) ex_keys_disk) = Inr ex_keys" using Load_committed path by simp
  from retirement_atomic [OF this] show ?thesis unfolding path by blast
qed

end
