(* ===== verification/Encryption_Config.thy ===== *)
theory Encryption_Config
  imports Startup_Safety
begin

text \<open>
  The Kubernetes EncryptionConfiguration that points the API server at the provider: its validation by the doctor
  (\<^verbatim>\<open>internal/config/encryptionconfig.go\<close>) and the one the provider generates (\<^verbatim>\<open>internal/scaffold/encryptionconfig.go\<close>). The YAML text is
  left to its library: both sides are the decoded value. \<open>net.url.Parse\<close> and \<open>time.ParseDuration\<close> are inputs.
\<close>

section \<open>The configuration of the API server\<close>

record EncryptionKey =
  ek_Name :: string
  ek_Secret :: string

record SymmetricProvider =
  sp_Keys :: "EncryptionKey list"

record KMSProvider =
  km_APIVersion :: string
  km_Name :: string
  km_Endpoint :: string
  km_Timeout :: string
  km_CacheSize :: "int option"

text \<open>The pointers of an entry: KMS, identity and the three local ciphers.\<close>

record EncryptionProvider =
  ep_KMS :: "KMSProvider option"
  ep_Identity :: "unit option"
  ep_AESCBC :: "SymmetricProvider option"
  ep_AESGCM :: "SymmetricProvider option"
  ep_Secretbox :: "SymmetricProvider option"

record EncryptionResourceSelection =
  rs_Resources :: "string list"
  rs_Providers :: "EncryptionProvider list"

record EncryptionConfiguration =
  ec_APIVersion :: string
  ec_Kind :: string
  ec_Resources :: "EncryptionResourceSelection list"

record EncryptionValidationResult =
  er_KMSProviderCount :: nat
  er_IdentityFallback :: bool
  er_MatchedProviderName :: string
  er_MatchedEndpoint :: string

definition kubernetesEncryptionConfigAPIVersion :: string where "kubernetesEncryptionConfigAPIVersion = ''apiserver.config.k8s.io/v1''"
definition kubernetesEncryptionConfigKind :: string where "kubernetesEncryptionConfigKind = ''EncryptionConfiguration''"
definition kubernetesKMSAPIVersionV2 :: string where "kubernetesKMSAPIVersionV2 = ''v2''"
definition unixEndpointScheme :: string where "unixEndpointScheme = ''unix''"

definition resourceField :: "nat \<Rightarrow> string \<Rightarrow> string" where
  "resourceField resourceIndex field = ''encryptionConfig.resources['' @ Itoa (int resourceIndex) @ ''].'' @ field"

definition providerField :: "nat \<Rightarrow> nat \<Rightarrow> string" where
  "providerField resourceIndex providerIndex =
    ''encryptionConfig.resources['' @ Itoa (int resourceIndex) @ ''].providers['' @ Itoa (int providerIndex) @ '']''"

section \<open>Validation\<close>

fun symmetric_keys :: "string \<Rightarrow> nat \<Rightarrow> EncryptionKey list \<Rightarrow> ValidationProblem list" where
  "symmetric_keys field keyIndex [] = []"
| "symmetric_keys field keyIndex (key # rest) =
     problem_if (ek_Name key = [] \<or> ek_Secret key = []) (field @ ''.keys['' @ Itoa (int keyIndex) @ '']'') ''key name and secret are required''
     @ symmetric_keys field (Suc keyIndex) rest"

definition validateSymmetricProvider :: "string \<Rightarrow> SymmetricProvider \<Rightarrow> ValidationProblem list" where
  "validateSymmetricProvider field provider =
     problem_if (sp_Keys provider = []) (field @ ''.keys'') ''must contain at least one key'' @ symmetric_keys field 0 (sp_Keys provider)"

definition symmetric_entries :: "EncryptionProvider \<Rightarrow> SymmetricProvider list" where
  "symmetric_entries provider = map the (filter (\<lambda>p. p \<noteq> None) [ep_AESCBC provider, ep_AESGCM provider, ep_Secretbox provider])"

definition entry_count :: "EncryptionProvider \<Rightarrow> nat" where
  "entry_count provider =
     (if ep_KMS provider \<noteq> None then 1 else 0) + (if ep_Identity provider \<noteq> None then 1 else 0) + length (symmetric_entries provider)"

definition validateProviderEntry :: "nat \<Rightarrow> nat \<Rightarrow> EncryptionProvider \<Rightarrow> ValidationProblem list" where
  "validateProviderEntry resourceIndex providerIndex provider =
     concat (map (validateSymmetricProvider (providerField resourceIndex providerIndex)) (symmetric_entries provider))
     @ problem_if (entry_count provider \<noteq> 1) (providerField resourceIndex providerIndex) ''must configure exactly one provider type''"

definition validateKMSEndpoint :: "go_net \<Rightarrow> string \<Rightarrow> string \<Rightarrow> string option" where
  "validateKMSEndpoint net endpoint socketPath =
    (case gn_url_parse net endpoint of
       None \<Rightarrow> Some ''must be a unix URL''
     | Some parsed \<Rightarrow>
        if u_Scheme parsed \<noteq> unixEndpointScheme \<or> u_Path parsed = [] \<or> u_Host parsed \<noteq> []
        then Some ''must be a unix URL with an absolute socket path''
        else if socketPath \<noteq> [] \<and> u_Path parsed \<noteq> socketPath then Some ''must match server.socketPath''
        else None)"

definition validateKMSProvider ::
  "go_net \<Rightarrow> (string \<Rightarrow> int option) \<Rightarrow> Config \<Rightarrow> nat \<Rightarrow> nat \<Rightarrow> KMSProvider \<Rightarrow> EncryptionValidationResult \<Rightarrow>
     ValidationProblem list \<times> EncryptionValidationResult" where
  "validateKMSProvider net parseDuration cfg resourceIndex providerIndex kms result =
    (let field = providerField resourceIndex providerIndex;
         configured = km_Name kms = ks_ProviderName (tx_KeyIDScope (cf_Transit cfg));
         socketPath = (if configured then sv_SocketPath (cf_Server cfg) else []);
         v2 = km_APIVersion kms = kubernetesKMSAPIVersionV2
     in (problem_if (km_Name kms = []) (field @ ''.kms.name'') ''must not be empty''
         @ problem_if (km_APIVersion kms \<noteq> [] \<and> km_APIVersion kms \<noteq> ''v1'' \<and> \<not> v2) (field @ ''.kms.apiVersion'') ''must be v1 or v2''
         @ problem_if (configured \<and> \<not> v2) (field @ ''.kms.apiVersion'') ''must be v2 for the configured provider''
         @ problem_if (v2 \<and> km_CacheSize kms \<noteq> None) (field @ ''.kms.cachesize'') ''is only allowed for KMS v1 providers''
         @ (case validateKMSEndpoint net (km_Endpoint kms) socketPath of
              None \<Rightarrow> [] | Some err \<Rightarrow> appendProblem (field @ ''.kms.endpoint'') err)
         @ (if km_Timeout kms = [] then []
            else problem_if (case parseDuration (km_Timeout kms) of None \<Rightarrow> True | Some timeout \<Rightarrow> timeout \<le> 0)
                   (field @ ''.kms.timeout'') ''must be a positive duration''),
         if configured then result\<lparr>er_MatchedProviderName := km_Name kms, er_MatchedEndpoint := km_Endpoint kms\<rparr> else result))"

text \<open>The body of the loop over the entries of a resource.\<close>

definition provider_entry ::
  "go_net \<Rightarrow> (string \<Rightarrow> int option) \<Rightarrow> Config \<Rightarrow> nat \<Rightarrow> nat \<Rightarrow> EncryptionProvider \<Rightarrow> EncryptionValidationResult \<Rightarrow>
     ValidationProblem list \<times> EncryptionValidationResult" where
  "provider_entry net parseDuration cfg resourceIndex providerIndex provider result =
    (let (problems, result) =
       (if ep_Identity provider \<noteq> None then ([], result\<lparr>er_IdentityFallback := True\<rparr>)
        else case ep_KMS provider of
               None \<Rightarrow> ([], result)
             | Some kms \<Rightarrow>
                 validateKMSProvider net parseDuration cfg resourceIndex providerIndex kms
                   (result\<lparr>er_KMSProviderCount := er_KMSProviderCount result + 1\<rparr>))
     in (validateProviderEntry resourceIndex providerIndex provider @ problems, result))"

fun provider_entries ::
  "go_net \<Rightarrow> (string \<Rightarrow> int option) \<Rightarrow> Config \<Rightarrow> nat \<Rightarrow> nat \<Rightarrow> EncryptionProvider list \<Rightarrow> EncryptionValidationResult \<Rightarrow>
     ValidationProblem list \<times> EncryptionValidationResult" where
  "provider_entries net parseDuration cfg resourceIndex providerIndex [] result = ([], result)"
| "provider_entries net parseDuration cfg resourceIndex providerIndex (provider # rest) result =
    (let (problems, result) = provider_entry net parseDuration cfg resourceIndex providerIndex provider result;
         (more, result) = provider_entries net parseDuration cfg resourceIndex (Suc providerIndex) rest result
     in (problems @ more, result))"

fun resource_entries ::
  "go_net \<Rightarrow> (string \<Rightarrow> int option) \<Rightarrow> Config \<Rightarrow> nat \<Rightarrow> EncryptionResourceSelection list \<Rightarrow> EncryptionValidationResult \<Rightarrow>
     ValidationProblem list \<times> EncryptionValidationResult" where
  "resource_entries net parseDuration cfg resourceIndex [] result = ([], result)"
| "resource_entries net parseDuration cfg resourceIndex (resource # rest) result =
    (let (problems, result) = provider_entries net parseDuration cfg resourceIndex 0 (rs_Providers resource) result;
         (more, result) = resource_entries net parseDuration cfg (Suc resourceIndex) rest result
     in (problem_if (rs_Resources resource = []) (resourceField resourceIndex ''resources'') ''must not be empty''
         @ problem_if (rs_Providers resource = []) (resourceField resourceIndex ''providers'') ''must not be empty''
         @ problems @ more, result))"

definition zero_encryption_result :: EncryptionValidationResult where
  "zero_encryption_result = \<lparr>er_KMSProviderCount = 0, er_IdentityFallback = False, er_MatchedProviderName = [], er_MatchedEndpoint = []\<rparr>"

text \<open>The problems that \<open>ValidateEncryptionConfiguration\<close> collects; its error is nil exactly when there are none.\<close>

definition ValidateEncryptionConfiguration ::
  "go_net \<Rightarrow> (string \<Rightarrow> int option) \<Rightarrow> Config \<Rightarrow> EncryptionConfiguration \<Rightarrow> bool \<Rightarrow> EncryptionValidationResult \<times> ValidationProblem list" where
  "ValidateEncryptionConfiguration net parseDuration cfg encryptionConfig allowIdentityFallback =
    (let (problems, result) = resource_entries net parseDuration cfg 0 (ec_Resources encryptionConfig) zero_encryption_result
     in (result,
         problem_if (ec_APIVersion encryptionConfig \<noteq> kubernetesEncryptionConfigAPIVersion) ''encryptionConfig.apiVersion''
           ''must be apiserver.config.k8s.io/v1''
         @ problem_if (ec_Kind encryptionConfig \<noteq> kubernetesEncryptionConfigKind) ''encryptionConfig.kind'' ''must be EncryptionConfiguration''
         @ problem_if (ec_Resources encryptionConfig = []) ''encryptionConfig.resources'' ''must contain at least one resource entry''
         @ problems
         @ problem_if (er_KMSProviderCount result = 0) ''encryptionConfig.providers'' ''must contain a kms provider''
         @ problem_if (er_MatchedProviderName result = []) ''encryptionConfig.providers.kms.name'' ''must include the configured KMS provider''
         @ problem_if (er_IdentityFallback result \<and> \<not> allowIdentityFallback) ''encryptionConfig.identity'' ''identity fallback is not allowed''))"

section \<open>Generation\<close>

definition DefaultKMSTimeout :: string where "DefaultKMSTimeout = ''3s''"

definition no_entry :: EncryptionProvider where
  "no_entry = \<lparr>ep_KMS = None, ep_Identity = None, ep_AESCBC = None, ep_AESGCM = None, ep_Secretbox = None\<rparr>"

definition renderEncryptionConfig :: "Config \<Rightarrow> bool \<Rightarrow> EncryptionConfiguration" where
  "renderEncryptionConfig cfg identityFirst =
    (let kms = no_entry\<lparr>ep_KMS := Some \<lparr>km_APIVersion = ''v2'', km_Name = ks_ProviderName (tx_KeyIDScope (cf_Transit cfg)),
           km_Endpoint = ''unix://'' @ sv_SocketPath (cf_Server cfg), km_Timeout = DefaultKMSTimeout, km_CacheSize = None\<rparr>\<rparr>;
         plain = no_entry\<lparr>ep_Identity := Some ()\<rparr>
     in \<lparr>ec_APIVersion = ''apiserver.config.k8s.io/v1'', ec_Kind = ''EncryptionConfiguration'',
         ec_Resources = [\<lparr>rs_Resources = [''secrets''], rs_Providers = (if identityFirst then [plain, kms] else [kms, plain])\<rparr>]\<rparr>)"

definition RenderEncryptionConfig :: "Config \<Rightarrow> EncryptionConfiguration" where
  "RenderEncryptionConfig cfg = renderEncryptionConfig cfg False"

definition RenderEncryptionReaderConfig :: "Config \<Rightarrow> EncryptionConfiguration" where
  "RenderEncryptionReaderConfig cfg = renderEncryptionConfig cfg True"


section \<open>What validation accepts\<close>

text \<open>
  The contract of an accepted configuration, without indices and problem lists. A KMS entry under the name of the provider uses
  version 2 of the protocol and the socket of the provider; every entry is exactly one kind of provider.
\<close>

definition unix_endpoint :: "go_net \<Rightarrow> string \<Rightarrow> string \<Rightarrow> bool" where
  "unix_endpoint net endpoint target \<longleftrightarrow> (\<exists>u. gn_url_parse net endpoint = Some u \<and> u_Scheme u = ''unix'' \<and> u_Host u = [] \<and> u_Path u = target)"

definition kms_entry_ok :: "go_net \<Rightarrow> (string \<Rightarrow> int option) \<Rightarrow> Config \<Rightarrow> KMSProvider \<Rightarrow> bool" where
  "kms_entry_ok net parseDuration cfg kms \<longleftrightarrow>
     km_Name kms \<noteq> []
   \<and> (if km_Name kms = ks_ProviderName (tx_KeyIDScope (cf_Transit cfg)) then km_APIVersion kms = ''v2'' else km_APIVersion kms \<in> {[], ''v1'', ''v2''})
   \<and> (km_APIVersion kms = ''v2'' \<longrightarrow> km_CacheSize kms = None)
   \<and> (\<exists>target. target \<noteq> [] \<and> unix_endpoint net (km_Endpoint kms) target
        \<and> (km_Name kms = ks_ProviderName (tx_KeyIDScope (cf_Transit cfg)) \<longrightarrow> sv_SocketPath (cf_Server cfg) \<noteq> [] \<longrightarrow> target = sv_SocketPath (cf_Server cfg)))
   \<and> (km_Timeout kms \<noteq> [] \<longrightarrow> (\<exists>t > 0. parseDuration (km_Timeout kms) = Some t))"

definition keys_complete :: "SymmetricProvider \<Rightarrow> bool" where
  "keys_complete provider \<longleftrightarrow> sp_Keys provider \<noteq> [] \<and> (\<forall>key \<in> set (sp_Keys provider). ek_Name key \<noteq> [] \<and> ek_Secret key \<noteq> [])"

definition entry_ok :: "go_net \<Rightarrow> (string \<Rightarrow> int option) \<Rightarrow> Config \<Rightarrow> EncryptionProvider \<Rightarrow> bool" where
  "entry_ok net parseDuration cfg p \<longleftrightarrow>
     (\<exists>kms. p = no_entry\<lparr>ep_KMS := Some kms\<rparr> \<and> kms_entry_ok net parseDuration cfg kms)
   \<or> p = no_entry\<lparr>ep_Identity := Some ()\<rparr>
   \<or> (\<exists>s. keys_complete s \<and> p \<in> {no_entry\<lparr>ep_AESCBC := Some s\<rparr>, no_entry\<lparr>ep_AESGCM := Some s\<rparr>, no_entry\<lparr>ep_Secretbox := Some s\<rparr>})"

definition encryption_entries :: "EncryptionConfiguration \<Rightarrow> EncryptionProvider list" where
  "encryption_entries ec = concat (map rs_Providers (ec_Resources ec))"

definition encryption_config_safe :: "go_net \<Rightarrow> (string \<Rightarrow> int option) \<Rightarrow> Config \<Rightarrow> EncryptionConfiguration \<Rightarrow> bool" where
  "encryption_config_safe net parseDuration cfg ec \<longleftrightarrow>
     ec_APIVersion ec = ''apiserver.config.k8s.io/v1'' \<and> ec_Kind ec = ''EncryptionConfiguration''
   \<and> (\<forall>r \<in> set (ec_Resources ec). rs_Resources r \<noteq> [] \<and> rs_Providers r \<noteq> [])
   \<and> (\<forall>p \<in> set (encryption_entries ec). entry_ok net parseDuration cfg p)
   \<and> (\<exists>p \<in> set (encryption_entries ec). \<exists>kms. ep_KMS p = Some kms \<and> km_Name kms = ks_ProviderName (tx_KeyIDScope (cf_Transit cfg)))"

definition plaintext_provider :: "EncryptionConfiguration \<Rightarrow> bool" where
  "plaintext_provider ec \<longleftrightarrow> (\<exists>p \<in> set (encryption_entries ec). ep_Identity p \<noteq> None)"

lemma symmetric_keys_Nil: "symmetric_keys field i keys = [] \<longleftrightarrow> (\<forall>key \<in> set keys. ek_Name key \<noteq> [] \<and> ek_Secret key \<noteq> [])"
  by (induction keys arbitrary: i) auto

lemma validateSymmetricProvider_Nil [simp]: "validateSymmetricProvider field s = [] \<longleftrightarrow> keys_complete s"
  by (auto simp: validateSymmetricProvider_def symmetric_keys_Nil keys_complete_def)

lemma validateKMSEndpoint_None:
  "validateKMSEndpoint net endpoint path = None \<longleftrightarrow> (\<exists>target. target \<noteq> [] \<and> unix_endpoint net endpoint target \<and> (path \<noteq> [] \<longrightarrow> target = path))"
  by (auto simp: validateKMSEndpoint_def unix_endpoint_def unixEndpointScheme_def split: option.splits)

text \<open>The kind of an entry decides; an entry of two kinds is refused by the count.\<close>

lemma entry_ok_iff:
  "entry_ok net parseDuration cfg p \<longleftrightarrow>
     validateProviderEntry i j p = [] \<and> (ep_Identity p = None \<longrightarrow> (\<forall>kms. ep_KMS p = Some kms \<longrightarrow> kms_entry_ok net parseDuration cfg kms))"
  by (cases p; cases "ep_KMS p"; cases "ep_Identity p"; cases "ep_AESCBC p"; cases "ep_AESGCM p"; cases "ep_Secretbox p")
    (auto simp: entry_ok_def validateProviderEntry_def symmetric_entries_def entry_count_def no_entry_def)

lemma validateKMSProvider_Nil:
  "fst (validateKMSProvider net parseDuration cfg i j kms result) = [] \<longleftrightarrow> kms_entry_ok net parseDuration cfg kms"
proof -
  have endpoint: "(case r of None \<Rightarrow> [] | Some err \<Rightarrow> appendProblem f err) = [] \<longleftrightarrow> r = None" for r f by (cases r) simp_all
  have timeout: "(case r of None \<Rightarrow> True | Some t \<Rightarrow> t \<le> 0) \<longleftrightarrow> \<not> (\<exists>t > 0. r = Some t)" for r :: "int option" by (cases r) auto
  show ?thesis
    by (auto simp: validateKMSProvider_def kms_entry_ok_def Let_def endpoint timeout validateKMSEndpoint_None kubernetesKMSAPIVersionV2_def
        cong: if_cong)
qed

lemma validateKMSProvider_result [simp]:
  "snd (validateKMSProvider net parseDuration cfg i j kms result) =
    (if km_Name kms = ks_ProviderName (tx_KeyIDScope (cf_Transit cfg))
     then result\<lparr>er_MatchedProviderName := km_Name kms, er_MatchedEndpoint := km_Endpoint kms\<rparr> else result)"
  by (simp add: validateKMSProvider_def Let_def)

definition kms_of :: "EncryptionProvider \<Rightarrow> KMSProvider list" where
  "kms_of p = (case ep_KMS p of Some kms \<Rightarrow> if ep_Identity p = None then [kms] else [] | None \<Rightarrow> [])"

lemma kms_of_iff: "kms \<in> set (kms_of p) \<longleftrightarrow> ep_KMS p = Some kms \<and> ep_Identity p = None"
  by (auto simp: kms_of_def split: option.split)

definition configured_kms :: "Config \<Rightarrow> EncryptionProvider list \<Rightarrow> bool" where
  "configured_kms cfg ps \<longleftrightarrow> (\<exists>kms \<in> set (concat (map kms_of ps)). km_Name kms = ks_ProviderName (tx_KeyIDScope (cf_Transit cfg)))"

lemma provider_entry_spec:
  "fst (provider_entry net parseDuration cfg i j p result) = [] \<longleftrightarrow> entry_ok net parseDuration cfg p"
  "er_KMSProviderCount (snd (provider_entry net parseDuration cfg i j p result)) = er_KMSProviderCount result + length (kms_of p)"
  "er_IdentityFallback (snd (provider_entry net parseDuration cfg i j p result)) \<longleftrightarrow> er_IdentityFallback result \<or> ep_Identity p \<noteq> None"
  "er_MatchedProviderName (snd (provider_entry net parseDuration cfg i j p result)) =
     (if configured_kms cfg [p] then ks_ProviderName (tx_KeyIDScope (cf_Transit cfg)) else er_MatchedProviderName result)"
proof -
  show "fst (provider_entry net parseDuration cfg i j p result) = [] \<longleftrightarrow> entry_ok net parseDuration cfg p"
    unfolding entry_ok_iff [of net parseDuration cfg p i j]
    by (cases "ep_KMS p"; cases "ep_Identity p") (simp_all add: provider_entry_def case_prod_beta validateKMSProvider_Nil)
qed (cases "ep_KMS p"; cases "ep_Identity p"; simp add: provider_entry_def case_prod_beta kms_of_def configured_kms_def)+

lemma configured_kms_simps [simp]:
  "\<not> configured_kms cfg []" "configured_kms cfg (ps @ qs) \<longleftrightarrow> configured_kms cfg ps \<or> configured_kms cfg qs"
  "NO_MATCH [] ps \<Longrightarrow> configured_kms cfg (p # ps) \<longleftrightarrow> configured_kms cfg [p] \<or> configured_kms cfg ps"
  by (auto simp: configured_kms_def)

lemma provider_entries_spec:
  "fst (provider_entries net parseDuration cfg i j ps result) = [] \<longleftrightarrow> (\<forall>p \<in> set ps. entry_ok net parseDuration cfg p)"
  "er_KMSProviderCount (snd (provider_entries net parseDuration cfg i j ps result)) = er_KMSProviderCount result + length (concat (map kms_of ps))"
  "er_IdentityFallback (snd (provider_entries net parseDuration cfg i j ps result)) \<longleftrightarrow> er_IdentityFallback result \<or> (\<exists>p \<in> set ps. ep_Identity p \<noteq> None)"
  "er_MatchedProviderName (snd (provider_entries net parseDuration cfg i j ps result)) =
     (if configured_kms cfg ps then ks_ProviderName (tx_KeyIDScope (cf_Transit cfg)) else er_MatchedProviderName result)"
  by (induction ps arbitrary: j result) (simp_all add: Let_def case_prod_beta provider_entry_spec)

lemma resource_entries_spec:
  fixes rs :: "EncryptionResourceSelection list"
  defines "ps \<equiv> concat (map rs_Providers rs)"
  shows "fst (resource_entries net parseDuration cfg i rs result) = [] \<longleftrightarrow>
      (\<forall>r \<in> set rs. rs_Resources r \<noteq> [] \<and> rs_Providers r \<noteq> []) \<and> (\<forall>p \<in> set ps. entry_ok net parseDuration cfg p)"
    "er_KMSProviderCount (snd (resource_entries net parseDuration cfg i rs result)) = er_KMSProviderCount result + length (concat (map kms_of ps))"
    "er_IdentityFallback (snd (resource_entries net parseDuration cfg i rs result)) \<longleftrightarrow> er_IdentityFallback result \<or> (\<exists>p \<in> set ps. ep_Identity p \<noteq> None)"
    "er_MatchedProviderName (snd (resource_entries net parseDuration cfg i rs result)) =
      (if configured_kms cfg ps then ks_ProviderName (tx_KeyIDScope (cf_Transit cfg)) else er_MatchedProviderName result)"
  unfolding ps_def
proof (induction rs arbitrary: i result)
  case (Cons r rs)
  {
    case 1
    then show ?case using Cons.IH(1) by (auto simp: Let_def case_prod_beta provider_entries_spec)
  next
    case 2
    then show ?case using Cons.IH(2) by (simp add: Let_def case_prod_beta provider_entries_spec)
  next
    case 3
    then show ?case using Cons.IH(3) by (auto simp: Let_def case_prod_beta provider_entries_spec)
  next
    case 4
    then show ?case using Cons.IH(4) by (simp add: Let_def case_prod_beta provider_entries_spec)
  }
qed simp_all


lemma configured_kms_entries:
  assumes "\<forall>p \<in> set ps. entry_ok net parseDuration cfg p"
  shows "configured_kms cfg ps \<longleftrightarrow> (\<exists>p \<in> set ps. \<exists>kms. ep_KMS p = Some kms \<and> km_Name kms = ks_ProviderName (tx_KeyIDScope (cf_Transit cfg)))"
    (is "_ \<longleftrightarrow> ?ex")
proof
  assume ?ex
  then obtain p kms where p: "p \<in> set ps" "ep_KMS p = Some kms" "km_Name kms = ks_ProviderName (tx_KeyIDScope (cf_Transit cfg))" by blast
  from assms p(1) have "entry_ok net parseDuration cfg p" by blast
  then have "ep_Identity p = None" using p(2) unfolding entry_ok_def by (elim disjE exE conjE) (auto simp: no_entry_def)
  with p show "configured_kms cfg ps" unfolding configured_kms_def using kms_of_iff [of kms p] by auto
qed (fastforce simp: configured_kms_def kms_of_iff)

section \<open>Main results\<close>

text \<open>
  The validation of an EncryptionConfiguration accepts exactly the safe ones: every entry is one kind of provider with complete
  settings, the configured provider is there, under KMS v2 and on the socket of this provider, and a plaintext provider only
  where the caller allows it. The result tells the caller whether there is a plaintext provider.
\<close>

lemma encryption_config_exact:
  "(snd (ValidateEncryptionConfiguration net parseDuration cfg ec allowIdentity) = [] \<longleftrightarrow>
      encryption_config_safe net parseDuration cfg ec \<and> ks_ProviderName (tx_KeyIDScope (cf_Transit cfg)) \<noteq> [] \<and> (plaintext_provider ec \<le> allowIdentity))
   \<and> er_IdentityFallback (fst (ValidateEncryptionConfiguration net parseDuration cfg ec allowIdentity)) = plaintext_provider ec"
proof -
  let ?v = "ValidateEncryptionConfiguration net parseDuration cfg ec allowIdentity"
  have fallback: "er_IdentityFallback (fst ?v) = plaintext_provider ec"
    by (simp add: ValidateEncryptionConfiguration_def case_prod_beta resource_entries_spec zero_encryption_result_def plaintext_provider_def
        encryption_entries_def)
  have "snd ?v = [] \<longleftrightarrow> encryption_config_safe net parseDuration cfg ec \<and> ks_ProviderName (tx_KeyIDScope (cf_Transit cfg)) \<noteq> []
      \<and> (plaintext_provider ec \<le> allowIdentity)"
  proof (cases "\<forall>p \<in> set (encryption_entries ec). entry_ok net parseDuration cfg p")
    case False
    then show ?thesis
      by (auto simp: ValidateEncryptionConfiguration_def case_prod_beta resource_entries_spec encryption_config_safe_def encryption_entries_def)
  next
    case True
    have "concat (map kms_of (encryption_entries ec)) \<noteq> []" if "configured_kms cfg (encryption_entries ec)"
      using that unfolding configured_kms_def by (metis empty_iff list.set(1))
    moreover have "ec_Resources ec \<noteq> []" if "configured_kms cfg (encryption_entries ec)"
      using that by (auto simp: encryption_entries_def)
    ultimately show ?thesis using True configured_kms_entries [OF True]
      by (auto simp: ValidateEncryptionConfiguration_def case_prod_beta resource_entries_spec zero_encryption_result_def encryption_config_safe_def
          plaintext_provider_def kubernetesEncryptionConfigAPIVersion_def kubernetesEncryptionConfigKind_def simp flip: encryption_entries_def)
  qed
  with fallback show ?thesis by simp
qed


text \<open>
  The two files the provider generates for the API server pass its own doctor: for every configuration that validates, both are
  accepted with the identity reader they contain, and both are refused once plaintext is no longer allowed. The hypotheses are that
  \<open>url.Parse\<close> splits the endpoint into scheme and path and that \<open>time.ParseDuration\<close> reads three seconds.
\<close>

lemma generated_encryption_config_accepted:
  assumes "Validate net spiffe text_of lstat cfg opts = []"
    and "unix_endpoint net (''unix://'' @ sv_SocketPath (cf_Server cfg)) (sv_SocketPath (cf_Server cfg))"
    and "parseDuration ''3s'' = Some 3000000000"
    and "ec = RenderEncryptionConfig cfg \<or> ec = RenderEncryptionReaderConfig cfg"
  shows "snd (ValidateEncryptionConfiguration net parseDuration cfg ec True) = []
    \<and> snd (ValidateEncryptionConfiguration net parseDuration cfg ec False) = appendProblem ''encryptionConfig.identity'' ''identity fallback is not allowed''
    \<and> fst (ValidateEncryptionConfiguration net parseDuration cfg ec True) =
        \<lparr>er_KMSProviderCount = 1, er_IdentityFallback = True, er_MatchedProviderName = ks_ProviderName (tx_KeyIDScope (cf_Transit cfg)),
         er_MatchedEndpoint = ''unix://'' @ sv_SocketPath (cf_Server cfg)\<rparr>"
proof -
  have req: "ks_ProviderName (tx_KeyIDScope (cf_Transit cfg)) \<noteq> []" "sv_SocketPath (cf_Server cfg) \<noteq> []"
    using assms(1) by (auto simp: Validate_Nil validateRequired_def Let_def)
  obtain u where u: "gn_url_parse net (''unix://'' @ sv_SocketPath (cf_Server cfg)) = Some u" "u_Scheme u = ''unix''" "u_Host u = []"
    "u_Path u = sv_SocketPath (cf_Server cfg)" using assms(2) by (auto simp: unix_endpoint_def)
  show ?thesis
    using assms(4) u req assms(3)
    by (elim disjE) (simp_all add: RenderEncryptionConfig_def RenderEncryptionReaderConfig_def renderEncryptionConfig_def
        ValidateEncryptionConfiguration_def validateKMSProvider_def validateKMSEndpoint_def validateProviderEntry_def provider_entry_def
        symmetric_entries_def entry_count_def no_entry_def DefaultKMSTimeout_def zero_encryption_result_def Let_def problem_if_def
        kubernetesEncryptionConfigAPIVersion_def kubernetesEncryptionConfigKind_def kubernetesKMSAPIVersionV2_def unixEndpointScheme_def)
qed

definition ex_unix_net :: go_net where
  "ex_unix_net = ex_net\<lparr>gn_url_parse := (\<lambda>s. if HasPrefix s ''unix://''
     then Some \<lparr>u_Scheme = ''unix'', u_Opaque = [], u_User = False, u_Host = [], u_Path = drop 7 s, u_RawQuery = [], u_Fragment = [], u_String = s\<rparr>
     else ex_url s)\<rparr>"

definition ex_parse_duration :: "string \<Rightarrow> int option" where
  "ex_parse_duration s = (if s = ''3s'' then Some 3000000000 else None)"

end
