(* ===== verification/Transit_Policy.thy ===== *)
theory Transit_Policy
  imports Startup_Safety
begin

text \<open>
  The OpenBao policy of the provider: the one it generates (\<^verbatim>\<open>internal/scaffold/policy.go\<close>) and the check of the token's capabilities by the
  diagnostic commands (\<^verbatim>\<open>cmd/bao-kms-provider/diagnostics.go\<close>). How OpenBao evaluates a policy is a hypothesis: a path that a
  stanza names has the capabilities of that stanza, every other path is denied.
\<close>

section \<open>The generated policy\<close>

record PolicyPaths =
  pp_Metadata :: string
  pp_Encrypt :: string
  pp_Decrypt :: string
  pp_DisableUpsert :: string
  pp_CapabilitiesSelf :: string
  pp_RenewSelf :: string

record policyStanza =
  pz_Path :: string
  pz_Capabilities :: "string list"
  pz_Comment :: string

definition OpenBaoPolicyPaths :: "Config \<Rightarrow> PolicyPaths" where
  "OpenBaoPolicyPaths cfg =
    (let mountPath = tx_MountPath (cf_Transit cfg); keyName = tx_KeyName (cf_Transit cfg) in
     \<lparr>pp_Metadata = path_Join [mountPath, ''keys'', keyName], pp_Encrypt = path_Join [mountPath, ''encrypt'', keyName],
      pp_Decrypt = path_Join [mountPath, ''decrypt'', keyName], pp_DisableUpsert = path_Join [mountPath, ''config'', ''keys''],
      pp_CapabilitiesSelf = path_Join [''sys'', ''capabilities-self''], pp_RenewSelf = path_Join [''auth'', ''token'', ''renew-self'']\<rparr>)"

definition policy_stanzas :: "Config \<Rightarrow> bool \<Rightarrow> policyStanza list" where
  "policy_stanzas cfg includeTokenRenewal =
    (let paths = OpenBaoPolicyPaths cfg in
     [\<lparr>pz_Path = pp_Metadata paths, pz_Capabilities = [''read''], pz_Comment = ''Read Transit key metadata.''\<rparr>,
      \<lparr>pz_Path = pp_Encrypt paths, pz_Capabilities = [''update''], pz_Comment = ''Encrypt with the existing key.''\<rparr>,
      \<lparr>pz_Path = pp_Decrypt paths, pz_Capabilities = [''update''], pz_Comment = ''Decrypt existing ciphertext.''\<rparr>,
      \<lparr>pz_Path = pp_DisableUpsert paths, pz_Capabilities = [''read''], pz_Comment = ''Inspect Transit disable_upsert.''\<rparr>,
      \<lparr>pz_Path = pp_CapabilitiesSelf paths, pz_Capabilities = [''update''],
       pz_Comment = ''Allow doctor to inspect this token's capabilities.''\<rparr>]
     @ (if includeTokenRenewal
        then [\<lparr>pz_Path = pp_RenewSelf paths, pz_Capabilities = [''update''],
               pz_Comment = ''Allow token renewal when the auth role disables the default policy.''\<rparr>]
        else []))"

text \<open>The text of the policy; \<open>quote\<close> is \<open>strconv.Quote\<close>.\<close>

definition quotedList :: "(string \<Rightarrow> string) \<Rightarrow> string list \<Rightarrow> string" where
  "quotedList quote values = Join (map quote values) '', ''"

definition stanza_text :: "(string \<Rightarrow> string) \<Rightarrow> policyStanza \<Rightarrow> string" where
  "stanza_text quote stanza =
    (let nl = [CHR 0x0A] in
     ''# '' @ pz_Comment stanza @ nl @ ''path '' @ quote (pz_Path stanza) @ '' {'' @ nl
     @ ''  capabilities = ['' @ quotedList quote (pz_Capabilities stanza) @ '']'' @ nl @ ''}'' @ nl @ nl)"

definition WriteOpenBaoPolicy :: "(string \<Rightarrow> string) \<Rightarrow> Config \<Rightarrow> bool \<Rightarrow> string" where
  "WriteOpenBaoPolicy quote cfg includeTokenRenewal = concat (map (stanza_text quote) (policy_stanzas cfg includeTokenRenewal))"

section \<open>The check of the capabilities\<close>

record transitCapabilityPathSet =
  tp_metadata :: string
  tp_encrypt :: string
  tp_decrypt :: string
  tp_rotate :: string
  tp_export :: string
  tp_backup :: string
  tp_keyConfig :: string
  tp_mountConfig :: string
  tp_trim :: string
  tp_restore :: string
  tp_restoreNamed :: string
  tp_rewrap :: string

definition transitCapabilityPaths :: "Config \<Rightarrow> transitCapabilityPathSet" where
  "transitCapabilityPaths cfg =
    (let m = tx_MountPath (cf_Transit cfg); k = tx_KeyName (cf_Transit cfg) in
     \<lparr>tp_metadata = path_Join [m, ''keys'', k], tp_encrypt = path_Join [m, ''encrypt'', k], tp_decrypt = path_Join [m, ''decrypt'', k],
      tp_rotate = path_Join [m, ''keys'', k, ''rotate''], tp_export = path_Join [m, ''export'', ''encryption-key'', k],
      tp_backup = path_Join [m, ''backup'', k], tp_keyConfig = path_Join [m, ''keys'', k, ''config''],
      tp_mountConfig = path_Join [m, ''config'', ''keys''], tp_trim = path_Join [m, ''keys'', k, ''trim''],
      tp_restore = path_Join [m, ''restore''], tp_restoreNamed = path_Join [m, ''restore'', k], tp_rewrap = path_Join [m, ''rewrap'', k]\<rparr>)"

definition tp_all :: "transitCapabilityPathSet \<Rightarrow> string list" where
  "tp_all p = [tp_metadata p, tp_encrypt p, tp_decrypt p, tp_rotate p, tp_export p, tp_backup p,
     tp_keyConfig p, tp_mountConfig p, tp_trim p, tp_restore p, tp_restoreNamed p, tp_rewrap p]"

text \<open>A path without an entry in the Go map reads as the empty slice.\<close>

definition capabilities_at :: "(string \<rightharpoonup> string list) \<Rightarrow> string \<Rightarrow> string list" where
  "capabilities_at caps p = (case caps p of None \<Rightarrow> [] | Some cs \<Rightarrow> cs)"

definition hasAnyCapability :: "(string \<rightharpoonup> string list) \<Rightarrow> string \<Rightarrow> string list \<Rightarrow> bool" where
  "hasAnyCapability caps p capabilities = list_ex (\<lambda>c. c \<in> set (capabilities_at caps p)) capabilities"

definition unsafeTransitCapabilities :: "(string \<rightharpoonup> string list) \<Rightarrow> transitCapabilityPathSet \<Rightarrow> bool" where
  "unsafeTransitCapabilities caps paths \<longleftrightarrow>
     list_ex (\<lambda>p. hasAnyCapability caps p [''create'', ''update'', ''delete'', ''sudo'', ''root''])
       [tp_metadata paths, tp_keyConfig paths, tp_mountConfig paths, tp_rotate paths, tp_trim paths, tp_restore paths, tp_restoreNamed paths, tp_rewrap paths]
   \<or> list_ex (\<lambda>p. hasAnyCapability caps p [''create'', ''read'', ''update'', ''delete'', ''sudo'', ''root'']) [tp_export paths, tp_backup paths]
   \<or> hasAnyCapability caps (tp_encrypt paths) [''create'', ''sudo'', ''root''] \<or> hasAnyCapability caps (tp_decrypt paths) [''sudo'', ''root'']"

text \<open>\<open>response\<close> is the result of \<open>Capabilities\<close> for all the paths.\<close>

definition checkCapabilities :: "Config \<Rightarrow> (string \<rightharpoonup> string list) res \<Rightarrow> unit res" where
  "checkCapabilities cfg response =
    (let paths = transitCapabilityPaths cfg in
     bindE response (\<lambda>caps.
     bindE (forE (\<lambda>p. failIf (capabilities_at caps p = []) (Msg ''capability response is incomplete'')) (tp_all paths)) (\<lambda>_.
     bindE (failIf (unsafeTransitCapabilities caps paths) (Msg ''token can perform non-hot-path key management'')) (\<lambda>_.
     bindE (failIf (\<not> hasAnyCapability caps (tp_metadata paths) [''read'']) (Msg ''metadata read capability is missing'')) (\<lambda>_.
     bindE (failIf (\<not> hasAnyCapability caps (tp_encrypt paths) [''update'']) (Msg ''encrypt update capability is missing'')) (\<lambda>_.
     failIf (\<not> hasAnyCapability caps (tp_decrypt paths) [''update'']) (Msg ''decrypt update capability is missing'')))))))"

section \<open>Paths\<close>

lemma split_on_append: "split_on c (a @ c # b) = split_on c a @ split_on c b"
proof (induction a)
  case (Cons x a)
  then show ?case by (cases "split_on c a") (auto simp: split_on_not_Nil)
qed simp

definition proper_segment :: "string \<Rightarrow> bool" where
  "proper_segment s \<longleftrightarrow> CHR ''/'' \<notin> set s \<and> \<not> badSegment s"

lemma split_on_Join:
  "xs \<noteq> [] \<Longrightarrow> \<forall>x \<in> set xs. CHR ''/'' \<notin> set x \<Longrightarrow> split_on (CHR ''/'') (m @ ''/'' @ Join xs ''/'') = split_on (CHR ''/'') m @ xs"
proof (induction xs arbitrary: m)
  case (Cons x xs)
  then show ?case
  proof (cases xs)
    case Nil
    with Cons.prems show ?thesis by (simp add: split_on_append split_on_no_sep)
  next
    case (Cons y ys)
    then show ?thesis using Cons.IH [of x] Cons.prems by (simp add: split_on_append split_on_no_sep)
  qed
qed simp


definition proper_path :: "string \<Rightarrow> bool" where
  "proper_path m \<longleftrightarrow> (\<forall>p \<in> set (split_on (CHR ''/'') m). \<not> badSegment p)"

lemma proper_path_start: "proper_path m \<Longrightarrow> m \<noteq> [] \<and> \<not> HasPrefix (m @ s) ''/''"
proof (cases m)
  case (Cons c m')
  moreover assume "proper_path m"
  ultimately have "c \<noteq> CHR ''/''" by (intro notI) (simp add: proper_path_def badSegment_def)
  with Cons show ?thesis by (simp add: HasPrefix_def)
qed (simp add: proper_path_def badSegment_def)

lemma path_Join_segments:
  assumes "proper_path m" and "xs \<noteq> []" and "\<forall>x \<in> set xs. proper_segment x"
  shows "split_on (CHR ''/'') (path_Join (m # xs)) = split_on (CHR ''/'') m @ xs" and "path_Join (m # xs) \<noteq> []"
proof -
  let ?p = "m @ ''/'' @ Join xs ''/''"
  have sp: "split_on (CHR ''/'') ?p = split_on (CHR ''/'') m @ xs" using assms by (intro split_on_Join) (auto simp: proper_segment_def)
  have "filter (\<lambda>e. e \<noteq> []) (m # xs) = m # xs"
    using assms proper_path_start [OF assms(1)] by (auto simp: filter_id_conv proper_segment_def badSegment_def)
  moreover have "Join (m # xs) ''/'' = ?p" using assms(2) by (cases xs) simp_all
  ultimately have join: "path_Join (m # xs) = path_Clean ?p" unfolding path_Join_def by (simp add: Let_def)
  have "\<forall>q \<in> set (split_on (CHR ''/'') ?p). \<not> badSegment q"
    unfolding sp using assms(1,3) by (auto simp: proper_path_def proper_segment_def)
  then have "path_Clean ?p = ?p"
    using proper_path_start [OF assms(1)] clean_proper [of "split_on (CHR ''/'') ?p" False "[]"] Join_split_on [of "CHR ''/''" ?p]
    by (simp add: path_Clean_def Let_def)
  with join sp show "split_on (CHR ''/'') (path_Join (m # xs)) = split_on (CHR ''/'') m @ xs" "path_Join (m # xs) \<noteq> []" by simp_all
qed

lemma path_Join_eq_iff:
  assumes "proper_path m" "xs \<noteq> []" "\<forall>x \<in> set xs. proper_segment x" and "proper_path n" "ys \<noteq> []" "\<forall>y \<in> set ys. proper_segment y"
  shows "path_Join (m # xs) = path_Join (n # ys) \<longleftrightarrow> split_on (CHR ''/'') m @ xs = split_on (CHR ''/'') n @ ys"
  using path_Join_segments [OF assms(1-3)] path_Join_segments [OF assms(4-6)] by (metis Join_split_on)

lemma literal_segments:
  "proper_segment ''keys''" "proper_segment ''encrypt''" "proper_segment ''decrypt''" "proper_segment ''config''" "proper_segment ''rotate''"
  "proper_segment ''export''" "proper_segment ''encryption-key''" "proper_segment ''backup''" "proper_segment ''trim''" "proper_segment ''restore''"
  "proper_segment ''rewrap''" "proper_segment ''capabilities-self''" "proper_segment ''token''" "proper_segment ''renew-self''"
  "proper_path ''sys''" "proper_path ''auth''"
  by (simp_all add: proper_segment_def badSegment_def proper_path_def)

lemma validated_transit_paths:
  assumes "Validate net spiffe text_of lstat cfg opts = []"
  shows "proper_path (tx_MountPath (cf_Transit cfg))" "proper_segment (tx_KeyName (cf_Transit cfg))"
proof -
  have v: "validateMountPath ''transit.mountPath'' (tx_MountPath (cf_Transit cfg)) = []" "validateTransitKeyName (tx_KeyName (cf_Transit cfg)) = []"
    "tx_MountPath (cf_Transit cfg) \<noteq> []" "tx_KeyName (cf_Transit cfg) \<noteq> []"
  proof -
    have r: "validateRequired spiffe cfg = []" and vals: "validateValues net spiffe text_of cfg = []" using assms by (simp_all add: Validate_Nil)
    from vals show "validateMountPath ''transit.mountPath'' (tx_MountPath (cf_Transit cfg)) = []" "validateTransitKeyName (tx_KeyName (cf_Transit cfg)) = []"
      by (simp_all add: validateValues_def Let_def)
    from r have "TrimSpace (tx_MountPath (cf_Transit cfg)) \<noteq> []" "TrimSpace (tx_KeyName (cf_Transit cfg)) \<noteq> []" by (simp_all add: validateRequired_def)
    then show "tx_MountPath (cf_Transit cfg) \<noteq> []" "tx_KeyName (cf_Transit cfg) \<noteq> []" by auto
  qed
  show "proper_path (tx_MountPath (cf_Transit cfg))"
    using v(1,3) by (auto simp: validateMountPath_def proper_path_def list_ex_iff split: if_splits)
  have k: "is_word (hd (tx_KeyName (cf_Transit cfg)))" "\<forall>c \<in> set (tx_KeyName (cf_Transit cfg)). is_word c \<or> c = CHR ''.'' \<or> c = CHR ''-''"
    using v(2,4) by (simp_all add: validateTransitKeyName_def validatePathName_def transitKeyNamePattern_def list_all_iff)
  moreover have "\<not> is_word (CHR ''/'')" "\<not> is_word (CHR ''.'')" by (simp_all add: is_word_def)
  ultimately show "proper_segment (tx_KeyName (cf_Transit cfg))" using v(4) by (auto simp: proper_segment_def badSegment_def)
qed


section \<open>The capabilities of the generated policy\<close>

text \<open>How OpenBao answers for the asked paths under a policy: the capabilities of the stanza that names the path, or a denial.
  Paths are compared exactly: the segment wildcard (a plus sign) and templates of OpenBao policies are not read.\<close>

definition policy_capabilities :: "policyStanza list \<Rightarrow> string \<Rightarrow> string list" where
  "policy_capabilities stanzas p = (case find (\<lambda>z. pz_Path z = p) stanzas of Some z \<Rightarrow> pz_Capabilities z | None \<Rightarrow> [''deny''])"

definition evaluates_policy :: "policyStanza list \<Rightarrow> string list \<Rightarrow> (string \<rightharpoonup> string list) \<Rightarrow> bool" where
  "evaluates_policy stanzas asked caps \<longleftrightarrow> (\<forall>p \<in> set asked. caps p = Some (policy_capabilities stanzas p))"

lemma policy_at:
  assumes m: "proper_path (tx_MountPath (cf_Transit cfg))" and k: "proper_segment (tx_KeyName (cf_Transit cfg))"
    and xs: "xs \<noteq> []" "\<forall>x \<in> set xs. proper_segment x" "hd xs \<notin> {''capabilities-self'', ''token'', ''renew-self''}"
  shows "policy_capabilities (policy_stanzas cfg renewal) (path_Join (tx_MountPath (cf_Transit cfg) # xs)) =
    (if xs = [''keys'', tx_KeyName (cf_Transit cfg)] then [''read''] else if xs = [''encrypt'', tx_KeyName (cf_Transit cfg)] then [''update'']
     else if xs = [''decrypt'', tx_KeyName (cf_Transit cfg)] then [''update''] else if xs = [''config'', ''keys''] then [''read''] else [''deny''])"
proof -
  let ?m = "tx_MountPath (cf_Transit cfg)" and ?k = "tx_KeyName (cf_Transit cfg)"
  note seg = literal_segments
  have same: "path_Join (?m # ys) = path_Join (?m # xs) \<longleftrightarrow> ys = xs" if "ys \<noteq> []" "\<forall>y \<in> set ys. proper_segment y" for ys
    using path_Join_eq_iff [OF m that m xs(1,2)] by simp
  have "path_Join [''sys'', ''capabilities-self''] \<noteq> path_Join (?m # xs)"
    using path_Join_eq_iff [OF seg(15) _ _ m xs(1,2), of "[''capabilities-self'']"] seg xs(1,3) split_on_not_Nil [of "CHR ''/''" ?m]
    by (auto simp: Cons_eq_append_conv)
  moreover have "path_Join [''auth'', ''token'', ''renew-self''] \<noteq> path_Join (?m # xs)"
    using path_Join_eq_iff [OF seg(16) _ _ m xs(1,2), of "[''token'', ''renew-self'']"] seg xs(1,3) split_on_not_Nil [of "CHR ''/''" ?m]
    by (auto simp: Cons_eq_append_conv)
  ultimately show ?thesis
    using same [of "[''keys'', ?k]"] same [of "[''encrypt'', ?k]"] same [of "[''decrypt'', ?k]"] same [of "[''config'', ''keys'']"] k seg
    by (auto simp: policy_capabilities_def policy_stanzas_def OpenBaoPolicyPaths_def Let_def)
qed

lemma generated_capabilities:
  assumes "Validate net spiffe text_of lstat cfg opts = []"
    and "evaluates_policy (policy_stanzas cfg renewal) (tp_all (transitCapabilityPaths cfg)) caps"
  defines "paths \<equiv> transitCapabilityPaths cfg"
  shows "capabilities_at caps (tp_metadata paths) = [''read'']" "capabilities_at caps (tp_encrypt paths) = [''update'']"
    "capabilities_at caps (tp_decrypt paths) = [''update'']" "capabilities_at caps (tp_mountConfig paths) = [''read'']"
    "p \<in> {tp_rotate paths, tp_export paths, tp_backup paths, tp_keyConfig paths, tp_trim paths, tp_restore paths, tp_restoreNamed paths, tp_rewrap paths} \<Longrightarrow>
       capabilities_at caps p = [''deny'']"
proof -
  note mk = validated_transit_paths [OF assms(1)] and seg = literal_segments
  have at: "capabilities_at caps q = policy_capabilities (policy_stanzas cfg renewal) q" if "q \<in> set (tp_all paths)" for q
    using that assms(2) by (simp add: evaluates_policy_def capabilities_at_def paths_def)
  have all: "{tp_metadata paths, tp_encrypt paths, tp_decrypt paths, tp_mountConfig paths, tp_rotate paths, tp_export paths, tp_backup paths,
    tp_keyConfig paths, tp_trim paths, tp_restore paths, tp_restoreNamed paths, tp_rewrap paths} \<subseteq> set (tp_all paths)" by (auto simp: tp_all_def)
  show "capabilities_at caps (tp_metadata paths) = [''read'']" "capabilities_at caps (tp_encrypt paths) = [''update'']"
    "capabilities_at caps (tp_decrypt paths) = [''update'']" "capabilities_at caps (tp_mountConfig paths) = [''read'']"
    using all at policy_at [OF mk] mk(2) seg by (simp_all add: paths_def transitCapabilityPaths_def Let_def)
  show "capabilities_at caps p = [''deny'']"
    if p: "p \<in> {tp_rotate paths, tp_export paths, tp_backup paths, tp_keyConfig paths, tp_trim paths, tp_restore paths, tp_restoreNamed paths, tp_rewrap paths}"
  proof -
    from p all have "p \<in> set (tp_all paths)" by blast
    from at [OF this] p policy_at [OF mk] mk(2) seg show ?thesis
      by (elim insertE emptyE) (simp_all add: paths_def transitCapabilityPaths_def Let_def)
  qed
qed


lemma checkCapabilities_Inr:
  "checkCapabilities cfg (Inr caps) = Inr () \<longleftrightarrow> (let paths = transitCapabilityPaths cfg in
     (\<forall>p \<in> set (tp_all paths). capabilities_at caps p \<noteq> []) \<and> \<not> unsafeTransitCapabilities caps paths
     \<and> ''read'' \<in> set (capabilities_at caps (tp_metadata paths)) \<and> ''update'' \<in> set (capabilities_at caps (tp_encrypt paths))
     \<and> ''update'' \<in> set (capabilities_at caps (tp_decrypt paths)))"
  by (auto simp: checkCapabilities_def Let_def forE_eq_Inr hasAnyCapability_def)

lemma sudo_refused:
  assumes "p \<in> set (tp_all (transitCapabilityPaths cfg))" and "''sudo'' \<in> set (capabilities_at caps p) \<or> ''root'' \<in> set (capabilities_at caps p)"
  shows "checkCapabilities cfg (Inr caps) \<noteq> Inr ()"
proof -
  have "unsafeTransitCapabilities caps (transitCapabilityPaths cfg)"
    using assms unfolding tp_all_def by (auto simp: unsafeTransitCapabilities_def hasAnyCapability_def)
  then show ?thesis by (simp add: checkCapabilities_Inr Let_def)
qed

lemma generated_policy_passes:
  assumes "Validate net spiffe text_of lstat cfg opts = []"
    and "evaluates_policy (policy_stanzas cfg renewal) (tp_all (transitCapabilityPaths cfg)) caps"
  shows "checkCapabilities cfg (Inr caps) = Inr ()"
  using generated_capabilities [OF assms]
  by (auto simp: checkCapabilities_Inr Let_def tp_all_def unsafeTransitCapabilities_def hasAnyCapability_def)

section \<open>Main result\<close>

text \<open>
  C39 The policy the provider generates fits the check its doctor makes: for every configuration that validates, a token with exactly this
  policy passes. The check is tight around it: a token that lacks one of the three capabilities of the hot path is
  refused, and so is one with sudo or root on any of the twelve paths, whatever else it may do.
\<close>

theorem generated_policy_accepted:
  assumes "Validate net spiffe text_of lstat cfg opts = []"
    and "evaluates_policy (policy_stanzas cfg renewal) (tp_all (transitCapabilityPaths cfg)) caps"
  shows "checkCapabilities cfg (Inr caps) = Inr ()
    \<and> (\<forall>p \<in> {tp_metadata (transitCapabilityPaths cfg), tp_encrypt (transitCapabilityPaths cfg), tp_decrypt (transitCapabilityPaths cfg)}.
         \<exists>e. checkCapabilities cfg (Inr (caps(p \<mapsto> [''deny'']))) = Inl e)
    \<and> (\<forall>p \<in> set (tp_all (transitCapabilityPaths cfg)). \<forall>granted. ''sudo'' \<in> set granted \<or> ''root'' \<in> set granted \<longrightarrow>
         (\<exists>e. checkCapabilities cfg (Inr (caps(p \<mapsto> granted))) = Inl e))"
proof (intro conjI ballI allI impI)
  have refused: "\<exists>e. r = Inl e" if "r \<noteq> Inr ()" for r :: "unit res" using that by (cases r) auto
  show "checkCapabilities cfg (Inr caps) = Inr ()" by (rule generated_policy_passes [OF assms])
  show "\<exists>e. checkCapabilities cfg (Inr (caps(p \<mapsto> [''deny'']))) = Inl e"
    if "p \<in> {tp_metadata (transitCapabilityPaths cfg), tp_encrypt (transitCapabilityPaths cfg), tp_decrypt (transitCapabilityPaths cfg)}" for p
    using that by (intro refused) (auto simp: checkCapabilities_Inr Let_def capabilities_at_def)
  show "\<exists>e. checkCapabilities cfg (Inr (caps(p \<mapsto> granted))) = Inl e"
    if "p \<in> set (tp_all (transitCapabilityPaths cfg))" "''sudo'' \<in> set granted \<or> ''root'' \<in> set granted" for p granted
    using that by (intro refused sudo_refused [of p]) (simp_all add: capabilities_at_def)
qed

theorem generated_policy_accepted_witness:
  "checkCapabilities ex_config (Inr (\<lambda>p. Some (policy_capabilities (policy_stanzas ex_config True) p))) = Inr ()
   \<and> (\<exists>e. checkCapabilities ex_config (Inr ((\<lambda>p. Some (policy_capabilities (policy_stanzas ex_config True) p))(''t/rewrap/k'' \<mapsto> [''sudo'']))) = Inl e)"
proof -
  have v: "Validate ex_net False (\<lambda>_. []) (\<lambda>_. NotExist) ex_config ex_validation = []"
    using ex_required ex_values ex_socket by (simp add: Validate_Nil ex_validation_def)
  have e: "evaluates_policy (policy_stanzas ex_config True) (tp_all (transitCapabilityPaths ex_config))
    (\<lambda>p. Some (policy_capabilities (policy_stanzas ex_config True) p))" by (simp add: evaluates_policy_def)
  have "tp_rewrap (transitCapabilityPaths ex_config) = ''t/rewrap/k''"
    by (simp add: transitCapabilityPaths_def ex_config_def path_Join_def path_Clean_def clean_step_def HasPrefix_def Let_def)
  then have "''t/rewrap/k'' \<in> set (tp_all (transitCapabilityPaths ex_config))" unfolding tp_all_def by simp
  then show ?thesis using generated_policy_accepted [OF v e] by auto
qed

end
