(* ===== verification/Diagnostics.thy ===== *)
theory Diagnostics
  imports Retirement_Command Encryption_Config Transit_Policy
begin

text \<open>
  The diagnostic commands \<open>doctor\<close> and \<open>verify-key\<close> (\<^verbatim>\<open>cmd/bao-kms-provider/diagnostics.go\<close>, \<^verbatim>\<open>certauth_default.go\<close>, \<^verbatim>\<open>certauth_enabled.go\<close>):
  the checks in their order, the report they fill, and what a report without failures guarantees. The client, the files and
  the result of the login are inputs, as in the theories of those parts.
\<close>

section \<open>The key profile\<close>

definition keyProfileFindingMessage :: "string \<Rightarrow> string \<Rightarrow> string" where
  "keyProfileFindingMessage impact msg = SeverityBlocking @ ''/'' @ impact @ '': '' @ msg"

definition keyProfileFindings :: "KeyProfile \<Rightarrow> string list" where
  "keyProfileFindings profile =
     (if LatestVersion profile \<le> 0 then [keyProfileFindingMessage ImpactAvailability ''latest version is not positive''] else [])
   @ (if SoftDeleted profile then [keyProfileFindingMessage ImpactAvailability ''key is soft-deleted''] else [])
   @ (if MinAvailableVersion profile > LatestVersion profile
      then [keyProfileFindingMessage ImpactAvailability ''minimum available version exceeds latest version''] else [])
   @ map (\<lambda>finding. FormatKeyProfileFindings [finding]) (AssessKeyProfile profile)"

definition uniqueStrings :: "string list \<Rightarrow> string list" where
  "uniqueStrings values = fold (\<lambda>value unique. if value \<in> set unique then unique else unique @ [value]) values []"

section \<open>Local checks\<close>

definition openBaoAuthCheckName :: "Config \<Rightarrow> string" where
  "openBaoAuthCheckName cfg = (if au_Method (cf_Auth cfg) = AuthMethodCert then ''OpenBao cert login'' else ''OpenBao JWT login'')"

definition openBaoAuthPassMessage :: "Config \<Rightarrow> string" where
  "openBaoAuthPassMessage cfg =
    (if au_Method (cf_Auth cfg) = AuthMethodCert then ''authenticated with configured certificate role'' else ''authenticated with configured JWT role'')"

definition certificateSourceCheckID :: "Config \<Rightarrow> string" where
  "certificateSourceCheckID cfg =
    (if ca_Source (au_Cert (cf_Auth cfg)) = CertificateSourcePKCS11 then ''auth.cert.pkcs11''
     else if ca_Source (au_Cert (cf_Auth cfg)) = CertificateSourceSPIFFE then ''auth.cert.spiffe'' else ''auth.cert.local'')"

definition certificateSourceCheckTitle :: "Config \<Rightarrow> string" where
  "certificateSourceCheckTitle cfg =
    (if ca_Source (au_Cert (cf_Auth cfg)) = CertificateSourcePKCS11 then ''PKCS#11 certificate source''
     else if ca_Source (au_Cert (cf_Auth cfg)) = CertificateSourceSPIFFE then ''SPIFFE certificate source'' else ''Certificate source'')"

definition jwtValidationOptions :: "Config \<Rightarrow> JWTValidationOptions" where
  "jwtValidationOptions cfg =
    (let jwt = au_JWT (cf_Auth cfg) in
     \<lparr>jo_MinRemainingTTL = jc_MinRemainingTTL jwt, jo_ClockSkewLeeway = jc_ClockSkewLeeway jwt, ExpectedIssuer = jc_ExpectedIssuer jwt,
      ExpectedAudience = jc_ExpectedAudience jwt, ExpectedSubject = jc_ExpectedSubject jwt\<rparr>)"

text \<open>
  What the diagnostics meet beside the configuration: the host and its disk, the JWT or the secret file with the readings of the clock, the
  local validation of the certificate, the login, the client that the parts of \<open>NewClient\<close> make up, and the random source.
\<close>

record ('c, 'w) diag_env =
  dg_config :: config_env
  dg_host :: "'c host"
  dg_disk :: Disk
  dg_claims :: "string \<Rightarrow> registeredClaims option"
  dg_file :: "string \<Rightarrow> bool \<times> file_read"
  dg_readAt :: go_time
  dg_now :: go_time
  dg_cert_local :: "Config \<Rightarrow> unit res"
  dg_refresh :: "Manager \<Rightarrow> unit res"
  dg_client :: "'c client_parts \<Rightarrow> 'w Client"
  dg_json :: transit_json
  dg_random :: "string option"
  dg_encryption :: "string \<Rightarrow> EncryptionConfiguration res"
  dg_duration :: "string \<Rightarrow> int option"

text \<open>The default build has no certificate source; the others ask the source, then validate the certificate and its signer.\<close>

definition checkLocalCertificateAuthForDoctor :: "('c, 'w) diag_env \<Rightarrow> Config \<Rightarrow> Report \<Rightarrow> bool \<times> Report" where
  "checkLocalCertificateAuthForDoctor env cfg report =
    (let sourceCheck = certificateSourceCheckID cfg; title = certificateSourceCheckTitle cfg in
     case h_certificate_provider (dg_host env) of
       None \<Rightarrow> (False, Report_Skip ''auth.cert.local'' ''Certificate identity'' (Text ''certificate source is unavailable'')
                 (Report_Fail sourceCheck title (Text ''auth.method cert requires a certauth build variant'') report))
     | Some newCertificateProvider \<Rightarrow>
        (case newCertificateProvider cfg of
           Inl err \<Rightarrow> (False, Report_Skip ''auth.cert.signer'' ''Certificate signer'' (Text ''certificate source is unavailable'')
             (Report_Skip ''auth.cert.local'' ''Certificate identity'' (Text ''certificate source is unavailable'')
             (Report_Fail sourceCheck title (safeMessage err) report)))
         | Inr _ \<Rightarrow>
            (let report = Report_Pass sourceCheck title (Text ''configured certificate source is reachable'') report in
             case bindE (validateCertLoginSourceConfig (certLoginSourceConfig cfg)) (\<lambda>_. dg_cert_local env cfg) of
               Inl err \<Rightarrow> (False, Report_Skip ''auth.cert.signer'' ''Certificate signer'' (Text ''certificate identity validation failed'')
                 (Report_Fail ''auth.cert.local'' ''Certificate identity'' (safeMessage err) report))
             | Inr _ \<Rightarrow> (True, Report_Pass ''auth.cert.signer'' ''Certificate signer'' (Text ''signer matches certificate and accepts probe'')
                 (Report_Pass ''auth.cert.local'' ''Certificate identity'' (Text ''certificate is locally valid for cert auth'') report)))))"

definition checkLocalAuthForDoctor :: "('c, 'w) diag_env \<Rightarrow> Config \<Rightarrow> Report \<Rightarrow> bool \<times> Report" where
  "checkLocalAuthForDoctor env cfg report =
    (let jwt = au_JWT (cf_Auth cfg) in
     if au_Method (cf_Auth cfg) = AuthMethodJWT then
       (if jc_Source jwt = JWTSourceOAuth2 then
          (let path = o2_ClientSecretFile (jc_OAuth2 jwt) in
           case ReadClientSecret path (fst (dg_file env path)) (snd (dg_file env path)) of
             Inl err \<Rightarrow> (False, Report_Fail ''oauth2.local'' ''OAuth 2.0 client credential'' (safeMessage err) report)
           | Inr _ \<Rightarrow> (True, Report_Pass ''oauth2.local'' ''OAuth 2.0 client credential'' (Text ''readable and safely permissioned'') report))
        else
          (case ReadAndValidateJWT (dg_claims env) (jc_JWTFile jwt) (jwtValidationOptions cfg) (snd (dg_file env (jc_JWTFile jwt)))
                  (dg_readAt env) (dg_now env) of
             Inl err \<Rightarrow> (False, Report_Fail ''jwt.local'' ''JWT file'' (safeMessage err) report)
           | Inr _ \<Rightarrow> (True, Report_Pass ''jwt.local'' ''JWT file'' (Text ''readable and locally valid'') report)))
     else if au_Method (cf_Auth cfg) = AuthMethodCert then checkLocalCertificateAuthForDoctor env cfg report
     else (False, Report_Skip ''auth.cert.local'' ''Certificate identity'' (Text ''unsupported auth method'') report))"

definition checkEncryptionConfiguration :: "('c, 'w) diag_env \<Rightarrow> Config \<Rightarrow> string \<Rightarrow> Report \<Rightarrow> Report" where
  "checkEncryptionConfiguration env cfg path report =
    (let check = ''kubernetes.encryption_config''; title = ''EncryptionConfiguration'' in
     if path = [] then Report_Skip check title (Text ''no --encryption-config path supplied'') report
     else case dg_encryption env path of
            Inl err \<Rightarrow> Report_Fail check title (safeMessage err) report
          | Inr encCfg \<Rightarrow>
             (let (result, problems) = ValidateEncryptionConfiguration (cv_net (dg_config env)) (dg_duration env) cfg encCfg True in
              if problems \<noteq> [] then Report_Fail check title (safeMessage (Msg ''invalid encryption configuration'')) report
              else if er_IdentityFallback result then Report_Warn check title (Text ''identity fallback remains configured'') report
              else Report_Pass check title (Text ''KMS v2 provider matches local config'') report))"


section \<open>Authentication\<close>

definition isOAuth2Error :: "go_error \<Rightarrow> bool" where
  "isOAuth2Error err \<longleftrightarrow> errors_is err (Auth OAuth2_ErrCredential) \<or> errors_is err (Auth OAuth2_ErrRequest)
     \<or> errors_is err (Auth OAuth2_ErrRejected) \<or> errors_is err (Auth OAuth2_ErrResponse) \<or> errors_is err (Auth OAuth2_ErrConfig)"

definition authenticateForDiagnostics :: "('c, 'w) diag_env \<Rightarrow> Config \<Rightarrow> Report \<Rightarrow> 'w Client option \<times> Report" where
  "authenticateForDiagnostics env cfg report =
    (let h = dg_host env; name = openBaoAuthCheckName cfg in
     case NewTLSConfig (h_read_file h) (h_pem_certs h) (bo_CACertFile (cf_OpenBao cfg)) (bo_TLSServerName (cf_OpenBao cfg)) of
       Inl err \<Rightarrow> (None, Report_Skip ''openbao.auth'' name (Text ''TLS configuration failed'')
                    (Report_Fail ''openbao.tls'' ''OpenBao TLS config'' (safeMessage err) report))
     | Inr _ \<Rightarrow>
        (let report = Report_Pass ''openbao.tls'' ''OpenBao TLS config'' (Text ''CA bundle and server name are usable'') report in
         case buildAuthManager h cfg of
           Inl err \<Rightarrow> (None, Report_Fail ''openbao.auth'' name (safeMessage err) report)
         | Inr manager \<Rightarrow>
            (case dg_refresh env manager of
               Inl err \<Rightarrow>
                 (None, if isOAuth2Error err
                        then Report_Skip ''openbao.auth'' name (Text ''OAuth 2.0 token acquisition failed'')
                               (Report_Fail ''oauth2.acquire'' ''OAuth 2.0 token acquisition'' (safeMessage err) report)
                        else Report_Fail ''openbao.auth'' name (safeMessage err) report)
             | Inr _ \<Rightarrow>
                (let report = (if au_Method (cf_Auth cfg) = AuthMethodJWT \<and> jc_Source (au_JWT (cf_Auth cfg)) = JWTSourceOAuth2
                       then Report_Pass ''oauth2.acquire'' ''OAuth 2.0 token acquisition'' (Text ''access token acquired and accepted by OpenBao'') report
                       else report);
                     report = Report_Pass ''openbao.auth'' name (Text (openBaoAuthPassMessage cfg)) report
                 in case NewClient (h_url_parse h) (h_read_file h) (h_pem_certs h) (client_config cfg) of
                      Inl err \<Rightarrow> (None, Report_Fail ''openbao.tls'' ''OpenBao TLS config'' (safeMessage err) report)
                    | Inr parts \<Rightarrow> (Some (dg_client env parts), report)))))"

section \<open>Transit checks\<close>

text \<open>The state is rebuilt twice from the same metadata; a state and the verdict.\<close>

definition checkKeyIDDeterminism :: "Config \<Rightarrow> KeyProfile \<Rightarrow> Report \<Rightarrow> StateFile option \<times> Report" where
  "checkKeyIDDeterminism cfg profile report =
    (let check = ''key_id.deterministic''; title = ''Key ID determinism''; now = time_Unix 1778277600 in
     case bindE (newRotationObserver cfg) (\<lambda>observer.
          bindE (RebuildState observer profile now) (\<lambda>first.
          bindE (RebuildState observer profile now) (\<lambda>second.
          bindE (ActiveSnapshot first) (\<lambda>firstActive.
          bindE (ActiveSnapshot second) (\<lambda>secondActive. Inr (first, firstActive, secondActive)))))) of
       Inl err \<Rightarrow> (None, Report_Fail check title (safeMessage err) report)
     | Inr (first, firstActive, secondActive) \<Rightarrow>
        if KubernetesKeyID firstActive \<noteq> KubernetesKeyID secondActive
        then (None, Report_Fail check title (Text ''same metadata produced different key_id values'') report)
        else (Some first, Report_Pass check title (Text (''active key_id hash '' @ HashValue (KubernetesKeyID firstActive))) report))"

definition probe_request :: "Config \<Rightarrow> KeyProfile \<Rightarrow> bao_ProbeRequest" where
  "probe_request cfg profile =
    \<lparr>bp_MountPath = tx_MountPath (cf_Transit cfg), bp_KeyName = tx_KeyName (cf_Transit cfg), bp_KeyVersion = LatestVersion profile,
     bp_AssociatedData = ''openbao-kubernetes-kms/doctor-probe/v1''\<rparr>"

definition upsert_check :: "bool res \<Rightarrow> Report \<Rightarrow> Report" where
  "upsert_check disableUpsert report =
    (case disableUpsert of
       Inl err \<Rightarrow> Report_Fail ''transit.disable_upsert'' ''Transit disable_upsert'' (safeMessage err) report
     | Inr False \<Rightarrow> Report_Fail ''transit.disable_upsert'' ''Transit disable_upsert'' (Text ''mount allows implicit key creation'') report
     | Inr True \<Rightarrow> Report_Pass ''transit.disable_upsert'' ''Transit disable_upsert'' (Text ''implicit key creation is disabled'') report)"

definition probe_check :: "(string \<times> int) res \<Rightarrow> Report \<Rightarrow> Report" where
  "probe_check probe report =
    (case probe of
       Inl err \<Rightarrow> Report_Fail ''transit.probe'' ''Transit probe'' (safeMessage err) report
     | Inr _ \<Rightarrow> Report_Pass ''transit.probe'' ''Transit probe'' (Text ''non-secret encrypt/decrypt probe succeeded'') report)"

text \<open>The profile and, where the key passes, the rebuilt state.\<close>

definition runTransitDiagnostics ::
  "('c, 'w) diag_env \<Rightarrow> Config \<Rightarrow> 'w Client \<Rightarrow> bool \<Rightarrow> Report \<Rightarrow> 'w \<Rightarrow> (KeyProfile \<times> StateFile) option \<times> Report \<times> 'w" where
  "runTransitDiagnostics env cfg client includeProbe report w =
    (let json = dg_json env; mount = tx_MountPath (cf_Transit cfg);
         (caps, w) = Capabilities client json (tp_all (transitCapabilityPaths cfg)) w;
         report = (case checkCapabilities cfg caps of
             Inl err \<Rightarrow> Report_Fail ''transit.capabilities'' ''Transit policy capabilities'' (safeMessage err) report
           | Inr _ \<Rightarrow> Report_Pass ''transit.capabilities'' ''Transit policy capabilities'' (Text ''required hot-path capabilities are present'') report);
         (read, w) = ReadKeyProfile client json mount (tx_KeyName (cf_Transit cfg)) w
     in case read of
          Inl err \<Rightarrow> (None, Report_Fail ''transit.metadata'' ''Transit metadata'' (safeMessage err) report, w)
        | Inr profile \<Rightarrow>
           (let report = Report_Pass ''transit.metadata'' ''Transit metadata'' (Text ''configured key metadata is readable'') report;
                findings = keyProfileFindings profile;
                report = (if findings \<noteq> [] then Report_Fail ''transit.profile'' ''Transit key profile'' (Text (Join findings ''; '')) report
                          else Report_Pass ''transit.profile'' ''Transit key profile'' (Text ''key settings are suitable for KMS'') report);
                (disableUpsert, w) = ReadDisableUpsert client json mount w;
                report = upsert_check disableUpsert report;
                (report, w) =
                  (if includeProbe \<and> findings = [] then
                     (let (probe, w) = ProbeEncryptDecrypt client json (dg_random env) (probe_request cfg profile) w in (probe_check probe report, w))
                   else if includeProbe then (Report_Skip ''transit.probe'' ''Transit probe'' (Text ''Transit key profile failed'') report, w)
                   else (report, w))
            in if findings \<noteq> []
               then (None, Report_Skip ''key_id.deterministic'' ''Key ID determinism'' (Text ''Transit key profile failed'') report, w)
               else (let (state, report) = checkKeyIDDeterminism cfg profile report
                     in (map_option (\<lambda>state. (profile, state)) state, report, w))))"

section \<open>The registry against the metadata\<close>

definition checkLatestVersionRestrictions :: "KeyProfile \<Rightarrow> Report \<Rightarrow> Report" where
  "checkLatestVersionRestrictions profile report =
    (let failures =
         (if MinAvailableVersion profile > LatestVersion profile then [''minimum available version blocks latest version''] else [])
       @ (if MinEncryptionVersion profile > LatestVersion profile then [''minimum encryption version blocks latest version''] else [])
       @ (if MinDecryptionVersion profile > LatestVersion profile then [''minimum decryption version blocks latest version''] else [])
     in if failures \<noteq> [] then Report_Fail ''transit.version_restrictions'' ''Transit version restrictions'' (Text (Join failures ''; '')) report
        else Report_Pass ''transit.version_restrictions'' ''Transit version restrictions'' (Text ''latest Transit version is usable'') report)"

text \<open>The failures of one record; \<open>text_of\<close> gives the text of an error.\<close>

definition record_restrictions :: "(go_error \<Rightarrow> string) \<Rightarrow> KeyProfile \<Rightarrow> SnapshotStateRecord \<Rightarrow> string list" where
  "record_restrictions text_of profile record =
    (case record_Snapshot record of
       Inl err \<Rightarrow> [text_of err]
     | Inr snapshot \<Rightarrow>
        if KeySnapshot.State snapshot = StateActive \<or> KeySnapshot.State snapshot = StateRetired then
          (if MinAvailableVersion profile > TransitVersion snapshot then [''minimum available version blocks required historical version''] else [])
          @ (if MinDecryptionVersion profile > TransitVersion snapshot then [''minimum decryption version blocks required historical version''] else [])
          @ (if KeySnapshot.State snapshot = StateActive \<and> MinEncryptionVersion profile > TransitVersion snapshot
             then [''minimum encryption version blocks active version''] else [])
        else [])"

definition checkRegistryVersionRestrictions :: "('c, 'w) diag_env \<Rightarrow> Config \<Rightarrow> KeyProfile \<Rightarrow> Report \<Rightarrow> Report" where
  "checkRegistryVersionRestrictions env cfg profile report =
    (let (loaded, err) = loadConfiguredRegistryState cfg (dg_disk env); check = ''registry.state''; title = ''Registry state'' in
     case err of
       Inl e \<Rightarrow>
         if errors_is e ErrStateNotFound then
           (let assessment = AssessAutoBootstrapState profile in
            checkLatestVersionRestrictions profile
              (Report_Warn check title (Text (''state file is absent; auto-bootstrap eligible='' @ (if ba_Allowed assessment then ''true'' else ''false'')
                 @ '': '' @ ba_Reason assessment)) report))
         else Report_Fail check title (safeMessage e) report
     | Inr _ \<Rightarrow>
        (let report =
           (if rsl_CheckpointStatus loaded = stateCheckpointStatusMissing
            then Report_Warn check title (Text ''state file loaded but replay checkpoint is absent; rollback detection is not anchored'') report
            else if rsl_CheckpointStatus loaded = stateCheckpointStatusBehind
            then Report_Warn check title (Text ''state file loaded but replay checkpoint lags the accepted state generation'') report
            else Report_Pass check title (Text ''loaded local key registry state and checkpoint'') report);
             failures = concat (map (record_restrictions (cv_text (dg_config env)) profile) (Snapshots (rsl_State loaded)))
         in if failures \<noteq> []
            then Report_Fail ''transit.version_restrictions'' ''Transit version restrictions'' (Text (Join (uniqueStrings failures) ''; '')) report
            else Report_Pass ''transit.version_restrictions'' ''Transit version restrictions''
                   (Text ''active and historical versions remain usable'') report))"


section \<open>Status and encryption\<close>

text \<open>
  The doctor runs a server of its own over a fresh store and a Transit that keeps its records in memory. The world of this server
  is the store, the readings of the clock that are still to come and the records.
\<close>

record diag_world =
  dw_store :: Store
  dw_clock :: "nat \<Rightarrow> Reading"
  dw_records :: "(string \<times> string \<times> string) list"

definition diagnosticCiphertext :: string where "diagnosticCiphertext = ''openbao-kms-provider-diagnostic-ciphertext''"

definition diagnosticTransit_Encrypt :: "TransitEncryptRequest \<Rightarrow> diag_world \<Rightarrow> TransitEncryptResponse res \<times> diag_world" where
  "diagnosticTransit_Encrypt req w =
    (let ciphertext = diagnosticCiphertext @ ''-'' @ Itoa (int (length (dw_records w)) + 1) in
     (Inr \<lparr>ter_Ciphertext = ciphertext, ter_KeyVersion = te_KeyVersion req\<rparr>,
      w\<lparr>dw_records := dw_records w @ [(ciphertext, te_Plaintext req, te_AssociatedData req)]\<rparr>))"

definition diagnosticTransit_Decrypt :: "TransitDecryptRequest \<Rightarrow> diag_world \<Rightarrow> string res \<times> diag_world" where
  "diagnosticTransit_Decrypt req w =
    ((case map_of (dw_records w) (td_Ciphertext req) of
        None \<Rightarrow> Inl (Msg ''diagnostic ciphertext not found'')
      | Some (plaintext, aad) \<Rightarrow> if aad \<noteq> td_AssociatedData req then Inl (Msg ''diagnostic associated data mismatch'') else Inr plaintext), w)"

definition diagnostic_deps :: "go_context \<Rightarrow> diag_world Deps" where
  "diagnostic_deps ctx =
    \<lparr>dep_Current = (\<lambda>_ w. let (r, store) = Current (dw_store w) ctx (dw_clock w 0)
                         in (Return r, w\<lparr>dw_store := store, dw_clock := (\<lambda>i. dw_clock w (Suc i))\<rparr>)),
     dep_Lookup = (\<lambda>keyID w. (Return (store_Lookup (dw_store w) keyID), w)), dep_Refresh = None,
     dep_Encrypt = (\<lambda>_ req w. apfst Return (diagnosticTransit_Encrypt req w)),
     dep_Decrypt = (\<lambda>_ req w. apfst Return (diagnosticTransit_Decrypt req w))\<rparr>"

definition diagnosticPluginVersion :: "string \<Rightarrow> string" where
  "diagnosticPluginVersion version = (if version = [] then ''diagnostic'' else version)"

definition diagnostic_options :: "go_context \<Rightarrow> string \<Rightarrow> diag_world Options" where
  "diagnostic_options ctx version =
    \<lparr>opt_deps = diagnostic_deps ctx, opt_hasStatusCache = True, opt_hasRegistry = True, opt_hasTransit = True,
     opt_PluginVersion = diagnosticPluginVersion version, opt_RequestTimeout = 0, opt_MaxConcurrentStatus = 1, opt_MaxConcurrentEncrypt = 1,
     opt_MaxConcurrentDecrypt = 1, opt_hasObserver = False, opt_observer_panics = (\<lambda>_. None)\<rparr>"

text \<open>The key identifiers of a Status and an Encrypt response; \<open>clock\<close> gives the readings in their order, publication first.\<close>

definition diagnostic_key_ids :: "go_context \<Rightarrow> string \<Rightarrow> (nat \<Rightarrow> Reading) \<Rightarrow> StateFile \<Rightarrow> (string \<times> string) res" where
  "diagnostic_key_ids ctx version clock state =
    bindE (NewStore \<lparr>so_MaxStaleness = 60000000000, so_InitialState = zero_state, so_HasInitialState = False\<rparr>) (\<lambda>store.
    bindE (PublishHealthy store state (clock 0) (clock 1)) (\<lambda>store.
    bindE (NewServer (diagnostic_options ctx version)) (\<lambda>server.
    let (status, q, _) = Status server \<lparr>dw_store = store, dw_clock = (\<lambda>i. clock (i + 2)), dw_records = []\<rparr> in
    bindE status (\<lambda>statusResponse.
    let (encrypted, _) = Encrypt server (Some \<lparr>er_Plaintext = ''diagnostic'', er_Uid = []\<rparr>) (world q) in
    bindE encrypted (\<lambda>encryptResponse.
    Inr (sr_KeyId statusResponse, KeyId encryptResponse))))))"

definition checkStatusEncryptConsistency :: "go_context \<Rightarrow> string \<Rightarrow> (nat \<Rightarrow> Reading) \<Rightarrow> StateFile \<Rightarrow> Report \<Rightarrow> Report" where
  "checkStatusEncryptConsistency ctx version clock state report =
    (let check = ''kms.status_encrypt''; title = ''Status/encrypt consistency'' in
     case diagnostic_key_ids ctx version clock state of
       Inl err \<Rightarrow> Report_Fail check title (safeMessage err) report
     | Inr (statusKey, encryptKey) \<Rightarrow>
        if statusKey \<noteq> encryptKey then Report_Fail check title (Text ''Status and Encrypt key_id values differ'') report
        else Report_Pass check title (Text ''local invariant holds'') report)"

section \<open>The commands\<close>

definition config_invalid :: "config_env \<Rightarrow> string \<Rightarrow> bool \<Rightarrow> Config \<Rightarrow> bool" where
  "config_invalid env configPath checkFilesystem cfg \<longleftrightarrow>
     Validate (cv_net env) (cv_spiffe env) (cv_text env) (cv_lstat env) cfg (validation_options configPath checkFilesystem) \<noteq> []"

definition runVerifyKey :: "('c, 'w) diag_env \<Rightarrow> string \<Rightarrow> 'w \<Rightarrow> Report \<times> command_error option \<times> 'w" where
  "runVerifyKey env configPath w =
    (let report = \<lparr>rp_Name = ''verify-key'', rp_Checks = []\<rparr> in
     case cv_load (dg_config env) configPath of
       Inl err \<Rightarrow> (Report_Fail ''config.load'' ''Config load'' (safeMessage err) report, WithExitCode ExitConfig (Some (Uncoded err)), w)
     | Inr cfg \<Rightarrow>
        (let report = Report_Pass ''config.load'' ''Config load'' (Text ''loaded typed provider configuration'') report in
         if config_invalid (dg_config env) configPath False cfg
         then (Report_Fail ''config.validate'' ''Config validation'' (safeMessage (Msg ''config invalid'')) report,
               WithExitCode ExitConfig (Some (Uncoded (Msg ''verify-key config validation failed''))), w)
         else
         let report = Report_Pass ''config.validate'' ''Config validation'' (Text ''identity-bearing configuration is valid'') report in
         case authenticateForDiagnostics env cfg report of
           (None, report) \<Rightarrow> (report, None, w)
         | (Some client, report) \<Rightarrow>
            (case runTransitDiagnostics env cfg client False report w of
               (None, report, w) \<Rightarrow> (report, None, w)
             | (Some (profile, _), report, w) \<Rightarrow> (checkRegistryVersionRestrictions env cfg profile report, None, w))))"

text \<open>
  The inputs of the doctor that \<open>verify-key\<close> does not have: its context, the version of the build and the clock. \<open>doctor_checks\<close> is the part of
  \<open>runDoctor\<close> after the configuration and the registry have been loaded.
\<close>

definition group_check :: "('c, 'w) diag_env \<Rightarrow> Config \<Rightarrow> Report \<Rightarrow> Report" where
  "group_check env cfg report =
    (case lookupGroupID (h_lookup_group (dg_host env)) (sv_SocketGroup (cf_Server cfg)) of
       Inl err \<Rightarrow> Report_Fail ''socket.group'' ''Socket group'' (safeMessage err) report
     | Inr _ \<Rightarrow> Report_Pass ''socket.group'' ''Socket group'' (Text ''configured group resolves locally'') report)"

definition doctor_checks ::
  "('c, 'w) diag_env \<Rightarrow> go_context \<Rightarrow> string \<Rightarrow> (nat \<Rightarrow> Reading) \<Rightarrow> string \<Rightarrow> Config \<Rightarrow> Report \<Rightarrow> 'w \<Rightarrow> Report \<times> 'w" where
  "doctor_checks env ctx version clock encryptionConfigPath cfg report w =
    (let (authLocalValid, report) = checkLocalAuthForDoctor env cfg (group_check env cfg report);
         report = checkEncryptionConfiguration env cfg encryptionConfigPath report
     in if \<not> authLocalValid
        then (Report_Skip ''openbao.auth'' (openBaoAuthCheckName cfg) (Text ''local auth validation failed'') report, w)
        else case authenticateForDiagnostics env cfg report of
          (None, report) \<Rightarrow> (report, w)
        | (Some client, report) \<Rightarrow>
           (case runTransitDiagnostics env cfg client True report w of
              (None, report, w) \<Rightarrow> (report, w)
            | (Some (profile, state), report, w) \<Rightarrow>
               (checkStatusEncryptConsistency ctx version clock state (checkRegistryVersionRestrictions env cfg profile report), w)))"

definition runDoctor ::
  "('c, 'w) diag_env \<Rightarrow> go_context \<Rightarrow> string \<Rightarrow> (nat \<Rightarrow> Reading) \<Rightarrow> string \<Rightarrow> string \<Rightarrow> 'w \<Rightarrow> Report \<times> command_error option \<times> 'w" where
  "runDoctor env ctx version clock configPath encryptionConfigPath w =
    (let report = \<lparr>rp_Name = ''doctor'', rp_Checks = []\<rparr> in
     case cv_load (dg_config env) configPath of
       Inl err \<Rightarrow> (Report_Fail ''config.load'' ''Config load'' (safeMessage err) report, WithExitCode ExitConfig (Some (Uncoded err)), w)
     | Inr cfg \<Rightarrow>
        (let report = Report_Pass ''config.load'' ''Config load'' (Text ''loaded typed provider configuration'') report;
             skip = (\<lambda>msg. Report_Skip ''openbao.auth'' (openBaoAuthCheckName cfg) (Text msg)) in
         if config_invalid (dg_config env) configPath True cfg
         then (skip ''config validation failed'' (Report_Fail ''config.validate'' ''Config validation'' (safeMessage (Msg ''config invalid'')) report),
               WithExitCode ExitConfig (Some (Uncoded (Msg ''doctor config validation failed''))), w)
         else
         let report = Report_Pass ''config.validate'' ''Config validation'' (Text ''local configuration is syntactically safe'') report in
         case (case snd (loadConfiguredRegistryState cfg (dg_disk env)) of
                 Inl e \<Rightarrow> if errors_is e ErrStateNotFound then Inr () else Inl e | Inr _ \<Rightarrow> Inr ()) of
           Inl err \<Rightarrow> (skip ''local registry validation failed'' (Report_Fail ''registry.state'' ''Registry state'' (safeMessage err) report), None, w)
         | Inr _ \<Rightarrow> (let (report, w) = doctor_checks env ctx version clock encryptionConfigPath cfg report w in (report, None, w))))"

text \<open>The end of both commands: print the report, then the error, then the failures.\<close>

definition finish_report ::
  "(go_error \<Rightarrow> string) \<Rightarrow> (Report printed \<Rightarrow> unit res) \<Rightarrow> string \<Rightarrow> string \<Rightarrow> Report \<Rightarrow> command_error option \<Rightarrow> command_error option" where
  "finish_report text_of write output failed report err =
    (case printCLIReport text_of write report output of
       Some printErr \<Rightarrow> Some printErr
     | None \<Rightarrow> (case err of Some e \<Rightarrow> Some e | None \<Rightarrow> reportError report failed))"

definition doctorCommand ::
  "('c, 'w) diag_env \<Rightarrow> go_context \<Rightarrow> string \<Rightarrow> (nat \<Rightarrow> Reading) \<Rightarrow> (Report printed \<Rightarrow> unit res) \<Rightarrow> string \<Rightarrow> string \<Rightarrow> string \<Rightarrow> 'w \<Rightarrow>
     command_error option" where
  "doctorCommand env ctx version clock write configPath encryptionConfigPath output w =
    (let (report, err, _) = runDoctor env ctx version clock configPath encryptionConfigPath w
     in finish_report (cv_text (dg_config env)) write output ''doctor checks failed'' report err)"

definition verifyKeyCommand :: "('c, 'w) diag_env \<Rightarrow> (Report printed \<Rightarrow> unit res) \<Rightarrow> string \<Rightarrow> string \<Rightarrow> 'w \<Rightarrow> command_error option" where
  "verifyKeyCommand env write configPath output w =
    (let (report, err, _) = runVerifyKey env configPath w
     in finish_report (cv_text (dg_config env)) write output ''verify-key checks failed'' report err)"


section \<open>Reports without failures\<close>

text \<open>One fact per check: a report without failures after it had none before, and what the check found.\<close>

lemma keyProfileFindings_Nil [simp]:
  "keyProfileFindings profile = [] \<longleftrightarrow> 0 < LatestVersion profile \<and> \<not> SoftDeleted profile \<and> MinAvailableVersion profile \<le> LatestVersion profile
     \<and> AssessKeyProfile profile = []"
  by (auto simp: keyProfileFindings_def)

lemma certificate_check:
  "checkLocalCertificateAuthForDoctor env cfg report = (ok, report') \<Longrightarrow> \<not> HasFailures report' \<Longrightarrow> \<not> HasFailures report"
  by (auto simp: checkLocalCertificateAuthForDoctor_def Let_def split: option.splits sum.splits)

lemma local_auth_check:
  "checkLocalAuthForDoctor env cfg report = (ok, report') \<Longrightarrow> \<not> HasFailures report' \<Longrightarrow> \<not> HasFailures report"
  by (auto simp: checkLocalAuthForDoctor_def Let_def dest: certificate_check split: if_splits sum.splits)

lemma encryption_check:
  assumes "\<not> HasFailures (checkEncryptionConfiguration env cfg path report)"
  shows "\<not> HasFailures report"
    "path = [] \<or> (\<exists>ec. dg_encryption env path = Inr ec \<and> snd (ValidateEncryptionConfiguration (cv_net (dg_config env)) (dg_duration env) cfg ec True) = [])"
  using assms by (auto simp: checkEncryptionConfiguration_def Let_def case_prod_beta split: if_splits sum.splits)

lemma authentication_check:
  assumes "authenticateForDiagnostics env cfg report = (client, report')" and "\<not> HasFailures report'"
  shows "\<not> HasFailures report"
    "\<exists>parts. client = Some (dg_client env parts) \<and> NewClient (h_url_parse (dg_host env)) (h_read_file (dg_host env)) (h_pem_certs (dg_host env)) (client_config cfg) = Inr parts"
    "\<exists>manager. buildAuthManager (dg_host env) cfg = Inr manager \<and> dg_refresh env manager = Inr ()"
  using assms by (auto simp: authenticateForDiagnostics_def Let_def split: sum.splits if_splits)

lemma determinism_check:
  assumes "checkKeyIDDeterminism cfg profile report = (state, report')" and "\<not> HasFailures report'"
  shows "\<not> HasFailures report"
    "\<exists>ob st. state = Some st \<and> newRotationObserver cfg = Inr ob \<and> RebuildState ob profile (time_Unix 1778277600) = Inr st"
  using assms by (auto simp: checkKeyIDDeterminism_def Let_def split: sum.splits if_splits)

lemma determinism_never_differs:
  "ck_Message (last (rp_Checks (snd (checkKeyIDDeterminism cfg profile report)))) \<noteq> Text ''same metadata produced different key_id values''"
  by (auto simp: checkKeyIDDeterminism_def Let_def bindE_def Report_Fail_def Report_Pass_def safeMessage_def split: sum.splits)

lemma upsert_check_ok: "\<not> HasFailures (upsert_check r report) \<Longrightarrow> \<not> HasFailures report \<and> r = Inr True"
  by (auto simp: upsert_check_def split: sum.splits bool.splits)

lemma probe_check_ok: "\<not> HasFailures (probe_check r report) \<Longrightarrow> \<not> HasFailures report \<and> (\<exists>x. r = Inr x)"
  by (auto simp: probe_check_def split: sum.splits)

lemma latest_check:
  "\<not> HasFailures (checkLatestVersionRestrictions profile report) \<Longrightarrow> \<not> HasFailures report \<and> MinAvailableVersion profile \<le> LatestVersion profile
     \<and> MinEncryptionVersion profile \<le> LatestVersion profile \<and> MinDecryptionVersion profile \<le> LatestVersion profile"
  by (auto simp: checkLatestVersionRestrictions_def Let_def split: if_splits)

lemma record_restrictions_Nil:
  assumes "record_restrictions text_of profile record = []"
  shows "\<exists>snapshot. record_Snapshot record = Inr snapshot \<and> (KeySnapshot.State snapshot \<in> {StateActive, StateRetired} \<longrightarrow>
     MinAvailableVersion profile \<le> TransitVersion snapshot \<and> MinDecryptionVersion profile \<le> TransitVersion snapshot
     \<and> (KeySnapshot.State snapshot = StateActive \<longrightarrow> MinEncryptionVersion profile \<le> TransitVersion snapshot))"
  using assms by (auto simp: record_restrictions_def split: sum.splits if_splits)

lemma registry_check:
  assumes "\<not> HasFailures (checkRegistryVersionRestrictions env cfg profile report)"
  shows "\<not> HasFailures report"
    "(\<exists>loaded. loadConfiguredRegistryState cfg (dg_disk env) = (loaded, Inr ())
        \<and> (\<forall>r \<in> set (Snapshots (rsl_State loaded)). record_restrictions (cv_text (dg_config env)) profile r = []))
     \<or> (\<exists>loaded e. loadConfiguredRegistryState cfg (dg_disk env) = (loaded, Inl e) \<and> errors_is e ErrStateNotFound)"
proof -
  obtain loaded r where l: "loadConfiguredRegistryState cfg (dg_disk env) = (loaded, r)" by fastforce
  show "\<not> HasFailures report"
    using assms l by (cases r) (auto simp: checkRegistryVersionRestrictions_def Let_def dest: latest_check split: if_splits)
  show "(\<exists>loaded. loadConfiguredRegistryState cfg (dg_disk env) = (loaded, Inr ())
        \<and> (\<forall>r \<in> set (Snapshots (rsl_State loaded)). record_restrictions (cv_text (dg_config env)) profile r = []))
     \<or> (\<exists>loaded e. loadConfiguredRegistryState cfg (dg_disk env) = (loaded, Inl e) \<and> errors_is e ErrStateNotFound)"
    using assms l by (cases r) (auto simp: checkRegistryVersionRestrictions_def Let_def split: if_splits)
qed

text \<open>What the token, the key and its mount must be like for the Transit checks to pass, in the order of the requests.\<close>

definition transit_suitable :: "('c, 'w) diag_env \<Rightarrow> Config \<Rightarrow> 'w Client \<Rightarrow> bool \<Rightarrow> 'w \<Rightarrow> KeyProfile \<Rightarrow> StateFile \<Rightarrow> bool" where
  "transit_suitable env cfg client probe w profile st \<longleftrightarrow>
    (\<exists>caps w1 w2 w3 ob.
       Capabilities client (dg_json env) (tp_all (transitCapabilityPaths cfg)) w = (Inr caps, w1) \<and> checkCapabilities cfg (Inr caps) = Inr ()
     \<and> ReadKeyProfile client (dg_json env) (tx_MountPath (cf_Transit cfg)) (tx_KeyName (cf_Transit cfg)) w1 = (Inr profile, w2)
     \<and> 0 < LatestVersion profile \<and> \<not> SoftDeleted profile \<and> MinAvailableVersion profile \<le> LatestVersion profile \<and> safe_profile profile
     \<and> ReadDisableUpsert client (dg_json env) (tx_MountPath (cf_Transit cfg)) w2 = (Inr True, w3)
     \<and> (probe \<longrightarrow> (\<exists>x w4. ProbeEncryptDecrypt client (dg_json env) (dg_random env) (probe_request cfg profile) w3 = (Inr x, w4)))
     \<and> newRotationObserver cfg = Inr ob \<and> RebuildState ob profile (time_Unix 1778277600) = Inr st)"

lemma transit_check:
  assumes run: "runTransitDiagnostics env cfg client probe report w = (diag, report', w')" and ok: "\<not> HasFailures report'"
  shows "\<not> HasFailures report" "\<exists>profile st. diag = Some (profile, st) \<and> transit_suitable env cfg client probe w profile st"
proof -
  obtain caps w1 where c: "Capabilities client (dg_json env) (tp_all (transitCapabilityPaths cfg)) w = (caps, w1)" by fastforce
  obtain read w2 where rd: "ReadKeyProfile client (dg_json env) (tx_MountPath (cf_Transit cfg)) (tx_KeyName (cf_Transit cfg)) w1 = (read, w2)" by fastforce
  have "\<exists>profile. read = Inr profile" using run ok c rd by (cases read) (auto simp: runTransitDiagnostics_def Let_def)
  then obtain profile where read: "read = Inr profile" by blast
  obtain up w3 where u: "ReadDisableUpsert client (dg_json env) (tx_MountPath (cf_Transit cfg)) w2 = (up, w3)" by fastforce
  obtain pr w4 where p: "ProbeEncryptDecrypt client (dg_json env) (dg_random env) (probe_request cfg profile) w3 = (pr, w4)" by fastforce
  define r1 where "r1 = (case checkCapabilities cfg caps of
             Inl err \<Rightarrow> Report_Fail ''transit.capabilities'' ''Transit policy capabilities'' (safeMessage err) report
           | Inr _ \<Rightarrow> Report_Pass ''transit.capabilities'' ''Transit policy capabilities'' (Text ''required hot-path capabilities are present'') report)"
  define r2 where "r2 = Report_Pass ''transit.metadata'' ''Transit metadata'' (Text ''configured key metadata is readable'') r1"
  define r3 where "r3 = (if keyProfileFindings profile \<noteq> []
    then Report_Fail ''transit.profile'' ''Transit key profile'' (Text (Join (keyProfileFindings profile) ''; '')) r2
    else Report_Pass ''transit.profile'' ''Transit key profile'' (Text ''key settings are suitable for KMS'') r2)"
  define r4 where "r4 = upsert_check up r3"
  define r5 where "r5 = (if probe \<and> keyProfileFindings profile = [] then probe_check pr r4
    else if probe then Report_Skip ''transit.probe'' ''Transit probe'' (Text ''Transit key profile failed'') r4 else r4)"
  have final: "(if keyProfileFindings profile \<noteq> []
      then (None, Report_Skip ''key_id.deterministic'' ''Key ID determinism'' (Text ''Transit key profile failed'') r5)
      else (let (state, report) = checkKeyIDDeterminism cfg profile r5 in (map_option (\<lambda>state. (profile, state)) state, report))) = (diag, report')"
    using run c rd u p unfolding runTransitDiagnostics_def read r5_def r4_def r3_def r2_def r1_def
    by (auto simp: Let_def case_prod_beta simp del: keyProfileFindings_Nil)
  have ok5: "\<not> HasFailures r5"
    using final ok determinism_check(1) [OF surjective_pairing, of cfg profile r5] by (auto simp: case_prod_beta simp del: keyProfileFindings_Nil split: if_splits)
  then have ok4: "\<not> HasFailures r4" using probe_check_ok [of pr r4] by (auto simp: r5_def split: if_splits)
  from upsert_check_ok [OF this [unfolded r4_def]] have ok3: "\<not> HasFailures r3" and up: "up = Inr True" by simp_all
  from ok3 have none: "keyProfileFindings profile = []" and ok2: "\<not> HasFailures r2" unfolding r3_def by (auto split: if_splits)
  from ok2 obtain caps' where caps: "caps = Inr caps'" "checkCapabilities cfg caps = Inr ()" and rep: "\<not> HasFailures report"
    unfolding r2_def r1_def by (auto simp: checkCapabilities_def Let_def bindE_eq_Inr split: sum.splits)
  from rep show "\<not> HasFailures report" .
  have "probe \<longrightarrow> (\<exists>x. pr = Inr x)" using ok5 none probe_check_ok [of pr r4] by (auto simp: r5_def)
  moreover obtain ob st where "diag = Some (profile, st)" "newRotationObserver cfg = Inr ob" "RebuildState ob profile (time_Unix 1778277600) = Inr st"
    using final none ok determinism_check(2) [OF surjective_pairing, of cfg profile r5] by (auto simp: case_prod_beta)
  ultimately show "\<exists>profile st. diag = Some (profile, st) \<and> transit_suitable env cfg client probe w profile st"
    using c rd read u up p caps none unfolding transit_suitable_def keyProfileFindings_Nil AssessKeyProfile_empty by blast
qed


text \<open>The registry fits the metadata: there is none yet, or Transit still has every version its active and retired records need.\<close>

definition registry_usable :: "Config \<Rightarrow> Disk \<Rightarrow> KeyProfile \<Rightarrow> bool" where
  "registry_usable cfg d profile \<longleftrightarrow>
     (\<exists>loaded e. loadConfiguredRegistryState cfg d = (loaded, Inl e) \<and> errors_is e ErrStateNotFound)
   \<or> (\<exists>loaded. loadConfiguredRegistryState cfg d = (loaded, Inr ()) \<and> (\<forall>r \<in> set (Snapshots (rsl_State loaded)).
        \<exists>snapshot. record_Snapshot r = Inr snapshot \<and> (KeySnapshot.State snapshot \<in> {StateActive, StateRetired} \<longrightarrow>
          MinAvailableVersion profile \<le> TransitVersion snapshot \<and> MinDecryptionVersion profile \<le> TransitVersion snapshot
          \<and> (KeySnapshot.State snapshot = StateActive \<longrightarrow> MinEncryptionVersion profile \<le> TransitVersion snapshot))))"

lemma registry_check_usable:
  "\<not> HasFailures (checkRegistryVersionRestrictions env cfg profile report) \<Longrightarrow> registry_usable cfg (dg_disk env) profile"
  using registry_check(2) [of env cfg profile report] record_restrictions_Nil unfolding registry_usable_def by blast

lemma printCLIReport_exit: "printCLIReport text_of write report output = Some e \<Longrightarrow> ProcessExitCode (Some e) \<noteq> 0"
  by (auto simp: printCLIReport_def Let_def uncoded_def unsupportedOutputFormat_def WithExitCode_def split: if_splits sum.splits)

lemma finish_report_ok:
  assumes "ProcessExitCode (finish_report text_of write output failed report err) = 0" and "err = None \<or> ProcessExitCode err \<noteq> 0"
  shows "err = None" "\<not> HasFailures report"
  using assms printCLIReport_exit [of text_of "write" report "output"] reportError_exit [of report failed]
  by (auto simp: finish_report_def split: option.splits if_splits)

lemma runVerifyKey_ok:
  assumes "runVerifyKey env configPath w = (report, None, w')" and "\<not> HasFailures report"
  shows "\<exists>cfg parts profile st. cv_load (dg_config env) configPath = Inr cfg \<and> \<not> config_invalid (dg_config env) configPath False cfg
    \<and> (\<exists>manager. buildAuthManager (dg_host env) cfg = Inr manager \<and> dg_refresh env manager = Inr ())
    \<and> NewClient (h_url_parse (dg_host env)) (h_read_file (dg_host env)) (h_pem_certs (dg_host env)) (client_config cfg) = Inr parts
    \<and> transit_suitable env cfg (dg_client env parts) False w profile st \<and> registry_usable cfg (dg_disk env) profile"
proof -
  from assms(1) obtain cfg where cfg: "cv_load (dg_config env) configPath = Inr cfg" "\<not> config_invalid (dg_config env) configPath False cfg"
    by (auto simp: runVerifyKey_def Let_def WithExitCode_def split: sum.splits if_splits)
  define r0 where "r0 = Report_Pass ''config.validate'' ''Config validation'' (Text ''identity-bearing configuration is valid'')
    (Report_Pass ''config.load'' ''Config load'' (Text ''loaded typed provider configuration'') \<lparr>rp_Name = ''verify-key'', rp_Checks = []\<rparr>)"
  obtain oc ra where a: "authenticateForDiagnostics env cfg r0 = (oc, ra)" by fastforce
  show ?thesis
  proof (cases oc)
    case None
    with assms a cfg have "\<not> HasFailures ra" by (simp add: runVerifyKey_def Let_def flip: r0_def)
    from authentication_check(2) [OF a this] None show ?thesis by simp
  next
    case (Some client)
    obtain diag rt w1 where t: "runTransitDiagnostics env cfg client False ra w = (diag, rt, w1)" by (metis prod_cases3)
    have rep: "report = (case diag of None \<Rightarrow> rt | Some (profile, _) \<Rightarrow> checkRegistryVersionRestrictions env cfg profile rt)"
      using assms(1) a cfg Some t by (auto simp: runVerifyKey_def Let_def split: option.splits simp flip: r0_def)
    have ok: "\<not> HasFailures rt" using assms(2) registry_check(1) unfolding rep by (auto split: option.splits)
    from transit_check [OF t ok] obtain profile st where p: "\<not> HasFailures ra" "diag = Some (profile, st)"
      "transit_suitable env cfg client False w profile st" by blast
    have "registry_usable cfg (dg_disk env) profile" using assms(2) registry_check_usable unfolding rep p(2) by simp
    with p cfg authentication_check(2,3) [OF a p(1)] Some show ?thesis by auto
  qed
qed

text \<open>A token endpoint that is unavailable is not among the errors the doctor attributes to the acquisition of the token.\<close>

lemma unavailable_not_OAuth2Error: "\<not> isOAuth2Error (Sentinel (Auth OAuth2_ErrUnavailable))"
  by (simp add: isOAuth2Error_def)

lemma consistency_check:
  assumes "\<not> HasFailures (checkStatusEncryptConsistency ctx version clock state report)"
  shows "\<not> HasFailures report" "\<exists>k. diagnostic_key_ids ctx version clock state = Inr (k, k)"
  using assms by (auto simp: checkStatusEncryptConsistency_def Let_def split: sum.splits if_splits)

text \<open>The doctor checks more: the socket group, the files of the API server, a probe with the key and the agreement of Status and Encrypt.\<close>

lemma local_auth_decides:
  assumes "checkLocalAuthForDoctor env cfg report = (ok, report')" and "\<not> HasFailures report'"
    and "au_Method (cf_Auth cfg) \<in> {AuthMethodJWT, AuthMethodCert}"
  shows ok
  using assms by (auto simp: checkLocalAuthForDoctor_def checkLocalCertificateAuthForDoctor_def Let_def split: if_splits sum.splits option.splits)

lemma validated_method: "\<not> config_invalid cenv path fs cfg \<Longrightarrow> au_Method (cf_Auth cfg) \<in> {AuthMethodJWT, AuthMethodCert}"
proof -
  assume "\<not> config_invalid cenv path fs cfg"
  then have "validateValues (cv_net cenv) (cv_spiffe cenv) (cv_text cenv) cfg = []" by (simp add: config_invalid_def Validate_Nil)
  then have "validateAuthValues (cv_net cenv) (cv_spiffe cenv) (cv_text cenv) (cf_Auth cfg) = []" by (simp add: validateValues_def Let_def)
  moreover have "TrimSpace (au_Method (cf_Auth cfg)) \<noteq> []"
    using \<open>\<not> config_invalid cenv path fs cfg\<close> by (simp add: config_invalid_def Validate_Nil validateRequired_def)
  then have "au_Method (cf_Auth cfg) \<noteq> []" by auto
  ultimately show ?thesis by (auto simp: validateAuthValues_def split: if_splits)
qed

lemma group_check_ok:
  "\<not> HasFailures (group_check env cfg report) \<Longrightarrow> \<not> HasFailures report
     \<and> (\<exists>gid. lookupGroupID (h_lookup_group (dg_host env)) (sv_SocketGroup (cf_Server cfg)) = Inr gid)"
  by (auto simp: group_check_def split: sum.splits)

lemma doctor_checks_ok:
  assumes run: "doctor_checks env ctx version clock path cfg r0 w = (report, w')" and ok: "\<not> HasFailures report"
    and "au_Method (cf_Auth cfg) \<in> {AuthMethodJWT, AuthMethodCert}"
  shows "\<exists>parts profile st k. (\<exists>gid. lookupGroupID (h_lookup_group (dg_host env)) (sv_SocketGroup (cf_Server cfg)) = Inr gid)
    \<and> (path = [] \<or> (\<exists>ec. dg_encryption env path = Inr ec
         \<and> snd (ValidateEncryptionConfiguration (cv_net (dg_config env)) (dg_duration env) cfg ec True) = []))
    \<and> (\<exists>manager. buildAuthManager (dg_host env) cfg = Inr manager \<and> dg_refresh env manager = Inr ())
    \<and> NewClient (h_url_parse (dg_host env)) (h_read_file (dg_host env)) (h_pem_certs (dg_host env)) (client_config cfg) = Inr parts
    \<and> transit_suitable env cfg (dg_client env parts) True w profile st \<and> registry_usable cfg (dg_disk env) profile
    \<and> diagnostic_key_ids ctx version clock st = Inr (k, k)"
proof -
  obtain valid r2 where l: "checkLocalAuthForDoctor env cfg (group_check env cfg r0) = (valid, r2)" by fastforce
  let ?r3 = "checkEncryptionConfiguration env cfg path r2"
  have local: "\<not> HasFailures ?r3 \<Longrightarrow> \<not> HasFailures r2 \<and> \<not> HasFailures (group_check env cfg r0) \<and> valid"
    using encryption_check(1) [of env cfg path r2] local_auth_check [OF l] local_auth_decides [OF l _ assms(3)] by blast
  obtain oc ra where a: "authenticateForDiagnostics env cfg ?r3 = (oc, ra)" by fastforce
  have valid using run l ok local by (auto simp: doctor_checks_def Let_def split: if_splits)
  with run l a have run': "(case oc of None \<Rightarrow> (ra, w) | Some client \<Rightarrow>
     (case runTransitDiagnostics env cfg client True ra w of
              (None, report, w) \<Rightarrow> (report, w)
            | (Some (profile, state), report, w) \<Rightarrow>
               (checkStatusEncryptConsistency ctx version clock state (checkRegistryVersionRestrictions env cfg profile report), w))) = (report, w')"
    by (simp add: doctor_checks_def Let_def split: option.splits)
  then obtain client where c: "oc = Some client" using ok authentication_check(2) [OF a] by (cases oc) auto
  obtain diag rt w1 where t: "runTransitDiagnostics env cfg client True ra w = (diag, rt, w1)" by (metis prod_cases3)
  have rep: "report = (case diag of None \<Rightarrow> rt | Some (profile, state) \<Rightarrow>
      checkStatusEncryptConsistency ctx version clock state (checkRegistryVersionRestrictions env cfg profile rt))"
    using run' unfolding c option.case t by (cases diag) auto
  have "\<not> HasFailures rt"
    using ok unfolding rep by (cases diag) (auto dest!: consistency_check(1) registry_check(1))
  from transit_check [OF t this] obtain profile st where p: "\<not> HasFailures ra" "diag = Some (profile, st)"
    "transit_suitable env cfg client True w profile st" by blast
  note au = authentication_check [OF a p(1)]
  from au(2) c obtain parts where parts: "client = dg_client env parts"
    "NewClient (h_url_parse (dg_host env)) (h_read_file (dg_host env)) (h_pem_certs (dg_host env)) (client_config cfg) = Inr parts" by auto
  have last: "\<not> HasFailures (checkStatusEncryptConsistency ctx version clock st (checkRegistryVersionRestrictions env cfg profile rt))"
    using ok unfolding rep p(2) by simp
  have group: "\<not> HasFailures (group_check env cfg r0)" using local au(1) by simp
  show ?thesis
    using group_check_ok [OF group] encryption_check(2) [OF au(1)] au(3) parts p(3) registry_check_usable [OF consistency_check(1) [OF last]]
      consistency_check(2) [OF last] by blast
qed

lemma doctor_sound:
  assumes "runDoctor env ctx version clock configPath path w = (report, None, w')" and "\<not> HasFailures report"
  shows "\<exists>cfg parts profile st k. cv_load (dg_config env) configPath = Inr cfg \<and> \<not> config_invalid (dg_config env) configPath True cfg
    \<and> (\<exists>manager. buildAuthManager (dg_host env) cfg = Inr manager \<and> dg_refresh env manager = Inr ())
    \<and> transit_suitable env cfg (dg_client env parts) True w profile st \<and> registry_usable cfg (dg_disk env) profile
    \<and> diagnostic_key_ids ctx version clock st = Inr (k, k)"
proof -
  from assms(1) obtain cfg where cfg: "cv_load (dg_config env) configPath = Inr cfg" "\<not> config_invalid (dg_config env) configPath True cfg"
    by (auto simp: runDoctor_def Let_def WithExitCode_def split: sum.splits if_splits)
  with assms obtain r0 w0 where "doctor_checks env ctx version clock path cfg r0 w = (report, w0)"
    by (auto simp: runDoctor_def Let_def split: sum.splits if_splits prod.splits)
  from doctor_checks_ok [OF this assms(2) validated_method [OF cfg(2)]] cfg show ?thesis by blast
qed

section \<open>Main result\<close>

text \<open>
  C32 The exit code of \<open>verify-key\<close> can be trusted: when it is zero, the configuration is valid, the provider logged in, the token has the
  hot-path capabilities and no key management, the key is safe for the provider, implicit key creation is disabled, key identifiers
  can be derived from the metadata, and Transit still has every version that the active and retired keys of the local registry need.
\<close>

theorem verify_key_sound:
  assumes "ProcessExitCode (verifyKeyCommand env write configPath output w) = 0"
  shows "\<exists>cfg parts profile st. cv_load (dg_config env) configPath = Inr cfg \<and> \<not> config_invalid (dg_config env) configPath False cfg
    \<and> (\<exists>manager. buildAuthManager (dg_host env) cfg = Inr manager \<and> dg_refresh env manager = Inr ())
    \<and> NewClient (h_url_parse (dg_host env)) (h_read_file (dg_host env)) (h_pem_certs (dg_host env)) (client_config cfg) = Inr parts
    \<and> transit_suitable env cfg (dg_client env parts) False w profile st \<and> registry_usable cfg (dg_disk env) profile"
proof -
  obtain report err w' where run: "runVerifyKey env configPath w = (report, err, w')" by (metis prod_cases3)
  have "err = None \<or> ProcessExitCode err \<noteq> 0"
    using run by (auto simp: runVerifyKey_def Let_def WithExitCode_def split: sum.splits if_splits prod.splits option.splits)
  with assms run have "err = None" "\<not> HasFailures report" by (auto simp: verifyKeyCommand_def dest: finish_report_ok)
  with run have "runVerifyKey env configPath w = (report, None, w')" by simp
  from runVerifyKey_ok [OF this \<open>\<not> HasFailures report\<close>] show ?thesis .
qed


section \<open>An example\<close>

definition ex_diag_config :: Config where
  "ex_diag_config = ex_config\<lparr>cf_Server := (cf_Server ex_config)\<lparr>sv_SocketPath := ''/run/openbao-kms/k''\<rparr>\<rparr>"

definition ex_key_data :: keyProfileData where
  "ex_key_data = \<lparr>kd_AllowPlaintextBackup = False, kd_AutoRotatePeriod = 0, kd_DeletionAllowed = False, kd_Derived = False, kd_Exportable = False,
     kd_ImportedKey = False, kd_Keys = [(''1'', 1)], kd_LatestVersion = 1, kd_MinAvailableVersion = 0, kd_MinDecryptionVersion = 1,
     kd_MinEncryptionVersion = 0, kd_Name = ''l'', kd_SoftDeleted = False, kd_SupportsDecryption = True, kd_SupportsDerivation = False,
     kd_SupportsEncryption = True, kd_SupportsSigning = False, kd_Type = ''aes256-gcm96'', kd_ConvergentEncryption = False\<rparr>"

definition ex_diag_json :: transit_json where
  "ex_diag_json = ex_transit_json\<lparr>tj_profile := (\<lambda>_. Some (ex_key_data, [])), tj_upsert := (\<lambda>_. Some (True, [])),
     tj_capabilities := (\<lambda>_. Some (\<lambda>p. Some (policy_capabilities (policy_stanzas ex_diag_config True) p), []))\<rparr>"

definition ex_diag_client :: "unit Client" where
  "ex_diag_client = ex_client\<lparr>cl_http := (\<lambda>req w. (HttpReplied 200 (Some ''ok''), w)), cl_RecoverToken := None, cl_RejectToken := None\<rparr>"

definition ex_diag_env :: "(nat, unit) diag_env" where
  "ex_diag_env = \<lparr>dg_config = \<lparr>cv_load = (\<lambda>_. Inr ex_diag_config), cv_net = ex_net, cv_spiffe = False, cv_text = (\<lambda>_. []), cv_lstat = (\<lambda>_. NotExist)\<rparr>,
     dg_host = ex_host, dg_disk = ex_empty_disk, dg_claims = (\<lambda>_. None), dg_file = (\<lambda>_. (False, ex_file_read [])), dg_readAt = 0, dg_now = time_Unix 1778277600,
     dg_cert_local = (\<lambda>_. Inr ()), dg_refresh = (\<lambda>_. Inr ()), dg_client = (\<lambda>_. ex_diag_client), dg_json = ex_diag_json, dg_random = None,
     dg_encryption = (\<lambda>_. Inl (Msg [])), dg_duration = ex_parse_duration\<rparr>"

lemma ex_runtime_dirs:
  "path_Clean ''/run/openbao-kms'' = ''/run/openbao-kms''" "path_Clean ''/run/openbao-kms/'' = ''/run/openbao-kms''"
  "path_Clean ''/var/run/openbao-kms'' = ''/var/run/openbao-kms''"
proof -
  have "split_on (CHR ''/'') ''/run/openbao-kms'' = [[], ''run'', ''openbao-kms'']"
    "split_on (CHR ''/'') ''/run/openbao-kms/'' = [[], ''run'', ''openbao-kms'', []]"
    "split_on (CHR ''/'') ''/var/run/openbao-kms'' = [[], ''var'', ''run'', ''openbao-kms'']" by simp_all
  then show "path_Clean ''/run/openbao-kms'' = ''/run/openbao-kms''" "path_Clean ''/run/openbao-kms/'' = ''/run/openbao-kms''"
    "path_Clean ''/var/run/openbao-kms'' = ''/var/run/openbao-kms''"
    by (simp_all add: path_Clean_def clean_step_def HasPrefix_def)
qed

lemma ex_diag_valid: "\<not> config_invalid (dg_config ex_diag_env) [] False ex_diag_config"
proof -
  have "validateRequired False ex_diag_config = []"
    by (simp add: validateRequired_def ex_diag_config_def ex_config_def appendAuthRequired_def AuthMethodJWT_def JWTSourceFile_def TrimSpace_ascii)
  moreover have "validateValues ex_net False text_of ex_diag_config = []" for text_of
    using ex_values [of text_of] by (simp add: validateValues_def ex_diag_config_def Let_def validateRelationships_def)
  moreover have "validateSocketPolicy text_of ex_diag_config (validation_options [] False) = []" for text_of
  proof -
    have dir: "filepath_Dir ''/run/openbao-kms/k'' = ''/run/openbao-kms''" using ex_runtime_dirs by (simp add: filepath_Dir_def)
    have "ParseSocketMode ''660'' = Inr 432" by (simp add: ParseSocketMode_def parse_octal_def is_digit_def digit_val_def)
    moreover have "pathWithinAllowedDirs (path_Clean (filepath_Dir ''/run/openbao-kms/k'')) [''/run/openbao-kms'', ''/var/run/openbao-kms'']"
      unfolding dir using ex_runtime_dirs by (simp add: pathWithinAllowedDirs_def)
    moreover have "IsAbs ''/run/openbao-kms/k''" by (simp add: IsAbs_def HasPrefix_def)
    ultimately show ?thesis
      by (simp add: validateSocketPolicy_def ex_diag_config_def ex_config_def validation_options_def socketDisallowedMode_def socketParentDirs_def Let_def)
  qed
  ultimately show ?thesis by (simp add: config_invalid_def Validate_Nil ex_diag_env_def validation_options_def)
qed

lemma ex_diag_do:
  assumes "unmarshal ''ok'' = Some (v, [])"
  shows "client_do ex_diag_client unmarshal operation verb path body w = (Inr v, w)"
  using assms by (simp add: client_do_def doOpenBao_def newOpenBaoRequest_def ex_diag_client_def ex_client_def reply_result_def readOpenBaoResponse_def
      readBoundedResponseBody_def openBaoResponseLimit_def maxOpenBaoSmallResponseBytes_def maxOpenBaoLargeResponseBytes_def split_def Let_def)

lemma ex_diag_requests:
  "Capabilities ex_diag_client ex_diag_json (tp_all (transitCapabilityPaths ex_diag_config)) w =
     (Inr (capabilities_by_path (tp_all (transitCapabilityPaths ex_diag_config)) (\<lambda>p. Some (policy_capabilities (policy_stanzas ex_diag_config True) p))), w)"
  "ReadKeyProfile ex_diag_client ex_diag_json m k w = (Inr (ex_profile 1), w)"
  "ReadDisableUpsert ex_diag_client ex_diag_json m w = (Inr True, w)"
proof -
  have "Atoi ''1'' = Some 1" by code_simp
  then have data: "profile_of ex_key_data = Inr (ex_profile 1)"
    by (simp add: profile_of_def ex_key_data_def parse_key_version_def ex_profile_def)
  show "Capabilities ex_diag_client ex_diag_json (tp_all (transitCapabilityPaths ex_diag_config)) w =
     (Inr (capabilities_by_path (tp_all (transitCapabilityPaths ex_diag_config)) (\<lambda>p. Some (policy_capabilities (policy_stanzas ex_diag_config True) p))), w)"
    by (simp add: Capabilities_def mapR_def ex_diag_do ex_diag_json_def tp_all_def)
  show "ReadKeyProfile ex_diag_client ex_diag_json m k w = (Inr (ex_profile 1), w)" "ReadDisableUpsert ex_diag_client ex_diag_json m w = (Inr True, w)"
    by (simp_all add: ReadKeyProfile_def ReadDisableUpsert_def data mapR_def ex_diag_do ex_diag_json_def)
qed


definition ex_rebuilt_at :: "go_time \<Rightarrow> SnapshotStateRecord" where
  "ex_rebuilt_at t = recordFromSnapshot (normal_form (ex_version 1 StateActive)) t zero_time 0 t"

lemma ex_rebuilt_at_simps [simp]:
  "rec_id (ex_rebuilt_at t) = ex_key 1" "r_KubernetesKeyID (ex_rebuilt_at t) = ex_key 1" "r_State (ex_rebuilt_at t) = StateActive"
  "rec_snap (ex_rebuilt_at t) = normal_form (ex_version 1 StateActive)"
  by (simp_all add: ex_rebuilt_at_def)

lemma ex_rebuilt_at_ok: "rec_ok (ex_rebuilt_at (time_Unix 1778277600))"
  by (simp add: rec_ok_def ex_rebuilt_at_def normalizable_normal_form)
    (simp add: validateObservationMetadata_def recordFromSnapshot_def SnapshotStateRecordFromSnapshot_def Let_def)

lemma ex_diag_rebuild:
  "\<exists>ob st. newRotationObserver ex_diag_config = Inr ob \<and> RebuildState ob (ex_profile 1) (time_Unix 1778277600) = Inr st \<and> (\<exists>a. ActiveSnapshot st = Inr a)"
proof -
  let ?now = "time_Unix 1778277600"
  obtain ob where ob: "newRotationObserver ex_config = Inr ob" "scope ob = config_scope ex_config ex_fingerprint" by (rule ex_config_observer)
  have same: "newRotationObserver ex_diag_config = newRotationObserver ex_config"
    by (simp add: newRotationObserver_def IdentityFingerprint_of_def fingerprint_required_def configIdentityMaterial_def config_scope_def
        rotationPolicy_def ex_diag_config_def Let_def)
  have fp: "ValidateIdentityFingerprint ex_fingerprint = Inr ()" using fingerprint_digest by (simp add: ex_fingerprint_def)
  have "\<exists>n. NewStateFileFromRecords (ex_key 1) (orderedRecords (ex_key 1) [ex_rebuilt_at ?now]) 1 [] ex_fingerprint = Inr n
    \<and> Snapshots n = orderedRecords (ex_key 1) [ex_rebuilt_at ?now] \<and> ActiveSnapshot n = Inr (rec_snap (ex_rebuilt_at ?now))"
    using fp ex_rebuilt_at_ok by (intro NewStateFileFromRecords_exists) simp_all
  then obtain n where n: "NewStateFileFromRecords (ex_key 1) (orderedRecords (ex_key 1) [ex_rebuilt_at ?now]) 1 [] (sc_IdentityFingerprint (scope ob)) = Inr n"
    "set (Snapshots n) = {ex_rebuilt_at ?now}" "ActiveSnapshot n = Inr (rec_snap (ex_rebuilt_at ?now))"
    using ob(2) by (auto simp: config_scope_def Let_def)
  have "validateProfileForState (ex_profile 1) n = Inr ()"
    using n(2,3) ex_rebuilt_at_ok by (simp add: validateProfileForState_def validateDecryptableState_def validate_decryptable_record_Inr)
  moreover have "scope_snapshot (scope ob) 1 (time_Unix 1) StateActive = Inr (normal_form (ex_version 1 StateActive))"
    unfolding ob(2) scope_snapshot_def Normalize_Inr by (simp add: config_scope_def ex_config_def Let_def flip: ex_version_def)
  then have "rebuild_record ob [1 \<mapsto> time_Unix 1] 1 ?now 1 = Inr (normal_form (ex_version 1 StateActive), ex_rebuilt_at ?now)"
    by (simp add: rebuild_record_def ex_rebuilt_at_def)
  ultimately have "RebuildState ob (ex_profile 1) ?now = Inr n"
    using n(1) by (simp add: RebuildState_def last_active_id_def del: bindE_eq_Inr)
  with ob(1) n(3) show ?thesis unfolding same by blast
qed

lemma ex_diag_validated:
  "Validate ex_net False (\<lambda>_. []) (\<lambda>_. NotExist) ex_diag_config (validation_options [] False) = []"
  using ex_diag_valid by (simp add: config_invalid_def ex_diag_env_def)

lemma ex_diag_auth:
  "\<exists>r'. authenticateForDiagnostics ex_diag_env ex_diag_config r = (Some ex_diag_client, r') \<and> HasFailures r' = HasFailures r"
proof -
  have req: "validateRequired False ex_diag_config = []" and val: "validateValues ex_net False (\<lambda>_. []) ex_diag_config = []"
    using ex_diag_validated by (simp_all add: Validate_Nil)
  have ca: "trusted_ca ex_host f" for f by (simp add: trusted_ca_def ex_host_def)
  have parse: "h_url_parse ex_host = gn_url_parse ex_net" by (simp add: ex_host_def ex_net_def)
  have cert: "au_Method (cf_Auth ex_diag_config) \<noteq> AuthMethodCert" by (simp add: ex_diag_config_def ex_config_def AuthMethodCert_def)
  obtain manager where m: "buildAuthManager ex_host ex_diag_config = Inr manager" using auth_manager_ok [OF req val ca parse] ca cert by blast
  obtain parts where c: "NewClient (h_url_parse ex_host) (h_read_file ex_host) (h_pem_certs ex_host) (client_config ex_diag_config) = Inr parts"
    using clients_ok(1) [OF req val ca parse] ..
  obtain tls where t: "NewTLSConfig (h_read_file ex_host) (h_pem_certs ex_host) (bo_CACertFile (cf_OpenBao ex_diag_config))
      (bo_TLSServerName (cf_OpenBao ex_diag_config)) = Inr tls"
    by (simp add: NewTLSConfig_def ex_host_def ex_diag_config_def ex_config_def TrimSpace_ascii)
  show ?thesis using m c t by (auto simp: authenticateForDiagnostics_def Let_def ex_diag_env_def)
qed

lemma ex_diag_transit:
  assumes st: "newRotationObserver ex_diag_config = Inr ob" "RebuildState ob (ex_profile 1) (time_Unix 1778277600) = Inr st" "ActiveSnapshot st = Inr a"
  shows "\<exists>r'. runTransitDiagnostics ex_diag_env ex_diag_config ex_diag_client False r () = (Some (ex_profile 1, st), r', ()) \<and> HasFailures r' = HasFailures r"
proof -
  have caps: "checkCapabilities ex_diag_config (Inr (capabilities_by_path (tp_all (transitCapabilityPaths ex_diag_config))
      (\<lambda>p. Some (policy_capabilities (policy_stanzas ex_diag_config True) p)))) = Inr ()"
    by (rule generated_policy_passes [OF ex_diag_validated, where renewal = True]) (simp add: evaluates_policy_def capabilities_by_path_def)
  have findings: "keyProfileFindings (ex_profile 1) = []"
    by (simp add: AssessKeyProfile_empty) (simp add: ex_profile_def safe_profile_def)
  have det: "\<exists>r'. checkKeyIDDeterminism ex_diag_config (ex_profile 1) r = (Some st, r') \<and> HasFailures r' = HasFailures r" for r
    using st by (simp add: checkKeyIDDeterminism_def Let_def)
  have json: "dg_json ex_diag_env = ex_diag_json" by (simp add: ex_diag_env_def)
  let ?r = "upsert_check (Inr True) (Report_Pass ''transit.profile'' ''Transit key profile'' (Text ''key settings are suitable for KMS'')
    (Report_Pass ''transit.metadata'' ''Transit metadata'' (Text ''configured key metadata is readable'')
    (Report_Pass ''transit.capabilities'' ''Transit policy capabilities'' (Text ''required hot-path capabilities are present'') r)))"
  obtain r' where "checkKeyIDDeterminism ex_diag_config (ex_profile 1) ?r = (Some st, r')" "HasFailures r' = HasFailures ?r" using det by blast
  then show ?thesis using caps findings
    by (simp add: runTransitDiagnostics_def Let_def json ex_diag_requests del: keyProfileFindings_Nil) (simp add: upsert_check_def)
qed

lemma ex_diag_load:
  "loadConfiguredRegistryState ex_diag_config (dg_disk ex_diag_env) =
     (zero_load_result\<lparr>rsl_CheckpointStatus := stateCheckpointStatusAbsent\<rparr>, Inl (Sentinel ErrStateNotFound))"
  by (simp add: loadConfiguredRegistryState_def loadRegistryStateWithCheckpoint_def ex_diag_env_def ex_empty_disk_def LoadStateCheckpoint_def
      LoadStateFile_def zero_load_result_def Let_def)

lemma ex_verify_key: "verifyKeyCommand ex_diag_env (\<lambda>_. Inr ()) [] ''text'' () = None"
proof -
  obtain ob st a where st: "newRotationObserver ex_diag_config = Inr ob" "RebuildState ob (ex_profile 1) (time_Unix 1778277600) = Inr st"
    "ActiveSnapshot st = Inr a" using ex_diag_rebuild by blast
  have registry: "HasFailures (checkRegistryVersionRestrictions ex_diag_env ex_diag_config (ex_profile 1) r) = HasFailures r" for r
    using ex_diag_load by (simp add: checkRegistryVersionRestrictions_def case_prod_beta Let_def checkLatestVersionRestrictions_def)
  define r0 where "r0 = Report_Pass ''config.validate'' ''Config validation'' (Text ''identity-bearing configuration is valid'')
    (Report_Pass ''config.load'' ''Config load'' (Text ''loaded typed provider configuration'') \<lparr>rp_Name = ''verify-key'', rp_Checks = []\<rparr>)"
  obtain r1 where r1: "authenticateForDiagnostics ex_diag_env ex_diag_config r0 = (Some ex_diag_client, r1)" "HasFailures r1 = HasFailures r0"
    using ex_diag_auth by blast
  obtain r2 where r2: "runTransitDiagnostics ex_diag_env ex_diag_config ex_diag_client False r1 () = (Some (ex_profile 1, st), r2, ())"
    "HasFailures r2 = HasFailures r1" using ex_diag_transit [OF st] by blast
  have cfg: "cv_load (dg_config ex_diag_env) [] = Inr ex_diag_config" by (simp add: ex_diag_env_def)
  have run: "runVerifyKey ex_diag_env [] () = (checkRegistryVersionRestrictions ex_diag_env ex_diag_config (ex_profile 1) r2, None, ())"
    using ex_diag_valid r1(1) r2(1) by (simp add: runVerifyKey_def cfg Let_def flip: r0_def)
  have "\<not> HasFailures r0" by (simp add: r0_def) (simp add: HasFailures_def)
  then have ok: "\<not> HasFailures (checkRegistryVersionRestrictions ex_diag_env ex_diag_config (ex_profile 1) r2)" using registry r1(2) r2(2) by simp
  have "normalizeOutputFormat ''text'' = outputFormatText" by (simp add: normalizeOutputFormat_def outputFormatText_def TrimSpace_ascii)
  then show ?thesis using ok by (simp add: verifyKeyCommand_def run finish_report_def printCLIReport_def reportError_def)
qed

theorem verify_key_sound_witness:
  "\<exists>profile st. transit_suitable ex_diag_env ex_diag_config ex_diag_client False () profile st \<and> registry_usable ex_diag_config ex_empty_disk profile"
proof -
  have env: "cv_load (dg_config ex_diag_env) [] = Inr ex_diag_config" "dg_client ex_diag_env parts = ex_diag_client" "dg_disk ex_diag_env = ex_empty_disk" for parts
    by (simp_all add: ex_diag_env_def)
  have "ProcessExitCode (verifyKeyCommand ex_diag_env (\<lambda>_. Inr ()) [] ''text'' ()) = 0" by (simp add: ex_verify_key)
  from verify_key_sound [OF this] show ?thesis by (auto simp: env)
qed

end
