(* ===== verification/Rotation_Report.thy ===== *)
theory Rotation_Report
  imports Diagnostics
begin

text \<open>
  The commands \<open>rotation-plan\<close> and \<open>verify-rotation\<close> (\<^verbatim>\<open>cmd/bao-kms-provider/rotation.go\<close>): the report on the rotation that an operator reads
  without the running server, and that it tells what the server would tell.
\<close>

section \<open>The report\<close>

record rotationReport =
  rr_TransitMetadataStatus :: CheckStatus
  rr_TransitMetadataError :: message
  rr_Name :: string
  rr_StateLoaded :: bool
  rr_StateGeneration :: u64
  rr_StateHash :: string
  rr_StateCheckpointLoaded :: bool
  rr_StateCheckpointStatus :: string
  rr_StateCheckpointGeneration :: u64
  rr_StateCheckpointHash :: string
  rr_StateBootstrapEligible :: bool
  rr_StateBootstrapReason :: string
  rr_ActiveKeyIDHash :: string
  rr_ActiveTransitVersion :: int
  rr_LatestTransitVersion :: int
  rr_RotationState :: string
  rr_PendingKeyIDHash :: string
  rr_PendingVersion :: int
  rr_PendingStableCount :: int
  rr_PendingPromotesAfter :: go_time
  rr_Confidence :: string
  rr_Limitations :: string

definition zero_rotation_report :: rotationReport where
  "zero_rotation_report = \<lparr>rr_TransitMetadataStatus = CheckSkip, rr_TransitMetadataError = Text [], rr_Name = [], rr_StateLoaded = False,
     rr_StateGeneration = 0, rr_StateHash = [], rr_StateCheckpointLoaded = False, rr_StateCheckpointStatus = [], rr_StateCheckpointGeneration = 0,
     rr_StateCheckpointHash = [], rr_StateBootstrapEligible = False, rr_StateBootstrapReason = [], rr_ActiveKeyIDHash = [], rr_ActiveTransitVersion = 0,
     rr_LatestTransitVersion = 0, rr_RotationState = [], rr_PendingKeyIDHash = [], rr_PendingVersion = 0, rr_PendingStableCount = 0,
     rr_PendingPromotesAfter = zero_time, rr_Confidence = [], rr_Limitations = []\<rparr>"

fun pending_in :: "SnapshotStateRecord list \<Rightarrow> SnapshotStateRecord option" where
  "pending_in [] = None"
| "pending_in (record # rest) = (if r_State record = StatePending then Some record else pending_in rest)"

definition pendingSnapshot :: "StateFile \<Rightarrow> SnapshotStateRecord option" where
  "pendingSnapshot state = pending_in (Snapshots state)"

definition report_pending :: "Config \<Rightarrow> StateFile \<Rightarrow> rotationReport \<Rightarrow> rotationReport" where
  "report_pending cfg state report =
    (case pendingSnapshot state of
       None \<Rightarrow> report
     | Some pending \<Rightarrow>
        (let report = report\<lparr>rr_RotationState := ''pending'', rr_PendingVersion := r_TransitVersion pending,
               rr_PendingKeyIDHash := HashValue (r_KubernetesKeyID pending), rr_PendingStableCount := r_StableObservationCount pending\<rparr>
         in if r_StableAtUnix pending \<noteq> 0
            then report\<lparr>rr_PendingPromotesAfter := time_Unix (r_StableAtUnix pending) + rt_ActivationDelay (cf_Rotation cfg)\<rparr> else report))"

definition report_state :: "Config \<Rightarrow> registryStateLoadResult \<Rightarrow> rotationReport \<Rightarrow> rotationReport res" where
  "report_state cfg loaded report =
    (let report = report\<lparr>rr_StateCheckpointLoaded := rsl_CheckpointLoaded loaded, rr_StateCheckpointStatus := rsl_CheckpointStatus loaded,
           rr_StateCheckpointGeneration := rsl_CheckpointGeneration loaded, rr_StateCheckpointHash := rsl_CheckpointHash loaded\<rparr>;
         state = rsl_State loaded in
     if \<not> rsl_StateLoaded loaded then Inr report
     else bindE (ActiveSnapshot state) (\<lambda>active.
       Inr (report_pending cfg state (report\<lparr>rr_StateLoaded := True, rr_StateGeneration := Generation state, rr_StateHash := CurrentHash state,
         rr_ActiveTransitVersion := TransitVersion active, rr_ActiveKeyIDHash := HashValue (KubernetesKeyID active), rr_RotationState := ''active''\<rparr>))))"

definition applyTransitProfileToRotationReport :: "Config \<Rightarrow> rotationReport \<Rightarrow> KeyProfile \<Rightarrow> go_time \<Rightarrow> rotationReport res" where
  "applyTransitProfileToRotationReport cfg report profile now =
    (let report = report\<lparr>rr_TransitMetadataStatus := CheckPass, rr_LatestTransitVersion := LatestVersion profile\<rparr> in
     if rr_StateLoaded report then Inr report
     else let assessment = AssessAutoBootstrapState profile;
              report = report\<lparr>rr_StateBootstrapEligible := ba_Allowed assessment, rr_StateBootstrapReason := ba_Reason assessment\<rparr> in
       bindE (failIf (\<not> ba_Allowed assessment)
         (errw ErrStateUnavailable (''local registry state is absent and cannot be auto-bootstrapped: '' @ ba_Reason assessment))) (\<lambda>_.
       bindE (newRotationObserver cfg) (\<lambda>observer.
       bindE (RebuildState observer profile now) (\<lambda>rebuilt.
       bindE (ActiveSnapshot rebuilt) (\<lambda>active.
       Inr (report\<lparr>rr_ActiveTransitVersion := TransitVersion active, rr_ActiveKeyIDHash := HashValue (KubernetesKeyID active),
         rr_RotationState := ''active''\<rparr>))))))"

definition rotationClients :: "('c, 'w) diag_env \<Rightarrow> Config \<Rightarrow> 'w Client res" where
  "rotationClients env cfg =
    (case fst (authenticateForDiagnostics env cfg \<lparr>rp_Name = ''rotation'', rp_Checks = []\<rparr>) of
       None \<Rightarrow> Inl (Msg ''OpenBao diagnostics unavailable'') | Some client \<Rightarrow> Inr client)"

text \<open>A failure returns the zero report, except where the local part of the report has already been collected.\<close>

definition buildRotationReport :: "('c, 'w) diag_env \<Rightarrow> Config \<Rightarrow> string \<Rightarrow> 'w \<Rightarrow> rotationReport \<times> unit res" where
  "buildRotationReport env cfg name w =
    (let (loaded, err) = loadConfiguredRegistryState cfg (dg_disk env);
         report = zero_rotation_report\<lparr>rr_Name := name, rr_RotationState := ''unknown'', rr_TransitMetadataStatus := CheckSkip\<rparr> in
     case bindE (case err of Inl e \<Rightarrow> failIf (\<not> errors_is e ErrStateNotFound) e | Inr _ \<Rightarrow> Inr ()) (\<lambda>_. report_state cfg loaded report) of
       Inl e \<Rightarrow> (zero_rotation_report, Inl e)
     | Inr report \<Rightarrow>
        (case bindE (rotationClients env cfg) (\<lambda>client.
                fst (ReadKeyProfile client (dg_json env) (tx_MountPath (cf_Transit cfg)) (tx_KeyName (cf_Transit cfg)) w)) of
           Inl e \<Rightarrow> (report\<lparr>rr_TransitMetadataStatus := CheckFail, rr_TransitMetadataError := safeMessage e\<rparr>, Inl e)
         | Inr profile \<Rightarrow>
            (case applyTransitProfileToRotationReport cfg report profile (dg_now env) of
               Inl e \<Rightarrow> (zero_rotation_report, Inl e) | Inr report \<Rightarrow> (report, Inr ()))))"

section \<open>Output\<close>

text \<open>The lines of the text form; \<open>rfc3339\<close> prints a time.\<close>

definition report_line :: "string \<Rightarrow> string \<Rightarrow> string" where
  "report_line label value = label @ '': '' @ value @ [CHR 0x0A]"

definition bool_text :: "bool \<Rightarrow> string" where
  "bool_text b = (if b then ''true'' else ''false'')"

definition rotation_text :: "(go_error \<Rightarrow> string) \<Rightarrow> (go_time \<Rightarrow> string) \<Rightarrow> rotationReport \<Rightarrow> string" where
  "rotation_text text_of rfc3339 r =
     rr_Name r @ [CHR 0x0A]
   @ report_line ''transitMetadataStatus'' (CheckStatus_string (rr_TransitMetadataStatus r))
   @ (let e = message_text text_of (rr_TransitMetadataError r) in if e \<noteq> [] then report_line ''transitMetadataError'' e else [])
   @ report_line ''stateLoaded'' (bool_text (rr_StateLoaded r))
   @ (if rr_StateLoaded r then report_line ''stateGeneration'' (Itoa (uint (rr_StateGeneration r))) @ report_line ''stateHash'' (rr_StateHash r) else [])
   @ report_line ''stateCheckpointLoaded'' (bool_text (rr_StateCheckpointLoaded r))
   @ (if rr_StateCheckpointStatus r \<noteq> [] then report_line ''stateCheckpointStatus'' (rr_StateCheckpointStatus r) else [])
   @ (if rr_StateCheckpointLoaded r
      then report_line ''stateCheckpointGeneration'' (Itoa (uint (rr_StateCheckpointGeneration r)))
           @ report_line ''stateCheckpointHash'' (rr_StateCheckpointHash r) else [])
   @ (if rr_StateBootstrapReason r \<noteq> []
      then report_line ''stateBootstrapEligible'' (bool_text (rr_StateBootstrapEligible r)) @ report_line ''stateBootstrapReason'' (rr_StateBootstrapReason r)
      else [])
   @ report_line ''rotationState'' (rr_RotationState r) @ report_line ''activeKeyIdHash'' (rr_ActiveKeyIDHash r)
   @ report_line ''activeTransitVersion'' (Itoa (rr_ActiveTransitVersion r)) @ report_line ''latestTransitVersion'' (Itoa (rr_LatestTransitVersion r))
   @ (if rr_RotationState r = ''pending''
      then report_line ''pendingKeyIdHash'' (rr_PendingKeyIDHash r) @ report_line ''pendingTransitVersion'' (Itoa (rr_PendingVersion r))
           @ report_line ''pendingStableObservationCount'' (Itoa (rr_PendingStableCount r))
           @ (if \<not> IsZero (rr_PendingPromotesAfter r) then report_line ''pendingPromotesAfter'' (rfc3339 (rr_PendingPromotesAfter r)) else [])
      else [])
   @ (if rr_Confidence r \<noteq> [] then report_line ''confidence'' (rr_Confidence r) else [])
   @ (if rr_Limitations r \<noteq> [] then report_line ''limitations'' (rr_Limitations r) else [])"

text \<open>The object that \<open>printRotationReportJSON\<close> encodes: times as text, an unset one as the empty text that the encoding omits.\<close>

record rotationReportJSON =
  rj_TransitMetadataStatus :: CheckStatus
  rj_TransitMetadataError :: string
  rj_Name :: string
  rj_StateLoaded :: bool
  rj_StateGeneration :: u64
  rj_StateHash :: string
  rj_StateCheckpointLoaded :: bool
  rj_StateCheckpointStatus :: string
  rj_StateCheckpointGeneration :: u64
  rj_StateCheckpointHash :: string
  rj_StateBootstrapEligible :: bool
  rj_StateBootstrapReason :: string
  rj_ActiveKeyIDHash :: string
  rj_ActiveTransitVersion :: int
  rj_LatestTransitVersion :: int
  rj_RotationState :: string
  rj_PendingKeyIDHash :: string
  rj_PendingTransitVersion :: int
  rj_PendingStableObservationCount :: int
  rj_PendingPromotesAfter :: string
  rj_Confidence :: string
  rj_Limitations :: string

definition rotation_json :: "(go_error \<Rightarrow> string) \<Rightarrow> (go_time \<Rightarrow> string) \<Rightarrow> rotationReport \<Rightarrow> rotationReportJSON" where
  "rotation_json text_of rfc3339 r = \<lparr>rj_TransitMetadataStatus = rr_TransitMetadataStatus r, rj_TransitMetadataError = message_text text_of (rr_TransitMetadataError r),
     rj_Name = rr_Name r, rj_StateLoaded = rr_StateLoaded r, rj_StateGeneration = rr_StateGeneration r, rj_StateHash = rr_StateHash r,
     rj_StateCheckpointLoaded = rr_StateCheckpointLoaded r, rj_StateCheckpointStatus = rr_StateCheckpointStatus r,
     rj_StateCheckpointGeneration = rr_StateCheckpointGeneration r, rj_StateCheckpointHash = rr_StateCheckpointHash r,
     rj_StateBootstrapEligible = rr_StateBootstrapEligible r, rj_StateBootstrapReason = rr_StateBootstrapReason r,
     rj_ActiveKeyIDHash = rr_ActiveKeyIDHash r, rj_ActiveTransitVersion = rr_ActiveTransitVersion r,
     rj_LatestTransitVersion = rr_LatestTransitVersion r, rj_RotationState = rr_RotationState r,
     rj_PendingKeyIDHash = rr_PendingKeyIDHash r, rj_PendingTransitVersion = rr_PendingVersion r,
     rj_PendingStableObservationCount = rr_PendingStableCount r,
     rj_PendingPromotesAfter = (if IsZero (rr_PendingPromotesAfter r) then [] else rfc3339 (rr_PendingPromotesAfter r)),
     rj_Confidence = rr_Confidence r, rj_Limitations = rr_Limitations r\<rparr>"

definition printRotationReport ::
  "(go_error \<Rightarrow> string) \<Rightarrow> (go_time \<Rightarrow> string) \<Rightarrow> (rotationReportJSON printed \<Rightarrow> unit res) \<Rightarrow> rotationReport \<Rightarrow> string \<Rightarrow> command_error option" where
  "printRotationReport text_of rfc3339 write report output =
    (let fmt = normalizeOutputFormat output in
     if fmt = outputFormatText then (case write (PrintedText (rotation_text text_of rfc3339 report)) of _ \<Rightarrow> None)
     else if fmt = outputFormatJSON then uncoded (write (PrintedJSON (rotation_json text_of rfc3339 report)))
     else unsupportedOutputFormat output)"

definition finishRotationReport ::
  "(go_error \<Rightarrow> string) \<Rightarrow> (go_time \<Rightarrow> string) \<Rightarrow> (rotationReportJSON printed \<Rightarrow> unit res) \<Rightarrow> rotationReport \<Rightarrow> string \<Rightarrow> unit res \<Rightarrow> command_error option" where
  "finishRotationReport text_of rfc3339 write report output reportErr =
    (case (if rr_Name report \<noteq> [] then printRotationReport text_of rfc3339 write report output else None) of
       Some err \<Rightarrow> Some err
     | None \<Rightarrow> WithExitCode ExitCheckFailed (uncoded reportErr))"

definition rotationPlanCommand ::
  "('c, 'w) diag_env \<Rightarrow> (go_time \<Rightarrow> string) \<Rightarrow> (rotationReportJSON printed \<Rightarrow> unit res) \<Rightarrow> string \<Rightarrow> string \<Rightarrow> 'w \<Rightarrow> command_error option" where
  "rotationPlanCommand env rfc3339 write configPath output w =
    (case loadAndValidateConfig (dg_config env) configPath False of
       Inl err \<Rightarrow> Some err
     | Inr cfg \<Rightarrow> (let (report, err) = buildRotationReport env cfg ''rotation-plan'' w
                  in finishRotationReport (cv_text (dg_config env)) rfc3339 write report output err))"

definition verifyRotationCommand ::
  "('c, 'w) diag_env \<Rightarrow> (go_time \<Rightarrow> string) \<Rightarrow> (rotationReportJSON printed \<Rightarrow> unit res) \<Rightarrow> string \<Rightarrow> string \<Rightarrow> 'w \<Rightarrow> command_error option" where
  "verifyRotationCommand env rfc3339 write configPath output w =
    (case loadAndValidateConfig (dg_config env) configPath False of
       Inl err \<Rightarrow> Some err
     | Inr cfg \<Rightarrow> (let (report, err) = buildRotationReport env cfg ''verify-rotation'' w;
                      report = report\<lparr>rr_Confidence := ''limited'', rr_Limitations := rotationLimitationsLocal\<rparr>
                  in finishRotationReport (cv_text (dg_config env)) rfc3339 write report output err))"

section \<open>What the report says\<close>

lemma pendingSnapshot_eq [simp]: "pendingSnapshot state = pendingRecord state"
proof -
  have "pending_in rs = find (\<lambda>r. r_State r = StatePending) rs" for rs by (induction rs) simp_all
  then show ?thesis by (simp add: pendingSnapshot_def pendingRecord_def)
qed

text \<open>A state is reported loaded only when the configured loader accepted it.\<close>

lemma loaded_only_if_accepted:
  assumes "loadConfiguredRegistryState cfg d = (loaded, err)" "rsl_StateLoaded loaded"
  shows "err = Inr ()"
  using assms
  by (auto simp: loadConfiguredRegistryState_def loadRegistryStateWithCheckpoint_def Let_def zero_load_result_def
      split: prod.splits sum.splits if_splits)

text \<open>The part of a report that the running server also publishes, and what the server publishes for a state.\<close>

definition agrees_with_server :: "Config \<Rightarrow> StateFile \<Rightarrow> rotationReport \<Rightarrow> Diagnostics \<Rightarrow> bool" where
  "agrees_with_server cfg st r d \<longleftrightarrow>
     rr_StateGeneration r = StateGeneration d \<and> rr_StateHash r = StateHash d
   \<and> rr_ActiveKeyIDHash r = ActiveKeyIDHash d \<and> rr_ActiveTransitVersion r = ActiveTransitVersion d
   \<and> rr_RotationState r = RotationState d \<and> rr_PendingKeyIDHash r = PendingKeyIDHash d
   \<and> rr_PendingVersion r = PendingTransitVersion d \<and> rr_PendingStableCount r = PendingStableObservationCount d
   \<and> rr_PendingPromotesAfter r =
       (if \<exists>p. pendingRecord st = Some p \<and> r_StableAtUnix p \<noteq> 0 then PendingStableAt d + rt_ActivationDelay (cf_Rotation cfg) else zero_time)"

lemma report_state_agrees:
  assumes "report_state cfg loaded (zero_rotation_report\<lparr>rr_Name := name, rr_RotationState := ''unknown'', rr_TransitMetadataStatus := s\<rparr>) = Inr r"
    and "rsl_StateLoaded loaded"
  shows "\<exists>active. ActiveSnapshot (rsl_State loaded) = Inr active
     \<and> agrees_with_server cfg (rsl_State loaded) r (diagnosticsForState (rsl_State loaded) True active h at age stale brk)"
proof -
  from assms obtain active where "ActiveSnapshot (rsl_State loaded) = Inr active"
    by (auto simp: report_state_def Let_def)
  with assms show ?thesis
    by (cases "pendingRecord (rsl_State loaded)")
      (auto simp: report_state_def report_pending_def diagnosticsForState_def agrees_with_server_def zero_rotation_report_def Let_def)
qed

lemma report_state_loaded:
  "report_state cfg loaded (zero_rotation_report\<lparr>rr_Name := name, rr_RotationState := ''unknown'', rr_TransitMetadataStatus := s\<rparr>) = Inr r \<Longrightarrow>
     rr_StateLoaded r = rsl_StateLoaded loaded"
  by (auto simp: report_state_def report_pending_def zero_rotation_report_def Let_def split: if_splits option.splits)

lemma agrees_with_server_upd [simp]:
  "agrees_with_server cfg st (r\<lparr>rr_TransitMetadataStatus := s, rr_LatestTransitVersion := v\<rparr>) d = agrees_with_server cfg st r d"
  by (simp add: agrees_with_server_def)

text \<open>The active identifier of a rebuilt registry is a function of the key and the configuration, not of the time at which it is rebuilt.\<close>

lemma rebuilt_active:
  assumes "RebuildState ob pr now = Inr st"
  shows "\<exists>vs c n. validatedVersionCreationTimes pr = Inr vs \<and> vs (LatestVersion pr) = Some c
    \<and> scope_snapshot (scope ob) (LatestVersion pr) c StateActive = Inr n \<and> ActiveSnapshot st = Inr n \<and> ActiveKeyID st = KubernetesKeyID n"
proof -
  from RebuildState_Inr(3) [OF assms] have ok: "content_ok st" by (auto simp: NewStateFileFromRecords_Inr validated_content)
  then obtain q where q: "q \<in> set (Snapshots st)" "rec_id q = ActiveKeyID st" "r_State q = StateActive" by (auto simp: content_ok_def)
  from RebuildState_Inr(4) [OF assms q(1)] obtain v n r vs where vs: "validatedVersionCreationTimes pr = Inr vs"
    and r: "rebuild_record ob vs (LatestVersion pr) now v = Inr (n, r)" and qr: "q = norm_rec r" by blast
  note rr = rebuild_record_Inr [OF r]
  have v: "v = LatestVersion pr" using q(3) rr(5) by (simp add: qr split: if_splits)
  have "rec_snap q = n" "KubernetesKeyID n = ActiveKeyID st" using rr(2,3) q(2) by (simp_all add: qr)
  with ok q rr(1) v vs show ?thesis by (auto simp: ActiveSnapshot_Inr)
qed

lemma rebuilt_active_unique:
  assumes "RebuildState ob pr now = Inr st" "RebuildState ob pr t = Inr st'"
  shows "ActiveSnapshot st = ActiveSnapshot st'" "ActiveKeyID st = ActiveKeyID st'"
  using rebuilt_active [OF assms(1)] rebuilt_active [OF assms(2)] by auto

lemma rebuilt_report:
  assumes "applyTransitProfileToRotationReport cfg r profile now = Inr report" "\<not> rr_StateLoaded r"
  shows "ba_Allowed (AssessAutoBootstrapState profile)" "rr_RotationState report = ''active''" "\<not> rr_StateLoaded report"
    "\<exists>ob st active. newRotationObserver cfg = Inr ob \<and> RebuildState ob profile now = Inr st \<and> ActiveSnapshot st = Inr active
       \<and> rr_ActiveKeyIDHash report = HashValue (KubernetesKeyID active) \<and> rr_ActiveTransitVersion report = TransitVersion active"
  using assms by (auto simp: applyTransitProfileToRotationReport_def Let_def failIf_def split: if_splits)

lemma buildRotationReport_Inr:
  assumes "buildRotationReport env cfg name w = (report, Inr u)"
  shows "\<exists>loaded err r client profile. loadConfiguredRegistryState cfg (dg_disk env) = (loaded, err)
    \<and> (case err of Inl e \<Rightarrow> errors_is e ErrStateNotFound | Inr _ \<Rightarrow> True)
    \<and> report_state cfg loaded (zero_rotation_report\<lparr>rr_Name := name, rr_RotationState := ''unknown'', rr_TransitMetadataStatus := CheckSkip\<rparr>) = Inr r
    \<and> rotationClients env cfg = Inr client
    \<and> fst (ReadKeyProfile client (dg_json env) (tx_MountPath (cf_Transit cfg)) (tx_KeyName (cf_Transit cfg)) w) = Inr profile
    \<and> applyTransitProfileToRotationReport cfg r profile (dg_now env) = Inr report"
proof -
  obtain loaded err where l: "loadConfiguredRegistryState cfg (dg_disk env) = (loaded, err)" by fastforce
  show ?thesis
    using assms unfolding buildRotationReport_def l
    by (auto simp: Let_def failIf_def split: sum.splits if_splits)
qed

text \<open>Either command succeeds only when the report is complete: a failed remote read prints the local evidence and still fails.\<close>

lemma finishRotationReport_ok:
  "finishRotationReport text_of rfc3339 write report output err = None \<Longrightarrow> err = Inr ()"
  by (cases err) (auto simp: finishRotationReport_def uncoded_def WithExitCode_def split: option.splits if_splits)

lemma rotation_commands_exit:
  "rotationPlanCommand env rfc3339 write path output w = None \<Longrightarrow>
     \<exists>cfg report. loadAndValidateConfig (dg_config env) path False = Inr cfg \<and> buildRotationReport env cfg ''rotation-plan'' w = (report, Inr ())"
  "verifyRotationCommand env rfc3339 write path output w = None \<Longrightarrow>
     \<exists>cfg report. loadAndValidateConfig (dg_config env) path False = Inr cfg \<and> buildRotationReport env cfg ''verify-rotation'' w = (report, Inr ())"
  by (auto simp: rotationPlanCommand_def verifyRotationCommand_def Let_def split: sum.splits prod.splits dest: finishRotationReport_ok)

text \<open>
  C33 The report of \<open>rotation-plan\<close> and \<open>verify-rotation\<close>, computed offline from the files of the node and one read of the key, says what the
  running server says. With a stored registry, generation, hash, active identifier and version, rotation state and pending version are those
  of the server's diagnostics for that registry, and the promotion time is the recorded stable time plus the configured delay. Without one,
  automatic bootstrap is permitted and the active identifier reported is the one that every later rebuild from the same key profile activates,
  at whatever time it happens.
\<close>

theorem rotation_report_agrees:
  assumes "buildRotationReport env cfg name w = (report, Inr ())"
  shows "(rr_StateLoaded report \<longrightarrow> (\<exists>st active. d_state (dg_disk env) = Stored st \<and> StateFile_Validate st = Inr () \<and> ActiveSnapshot st = Inr active
       \<and> (\<forall>h at age stale brk. agrees_with_server cfg st report (diagnosticsForState st True active h at age stale brk))))
    \<and> (\<not> rr_StateLoaded report \<longrightarrow> (\<exists>client profile ob. rotationClients env cfg = Inr client
       \<and> fst (ReadKeyProfile client (dg_json env) (tx_MountPath (cf_Transit cfg)) (tx_KeyName (cf_Transit cfg)) w) = Inr profile
       \<and> newRotationObserver cfg = Inr ob \<and> ba_Allowed (AssessAutoBootstrapState profile) \<and> rr_RotationState report = ''active''
       \<and> (\<forall>t st. RebuildState ob profile t = Inr st \<longrightarrow> rr_ActiveKeyIDHash report = HashValue (ActiveKeyID st)
            \<and> (\<exists>active. ActiveSnapshot st = Inr active \<and> rr_ActiveTransitVersion report = TransitVersion active))))"
proof -
  from buildRotationReport_Inr [OF assms] obtain loaded err r client profile where
    load: "loadConfiguredRegistryState cfg (dg_disk env) = (loaded, err)"
    and r: "report_state cfg loaded (zero_rotation_report\<lparr>rr_Name := name, rr_RotationState := ''unknown'', rr_TransitMetadataStatus := CheckSkip\<rparr>) = Inr r"
    and client: "rotationClients env cfg = Inr client"
    and profile: "fst (ReadKeyProfile client (dg_json env) (tx_MountPath (cf_Transit cfg)) (tx_KeyName (cf_Transit cfg)) w) = Inr profile"
    and ap: "applyTransitProfileToRotationReport cfg r profile (dg_now env) = Inr report" by blast
  note is_loaded = report_state_loaded [OF r]
  show ?thesis
  proof (cases "rsl_StateLoaded loaded")
    case True
    with ap is_loaded have rep: "report = r\<lparr>rr_TransitMetadataStatus := CheckPass, rr_LatestTransitVersion := LatestVersion profile\<rparr>"
      by (simp add: applyTransitProfileToRotationReport_def Let_def)
    have "err = Inr ()" using loaded_only_if_accepted [OF load True] .
    with load have acc: "loadConfiguredRegistryState cfg (dg_disk env) = (loaded, Inr ())" by simp
    note stored = loadConfigured_Inr(1,2) [OF acc]
    obtain active where active: "ActiveSnapshot (rsl_State loaded) = Inr active" using report_state_agrees [OF r True] by blast
    have "agrees_with_server cfg (rsl_State loaded) report (diagnosticsForState (rsl_State loaded) True active h at age stale brk)" for h at age stale brk
      using report_state_agrees [OF r True, of h at age stale brk] active by (auto simp: rep)
    with stored active True is_loaded rep show ?thesis by auto
  next
    case False
    with is_loaded have "\<not> rr_StateLoaded r" by simp
    note rb = rebuilt_report [OF ap this]
    from rb(4) obtain ob st active where ob: "newRotationObserver cfg = Inr ob" and st: "RebuildState ob profile (dg_now env) = Inr st"
      and act: "ActiveSnapshot st = Inr active" and vals: "rr_ActiveKeyIDHash report = HashValue (KubernetesKeyID active)"
      "rr_ActiveTransitVersion report = TransitVersion active" by blast
    have "rr_ActiveKeyIDHash report = HashValue (ActiveKeyID s) \<and> (\<exists>active. ActiveSnapshot s = Inr active \<and> rr_ActiveTransitVersion report = TransitVersion active)"
      if s: "RebuildState ob profile t = Inr s" for t s
      using rebuilt_active_unique [OF s st] rebuilt_active [OF st] act vals by auto
    with client profile ob rb(1-3) show ?thesis by blast
  qed
qed

lemma ex_rotation_report: "\<exists>report. buildRotationReport ex_diag_env ex_diag_config ''rotation-plan'' () = (report, Inr ()) \<and> \<not> rr_StateLoaded report"
proof -
  obtain ob st a where st: "newRotationObserver ex_diag_config = Inr ob" "RebuildState ob (ex_profile 1) (time_Unix 1778277600) = Inr st"
    "ActiveSnapshot st = Inr a" using ex_diag_rebuild by blast
  have now: "dg_now ex_diag_env = time_Unix 1778277600" and json: "dg_json ex_diag_env = ex_diag_json" by (simp_all add: ex_diag_env_def)
  have client: "rotationClients ex_diag_env ex_diag_config = Inr ex_diag_client"
    using ex_diag_auth [of "\<lparr>rp_Name = ''rotation'', rp_Checks = []\<rparr>"] by (auto simp: rotationClients_def)
  have "ba_Allowed (AssessAutoBootstrapState (ex_profile 1))" by (simp add: AssessAutoBootstrapState_def ex_profile_def Let_def)
  then show ?thesis
    using st ex_diag_load
    by (simp add: buildRotationReport_def report_state_def client json now ex_diag_requests applyTransitProfileToRotationReport_def Let_def
        zero_load_result_def failIf_def) (simp add: zero_rotation_report_def)
qed

theorem rotation_report_agrees_witness:
  "\<exists>ob report. newRotationObserver ex_diag_config = Inr ob \<and> fst (buildRotationReport ex_diag_env ex_diag_config ''rotation-plan'' ()) = report
     \<and> (\<forall>t st. RebuildState ob (ex_profile 1) t = Inr st \<longrightarrow> rr_ActiveKeyIDHash report = HashValue (ActiveKeyID st))"
proof -
  obtain report where r: "buildRotationReport ex_diag_env ex_diag_config ''rotation-plan'' () = (report, Inr ())" "\<not> rr_StateLoaded report"
    using ex_rotation_report by blast
  have client: "rotationClients ex_diag_env ex_diag_config = Inr ex_diag_client"
    using ex_diag_auth [of "\<lparr>rp_Name = ''rotation'', rp_Checks = []\<rparr>"] by (auto simp: rotationClients_def)
  have json: "dg_json ex_diag_env = ex_diag_json" by (simp add: ex_diag_env_def)
  from rotation_report_agrees [OF r(1)] r show ?thesis by (auto simp: client json ex_diag_requests)
qed

end
