(* ===== verification/Setup_Script.thy ===== *)
theory Setup_Script
  imports Diagnostics
begin

text \<open>
  The script that prepares OpenBao (\<^verbatim>\<open>internal/scaffold/openbaoscript.go\<close>): its checks, its text, and what a POSIX shell reads in it.
\<close>

section \<open>Building scripts\<close>

text \<open>\<open>strings.ReplaceAll\<close> of one character.\<close>

definition replace_char :: "char \<Rightarrow> string \<Rightarrow> string \<Rightarrow> string" where
  "replace_char c new s = concat (map (\<lambda>x. if x = c then new else [x]) s)"

definition shellQuote :: "string \<Rightarrow> string" where
  "shellQuote v = [CHR 0x27] @ replace_char (CHR 0x27) [CHR 0x27, CHR 0x5C, CHR 0x27, CHR 0x27] v @ [CHR 0x27]"

definition script_lit :: "string \<Rightarrow> string" where "script_lit text = text"

definition script_val :: "string \<Rightarrow> string" where "script_val v = shellQuote v"

definition script_assign :: "string \<Rightarrow> string \<Rightarrow> string" where "script_assign key v = key @ ''='' @ shellQuote v"

definition script_flag :: "string \<Rightarrow> string \<Rightarrow> string" where "script_flag name v = name @ ''='' @ shellQuote v"

definition script_raw :: "string \<Rightarrow> string" where "script_raw line = line @ [CHR 0x0A]"

definition script_blank :: string where "script_blank = [CHR 0x0A]"

definition script_comment :: "string \<Rightarrow> string" where "script_comment text = script_raw (''# '' @ text)"

definition script_command :: "string list \<Rightarrow> string" where "script_command words = script_raw (Join words '' '')"

section \<open>The script\<close>

definition PolicyFileName :: string where "PolicyFileName = ''openbao-policy.hcl''"
definition authPathPrefix :: string where "authPathPrefix = ''auth/''"
definition jwtTokenTTL :: string where "jwtTokenTTL = ''30m''"
definition jwtTokenMaxTTL :: string where "jwtTokenMaxTTL = ''1h''"

text \<open>The regular expression \<open>^[A-Za-z0-9_][A-Za-z0-9_.-]*$\<close>.\<close>

definition policyNamePattern :: "string \<Rightarrow> bool" where
  "policyNamePattern s \<longleftrightarrow> s \<noteq> [] \<and> is_word (hd s) \<and> list_all (\<lambda>c. is_word c \<or> c = CHR ''.'' \<or> c = CHR ''-'') s"

definition setup_problems :: "Config \<Rightarrow> string \<Rightarrow> string list" where
  "setup_problems cfg policyName =
    (let au = cf_Auth cfg; jwt = au_JWT au in
     (if \<not> policyNamePattern policyName \<or> policyName = ''root'' \<or> policyName = ''default''
      then [''policy name must be a dedicated ASCII name without path or list separators''] else [])
   @ (if au_Method au = AuthMethodJWT then
        (if au_LoginBeforeTokenExpiry au \<ge> 1800000000000
         then [''auth.loginBeforeTokenExpiry must be less than the generated JWT role TTL of 30m''] else [])
      @ (if \<not> HasPrefix (jc_MountPath jwt) authPathPrefix then [''auth.jwt.mountPath must start with auth/''] else [])
      @ (if jc_ExpectedIssuer jwt = [] then [''auth.jwt.expectedIssuer is required to configure the OpenBao JWT auth mount''] else [])
      @ (if jc_ExpectedAudience jwt = [] then [''auth.jwt.expectedAudience is required to bind the OpenBao JWT role''] else [])
      @ (if jc_ExpectedSubject jwt = [] then [''auth.jwt.expectedSubject is required to bind the OpenBao JWT role''] else [])
      else []))"

definition ValidateSetup :: "config_env \<Rightarrow> Config \<Rightarrow> string \<Rightarrow> unit res" where
  "ValidateSetup env cfg policyName =
    bindE (failIf (Validate (cv_net env) (cv_spiffe env) (cv_text env) (cv_lstat env) cfg (validation_options [] False) \<noteq> []) (Msg ''config invalid'')) (\<lambda>_.
      (let problems = setup_problems cfg policyName in failIf (problems \<noteq> []) (Msg (Join problems ''; ''))))"

text \<open>The JSON text of \<open>setupJWTRole\<close>.\<close>

definition setupJWTRole :: "JWTAuthConfig \<Rightarrow> string \<Rightarrow> string" where
  "setupJWTRole jwt policyName =
     json_object [(''role_type'', json_string ''jwt''),
       (''bound_audiences'', json_array (map json_string (jc_ExpectedAudience jwt))),
       (''bound_subject'', json_string (jc_ExpectedSubject jwt)), (''user_claim'', json_string ''sub''),
       (''token_policies'', json_array [json_string policyName]), (''token_ttl'', json_string jwtTokenTTL),
       (''token_max_ttl'', json_string jwtTokenMaxTTL), (''token_no_default_policy'', ''true'')]"

definition setup_header :: string where
  "setup_header =
     script_raw ''#!/bin/sh''
   @ script_comment ''Generated by bao-kms-provider init. Review before running as an OpenBao administrator.''
   @ script_comment ''Requires the bao CLI, logged in with a token that can manage mounts, auth, and policies.''
   @ script_raw ''set -eu''
   @ script_raw (''policy_file='' @ [CHR 0x22] @ ''$(dirname '' @ [CHR 0x22] @ ''$0'' @ [CHR 0x22] @ '')/'' @ PolicyFileName @ [CHR 0x22])
   @ script_raw ''phase=${1:-all}''
   @ script_raw (''test '' @ [CHR 0x22] @ ''$#'' @ [CHR 0x22] @ '' -le 1 || { echo '' @ [CHR 0x27] @ ''Pass one setup phase only'' @ [CHR 0x27] @ '' >&2; exit 2; }'')
   @ script_raw (''case '' @ [CHR 0x22] @ ''$phase'' @ [CHR 0x22] @ '' in all|transit|policy|auth-mount|auth-config|auth-role) ;;'')
   @ script_raw (''  *) echo '' @ [CHR 0x27] @ ''Expected all, transit, policy, auth-mount, auth-config, or auth-role'' @ [CHR 0x27] @ '' >&2; exit 2 ;; esac'')
   @ script_comment ''After a partial failure, inspect completed steps before selecting a remaining phase.''
   @ script_comment ''Individual phases do not verify or adopt existing resources.''
   @ script_comment ''Do not repeat transit to recover auth setup.''
   @ script_blank"

text \<open>The line that opens the commands of one phase.\<close>

definition phase_guard :: "string \<Rightarrow> string" where
  "phase_guard phase = script_raw (''if [ '' @ [CHR 0x22] @ ''$phase'' @ [CHR 0x22] @ '' = all ] || [ '' @ [CHR 0x22] @ ''$phase'' @ [CHR 0x22] @ '' = '' @ phase @ '' ]; then'')"

definition setup_transit :: "Config \<Rightarrow> string" where
  "setup_transit cfg =
    (let tx = cf_Transit cfg in
     script_comment ''Dedicated Transit mount. disable_upsert stops encrypt calls from creating keys.''
   @ phase_guard ''transit''
   @ script_command [script_lit ''bao'', script_lit ''secrets'', script_lit ''enable'', script_flag ''-path'' (tx_MountPath tx), script_lit ''transit'']
   @ script_command [script_lit ''bao'', script_lit ''write'', script_val (tx_MountPath tx @ ''/config/keys''), script_lit ''disable_upsert=true'']
   @ script_blank
   @ script_comment ''Transit key. Never enable exportable or allow_plaintext_backup: OpenBao cannot revert them.''
   @ script_comment (''Its key lineage ID is '' @ ks_KeyLineageID (tx_KeyIDScope tx) @ ''; a recreated key needs a new one.'')
   @ script_command [script_lit ''bao'', script_lit ''write'', script_val (tx_MountPath tx @ ''/keys/'' @ tx_KeyName tx),
       script_lit ''type=aes256-gcm96'', script_lit ''exportable=false'', script_lit ''allow_plaintext_backup=false'']
   @ script_raw ''fi''
   @ script_blank)"

definition setup_policy :: "string \<Rightarrow> string" where
  "setup_policy policyName =
     script_comment ''Least-privilege policy for the provider token.''
   @ phase_guard ''policy''
   @ script_command [script_lit ''bao'', script_lit ''policy'', script_lit ''write'', script_val policyName,
       script_lit ([CHR 0x22] @ ''$policy_file'' @ [CHR 0x22])]
   @ script_raw ''fi''
   @ script_blank"

definition setup_jwt :: "JWTAuthConfig \<Rightarrow> string \<Rightarrow> string" where
  "setup_jwt jwt policyName =
    (let mountPath = jc_MountPath jwt in
     script_comment (''JWT auth through OIDC discovery on the provider'' @ [CHR 0x27] @ ''s issuer. The issuer must stay'')
   @ script_comment ''reachable when the protected API server is down.''
   @ phase_guard ''auth-mount''
   @ script_command [script_lit ''bao'', script_lit ''auth'', script_lit ''enable'', script_flag ''-path'' (TrimPrefix mountPath authPathPrefix), script_lit ''jwt'']
   @ script_raw ''fi''
   @ phase_guard ''auth-config''
   @ script_command [script_lit ''bao'', script_lit ''write'', script_val (mountPath @ ''/config''),
       script_assign ''oidc_discovery_url'' (jc_ExpectedIssuer jwt), script_assign ''bound_issuer'' (jc_ExpectedIssuer jwt)]
   @ script_raw ''fi''
   @ phase_guard ''auth-role''
   @ script_command [script_lit ''printf'', script_lit ([CHR 0x27] @ ''%s'' @ [CHR 0x5C] @ ''n'' @ [CHR 0x27]), script_val (setupJWTRole jwt policyName), script_lit ''|'',
       script_lit ''bao'', script_lit ''write'', script_val (mountPath @ ''/role/'' @ jc_Role jwt), script_lit ''-'']
   @ script_raw ''fi'')"

definition setup_cert :: string where
  "setup_cert =
     script_comment ''Certificate auth: create the cert auth mount and a role bound to the provider''
   @ script_comment ''certificate identity, attaching the policy above. See Configure: OpenBao auth and policy.''"

definition RenderOpenBaoSetup :: "config_env \<Rightarrow> Config \<Rightarrow> string \<Rightarrow> string res" where
  "RenderOpenBaoSetup env cfg policyName =
    bindE (ValidateSetup env cfg policyName) (\<lambda>_. Inr (
       setup_header
     @ (if bo_Namespace (cf_OpenBao cfg) \<noteq> []
        then script_command [script_lit ''export'', script_assign ''BAO_NAMESPACE'' (bo_Namespace (cf_OpenBao cfg))] @ script_blank else [])
     @ setup_transit cfg
     @ setup_policy policyName
     @ (if au_Method (cf_Auth cfg) = AuthMethodJWT then setup_jwt (au_JWT (cf_Auth cfg)) policyName
        else if au_Method (cf_Auth cfg) = AuthMethodCert then setup_cert else [])))"

section \<open>What a shell reads\<close>

text \<open>
  How a POSIX shell splits a line into words (Shell Command Language, quoting and token recognition). A character is quoted when the shell
  takes it as it stands, and active when it is unquoted or between double quotes, where it may be expanded or be an operator.
\<close>

datatype shell_char = Quoted char | Active char

datatype shell_mode = Bare | Single | Double | Escaped | DoubleEscaped

definition opened :: "shell_char list option \<Rightarrow> shell_char list" where
  "opened cur = (case cur of None \<Rightarrow> [] | Some w \<Rightarrow> w)"

definition closed_words :: "shell_char list option \<Rightarrow> shell_char list list" where
  "closed_words cur = (case cur of None \<Rightarrow> [] | Some w \<Rightarrow> [w])"

text \<open>One line: its words and the text after it, or nothing when a quotation does not end.\<close>

fun shell_read :: "shell_mode \<Rightarrow> shell_char list option \<Rightarrow> shell_char list list \<Rightarrow> string \<Rightarrow> (shell_char list list \<times> string) option" where
  "shell_read m cur ws [] = (if m = Bare then Some (ws @ closed_words cur, []) else None)"
| "shell_read Bare cur ws (c # s) =
    (if c = CHR 0x0A then Some (ws @ closed_words cur, s)
     else if c = CHR 0x20 then shell_read Bare None (ws @ closed_words cur) s
     else if c = CHR 0x27 then shell_read Single (Some (opened cur)) ws s
     else if c = CHR 0x22 then shell_read Double (Some (opened cur)) ws s
     else if c = CHR 0x5C then shell_read Escaped cur ws s
     else if c = CHR 0x23 \<and> cur = None then Some (ws, drop 1 (dropWhile (\<lambda>d. d \<noteq> CHR 0x0A) s))
     else shell_read Bare (Some (opened cur @ [Active c])) ws s)"
| "shell_read Escaped cur ws (c # s) =
    (if c = CHR 0x0A then shell_read Bare cur ws s else shell_read Bare (Some (opened cur @ [Quoted c])) ws s)"
| "shell_read Single cur ws (c # s) =
    (if c = CHR 0x27 then shell_read Bare cur ws s else shell_read Single (Some (opened cur @ [Quoted c])) ws s)"
| "shell_read Double cur ws (c # s) =
    (if c = CHR 0x22 then shell_read Bare cur ws s
     else if c = CHR 0x5C then shell_read DoubleEscaped cur ws s
     else shell_read Double (Some (opened cur @ [Active c])) ws s)"
| "shell_read DoubleEscaped cur ws (c # s) =
    (if c = CHR 0x0A then shell_read Double cur ws s
     else if c \<in> {CHR 0x24, CHR 0x60, CHR 0x22, CHR 0x5C} then shell_read Double (Some (opened cur @ [Quoted c])) ws s
     else shell_read Double (Some (opened cur @ [Active (CHR 0x5C), Active c])) ws s)"

lemma length_rest_of_line: "length (drop 1 (dropWhile P s)) \<le> length s"
  using length_dropWhile_le [of P s] by simp

lemma shell_read_shorter: "shell_read m cur ws s = Some (words, rest) \<Longrightarrow> s \<noteq> [] \<Longrightarrow> length rest < length s"
proof (induction s arbitrary: m cur ws)
  case (Cons c s)
  have le: "length rest \<le> length s" if "shell_read m' cur' ws' s = Some (words, rest)" for m' cur' ws'
    using that Cons.IH by (cases "s = []") (fastforce split: if_splits)+
  show ?case using Cons.prems(1) length_rest_of_line [of "\<lambda>d. d \<noteq> CHR 0x0A" s]
    by (cases m) (auto simp: le_imp_less_Suc split: if_splits dest: le)
qed simp

text \<open>The lines of a script, each the words a shell finds in it.\<close>

function script_lines :: "string \<Rightarrow> shell_char list list list option" where
  "script_lines text =
    (if text = [] then Some []
     else case shell_read Bare None [] text of
       None \<Rightarrow> None
     | Some (words, rest) \<Rightarrow> map_option (\<lambda>ls. words # ls) (script_lines rest))"
  by pat_completeness auto
termination
  by (relation "measure length") (auto dest: shell_read_shorter)

declare script_lines.simps [simp del]

text \<open>What a script runs: every line but those that are empty or a comment.\<close>

definition shell_commands :: "string \<Rightarrow> shell_char list list list option" where
  "shell_commands text = map_option (filter (\<lambda>words. words \<noteq> [])) (script_lines text)"

text \<open>The plan of the script: every line it runs, with its words.\<close>

abbreviation fixed :: "string \<Rightarrow> shell_char list" where "fixed \<equiv> map Active"
abbreviation datum :: "string \<Rightarrow> shell_char list" where "datum \<equiv> map Quoted"

definition header_plan :: "shell_char list list list" where
  "header_plan =
     [[fixed ''set'', fixed ''-eu''],
      [fixed ''policy_file=$(dirname $0)/openbao-policy.hcl''],
      [fixed ''phase=${1:-all}''],
      [fixed ''test'', fixed ''$#'', fixed ''-le'', fixed ''1'', fixed ''||'', fixed ''{'', fixed ''echo'', datum ''Pass one setup phase only'', fixed ''>&2;'',
        fixed ''exit'', fixed ''2;'', fixed ''}''],
      [fixed ''case'', fixed ''$phase'', fixed ''in'', fixed ''all|transit|policy|auth-mount|auth-config|auth-role)'', fixed '';;''],
      [fixed ''*)'', fixed ''echo'', datum ''Expected all, transit, policy, auth-mount, auth-config, or auth-role'', fixed ''>&2;'', fixed ''exit'', fixed ''2'',
        fixed '';;'', fixed ''esac'']]"

definition in_phase :: "string \<Rightarrow> shell_char list list list \<Rightarrow> shell_char list list list" where
  "in_phase phase commands =
     [[fixed ''if'', fixed ''['', fixed ''$phase'', fixed ''='', fixed ''all'', fixed '']'', fixed ''||'', fixed ''['', fixed ''$phase'', fixed ''='', fixed phase,
        fixed ''];'', fixed ''then'']] @ commands @ [[fixed ''fi'']]"

definition jwt_plan :: "JWTAuthConfig \<Rightarrow> string \<Rightarrow> shell_char list list list" where
  "jwt_plan jwt policyName =
     in_phase ''auth-mount''
       [[fixed ''bao'', fixed ''auth'', fixed ''enable'', fixed ''-path='' @ datum (TrimPrefix (jc_MountPath jwt) authPathPrefix), fixed ''jwt'']]
   @ in_phase ''auth-config''
       [[fixed ''bao'', fixed ''write'', datum (jc_MountPath jwt @ ''/config''), fixed ''oidc_discovery_url='' @ datum (jc_ExpectedIssuer jwt),
          fixed ''bound_issuer='' @ datum (jc_ExpectedIssuer jwt)]]
   @ in_phase ''auth-role''
       [[fixed ''printf'', datum (''%s'' @ [CHR 0x5C] @ ''n''), datum (setupJWTRole jwt policyName), fixed ''|'', fixed ''bao'', fixed ''write'',
          datum (jc_MountPath jwt @ ''/role/'' @ jc_Role jwt), fixed ''-'']]"

definition setup_plan :: "Config \<Rightarrow> string \<Rightarrow> shell_char list list list" where
  "setup_plan cfg policyName =
    (let tx = cf_Transit cfg; ns = bo_Namespace (cf_OpenBao cfg) in
     header_plan
   @ (if ns \<noteq> [] then [[fixed ''export'', fixed ''BAO_NAMESPACE='' @ datum ns]] else [])
   @ in_phase ''transit''
       [[fixed ''bao'', fixed ''secrets'', fixed ''enable'', fixed ''-path='' @ datum (tx_MountPath tx), fixed ''transit''],
        [fixed ''bao'', fixed ''write'', datum (tx_MountPath tx @ ''/config/keys''), fixed ''disable_upsert=true''],
        [fixed ''bao'', fixed ''write'', datum (tx_MountPath tx @ ''/keys/'' @ tx_KeyName tx), fixed ''type=aes256-gcm96'',
          fixed ''exportable=false'', fixed ''allow_plaintext_backup=false'']]
   @ in_phase ''policy'' [[fixed ''bao'', fixed ''policy'', fixed ''write'', datum policyName, fixed ''$policy_file'']]
   @ (if au_Method (cf_Auth cfg) = AuthMethodJWT then jwt_plan (au_JWT (cf_Auth cfg)) policyName else []))"

section \<open>Reading words and lines\<close>

definition reads_as :: "string \<Rightarrow> shell_char list \<Rightarrow> bool" where
  "reads_as w x \<longleftrightarrow> (\<forall>cur ws s. shell_read Bare cur ws (w @ s) = shell_read Bare (Some (opened cur @ x)) ws s)"

lemma opened_Some [simp]: "opened (Some w) = w" "opened None = []"
  by (simp_all add: opened_def)

lemma closed_words_simps [simp]: "closed_words None = []" "closed_words (Some w) = [w]"
  by (simp_all add: closed_words_def)

lemma read_quoted:
  "shell_read Single (Some w) ws (replace_char (CHR 0x27) [CHR 0x27, CHR 0x5C, CHR 0x27, CHR 0x27] v @ CHR 0x27 # s)
     = shell_read Bare (Some (w @ map Quoted v)) ws s"
  by (induction v arbitrary: w) (simp_all add: replace_char_def)

lemma reads_shellQuote [simp]: "reads_as (shellQuote v) (datum v)"
  by (simp add: reads_as_def shellQuote_def read_quoted)

definition plain_text :: "string \<Rightarrow> bool" where
  "plain_text t \<longleftrightarrow> list_all (\<lambda>c. c \<notin> {CHR 0x0A, CHR 0x20, CHR 0x27, CHR 0x22, CHR 0x5C, CHR 0x23}) t"

lemma read_plain: "plain_text t \<Longrightarrow> shell_read Bare (Some w) ws (t @ s) = shell_read Bare (Some (w @ fixed t)) ws s"
  by (induction t arbitrary: w) (simp_all add: plain_text_def)

lemma reads_plain: "plain_text t \<Longrightarrow> t \<noteq> [] \<Longrightarrow> reads_as t (fixed t)"
  unfolding reads_as_def
proof (intro allI)
  fix cur ws s
  assume t: "plain_text t" "t \<noteq> []"
  then obtain c r where "t = c # r" "plain_text r" by (cases t) (auto simp: plain_text_def)
  with t read_plain [of r "opened cur @ [Active c]" ws s]
  show "shell_read Bare cur ws (t @ s) = shell_read Bare (Some (opened cur @ fixed t)) ws s" by (simp add: plain_text_def)
qed

lemma reads_append: "reads_as a x \<Longrightarrow> reads_as b y \<Longrightarrow> reads_as (a @ b) (x @ y)"
  by (simp add: reads_as_def)

lemma reads_lit: "plain_text t \<Longrightarrow> t \<noteq> [] \<Longrightarrow> reads_as (script_lit t) (fixed t)"
  by (simp add: script_lit_def reads_plain)

lemma reads_val [simp]: "reads_as (script_val v) (datum v)"
  by (simp add: script_val_def)

lemma reads_key:
  assumes "plain_text k"
  shows "reads_as (script_assign k v) (fixed (k @ ''='') @ datum v)" "reads_as (script_flag k v) (fixed (k @ ''='') @ datum v)"
  using reads_append [OF reads_plain [of "k @ ''=''"] reads_shellQuote [of v]] assms by (simp_all add: script_assign_def script_flag_def plain_text_def)

lemma read_words:
  "list_all2 reads_as words xs \<Longrightarrow> words \<noteq> [] \<Longrightarrow>
     shell_read Bare None ws (Join words '' '' @ CHR 0x0A # s) = Some (ws @ xs, s)"
proof (induction words "'' ''" arbitrary: xs ws rule: Join.induct)
  case (2 w)
  then show ?case by (auto simp: reads_as_def list_all2_Cons1)
next
  case (3 w v vs)
  then obtain x ys where xs: "xs = x # ys" "reads_as w x" "list_all2 reads_as (v # vs) ys" by (auto simp: list_all2_Cons1)
  with 3 show ?case by (auto simp: reads_as_def)
qed simp

lemma read_command: "list_all2 reads_as words xs \<Longrightarrow> words \<noteq> [] \<Longrightarrow> shell_read Bare None [] (script_command words @ s) = Some (xs, s)"
  by (simp add: script_command_def script_raw_def read_words)

lemma read_comment: "CHR 0x0A \<notin> set t \<Longrightarrow> shell_read Bare None [] (script_comment t @ s) = Some ([], s)"
  by (simp add: script_comment_def script_raw_def) (induction t, auto)

section \<open>The commands of the script\<close>

lemma shell_commands_Nil [simp]: "shell_commands [] = Some []"
  by (simp add: shell_commands_def script_lines.simps)

lemma commands_line:
  assumes "shell_read Bare None [] (l @ s) = Some (ws, s)" "l \<noteq> []"
  shows "shell_commands (l @ s) = (if ws \<noteq> [] then map_option (\<lambda>cs. ws # cs) (shell_commands s) else shell_commands s)"
  using assms by (cases "script_lines s") (simp_all add: shell_commands_def script_lines.simps [of "l @ s"])

text \<open>A piece of a script emits the lines it runs, whatever follows it.\<close>

definition emits :: "string \<Rightarrow> shell_char list list list \<Rightarrow> bool" where
  "emits l cs \<longleftrightarrow> (\<forall>s. shell_commands (l @ s) = map_option (\<lambda>rest. cs @ rest) (shell_commands s))"

lemma emits_Nil: "emits [] []"
  by (simp add: emits_def option.map_ident)

lemma emits_append: "emits a xs \<Longrightarrow> emits b ys \<Longrightarrow> emits (a @ b) (xs @ ys)"
  by (simp add: emits_def option.map_comp comp_def)

lemma emits_commands: "emits l cs \<Longrightarrow> shell_commands l = Some cs"
  unfolding emits_def by (drule spec [of _ "[]"]) simp

lemma emits_line:
  assumes "\<And>s. shell_read Bare None [] (l @ s) = Some (ws, s)" "l \<noteq> []"
  shows "emits l (if ws = [] then [] else [ws])"
  using commands_line [OF assms] by (auto simp: emits_def option.map_ident)

lemma emits_none: "(\<And>s. shell_read Bare None [] (l @ s) = Some ([], s)) \<Longrightarrow> l \<noteq> [] \<Longrightarrow> emits l []"
  using emits_line [of l "[]"] by simp

lemma emits_one: "(\<And>s. shell_read Bare None [] (l @ s) = Some (w # ws, s)) \<Longrightarrow> l \<noteq> [] \<Longrightarrow> emits l [w # ws]"
  using emits_line [of l "w # ws"] by simp

lemma emits_comment: "CHR 0x0A \<notin> set t \<Longrightarrow> emits (script_comment t) []"
  using read_comment by (intro emits_none) (simp_all add: script_comment_def script_raw_def)

lemma emits_blank: "emits script_blank []"
  by (rule emits_none) (simp_all add: script_blank_def)

lemma emits_phase_guard:
  assumes "plain_text phase" "phase \<noteq> []"
  shows "emits (phase_guard phase) [[fixed ''if'', fixed ''['', fixed ''$phase'', fixed ''='', fixed ''all'', fixed '']'', fixed ''||'', fixed ''['',
    fixed ''$phase'', fixed ''='', fixed phase, fixed ''];'', fixed ''then'']]"
  using reads_plain [OF assms] by (intro emits_one) (simp_all add: phase_guard_def script_raw_def reads_as_def)

lemma emits_command: "list_all2 reads_as (w # words) (x # xs) \<Longrightarrow> emits (script_command (w # words)) [x # xs]"
  by (rule emits_one [OF read_command]) (simp_all add: script_command_def script_raw_def)

text \<open>The fixed lines of the script.\<close>

lemma emits_raw:
  "emits (script_raw ''#!/bin/sh'') []" "emits (script_raw ''set -eu'') [[fixed ''set'', fixed ''-eu'']]"
  "emits (script_raw ''phase=${1:-all}'') [[fixed ''phase=${1:-all}'']]" "emits (script_raw ''fi'') [[fixed ''fi'']]"
  "emits (script_raw (''policy_file='' @ [CHR 0x22] @ ''$(dirname '' @ [CHR 0x22] @ ''$0'' @ [CHR 0x22] @ '')/'' @ PolicyFileName @ [CHR 0x22]))
     [[fixed ''policy_file=$(dirname $0)/openbao-policy.hcl'']]"
  "emits (script_raw (''test '' @ [CHR 0x22] @ ''$#'' @ [CHR 0x22] @ '' -le 1 || { echo '' @ [CHR 0x27] @ ''Pass one setup phase only'' @ [CHR 0x27] @ '' >&2; exit 2; }''))
     [[fixed ''test'', fixed ''$#'', fixed ''-le'', fixed ''1'', fixed ''||'', fixed ''{'', fixed ''echo'', datum ''Pass one setup phase only'', fixed ''>&2;'', fixed ''exit'', fixed ''2;'', fixed ''}'']]"
  "emits (script_raw (''case '' @ [CHR 0x22] @ ''$phase'' @ [CHR 0x22] @ '' in all|transit|policy|auth-mount|auth-config|auth-role) ;;'')) [[fixed ''case'', fixed ''$phase'', fixed ''in'', fixed ''all|transit|policy|auth-mount|auth-config|auth-role)'', fixed '';;'']]"
  "emits (script_raw (''  *) echo '' @ [CHR 0x27] @ ''Expected all, transit, policy, auth-mount, auth-config, or auth-role'' @ [CHR 0x27] @ '' >&2; exit 2 ;; esac''))
     [[fixed ''*)'', fixed ''echo'', datum ''Expected all, transit, policy, auth-mount, auth-config, or auth-role'', fixed ''>&2;'', fixed ''exit'', fixed ''2'', fixed '';;'', fixed ''esac'']]"
  by ((rule emits_none | rule emits_one); simp add: script_raw_def PolicyFileName_def)+

lemma reads_template: "reads_as (script_lit ([CHR 0x27] @ ''%s'' @ [CHR 0x5C] @ ''n'' @ [CHR 0x27])) (datum (''%s'' @ [CHR 0x5C] @ ''n''))"
  and reads_policy_file: "reads_as (script_lit ([CHR 0x22] @ ''$policy_file'' @ [CHR 0x22])) (fixed ''$policy_file'')"
  by (simp_all add: reads_as_def script_lit_def)

lemmas emits_intros = emits_append emits_raw emits_blank emits_comment emits_phase_guard emits_command list.rel_intros reads_template reads_policy_file reads_val reads_key reads_lit

lemma emits_eq: "emits l xs \<Longrightarrow> xs = ys \<Longrightarrow> emits l ys"
  by simp

lemma emits_header: "emits setup_header header_plan"
  unfolding setup_header_def by (rule emits_eq, (rule emits_intros | simp)+) (simp add: header_plan_def)

lemma emits_transit:
  assumes "CHR 0x0A \<notin> set (ks_KeyLineageID (tx_KeyIDScope (cf_Transit cfg)))"
  shows "emits (setup_transit cfg) (in_phase ''transit''
    [[fixed ''bao'', fixed ''secrets'', fixed ''enable'', fixed ''-path='' @ datum (tx_MountPath (cf_Transit cfg)), fixed ''transit''],
     [fixed ''bao'', fixed ''write'', datum (tx_MountPath (cf_Transit cfg) @ ''/config/keys''), fixed ''disable_upsert=true''],
     [fixed ''bao'', fixed ''write'', datum (tx_MountPath (cf_Transit cfg) @ ''/keys/'' @ tx_KeyName (cf_Transit cfg)), fixed ''type=aes256-gcm96'',
      fixed ''exportable=false'', fixed ''allow_plaintext_backup=false'']])"
  unfolding setup_transit_def Let_def
  by (rule emits_eq, (rule emits_intros | simp add: plain_text_def assms)+) (simp add: in_phase_def)

lemma emits_policy:
  "emits (setup_policy policyName) (in_phase ''policy'' [[fixed ''bao'', fixed ''policy'', fixed ''write'', datum policyName, fixed ''$policy_file'']])"
  unfolding setup_policy_def by (rule emits_eq, (rule emits_intros | simp add: plain_text_def)+) (simp add: in_phase_def)

lemma emits_jwt: "emits (setup_jwt jwt policyName) (jwt_plan jwt policyName)"
  unfolding setup_jwt_def Let_def by (rule emits_eq, (rule emits_intros | simp add: plain_text_def)+) (simp add: jwt_plan_def in_phase_def)

lemma emits_cert: "emits setup_cert []"
  unfolding setup_cert_def by (rule emits_eq, (rule emits_intros | simp)+)

lemma emits_namespace: "emits (script_command [script_lit ''export'', script_assign ''BAO_NAMESPACE'' ns] @ script_blank) [[fixed ''export'', fixed ''BAO_NAMESPACE='' @ datum ns]]"
  by (rule emits_eq, (rule emits_intros | simp add: plain_text_def)+)

lemma validated_lineage:
  assumes "validateValues net spiffe text_of cfg = []"
  shows "CHR 0x0A \<notin> set (ks_KeyLineageID (tx_KeyIDScope (cf_Transit cfg)))"
proof -
  have "validateIdentifier ''transit.keyIdScope.keyLineageId'' (ks_KeyLineageID (tx_KeyIDScope (cf_Transit cfg))) = []"
    using assms by (simp add: validateValues_def Let_def)
  then show ?thesis by (auto simp: validateIdentifier_def unsafeText_def ContainsAny_def list_ex_iff split: if_splits)
qed

text \<open>
  C34 No value of the configuration can change what the setup script does. A shell that reads the generated script finds exactly the planned lines, in
  their order, and nothing else but comments and empty lines: the settings, the check of the argument, and for each phase its guard and its
  invocations of \<open>bao\<close>. Every value (namespace, mount paths, key name, issuer, the JSON of the role with audiences and subject, the
  policy name) is one argument whose characters are all quoted, so none of them is expanded, split or taken as an operator. The
  script enables no other engine, creates the key as not exportable and disables implicit key creation.
\<close>

theorem setup_script_injection_free:
  assumes "RenderOpenBaoSetup env cfg policyName = Inr script"
  shows "shell_commands script = Some (setup_plan cfg policyName)"
proof -
  have "Validate (cv_net env) (cv_spiffe env) (cv_text env) (cv_lstat env) cfg (validation_options [] False) = []"
    using assms by (auto simp: RenderOpenBaoSetup_def ValidateSetup_def failIf_def Let_def split: if_splits)
  then have "CHR 0x0A \<notin> set (ks_KeyLineageID (tx_KeyIDScope (cf_Transit cfg)))"
    by (auto simp: Validate_Nil dest: validated_lineage)
  note parts = emits_header emits_transit [OF this] emits_policy [of policyName] emits_cert emits_jwt [of "au_JWT (cf_Auth cfg)" policyName]
    emits_namespace [of "bo_Namespace (cf_OpenBao cfg)"] emits_Nil
  let ?ns = "bo_Namespace (cf_OpenBao cfg)" and ?m = "au_Method (cf_Auth cfg)"
  have ns: "emits (if ?ns \<noteq> [] then script_command [script_lit ''export'', script_assign ''BAO_NAMESPACE'' ?ns] @ script_blank else [])
      (if ?ns \<noteq> [] then [[fixed ''export'', fixed ''BAO_NAMESPACE='' @ datum ?ns]] else [])" using parts by simp
  have auth: "emits (if ?m = AuthMethodJWT then setup_jwt (au_JWT (cf_Auth cfg)) policyName else if ?m = AuthMethodCert then setup_cert else [])
      (if ?m = AuthMethodJWT then jwt_plan (au_JWT (cf_Auth cfg)) policyName else [])" using parts by simp
  have scr: "script = setup_header @ (if ?ns \<noteq> [] then script_command [script_lit ''export'', script_assign ''BAO_NAMESPACE'' ?ns] @ script_blank else [])
      @ setup_transit cfg @ setup_policy policyName
      @ (if ?m = AuthMethodJWT then setup_jwt (au_JWT (cf_Auth cfg)) policyName else if ?m = AuthMethodCert then setup_cert else [])"
    using assms unfolding RenderOpenBaoSetup_def by (simp only: bindE_eq_Inr sum.inject) blast
  show ?thesis unfolding scr
    by (rule emits_commands, rule emits_eq, (rule emits_append parts(1-3) ns auth)+) (simp add: setup_plan_def Let_def)
qed

definition ex_setup_config :: Config where
  "ex_setup_config = ex_diag_config\<lparr>cf_Auth := (cf_Auth ex_diag_config)\<lparr>au_JWT := (au_JWT (cf_Auth ex_diag_config))
     \<lparr>jc_MountPath := ''auth/j'', jc_ExpectedIssuer := ''i'' @ [CHR 0x27] @ ''`x`'', jc_ExpectedAudience := [''a''], jc_ExpectedSubject := ''$s''\<rparr>\<rparr>\<rparr>"

lemma ex_setup_validated:
  "Validate ex_net False (\<lambda>_. []) (\<lambda>_. NotExist) ex_setup_config (validation_options [] False) = []"
proof -
  have req: "validateRequired False ex_setup_config = []"
    by (simp add: validateRequired_def ex_setup_config_def ex_diag_config_def ex_config_def appendAuthRequired_def AuthMethodJWT_def JWTSourceFile_def TrimSpace_ascii)
  have "validateAuthValues ex_net False (\<lambda>_. []) (cf_Auth ex_setup_config) = []"
    by (simp add: validateAuthValues_def ex_setup_config_def ex_diag_config_def ex_config_def AuthMethodJWT_def validateJWTAuthValues_def
        validateJWTSource_def JWTSourceFile_def validateAbsolutePath_def IsAbs_def HasPrefix_def validateMountPath_def unsafeText_def ContainsAny_def
        badSegment_def validatePathName_def transitKeyNamePattern_def is_word_def TrimSpace_ascii validateClaimExpectation_def
        expected_audience_problems_def Let_def)
  moreover have "validateValues ex_net False (\<lambda>_. []) ex_diag_config = []" using ex_diag_validated by (simp add: Validate_Nil)
  ultimately have "validateValues ex_net False (\<lambda>_. []) ex_setup_config = []"
    by (simp add: validateValues_def ex_setup_config_def Let_def validateRelationships_def)
  with req ex_diag_validated show ?thesis
    by (simp add: Validate_Nil validateSocketPolicy_def ex_setup_config_def validation_options_def)
qed

definition ex_setup_env :: config_env where
  "ex_setup_env = \<lparr>cv_load = (\<lambda>_. Inr ex_setup_config), cv_net = ex_net, cv_spiffe = False, cv_text = (\<lambda>_. []), cv_lstat = (\<lambda>_. NotExist)\<rparr>"

theorem setup_script_injection_free_witness:
  "\<exists>script. RenderOpenBaoSetup ex_setup_env ex_setup_config ''kms'' = Inr script \<and> shell_commands script = Some (setup_plan ex_setup_config ''kms'')"
proof -
  have "setup_problems ex_setup_config ''kms'' = []"
    by (simp add: setup_problems_def ex_setup_config_def ex_diag_config_def ex_config_def policyNamePattern_def is_word_def authPathPrefix_def
        HasPrefix_def Let_def)
  then obtain script where "RenderOpenBaoSetup ex_setup_env ex_setup_config ''kms'' = Inr script"
    using ex_setup_validated by (simp add: RenderOpenBaoSetup_def ValidateSetup_def ex_setup_env_def failIf_def)
  with setup_script_injection_free [OF this] show ?thesis by blast
qed

end
