(* ===== verification/Static_Pod.thy ===== *)
theory Static_Pod
  imports Diagnostics
begin

text \<open>
  The static pod manifest (\<^verbatim>\<open>internal/scaffold/staticpod.go\<close>): which host directories the generated pod mounts, with which rights, and
  that what the container can write never holds what it has to trust.
\<close>

section \<open>Paths\<close>

text \<open>The names between the separators of a path.\<close>

definition path_names :: "string \<Rightarrow> string list" where
  "path_names p = filter (\<lambda>s. s \<noteq> []) (split_on (CHR ''/'') p)"

fun strip_common :: "string list \<Rightarrow> string list \<Rightarrow> string list \<times> string list" where
  "strip_common (b # bs) (t # ts) = (if b = t then strip_common bs ts else (b # bs, t # ts))"
| "strip_common bs ts = (bs, ts)"

text \<open>\<open>filepath.Rel\<close>: both paths are cleaned; a path and a rooted one are not comparable.\<close>

definition filepath_Rel :: "string \<Rightarrow> string \<Rightarrow> string option" where
  "filepath_Rel basepath targpath =
    (let base = path_Clean basepath; targ = path_Clean targpath in
     if targ = base then Some ''.''
     else let base = (if base = ''.'' then [] else base) in
       if HasPrefix base ''/'' \<noteq> HasPrefix targ ''/'' then None
       else let (bs, ts) = strip_common (path_names base) (path_names targ) in
         if bs \<noteq> [] \<and> hd bs = ''..'' then None
         else Some (Join (replicate (length bs) ''..'' @ ts) ''/''))"

text \<open>\<open>filepath.IsLocal\<close> on Unix.\<close>

definition filepath_IsLocal :: "string \<Rightarrow> bool" where
  "filepath_IsLocal p \<longleftrightarrow> \<not> IsAbs p \<and> p \<noteq> [] \<and>
     (let q = (if list_ex (\<lambda>s. s = ''.'' \<or> s = ''..'') (split_on (CHR ''/'') p) then path_Clean p else p)
      in q \<noteq> ''..'' \<and> \<not> HasPrefix q ''../'')"

definition pathContains :: "string \<Rightarrow> string \<Rightarrow> bool" where
  "pathContains parent child = (case filepath_Rel parent child of None \<Rightarrow> False | Some relative \<Rightarrow> filepath_IsLocal relative)"

section \<open>The manifest\<close>

definition ContainerUID :: int where "ContainerUID = 65532"
definition ProviderConfigPath :: string where "ProviderConfigPath = ''/etc/openbao-kms/config.yaml''"

record podLabel =
  pl_Name :: string
  pl_Component :: string

record podMetadata =
  pm_Name :: string
  pm_Namespace :: string
  pm_Labels :: podLabel

record podSecurityContext =
  psc_RunAsNonRoot :: bool
  psc_RunAsUser :: int
  psc_RunAsGroup :: int
  psc_SupplementalGroups :: "int list"
  psc_SeccompProfile :: string

record containerPort =
  cp_Name :: string
  cp_ContainerPort :: int
  cp_Protocol :: string

record containerSecurityContext =
  csc_AllowPrivilegeEscalation :: bool
  csc_ReadOnlyRootFilesystem :: bool
  csc_Drop :: "string list"

record volumeMount =
  vm_Name :: string
  vm_MountPath :: string
  vm_ReadOnly :: bool

record pod_probe =
  pp_Host :: string
  pp_Path :: string
  pp_Port :: int
  pp_InitialDelaySeconds :: int
  pp_PeriodSeconds :: int
  pp_TimeoutSeconds :: int
  pp_FailureThreshold :: int

record podContainer =
  pc_Name :: string
  pc_Image :: string
  pc_ImagePullPolicy :: string
  pc_Args :: "string list"
  pc_Ports :: "containerPort list"
  pc_SecurityContext :: containerSecurityContext
  pc_VolumeMounts :: "volumeMount list"
  pc_StartupProbe :: pod_probe
  pc_LivenessProbe :: pod_probe
  pc_ReadinessProbe :: pod_probe

record podVolume =
  pv_Name :: string
  pv_Path :: string
  pv_Type :: string

record podSpec =
  ps_HostNetwork :: bool
  ps_PriorityClassName :: string
  ps_AutomountServiceAccountToken :: bool
  ps_SecurityContext :: podSecurityContext
  ps_Containers :: "podContainer list"
  ps_Volumes :: "podVolume list"

record podManifest =
  po_APIVersion :: string
  po_Kind :: string
  po_Metadata :: podMetadata
  po_Spec :: podSpec

record StaticPodOptions =
  spo_Image :: string
  spo_SocketGID :: int

section \<open>Checks\<close>

text \<open>
  The regular expression \<open>imageDigestPattern\<close>: names of lower-case letters and digits with single separators, an optional port, further
  names, and a SHA-256 digest.
\<close>

definition is_lower_alnum :: "char \<Rightarrow> bool" where
  "is_lower_alnum c \<longleftrightarrow> (let b = byte_val c in 97 \<le> b \<and> b \<le> 122 \<or> 48 \<le> b \<and> b \<le> 57)"

definition is_lower_hex :: "char \<Rightarrow> bool" where
  "is_lower_hex c \<longleftrightarrow> (let b = byte_val c in 97 \<le> b \<and> b \<le> 102 \<or> 48 \<le> b \<and> b \<le> 57)"

fun separated_names :: "string \<Rightarrow> bool" where
  "separated_names [] = False"
| "separated_names [c] = is_lower_alnum c"
| "separated_names (c # d # s) = (is_lower_alnum c \<and> (if d \<in> set ''._/-'' then separated_names s else separated_names (d # s)))"

definition repository_name :: "string \<Rightarrow> bool" where
  "repository_name s =
    (case split_on (CHR '':'') s of
       [a] \<Rightarrow> separated_names a
     | [a, b] \<Rightarrow> separated_names a \<and>
        (let port = takeWhile is_digit b; rest = dropWhile is_digit b in
         port \<noteq> [] \<and> (rest = [] \<or> hd rest = CHR ''/'' \<and> separated_names (tl rest)))
     | _ \<Rightarrow> False)"

definition imageDigestPattern :: "string \<Rightarrow> bool" where
  "imageDigestPattern s \<longleftrightarrow> 72 \<le> length s \<and>
    (let n = length s in
     list_all is_lower_hex (drop (n - 64) s) \<and> take 8 (drop (n - 72) s) = ''@sha256:'' \<and> repository_name (take (n - 72) s))"

definition ValidateImageDigest :: "string \<Rightarrow> unit res" where
  "ValidateImageDigest img =
    failIf (\<not> imageDigestPattern img) (Msg ''image must be a repository reference pinned by @sha256 digest, without a tag'')"

definition addressPort :: "string \<Rightarrow> int res" where
  "addressPort address =
    (case SplitHostPort address of
       None \<Rightarrow> Inl (Msg ''address is not host:port'')
     | Some (_, port) \<Rightarrow>
        (case Atoi port of
           None \<Rightarrow> Inl (Msg (''invalid port '' @ port))
         | Some v \<Rightarrow> if v \<le> 0 \<or> v > 65535 then Inl (Msg (''invalid port '' @ port)) else Inr v))"

definition probeHost :: "string \<Rightarrow> string" where
  "probeHost address =
    (case SplitHostPort address of
       None \<Rightarrow> ''127.0.0.1''
     | Some (host, _) \<Rightarrow> if host = [] \<or> host = ''0.0.0.0'' \<or> host = ''::'' then ''127.0.0.1'' else host)"

definition validateReadOnlyDirectory :: "string \<Rightarrow> string \<Rightarrow> string \<Rightarrow> string \<Rightarrow> unit res" where
  "validateReadOnlyDirectory label dir runDir stateDir =
    bindE (failIf (\<not> IsAbs dir \<or> dir = ''/'' \<or> pathContains dir ProviderConfigPath) (Msg (label @ '' must be in a dedicated absolute directory''))) (\<lambda>_.
      forE (\<lambda>writable. failIf (pathContains dir writable \<or> pathContains writable dir)
        (Msg (label @ '' directory must not overlap the socket or state directory''))) [runDir, stateDir])"

definition validateJWTCredentialDirectory :: "string \<Rightarrow> string \<Rightarrow> string \<Rightarrow> unit res" where
  "validateJWTCredentialDirectory dir runDir stateDir = validateReadOnlyDirectory ''JWT credential'' dir runDir stateDir"

definition validateStaticPodDirectories :: "Config \<Rightarrow> string \<Rightarrow> string \<Rightarrow> unit res" where
  "validateStaticPodDirectories cfg runDir stateDir =
    (let jwt = au_JWT (cf_Auth cfg); oauth = jc_OAuth2 jwt in
     bindE (forE (\<lambda>dir. failIf (\<not> IsAbs dir \<or> pathContains dir ProviderConfigPath)
       (Msg ''socket and state paths must use dedicated absolute directories'')) [runDir, stateDir]) (\<lambda>_.
     bindE (failIf (pathContains runDir stateDir \<or> pathContains stateDir runDir) (Msg ''socket and state directories must not overlap'')) (\<lambda>_.
     bindE (validateReadOnlyDirectory ''OpenBao CA'' (filepath_Dir (bo_CACertFile (cf_OpenBao cfg))) runDir stateDir) (\<lambda>_.
     if jc_Source jwt = JWTSourceOAuth2 then
       bindE (validateReadOnlyDirectory ''OAuth credential'' (filepath_Dir (o2_ClientSecretFile oauth)) runDir stateDir) (\<lambda>_.
       if o2_CACertFile oauth \<noteq> [] then validateReadOnlyDirectory ''OAuth CA'' (filepath_Dir (o2_CACertFile oauth)) runDir stateDir
       else Inr ())
     else Inr ()))))"

section \<open>Construction\<close>

text \<open>A mount of a path that is already mounted read-only adds nothing; a writable one is a conflict.\<close>

definition pod_mounts :: "podManifest \<Rightarrow> volumeMount list" where
  "pod_mounts m = pc_VolumeMounts (hd (ps_Containers (po_Spec m)))"

definition add_mount :: "volumeMount \<Rightarrow> podManifest \<Rightarrow> podManifest" where
  "add_mount vm m =
    (let cs = ps_Containers (po_Spec m) in
     m\<lparr>po_Spec := (po_Spec m)\<lparr>ps_Containers := (hd cs)\<lparr>pc_VolumeMounts := pc_VolumeMounts (hd cs) @ [vm]\<rparr> # tl cs\<rparr>\<rparr>)"

definition add_volume :: "podVolume \<Rightarrow> podManifest \<Rightarrow> podManifest" where
  "add_volume v m = m\<lparr>po_Spec := (po_Spec m)\<lparr>ps_Volumes := ps_Volumes (po_Spec m) @ [v]\<rparr>\<rparr>"

definition addReadOnlyHostPath :: "string \<Rightarrow> string \<Rightarrow> string \<Rightarrow> podManifest \<Rightarrow> podManifest res" where
  "addReadOnlyHostPath name source kind m =
    (case find (\<lambda>vm. vm_MountPath vm = source) (pod_mounts m) of
       Some vm \<Rightarrow> if \<not> vm_ReadOnly vm then Inl (Msg ''credential mount conflicts with a writable provider directory'') else Inr m
     | None \<Rightarrow> Inr (add_mount \<lparr>vm_Name = name, vm_MountPath = source, vm_ReadOnly = True\<rparr>
         (add_volume \<lparr>pv_Name = name, pv_Path = source, pv_Type = kind\<rparr> m)))"

definition configureOAuth2Volumes :: "OAuth2Config \<Rightarrow> podManifest \<Rightarrow> podManifest res" where
  "configureOAuth2Volumes oauth m =
    bindE (addReadOnlyHostPath ''oauth2-credentials'' (filepath_Dir (o2_ClientSecretFile oauth)) ''Directory'' m) (\<lambda>m.
      if o2_CACertFile oauth \<noteq> [] then addReadOnlyHostPath ''oauth2-ca'' (o2_CACertFile oauth) ''File'' m else Inr m)"

definition http_probe :: "string \<Rightarrow> string \<Rightarrow> int \<Rightarrow> int \<Rightarrow> int \<Rightarrow> int \<Rightarrow> int \<Rightarrow> pod_probe" where
  "http_probe host path port delay period timeout threshold = \<lparr>pp_Host = host, pp_Path = path, pp_Port = port,
     pp_InitialDelaySeconds = delay, pp_PeriodSeconds = period, pp_TimeoutSeconds = timeout, pp_FailureThreshold = threshold\<rparr>"

definition base_manifest :: "StaticPodOptions \<Rightarrow> int \<Rightarrow> int \<Rightarrow> string \<Rightarrow> string \<Rightarrow> string \<Rightarrow> string \<Rightarrow> podManifest" where
  "base_manifest opts metricsPort healthPort healthHost tlsDir runDir stateDir =
    \<lparr>po_APIVersion = ''v1'', po_Kind = ''Pod'',
     po_Metadata = \<lparr>pm_Name = ''bao-kms-provider'', pm_Namespace = ''kube-system'',
       pm_Labels = \<lparr>pl_Name = ''bao-kms-provider'', pl_Component = ''kms-provider''\<rparr>\<rparr>,
     po_Spec = \<lparr>ps_HostNetwork = True, ps_PriorityClassName = ''system-node-critical'', ps_AutomountServiceAccountToken = False,
       ps_SecurityContext = \<lparr>psc_RunAsNonRoot = True, psc_RunAsUser = ContainerUID, psc_RunAsGroup = ContainerUID,
         psc_SupplementalGroups = [spo_SocketGID opts], psc_SeccompProfile = ''RuntimeDefault''\<rparr>,
       ps_Containers = [\<lparr>pc_Name = ''bao-kms-provider'', pc_Image = spo_Image opts, pc_ImagePullPolicy = ''IfNotPresent'',
         pc_Args = [''serve'', ''--config='' @ ProviderConfigPath],
         pc_Ports = [\<lparr>cp_Name = ''metrics'', cp_ContainerPort = metricsPort, cp_Protocol = ''TCP''\<rparr>,
                     \<lparr>cp_Name = ''health'', cp_ContainerPort = healthPort, cp_Protocol = ''TCP''\<rparr>],
         pc_SecurityContext = \<lparr>csc_AllowPrivilegeEscalation = False, csc_ReadOnlyRootFilesystem = True, csc_Drop = [''ALL'']\<rparr>,
         pc_VolumeMounts = [\<lparr>vm_Name = ''config'', vm_MountPath = ProviderConfigPath, vm_ReadOnly = True\<rparr>,
           \<lparr>vm_Name = ''tls'', vm_MountPath = tlsDir, vm_ReadOnly = True\<rparr>,
           \<lparr>vm_Name = ''run'', vm_MountPath = runDir, vm_ReadOnly = False\<rparr>,
           \<lparr>vm_Name = ''state'', vm_MountPath = stateDir, vm_ReadOnly = False\<rparr>],
         pc_StartupProbe = http_probe healthHost ''/live'' healthPort 0 5 1 24,
         pc_LivenessProbe = http_probe healthHost ''/live'' healthPort 5 10 0 0,
         pc_ReadinessProbe = http_probe healthHost ''/ready'' healthPort 5 10 0 0\<rparr>],
       ps_Volumes = [\<lparr>pv_Name = ''config'', pv_Path = ProviderConfigPath, pv_Type = ''File''\<rparr>,
         \<lparr>pv_Name = ''tls'', pv_Path = tlsDir, pv_Type = ''Directory''\<rparr>,
         \<lparr>pv_Name = ''run'', pv_Path = runDir, pv_Type = ''Directory''\<rparr>,
         \<lparr>pv_Name = ''state'', pv_Path = stateDir, pv_Type = ''Directory''\<rparr>]\<rparr>\<rparr>"

definition buildStaticPod :: "Config \<Rightarrow> StaticPodOptions \<Rightarrow> podManifest res" where
  "buildStaticPod cfg opts =
    (let jwt = au_JWT (cf_Auth cfg); sv = cf_Server cfg in
     bindE (failIf (au_Method (cf_Auth cfg) \<noteq> AuthMethodJWT)
       (Msg ''static pod manifests are generated for JWT auth only; mount certificate auth material by hand'')) (\<lambda>_.
     bindE (ValidateImageDigest (spo_Image opts)) (\<lambda>_.
     bindE (failIf (spo_SocketGID opts \<le> 0) (Msg ''socket GID must be a positive number'')) (\<lambda>_.
     bindE (case addressPort (sv_MetricsAddress sv) of Inl e \<Rightarrow> Inl (Wrap ''server.metricsAddress'' [e]) | Inr p \<Rightarrow> Inr p) (\<lambda>metricsPort.
     bindE (case addressPort (sv_HealthAddress sv) of Inl e \<Rightarrow> Inl (Wrap ''server.healthAddress'' [e]) | Inr p \<Rightarrow> Inr p) (\<lambda>healthPort.
     let healthHost = probeHost (sv_HealthAddress sv);
         tlsDir = filepath_Dir (bo_CACertFile (cf_OpenBao cfg));
         runDir = filepath_Dir (sv_SocketPath sv);
         stateDir = filepath_Dir (cf_State_Path cfg);
         jwtDir = filepath_Dir (jc_JWTFile jwt) in
     bindE (validateStaticPodDirectories cfg runDir stateDir) (\<lambda>_.
     bindE (if jc_Source jwt \<noteq> JWTSourceOAuth2 then validateJWTCredentialDirectory jwtDir runDir stateDir else Inr ()) (\<lambda>_.
     let manifest = base_manifest opts metricsPort healthPort healthHost tlsDir runDir stateDir in
     if jc_Source jwt = JWTSourceOAuth2 then configureOAuth2Volumes (jc_OAuth2 jwt) manifest
     else addReadOnlyHostPath ''jwt'' jwtDir ''Directory'' manifest))))))))"

section \<open>Containment of absolute paths\<close>

text \<open>The names of a rooted path after cleaning; containment is the prefix order on them.\<close>

definition clean_names :: "string \<Rightarrow> string list" where
  "clean_names p = foldl (clean_step True) [] (split_on (CHR ''/'') p)"

lemma split_on_sep_free: "\<forall>x\<in>set (split_on c s). c \<notin> set x"
proof (induction s)
  case (Cons a s)
  then show ?case by (cases "split_on c s") auto
qed simp

lemma split_on_Join_names: "xs \<noteq> [] \<Longrightarrow> \<forall>x\<in>set xs. CHR ''/'' \<notin> set x \<Longrightarrow> split_on (CHR ''/'') (Join xs ''/'') = xs"
proof (induction xs "''/''" rule: Join.induct)
  case (3 x y ys)
  then show ?case using split_on_append [of "CHR ''/''" x "Join (y # ys) ''/''"] by (simp add: split_on_no_sep)
qed (simp_all add: split_on_no_sep)

lemma clean_names_proper_aux:
  "\<forall>x\<in>set acc. proper_segment x \<Longrightarrow> \<forall>x\<in>set xs. CHR ''/'' \<notin> set x \<Longrightarrow> \<forall>x\<in>set (foldl (clean_step True) acc xs). proper_segment x"
proof (induction xs arbitrary: acc)
  case (Cons x xs)
  have "\<forall>y\<in>set (clean_step True acc x). proper_segment y"
    using Cons.prems by (auto simp: clean_step_def proper_segment_def badSegment_def dest: in_set_butlastD)
  with Cons show ?case by simp
qed simp

lemma clean_names_proper: "x \<in> set (clean_names p) \<Longrightarrow> proper_segment x"
  using clean_names_proper_aux [of "[]" "split_on (CHR ''/'') p"] split_on_sep_free by (auto simp: clean_names_def)

lemma path_Clean_rooted: "IsAbs p \<Longrightarrow> path_Clean p = ''/'' @ Join (clean_names p) ''/''"
  by (simp add: path_Clean_def IsAbs_def clean_names_def)

lemma split_on_rooted:
  "\<forall>x\<in>set ps. proper_segment x \<Longrightarrow> split_on (CHR ''/'') (''/'' @ Join ps ''/'') = [] # (if ps = [] then [[]] else ps)"
  using split_on_Join_names [of ps] by (auto simp: proper_segment_def)

lemma path_names_Clean: "IsAbs p \<Longrightarrow> path_names (path_Clean p) = clean_names p"
  using clean_names_proper [of _ p] split_on_rooted [of "clean_names p"]
  by (auto simp: path_Clean_rooted path_names_def proper_segment_def badSegment_def intro!: filter_True)

lemma clean_names_Clean: "IsAbs p \<Longrightarrow> clean_names (path_Clean p) = clean_names p"
proof -
  assume p: "IsAbs p"
  have proper: "\<forall>x\<in>set (clean_names p). proper_segment x" using clean_names_proper by blast
  have step: "clean_step True acc [] = acc" for acc by (simp add: clean_step_def)
  have "clean_names (path_Clean p) = foldl (clean_step True) [] (if clean_names p = [] then [[]] else clean_names p)"
    by (subst clean_names_def) (simp only: path_Clean_rooted [OF p] split_on_rooted [OF proper] foldl.simps step)
  also have "\<dots> = clean_names p"
    using clean_proper [of "clean_names p" True "[]"] proper by (auto simp: step proper_segment_def)
  finally show ?thesis .
qed

text \<open>Cleaning a relative path gives no rooted one.\<close>

definition slash_free :: "string \<Rightarrow> bool" where
  "slash_free x \<longleftrightarrow> CHR ''/'' \<notin> set x \<and> x \<noteq> []"

lemma clean_step_slash_free:
  "\<forall>x\<in>set acc. slash_free x \<Longrightarrow> \<forall>x\<in>set xs. CHR ''/'' \<notin> set x \<Longrightarrow> \<forall>x\<in>set (foldl (clean_step rooted) acc xs). slash_free x"
proof (induction xs arbitrary: acc)
  case (Cons x xs)
  have "\<forall>y\<in>set (clean_step rooted acc x). slash_free y"
    using Cons.prems by (auto simp: clean_step_def slash_free_def dest: in_set_butlastD)
  with Cons show ?case by simp
qed simp

lemma Join_not_rooted: "\<forall>x\<in>set xs. slash_free x \<Longrightarrow> \<not> HasPrefix (Join xs ''/'') ''/''"
proof (cases xs)
  case (Cons y ys)
  moreover assume "\<forall>x\<in>set xs. slash_free x"
  ultimately obtain a z where "y = a # z" "a \<noteq> CHR ''/''" by (cases y) (auto simp: slash_free_def)
  with Cons show ?thesis by (cases ys) (simp_all add: HasPrefix_def)
qed (simp add: HasPrefix_def)

lemma IsAbs_Clean: "IsAbs (path_Clean p) = IsAbs p"
proof (cases "IsAbs p")
  case False
  have "\<forall>x\<in>set (foldl (clean_step False) [] (split_on (CHR ''/'') p)). slash_free x"
    by (rule clean_step_slash_free) (simp_all add: split_on_sep_free)
  from Join_not_rooted [OF this] False show ?thesis by (simp add: path_Clean_def IsAbs_def Let_def HasPrefix_def)
qed (simp add: path_Clean_rooted IsAbs_def HasPrefix_def)

lemma strip_common_spec:
  "strip_common bs ts = (bs', ts') \<Longrightarrow> \<exists>pre. bs = pre @ bs' \<and> ts = pre @ ts' \<and> (bs' = [] \<or> ts' = [] \<or> hd bs' \<noteq> hd ts')"
proof (induction bs ts rule: strip_common.induct)
  case (1 b bs t ts)
  show ?case
  proof (cases "b = t")
    case True
    with 1 obtain pre where "bs = pre @ bs' \<and> ts = pre @ ts' \<and> (bs' = [] \<or> ts' = [] \<or> hd bs' \<noteq> hd ts')" by auto
    with True show ?thesis by (intro exI [of _ "b # pre"]) simp
  qed (use 1 in auto)
qed auto

lemma IsLocal_names:
  assumes "xs \<noteq> []" "\<forall>x\<in>set xs. proper_segment x"
  shows "filepath_IsLocal (Join xs ''/'')"
proof -
  have sp: "split_on (CHR ''/'') (Join xs ''/'') = xs" using assms by (intro split_on_Join_names) (auto simp: proper_segment_def)
  obtain y ys where xs: "xs = y # ys" using assms(1) by (cases xs) auto
  obtain a z where y: "y = a # z" "a \<noteq> CHR ''/''" using assms(2) xs by (cases y) (auto simp: proper_segment_def badSegment_def)
  obtain r where start: "Join xs ''/'' = a # r" using xs y by (cases ys) simp_all
  have dots: "\<not> list_ex (\<lambda>s. s = ''.'' \<or> s = ''..'') xs" using assms(2) by (auto simp: list_ex_iff proper_segment_def badSegment_def)
  have "\<not> HasPrefix (Join xs ''/'') ''../'' \<and> Join xs ''/'' \<noteq> ''..''"
  proof (rule ccontr)
    assume "\<not> ?thesis"
    then obtain r where "Join xs ''/'' = ''..'' \<or> Join xs ''/'' = ''..'' @ CHR ''/'' # r" by (auto simp: HasPrefix_iff)
    then have "hd (split_on (CHR ''/'') (Join xs ''/'')) = ''..''" by auto
    then show False using sp xs assms(2) by (auto simp: proper_segment_def badSegment_def)
  qed
  moreover have "\<not> IsAbs (Join xs ''/'')" using start y by (simp add: IsAbs_def HasPrefix_def)
  moreover have "Join xs ''/'' \<noteq> []" using start by simp
  ultimately show ?thesis unfolding filepath_IsLocal_def sp using dots by simp
qed

lemma clean_parents: "foldl (clean_step False) (replicate m ''..'') (replicate n ''..'') = replicate (m + n) ''..''"
proof (induction n arbitrary: m)
  case (Suc n)
  have "clean_step False (replicate m ''..'') ''..'' = replicate (Suc m) ''..''"
    by (cases m) (simp_all add: clean_step_def replicate_append_same [symmetric])
  with Suc [of "Suc m"] show ?case by simp
qed simp

lemma not_IsLocal_parent:
  assumes "n \<noteq> 0" "\<forall>x\<in>set ts. proper_segment x"
  shows "\<not> filepath_IsLocal (Join (replicate n ''..'' @ ts) ''/'')"
proof -
  let ?xs = "replicate n ''..'' @ ts"
  have sp: "split_on (CHR ''/'') (Join ?xs ''/'') = ?xs" using assms by (intro split_on_Join_names) (auto simp: proper_segment_def)
  obtain ys where xs: "?xs = ''..'' # ys" using assms(1) by (cases n) auto
  have start: "Join ?xs ''/'' = ''..'' \<or> HasPrefix (Join ?xs ''/'') ''../''" unfolding xs by (cases ys) (simp_all add: HasPrefix_def)
  have "foldl (clean_step False) [] ?xs = ?xs"
    using clean_parents [of 0 n] clean_proper [of ts False "replicate n ''..''"] assms(2) by (simp add: proper_segment_def)
  moreover have "\<not> HasPrefix (Join ?xs ''/'') ''/''" unfolding xs by (cases ys) (simp_all add: HasPrefix_def)
  moreover have "Join ?xs ''/'' \<noteq> []" using start by (auto simp: HasPrefix_def)
  ultimately have "path_Clean (Join ?xs ''/'') = Join ?xs ''/''" by (simp add: path_Clean_def sp)
  moreover have "list_ex (\<lambda>s. s = ''.'' \<or> s = ''..'') ?xs" using assms(1) by (auto simp: list_ex_iff)
  ultimately show ?thesis using start by (auto simp: filepath_IsLocal_def sp Let_def)
qed

lemma pathContains_iff:
  assumes "IsAbs p" "IsAbs c"
  shows "pathContains p c \<longleftrightarrow> (\<exists>r. clean_names c = clean_names p @ r)"
proof (cases "clean_names c = clean_names p")
  case True
  then have "path_Clean c = path_Clean p" using assms by (simp add: path_Clean_rooted)
  moreover have "path_Clean ''.'' = ''.''" by (simp add: path_Clean_def clean_step_def HasPrefix_def)
  ultimately show ?thesis using True by (simp add: pathContains_def filepath_Rel_def filepath_IsLocal_def IsAbs_def HasPrefix_def)
next
  case False
  then have ne: "path_Clean c \<noteq> path_Clean p" using assms path_names_Clean by metis
  obtain bs ts where st: "strip_common (clean_names p) (clean_names c) = (bs, ts)" by fastforce
  from strip_common_spec [OF st] obtain pre where pre: "clean_names p = pre @ bs" "clean_names c = pre @ ts"
    "bs = [] \<or> ts = [] \<or> hd bs \<noteq> hd ts" by blast
  have proper: "\<forall>x\<in>set bs. proper_segment x" "\<forall>x\<in>set ts. proper_segment x"
    using clean_names_proper [of _ p] clean_names_proper [of _ c] pre by auto
  have dots: "\<not> (bs \<noteq> [] \<and> hd bs = ''..'')" using proper(1) by (cases bs) (auto simp: proper_segment_def badSegment_def)
  have "HasPrefix (path_Clean p) ''/''" "HasPrefix (path_Clean c) ''/''" using assms IsAbs_Clean by (simp_all add: IsAbs_def)
  moreover from this have "path_Clean p \<noteq> ''.''" by (auto simp: HasPrefix_def)
  ultimately have rel: "filepath_Rel p c = Some (Join (replicate (length bs) ''..'' @ ts) ''/'')"
    using ne dots assms by (simp add: filepath_Rel_def path_names_Clean st Let_def)
  show ?thesis
  proof (cases "bs = []")
    case True
    then have "ts \<noteq> []" using False pre by auto
    with IsLocal_names [OF this proper(2)] True pre rel show ?thesis by (simp add: pathContains_def)
  next
    case bs: False
    have "\<not> (\<exists>r. clean_names c = clean_names p @ r)" using bs pre by (cases bs; cases ts) auto
    with not_IsLocal_parent [of "length bs" ts] bs proper rel show ?thesis by (simp add: pathContains_def)
  qed
qed

section \<open>The directory of a file\<close>

lemma last_slash:
  obtains "CHR ''/'' \<notin> set f" "rev (dropWhile (\<lambda>c. c \<noteq> CHR ''/'') (rev f)) = []"
    | a name where "f = a @ CHR ''/'' # name" "CHR ''/'' \<notin> set name" "rev (dropWhile (\<lambda>c. c \<noteq> CHR ''/'') (rev f)) = a @ ''/''"
proof (cases "CHR ''/'' \<in> set f")
  case True
  then obtain a name where f: "f = a @ CHR ''/'' # name" "CHR ''/'' \<notin> set name" using split_list_last by metis
  then have "\<And>x. x \<in> set (rev name) \<Longrightarrow> x \<noteq> CHR ''/''" by auto
  then have "dropWhile (\<lambda>c. c \<noteq> CHR ''/'') (rev name @ CHR ''/'' # rev a) = CHR ''/'' # rev a" by (subst dropWhile_append2) auto
  then have "dropWhile (\<lambda>c. c \<noteq> CHR ''/'') (rev f) = CHR ''/'' # rev a" using f by simp
  with f that(2) show thesis by simp
next
  case False
  then have "dropWhile (\<lambda>c. c \<noteq> CHR ''/'') (rev f) = []" by (auto simp: dropWhile_eq_Nil_conv)
  with False that(1) show thesis by simp
qed

lemma Dir_names:
  assumes "IsAbs (filepath_Dir f)"
  shows "IsAbs f \<and> (\<exists>name. clean_names f = clean_step True (clean_names (filepath_Dir f)) name)"
proof (cases rule: last_slash [of f])
  case 1
  have "filepath_Dir f = ''.''" unfolding filepath_Dir_def 1(2) by (simp add: path_Clean_def clean_step_def HasPrefix_def)
  with assms show ?thesis by (simp add: IsAbs_def HasPrefix_def)
next
  case (2 a name)
  have dir: "filepath_Dir f = path_Clean (a @ ''/'')" unfolding filepath_Dir_def 2(3) ..
  then have rooted: "IsAbs (a @ ''/'')" using assms IsAbs_Clean by simp
  then have "IsAbs f" by (cases a) (simp_all add: 2(1) IsAbs_def HasPrefix_def)
  moreover have "clean_names (filepath_Dir f) = foldl (clean_step True) [] (split_on (CHR ''/'') a)"
    using clean_names_Clean [OF rooted] split_on_append [of "CHR ''/''" a "[]"] by (simp add: dir clean_names_def clean_step_def)
  moreover have "split_on (CHR ''/'') f = split_on (CHR ''/'') a @ [name]"
    using split_on_append [of "CHR ''/''" a name] by (simp add: 2(1,2) split_on_no_sep)
  ultimately show ?thesis by (auto simp: clean_names_def)
qed

text \<open>A directory that does not overlap the directory of a file does not contain the file.\<close>

lemma file_outside:
  assumes "IsAbs w" "IsAbs (filepath_Dir f)" "\<not> pathContains w (filepath_Dir f)" "\<not> pathContains (filepath_Dir f) w"
  shows "\<not> pathContains w f"
proof
  assume "pathContains w f"
  from Dir_names [OF assms(2)] have dir: "IsAbs f" "\<exists>name. clean_names f = clean_step True (clean_names (filepath_Dir f)) name" by auto
  obtain r where r: "clean_names f = clean_names w @ r" using \<open>pathContains w f\<close> pathContains_iff [OF assms(1) dir(1)] by blast
  obtain name where name: "clean_names f = clean_step True (clean_names (filepath_Dir f)) name" using dir(2) ..
  let ?d = "clean_names (filepath_Dir f)"
  have no: "\<nexists>r. ?d = clean_names w @ r" "\<nexists>r. clean_names w = ?d @ r" using assms pathContains_iff by blast+
  consider "clean_names f = ?d" | "?d \<noteq> []" "clean_names f = butlast ?d" | "clean_names f = ?d @ [name]"
    using name by (auto simp: clean_step_def split: if_splits)
  then show False
  proof cases
    case 2
    then have "?d = clean_names w @ r @ [last ?d]" using r by (metis append.assoc append_butlast_last_id)
    with no show False by blast
  next
    case 3
    then have "clean_names w @ r = ?d @ [name]" using r by simp
    then have "(\<exists>r. ?d = clean_names w @ r) \<or> (\<exists>r. clean_names w = ?d @ r)" 
      unfolding append_eq_append_conv2 by (metis append_Nil2 append_eq_append_conv2)
    with no show False by blast
  qed (use r no in metis)
qed

section \<open>Isolation\<close>

abbreviation socket_dir :: "Config \<Rightarrow> string" where "socket_dir cfg \<equiv> filepath_Dir (sv_SocketPath (cf_Server cfg))"
abbreviation state_dir :: "Config \<Rightarrow> string" where "state_dir cfg \<equiv> filepath_Dir (cf_State_Path cfg)"

text \<open>What the container has to find on the host, and must not be able to change.\<close>

definition trusted_paths :: "Config \<Rightarrow> string list" where
  "trusted_paths cfg =
    (let jwt = au_JWT (cf_Auth cfg); oauth = jc_OAuth2 jwt in
     [ProviderConfigPath, filepath_Dir (bo_CACertFile (cf_OpenBao cfg))]
   @ (if jc_Source jwt = JWTSourceOAuth2
      then filepath_Dir (o2_ClientSecretFile oauth) # (if o2_CACertFile oauth \<noteq> [] then [o2_CACertFile oauth] else [])
      else [filepath_Dir (jc_JWTFile jwt)]))"

lemma validateReadOnlyDirectory_Inr [simp]:
  "validateReadOnlyDirectory l dir run st = Inr u \<longleftrightarrow>
     IsAbs dir \<and> dir \<noteq> ''/'' \<and> \<not> pathContains dir ProviderConfigPath
     \<and> \<not> pathContains dir run \<and> \<not> pathContains run dir \<and> \<not> pathContains dir st \<and> \<not> pathContains st dir"
  by (auto simp: validateReadOnlyDirectory_def failIf_def split: if_splits)

lemma trusted_outside:
  assumes "validateStaticPodDirectories cfg (socket_dir cfg) (state_dir cfg) = Inr u"
    and "jc_Source (au_JWT (cf_Auth cfg)) \<noteq> JWTSourceOAuth2 \<longrightarrow>
      validateJWTCredentialDirectory (filepath_Dir (jc_JWTFile (au_JWT (cf_Auth cfg)))) (socket_dir cfg) (state_dir cfg) = Inr ()"
    and "t \<in> set (trusted_paths cfg)" "w \<in> {socket_dir cfg, state_dir cfg}"
  shows "\<not> pathContains w t"
proof -
  have w: "IsAbs w" "\<not> pathContains w ProviderConfigPath"
    using assms(1,4) by (auto simp: validateStaticPodDirectories_def failIf_def Let_def split: if_splits)
  consider "t = ProviderConfigPath" | "IsAbs t" "\<not> pathContains w t" | "t = o2_CACertFile (jc_OAuth2 (au_JWT (cf_Auth cfg)))"
      "IsAbs (filepath_Dir t)" "\<not> pathContains w (filepath_Dir t)" "\<not> pathContains (filepath_Dir t) w"
    using assms by (auto simp: trusted_paths_def validateStaticPodDirectories_def validateJWTCredentialDirectory_def failIf_def Let_def split: if_splits)
  then show ?thesis using w file_outside [of w t] by cases auto
qed

text \<open>The mounts of a pod: every mount has its volume, two directories can be written, and the rest are the trusted paths.\<close>

definition pod_shape :: "string \<Rightarrow> string \<Rightarrow> string list \<Rightarrow> podManifest \<Rightarrow> bool" where
  "pod_shape run st trusted m \<longleftrightarrow>
     map (\<lambda>vm. (vm_Name vm, vm_MountPath vm)) (pod_mounts m) = map (\<lambda>v. (pv_Name v, pv_Path v)) (ps_Volumes (po_Spec m))
   \<and> distinct (map vm_Name (pod_mounts m))
   \<and> map vm_MountPath (filter (\<lambda>vm. \<not> vm_ReadOnly vm) (pod_mounts m)) = [run, st]
   \<and> vm_MountPath ` {vm \<in> set (pod_mounts m). vm_ReadOnly vm} = set trusted"

definition pod_hardened :: "StaticPodOptions \<Rightarrow> podManifest \<Rightarrow> bool" where
  "pod_hardened opts m \<longleftrightarrow>
    (let spec = po_Spec m; psc = ps_SecurityContext spec in
     length (ps_Containers spec) = 1 \<and> \<not> ps_AutomountServiceAccountToken spec
   \<and> psc_RunAsNonRoot psc \<and> psc_RunAsUser psc \<noteq> 0 \<and> psc_SupplementalGroups psc = [spo_SocketGID opts]
   \<and> (\<forall>c\<in>set (ps_Containers spec). pc_Image c = spo_Image opts \<and> \<not> csc_AllowPrivilegeEscalation (pc_SecurityContext c)
        \<and> csc_ReadOnlyRootFilesystem (pc_SecurityContext c) \<and> csc_Drop (pc_SecurityContext c) = [''ALL'']))"

lemma add_simps [simp]:
  "pod_mounts (add_mount vm m) = pod_mounts m @ [vm]" "pod_mounts (add_volume v m) = pod_mounts m"
  "ps_Volumes (po_Spec (add_mount vm m)) = ps_Volumes (po_Spec m)" "ps_Volumes (po_Spec (add_volume v m)) = ps_Volumes (po_Spec m) @ [v]"
  by (simp_all add: pod_mounts_def add_mount_def add_volume_def Let_def)

lemma hardened_add: "pod_hardened opts m \<Longrightarrow> pod_hardened opts (add_mount vm (add_volume v m))"
  by (cases "ps_Containers (po_Spec m)") (auto simp: pod_hardened_def add_mount_def add_volume_def Let_def)

lemma addReadOnlyHostPath_shape:
  assumes "addReadOnlyHostPath name source kind m = Inr m'" "pod_shape run st trusted m" "pod_hardened opts m" "name \<notin> vm_Name ` set (pod_mounts m)"
  shows "pod_shape run st (trusted @ [source]) m'" "pod_hardened opts m'" "vm_Name ` set (pod_mounts m') \<subseteq> insert name (vm_Name ` set (pod_mounts m))"
proof -
  consider vm where "vm \<in> set (pod_mounts m)" "vm_MountPath vm = source" "vm_ReadOnly vm" "m' = m"
    | "m' = add_mount \<lparr>vm_Name = name, vm_MountPath = source, vm_ReadOnly = True\<rparr> (add_volume \<lparr>pv_Name = name, pv_Path = source, pv_Type = kind\<rparr> m)"
  proof (cases "find (\<lambda>vm. vm_MountPath vm = source) (pod_mounts m)")
    case None
    with assms(1) that(2) show thesis by (simp add: addReadOnlyHostPath_def)
  next
    case (Some vm)
    with assms(1) have "vm_ReadOnly vm" "m' = m" by (simp_all add: addReadOnlyHostPath_def split: if_splits)
    moreover from Some have "vm \<in> set (pod_mounts m)" "vm_MountPath vm = source" by (auto simp: find_Some_iff)
    ultimately show thesis using that(1) by blast
  qed
  then have "pod_shape run st (trusted @ [source]) m' \<and> pod_hardened opts m' \<and> vm_Name ` set (pod_mounts m') \<subseteq> insert name (vm_Name ` set (pod_mounts m))"
  proof cases
    case 1
    then have "source \<in> set trusted" using assms(2) by (auto simp: pod_shape_def)
    with 1 assms(2,3) show ?thesis by (auto simp: pod_shape_def insert_absorb)
  next
    case 2
    have "{vm \<in> set (pod_mounts m'). vm_ReadOnly vm} = insert \<lparr>vm_Name = name, vm_MountPath = source, vm_ReadOnly = True\<rparr> {vm \<in> set (pod_mounts m). vm_ReadOnly vm}"
      unfolding 2 by auto
    with assms(2-4) hardened_add show ?thesis by (auto simp: 2 pod_shape_def)
  qed
  then show "pod_shape run st (trusted @ [source]) m'" "pod_hardened opts m'" "vm_Name ` set (pod_mounts m') \<subseteq> insert name (vm_Name ` set (pod_mounts m))" by simp_all
qed

lemma base_manifest_shape:
  "pod_shape run st [ProviderConfigPath, tls] (base_manifest opts mp hp host tls run st)" "pod_hardened opts (base_manifest opts mp hp host tls run st)"
  "vm_Name ` set (pod_mounts (base_manifest opts mp hp host tls run st)) = {''config'', ''tls'', ''run'', ''state''}"
proof -
  let ?m = "base_manifest opts mp hp host tls run st"
  have m: "pod_mounts ?m = [\<lparr>vm_Name = ''config'', vm_MountPath = ProviderConfigPath, vm_ReadOnly = True\<rparr>, \<lparr>vm_Name = ''tls'', vm_MountPath = tls, vm_ReadOnly = True\<rparr>,
      \<lparr>vm_Name = ''run'', vm_MountPath = run, vm_ReadOnly = False\<rparr>, \<lparr>vm_Name = ''state'', vm_MountPath = st, vm_ReadOnly = False\<rparr>]"
    by (simp add: base_manifest_def pod_mounts_def)
  show "vm_Name ` set (pod_mounts ?m) = {''config'', ''tls'', ''run'', ''state''}" by (simp add: m)
  have "{vm \<in> set (pod_mounts ?m). vm_ReadOnly vm} = set (filter vm_ReadOnly (pod_mounts ?m))" by simp
  then show "pod_shape run st [ProviderConfigPath, tls] ?m" unfolding pod_shape_def m by (simp add: base_manifest_def)
  show "pod_hardened opts ?m" by (simp add: pod_hardened_def base_manifest_def ContainerUID_def)
qed

lemma buildStaticPod_Inr:
  assumes "buildStaticPod cfg opts = Inr m"
  shows "imageDigestPattern (spo_Image opts)" "spo_SocketGID opts > 0"
    "validateStaticPodDirectories cfg (socket_dir cfg) (state_dir cfg) = Inr ()"
    "jc_Source (au_JWT (cf_Auth cfg)) \<noteq> JWTSourceOAuth2 \<longrightarrow>
      validateJWTCredentialDirectory (filepath_Dir (jc_JWTFile (au_JWT (cf_Auth cfg)))) (socket_dir cfg) (state_dir cfg) = Inr ()"
    "pod_shape (socket_dir cfg) (state_dir cfg) (trusted_paths cfg) m \<and> pod_hardened opts m"
proof -
  let ?jwt = "au_JWT (cf_Auth cfg)" and ?tls = "filepath_Dir (bo_CACertFile (cf_OpenBao cfg))"
  from assms obtain mp hp host where
    checks: "imageDigestPattern (spo_Image opts)" "spo_SocketGID opts > 0" "validateStaticPodDirectories cfg (socket_dir cfg) (state_dir cfg) = Inr ()"
      "jc_Source ?jwt \<noteq> JWTSourceOAuth2 \<longrightarrow> validateJWTCredentialDirectory (filepath_Dir (jc_JWTFile ?jwt)) (socket_dir cfg) (state_dir cfg) = Inr ()"
    and build: "(if jc_Source ?jwt = JWTSourceOAuth2 then configureOAuth2Volumes (jc_OAuth2 ?jwt) (base_manifest opts mp hp host ?tls (socket_dir cfg) (state_dir cfg))
       else addReadOnlyHostPath ''jwt'' (filepath_Dir (jc_JWTFile ?jwt)) ''Directory'' (base_manifest opts mp hp host ?tls (socket_dir cfg) (state_dir cfg))) = Inr m"
    by (auto simp: buildStaticPod_def ValidateImageDigest_def failIf_def Let_def split: if_splits)
  show "imageDigestPattern (spo_Image opts)" "spo_SocketGID opts > 0" "validateStaticPodDirectories cfg (socket_dir cfg) (state_dir cfg) = Inr ()"
    "jc_Source ?jwt \<noteq> JWTSourceOAuth2 \<longrightarrow> validateJWTCredentialDirectory (filepath_Dir (jc_JWTFile ?jwt)) (socket_dir cfg) (state_dir cfg) = Inr ()"
    using checks by simp_all
  let ?b = "base_manifest opts mp hp host ?tls (socket_dir cfg) (state_dir cfg)"
  note base = base_manifest_shape [where run = "socket_dir cfg" and st = "state_dir cfg" and tls = ?tls and opts = opts and mp = mp and hp = hp and host = host]
  show "pod_shape (socket_dir cfg) (state_dir cfg) (trusted_paths cfg) m \<and> pod_hardened opts m"
  proof (cases "jc_Source ?jwt = JWTSourceOAuth2")
    case False
    with build have "addReadOnlyHostPath ''jwt'' (filepath_Dir (jc_JWTFile ?jwt)) ''Directory'' ?b = Inr m" by simp
    from addReadOnlyHostPath_shape(1,2) [OF this base(1,2)] base(3) False show ?thesis by (simp add: trusted_paths_def Let_def)
  next
    case True
    with build obtain m1 where m1: "addReadOnlyHostPath ''oauth2-credentials'' (filepath_Dir (o2_ClientSecretFile (jc_OAuth2 ?jwt))) ''Directory'' ?b = Inr m1"
      and m: "(if o2_CACertFile (jc_OAuth2 ?jwt) \<noteq> [] then addReadOnlyHostPath ''oauth2-ca'' (o2_CACertFile (jc_OAuth2 ?jwt)) ''File'' m1 else Inr m1) = Inr m"
      by (auto simp: configureOAuth2Volumes_def)
    have fresh: "''oauth2-credentials'' \<notin> vm_Name ` set (pod_mounts ?b)" by (simp add: base(3))
    note step = addReadOnlyHostPath_shape [OF m1 base(1,2) fresh]
    have fresh2: "''oauth2-ca'' \<notin> vm_Name ` set (pod_mounts m1)" using step(3) base(3) by auto
    show ?thesis
    proof (cases "o2_CACertFile (jc_OAuth2 ?jwt) = []")
      case False
      with m have "addReadOnlyHostPath ''oauth2-ca'' (o2_CACertFile (jc_OAuth2 ?jwt)) ''File'' m1 = Inr m" by simp
      from addReadOnlyHostPath_shape(1,2) [OF this step(1,2) fresh2] True False show ?thesis by (simp add: trusted_paths_def Let_def)
    qed (use True m step in \<open>simp add: trusted_paths_def Let_def\<close>)
  qed
qed

text \<open>
  C35 The generated static pod separates what the provider may write from what it has to trust. The image is pinned by digest and the
  container runs without root, privilege escalation and capabilities. Its writable mounts are exactly the socket and the state directory, its
  other mounts are exactly the configuration, the CA directory and the credentials of the configured login, all read-only, and none of
  them lies in a writable mount. Every mount has the host volume of the same name and path, and no name occurs twice.
\<close>

theorem static_pod_isolated:
  assumes "buildStaticPod cfg opts = Inr m"
  shows "pod_shape (socket_dir cfg) (state_dir cfg) (trusted_paths cfg) m \<and> pod_hardened opts m
    \<and> imageDigestPattern (spo_Image opts) \<and> spo_SocketGID opts > 0
    \<and> (\<forall>vm\<in>set (pod_mounts m). vm_ReadOnly vm \<longrightarrow>
        \<not> pathContains (socket_dir cfg) (vm_MountPath vm) \<and> \<not> pathContains (state_dir cfg) (vm_MountPath vm))"
proof -
  note b = buildStaticPod_Inr [OF assms]
  have "\<not> pathContains w (vm_MountPath vm)" if "vm \<in> set (pod_mounts m)" "vm_ReadOnly vm" "w \<in> {socket_dir cfg, state_dir cfg}" for vm w
  proof (rule trusted_outside [OF b(3,4) _ that(3)])
    have "vm_MountPath vm \<in> vm_MountPath ` {vm \<in> set (pod_mounts m). vm_ReadOnly vm}" using that by blast
    then show "vm_MountPath vm \<in> set (trusted_paths cfg)" using b(5) by (simp add: pod_shape_def)
  qed
  with b(1,2,5) show ?thesis by blast
qed

definition ex_pod_config :: Config where
  "ex_pod_config = ex_config
     \<lparr>cf_Server := (cf_Server ex_config)\<lparr>sv_SocketPath := ''/r/k'', sv_MetricsAddress := '':1'', sv_HealthAddress := '':2''\<rparr>,
      cf_OpenBao := (cf_OpenBao ex_config)\<lparr>bo_CACertFile := ''/c/a''\<rparr>, cf_State_Path := ''/s/f'',
      cf_Auth := (cf_Auth ex_config)\<lparr>au_JWT := (au_JWT (cf_Auth ex_config))\<lparr>jc_JWTFile := ''/j/t''\<rparr>\<rparr>\<rparr>"

definition ex_pod_options :: StaticPodOptions where
  "ex_pod_options = \<lparr>spo_Image = ''i@sha256:'' @ replicate 64 (CHR ''0''), spo_SocketGID = 7\<rparr>"

lemma ex_dirs: "filepath_Dir ''/r/k'' = ''/r''" "filepath_Dir ''/s/f'' = ''/s''" "filepath_Dir ''/c/a'' = ''/c''" "filepath_Dir ''/j/t'' = ''/j''"
  by (simp_all add: filepath_Dir_def path_Clean_def clean_step_def HasPrefix_def)

lemma ex_contains:
  assumes "a \<noteq> CHR ''/''" "a \<noteq> CHR ''.''"
  shows "b \<noteq> a \<Longrightarrow> b \<noteq> CHR ''/'' \<Longrightarrow> b \<noteq> CHR ''.'' \<Longrightarrow> \<not> pathContains [CHR ''/'', a] [CHR ''/'', b]" "\<not> pathContains [CHR ''/'', a] ProviderConfigPath"
proof -
  have n: "clean_names [CHR ''/'', c] = [[c]]" if "c \<noteq> CHR ''/''" "c \<noteq> CHR ''.''" for c using that by (simp add: clean_names_def clean_step_def)
  have p: "clean_names ProviderConfigPath = [''etc'', ''openbao-kms'', ''config.yaml'']" "IsAbs ProviderConfigPath"
    by (simp_all add: clean_names_def clean_step_def ProviderConfigPath_def IsAbs_def HasPrefix_def)
  have abs: "IsAbs [CHR ''/'', c]" for c by (simp add: IsAbs_def HasPrefix_def)
  show "\<not> pathContains [CHR ''/'', a] [CHR ''/'', b]" if "b \<noteq> a" "b \<noteq> CHR ''/''" "b \<noteq> CHR ''.''"
    using assms that by (simp add: pathContains_iff abs n)
  show "\<not> pathContains [CHR ''/'', a] ProviderConfigPath" using assms by (simp add: pathContains_iff abs p n)
qed

lemma ex_image: "imageDigestPattern (spo_Image ex_pod_options)" "spo_SocketGID ex_pod_options > 0"
  by (simp_all add: ex_pod_options_def imageDigestPattern_def repository_name_def is_lower_alnum_def is_lower_hex_def list_all_iff Let_def)

lemma ex_pod_fields:
  "au_Method (cf_Auth ex_pod_config) = AuthMethodJWT" "jc_Source (au_JWT (cf_Auth ex_pod_config)) \<noteq> JWTSourceOAuth2"
  "socket_dir ex_pod_config = ''/r''" "state_dir ex_pod_config = ''/s''" "filepath_Dir (bo_CACertFile (cf_OpenBao ex_pod_config)) = ''/c''"
  "filepath_Dir (jc_JWTFile (au_JWT (cf_Auth ex_pod_config))) = ''/j''"
  by (simp_all add: ex_pod_config_def ex_config_def ex_dirs AuthMethodJWT_def JWTSourceOAuth2_def)

lemma ex_pod_ports: "addressPort (sv_MetricsAddress (cf_Server ex_pod_config)) = Inr 1" "addressPort (sv_HealthAddress (cf_Server ex_pod_config)) = Inr 2"
  by (simp_all add: ex_pod_config_def ex_config_def addressPort_def SplitHostPort_def cut_last_def HasPrefix_def Atoi_def parse_digits_def is_digit_def
      digit_val_def in_i64_def)

lemma ex_pod_built: "\<exists>m. buildStaticPod ex_pod_config ex_pod_options = Inr m"
proof -
  have abs: "IsAbs (CHR ''/'' # s)" for s by (simp add: IsAbs_def HasPrefix_def)
  have "validateStaticPodDirectories ex_pod_config ''/r'' ''/s'' = Inr ()"
    by (simp add: validateStaticPodDirectories_def ex_pod_fields ex_contains abs failIf_def Let_def)
  moreover have "validateJWTCredentialDirectory ''/j'' ''/r'' ''/s'' = Inr ()"
    by (simp add: validateJWTCredentialDirectory_def ex_contains abs)
  moreover have "ProviderConfigPath \<noteq> ''/j''" by (simp add: ProviderConfigPath_def)
  ultimately show ?thesis
    using ex_image
    by (simp add: buildStaticPod_def ex_pod_fields ex_pod_ports ValidateImageDigest_def failIf_def addReadOnlyHostPath_def pod_mounts_def base_manifest_def Let_def)
qed

theorem static_pod_isolated_witness:
  "\<exists>m. buildStaticPod ex_pod_config ex_pod_options = Inr m \<and> pod_shape ''/r'' ''/s'' [ProviderConfigPath, ''/c'', ''/j''] m"
proof -
  obtain m where m: "buildStaticPod ex_pod_config ex_pod_options = Inr m" using ex_pod_built by blast
  from static_pod_isolated [OF m] have "pod_shape (socket_dir ex_pod_config) (state_dir ex_pod_config) (trusted_paths ex_pod_config) m" by blast
  then have "pod_shape ''/r'' ''/s'' [ProviderConfigPath, ''/c'', ''/j''] m" by (simp add: ex_pod_fields trusted_paths_def Let_def)
  with m show ?thesis by blast
qed

end
