(* ===== verification/Provider_File.thy ===== *)
theory Provider_File
  imports Setup_Script Static_Pod
begin

text \<open>
  The configuration file that \<open>init\<close> generates (\<^verbatim>\<open>internal/scaffold/configfile.go\<close>): the document it encodes, and that its
  durations are read back as they were. The YAML encoder is a library, \<open>quote\<close> is \<open>strconv.Quote\<close>; a division that leaves no rest is the same in Go and here.
\<close>

section \<open>Durations\<close>

text \<open>\<open>time.Duration.String\<close>, used below a millisecond, is the argument \<open>duration_string\<close>.\<close>

definition duration_units :: "(int \<times> string) list" where
  "duration_units = [(3600000000000, ''h''), (60000000000, ''m''), (1000000000, ''s''), (1000000, ''ms'')]"

fun format_with :: "(int \<times> string) list \<Rightarrow> (int \<Rightarrow> string) \<Rightarrow> int \<Rightarrow> string" where
  "format_with [] duration_string v = duration_string v"
| "format_with ((unit, ending) # units) duration_string v =
    (if v mod unit = 0 then Itoa (v div unit) @ ending else format_with units duration_string v)"

definition formatDuration :: "(int \<Rightarrow> string) \<Rightarrow> int \<Rightarrow> string" where
  "formatDuration duration_string v = (if v = 0 then ''0s'' else format_with duration_units duration_string v)"

section \<open>The document\<close>

record serverConfigFile =
  scf_SocketPath :: string
  scf_SocketMode :: string
  scf_SocketGroup :: string
  scf_MetricsAddress :: string
  scf_HealthAddress :: string
  scf_MaxConcurrentStatus :: int
  scf_MaxConcurrentEncrypt :: int
  scf_MaxConcurrentDecrypt :: int

record openBaoConfigFile =
  bcf_Address :: string
  bcf_Namespace :: string
  bcf_CACertFile :: string
  bcf_TLSServerName :: string
  bcf_Timeout :: string
  bcf_InstanceID :: string

record oauth2AuthFile =
  oaf_TokenURL :: string
  oaf_ClientID :: string
  oaf_ClientSecretFile :: string
  oaf_AuthMethod :: string
  oaf_Scopes :: "string list"
  oaf_Audience :: string
  oaf_Resources :: "string list"
  oaf_CACertFile :: string

record jwtAuthFile =
  jaf_Source :: string
  jaf_OAuth2 :: "oauth2AuthFile option"
  jaf_MountPath :: string
  jaf_Role :: string
  jaf_JWTFile :: string
  jaf_MinRemainingTTL :: string
  jaf_ClockSkewLeeway :: string
  jaf_ExpectedIssuer :: string
  jaf_ExpectedAudience :: "string list"
  jaf_ExpectedSubject :: string

record certAuthFile =
  caf_MountPath :: string
  caf_Name :: string
  caf_MinRemainingTTL :: string
  caf_ClockSkewLeeway :: string
  caf_Source :: string
  caf_PKCS11 :: PKCS11CertAuthConfig

record authConfigFile =
  acf_Method :: string
  acf_LoginBeforeTokenExpiry :: string
  acf_TokenRenewalIncrement :: string
  acf_LoginTimeout :: string
  acf_JWT :: "jwtAuthFile option"
  acf_Cert :: "certAuthFile option"

record transitConfigFile =
  tcf_MountPath :: string
  tcf_KeyName :: string
  tcf_KeyIDScope :: KeyIDScopeConfig

record bootstrapFile =
  bsf_GraceTimeout :: string
  bsf_RetryInterval :: string

record statusFile =
  stf_ProbeInterval :: string
  stf_DeepProbeInterval :: string
  stf_StatusMaxStaleness :: string

record rotationFile =
  rof_Mode :: string
  rof_ActivationDelay :: string
  rof_RequireStableObservationCount :: int
  rof_RejectVersionRollback :: bool

record debugCorrelationFile =
  dcf_Enabled :: bool
  dcf_TTL :: string
  dcf_IncidentID :: string

record loggingFile =
  lgf_Level :: string
  lgf_Format :: string
  lgf_LogOpenBaoRequestIDs :: bool
  lgf_DebugCorrelation :: debugCorrelationFile

record providerConfigFile =
  pcf_ConfigVersion :: string
  pcf_Server :: serverConfigFile
  pcf_OpenBao :: openBaoConfigFile
  pcf_Auth :: authConfigFile
  pcf_Transit :: transitConfigFile
  pcf_Bootstrap :: bootstrapFile
  pcf_Status :: statusFile
  pcf_State_Path :: string
  pcf_Rotation :: rotationFile
  pcf_Logging :: loggingFile

section \<open>Rendering\<close>

definition server_file :: "ServerConfig \<Rightarrow> serverConfigFile" where
  "server_file sv = \<lparr>scf_SocketPath = sv_SocketPath sv, scf_SocketMode = sv_SocketMode sv, scf_SocketGroup = sv_SocketGroup sv,
     scf_MetricsAddress = sv_MetricsAddress sv, scf_HealthAddress = sv_HealthAddress sv, scf_MaxConcurrentStatus = sv_MaxConcurrentStatus sv,
     scf_MaxConcurrentEncrypt = sv_MaxConcurrentEncrypt sv, scf_MaxConcurrentDecrypt = sv_MaxConcurrentDecrypt sv\<rparr>"

definition openbao_file :: "(int \<Rightarrow> string) \<Rightarrow> OpenBaoConfig \<Rightarrow> openBaoConfigFile" where
  "openbao_file fmt bo = \<lparr>bcf_Address = bo_Address bo, bcf_Namespace = bo_Namespace bo, bcf_CACertFile = bo_CACertFile bo,
     bcf_TLSServerName = bo_TLSServerName bo, bcf_Timeout = fmt (bo_Timeout bo), bcf_InstanceID = bo_InstanceID bo\<rparr>"

definition oauth2_file :: "OAuth2Config \<Rightarrow> oauth2AuthFile" where
  "oauth2_file oauth = \<lparr>oaf_TokenURL = o2_TokenURL oauth, oaf_ClientID = o2_ClientID oauth, oaf_ClientSecretFile = o2_ClientSecretFile oauth,
     oaf_AuthMethod = o2_AuthMethod oauth, oaf_Scopes = elements (o2_Scopes oauth), oaf_Audience = o2_Audience oauth,
     oaf_Resources = elements (o2_Resources oauth), oaf_CACertFile = o2_CACertFile oauth\<rparr>"

definition jwt_file :: "(int \<Rightarrow> string) \<Rightarrow> JWTAuthConfig \<Rightarrow> jwtAuthFile" where
  "jwt_file fmt jwt = \<lparr>jaf_Source = jc_Source jwt, jaf_OAuth2 = (if jc_Source jwt = JWTSourceOAuth2 then Some (oauth2_file (jc_OAuth2 jwt)) else None),
     jaf_MountPath = jc_MountPath jwt, jaf_Role = jc_Role jwt, jaf_JWTFile = jc_JWTFile jwt,
     jaf_MinRemainingTTL = fmt (jc_MinRemainingTTL jwt), jaf_ClockSkewLeeway = fmt (jc_ClockSkewLeeway jwt),
     jaf_ExpectedIssuer = jc_ExpectedIssuer jwt, jaf_ExpectedAudience = jc_ExpectedAudience jwt, jaf_ExpectedSubject = jc_ExpectedSubject jwt\<rparr>"

definition cert_file :: "(int \<Rightarrow> string) \<Rightarrow> CertAuthConfig \<Rightarrow> certAuthFile" where
  "cert_file fmt cert = \<lparr>caf_MountPath = ca_MountPath cert, caf_Name = ca_Name cert, caf_MinRemainingTTL = fmt (ca_MinRemainingTTL cert),
     caf_ClockSkewLeeway = fmt (ca_ClockSkewLeeway cert), caf_Source = ca_Source cert, caf_PKCS11 = ca_PKCS11 cert\<rparr>"

definition auth_file :: "(int \<Rightarrow> string) \<Rightarrow> AuthConfig \<Rightarrow> authConfigFile" where
  "auth_file fmt au = \<lparr>acf_Method = au_Method au, acf_LoginBeforeTokenExpiry = fmt (au_LoginBeforeTokenExpiry au),
     acf_TokenRenewalIncrement = fmt (au_TokenRenewalIncrement au), acf_LoginTimeout = fmt (au_LoginTimeout au),
     acf_JWT = (if au_Method au = AuthMethodJWT then Some (jwt_file fmt (au_JWT au)) else None),
     acf_Cert = (if au_Method au = AuthMethodCert then Some (cert_file fmt (au_Cert au)) else None)\<rparr>"

definition transit_file :: "TransitConfig \<Rightarrow> transitConfigFile" where
  "transit_file tx = \<lparr>tcf_MountPath = tx_MountPath tx, tcf_KeyName = tx_KeyName tx, tcf_KeyIDScope = tx_KeyIDScope tx\<rparr>"

definition provider_file :: "(int \<Rightarrow> string) \<Rightarrow> Config \<Rightarrow> providerConfigFile" where
  "provider_file fmt cfg = \<lparr>pcf_ConfigVersion = ConfigVersion cfg, pcf_Server = server_file (cf_Server cfg), pcf_OpenBao = openbao_file fmt (cf_OpenBao cfg),
     pcf_Auth = auth_file fmt (cf_Auth cfg), pcf_Transit = transit_file (cf_Transit cfg),
     pcf_Bootstrap = \<lparr>bsf_GraceTimeout = fmt (bs_GraceTimeout (cf_Bootstrap cfg)), bsf_RetryInterval = fmt (bs_RetryInterval (cf_Bootstrap cfg))\<rparr>,
     pcf_Status = \<lparr>stf_ProbeInterval = fmt (sts_ProbeInterval (cf_Status cfg)), stf_DeepProbeInterval = fmt (sts_DeepProbeInterval (cf_Status cfg)),
       stf_StatusMaxStaleness = fmt (sts_StatusMaxStaleness (cf_Status cfg))\<rparr>,
     pcf_State_Path = cf_State_Path cfg,
     pcf_Rotation = \<lparr>rof_Mode = rt_Mode (cf_Rotation cfg), rof_ActivationDelay = fmt (rt_ActivationDelay (cf_Rotation cfg)),
       rof_RequireStableObservationCount = rt_RequireStableObservationCount (cf_Rotation cfg),
       rof_RejectVersionRollback = rt_RejectVersionRollback (cf_Rotation cfg)\<rparr>,
     pcf_Logging = \<lparr>lgf_Level = lg_Level (cf_Logging cfg), lgf_Format = lg_Format (cf_Logging cfg),
       lgf_LogOpenBaoRequestIDs = lg_LogOpenBaoRequestIDs (cf_Logging cfg),
       lgf_DebugCorrelation = \<lparr>dcf_Enabled = dc_Enabled (lg_DebugCorrelation (cf_Logging cfg)), dcf_TTL = fmt (dc_TTL (lg_DebugCorrelation (cf_Logging cfg))),
         dcf_IncidentID = dc_IncidentID (lg_DebugCorrelation (cf_Logging cfg))\<rparr>\<rparr>\<rparr>"

definition RenderProviderConfig :: "(string \<Rightarrow> string) \<Rightarrow> (int \<Rightarrow> string) \<Rightarrow> (providerConfigFile \<Rightarrow> string res) \<Rightarrow> Config \<Rightarrow> string res" where
  "RenderProviderConfig quote duration_string encode cfg =
    (if au_Method (cf_Auth cfg) \<noteq> AuthMethodJWT \<and> au_Method (cf_Auth cfg) \<noteq> AuthMethodCert
     then Inl (Msg (''unsupported auth method '' @ quote (au_Method (cf_Auth cfg))))
     else encode (provider_file (formatDuration duration_string) cfg))"

section \<open>What the durations read as\<close>

text \<open>
  What \<open>time.ParseDuration\<close> documents: it reads a decimal number with a unit, and what \<open>Duration.String\<close> prints.
\<close>

definition parses_durations :: "(string \<Rightarrow> int) \<Rightarrow> (int \<Rightarrow> string) \<Rightarrow> bool" where
  "parses_durations parse duration_string \<longleftrightarrow>
     (\<forall>(unit, ending)\<in>set duration_units. \<forall>n. in_i64 (n * unit) \<longrightarrow> parse (Itoa n @ ending) = n * unit)
     \<and> (\<forall>v. in_i64 v \<longrightarrow> parse (duration_string v) = v)"

lemma formatDuration_parses:
  assumes p: "parses_durations parse ds" and v: "in_i64 v"
  shows "parse (formatDuration ds v) = v"
proof -
  have "parse (format_with us ds v) = v" if "set us \<subseteq> set duration_units" for us
    using that
  proof (induction us)
    case (Cons u us)
    obtain unit ending where u: "u = (unit, ending)" by fastforce
    show ?case
    proof (cases "v mod unit = 0")
      case True
      then have "v div unit * unit = v" by (auto simp: dvd_eq_mod_eq_0)
      with p Cons.prems u v True show ?thesis by (fastforce simp: parses_durations_def)
    qed (use Cons u in auto)
  qed (use p v in \<open>simp add: parses_durations_def\<close>)
  moreover have "parse ''0s'' = 0"
  proof -
    have "(1000000000, ''s'') \<in> set duration_units" by (simp add: duration_units_def)
    moreover have "in_i64 (0 * 1000000000)" by (simp add: in_i64_def)
    ultimately have "parse (Itoa 0 @ ''s'') = 0" using p unfolding parses_durations_def by fastforce
    moreover have "Itoa 0 @ ''s'' = ''0s''" by code_simp
    ultimately show ?thesis by simp
  qed
  ultimately show ?thesis by (simp add: formatDuration_def)
qed

text \<open>For the witness, a parser of one number with one unit, and the number of nanoseconds as \<open>Duration.String\<close>.\<close>

definition ex_parse :: "string \<Rightarrow> int" where
  "ex_parse s =
    (let numeric = (\<lambda>c. is_digit c \<or> c = CHR ''-'') in
     case (Atoi (takeWhile numeric s), map_of (map (\<lambda>(unit, ending). (ending, unit)) (duration_units @ [(1, ''ns'')])) (dropWhile numeric s)) of
       (Some n, Some unit) \<Rightarrow> n * unit
     | _ \<Rightarrow> 0)"

definition ex_duration :: "int \<Rightarrow> string" where
  "ex_duration v = Itoa v @ ''ns''"

lemma ex_parse_number:
  assumes "in_i64 n" "(unit, ending) \<in> set (duration_units @ [(1, ''ns'')])"
  shows "ex_parse (Itoa n @ ending) = n * unit"
proof -
  let ?numeric = "\<lambda>c. is_digit c \<or> c = CHR ''-''"
  have number: "\<forall>c \<in> set (Itoa n). ?numeric c" by (auto dest: Itoa_chars)
  have "takeWhile ?numeric (Itoa n @ ending) = Itoa n" "dropWhile ?numeric (Itoa n @ ending) = ending"
    using number assms(2) by (auto simp: duration_units_def is_digit_def)
  with assms show ?thesis by (auto simp: ex_parse_def duration_units_def)
qed

lemma ex_parses: "parses_durations ex_parse ex_duration"
proof -
  have whole: "in_i64 n" if "in_i64 (n * unit)" "1 \<le> unit" for n unit :: int
  proof (cases "0 \<le> n")
    case True
    with that(2) have "n * 1 \<le> n * unit" by (intro mult_left_mono) auto
    then have "n \<le> n * unit" by simp
    with True that(1) show ?thesis unfolding in_i64_def by linarith
  next
    case False
    with that(2) have "n * unit \<le> n * 1" by (intro mult_left_mono_neg) auto
    then have "n * unit \<le> n" by simp
    with False that(1) show ?thesis unfolding in_i64_def by linarith
  qed
  have "1 \<le> fst u" if "u \<in> set duration_units" for u using that by (auto simp: duration_units_def)
  then have "ex_parse (Itoa n @ ending) = n * unit" if "(unit, ending) \<in> set duration_units" "in_i64 (n * unit)" for n unit ending
    using that whole [OF that(2)] by (intro ex_parse_number) fastforce+
  moreover have "ex_parse (ex_duration v) = v" if "in_i64 v" for v
    using ex_parse_number [of v 1 "''ns''"] that by (simp add: ex_duration_def)
  ultimately show ?thesis unfolding parses_durations_def by blast
qed

text \<open>The file does not depend on the SPIFFE settings: a certificate login from that source does not survive.\<close>

lemma spiffe_settings_lost:
  "provider_file fmt (cfg\<lparr>cf_Auth := (cf_Auth cfg)\<lparr>au_Cert := (au_Cert (cf_Auth cfg))\<lparr>ca_SPIFFE := sp\<rparr>\<rparr>\<rparr>) = provider_file fmt cfg"
  by (simp add: provider_file_def auth_file_def cert_file_def)

end
