(* ===== verification/Node_Setup.thy ===== *)
theory Node_Setup
  imports Setup_Script Static_Pod
begin

text \<open>
  The script that installs the provider on one node (\<^verbatim>\<open>internal/scaffold/nodescript.go\<close>): the directories and files of its layout, its
  text, and that the layout provides what the static pod mounts. The embedded shell functions (\<^verbatim>\<open>nodescript_helpers.sh\<close>) are an argument.
\<close>

section \<open>The layout\<close>

definition NodeModelSystemd :: string where "NodeModelSystemd = ''systemd''"
definition NodeModelStaticPod :: string where "NodeModelStaticPod = ''static-pod''"
definition systemdRunDir :: string where "systemdRunDir = ''/run/openbao-kms''"
definition systemdStateDir :: string where "systemdStateDir = ''/var/lib/openbao-kms/state''"
definition systemdUnit :: string where "systemdUnit = ''bao-kms-provider.service''"
definition systemdUser :: string where "systemdUser = ''openbao-kms''"
definition socketGroupName :: string where "socketGroupName = ''openbao-kms-socket''"
definition hostBinaryPath :: string where "hostBinaryPath = ''/usr/bin/bao-kms-provider''"
definition staticPodManifestDir :: string where "staticPodManifestDir = ''/etc/kubernetes/manifests''"
definition staticPodTmpfilesPath :: string where "staticPodTmpfilesPath = ''/etc/tmpfiles.d/openbao-kms-static-pod.conf''"
definition nodeSetupMarkerPath :: string where "nodeSetupMarkerPath = ''/etc/openbao-kms/.node-setup-check''"
definition nodeSetupCheckMaxAge :: int where "nodeSetupCheckMaxAge = 3600"
definition nodeSetupReadyAttempts :: int where "nodeSetupReadyAttempts = 60"

record NodeSetupOptions =
  nso_Model :: string
  nso_Fingerprint :: string
  nso_ConfigFile :: string
  nso_ManifestFile :: string
  nso_Image :: string
  nso_SocketGID :: int

record nodeDir =
  nd_path :: string
  nd_owner :: string
  nd_group :: string
  nd_mode :: string
  nd_strict :: bool

record nodeFile =
  nf_flag :: string
  nf_path :: string
  nf_owner :: string
  nf_group :: string
  nf_mode :: string

record nodeLayout =
  nl_runtimeGroup :: string
  nl_runAs :: string
  nl_tools :: "string list"
  nl_dirs :: "nodeDir list"
  nl_files :: "nodeFile list"
  nl_readyURL :: string
  nl_probeHint :: string

text \<open>\<open>net.JoinHostPort\<close> puts a host with a colon in brackets.\<close>

definition JoinHostPort :: "string \<Rightarrow> string \<Rightarrow> string" where
  "JoinHostPort host port = (if CHR '':'' \<in> set host then ''['' @ host @ '']:'' @ port else host @ '':'' @ port)"

definition nodeReadyURL :: "(go_error \<Rightarrow> string) \<Rightarrow> string \<Rightarrow> string res" where
  "nodeReadyURL text_of address =
    (case addressPort address of
       Inl e \<Rightarrow> Inl (Msg (''server.healthAddress: '' @ text_of e))
     | Inr port \<Rightarrow> Inr (''http://'' @ JoinHostPort (probeHost address) (Itoa port) @ ''/ready''))"

definition common_tools :: "string list" where
  "common_tools = [''id'', ''install'', ''stat'', ''getent'', ''cut'', ''grep'', ''date'', ''mkdir'', ''dirname'', ''setpriv'', ''curl'']"

definition modelLayout :: "Config \<Rightarrow> NodeSetupOptions \<Rightarrow> nodeLayout res" where
  "modelLayout cfg opts =
    (let runDir = filepath_Dir (sv_SocketPath (cf_Server cfg)); stateDir = filepath_Dir (cf_State_Path cfg) in
     if nso_Model opts = NodeModelSystemd then
       bindE (failIf (runDir \<noteq> systemdRunDir \<or> stateDir \<noteq> systemdStateDir)
         (Msg (''the packaged systemd unit writes only '' @ systemdRunDir @ '' and '' @ systemdStateDir
           @ ''; keep server.socketPath and state.path in those directories''))) (\<lambda>_.
       Inr \<lparr>nl_runtimeGroup = systemdUser,
         nl_runAs = ''setpriv --reuid='' @ systemdUser @ '' --regid='' @ systemdUser @ '' --init-groups --'',
         nl_tools = common_tools @ [''systemctl''], nl_dirs = [], nl_files = [], nl_readyURL = [],
         nl_probeHint = ''sh /usr/share/bao-kms-provider/probe-apiserver''\<rparr>)
     else if nso_Model opts = NodeModelStaticPod then
       bindE (ValidateImageDigest (nso_Image opts)) (\<lambda>_.
       bindE (failIf (nso_SocketGID opts \<le> 0 \<or> nso_ManifestFile opts = [])
         (Msg ''static pod node setup needs the socket GID and the generated manifest'')) (\<lambda>_.
       bindE (validateStaticPodDirectories cfg runDir stateDir) (\<lambda>_.
       let uid = Itoa ContainerUID in
       Inr \<lparr>nl_runtimeGroup = uid,
         nl_runAs = ''setpriv --reuid='' @ uid @ '' --regid='' @ uid @ '' --groups='' @ Itoa (nso_SocketGID opts) @ '' --'',
         nl_tools = common_tools @ [''systemd-tmpfiles'', ''crictl'', ''cmp'', ''cat'', ''chmod''],
         nl_dirs = [\<lparr>nd_path = filepath_Dir ProviderConfigPath, nd_owner = ''root'', nd_group = uid, nd_mode = ''750'', nd_strict = False\<rparr>,
           \<lparr>nd_path = stateDir, nd_owner = uid, nd_group = uid, nd_mode = ''750'', nd_strict = True\<rparr>],
         nl_files = [], nl_readyURL = [], nl_probeHint = ''sh bin/probe-apiserver (from the static-pod kit)''\<rparr>)))
     else Inl (Msg ''node setup model must be systemd or static-pod''))"

definition credential_path :: "Config \<Rightarrow> string" where
  "credential_path cfg =
    (let jwt = au_JWT (cf_Auth cfg) in
     if jc_Source jwt = JWTSourceOAuth2 then o2_ClientSecretFile (jc_OAuth2 jwt) else jc_JWTFile jwt)"

definition addCredentialLayout :: "Config \<Rightarrow> nodeLayout \<Rightarrow> nodeLayout" where
  "addCredentialLayout cfg layout =
    (let jwt = au_JWT (cf_Auth cfg); credentialPath = credential_path cfg; ca = bo_CACertFile (cf_OpenBao cfg);
         issuerCA = o2_CACertFile (jc_OAuth2 jwt); issuer = jc_Source jwt = JWTSourceOAuth2 \<and> issuerCA \<noteq> [] in
     layout\<lparr>
       nl_dirs := nl_dirs layout
         @ [\<lparr>nd_path = filepath_Dir ca, nd_owner = ''root'', nd_group = ''root'', nd_mode = ''755'', nd_strict = False\<rparr>,
            \<lparr>nd_path = filepath_Dir credentialPath, nd_owner = ''root'', nd_group = nl_runtimeGroup layout, nd_mode = ''750'', nd_strict = False\<rparr>]
         @ (if issuer then [\<lparr>nd_path = filepath_Dir issuerCA, nd_owner = ''root'', nd_group = ''root'', nd_mode = ''755'', nd_strict = False\<rparr>] else []),
       nl_files :=
         [\<lparr>nf_flag = ''--ca'', nf_path = ca, nf_owner = ''root'', nf_group = ''root'', nf_mode = ''644''\<rparr>,
          \<lparr>nf_flag = ''--credential'', nf_path = credentialPath, nf_owner = ''root'', nf_group = nl_runtimeGroup layout, nf_mode = ''640''\<rparr>]
         @ (if issuer then [\<lparr>nf_flag = ''--issuer-ca'', nf_path = issuerCA, nf_owner = ''root'', nf_group = ''root'', nf_mode = ''644''\<rparr>] else [])\<rparr>)"

text \<open>The loop with the paths it has seen.\<close>

fun unique_dirs :: "string list \<Rightarrow> nodeDir list \<Rightarrow> nodeDir list" where
  "unique_dirs seen [] = []"
| "unique_dirs seen (dir # dirs) =
    (if nd_path dir \<in> set seen then unique_dirs seen dirs else dir # unique_dirs (nd_path dir # seen) dirs)"

definition uniqueNodeDirs :: "nodeDir list \<Rightarrow> nodeDir list" where
  "uniqueNodeDirs dirs = unique_dirs [] dirs"

definition buildNodeLayout :: "(go_error \<Rightarrow> string) \<Rightarrow> Config \<Rightarrow> NodeSetupOptions \<Rightarrow> nodeLayout res" where
  "buildNodeLayout text_of cfg opts =
    bindE (failIf (au_Method (cf_Auth cfg) \<noteq> AuthMethodJWT)
      (Msg ''node setup supports JWT auth only; install certificate auth material by hand'')) (\<lambda>_.
    bindE (failIf (nso_Fingerprint opts = [] \<or> nso_ConfigFile opts = [])
      (Msg ''node setup needs the identity fingerprint and the generated configuration file'')) (\<lambda>_.
    bindE (nodeReadyURL text_of (sv_HealthAddress (cf_Server cfg))) (\<lambda>readyURL.
    bindE (modelLayout cfg opts) (\<lambda>layout.
    let layout = addCredentialLayout cfg (layout\<lparr>nl_readyURL := readyURL\<rparr>) in
    Inr (layout\<lparr>nl_dirs := uniqueNodeDirs (nl_dirs layout)\<rparr>)))))"

definition installUsage :: "nodeLayout \<Rightarrow> string" where
  "installUsage layout = Join (map (\<lambda>f. nf_flag f @ '' <file>'') (nl_files layout)) '' ''"

section \<open>The script\<close>

text \<open>
  In the literals of this section a backquote stands for a double quote and a tilde for a single quote, which cannot be written in them; the
  source uses neither character in its raw strings.
\<close>

definition sh :: "string \<Rightarrow> string" where
  "sh = map (\<lambda>c. if c = CHR ''`'' then CHR 0x22 else if c = CHR ''~'' then CHR 0x27 else c)"

definition sh_lines :: "string list \<Rightarrow> string" where
  "sh_lines ls = concat (map (\<lambda>l. script_raw (sh l)) ls)"

definition missing_package :: "string \<Rightarrow> string" where
  "missing_package what = sh ''fail 3 ~'' @ what @ sh '' is missing; install the package or tarball~''"

definition writeSystemdPrepare :: string where
  "writeSystemdPrepare =
     sh_lines [''  unit_found=~~'', ''  for dir in /etc/systemd/system /usr/lib/systemd/system /lib/systemd/system; do'']
   @ script_raw (sh ''    [ ! -f `$dir/'' @ systemdUnit @ sh ''` ] || unit_found=yes'')
   @ script_raw ''  done''
   @ script_raw (sh ''  [ -n `$unit_found` ] || '' @ missing_package (''the '' @ systemdUnit @ '' unit''))
   @ script_raw (''  getent passwd '' @ systemdUser @ '' >/dev/null || '' @ missing_package (''user '' @ systemdUser))
   @ script_raw (''  getent group '' @ socketGroupName @ '' >/dev/null || '' @ missing_package (''group '' @ socketGroupName))
   @ script_raw (''  [ -d '' @ systemdRunDir @ '' ] ||'')
   @ script_raw (sh ''    fail 3 ~'' @ systemdRunDir @ sh '' is missing; run systemd-tmpfiles --create~'')"

definition writeStaticPodPrepare :: "Config \<Rightarrow> NodeSetupOptions \<Rightarrow> string" where
  "writeStaticPodPrepare cfg opts =
    (let gid = Itoa (nso_SocketGID opts); uid = Itoa ContainerUID; runDir = filepath_Dir (sv_SocketPath (cf_Server cfg));
         regenerate = ''bao-kms-provider init --values generated/config.yaml --out <dir> --model static-pod''
           @ '' --image '' @ nso_Image opts @ '' --socket-gid $gid'';
         preload = ''the provider image is not preloaded; verify it, then run: crictl pull '' @ nso_Image opts in
     script_raw (''  gid=$(getent group '' @ socketGroupName @ '' | cut -d: -f3)'')
   @ script_raw (sh ''  [ -n `$gid` ] || fail 3 ~group '' @ socketGroupName @ '' is missing; run groupadd --system '' @ socketGroupName @ sh ''~'')
   @ script_raw (sh ''  [ `$gid` = '' @ shellQuote gid @ '' ] ||'')
   @ script_raw (sh ''    fail 3 `this node~s '' @ socketGroupName @ '' GID is $gid, but these files are for '' @ gid
       @ sh ''; generate this node~s files with: '' @ regenerate @ sh ''`'')
   @ script_raw (''  [ -d '' @ staticPodManifestDir @ sh '' ] || fail 3 ~'' @ staticPodManifestDir @ sh '' is missing; this model needs the kubelet static pod path~'')
   @ script_command [script_lit ''  crictl inspecti'', script_val (nso_Image opts), script_lit ''>/dev/null 2>&1 ||'']
   @ script_command [script_lit ''    fail 3'', script_val preload]
   @ script_command [script_lit (''  line='' @ shellQuote (''d '' @ runDir @ '' 2750 '' @ uid @ '' '' @ gid @ '' -''))]
   @ script_raw (''  tmpfiles='' @ staticPodTmpfilesPath)
   @ sh_lines [''  if [ -e `$tmpfiles` ]; then'',
       ''    [ `$(cat `$tmpfiles`)` = `$line` ] || fail 3 `$tmpfiles differs from this generation`'',
       ''  else'', ''    printf ~%s'' @ [CHR 0x5C] @ ''n~ `$line` > `$tmpfiles`'', ''    chmod 644 `$tmpfiles`'', ''    say `created $tmpfiles`'', ''  fi'',
       ''  systemd-tmpfiles --create `$tmpfiles`'']
   @ script_command [script_lit ''  ensure_dir'', script_val runDir, script_lit uid, script_lit gid, script_lit ''2750 strict''])"

definition ensure_dir_line :: "nodeDir \<Rightarrow> string" where
  "ensure_dir_line dir =
     script_command ([script_lit ''  ensure_dir'', script_val (nd_path dir), script_val (nd_owner dir), script_val (nd_group dir), script_lit (nd_mode dir)]
       @ (if nd_strict dir then [script_lit ''strict''] else []))"

definition writePreparePhase :: "Config \<Rightarrow> NodeSetupOptions \<Rightarrow> nodeLayout \<Rightarrow> string" where
  "writePreparePhase cfg opts layout =
     sh_lines [''phase_prepare() {'', ''  require_root'']
   @ script_raw (''  require_tools '' @ Join (nl_tools layout) '' '')
   @ sh_lines [''  [ -x `$binary` ] || fail 3 `$binary is missing; install the release artifact first`'']
   @ (if nso_Model opts = NodeModelSystemd then writeSystemdPrepare
      else if nso_Model opts = NodeModelStaticPod then writeStaticPodPrepare cfg opts else [])
   @ concat (map ensure_dir_line (nl_dirs layout))
   @ sh_lines [''  say `Next: sh $0 install $install_usage`'', ''}''] @ script_blank"

text \<open>\<open>for index, file := range layout.files\<close>.\<close>

definition each_file :: "(string \<Rightarrow> nodeFile \<Rightarrow> string) \<Rightarrow> nodeLayout \<Rightarrow> string" where
  "each_file line layout = concat (map (\<lambda>(i, f). line (Itoa (int i)) f) (enumerate 0 (nl_files layout)))"

definition writeInstallPhase :: "NodeSetupOptions \<Rightarrow> nodeLayout \<Rightarrow> string" where
  "writeInstallPhase opts layout =
     sh_lines [''phase_install() {'', ''  require_root'']
   @ each_file (\<lambda>i f. script_raw (''  file'' @ i @ sh ''=~~'')) layout
   @ sh_lines [''  while [ `$#` -gt 0 ]; do'', ''    [ `$#` -ge 2 ] || fail 2 `$1 needs a file argument`'', ''    case $1 in'']
   @ each_file (\<lambda>i f. script_raw (''      '' @ nf_flag f @ '') file'' @ i @ ''=$2 ;;'')) layout
   @ sh_lines [''      *) fail 2 `unknown install argument $1; expected $install_usage` ;;'', ''    esac'', ''    shift 2'', ''  done'']
   @ each_file (\<lambda>i f. script_raw (sh ''  [ -n `$file'' @ i @ sh ''` ] || fail 2 ~'' @ nf_flag f @ sh '' <file> is required~'')) layout
   @ script_command [script_lit (sh ''  install_new `$here`/'' @ shellQuote (nso_ConfigFile opts)), script_lit (sh ''`$config_target`''),
       script_lit ''root'', script_val (nl_runtimeGroup layout), script_lit ''640'']
   @ each_file (\<lambda>i f. script_command [script_lit (sh ''  install_new `$file'' @ i @ sh ''`''), script_val (nf_path f),
       script_val (nf_owner f), script_val (nf_group f), script_lit (nf_mode f)]) layout
   @ sh_lines [''  say `Next: sh $0 check`'', ''}''] @ script_blank"

definition writeCheckPhase :: string where
  "writeCheckPhase = sh_lines [''phase_check() {'', ''  require_root'', ''  run_checks'', ''  say `Next: sh $0 start`'', ''}''] @ script_blank"

definition writeStartPhase :: "NodeSetupOptions \<Rightarrow> nodeLayout \<Rightarrow> string" where
  "writeStartPhase opts layout =
     sh_lines [''phase_start() {'', ''  require_root'', ''  require_recent_check'']
   @ (if nso_Model opts = NodeModelSystemd then
        script_raw (''  systemctl enable --now '' @ systemdUnit) @ script_raw (sh ''  say ~enabled and started '' @ systemdUnit @ sh ''~'')
      else if nso_Model opts = NodeModelStaticPod then
        (let source = sh ''`$here`/'' @ shellQuote (nso_ManifestFile opts) in
           script_command [script_assign ''  manifest'' (path_Join [staticPodManifestDir, nso_ManifestFile opts])]
         @ sh_lines [''  if [ -e `$manifest` ]; then'']
         @ script_raw (''    cmp -s '' @ source @ sh '' `$manifest` || fail 3 `$manifest differs from this generation`'')
         @ sh_lines [''  else'']
         @ script_raw (''    install -o root -g root -m 644 -- '' @ source @ sh '' `$manifest`'')
         @ sh_lines [''    say `installed $manifest`'', ''  fi''])
      else [])
   @ sh_lines [''  wait_ready'', ''  say ~After the local kube-apiserver uses the socket, check its access with:~'']
   @ script_raw (sh ''  say ~  '' @ nl_probeHint layout @ sh ''~'')
   @ sh_lines [''  say ~Next, once every control-plane node is ready:~'', ''  say ~  stage encryption-config-readers.yaml (Enable encryption, Step 1)~'', ''}'']
   @ script_blank"

definition writeDispatch :: string where
  "writeDispatch = sh_lines [''phase=${1:-}'', ''[ `$#` -eq 0 ] || shift'', ''case $phase in'', ''  ~~) usage ;;'', ''  install) phase_install `$@` ;;'',
     ''  prepare | check | start)'', ''    [ `$#` -eq 0 ] || fail 2 `$phase takes no arguments`'', ''    `phase_$phase` ;;'',
     ''  *) usage >&2; exit 2 ;;'', ''esac'']"

definition RenderNodeSetup :: "(go_error \<Rightarrow> string) \<Rightarrow> string \<Rightarrow> Config \<Rightarrow> NodeSetupOptions \<Rightarrow> string res" where
  "RenderNodeSetup text_of nodeSetupHelpers cfg opts =
    bindE (buildNodeLayout text_of cfg opts) (\<lambda>layout. Inr (
       script_raw ''#!/bin/sh''
     @ script_comment ''Generated by bao-kms-provider init. Review before running as root on the control-plane node.''
     @ script_comment ''Run one phase at a time: prepare, install, check, start. Only start activates the provider.''
     @ sh_lines [''set -eu'', ''here=$(CDPATH= cd -- `$(dirname -- `$0`)` && pwd)'']
     @ script_command [script_assign ''model'' (nso_Model opts)]
     @ script_command [script_assign ''fingerprint'' (nso_Fingerprint opts)]
     @ script_command [script_assign ''config_target'' ProviderConfigPath]
     @ script_command [script_assign ''marker'' nodeSetupMarkerPath]
     @ script_command [script_assign ''binary'' hostBinaryPath]
     @ script_command [script_assign ''ready_url'' (nl_readyURL layout)]
     @ script_command [script_assign ''install_usage'' (installUsage layout)]
     @ script_raw (''ready_attempts='' @ Itoa nodeSetupReadyAttempts)
     @ script_raw (''check_max_age='' @ Itoa nodeSetupCheckMaxAge)
     @ script_raw (''as_runtime() { '' @ nl_runAs layout @ sh '' `$@`; }'')
     @ script_blank
     @ nodeSetupHelpers
     @ writePreparePhase cfg opts layout
     @ writeInstallPhase opts layout
     @ writeCheckPhase
     @ writeStartPhase opts layout
     @ writeDispatch))"

section \<open>The layout and the pod\<close>

lemma unique_dirs_subset: "set (unique_dirs seen dirs) \<subseteq> set dirs"
  by (induction seen dirs rule: unique_dirs.induct) auto

lemma unique_dirs_paths: "nd_path ` set (unique_dirs seen dirs) = nd_path ` set dirs - set seen"
  by (induction seen dirs rule: unique_dirs.induct) auto

lemma unique_dirs_distinct: "distinct (map nd_path (unique_dirs seen dirs))"
proof (induction seen dirs rule: unique_dirs.induct)
  case (2 seen dir dirs)
  have "nd_path dir \<notin> nd_path ` set (unique_dirs (nd_path dir # seen) dirs)" by (simp add: unique_dirs_paths)
  with 2 show ?case by simp
qed simp

lemma uniqueNodeDirs_props:
  "set (uniqueNodeDirs dirs) \<subseteq> set dirs" "nd_path ` set (uniqueNodeDirs dirs) = nd_path ` set dirs" "distinct (map nd_path (uniqueNodeDirs dirs))"
  by (simp_all add: uniqueNodeDirs_def unique_dirs_subset unique_dirs_paths unique_dirs_distinct)

text \<open>The directories and files of a static pod before duplicates are removed.\<close>

lemma buildNodeLayout_pod:
  assumes "buildNodeLayout text_of cfg opts = Inr layout" "nso_Model opts = NodeModelStaticPod"
  obtains base where
    "nl_dirs base = [\<lparr>nd_path = filepath_Dir ProviderConfigPath, nd_owner = ''root'', nd_group = Itoa ContainerUID, nd_mode = ''750'', nd_strict = False\<rparr>,
        \<lparr>nd_path = state_dir cfg, nd_owner = Itoa ContainerUID, nd_group = Itoa ContainerUID, nd_mode = ''750'', nd_strict = True\<rparr>]"
    "nl_runAs base = ''setpriv --reuid='' @ Itoa ContainerUID @ '' --regid='' @ Itoa ContainerUID @ '' --groups='' @ Itoa (nso_SocketGID opts) @ '' --''"
    "nl_dirs layout = uniqueNodeDirs (nl_dirs (addCredentialLayout cfg base))" "nl_files layout = nl_files (addCredentialLayout cfg base)"
    "nl_runAs layout = nl_runAs base" "nl_tools layout = common_tools @ [''systemd-tmpfiles'', ''crictl'', ''cmp'', ''cat'', ''chmod'']"
    "imageDigestPattern (nso_Image opts)" "0 < nso_SocketGID opts"
proof -
  from assms(1) obtain base url where base: "modelLayout cfg opts = Inr base"
    and layout: "layout = (let l = addCredentialLayout cfg (base\<lparr>nl_readyURL := url\<rparr>) in l\<lparr>nl_dirs := uniqueNodeDirs (nl_dirs l)\<rparr>)"
    by (auto simp: buildNodeLayout_def failIf_def Let_def split: if_splits)
  show ?thesis
  proof (rule that)
    show "nl_dirs layout = uniqueNodeDirs (nl_dirs (addCredentialLayout cfg base))" "nl_files layout = nl_files (addCredentialLayout cfg base)"
      "nl_runAs layout = nl_runAs base"
      unfolding layout by (simp_all add: addCredentialLayout_def Let_def)
    show "nl_tools layout = common_tools @ [''systemd-tmpfiles'', ''crictl'', ''cmp'', ''cat'', ''chmod'']"
      using base assms(2) unfolding layout
      by (auto simp: modelLayout_def addCredentialLayout_def NodeModelSystemd_def NodeModelStaticPod_def failIf_def Let_def split: if_splits)
  qed (use base assms(2) in \<open>auto simp: modelLayout_def NodeModelSystemd_def NodeModelStaticPod_def failIf_def
      ValidateImageDigest_def Let_def split: if_splits\<close>)
qed

lemma pod_identity:
  assumes "buildStaticPod cfg opts = Inr m"
  shows "ps_SecurityContext (po_Spec m) = \<lparr>psc_RunAsNonRoot = True, psc_RunAsUser = ContainerUID, psc_RunAsGroup = ContainerUID,
    psc_SupplementalGroups = [spo_SocketGID opts], psc_SeccompProfile = ''RuntimeDefault''\<rparr>"
proof -
  have add: "ps_SecurityContext (po_Spec m') = ps_SecurityContext (po_Spec m)" if "addReadOnlyHostPath name source kind m = Inr m'" for name source kind m m'
    using that by (auto simp: addReadOnlyHostPath_def add_mount_def add_volume_def Let_def split: option.splits if_splits)
  have "ps_SecurityContext (po_Spec m') = ps_SecurityContext (po_Spec m)" if "configureOAuth2Volumes oauth m = Inr m'" for oauth m m'
    using that by (auto simp: configureOAuth2Volumes_def dest!: add split: if_splits)
  moreover have "ps_SecurityContext (po_Spec (base_manifest opts mp hp host tls run st)) = \<lparr>psc_RunAsNonRoot = True, psc_RunAsUser = ContainerUID,
      psc_RunAsGroup = ContainerUID, psc_SupplementalGroups = [spo_SocketGID opts], psc_SeccompProfile = ''RuntimeDefault''\<rparr>" for mp hp host tls run st
    by (simp add: base_manifest_def)
  ultimately show ?thesis using assms by (auto simp: buildStaticPod_def failIf_def Let_def dest!: add split: if_splits)
qed

lemma dirs_outside:
  assumes "buildStaticPod cfg popts = Inr m" "d \<in> {filepath_Dir (bo_CACertFile (cf_OpenBao cfg)), filepath_Dir (credential_path cfg)}
    \<or> jc_Source (au_JWT (cf_Auth cfg)) = JWTSourceOAuth2 \<and> o2_CACertFile (jc_OAuth2 (au_JWT (cf_Auth cfg))) \<noteq> []
      \<and> d = filepath_Dir (o2_CACertFile (jc_OAuth2 (au_JWT (cf_Auth cfg))))" "w \<in> {socket_dir cfg, state_dir cfg}"
  shows "IsAbs d \<and> \<not> pathContains d w \<and> \<not> pathContains w d"
  using buildStaticPod_Inr(3,4) [OF assms(1)] assms(2,3)
  by (auto simp: validateStaticPodDirectories_def validateJWTCredentialDirectory_def credential_path_def failIf_def Let_def split: if_splits)

lemma writable_rooted:
  assumes "buildStaticPod cfg popts = Inr m" "w \<in> {socket_dir cfg, state_dir cfg}"
  shows "IsAbs w" "pathContains w w" "w \<noteq> filepath_Dir ProviderConfigPath"
proof -
  show abs: "IsAbs w" using buildStaticPod_Inr(3) [OF assms(1)] assms(2) 
    by (auto simp: validateStaticPodDirectories_def failIf_def Let_def split: if_splits)
  then show "pathContains w w" by (simp add: pathContains_iff)
  have dir: "filepath_Dir ProviderConfigPath = ''/etc/openbao-kms''"
    by (simp add: ProviderConfigPath_def filepath_Dir_def path_Clean_def clean_step_def HasPrefix_def)
  have names: "clean_names ''/etc/openbao-kms'' = [''etc'', ''openbao-kms'']" "clean_names ProviderConfigPath = [''etc'', ''openbao-kms'', ''config.yaml'']" "IsAbs ProviderConfigPath"
    "IsAbs ''/etc/openbao-kms''"
    by (simp_all add: clean_names_def clean_step_def ProviderConfigPath_def IsAbs_def HasPrefix_def)
  have "pathContains ''/etc/openbao-kms'' ProviderConfigPath" by (simp add: pathContains_iff names)
  moreover have "\<not> pathContains w ProviderConfigPath" using buildStaticPod_Inr(3) [OF assms(1)] assms(2) 
    by (auto simp: validateStaticPodDirectories_def failIf_def Let_def split: if_splits)
  ultimately show "w \<noteq> filepath_Dir ProviderConfigPath" using dir by auto
qed

text \<open>
  The directories that the script prepares: the socket and the state directory belong to the provider, the socket directory also to the group of the
  pod, the others to root.
\<close>

definition dirs_fit :: "Config \<Rightarrow> podSecurityContext \<Rightarrow> nodeDir list \<Rightarrow> bool" where
  "dirs_fit cfg psc dirs \<longleftrightarrow>
     distinct (map nd_path dirs) \<and> {filepath_Dir ProviderConfigPath, socket_dir cfg, state_dir cfg} \<subseteq> nd_path ` set dirs
   \<and> (\<forall>d\<in>set dirs.
        if nd_path d = socket_dir cfg
        then nd_owner d = Itoa (psc_RunAsUser psc) \<and> [nd_group d] = map Itoa (psc_SupplementalGroups psc) \<and> nd_mode d = ''2750'' \<and> nd_strict d
        else if nd_path d = state_dir cfg
        then nd_owner d = Itoa (psc_RunAsUser psc) \<and> nd_group d = Itoa (psc_RunAsGroup psc) \<and> nd_mode d = ''750'' \<and> nd_strict d
        else nd_owner d = ''root'' \<and> nd_mode d \<in> {''750'', ''755''})"

definition files_fit :: "Config \<Rightarrow> nodeDir list \<Rightarrow> nodeFile list \<Rightarrow> bool" where
  "files_fit cfg dirs files \<longleftrightarrow>
     (\<forall>f\<in>set files. nf_owner f = ''root'' \<and> nf_mode f \<in> {''640'', ''644''} \<and> filepath_Dir (nf_path f) \<in> nd_path ` set dirs
        \<and> \<not> pathContains (socket_dir cfg) (nf_path f) \<and> \<not> pathContains (state_dir cfg) (nf_path f))"

definition runs_as :: "podSecurityContext \<Rightarrow> string" where
  "runs_as psc = ''setpriv --reuid='' @ Itoa (psc_RunAsUser psc) @ '' --regid='' @ Itoa (psc_RunAsGroup psc)
     @ '' --groups='' @ Join (map Itoa (psc_SupplementalGroups psc)) '','' @ '' --''"

text \<open>The entries that a layout has before duplicates are removed.\<close>

lemma credential_dirs:
  assumes "nl_dirs base = [c, st]" "d \<in> set (nl_dirs (addCredentialLayout cfg base))"
  shows "d = c \<or> d = st \<or> nd_owner d = ''root'' \<and> nd_mode d \<in> {''750'', ''755''} \<and>
    (nd_path d \<in> {filepath_Dir (bo_CACertFile (cf_OpenBao cfg)), filepath_Dir (credential_path cfg)}
    \<or> jc_Source (au_JWT (cf_Auth cfg)) = JWTSourceOAuth2 \<and> o2_CACertFile (jc_OAuth2 (au_JWT (cf_Auth cfg))) \<noteq> []
      \<and> nd_path d = filepath_Dir (o2_CACertFile (jc_OAuth2 (au_JWT (cf_Auth cfg)))))"
  using assms by (auto simp: addCredentialLayout_def Let_def split: if_splits)

lemma credential_files:
  assumes "f \<in> set (nl_files (addCredentialLayout cfg base))"
  shows "nf_owner f = ''root'' \<and> nf_mode f \<in> {''640'', ''644''} \<and> filepath_Dir (nf_path f) \<in> nd_path ` set (nl_dirs (addCredentialLayout cfg base))
    \<and> (filepath_Dir (nf_path f) \<in> {filepath_Dir (bo_CACertFile (cf_OpenBao cfg)), filepath_Dir (credential_path cfg)}
    \<or> jc_Source (au_JWT (cf_Auth cfg)) = JWTSourceOAuth2 \<and> o2_CACertFile (jc_OAuth2 (au_JWT (cf_Auth cfg))) \<noteq> []
      \<and> filepath_Dir (nf_path f) = filepath_Dir (o2_CACertFile (jc_OAuth2 (au_JWT (cf_Auth cfg)))))"
  using assms by (auto simp: addCredentialLayout_def Let_def split: if_splits)

lemma trusted_covered:
  "set (trusted_paths cfg) \<subseteq> insert ProviderConfigPath
     (nd_path ` set (nl_dirs (addCredentialLayout cfg base)) \<union> nf_path ` set (nl_files (addCredentialLayout cfg base)))"
  by (auto simp: trusted_paths_def addCredentialLayout_def credential_path_def Let_def)

lemma layout_dirs_fit:
  assumes "buildStaticPod cfg popts = Inr m"
    and "nl_dirs base = [\<lparr>nd_path = filepath_Dir ProviderConfigPath, nd_owner = ''root'', nd_group = Itoa ContainerUID, nd_mode = ''750'', nd_strict = False\<rparr>,
        \<lparr>nd_path = state_dir cfg, nd_owner = Itoa ContainerUID, nd_group = Itoa ContainerUID, nd_mode = ''750'', nd_strict = True\<rparr>]"
  defines "dirs \<equiv> uniqueNodeDirs (nl_dirs (addCredentialLayout cfg base))"
  shows "distinct (map nd_path dirs)" "{filepath_Dir ProviderConfigPath, state_dir cfg} \<subseteq> nd_path ` set dirs"
    "\<forall>d\<in>set dirs. nd_path d \<noteq> socket_dir cfg \<and>
       (if nd_path d = state_dir cfg then nd_owner d = Itoa ContainerUID \<and> nd_group d = Itoa ContainerUID \<and> nd_mode d = ''750'' \<and> nd_strict d
        else nd_owner d = ''root'' \<and> nd_mode d \<in> {''750'', ''755''})"
proof -
  note unique = uniqueNodeDirs_props [of "nl_dirs (addCredentialLayout cfg base)", folded dirs_def]
  show "distinct (map nd_path dirs)" by (rule unique(3))
  show "{filepath_Dir ProviderConfigPath, state_dir cfg} \<subseteq> nd_path ` set dirs" by (auto simp: unique(2) addCredentialLayout_def assms(2) Let_def)
  have apart: "state_dir cfg \<noteq> socket_dir cfg"
    using buildStaticPod_Inr(3) [OF assms(1)] writable_rooted(2) [OF assms(1), of "state_dir cfg"]
    by (auto simp: validateStaticPodDirectories_def failIf_def Let_def split: if_splits)
  show "\<forall>d\<in>set dirs. nd_path d \<noteq> socket_dir cfg \<and>
       (if nd_path d = state_dir cfg then nd_owner d = Itoa ContainerUID \<and> nd_group d = Itoa ContainerUID \<and> nd_mode d = ''750'' \<and> nd_strict d
        else nd_owner d = ''root'' \<and> nd_mode d \<in> {''750'', ''755''})"
  proof
    fix d assume "d \<in> set dirs"
    then have "d \<in> set (nl_dirs (addCredentialLayout cfg base))" using unique(1) by blast
    from credential_dirs [OF assms(2) this]
    show "nd_path d \<noteq> socket_dir cfg \<and>
       (if nd_path d = state_dir cfg then nd_owner d = Itoa ContainerUID \<and> nd_group d = Itoa ContainerUID \<and> nd_mode d = ''750'' \<and> nd_strict d
        else nd_owner d = ''root'' \<and> nd_mode d \<in> {''750'', ''755''})"
      using dirs_outside [OF assms(1), of "nd_path d" "state_dir cfg"] writable_rooted [OF assms(1), of "state_dir cfg"]
        dirs_outside [OF assms(1), of "nd_path d" "socket_dir cfg"] writable_rooted [OF assms(1), of "socket_dir cfg"] apart by auto
  qed
qed

lemma layout_files_outside:
  assumes "buildStaticPod cfg popts = Inr m" "f \<in> set (nl_files (addCredentialLayout cfg base))"
  shows "\<not> pathContains (socket_dir cfg) (nf_path f) \<and> \<not> pathContains (state_dir cfg) (nf_path f)"
proof -
  have "\<not> pathContains w (nf_path f)" if "w \<in> {socket_dir cfg, state_dir cfg}" for w
  proof -
    from credential_files [OF assms(2)] have "IsAbs (filepath_Dir (nf_path f)) \<and> \<not> pathContains (filepath_Dir (nf_path f)) w \<and> \<not> pathContains w (filepath_Dir (nf_path f))"
      by (elim conjE) (rule dirs_outside [OF assms(1) _ that])
    then show ?thesis using file_outside [OF writable_rooted(1) [OF assms(1) that]] by blast
  qed
  then show ?thesis by blast
qed

section \<open>The prepare phase as a shell reads it\<close>

fun shell_text :: "shell_char \<Rightarrow> char" where
  "shell_text (Quoted c) = c" | "shell_text (Active c) = c"

abbreviation word_text :: "shell_char list \<Rightarrow> string" where "word_text \<equiv> map shell_text"

definition command_name :: "shell_char list list \<Rightarrow> string" where "command_name ws = word_text (hd ws)"

text \<open>The directory of a call of \<open>ensure_dir\<close>: path, owner, group, mode, and whether an existing one must agree.\<close>

definition called_dir :: "shell_char list list \<Rightarrow> nodeDir option" where
  "called_dir ws =
    (case map word_text ws of
       cmd # p # owner # grp # mode # rest \<Rightarrow>
         if cmd = ''ensure_dir'' then Some \<lparr>nd_path = p, nd_owner = owner, nd_group = grp, nd_mode = mode, nd_strict = (rest = [''strict''])\<rparr> else None
     | _ \<Rightarrow> None)"

definition prepared_dirs :: "shell_char list list list \<Rightarrow> nodeDir list" where
  "prepared_dirs commands = List.map_filter called_dir commands"

text \<open>The commands of the phase by name, with the settings it makes, among them the entry of \<open>tmpfiles.d\<close> for the socket directory.\<close>

definition prepare_names :: "Config \<Rightarrow> int \<Rightarrow> nat \<Rightarrow> string list" where
  "prepare_names cfg gid n =
     [''phase_prepare()'', ''require_root'', ''require_tools'', ''['', ''gid=$(getent'', ''['', ''['', ''fail'', ''['', ''crictl'', ''fail'',
      ''line=d '' @ socket_dir cfg @ '' 2750 '' @ Itoa ContainerUID @ '' '' @ Itoa gid @ '' -'', ''tmpfiles='' @ staticPodTmpfilesPath, ''if'', ''['', ''else'', ''printf'', ''chmod'', ''say'',
      ''fi'', ''systemd-tmpfiles'', ''ensure_dir''] @ replicate n ''ensure_dir'' @ [''say'', ''}'']"

definition runs :: "string \<Rightarrow> string list \<Rightarrow> nodeDir list \<Rightarrow> bool" where
  "runs l names dirs \<longleftrightarrow>
     (\<forall>s. \<exists>cs. shell_commands (l @ s) = map_option (\<lambda>rest. cs @ rest) (shell_commands s) \<and> map command_name cs = names \<and> prepared_dirs cs = dirs)"

lemma prepared_dirs_simps [simp]:
  "prepared_dirs [] = []" "prepared_dirs (ws # cs) = (case called_dir ws of None \<Rightarrow> [] | Some d \<Rightarrow> [d]) @ prepared_dirs cs"
  "prepared_dirs (cs @ cs') = prepared_dirs cs @ prepared_dirs cs'"
  by (simp_all add: prepared_dirs_def map_filter_def split: option.split)

lemma runs_append: "runs a xs ds \<Longrightarrow> runs b ys es \<Longrightarrow> runs (a @ b) (xs @ ys) (ds @ es)"
  unfolding runs_def
proof
  fix s
  assume a: "\<forall>s. \<exists>cs. shell_commands (a @ s) = map_option (\<lambda>rest. cs @ rest) (shell_commands s) \<and> map command_name cs = xs \<and> prepared_dirs cs = ds"
    and b: "\<forall>s. \<exists>cs. shell_commands (b @ s) = map_option (\<lambda>rest. cs @ rest) (shell_commands s) \<and> map command_name cs = ys \<and> prepared_dirs cs = es"
  from a obtain c1 where c1: "shell_commands (a @ b @ s) = map_option (\<lambda>rest. c1 @ rest) (shell_commands (b @ s))" "map command_name c1 = xs" "prepared_dirs c1 = ds" by blast
  from b obtain c2 where "shell_commands (b @ s) = map_option (\<lambda>rest. c2 @ rest) (shell_commands s)" "map command_name c2 = ys" "prepared_dirs c2 = es" by blast
  with c1 show "\<exists>cs. shell_commands ((a @ b) @ s) = map_option (\<lambda>rest. cs @ rest) (shell_commands s) \<and> map command_name cs = xs @ ys \<and> prepared_dirs cs = ds @ es"
    by (intro exI [of _ "c1 @ c2"]) (simp add: option.map_comp comp_def)
qed

lemma runs_Nil: "runs [] [] []"
  unfolding runs_def
proof
  fix s
  show "\<exists>cs. shell_commands ([] @ s) = map_option (\<lambda>rest. cs @ rest) (shell_commands s) \<and> map command_name cs = [] \<and> prepared_dirs cs = []"
    by (intro exI [of _ "[]"]) (cases "shell_commands s", simp_all)
qed

lemma runs_line:
  assumes "\<And>s. \<exists>w ws. shell_read Bare None [] (l @ s) = Some (w # ws, s) \<and> word_text w = n \<and> called_dir (w # ws) = d" "l \<noteq> []"
  shows "runs l [n] (case d of None \<Rightarrow> [] | Some x \<Rightarrow> [x])"
  unfolding runs_def
proof
  fix s
  from assms(1) [of s] obtain w ws where "shell_read Bare None [] (l @ s) = Some (w # ws, s)" "word_text w = n" "called_dir (w # ws) = d" by blast
  with commands_line [OF this(1) assms(2)]
  show "\<exists>cs. shell_commands (l @ s) = map_option (\<lambda>rest. cs @ rest) (shell_commands s) \<and> map command_name cs = [n] \<and> prepared_dirs cs = (case d of None \<Rightarrow> [] | Some x \<Rightarrow> [x])"
    by (intro exI [of _ "[w # ws]"]) (simp add: command_name_def)
qed

lemma runs_blank: "runs script_blank [] []"
  using emits_blank unfolding emits_def runs_def by (intro allI exI [of _ "[]"]) simp

lemma runs_commands: "runs l names dirs \<Longrightarrow> \<exists>cs. shell_commands l = Some cs \<and> map command_name cs = names \<and> prepared_dirs cs = dirs"
  unfolding runs_def by (drule spec [of _ "[]"]) auto

text \<open>Values inside the lines.\<close>

lemma read_value: "shell_read Bare cur ws (shellQuote v @ s) = shell_read Bare (Some (opened cur @ datum v)) ws s"
  using reads_shellQuote [of v] by (simp add: reads_as_def)

lemma read_double: "\<forall>c\<in>set t. c \<noteq> CHR 0x22 \<and> c \<noteq> CHR 0x5C \<Longrightarrow> shell_read Double (Some w) ws (t @ s) = shell_read Double (Some (w @ fixed t)) ws s"
  by (induction t arbitrary: w) simp_all

lemma digit_safe: "is_digit c \<Longrightarrow> c \<notin> {CHR 0x0A, CHR 0x20, CHR 0x27, CHR 0x22, CHR 0x5C, CHR 0x23}"
  by (auto simp: is_digit_def)

lemma read_number:
  assumes "0 \<le> v"
  shows "shell_read Bare cur ws (Itoa v @ s) = shell_read Bare (Some (opened cur @ fixed (Itoa v))) ws s"
    "shell_read Double (Some w) ws (Itoa v @ s) = shell_read Double (Some (w @ fixed (Itoa v))) ws s"
proof -
  have d: "is_digit c" if "c \<in> set (Itoa v)" for c using Itoa_pos_digits [OF assms] that by (simp add: list_all_iff)
  then have "plain_text (Itoa v)" using digit_safe by (auto simp: plain_text_def list_all_iff)
  from reads_plain [OF this] show "shell_read Bare cur ws (Itoa v @ s) = shell_read Bare (Some (opened cur @ fixed (Itoa v))) ws s" by (simp add: reads_as_def)
  show "shell_read Double (Some w) ws (Itoa v @ s) = shell_read Double (Some (w @ fixed (Itoa v))) ws s"
    by (rule read_double) (use d digit_safe in auto)
qed

lemma separated_names_chars: "separated_names s \<Longrightarrow> \<forall>c\<in>set s. is_lower_alnum c \<or> c \<in> set ''._/-''"
  by (induction s rule: separated_names.induct) (auto split: if_splits)

lemma repository_name_chars:
  assumes "repository_name s"
  shows "\<forall>c\<in>set s. is_lower_alnum c \<or> c \<in> set ''._/-:''"
proof -
  have digit: "is_lower_alnum c" if "is_digit c" for c using that by (auto simp: is_digit_def is_lower_alnum_def Let_def)
  have join: "s = Join (split_on (CHR '':'') s) '':''" by (simp add: Join_split_on)
  consider a where "split_on (CHR '':'') s = [a]" "separated_names a"
    | a b where "split_on (CHR '':'') s = [a, b]" "separated_names a" "dropWhile is_digit b = [] \<or> hd (dropWhile is_digit b) = CHR ''/'' \<and> separated_names (tl (dropWhile is_digit b))"
    using assms by (auto simp: repository_name_def Let_def split: list.splits)
  then show ?thesis
  proof cases
    case 1
    with join have "s = a" by simp
    with separated_names_chars [OF 1(2)] show ?thesis by auto
  next
    case (2 a b)
    with join have s: "s = a @ '':'' @ b" by simp
    have b: "set b = set (takeWhile is_digit b) \<union> set (dropWhile is_digit b)" by (metis set_append takeWhile_dropWhile_id)
    have "is_lower_alnum c \<or> c \<in> set ''._/-:''" if "c \<in> set (dropWhile is_digit b)" for c
      using 2(3) that separated_names_chars [of "tl (dropWhile is_digit b)"] by (cases "dropWhile is_digit b") auto
    moreover have "is_lower_alnum c" if "c \<in> set (takeWhile is_digit b)" for c using that digit by (auto dest: set_takeWhileD)
    ultimately have "\<forall>c\<in>set b. is_lower_alnum c \<or> c \<in> set ''._/-:''" unfolding b by blast
    with separated_names_chars [OF 2(2)] show ?thesis unfolding s by auto
  qed
qed

lemma image_safe:
  assumes "imageDigestPattern s"
  shows "\<forall>c\<in>set s. c \<noteq> CHR 0x22 \<and> c \<noteq> CHR 0x5C"
proof -
  let ?n = "length s"
  have "s = take (?n - 72) s @ drop (?n - 72) s" by simp
  also have "drop (?n - 72) s = take 8 (drop (?n - 72) s) @ drop 8 (drop (?n - 72) s)" by (rule append_take_drop_id [symmetric])
  also have "drop 8 (drop (?n - 72) s) = drop (?n - 64) s" using assms by (simp add: imageDigestPattern_def Let_def add.commute)
  finally have s: "s = take (?n - 72) s @ ''@sha256:'' @ drop (?n - 64) s" using assms by (simp add: imageDigestPattern_def Let_def)
  have "\<forall>c\<in>set (take (?n - 72) s). is_lower_alnum c \<or> c \<in> set ''._/-:''" "\<forall>c\<in>set (drop (?n - 64) s). is_lower_hex c"
    using assms repository_name_chars by (auto simp: imageDigestPattern_def Let_def list_all_iff)
  then show ?thesis by (subst s) (auto simp: is_lower_alnum_def is_lower_hex_def Let_def)
qed

lemmas read_simps = script_raw_def script_command_def script_lit_def script_val_def sh_def called_dir_def read_value

lemma runs_none:
  "(\<And>s. \<exists>w ws. shell_read Bare None [] (l @ s) = Some (w # ws, s) \<and> word_text w = n \<and> called_dir (w # ws) = None) \<Longrightarrow> l \<noteq> [] \<Longrightarrow> runs l [n] []"
  using runs_line [of l n None] by simp

lemma runs_fixed:
  "runs (script_raw (sh ''phase_prepare() {'')) [''phase_prepare()''] []"
  "runs (script_raw (sh ''  require_root'')) [''require_root''] []"
  "runs (script_raw (sh ''  [ -x `$binary` ] || fail 3 `$binary is missing; install the release artifact first`'')) [''[''] []"
  "runs (script_raw (''  gid=$(getent group '' @ socketGroupName @ '' | cut -d: -f3)'')) [''gid=$(getent''] []"
  "runs (script_raw (sh ''  [ -n `$gid` ] || fail 3 ~group '' @ socketGroupName @ '' is missing; run groupadd --system '' @ socketGroupName @ sh ''~'')) [''[''] []"
  "runs (script_raw (''  [ -d '' @ staticPodManifestDir @ sh '' ] || fail 3 ~'' @ staticPodManifestDir @ sh '' is missing; this model needs the kubelet static pod path~'')) [''[''] []"
  "runs (script_raw (''  tmpfiles='' @ staticPodTmpfilesPath)) [''tmpfiles='' @ staticPodTmpfilesPath] []"
  "runs (script_raw (sh ''  if [ -e `$tmpfiles` ]; then'')) [''if''] []"
  "runs (script_raw (sh ''    [ `$(cat `$tmpfiles`)` = `$line` ] || fail 3 `$tmpfiles differs from this generation`'')) [''[''] []"
  "runs (script_raw (sh ''  else'')) [''else''] []"
  "runs (script_raw (sh (''    printf ~%s'' @ [CHR 0x5C] @ ''n~ `$line` > `$tmpfiles`''))) [''printf''] []"
  "runs (script_raw (sh ''    chmod 644 `$tmpfiles`'')) [''chmod''] []"
  "runs (script_raw (sh ''    say `created $tmpfiles`'')) [''say''] []"
  "runs (script_raw (sh ''  fi'')) [''fi''] []"
  "runs (script_raw (sh ''  systemd-tmpfiles --create `$tmpfiles`'')) [''systemd-tmpfiles''] []"
  "runs (script_raw (sh ''  say `Next: sh $0 install $install_usage`'')) [''say''] []"
  "runs (script_raw (sh ''}'')) [''}''] []"
  by (rule runs_none; simp add: read_simps socketGroupName_def staticPodManifestDir_def staticPodTmpfilesPath_def)+

lemma runs_tools:
  "runs (script_raw (''  require_tools '' @ Join (common_tools @ [''systemd-tmpfiles'', ''crictl'', ''cmp'', ''cat'', ''chmod'']) '' '')) [''require_tools''] []"
  by (rule runs_none) (simp_all add: read_simps common_tools_def)

lemma runs_values:
  assumes "imageDigestPattern img" "0 < gid"
  shows "runs (script_raw (sh ''  [ `$gid` = '' @ shellQuote (Itoa gid) @ '' ] ||'')) [''[''] []"
    "runs (script_raw (sh ''    fail 3 `this node~s '' @ socketGroupName @ '' GID is $gid, but these files are for '' @ Itoa gid
       @ sh ''; generate this node~s files with: '' @ (''bao-kms-provider init --values generated/config.yaml --out <dir> --model static-pod''
       @ '' --image '' @ img @ '' --socket-gid $gid'') @ sh ''`'')) [''fail''] []"
    "runs (script_command [script_lit ''  crictl inspecti'', script_val img, script_lit ''>/dev/null 2>&1 ||'']) [''crictl''] []"
    "runs (script_command [script_lit ''    fail 3'', script_val preload]) [''fail''] []"
    "runs (script_command [script_lit (''  line='' @ shellQuote v)]) [''line='' @ v] []"
    "runs (script_command [script_lit ''  ensure_dir'', script_val dir, script_lit (Itoa ContainerUID), script_lit (Itoa gid), script_lit ''2750 strict''])
       [''ensure_dir''] [\<lparr>nd_path = dir, nd_owner = Itoa ContainerUID, nd_group = Itoa gid, nd_mode = ''2750'', nd_strict = True\<rparr>]"
proof -
  have img: "shell_read Double (Some w) ws (img @ s) = shell_read Double (Some (w @ fixed img)) ws s" for w ws s
    by (rule read_double [OF image_safe [OF assms(1)]])
  have uidpos: "0 \<le> ContainerUID" by (simp add: ContainerUID_def)
  note num = read_number [OF less_imp_le [OF assms(2)]] and uid = read_number [OF uidpos]
  show "runs (script_raw (sh ''  [ `$gid` = '' @ shellQuote (Itoa gid) @ '' ] ||'')) [''[''] []"
    "runs (script_raw (sh ''    fail 3 `this node~s '' @ socketGroupName @ '' GID is $gid, but these files are for '' @ Itoa gid
       @ sh ''; generate this node~s files with: '' @ (''bao-kms-provider init --values generated/config.yaml --out <dir> --model static-pod''
       @ '' --image '' @ img @ '' --socket-gid $gid'') @ sh ''`'')) [''fail''] []"
    "runs (script_command [script_lit ''  crictl inspecti'', script_val img, script_lit ''>/dev/null 2>&1 ||'']) [''crictl''] []"
    "runs (script_command [script_lit ''    fail 3'', script_val preload]) [''fail''] []"
    by (rule runs_none; simp add: read_simps socketGroupName_def num img)+
  show "runs (script_command [script_lit (''  line='' @ shellQuote v)]) [''line='' @ v] []"
    by (rule runs_none) (simp_all add: read_simps comp_def)
  show "runs (script_command [script_lit ''  ensure_dir'', script_val dir, script_lit (Itoa ContainerUID), script_lit (Itoa gid), script_lit ''2750 strict''])
       [''ensure_dir''] [\<lparr>nd_path = dir, nd_owner = Itoa ContainerUID, nd_group = Itoa gid, nd_mode = ''2750'', nd_strict = True\<rparr>]"
    by (rule runs_line [where d = "Some \<lparr>nd_path = dir, nd_owner = Itoa ContainerUID, nd_group = Itoa gid, nd_mode = ''2750'', nd_strict = True\<rparr>", simplified])
      (simp_all add: read_simps num uid comp_def)
qed

lemma runs_ensure_dir:
  assumes "plain_text (nd_mode d)" "nd_mode d \<noteq> []"
  shows "runs (ensure_dir_line d) [''ensure_dir''] [d]"
proof -
  have mode: "shell_read Bare cur ws (nd_mode d @ s) = shell_read Bare (Some (opened cur @ fixed (nd_mode d))) ws s" for cur ws s
    using reads_plain [OF assms] by (simp add: reads_as_def)
  show ?thesis
    by (rule runs_line [where d = "Some d", simplified]; cases "nd_strict d"; simp add: ensure_dir_line_def read_simps mode comp_def)
qed

lemma runs_ensure_dirs:
  "\<forall>d\<in>set ds. plain_text (nd_mode d) \<and> nd_mode d \<noteq> [] \<Longrightarrow> runs (concat (map ensure_dir_line ds)) (replicate (length ds) ''ensure_dir'') ds"
proof (induction ds)
  case (Cons d ds)
  then show ?case using runs_append [OF runs_ensure_dir [of d], of "concat (map ensure_dir_line ds)"] by simp
qed (simp add: runs_Nil)

lemmas runs_intros = runs_append runs_fixed runs_tools runs_values runs_ensure_dirs runs_blank runs_Nil

lemma runs_eq: "runs l xs ds \<Longrightarrow> xs = ys \<Longrightarrow> ds = es \<Longrightarrow> runs l ys es"
  by simp

text \<open>The entry of the socket directory, and all directories of the phase.\<close>

definition socket_node_dir :: "Config \<Rightarrow> int \<Rightarrow> nodeDir" where
  "socket_node_dir cfg gid = \<lparr>nd_path = socket_dir cfg, nd_owner = Itoa ContainerUID, nd_group = Itoa gid, nd_mode = ''2750'', nd_strict = True\<rparr>"

lemma prepare_phase_runs:
  assumes "nso_Model opts = NodeModelStaticPod" "imageDigestPattern (nso_Image opts)" "0 < nso_SocketGID opts"
    and "nl_tools layout = common_tools @ [''systemd-tmpfiles'', ''crictl'', ''cmp'', ''cat'', ''chmod'']"
    and "\<forall>d\<in>set (nl_dirs layout). plain_text (nd_mode d) \<and> nd_mode d \<noteq> []"
  shows "runs (writePreparePhase cfg opts layout) (prepare_names cfg (nso_SocketGID opts) (length (nl_dirs layout)))
    (socket_node_dir cfg (nso_SocketGID opts) # nl_dirs layout)"
proof -
  have model: "nso_Model opts \<noteq> NodeModelSystemd" using assms(1) by (simp add: NodeModelSystemd_def NodeModelStaticPod_def)
  show ?thesis
    unfolding writePreparePhase_def writeStaticPodPrepare_def sh_lines_def Let_def assms(4)
    using model assms(1)
    by (simp only: if_False if_True HOL.refl list.map concat.simps append_Nil2)
      (rule runs_eq, (rule runs_intros assms)+, simp_all add: prepare_names_def socket_node_dir_def)
qed

lemma infix_here: "\<exists>pre post. p @ rest = pre @ p @ post"
  by (metis append_Nil)

lemma infix_skip: "\<exists>pre post. s = pre @ p @ post \<Longrightarrow> \<exists>pre post. a @ s = pre @ p @ post"
  by (metis append.assoc)

lemma rendered_phase:
  assumes "RenderNodeSetup text_of helpers cfg opts = Inr script"
  obtains layout pre post where "buildNodeLayout text_of cfg opts = Inr layout" "script = pre @ writePreparePhase cfg opts layout @ post"
proof -
  from assms obtain layout where layout: "buildNodeLayout text_of cfg opts = Inr layout"
      "RenderNodeSetup text_of helpers cfg opts = Inr script"
    by (auto simp: RenderNodeSetup_def)
  have "\<exists>pre post. script = pre @ writePreparePhase cfg opts layout @ post"
    using layout(2) unfolding RenderNodeSetup_def layout(1) bindE_Inr sum.inject
    by (elim subst) (rule infix_here | rule infix_skip)+
  with that layout(1) show ?thesis by blast
qed


definition ex_node_options :: NodeSetupOptions where
  "ex_node_options = \<lparr>nso_Model = NodeModelStaticPod, nso_Fingerprint = ''f'', nso_ConfigFile = ''config.yaml'', nso_ManifestFile = ''m'',
     nso_Image = spo_Image ex_pod_options, nso_SocketGID = spo_SocketGID ex_pod_options\<rparr>"


end
