(* ===== verification/Init_Command.thy ===== *)
theory Init_Command
  imports Provider_File Node_Setup Transit_Policy
begin

text \<open>
  The command \<open>init\<close> (\<^verbatim>\<open>cmd/bao-kms-provider/init.go\<close>, \<^verbatim>\<open>init_record.go\<close>): it reads a values file, renders every installation file and
  writes them to a new directory. The decoders and encoders of YAML and JSON, the random generator and the embedded shell functions are
  inputs. The disk is modelled with the failures of its system calls.
\<close>

section \<open>Options\<close>

definition initModelSystemd :: string where "initModelSystemd = ''systemd''"
definition initModelStaticPod :: string where "initModelStaticPod = ''static-pod''"
definition initDefaultCACertFile :: string where "initDefaultCACertFile = ''/etc/openbao-kms/tls/ca.crt''"
definition initDefaultJWTFile :: string where "initDefaultJWTFile = ''/var/lib/openbao-kms/identity.jwt''"
definition initStaticPodJWTFile :: string where "initStaticPodJWTFile = ''/var/lib/openbao-kms/credentials/identity.jwt''"
definition initDefaultSocketGroup :: string where "initDefaultSocketGroup = ''openbao-kms-socket''"
definition initFileConfig :: string where "initFileConfig = ''config.yaml''"
definition initFileEncryptionConfig :: string where "initFileEncryptionConfig = ''encryption-config.yaml''"
definition initFileEncryptionReaders :: string where "initFileEncryptionReaders = ''encryption-config-readers.yaml''"
definition initFileInstallation :: string where "initFileInstallation = ''installation.json''"
definition initFileSetupScript :: string where "initFileSetupScript = ''openbao-setup.sh''"
definition initFileStaticPod :: string where "initFileStaticPod = ''bao-kms-provider.yaml''"
definition initFileNodeSetup :: string where "initFileNodeSetup = ''node-setup.sh''"

record initOptions =
  io_valuesPath :: string
  io_outDir :: string
  io_model :: string
  io_newKey :: bool
  io_policyName :: string
  io_image :: string
  io_socketGID :: int

record initFile =
  if_name :: string
  if_mode :: nat
  if_content :: string
  if_purpose :: string

record version_Info =
  vi_Version :: string
  vi_Commit :: string
  vi_BuildDate :: string
  vi_Dirty :: string

record installationFile =
  inf_Name :: string
  inf_Mode :: string
  inf_Purpose :: string

record installationRecord =
  ir_Generator :: version_Info
  ir_Model :: string
  ir_Image :: string
  ir_IdentityFingerprint :: string
  ir_KeyLineageID :: string
  ir_RuntimeUser :: string
  ir_SocketGroup :: string
  ir_SocketPath :: string
  ir_StatePath :: string
  ir_Files :: "installationFile list"
  ir_RemainingActions :: "string list"

text \<open>
  What the command meets: the loader of a values file (in the configuration environment) and of a document, the random bytes, the libraries
  that encode and decode, the embedded functions and the build metadata.
\<close>

record init_env =
  ie_config :: config_env
  ie_load_content :: "string \<Rightarrow> Config res"
  ie_random :: "string res"
  ie_quote :: "string \<Rightarrow> string"
  ie_duration_string :: "int \<Rightarrow> string"
  ie_encode_config :: "providerConfigFile \<Rightarrow> string res"
  ie_encode_encryption :: "EncryptionConfiguration \<Rightarrow> string res"
  ie_parse_encryption :: "string \<Rightarrow> EncryptionConfiguration res"
  ie_parse_duration :: "string \<Rightarrow> int option"
  ie_encode_pod :: "podManifest \<Rightarrow> string res"
  ie_marshal :: "installationRecord \<Rightarrow> string res"
  ie_helpers :: string
  ie_version :: version_Info

abbreviation error_text :: "init_env \<Rightarrow> go_error \<Rightarrow> string" where "error_text env \<equiv> cv_text (ie_config env)"

definition validateStaticPodFlags :: "init_env \<Rightarrow> initOptions \<Rightarrow> string list" where
  "validateStaticPodFlags env opts =
     (if io_image opts = [] then [''--image is required for --model static-pod'']
      else case ValidateImageDigest (io_image opts) of Inl e \<Rightarrow> [''--image: '' @ error_text env e] | Inr _ \<Rightarrow> [])
   @ (if io_socketGID opts \<le> 0 then [''--socket-gid is required for --model static-pod''] else [])"

definition init_flag_problems :: "init_env \<Rightarrow> initOptions \<Rightarrow> string list" where
  "init_flag_problems env opts =
     (if io_valuesPath opts = [] then [''--values is required''] else [])
   @ (if io_outDir opts = [] then [''--out is required''] else [])
   @ (if io_model opts = initModelSystemd then
        (if io_image opts \<noteq> [] \<or> io_socketGID opts \<noteq> 0 then [''--image and --socket-gid apply only to --model static-pod''] else [])
      else if io_model opts = initModelStaticPod then validateStaticPodFlags env opts
      else [''--model must be '' @ initModelSystemd @ '' or '' @ initModelStaticPod])"

definition validateInitFlags :: "init_env \<Rightarrow> initOptions \<Rightarrow> unit res" where
  "validateInitFlags env opts =
    (let problems = init_flag_problems env opts in failIf (problems \<noteq> []) (Msg (Join problems ''; '')))"

section \<open>Values\<close>

definition applyInitHostLayout :: "initOptions \<Rightarrow> Config \<Rightarrow> Config" where
  "applyInitHostLayout opts cfg =
    (let cfg = (if bo_CACertFile (cf_OpenBao cfg) = [] then cfg\<lparr>cf_OpenBao := (cf_OpenBao cfg)\<lparr>bo_CACertFile := initDefaultCACertFile\<rparr>\<rparr> else cfg);
         au = cf_Auth cfg; jwt = au_JWT au;
         cfg = (if au_Method au = AuthMethodJWT \<and> jc_Source jwt = JWTSourceFile \<and> jc_JWTFile jwt = []
           then cfg\<lparr>cf_Auth := au\<lparr>au_JWT := jwt\<lparr>jc_JWTFile := if io_model opts = initModelStaticPod then initStaticPodJWTFile else initDefaultJWTFile\<rparr>\<rparr>\<rparr>
           else cfg) in
     if io_model opts \<noteq> initModelStaticPod then
       (if sv_SocketGroup (cf_Server cfg) = [] then cfg\<lparr>cf_Server := (cf_Server cfg)\<lparr>sv_SocketGroup := initDefaultSocketGroup\<rparr>\<rparr> else cfg)
     else cfg\<lparr>cf_Server := (cf_Server cfg)\<lparr>sv_SocketGroup := Itoa (io_socketGID opts)\<rparr>\<rparr>)"

text \<open>\<open>hex.EncodeToString\<close>.\<close>

definition hex_EncodeToString :: "string \<Rightarrow> string" where
  "hex_EncodeToString bs = concat (map (\<lambda>c. [hex_char (byte_val c div 16), hex_char (byte_val c mod 16)]) bs)"

definition newLineageID :: "init_env \<Rightarrow> string res" where
  "newLineageID env =
    (case ie_random env of Inl e \<Rightarrow> Inl (Wrap ''generate key lineage ID'' [e]) | Inr buffer \<Rightarrow> Inr (hex_EncodeToString buffer))"

definition set_lineage :: "string \<Rightarrow> Config \<Rightarrow> Config" where
  "set_lineage l cfg = cfg\<lparr>cf_Transit := (cf_Transit cfg)\<lparr>tx_KeyIDScope := (tx_KeyIDScope (cf_Transit cfg))\<lparr>ks_KeyLineageID := l\<rparr>\<rparr>\<rparr>"

definition resolveInitLineage :: "init_env \<Rightarrow> bool \<Rightarrow> Config \<Rightarrow> Config res" where
  "resolveInitLineage env newKey cfg =
    (let lineage = ks_KeyLineageID (tx_KeyIDScope (cf_Transit cfg)) in
     if newKey \<and> lineage \<noteq> [] then Inl (Msg (''--new-key conflicts with transit.keyIdScope.keyLineageId in the values file; ''
       @ ''a key lineage ID is generated only once''))
     else if newKey then bindE (newLineageID env) (\<lambda>generated. Inr (set_lineage generated cfg))
     else if lineage = [] then Inl (Msg (''transit.keyIdScope.keyLineageId is required; pass --new-key only when you are creating the Transit key''))
     else Inr cfg)"

definition config_valid :: "init_env \<Rightarrow> Config \<Rightarrow> bool" where
  "config_valid env cfg \<longleftrightarrow>
    (let cv = ie_config env in Validate (cv_net cv) (cv_spiffe cv) (cv_text cv) (cv_lstat cv) cfg (validation_options [] False) = [])"

definition loadInitValues :: "init_env \<Rightarrow> initOptions \<Rightarrow> Config res" where
  "loadInitValues env opts =
    bindE (cv_load (ie_config env) (io_valuesPath opts)) (\<lambda>cfg.
    bindE (resolveInitLineage env (io_newKey opts) (applyInitHostLayout opts cfg)) (\<lambda>cfg.
    bindE (failIf (\<not> config_valid env cfg) (Msg ''config invalid'')) (\<lambda>_.
    bindE (failIf (io_model opts = initModelStaticPod \<and> au_Method (cf_Auth cfg) \<noteq> AuthMethodJWT)
      (Msg ''--model static-pod supports JWT auth only; mount certificate auth material by hand'')) (\<lambda>_.
    Inr cfg))))"

definition initPolicyName :: "Config \<Rightarrow> initOptions \<Rightarrow> string" where
  "initPolicyName cfg opts =
    (if io_policyName opts \<noteq> [] then io_policyName opts else ''openbao-kms-'' @ ks_ClusterID (tx_KeyIDScope (cf_Transit cfg)))"

section \<open>Rendering\<close>

definition fingerprint_of :: "Config \<Rightarrow> string res" where
  "fingerprint_of cfg = (case IdentityFingerprint_of cfg of Inl _ \<Rightarrow> Inl (Msg ''config invalid'') | Inr fp \<Rightarrow> Inr fp)"

definition wrapE :: "string \<Rightarrow> 'a res \<Rightarrow> 'a res" where
  "wrapE m r = (case r of Inl e \<Rightarrow> Inl (Wrap m [e]) | Inr x \<Rightarrow> Inr x)"

definition checkGeneratedFiles :: "init_env \<Rightarrow> string \<Rightarrow> string \<Rightarrow> unit res" where
  "checkGeneratedFiles env providerConfig encryptionConfig =
    bindE (wrapE ''generated configuration does not load'' (ie_load_content env providerConfig)) (\<lambda>reloaded.
    bindE (failIf (\<not> config_valid env reloaded) (Wrap ''generated configuration is invalid'' [Msg ''config invalid''])) (\<lambda>_.
    bindE (wrapE ''generated EncryptionConfiguration does not parse'' (ie_parse_encryption env encryptionConfig)) (\<lambda>parsed.
    failIf (snd (ValidateEncryptionConfiguration (cv_net (ie_config env)) (ie_parse_duration env) reloaded parsed True) \<noteq> [])
      (Wrap ''generated EncryptionConfiguration does not match the configuration'' [Msg ''encryption configuration invalid'']))))"

definition renderInitNodeSetup :: "init_env \<Rightarrow> Config \<Rightarrow> initOptions \<Rightarrow> string res" where
  "renderInitNodeSetup env cfg opts =
    bindE (fingerprint_of cfg) (\<lambda>fingerprint.
    let pod = io_model opts = initModelStaticPod in
    RenderNodeSetup (error_text env) (ie_helpers env) cfg
      \<lparr>nso_Model = io_model opts, nso_Fingerprint = fingerprint, nso_ConfigFile = initFileConfig,
       nso_ManifestFile = (if pod then initFileStaticPod else []), nso_Image = (if pod then io_image opts else []),
       nso_SocketGID = (if pod then io_socketGID opts else 0)\<rparr>)"

text \<open>\<open>fmt.Sprintf("%04o", mode)\<close> for a permission mode.\<close>

definition octal4 :: "nat \<Rightarrow> string" where
  "octal4 m = map (\<lambda>d. char_of (48 + d)) [m div 512 mod 8, m div 64 mod 8, m div 8 mod 8, m mod 8]"

definition remainingActions :: "string list" where
  "remainingActions =
    [''Use a fresh disposable evaluation cluster. Stop if any API server already has an encryption configuration.'',
     ''Review all generated files. Generation has not installed or activated anything.'',
     ''Record config.yaml as the resolved values, including its lineage ID. Reuse it without --new-key for other nodes.'',
     ''Review openbao-setup.sh and have an OpenBao administrator run it once for the new Transit key.'',
     ''Provision independently renewable credentials and TLS trust on each node before starting the provider.'',
     ''Install the matching artifact on each node, copy this directory to it, and run node-setup.sh prepare, install, check, and start as root.'',
     ''Run probe against each live socket and compare identity fingerprints and active key IDs across nodes.'',
     ''Install encryption-config-readers.yaml on every API server. Verify readiness and reads through each endpoint directly.'',
     ''Only after all readers are ready, install encryption-config.yaml one API server at a time and verify each endpoint.'',
     ''Verify probe ciphertext in etcd. Keep identity for existing plaintext; this procedure does not migrate stored data.'']"

definition installation_record :: "init_env \<Rightarrow> Config \<Rightarrow> initOptions \<Rightarrow> string \<Rightarrow> initFile list \<Rightarrow> installationRecord" where
  "installation_record env cfg opts fingerprint files =
    \<lparr>ir_Generator = ie_version env, ir_Model = io_model opts, ir_Image = io_image opts, ir_IdentityFingerprint = fingerprint,
     ir_KeyLineageID = ks_KeyLineageID (tx_KeyIDScope (cf_Transit cfg)),
     ir_RuntimeUser = (if io_model opts = initModelStaticPod then ''65532:65532'' else ''openbao-kms''),
     ir_SocketGroup = sv_SocketGroup (cf_Server cfg), ir_SocketPath = sv_SocketPath (cf_Server cfg), ir_StatePath = cf_State_Path cfg,
     ir_Files = map (\<lambda>f. \<lparr>inf_Name = if_name f, inf_Mode = octal4 (if_mode f), inf_Purpose = if_purpose f\<rparr>) files,
     ir_RemainingActions = remainingActions\<rparr>"

definition renderInstallationRecord :: "init_env \<Rightarrow> Config \<Rightarrow> initOptions \<Rightarrow> initFile list \<Rightarrow> string res" where
  "renderInstallationRecord env cfg opts files =
    bindE (fingerprint_of cfg) (\<lambda>fingerprint.
    bindE (wrapE ''render installation record'' (ie_marshal env (installation_record env cfg opts fingerprint files))) (\<lambda>content.
    Inr (content @ [CHR 0x0A])))"

text \<open>The permission mode with these octal digits.\<close>

definition octal :: "nat \<Rightarrow> nat \<Rightarrow> nat \<Rightarrow> nat" where "octal u g other = 64 * u + 8 * g + other"

definition init_file :: "string \<Rightarrow> nat \<Rightarrow> string \<Rightarrow> string \<Rightarrow> initFile" where
  "init_file name mode content purpose = \<lparr>if_name = name, if_mode = mode, if_content = content, if_purpose = purpose\<rparr>"

definition RenderStaticPod :: "(podManifest \<Rightarrow> string res) \<Rightarrow> Config \<Rightarrow> StaticPodOptions \<Rightarrow> string res" where
  "RenderStaticPod encode cfg opts = bindE (buildStaticPod cfg opts) encode"

definition pod_files :: "init_env \<Rightarrow> Config \<Rightarrow> initOptions \<Rightarrow> initFile list res" where
  "pod_files env cfg opts =
    (if io_model opts = initModelStaticPod then
       bindE (RenderStaticPod (ie_encode_pod env) cfg \<lparr>spo_Image = io_image opts, spo_SocketGID = io_socketGID opts\<rparr>) (\<lambda>manifest.
       Inr [init_file initFileStaticPod (octal 6 4 4) manifest ''static pod manifest for /etc/kubernetes/manifests''])
     else Inr [])"

definition renderInitFiles :: "init_env \<Rightarrow> Config \<Rightarrow> initOptions \<Rightarrow> initFile list res" where
  "renderInitFiles env cfg opts =
    bindE (RenderProviderConfig (ie_quote env) (ie_duration_string env) (ie_encode_config env) cfg) (\<lambda>providerConfig.
    bindE (ie_encode_encryption env (RenderEncryptionConfig cfg)) (\<lambda>encryptionConfig.
    bindE (checkGeneratedFiles env providerConfig encryptionConfig) (\<lambda>_.
    bindE (ie_encode_encryption env (RenderEncryptionReaderConfig cfg)) (\<lambda>readerConfig.
    bindE (checkGeneratedFiles env providerConfig readerConfig) (\<lambda>_.
    bindE (RenderOpenBaoSetup (ie_config env) cfg (initPolicyName cfg opts)) (\<lambda>setup.
    bindE (pod_files env cfg opts) (\<lambda>pod.
    bindE (renderInitNodeSetup env cfg opts) (\<lambda>nodeSetup.
    let installation = init_file initFileInstallation (octal 6 4 0) [] ''installation record and remaining operator actions'';
        files = [init_file initFileConfig (octal 6 4 0) providerConfig ''provider configuration for every control-plane node'',
          init_file initFileEncryptionConfig (octal 6 4 4) encryptionConfig ''phase 2: KMS writes after every API server has the reader'',
          init_file initFileEncryptionReaders (octal 6 4 4) readerConfig ''phase 1: KMS reader with plaintext writes'',
          init_file PolicyFileName (octal 6 4 4) (WriteOpenBaoPolicy (ie_quote env) cfg True) ''least-privilege OpenBao policy'',
          init_file initFileSetupScript (octal 7 5 0) setup ''OpenBao commands to review and run as an administrator'']
        @ pod
        @ [init_file initFileNodeSetup (octal 7 5 0) nodeSetup ''per-node phases to run as root: prepare, install, check, start'']
    in bindE (renderInstallationRecord env cfg opts (files @ [installation])) (\<lambda>record.
    Inr (files @ [installation\<lparr>if_content := record\<rparr>]))))))))))"

section \<open>Writing\<close>

text \<open>
  The disk: the files with the mode they were created with and their content, and the directories, under cleaned paths. A fault of a system
  call is an input; a failed write may leave any beginning of the content, and a failed \<open>MkdirAll\<close> some of the missing parents.
\<close>

record disk =
  dk_files :: "(string \<times> nat \<times> string) list"
  dk_dirs :: "string list"

datatype file_fault = NoFault | OpenFault go_error | WriteFault nat go_error | CloseFault go_error

record disk_faults =
  df_readdir :: "go_error option"
  df_mkdir :: "(nat \<times> go_error) option"
  df_file :: "string \<Rightarrow> file_fault"

datatype dir_listing = Entries "string list" | DirNotExist | ReadFailed go_error

abbreviation on_disk :: "disk \<Rightarrow> string list" where "on_disk d \<equiv> map fst (dk_files d) @ dk_dirs d"

definition os_ReadDir :: "disk_faults \<Rightarrow> disk \<Rightarrow> string \<Rightarrow> dir_listing" where
  "os_ReadDir fl d dir =
    (let p = path_Clean dir in
     case df_readdir fl of
       Some e \<Rightarrow> ReadFailed e
     | None \<Rightarrow>
        if p \<in> set (dk_dirs d) then Entries (filter (\<lambda>q. q \<noteq> p \<and> filepath_Dir q = p) (on_disk d))
        else if p \<in> set (map fst (dk_files d)) then ReadFailed (Msg ''not a directory'') else DirNotExist)"

text \<open>A path with its parents.\<close>

definition parents :: "string \<Rightarrow> string list" where
  "parents p =
    (let names = path_names p; start = if IsAbs p then ''/'' else [] in
     (if IsAbs p then [''/''] else []) @ map (\<lambda>k. start @ Join (take k names) ''/'') [1..<Suc (length names)])"

definition os_MkdirAll :: "disk_faults \<Rightarrow> disk \<Rightarrow> string \<Rightarrow> disk \<times> unit res" where
  "os_MkdirAll fl d dir =
    (let ps = parents (path_Clean dir); is_file = (\<lambda>q. q \<in> set (map fst (dk_files d)));
         missing = filter (\<lambda>q. q \<notin> set (dk_dirs d)) (takeWhile (\<lambda>q. \<not> is_file q) ps) in
     case df_mkdir fl of
       Some (n, e) \<Rightarrow> (d\<lparr>dk_dirs := dk_dirs d @ take n missing\<rparr>, Inl e)
     | None \<Rightarrow> (d\<lparr>dk_dirs := dk_dirs d @ missing\<rparr>, failIf (list_ex is_file ps) (Msg ''not a directory'')))"

text \<open>\<open>os.OpenFile\<close> with \<open>O_CREATE|O_EXCL\<close>.\<close>

definition os_OpenExcl :: "disk \<Rightarrow> string \<Rightarrow> nat \<Rightarrow> disk res" where
  "os_OpenExcl d p mode =
    (if p \<in> set (on_disk d) then Inl (Msg ''file exists'')
     else if filepath_Dir p \<notin> set (dk_dirs d) then Inl (Msg ''no such file or directory'')
     else Inr (d\<lparr>dk_files := (p, mode, []) # dk_files d\<rparr>))"

definition file_Write :: "string \<Rightarrow> string \<Rightarrow> disk \<Rightarrow> disk" where
  "file_Write p content d = d\<lparr>dk_files := map (\<lambda>(q, mode, c). if q = p then (q, mode, c @ content) else (q, mode, c)) (dk_files d)\<rparr>"

definition write_file :: "disk_faults \<Rightarrow> string \<Rightarrow> initFile \<Rightarrow> disk \<Rightarrow> disk \<times> unit res" where
  "write_file fl outDir f d =
    (let target = path_Join [outDir, if_name f]; fail = (\<lambda>e. Inl (Wrap (''write '' @ target) [e])) in
     case df_file fl target of
       OpenFault e \<Rightarrow> (d, fail e)
     | fault \<Rightarrow>
        (case os_OpenExcl d target (if_mode f) of
           Inl e \<Rightarrow> (d, fail e)
         | Inr d \<Rightarrow>
            (case fault of
               WriteFault n e \<Rightarrow> (file_Write target (take n (if_content f)) d, fail e)
             | CloseFault e \<Rightarrow> (file_Write target (if_content f) d, fail e)
             | _ \<Rightarrow> (file_Write target (if_content f) d, Inr ()))))"

fun write_files :: "disk_faults \<Rightarrow> string \<Rightarrow> initFile list \<Rightarrow> disk \<Rightarrow> disk \<times> unit res" where
  "write_files fl outDir [] d = (d, Inr ())"
| "write_files fl outDir (f # fs) d =
    (case write_file fl outDir f d of
       (d, Inl e) \<Rightarrow> (d, Inl e)
     | (d, Inr _) \<Rightarrow> write_files fl outDir fs d)"

definition ensureEmptyDir :: "disk_faults \<Rightarrow> string \<Rightarrow> disk \<Rightarrow> disk \<times> unit res" where
  "ensureEmptyDir fl dir d =
    (case os_ReadDir fl d dir of
       DirNotExist \<Rightarrow> os_MkdirAll fl d dir
     | ReadFailed e \<Rightarrow> (d, Inl (Wrap (''read '' @ dir) [e]))
     | Entries entries \<Rightarrow> (d, failIf (entries \<noteq> []) (Msg (dir @ '' is not empty; init never overwrites generated files''))))"

definition writeInitFiles :: "disk_faults \<Rightarrow> string \<Rightarrow> initFile list \<Rightarrow> disk \<Rightarrow> disk \<times> unit res" where
  "writeInitFiles fl outDir files d =
    (case ensureEmptyDir fl outDir d of
       (d, Inl e) \<Rightarrow> (d, Inl e)
     | (d, Inr _) \<Rightarrow> write_files fl outDir files d)"

definition pad_right :: "nat \<Rightarrow> string \<Rightarrow> string" where
  "pad_right n s = s @ replicate (n - length s) (CHR '' '')"

definition printInitSummary :: "initOptions \<Rightarrow> Config \<Rightarrow> string \<Rightarrow> initFile list \<Rightarrow> string" where
  "printInitSummary opts cfg fingerprint files =
    (let nl = [CHR 0x0A] in
     ''Wrote '' @ Itoa (int (length files)) @ '' files to '' @ io_outDir opts @ '':'' @ nl
   @ concat (map (\<lambda>f. ''  '' @ pad_right 24 (if_name f) @ '' '' @ if_purpose f @ nl) files)
   @ nl @ ''identityFingerprint: '' @ fingerprint @ nl
   @ (if io_newKey opts then ''keyLineageId: '' @ ks_KeyLineageID (tx_KeyIDScope (cf_Transit cfg)) @ '' (generated; record it with your values file)'' @ nl else [])
   @ nl @ ''Next: review '' @ initFileInstallation @ '' and its remainingActions before installation.'' @ nl)"

section \<open>The command\<close>

abbreviation exit_with :: "ExitCode \<Rightarrow> go_error \<Rightarrow> command_error + 'a" where "exit_with code e \<equiv> Inl (ExitErrorWithCode code e)"

text \<open>The disk after the command, and its error or what it prints.\<close>

definition runInit :: "init_env \<Rightarrow> disk_faults \<Rightarrow> initOptions \<Rightarrow> disk \<Rightarrow> disk \<times> (command_error + string)" where
  "runInit env fl opts d =
    (case validateInitFlags env opts of
       Inl e \<Rightarrow> (d, exit_with ExitUsage e)
     | Inr _ \<Rightarrow>
    (case loadInitValues env opts of
       Inl e \<Rightarrow> (d, exit_with ExitConfig e)
     | Inr cfg \<Rightarrow>
    (case renderInitFiles env cfg opts of
       Inl e \<Rightarrow> (d, exit_with ExitConfig e)
     | Inr files \<Rightarrow>
    (case fingerprint_of cfg of
       Inl e \<Rightarrow> (d, exit_with ExitConfig e)
     | Inr fingerprint \<Rightarrow>
    (case writeInitFiles fl (io_outDir opts) files d of
       (d, Inl e) \<Rightarrow> (d, exit_with ExitError e)
     | (d, Inr _) \<Rightarrow> (d, Inr (printInitSummary opts cfg fingerprint files)))))))"

text \<open>The command refuses the flags that configure the running provider; \<open>changed\<close> says which flags were given.\<close>

definition newInitCommand :: "init_env \<Rightarrow> disk_faults \<Rightarrow> (string \<Rightarrow> bool) \<Rightarrow> initOptions \<Rightarrow> disk \<Rightarrow> disk \<times> (command_error + string)" where
  "newInitCommand env fl changed opts d =
    (case find changed [''config'', ''log-level'', ''metrics-address'', ''health-address''] of
       Some name \<Rightarrow> (d, exit_with ExitUsage (Msg (''--'' @ name @ '' does not apply to init; put configuration in --values'')))
     | None \<Rightarrow> runInit env fl opts d)"

section \<open>What the command writes\<close>

abbreviation stored :: "disk \<Rightarrow> string \<Rightarrow> (nat \<times> string) option" where "stored d \<equiv> map_of (dk_files d)"
abbreviation init_target :: "string \<Rightarrow> initFile \<Rightarrow> string" where "init_target outDir f \<equiv> path_Join [outDir, if_name f]"

lemma stored_Write: "stored (file_Write p c d) q = (if q = p then map_option (\<lambda>(m, x). (m, x @ c)) (stored d q) else stored d q)"
proof -
  have "map_of (map (\<lambda>(q, m, x). if q = p then (q, m, x @ c) else (q, m, x)) fs) q
      = (if q = p then map_option (\<lambda>(m, x). (m, x @ c)) (map_of fs q) else map_of fs q)" for fs
    by (induction fs) auto
  from this [of "dk_files d"] show ?thesis by (simp add: file_Write_def)
qed

lemma dirs_Write [simp]: "dk_dirs (file_Write p c d) = dk_dirs d"
  by (simp add: file_Write_def)

lemma stored_None: "p \<notin> set (on_disk d) \<Longrightarrow> stored d p = None"
  by (simp add: map_of_eq_None_iff)

lemma os_OpenExcl_Inr:
  assumes "os_OpenExcl d p mode = Inr d'"
  shows "stored d p = None" "stored d' = (stored d)(p \<mapsto> (mode, []))" "dk_dirs d' = dk_dirs d"
  using assms by (auto simp: os_OpenExcl_def stored_None split: if_splits)

text \<open>One file: nothing happens, or a new file appears, which is complete when no error is reported.\<close>

lemma write_file_cases:
  assumes "write_file fl outDir f d = (d', r)"
  obtains e where "d' = d" "r = Inl e"
  | c where "stored d (init_target outDir f) = None" "stored d' = (stored d)(init_target outDir f \<mapsto> (if_mode f, c))" "dk_dirs d' = dk_dirs d"
      "r = Inr () \<Longrightarrow> c = if_content f"
proof (cases "os_OpenExcl d (init_target outDir f) (if_mode f)")
  case (Inl e)
  with assms have "\<exists>e. d' = d \<and> r = Inl e" by (auto simp: write_file_def Let_def split: file_fault.splits)
  then show ?thesis using that(1) by blast
next
  case (Inr d1)
  note o = os_OpenExcl_Inr [OF Inr]
  have w: "stored (file_Write (init_target outDir f) c d1) = (stored d)(init_target outDir f \<mapsto> (if_mode f, c))" for c
    by (rule ext) (simp add: stored_Write o(2))
  from assms Inr consider e where "d' = d" "r = Inl e" | c where "d' = file_Write (init_target outDir f) c d1" "r = Inr () \<longrightarrow> c = if_content f"
    by (auto simp: write_file_def Let_def split: file_fault.splits)
  then show ?thesis
  proof cases
    case 2
    with o w that(2) [of c] show ?thesis by simp
  qed (rule that(1))
qed

lemma write_files_spec:
  assumes "write_files fl outDir fs d = (d', r)"
  shows "stored d \<subseteq>\<^sub>m stored d' \<and> dom (stored d') \<subseteq> dom (stored d) \<union> init_target outDir ` set fs \<and> dk_dirs d' = dk_dirs d
    \<and> (r = Inr () \<longrightarrow> (\<forall>f\<in>set fs. stored d (init_target outDir f) = None \<and> stored d' (init_target outDir f) = Some (if_mode f, if_content f)))"
  using assms
proof (induction fs arbitrary: d)
  case (Cons f fs)
  obtain d1 r1 where f: "write_file fl outDir f d = (d1, r1)" by fastforce
  then show ?case
  proof (cases rule: write_file_cases)
    case (1 e)
    with f Cons.prems show ?thesis by (auto simp: map_le_def)
  next
    case (2 c)
    show ?thesis
    proof (cases r1)
      case (Inl e)
      with f Cons.prems have "d' = d1" "r = Inl e" by simp_all
      with 2 show ?thesis by (auto simp: map_le_def dom_def)
    next
      case (Inr u)
      with f Cons.prems have rest: "write_files fl outDir fs d1 = (d', r)" by simp
      have one: "stored d1 (init_target outDir f) = Some (if_mode f, if_content f)" using 2 Inr by simp
      note IH = Cons.IH [OF rest]
      have "stored d \<subseteq>\<^sub>m stored d1" using 2 by (auto simp: map_le_def)
      then have le: "stored d \<subseteq>\<^sub>m stored d'" using IH map_le_trans by blast
      have "dom (stored d') \<subseteq> dom (stored d) \<union> init_target outDir ` set (f # fs)" using IH 2(2) by auto
      moreover have "stored d' (init_target outDir f) = Some (if_mode f, if_content f)" using IH one unfolding map_le_def by (metis domI)
      moreover have "stored d (init_target outDir g) = None" if "stored d1 (init_target outDir g) = None" for g
        using that 2(2) by (auto split: if_splits)
      ultimately show ?thesis using IH le 2(1,3) by auto
    qed
  qed
qed simp

lemma ensureEmptyDir_spec:
  assumes "ensureEmptyDir fl dir d = (d', r)"
  shows "dk_files d' = dk_files d" "set (dk_dirs d) \<subseteq> set (dk_dirs d')" "set (dk_dirs d') \<subseteq> set (dk_dirs d) \<union> set (parents (path_Clean dir))"
    "r = Inr () \<Longrightarrow> path_Clean dir \<notin> set (dk_dirs d) \<or> (\<forall>q\<in>set (on_disk d). filepath_Dir q = path_Clean dir \<longrightarrow> q = path_Clean dir)"
proof -
  note defs = ensureEmptyDir_def os_ReadDir_def os_MkdirAll_def failIf_def
  show "dk_files d' = dk_files d" "set (dk_dirs d) \<subseteq> set (dk_dirs d')" "set (dk_dirs d') \<subseteq> set (dk_dirs d) \<union> set (parents (path_Clean dir))"
    using assms by (auto simp: defs Let_def split: option.splits if_splits dir_listing.splits dest!: in_set_takeD set_takeWhileD)
  show "path_Clean dir \<notin> set (dk_dirs d) \<or> (\<forall>q\<in>set (on_disk d). filepath_Dir q = path_Clean dir \<longrightarrow> q = path_Clean dir)" if "r = Inr ()"
    using assms that by (auto simp: defs filter_empty_conv Let_def split: option.splits if_splits dir_listing.splits)
qed

definition out_dir_fresh :: "string \<Rightarrow> disk \<Rightarrow> bool" where
  "out_dir_fresh dir d \<longleftrightarrow> path_Clean dir \<notin> set (dk_dirs d) \<or> (\<forall>q\<in>set (on_disk d). filepath_Dir q = path_Clean dir \<longrightarrow> q = path_Clean dir)"

text \<open>Files only appear, under the names of the given files in the output directory, and directories only on the way to it.\<close>

definition only_adds :: "string \<Rightarrow> string set \<Rightarrow> disk \<Rightarrow> disk \<Rightarrow> bool" where
  "only_adds outDir names d d' \<longleftrightarrow>
     stored d \<subseteq>\<^sub>m stored d' \<and> dom (stored d') \<subseteq> dom (stored d) \<union> (\<lambda>n. path_Join [outDir, n]) ` names
   \<and> set (dk_dirs d) \<subseteq> set (dk_dirs d') \<and> set (dk_dirs d') \<subseteq> set (dk_dirs d) \<union> set (parents (path_Clean outDir))"

definition installed :: "string \<Rightarrow> initFile list \<Rightarrow> disk \<Rightarrow> disk \<Rightarrow> bool" where
  "installed outDir files d d' \<longleftrightarrow>
     out_dir_fresh outDir d
   \<and> (\<forall>f\<in>set files. stored d (init_target outDir f) = None \<and> stored d' (init_target outDir f) = Some (if_mode f, if_content f))"

lemma writeInitFiles_spec:
  assumes "writeInitFiles fl outDir files d = (d', r)"
  shows "only_adds outDir (if_name ` set files) d d'" "r = Inr () \<Longrightarrow> installed outDir files d d'"
proof -
  obtain d1 r1 where e: "ensureEmptyDir fl outDir d = (d1, r1)" by fastforce
  note empty = ensureEmptyDir_spec [OF e]
  show "only_adds outDir (if_name ` set files) d d'"
  proof (cases r1)
    case (Inl err)
    with assms e have "d' = d1" by (simp add: writeInitFiles_def)
    with empty(1-3) show ?thesis by (auto simp: only_adds_def)
  next
    case (Inr u)
    with assms e have "write_files fl outDir files d1 = (d', r)" by (simp add: writeInitFiles_def)
    from write_files_spec [OF this] empty(1-3) show ?thesis by (auto simp: only_adds_def image_image)
  qed
  show "installed outDir files d d'" if "r = Inr ()"
  proof -
    from assms e that have r1: "r1 = Inr ()" and w: "write_files fl outDir files d1 = (d', r)" by (auto simp: writeInitFiles_def split: sum.splits)
    from write_files_spec [OF w] empty(1) empty(4) [OF r1] that show ?thesis by (simp add: installed_def out_dir_fresh_def)
  qed
qed

section \<open>What the files say\<close>

definition content_of :: "initFile list \<Rightarrow> string \<Rightarrow> string option" where
  "content_of files name = map_option if_content (find (\<lambda>f. if_name f = name) files)"

text \<open>The generated configuration loads and is valid, and both generated EncryptionConfigurations match it.\<close>

definition encryption_matches :: "init_env \<Rightarrow> Config \<Rightarrow> string option \<Rightarrow> bool" where
  "encryption_matches env cfg content \<longleftrightarrow>
    (\<exists>text ec. content = Some text \<and> ie_parse_encryption env text = Inr ec
       \<and> snd (ValidateEncryptionConfiguration (cv_net (ie_config env)) (ie_parse_duration env) cfg ec True) = [])"

definition files_agree :: "init_env \<Rightarrow> initFile list \<Rightarrow> bool" where
  "files_agree env files \<longleftrightarrow>
    (\<exists>text cfg. content_of files initFileConfig = Some text \<and> ie_load_content env text = Inr cfg \<and> config_valid env cfg
       \<and> encryption_matches env cfg (content_of files initFileEncryptionConfig)
       \<and> encryption_matches env cfg (content_of files initFileEncryptionReaders))"

text \<open>
  Every file is rendered from the same values: the configuration, the two EncryptionConfigurations, the policy, the two scripts and, for a static pod only,
  its manifest.
\<close>

definition rendered_from :: "init_env \<Rightarrow> Config \<Rightarrow> initOptions \<Rightarrow> initFile list \<Rightarrow> bool" where
  "rendered_from env cfg opts files \<longleftrightarrow>
     (\<exists>conf enc readers script node.
        content_of files initFileConfig = Some conf
          \<and> RenderProviderConfig (ie_quote env) (ie_duration_string env) (ie_encode_config env) cfg = Inr conf
      \<and> content_of files initFileEncryptionConfig = Some enc \<and> ie_encode_encryption env (RenderEncryptionConfig cfg) = Inr enc
      \<and> content_of files initFileEncryptionReaders = Some readers \<and> ie_encode_encryption env (RenderEncryptionReaderConfig cfg) = Inr readers
      \<and> content_of files PolicyFileName = Some (WriteOpenBaoPolicy (ie_quote env) cfg True)
      \<and> content_of files initFileSetupScript = Some script \<and> RenderOpenBaoSetup (ie_config env) cfg (initPolicyName cfg opts) = Inr script
      \<and> content_of files initFileNodeSetup = Some node \<and> renderInitNodeSetup env cfg opts = Inr node)
   \<and> (if io_model opts = initModelStaticPod
      then \<exists>manifest. content_of files initFileStaticPod = Some manifest
        \<and> RenderStaticPod (ie_encode_pod env) cfg \<lparr>spo_Image = io_image opts, spo_SocketGID = io_socketGID opts\<rparr> = Inr manifest
      else content_of files initFileStaticPod = None)"

text \<open>The installation record lists the files as they are written, and carries the fingerprint, the lineage and the paths of the values.\<close>

definition record_complete :: "init_env \<Rightarrow> Config \<Rightarrow> initOptions \<Rightarrow> initFile list \<Rightarrow> bool" where
  "record_complete env cfg opts files \<longleftrightarrow>
    (\<exists>r text. ie_marshal env r = Inr text \<and> content_of files initFileInstallation = Some (text @ [CHR 0x0A])
       \<and> IdentityFingerprint_of cfg = Inr (ir_IdentityFingerprint r) \<and> ir_Model r = io_model opts
       \<and> ir_KeyLineageID r = ks_KeyLineageID (tx_KeyIDScope (cf_Transit cfg)) \<and> ir_SocketPath r = sv_SocketPath (cf_Server cfg)
       \<and> ir_StatePath r = cf_State_Path cfg
       \<and> ir_Files r = map (\<lambda>f. \<lparr>inf_Name = if_name f, inf_Mode = octal4 (if_mode f), inf_Purpose = if_purpose f\<rparr>) files)"

definition init_names :: "string list" where
  "init_names = [initFileConfig, initFileEncryptionConfig, initFileEncryptionReaders, PolicyFileName, initFileSetupScript, initFileStaticPod,
     initFileNodeSetup, initFileInstallation]"

lemmas init_name_defs = initFileConfig_def initFileEncryptionConfig_def initFileEncryptionReaders_def PolicyFileName_def initFileSetupScript_def
  initFileStaticPod_def initFileNodeSetup_def initFileInstallation_def

lemma wrapE_Inr [simp]: "wrapE m r = Inr x \<longleftrightarrow> r = Inr x"
  by (cases r) (simp_all add: wrapE_def)

lemma checkGeneratedFiles_Inr:
  "checkGeneratedFiles env c e = Inr u \<longleftrightarrow>
    (\<exists>cfg. ie_load_content env c = Inr cfg \<and> config_valid env cfg \<and> encryption_matches env cfg (Some e))"
  by (auto simp: checkGeneratedFiles_def encryption_matches_def)

lemma pod_files_Inr: "pod_files env cfg opts = Inr pod \<Longrightarrow> pod = [] \<or> (\<exists>c. pod = [init_file initFileStaticPod (octal 6 4 4) c ''static pod manifest for /etc/kubernetes/manifests''])"
  by (auto simp: pod_files_def split: if_splits)

definition rendered :: "string \<Rightarrow> string \<Rightarrow> string \<Rightarrow> string \<Rightarrow> string \<Rightarrow> initFile list \<Rightarrow> string \<Rightarrow> initFile list" where
  "rendered conf enc readers pol script pod node =
     [init_file initFileConfig (octal 6 4 0) conf ''provider configuration for every control-plane node'',
      init_file initFileEncryptionConfig (octal 6 4 4) enc ''phase 2: KMS writes after every API server has the reader'',
      init_file initFileEncryptionReaders (octal 6 4 4) readers ''phase 1: KMS reader with plaintext writes'',
      init_file PolicyFileName (octal 6 4 4) pol ''least-privilege OpenBao policy'',
      init_file initFileSetupScript (octal 7 5 0) script ''OpenBao commands to review and run as an administrator'']
     @ pod @ [init_file initFileNodeSetup (octal 7 5 0) node ''per-node phases to run as root: prepare, install, check, start'']"

definition installation :: "string \<Rightarrow> initFile" where
  "installation content = init_file initFileInstallation (octal 6 4 0) content ''installation record and remaining operator actions''"

lemma renderInitFiles_Inr:
  assumes "renderInitFiles env cfg opts = Inr files"
  obtains conf enc readers script pod node content where
    "checkGeneratedFiles env conf enc = Inr ()" "checkGeneratedFiles env conf readers = Inr ()"
    "RenderProviderConfig (ie_quote env) (ie_duration_string env) (ie_encode_config env) cfg = Inr conf"
    "ie_encode_encryption env (RenderEncryptionConfig cfg) = Inr enc" "ie_encode_encryption env (RenderEncryptionReaderConfig cfg) = Inr readers"
    "RenderOpenBaoSetup (ie_config env) cfg (initPolicyName cfg opts) = Inr script"
    "pod_files env cfg opts = Inr pod" "renderInitNodeSetup env cfg opts = Inr node"
    "renderInstallationRecord env cfg opts
       (rendered conf enc readers (WriteOpenBaoPolicy (ie_quote env) cfg True) script pod node @ [installation []]) = Inr content"
    "files = rendered conf enc readers (WriteOpenBaoPolicy (ie_quote env) cfg True) script pod node @ [installation content]"
  using assms unfolding renderInitFiles_def Let_def bindE_eq_Inr
  by (auto simp: rendered_def installation_def init_file_def)

lemma rendered_names:
  assumes "pod_files env cfg opts = Inr pod"
  shows "distinct (map if_name (rendered conf enc readers pol script pod node @ [installation content]))"
    "if_name ` set (rendered conf enc readers pol script pod node @ [installation content]) \<subseteq> set init_names"
    "content_of (rendered conf enc readers pol script pod node @ [installation content]) initFileInstallation = Some content"
  using pod_files_Inr [OF assms]
  by (auto simp: rendered_def installation_def init_file_def init_names_def init_name_defs content_of_def)

lemma renderInitFiles_consistent:
  assumes "renderInitFiles env cfg opts = Inr files"
  shows "distinct (map if_name files)" "if_name ` set files \<subseteq> set init_names" "files_agree env files" "record_complete env cfg opts files"
    "rendered_from env cfg opts files" "au_Method (cf_Auth cfg) = AuthMethodJWT"
proof -
  from assms obtain conf enc readers script pod node content where
    checked: "checkGeneratedFiles env conf enc = Inr ()" "checkGeneratedFiles env conf readers = Inr ()"
    and sources: "RenderProviderConfig (ie_quote env) (ie_duration_string env) (ie_encode_config env) cfg = Inr conf"
      "ie_encode_encryption env (RenderEncryptionConfig cfg) = Inr enc" "ie_encode_encryption env (RenderEncryptionReaderConfig cfg) = Inr readers"
      "RenderOpenBaoSetup (ie_config env) cfg (initPolicyName cfg opts) = Inr script"
    and pod: "pod_files env cfg opts = Inr pod" and node: "renderInitNodeSetup env cfg opts = Inr node"
    and recorded: "renderInstallationRecord env cfg opts
       (rendered conf enc readers (WriteOpenBaoPolicy (ie_quote env) cfg True) script pod node @ [installation []]) = Inr content"
    and files: "files = rendered conf enc readers (WriteOpenBaoPolicy (ie_quote env) cfg True) script pod node @ [installation content]"
    by (rule renderInitFiles_Inr)
  note names = rendered_names [OF pod]
  show "distinct (map if_name files)" "if_name ` set files \<subseteq> set init_names" unfolding files by (rule names)+
  have contents: "content_of files initFileConfig = Some conf" "content_of files initFileEncryptionConfig = Some enc"
    "content_of files initFileEncryptionReaders = Some readers" "content_of files PolicyFileName = Some (WriteOpenBaoPolicy (ie_quote env) cfg True)"
    "content_of files initFileSetupScript = Some script" "content_of files initFileNodeSetup = Some node"
    unfolding files using pod_files_Inr [OF pod] by (auto simp: rendered_def installation_def init_file_def init_name_defs content_of_def)
  have "if io_model opts = initModelStaticPod
      then \<exists>manifest. content_of files initFileStaticPod = Some manifest
        \<and> RenderStaticPod (ie_encode_pod env) cfg \<lparr>spo_Image = io_image opts, spo_SocketGID = io_socketGID opts\<rparr> = Inr manifest
      else content_of files initFileStaticPod = None"
    unfolding files using pod by (auto simp: pod_files_def rendered_def installation_def init_file_def init_name_defs content_of_def)
  with contents sources node show "rendered_from env cfg opts files" unfolding rendered_from_def by blast
  from contents checked show "files_agree env files" unfolding files_agree_def checkGeneratedFiles_Inr by auto
  from recorded obtain fp json where "fingerprint_of cfg = Inr fp" "content = json @ [CHR 0x0A]"
    "ie_marshal env (installation_record env cfg opts fp (rendered conf enc readers (WriteOpenBaoPolicy (ie_quote env) cfg True) script pod node @ [installation []])) = Inr json"
    by (auto simp: renderInstallationRecord_def)
  moreover from this(1) have "IdentityFingerprint_of cfg = Inr fp" by (auto simp: fingerprint_of_def split: sum.splits)
  ultimately show "record_complete env cfg opts files"
    unfolding record_complete_def files names(3)
    by (intro exI conjI) (auto simp: installation_record_def installation_def init_file_def)
  from node show "au_Method (cf_Auth cfg) = AuthMethodJWT"
    by (auto simp: renderInitNodeSetup_def RenderNodeSetup_def buildNodeLayout_def Let_def)
qed

text \<open>No installation is generated for a certificate login, in neither deployment model.\<close>

lemma certificate_init_fails: "au_Method (cf_Auth cfg) \<noteq> AuthMethodJWT \<Longrightarrow> \<exists>e. renderInitFiles env cfg opts = Inl e"
  using renderInitFiles_consistent(6) by (metis sum.exhaust)

text \<open>
  C36 \<open>init\<close> never replaces a file and never writes outside its output directory. However the command ends and whatever system call fails, every
  file that was there keeps its content and mode, every new file is one of the eight installation files in the output directory, and new directories
  are the output directory and its parents. Exit codes 2 and 3 leave the disk as it was. A successful run found the output directory absent or
  empty and has written every file completely; all files are rendered from the same validated values (the configuration, both
  EncryptionConfigurations, the policy, the OpenBao script, the node script and, for the static pod model only, its manifest); the configuration it wrote
  loads and is valid, both EncryptionConfigurations match what was loaded from it, and the installation record lists exactly the written
  files, with the identity fingerprint, the lineage, the socket and the state path of the values.
\<close>

theorem init_only_adds:
  assumes "newInitCommand env fl changed opts d = (d', r)"
  shows "only_adds (io_outDir opts) (set init_names) d d'
    \<and> (case r of
         Inl e \<Rightarrow> ProcessExitCode (Some e) \<in> {1, 2, 3} \<and> (ProcessExitCode (Some e) \<noteq> 1 \<longrightarrow> d' = d)
       | Inr _ \<Rightarrow> \<exists>cfg files. loadInitValues env opts = Inr cfg \<and> config_valid env cfg \<and> installed (io_outDir opts) files d d'
           \<and> distinct (map if_name files) \<and> rendered_from env cfg opts files \<and> files_agree env files \<and> record_complete env cfg opts files)"
proof -
  have same: "only_adds (io_outDir opts) (set init_names) d d" by (simp add: only_adds_def)
  consider e where "d' = d" "r = Inl e" "ProcessExitCode (Some e) \<in> {2, 3}"
    | cfg files w where "loadInitValues env opts = Inr cfg" "renderInitFiles env cfg opts = Inr files"
      "writeInitFiles fl (io_outDir opts) files d = (d', w)"
      "(\<exists>e. w = Inl e \<and> r = Inl (ExitErrorWithCode ExitError e)) \<or> (\<exists>out. w = Inr () \<and> r = Inr out)"
    using assms by (auto simp: newInitCommand_def runInit_def split: option.splits sum.splits prod.splits)
  then show ?thesis
  proof cases
    case (2 cfg files w)
    note c = renderInitFiles_consistent [OF 2(2)] and wr = writeInitFiles_spec [OF 2(3)]
    have "only_adds (io_outDir opts) (set init_names) d d'" using wr(1) c(2) unfolding only_adds_def by blast
    moreover have "config_valid env cfg" using 2(1) by (auto simp: loadInitValues_def)
    ultimately show ?thesis using 2(1,4) wr(2) c by auto
  qed (use same in auto)
qed

section \<open>An example\<close>

definition ex_init_config :: Config where
  "ex_init_config = ex_setup_config\<lparr>cf_Server := (cf_Server ex_setup_config)\<lparr>sv_HealthAddress := '':2''\<rparr>, cf_State_Path := ''/var/lib/openbao-kms/state/s''\<rparr>"

definition ex_init_env :: init_env where
  "ex_init_env = \<lparr>ie_config = ex_setup_env\<lparr>cv_load := \<lambda>_. Inr ex_init_config, cv_net := ex_unix_net\<rparr>, ie_load_content = (\<lambda>_. Inr ex_init_config),
     ie_random = Inl (Msg []), ie_quote = (\<lambda>s. s), ie_duration_string = ex_duration, ie_encode_config = (\<lambda>_. Inr ''c''),
     ie_encode_encryption = (\<lambda>_. Inr ''e''), ie_parse_encryption = (\<lambda>_. Inr (RenderEncryptionConfig ex_init_config)),
     ie_parse_duration = ex_parse_duration, ie_encode_pod = (\<lambda>_. Inr ''p''), ie_marshal = (\<lambda>_. Inr ''j''), ie_helpers = [],
     ie_version = \<lparr>vi_Version = ''v'', vi_Commit = [], vi_BuildDate = [], vi_Dirty = []\<rparr>\<rparr>"

definition ex_init_options :: initOptions where
  "ex_init_options = \<lparr>io_valuesPath = ''v'', io_outDir = ''o'', io_model = ''systemd'', io_newKey = False, io_policyName = ''kms'', io_image = [], io_socketGID = 0\<rparr>"

definition no_faults :: disk_faults where
  "no_faults = \<lparr>df_readdir = None, df_mkdir = None, df_file = (\<lambda>_. NoFault)\<rparr>"

definition empty_disk :: disk where
  "empty_disk = \<lparr>dk_files = [], dk_dirs = []\<rparr>"

lemma ex_init_valid: "Validate ex_unix_net False (\<lambda>_. []) (\<lambda>_. NotExist) ex_init_config (validation_options [] False) = []"
proof -
  have base: "validateRequired False ex_setup_config = []" "validateValues ex_net False (\<lambda>_. []) ex_setup_config = []"
    "validateSocketPolicy (\<lambda>_. []) ex_setup_config (validation_options [] False) = []"
    using ex_setup_validated by (simp_all add: Validate_Nil)
  have "validateRequired False ex_init_config = []" using base(1) by (simp add: validateRequired_def ex_init_config_def Let_def)
  moreover have "validateSocketPolicy (\<lambda>_. []) ex_init_config (validation_options [] False) = []"
    using base(3) by (simp add: validateSocketPolicy_def ex_init_config_def Let_def)
  moreover have "validateValues ex_unix_net False (\<lambda>_. []) ex_init_config = []"
  proof -
    note fields = ex_setup_config_def ex_diag_config_def ex_config_def
    have "validateOpenBaoAddress ex_unix_net (bo_Address (cf_OpenBao ex_setup_config)) = []"
      by (simp add: validateOpenBaoAddress_def fields ex_unix_net_def ex_net_def ex_url_def HasPrefix_def TrimSpace_ascii)
    moreover have "validateAddress ''server.healthAddress'' '':2'' = []"
      by (simp add: validateAddress_def SplitHostPort_def cut_last_def HasPrefix_def TrimSpace_ascii)
    moreover have "validateAuthValues ex_unix_net False (\<lambda>_. []) (cf_Auth ex_setup_config) = validateAuthValues ex_net False (\<lambda>_. []) (cf_Auth ex_setup_config)"
      by (simp add: validateAuthValues_def validateJWTAuthValues_def validateJWTSource_def fields AuthMethodJWT_def JWTSourceFile_def JWTSourceOAuth2_def Let_def)
    moreover have "validateAbsolutePath ''state.path'' ''/var/lib/openbao-kms/state/s'' = []"
      by (simp add: validateAbsolutePath_def IsAbs_def HasPrefix_def)
    moreover have "validateRelationships ex_unix_net ex_init_config = []"
      by (simp add: validateRelationships_def ex_init_config_def fields sameFixedListener_def SplitHostPort_def cut_last_def HasPrefix_def Let_def)
    ultimately show ?thesis using base(2) by (simp add: validateValues_def ex_init_config_def Let_def)
  qed
  ultimately show ?thesis by (simp add: Validate_Nil validation_options_def)
qed

lemma ex_init_fields:
  "au_Method (cf_Auth ex_init_config) = AuthMethodJWT" "bo_CACertFile (cf_OpenBao ex_init_config) \<noteq> []" "sv_SocketGroup (cf_Server ex_init_config) \<noteq> []"
  "jc_JWTFile (au_JWT (cf_Auth ex_init_config)) \<noteq> []" "ks_KeyLineageID (tx_KeyIDScope (cf_Transit ex_init_config)) \<noteq> []"
  "sv_HealthAddress (cf_Server ex_init_config) = '':2''" "sv_SocketPath (cf_Server ex_init_config) = ''/run/openbao-kms/k''"
  "cf_State_Path ex_init_config = ''/var/lib/openbao-kms/state/s''" "setup_problems ex_init_config ''kms'' = []"
  by (simp_all add: ex_init_config_def ex_setup_config_def ex_diag_config_def ex_config_def AuthMethodJWT_def setup_problems_def policyNamePattern_def
      is_word_def authPathPrefix_def HasPrefix_def Let_def)

lemma ex_init_checked: "config_valid ex_init_env ex_init_config" "checkGeneratedFiles ex_init_env c e = Inr ()"
proof -
  show valid: "config_valid ex_init_env ex_init_config"
    using ex_init_valid by (simp add: config_valid_def ex_init_env_def ex_setup_env_def Let_def)
  have "unix_endpoint ex_unix_net (''unix://'' @ sv_SocketPath (cf_Server ex_init_config)) (sv_SocketPath (cf_Server ex_init_config))"
    by (simp add: unix_endpoint_def ex_unix_net_def HasPrefix_def)
  moreover have "ex_parse_duration ''3s'' = Some 3000000000" by (simp add: ex_parse_duration_def)
  ultimately have "snd (ValidateEncryptionConfiguration ex_unix_net ex_parse_duration ex_init_config (RenderEncryptionConfig ex_init_config) True) = []"
    using generated_encryption_config_accepted [OF ex_init_valid] by blast
  with valid show "checkGeneratedFiles ex_init_env c e = Inr ()"
    unfolding checkGeneratedFiles_Inr encryption_matches_def by (simp add: ex_init_env_def)
qed

lemma ex_init_rendered: "\<exists>files. renderInitFiles ex_init_env ex_init_config ex_init_options = Inr files"
proof -
  have fp: "fingerprint_of ex_init_config = Inr (''cfg1.'' @ digest64 (json_object (configIdentityMaterial ex_init_config)))"
    using fingerprint_ok ex_init_valid by (auto simp: fingerprint_of_def Validate_Nil)
  have "\<exists>script. RenderOpenBaoSetup (ie_config ex_init_env) ex_init_config ''kms'' = Inr script"
    using ex_init_valid ex_init_fields(9) by (simp add: RenderOpenBaoSetup_def ValidateSetup_def ex_init_env_def ex_setup_env_def)
  moreover have "\<exists>node. renderInitNodeSetup ex_init_env ex_init_config ex_init_options = Inr node"
  proof -
    have dirs: "filepath_Dir ''/run/openbao-kms/k'' = systemdRunDir" "filepath_Dir ''/var/lib/openbao-kms/state/s'' = systemdStateDir"
      by (simp_all add: filepath_Dir_def path_Clean_def clean_step_def HasPrefix_def systemdRunDir_def systemdStateDir_def)
    have "addressPort '':2'' = Inr 2"
      by (simp add: addressPort_def SplitHostPort_def cut_last_def HasPrefix_def Atoi_def parse_digits_def is_digit_def digit_val_def in_i64_def)
    with fp dirs show ?thesis
      by (simp add: renderInitNodeSetup_def RenderNodeSetup_def buildNodeLayout_def nodeReadyURL_def modelLayout_def ex_init_fields ex_init_options_def
          initFileConfig_def initModelStaticPod_def NodeModelSystemd_def Let_def)
  qed
  moreover have "pod_files ex_init_env ex_init_config ex_init_options = Inr []"
    by (simp add: pod_files_def ex_init_options_def initModelStaticPod_def)
  moreover have "\<exists>content. renderInstallationRecord ex_init_env ex_init_config ex_init_options files = Inr content" for files
    by (simp add: renderInstallationRecord_def fp ex_init_env_def wrapE_def)
  moreover have "RenderProviderConfig (ie_quote ex_init_env) (ie_duration_string ex_init_env) (ie_encode_config ex_init_env) ex_init_config = Inr ''c''"
    "ie_encode_encryption ex_init_env ec = Inr ''e''" "initPolicyName ex_init_config ex_init_options = ''kms''" for ec
    by (simp_all add: RenderProviderConfig_def ex_init_fields(1) ex_init_env_def initPolicyName_def ex_init_options_def)
  ultimately show ?thesis using ex_init_checked(2) by (auto simp: renderInitFiles_def Let_def)
qed

text \<open>On an empty disk without faults the files are written.\<close>

lemma write_files_ok:
  assumes "\<forall>p. df_file fl p = NoFault" "\<forall>f\<in>set fs. filepath_Dir (init_target outDir f) \<in> set (dk_dirs d) \<and> init_target outDir f \<notin> set (on_disk d)"
    "distinct (map (init_target outDir) fs)"
  shows "\<exists>d'. write_files fl outDir fs d = (d', Inr ())"
  using assms(2,3)
proof (induction fs arbitrary: d)
  case (Cons f fs)
  let ?d = "file_Write (init_target outDir f) (if_content f) (d\<lparr>dk_files := (init_target outDir f, if_mode f, []) # dk_files d\<rparr>)"
  have w: "write_file fl outDir f d = (?d, Inr ())" using Cons.prems assms(1) by (simp add: write_file_def os_OpenExcl_def Let_def)
  have "map fst (dk_files ?d) = init_target outDir f # map fst (dk_files d)" by (simp add: file_Write_def case_prod_beta comp_def)
  then have on: "set (on_disk ?d) = insert (init_target outDir f) (set (on_disk d))" by (simp only: set_append) simp
  have "init_target outDir g \<noteq> init_target outDir f" if "g \<in> set fs" for g using Cons.prems(2) that by (auto simp: image_iff)
  then have "\<forall>g\<in>set fs. filepath_Dir (init_target outDir g) \<in> set (dk_dirs ?d) \<and> init_target outDir g \<notin> set (on_disk ?d)"
    using Cons.prems(1) unfolding on by simp
  then show ?case using Cons.IH [of ?d] Cons.prems w by simp
qed simp

lemma ex_target:
  assumes "CHR ''/'' \<notin> set n" "n \<noteq> []" "n \<noteq> ''.''" "n \<noteq> ''..''"
  shows "path_Join [''o'', n] = ''o/'' @ n" "filepath_Dir (''o/'' @ n) = ''o''"
proof -
  have "split_on (CHR ''/'') (''o/'' @ n) = [''o'', n]" using split_on_append [of "CHR ''/''" "''o''" n] assms(1) by (simp add: split_on_no_sep)
  then show "path_Join [''o'', n] = ''o/'' @ n" using assms by (simp add: path_Join_def path_Clean_def clean_step_def HasPrefix_def)
  have "dropWhile (\<lambda>c. c \<noteq> CHR ''/'') (rev n @ ''/o'') = ''/o''" using assms(1) by (subst dropWhile_append2) auto
  then show "filepath_Dir (''o/'' @ n) = ''o''" by (simp add: filepath_Dir_def path_Clean_def clean_step_def HasPrefix_def)
qed

lemma ex_init_loaded: "validateInitFlags ex_init_env ex_init_options = Inr ()" "loadInitValues ex_init_env ex_init_options = Inr ex_init_config"
proof -
  show "validateInitFlags ex_init_env ex_init_options = Inr ()"
    by (simp add: validateInitFlags_def init_flag_problems_def ex_init_options_def initModelSystemd_def)
  have "applyInitHostLayout ex_init_options ex_init_config = ex_init_config"
    by (simp add: applyInitHostLayout_def ex_init_fields ex_init_options_def initModelStaticPod_def Let_def)
  moreover have "cv_load (ie_config ex_init_env) p = Inr ex_init_config" for p by (simp add: ex_init_env_def ex_setup_env_def)
  ultimately show "loadInitValues ex_init_env ex_init_options = Inr ex_init_config"
    using ex_init_checked(1) ex_init_fields(5)
    by (simp add: loadInitValues_def resolveInitLineage_def ex_init_options_def initModelStaticPod_def)
qed

lemma ex_init_written:
  assumes "renderInitFiles ex_init_env ex_init_config ex_init_options = Inr files"
  shows "\<exists>d'. writeInitFiles no_faults ''o'' files empty_disk = (d', Inr ())"
proof -
  note c = renderInitFiles_consistent [OF assms]
  let ?d = "empty_disk\<lparr>dk_dirs := [''o'']\<rparr>"
  have plain: "CHR ''/'' \<notin> set n" "n \<noteq> []" "n \<noteq> ''.''" "n \<noteq> ''..''" if "n \<in> set init_names" for n
    using that by (auto simp: init_names_def init_name_defs)
  have target: "init_target ''o'' f = ''o/'' @ if_name f" "filepath_Dir (init_target ''o'' f) = ''o''" if "f \<in> set files" for f
    using ex_target [OF plain] c(2) that by auto
  have "map (init_target ''o'') files = map ((@) ''o/'') (map if_name files)" using target(1) by simp
  moreover have "inj_on ((@) ''o/'') (set (map if_name files))" by (simp add: inj_on_def)
  ultimately have "distinct (map (init_target ''o'') files)" using c(1) by (simp only: distinct_map)
  then have "\<exists>d'. write_files no_faults ''o'' files ?d = (d', Inr ())"
    using target by (intro write_files_ok) (auto simp: no_faults_def empty_disk_def)
  moreover have "ensureEmptyDir no_faults ''o'' empty_disk = (?d, Inr ())"
  proof -
    have "path_Clean ''o'' = ''o''" "parents ''o'' = [''o'']"
      by (simp_all add: path_Clean_def clean_step_def HasPrefix_def parents_def path_names_def IsAbs_def)
    then show ?thesis by (simp add: ensureEmptyDir_def os_ReadDir_def os_MkdirAll_def no_faults_def empty_disk_def failIf_def)
  qed
  ultimately show ?thesis by (simp add: writeInitFiles_def)
qed

theorem init_only_adds_witness:
  "\<exists>d' out files. newInitCommand ex_init_env no_faults (\<lambda>_. False) ex_init_options empty_disk = (d', Inr out)
     \<and> installed ''o'' files empty_disk d' \<and> rendered_from ex_init_env ex_init_config ex_init_options files"
proof -
  obtain files where files: "renderInitFiles ex_init_env ex_init_config ex_init_options = Inr files" using ex_init_rendered by blast
  obtain d' where d': "writeInitFiles no_faults ''o'' files empty_disk = (d', Inr ())" using ex_init_written [OF files] by blast
  have "\<exists>fp. fingerprint_of ex_init_config = Inr fp" using renderInitFiles_consistent(4) [OF files] by (auto simp: record_complete_def fingerprint_of_def)
  with files d' ex_init_loaded obtain out where run: "newInitCommand ex_init_env no_faults (\<lambda>_. False) ex_init_options empty_disk = (d', Inr out)"
    by (auto simp: newInitCommand_def runInit_def ex_init_options_def)
  from init_only_adds [OF run] ex_init_loaded(2)
  have "\<exists>files. installed (io_outDir ex_init_options) files empty_disk d' \<and> rendered_from ex_init_env ex_init_config ex_init_options files" by auto
  then show ?thesis using run by (auto simp: ex_init_options_def)
qed

end
