(* ===== verification/Probe_Command.thy ===== *)
theory Probe_Command
  imports Init_Command
begin

text \<open>
  The command \<open>probe\<close> (\<^verbatim>\<open>cmd/bao-kms-provider/probe.go\<close>): it checks a running provider through its socket. The client of the socket is an
  input, three calls over the state of the world it meets; so are the identity of the caller, the file at the path of the socket and the random bytes.
\<close>

section \<open>The probe\<close>

record socketProbeOptions =
  spr_socketPath :: string
  spr_expectedKeyID :: string
  spr_timeout :: int

text \<open>\<open>kmsapi.KeyManagementServiceClient\<close>, with the decrypted plaintext as the response of \<open>Decrypt\<close>.\<close>

record 'w kms_client =
  kc_Status :: "'w \<Rightarrow> StatusResponse res \<times> 'w"
  kc_Encrypt :: "EncryptRequest \<Rightarrow> 'w \<Rightarrow> EncryptResponse res \<times> 'w"
  kc_Decrypt :: "DecryptRequest \<Rightarrow> 'w \<Rightarrow> string res \<times> 'w"

text \<open>What \<open>os.Lstat\<close> finds: an error, or a file with its owner, where \<open>is_socket\<close> is its mode bit.\<close>

datatype socket_file = NoPermission | NoSocketFile | SocketFile (is_socket: bool) (socket_owner: int)

record 'w probe_env =
  prb_groups :: "int list res"
  prb_euid :: int
  prb_egid :: int
  prb_lstat :: "string \<Rightarrow> socket_file"
  prb_client :: "'w kms_client res"
  prb_random :: "string res"

definition validateProbeOptions :: "socketProbeOptions \<Rightarrow> unit res" where
  "validateProbeOptions opts =
    bindE (failIf (\<not> IsAbs (spr_socketPath opts)) (Msg ''--socket must be an absolute Unix socket path'')) (\<lambda>_.
    bindE (failIf (spr_timeout opts \<le> 0) (Msg ''--timeout must be positive'')) (\<lambda>_.
    if spr_expectedKeyID opts \<noteq> [] then
      (case ParseKeyID (spr_expectedKeyID opts) of Inl _ \<Rightarrow> Inl (Msg ''--expected-key-id must be a provider key ID'') | Inr _ \<Rightarrow> Inr ())
    else Inr ()))"

text \<open>Of the random bytes, 32 are the plaintext and the rest name the requests.\<close>

definition probeKMSCiphertext :: "'w probe_env \<Rightarrow> 'w kms_client \<Rightarrow> string \<Rightarrow> Report \<Rightarrow> 'w \<Rightarrow> Report \<times> 'w" where
  "probeKMSCiphertext env client keyID report w =
    (case prb_random env of
       Inl _ \<Rightarrow> (Report_Fail ''kms.encrypt'' ''Running provider Encrypt'' (Text ''cannot generate probe bytes; check host randomness'') report, w)
     | Inr material \<Rightarrow>
        (let plaintext = take 32 material; uid = hex_EncodeToString (drop 32 material);
             unusable = Report_Fail ''kms.encrypt'' ''Running provider Encrypt'' (Text ''Encrypt failed; check provider readiness and OpenBao access'') report in
         case kc_Encrypt client \<lparr>er_Plaintext = plaintext, er_Uid = uid @ ''-encrypt''\<rparr> w of
           (Inl _, w) \<Rightarrow> (unusable, w)
         | (Inr encrypted, w) \<Rightarrow>
            if Ciphertext encrypted = [] then (unusable, w)
            else if KeyId encrypted \<noteq> keyID
            then (Report_Fail ''kms.key_id'' ''Active key agreement'' (Text ''key changed during probe; wait for rotation convergence and retry'') report, w)
            else
              (let report = Report_Pass ''kms.encrypt'' ''Running provider Encrypt'' (Text ''fresh probe bytes encrypted through the live socket'') report in
               case kc_Decrypt client \<lparr>dr_Ciphertext = Ciphertext encrypted, dr_Uid = uid @ ''-decrypt'', dr_KeyId = KeyId encrypted,
                   dr_Annotations = ResponseAnnotations encrypted\<rparr> w of
                 (decrypted, w) \<Rightarrow>
                   if decrypted \<noteq> Inr plaintext
                   then (Report_Fail ''kms.decrypt'' ''Running provider Decrypt''
                     (Text ''Decrypt failed or returned different bytes; check provider diagnostics and Transit decrypt permissions'') report, w)
                   else (Report_Pass ''kms.key_id'' ''Active key ID'' (Text keyID)
                     (Report_Pass ''kms.decrypt'' ''Running provider Decrypt'' (Text ''live round trip returned the original probe bytes'') report), w))))"

definition probeKMSRoundTrip :: "'w probe_env \<Rightarrow> 'w kms_client \<Rightarrow> string \<Rightarrow> Report \<Rightarrow> 'w \<Rightarrow> Report \<times> 'w" where
  "probeKMSRoundTrip env client expected report w =
    (case kc_Status client w of
       (Inl _, w) \<Rightarrow> (Report_Fail ''kms.status'' ''Running provider Status''
         (Text ''Status request failed; check provider readiness, caller socket-group access, and the deadline'') report, w)
     | (Inr st, w) \<Rightarrow>
        if sr_Version st \<noteq> APIVersion \<or> sr_Healthz st \<noteq> HealthOK
        then (Report_Fail ''kms.status'' ''Running provider Status'' (Text ''provider is unhealthy or not KMS v2; inspect provider diagnostics'') report, w)
        else
          (case ParseKeyID (sr_KeyId st) of
             Inl _ \<Rightarrow> (Report_Fail ''kms.key_id'' ''Active key ID'' (Text ''provider returned an invalid key ID; check the selected socket'') report, w)
           | Inr keyID \<Rightarrow>
              (let report = Report_Pass ''kms.status'' ''Running provider Status'' (Text ''KMS v2 provider reports healthy'') report in
               if expected \<noteq> [] \<and> expected \<noteq> keyID
               then (Report_Fail ''kms.key_id'' ''Peer key agreement'' (Text ''active key differs; check node identity and rotation convergence'') report, w)
               else probeKMSCiphertext env client keyID report w)))"

text \<open>\<open>fmt.Sprintf\<close> of the identity; a slice prints its elements in brackets.\<close>

definition identity_text :: "'w probe_env \<Rightarrow> int list \<Rightarrow> string" where
  "identity_text env groups = ''uid='' @ Itoa (prb_euid env) @ '' gid='' @ Itoa (prb_egid env) @ '' groups=['' @ Join (map Itoa groups) '' '' @ '']''"

definition runSocketProbe :: "'w probe_env \<Rightarrow> socketProbeOptions \<Rightarrow> 'w \<Rightarrow> Report \<times> 'w" where
  "runSocketProbe env opts w =
    (let report = \<lparr>rp_Name = ''probe'', rp_Checks = []\<rparr> in
     case prb_groups env of
       Inl _ \<Rightarrow> (Report_Fail ''client.identity'' ''Caller identity'' (Text ''cannot read supplementary groups; check the host identity'') report, w)
     | Inr groups \<Rightarrow>
        (let identity = identity_text env groups;
             report = (if prb_euid env = 0
               then Report_Warn ''client.identity'' ''Caller identity'' (Text (identity @ ''; root does not prove non-root socket access'')) report
               else Report_Pass ''client.identity'' ''Caller identity'' (Text identity) report);
             found = prb_lstat env (spr_socketPath opts) in
         if found = NoPermission
         then (Report_Fail ''socket.path'' ''Unix socket'' (Text ''access denied; check caller groups and parent-directory search permission'') report, w)
         else if found = NoSocketFile \<or> \<not> is_socket found
         then (Report_Fail ''socket.path'' ''Unix socket'' (Text ''socket missing or wrong file type; check the path and provider readiness'') report, w)
         else
           (let report = Report_Pass ''socket.path'' ''Unix socket'' (Text ''path is a Unix socket, not a symlink'') report;
                report = (if prb_euid env = socket_owner found
                  then Report_Warn ''socket.access_scope'' ''Socket access scope''
                    (Text ''caller owns the socket; this round trip does not verify access through the socket group'') report
                  else report) in
            case prb_client env of
              Inl _ \<Rightarrow> (Report_Fail ''socket.connect'' ''Socket client'' (Text ''cannot initialize the Unix socket client'') report, w)
            | Inr client \<Rightarrow> probeKMSRoundTrip env client (spr_expectedKeyID opts) report w)))"

definition probeCommand :: "'w probe_env \<Rightarrow> (go_error \<Rightarrow> string) \<Rightarrow> (Report printed \<Rightarrow> unit res) \<Rightarrow> socketProbeOptions \<Rightarrow> string \<Rightarrow> 'w \<Rightarrow> command_error option" where
  "probeCommand env text_of write opts output w =
    (case validateProbeOptions opts of
       Inl e \<Rightarrow> WithExitCode ExitUsage (Some (Uncoded e))
     | Inr _ \<Rightarrow>
        (let (report, _) = runSocketProbe env opts w in
         case printCLIReport text_of write report output of
           Some e \<Rightarrow> Some e
         | None \<Rightarrow> reportError report ''running provider probe failed''))"

section \<open>What a passed probe shows\<close>

lemma ParseKeyID_same: "ParseKeyID k = Inr k' \<Longrightarrow> k' = k"
  by (auto simp: ParseKeyID_def Let_def split: if_splits option.splits sum.splits)

text \<open>The round trip that a report without failures stands for.\<close>

definition round_trip :: "'w kms_client \<Rightarrow> string \<Rightarrow> string \<Rightarrow> 'w \<Rightarrow> bool" where
  "round_trip client keyID plaintext w \<longleftrightarrow>
    (\<exists>uid uid' encrypted w1 w2. kc_Encrypt client \<lparr>er_Plaintext = plaintext, er_Uid = uid\<rparr> w = (Inr encrypted, w1)
       \<and> Ciphertext encrypted \<noteq> [] \<and> KeyId encrypted = keyID
       \<and> kc_Decrypt client \<lparr>dr_Ciphertext = Ciphertext encrypted, dr_Uid = uid', dr_KeyId = keyID, dr_Annotations = ResponseAnnotations encrypted\<rparr> w1
           = (Inr plaintext, w2))"

lemma probeKMSCiphertext_passed:
  assumes "\<not> HasFailures (fst (probeKMSCiphertext env client keyID report w))"
  shows "\<exists>material. prb_random env = Inr material \<and> round_trip client keyID (take 32 material) w"
proof -
  obtain material where m: "prb_random env = Inr material" using assms by (cases "prb_random env") (auto simp: probeKMSCiphertext_def)
  obtain r w1 where e: "kc_Encrypt client \<lparr>er_Plaintext = take 32 material, er_Uid = hex_EncodeToString (drop 32 material) @ ''-encrypt''\<rparr> w = (r, w1)" by fastforce
  obtain encrypted where r: "r = Inr encrypted" using assms m e by (cases r) (auto simp: probeKMSCiphertext_def Let_def)
  obtain pt w2 where d: "kc_Decrypt client \<lparr>dr_Ciphertext = Ciphertext encrypted, dr_Uid = hex_EncodeToString (drop 32 material) @ ''-decrypt'', dr_KeyId = KeyId encrypted,
      dr_Annotations = ResponseAnnotations encrypted\<rparr> w1 = (pt, w2)" by fastforce
  have "Ciphertext encrypted \<noteq> [] \<and> KeyId encrypted = keyID \<and> pt = Inr (take 32 material)"
    using assms m e r d by (auto simp: probeKMSCiphertext_def Let_def split: if_splits)
  with m e r d show ?thesis unfolding round_trip_def by blast
qed

lemma probeKMSRoundTrip_passed:
  assumes "\<not> HasFailures (fst (probeKMSRoundTrip env client expected report w))"
  shows "\<exists>st material w'. kc_Status client w = (Inr st, w') \<and> sr_Version st = APIVersion \<and> sr_Healthz st = HealthOK
    \<and> ParseKeyID (sr_KeyId st) = Inr (sr_KeyId st) \<and> (expected = [] \<or> sr_KeyId st = expected)
    \<and> prb_random env = Inr material \<and> round_trip client (sr_KeyId st) (take 32 material) w'"
proof -
  obtain r w' where s: "kc_Status client w = (r, w')" by fastforce
  obtain st where r: "r = Inr st" using assms s by (cases r) (auto simp: probeKMSRoundTrip_def)
  have ok: "sr_Version st = APIVersion \<and> sr_Healthz st = HealthOK" using assms s r by (auto simp: probeKMSRoundTrip_def split: if_splits)
  obtain keyID where k: "ParseKeyID (sr_KeyId st) = Inr keyID" using assms s r ok by (cases "ParseKeyID (sr_KeyId st)") (auto simp: probeKMSRoundTrip_def)
  note same = ParseKeyID_same [OF k]
  have peer: "expected = [] \<or> keyID = expected" using assms s r ok k by (auto simp: probeKMSRoundTrip_def Let_def split: if_splits)
  then have passed: "\<not> HasFailures (fst (probeKMSCiphertext env client keyID
      (Report_Pass ''kms.status'' ''Running provider Status'' (Text ''KMS v2 provider reports healthy'') report) w'))"
    using assms s r ok k by (auto simp: probeKMSRoundTrip_def Let_def)
  obtain material where "prb_random env = Inr material" "round_trip client keyID (take 32 material) w'"
    using probeKMSCiphertext_passed [OF passed] by blast
  with s r ok k same peer show ?thesis by simp
qed

text \<open>
  The command succeeds only when a socket is at the path, the provider behind it reports the healthy KMS v2 status with a well-formed key
  identifier, the expected one when one is given, and returned a fresh plaintext that it had encrypted under that identifier.
\<close>

lemma probe_sound:
  assumes "probeCommand env text_of write opts output w = None"
  shows "\<exists>client st material w'. prb_client env = Inr client \<and> is_socket (prb_lstat env (spr_socketPath opts)) \<and> kc_Status client w = (Inr st, w')
    \<and> sr_Version st = APIVersion \<and> sr_Healthz st = HealthOK \<and> ParseKeyID (sr_KeyId st) = Inr (sr_KeyId st)
    \<and> (spr_expectedKeyID opts = [] \<or> sr_KeyId st = spr_expectedKeyID opts)
    \<and> prb_random env = Inr material \<and> round_trip client (sr_KeyId st) (take 32 material) w'"
proof -
  have "\<not> HasFailures (fst (runSocketProbe env opts w))"
    using assms by (auto simp: probeCommand_def WithExitCode_def reportError_def case_prod_beta Let_def split: sum.splits option.splits if_splits)
  then obtain client report where c: "prb_client env = Inr client" "is_socket (prb_lstat env (spr_socketPath opts))"
    and passed: "\<not> HasFailures (fst (probeKMSRoundTrip env client (spr_expectedKeyID opts) report w))"
    by (auto simp: runSocketProbe_def Let_def split: sum.splits if_splits)
  from c probeKMSRoundTrip_passed [OF passed] show ?thesis by auto
qed

end
