(* ===== verification/Observability.thy ===== *)
theory Observability
  imports Provider_Startup KMS_Server_Safety
begin

text \<open>
  Logs and metrics (\<^verbatim>\<open>internal/logging/logging.go\<close>, \<^verbatim>\<open>internal/metrics/metrics.go\<close>, \<^verbatim>\<open>internal/metrics/collectors.go\<close>,
  \<^verbatim>\<open>cmd/bao-kms-provider/observability.go\<close>): what the provider tells the outside about a request, and that the identifiers of requests
  leave it only hashed and only inside the debugging window an operator has opened. The encoding of a log line and the Prometheus
  registry are libraries; a line is its level, message and attributes, a metric its name, labels and value.
\<close>

section \<open>Logging\<close>

datatype log_level = LevelDebug | LevelInfo | LevelWarn | LevelError

fun level_rank :: "log_level \<Rightarrow> int" where
  "level_rank LevelDebug = -4" | "level_rank LevelInfo = 0" | "level_rank LevelWarn = 4" | "level_rank LevelError = 8"

datatype attr_value = AttrString string | AttrInt int | AttrBool bool | AttrMilliseconds int

type_synonym attr = "string \<times> attr_value"

definition FieldOperation :: string where "FieldOperation = ''operation''"
definition FieldStatus :: string where "FieldStatus = ''status''"
definition FieldDurationMS :: string where "FieldDurationMS = ''duration_ms''"
definition FieldKeyIDHash :: string where "FieldKeyIDHash = ''key_id_hash''"
definition FieldTransitKeyVersion :: string where "FieldTransitKeyVersion = ''transit_key_version''"
definition FieldRequestUIDHash :: string where "FieldRequestUIDHash = ''request_uid_hash''"
definition FieldErrorClass :: string where "FieldErrorClass = ''error_class''"
definition FieldReason :: string where "FieldReason = ''reason''"
definition FieldPreviousKeyIDHash :: string where "FieldPreviousKeyIDHash = ''previous_key_id_hash''"
definition FieldPreviousTransitKeyVersion :: string where "FieldPreviousTransitKeyVersion = ''previous_transit_key_version''"
definition FieldHealthz :: string where "FieldHealthz = ''healthz''"
definition FieldOpenBaoOperation :: string where "FieldOpenBaoOperation = ''openbao_operation''"
definition FieldOpenBaoRequestID :: string where "FieldOpenBaoRequestID = ''openbao_request_id''"
definition FieldProbeKind :: string where "FieldProbeKind = ''probe_kind''"
definition FieldCorrelationID :: string where "FieldCorrelationID = ''debug_correlation_incident''"
definition FieldCorrelationExpiry :: string where "FieldCorrelationExpiry = ''debug_correlation_expires_at''"
definition FieldPanicRecovered :: string where "FieldPanicRecovered = ''panic_recovered''"
definition FieldPanicType :: string where "FieldPanicType = ''panic_type''"

lemmas field_names = FieldOperation_def FieldStatus_def FieldDurationMS_def FieldKeyIDHash_def FieldTransitKeyVersion_def FieldRequestUIDHash_def
  FieldErrorClass_def FieldReason_def FieldPreviousKeyIDHash_def FieldPreviousTransitKeyVersion_def FieldHealthz_def FieldOpenBaoOperation_def
  FieldOpenBaoRequestID_def FieldProbeKind_def FieldCorrelationID_def FieldCorrelationExpiry_def FieldPanicRecovered_def FieldPanicType_def

definition parseLevel :: "string \<Rightarrow> log_level res" where
  "parseLevel v =
    (if v = [] \<or> v = ''info'' then Inr LevelInfo
     else if v = ''debug'' then Inr LevelDebug
     else if v = ''warn'' then Inr LevelWarn
     else if v = ''error'' then Inr LevelError
     else Inl (Msg ''logging config invalid: level must be debug, info, warn, or error''))"

text \<open>A logger is its lowest level; \<open>New\<close> also checks the writer and the format.\<close>

definition logging_New :: "string \<Rightarrow> string \<Rightarrow> bool \<Rightarrow> log_level res" where
  "logging_New level fmt hasOutput =
    bindE (failIf (\<not> hasOutput) (Msg ''logging config invalid: output writer is required'')) (\<lambda>_.
    bindE (parseLevel level) (\<lambda>l.
    bindE (failIf (fmt \<noteq> [] \<and> fmt \<noteq> ''json'' \<and> fmt \<noteq> ''text'') (Msg ''logging config invalid: format must be json or text'')) (\<lambda>_. Inr l)))"

datatype telemetry =
    Counted string "string list"
  | Timed string "string list" int
  | Logged log_level string "attr list"

definition logger_Log :: "log_level \<Rightarrow> log_level \<Rightarrow> string \<Rightarrow> attr list \<Rightarrow> telemetry list" where
  "logger_Log lowest level msg attrs = (if level_rank lowest \<le> level_rank level then [Logged level msg attrs] else [])"

definition appendStringAttr :: "attr list \<Rightarrow> string \<Rightarrow> string \<Rightarrow> attr list" where
  "appendStringAttr attrs key v = (if v = [] then attrs else attrs @ [(key, AttrString v)])"

section \<open>Metric labels\<close>

definition isLabelChar :: "nat \<Rightarrow> bool" where
  "isLabelChar r \<longleftrightarrow> 97 \<le> r \<and> r \<le> 122 \<or> 48 \<le> r \<and> r \<le> 57 \<or> r = 95"

definition statusUnknown :: string where "statusUnknown = ''unknown''"
definition reasonUnknown :: string where "reasonUnknown = ''unknown''"

text \<open>The letter-case tables of Unicode (\<open>strings.ToLower\<close>) are the argument \<open>lower\<close>.\<close>

definition metrics_normalize :: "(string \<Rightarrow> string) \<Rightarrow> string \<Rightarrow> string" where
  "metrics_normalize lower v =
    (let trimmed = TrimSpace (lower v); rs = map fst (runes trimmed) in
     if trimmed = [] then statusUnknown
     else if \<not> list_ex isLabelChar rs then statusUnknown
     else map (\<lambda>r. if isLabelChar r then char_of r else CHR ''_'') rs)"

definition normalizeStatus :: "(string \<Rightarrow> string) \<Rightarrow> string \<Rightarrow> string" where
  "normalizeStatus lower v = metrics_normalize lower v"

definition normalizeReason :: "(string \<Rightarrow> string) \<Rightarrow> string \<Rightarrow> string" where
  "normalizeReason lower v = (let n = metrics_normalize lower v in if n = statusUnknown then reasonUnknown else n)"

section \<open>The recorder\<close>

definition RecordGRPCRequest :: "(string \<Rightarrow> string) \<Rightarrow> string \<Rightarrow> string \<Rightarrow> int \<Rightarrow> telemetry list" where
  "RecordGRPCRequest lower verb reqStatus duration =
    (let m = metrics_normalize lower verb in
     [Counted ''openbao_kms_grpc_requests_total'' [m, normalizeStatus lower reqStatus], Timed ''openbao_kms_grpc_duration_seconds'' [m] duration])"

definition RecordGRPCConcurrencyRejection :: "(string \<Rightarrow> string) \<Rightarrow> string \<Rightarrow> telemetry list" where
  "RecordGRPCConcurrencyRejection lower verb = [Counted ''openbao_kms_grpc_concurrency_rejections_total'' [metrics_normalize lower verb]]"

definition RecordOpenBaoRequest :: "(string \<Rightarrow> string) \<Rightarrow> string \<Rightarrow> string \<Rightarrow> int \<Rightarrow> telemetry list" where
  "RecordOpenBaoRequest lower operation reqStatus duration =
    (let p = metrics_normalize lower operation in
     [Counted ''openbao_kms_openbao_requests_total'' [p, normalizeStatus lower reqStatus], Timed ''openbao_kms_openbao_duration_seconds'' [p] duration])"

definition RecordAuthLogin :: "(string \<Rightarrow> string) \<Rightarrow> string \<Rightarrow> telemetry list" where
  "RecordAuthLogin lower reqStatus = [Counted ''openbao_kms_auth_login_total'' [normalizeStatus lower reqStatus]]"

definition RecordAuthRenewal :: "(string \<Rightarrow> string) \<Rightarrow> string \<Rightarrow> telemetry list" where
  "RecordAuthRenewal lower reqStatus = [Counted ''openbao_kms_auth_renewal_total'' [normalizeStatus lower reqStatus]]"

definition RecordSocketRestart :: "telemetry list" where
  "RecordSocketRestart = [Counted ''openbao_kms_socket_restarts_total'' []]"

definition RecordPanicRecovery :: "(string \<Rightarrow> string) \<Rightarrow> string \<Rightarrow> telemetry list" where
  "RecordPanicRecovery lower verb = [Counted ''openbao_kms_panic_recoveries_total'' [metrics_normalize lower verb]]"

definition RecordTransitMetadataObservation :: "(string \<Rightarrow> string) \<Rightarrow> string \<Rightarrow> telemetry list" where
  "RecordTransitMetadataObservation lower reqStatus = [Counted ''openbao_kms_transit_metadata_observation_total'' [normalizeStatus lower reqStatus]]"

definition RecordAADValidationError :: "(string \<Rightarrow> string) \<Rightarrow> string \<Rightarrow> telemetry list" where
  "RecordAADValidationError lower reason = [Counted ''openbao_kms_aad_validation_errors_total'' [normalizeReason lower reason]]"

definition RecordDecryptKeyIDError :: "(string \<Rightarrow> string) \<Rightarrow> string \<Rightarrow> telemetry list" where
  "RecordDecryptKeyIDError lower reason = [Counted ''openbao_kms_decrypt_key_id_errors_total'' [normalizeReason lower reason]]"

section \<open>Debug correlation\<close>

record debugCorrelation =
  dcr_enabled :: bool
  dcr_expiresAt :: go_time
  dcr_incidentID :: string
  dcr_logOpenBaoRequestIDs :: bool

definition newDebugCorrelation :: "DebugCorrelationConfig \<Rightarrow> bool \<Rightarrow> go_time \<Rightarrow> debugCorrelation" where
  "newDebugCorrelation cfg logOpenBaoRequestIDs startedAt =
    \<lparr>dcr_enabled = dc_Enabled cfg, dcr_expiresAt = startedAt + dc_TTL cfg, dcr_incidentID = dc_IncidentID cfg,
     dcr_logOpenBaoRequestIDs = logOpenBaoRequestIDs\<rparr>"

definition correlation_active :: "debugCorrelation \<Rightarrow> go_time \<Rightarrow> bool" where
  "correlation_active c now \<longleftrightarrow> dcr_enabled c \<and> now < dcr_expiresAt c"

definition appendFields :: "(go_time \<Rightarrow> string) \<Rightarrow> debugCorrelation \<Rightarrow> go_time \<Rightarrow> attr list \<Rightarrow> attr list" where
  "appendFields rfc3339 c now attrs =
    (if \<not> correlation_active c now then attrs
     else let attrs = appendStringAttr attrs FieldCorrelationID (dcr_incidentID c) in
       if IsZero (dcr_expiresAt c) then attrs else attrs @ [(FieldCorrelationExpiry, AttrString (rfc3339 (dcr_expiresAt c)))])"

section \<open>Observers\<close>

text \<open>
  The observer of the process: its logger, its debugging window and the libraries it uses. An observation that looks at the window
  reads the clock twice, first for the identifiers and then for the fields of the window.
\<close>

record observer =
  obs_logger :: log_level
  obs_correlation :: debugCorrelation
  obs_lower :: "string \<Rightarrow> string"
  obs_rfc3339 :: "go_time \<Rightarrow> string"

definition observationStatusOK :: string where "observationStatusOK = ''ok''"

definition kms_attrs :: "observer \<Rightarrow> go_time \<Rightarrow> go_time \<Rightarrow> int \<Rightarrow> RequestObservation \<Rightarrow> attr list" where
  "kms_attrs o1 now later duration ob =
    (let attrs = [(FieldOperation, AttrString (''kms.'' @ ob_Method ob)), (FieldStatus, AttrString (ob_Status ob)), (FieldDurationMS, AttrMilliseconds duration)];
         attrs = appendStringAttr attrs FieldKeyIDHash (ob_KeyIDHash ob);
         attrs = (if ob_PanicRecovered ob then appendStringAttr (attrs @ [(FieldPanicRecovered, AttrBool True)]) FieldPanicType (ob_PanicType ob) else attrs);
         attrs = (if ob_TransitKeyVersion ob > 0 then attrs @ [(FieldTransitKeyVersion, AttrInt (ob_TransitKeyVersion ob))] else attrs);
         attrs = (if correlation_active (obs_correlation o1) now
           then appendFields (obs_rfc3339 o1) (obs_correlation o1) later (appendStringAttr attrs FieldRequestUIDHash (ob_RequestUIDHash ob)) else attrs);
         attrs = appendStringAttr attrs FieldErrorClass (ob_ErrorClass ob)
     in appendStringAttr attrs FieldHealthz (ob_Healthz ob))"

definition observe_kms_request :: "observer \<Rightarrow> go_time \<Rightarrow> go_time \<Rightarrow> int \<Rightarrow> RequestObservation \<Rightarrow> telemetry list" where
  "observe_kms_request o1 now later duration ob =
     RecordGRPCRequest (obs_lower o1) (ob_Method ob) (ob_Status ob) duration
   @ (if ob_ConcurrencyRejected ob then RecordGRPCConcurrencyRejection (obs_lower o1) (ob_Method ob) else [])
   @ (if ob_PanicRecovered ob then RecordPanicRecovery (obs_lower o1) (ob_Method ob) else [])
   @ logger_Log (obs_logger o1) (if ob_Status ob = observationStatusOK then LevelDebug else LevelWarn) ''kms.request'' (kms_attrs o1 now later duration ob)"

definition observe_openbao_request :: "observer \<Rightarrow> go_time \<Rightarrow> go_time \<Rightarrow> int \<Rightarrow> OpenBaoObservation \<Rightarrow> telemetry list" where
  "observe_openbao_request o1 now later duration ob =
    (let attrs = [(FieldOperation, AttrString ''openbao.request''), (FieldOpenBaoOperation, AttrString (oo_Operation ob)),
           (FieldStatus, AttrString (oo_Status ob)), (FieldDurationMS, AttrMilliseconds duration)];
         attrs = appendStringAttr attrs FieldErrorClass (oo_ErrorClass ob);
         attrs = (if correlation_active (obs_correlation o1) now \<and> dcr_logOpenBaoRequestIDs (obs_correlation o1)
           then appendFields (obs_rfc3339 o1) (obs_correlation o1) later (appendStringAttr attrs FieldOpenBaoRequestID (oo_RequestID ob)) else attrs)
     in RecordOpenBaoRequest (obs_lower o1) (oo_Operation ob) (oo_Status ob) duration
      @ logger_Log (obs_logger o1) (if oo_Status ob = observationStatusOK then LevelDebug else LevelWarn) ''openbao.request'' attrs)"

definition observe_auth_login :: "observer \<Rightarrow> string \<Rightarrow> telemetry list" where
  "observe_auth_login o1 st =
     RecordAuthLogin (obs_lower o1) st
   @ logger_Log (obs_logger o1) (if st = observationStatusOK then LevelInfo else LevelWarn) ''auth.login''
       [(FieldOperation, AttrString ''auth.login''), (FieldStatus, AttrString st)]"

definition observe_auth_renewal :: "observer \<Rightarrow> string \<Rightarrow> telemetry list" where
  "observe_auth_renewal o1 st =
     RecordAuthRenewal (obs_lower o1) st
   @ logger_Log (obs_logger o1) (if st = observationStatusOK then LevelDebug else LevelWarn) ''auth.renewal''
       [(FieldOperation, AttrString ''auth.renewal''), (FieldStatus, AttrString st)]"

definition probe_kind_text :: "ProbeKind \<Rightarrow> string" where
  "probe_kind_text k = (case k of ProbeKindMetadata \<Rightarrow> ''metadata'' | ProbeKindDeep \<Rightarrow> ''deep'')"

definition observe_controller :: "observer \<Rightarrow> controller_event \<Rightarrow> telemetry list" where
  "observe_controller o1 ev =
    (case ev of
       ObserveStatusProbe ob \<Rightarrow>
         (if po_Kind ob = ProbeKindMetadata then RecordTransitMetadataObservation (obs_lower o1) (po_Status ob) else [])
       @ logger_Log (obs_logger o1) (if po_Status ob = observationStatusOK then LevelDebug else LevelWarn) ''status.probe''
           (appendStringAttr (appendStringAttr [(FieldOperation, AttrString ''status.probe''), (FieldStatus, AttrString (po_Status ob)),
              (FieldProbeKind, AttrString (probe_kind_text (po_Kind ob))), (FieldDurationMS, AttrMilliseconds (po_Duration ob))]
              FieldReason (po_Reason ob)) FieldErrorClass (po_ErrorClass ob))
     | ObserveKeyPromotion ob \<Rightarrow>
         logger_Log (obs_logger o1) LevelInfo ''key.promoted''
           [(FieldOperation, AttrString ''key.promoted''), (FieldStatus, AttrString observationStatusOK),
            (FieldPreviousKeyIDHash, AttrString (PreviousKeyIDHash ob)), (FieldKeyIDHash, AttrString (KeyIDHash ob)),
            (FieldPreviousTransitKeyVersion, AttrInt (PreviousTransitVersion ob)), (FieldTransitKeyVersion, AttrInt (pr_TransitVersion ob))]
     | ObserveClockRegression \<Rightarrow>
         logger_Log (obs_logger o1) LevelWarn ''clock.regressed'' [(FieldOperation, AttrString ''rotation''), (FieldReason, AttrString ''timestamp_order_preserved'')])"

definition logServeEvent :: "observer \<Rightarrow> string \<Rightarrow> string \<Rightarrow> telemetry list" where
  "logServeEvent o1 event failure =
    (if failure \<noteq> []
     then logger_Log (obs_logger o1) LevelError event
       [(FieldOperation, AttrString event), (FieldStatus, AttrString ''error''), (FieldErrorClass, AttrString failure)]
     else logger_Log (obs_logger o1) LevelInfo event [(FieldOperation, AttrString event), (FieldStatus, AttrString observationStatusOK)])"

definition observe_socket_restart :: "observer \<Rightarrow> telemetry list" where
  "observe_socket_restart o1 =
     RecordSocketRestart
   @ logger_Log (obs_logger o1) LevelWarn ''socket.stale_removed''
       [(FieldOperation, AttrString ''socket.stale_removed''), (FieldStatus, AttrString observationStatusOK)]"

text \<open>What the observer makes of the events of a KMS request; the calls of the dependencies are not observed here.\<close>

definition observe_server :: "observer \<Rightarrow> go_time \<Rightarrow> go_time \<Rightarrow> int \<Rightarrow> server_event \<Rightarrow> telemetry list" where
  "observe_server o1 now later duration ev =
    (case ev of
       ObserveKMSRequest ob \<Rightarrow> observe_kms_request o1 now later duration ob
     | ObserveAADValidationError reason \<Rightarrow> RecordAADValidationError (obs_lower o1) reason
     | ObserveDecryptKeyIDError reason \<Rightarrow> RecordDecryptKeyIDError (obs_lower o1) reason
     | _ \<Rightarrow> [])"

definition request_telemetry :: "observer \<Rightarrow> go_time \<Rightarrow> go_time \<Rightarrow> int \<Rightarrow> 'w rq \<Rightarrow> telemetry list" where
  "request_telemetry o1 now later duration q = concat (map (observe_server o1 now later duration) (events q))"

section \<open>Collectors\<close>

text \<open>A gauge is a number, or a duration that is exported in seconds.\<close>

datatype gauge_value = GaugeNumber int | GaugeSeconds int

type_synonym gauge = "string \<times> string list \<times> gauge_value"

definition nonNegativeSeconds :: "int \<Rightarrow> gauge_value" where
  "nonNegativeSeconds v = (if v \<le> 0 then GaugeSeconds 0 else GaugeSeconds v)"

definition circuitBreakerValue :: "string \<Rightarrow> gauge_value" where
  "circuitBreakerValue st = (if st = CircuitBreakerOpen then GaugeNumber 1 else GaugeNumber 0)"

definition diagnostics_Collect :: "(string \<Rightarrow> string) \<Rightarrow> Diagnostics \<Rightarrow> gauge list" where
  "diagnostics_Collect lower d =
     [(''openbao_kms_rotation_persistence_degraded'', [], GaugeNumber (if PersistenceDegraded d then 1 else 0))]
   @ (if ActiveKeyIDHash d \<noteq> [] then [(''openbao_kms_status_key_id_hash'', [ActiveKeyIDHash d], GaugeNumber 1)] else [])
   @ [(''openbao_kms_key_version'', [], GaugeNumber (ActiveTransitVersion d)),
      (''openbao_kms_status_cache_age_seconds'', [], nonNegativeSeconds (CacheAge d)),
      (''openbao_kms_circuit_breaker_state'', [], circuitBreakerValue (cs_State (dg_CircuitBreaker d)))]
   @ map (\<lambda>name. (''openbao_kms_rotation_state'', [name], GaugeNumber (if metrics_normalize lower (RotationState d) = name then 1 else 0)))
       [''active'', ''pending'', ''unknown'']"

definition authMethodLabel :: "(string \<Rightarrow> string) \<Rightarrow> string \<Rightarrow> string" where
  "authMethodLabel lower v =
    (let n = metrics_normalize lower v in if n = AuthMethodJWT then AuthMethodJWT else if n = AuthMethodCert then AuthMethodCert else statusUnknown)"

definition certificateSourceLabel :: "(string \<Rightarrow> string) \<Rightarrow> string \<Rightarrow> string" where
  "certificateSourceLabel lower v =
    (let n = metrics_normalize lower v in
     if n = [] then ''none'' else if n = CertificateSourcePKCS11 then CertificateSourcePKCS11
     else if n = CertificateSourceSPIFFE then CertificateSourceSPIFFE else if n = statusUnknown then ''none'' else statusUnknown)"

definition auth_Collect :: "(string \<Rightarrow> string) \<Rightarrow> AuthState \<Rightarrow> gauge list" where
  "auth_Collect lower st =
    [(''openbao_kms_auth_method_info'', [authMethodLabel lower (as_AuthMethod st)], GaugeNumber 1),
     (''openbao_kms_certificate_source_info'', [certificateSourceLabel lower (as_CertificateSource st)], GaugeNumber 1),
     (''openbao_kms_token_ttl_seconds'', [], nonNegativeSeconds (as_TokenTTL st)),
     (''openbao_kms_certificate_ttl_seconds'', [], nonNegativeSeconds (as_CertTTL st))]"

definition concurrency_Collect :: "'w Server \<Rightarrow> gauge list" where
  "concurrency_Collect s =
    (let (st, enc, dec) = InFlightKMSRequests s in
     [(''openbao_kms_grpc_in_flight'', [''status''], GaugeNumber st), (''openbao_kms_grpc_in_flight'', [''encrypt''], GaugeNumber enc),
      (''openbao_kms_grpc_in_flight'', [''decrypt''], GaugeNumber dec)])"

section \<open>Labels\<close>

text \<open>Whatever a caller passes, a label is over a small alphabet and not empty.\<close>

lemma normalized_label: "metrics_normalize lower v \<noteq> [] \<and> (\<forall>c\<in>set (metrics_normalize lower v). isLabelChar (byte_val c))"
proof -
  let ?rs = "map fst (runes (TrimSpace (lower v)))"
  consider "metrics_normalize lower v = statusUnknown"
    | "list_ex isLabelChar ?rs" "metrics_normalize lower v = map (\<lambda>r. if isLabelChar r then char_of r else CHR ''_'') ?rs"
    unfolding metrics_normalize_def Let_def by (metis (no_types))
  then show ?thesis
  proof cases
    case 1
    then show ?thesis by (simp add: statusUnknown_def isLabelChar_def)
  next
    case 2
    have label: "isLabelChar (byte_val (if isLabelChar r then char_of r else CHR ''_''))" for r by (auto simp: isLabelChar_def)
    from 2(1) have "?rs \<noteq> []" by auto
    with label show ?thesis unfolding 2(2) set_map by (simp only: map_is_Nil_conv ball_simps image_iff) auto
  qed
qed

section \<open>Requests observed under another identifier\<close>

definition rename_event :: "string \<Rightarrow> server_event \<Rightarrow> server_event" where
  "rename_event h ev = (case ev of ObserveKMSRequest ob \<Rightarrow> ObserveKMSRequest (ob\<lparr>ob_RequestUIDHash := h\<rparr>) | _ \<Rightarrow> ev)"

definition rename :: "string \<Rightarrow> 'w rq \<Rightarrow> 'w rq" where
  "rename h q = q\<lparr>observation := (observation q)\<lparr>ob_RequestUIDHash := h\<rparr>, events := map (rename_event h) (events q)\<rparr>"

text \<open>An action is blind when it neither reads nor sets the identifier.\<close>

definition blind :: "('w, 'a) action \<Rightarrow> bool" where
  "blind m \<longleftrightarrow> (\<forall>h q. m (rename h q) = (fst (m q), rename h (snd (m q))))"

lemma rename_simps [simp]:
  "world (rename h q) = world q" "observation (rename h q) = (observation q)\<lparr>ob_RequestUIDHash := h\<rparr>" "events (rename h q) = map (rename_event h) (events q)"
  by (simp_all add: rename_def)

lemma blind_andThen: "blind m \<Longrightarrow> (\<And>x. blind (f x)) \<Longrightarrow> blind (andThen m f)"
  unfolding blind_def andThen_def by (auto split: prod.splits outcome.splits)

lemma blind_basic: "blind (return x)" "blind (throw e)" "blind (lift_res r)"
  by (simp_all add: blind_def return_def throw_def lift_res_def split: sum.splits)

lemma blind_call: "(\<And>h. rename_event h ev = ev) \<Longrightarrow> blind (call ev f)"
  by (auto simp: blind_def call_def rename_def split: prod.splits called.splits)

lemma blind_emit: "(\<And>h. rename_event h ev = ev) \<Longrightarrow> blind (emit s ev)"
  by (simp add: blind_def emit_def rename_def)

lemma blind_observe: "(\<And>h ob. f (ob\<lparr>ob_RequestUIDHash := h\<rparr>) = (f ob)\<lparr>ob_RequestUIDHash := h\<rparr>) \<Longrightarrow> blind (observe_with f)"
  by (simp add: blind_def observe_with_def rename_def)

lemma blind_prepare: "blind (prepare s req)" "blind (prepare_or_refresh s req)"
proof -
  show p: "blind (prepare s req)"
    unfolding prepare_def by (intro blind_andThen blind_call blind_basic) (simp add: rename_event_def)
  show "blind (prepare_or_refresh s req)"
    unfolding prepare_or_refresh_def
    by (auto intro!: blind_andThen p blind_basic blind_call split: sum.splits option.splits simp: rename_event_def)
qed

lemma blind_bodies: "blind (encrypt_body s request)" "blind (decrypt_body s dreq)" "blind (status_body s)"
proof -
  have active: "blind (activeStatus s)"
    unfolding activeStatus_def
    by (intro blind_andThen blind_call) (auto simp: rename_event_def split: sum.splits intro: blind_basic blind_andThen)
  show "blind (status_body s)"
    unfolding status_body_def by (intro blind_andThen blind_call) (auto simp: rename_event_def split: sum.splits intro: blind_basic)
  show "blind (encrypt_body s request)"
    unfolding encrypt_body_def Let_def
    by (auto split: option.splits sum.splits prod.splits simp: rename_event_def intro!: blind_andThen active blind_basic blind_call blind_observe)
  have validation: "blind (observeValidationError s err)" for err
    by (simp add: observeValidationError_def blind_basic blind_emit rename_event_def)
  have prepare: "blind (prepare_or_refresh s req)" for req by (rule blind_prepare(2))
  show "blind (decrypt_body s dreq)"
    unfolding decrypt_body_def decrypt_prepared_def Let_def
    by (auto split: option.splits sum.splits simp: rename_event_def intro!: blind_andThen prepare validation blind_basic blind_call blind_observe)
qed

text \<open>A line of telemetry without the attribute for the identifier of the request; a metric is left as it is.\<close>

fun without_uid :: "telemetry \<Rightarrow> telemetry" where
  "without_uid (Logged lv m attrs) = Logged lv m (filter (\<lambda>(k, _). k \<noteq> FieldRequestUIDHash) attrs)"
| "without_uid (Counted m ls) = Counted m ls"
| "without_uid (Timed m ls v) = Timed m ls v"

lemma filter_appendStringAttr:
  "filter P (appendStringAttr attrs k v) = (if P (k, AttrString v) then appendStringAttr (filter P attrs) k v else filter P attrs)"
  by (simp add: appendStringAttr_def)

lemma filter_appendFields:
  "filter (\<lambda>(k, _). k \<noteq> FieldRequestUIDHash) (appendFields rfc c now attrs) = appendFields rfc c now (filter (\<lambda>(k, _). k \<noteq> FieldRequestUIDHash) attrs)"
  by (simp add: appendFields_def Let_def filter_appendStringAttr field_names)

lemma kms_attrs_renamed:
  "\<not> correlation_active (obs_correlation o1) now \<Longrightarrow> kms_attrs o1 now later d (ob\<lparr>ob_RequestUIDHash := h\<rparr>) = kms_attrs o1 now later d ob"
  "filter (\<lambda>(k, _). k \<noteq> FieldRequestUIDHash) (kms_attrs o1 now later d (ob\<lparr>ob_RequestUIDHash := h\<rparr>))
     = filter (\<lambda>(k, _). k \<noteq> FieldRequestUIDHash) (kms_attrs o1 now later d ob)"
  by (simp_all add: kms_attrs_def Let_def filter_appendStringAttr filter_appendFields)

lemma observe_renamed:
  "\<not> correlation_active (obs_correlation o1) now \<Longrightarrow> observe_server o1 now later d (rename_event h ev) = observe_server o1 now later d ev"
  "map without_uid (observe_server o1 now later d (rename_event h ev)) = map without_uid (observe_server o1 now later d ev)"
  by (cases ev; simp add: observe_server_def rename_event_def observe_kms_request_def kms_attrs_renamed logger_Log_def)+

lemma telemetry_renamed:
  assumes "events q' = map (rename_event h) (events q)"
  shows "\<not> correlation_active (obs_correlation o1) now \<Longrightarrow> request_telemetry o1 now later d q' = request_telemetry o1 now later d q"
    and "map without_uid (request_telemetry o1 now later d q') = map without_uid (request_telemetry o1 now later d q)"
  by (simp_all add: request_telemetry_def assms observe_renamed comp_def map_concat)

lemma finishRequest_renamed:
  "fst (finishRequest s (out, rename h q)) = fst (finishRequest s (out, q))"
  "events (snd (finishRequest s (out, rename h q))) = map (rename_event h) (events (snd (finishRequest s (out, q))))"
  by (cases out; simp add: finishRequest_def Let_def rename_def rename_event_def)+

lemma serve_renamed:
  assumes "blind body" "\<And>h r ob. f r (ob\<lparr>ob_RequestUIDHash := h\<rparr>) = (f r ob)\<lparr>ob_RequestUIDHash := h\<rparr>"
  shows "events (fst (snd (serve s l body f (rename h q)))) = map (rename_event h) (events (fst (snd (serve s l body f q))))"
proof -
  have b: "body (rename h q) = (fst (body q), rename h (snd (body q)))" using assms(1) by (simp add: blind_def)
  have lim: "limited l body (rename h q) = (fst (limited l body q), rename h (fst (snd (limited l body q))), snd (snd (limited l body q)))"
  proof (cases "tryAcquire l")
    case (Pair ok l')
    then show ?thesis
    proof (cases ok)
      case True
      with Pair b show ?thesis by (simp add: limited_def Let_def case_prod_beta del: rename_simps)
    next
      case False
      with Pair show ?thesis by (simp add: limited_def rename_def)
    qed
  qed
  obtain out q1 l1 where q1: "limited l body q = (out, q1, l1)" by (cases "limited l body q") auto
  have noted: "(case out of Ok r \<Rightarrow> (rename h q1)\<lparr>observation := f r (observation (rename h q1))\<rparr> | _ \<Rightarrow> rename h q1)
      = rename h (case out of Ok r \<Rightarrow> q1\<lparr>observation := f r (observation q1)\<rparr> | _ \<Rightarrow> q1)"
    by (cases out) (simp_all add: rename_def assms(2))
  show ?thesis unfolding serve_def lim q1 Let_def prod.case fst_conv snd_conv noted by (simp add: case_prod_beta finishRequest_renamed)
qed

lemma encrypt_uid: "encrypt_body s (Some (req\<lparr>er_Uid := u\<rparr>)) = encrypt_body s (Some req)"
  by (simp add: encrypt_body_def)

lemma decrypt_uid: "decrypt_body s (Some (dreq\<lparr>dr_Uid := u\<rparr>)) = decrypt_body s (Some dreq)"
  by (cases dreq) (simp only: DecryptRequest.update_convs DecryptRequest.select_convs decrypt_body_def decrypt_prepared_def prepare_or_refresh_def prepare_def
      validateDecryptRequestLimits_def option.case)

definition uid_hash :: "string \<Rightarrow> string" where
  "uid_hash uid = (if uid = [] then [] else HashValue uid)"

lemma encrypt_renamed:
  "events (fst (snd (Encrypt s (Some (req\<lparr>er_Uid := u\<rparr>)) w))) = map (rename_event (uid_hash u)) (events (fst (snd (Encrypt s (Some req) w))))"
proof -
  let ?ob = "\<lambda>h. (newObservation methodEncrypt)\<lparr>ob_RequestUIDHash := h\<rparr>"
  have start: "start_request (?ob h') w = rename h' (start_request (?ob h) w)" for h h' by (simp add: start_request_def rename_def)
  have enc: "Encrypt s (Some r) w = serve s (encryptLimiter s) (encrypt_body s (Some r)) (\<lambda>_ ob. ob) (start_request (?ob (uid_hash (er_Uid r))) w)" for r
    by (simp add: Encrypt_def uid_hash_def newObservation_def)
  show ?thesis unfolding enc encrypt_uid
    using serve_renamed [OF blind_bodies(1), of "\<lambda>_ ob. ob" s "encryptLimiter s" s "Some req" "uid_hash u" "start_request (?ob (uid_hash (er_Uid req))) w"]
    by (simp add: start [of "uid_hash u" "uid_hash (er_Uid req)"])
qed

lemma decrypt_renamed:
  "events (fst (snd (Decrypt s (Some (dreq\<lparr>dr_Uid := u\<rparr>)) w))) = map (rename_event (uid_hash u)) (events (fst (snd (Decrypt s (Some dreq) w))))"
proof -
  let ?ob = "\<lambda>h. (newObservation methodDecrypt)\<lparr>ob_RequestUIDHash := h, ob_KeyIDHash := uid_hash (dr_KeyId dreq)\<rparr>"
  have start: "start_request (?ob h') w = rename h' (start_request (?ob h) w)" for h h' by (simp add: start_request_def rename_def)
  have dec: "Decrypt s (Some r) w = serve s (decryptLimiter s) (decrypt_body s (Some r)) (\<lambda>_ ob. ob) (start_request (?ob (uid_hash (dr_Uid r))) w)"
    if "dr_KeyId r = dr_KeyId dreq" for r
    using that by (simp add: Decrypt_def uid_hash_def newObservation_def)
  show ?thesis unfolding dec [of dreq, OF HOL.refl]
    using serve_renamed [OF blind_bodies(2), of "\<lambda>_ ob. ob" s "decryptLimiter s" s "Some dreq" "uid_hash u" "start_request (?ob (uid_hash (dr_Uid dreq))) w"]
    by (simp add: dec decrypt_uid start [of "uid_hash u" "uid_hash (dr_Uid dreq)"])
qed

text \<open>Every log attribute that identifies a request is the hash of its identifier.\<close>

lemma set_appendStringAttr: "x \<in> set (appendStringAttr attrs k v) \<longleftrightarrow> x \<in> set attrs \<or> v \<noteq> [] \<and> x = (k, AttrString v)"
  by (auto simp: appendStringAttr_def)

lemma set_appendFields:
  "(FieldRequestUIDHash, x) \<in> set (appendFields rfc c now attrs) \<longleftrightarrow> (FieldRequestUIDHash, x) \<in> set attrs"
  by (simp add: appendFields_def Let_def set_appendStringAttr field_names)

lemma uid_attr:
  "(FieldRequestUIDHash, v) \<in> set (kms_attrs o1 now later d ob) \<Longrightarrow>
     v = AttrString (ob_RequestUIDHash ob) \<and> ob_RequestUIDHash ob \<noteq> [] \<and> correlation_active (obs_correlation o1) now"
  unfolding kms_attrs_def Let_def set_appendStringAttr
  by (simp add: set_appendStringAttr set_appendFields if_distrib [of set] if_distrib [of "(\<in>) _"] split: if_splits) (simp_all add: field_names)

lemma uid_logged:
  assumes "events q = map (rename_event h) evs"
    and "Logged lv m attrs \<in> set (request_telemetry o1 now later d q)" "(FieldRequestUIDHash, v) \<in> set attrs"
  shows "v = AttrString h \<and> h \<noteq> [] \<and> correlation_active (obs_correlation o1) now"
proof -
  from assms(1,2) obtain ev where ev: "ev \<in> set evs" "Logged lv m attrs \<in> set (observe_server o1 now later d (rename_event h ev))"
    by (auto simp: request_telemetry_def)
  obtain ob where "ev = ObserveKMSRequest ob"
  proof (cases ev)
    case (ObserveKMSRequest ob)
    then show thesis by (rule that)
  qed (use ev(2) in \<open>simp_all add: observe_server_def rename_event_def RecordAADValidationError_def RecordDecryptKeyIDError_def\<close>)
  with ev(2) have "attrs = kms_attrs o1 now later d (ob\<lparr>ob_RequestUIDHash := h\<rparr>)"
    by (auto simp: observe_server_def rename_event_def observe_kms_request_def logger_Log_def RecordGRPCRequest_def RecordGRPCConcurrencyRejection_def
        RecordPanicRecovery_def Let_def split: if_splits)
  with uid_attr assms(3) show ?thesis by fastforce
qed

definition encrypt_telemetry :: "observer \<Rightarrow> go_time \<Rightarrow> go_time \<Rightarrow> int \<Rightarrow> 'w Server \<Rightarrow> 'w \<Rightarrow> EncryptRequest \<Rightarrow> telemetry list" where
  "encrypt_telemetry o1 now later d s w req = request_telemetry o1 now later d (fst (snd (Encrypt s (Some req) w)))"

definition decrypt_telemetry :: "observer \<Rightarrow> go_time \<Rightarrow> go_time \<Rightarrow> int \<Rightarrow> 'w Server \<Rightarrow> 'w \<Rightarrow> DecryptRequest \<Rightarrow> telemetry list" where
  "decrypt_telemetry o1 now later d s w req = request_telemetry o1 now later d (fst (snd (Decrypt s (Some req) w)))"

definition logged_uids :: "telemetry list \<Rightarrow> attr_value set" where
  "logged_uids ts = {v. \<exists>lv m attrs. Logged lv m attrs \<in> set ts \<and> (FieldRequestUIDHash, v) \<in> set attrs}"

lemma logged_uids_renamed:
  "events q = map (rename_event (uid_hash u)) evs \<Longrightarrow> logged_uids (request_telemetry o1 now later d q)
     \<subseteq> (if correlation_active (obs_correlation o1) now then {AttrString (HashValue u)} else {})"
  by (auto simp: logged_uids_def uid_hash_def dest!: uid_logged split: if_splits)

text \<open>
  C38 The identifier of a request does not reach logs or metrics by accident. Whatever way an Encrypt or Decrypt request ends, all metrics and all
  log lines about it are the same for every identifier it could carry, but for one attribute of a log line, \<^verbatim>\<open>request_uid_hash\<close>. That attribute
  holds the hash of the identifier, never the identifier itself, and is written only inside the debugging window (enabled, and its time
  has not passed): outside it nothing at all depends on the identifier.
\<close>

theorem request_ids_stay_private:
  "map without_uid (encrypt_telemetry o1 now later d s w (req\<lparr>er_Uid := u\<rparr>)) = map without_uid (encrypt_telemetry o1 now later d s w req)
    \<and> map without_uid (decrypt_telemetry o1 now later d s w (dreq\<lparr>dr_Uid := u\<rparr>)) = map without_uid (decrypt_telemetry o1 now later d s w dreq)
    \<and> logged_uids (encrypt_telemetry o1 now later d s w req)
        \<subseteq> (if correlation_active (obs_correlation o1) now then {AttrString (HashValue (er_Uid req))} else {})
    \<and> logged_uids (decrypt_telemetry o1 now later d s w dreq)
        \<subseteq> (if correlation_active (obs_correlation o1) now then {AttrString (HashValue (dr_Uid dreq))} else {})
    \<and> (\<not> correlation_active (obs_correlation o1) now \<longrightarrow>
        encrypt_telemetry o1 now later d s w (req\<lparr>er_Uid := u\<rparr>) = encrypt_telemetry o1 now later d s w req
      \<and> decrypt_telemetry o1 now later d s w (dreq\<lparr>dr_Uid := u\<rparr>) = decrypt_telemetry o1 now later d s w dreq)"
proof -
  note e = encrypt_renamed [where s = s and req = req and w = w] and g = decrypt_renamed [where s = s and dreq = dreq and w = w]
  have eu: "events (fst (snd (Encrypt s (Some req) w))) = map (rename_event (uid_hash (er_Uid req))) (events (fst (snd (Encrypt s (Some req) w))))"
    using e [of "er_Uid req"] by simp
  have gu: "events (fst (snd (Decrypt s (Some dreq) w))) = map (rename_event (uid_hash (dr_Uid dreq))) (events (fst (snd (Decrypt s (Some dreq) w))))"
    using g [of "dr_Uid dreq"] by simp
  show ?thesis
    unfolding encrypt_telemetry_def decrypt_telemetry_def
    by (intro conjI impI telemetry_renamed(2) [OF e] telemetry_renamed(2) [OF g] logged_uids_renamed [OF eu] logged_uids_renamed [OF gu]
        telemetry_renamed(1) [OF e] telemetry_renamed(1) [OF g]; assumption)
qed

definition ex_observer :: observer where
  "ex_observer = \<lparr>obs_logger = LevelDebug,
     obs_correlation = newDebugCorrelation \<lparr>dc_Enabled = True, dc_TTL = 10, dc_IncidentID = ''incident''\<rparr> False 100, obs_lower = (\<lambda>v. v), obs_rfc3339 = (\<lambda>_. ''time'')\<rparr>"

theorem request_ids_stay_private_witness:
  "encrypt_telemetry ex_observer 110 110 1 ex_server ex_registry (ex_plain\<lparr>er_Uid := ''uid-1''\<rparr>)
       = encrypt_telemetry ex_observer 110 110 1 ex_server ex_registry ex_plain
   \<and> map without_uid (encrypt_telemetry ex_observer 105 105 1 ex_server ex_registry (ex_plain\<lparr>er_Uid := ''uid-1''\<rparr>))
       = map without_uid (encrypt_telemetry ex_observer 105 105 1 ex_server ex_registry ex_plain)"
proof -
  have "\<not> correlation_active (obs_correlation ex_observer) 110" by (simp add: ex_observer_def newDebugCorrelation_def correlation_active_def)
  with request_ids_stay_private [where ?o1.0 = ex_observer and now = 110 and s = ex_server and req = ex_plain and u = "''uid-1''"]
    request_ids_stay_private [where ?o1.0 = ex_observer and now = 105 and s = ex_server and req = ex_plain and u = "''uid-1''"]
  show ?thesis by blast
qed

end
